(* ===== verification/Yao_Prelude.thy ===== *)
theory Yao_Prelude
  imports Main "HOL-Library.List_Lexorder"
begin

text \<open>
  Shared vocabulary of the development: Rust strings as lists of Unicode scalar values, the
  \<open>Result\<close> type as a sum with the error on the left, loops over fallible bodies, and the
  ordered maps and sets (\<open>BTreeMap\<close>, \<open>BTreeSet\<close>, \<open>serde_json::Map\<close>) as strictly sorted
  association lists and lists. The contract the clients rely on is the locale \<open>ordered_map\<close>,
  interpreted here on the association lists that every component uses.
\<close>

named_theorems result_simps \<open>unfolding equations of the result combinators\<close>
named_theorems bt_simps \<open>lookup laws of the ordered maps and sets\<close>

section \<open>Rust strings\<close>

text \<open>
  A Rust \<open>char\<close> is a Unicode scalar value, modelled by its code point; a \<open>String\<close> or \<open>&str\<close>
  is the sequence of its scalar values. \<open>str::len\<close> counts UTF-8 bytes (\<open>utf8_len\<close>). The order
  of Rust strings is bytewise, which on UTF-8 is the lexicographic order of the code points: the
  instance of \<open>List_Lexorder\<close>.
\<close>

type_synonym uchar = nat
type_synonym ustring = "uchar list"

definition chr :: "char \<Rightarrow> uchar" where
  "chr c = of_char c"

definition lit :: "string \<Rightarrow> ustring" where
  "lit s = map chr s"

lemma chr_inject [simp]: "chr c = chr d \<longleftrightarrow> c = d"
  by (simp add: chr_def)

lemma lit_inject [simp]: "lit s = lit t \<longleftrightarrow> s = t"
proof -
  have "inj chr" by (auto intro: injI)
  then show ?thesis by (simp add: lit_def inj_map_eq_map)
qed

lemma lit_simps: "lit [] = []" "lit (c # s) = chr c # lit s"
  by (simp_all add: lit_def)

lemma lit_append: "lit (s @ t) = lit s @ lit t"
  by (simp add: lit_def)

lemma length_lit [simp]: "length (lit s) = length s"
  by (simp add: lit_def)

text \<open>\<open>char::len_utf8\<close> and \<open>str::len\<close>.\<close>

definition len_utf8 :: "uchar \<Rightarrow> nat" where
  "len_utf8 c = (if c < 0x80 then 1 else if c < 0x800 then 2 else if c < 0x10000 then 3 else 4)"

primrec utf8_len :: "ustring \<Rightarrow> nat" where
  "utf8_len [] = 0"
| "utf8_len (c # s) = len_utf8 c + utf8_len s"

lemma len_utf8_pos [simp]: "0 < len_utf8 c" "len_utf8 c \<noteq> 0"
  by (simp_all add: len_utf8_def)

lemma utf8_len_append [simp]: "utf8_len (s @ t) = utf8_len s + utf8_len t"
  by (induction s) simp_all

lemma utf8_len_eq_0 [simp]: "utf8_len s = 0 \<longleftrightarrow> s = []"
  by (cases s) simp_all

lemma utf8_len_pos [simp]: "0 < utf8_len s \<longleftrightarrow> s \<noteq> []"
  by (cases s) simp_all

text \<open>\<open>char::is_whitespace\<close>: the Unicode property White\_Space.\<close>

definition is_whitespace :: "uchar \<Rightarrow> bool" where
  "is_whitespace c \<longleftrightarrow>
     (9 \<le> c \<and> c \<le> 13) \<or> c = 0x20 \<or> c = 0x85 \<or> c = 0xA0 \<or> c = 0x1680 \<or>
     (0x2000 \<le> c \<and> c \<le> 0x200A) \<or> c = 0x2028 \<or> c = 0x2029 \<or> c = 0x202F \<or> c = 0x205F \<or> c = 0x3000"

text \<open>\<open>str::trim\<close>, \<open>str::starts_with\<close>, \<open>str::contains\<close> for a character.\<close>

definition trim_start :: "ustring \<Rightarrow> ustring" where
  "trim_start s = dropWhile is_whitespace s"

definition trim :: "ustring \<Rightarrow> ustring" where
  "trim s = rev (trim_start (rev (trim_start s)))"

fun starts_with :: "ustring \<Rightarrow> ustring \<Rightarrow> bool" where
  "starts_with s [] \<longleftrightarrow> True"
| "starts_with [] (p # ps) \<longleftrightarrow> False"
| "starts_with (c # s) (p # ps) \<longleftrightarrow> c = p \<and> starts_with s ps"

text \<open>\<open>str::split\<close> and \<open>str::rsplit_once\<close> at a character.\<close>

fun split_at :: "uchar \<Rightarrow> ustring \<Rightarrow> ustring list" where
  "split_at d [] = [[]]"
| "split_at d (c # s) =
     (if c = d then [] # split_at d s
      else (case split_at d s of [] \<Rightarrow> [[c]] | w # ws \<Rightarrow> (c # w) # ws))"

fun rsplit_once :: "uchar \<Rightarrow> ustring \<Rightarrow> (ustring \<times> ustring) option" where
  "rsplit_once d [] = None"
| "rsplit_once d (c # s) =
     (case rsplit_once d s of
        Some (l, r) \<Rightarrow> Some (c # l, r)
      | None \<Rightarrow> if c = d then Some ([], s) else None)"

lemma split_at_nonempty [simp]: "split_at d s \<noteq> []"
  by (cases s) (simp_all split: list.splits)

lemma rsplit_once_Some: "rsplit_once d s = Some (l, r) \<Longrightarrow> s = l @ d # r \<and> d \<notin> set r"
proof (induction s arbitrary: l)
  case Nil
  then show ?case by simp
next
  case (Cons c s)
  have none: "rsplit_once d t = None \<Longrightarrow> d \<notin> set t" for t
    by (induction t) (auto split: option.splits if_splits prod.splits)
  from Cons show ?case
    by (auto split: option.splits if_splits dest: none)
qed

section \<open>Results\<close>

text \<open>
  \<open>Result<A, E>\<close> is \<open>'e + 'a\<close> with \<open>Inl\<close> for \<open>Err\<close> and \<open>Inr\<close> for \<open>Ok\<close>. The \<open>?\<close> operator is
  \<open>and_then\<close>: an error leaves the function, a value continues.
\<close>

definition and_then :: "'e + 'a \<Rightarrow> ('a \<Rightarrow> 'e + 'b) \<Rightarrow> 'e + 'b" where
  "and_then r f = (case r of Inl e \<Rightarrow> Inl e | Inr x \<Rightarrow> f x)"

definition ok_or :: "'a option \<Rightarrow> 'e \<Rightarrow> 'e + 'a" where
  "ok_or x e = (case x of None \<Rightarrow> Inl e | Some v \<Rightarrow> Inr v)"

definition require :: "bool \<Rightarrow> 'e \<Rightarrow> 'e + unit" where
  "require b e = (if b then Inr () else Inl e)"

definition map_ok :: "('a \<Rightarrow> 'b) \<Rightarrow> 'e + 'a \<Rightarrow> 'e + 'b" where
  "map_ok f r = (case r of Inl e \<Rightarrow> Inl e | Inr x \<Rightarrow> Inr (f x))"

definition map_err :: "('e \<Rightarrow> 'f) \<Rightarrow> 'e + 'a \<Rightarrow> 'f + 'a" where
  "map_err f r = (case r of Inl e \<Rightarrow> Inl (f e) | Inr x \<Rightarrow> Inr x)"

definition is_ok :: "'e + 'a \<Rightarrow> bool" where
  "is_ok r \<longleftrightarrow> (case r of Inl _ \<Rightarrow> False | Inr _ \<Rightarrow> True)"

lemma and_then_simps [simp, result_simps]:
  "and_then (Inl e) f = Inl e" "and_then (Inr x) f = f x"
  by (simp_all add: and_then_def)

lemma and_then_Inr_iff: "and_then r f = Inr y \<longleftrightarrow> (\<exists>x. r = Inr x \<and> f x = Inr y)"
  by (cases r) simp_all

lemma and_then_cong [fundef_cong]:
  assumes "r = r'" and "\<And>x. r' = Inr x \<Longrightarrow> f x = g x"
  shows "and_then r f = and_then r' g"
  using assms by (cases r') simp_all

lemma ok_or_simps [simp, result_simps]: "ok_or None e = Inl e" "ok_or (Some v) e = Inr v"
  by (simp_all add: ok_or_def)

lemma ok_or_Inr_iff [simp]: "ok_or x e = Inr v \<longleftrightarrow> x = Some v"
  by (cases x) simp_all

lemma require_Inr_iff [simp]: "require b e = Inr u \<longleftrightarrow> b"
  by (simp add: require_def)

lemma require_simps [simp, result_simps]: "require True e = Inr ()" "require False e = Inl e"
  by (simp_all add: require_def)

lemma map_ok_simps [simp, result_simps]: "map_ok f (Inl e) = Inl e" "map_ok f (Inr x) = Inr (f x)"
  by (simp_all add: map_ok_def)

lemma map_ok_Inr_iff: "map_ok f r = Inr y \<longleftrightarrow> (\<exists>x. r = Inr x \<and> y = f x)"
  by (cases r) auto

lemma map_err_simps [simp, result_simps]: "map_err f (Inl e) = Inl (f e)" "map_err f (Inr x) = Inr x"
  by (simp_all add: map_err_def)

lemma map_err_Inr_iff [simp]: "map_err f r = Inr y \<longleftrightarrow> r = Inr y"
  by (cases r) simp_all

lemma is_ok_simps [simp, result_simps]: "is_ok (Inl e) \<longleftrightarrow> False" "is_ok (Inr x) \<longleftrightarrow> True"
  by (simp_all add: is_ok_def)

lemma is_ok_iff: "is_ok r \<longleftrightarrow> (\<exists>x. r = Inr x)"
  by (cases r) simp_all

text \<open>
  A \<open>for\<close> loop whose body may return early with an error: \<open>try_fold\<close> threads the loop's
  variables, \<open>try_map\<close> is \<open>iter().map(..).collect::<Result<Vec<_>, _>>()\<close>.
\<close>

fun try_fold :: "('s \<Rightarrow> 'a \<Rightarrow> 'e + 's) \<Rightarrow> 's \<Rightarrow> 'a list \<Rightarrow> 'e + 's" where
  "try_fold f s [] = Inr s"
| "try_fold f s (x # xs) = and_then (f s x) (\<lambda>s'. try_fold f s' xs)"

fun try_map :: "('a \<Rightarrow> 'e + 'b) \<Rightarrow> 'a list \<Rightarrow> 'e + 'b list" where
  "try_map f [] = Inr []"
| "try_map f (x # xs) = and_then (f x) (\<lambda>y. and_then (try_map f xs) (\<lambda>ys. Inr (y # ys)))"

lemma try_map_cong [fundef_cong]:
  assumes "xs = ys" and "\<And>x. x \<in> set ys \<Longrightarrow> f x = g x"
  shows "try_map f xs = try_map g ys"
proof -
  have "(\<And>x. x \<in> set ys \<Longrightarrow> f x = g x) \<Longrightarrow> try_map f ys = try_map g ys"
    by (induction ys) simp_all
  with assms show ?thesis by simp
qed

lemma try_fold_cong [fundef_cong]:
  assumes "s = t" and "xs = ys" and "\<And>a x. x \<in> set ys \<Longrightarrow> f a x = g a x"
  shows "try_fold f s xs = try_fold g t ys"
proof -
  have "(\<And>a x. x \<in> set ys \<Longrightarrow> f a x = g a x) \<Longrightarrow> try_fold f u ys = try_fold g u ys" for u
    by (induction ys arbitrary: u) (auto intro!: and_then_cong)
  with assms show ?thesis by simp
qed

lemma try_map_Inr_iff: "try_map f xs = Inr ys \<longleftrightarrow> list_all2 (\<lambda>x y. f x = Inr y) xs ys"
proof (induction xs arbitrary: ys)
  case Nil
  then show ?case by auto
next
  case (Cons x xs)
  then show ?case by (cases ys) (auto simp: and_then_Inr_iff)
qed

lemma try_map_Inr_ball: "try_map f xs = Inr ys \<Longrightarrow> x \<in> set xs \<Longrightarrow> \<exists>y. f x = Inr y"
  by (auto simp: try_map_Inr_iff list_all2_conv_all_nth in_set_conv_nth)

lemma is_ok_map_ok [simp]: "is_ok (map_ok f r) \<longleftrightarrow> is_ok r"
  by (cases r) auto

lemma try_map_ok: "is_ok (try_map f xs) \<longleftrightarrow> (\<forall>x \<in> set xs. is_ok (f x))"
proof (induction xs)
  case (Cons x xs)
  then show ?case by (cases "f x"; cases "try_map f xs") auto
qed simp

lemma unit_is_ok: "(r :: 'e + unit) = Inr () \<longleftrightarrow> is_ok r"
  by (cases r) auto

lemma try_map_unit: "map_ok (\<lambda>_. ()) (try_map f xs) = Inr () \<longleftrightarrow> (\<forall>x \<in> set xs. is_ok (f x))"
  by (simp add: unit_is_ok try_map_ok)

lemma find_SomeD: "find P xs = Some x \<Longrightarrow> x \<in> set xs \<and> P x"
  by (auto simp: find_Some_iff)

lemma try_fold_invariant:
  assumes "try_fold f s xs = Inr s'" and "I s"
    and "\<And>s x s'. x \<in> set xs \<Longrightarrow> I s \<Longrightarrow> f s x = Inr s' \<Longrightarrow> I s'"
  shows "I s'"
  using assms
proof (induction xs arbitrary: s)
  case Nil
  then show ?case by simp
next
  case (Cons x xs)
  then obtain t where t: "f s x = Inr t" "try_fold f t xs = Inr s'"
    by (auto simp: and_then_Inr_iff)
  with Cons.prems have "I t" by auto
  with t Cons show ?case by auto
qed

section \<open>Ordered maps and sets\<close>

text \<open>
  \<open>BTreeMap\<close> and the default \<open>serde_json::Map\<close> iterate in key order and hold one entry per
  key. They are association lists, strictly sorted by key; \<open>BTreeSet\<close> is a strictly sorted
  list. \<open>bt_insert\<close> overwrites, as \<open>insert\<close> does.
\<close>

fun bt_insert :: "'k::linorder \<Rightarrow> 'v \<Rightarrow> ('k \<times> 'v) list \<Rightarrow> ('k \<times> 'v) list" where
  "bt_insert k v [] = [(k, v)]"
| "bt_insert k v ((k', v') # m) =
     (if k < k' then (k, v) # (k', v') # m
      else if k = k' then (k, v) # m
      else (k', v') # bt_insert k v m)"

definition bt_get :: "('k \<times> 'v) list \<Rightarrow> 'k \<Rightarrow> 'v option" where
  "bt_get m k = map_of m k"

definition bt_contains :: "('k \<times> 'v) list \<Rightarrow> 'k \<Rightarrow> bool" where
  "bt_contains m k \<longleftrightarrow> bt_get m k \<noteq> None"

definition bt_remove :: "'k \<Rightarrow> ('k \<times> 'v) list \<Rightarrow> ('k \<times> 'v) list" where
  "bt_remove k m = filter (\<lambda>(k', _). k' \<noteq> k) m"

definition bt_wf :: "('k::linorder \<times> 'v) list \<Rightarrow> bool" where
  "bt_wf m \<longleftrightarrow> sorted_wrt (<) (map fst m)"

definition bt_from :: "('k::linorder \<times> 'v) list \<Rightarrow> ('k \<times> 'v) list" where
  "bt_from kvs = fold (\<lambda>(k, v) m. bt_insert k v m) kvs []"

fun bs_insert :: "'a::linorder \<Rightarrow> 'a list \<Rightarrow> 'a list" where
  "bs_insert x [] = [x]"
| "bs_insert x (y # ys) = (if x < y then x # y # ys else if x = y then y # ys else y # bs_insert x ys)"

definition bs_union :: "'a::linorder list \<Rightarrow> 'a list \<Rightarrow> 'a list" where
  "bs_union xs ys = fold bs_insert ys xs"

definition bs_subset :: "'a list \<Rightarrow> 'a list \<Rightarrow> bool" where
  "bs_subset xs ys \<longleftrightarrow> list_all (\<lambda>x. x \<in> set ys) xs"

definition bs_remove :: "'a \<Rightarrow> 'a list \<Rightarrow> 'a list" where
  "bs_remove x xs = filter (\<lambda>y. y \<noteq> x) xs"

definition bs_wf :: "'a::linorder list \<Rightarrow> bool" where
  "bs_wf xs \<longleftrightarrow> sorted_wrt (<) xs"

text \<open>The contract of an ordered map and what follows from it for every client.\<close>

locale ordered_map =
  fixes empty :: 'm
    and insert :: "'k::linorder \<Rightarrow> 'v \<Rightarrow> 'm \<Rightarrow> 'm"
    and remove :: "'k \<Rightarrow> 'm \<Rightarrow> 'm"
    and get :: "'m \<Rightarrow> 'k \<Rightarrow> 'v option"
    and keys :: "'m \<Rightarrow> 'k list"
    and wf :: "'m \<Rightarrow> bool"
  assumes wf_empty: "wf empty"
    and wf_insert: "wf m \<Longrightarrow> wf (insert k v m)"
    and wf_remove: "wf m \<Longrightarrow> wf (remove k m)"
    and get_empty: "get empty k = None"
    and get_insert: "get (insert k v m) k' = (if k' = k then Some v else get m k')"
    and get_remove: "get (remove k m) k' = (if k' = k then None else get m k')"
    and keys_get: "k \<in> set (keys m) \<longleftrightarrow> get m k \<noteq> None"
    and keys_sorted: "wf m \<Longrightarrow> sorted_wrt (<) (keys m)"
begin

lemma keys_distinct: "wf m \<Longrightarrow> distinct (keys m)"
  using keys_sorted by (simp add: strict_sorted_iff)

lemma keys_unique:
  assumes "wf m" and "wf n" and "get m = get n"
  shows "keys m = keys n"
  using assms keys_sorted keys_get by (metis strict_sorted_equal subsetI subset_antisym)

lemma keys_insert: "set (keys (insert k v m)) = Set.insert k (set (keys m))"
  by (auto simp: keys_get get_insert split: if_splits)

lemma keys_remove: "set (keys (remove k m)) = set (keys m) - {k}"
  by (auto simp: keys_get get_remove split: if_splits)

end

lemma bt_get_insert [simp, bt_simps]: "bt_get (bt_insert k v m) k' = (if k' = k then Some v else bt_get m k')"
  by (induction m) (auto simp: bt_get_def)

lemma bt_get_Nil [simp, bt_simps]: "bt_get [] k = None"
  by (simp add: bt_get_def)

lemma bt_get_Cons: "bt_get ((k, v) # m) k' = (if k' = k then Some v else bt_get m k')"
  by (simp add: bt_get_def)

lemma bt_get_remove [simp, bt_simps]: "bt_get (bt_remove k m) k' = (if k' = k then None else bt_get m k')"
  by (induction m) (auto simp: bt_get_def bt_remove_def)

lemma bt_get_in_set: "bt_get m k = Some v \<Longrightarrow> (k, v) \<in> set m"
  by (simp add: bt_get_def map_of_SomeD)

lemma bt_get_None_iff: "bt_get m k = None \<longleftrightarrow> k \<notin> fst ` set m"
  by (simp add: bt_get_def map_of_eq_None_iff)

lemma bt_insert_fst_set [simp]: "fst ` set (bt_insert k v m) = insert k (fst ` set m)"
  by (induction k v m rule: bt_insert.induct) (simp_all add: insert_commute)

lemma bt_wf_Nil [simp]: "bt_wf []"
  by (simp add: bt_wf_def)

lemma set_bt_insert: "set (bt_insert k v m) \<subseteq> insert (k, v) (set m)"
  by (induction k v m rule: bt_insert.induct) auto

lemma bt_wf_insert [simp]: "bt_wf m \<Longrightarrow> bt_wf (bt_insert k v m)"
proof (induction m)
  case Nil
  then show ?case by (simp add: bt_wf_def)
next
  case (Cons kv m)
  obtain k' v' where kv: "kv = (k', v')" by fastforce
  have "fst ` set (bt_insert k v m) = insert k (fst ` set m)" by simp
  with Cons kv show ?case
    by (auto simp: bt_wf_def)
qed

lemma bt_wf_remove [simp]: "bt_wf m \<Longrightarrow> bt_wf (bt_remove k m)"
  unfolding bt_wf_def bt_remove_def
  by (induction m) auto

lemma bt_wf_Cons: "bt_wf (kv # m) \<longleftrightarrow> (\<forall>k \<in> fst ` set m. fst kv < k) \<and> bt_wf m"
  by (auto simp: bt_wf_def)

interpretation bt: ordered_map "[]" bt_insert bt_remove bt_get "map fst" bt_wf
proof unfold_locales
  fix m :: "('a::linorder \<times> 'b) list" and k
  show "k \<in> set (map fst m) \<longleftrightarrow> bt_get m k \<noteq> None"
    by (simp add: bt_get_None_iff)
  assume "bt_wf m"
  then show "sorted_wrt (<) (map fst m)" by (simp add: bt_wf_def)
qed simp_all

lemma bt_get_wf: "bt_wf m \<Longrightarrow> (k, v) \<in> set m \<Longrightarrow> bt_get m k = Some v"
  using bt.keys_distinct by (force simp: bt_get_def)

lemma bt_from_wf [simp]: "bt_wf (bt_from kvs)"
proof -
  have "bt_wf m \<Longrightarrow> bt_wf (fold (\<lambda>(k, v) m. bt_insert k v m) kvs m)" for m
    by (induction kvs arbitrary: m) auto
  then show ?thesis by (simp add: bt_from_def)
qed

lemma bt_get_fold:
  "bt_get (fold (\<lambda>(k, v) m. bt_insert k v m) kvs m) k = (case map_of (rev kvs) k of Some v \<Rightarrow> Some v | None \<Rightarrow> bt_get m k)"
  by (induction kvs arbitrary: m) (auto simp: map_add_def split: option.splits if_splits)

lemma bt_get_from [bt_simps]: "bt_get (bt_from kvs) k = map_of (rev kvs) k"
  by (simp add: bt_from_def bt_get_fold split: option.splits)

lemma map_of_rev_distinct: "distinct (map fst kvs) \<Longrightarrow> map_of (rev kvs) = map_of kvs"
  by (rule map_of_inject_set [THEN iffD2]) (simp_all add: rev_map [symmetric])

lemma bt_wf_distinct: "bt_wf m \<Longrightarrow> distinct (map fst m)"
  by (rule bt.keys_distinct)

lemma bt_from_keys: "fst ` set (bt_from kvs) = fst ` set kvs"
proof -
  have "fst ` set (fold (\<lambda>(k, v) m. bt_insert k v m) kvs m) = fst ` set kvs \<union> fst ` set m" for m
    by (induction kvs arbitrary: m) (simp_all add: case_prod_beta)
  then show ?thesis by (simp add: bt_from_def)
qed

lemma bt_from_subset: "set (bt_from kvs) \<subseteq> set kvs"
proof -
  have ins: "set (bt_insert k v m) \<subseteq> insert (k, v) (set m)" for k :: 'a and v :: 'b and m
    by (induction m) (auto split: if_splits)
  have "set (fold (\<lambda>(k, v) m. bt_insert k v m) kvs m) \<subseteq> set kvs \<union> set m" for m
  proof (induction kvs arbitrary: m)
    case (Cons kv kvs)
    obtain k v where kv: "kv = (k, v)" by fastforce
    show ?case using Cons [of "bt_insert k v m"] ins [of k v m] by (auto simp: kv)
  qed simp
  then show ?thesis by (fastforce simp: bt_from_def)
qed

lemma bt_length: "bt_wf m \<Longrightarrow> length m = card (fst ` set m)"
  using distinct_card [OF bt_wf_distinct] by fastforce

lemma bt_from_length: "length (bt_from kvs) = card (fst ` set kvs)"
  by (simp add: bt_length bt_from_keys)

lemma bt_insert_last:
  assumes "\<forall>k' \<in> fst ` set m. k' < k"
  shows "bt_insert k v m = m @ [(k, v)]"
  using assms by (induction m) auto

lemma bt_from_id: "bt_wf m \<Longrightarrow> bt_from m = m"
proof (induction m rule: rev_induct)
  case Nil
  then show ?case by (simp add: bt_from_def)
next
  case (snoc kv m)
  obtain k v where kv: "kv = (k, v)" by fastforce
  from snoc.prems have "bt_wf m" "\<forall>k' \<in> fst ` set m. k' < k"
    by (auto simp: bt_wf_def kv sorted_wrt_append)
  with snoc.IH show ?case
    by (simp add: bt_from_def kv bt_insert_last)
qed

lemma bt_wf_ext:
  assumes "bt_wf m" and "bt_wf n" and "bt_get m = bt_get n"
  shows "m = n"
proof -
  have keys: "map fst m = map fst n"
    using assms by (rule bt.keys_unique)
  have rebuild: "l = map (\<lambda>k. (k, the (bt_get l k))) (map fst l)" if "bt_wf l" for l :: "('a \<times> 'b) list"
    by (auto simp: comp_def bt_get_wf [OF that] intro!: map_idI [symmetric])
  have "m = map (\<lambda>k. (k, the (bt_get m k))) (map fst m)" by (rule rebuild [OF assms(1)])
  also have "\<dots> = map (\<lambda>k. (k, the (bt_get n k))) (map fst n)" by (simp only: keys assms(3))
  also have "\<dots> = n" by (rule rebuild [OF assms(2), symmetric])
  finally show ?thesis .
qed

lemma set_bs_insert [simp]: "set (bs_insert x xs) = insert x (set xs)"
  by (induction xs) auto

lemma bs_wf_Nil [simp]: "bs_wf []"
  by (simp add: bs_wf_def)

lemma bs_wf_insert [simp]: "bs_wf xs \<Longrightarrow> bs_wf (bs_insert x xs)"
  by (induction xs) (auto simp: bs_wf_def)

lemma set_bs_union [simp]: "set (bs_union xs ys) = set xs \<union> set ys"
  unfolding bs_union_def by (induction ys arbitrary: xs) auto

lemma bs_wf_union [simp]: "bs_wf xs \<Longrightarrow> bs_wf (bs_union xs ys)"
  unfolding bs_union_def by (induction ys arbitrary: xs) auto

lemma bs_subset_iff [simp]: "bs_subset xs ys \<longleftrightarrow> set xs \<subseteq> set ys"
  by (auto simp: bs_subset_def list_all_iff)

lemma set_bs_remove [simp]: "set (bs_remove x xs) = set xs - {x}"
  by (auto simp: bs_remove_def)

lemma bs_wf_remove [simp]: "bs_wf xs \<Longrightarrow> bs_wf (bs_remove x xs)"
  by (simp add: bs_wf_def bs_remove_def sorted_wrt_filter)

lemma bs_wf_ext: "bs_wf xs \<Longrightarrow> bs_wf ys \<Longrightarrow> set xs = set ys \<Longrightarrow> xs = ys"
  by (simp add: bs_wf_def strict_sorted_equal)

end
