(* ===== verification/Yao_Syntax.thy ===== *)
theory Yao_Syntax
  imports Yao_Prelude
begin

text \<open>
  Source positions and diagnostics (\<open>yao/src/diagnostic.rs\<close>) and the reader of Yao source
  (\<open>yao/src/syntax.rs\<close>): lexer, parser of a sequence of forms, parser of one artifact.

  The lexer's \<open>source\<close>/\<open>cursor\<close> pair is the unread suffix; its cursor is the byte of its
  location, which \<open>bump\<close> keeps equal in the code. A diagnostic keeps its code, its spans and its
  function; the message text, which no code reads back, is left out.
\<close>

section \<open>Positions and diagnostics\<close>

record source_location =
  loc_byte :: nat
  loc_line :: nat
  loc_column :: nat

definition start_location :: source_location where
  "start_location = \<lparr>loc_byte = 0, loc_line = 1, loc_column = 1\<rparr>"

record source_span =
  span_start :: source_location
  span_end :: source_location

definition empty_at :: "source_location \<Rightarrow> source_span" where
  "empty_at l = \<lparr>span_start = l, span_end = l\<rparr>"

definition mk_span :: "source_location \<Rightarrow> source_location \<Rightarrow> source_span" where
  "mk_span a b = \<lparr>span_start = a, span_end = b\<rparr>"

datatype diagnostic_code =
    InvalidCharacter
  | InvalidEscape
  | UnterminatedString
  | UnexpectedClose
  | UnclosedList
  | EmptyInput
  | MultipleTopLevelForms
  | NestingLimit
  | SourceLimit
  | InvalidType
  | DuplicateName
  | RecursiveType
  | RecursiveFunction
  | TypeMismatch
  | UnknownName
  | UnknownOperator
  | EffectEscape
  | ResourceLimit

record diagnostic =
  diag_code :: diagnostic_code
  diag_primary :: source_span
  diag_related :: "source_span list"
  diag_function :: "ustring option"

text \<open>\<open>Diagnostic::new\<close> and \<open>with_related\<close>.\<close>

definition diag :: "diagnostic_code \<Rightarrow> source_span \<Rightarrow> diagnostic" where
  "diag c sp = \<lparr>diag_code = c, diag_primary = sp, diag_related = [], diag_function = None\<rparr>"

definition with_related :: "diagnostic \<Rightarrow> source_span \<Rightarrow> diagnostic" where
  "with_related d sp = d\<lparr>diag_related := diag_related d @ [sp]\<rparr>"

lemma span_sel_mk_span [simp]: "span_start (mk_span a b) = a" "span_end (mk_span a b) = b"
  by (simp_all add: mk_span_def)

lemma diag_sel [simp]: "diag_code (diag c sp) = c" "diag_primary (diag c sp) = sp"
  "diag_related (diag c sp) = []" "diag_function (diag c sp) = None"
  by (simp_all add: diag_def)

section \<open>Expressions\<close>

record parse_limits =
  max_source_bytes :: nat
  max_nesting :: nat

definition default_parse_limits :: parse_limits where
  "default_parse_limits = \<lparr>max_source_bytes = 256 * 1024, max_nesting = 128\<rparr>"

datatype atom_kind = Symbol | String

record atom =
  atom_kind :: atom_kind
  atom_value :: ustring
  atom_span :: source_span

datatype expr =
    Atom atom
  | EList (elist_items: "expr list") (elist_span: source_span)

fun expr_span :: "expr \<Rightarrow> source_span" where
  "expr_span (Atom a) = atom_span a"
| "expr_span (EList items sp) = sp"

fun as_symbol :: "expr \<Rightarrow> ustring option" where
  "as_symbol (Atom a) = (if atom_kind a = Symbol then Some (atom_value a) else None)"
| "as_symbol (EList items sp) = None"

fun as_list :: "expr \<Rightarrow> expr list option" where
  "as_list (EList items sp) = Some items"
| "as_list (Atom a) = None"

section \<open>Lexer\<close>

datatype token_kind = Open | Close | TAtom atom_kind ustring

record token =
  tok_kind :: token_kind
  tok_span :: source_span

type_synonym lexer = "ustring \<times> source_location"

definition new_lexer :: "ustring \<Rightarrow> lexer" where
  "new_lexer source = (source, start_location)"

abbreviation tab_ch :: uchar where "tab_ch \<equiv> 9"
abbreviation newline_ch :: uchar where "newline_ch \<equiv> 10"
abbreviation return_ch :: uchar where "return_ch \<equiv> 13"
abbreviation space_ch :: uchar where "space_ch \<equiv> 32"
abbreviation quote_ch :: uchar where "quote_ch \<equiv> 34"
abbreviation open_ch :: uchar where "open_ch \<equiv> 40"
abbreviation close_ch :: uchar where "close_ch \<equiv> 41"
abbreviation semicolon_ch :: uchar where "semicolon_ch \<equiv> 59"
abbreviation backslash_ch :: uchar where "backslash_ch \<equiv> 92"
abbreviation n_ch :: uchar where "n_ch \<equiv> 110"
abbreviation r_ch :: uchar where "r_ch \<equiv> 114"
abbreviation t_ch :: uchar where "t_ch \<equiv> 116"

fun peek :: "lexer \<Rightarrow> uchar option" where
  "peek ([], l) = None"
| "peek (c # s, l) = Some c"

lemma peek_eq_Some: "peek lx = Some c \<longleftrightarrow> (\<exists>s l. lx = (c # s, l))"
  by (cases lx rule: peek.cases) auto

text \<open>How \<open>bump\<close> moves the location past one character, and \<open>bump\<close> itself.\<close>

definition advance :: "source_location \<Rightarrow> uchar \<Rightarrow> source_location" where
  "advance l c =
     (if c = newline_ch
      then \<lparr>loc_byte = loc_byte l + len_utf8 c, loc_line = loc_line l + 1, loc_column = 1\<rparr>
      else \<lparr>loc_byte = loc_byte l + len_utf8 c, loc_line = loc_line l, loc_column = loc_column l + 1\<rparr>)"

fun bump :: "lexer \<Rightarrow> lexer" where
  "bump ([], l) = ([], l)"
| "bump (c # s, l) = (s, advance l c)"

text \<open>\<open>while self.peek().is_some_and(p) { self.bump(); }\<close>\<close>

fun bump_while :: "(uchar \<Rightarrow> bool) \<Rightarrow> lexer \<Rightarrow> lexer" where
  "bump_while p ([], l) = ([], l)"
| "bump_while p (c # s, l) = (if p c then bump_while p (s, advance l c) else (c # s, l))"

lemma bump_while_length: "length (fst (bump_while p lx)) \<le> length (fst lx)"
  by (induction p lx rule: bump_while.induct) auto

function skip_trivia :: "lexer \<Rightarrow> lexer" where
  "skip_trivia lx =
     (let lx1 = bump_while is_whitespace lx in
      if peek lx1 \<noteq> Some semicolon_ch then lx1
      else skip_trivia (bump_while (\<lambda>c. c \<noteq> newline_ch) lx1))"
  by pat_completeness auto
termination
proof (relation "measure (\<lambda>lx. length (fst lx))", simp)
  fix lx lx1 :: lexer
  assume lx1: "lx1 = bump_while is_whitespace lx" and semi: "\<not> peek lx1 \<noteq> Some semicolon_ch"
  then obtain s l where s: "lx1 = (semicolon_ch # s, l)"
    by (auto simp: peek_eq_Some)
  have "length (fst (bump_while (\<lambda>c. c \<noteq> newline_ch) lx1)) \<le> length s"
    using bump_while_length [of "\<lambda>c. c \<noteq> newline_ch" "(s, advance l semicolon_ch)"] by (simp add: s)
  also have "\<dots> < length (fst lx)"
    using bump_while_length [of is_whitespace lx, folded lx1] by (simp add: s)
  finally show "(bump_while (\<lambda>c. c \<noteq> newline_ch) lx1, lx) \<in> measure (\<lambda>lx. length (fst lx))"
    by simp
qed

declare skip_trivia.simps [simp del]

definition mk_token :: "token_kind \<Rightarrow> source_location \<Rightarrow> source_location \<Rightarrow> token" where
  "mk_token k a b = \<lparr>tok_kind = k, tok_span = mk_span a b\<rparr>"

lemma mk_token_sel [simp]: "tok_kind (mk_token k a b) = k" "tok_span (mk_token k a b) = mk_span a b"
  by (simp_all add: mk_token_def)

text \<open>The two loops of \<open>string_token\<close>: a triple-quoted block and an escaped literal.\<close>

definition triple_quote :: ustring where
  "triple_quote = [quote_ch, quote_ch, quote_ch]"

function block_string :: "source_location \<Rightarrow> ustring \<Rightarrow> lexer \<Rightarrow> diagnostic + (token \<times> lexer)" where
  "block_string start value (s, l) =
     (if starts_with s triple_quote
      then (let lx = bump (bump (bump (s, l))) in
            Inr (mk_token (TAtom String value) start (snd lx), lx))
      else (case s of
              [] \<Rightarrow> Inl (diag UnterminatedString (mk_span start l))
            | c # cs \<Rightarrow> block_string start (value @ [c]) (cs, advance l c)))"
  by pat_completeness auto
termination
  by (relation "measure (\<lambda>(start, value, lx). length (fst lx))") auto

declare block_string.simps [simp del]

definition unescape :: "uchar \<Rightarrow> uchar option" where
  "unescape c =
     (if c = backslash_ch then Some backslash_ch
      else if c = quote_ch then Some quote_ch
      else if c = n_ch then Some newline_ch
      else if c = r_ch then Some return_ch
      else if c = t_ch then Some tab_ch
      else None)"

fun quoted_string :: "source_location \<Rightarrow> ustring \<Rightarrow> lexer \<Rightarrow> diagnostic + (token \<times> lexer)" where
  "quoted_string start value ([], l) = Inl (diag UnterminatedString (mk_span start l))"
| "quoted_string start value (c # s, l) =
     (let l1 = advance l c in
      if c = quote_ch then Inr (mk_token (TAtom String value) start l1, (s, l1))
      else if c = backslash_ch then
        (let escape_start = \<lparr>loc_byte = loc_byte l1 - 1, loc_line = loc_line l1,
                             loc_column = loc_column l1 - 1\<rparr> in
         case s of
           [] \<Rightarrow> Inl (diag UnterminatedString (mk_span start l1))
         | d # s' \<Rightarrow>
             (case unescape d of
                Some e \<Rightarrow> quoted_string start (value @ [e]) (s', advance l1 d)
              | None \<Rightarrow> Inl (diag InvalidEscape (mk_span escape_start (advance l1 d)))))
      else if c = newline_ch \<or> c = return_ch then Inl (diag UnterminatedString (mk_span start l1))
      else quoted_string start (value @ [c]) (s, l1))"

definition string_token :: "source_location \<Rightarrow> lexer \<Rightarrow> diagnostic + (token \<times> lexer)" where
  "string_token start lx =
     (if starts_with (fst lx) triple_quote then block_string start [] (bump (bump (bump lx)))
      else quoted_string start [] (bump lx))"

definition symbol_char :: "uchar \<Rightarrow> bool" where
  "symbol_char c \<longleftrightarrow>
     \<not> is_whitespace c \<and> c \<noteq> open_ch \<and> c \<noteq> close_ch \<and> c \<noteq> semicolon_ch \<and> c \<noteq> quote_ch"

definition symbol_token :: "source_location \<Rightarrow> lexer \<Rightarrow> diagnostic + (token \<times> lexer)" where
  "symbol_token start lx =
     (let lx1 = bump_while symbol_char lx;
          value = takeWhile symbol_char (fst lx) in
      if value = [] then Inl (diag InvalidCharacter (mk_span start (snd (bump lx1))))
      else Inr (mk_token (TAtom Symbol value) start (snd lx1), lx1))"

definition next_token :: "lexer \<Rightarrow> diagnostic + (token option \<times> lexer)" where
  "next_token lx0 =
     (let lx = skip_trivia lx0; start = snd lx in
      case peek lx of
        None \<Rightarrow> Inr (None, lx)
      | Some c \<Rightarrow>
          if c = open_ch then Inr (Some (mk_token Open start (snd (bump lx))), bump lx)
          else if c = close_ch then Inr (Some (mk_token Close start (snd (bump lx))), bump lx)
          else if c = quote_ch then map_ok (\<lambda>(t, lx'). (Some t, lx')) (string_token start lx)
          else map_ok (\<lambda>(t, lx'). (Some t, lx')) (symbol_token start lx))"

text \<open>Every token consumes input, so the parser's loop ends.\<close>

lemma skip_trivia_length: "length (fst (skip_trivia lx)) \<le> length (fst lx)"
proof (induction lx rule: skip_trivia.induct)
  case (1 lx)
  let ?lx1 = "bump_while is_whitespace lx"
  show ?case
  proof (cases "peek ?lx1 = Some semicolon_ch")
    case True
    have "length (fst (skip_trivia (bump_while (\<lambda>c. c \<noteq> newline_ch) ?lx1)))
        \<le> length (fst (bump_while (\<lambda>c. c \<noteq> newline_ch) ?lx1))"
      using 1 True by simp
    with True bump_while_length [of "\<lambda>c. c \<noteq> newline_ch" ?lx1] bump_while_length [of is_whitespace lx]
    show ?thesis by (subst skip_trivia.simps) (simp add: Let_def)
  next
    case False
    then show ?thesis using bump_while_length [of is_whitespace lx]
      by (subst skip_trivia.simps) (simp add: Let_def)
  qed
qed

lemma bump_length [simp]: "length (fst (bump lx)) = length (fst lx) - 1"
  by (cases lx rule: bump.cases) auto

lemma block_string_length:
  "block_string start v lx = Inr (t, lx') \<Longrightarrow> length (fst lx') \<le> length (fst lx)"
proof (induction start v lx rule: block_string.induct)
  case (1 start v s l)
  show ?case
  proof (cases "starts_with s triple_quote")
    case True
    with 1 show ?thesis by (subst (asm) block_string.simps) (auto simp: Let_def)
  next
    case False
    with 1 show ?thesis
      by (subst (asm) (2) block_string.simps) (force split: list.splits)
  qed
qed

lemma quoted_string_length:
  "quoted_string start v lx = Inr (t, lx') \<Longrightarrow> length (fst lx') \<le> length (fst lx)"
  by (induction start v lx rule: quoted_string.induct)
    (force simp: Let_def split: if_splits list.splits option.splits)+

lemma next_token_length:
  assumes "next_token lx = Inr (Some t, lx')"
  shows "length (fst lx') < length (fst lx)"
proof -
  let ?lx = "skip_trivia lx"
  have le: "length (fst ?lx) \<le> length (fst lx)" by (rule skip_trivia_length)
  obtain c s l where lx: "?lx = (c # s, l)"
    using assms by (cases ?lx rule: peek.cases) (auto simp: next_token_def Let_def)
  have str: "length (fst lx') \<le> length s" if "string_token l ?lx = Inr (u, lx')" for u
    using that lx block_string_length [of l "[]"] quoted_string_length [of l "[]"]
    by (fastforce simp: string_token_def split: if_splits)
  have sym: "length (fst lx') \<le> length s" if "symbol_token l ?lx = Inr (u, lx')" for u
    using that lx bump_while_length [of symbol_char "(s, advance l c)"]
    by (auto simp: symbol_token_def Let_def split: if_splits)
  from assms lx str sym have "length (fst lx') \<le> length s"
    by (auto simp: next_token_def Let_def map_ok_Inr_iff split: if_splits)
  with le lx show ?thesis by simp
qed

section \<open>Parser\<close>

record list_builder =
  open_span :: source_span
  builder_items :: "expr list"

text \<open>
  The stack's head is the innermost open list (\<open>last_mut\<close>), its last element the outermost
  (\<open>first\<close>).
\<close>

fun push_expression :: "list_builder list \<Rightarrow> expr list \<Rightarrow> expr \<Rightarrow> list_builder list \<times> expr list" where
  "push_expression (b # stack) forms e = (b\<lparr>builder_items := builder_items b @ [e]\<rparr> # stack, forms)"
| "push_expression [] forms e = ([], forms @ [e])"

definition parse_token ::
  "parse_limits \<Rightarrow> token \<Rightarrow> list_builder list \<Rightarrow> expr list
    \<Rightarrow> diagnostic + (list_builder list \<times> expr list)" where
  "parse_token limits t stack forms =
     (case tok_kind t of
        Open \<Rightarrow>
          if max_nesting limits \<le> length stack then Inl (diag NestingLimit (tok_span t))
          else Inr (\<lparr>open_span = tok_span t, builder_items = []\<rparr> # stack, forms)
      | Close \<Rightarrow>
          (case stack of
             [] \<Rightarrow> Inl (diag UnexpectedClose (tok_span t))
           | b # stack' \<Rightarrow>
               Inr (push_expression stack' forms
                 (EList (builder_items b) (mk_span (span_start (open_span b)) (span_end (tok_span t))))))
      | TAtom k v \<Rightarrow>
          Inr (push_expression stack forms
            (Atom \<lparr>atom_kind = k, atom_value = v, atom_span = tok_span t\<rparr>)))"

function parse_loop ::
  "parse_limits \<Rightarrow> lexer \<Rightarrow> list_builder list \<Rightarrow> expr list
    \<Rightarrow> diagnostic + (lexer \<times> list_builder list \<times> expr list)" where
  "parse_loop limits lx stack forms =
     (case next_token lx of
        Inl d \<Rightarrow> Inl d
      | Inr (None, lx') \<Rightarrow> Inr (lx', stack, forms)
      | Inr (Some t, lx') \<Rightarrow>
          and_then (parse_token limits t stack forms)
            (\<lambda>(stack', forms'). parse_loop limits lx' stack' forms'))"
  by pat_completeness auto
termination
  by (relation "measure (\<lambda>(limits, lx, stack, forms). length (fst lx))")
    (auto dest: next_token_length)

declare parse_loop.simps [simp del]

definition parse_all :: "ustring \<Rightarrow> parse_limits \<Rightarrow> diagnostic + expr list" where
  "parse_all source limits =
     (if max_source_bytes limits < utf8_len source
      then Inl (diag SourceLimit (empty_at start_location))
      else and_then (parse_loop limits (new_lexer source) [] [])
        (\<lambda>(lx, stack, forms).
           case rev stack of
             [] \<Rightarrow> Inr forms
           | b # _ \<Rightarrow> Inl (diag UnclosedList (mk_span (span_start (open_span b)) (snd lx)))))"

definition parse_one :: "ustring \<Rightarrow> parse_limits \<Rightarrow> diagnostic + expr" where
  "parse_one source limits =
     and_then (parse_all source limits)
       (\<lambda>forms. case forms of
          [] \<Rightarrow> Inl (diag EmptyInput (empty_at start_location))
        | [form] \<Rightarrow> Inr form
        | first # second # _ \<Rightarrow>
            Inl (with_related (diag MultipleTopLevelForms (expr_span second)) (expr_span first)))"

end
