(* ===== verification/Yao_Canonical.thy ===== *)
theory Yao_Canonical
  imports Yao_Syntax
begin

text \<open>
  Canonical concrete encoding of expressions (\<open>yao/src/canonical.rs\<close>, \<open>canonical_source\<close> and
  \<open>content_hash\<close>) and its agreement with the reader: the canonical text is what the recursive
  printer writes, it reads back as the same expression, and it identifies the expression up to
  source positions. SHA-256 is a parameter.
\<close>

named_theorems reader_simps \<open>how the lexer reads one printed token\<close>

section \<open>The iterative printer\<close>

datatype task = TaskExpr expr | TaskSpace | TaskClose

definition escape_char :: "uchar \<Rightarrow> ustring" where
  "escape_char c =
     (if c = backslash_ch then [backslash_ch, backslash_ch]
      else if c = quote_ch then [backslash_ch, quote_ch]
      else if c = newline_ch then [backslash_ch, n_ch]
      else if c = return_ch then [backslash_ch, r_ch]
      else if c = tab_ch then [backslash_ch, t_ch]
      else [c])"

definition push_string :: "ustring \<Rightarrow> ustring \<Rightarrow> ustring" where
  "push_string out value = out @ [quote_ch] @ concat (map escape_char value) @ [quote_ch]"

text \<open>
  The task stack, its top first. For a list the code pushes \<open>Close\<close>, then from the last item
  to the first each item and, but for the first, a \<open>Space\<close> above it.
\<close>

definition push_items :: "expr list \<Rightarrow> task list \<Rightarrow> task list" where
  "push_items items tasks =
     fold (\<lambda>(index, item) ts. (if 0 < index then [TaskSpace] else []) @ TaskExpr item # ts)
       (rev (enumerate 0 items)) (TaskClose # tasks)"

fun expr_weight :: "expr \<Rightarrow> nat" where
  "expr_weight (Atom a) = 1"
| "expr_weight (EList items sp) = 2 + sum_list (map (\<lambda>e. Suc (expr_weight e)) items)"

fun task_weight :: "task \<Rightarrow> nat" where
  "task_weight (TaskExpr e) = expr_weight e"
| "task_weight TaskSpace = 1"
| "task_weight TaskClose = 1"

fun spaced :: "expr list \<Rightarrow> task list" where
  "spaced [] = []"
| "spaced (e # es) = TaskSpace # TaskExpr e # spaced es"

fun item_tasks :: "expr list \<Rightarrow> task list" where
  "item_tasks [] = []"
| "item_tasks (e # es) = TaskExpr e # spaced es"

lemma push_items_eq: "push_items items tasks = item_tasks items @ TaskClose # tasks"
proof -
  have sp: "fold (\<lambda>(index, item) ts. (if 0 < index then [TaskSpace] else []) @ TaskExpr item # ts)
        (rev (enumerate (Suc n) es)) ts = spaced es @ ts" for n es ts
    by (induction es arbitrary: n) auto
  show ?thesis by (cases items) (simp_all add: push_items_def sp)
qed

lemma spaced_weight: "sum_list (map task_weight (spaced es)) = sum_list (map (\<lambda>e. Suc (expr_weight e)) es)"
  by (induction es) simp_all

function canonical_loop :: "task list \<Rightarrow> ustring \<Rightarrow> ustring" where
  "canonical_loop [] out = out"
| "canonical_loop (TaskExpr (Atom a) # tasks) out =
     canonical_loop tasks
       (case atom_kind a of
          Symbol \<Rightarrow> out @ atom_value a
        | String \<Rightarrow> push_string out (atom_value a))"
| "canonical_loop (TaskExpr (EList items sp) # tasks) out =
     canonical_loop (push_items items tasks) (out @ [open_ch])"
| "canonical_loop (TaskSpace # tasks) out = canonical_loop tasks (out @ [space_ch])"
| "canonical_loop (TaskClose # tasks) out = canonical_loop tasks (out @ [close_ch])"
  by pat_completeness auto
termination
proof (relation "measure (\<lambda>(tasks, out). sum_list (map task_weight tasks))", simp_all)
  fix items sp tasks
  show "sum_list (map task_weight (push_items items tasks))
      < Suc (Suc (sum_list (map (\<lambda>e. Suc (expr_weight e)) items) + sum_list (map task_weight tasks)))"
    by (cases items) (simp_all add: push_items_eq spaced_weight)
qed

definition canonical_source :: "expr \<Rightarrow> ustring" where
  "canonical_source e = canonical_loop [TaskExpr e] []"

definition content_hash :: "(ustring \<Rightarrow> ustring) \<Rightarrow> expr \<Rightarrow> ustring" where
  "content_hash sha256_hex e = lit ''sha256:'' @ sha256_hex (canonical_source e)"

section \<open>The recursive printer\<close>

text \<open>What the loop computes, written by recursion on the expression.\<close>

fun items_text :: "ustring list \<Rightarrow> ustring" where
  "items_text [] = []"
| "items_text [t] = t"
| "items_text (t # ts) = t @ space_ch # items_text ts"

fun canon :: "expr \<Rightarrow> ustring" where
  "canon (Atom a) = (case atom_kind a of Symbol \<Rightarrow> atom_value a | String \<Rightarrow> push_string [] (atom_value a))"
| "canon (EList items sp) = open_ch # items_text (map canon items) @ [close_ch]"

fun task_text :: "task \<Rightarrow> ustring" where
  "task_text (TaskExpr e) = canon e"
| "task_text TaskSpace = [space_ch]"
| "task_text TaskClose = [close_ch]"

lemma item_tasks_text: "concat (map task_text (item_tasks items)) = items_text (map canon items)"
proof (induction items)
  case Nil
  then show ?case by simp
next
  case (Cons e es)
  then show ?case by (cases es) simp_all
qed

lemma canonical_loop_eq: "canonical_loop tasks out = out @ concat (map task_text tasks)"
  by (induction tasks out rule: canonical_loop.induct)
    (simp_all add: push_items_eq item_tasks_text push_string_def split: atom_kind.splits)

lemma canonical_source_canon: "canonical_source e = canon e"
  by (simp add: canonical_source_def canonical_loop_eq)

section \<open>Expressions up to source positions\<close>

datatype sexp = SSymbol ustring | SString ustring | SList "sexp list"

fun erase :: "expr \<Rightarrow> sexp" where
  "erase (Atom a) = (case atom_kind a of Symbol \<Rightarrow> SSymbol (atom_value a) | String \<Rightarrow> SString (atom_value a))"
| "erase (EList items sp) = SList (map erase items)"

fun expr_depth :: "expr \<Rightarrow> nat" where
  "expr_depth (Atom a) = 0"
| "expr_depth (EList items sp) = Suc (foldr (\<lambda>e d. max (expr_depth e) d) items 0)"

text \<open>A symbol is a non-empty run of symbol characters; strings are unrestricted.\<close>

fun readable :: "expr \<Rightarrow> bool" where
  "readable (Atom a) \<longleftrightarrow>
     (atom_kind a = Symbol \<longrightarrow> atom_value a \<noteq> [] \<and> list_all symbol_char (atom_value a))"
| "readable (EList items sp) \<longleftrightarrow> list_all readable items"

lemma foldr_max_le: "foldr (\<lambda>e d. max (f e) d) xs 0 \<le> (n::nat) \<longleftrightarrow> (\<forall>x \<in> set xs. f x \<le> n)"
  by (induction xs) auto

lemma canon_erase: "erase e = erase e' \<Longrightarrow> canon e = canon e'"
proof (induction e arbitrary: e')
  case (Atom a)
  then show ?case by (cases e') (auto split: atom_kind.splits)
next
  case (EList items sp)
  then obtain items' sp' where e': "e' = EList items' sp'" and eq: "map erase items = map erase items'"
    by (cases e') (auto split: atom_kind.splits)
  from eq EList.IH have "map canon items = map canon items'"
    by (auto simp: list_eq_iff_nth_eq)
  with e' show ?case by simp
qed

section \<open>Reading a printed token\<close>

definition ends_token :: "ustring \<Rightarrow> bool" where
  "ends_token s \<longleftrightarrow> (case s of [] \<Rightarrow> True | c # _ \<Rightarrow> c = space_ch \<or> c = close_ch)"

lemma not_symbol_char [simp]: "\<not> symbol_char space_ch" "\<not> symbol_char close_ch"
  "\<not> symbol_char open_ch" "\<not> symbol_char quote_ch" "\<not> symbol_char semicolon_ch"
  by (simp_all add: symbol_char_def is_whitespace_def)

lemma skip_trivia_at:
  "\<not> is_whitespace c \<Longrightarrow> c \<noteq> semicolon_ch \<Longrightarrow> skip_trivia (c # s, l) = (c # s, l)"
  by (subst skip_trivia.simps) (simp add: Let_def)

lemma skip_trivia_end [simp]: "skip_trivia ([], l) = ([], l)"
  by (subst skip_trivia.simps) (simp add: Let_def)

lemma skip_trivia_space [simp]: "skip_trivia (space_ch # s, l) = skip_trivia (s, advance l space_ch)"
  by (subst (1 2) skip_trivia.simps) (simp add: Let_def is_whitespace_def)

lemma next_token_space [reader_simps]: "next_token (space_ch # s, l) = next_token (s, advance l space_ch)"
  by (simp add: next_token_def)

lemma next_token_end [reader_simps]: "next_token ([], l) = Inr (None, ([], l))"
  by (simp add: next_token_def)

lemma next_token_open [reader_simps]:
  "next_token (open_ch # s, l) = Inr (Some (mk_token Open l (advance l open_ch)), (s, advance l open_ch))"
  by (simp add: next_token_def skip_trivia_at is_whitespace_def)

lemma next_token_close [reader_simps]:
  "next_token (close_ch # s, l) = Inr (Some (mk_token Close l (advance l close_ch)), (s, advance l close_ch))"
  by (simp add: next_token_def skip_trivia_at is_whitespace_def)

lemma bump_while_prefix:
  assumes "list_all p v" and "case s of [] \<Rightarrow> True | c # _ \<Rightarrow> \<not> p c"
  shows "bump_while p (v @ s, l) = (s, foldl advance l v)"
  using assms
proof (induction v arbitrary: l)
  case Nil
  then show ?case by (cases s) simp_all
next
  case (Cons c v)
  then show ?case by simp
qed

lemma takeWhile_prefix:
  assumes "list_all p v" and "case s of [] \<Rightarrow> True | c # _ \<Rightarrow> \<not> p c"
  shows "takeWhile p (v @ s) = v"
  using assms by (cases s) (auto simp: list_all_iff)

lemma next_token_symbol:
  assumes "v \<noteq> []" and "list_all symbol_char v" and "ends_token s"
  shows "next_token (v @ s, l) =
    Inr (Some (mk_token (TAtom Symbol v) l (foldl advance l v)), (s, foldl advance l v))"
proof -
  obtain c v' where v: "v = c # v'" using assms(1) by (cases v) auto
  have stop: "case s of [] \<Rightarrow> True | c # _ \<Rightarrow> \<not> symbol_char c"
    using assms(3) by (auto simp: ends_token_def split: list.splits)
  have c: "symbol_char c" using assms(2) v by simp
  then have skip: "skip_trivia (v @ s, l) = (v @ s, l)"
    by (simp add: v skip_trivia_at symbol_char_def)
  have "symbol_token l (v @ s, l) =
      Inr (mk_token (TAtom Symbol v) l (foldl advance l v), (s, foldl advance l v))"
    using bump_while_prefix [OF assms(2) stop, of l] takeWhile_prefix [OF assms(2) stop] assms(1)
    by (simp add: symbol_token_def)
  moreover have "c \<noteq> open_ch" "c \<noteq> close_ch" "c \<noteq> quote_ch"
    using c by auto
  ultimately show ?thesis
    by (simp add: next_token_def skip) (simp add: v)
qed

lemma quoted_string_printed:
  "quoted_string start acc (concat (map escape_char v) @ quote_ch # s, l) =
     (let l' = foldl advance l (concat (map escape_char v) @ [quote_ch]) in
      Inr (mk_token (TAtom String (acc @ v)) start l', (s, l')))"
proof (induction v arbitrary: acc l)
  case Nil
  then show ?case by (simp add: Let_def)
next
  case (Cons c v)
  then show ?case by (simp add: escape_char_def unescape_def Let_def)
qed

lemma next_token_string:
  assumes "ends_token s"
  shows "\<exists>l'. next_token (push_string [] v @ s, l) =
    Inr (Some (mk_token (TAtom String v) l l'), (s, l'))"
proof -
  let ?body = "concat (map escape_char v) @ quote_ch # s"
  have printed: "push_string [] v @ s = quote_ch # ?body" by (simp add: push_string_def)
  have skip: "skip_trivia (quote_ch # ?body, l) = (quote_ch # ?body, l)"
    by (simp add: skip_trivia_at is_whitespace_def)
  have "\<not> starts_with (quote_ch # ?body) triple_quote"
  proof (cases v)
    case Nil
    then show ?thesis using assms by (cases s) (auto simp: triple_quote_def ends_token_def)
  next
    case (Cons c v')
    then show ?thesis by (auto simp: triple_quote_def escape_char_def)
  qed
  then have "string_token l (quote_ch # ?body, l) = quoted_string l [] (?body, advance l quote_ch)"
    by (simp add: string_token_def)
  then show ?thesis
    unfolding printed by (simp add: next_token_def skip quoted_string_printed Let_def)
qed

section \<open>Reading a printed expression\<close>

lemma parse_loop_step:
  "next_token lx = Inr (Some t, lx') \<Longrightarrow>
   parse_loop limits lx stack forms =
     and_then (parse_token limits t stack forms) (\<lambda>(stack', forms'). parse_loop limits lx' stack' forms')"
  by (subst parse_loop.simps) simp

lemma ends_token_simps [simp]: "ends_token []" "ends_token (space_ch # s)" "ends_token (close_ch # s)"
  by (simp_all add: ends_token_def)

lemma push_expression_nonempty:
  "push_expression (b # stack) forms e = (b\<lparr>builder_items := builder_items b @ [e]\<rparr> # stack, forms)"
  by simp

definition reads ::
  "parse_limits \<Rightarrow> expr \<Rightarrow> bool" where
  "reads limits e \<longleftrightarrow>
     (\<forall>s l stack forms. ends_token s \<and> expr_depth e + length stack \<le> max_nesting limits \<longrightarrow>
        (\<exists>e' l'. erase e' = erase e \<and>
           parse_loop limits (canon e @ s, l) stack forms =
           (case push_expression stack forms e' of (stack', forms') \<Rightarrow>
              parse_loop limits (s, l') stack' forms')))"

lemma reads_atom: "readable (Atom a) \<Longrightarrow> reads limits (Atom a)"
  unfolding reads_def
proof (intro allI impI, elim conjE)
  fix s l stack forms
  assume wf: "readable (Atom a)" and s: "ends_token s"
  show "\<exists>e' l'. erase e' = erase (Atom a) \<and>
           parse_loop limits (canon (Atom a) @ s, l) stack forms =
           (case push_expression stack forms e' of (stack', forms') \<Rightarrow>
              parse_loop limits (s, l') stack' forms')"
  proof (cases "atom_kind a")
    case Symbol
    let ?l = "foldl advance l (atom_value a)"
    let ?e = "Atom \<lparr>atom_kind = Symbol, atom_value = atom_value a, atom_span = mk_span l ?l\<rparr>"
    have "parse_loop limits (canon (Atom a) @ s, l) stack forms =
       (case push_expression stack forms ?e of (stack', forms') \<Rightarrow> parse_loop limits (s, ?l) stack' forms')"
      using wf Symbol parse_loop_step [OF next_token_symbol [OF _ _ s]]
      by (simp add: parse_token_def)
    moreover have "erase ?e = erase (Atom a)" using Symbol by simp
    ultimately show ?thesis by blast
  next
    case String
    obtain l' where tok: "next_token (push_string [] (atom_value a) @ s, l) =
        Inr (Some (mk_token (TAtom String (atom_value a)) l l'), (s, l'))"
      using next_token_string [OF s] by blast
    let ?e = "Atom \<lparr>atom_kind = String, atom_value = atom_value a, atom_span = mk_span l l'\<rparr>"
    have "parse_loop limits (canon (Atom a) @ s, l) stack forms =
       (case push_expression stack forms ?e of (stack', forms') \<Rightarrow> parse_loop limits (s, l') stack' forms')"
      using String parse_loop_step [OF tok] by (simp add: parse_token_def)
    moreover have "erase ?e = erase (Atom a)" using String by simp
    ultimately show ?thesis by blast
  qed
qed

lemma reads_items:
  assumes "\<forall>e \<in> set items. reads limits e \<and> expr_depth e + Suc (length stack) \<le> max_nesting limits"
  shows "\<exists>items' l'. map erase items' = map erase items \<and>
    parse_loop limits (items_text (map canon items) @ close_ch # s, l) (b # stack) forms =
    parse_loop limits (close_ch # s, l') (b\<lparr>builder_items := builder_items b @ items'\<rparr> # stack) forms"
  using assms
proof (induction items arbitrary: b l)
  case Nil
  show ?case by (intro exI [of _ "[]"] exI [of _ l]) simp
next
  case (Cons e es)
  have e: "reads limits e" "expr_depth e + length (b # stack) \<le> max_nesting limits"
    using Cons.prems by auto
  let ?push = "\<lambda>e'. b\<lparr>builder_items := builder_items b @ [e']\<rparr>"
  show ?case
  proof (cases es)
    case Nil
    obtain e' l' where "erase e' = erase e"
      "parse_loop limits (canon e @ close_ch # s, l) (b # stack) forms =
         parse_loop limits (close_ch # s, l') (?push e' # stack) forms"
      using e unfolding reads_def by (metis ends_token_simps(3) push_expression_nonempty old.prod.case)
    with Nil show ?thesis by (intro exI [of _ "[e']"]) auto
  next
    case (Cons e2 es2)
    let ?rest = "items_text (map canon es) @ close_ch # s"
    obtain e' l' where e': "erase e' = erase e"
      and p1: "parse_loop limits (canon e @ space_ch # ?rest, l) (b # stack) forms =
         parse_loop limits (space_ch # ?rest, l') (?push e' # stack) forms"
      using e unfolding reads_def by (metis ends_token_simps(2) push_expression_nonempty old.prod.case)
    have p2: "parse_loop limits (space_ch # ?rest, l') st forms = parse_loop limits (?rest, advance l' space_ch) st forms"
      for st by (subst (1 2) parse_loop.simps) (simp add: next_token_space)
    obtain items' l'' where items': "map erase items' = map erase es"
      and p3: "parse_loop limits (?rest, advance l' space_ch) (?push e' # stack) forms =
         parse_loop limits (close_ch # s, l'')
           ((?push e')\<lparr>builder_items := builder_items (?push e') @ items'\<rparr> # stack) forms"
      using Cons.IH Cons.prems by (metis list.set_intros(2))
    show ?thesis
      using e' items' p1 p2 p3 Cons by (intro exI [of _ "e' # items'"] exI [of _ l'']) simp
  qed
qed

lemma reads_readable: "readable e \<Longrightarrow> reads limits e"
proof (induction e)
  case (Atom a)
  then show ?case by (rule reads_atom)
next
  case (EList items sp)
  have items: "\<forall>e \<in> set items. reads limits e"
    using EList by (auto simp: list_all_iff)
  show ?case
    unfolding reads_def
  proof (intro allI impI, elim conjE)
    fix s l stack forms
    assume s: "ends_token s" and depth: "expr_depth (EList items sp) + length (stack :: list_builder list) \<le> max_nesting limits"
    let ?b = "\<lparr>open_span = mk_span l (advance l open_ch), builder_items = []\<rparr>"
    let ?body = "items_text (map canon items) @ close_ch # s"
    have "foldr (\<lambda>e d. max (expr_depth e) d) items 0 \<le> max_nesting limits - Suc (length stack)"
      and room: "length stack < max_nesting limits"
      using depth by simp_all
    then have "\<forall>e \<in> set items. reads limits e \<and> expr_depth e + Suc (length stack) \<le> max_nesting limits"
      using items by (fastforce simp: foldr_max_le)
    then obtain items' l' where items': "map erase items' = map erase items"
      and p: "parse_loop limits (?body, advance l open_ch) (?b # stack) forms =
        parse_loop limits (close_ch # s, l') (?b\<lparr>builder_items := items'\<rparr> # stack) forms"
      using reads_items [of items limits stack s "advance l open_ch" ?b forms] by auto
    have "parse_loop limits (canon (EList items sp) @ s, l) stack forms =
        parse_loop limits (?body, advance l open_ch) (?b # stack) forms"
      using room parse_loop_step [OF next_token_open] by (simp add: parse_token_def)
    also note p
    also have "parse_loop limits (close_ch # s, l') (?b\<lparr>builder_items := items'\<rparr> # stack) forms =
       (case push_expression stack forms (EList items' (mk_span l (advance l' close_ch))) of
          (stack', forms') \<Rightarrow> parse_loop limits (s, advance l' close_ch) stack' forms')"
      using parse_loop_step [OF next_token_close] by (simp add: parse_token_def)
    finally show "\<exists>e' l'. erase e' = erase (EList items sp) \<and>
           parse_loop limits (canon (EList items sp) @ s, l) stack forms =
           (case push_expression stack forms e' of (stack', forms') \<Rightarrow>
              parse_loop limits (s, l') stack' forms')"
      using items' by (metis erase.simps(2))
  qed
qed

lemma parse_one_canonical:
  assumes "readable e" and "expr_depth e \<le> max_nesting limits"
    and "utf8_len (canonical_source e) \<le> max_source_bytes limits"
  shows "\<exists>e'. parse_one (canonical_source e) limits = Inr e' \<and> erase e' = erase e"
proof -
  obtain e' l' where e': "erase e' = erase e"
    and p: "parse_loop limits (canon e @ [], start_location) [] [] =
      (case push_expression [] [] e' of (stack', forms') \<Rightarrow> parse_loop limits ([], l') stack' forms')"
    using reads_readable [OF assms(1), of limits] assms(2) unfolding reads_def
    by (metis add.right_neutral ends_token_simps(1) list.size(3))
  have "parse_loop limits ([], l') [] [e'] = Inr (([], l'), [], [e'])"
    by (subst parse_loop.simps) (simp add: next_token_end)
  with p e' assms(3) show ?thesis
    by (simp add: parse_one_def parse_all_def new_lexer_def canonical_source_canon)
qed

end
