(* ===== verification/Yao_Reader.thy ===== *)
theory Yao_Reader
  imports Yao_Canonical
begin

text \<open>
  What the reader of \<open>yao/src/syntax.rs\<close> guarantees about every expression it returns: symbols
  are non-empty runs of symbol characters, nesting stays within the limit, and every span is the
  exact half-open range of the source the expression was read from, in order and without overlap.
  With the printer of \<open>Yao_Canonical\<close> this gives the round trip of canonical sources.
\<close>

section \<open>Consumed input\<close>

definition consumes :: "lexer \<Rightarrow> lexer \<Rightarrow> ustring \<Rightarrow> bool" where
  "consumes lx lx' d \<longleftrightarrow> fst lx = d @ fst lx' \<and> snd lx' = foldl advance (snd lx) d"

lemma consumes_refl [simp]: "consumes lx lx []"
  by (simp add: consumes_def)

lemma consumes_trans: "consumes lx lx' d \<Longrightarrow> consumes lx' lx'' d' \<Longrightarrow> consumes lx lx'' (d @ d')"
  by (simp add: consumes_def)

lemma consumes_one: "consumes (c # s, l) (s, advance l c) [c]"
  by (simp add: consumes_def)

lemma consumes_Cons: "consumes (s, advance l c) lx' d \<Longrightarrow> consumes (c # s, l) lx' (c # d)"
  by (simp add: consumes_def)

lemma bump_while_consumes: "consumes lx (bump_while p lx) (takeWhile p (fst lx))"
  by (induction p lx rule: bump_while.induct) (auto intro: consumes_Cons)

lemma skip_trivia_consumes: "\<exists>d. consumes lx (skip_trivia lx) d"
proof (induction lx rule: skip_trivia.induct)
  case (1 lx)
  let ?lx1 = "bump_while is_whitespace lx"
  let ?lx2 = "bump_while (\<lambda>c. c \<noteq> newline_ch) ?lx1"
  have c: "consumes lx ?lx1 (takeWhile is_whitespace (fst lx))"
    "consumes ?lx1 ?lx2 (takeWhile (\<lambda>c. c \<noteq> newline_ch) (fst ?lx1))"
    by (rule bump_while_consumes)+
  show ?case
  proof (cases "peek ?lx1 = Some semicolon_ch")
    case True
    with 1 obtain d where "consumes ?lx2 (skip_trivia ?lx2) d" by auto
    with True c show ?thesis
      by (subst skip_trivia.simps) (auto simp: Let_def intro: consumes_trans)
  next
    case False
    with c show ?thesis by (subst skip_trivia.simps) (auto simp: Let_def)
  qed
qed

lemma bump_triple:
  assumes "starts_with s triple_quote"
  shows "\<exists>s'. s = triple_quote @ s' \<and> consumes (s, l) (bump (bump (bump (s, l)))) triple_quote"
proof -
  obtain s' where s: "s = triple_quote @ s'"
    using assms by (auto simp: triple_quote_def elim!: starts_with.elims)
  then show ?thesis by (simp add: consumes_def triple_quote_def)
qed

lemma block_string_consumes:
  "block_string start v lx = Inr (t, lx') \<Longrightarrow>
     \<exists>d. consumes lx lx' (d @ triple_quote) \<and> tok_span t = mk_span start (snd lx') \<and>
       (\<exists>w. tok_kind t = TAtom String w)"
proof (induction start v lx rule: block_string.induct)
  case (1 start v s l)
  show ?case
  proof (cases "starts_with s triple_quote")
    case True
    from bump_triple [OF True, of l] have "consumes (s, l) (bump (bump (bump (s, l)))) ([] @ triple_quote)"
      by auto
    moreover have "lx' = bump (bump (bump (s, l)))" "t = mk_token (TAtom String v) start (snd lx')"
      using "1.prems" True by (auto simp: block_string.simps [of start v s l] Let_def)
    ultimately show ?thesis by (intro exI [of _ "[]"]) simp
  next
    case False
    obtain c cs where s: "s = c # cs"
      using "1.prems" False by (auto simp: block_string.simps [of start v s l] split: list.splits)
    have "block_string start (v @ [c]) (cs, advance l c) = Inr (t, lx')"
      using "1.prems" False unfolding s by (simp add: block_string.simps [of start v "c # cs" l])
    from "1.IH" [OF False s this] obtain d where
      "consumes (cs, advance l c) lx' (d @ triple_quote)" "tok_span t = mk_span start (snd lx')"
      "\<exists>w. tok_kind t = TAtom String w"
      by auto
    then show ?thesis unfolding s by (metis append_Cons consumes_Cons)
  qed
qed

lemma quoted_string_consumes:
  "quoted_string start v lx = Inr (t, lx') \<Longrightarrow>
     \<exists>d. consumes lx lx' (d @ [quote_ch]) \<and> tok_span t = mk_span start (snd lx') \<and>
       (\<exists>w. tok_kind t = TAtom String w)"
proof (induction start v lx rule: quoted_string.induct)
  case (1 start v l)
  then show ?case by simp
next
  case (2 start v c s l)
  consider "c = quote_ch" | "c = backslash_ch" | "c \<noteq> quote_ch" "c \<noteq> backslash_ch" by blast
  then show ?case
  proof cases
    case 1
    with 2 have "consumes (c # s, l) lx' ([] @ [quote_ch])" "tok_span t = mk_span start (snd lx')"
      "tok_kind t = TAtom String v"
      by (auto simp: Let_def intro: consumes_one)
    then show ?thesis by blast
  next
    case b: 2
    then obtain d s' e where s: "s = d # s'" "unescape d = Some e"
      "quoted_string start (v @ [e]) (s', advance (advance l c) d) = Inr (t, lx')"
      using 2(3) by (auto simp: Let_def split: list.splits option.splits)
    with 2(1) [OF refl _ b refl s(1,2)] b obtain w where
      "consumes (s', advance (advance l c) d) lx' (w @ [quote_ch])" "tok_span t = mk_span start (snd lx')"
      "\<exists>w. tok_kind t = TAtom String w"
      by auto
    then show ?thesis unfolding s(1) by (metis append_Cons consumes_Cons)
  next
    case 3
    with 2 obtain w where
      "consumes (s, advance l c) lx' (w @ [quote_ch])" "tok_span t = mk_span start (snd lx')"
      "\<exists>w. tok_kind t = TAtom String w"
      by (fastforce simp: Let_def split: if_splits)
    then show ?thesis by (metis append_Cons consumes_Cons)
  qed
qed

text \<open>What a token's text is.\<close>

definition token_text :: "token_kind \<Rightarrow> ustring \<Rightarrow> bool" where
  "token_text k d \<longleftrightarrow>
     (case k of
        Open \<Rightarrow> d = [open_ch]
      | Close \<Rightarrow> d = [close_ch]
      | TAtom Symbol v \<Rightarrow> d = v \<and> v \<noteq> [] \<and> list_all symbol_char v
      | TAtom String v \<Rightarrow> \<exists>m. d = quote_ch # m @ [quote_ch])"

lemma string_token_consumes:
  assumes "string_token l (quote_ch # s, l) = Inr (t, lx')"
  shows "\<exists>d. consumes (quote_ch # s, l) lx' d \<and> tok_span t = mk_span l (snd lx') \<and> token_text (tok_kind t) d"
proof (cases "starts_with (quote_ch # s) triple_quote")
  case True
  let ?lx = "bump (bump (bump (quote_ch # s, l)))"
  from True assms have "block_string l [] ?lx = Inr (t, lx')" by (simp add: string_token_def)
  from block_string_consumes [OF this] obtain d w where d: "consumes ?lx lx' (d @ triple_quote)"
    "tok_span t = mk_span l (snd lx')" "tok_kind t = TAtom String w"
    by blast
  have "consumes (quote_ch # s, l) lx' (triple_quote @ d @ triple_quote)"
    using bump_triple [OF True, of l] d(1) consumes_trans by blast
  moreover have "token_text (tok_kind t) (triple_quote @ d @ triple_quote)"
    using d(3) by (auto simp: token_text_def triple_quote_def intro: exI [of _ "[quote_ch, quote_ch] @ d @ [quote_ch, quote_ch]"])
  ultimately show ?thesis using d(2) by blast
next
  case False
  with assms have "quoted_string l [] (s, advance l quote_ch) = Inr (t, lx')"
    by (simp add: string_token_def)
  from quoted_string_consumes [OF this] obtain d w where
    d: "consumes (s, advance l quote_ch) lx' (d @ [quote_ch])"
    "tok_span t = mk_span l (snd lx')" "tok_kind t = TAtom String w"
    by blast
  then show ?thesis
    by (intro exI [of _ "quote_ch # d @ [quote_ch]"]) (simp add: consumes_Cons token_text_def)
qed

lemma next_token_consumes:
  assumes "next_token lx = Inr (Some t, lx')"
  shows "\<exists>sk d. consumes lx lx' (sk @ d) \<and> token_text (tok_kind t) d \<and>
    tok_span t = mk_span (foldl advance (snd lx) sk) (snd lx')"
proof -
  obtain sk where sk: "consumes lx (skip_trivia lx) sk" using skip_trivia_consumes by blast
  obtain c s l where lx: "skip_trivia lx = (c # s, l)"
    using assms by (cases "skip_trivia lx" rule: peek.cases) (auto simp: next_token_def Let_def)
  have l: "l = foldl advance (snd lx) sk" using sk lx by (simp add: consumes_def)
  have "\<exists>d. consumes (c # s, l) lx' d \<and> token_text (tok_kind t) d \<and> tok_span t = mk_span l (snd lx')"
  proof -
    consider "c = open_ch" | "c = close_ch" | "c = quote_ch"
      | "c \<noteq> open_ch" "c \<noteq> close_ch" "c \<noteq> quote_ch" by blast
    then show ?thesis
    proof cases
      case 3
      with assms lx have "string_token l (quote_ch # s, l) = Inr (t, lx')"
        by (auto simp: next_token_def Let_def map_ok_Inr_iff)
      with 3 show ?thesis using string_token_consumes by blast
    next
      case 4
      with assms lx have "symbol_token l (c # s, l) = Inr (t, lx')"
        by (auto simp: next_token_def Let_def map_ok_Inr_iff)
      then show ?thesis
        using bump_while_consumes [of "(c # s, l)" symbol_char]
        by (auto simp: symbol_token_def Let_def token_text_def list_all_iff
            simp del: takeWhile.simps bump_while.simps dest: set_takeWhileD split: if_splits)
    qed (use assms lx in \<open>auto simp: next_token_def Let_def token_text_def intro: consumes_one\<close>)
  qed
  then show ?thesis using sk lx l consumes_trans by metis
qed

section \<open>Exact spans\<close>

definition position :: "ustring \<Rightarrow> source_location" where
  "position pre = foldl advance start_location pre"

definition covers :: "ustring \<Rightarrow> source_span \<Rightarrow> ustring \<Rightarrow> bool" where
  "covers src sp mid \<longleftrightarrow>
     (\<exists>pre post. src = pre @ mid @ post \<and> span_start sp = position pre \<and> span_end sp = position (pre @ mid))"

lemma loc_byte_foldl: "loc_byte (foldl advance l s) = loc_byte l + utf8_len s"
  by (induction s arbitrary: l) (simp_all add: advance_def)

lemma loc_byte_position [simp]: "loc_byte (position pre) = utf8_len pre"
  by (simp add: position_def loc_byte_foldl start_location_def)

abbreviation start_byte :: "source_span \<Rightarrow> nat" where
  "start_byte sp \<equiv> loc_byte (span_start sp)"

abbreviation end_byte :: "source_span \<Rightarrow> nat" where
  "end_byte sp \<equiv> loc_byte (span_end sp)"

text \<open>Spans that follow each other without overlap between two byte offsets.\<close>

fun in_order :: "nat \<Rightarrow> source_span list \<Rightarrow> nat \<Rightarrow> bool" where
  "in_order a [] b \<longleftrightarrow> a \<le> b"
| "in_order a (sp # sps) b \<longleftrightarrow> a \<le> start_byte sp \<and> start_byte sp \<le> end_byte sp \<and> in_order (end_byte sp) sps b"

fun exact_spans :: "ustring \<Rightarrow> expr \<Rightarrow> bool" where
  "exact_spans src (Atom a) \<longleftrightarrow>
     (case atom_kind a of
        Symbol \<Rightarrow> covers src (atom_span a) (atom_value a)
      | String \<Rightarrow> (\<exists>m. covers src (atom_span a) (quote_ch # m @ [quote_ch])))"
| "exact_spans src (EList items sp) \<longleftrightarrow>
     (\<exists>m. covers src sp (open_ch # m @ [close_ch])) \<and>
     in_order (start_byte sp + 1) (map expr_span items) (end_byte sp - 1) \<and>
     list_all (exact_spans src) items"

lemma in_order_le: "in_order a sps b \<Longrightarrow> a \<le> b"
  by (induction a sps b rule: in_order.induct) auto

lemma in_order_snoc:
  "in_order a sps b \<Longrightarrow> b \<le> start_byte sp \<Longrightarrow> start_byte sp \<le> end_byte sp \<Longrightarrow>
   in_order a (sps @ [sp]) (end_byte sp)"
  by (induction a sps b rule: in_order.induct) auto

lemma in_order_mono: "in_order a sps b \<Longrightarrow> b \<le> c \<Longrightarrow> in_order a sps c"
  by (induction a sps b rule: in_order.induct) auto

lemma covers_bytes: "covers src sp mid \<Longrightarrow> end_byte sp = start_byte sp + utf8_len mid"
  by (auto simp: covers_def)

lemma prefix_by_bytes:
  assumes "p @ q = p' @ q'" and "utf8_len p \<le> utf8_len p'"
  shows "\<exists>m. p' = p @ m"
proof -
  consider m where "p' = p @ m" | m where "p = p' @ m" "m \<noteq> []"
    using assms(1) by (metis append_Nil2 append_eq_append_conv2)
  then show ?thesis
  proof cases
    case 2
    then have "utf8_len p' < utf8_len p" by simp
    with assms(2) show ?thesis by simp
  qed blast
qed

lemma covers_between:
  assumes "covers src sp [open_ch]" and "covers src sp' [close_ch]" and "end_byte sp \<le> start_byte sp'"
  shows "\<exists>m. covers src (mk_span (span_start sp) (span_end sp')) (open_ch # m @ [close_ch])"
proof -
  obtain p q where p: "src = p @ [open_ch] @ q" "span_start sp = position p" "span_end sp = position (p @ [open_ch])"
    using assms(1) by (auto simp: covers_def)
  obtain p' q' where p': "src = p' @ [close_ch] @ q'" "span_start sp' = position p'"
    "span_end sp' = position (p' @ [close_ch])"
    using assms(2) by (auto simp: covers_def)
  obtain m where "p' = (p @ [open_ch]) @ m"
    using prefix_by_bytes [of "p @ [open_ch]" q p' "[close_ch] @ q'"] p p' assms(3)
    by (metis append_assoc loc_byte_position)
  with p p' show ?thesis by (auto simp: covers_def)
qed

text \<open>The state of the parser's loop: builders on the stack hold what was read between them.\<close>

fun stack_spans :: "ustring \<Rightarrow> list_builder list \<Rightarrow> expr list \<Rightarrow> nat \<Rightarrow> bool" where
  "stack_spans src [] forms bound \<longleftrightarrow>
     list_all (exact_spans src) forms \<and> in_order 0 (map expr_span forms) bound"
| "stack_spans src (b # stack) forms bound \<longleftrightarrow>
     covers src (open_span b) [open_ch] \<and> list_all (exact_spans src) (builder_items b) \<and>
     in_order (end_byte (open_span b)) (map expr_span (builder_items b)) bound \<and>
     stack_spans src stack forms (start_byte (open_span b))"

lemma stack_spans_mono: "stack_spans src stack forms b \<Longrightarrow> b \<le> c \<Longrightarrow> stack_spans src stack forms c"
  by (cases stack) (auto intro: in_order_mono)

lemma push_expression_spans:
  assumes "stack_spans src stack forms b" and "exact_spans src e"
    and "b \<le> start_byte (expr_span e)" and "start_byte (expr_span e) \<le> end_byte (expr_span e)"
  shows "case push_expression stack forms e of (stack', forms') \<Rightarrow>
    stack_spans src stack' forms' (end_byte (expr_span e))"
  using assms by (cases stack) (auto intro: in_order_snoc)

lemma parse_token_spans:
  assumes inv: "stack_spans src stack forms b" and le: "b \<le> start_byte (tok_span t)"
    and cov: "covers src (tok_span t) d" and d: "token_text (tok_kind t) d"
    and step: "parse_token limits t stack forms = Inr (stack', forms')"
  shows "stack_spans src stack' forms' (end_byte (tok_span t))"
proof (cases "tok_kind t")
  case Open
  with assms show ?thesis
    by (auto simp: parse_token_def token_text_def intro: stack_spans_mono split: if_splits)
next
  case Close
  then obtain b0 st where st: "stack = b0 # st"
    and eq: "(stack', forms') = push_expression st forms
       (EList (builder_items b0) (mk_span (span_start (open_span b0)) (span_end (tok_span t))))"
      (is "_ = push_expression st forms ?e")
    using step by (auto simp: parse_token_def split: list.splits)
  have close: "covers src (tok_span t) [close_ch]" using cov d Close by (simp add: token_text_def)
  have b0: "covers src (open_span b0) [open_ch]" "list_all (exact_spans src) (builder_items b0)"
    "in_order (end_byte (open_span b0)) (map expr_span (builder_items b0)) b"
    "stack_spans src st forms (start_byte (open_span b0))"
    using inv st by simp_all
  have bytes: "end_byte (open_span b0) = Suc (start_byte (open_span b0))"
    "end_byte (tok_span t) = Suc (start_byte (tok_span t))"
    using covers_bytes [OF b0(1)] covers_bytes [OF close] by (simp_all add: len_utf8_def)
  have le': "end_byte (open_span b0) \<le> start_byte (tok_span t)"
    using in_order_le [OF b0(3)] le by simp
  have "exact_spans src ?e"
    using covers_between [OF b0(1) close le'] b0(2) in_order_mono [OF b0(3) le] bytes by simp
  then show ?thesis
    using push_expression_spans [OF b0(4), of ?e] le' bytes by (simp add: eq [symmetric])
next
  case (TAtom k v)
  let ?e = "Atom \<lparr>atom_kind = k, atom_value = v, atom_span = tok_span t\<rparr>"
  have "exact_spans src ?e"
    using cov d TAtom by (cases k) (auto simp: token_text_def)
  then show ?thesis
    using push_expression_spans [OF inv, of ?e] le step TAtom covers_bytes [OF cov]
    by (auto simp: parse_token_def)
qed

definition lexer_at :: "ustring \<Rightarrow> lexer \<Rightarrow> bool" where
  "lexer_at src lx \<longleftrightarrow> (\<exists>pre. src = pre @ fst lx \<and> snd lx = position pre)"

lemma next_token_covers:
  assumes "lexer_at src lx" and "next_token lx = Inr (Some t, lx')"
  shows "lexer_at src lx' \<and> end_byte (tok_span t) = loc_byte (snd lx') \<and>
    loc_byte (snd lx) \<le> start_byte (tok_span t) \<and>
    (\<exists>d. covers src (tok_span t) d \<and> token_text (tok_kind t) d)"
proof -
  obtain pre where pre: "src = pre @ fst lx" "snd lx = position pre"
    using assms(1) by (auto simp: lexer_at_def)
  obtain sk d where c: "consumes lx lx' (sk @ d)" "token_text (tok_kind t) d"
    "tok_span t = mk_span (foldl advance (snd lx) sk) (snd lx')"
    using next_token_consumes [OF assms(2)] by blast
  have p: "foldl advance (snd lx) sk = position (pre @ sk)" "snd lx' = position (pre @ sk @ d)"
    "src = (pre @ sk) @ d @ fst lx'"
    using c(1) pre by (simp_all add: consumes_def position_def)
  then have "covers src (tok_span t) d"
    unfolding covers_def using c(3) by (metis append_assoc span_sel_mk_span)
  moreover have "lexer_at src lx'"
    unfolding lexer_at_def using p by (intro exI [of _ "pre @ sk @ d"]) simp
  ultimately show ?thesis using c p pre by auto
qed

lemma parse_loop_spans:
  assumes "parse_loop limits lx stack forms = Inr (lx', stack', forms')"
    and "lexer_at src lx" and "stack_spans src stack forms (loc_byte (snd lx))"
  shows "\<exists>b. stack_spans src stack' forms' b"
  using assms
proof (induction limits lx stack forms rule: parse_loop.induct)
  case (1 limits lx stack forms)
  consider (stop) "next_token lx = Inr (None, lx')" "stack' = stack" "forms' = forms"
    | (step) t lx1 stack1 forms1 where "next_token lx = Inr (Some t, lx1)"
      "parse_token limits t stack forms = Inr (stack1, forms1)"
      "parse_loop limits lx1 stack1 forms1 = Inr (lx', stack', forms')"
    using "1.prems"(1)
    by (subst (asm) parse_loop.simps)
      (auto simp: and_then_Inr_iff split: sum.splits prod.splits option.splits)
  then show ?case
  proof cases
    case stop
    with 1 show ?thesis by blast
  next
    case step
    note cov = next_token_covers [OF "1.prems"(2) step(1)]
    then obtain d where d: "covers src (tok_span t) d" "token_text (tok_kind t) d" by blast
    have "stack_spans src stack1 forms1 (loc_byte (snd lx1))"
      using parse_token_spans [OF "1.prems"(3) _ d step(2)] cov by simp
    moreover have "lexer_at src lx1" using cov by blast
    ultimately show ?thesis using "1.IH" [OF step(1) refl refl step(2) refl step(3)] by simp
  qed
qed

lemma parse_all_Inr:
  assumes "parse_all source limits = Inr forms"
  obtains lx where "utf8_len source \<le> max_source_bytes limits"
    and "parse_loop limits (new_lexer source) [] [] = Inr (lx, [], forms)"
proof -
  obtain lx stack forms' where loop: "parse_loop limits (new_lexer source) [] [] = Inr (lx, stack, forms')"
    and le: "utf8_len source \<le> max_source_bytes limits"
    using assms by (auto simp: parse_all_def and_then_Inr_iff split: if_splits)
  with assms have "stack = [] \<and> forms' = forms"
    by (cases stack rule: rev_cases) (auto simp: parse_all_def split: if_splits)
  with loop le that show ?thesis by simp
qed

lemma parse_all_spans:
  assumes "parse_all source limits = Inr forms"
  shows "list_all (exact_spans source) forms \<and> (\<exists>b. in_order 0 (map expr_span forms) b)"
proof -
  obtain lx where loop: "parse_loop limits (new_lexer source) [] [] = Inr (lx, [], forms)"
    using assms by (rule parse_all_Inr)
  have "lexer_at source (new_lexer source)"
    by (simp add: lexer_at_def new_lexer_def position_def)
  moreover have "stack_spans source [] [] (loc_byte (snd (new_lexer source)))" by simp
  ultimately obtain b where "stack_spans source [] forms b"
    using parse_loop_spans [OF loop] by blast
  then show ?thesis by auto
qed

section \<open>Readable and bounded\<close>

fun stack_readable :: "nat \<Rightarrow> list_builder list \<Rightarrow> expr list \<Rightarrow> bool" where
  "stack_readable m [] forms \<longleftrightarrow> (\<forall>e \<in> set forms. readable e \<and> expr_depth e \<le> m)"
| "stack_readable m (b # stack) forms \<longleftrightarrow>
     Suc (length stack) \<le> m \<and>
     (\<forall>e \<in> set (builder_items b). readable e \<and> expr_depth e + Suc (length stack) \<le> m) \<and>
     stack_readable m stack forms"

lemma push_expression_readable:
  assumes "stack_readable m stack forms" and "readable e" and "expr_depth e + length stack \<le> m"
  shows "case push_expression stack forms e of (stack', forms') \<Rightarrow> stack_readable m stack' forms'"
  using assms by (cases stack) auto

lemma parse_token_readable:
  assumes inv: "stack_readable (max_nesting limits) stack forms" and d: "token_text (tok_kind t) d"
    and step: "parse_token limits t stack forms = Inr (stack', forms')"
  shows "stack_readable (max_nesting limits) stack' forms'"
proof (cases "tok_kind t")
  case Open
  with inv step show ?thesis by (auto simp: parse_token_def split: if_splits)
next
  case Close
  then obtain b st where st: "stack = b # st"
    and eq: "(stack', forms') = push_expression st forms
       (EList (builder_items b) (mk_span (span_start (open_span b)) (span_end (tok_span t))))"
      (is "_ = push_expression st forms ?e")
    using step by (auto simp: parse_token_def split: list.splits)
  have "foldr (\<lambda>e d. max (expr_depth e) d) (builder_items b) 0 \<le> max_nesting limits - Suc (length st)"
    using inv st by (fastforce simp: foldr_max_le)
  moreover have "Suc (length st) \<le> max_nesting limits" using inv st by simp
  ultimately have "expr_depth ?e + length st \<le> max_nesting limits" by simp
  moreover have "readable ?e" using inv st by (simp add: list_all_iff)
  ultimately show ?thesis
    using push_expression_readable [of "max_nesting limits" st forms ?e] inv st
    by (simp add: eq [symmetric])
next
  case (TAtom k v)
  have "length stack \<le> max_nesting limits" using inv by (cases stack) auto
  moreover have "readable (Atom \<lparr>atom_kind = k, atom_value = v, atom_span = tok_span t\<rparr>)"
    using d TAtom by (cases k) (auto simp: token_text_def)
  ultimately show ?thesis
    using push_expression_readable [OF inv] step TAtom by (fastforce simp: parse_token_def)
qed

lemma parse_loop_readable:
  assumes "parse_loop limits lx stack forms = Inr (lx', stack', forms')"
    and "stack_readable (max_nesting limits) stack forms"
  shows "stack_readable (max_nesting limits) stack' forms'"
  using assms
proof (induction limits lx stack forms rule: parse_loop.induct)
  case (1 limits lx stack forms)
  consider (stop) "stack' = stack" "forms' = forms"
    | (step) t lx1 stack1 forms1 where "next_token lx = Inr (Some t, lx1)"
      "parse_token limits t stack forms = Inr (stack1, forms1)"
      "parse_loop limits lx1 stack1 forms1 = Inr (lx', stack', forms')"
    using "1.prems"(1)
    by (subst (asm) parse_loop.simps)
      (auto simp: and_then_Inr_iff split: sum.splits prod.splits option.splits)
  then show ?case
  proof cases
    case stop
    with 1 show ?thesis by simp
  next
    case step
    obtain sk d where "token_text (tok_kind t) d" using next_token_consumes [OF step(1)] by blast
    then have "stack_readable (max_nesting limits) stack1 forms1"
      using parse_token_readable "1.prems"(2) step(2) by blast
    then show ?thesis using "1.IH" [OF step(1) refl refl step(2) refl step(3)] by simp
  qed
qed

lemma parse_all_readable:
  assumes "parse_all source limits = Inr forms"
  shows "\<forall>e \<in> set forms. readable e \<and> expr_depth e \<le> max_nesting limits"
proof -
  obtain lx where loop: "parse_loop limits (new_lexer source) [] [] = Inr (lx, [], forms)"
    using assms by (rule parse_all_Inr)
  with parse_loop_readable [OF loop] show ?thesis by auto
qed

lemma parse_one_all:
  "parse_one source limits = Inr e \<Longrightarrow> parse_all source limits = Inr [e]"
proof -
  assume one: "parse_one source limits = Inr e"
  then obtain forms where all: "parse_all source limits = Inr forms"
    by (auto simp: parse_one_def and_then_Inr_iff)
  with one show "parse_all source limits = Inr [e]"
    by (cases forms rule: remdups_adj.cases) (auto simp: parse_one_def)
qed

end
