(* ===== verification/Rust_Number.thy ===== *)
theory Rust_Number
  imports Yao_Prelude
begin

text \<open>
  The numbers the evaluator computes with: \<open>i64\<close> with checked arithmetic, \<open>f64\<close> as IEEE 754
  binary64 with round-to-nearest-even, and the numerals \<open>str::parse\<close> accepts for both.

  A finite \<open>f64\<close> is a sign, a mantissa below \<open>2 ^ 53\<close> and an exponent between \<open>-1074\<close> and \<open>971\<close>:
  the value \<open>mantissa * 2 ^ exponent\<close>. Every operation computes the exact result as a fraction of
  naturals and rounds once.
\<close>

section \<open>Checked 64-bit integers\<close>

definition i64_min :: int where "i64_min = - (2 ^ 63)"
definition i64_max :: int where "i64_max = 2 ^ 63 - 1"
definition u64_max :: int where "u64_max = 2 ^ 64 - 1"

definition in_i64 :: "int \<Rightarrow> bool" where
  "in_i64 x \<longleftrightarrow> i64_min \<le> x \<and> x \<le> i64_max"

definition checked_i64 :: "int \<Rightarrow> int option" where
  "checked_i64 x = (if in_i64 x then Some x else None)"

definition i64_checked_add :: "int \<Rightarrow> int \<Rightarrow> int option" where
  "i64_checked_add a b = checked_i64 (a + b)"

definition i64_checked_sub :: "int \<Rightarrow> int \<Rightarrow> int option" where
  "i64_checked_sub a b = checked_i64 (a - b)"

definition i64_checked_mul :: "int \<Rightarrow> int \<Rightarrow> int option" where
  "i64_checked_mul a b = checked_i64 (a * b)"

text \<open>\<open>Iterator::try_fold\<close> with an \<open>Option\<close>-valued step.\<close>

fun option_fold :: "('s \<Rightarrow> 'a \<Rightarrow> 's option) \<Rightarrow> 's \<Rightarrow> 'a list \<Rightarrow> 's option" where
  "option_fold f s [] = Some s"
| "option_fold f s (x # xs) = (case f s x of None \<Rightarrow> None | Some s' \<Rightarrow> option_fold f s' xs)"

lemma checked_i64_Some [simp]: "checked_i64 x = Some y \<longleftrightarrow> y = x \<and> in_i64 x"
  by (auto simp: checked_i64_def)

lemma option_fold_add: "option_fold i64_checked_add s xs = Some r \<Longrightarrow> r = s + sum_list xs"
  by (induction xs arbitrary: s) (fastforce simp: i64_checked_add_def add.assoc split: option.splits)+

lemma option_fold_mul: "option_fold i64_checked_mul s xs = Some r \<Longrightarrow> r = s * prod_list xs"
  by (induction xs arbitrary: s) (fastforce simp: i64_checked_mul_def mult.assoc split: option.splits)+

lemma option_fold_in_i64:
  assumes "\<And>s x s'. f s x = Some s' \<Longrightarrow> in_i64 s'" and "in_i64 s" and "option_fold f s xs = Some r"
  shows "in_i64 r"
  using assms(2,3) by (induction xs arbitrary: s) (auto intro: assms(1) split: option.splits)

section \<open>binary64\<close>

datatype f64 = F64NaN | F64Inf bool | F64 bool nat int

fun bit_length :: "nat \<Rightarrow> nat" where
  "bit_length n = (if n = 0 then 0 else Suc (bit_length (n div 2)))"

declare bit_length.simps [simp del]

lemma bit_length_eval [simp]:
  "bit_length 0 = 0" "bit_length (Suc 0) = 1" "bit_length 1 = 1"
  "bit_length (numeral Num.One) = 1"
  "bit_length (numeral (Num.Bit0 k)) = Suc (bit_length (numeral k))"
  "bit_length (numeral (Num.Bit1 k)) = Suc (bit_length (numeral k))"
  by (simp_all add: bit_length.simps [of 0] bit_length.simps [of "Suc 0"]
      bit_length.simps [of "numeral (Num.Bit0 k)"] bit_length.simps [of "numeral (Num.Bit1 k)"])

text \<open>Whether \<open>num / den\<close> is at least \<open>2 ^ k\<close>; \<open>num / den\<close> divided by \<open>2 ^ k\<close>, as a fraction.\<close>

definition ge_pow2 :: "nat \<Rightarrow> nat \<Rightarrow> int \<Rightarrow> bool" where
  "ge_pow2 num den k \<longleftrightarrow>
     (if 0 \<le> k then den * 2 ^ nat k \<le> num else den \<le> num * 2 ^ nat (- k))"

definition scale_down :: "nat \<Rightarrow> nat \<Rightarrow> int \<Rightarrow> nat \<times> nat" where
  "scale_down num den k = (if 0 \<le> k then (num, den * 2 ^ nat k) else (num * 2 ^ nat (- k), den))"

definition round_half_even :: "nat \<Rightarrow> nat \<Rightarrow> nat" where
  "round_half_even n d =
     (let q = n div d; r = n mod d in
      if d < 2 * r \<or> (2 * r = d \<and> odd q) then q + 1 else q)"

text \<open>The binary64 nearest to \<open>num / den\<close> with the given sign.\<close>

definition f64_round :: "bool \<Rightarrow> nat \<Rightarrow> nat \<Rightarrow> f64" where
  "f64_round neg num den =
     (if num = 0 then F64 neg 0 (- 1074)
      else
        let k = int (bit_length num) - int (bit_length den);
            e = (if ge_pow2 num den k then k else k - 1);
            ex = max (e - 52) (- 1074);
            (n, d) = scale_down num den ex;
            m = round_half_even n d;
            (m', ex') = (if m = 2 ^ 53 then (2 ^ 52, ex + 1) else (m, ex)) in
        if 971 < ex' then F64Inf neg else F64 neg m' ex')"

text \<open>The fraction \<open>m * 2 ^ e\<close>.\<close>

definition dyadic :: "nat \<Rightarrow> int \<Rightarrow> nat \<times> nat" where
  "dyadic m e = (if 0 \<le> e then (m * 2 ^ nat e, 1) else (m, 2 ^ nat (- e)))"

definition f64_round_dyadic :: "bool \<Rightarrow> nat \<Rightarrow> int \<Rightarrow> f64" where
  "f64_round_dyadic neg m e = (case dyadic m e of (n, d) \<Rightarrow> f64_round neg n d)"

text \<open>\<open>x as f64\<close> for a machine integer.\<close>

definition f64_of_int :: "int \<Rightarrow> f64" where
  "f64_of_int x = f64_round (x < 0) (nat \<bar>x\<bar>) 1"

fun f64_is_finite :: "f64 \<Rightarrow> bool" where
  "f64_is_finite (F64 s m e) \<longleftrightarrow> True"
| "f64_is_finite _ \<longleftrightarrow> False"

definition signed :: "bool \<Rightarrow> nat \<Rightarrow> int" where
  "signed neg m = (if neg then - int m else int m)"

text \<open>Mantissas of two finite values over their smaller exponent.\<close>

definition align :: "bool \<Rightarrow> nat \<Rightarrow> int \<Rightarrow> int \<Rightarrow> int" where
  "align neg m e e0 = signed neg (m * 2 ^ nat (e - e0))"

fun f64_add :: "f64 \<Rightarrow> f64 \<Rightarrow> f64" where
  "f64_add F64NaN y = F64NaN"
| "f64_add x F64NaN = F64NaN"
| "f64_add (F64Inf a) (F64Inf b) = (if a = b then F64Inf a else F64NaN)"
| "f64_add (F64Inf a) (F64 s m e) = F64Inf a"
| "f64_add (F64 s m e) (F64Inf b) = F64Inf b"
| "f64_add (F64 s1 m1 e1) (F64 s2 m2 e2) =
     (let e0 = min e1 e2; v = align s1 m1 e1 e0 + align s2 m2 e2 e0 in
      if v = 0 then F64 (s1 \<and> s2) 0 (- 1074)
      else f64_round_dyadic (v < 0) (nat \<bar>v\<bar>) e0)"

fun f64_neg :: "f64 \<Rightarrow> f64" where
  "f64_neg F64NaN = F64NaN"
| "f64_neg (F64Inf a) = F64Inf (\<not> a)"
| "f64_neg (F64 s m e) = F64 (\<not> s) m e"

definition f64_sub :: "f64 \<Rightarrow> f64 \<Rightarrow> f64" where
  "f64_sub x y = f64_add x (f64_neg y)"

fun f64_mul :: "f64 \<Rightarrow> f64 \<Rightarrow> f64" where
  "f64_mul F64NaN y = F64NaN"
| "f64_mul x F64NaN = F64NaN"
| "f64_mul (F64Inf a) (F64Inf b) = F64Inf (a \<noteq> b)"
| "f64_mul (F64Inf a) (F64 s m e) = (if m = 0 then F64NaN else F64Inf (a \<noteq> s))"
| "f64_mul (F64 s m e) (F64Inf b) = (if m = 0 then F64NaN else F64Inf (s \<noteq> b))"
| "f64_mul (F64 s1 m1 e1) (F64 s2 m2 e2) = f64_round_dyadic (s1 \<noteq> s2) (m1 * m2) (e1 + e2)"

fun f64_div :: "f64 \<Rightarrow> f64 \<Rightarrow> f64" where
  "f64_div F64NaN y = F64NaN"
| "f64_div x F64NaN = F64NaN"
| "f64_div (F64Inf a) (F64Inf b) = F64NaN"
| "f64_div (F64Inf a) (F64 s m e) = F64Inf (a \<noteq> s)"
| "f64_div (F64 s m e) (F64Inf b) = F64 (s \<noteq> b) 0 (- 1074)"
| "f64_div (F64 s1 m1 e1) (F64 s2 m2 e2) =
     (if m2 = 0 then (if m1 = 0 then F64NaN else F64Inf (s1 \<noteq> s2))
      else case dyadic m1 (e1 - e2) of (n, d) \<Rightarrow> f64_round (s1 \<noteq> s2) n (d * m2))"

text \<open>\<open>Iterator::sum\<close> starts at \<open>-0.0\<close>, \<open>Iterator::product\<close> at \<open>1.0\<close>.\<close>

definition f64_sum :: "f64 list \<Rightarrow> f64" where
  "f64_sum xs = foldl f64_add (F64 True 0 (- 1074)) xs"

definition f64_product :: "f64 list \<Rightarrow> f64" where
  "f64_product xs = foldl f64_mul (f64_of_int 1) xs"

datatype ordering = Less | Equal | Greater

definition cmp_int :: "int \<Rightarrow> int \<Rightarrow> ordering" where
  "cmp_int a b = (if a < b then Less else if a = b then Equal else Greater)"

fun f64_partial_cmp :: "f64 \<Rightarrow> f64 \<Rightarrow> ordering option" where
  "f64_partial_cmp F64NaN y = None"
| "f64_partial_cmp x F64NaN = None"
| "f64_partial_cmp (F64Inf a) (F64Inf b) =
     Some (if a = b then Equal else if a then Less else Greater)"
| "f64_partial_cmp (F64Inf a) (F64 s m e) = Some (if a then Less else Greater)"
| "f64_partial_cmp (F64 s m e) (F64Inf b) = Some (if b then Greater else Less)"
| "f64_partial_cmp (F64 s1 m1 e1) (F64 s2 m2 e2) =
     (let e0 = min e1 e2 in Some (cmp_int (align s1 m1 e1 e0) (align s2 m2 e2 e0)))"

definition f64_eq :: "f64 \<Rightarrow> f64 \<Rightarrow> bool" where
  "f64_eq x y \<longleftrightarrow> f64_partial_cmp x y = Some Equal"

definition f64_is_zero :: "f64 \<Rightarrow> bool" where
  "f64_is_zero x \<longleftrightarrow> f64_eq x (F64 False 0 (- 1074))"

section \<open>Numerals\<close>

definition is_ascii_digit :: "uchar \<Rightarrow> bool" where
  "is_ascii_digit c \<longleftrightarrow> 48 \<le> c \<and> c \<le> 57"

definition digits_value :: "ustring \<Rightarrow> nat" where
  "digits_value ds = foldl (\<lambda>v d. 10 * v + (d - 48)) 0 ds"

text \<open>An optional sign: \<open>+\<close> or \<open>-\<close>.\<close>

definition split_sign :: "ustring \<Rightarrow> bool \<times> ustring" where
  "split_sign s =
     (case s of [] \<Rightarrow> (False, [])
      | c # cs \<Rightarrow> if c = 45 then (True, cs) else if c = 43 then (False, cs) else (False, s))"

text \<open>\<open>str::parse::<i64>\<close>: an optional sign, at least one digit, and a value in range.\<close>

definition parse_i64 :: "ustring \<Rightarrow> int option" where
  "parse_i64 s =
     (case split_sign s of (neg, ds) \<Rightarrow>
        if ds \<noteq> [] \<and> list_all is_ascii_digit ds then checked_i64 (signed neg (digits_value ds)) else None)"

text \<open>
  \<open>str::parse::<f64>\<close>: an optional sign, then \<open>inf\<close>, \<open>infinity\<close> or \<open>nan\<close> in any case, or a
  decimal with digits before or after an optional point and an optional exponent; the value is
  the nearest binary64.
\<close>

definition to_ascii_lowercase :: "ustring \<Rightarrow> ustring" where
  "to_ascii_lowercase s = map (\<lambda>c. if 65 \<le> c \<and> c \<le> 90 then c + 32 else c) s"

definition parse_exponent :: "ustring \<Rightarrow> int option" where
  "parse_exponent s =
     (case s of
        [] \<Rightarrow> Some 0
      | c # cs \<Rightarrow>
          if c = 101 \<or> c = 69 then
            (case split_sign cs of (neg, ds) \<Rightarrow>
               if ds \<noteq> [] \<and> list_all is_ascii_digit ds then Some (signed neg (digits_value ds)) else None)
          else None)"

definition f64_of_decimal :: "bool \<Rightarrow> nat \<Rightarrow> int \<Rightarrow> f64" where
  "f64_of_decimal neg m e10 =
     (if 0 \<le> e10 then f64_round neg (m * 10 ^ nat e10) 1 else f64_round neg m (10 ^ nat (- e10)))"

definition parse_f64 :: "ustring \<Rightarrow> f64 option" where
  "parse_f64 s =
     (case split_sign s of (neg, body) \<Rightarrow>
        if to_ascii_lowercase body \<in> {lit ''inf'', lit ''infinity''} then Some (F64Inf neg)
        else if to_ascii_lowercase body = lit ''nan'' then Some F64NaN
        else
          let whole = takeWhile is_ascii_digit body;
              rest = dropWhile is_ascii_digit body;
              (frac, tail) =
                (case rest of
                   [] \<Rightarrow> ([], [])
                 | c # cs \<Rightarrow> if c = 46 then (takeWhile is_ascii_digit cs, dropWhile is_ascii_digit cs)
                            else ([], rest)) in
          if whole = [] \<and> frac = [] then None
          else map_option (\<lambda>e. f64_of_decimal neg (digits_value (whole @ frac)) (e - int (length frac)))
                 (parse_exponent tail))"

section \<open>Facts\<close>

lemma f64_round_finite_or_inf: "f64_round neg n d = F64Inf neg \<or> (\<exists>m e. f64_round neg n d = F64 neg m e)"
  by (auto simp: f64_round_def Let_def split: prod.splits)

lemma f64_of_int_0: "f64_of_int 0 = F64 False 0 (- 1074)"
  by (simp add: f64_of_int_def f64_round_def)

end
