(* ===== verification/Json_Value.thy ===== *)
theory Json_Value
  imports Rust_Number
begin

text \<open>
  The JSON values Yao programs compute with (\<open>serde_json::Value\<close>): the data type, the accessors
  the sources call and the equality they derive. Objects are ordered maps with one entry per key,
  the documented default of \<open>serde_json::Map\<close>.
\<close>

datatype number = PosInt int | NegInt int | FloatNumber f64

datatype json =
    JNull
  | JBool bool
  | JNumber number
  | JString ustring
  | JArray "json list"
  | JObject "(ustring \<times> json) list"

type_synonym json_map = "(ustring \<times> json) list"

definition number_of_i64 :: "int \<Rightarrow> number" where
  "number_of_i64 x = (if x < 0 then NegInt x else PosInt x)"

text \<open>\<open>Number::from_f64\<close>: only finite values are numbers.\<close>

definition number_of_f64 :: "f64 \<Rightarrow> number option" where
  "number_of_f64 x = (if f64_is_finite x then Some (FloatNumber x) else None)"

fun as_i64 :: "json \<Rightarrow> int option" where
  "as_i64 (JNumber (PosInt n)) = (if n \<le> i64_max then Some n else None)"
| "as_i64 (JNumber (NegInt n)) = Some n"
| "as_i64 _ = None"

fun as_f64 :: "json \<Rightarrow> f64 option" where
  "as_f64 (JNumber (PosInt n)) = Some (f64_of_int n)"
| "as_f64 (JNumber (NegInt n)) = Some (f64_of_int n)"
| "as_f64 (JNumber (FloatNumber x)) = Some x"
| "as_f64 _ = None"

fun as_bool :: "json \<Rightarrow> bool option" where
  "as_bool (JBool b) = Some b"
| "as_bool _ = None"

fun as_str :: "json \<Rightarrow> ustring option" where
  "as_str (JString s) = Some s"
| "as_str _ = None"

fun as_array :: "json \<Rightarrow> json list option" where
  "as_array (JArray vs) = Some vs"
| "as_array _ = None"

fun as_object :: "json \<Rightarrow> json_map option" where
  "as_object (JObject m) = Some m"
| "as_object _ = None"

fun is_null :: "json \<Rightarrow> bool" where
  "is_null JNull \<longleftrightarrow> True"
| "is_null _ \<longleftrightarrow> False"

text \<open>\<open>Value::get\<close> with a string key.\<close>

fun jget :: "json \<Rightarrow> ustring \<Rightarrow> json option" where
  "jget (JObject m) k = bt_get m k"
| "jget _ k = None"

text \<open>\<open>value[key]\<close>: null when the key is missing.\<close>

definition jindex :: "json \<Rightarrow> ustring \<Rightarrow> json" where
  "jindex v k = (case jget v k of Some w \<Rightarrow> w | None \<Rightarrow> JNull)"

text \<open>The object literal of \<open>json!\<close> from a list of entries.\<close>

definition jobj :: "(string \<times> json) list \<Rightarrow> json" where
  "jobj entries = JObject (bt_from (map (\<lambda>(k, v). (lit k, v)) entries))"

text \<open>The derived equality: numbers by representation, floats by value.\<close>

fun number_eq :: "number \<Rightarrow> number \<Rightarrow> bool" where
  "number_eq (PosInt a) (PosInt b) \<longleftrightarrow> a = b"
| "number_eq (NegInt a) (NegInt b) \<longleftrightarrow> a = b"
| "number_eq (FloatNumber x) (FloatNumber y) \<longleftrightarrow> f64_eq x y"
| "number_eq _ _ \<longleftrightarrow> False"

fun json_eq :: "json \<Rightarrow> json \<Rightarrow> bool"
  and json_eq_list :: "json list \<Rightarrow> json list \<Rightarrow> bool"
  and json_eq_map :: "json_map \<Rightarrow> json_map \<Rightarrow> bool" where
  "json_eq JNull JNull \<longleftrightarrow> True"
| "json_eq (JBool a) (JBool b) \<longleftrightarrow> a = b"
| "json_eq (JNumber a) (JNumber b) \<longleftrightarrow> number_eq a b"
| "json_eq (JString a) (JString b) \<longleftrightarrow> a = b"
| "json_eq (JArray a) (JArray b) \<longleftrightarrow> json_eq_list a b"
| "json_eq (JObject a) (JObject b) \<longleftrightarrow> json_eq_map a b"
| "json_eq _ _ \<longleftrightarrow> False"
| "json_eq_list [] [] \<longleftrightarrow> True"
| "json_eq_list (a # as) (b # bs) \<longleftrightarrow> json_eq a b \<and> json_eq_list as bs"
| "json_eq_list _ _ \<longleftrightarrow> False"
| "json_eq_map [] [] \<longleftrightarrow> True"
| "json_eq_map ((k, a) # as) ((l, b) # bs) \<longleftrightarrow> k = l \<and> json_eq a b \<and> json_eq_map as bs"
| "json_eq_map _ _ \<longleftrightarrow> False"

section \<open>Sizes of components\<close>

text \<open>Every component read out of a value is smaller than the value: the measure of the decoders.\<close>

lemma size_json_map: "(k, v) \<in> set m \<Longrightarrow> size v < size (JObject m)"
  by (induction m) auto

lemma size_json_list: "v \<in> set vs \<Longrightarrow> size v < size (JArray vs)"
  by (induction vs) auto

lemma size_bt_get: "bt_get m k = Some v \<Longrightarrow> size v < size (JObject m)"
  by (rule size_json_map) (rule bt_get_in_set)

lemma size_jget: "jget v k = Some w \<Longrightarrow> size w < size v"
  by (cases v) (auto dest: size_bt_get)

lemma as_object_Some [simp]: "as_object v = Some m \<longleftrightarrow> v = JObject m"
  by (cases v) auto

lemma as_array_Some [simp]: "as_array v = Some m \<longleftrightarrow> v = JArray m"
  by (cases v) auto

lemma as_str_Some [simp]: "as_str v = Some s \<longleftrightarrow> v = JString s"
  by (cases v) auto

lemma as_bool_Some [simp]: "as_bool v = Some b \<longleftrightarrow> v = JBool b"
  by (cases v) auto

lemma jget_Some: "jget v k = Some w \<longleftrightarrow> (\<exists>m. v = JObject m \<and> bt_get m k = Some w)"
  by (cases v) auto

lemma as_i64_of_i64 [simp]: "in_i64 x \<Longrightarrow> as_i64 (JNumber (number_of_i64 x)) = Some x"
  by (simp add: number_of_i64_def in_i64_def)

section \<open>Objects with literal keys\<close>

lemma map_of_lit: "map_of (map (\<lambda>(k, v). (lit k, v)) es) (lit k) = map_of es k"
  by (induction es) auto

lemma bt_get_lits: "bt_get (bt_from (map (\<lambda>(k, v). (lit k, v)) es)) (lit k) = map_of (rev es) k"
  by (simp add: bt_get_from rev_map map_of_lit)

end
