(* ===== verification/Yao_Types.thy ===== *)
theory Yao_Types
  imports Yao_Prelude
begin

text \<open>
  Types and effects of Yao (\<open>yao/src/types.rs\<close>). An \<open>EffectSet\<close> is a strictly sorted list of
  effects, as the \<open>BTreeSet\<close> iterates; the derived order of effects is the instance of
  \<open>linorder\<close> below. A structural record type holds its fields as an ordered map. Assignability
  is shown to be a partial order with \<open>Json\<close> at the top on well-formed types.
\<close>

section \<open>Effects\<close>

datatype effect =
    Infer
  | Tool ustring
  | Host ustring
  | ProgramEffect "effect list"

type_synonym effect_set = "effect list"

text \<open>
  The derived \<open>Ord\<close> compares variants in declaration order, then their contents: strings
  lexicographically, sets as the lexicographic order of their elements. The key below lists a
  variant number, then the contents, each closed by a terminator below every other entry, so that
  the order of keys is the derived order.
\<close>

definition string_key :: "ustring \<Rightarrow> nat list" where
  "string_key s = map Suc s @ [0]"

fun effect_key :: "effect \<Rightarrow> nat list" where
  "effect_key Infer = [1]"
| "effect_key (Tool s) = 2 # string_key s"
| "effect_key (Host s) = 3 # string_key s"
| "effect_key (ProgramEffect es) = 4 # concat (map effect_key es) @ [0]"

lemma string_key_prefix_free: "string_key s @ x = string_key t @ y \<Longrightarrow> s = t \<and> x = y"
  unfolding string_key_def
proof (induction s arbitrary: t)
  case Nil
  then show ?case by (cases t) simp_all
next
  case (Cons c s)
  then show ?case by (cases t) auto
qed

lemma effect_key_nonzero: "\<exists>k ks. effect_key e = Suc k # ks"
  by (cases e) simp_all

lemma effect_key_prefix_free: "effect_key a @ x = effect_key b @ y \<Longrightarrow> a = b \<and> x = y"
proof (induction a arbitrary: b x y)
  case Infer
  then show ?case by (cases b) simp_all
next
  case (Tool s)
  then show ?case by (cases b) (auto dest: string_key_prefix_free)
next
  case (Host s)
  then show ?case by (cases b) (auto dest: string_key_prefix_free)
next
  case (ProgramEffect es)
  have list: "es' = fs \<and> x = y"
    if "concat (map effect_key es') @ 0 # x = concat (map effect_key fs) @ 0 # y"
      and "set es' \<subseteq> set es" for es' fs
    using that
  proof (induction es' arbitrary: fs)
    case Nil
    then show ?case
    proof (cases fs)
      case (Cons f fs')
      then show ?thesis using Nil effect_key_nonzero [of f] by auto
    qed simp
  next
    case (Cons e es')
    obtain f fs' where fs: "fs = f # fs'"
      using Cons.prems effect_key_nonzero [of e] by (cases fs) auto
    have "effect_key e @ (concat (map effect_key es') @ 0 # x)
        = effect_key f @ (concat (map effect_key fs') @ 0 # y)"
      using Cons.prems fs by simp
    then have "e = f \<and> concat (map effect_key es') @ 0 # x = concat (map effect_key fs') @ 0 # y"
      by (rule ProgramEffect.IH [rotated]) (use Cons.prems in auto)
    with Cons fs show ?case by simp
  qed
  from ProgramEffect.prems show ?case by (cases b) (auto dest: list)
qed

lemma effect_key_inject [simp]: "effect_key a = effect_key b \<longleftrightarrow> a = b"
  using effect_key_prefix_free [of a "[]" b "[]"] by auto

instantiation effect :: linorder
begin

definition less_eq_effect :: "effect \<Rightarrow> effect \<Rightarrow> bool" where
  "less_eq_effect a b \<longleftrightarrow> effect_key a \<le> effect_key b"

definition less_effect :: "effect \<Rightarrow> effect \<Rightarrow> bool" where
  "less_effect a b \<longleftrightarrow> effect_key a < effect_key b"

instance
proof
  fix a b c :: effect
  show "a < b \<longleftrightarrow> a \<le> b \<and> \<not> b \<le> a" by (simp add: less_effect_def less_eq_effect_def less_le_not_le)
  show "a \<le> a" by (simp add: less_eq_effect_def)
  show "a \<le> b \<Longrightarrow> b \<le> c \<Longrightarrow> a \<le> c" by (simp add: less_eq_effect_def)
  show "a \<le> b \<Longrightarrow> b \<le> a \<Longrightarrow> a = b" by (simp add: less_eq_effect_def)
  show "a \<le> b \<or> b \<le> a" by (auto simp: less_eq_effect_def)
qed

end

text \<open>The operations of \<open>EffectSet\<close>.\<close>

definition effect_set_new :: "effect list \<Rightarrow> effect_set" where
  "effect_set_new effects = fold bs_insert effects []"

definition effect_insert :: "effect \<Rightarrow> effect_set \<Rightarrow> effect_set" where
  "effect_insert e s = bs_insert e s"

definition effect_contains :: "effect_set \<Rightarrow> effect \<Rightarrow> bool" where
  "effect_contains s e \<longleftrightarrow> e \<in> set s"

definition effect_is_subset :: "effect_set \<Rightarrow> effect_set \<Rightarrow> bool" where
  "effect_is_subset a b \<longleftrightarrow> bs_subset a b"

definition effect_union :: "effect_set \<Rightarrow> effect_set \<Rightarrow> effect_set" where
  "effect_union a b = bs_union a b"

definition effect_is_empty :: "effect_set \<Rightarrow> bool" where
  "effect_is_empty s \<longleftrightarrow> s = []"

lemma set_effect_insert [simp]: "set (effect_insert e s) = insert e (set s)"
  by (simp add: effect_insert_def)

lemma set_effect_union [simp]: "set (effect_union a b) = set a \<union> set b"
  by (simp add: effect_union_def)

lemma effect_is_subset_iff [simp]: "effect_is_subset a b \<longleftrightarrow> set a \<subseteq> set b"
  by (simp add: effect_is_subset_def)

lemma effect_contains_iff [simp]: "effect_contains s e \<longleftrightarrow> e \<in> set s"
  by (simp add: effect_contains_def)

lemma effect_union_empty [simp]: "effect_union a b = [] \<longleftrightarrow> a = [] \<and> b = []"
  by (metis Un_empty set_effect_union set_empty)

lemma effect_insert_not_empty [simp]: "effect_insert e s \<noteq> []"
  by (metis insert_not_empty set_effect_insert set_empty)

section \<open>Types\<close>

datatype ty =
    TNil
  | TBool
  | TInt
  | TFloat
  | TString
  | TBytes
  | TJson
  | TList ty
  | TMap ty
  | TStructuralRecord "(ustring \<times> ty) list"
  | TOption ty
  | TResult ty ty
  | TEvidenceCandidate
  | TOutcomeCandidate
  | TContextTransaction
  | TRef ustring
  | TProgram ty effect_set
  | TNamed ustring

lemma size_field_type [termination_simp]:
  "(name, t) \<in> set fields \<Longrightarrow> size t < Suc (size_list (size_prod (\<lambda>_. 0) size) fields)"
  by (induction fields) auto

text \<open>\<open>Type::is_assignable_to\<close>.\<close>

function is_assignable_to :: "ty \<Rightarrow> ty \<Rightarrow> bool" where
  "is_assignable_to a b =
     (if a = b \<or> b = TJson then True
      else (case (a, b) of
              (TInt, TFloat) \<Rightarrow> True
            | (TList l, TList r) \<Rightarrow> is_assignable_to l r
            | (TMap l, TMap r) \<Rightarrow> is_assignable_to l r
            | (TOption l, TOption r) \<Rightarrow> is_assignable_to l r
            | (TStructuralRecord l, TStructuralRecord r) \<Rightarrow>
                list_all (\<lambda>(name, rt). case bt_get l name of
                    None \<Rightarrow> False | Some lt \<Rightarrow> is_assignable_to lt rt) r
            | (TResult lo le, TResult ro re) \<Rightarrow> is_assignable_to lo ro \<and> is_assignable_to le re
            | (TProgram lo le, TProgram ro re) \<Rightarrow> is_assignable_to lo ro \<and> effect_is_subset le re
            | _ \<Rightarrow> False))"
  by pat_completeness auto
termination
  by (relation "measure (\<lambda>(a, b). size b)") (auto simp: termination_simp)

declare is_assignable_to.simps [simp del]

text \<open>Types as the code builds them: maps and sets strictly sorted at every level.\<close>

fun wf_ty :: "ty \<Rightarrow> bool" where
  "wf_ty (TList t) \<longleftrightarrow> wf_ty t"
| "wf_ty (TMap t) \<longleftrightarrow> wf_ty t"
| "wf_ty (TOption t) \<longleftrightarrow> wf_ty t"
| "wf_ty (TStructuralRecord fields) \<longleftrightarrow> bt_wf fields \<and> list_all (\<lambda>(name, t). wf_ty t) fields"
| "wf_ty (TResult a b) \<longleftrightarrow> wf_ty a \<and> wf_ty b"
| "wf_ty (TProgram t es) \<longleftrightarrow> wf_ty t \<and> bs_wf es"
| "wf_ty _ \<longleftrightarrow> True"

section \<open>Assignability is a partial order\<close>

lemma assignable_refl [simp]: "is_assignable_to a a"
  by (simp add: is_assignable_to.simps)

lemma assignable_Json [simp]: "is_assignable_to a TJson"
  by (simp add: is_assignable_to.simps)

lemma assignable_Json_left [simp]: "is_assignable_to TJson b \<longleftrightarrow> b = TJson"
  by (auto simp: is_assignable_to.simps [of TJson b])

lemma assignable_record:
  "is_assignable_to (TStructuralRecord l) (TStructuralRecord r) \<longleftrightarrow>
     l = r \<or> (\<forall>(name, rt) \<in> set r. \<exists>lt. bt_get l name = Some lt \<and> is_assignable_to lt rt)"
  by (subst is_assignable_to.simps) (auto simp: list_all_iff split: option.splits)

lemma assignable_simps [simp]:
  "is_assignable_to (TList l) (TList r) \<longleftrightarrow> is_assignable_to l r"
  "is_assignable_to (TMap l) (TMap r) \<longleftrightarrow> is_assignable_to l r"
  "is_assignable_to (TOption l) (TOption r) \<longleftrightarrow> is_assignable_to l r"
  "is_assignable_to (TResult lo le) (TResult ro re) \<longleftrightarrow> is_assignable_to lo ro \<and> is_assignable_to le re"
  "is_assignable_to (TProgram lo lf) (TProgram ro rf) \<longleftrightarrow> is_assignable_to lo ro \<and> set lf \<subseteq> set rf"
  by (auto simp: is_assignable_to.simps [of "TList l"] is_assignable_to.simps [of "TMap l"]
      is_assignable_to.simps [of "TOption l"] is_assignable_to.simps [of "TResult lo le"]
      is_assignable_to.simps [of "TProgram lo lf"])

text \<open>The shapes two assignable types can have.\<close>

lemma assignable_cases [consumes 1]:
  assumes "is_assignable_to a b"
  obtains (eq) "a = b" | (json) "b = TJson" | (num) "a = TInt" "b = TFloat"
    | (list) l r where "a = TList l" "b = TList r" "is_assignable_to l r"
    | (map) l r where "a = TMap l" "b = TMap r" "is_assignable_to l r"
    | (opt) l r where "a = TOption l" "b = TOption r" "is_assignable_to l r"
    | (struct) l r where "a = TStructuralRecord l" "b = TStructuralRecord r"
        "\<forall>(name, rt) \<in> set r. \<exists>lt. bt_get l name = Some lt \<and> is_assignable_to lt rt"
    | (result) lo le ro re where "a = TResult lo le" "b = TResult ro re"
        "is_assignable_to lo ro" "is_assignable_to le re"
    | (program) lo le ro re where "a = TProgram lo le" "b = TProgram ro re"
        "is_assignable_to lo ro" "set le \<subseteq> set re"
proof -
  let ?struct = "\<lambda>l r. \<forall>(name, rt) \<in> set r. \<exists>lt. bt_get l name = Some lt \<and> is_assignable_to lt rt"
  from assms have "a = b \<or> b = TJson \<or> (a = TInt \<and> b = TFloat) \<or>
      (\<exists>l r. (a = TList l \<and> b = TList r \<or> a = TMap l \<and> b = TMap r \<or> a = TOption l \<and> b = TOption r) \<and>
         is_assignable_to l r) \<or>
      (\<exists>l r. a = TStructuralRecord l \<and> b = TStructuralRecord r \<and> ?struct l r) \<or>
      (\<exists>lo le ro re. a = TResult lo le \<and> b = TResult ro re \<and> is_assignable_to lo ro \<and> is_assignable_to le re) \<or>
      (\<exists>lo le ro re. a = TProgram lo le \<and> b = TProgram ro re \<and> is_assignable_to lo ro \<and> set le \<subseteq> set re)"
    unfolding is_assignable_to.simps [of a b]
    by (cases "a = b \<or> b = TJson"; cases a; cases b) (auto simp: list_all_iff split: option.splits)
  then show thesis
    by (elim disjE exE conjE) (auto intro: that)
qed

lemma assignable_trans: "is_assignable_to a b \<Longrightarrow> is_assignable_to b c \<Longrightarrow> is_assignable_to a c"
proof (induction c arbitrary: a b rule: measure_induct_rule [of size])
  case (less c)
  note IH = less.IH
  from less.prems(2) show ?case
  proof (cases rule: assignable_cases)
    case eq
    with less.prems show ?thesis by simp
  next
    case json
    then show ?thesis by simp
  next
    case num
    with less.prems(1) show ?thesis
      by (cases a b rule: assignable_cases) (auto simp: is_assignable_to.simps)
  next
    case (list l r)
    with less.prems(1) show ?thesis
      by (cases a b rule: assignable_cases) (auto intro: IH)
  next
    case (map l r)
    with less.prems(1) show ?thesis
      by (cases a b rule: assignable_cases) (auto intro: IH)
  next
    case (opt l r)
    with less.prems(1) show ?thesis
      by (cases a b rule: assignable_cases) (auto intro: IH)
  next
    case (result lo le ro re)
    with less.prems(1) show ?thesis
      by (cases a b rule: assignable_cases) (auto intro: IH)
  next
    case (program lo le ro re)
    with less.prems(1) show ?thesis
      by (cases a b rule: assignable_cases) (auto intro: IH)
  next
    case (struct l r)
    show ?thesis
    proof (cases "a = b")
      case True
      with less.prems show ?thesis by simp
    next
      case False
      with less.prems(1) struct(1) obtain k where a: "a = TStructuralRecord k"
        and k: "\<forall>(name, lt) \<in> set l. \<exists>kt. bt_get k name = Some kt \<and> is_assignable_to kt lt"
        by (cases a b rule: assignable_cases) auto
      have "\<exists>kt. bt_get k name = Some kt \<and> is_assignable_to kt rt" if rt: "(name, rt) \<in> set r" for name rt
      proof -
        obtain lt where lt: "bt_get l name = Some lt" "is_assignable_to lt rt"
          using struct(3) rt by blast
        obtain kt where "bt_get k name = Some kt" "is_assignable_to kt lt"
          using k bt_get_in_set [OF lt(1)] by blast
        moreover have "size rt < size c"
          using rt struct(2) by (auto dest: size_field_type)
        ultimately show ?thesis using IH lt(2) by blast
      qed
      then show ?thesis unfolding a struct(2) assignable_record by blast
    qed
  qed
qed

lemma assignable_antisym:
  assumes "is_assignable_to a b" and "is_assignable_to b a" and "wf_ty a" and "wf_ty b"
  shows "a = b"
  using assms
proof (induction b arbitrary: a rule: measure_induct_rule [of size])
  case (less b)
  note IH = less.IH
  from less.prems(1) show ?case
  proof (cases rule: assignable_cases)
    case (struct l r)
    have wf: "bt_wf l" "bt_wf r" using less.prems struct by auto
    have lr: "\<forall>(name, lt) \<in> set l. \<exists>rt. bt_get r name = Some rt \<and> is_assignable_to rt lt"
    proof (cases "r = l")
      case True
      then show ?thesis by (auto simp: bt_get_wf [OF wf(1)])
    next
      case False
      have "is_assignable_to (TStructuralRecord r) (TStructuralRecord l)"
        using less.prems(2) struct(1,2) by simp
      with False show ?thesis by (simp only: assignable_record simp_thms)
    qed
    have "bt_get l name = bt_get r name" for name
    proof (cases "bt_get r name")
      case None
      have "bt_get l name \<noteq> Some lt" for lt
        using None lr bt_get_in_set [of l name lt] by fastforce
      with None show ?thesis by (cases "bt_get l name") auto
    next
      case (Some rt)
      then have rt: "(name, rt) \<in> set r" by (rule bt_get_in_set)
      then obtain lt where lt: "bt_get l name = Some lt" "is_assignable_to lt rt"
        using struct(3) by blast
      obtain rt' where "bt_get r name = Some rt'" "is_assignable_to rt' lt"
        using lr bt_get_in_set [OF lt(1)] by blast
      then have "is_assignable_to rt lt" using Some by simp
      moreover have "wf_ty lt" "wf_ty rt"
        using less.prems struct rt bt_get_in_set [OF lt(1)] by (auto simp: list_all_iff)
      moreover have "size rt < size b" using rt struct(2) by (auto dest: size_field_type)
      ultimately have "lt = rt" using IH lt(2) by blast
      with lt Some show ?thesis by simp
    qed
    then have "l = r" using bt_wf_ext [OF wf] by blast
    with struct show ?thesis by simp
  next
    case (program lo le ro re)
    with less.prems have "set re \<subseteq> set le" "bs_wf le" "bs_wf re" by auto
    with program have "le = re" by (intro bs_wf_ext) auto
    moreover have "lo = ro" using IH [of ro lo] program less.prems by auto
    ultimately show ?thesis using program by simp
  qed (use less in \<open>auto simp: is_assignable_to.simps [of TFloat TInt]\<close>)
qed

end
