(* ===== verification/Yao_Hir.thy ===== *)
theory Yao_Hir
  imports Yao_Syntax Yao_Types
begin

text \<open>
  The data of semantic analysis (\<open>yao/src/sema.rs\<close>): limits, type definitions, requirements,
  the typed HIR, programs, and the profile a host supplies. The HIR is a functor \<open>'e hir_kind\<close>
  of its node kinds, tied into \<open>hir_expr\<close>.
\<close>

section \<open>Limits, definitions, requirements\<close>

record analysis_limits =
  al_parse :: parse_limits
  max_expression_depth :: nat
  max_hir_nodes :: nat
  max_fields :: nat
  max_par_branches :: nat
  max_functions :: nat
  max_function_call_depth :: nat

definition default_analysis_limits :: analysis_limits where
  "default_analysis_limits =
     \<lparr>al_parse = default_parse_limits, max_expression_depth = 32, max_hir_nodes = 4096,
      max_fields = 256, max_par_branches = 32, max_functions = 128, max_function_call_depth = 32\<rparr>"

datatype evaluation_owner = Runtime | Model

record field_definition =
  fd_name :: ustring
  fd_ty :: ty
  fd_span :: source_span

record variant_definition =
  vd_name :: ustring
  vd_fields :: "field_definition list"
  vd_span :: source_span

datatype type_definition =
    Record ustring "field_definition list" source_span
  | Union ustring "variant_definition list" source_span

type_synonym type_definitions = "(ustring \<times> type_definition) list"

fun td_name :: "type_definition \<Rightarrow> ustring" where
  "td_name (Record n fs sp) = n"
| "td_name (Union n vs sp) = n"

fun td_span :: "type_definition \<Rightarrow> source_span" where
  "td_span (Record n fs sp) = sp"
| "td_span (Union n vs sp) = sp"

record requirements =
  req_tools :: "ustring list option"
  req_effects :: "effect_set option"
  req_objects :: "ustring list option"

definition default_requirements :: requirements where
  "default_requirements = \<lparr>req_tools = None, req_effects = None, req_objects = None\<rparr>"

record tool_signature =
  ts_arguments :: "(ustring \<times> ty) list"
  ts_required :: "ustring list"
  ts_result :: ty

definition dynamic_json :: tool_signature where
  "dynamic_json = \<lparr>ts_arguments = [], ts_required = [], ts_result = TJson\<rparr>"

text \<open>The trait \<open>AnalysisProfile\<close> as the record of its methods, and the static instance.\<close>

record analysis_profile =
  tool_signature_of :: "ustring \<Rightarrow> tool_signature option"
  unavailable_tool_reason :: "ustring \<Rightarrow> ustring option"
  host_signature :: "ustring \<Rightarrow> tool_signature option"
  implicit_binding :: "ustring \<Rightarrow> ty option"

record static_profile =
  sp_tools :: "(ustring \<times> tool_signature) list"
  sp_host_operations :: "(ustring \<times> tool_signature) list"
  sp_bindings :: "(ustring \<times> ty) list"

definition profile_of_static :: "static_profile \<Rightarrow> analysis_profile" where
  "profile_of_static p =
     \<lparr>tool_signature_of = bt_get (sp_tools p), unavailable_tool_reason = (\<lambda>_. None),
      host_signature = bt_get (sp_host_operations p), implicit_binding = bt_get (sp_bindings p)\<rparr>"

section \<open>HIR\<close>

datatype literal = LNil | LBool bool | LInt int | LFloat ustring | LString ustring

datatype pure_operator =
    OpEqual | OpNotEqual | OpLess | OpLessEqual | OpGreater | OpGreaterEqual
  | OpAnd | OpOr | OpNot | OpAdd | OpSubtract | OpMultiply | OpDivide

datatype 'e named_argument =
  NamedArgument (arg_name: ustring) (arg_values: "'e list") (arg_span: source_span)

record match_binding =
  mb_field :: ustring
  mb_binding :: ustring

datatype 'e match_case =
  MatchCase (case_variant: ustring) (case_bindings: "match_binding list") (case_body: 'e)
    (case_span: source_span)

datatype 'e par_branch =
  ParBranch (branch_name: ustring) (branch_body: 'e) (branch_span: source_span)

datatype 'e hir_kind =
    HLiteral literal
  | HReference ustring "ustring list option"
  | HList "'e list"
  | HDict "(ustring \<times> 'e) list"
  | HFromJson ty 'e
  | HToJson 'e
  | HRecord ustring "(ustring \<times> 'e) list"
  | HVariant ustring ustring "(ustring \<times> 'e) list"
  | HOptionSome 'e
  | HOptionNone ty
  | HResultOk 'e ty
  | HResultErr 'e ty
  | HEvidenceCandidate 'e 'e "'e list"
  | HOutcomeCandidate ustring 'e "'e list"
  | HContextTransaction 'e ustring
  | HGet 'e ustring
  | HDecode ty 'e
  | HIs ty 'e
  | HPure pure_operator "'e list"
  | HSeq "'e list"
  | HBind ustring 'e
  | HIf 'e 'e 'e
  | HMatch 'e "'e match_case list"
  | HFallback 'e 'e
  | HMap 'e ustring 'e
  | HCall ustring "'e named_argument list"
  | HFunctionApplication ustring "'e named_argument list" "ustring list" 'e
  | HInferBody 'e "ustring list" ty ustring
  | HPar "'e par_branch list"
  | HRun 'e
  | HHost ustring "'e named_argument list"

datatype hir_expr =
  HirExpr (hir_kind: "hir_expr hir_kind") (hir_ty: ty) (hir_effects: effect_set) (hir_span: source_span)

definition hir :: "hir_expr hir_kind \<Rightarrow> ty \<Rightarrow> effect_set \<Rightarrow> source_span \<Rightarrow> hir_expr" where
  "hir k t es sp = HirExpr k t es sp"

lemma hir_sel [simp]: "hir_kind (hir k t es sp) = k" "hir_ty (hir k t es sp) = t"
  "hir_effects (hir k t es sp) = es" "hir_span (hir k t es sp) = sp"
  by (simp_all add: hir_def)

record yao_program =
  language_version :: ustring
  owner :: evaluation_owner
  requirements :: requirements
  program_types :: type_definitions
  body :: hir_expr
  program_output :: ty
  program_effects :: effect_set
  program_canonical_source :: ustring
  source_hash :: ustring

end
