(* ===== verification/Yao_Value.thy ===== *)
theory Yao_Value
  imports Json_Value Yao_Hir Yao_Canonical
begin

text \<open>
  The transport representation of Yao values and its decoder (\<open>yao/src/eval.rs\<close>): the tagged
  objects under the key \<open>$yao\<close>, the read-only views the hosts use, and \<open>decode_value\<close>, which
  checks and normalises a value against a type. The handlers of the nominal and the tagged types
  take the recursive decoder as an argument; the congruence rules say on which values they call it.
\<close>

section \<open>Failures\<close>

text \<open>Positions in a JSON value and the errors of the JSON adapters (\<open>yao/src/json.rs\<close>).\<close>

datatype path_segment = PathField ustring | PathIndex nat

type_synonym json_path = "path_segment list"

datatype json_error =
    RecursiveJsonType ustring
  | UnknownJsonType ustring
  | NotJsonType ty
  | VisitFuel
  | ExpectedObject json_path json
  | ExpectedArray json_path json
  | ExpectedString json_path
  | ExpectedVariantName json_path
  | ExpectedCanonical json_path ty
  | ExpectedType json_path ty json
  | MissingField json_path
  | UnknownField json_path
  | UnknownVariant json_path ustring
  | InvalidCase json_path ty
  | MissingDefinition ustring

text \<open>The messages as data: what is formatted into the text, not the text.\<close>

datatype eval_message =
    EffectfulExpression effect_set
  | UnavailableBinding ustring
  | NoTypedField ustring
  | NoField ustring
  | InvalidFloatLiteral ustring
  | NonFiniteLiteral
  | OverwrittenBinding ustring
  | ConditionNotBool
  | NotAVariant
  | NoMatchCase ustring
  | VariantMissingField ustring ustring
  | MapNotList
  | ArgumentArity ustring ustring
  | MissingLinkedArgument ustring ustring
  | UnexpectedLinkedArgument ustring "ustring list"
  | EffectfulNode
  | RecordMissingField ustring
  | RecordUnknownFields "ustring list"
  | Incomparable
  | IntegerOverflow
  | NonNumber
  | DivisionByZero
  | NonFiniteResult
  | NonBoolOperand
  | OperandPanic
  | UnknownNamedType ustring
  | UnionWithoutVariant ustring
  | UnionUnknownVariant ustring ustring
  | NoFieldsObject
  | FieldCountMismatch
  | NamedMissingField ustring
  | SomeWithoutPayload
  | ResultWithoutPayload
  | TypeFailure json ty
  | JsonAdapter json_error

record eval_failure =
  failure_message :: eval_message
  failure_span :: source_span

definition failure :: "eval_message \<Rightarrow> source_span \<Rightarrow> eval_failure" where
  "failure m sp = \<lparr>failure_message = m, failure_span = sp\<rparr>"

definition type_failure :: "ty \<Rightarrow> json \<Rightarrow> source_span \<Rightarrow> eval_failure + 'a" where
  "type_failure target value sp = Inl (failure (TypeFailure value target) sp)"

lemma type_failure_not_Inr [simp]: "type_failure t v sp \<noteq> Inr w" "is_ok (type_failure t v sp) \<longleftrightarrow> False"
  by (simp_all add: type_failure_def)

section \<open>Tagged objects and views\<close>

definition yao_tag :: ustring where
  "yao_tag = lit ''$yao''"

definition tagged :: "(string \<times> json) list \<Rightarrow> json" where
  "tagged entries = JObject [(yao_tag, jobj entries)]"

definition jstr :: "string \<Rightarrow> json" where
  "jstr s = JString (lit s)"

definition yao_object :: "json \<Rightarrow> json_map option" where
  "yao_object value = Option.bind (jget value yao_tag) as_object"

text \<open>\<open>tag.get(key)?.as_str()?\<close>\<close>

definition tag_str :: "json_map \<Rightarrow> string \<Rightarrow> ustring option" where
  "tag_str tag key = Option.bind (bt_get tag (lit key)) as_str"

definition variant_parts :: "json \<Rightarrow> (ustring \<times> json_map) option" where
  "variant_parts value =
     Option.bind (yao_object value) (\<lambda>tag.
       Option.bind (tag_str tag ''kind'') (\<lambda>kind.
         if kind \<noteq> lit ''variant'' then None
         else Option.bind (tag_str tag ''variant'') (\<lambda>variant.
           Option.bind (Option.bind (bt_get tag (lit ''fields'')) as_object) (\<lambda>fs.
             Some (variant, fs)))))"

definition variant_view :: "json \<Rightarrow> (ustring \<times> json_map) option" where
  "variant_view value =
     Option.bind (variant_parts value) (\<lambda>(variant, fs). Some (variant, bt_from fs))"

definition structural_entry :: "ustring \<Rightarrow> json \<Rightarrow> json" where
  "structural_entry name value = jobj [(''name'', JString name), (''value'', value)]"

definition structural_record_value :: "(ustring \<times> json) list \<Rightarrow> json" where
  "structural_record_value fs =
     tagged [(''kind'', jstr ''structural_record''),
       (''fields'', JArray (map (\<lambda>(name, value). structural_entry name value) fs))]"

definition reference_value :: "ustring \<Rightarrow> ustring \<Rightarrow> json" where
  "reference_value kind ident =
     tagged [(''kind'', jstr ''ref''), (''ref_kind'', JString kind), (''id'', JString ident)]"

definition reference_view :: "json \<Rightarrow> (ustring \<times> ustring) option" where
  "reference_view value =
     Option.bind (yao_object value) (\<lambda>tag.
       Option.bind (tag_str tag ''kind'') (\<lambda>kind.
         if kind \<noteq> lit ''ref'' then None
         else Option.bind (tag_str tag ''ref_kind'') (\<lambda>ref_kind.
           Option.bind (tag_str tag ''id'') (\<lambda>ident. Some (ref_kind, ident)))))"

record evidence_candidate_view_data =
  ev_kind :: ustring
  ev_value :: json
  ev_refs :: "json list"

record outcome_candidate_view_data =
  oc_status :: ustring
  oc_value :: json
  oc_evidence :: "json list"

record context_transaction_view_data =
  ct_context :: json
  ct_canonical_source :: ustring

definition references_kind :: "string \<Rightarrow> json \<Rightarrow> bool" where
  "references_kind kind reference \<longleftrightarrow> map_option fst (reference_view reference) = Some (lit kind)"

text \<open>The shared opening of the three sealed views: a singleton object whose tag has the given
  number of entries and the given kind.\<close>

definition sealed_tag :: "nat \<Rightarrow> string \<Rightarrow> json \<Rightarrow> json_map option" where
  "sealed_tag n kind value =
     Option.bind (as_object value) (\<lambda>object.
       if length object \<noteq> 1 then None
       else Option.bind (yao_object value) (\<lambda>tag.
         if length tag \<noteq> n then None
         else Option.bind (tag_str tag ''kind'') (\<lambda>k. if k \<noteq> lit kind then None else Some tag)))"

definition evidence_candidate_view :: "json \<Rightarrow> evidence_candidate_view_data option" where
  "evidence_candidate_view value =
     Option.bind (sealed_tag 4 ''evidence_candidate'' value) (\<lambda>tag.
       Option.bind (tag_str tag ''evidence_kind'') (\<lambda>evidence_kind.
         if evidence_kind = [] then None
         else Option.bind (Option.bind (bt_get tag (lit ''refs'')) as_array) (\<lambda>refs.
           if list_ex (\<lambda>reference. \<not> references_kind ''Evidence'' reference) refs then None
           else Option.bind (bt_get tag (lit ''value'')) (\<lambda>v.
             Some \<lparr>ev_kind = evidence_kind, ev_value = v, ev_refs = refs\<rparr>))))"

definition outcome_statuses :: "ustring list" where
  "outcome_statuses = [lit ''succeeded'', lit ''failed'', lit ''blocked'']"

definition outcome_candidate_view :: "json \<Rightarrow> outcome_candidate_view_data option" where
  "outcome_candidate_view value =
     Option.bind (sealed_tag 4 ''outcome_candidate'' value) (\<lambda>tag.
       Option.bind (tag_str tag ''status'') (\<lambda>status.
         if status \<notin> set outcome_statuses then None
         else Option.bind (Option.bind (bt_get tag (lit ''evidence'')) as_array) (\<lambda>evidence.
           if list_ex (\<lambda>reference. \<not> references_kind ''Evidence'' reference) evidence then None
           else Option.bind (bt_get tag (lit ''value'')) (\<lambda>v.
             Some \<lparr>oc_status = status, oc_value = v, oc_evidence = evidence\<rparr>))))"

definition context_transaction_view :: "json \<Rightarrow> context_transaction_view_data option" where
  "context_transaction_view value =
     Option.bind (sealed_tag 3 ''context_transaction'' value) (\<lambda>tag.
       Option.bind (bt_get tag (lit ''context'')) (\<lambda>context.
         if \<not> references_kind ''Context'' context then None
         else Option.bind (tag_str tag ''canonical_source'') (\<lambda>source.
           case parse_one source default_parse_limits of
             Inl _ \<Rightarrow> None
           | Inr expression \<Rightarrow>
               (case as_list expression of
                  None \<Rightarrow> None
                | Some items \<Rightarrow>
                    if Option.bind (case items of [] \<Rightarrow> None | e # _ \<Rightarrow> Some e) as_symbol
                         \<noteq> Some (lit ''context-tx'')
                       \<or> canonical_source expression \<noteq> source
                    then None
                    else Some \<lparr>ct_context = context, ct_canonical_source = source\<rparr>))))"

definition option_some_value :: "json \<Rightarrow> json" where
  "option_some_value v = tagged [(''kind'', jstr ''option''), (''variant'', jstr ''some''), (''value'', v)]"

definition option_none_value :: json where
  "option_none_value = tagged [(''kind'', jstr ''option''), (''variant'', jstr ''none'')]"

definition optional_reference_value :: "ustring \<Rightarrow> ustring option \<Rightarrow> json" where
  "optional_reference_value kind ident =
     (case ident of
        Some i \<Rightarrow> option_some_value (reference_value kind i)
      | None \<Rightarrow> option_none_value)"

definition structural_fields :: "json \<Rightarrow> json_map option" where
  "structural_fields value =
     Option.bind (yao_object value) (\<lambda>tag.
       Option.bind (tag_str tag ''kind'') (\<lambda>kind.
         if kind \<noteq> lit ''structural_record'' then None
         else Option.bind (Option.bind (bt_get tag (lit ''fields'')) as_array) (\<lambda>entries.
           option_fold (\<lambda>out entry.
             Option.bind (Option.bind (jget entry (lit ''name'')) as_str) (\<lambda>name.
               Option.bind (jget entry (lit ''value'')) (\<lambda>v. Some (bt_insert name v out))))
             [] entries)))"

definition structural_record_field :: "json \<Rightarrow> ustring \<Rightarrow> json option" where
  "structural_record_field value name =
     Option.bind (yao_object value) (\<lambda>tag.
       Option.bind (tag_str tag ''kind'') (\<lambda>kind.
         if kind \<noteq> lit ''structural_record'' then None
         else Option.bind (Option.bind (bt_get tag (lit ''fields'')) as_array) (\<lambda>entries.
           Option.bind (find (\<lambda>entry. Option.bind (jget entry (lit ''name'')) as_str = Some name) entries)
             (\<lambda>entry. jget entry (lit ''value'')))))"

section \<open>Sizes of what the views return\<close>

lemma yao_object_size: "yao_object v = Some tag \<Longrightarrow> size (JObject tag) < size v"
  by (auto simp: yao_object_def bind_eq_Some_conv dest: size_jget)

lemma option_fold_bt_size:
  assumes "option_fold (\<lambda>out entry.
      Option.bind (Option.bind (jget entry k1) as_str) (\<lambda>name.
        Option.bind (jget entry k2) (\<lambda>v. Some (bt_insert name v out)))) out entries = Some m"
    and "\<And>k v. bt_get out k = Some v \<Longrightarrow> size v < n"
    and "\<And>e. e \<in> set entries \<Longrightarrow> size e < n"
  shows "bt_get m k = Some v \<Longrightarrow> size v < n"
  using assms
proof (induction entries arbitrary: out)
  case Nil
  then show ?case by simp
next
  case (Cons e es)
  obtain name w where nw: "jget e k2 = Some w"
    "option_fold (\<lambda>out entry.
      Option.bind (Option.bind (jget entry k1) as_str) (\<lambda>name.
        Option.bind (jget entry k2) (\<lambda>v. Some (bt_insert name v out)))) (bt_insert name w out) es = Some m"
    using Cons.prems(2) by (auto simp: bind_eq_Some_conv split: option.splits)
  have "size w < n" using size_jget [OF nw(1)] Cons.prems(4) [of e] by simp
  then show ?case
    by (intro Cons.IH [OF Cons.prems(1) nw(2)]) (auto split: if_splits intro: Cons.prems)
qed

lemma structural_fields_size:
  assumes "structural_fields value = Some m" and "bt_get m k = Some v"
  shows "size v < size value"
proof -
  obtain tag entries where t: "yao_object value = Some tag" "bt_get tag (lit ''fields'') = Some (JArray entries)"
    and f: "option_fold (\<lambda>out entry.
             Option.bind (Option.bind (jget entry (lit ''name'')) as_str) (\<lambda>name.
               Option.bind (jget entry (lit ''value'')) (\<lambda>v. Some (bt_insert name v out))))
             [] entries = Some m"
    using assms(1) by (auto simp: structural_fields_def bind_eq_Some_conv split: if_splits)
  have "size (JArray entries) < size value"
    using size_bt_get [OF t(2)] yao_object_size [OF t(1)] by linarith
  with assms(2) show ?thesis
    by (rule_tac option_fold_bt_size [OF f]) (auto dest: size_json_list)
qed

lemma structural_record_field_size:
  "structural_record_field value name = Some v \<Longrightarrow> size v < size value"
proof -
  assume "structural_record_field value name = Some v"
  then obtain tag entries entry where t: "yao_object value = Some tag"
      "bt_get tag (lit ''fields'') = Some (JArray entries)" "entry \<in> set entries" "jget entry (lit ''value'') = Some v"
    by (auto simp: structural_record_field_def bind_eq_Some_conv find_Some_iff split: if_splits)
      (metis nth_mem)
  from size_jget [OF t(4)] size_json_list [OF t(3)] size_bt_get [OF t(2)] yao_object_size [OF t(1)]
  show ?thesis by linarith
qed

section \<open>Decoder\<close>

text \<open>A loop that takes each field of a list out of an object and converts it.\<close>

fun take_fields ::
  "(ustring \<Rightarrow> ty \<Rightarrow> json \<Rightarrow> 'e + json) \<Rightarrow> (ustring \<Rightarrow> 'e) \<Rightarrow> json_map \<Rightarrow> (ustring \<times> ty) list
    \<Rightarrow> 'e + (json_map \<times> (ustring \<times> json) list)" where
  "take_fields rec miss object [] = Inr (object, [])"
| "take_fields rec miss object ((name, t) # fs) =
     and_then (ok_or (bt_get object name) (miss name)) (\<lambda>fv.
       and_then (rec name t fv) (\<lambda>v.
         map_ok (\<lambda>(rest, out). (rest, (name, v) # out))
           (take_fields rec miss (bt_remove name object) fs)))"

lemma take_fields_cong [fundef_cong]:
  assumes "miss = miss'" and "object = object'" and "fs = fields'"
    and "\<And>name t v. (name, t) \<in> set fields' \<Longrightarrow> bt_get object' name = Some v \<Longrightarrow> rec name t v = rec' name t v"
  shows "take_fields rec miss object fs = take_fields rec' miss' object' fields'"
  unfolding assms(1-3) using assms(4)
proof (induction fields' arbitrary: object')
  case Nil
  then show ?case by simp
next
  case (Cons f fs)
  obtain name t where f: "f = (name, t)" by fastforce
  have "take_fields rec miss' (bt_remove name object') fs = take_fields rec' miss' (bt_remove name object') fs"
    by (rule Cons.IH) (auto split: if_splits intro: Cons.prems)
  moreover have "rec name t v = rec' name t v" if "bt_get object' name = Some v" for v
    using that f by (auto intro: Cons.prems)
  ultimately show ?case by (auto simp: f intro!: and_then_cong)
qed

definition validate_named_fields ::
  "(ty \<Rightarrow> json \<Rightarrow> eval_failure + json) \<Rightarrow> field_definition list \<Rightarrow> json_map \<Rightarrow> source_span
    \<Rightarrow> eval_failure + unit" where
  "validate_named_fields rec fds tag sp =
     and_then (ok_or (Option.bind (bt_get tag (lit ''fields'')) as_object) (failure NoFieldsObject sp)) (\<lambda>fs.
       if length fs \<noteq> length fds then Inl (failure FieldCountMismatch sp)
       else map_ok (\<lambda>_. ()) (try_map (\<lambda>d.
         and_then (ok_or (bt_get fs (fd_name d)) (failure (NamedMissingField (fd_name d)) sp))
           (\<lambda>v. rec (fd_ty d) v)) fds))"

lemma validate_named_fields_cong [fundef_cong]:
  assumes "fds = fds'" and "tag = tag'" and "sp = sp'"
    and "\<And>t v. size v < size (JObject tag') \<Longrightarrow> rec t v = rec' t v"
  shows "validate_named_fields rec fds tag sp = validate_named_fields rec' fds' tag' sp'"
  unfolding assms(1-3) validate_named_fields_def
proof (intro and_then_cong refl if_cong arg_cong [where f = "map_ok (\<lambda>_. ())"] try_map_cong, goal_cases)
  case (1 fs d v)
  then have "size v < size (JObject tag')"
    by (auto simp: bind_eq_Some_conv dest!: size_bt_get)
  then show ?case by (rule assms(4))
qed

definition decode_named ::
  "(ty \<Rightarrow> json \<Rightarrow> eval_failure + json) \<Rightarrow> ustring \<Rightarrow> json \<Rightarrow> type_definitions \<Rightarrow> source_span
    \<Rightarrow> eval_failure + json" where
  "decode_named rec name value definitions sp =
     and_then (ok_or (bt_get definitions name) (failure (UnknownNamedType name) sp)) (\<lambda>definition.
       case yao_object value of
         None \<Rightarrow> type_failure (TNamed name) value sp
       | Some tag \<Rightarrow>
           if tag_str tag ''type'' \<noteq> Some name then type_failure (TNamed name) value sp
           else (case definition of
              Record _ fs _ \<Rightarrow>
                if tag_str tag ''kind'' \<noteq> Some (lit ''record'') then type_failure (TNamed name) value sp
                else map_ok (\<lambda>_. value) (validate_named_fields rec fs tag sp)
            | Union _ variants _ \<Rightarrow>
                if tag_str tag ''kind'' \<noteq> Some (lit ''variant'') then type_failure (TNamed name) value sp
                else and_then (ok_or (tag_str tag ''variant'') (failure (UnionWithoutVariant name) sp)) (\<lambda>variant.
                  and_then (ok_or (find (\<lambda>item. vd_name item = variant) variants)
                      (failure (UnionUnknownVariant name variant) sp)) (\<lambda>d.
                    map_ok (\<lambda>_. value) (validate_named_fields rec (vd_fields d) tag sp)))))"

lemma decode_named_cong [fundef_cong]:
  assumes "name = name'" and "value = value'" and "definitions = definitions'" and "sp = sp'"
    and "\<And>t v. size v < size value' \<Longrightarrow> rec t v = rec' t v"
  shows "decode_named rec name value definitions sp = decode_named rec' name' value' definitions' sp'"
proof -
  have "validate_named_fields rec fds tag sp' = validate_named_fields rec' fds tag sp'"
    if "yao_object value' = Some tag" for fds tag
    using yao_object_size [OF that] by (intro validate_named_fields_cong refl assms(5)) simp
  then show ?thesis
    unfolding assms(1-4) decode_named_def
    by (auto intro!: and_then_cong split: option.splits type_definition.splits)
qed

definition decode_tagged_unary ::
  "(ty \<Rightarrow> json \<Rightarrow> eval_failure + json) \<Rightarrow> string \<Rightarrow> ty \<Rightarrow> json \<Rightarrow> source_span \<Rightarrow> eval_failure + json" where
  "decode_tagged_unary rec kind inner value sp =
     (case yao_object value of
        None \<Rightarrow> type_failure (TOption inner) value sp
      | Some tag \<Rightarrow>
          if tag_str tag ''kind'' \<noteq> Some (lit kind) then type_failure (TOption inner) value sp
          else if tag_str tag ''variant'' = Some (lit ''none'') then Inr value
          else if tag_str tag ''variant'' = Some (lit ''some'') then
            and_then (ok_or (bt_get tag (lit ''value'')) (failure SomeWithoutPayload sp)) (\<lambda>v.
              map_ok (\<lambda>_. value) (rec inner v))
          else type_failure (TOption inner) value sp)"

definition decode_result ::
  "(ty \<Rightarrow> json \<Rightarrow> eval_failure + json) \<Rightarrow> ty \<Rightarrow> ty \<Rightarrow> json \<Rightarrow> source_span \<Rightarrow> eval_failure + json" where
  "decode_result rec ok err value sp =
     (case yao_object value of
        None \<Rightarrow> type_failure (TResult ok err) value sp
      | Some tag \<Rightarrow>
          if tag_str tag ''kind'' \<noteq> Some (lit ''result'') then type_failure (TResult ok err) value sp
          else and_then (ok_or (bt_get tag (lit ''value'')) (failure ResultWithoutPayload sp)) (\<lambda>payload.
            if tag_str tag ''variant'' = Some (lit ''ok'') then map_ok (\<lambda>_. value) (rec ok payload)
            else if tag_str tag ''variant'' = Some (lit ''err'') then map_ok (\<lambda>_. value) (rec err payload)
            else type_failure (TResult ok err) value sp))"

lemma tag_payload_size:
  "yao_object value = Some tag \<Longrightarrow> bt_get tag k = Some v \<Longrightarrow> size v < size value"
  using yao_object_size size_bt_get by fastforce

lemma decode_tagged_unary_cong [fundef_cong]:
  assumes "kind = kind'" and "inner = inner'" and "value = value'" and "sp = sp'"
    and "\<And>v. size v < size value' \<Longrightarrow> rec inner' v = rec' inner' v"
  shows "decode_tagged_unary rec kind inner value sp = decode_tagged_unary rec' kind' inner' value' sp'"
  unfolding assms(1-4) decode_tagged_unary_def
  by (auto intro!: and_then_cong arg_cong [where f = "map_ok (\<lambda>_. value')"] assms(5)
      dest: tag_payload_size split: option.splits)

lemma decode_result_cong [fundef_cong]:
  assumes "ok = ok'" and "err = err'" and "value = value'" and "sp = sp'"
    and "\<And>t v. size v < size value' \<Longrightarrow> rec t v = rec' t v"
  shows "decode_result rec ok err value sp = decode_result rec' ok' err' value' sp'"
  unfolding assms(1-4) decode_result_def
  by (auto intro!: and_then_cong arg_cong [where f = "map_ok (\<lambda>_. value')"] assms(5)
      dest: tag_payload_size split: option.splits)

function decode_value :: "ty \<Rightarrow> json \<Rightarrow> type_definitions \<Rightarrow> source_span \<Rightarrow> eval_failure + json" where
  "decode_value target value definitions sp =
     (let accept = (\<lambda>b. if b then Inr value else type_failure target value sp) in
      case target of
        TJson \<Rightarrow> Inr value
      | TNil \<Rightarrow> accept (is_null value)
      | TBool \<Rightarrow> accept (as_bool value \<noteq> None)
      | TInt \<Rightarrow> accept (as_i64 value \<noteq> None)
      | TFloat \<Rightarrow> accept (as_f64 value \<noteq> None)
      | TString \<Rightarrow> accept (as_str value \<noteq> None)
      | TBytes \<Rightarrow> accept (as_str value \<noteq> None)
      | TList element \<Rightarrow>
          (case value of
             JArray values \<Rightarrow> map_ok JArray (try_map (\<lambda>v. decode_value element v definitions sp) values)
           | _ \<Rightarrow> type_failure target value sp)
      | TMap element \<Rightarrow>
          (case value of
             JObject values \<Rightarrow>
               map_ok (\<lambda>kvs. JObject (bt_from kvs))
                 (try_map (\<lambda>(name, v). map_ok (\<lambda>w. (name, w)) (decode_value element v definitions sp)) values)
           | _ \<Rightarrow> type_failure target value sp)
      | TStructuralRecord fs \<Rightarrow>
          (case structural_fields value of
             Some encoded \<Rightarrow>
               map_ok structural_record_value
                 (try_map (\<lambda>(name, t).
                   and_then (ok_or (bt_get encoded name) (failure (RecordMissingField name) sp))
                     (\<lambda>fv. map_ok (\<lambda>w. (name, w)) (decode_value t fv definitions sp))) fs)
           | None \<Rightarrow>
               (case value of
                  JObject object \<Rightarrow>
                    and_then (take_fields (\<lambda>name t v. decode_value t v definitions sp) (\<lambda>name. failure (RecordMissingField name) sp)
                        object fs)
                      (\<lambda>(rest, out).
                         if rest \<noteq> [] then Inl (failure (RecordUnknownFields (map fst rest)) sp)
                         else Inr (structural_record_value out))
                | _ \<Rightarrow> type_failure target value sp))
      | TOption inner \<Rightarrow> decode_tagged_unary (\<lambda>t v. decode_value t v definitions sp) ''option'' inner value sp
      | TResult ok err \<Rightarrow> decode_result (\<lambda>t v. decode_value t v definitions sp) ok err value sp
      | TEvidenceCandidate \<Rightarrow> accept (evidence_candidate_view value \<noteq> None)
      | TOutcomeCandidate \<Rightarrow> accept (outcome_candidate_view value \<noteq> None)
      | TContextTransaction \<Rightarrow> accept (context_transaction_view value \<noteq> None)
      | TNamed name \<Rightarrow> decode_named (\<lambda>t v. decode_value t v definitions sp) name value definitions sp
      | TRef kind \<Rightarrow>
          (case yao_object value of
             None \<Rightarrow> type_failure target value sp
           | Some tag \<Rightarrow> accept (tag_str tag ''kind'' = Some (lit ''ref'') \<and>
               tag_str tag ''ref_kind'' = Some kind \<and> tag_str tag ''id'' \<noteq> None))
      | TProgram _ _ \<Rightarrow>
          (case yao_object value of
             None \<Rightarrow> type_failure target value sp
           | Some tag \<Rightarrow> accept (tag_str tag ''kind'' = Some (lit ''program'') \<and> tag_str tag ''hash'' \<noteq> None)))"
  by pat_completeness auto
termination
proof (relation "measure (\<lambda>(t, v, ds, sp). size v)")
qed (auto dest: size_json_list size_json_map size_bt_get structural_fields_size)

declare decode_value.simps [simp del]

lemma decode_simps:
  "decode_value TJson v ds sp = Inr v"
  "decode_value TNil v ds sp = (if is_null v then Inr v else type_failure TNil v sp)"
  "decode_value TBool v ds sp = (if as_bool v \<noteq> None then Inr v else type_failure TBool v sp)"
  "decode_value TInt v ds sp = (if as_i64 v \<noteq> None then Inr v else type_failure TInt v sp)"
  "decode_value TFloat v ds sp = (if as_f64 v \<noteq> None then Inr v else type_failure TFloat v sp)"
  "decode_value TString v ds sp = (if as_str v \<noteq> None then Inr v else type_failure TString v sp)"
  "decode_value TBytes v ds sp = (if as_str v \<noteq> None then Inr v else type_failure TBytes v sp)"
  "decode_value (TOption t) v ds sp =
     decode_tagged_unary (\<lambda>t v. decode_value t v ds sp) ''option'' t v sp"
  "decode_value (TResult t u) v ds sp = decode_result (\<lambda>t v. decode_value t v ds sp) t u v sp"
  "decode_value (TNamed n) v ds sp = decode_named (\<lambda>t v. decode_value t v ds sp) n v ds sp"
  "decode_value TEvidenceCandidate v ds sp =
     (if evidence_candidate_view v \<noteq> None then Inr v else type_failure TEvidenceCandidate v sp)"
  "decode_value TOutcomeCandidate v ds sp =
     (if outcome_candidate_view v \<noteq> None then Inr v else type_failure TOutcomeCandidate v sp)"
  "decode_value TContextTransaction v ds sp =
     (if context_transaction_view v \<noteq> None then Inr v else type_failure TContextTransaction v sp)"
  by (simp_all add: decode_value.simps Let_def)

section \<open>Constructors against views\<close>

definition tag_map :: "(string \<times> json) list \<Rightarrow> json_map" where
  "tag_map entries = bt_from (map (\<lambda>(k, v). (lit k, v)) entries)"

lemma tag_map_get [simp]: "bt_get (tag_map es) (lit k) = map_of (rev es) k"
  by (simp add: tag_map_def bt_get_lits)

lemma tag_map_str [simp]: "tag_str (tag_map es) k = Option.bind (map_of (rev es) k) as_str"
  by (simp add: tag_str_def)

lemma jobj_tag_map: "jobj es = JObject (tag_map es)"
  by (simp add: jobj_def tag_map_def)

lemma jget_jobj [simp]: "jget (jobj es) (lit k) = map_of (rev es) k"
  by (simp add: jobj_tag_map)

lemma yao_object_tagged [simp]: "yao_object (tagged es) = Some (tag_map es)"
  by (simp add: yao_object_def tagged_def bt_get_Cons jobj_tag_map)

lemma length_tag_map: "distinct (map fst es) \<Longrightarrow> length (tag_map es) = length es"
proof -
  assume d: "distinct (map fst es)"
  have "fst ` set (map (\<lambda>(k, v). (lit k, v)) es) = lit ` fst ` set es"
    by (force simp: image_iff)
  moreover have "card (lit ` fst ` set es) = card (fst ` set es)"
    by (rule card_image) (auto intro: inj_onI)
  moreover have "card (fst ` set es) = length es"
    using distinct_card [OF d] by simp
  ultimately show ?thesis by (simp add: tag_map_def bt_from_length)
qed

lemma as_object_tagged: "as_object (tagged es) = Some [(yao_tag, JObject (tag_map es))]"
  by (simp add: tagged_def jobj_tag_map)

lemma as_str_jstr [simp]: "as_str (jstr s) = Some (lit s)"
  by (simp add: jstr_def)

lemma sealed_tag_tagged:
  "distinct (map fst es) \<Longrightarrow> map_of (rev es) ''kind'' = Some (jstr k) \<Longrightarrow>
   sealed_tag n k (tagged es) = (if length es = n then Some (tag_map es) else None)"
  by (simp add: sealed_tag_def length_tag_map as_object_tagged del: as_object_Some)

lemma reference_view_value: "reference_view (reference_value k i) = Some (k, i)"
  by (simp add: reference_view_def reference_value_def)

lemma structural_entry_get [simp]:
  "jget (structural_entry n v) (lit ''name'') = Some (JString n)"
  "jget (structural_entry n v) (lit ''value'') = Some v"
  by (simp_all add: structural_entry_def)

lemma structural_fields_value: "structural_fields (structural_record_value fs) = Some (bt_from fs)"
proof -
  have "option_fold (\<lambda>out entry.
             Option.bind (Option.bind (jget entry (lit ''name'')) as_str) (\<lambda>name.
               Option.bind (jget entry (lit ''value'')) (\<lambda>v. Some (bt_insert name v out))))
             m (map (\<lambda>(n, v). structural_entry n v) fs) = Some (fold (\<lambda>(k, v) m. bt_insert k v m) fs m)" for m
    by (induction fs arbitrary: m) auto
  then show ?thesis
    by (simp add: structural_fields_def structural_record_value_def bt_from_def)
qed

lemma structural_record_field_value:
  "structural_record_field (structural_record_value fs) n = map_of fs n"
proof -
  have "Option.bind (find (\<lambda>entry. Option.bind (jget entry (lit ''name'')) as_str = Some n)
      (map (\<lambda>(n, v). structural_entry n v) fs)) (\<lambda>entry. jget entry (lit ''value'')) = map_of fs n"
    by (induction fs) auto
  then show ?thesis
    by (simp add: structural_record_field_def structural_record_value_def)
qed

end
