(* ===== verification/Yao_Json.thy ===== *)
theory Yao_Json
  imports Yao_Value
begin

text \<open>
  The adapters between ordinary JSON and Yao values (\<open>yao/src/json.rs\<close>): the check that a type may
  cross the boundary at all (\<open>validate_json_type\<close>) and the conversions in both directions
  (\<open>from_json\<close>, \<open>to_json\<close>, both instances of \<open>convert\<close>).
\<close>

section \<open>Types that may cross the boundary\<close>

fun definition_fields :: "type_definition \<Rightarrow> field_definition list" where
  "definition_fields (Record _ fs _) = fs"
| "definition_fields (Union _ variants _) = concat (map vd_fields variants)"

text \<open>
  The depth-first search \<open>visit\<close>, threading its two sets. The first argument bounds the nesting of
  named types; \<open>validate_json_type\<close> passes one more than the number of definitions, which
  \<open>visit_fuel\<close> below shows is never exhausted.
\<close>

function visit ::
  "nat \<Rightarrow> ty \<Rightarrow> type_definitions \<Rightarrow> ustring list \<times> ustring list
    \<Rightarrow> json_error + (ustring list \<times> ustring list)" where
  "visit fuel t defs (stack, finished) =
     (case t of
        TNil \<Rightarrow> Inr (stack, finished)
      | TBool \<Rightarrow> Inr (stack, finished)
      | TInt \<Rightarrow> Inr (stack, finished)
      | TFloat \<Rightarrow> Inr (stack, finished)
      | TString \<Rightarrow> Inr (stack, finished)
      | TBytes \<Rightarrow> Inr (stack, finished)
      | TJson \<Rightarrow> Inr (stack, finished)
      | TList inner \<Rightarrow> visit fuel inner defs (stack, finished)
      | TMap inner \<Rightarrow> visit fuel inner defs (stack, finished)
      | TOption inner \<Rightarrow> visit fuel inner defs (stack, finished)
      | TResult ok err \<Rightarrow> and_then (visit fuel ok defs (stack, finished)) (\<lambda>st. visit fuel err defs st)
      | TStructuralRecord fs \<Rightarrow> try_fold (\<lambda>st (name, u). visit fuel u defs st) (stack, finished) fs
      | TNamed name \<Rightarrow>
          if name \<in> set finished then Inr (stack, finished)
          else if name \<in> set stack then Inl (RecursiveJsonType name)
          else and_then (ok_or (bt_get defs name) (UnknownJsonType name)) (\<lambda>d.
            case fuel of
              0 \<Rightarrow> Inl VisitFuel
            | Suc fuel' \<Rightarrow>
                and_then (try_fold (\<lambda>st f. visit fuel' (fd_ty f) defs st)
                    (bs_insert name stack, finished) (definition_fields d))
                  (\<lambda>(stack', finished'). Inr (bs_remove name stack', bs_insert name finished')))
      | _ \<Rightarrow> Inl (NotJsonType t))"
  by pat_completeness auto
termination
  by (relation "measures [\<lambda>(fuel, t, defs, st). fuel, \<lambda>(fuel, t, defs, st). size t]")
    (auto dest: size_field_type)

declare visit.simps [simp del]

definition validate_json_type :: "ty \<Rightarrow> type_definitions \<Rightarrow> json_error + unit" where
  "validate_json_type t defs = map_ok (\<lambda>_. ()) (visit (Suc (length defs)) t defs ([], []))"

section \<open>Conversion\<close>

definition field_path :: "json_path \<Rightarrow> ustring \<Rightarrow> json_path" where
  "field_path path name = path @ [PathField name]"

definition json_object :: "json \<Rightarrow> json_path \<Rightarrow> json_error + json_map" where
  "json_object value path =
     (case value of JObject m \<Rightarrow> Inr m | other \<Rightarrow> Inl (ExpectedObject path other))"

definition take_field :: "json_map \<Rightarrow> ustring \<Rightarrow> json_path \<Rightarrow> json_error + (json \<times> json_map)" where
  "take_field m name path =
     map_ok (\<lambda>v. (v, bt_remove name m)) (ok_or (bt_get m name) (MissingField (field_path path name)))"

definition empty_fields :: "json_map \<Rightarrow> json_path \<Rightarrow> json_error + unit" where
  "empty_fields m path =
     (case m of [] \<Rightarrow> Inr () | (key, _) # _ \<Rightarrow> Inl (UnknownField (field_path path key)))"

definition transform_fields ::
  "(ty \<Rightarrow> json \<Rightarrow> json_path \<Rightarrow> json_error + json) \<Rightarrow> (ustring \<times> ty) list \<Rightarrow> json \<Rightarrow> json_path
    \<Rightarrow> json_error + json" where
  "transform_fields rec fs value path =
     and_then (json_object value path) (\<lambda>input.
       and_then (take_fields (\<lambda>name t v. rec t v (field_path path name))
           (\<lambda>name. MissingField (field_path path name)) input fs) (\<lambda>(rest, out).
         and_then (empty_fields rest path) (\<lambda>_. Inr (JObject (bt_from out)))))"

lemma json_object_Inr [simp]: "json_object v p = Inr m \<longleftrightarrow> v = JObject m"
  by (cases v) (auto simp: json_object_def)

lemma transform_fields_cong [fundef_cong]:
  assumes "fs = fs'" and "value = value'" and "path = path'"
    and "\<And>t v p m k. value' = JObject m \<Longrightarrow> (k, v) \<in> set m \<Longrightarrow> rec t v p = rec' t v p"
  shows "transform_fields rec fs value path = transform_fields rec' fs' value' path'"
  unfolding assms(1-3) transform_fields_def
  by (intro and_then_cong refl take_fields_cong) (auto dest: bt_get_in_set intro: assms(4))

text \<open>The part of the \<open>Named\<close> branch before its fields: the variant and the value of the fields.\<close>

definition named_envelope ::
  "ustring \<Rightarrow> type_definition \<Rightarrow> json \<Rightarrow> type_definitions \<Rightarrow> source_span \<Rightarrow> bool \<Rightarrow> json_path
    \<Rightarrow> json_error + (ustring option \<times> json)" where
  "named_envelope name d value defs sp outward path =
     (if outward then
        and_then (map_err (\<lambda>_. ExpectedCanonical path (TNamed name)) (decode_value (TNamed name) value defs sp)) (\<lambda>_.
          let tag = jindex value yao_tag in
          Inr (as_str (jindex tag (lit ''variant'')), jindex tag (lit ''fields'')))
      else
        (case d of
           Union _ _ _ \<Rightarrow>
             and_then (json_object value path) (\<lambda>envelope.
               and_then (take_field envelope (lit ''case'') path) (\<lambda>(c, envelope).
                 and_then (ok_or (as_str c) (ExpectedVariantName (field_path path (lit ''case'')))) (\<lambda>variant.
                   and_then (take_field envelope (lit ''fields'') path) (\<lambda>(fs, envelope).
                     and_then (empty_fields envelope path) (\<lambda>_. Inr (Some variant, fs))))))
         | Record _ _ _ \<Rightarrow> Inr (None, value)))"

definition named_fields ::
  "ustring \<Rightarrow> type_definition \<Rightarrow> ustring option \<Rightarrow> json_path \<Rightarrow> json_error + field_definition list" where
  "named_fields name d variant path =
     (case d of
        Record _ fs _ \<Rightarrow> Inr fs
      | Union _ variants _ \<Rightarrow>
          map_ok vd_fields (ok_or (find (\<lambda>item. Some (vd_name item) = variant) variants)
            (UnknownVariant (field_path path (lit ''case'')) name)))"

definition named_result :: "ustring \<Rightarrow> ustring option \<Rightarrow> json \<Rightarrow> bool \<Rightarrow> json" where
  "named_result name variant fs outward =
     (if outward then
        (case variant of
           Some v \<Rightarrow> jobj [(''case'', JString v), (''fields'', fs)]
         | None \<Rightarrow> fs)
      else
        (case variant of
           Some v \<Rightarrow> tagged [(''kind'', jstr ''variant''), (''type'', JString name),
               (''variant'', JString v), (''fields'', fs)]
         | None \<Rightarrow> tagged [(''kind'', jstr ''record''), (''type'', JString name), (''fields'', fs)]))"

text \<open>The object whose fields a structural record converts, and the result of the branch.\<close>

definition structural_input ::
  "(ustring \<times> ty) list \<Rightarrow> json \<Rightarrow> type_definitions \<Rightarrow> source_span \<Rightarrow> bool \<Rightarrow> json_path
    \<Rightarrow> json_error + json" where
  "structural_input fs value defs sp outward path =
     (if outward then
        map_ok (\<lambda>_. JObject (bt_from (map (\<lambda>(name, _).
            (name, case structural_record_field value name of Some w \<Rightarrow> w | None \<Rightarrow> JNull)) fs)))
          (map_err (\<lambda>_. ExpectedCanonical path (TStructuralRecord fs))
            (decode_value (TStructuralRecord fs) value defs sp))
      else Inr value)"

definition structural_result :: "json \<Rightarrow> bool \<Rightarrow> json" where
  "structural_result fs outward =
     (if outward then fs
      else structural_record_value (case fs of JObject m \<Rightarrow> m | _ \<Rightarrow> []))"

text \<open>The part of the \<open>Option\<close> and \<open>Result\<close> branches before the payload: the case and what is
  left of the envelope; then the type of the payload.\<close>

definition tagged_envelope ::
  "ty \<Rightarrow> json \<Rightarrow> type_definitions \<Rightarrow> source_span \<Rightarrow> bool \<Rightarrow> json_path \<Rightarrow> json_error + (ustring \<times> json_map)" where
  "tagged_envelope t value defs sp outward path =
     and_then
       (if outward then
          and_then (map_err (\<lambda>_. ExpectedCanonical path t) (decode_value t value defs sp)) (\<lambda>_.
            and_then (json_object (jindex value yao_tag) path) (\<lambda>tag.
              and_then (take_field (bt_remove (lit ''kind'') tag) (lit ''variant'') path) (\<lambda>(c, tag).
                Inr (bt_insert (lit ''case'') c tag))))
        else json_object value path)
       (\<lambda>envelope.
          and_then (take_field envelope (lit ''case'') path) (\<lambda>(c, envelope).
            map_ok (\<lambda>s. (s, envelope))
              (ok_or (as_str c) (ExpectedString (field_path path (lit ''case''))))))"

definition payload_type :: "ty \<Rightarrow> ustring \<Rightarrow> json_path \<Rightarrow> json_error + ty option" where
  "payload_type t c path =
     (case t of
        TOption inner \<Rightarrow>
          if c = lit ''none'' then Inr None
          else if c = lit ''some'' then Inr (Some inner)
          else Inl (InvalidCase (field_path path (lit ''case'')) t)
      | TResult ok err \<Rightarrow>
          if c = lit ''ok'' then Inr (Some ok)
          else if c = lit ''err'' then Inr (Some err)
          else Inl (InvalidCase (field_path path (lit ''case'')) t)
      | _ \<Rightarrow> Inl (InvalidCase (field_path path (lit ''case'')) t))"

definition tagged_result :: "string \<Rightarrow> ustring \<Rightarrow> json option \<Rightarrow> bool \<Rightarrow> json" where
  "tagged_result kind c payload outward =
     (let payload_entry = (case payload of Some v \<Rightarrow> [(''value'', v)] | None \<Rightarrow> []) in
      if outward then jobj ((''case'', JString c) # payload_entry)
      else tagged ((''variant'', JString c) # payload_entry @ [(''kind'', jstr kind)]))"

definition transform_tagged ::
  "(ty \<Rightarrow> json \<Rightarrow> json_path \<Rightarrow> json_error + json) \<Rightarrow> string \<Rightarrow> ty \<Rightarrow> json \<Rightarrow> type_definitions \<Rightarrow> source_span
    \<Rightarrow> bool \<Rightarrow> json_path \<Rightarrow> json_error + json" where
  "transform_tagged rec kind t value defs sp outward path =
     and_then (tagged_envelope t value defs sp outward path) (\<lambda>(c, envelope).
       and_then (payload_type t c path) (\<lambda>inner.
         case inner of
           None \<Rightarrow>
             and_then (empty_fields envelope path) (\<lambda>_. Inr (tagged_result kind c None outward))
         | Some u \<Rightarrow>
             and_then (take_field envelope (lit ''value'') path) (\<lambda>(payload, envelope).
               and_then (rec u payload (field_path path (lit ''value''))) (\<lambda>w.
                 and_then (empty_fields envelope path) (\<lambda>_.
                   Inr (tagged_result kind c (Some w) outward))))))"

lemma take_field_Inr: "take_field m name path = Inr (v, m') \<longleftrightarrow> bt_get m name = Some v \<and> m' = bt_remove name m"
  by (auto simp: take_field_def map_ok_Inr_iff)

lemma jindex_size: "jindex v k = JObject m \<Longrightarrow> size (JObject m) < size v"
  by (auto simp: jindex_def split: option.splits dest: size_jget)

lemma tagged_envelope_size:
  assumes "tagged_envelope t value defs sp outward path = Inr (c, envelope)" and "bt_get envelope k = Some v"
  shows "size v < size value"
proof -
  have "\<exists>m. bt_get m k = Some v \<and> (JObject m = value \<or> jindex value yao_tag = JObject m)"
    using assms by (auto simp: tagged_envelope_def and_then_Inr_iff map_ok_Inr_iff take_field_Inr split: if_splits)
  then show ?thesis using size_bt_get jindex_size less_trans by blast
qed

lemma transform_tagged_cong [fundef_cong]:
  assumes "kind = kind'" and "t = t'" and "value = value'" and "defs = defs'" and "sp = sp'"
    and "outward = outward'" and "path = path'"
    and "\<And>u v p. size v < size value' \<Longrightarrow> rec u v p = rec' u v p"
  shows "transform_tagged rec kind t value defs sp outward path
    = transform_tagged rec' kind' t' value' defs' sp' outward' path'"
  unfolding assms(1-7) transform_tagged_def
  by (intro and_then_cong refl prod.case_cong option.case_cong assms(8))
    (auto simp: take_field_Inr elim: tagged_envelope_size)

lemma named_envelope_size:
  assumes "named_envelope name d value defs sp outward path = Inr (variant, JObject m)" and "(k, v) \<in> set m"
  shows "size v < size value"
  using assms size_json_map [OF assms(2)]
  by (auto simp: named_envelope_def and_then_Inr_iff take_field_Inr jindex_def Let_def
      split: if_splits option.splits type_definition.splits dest!: size_bt_get size_jget)

lemma decode_structural_object:
  "decode_value (TStructuralRecord fs) v defs sp = Inr w \<Longrightarrow> \<exists>m. v = JObject m"
  by (cases v) (auto simp: decode_value.simps Let_def structural_fields_def yao_object_def)

lemma structural_input_size:
  assumes "structural_input fs value defs sp outward path = Inr (JObject m)" and "(k, v) \<in> set m"
  shows "size v < size value"
proof (cases outward)
  case True
  let ?g = "\<lambda>name. case structural_record_field value name of Some w \<Rightarrow> w | None \<Rightarrow> JNull"
  obtain m' where obj: "value = JObject m'"
    using assms(1) True decode_structural_object by (fastforce simp: structural_input_def map_ok_Inr_iff)
  have "m = bt_from (map (\<lambda>(name, _). (name, ?g name)) fs)"
    using assms(1) True by (auto simp: structural_input_def map_ok_Inr_iff)
  then have "(k, v) \<in> set (map (\<lambda>(name, _). (name, ?g name)) fs)"
    using assms(2) bt_from_subset by blast
  then have "v = ?g k" by auto
  with obj show ?thesis
    by (auto split: option.splits dest: structural_record_field_size)
next
  case False
  with assms show ?thesis by (auto simp: structural_input_def dest: size_json_map)
qed

function transform ::
  "ty \<Rightarrow> json \<Rightarrow> type_definitions \<Rightarrow> source_span \<Rightarrow> bool \<Rightarrow> json_path \<Rightarrow> json_error + json" where
  "transform t value defs sp outward path =
     (case t of
        TJson \<Rightarrow> Inr value
      | TList inner \<Rightarrow>
          (case value of
             JArray values \<Rightarrow>
               map_ok JArray (try_map (\<lambda>(i, v).
                 transform inner v defs sp outward (path @ [PathIndex i])) (enumerate 0 values))
           | _ \<Rightarrow> Inl (ExpectedArray path value))
      | TMap inner \<Rightarrow>
          and_then (json_object value path) (\<lambda>m.
            map_ok (\<lambda>kvs. JObject (bt_from kvs)) (try_map (\<lambda>(name, v).
              map_ok (\<lambda>w. (name, w)) (transform inner v defs sp outward (field_path path name))) m))
      | TNamed name \<Rightarrow>
          and_then (ok_or (bt_get defs name) (MissingDefinition name)) (\<lambda>d.
            and_then (named_envelope name d value defs sp outward path) (\<lambda>(variant, fields_value).
              and_then (named_fields name d variant path) (\<lambda>fds.
                let fields_path = (if variant \<noteq> None then field_path path (lit ''fields'') else path) in
                map_ok (\<lambda>fs. named_result name variant fs outward)
                  (transform_fields (\<lambda>u v p. transform u v defs sp outward p)
                    (map (\<lambda>f. (fd_name f, fd_ty f)) fds) fields_value fields_path))))
      | TStructuralRecord fs \<Rightarrow>
          and_then (structural_input fs value defs sp outward path) (\<lambda>v.
            map_ok (\<lambda>fields_value. structural_result fields_value outward)
              (transform_fields (\<lambda>u v p. transform u v defs sp outward p) fs v path))
      | TOption inner \<Rightarrow>
          transform_tagged (\<lambda>u v p. transform u v defs sp outward p) ''option'' t value defs sp outward path
      | TResult ok err \<Rightarrow>
          transform_tagged (\<lambda>u v p. transform u v defs sp outward p) ''result'' t value defs sp outward path
      | _ \<Rightarrow> map_err (\<lambda>_. ExpectedType path t value) (decode_value t value defs sp))"
  by pat_completeness auto
termination
  by (relation "measure (\<lambda>(t, v, defs, sp, outward, path). size v)")
    (auto simp: in_set_enumerate_eq dest: size_json_list [OF nth_mem] size_json_map named_envelope_size structural_input_size)

declare transform.simps [simp del]

definition convert :: "ty \<Rightarrow> json \<Rightarrow> type_definitions \<Rightarrow> source_span \<Rightarrow> bool \<Rightarrow> eval_failure + json" where
  "convert t value defs sp outward =
     and_then (map_err (\<lambda>e. failure (JsonAdapter e) sp) (validate_json_type t defs)) (\<lambda>_.
       map_err (\<lambda>e. failure (JsonAdapter e) sp) (transform t value defs sp outward []))"

definition from_json :: "ty \<Rightarrow> json \<Rightarrow> type_definitions \<Rightarrow> source_span \<Rightarrow> eval_failure + json" where
  "from_json t value defs sp = convert t value defs sp False"

definition to_json :: "ty \<Rightarrow> json \<Rightarrow> type_definitions \<Rightarrow> source_span \<Rightarrow> eval_failure + json" where
  "to_json t value defs sp = convert t value defs sp True"

end
