(* ===== verification/Yao_Forms.thy ===== *)
theory Yao_Forms
  imports Yao_Json
begin

text \<open>
  The declarative part of semantic analysis (\<open>yao/src/sema.rs\<close>): access to source forms, names,
  types, effects, requirements, type definitions and their validation, function declarations, and
  the checks on types and effects the analyzer shares.

  The Unicode classes \<open>char::is_alphabetic\<close> and \<open>char::is_alphanumeric\<close> are written out for ASCII;
  beyond it they are the two predicates of \<open>analysis_config\<close>.
\<close>

section \<open>Configuration\<close>

record analysis_config =
  profile :: analysis_profile
  limits :: analysis_limits
  unicode_alphabetic :: "uchar \<Rightarrow> bool"
  unicode_alphanumeric :: "uchar \<Rightarrow> bool"

section \<open>Forms and names\<close>

definition expect_list :: "expr \<Rightarrow> diagnostic + expr list" where
  "expect_list e = ok_or (as_list e) (diag TypeMismatch (expr_span e))"

definition expect_symbol :: "expr \<Rightarrow> diagnostic + ustring" where
  "expect_symbol e = ok_or (as_symbol e) (diag UnknownName (expr_span e))"

fun atom_text :: "expr \<Rightarrow> diagnostic + ustring" where
  "atom_text (Atom a) = Inr (atom_value a)"
| "atom_text (EList items sp) = Inl (diag TypeMismatch sp)"

text \<open>\<open>items.first()\<close>, \<open>items.first().and_then(Expr::as_symbol)\<close>.\<close>

definition first :: "'a list \<Rightarrow> 'a option" where
  "first xs = (case xs of [] \<Rightarrow> None | x # _ \<Rightarrow> Some x)"

definition head_symbol :: "expr list \<Rightarrow> ustring option" where
  "head_symbol items = Option.bind (first items) as_symbol"

definition is_form :: "expr option \<Rightarrow> string \<Rightarrow> bool" where
  "is_form e name \<longleftrightarrow> Option.bind (Option.bind e as_list) head_symbol = Some (lit name)"

text \<open>The slice patterns \<open>let [a] = .. else\<close>, \<open>let [a, b] = .. else\<close>, \<open>let [a, b, c] = .. else\<close>.\<close>

definition one :: "'a list \<Rightarrow> 'e \<Rightarrow> 'e + 'a" where
  "one xs e = (case xs of [a] \<Rightarrow> Inr a | _ \<Rightarrow> Inl e)"

definition two :: "'a list \<Rightarrow> 'e \<Rightarrow> 'e + ('a \<times> 'a)" where
  "two xs e = (case xs of [a, b] \<Rightarrow> Inr (a, b) | _ \<Rightarrow> Inl e)"

definition three :: "'a list \<Rightarrow> 'e \<Rightarrow> 'e + ('a \<times> 'a \<times> 'a)" where
  "three xs e = (case xs of [a, b, c] \<Rightarrow> Inr (a, b, c) | _ \<Rightarrow> Inl e)"

lemma one_Inr [simp]: "one xs e = Inr a \<longleftrightarrow> xs = [a]"
  by (auto simp: one_def split: list.splits)

lemma two_Inr [simp]: "two xs e = Inr (a, b) \<longleftrightarrow> xs = [a, b]"
  by (auto simp: two_def split: list.splits)

lemma three_Inr [simp]: "three xs e = Inr (a, b, c) \<longleftrightarrow> xs = [a, b, c]"
  by (auto simp: three_def split: list.splits)

lemma expect_list_Inr: "expect_list e = Inr items \<longleftrightarrow> (\<exists>sp. e = EList items sp)"
  by (cases e) (auto simp: expect_list_def)

definition is_alphabetic :: "analysis_config \<Rightarrow> uchar \<Rightarrow> bool" where
  "is_alphabetic cfg c \<longleftrightarrow>
     (if c < 128 then 65 \<le> c \<and> c \<le> 90 \<or> 97 \<le> c \<and> c \<le> 122 else unicode_alphabetic cfg c)"

definition is_alphanumeric :: "analysis_config \<Rightarrow> uchar \<Rightarrow> bool" where
  "is_alphanumeric cfg c \<longleftrightarrow>
     (if c < 128 then 65 \<le> c \<and> c \<le> 90 \<or> 97 \<le> c \<and> c \<le> 122 \<or> 48 \<le> c \<and> c \<le> 57
      else unicode_alphanumeric cfg c)"

definition is_identifier :: "analysis_config \<Rightarrow> ustring \<Rightarrow> bool" where
  "is_identifier cfg s \<longleftrightarrow>
     (case s of
        [] \<Rightarrow> False
      | c # cs \<Rightarrow>
          (is_alphabetic cfg c \<or> c = 95) \<and>
          list_all (\<lambda>d. is_alphanumeric cfg d \<or> d = 95 \<or> d = 45) cs)"

definition expect_binding_name :: "analysis_config \<Rightarrow> expr \<Rightarrow> diagnostic + ustring" where
  "expect_binding_name cfg e =
     and_then (expect_symbol e) (\<lambda>name.
       if first name = Some 36 \<or> \<not> is_identifier cfg name
       then Inl (diag UnknownName (expr_span e)) else Inr name)"

definition is_builtin_type :: "ustring \<Rightarrow> bool" where
  "is_builtin_type s \<longleftrightarrow>
     s \<in> set (map lit [''Nil'', ''Bool'', ''Int'', ''Float'', ''String'', ''Bytes'', ''Json'', ''List'', ''Map'',
       ''Option'', ''Result'', ''Ref'', ''Program'', ''EvidenceCandidate'', ''OutcomeCandidate'',
       ''ContextTransaction''])"

definition is_reserved_operator :: "ustring \<Rightarrow> bool" where
  "is_reserved_operator s \<longleftrightarrow>
     s \<in> set (map lit [''eval'', ''fn'', ''requires'', ''types'', ''list'', ''dict'', ''record'', ''variant'',
       ''some'', ''none'', ''ok'', ''err'', ''evidence'', ''outcome'', ''context-transaction'', ''get'',
       ''decode'', ''is'', ''eq'', ''ne'', ''lt'', ''le'', ''gt'', ''ge'', ''and'', ''or'', ''not'', ''add'',
       ''sub'', ''mul'', ''div'', ''seq'', ''bind'', ''if'', ''match'', ''fallback'', ''map'', ''call'',
       ''infer'', ''par'', ''run'', ''host.view'', ''evidence.commit'', ''outcome.commit'', ''context.propose''])"

definition looks_like_float_literal :: "ustring \<Rightarrow> bool" where
  "looks_like_float_literal s \<longleftrightarrow>
     (let unsigned = snd (split_sign s) in
      (case unsigned of [] \<Rightarrow> False | c # _ \<Rightarrow> is_ascii_digit c \<or> c = 46) \<and>
      (46 \<in> set s \<or> 101 \<in> set s \<or> 69 \<in> set s))"

definition empty_span :: source_span where
  "empty_span = empty_at start_location"

definition span_or_empty :: "expr list \<Rightarrow> source_span" where
  "span_or_empty es = (case es of [] \<Rightarrow> empty_span | e # _ \<Rightarrow> expr_span e)"

section \<open>Types and effects in source\<close>

lemma size_expr_member: "e \<in> set items \<Longrightarrow> size e < size (EList items sp)"
  by (induction items) auto

lemma head_symbol_Some: "head_symbol items = Some s \<Longrightarrow> \<exists>e es. items = e # es \<and> as_symbol e = Some s"
  by (cases items) (auto simp: head_symbol_def first_def)

function parse_effect :: "expr \<Rightarrow> diagnostic + effect"
  and parse_effects_from :: "effect_set \<Rightarrow> expr list \<Rightarrow> diagnostic + effect_set" where
  "parse_effect e =
     (if as_symbol e = Some (lit ''infer'') then Inr Infer
      else and_then (expect_list e) (\<lambda>items.
        and_then (ok_or (head_symbol items) (diag InvalidType (expr_span e))) (\<lambda>kind.
          if kind = lit ''tool'' \<or> kind = lit ''host'' then
            and_then (two items (diag InvalidType (expr_span e))) (\<lambda>(_, name_expr).
              map_ok (\<lambda>name. if kind = lit ''tool'' then Tool name else Host name) (expect_symbol name_expr))
          else if kind = lit ''program'' then
            map_ok ProgramEffect (parse_effects_from [] (tl items))
          else Inl (diag InvalidType (expr_span (hd items))))))"
| "parse_effects_from effects [] = Inr effects"
| "parse_effects_from effects (e # es) =
     and_then (parse_effect e) (\<lambda>effect.
       if effect_contains effects effect then Inl (diag DuplicateName (expr_span e))
       else parse_effects_from (effect_insert effect effects) es)"
  by pat_completeness auto
termination
proof (relation "measure (\<lambda>x. case x of Inl e \<Rightarrow> 2 * size e | Inr (_, es) \<Rightarrow> 2 * size_list size es + 1)")
  fix e items kind
  assume "expect_list e = Inr items" and "ok_or (head_symbol items) (diag InvalidType (expr_span e)) = Inr kind"
  then show "(Inr ([], tl items), Inl e) \<in> measure (\<lambda>x. case x of Inl e \<Rightarrow> 2 * size e | Inr (_, es) \<Rightarrow> 2 * size_list size es + 1)"
    by (auto simp: expect_list_Inr dest!: head_symbol_Some)
qed auto

declare parse_effect.simps [simp del]

definition parse_effects :: "expr list \<Rightarrow> diagnostic + effect_set" where
  "parse_effects es = parse_effects_from [] es"

definition parse_simple_type :: "analysis_config \<Rightarrow> ustring \<Rightarrow> source_span \<Rightarrow> diagnostic + ty" where
  "parse_simple_type cfg name sp =
     (if name = lit ''Nil'' then Inr TNil
      else if name = lit ''Bool'' then Inr TBool
      else if name = lit ''Int'' then Inr TInt
      else if name = lit ''Float'' then Inr TFloat
      else if name = lit ''String'' then Inr TString
      else if name = lit ''Bytes'' then Inr TBytes
      else if name = lit ''Json'' then Inr TJson
      else if name = lit ''EvidenceCandidate'' then Inr TEvidenceCandidate
      else if name = lit ''OutcomeCandidate'' then Inr TOutcomeCandidate
      else if name = lit ''ContextTransaction'' then Inr TContextTransaction
      else if is_identifier cfg name then Inr (TNamed name)
      else Inl (diag InvalidType sp))"

function parse_type :: "analysis_config \<Rightarrow> expr \<Rightarrow> diagnostic + ty" where
  "parse_type cfg e =
     (case as_symbol e of
        Some name \<Rightarrow> parse_simple_type cfg name (expr_span e)
      | None \<Rightarrow>
          and_then (expect_list e) (\<lambda>items.
            and_then (ok_or (head_symbol items) (diag InvalidType (expr_span e))) (\<lambda>constructor.
              if constructor \<in> set [lit ''List'', lit ''Map'', lit ''Option'', lit ''Ref''] then
                and_then (two items (diag InvalidType (expr_span e))) (\<lambda>(_, inner).
                  if constructor = lit ''Ref'' then map_ok TRef (expect_symbol inner)
                  else map_ok (\<lambda>t. if constructor = lit ''List'' then TList t
                      else if constructor = lit ''Map'' then TMap t else TOption t) (parse_type cfg inner))
              else if constructor = lit ''Result'' then
                and_then (three items (diag InvalidType (expr_span e))) (\<lambda>(_, ok, err).
                  and_then (parse_type cfg ok) (\<lambda>t. map_ok (TResult t) (parse_type cfg err)))
              else if constructor = lit ''Program'' then
                and_then (three items (diag InvalidType (expr_span e))) (\<lambda>(_, out, effects).
                  and_then (expect_list effects) (\<lambda>effect_items.
                    if head_symbol effect_items \<noteq> Some (lit ''effects'') then Inl (diag InvalidType (expr_span effects))
                    else and_then (parse_type cfg out) (\<lambda>t.
                      map_ok (TProgram t) (parse_effects (tl effect_items)))))
              else Inl (diag InvalidType (expr_span (hd items))))))"
  by pat_completeness auto
termination
  by (relation "measure (\<lambda>(cfg, e). size e)") (auto simp: expect_list_Inr)

declare parse_type.simps [simp del]

section \<open>Requirements\<close>

definition parse_symbol_set :: "expr list \<Rightarrow> diagnostic + ustring list" where
  "parse_symbol_set es =
     try_fold (\<lambda>out e. and_then (expect_symbol e) (\<lambda>name.
       if name \<in> set out then Inl (diag DuplicateName (expr_span e)) else Inr (bs_insert name out))) [] es"

definition parse_requirements :: "expr \<Rightarrow> diagnostic + requirements" where
  "parse_requirements e =
     and_then (expect_list e) (\<lambda>items.
       try_fold (\<lambda>out clause.
         and_then (expect_list clause) (\<lambda>fs.
           and_then (ok_or (head_symbol fs) (diag UnknownName (expr_span clause))) (\<lambda>name.
             if name = lit ''tools'' then
               (if req_tools out \<noteq> None then Inl (diag DuplicateName (expr_span clause))
                else map_ok (\<lambda>s. out\<lparr>req_tools := Some s\<rparr>) (parse_symbol_set (tl fs)))
             else if name = lit ''objects'' then
               (if req_objects out \<noteq> None then Inl (diag DuplicateName (expr_span clause))
                else map_ok (\<lambda>s. out\<lparr>req_objects := Some s\<rparr>) (parse_symbol_set (tl fs)))
             else if name = lit ''effects'' then
               (if req_effects out \<noteq> None then Inl (diag DuplicateName (expr_span clause))
                else map_ok (\<lambda>s. out\<lparr>req_effects := Some s\<rparr>) (parse_effects (tl fs)))
             else Inl (diag UnknownName (expr_span (hd fs))))))
         default_requirements (tl items))"

section \<open>Type definitions\<close>

definition parse_field_definitions :: "analysis_config \<Rightarrow> expr list \<Rightarrow> diagnostic + field_definition list" where
  "parse_field_definitions cfg es =
     (if max_fields (limits cfg) < length es then Inl (diag ResourceLimit (span_or_empty es))
      else try_fold (\<lambda>out e.
        and_then (expect_list e) (\<lambda>items.
          and_then (two items (diag InvalidType (expr_span e))) (\<lambda>(name_expr, type_expr).
            and_then (expect_symbol name_expr) (\<lambda>name.
              if \<not> is_identifier cfg name \<or> name \<in> set (map fd_name out)
              then Inl (diag DuplicateName (expr_span name_expr))
              else map_ok (\<lambda>t. out @ [\<lparr>fd_name = name, fd_ty = t, fd_span = expr_span e\<rparr>])
                (parse_type cfg type_expr))))) [] es)"

definition parse_variant_definitions :: "analysis_config \<Rightarrow> expr list \<Rightarrow> diagnostic + variant_definition list" where
  "parse_variant_definitions cfg es =
     try_fold (\<lambda>out e.
       and_then (expect_list e) (\<lambda>parts.
         and_then (ok_or (first parts) (diag InvalidType (expr_span e))) (\<lambda>name_expr.
           and_then (expect_symbol name_expr) (\<lambda>name.
             if \<not> is_identifier cfg name \<or> name \<in> set (map vd_name out)
             then Inl (diag DuplicateName (expr_span name_expr))
             else map_ok (\<lambda>fs. out @ [\<lparr>vd_name = name, vd_fields = fs, vd_span = expr_span e\<rparr>])
               (parse_field_definitions cfg (tl parts)))))) [] es"

definition parse_type_declaration :: "analysis_config \<Rightarrow> type_definitions \<Rightarrow> expr \<Rightarrow> diagnostic + type_definitions" where
  "parse_type_declaration cfg out declaration =
     and_then (expect_list declaration) (\<lambda>parts.
       and_then (ok_or (head_symbol parts) (diag InvalidType (expr_span declaration))) (\<lambda>kind.
         and_then (ok_or (first (tl parts)) (diag InvalidType (expr_span declaration))) (\<lambda>name_expr.
           and_then (expect_symbol name_expr) (\<lambda>name.
             if is_builtin_type name \<or> \<not> is_identifier cfg name then Inl (diag InvalidType (expr_span name_expr))
             else if bt_contains out name then Inl (diag DuplicateName (expr_span name_expr))
             else map_ok (\<lambda>d. bt_insert name d out)
               (if kind = lit ''record'' then
                  map_ok (\<lambda>fs. Record name fs (expr_span declaration)) (parse_field_definitions cfg (drop 2 parts))
                else if kind = lit ''union'' then
                  and_then (parse_variant_definitions cfg (drop 2 parts)) (\<lambda>variants.
                    if variants = [] then Inl (diag InvalidType (expr_span declaration))
                    else Inr (Union name variants (expr_span declaration)))
                else Inl (diag InvalidType (expr_span (hd parts))))))))"

definition parse_type_definitions :: "analysis_config \<Rightarrow> expr \<Rightarrow> diagnostic + type_definitions" where
  "parse_type_definitions cfg e =
     and_then (expect_list e) (\<lambda>items. try_fold (parse_type_declaration cfg) [] (tl items))"

definition definition_types :: "type_definition \<Rightarrow> ty list" where
  "definition_types d = map fd_ty (definition_fields d)"

fun named_dependencies :: "ty \<Rightarrow> ustring list" where
  "named_dependencies (TNamed name) = [name]"
| "named_dependencies (TList t) = named_dependencies t"
| "named_dependencies (TMap t) = named_dependencies t"
| "named_dependencies (TOption t) = named_dependencies t"
| "named_dependencies (TStructuralRecord fs) = concat (map (\<lambda>(n, t). named_dependencies t) fs)"
| "named_dependencies (TResult a b) = named_dependencies a @ named_dependencies b"
| "named_dependencies (TProgram t es) = named_dependencies t"
| "named_dependencies _ = []"

fun validate_type_names :: "type_definitions \<Rightarrow> ty \<Rightarrow> source_span \<Rightarrow> diagnostic + unit" where
  "validate_type_names defs (TNamed name) sp =
     (if bt_contains defs name then Inr () else Inl (diag InvalidType sp))"
| "validate_type_names defs (TList t) sp = validate_type_names defs t sp"
| "validate_type_names defs (TMap t) sp = validate_type_names defs t sp"
| "validate_type_names defs (TOption t) sp = validate_type_names defs t sp"
| "validate_type_names defs (TStructuralRecord fs) sp =
     map_ok (\<lambda>_. ()) (try_map (\<lambda>(n, t). validate_type_names defs t sp) fs)"
| "validate_type_names defs (TResult a b) sp =
     and_then (validate_type_names defs a sp) (\<lambda>_. validate_type_names defs b sp)"
| "validate_type_names defs (TProgram t es) sp = validate_type_names defs t sp"
| "validate_type_names defs _ sp = Inr ()"

text \<open>
  Two searches over the definitions with mutable sets. Both take the number of nested names still
  allowed and give \<open>None\<close> when it is used up, which the callers, passing one more than the number
  of definitions, never see (\<open>type_recursive_iff\<close> and \<open>nonforgeable_decided\<close> of \<open>Type_Graph\<close>).
\<close>

fun any_with :: "('a \<Rightarrow> 's \<Rightarrow> (bool \<times> 's) option) \<Rightarrow> 'a list \<Rightarrow> 's \<Rightarrow> (bool \<times> 's) option" where
  "any_with f [] s = Some (False, s)"
| "any_with f (x # xs) s =
     (case f x s of
        None \<Rightarrow> None
      | Some (b, s') \<Rightarrow> if b then Some (True, s') else any_with f xs s')"

lemma any_with_cong [fundef_cong]:
  assumes "xs = ys" and "s = t" and "\<And>x s. x \<in> set ys \<Longrightarrow> f x s = g x s"
  shows "any_with f xs s = any_with g ys t"
  unfolding assms(1,2) using assms(3)
  by (induction ys arbitrary: t) (auto split: option.splits)

fun type_reaches ::
  "nat \<Rightarrow> type_definitions \<Rightarrow> ustring \<Rightarrow> ustring \<Rightarrow> ustring list \<times> ustring list
    \<Rightarrow> (bool \<times> ustring list \<times> ustring list) option" where
  "type_reaches fuel defs start current (visiting, visited) =
     (if current \<in> set visiting then Some (False, visiting, visited)
      else (case bt_get defs current of
         None \<Rightarrow> Some (False, bs_insert current visiting, visited)
       | Some d \<Rightarrow>
           (case fuel of
              0 \<Rightarrow> None
            | Suc fuel' \<Rightarrow>
                (case any_with (\<lambda>dependency st.
                     if dependency = start then Some (True, st)
                     else if dependency \<in> set (snd st) then Some (False, st)
                     else type_reaches fuel' defs start dependency st)
                   (concat (map named_dependencies (definition_types d))) (bs_insert current visiting, visited) of
                   None \<Rightarrow> None
                 | Some (True, st) \<Rightarrow> Some (True, st)
                 | Some (False, visiting', visited') \<Rightarrow>
                     Some (False, bs_remove current visiting', bs_insert current visited')))))"

declare type_reaches.simps [simp del]

definition type_recursive :: "type_definitions \<Rightarrow> ustring \<Rightarrow> bool" where
  "type_recursive defs name \<longleftrightarrow>
     (case type_reaches (Suc (length defs)) defs name name ([], []) of
        None \<Rightarrow> True
      | Some (b, _) \<Rightarrow> b)"

definition validate_type_definitions :: "type_definitions \<Rightarrow> diagnostic + unit" where
  "validate_type_definitions defs =
     and_then (try_map (\<lambda>(name, d). try_map (\<lambda>t. validate_type_names defs t (td_span d)) (definition_types d)) defs)
       (\<lambda>_. map_ok (\<lambda>_. ()) (try_map (\<lambda>(name, d).
          if type_recursive defs name then Inl (diag RecursiveType (td_span d)) else Inr ()) defs))"

function contains_nonforgeable ::
  "nat \<Rightarrow> type_definitions \<Rightarrow> ty \<Rightarrow> ustring list \<Rightarrow> (bool \<times> ustring list) option" where
  "contains_nonforgeable fuel defs t visiting =
     (case t of
        TEvidenceCandidate \<Rightarrow> Some (True, visiting)
      | TOutcomeCandidate \<Rightarrow> Some (True, visiting)
      | TContextTransaction \<Rightarrow> Some (True, visiting)
      | TRef _ \<Rightarrow> Some (True, visiting)
      | TProgram _ _ \<Rightarrow> Some (True, visiting)
      | TList u \<Rightarrow> contains_nonforgeable fuel defs u visiting
      | TMap u \<Rightarrow> contains_nonforgeable fuel defs u visiting
      | TOption u \<Rightarrow> contains_nonforgeable fuel defs u visiting
      | TStructuralRecord fs \<Rightarrow> any_with (\<lambda>(n, u) st. contains_nonforgeable fuel defs u st) fs visiting
      | TResult a b \<Rightarrow>
          (case contains_nonforgeable fuel defs a visiting of
             None \<Rightarrow> None
           | Some (found, visiting') \<Rightarrow>
               if found then Some (True, visiting') else contains_nonforgeable fuel defs b visiting')
      | TNamed name \<Rightarrow>
          if name \<in> set visiting then Some (False, visiting)
          else (case bt_get defs name of
             None \<Rightarrow> Some (False, visiting)
           | Some d \<Rightarrow>
               (case fuel of
                  0 \<Rightarrow> None
                | Suc fuel' \<Rightarrow>
                    map_option (\<lambda>(found, visiting'). (found, bs_remove name visiting'))
                      (any_with (\<lambda>u st. contains_nonforgeable fuel' defs u st) (definition_types d)
                        (bs_insert name visiting))))
      | _ \<Rightarrow> Some (False, visiting))"
  by pat_completeness auto
termination
  by (relation "measures [\<lambda>(fuel, defs, t, st). fuel, \<lambda>(fuel, defs, t, st). size t]")
    (auto dest: size_field_type)

declare contains_nonforgeable.simps [simp del]

definition contains_nonforgeable_type :: "type_definitions \<Rightarrow> ty \<Rightarrow> bool" where
  "contains_nonforgeable_type defs t \<longleftrightarrow>
     (case contains_nonforgeable (Suc (length defs)) defs t [] of
        None \<Rightarrow> True
      | Some (b, _) \<Rightarrow> b)"

definition field_type :: "type_definitions \<Rightarrow> ty \<Rightarrow> ustring \<Rightarrow> source_span \<Rightarrow> diagnostic + ty" where
  "field_type defs t field sp =
     ok_or
       (case t of
          TMap u \<Rightarrow> Some u
        | TStructuralRecord fs \<Rightarrow> bt_get fs field
        | TNamed name \<Rightarrow>
            (case bt_get defs name of
               Some (Record _ fs _) \<Rightarrow> map_option fd_ty (find (\<lambda>f. fd_name f = field) fs)
             | _ \<Rightarrow> None)
        | _ \<Rightarrow> None)
       (diag TypeMismatch sp)"

section \<open>Checks on types and effects\<close>

definition common_type :: "ty \<Rightarrow> ty \<Rightarrow> ty option" where
  "common_type left right =
     (if is_assignable_to left right then Some right
      else if is_assignable_to right left then Some left
      else None)"

definition common_types :: "ty list \<Rightarrow> source_span \<Rightarrow> diagnostic + ty option" where
  "common_types types sp =
     (case types of
        [] \<Rightarrow> Inr None
      | t # ts \<Rightarrow>
          map_ok Some (try_fold (\<lambda>current u. ok_or (common_type current u) (diag TypeMismatch sp)) t ts))"

definition infer_dict_value_type :: "(ustring \<times> hir_expr) list \<Rightarrow> diagnostic + ty option" where
  "infer_dict_value_type entries =
     (case entries of
        [] \<Rightarrow> Inr None
      | (_, e) # rest \<Rightarrow>
          map_ok (\<lambda>(current, representative). Some current)
            (try_fold (\<lambda>(current, representative) (key, v).
               map_ok (\<lambda>common. if common \<noteq> current then (common, hir_span v) else (current, representative))
                 (ok_or (common_type current (hir_ty v))
                   (with_related (diag TypeMismatch (hir_span v)) representative)))
              (hir_ty e, hir_span e) rest))"

definition union_effects :: "hir_expr list \<Rightarrow> effect_set" where
  "union_effects es = foldl (\<lambda>effects e. effect_union effects (hir_effects e)) [] es"

definition require_assignable :: "ty \<Rightarrow> ty \<Rightarrow> source_span \<Rightarrow> diagnostic + unit" where
  "require_assignable actual expected sp = require (is_assignable_to actual expected) (diag TypeMismatch sp)"

definition require_arity :: "hir_expr list \<Rightarrow> nat \<Rightarrow> source_span \<Rightarrow> diagnostic + unit" where
  "require_arity operands expected sp = require (length operands = expected) (diag TypeMismatch sp)"

definition require_comparable :: "ty \<Rightarrow> ty \<Rightarrow> source_span \<Rightarrow> diagnostic + unit" where
  "require_comparable left right sp =
     require ((left = TInt \<or> left = TFloat) \<and> (right = TInt \<or> right = TFloat) \<or> left = TString \<and> right = TString)
       (diag TypeMismatch sp)"

definition numeric_result :: "hir_expr list \<Rightarrow> source_span \<Rightarrow> diagnostic + ty" where
  "numeric_result operands sp =
     try_fold (\<lambda>result e.
       if hir_ty e = TInt then Inr result
       else if hir_ty e = TFloat then Inr TFloat
       else Inl (diag TypeMismatch sp)) TInt operands"

definition require_pure :: "hir_expr \<Rightarrow> diagnostic + unit" where
  "require_pure e = require (effect_is_empty (hir_effects e)) (diag EffectEscape (hir_span e))"

definition require_pure_all :: "hir_expr list \<Rightarrow> diagnostic + unit" where
  "require_pure_all es = map_ok (\<lambda>_. ()) (try_map require_pure es)"

definition require_json_type :: "type_definitions \<Rightarrow> ty \<Rightarrow> source_span \<Rightarrow> diagnostic + unit" where
  "require_json_type defs t sp =
     and_then (validate_type_names defs t sp) (\<lambda>_.
       map_err (\<lambda>_. diag InvalidType sp) (validate_json_type t defs))"

section \<open>Function declarations\<close>

datatype function_visibility = Internal | Exported

record function_parameter =
  fp_name :: ustring
  fp_ty :: ty
  fp_span :: source_span

record function_declaration =
  fn_name :: ustring
  fn_visibility :: function_visibility
  fn_parameters :: "function_parameter list"
  fn_returns :: ty
  fn_declared_effects :: "effect_set option"
  fn_body :: expr
  fn_span :: source_span

record compiled_function =
  cf_declaration :: function_declaration
  cf_body :: hir_expr

text \<open>The clauses of a declaration as the loop collects them.\<close>

record function_clauses =
  fc_visibility :: "function_visibility option"
  fc_description :: "ustring option"
  fc_parameters :: "function_parameter list option"
  fc_returns :: "ty option"
  fc_effects :: "effect_set option"
  fc_body :: "expr option"

definition no_clauses :: function_clauses where
  "no_clauses = \<lparr>fc_visibility = None, fc_description = None, fc_parameters = None, fc_returns = None,
     fc_effects = None, fc_body = None\<rparr>"

definition parse_parameters ::
  "analysis_config \<Rightarrow> type_definitions \<Rightarrow> expr list \<Rightarrow> diagnostic + function_parameter list" where
  "parse_parameters cfg defs es =
     try_fold (\<lambda>out e.
       and_then (expect_list e) (\<lambda>parts.
         and_then (two parts (diag InvalidType (expr_span e))) (\<lambda>(name_expr, type_expr).
           and_then (expect_binding_name cfg name_expr) (\<lambda>name.
             if name = lit ''runtime'' \<or> name \<in> set (map fp_name out)
             then Inl (diag DuplicateName (expr_span e))
             else and_then (parse_type cfg type_expr) (\<lambda>t.
               map_ok (\<lambda>_. out @ [\<lparr>fp_name = name, fp_ty = t, fp_span = expr_span e\<rparr>])
                 (validate_type_names defs t (expr_span type_expr))))))) [] es"

definition parse_description :: "expr \<Rightarrow> diagnostic + ustring" where
  "parse_description e =
     (case e of
        EList _ sp \<Rightarrow> Inl (diag InvalidType sp)
      | Atom a \<Rightarrow>
          if atom_kind a \<noteq> String \<or> trim (atom_value a) = [] then Inl (diag InvalidType (atom_span a))
          else Inr (atom_value a))"

definition parse_visibility :: "expr \<Rightarrow> diagnostic + function_visibility" where
  "parse_visibility e =
     and_then (expect_symbol e) (\<lambda>s.
       if s = lit ''internal'' then Inr Internal
       else if s = lit ''exported'' then Inr Exported
       else Inl (diag InvalidType (expr_span e)))"

text \<open>One clause of the \<open>match clause_name\<close>: refuse a second one, then parse and record it.\<close>

definition once :: "'a option \<Rightarrow> source_span \<Rightarrow> diagnostic + 'b \<Rightarrow> diagnostic + 'b" where
  "once slot sp r = (if slot \<noteq> None then Inl (diag DuplicateName sp) else r)"

definition parse_function_clause ::
  "analysis_config \<Rightarrow> type_definitions \<Rightarrow> function_clauses \<Rightarrow> expr \<Rightarrow> diagnostic + function_clauses" where
  "parse_function_clause cfg defs fc clause =
     and_then (expect_list clause) (\<lambda>fs.
       and_then (ok_or (head_symbol fs) (diag UnknownName (expr_span clause))) (\<lambda>name.
         let sp = expr_span clause; single = two fs (diag InvalidType sp) in
         if name = lit ''visibility'' then
           once (fc_visibility fc) sp (and_then single (\<lambda>(_, v).
             map_ok (\<lambda>x. fc\<lparr>fc_visibility := Some x\<rparr>) (parse_visibility v)))
         else if name = lit ''description'' then
           once (fc_description fc) sp (and_then single (\<lambda>(_, v).
             map_ok (\<lambda>x. fc\<lparr>fc_description := Some x\<rparr>) (parse_description v)))
         else if name = lit ''params'' then
           once (fc_parameters fc) sp
             (map_ok (\<lambda>x. fc\<lparr>fc_parameters := Some x\<rparr>) (parse_parameters cfg defs (tl fs)))
         else if name = lit ''returns'' then
           once (fc_returns fc) sp (and_then single (\<lambda>(_, v).
             and_then (parse_type cfg v) (\<lambda>t.
               map_ok (\<lambda>_. fc\<lparr>fc_returns := Some t\<rparr>) (validate_type_names defs t (expr_span v)))))
         else if name = lit ''effects'' then
           once (fc_effects fc) sp (map_ok (\<lambda>x. fc\<lparr>fc_effects := Some x\<rparr>) (parse_effects (tl fs)))
         else if name = lit ''body'' then
           once (fc_body fc) sp (and_then single (\<lambda>(_, v). Inr (fc\<lparr>fc_body := Some v\<rparr>)))
         else Inl (diag UnknownName (expr_span (hd fs)))))"

definition parse_function_declaration ::
  "analysis_config \<Rightarrow> type_definitions \<Rightarrow> expr \<Rightarrow> diagnostic + function_declaration" where
  "parse_function_declaration cfg defs e =
     and_then (expect_list e) (\<lambda>items.
       if head_symbol items \<noteq> Some (lit ''fn'') then Inl (diag UnknownOperator (expr_span e))
       else and_then (ok_or (first (tl items)) (diag UnknownName (expr_span e))) (\<lambda>name_expr.
         and_then (expect_symbol name_expr) (\<lambda>name.
           if \<not> is_identifier cfg name \<or> is_reserved_operator name
           then Inl (diag DuplicateName (expr_span name_expr))
           else and_then (try_fold (parse_function_clause cfg defs) no_clauses (drop 2 items)) (\<lambda>fc.
             let visibility = (case fc_visibility fc of Some v \<Rightarrow> v | None \<Rightarrow> Internal);
                 missing = diag InvalidType (expr_span e) in
             if visibility = Exported \<and> fc_description fc = None then Inl missing
             else if visibility = Exported \<and> fc_effects fc = None then Inl missing
             else and_then (ok_or (fc_parameters fc) missing) (\<lambda>parameters.
               and_then (ok_or (fc_returns fc) missing) (\<lambda>returns.
                 and_then (ok_or (fc_body fc) missing) (\<lambda>b.
                   Inr \<lparr>fn_name = name, fn_visibility = visibility, fn_parameters = parameters,
                     fn_returns = returns, fn_declared_effects = fc_effects fc, fn_body = b,
                     fn_span = expr_span e\<rparr>)))))))"

end
