(* ===== verification/Yao_Sema.thy ===== *)
theory Yao_Sema
  imports Yao_Forms
begin

text \<open>
  The analyzer (\<open>yao/src/sema.rs\<close>): from source expressions to typed HIR. Its mutable state is the
  record \<open>analyzer\<close> and the lexical \<open>scope\<close>, threaded through every handler; a diagnostic ends the
  whole analysis, so no state accompanies it. The profile and the limits never change and are the
  argument \<open>cfg\<close>.

  There is one definition per handler. A handler takes the analysis of subexpressions as its
  argument \<open>rec\<close> (an expression and its depth) and, where it calls functions, their compilation
  \<open>compile\<close>. \<open>analyze_upto\<close> ties the knot for a number of nested expressions, \<open>compile_function\<close>
  for a number of nested function calls; the numbers passed at the top exceed both limits, so the
  limit checks of the code always end the recursion first.
\<close>

section \<open>State\<close>

record scope =
  bindings :: "ustring \<Rightarrow> ty option"
  allow_implicit_bindings :: bool

record analyzer =
  an_requirements :: requirements
  definitions :: type_definitions
  type_forms :: "expr list"
  function_forms :: "expr list"
  function_declarations :: "(ustring \<times> function_declaration) list"
  compiled_functions :: "(ustring \<times> compiled_function) list"
  function_stack :: "ustring list"
  allow_internal_functions :: bool
  node_count :: nat

definition new_analyzer :: analyzer where
  "new_analyzer = \<lparr>an_requirements = default_requirements, definitions = [], type_forms = [],
     function_forms = [], function_declarations = [], compiled_functions = [], function_stack = [],
     allow_internal_functions = False, node_count = 0\<rparr>"

definition with_types :: "expr list \<Rightarrow> analyzer \<Rightarrow> analyzer" where
  "with_types forms an = an\<lparr>type_forms := forms\<rparr>"

definition with_functions :: "expr list \<Rightarrow> bool \<Rightarrow> analyzer \<Rightarrow> analyzer" where
  "with_functions forms allow_internal an =
     an\<lparr>function_forms := forms, allow_internal_functions := allow_internal\<rparr>"

definition scope_new :: "analysis_config \<Rightarrow> scope" where
  "scope_new cfg =
     \<lparr>bindings = (case implicit_binding (profile cfg) (lit ''runtime'') of
        Some t \<Rightarrow> Map.empty(lit ''runtime'' \<mapsto> t) | None \<Rightarrow> Map.empty),
      allow_implicit_bindings = True\<rparr>"

definition scope_empty :: scope where
  "scope_empty = \<lparr>bindings = Map.empty, allow_implicit_bindings = False\<rparr>"

type_synonym sema_state = "scope \<times> analyzer"
type_synonym 'a sema = "sema_state \<Rightarrow> diagnostic + ('a \<times> sema_state)"

definition sret :: "'a \<Rightarrow> 'a sema" where
  "sret x = (\<lambda>st. Inr (x, st))"

definition sbind :: "'a sema \<Rightarrow> ('a \<Rightarrow> 'b sema) \<Rightarrow> 'b sema" where
  "sbind m f = (\<lambda>st. and_then (m st) (\<lambda>(x, st'). f x st'))"

definition slift :: "diagnostic + 'a \<Rightarrow> 'a sema" where
  "slift r = (\<lambda>st. map_ok (\<lambda>x. (x, st)) r)"

definition sget :: "(sema_state \<Rightarrow> 'a) \<Rightarrow> 'a sema" where
  "sget f = (\<lambda>st. Inr (f st, st))"

definition smodify :: "(sema_state \<Rightarrow> sema_state) \<Rightarrow> unit sema" where
  "smodify f = (\<lambda>st. Inr ((), f st))"

text \<open>A subanalysis on a scope of its own (\<open>&mut scope.clone()\<close>): the caller's scope is kept.\<close>

definition in_scope :: "(scope \<Rightarrow> scope) \<Rightarrow> 'a sema \<Rightarrow> 'a sema" where
  "in_scope f m = (\<lambda>(sc, an). and_then (m (f sc, an)) (\<lambda>(x, _, an'). Inr (x, sc, an')))"

fun smap :: "('a \<Rightarrow> 'b sema) \<Rightarrow> 'a list \<Rightarrow> 'b list sema" where
  "smap f [] = sret []"
| "smap f (x # xs) = sbind (f x) (\<lambda>y. sbind (smap f xs) (\<lambda>ys. sret (y # ys)))"

fun sfold :: "('s \<Rightarrow> 'a \<Rightarrow> 's sema) \<Rightarrow> 's \<Rightarrow> 'a list \<Rightarrow> 's sema" where
  "sfold f s [] = sret s"
| "sfold f s (x # xs) = sbind (f s x) (\<lambda>s'. sfold f s' xs)"

abbreviation sguard :: "bool \<Rightarrow> diagnostic \<Rightarrow> unit sema" where
  "sguard b d \<equiv> slift (require b d)"

abbreviation get_defs :: "type_definitions sema" where
  "get_defs \<equiv> sget (\<lambda>st. definitions (snd st))"

abbreviation get_scope :: "scope sema" where
  "get_scope \<equiv> sget fst"

abbreviation get_an :: "analyzer sema" where
  "get_an \<equiv> sget snd"

type_synonym rec_analysis = "expr \<Rightarrow> nat \<Rightarrow> hir_expr sema"

section \<open>Atoms\<close>

fun field_chain :: "type_definitions \<Rightarrow> source_span \<Rightarrow> hir_expr \<Rightarrow> ustring list \<Rightarrow> diagnostic + hir_expr" where
  "field_chain defs sp v [] = Inr v"
| "field_chain defs sp v (field # rest) =
     and_then (field_type defs (hir_ty v) field sp) (\<lambda>t. field_chain defs sp (hir (HGet v field) t [] sp) rest)"

definition lookup_binding :: "analysis_config \<Rightarrow> scope \<Rightarrow> ustring \<Rightarrow> ty option" where
  "lookup_binding cfg sc root =
     (case bindings sc root of
        Some t \<Rightarrow> Some t
      | None \<Rightarrow> if allow_implicit_bindings sc then implicit_binding (profile cfg) root else None)"

definition analyze_reference :: "analysis_config \<Rightarrow> ustring \<Rightarrow> source_span \<Rightarrow> hir_expr sema" where
  "analyze_reference cfg reference sp =
     (case split_at 46 reference of
        [] \<Rightarrow> slift (Inl (diag UnknownName sp))
      | root # segments \<Rightarrow>
          if root = [] then slift (Inl (diag UnknownName sp))
          else sbind get_scope (\<lambda>sc.
            sbind (slift (ok_or (lookup_binding cfg sc root) (diag UnknownName sp))) (\<lambda>t.
              sbind get_defs (\<lambda>defs.
                slift (field_chain defs sp (hir (HReference root None) t [] sp) segments)))))"

definition analyze_atom :: "analysis_config \<Rightarrow> atom \<Rightarrow> hir_expr sema" where
  "analyze_atom cfg a =
     (let v = atom_value a; sp = atom_span a; literal = (\<lambda>l t. sret (hir (HLiteral l) t [] sp)) in
      if atom_kind a = String then literal (LString v) TString
      else if first v = Some 36 then slift (Inl (diag UnknownName sp))
      else if v = lit ''nil'' then literal LNil TNil
      else if v = lit ''true'' then literal (LBool True) TBool
      else if v = lit ''false'' then literal (LBool False) TBool
      else (case parse_i64 v of
         Some i \<Rightarrow> literal (LInt i) TInt
       | None \<Rightarrow>
           if looks_like_float_literal v then
             (if parse_f64 v = None then slift (Inl (diag TypeMismatch sp)) else literal (LFloat v) TFloat)
           else analyze_reference cfg v sp))"

section \<open>Lists of expressions, arguments and fields\<close>

definition analyze_many :: "rec_analysis \<Rightarrow> expr list \<Rightarrow> nat \<Rightarrow> hir_expr list sema" where
  "analyze_many rec es depth = smap (\<lambda>e. rec e depth) es"

definition analyze_argument ::
  "rec_analysis \<Rightarrow> nat \<Rightarrow> hir_expr named_argument list \<Rightarrow> expr \<Rightarrow> hir_expr named_argument list sema" where
  "analyze_argument rec depth out argument =
     sbind (slift (expect_list argument)) (\<lambda>items.
       sbind (slift (ok_or (first items) (diag TypeMismatch (expr_span argument)))) (\<lambda>name_expr.
         sbind (slift (expect_symbol name_expr)) (\<lambda>name.
           sbind (sguard (2 \<le> length items) (diag TypeMismatch (expr_span argument))) (\<lambda>_.
             sbind (sguard (name \<notin> set (map arg_name out)) (diag DuplicateName (expr_span name_expr))) (\<lambda>_.
               sbind (analyze_many rec (tl items) depth) (\<lambda>vs.
                 sret (out @ [NamedArgument name vs (expr_span argument)])))))))"

definition analyze_named_arguments ::
  "rec_analysis \<Rightarrow> expr list \<Rightarrow> nat \<Rightarrow> hir_expr named_argument list sema" where
  "analyze_named_arguments rec arguments depth = sfold (analyze_argument rec depth) [] arguments"

definition analyze_field ::
  "rec_analysis \<Rightarrow> field_definition list \<Rightarrow> nat \<Rightarrow> (ustring \<times> hir_expr) list \<Rightarrow> expr
    \<Rightarrow> (ustring \<times> hir_expr) list sema" where
  "analyze_field rec fds depth out argument =
     sbind (slift (expect_list argument)) (\<lambda>items.
       sbind (slift (two items (diag TypeMismatch (expr_span argument)))) (\<lambda>(name_expr, value_expr).
         sbind (slift (expect_symbol name_expr)) (\<lambda>name.
           sbind (sguard (name \<notin> set (map fst out)) (diag DuplicateName (expr_span name_expr))) (\<lambda>_.
             sbind (slift (ok_or (find (\<lambda>d. fd_name d = name) fds) (diag UnknownName (expr_span name_expr)))) (\<lambda>d.
               sbind (rec value_expr depth) (\<lambda>v.
                 sbind (slift (require_assignable (hir_ty v) (fd_ty d) (hir_span v))) (\<lambda>_.
                   sret (out @ [(name, v)]))))))))"

definition analyze_named_fields ::
  "rec_analysis \<Rightarrow> expr list \<Rightarrow> field_definition list \<Rightarrow> nat \<Rightarrow> (ustring \<times> hir_expr) list sema" where
  "analyze_named_fields rec arguments fds depth =
     sbind (sguard (length arguments = length fds)
         (diag TypeMismatch (case arguments of
            a # _ \<Rightarrow> expr_span a
          | [] \<Rightarrow> (case fds of d # _ \<Rightarrow> fd_span d | [] \<Rightarrow> empty_span)))) (\<lambda>_.
       sbind (sfold (analyze_field rec fds depth) [] arguments) (\<lambda>vs.
         sbind (slift (try_map (\<lambda>d. require (fd_name d \<in> set (map fst vs)) (diag TypeMismatch (fd_span d))) fds)) (\<lambda>_.
           sret vs)))"

definition argument_values :: "'e named_argument list \<Rightarrow> 'e list" where
  "argument_values named = concat (map arg_values named)"

definition check_signature ::
  "hir_expr named_argument list \<Rightarrow> tool_signature \<Rightarrow> source_span \<Rightarrow> diagnostic + unit" where
  "check_signature named signature sp =
     (if ts_arguments signature = [] \<and> ts_required signature = [] then Inr ()
      else and_then (try_map (\<lambda>r. require (r \<in> set (map arg_name named)) (diag TypeMismatch sp)) (ts_required signature)) (\<lambda>_.
        map_ok (\<lambda>_. ()) (try_map (\<lambda>argument.
          and_then (ok_or (bt_get (ts_arguments signature) (arg_name argument)) (diag UnknownName (arg_span argument))) (\<lambda>expected.
            and_then
              (case arg_values argument of
                 [v] \<Rightarrow> Inr (hir_ty v)
               | vs \<Rightarrow> map_ok (\<lambda>t. TList (case t of Some u \<Rightarrow> u | None \<Rightarrow> TJson))
                   (common_types (map hir_ty vs) (arg_span argument)))
              (\<lambda>actual. require_assignable actual expected (arg_span argument)))) named)))"

section \<open>Data\<close>

definition analyze_list :: "rec_analysis \<Rightarrow> expr list \<Rightarrow> source_span \<Rightarrow> nat \<Rightarrow> hir_expr sema" where
  "analyze_list rec arguments sp depth =
     sbind (analyze_many rec arguments (depth + 1)) (\<lambda>elements.
       sbind (slift (require_pure_all elements)) (\<lambda>_.
         sbind (slift (common_types (map hir_ty elements) sp)) (\<lambda>t.
           sret (hir (HList elements) (TList (case t of Some u \<Rightarrow> u | None \<Rightarrow> TJson))
             (union_effects elements) sp))))"

text \<open>The key and the value of one entry of \<open>dict\<close> or \<open>json-object\<close>.\<close>

definition dict_entry :: "(ustring \<times> 'v) list \<Rightarrow> expr \<Rightarrow> diagnostic + (ustring \<times> expr)" where
  "dict_entry out argument =
     and_then (expect_list argument) (\<lambda>items.
       and_then (two items (diag TypeMismatch (expr_span argument))) (\<lambda>(key_expr, value_expr).
         and_then (atom_text key_expr) (\<lambda>key.
           if key \<in> set (map fst out) then Inl (diag DuplicateName (expr_span key_expr))
           else Inr (key, value_expr))))"

definition analyze_dict_entry ::
  "rec_analysis \<Rightarrow> nat \<Rightarrow> (ustring \<times> hir_expr) list \<Rightarrow> expr \<Rightarrow> (ustring \<times> hir_expr) list sema" where
  "analyze_dict_entry rec depth out argument =
     sbind (slift (dict_entry out argument)) (\<lambda>(key, value_expr).
       sbind (rec value_expr (depth + 1)) (\<lambda>v. sret (out @ [(key, v)])))"

definition analyze_dict :: "analysis_config \<Rightarrow> rec_analysis \<Rightarrow> expr list \<Rightarrow> source_span \<Rightarrow> nat \<Rightarrow> hir_expr sema" where
  "analyze_dict cfg rec arguments sp depth =
     sbind (sguard (length arguments \<le> max_fields (limits cfg)) (diag ResourceLimit sp)) (\<lambda>_.
       sbind (sfold (analyze_dict_entry rec depth) [] arguments) (\<lambda>entries.
         sbind (slift (infer_dict_value_type entries)) (\<lambda>t.
           sbind (slift (require_pure_all (map snd entries))) (\<lambda>_.
             sret (hir (HDict entries) (TMap (case t of Some u \<Rightarrow> u | None \<Rightarrow> TJson))
               (union_effects (map snd entries)) sp)))))"

definition analyze_json_entry ::
  "rec_analysis \<Rightarrow> nat \<Rightarrow> (ustring \<times> hir_expr) list \<Rightarrow> expr \<Rightarrow> (ustring \<times> hir_expr) list sema" where
  "analyze_json_entry rec depth out argument =
     sbind (slift (dict_entry out argument)) (\<lambda>(name, value_expr).
       sbind (rec value_expr (depth + 1)) (\<lambda>v.
         sbind (slift (require_pure v)) (\<lambda>_.
           sbind get_defs (\<lambda>defs.
             sbind (slift (require_json_type defs (hir_ty v) (hir_span v))) (\<lambda>_.
               sret (out @ [(name, hir (HToJson v) TJson [] (hir_span v))]))))))"

definition analyze_json_object ::
  "analysis_config \<Rightarrow> rec_analysis \<Rightarrow> expr list \<Rightarrow> source_span \<Rightarrow> nat \<Rightarrow> hir_expr sema" where
  "analyze_json_object cfg rec arguments sp depth =
     sbind (sguard (length arguments \<le> max_fields (limits cfg)) (diag ResourceLimit sp)) (\<lambda>_.
       sbind (sfold (analyze_json_entry rec depth) [] arguments) (\<lambda>entries.
         sret (hir (HDict entries) (TMap TJson) [] sp)))"

definition analyze_json_conversion ::
  "analysis_config \<Rightarrow> rec_analysis \<Rightarrow> ustring \<Rightarrow> expr list \<Rightarrow> source_span \<Rightarrow> nat \<Rightarrow> hir_expr sema" where
  "analyze_json_conversion cfg rec operator arguments sp depth =
     (if operator = lit ''from-json'' then
        sbind (slift (two arguments (diag TypeMismatch sp))) (\<lambda>(target_expr, value_expr).
          sbind (slift (parse_type cfg target_expr)) (\<lambda>target.
            sbind get_defs (\<lambda>defs.
              sbind (slift (require_json_type defs target sp)) (\<lambda>_.
                sbind (rec value_expr (depth + 1)) (\<lambda>v.
                  sbind (slift (require_pure v)) (\<lambda>_.
                    sbind (slift (require_assignable (hir_ty v) TJson (hir_span v))) (\<lambda>_.
                      sret (hir (HFromJson target v) target [] sp))))))))
      else
        sbind (slift (one arguments (diag TypeMismatch sp))) (\<lambda>value_expr.
          sbind (rec value_expr (depth + 1)) (\<lambda>v.
            sbind (slift (require_pure v)) (\<lambda>_.
              sbind get_defs (\<lambda>defs.
                sbind (slift (require_json_type defs (hir_ty v) (hir_span v))) (\<lambda>_.
                  sret (hir (HToJson v) TJson [] sp)))))))"

definition record_fields :: "type_definitions \<Rightarrow> ustring \<Rightarrow> field_definition list option" where
  "record_fields defs name = (case bt_get defs name of Some (Record _ fs _) \<Rightarrow> Some fs | _ \<Rightarrow> None)"

definition union_variants :: "type_definitions \<Rightarrow> ustring \<Rightarrow> variant_definition list option" where
  "union_variants defs name = (case bt_get defs name of Some (Union _ vs _) \<Rightarrow> Some vs | _ \<Rightarrow> None)"

definition analyze_record :: "rec_analysis \<Rightarrow> expr list \<Rightarrow> source_span \<Rightarrow> nat \<Rightarrow> hir_expr sema" where
  "analyze_record rec arguments sp depth =
     sbind (slift (ok_or (first arguments) (diag TypeMismatch sp))) (\<lambda>type_expr.
       sbind (slift (expect_symbol type_expr)) (\<lambda>type_name.
         sbind get_defs (\<lambda>defs.
           sbind (slift (ok_or (record_fields defs type_name) (diag InvalidType (expr_span type_expr)))) (\<lambda>fds.
             sbind (analyze_named_fields rec (tl arguments) fds (depth + 1)) (\<lambda>vs.
               sbind (slift (require_pure_all (map snd vs))) (\<lambda>_.
                 sret (hir (HRecord type_name vs) (TNamed type_name) (union_effects (map snd vs)) sp)))))))"

definition analyze_variant :: "rec_analysis \<Rightarrow> expr list \<Rightarrow> source_span \<Rightarrow> nat \<Rightarrow> hir_expr sema" where
  "analyze_variant rec arguments sp depth =
     sbind (slift (ok_or (first arguments) (diag TypeMismatch sp))) (\<lambda>constructor_expr.
       sbind (slift (expect_symbol constructor_expr)) (\<lambda>constructor.
         let invalid = diag InvalidType (expr_span constructor_expr) in
         sbind (slift (ok_or (rsplit_once 46 constructor) invalid)) (\<lambda>(type_name, variant_name).
           sbind get_defs (\<lambda>defs.
             sbind (slift (ok_or (union_variants defs type_name) invalid)) (\<lambda>variants.
               sbind (slift (ok_or (find (\<lambda>v. vd_name v = variant_name) variants) invalid)) (\<lambda>variant.
                 sbind (analyze_named_fields rec (tl arguments) (vd_fields variant) (depth + 1)) (\<lambda>vs.
                   sbind (slift (require_pure_all (map snd vs))) (\<lambda>_.
                     sret (hir (HVariant type_name variant_name vs) (TNamed type_name)
                       (union_effects (map snd vs)) sp)))))))))"

definition analyze_some :: "rec_analysis \<Rightarrow> expr list \<Rightarrow> source_span \<Rightarrow> nat \<Rightarrow> hir_expr sema" where
  "analyze_some rec arguments sp depth =
     sbind (slift (one arguments (diag TypeMismatch sp))) (\<lambda>value_expr.
       sbind (rec value_expr (depth + 1)) (\<lambda>v.
         sbind (slift (require_pure v)) (\<lambda>_.
           sret (hir (HOptionSome v) (TOption (hir_ty v)) (hir_effects v) sp))))"

definition analyze_none :: "analysis_config \<Rightarrow> expr list \<Rightarrow> source_span \<Rightarrow> hir_expr sema" where
  "analyze_none cfg arguments sp =
     sbind (slift (one arguments (diag TypeMismatch sp))) (\<lambda>inner_expr.
       sbind (slift (parse_type cfg inner_expr)) (\<lambda>inner.
         sbind get_defs (\<lambda>defs.
           sbind (slift (validate_type_names defs inner sp)) (\<lambda>_.
             sret (hir (HOptionNone inner) (TOption inner) [] sp)))))"

definition analyze_ok :: "analysis_config \<Rightarrow> rec_analysis \<Rightarrow> expr list \<Rightarrow> source_span \<Rightarrow> nat \<Rightarrow> hir_expr sema" where
  "analyze_ok cfg rec arguments sp depth =
     sbind (slift (two arguments (diag TypeMismatch sp))) (\<lambda>(value_expr, error_expr).
       sbind (rec value_expr (depth + 1)) (\<lambda>v.
         sbind (slift (require_pure v)) (\<lambda>_.
           sbind (slift (parse_type cfg error_expr)) (\<lambda>err.
             sbind get_defs (\<lambda>defs.
               sbind (slift (validate_type_names defs err sp)) (\<lambda>_.
                 sret (hir (HResultOk v err) (TResult (hir_ty v) err) (hir_effects v) sp)))))))"

definition analyze_err :: "analysis_config \<Rightarrow> rec_analysis \<Rightarrow> expr list \<Rightarrow> source_span \<Rightarrow> nat \<Rightarrow> hir_expr sema" where
  "analyze_err cfg rec arguments sp depth =
     sbind (slift (two arguments (diag TypeMismatch sp))) (\<lambda>(value_expr, ok_expr).
       sbind (rec value_expr (depth + 1)) (\<lambda>v.
         sbind (slift (require_pure v)) (\<lambda>_.
           sbind (slift (parse_type cfg ok_expr)) (\<lambda>ok.
             sbind get_defs (\<lambda>defs.
               sbind (slift (validate_type_names defs ok sp)) (\<lambda>_.
                 sret (hir (HResultErr v ok) (TResult ok (hir_ty v)) (hir_effects v) sp)))))))"

text \<open>The name of one clause \<open>(NAME ..)\<close> not seen before, with its items.\<close>

definition clause_name :: "ustring list \<Rightarrow> expr \<Rightarrow> diagnostic + (ustring \<times> expr list)" where
  "clause_name seen clause =
     and_then (expect_list clause) (\<lambda>items.
       and_then (ok_or (head_symbol items) (diag TypeMismatch (expr_span clause))) (\<lambda>name.
         if name \<in> set seen then Inl (diag DuplicateName (expr_span clause)) else Inr (name, items)))"

definition analyze_references :: "rec_analysis \<Rightarrow> expr list \<Rightarrow> nat \<Rightarrow> hir_expr list sema" where
  "analyze_references rec es depth =
     sbind (analyze_many rec es depth) (\<lambda>refs.
       sbind (slift (require_pure_all refs)) (\<lambda>_.
         sbind (slift (try_map (\<lambda>r. require_assignable (hir_ty r) (TRef (lit ''Evidence'')) (hir_span r)) refs)) (\<lambda>_.
           sret refs)))"

definition analyze_evidence_clause ::
  "rec_analysis \<Rightarrow> nat \<Rightarrow> ustring list \<times> hir_expr option \<times> hir_expr option \<times> hir_expr list \<Rightarrow> expr
    \<Rightarrow> (ustring list \<times> hir_expr option \<times> hir_expr option \<times> hir_expr list) sema" where
  "analyze_evidence_clause rec depth acc clause =
     (case acc of (seen, kind, val, refs) \<Rightarrow>
        sbind (slift (clause_name seen clause)) (\<lambda>(name, items).
          if name = lit ''kind'' \<or> name = lit ''value'' then
            sbind (slift (two items (diag TypeMismatch (expr_span clause)))) (\<lambda>(_, e).
              sbind (rec e (depth + 1)) (\<lambda>v.
                sbind (slift (require_pure v)) (\<lambda>_.
                  if name = lit ''kind'' then
                    sbind (slift (require_assignable (hir_ty v) TString (hir_span v))) (\<lambda>_.
                      sret (name # seen, Some v, val, refs))
                  else sret (name # seen, kind, Some v, refs))))
          else if name = lit ''refs'' then
            sbind (analyze_references rec (tl items) (depth + 1)) (\<lambda>rs. sret (name # seen, kind, val, rs))
          else slift (Inl (diag UnknownName (expr_span clause)))))"

definition analyze_evidence :: "rec_analysis \<Rightarrow> expr list \<Rightarrow> source_span \<Rightarrow> nat \<Rightarrow> hir_expr sema" where
  "analyze_evidence rec arguments sp depth =
     sbind (sfold (analyze_evidence_clause rec depth) ([], None, None, []) arguments) (\<lambda>(seen, kind, val, refs).
       sbind (slift (ok_or kind (diag TypeMismatch sp))) (\<lambda>k.
         sbind (slift (ok_or val (diag TypeMismatch sp))) (\<lambda>v.
           sret (hir (HEvidenceCandidate k v refs) TEvidenceCandidate [] sp))))"

definition analyze_outcome_clause ::
  "rec_analysis \<Rightarrow> nat \<Rightarrow> ustring list \<times> ustring option \<times> hir_expr option \<times> hir_expr list \<Rightarrow> expr
    \<Rightarrow> (ustring list \<times> ustring option \<times> hir_expr option \<times> hir_expr list) sema" where
  "analyze_outcome_clause rec depth acc clause =
     (case acc of (seen, status, val, evidence) \<Rightarrow>
        sbind (slift (clause_name seen clause)) (\<lambda>(name, items).
          if name = lit ''status'' then
            sbind (slift (two items (diag TypeMismatch (expr_span clause)))) (\<lambda>(_, status_expr).
              sbind (slift (expect_symbol status_expr)) (\<lambda>candidate.
                sbind (sguard (candidate \<in> set outcome_statuses) (diag InvalidType (expr_span status_expr))) (\<lambda>_.
                  sret (name # seen, Some candidate, val, evidence))))
          else if name = lit ''value'' then
            sbind (slift (two items (diag TypeMismatch (expr_span clause)))) (\<lambda>(_, e).
              sbind (rec e (depth + 1)) (\<lambda>v.
                sbind (slift (require_pure v)) (\<lambda>_. sret (name # seen, status, Some v, evidence))))
          else if name = lit ''evidence'' then
            sbind (analyze_references rec (tl items) (depth + 1)) (\<lambda>rs. sret (name # seen, status, val, rs))
          else slift (Inl (diag UnknownName (expr_span clause)))))"

definition analyze_outcome :: "rec_analysis \<Rightarrow> expr list \<Rightarrow> source_span \<Rightarrow> nat \<Rightarrow> hir_expr sema" where
  "analyze_outcome rec arguments sp depth =
     sbind (sfold (analyze_outcome_clause rec depth) ([], None, None, []) arguments) (\<lambda>(seen, status, val, evidence).
       sbind (slift (ok_or status (diag TypeMismatch sp))) (\<lambda>s.
         let v = (case val of Some v \<Rightarrow> v | None \<Rightarrow> hir (HLiteral LNil) TNil [] sp) in
         sret (hir (HOutcomeCandidate s v evidence) TOutcomeCandidate [] sp)))"

definition analyze_context_clause ::
  "rec_analysis \<Rightarrow> nat \<Rightarrow> ustring list \<times> hir_expr option \<times> ustring option \<Rightarrow> expr
    \<Rightarrow> (ustring list \<times> hir_expr option \<times> ustring option) sema" where
  "analyze_context_clause rec depth acc clause =
     (case acc of (seen, context, transaction) \<Rightarrow>
        sbind (slift (clause_name seen clause)) (\<lambda>(name, items).
          if name = lit ''context'' then
            sbind (slift (two items (diag TypeMismatch (expr_span clause)))) (\<lambda>(_, e).
              sbind (rec e (depth + 1)) (\<lambda>v.
                sbind (slift (require_pure v)) (\<lambda>_.
                  sbind (slift (require_assignable (hir_ty v) (TRef (lit ''Context'')) (hir_span v))) (\<lambda>_.
                    sret (name # seen, Some v, transaction)))))
          else if name = lit ''transaction'' then
            sbind (slift (two items (diag TypeMismatch (expr_span clause)))) (\<lambda>(_, source).
              sbind (slift (expect_list source)) (\<lambda>source_items.
                sbind (sguard (head_symbol source_items = Some (lit ''context-tx'')) (diag TypeMismatch (expr_span source))) (\<lambda>_.
                  sret (name # seen, context, Some (canonical_source source)))))
          else slift (Inl (diag UnknownName (expr_span clause)))))"

definition analyze_context_transaction :: "rec_analysis \<Rightarrow> expr list \<Rightarrow> source_span \<Rightarrow> nat \<Rightarrow> hir_expr sema" where
  "analyze_context_transaction rec arguments sp depth =
     sbind (sfold (analyze_context_clause rec depth) ([], None, None) arguments) (\<lambda>(seen, context, transaction).
       sbind (slift (ok_or context (diag TypeMismatch sp))) (\<lambda>c.
         sbind (slift (ok_or transaction (diag TypeMismatch sp))) (\<lambda>source.
           sret (hir (HContextTransaction c source) TContextTransaction [] sp))))"

definition analyze_get :: "rec_analysis \<Rightarrow> expr list \<Rightarrow> source_span \<Rightarrow> nat \<Rightarrow> hir_expr sema" where
  "analyze_get rec arguments sp depth =
     sbind (slift (two arguments (diag TypeMismatch sp))) (\<lambda>(value_expr, field_expr).
       sbind (rec value_expr (depth + 1)) (\<lambda>v.
         sbind (slift (require_pure v)) (\<lambda>_.
           sbind (slift (atom_text field_expr)) (\<lambda>field.
             sbind get_defs (\<lambda>defs.
               sbind (slift (field_type defs (hir_ty v) field sp)) (\<lambda>t.
                 sret (hir (HGet v field) t (hir_effects v) sp)))))))"

definition analyze_decode :: "analysis_config \<Rightarrow> rec_analysis \<Rightarrow> expr list \<Rightarrow> source_span \<Rightarrow> nat \<Rightarrow> hir_expr sema" where
  "analyze_decode cfg rec arguments sp depth =
     sbind (slift (two arguments (diag TypeMismatch sp))) (\<lambda>(target_expr, value_expr).
       sbind (slift (parse_type cfg target_expr)) (\<lambda>target.
         sbind get_defs (\<lambda>defs.
           sbind (slift (validate_type_names defs target sp)) (\<lambda>_.
             sbind (sguard (\<not> contains_nonforgeable_type defs target) (diag InvalidType sp)) (\<lambda>_.
               sbind (rec value_expr (depth + 1)) (\<lambda>v.
                 sbind (slift (require_pure v)) (\<lambda>_.
                   sbind (slift (require_assignable (hir_ty v) TJson (hir_span v))) (\<lambda>_.
                     sret (hir (HDecode target v) target (hir_effects v) sp)))))))))"

definition analyze_is :: "analysis_config \<Rightarrow> rec_analysis \<Rightarrow> expr list \<Rightarrow> source_span \<Rightarrow> nat \<Rightarrow> hir_expr sema" where
  "analyze_is cfg rec arguments sp depth =
     sbind (slift (two arguments (diag TypeMismatch sp))) (\<lambda>(target_expr, value_expr).
       sbind (slift (parse_type cfg target_expr)) (\<lambda>target.
         sbind (rec value_expr (depth + 1)) (\<lambda>v.
           sbind (slift (require_pure v)) (\<lambda>_.
             sret (hir (HIs target v) TBool (hir_effects v) sp)))))"

section \<open>Operators and control\<close>

definition pure_operator_of :: "ustring \<Rightarrow> pure_operator option" where
  "pure_operator_of name =
     map_of [(lit ''eq'', OpEqual), (lit ''ne'', OpNotEqual), (lit ''lt'', OpLess), (lit ''le'', OpLessEqual),
       (lit ''gt'', OpGreater), (lit ''ge'', OpGreaterEqual), (lit ''and'', OpAnd), (lit ''or'', OpOr),
       (lit ''not'', OpNot), (lit ''add'', OpAdd), (lit ''sub'', OpSubtract), (lit ''mul'', OpMultiply),
       (lit ''div'', OpDivide)] name"

definition require_bool_all :: "hir_expr list \<Rightarrow> diagnostic + unit" where
  "require_bool_all es = map_ok (\<lambda>_. ()) (try_map (\<lambda>e. require_assignable (hir_ty e) TBool (hir_span e)) es)"

definition operator_type :: "pure_operator \<Rightarrow> hir_expr list \<Rightarrow> source_span \<Rightarrow> diagnostic + ty" where
  "operator_type operator operands sp =
     (let mismatch = diag TypeMismatch sp;
          equality = and_then (require_arity operands 2 sp) (\<lambda>_.
            map_ok (\<lambda>_. TBool) (ok_or (common_type (hir_ty (operands ! 0)) (hir_ty (operands ! 1))) mismatch));
          ordered = and_then (require_arity operands 2 sp) (\<lambda>_.
            map_ok (\<lambda>_. TBool) (require_comparable (hir_ty (operands ! 0)) (hir_ty (operands ! 1)) sp));
          connective = and_then (require (2 \<le> length operands) mismatch) (\<lambda>_.
            map_ok (\<lambda>_. TBool) (require_bool_all operands));
          fold_numeric = and_then (require (2 \<le> length operands) mismatch) (\<lambda>_. numeric_result operands sp);
          binary_numeric = and_then (require_arity operands 2 sp) (\<lambda>_. numeric_result operands sp) in
      case operator of
        OpEqual \<Rightarrow> equality
      | OpNotEqual \<Rightarrow> equality
      | OpLess \<Rightarrow> ordered
      | OpLessEqual \<Rightarrow> ordered
      | OpGreater \<Rightarrow> ordered
      | OpGreaterEqual \<Rightarrow> ordered
      | OpAnd \<Rightarrow> connective
      | OpOr \<Rightarrow> connective
      | OpNot \<Rightarrow> and_then (require_arity operands 1 sp) (\<lambda>_.
          map_ok (\<lambda>_. TBool) (require_assignable (hir_ty (operands ! 0)) TBool (hir_span (operands ! 0))))
      | OpAdd \<Rightarrow> fold_numeric
      | OpMultiply \<Rightarrow> fold_numeric
      | OpSubtract \<Rightarrow> binary_numeric
      | OpDivide \<Rightarrow> binary_numeric)"

definition analyze_pure :: "rec_analysis \<Rightarrow> pure_operator \<Rightarrow> expr list \<Rightarrow> source_span \<Rightarrow> nat \<Rightarrow> hir_expr sema" where
  "analyze_pure rec operator arguments sp depth =
     sbind (analyze_many rec arguments (depth + 1)) (\<lambda>operands.
       sbind (slift (require_pure_all operands)) (\<lambda>_.
         sbind (slift (operator_type operator operands sp)) (\<lambda>t.
           sret (hir (HPure operator operands) t (union_effects operands) sp))))"

definition analyze_seq :: "rec_analysis \<Rightarrow> expr list \<Rightarrow> source_span \<Rightarrow> nat \<Rightarrow> hir_expr sema" where
  "analyze_seq rec arguments sp depth =
     sbind (sguard (arguments \<noteq> []) (diag TypeMismatch sp)) (\<lambda>_.
       sbind (analyze_many rec arguments (depth + 1)) (\<lambda>steps.
         sret (hir (HSeq steps) (hir_ty (last steps)) (union_effects steps) sp)))"

definition bind_name :: "ustring \<Rightarrow> ty \<Rightarrow> scope \<Rightarrow> scope" where
  "bind_name name t sc = sc\<lparr>bindings := (bindings sc)(name \<mapsto> t)\<rparr>"

definition analyze_bind :: "analysis_config \<Rightarrow> rec_analysis \<Rightarrow> expr list \<Rightarrow> source_span \<Rightarrow> nat \<Rightarrow> hir_expr sema" where
  "analyze_bind cfg rec arguments sp depth =
     sbind (slift (two arguments (diag TypeMismatch sp))) (\<lambda>(name_expr, value_expr).
       sbind (slift (expect_binding_name cfg name_expr)) (\<lambda>name.
         sbind get_scope (\<lambda>sc.
           sbind (sguard (bindings sc name = None) (diag DuplicateName (expr_span name_expr))) (\<lambda>_.
             sbind (rec value_expr (depth + 1)) (\<lambda>v.
               sbind (smodify (\<lambda>(sc, an). (bind_name name (hir_ty v) sc, an))) (\<lambda>_.
                 sret (hir (HBind name v) TNil (hir_effects v) sp)))))))"

definition analyze_if :: "rec_analysis \<Rightarrow> expr list \<Rightarrow> source_span \<Rightarrow> nat \<Rightarrow> hir_expr sema" where
  "analyze_if rec arguments sp depth =
     sbind (slift (three arguments (diag TypeMismatch sp))) (\<lambda>(condition_expr, true_expr, false_expr).
       sbind (rec condition_expr (depth + 1)) (\<lambda>c.
         sbind (slift (require_pure c)) (\<lambda>_.
           sbind (slift (require_assignable (hir_ty c) TBool (hir_span c))) (\<lambda>_.
             sbind (in_scope (\<lambda>sc. sc) (rec true_expr (depth + 1))) (\<lambda>t.
               sbind (in_scope (\<lambda>sc. sc) (rec false_expr (depth + 1))) (\<lambda>f.
                 sbind (slift (ok_or (common_type (hir_ty t) (hir_ty f)) (diag TypeMismatch sp))) (\<lambda>u.
                   sret (hir (HIf c t f) u
                     (effect_union (effect_union (hir_effects c) (hir_effects t)) (hir_effects f)) sp))))))))"

definition analyze_fallback :: "rec_analysis \<Rightarrow> expr list \<Rightarrow> source_span \<Rightarrow> nat \<Rightarrow> hir_expr sema" where
  "analyze_fallback rec arguments sp depth =
     sbind (slift (two arguments (diag TypeMismatch sp))) (\<lambda>(primary_expr, backup_expr).
       sbind (in_scope (\<lambda>sc. sc) (rec primary_expr (depth + 1))) (\<lambda>p.
         sbind (in_scope (\<lambda>sc. sc) (rec backup_expr (depth + 1))) (\<lambda>b.
           sbind (slift (ok_or (common_type (hir_ty p) (hir_ty b)) (diag TypeMismatch sp))) (\<lambda>u.
             sret (hir (HFallback p b) u (effect_union (hir_effects p) (hir_effects b)) sp)))))"

definition list_element :: "ty \<Rightarrow> ty option" where
  "list_element t = (case t of TList u \<Rightarrow> Some u | _ \<Rightarrow> None)"

definition analyze_map :: "analysis_config \<Rightarrow> rec_analysis \<Rightarrow> expr list \<Rightarrow> source_span \<Rightarrow> nat \<Rightarrow> hir_expr sema" where
  "analyze_map cfg rec arguments sp depth =
     sbind (slift (three arguments (diag TypeMismatch sp))) (\<lambda>(collection_expr, element_expr, body_expr).
       sbind (rec collection_expr (depth + 1)) (\<lambda>c.
         sbind (slift (require_pure c)) (\<lambda>_.
           sbind (slift (ok_or (list_element (hir_ty c)) (diag TypeMismatch (hir_span c)))) (\<lambda>u.
             sbind (slift (expect_binding_name cfg element_expr)) (\<lambda>element.
               sbind get_scope (\<lambda>sc.
                 sbind (sguard (bindings sc element = None) (diag DuplicateName (expr_span element_expr))) (\<lambda>_.
                   sbind (in_scope (bind_name element u) (rec body_expr (depth + 1))) (\<lambda>b.
                     sret (hir (HMap c element b) (TList (hir_ty b))
                       (effect_union (hir_effects c) (hir_effects b)) sp)))))))))"

section \<open>Tools, functions, inference, parallel branches, hosts\<close>

definition analyze_call :: "analysis_config \<Rightarrow> rec_analysis \<Rightarrow> expr list \<Rightarrow> source_span \<Rightarrow> nat \<Rightarrow> hir_expr sema" where
  "analyze_call cfg rec arguments sp depth =
     sbind (slift (ok_or (first arguments) (diag TypeMismatch sp))) (\<lambda>tool_expr.
       sbind (slift (expect_symbol tool_expr)) (\<lambda>tool.
         sbind get_an (\<lambda>an.
           sbind (sguard (\<not> (function_stack an = [] \<and>
               (case req_tools (an_requirements an) of Some tools \<Rightarrow> tool \<notin> set tools | None \<Rightarrow> False)))
               (diag EffectEscape (expr_span tool_expr))) (\<lambda>_.
             sbind (slift (ok_or (tool_signature_of (profile cfg) tool)
                 (case unavailable_tool_reason (profile cfg) tool of
                    Some _ \<Rightarrow> diag EffectEscape (expr_span tool_expr)
                  | None \<Rightarrow> diag UnknownName (expr_span tool_expr)))) (\<lambda>signature.
               sbind (analyze_named_arguments rec (tl arguments) (depth + 1)) (\<lambda>named.
                 sbind (slift (require_pure_all (argument_values named))) (\<lambda>_.
                   sbind (slift (check_signature named signature sp)) (\<lambda>_.
                     sret (hir (HCall tool named) (ts_result signature)
                       (effect_insert (Tool tool) (union_effects (argument_values named))) sp)))))))))"

definition tools_within :: "ustring list option \<Rightarrow> effect_set \<Rightarrow> bool" where
  "tools_within tools effects \<longleftrightarrow>
     (case tools of
        None \<Rightarrow> True
      | Some ts \<Rightarrow> list_all (\<lambda>e. case e of Tool tool \<Rightarrow> tool \<in> set ts | _ \<Rightarrow> True) effects)"

definition check_function_argument ::
  "function_declaration \<Rightarrow> hir_expr named_argument \<Rightarrow> diagnostic + unit" where
  "check_function_argument decl argument =
     and_then (ok_or (find (\<lambda>p. fp_name p = arg_name argument) (fn_parameters decl)) (diag UnknownName (arg_span argument))) (\<lambda>p.
       and_then (one (arg_values argument) (diag TypeMismatch (arg_span argument))) (\<lambda>v.
         require_assignable (hir_ty v) (fp_ty p) (hir_span v)))"

definition analyze_function_application ::
  "rec_analysis \<Rightarrow> (ustring \<Rightarrow> compiled_function sema) \<Rightarrow> ustring \<Rightarrow> expr list \<Rightarrow> source_span \<Rightarrow> nat \<Rightarrow> hir_expr sema" where
  "analyze_function_application rec compile name arguments sp depth =
     sbind (compile name) (\<lambda>f.
       sbind get_an (\<lambda>an.
         sbind (sguard (\<not> (function_stack an = [] \<and> \<not> allow_internal_functions an \<and>
             fn_visibility (cf_declaration f) \<noteq> Exported)) (diag UnknownName sp)) (\<lambda>_.
           sbind (analyze_named_arguments rec arguments (depth + 1)) (\<lambda>named.
             sbind (slift (require_pure_all (argument_values named))) (\<lambda>_.
               sbind (slift (try_map (\<lambda>p. require (fp_name p \<in> set (map arg_name named)) (diag TypeMismatch sp))
                   (fn_parameters (cf_declaration f)))) (\<lambda>_.
                 sbind (slift (try_map (check_function_argument (cf_declaration f)) named)) (\<lambda>_.
                   sbind get_an (\<lambda>an.
                     sbind (sguard (function_stack an = [] \<longrightarrow>
                         tools_within (req_tools (an_requirements an)) (hir_effects (cf_body f)))
                         (diag EffectEscape sp)) (\<lambda>_.
                       sret (hir (HFunctionApplication name named (map fp_name (fn_parameters (cf_declaration f))) (cf_body f))
                         (fn_returns (cf_declaration f))
                         (effect_union (union_effects (argument_values named)) (hir_effects (cf_body f))) sp))))))))))"

definition parse_captures :: "scope \<Rightarrow> expr list \<Rightarrow> diagnostic + ustring list" where
  "parse_captures sc items =
     try_fold (\<lambda>out capture.
       and_then (expect_symbol capture) (\<lambda>name.
         if name \<in> set out then Inl (diag DuplicateName (expr_span capture))
         else if bindings sc name = None then Inl (diag UnknownName (expr_span capture))
         else Inr (out @ [name]))) [] items"

definition capture_scope :: "ustring list \<Rightarrow> scope \<Rightarrow> scope" where
  "capture_scope captures outer =
     scope_empty\<lparr>bindings := (\<lambda>name. if name \<in> set captures then bindings outer name else None)\<rparr>"

definition infer_source :: "expr list \<Rightarrow> ustring" where
  "infer_source arguments = lit ''(infer '' @ items_text (map canonical_source arguments) @ lit '')''"

definition analyze_infer_body ::
  "analysis_config \<Rightarrow> rec_analysis \<Rightarrow> expr list \<Rightarrow> source_span \<Rightarrow> bool \<Rightarrow> nat \<Rightarrow> hir_expr sema" where
  "analyze_infer_body cfg rec arguments sp root_model_owned depth =
     sbind get_scope (\<lambda>sc.
       sbind (slift (if is_form (first arguments) ''captures''
           then and_then (expect_list (hd arguments)) (\<lambda>items. map_ok (\<lambda>cs. (cs, tl arguments)) (parse_captures sc (tl items)))
           else Inr ([], arguments))) (\<lambda>(captures, rest1).
         sbind get_defs (\<lambda>defs.
           sbind (slift (if is_form (first rest1) ''returns''
               then and_then (expect_list (hd rest1)) (\<lambda>items.
                 and_then (two items (diag InvalidType (expr_span (hd rest1)))) (\<lambda>(_, type_expr).
                   and_then (parse_type cfg type_expr) (\<lambda>t.
                     map_ok (\<lambda>_. (Some t, tl rest1)) (validate_type_names defs t (expr_span (hd rest1))))))
               else Inr (None, rest1))) (\<lambda>(declared, rest2).
             sbind (slift (one rest2 (diag InvalidType sp))) (\<lambda>body_source.
               sbind (in_scope (capture_scope captures) (rec body_source (depth + 1))) (\<lambda>b.
                 let result = (case declared of Some t \<Rightarrow> t | None \<Rightarrow> hir_ty b);
                     effects = (if root_model_owned then hir_effects b else effect_insert Infer (hir_effects b)) in
                 sret (hir (HInferBody b captures result (infer_source arguments)) result effects sp)))))))"

definition analyze_infer ::
  "analysis_config \<Rightarrow> rec_analysis \<Rightarrow> expr list \<Rightarrow> source_span \<Rightarrow> bool \<Rightarrow> nat \<Rightarrow> hir_expr sema" where
  "analyze_infer cfg rec arguments sp root_model_owned depth =
     analyze_infer_body cfg rec arguments sp root_model_owned depth"

definition analyze_branch ::
  "analysis_config \<Rightarrow> rec_analysis \<Rightarrow> nat \<Rightarrow> hir_expr par_branch list \<Rightarrow> expr \<Rightarrow> hir_expr par_branch list sema" where
  "analyze_branch cfg rec depth out branch =
     sbind (slift (expect_list branch)) (\<lambda>items.
       sbind (slift (three items (diag TypeMismatch (expr_span branch)))) (\<lambda>(tag, name_expr, body_expr).
         sbind (sguard (as_symbol tag = Some (lit ''branch'')) (diag UnknownOperator (expr_span tag))) (\<lambda>_.
           sbind (slift (expect_symbol name_expr)) (\<lambda>name.
             sbind (sguard (is_identifier cfg name) (diag UnknownName (expr_span name_expr))) (\<lambda>_.
               sbind (sguard (name \<notin> set (map branch_name out)) (diag DuplicateName (expr_span name_expr))) (\<lambda>_.
                 sbind (in_scope (\<lambda>sc. sc) (rec body_expr (depth + 1))) (\<lambda>b.
                   sret (out @ [ParBranch name b (expr_span branch)]))))))))"

definition analyze_par :: "analysis_config \<Rightarrow> rec_analysis \<Rightarrow> expr list \<Rightarrow> source_span \<Rightarrow> nat \<Rightarrow> hir_expr sema" where
  "analyze_par cfg rec arguments sp depth =
     sbind (sguard (2 \<le> length arguments) (diag TypeMismatch sp)) (\<lambda>_.
       sbind (sguard (length arguments \<le> max_par_branches (limits cfg)) (diag ResourceLimit sp)) (\<lambda>_.
         sbind (sfold (analyze_branch cfg rec depth) [] arguments) (\<lambda>branches.
           sret (hir (HPar branches)
             (TStructuralRecord (bt_from (map (\<lambda>b. (branch_name b, hir_ty (branch_body b))) branches)))
             (union_effects (map branch_body branches)) sp))))"

definition program_type :: "ty \<Rightarrow> (ty \<times> effect_set) option" where
  "program_type t = (case t of TProgram out effects \<Rightarrow> Some (out, effects) | _ \<Rightarrow> None)"

definition analyze_run :: "rec_analysis \<Rightarrow> expr list \<Rightarrow> source_span \<Rightarrow> nat \<Rightarrow> hir_expr sema" where
  "analyze_run rec arguments sp depth =
     sbind (slift (one arguments (diag TypeMismatch sp))) (\<lambda>program_expr.
       sbind (rec program_expr (depth + 1)) (\<lambda>p.
         sbind (slift (require_pure p)) (\<lambda>_.
           sbind (slift (ok_or (program_type (hir_ty p)) (diag TypeMismatch (hir_span p)))) (\<lambda>(out, effects).
             sret (hir (HRun p) out (effect_insert (ProgramEffect effects) (hir_effects p)) sp)))))"

definition analyze_host ::
  "analysis_config \<Rightarrow> rec_analysis \<Rightarrow> ustring \<Rightarrow> expr list \<Rightarrow> source_span \<Rightarrow> nat \<Rightarrow> hir_expr sema" where
  "analyze_host cfg rec operation arguments sp depth =
     sbind (slift (ok_or (host_signature (profile cfg) operation) (diag UnknownName sp))) (\<lambda>signature.
       sbind (analyze_named_arguments rec arguments (depth + 1)) (\<lambda>named.
         sbind (slift (require_pure_all (argument_values named))) (\<lambda>_.
           sbind (slift (check_signature named signature sp)) (\<lambda>_.
             sret (hir (HHost operation named) (ts_result signature)
               (effect_insert (Host operation) (union_effects (argument_values named))) sp)))))"

definition analyze_host_unary ::
  "analysis_config \<Rightarrow> rec_analysis \<Rightarrow> ustring \<Rightarrow> string \<Rightarrow> expr list \<Rightarrow> source_span \<Rightarrow> nat \<Rightarrow> hir_expr sema" where
  "analyze_host_unary cfg rec operation argument_name arguments sp depth =
     sbind (slift (one arguments (diag TypeMismatch sp))) (\<lambda>argument.
       sbind (slift (ok_or (host_signature (profile cfg) operation) (diag UnknownName sp))) (\<lambda>signature.
         sbind (rec argument (depth + 1)) (\<lambda>v.
           sbind (slift (require_pure v)) (\<lambda>_.
             let named = [NamedArgument (lit argument_name) [v] (expr_span argument)] in
             sbind (slift (check_signature named signature sp)) (\<lambda>_.
               sret (hir (HHost operation named) (ts_result signature) (effect_set_new [Host operation]) sp))))))"

definition ref_kind :: "ty \<Rightarrow> ustring option" where
  "ref_kind t = (case t of TRef k \<Rightarrow> Some k | _ \<Rightarrow> None)"

definition projection_type :: "type_definitions \<Rightarrow> ty \<Rightarrow> bool" where
  "projection_type defs t \<longleftrightarrow>
     (case t of
        TJson \<Rightarrow> True
      | TStructuralRecord _ \<Rightarrow> True
      | TNamed name \<Rightarrow> record_fields defs name \<noteq> None
      | _ \<Rightarrow> False)"

definition analyze_host_view :: "analysis_config \<Rightarrow> rec_analysis \<Rightarrow> expr list \<Rightarrow> source_span \<Rightarrow> nat \<Rightarrow> hir_expr sema" where
  "analyze_host_view cfg rec arguments sp depth =
     sbind (slift (two arguments (diag TypeMismatch sp))) (\<lambda>(reference_expr, returns).
       sbind (rec reference_expr (depth + 1)) (\<lambda>r.
         sbind (slift (require_pure r)) (\<lambda>_.
           sbind (slift (ok_or (ref_kind (hir_ty r)) (diag TypeMismatch (hir_span r)))) (\<lambda>kind.
             sbind get_an (\<lambda>an.
               sbind (sguard (case req_objects (an_requirements an) of Some objects \<Rightarrow> kind \<in> set objects | None \<Rightarrow> True)
                   (diag EffectEscape (hir_span r))) (\<lambda>_.
                 sbind (slift (expect_list returns)) (\<lambda>items.
                   sbind (slift (two items (diag InvalidType (expr_span returns)))) (\<lambda>(tag, type_expr).
                     sbind (sguard (as_symbol tag = Some (lit ''returns'')) (diag InvalidType (expr_span returns))) (\<lambda>_.
                       sbind (slift (parse_type cfg type_expr)) (\<lambda>result.
                         sbind (slift (validate_type_names (definitions an) result (expr_span returns))) (\<lambda>_.
                           sbind (sguard (projection_type (definitions an) result) (diag InvalidType (expr_span returns))) (\<lambda>_.
                             sret (hir (HHost (lit ''host.view'') [NamedArgument (lit ''ref'') [r] (expr_span reference_expr)])
                               result (effect_set_new [Host (lit ''view.'' @ kind)]) sp)))))))))))))"

section \<open>Match\<close>

definition parse_match_binding ::
  "analysis_config \<Rightarrow> field_definition list \<Rightarrow> match_binding list \<times> scope \<Rightarrow> expr
    \<Rightarrow> diagnostic + (match_binding list \<times> scope)" where
  "parse_match_binding cfg fds acc e =
     (case acc of (out, sc) \<Rightarrow>
        and_then (expect_list e) (\<lambda>items.
          and_then (two items (diag TypeMismatch (expr_span e))) (\<lambda>(field_expr, binding_expr).
            and_then (expect_symbol field_expr) (\<lambda>field.
              and_then (expect_binding_name cfg binding_expr) (\<lambda>binding.
                and_then (ok_or (find (\<lambda>d. fd_name d = field) fds) (diag UnknownName (expr_span field_expr))) (\<lambda>d.
                  if field \<in> set (map mb_field out) then Inl (diag DuplicateName (expr_span field_expr))
                  else if bindings sc binding \<noteq> None then Inl (diag DuplicateName (expr_span binding_expr))
                  else Inr (out @ [\<lparr>mb_field = field, mb_binding = binding\<rparr>], bind_name binding (fd_ty d) sc)))))))"

definition parse_match_bindings ::
  "analysis_config \<Rightarrow> expr list \<Rightarrow> field_definition list \<Rightarrow> scope \<Rightarrow> diagnostic + (match_binding list \<times> scope)" where
  "parse_match_bindings cfg es fds sc =
     (if length es \<noteq> length fds then Inl (diag TypeMismatch (span_or_empty es))
      else try_fold (parse_match_binding cfg fds) ([], sc) es)"

text \<open>The pattern of one case: its variant, the fields' bindings, and the body.\<close>

definition parse_match_pattern ::
  "ustring \<Rightarrow> variant_definition list \<Rightarrow> ustring list \<Rightarrow> expr \<Rightarrow> diagnostic + (variant_definition \<times> expr list \<times> expr)" where
  "parse_match_pattern type_name variants seen clause =
     and_then (expect_list clause) (\<lambda>case_items.
       and_then (two case_items (diag TypeMismatch (expr_span clause))) (\<lambda>(pattern, body_expr).
         and_then (expect_list pattern) (\<lambda>pattern_items.
           if head_symbol pattern_items \<noteq> Some (lit ''case'') \<or> length pattern_items < 2
           then Inl (diag TypeMismatch (expr_span pattern))
           else
             let constructor_expr = pattern_items ! 1; csp = expr_span constructor_expr in
             and_then (expect_symbol constructor_expr) (\<lambda>constructor.
               and_then (ok_or (rsplit_once 46 constructor) (diag InvalidType csp)) (\<lambda>(case_type, variant_name).
                 if case_type \<noteq> type_name then Inl (diag TypeMismatch csp)
                 else if variant_name \<in> set seen then Inl (diag DuplicateName csp)
                 else map_ok (\<lambda>variant. (variant, drop 2 pattern_items, body_expr))
                   (ok_or (find (\<lambda>item. vd_name item = variant_name) variants) (diag InvalidType csp)))))))"

definition analyze_case ::
  "analysis_config \<Rightarrow> rec_analysis \<Rightarrow> ustring \<Rightarrow> variant_definition list \<Rightarrow> nat \<Rightarrow> hir_expr match_case list \<Rightarrow> expr
    \<Rightarrow> hir_expr match_case list sema" where
  "analyze_case cfg rec type_name variants depth out clause =
     sbind (slift (parse_match_pattern type_name variants (map case_variant out) clause))
       (\<lambda>(variant, binding_exprs, body_expr).
         sbind get_scope (\<lambda>sc.
           sbind (slift (parse_match_bindings cfg binding_exprs (vd_fields variant) sc)) (\<lambda>(bs, case_scope).
             sbind (in_scope (\<lambda>_. case_scope) (rec body_expr (depth + 1))) (\<lambda>b.
               sret (out @ [MatchCase (vd_name variant) bs b (expr_span clause)])))))"

definition named_type :: "ty \<Rightarrow> ustring option" where
  "named_type t = (case t of TNamed n \<Rightarrow> Some n | _ \<Rightarrow> None)"

definition analyze_match :: "analysis_config \<Rightarrow> rec_analysis \<Rightarrow> expr list \<Rightarrow> source_span \<Rightarrow> nat \<Rightarrow> hir_expr sema" where
  "analyze_match cfg rec arguments sp depth =
     sbind (slift (ok_or (first arguments) (diag TypeMismatch sp))) (\<lambda>value_expr.
       sbind (rec value_expr (depth + 1)) (\<lambda>v.
         sbind (slift (require_pure v)) (\<lambda>_.
           sbind (slift (ok_or (named_type (hir_ty v)) (diag TypeMismatch (hir_span v)))) (\<lambda>type_name.
             sbind get_defs (\<lambda>defs.
               sbind (slift (ok_or (union_variants defs type_name) (diag InvalidType (hir_span v)))) (\<lambda>variants.
                 sbind (sfold (analyze_case cfg rec type_name variants depth) [] (tl arguments)) (\<lambda>cases.
                   sbind (sguard (list_all (\<lambda>d. vd_name d \<in> set (map case_variant cases)) variants) (diag TypeMismatch sp)) (\<lambda>_.
                     sbind (slift (common_types (map (\<lambda>c. hir_ty (case_body c)) cases) sp)) (\<lambda>t.
                       sbind (slift (ok_or t (diag TypeMismatch sp))) (\<lambda>u.
                         sret (hir (HMatch v cases) u
                           (effect_union (hir_effects v) (union_effects (map case_body cases))) sp)))))))))))"

section \<open>Dispatch\<close>

definition analyze_form ::
  "analysis_config \<Rightarrow> (ustring \<Rightarrow> compiled_function sema) \<Rightarrow> rec_analysis \<Rightarrow> ustring \<Rightarrow> source_span \<Rightarrow> expr list
    \<Rightarrow> source_span \<Rightarrow> nat \<Rightarrow> hir_expr sema" where
  "analyze_form cfg compile rec operator operator_span arguments sp depth =
     (if operator = lit ''list'' then analyze_list rec arguments sp depth
      else if operator = lit ''dict'' then analyze_dict cfg rec arguments sp depth
      else if operator = lit ''json-object'' then analyze_json_object cfg rec arguments sp depth
      else if operator = lit ''from-json'' \<or> operator = lit ''to-json'' then
        analyze_json_conversion cfg rec operator arguments sp depth
      else if operator = lit ''record'' then analyze_record rec arguments sp depth
      else if operator = lit ''variant'' then analyze_variant rec arguments sp depth
      else if operator = lit ''some'' then analyze_some rec arguments sp depth
      else if operator = lit ''none'' then analyze_none cfg arguments sp
      else if operator = lit ''ok'' then analyze_ok cfg rec arguments sp depth
      else if operator = lit ''err'' then analyze_err cfg rec arguments sp depth
      else if operator = lit ''evidence'' then analyze_evidence rec arguments sp depth
      else if operator = lit ''outcome'' then analyze_outcome rec arguments sp depth
      else if operator = lit ''context-transaction'' then analyze_context_transaction rec arguments sp depth
      else if operator = lit ''get'' then analyze_get rec arguments sp depth
      else if operator = lit ''decode'' then analyze_decode cfg rec arguments sp depth
      else if operator = lit ''is'' then analyze_is cfg rec arguments sp depth
      else (case pure_operator_of operator of
        Some op \<Rightarrow> analyze_pure rec op arguments sp depth
      | None \<Rightarrow>
          if operator = lit ''seq'' then analyze_seq rec arguments sp depth
          else if operator = lit ''bind'' then analyze_bind cfg rec arguments sp depth
          else if operator = lit ''if'' then analyze_if rec arguments sp depth
          else if operator = lit ''match'' then analyze_match cfg rec arguments sp depth
          else if operator = lit ''fallback'' then analyze_fallback rec arguments sp depth
          else if operator = lit ''map'' then analyze_map cfg rec arguments sp depth
          else if operator = lit ''call'' then analyze_call cfg rec arguments sp depth
          else if operator = lit ''infer'' then analyze_infer cfg rec arguments sp False depth
          else if operator = lit ''par'' then analyze_par cfg rec arguments sp depth
          else if operator = lit ''run'' then analyze_run rec arguments sp depth
          else if operator = lit ''host.view'' then analyze_host_view cfg rec arguments sp depth
          else if operator = lit ''evidence.commit'' \<or> operator = lit ''outcome.commit'' then
            analyze_host_unary cfg rec operator ''candidate'' arguments sp depth
          else if operator = lit ''context.propose'' then
            analyze_host_unary cfg rec operator ''transaction'' arguments sp depth
          else if 46 \<in> set operator then analyze_host cfg rec operator arguments sp depth
          else sbind get_an (\<lambda>an.
            if bt_contains (function_declarations an) operator
            then analyze_function_application rec compile operator arguments sp depth
            else slift (Inl (diag UnknownOperator operator_span)))))"

definition analyze_step ::
  "analysis_config \<Rightarrow> (ustring \<Rightarrow> compiled_function sema) \<Rightarrow> rec_analysis \<Rightarrow> rec_analysis" where
  "analyze_step cfg compile rec e depth =
     sbind (sguard (depth \<le> max_expression_depth (limits cfg)) (diag ResourceLimit (expr_span e))) (\<lambda>_.
       sbind (smodify (\<lambda>(sc, an). (sc, an\<lparr>node_count := node_count an + 1\<rparr>))) (\<lambda>_.
         sbind get_an (\<lambda>an.
           sbind (sguard (node_count an \<le> max_hir_nodes (limits cfg)) (diag ResourceLimit (expr_span e))) (\<lambda>_.
             case e of
               Atom a \<Rightarrow> analyze_atom cfg a
             | EList items sp \<Rightarrow>
                 (case head_symbol items of
                    None \<Rightarrow> slift (Inl (diag UnknownOperator sp))
                  | Some operator \<Rightarrow>
                      analyze_form cfg compile rec operator (expr_span (hd items)) (tl items) sp depth)))))"

primrec analyze_upto ::
  "nat \<Rightarrow> analysis_config \<Rightarrow> (ustring \<Rightarrow> compiled_function sema) \<Rightarrow> rec_analysis" where
  "analyze_upto 0 cfg compile = (\<lambda>e depth. slift (Inl (diag ResourceLimit (expr_span e))))"
| "analyze_upto (Suc n) cfg compile = analyze_step cfg compile (analyze_upto n cfg compile)"

definition analyze_expr :: "analysis_config \<Rightarrow> (ustring \<Rightarrow> compiled_function sema) \<Rightarrow> rec_analysis" where
  "analyze_expr cfg compile = analyze_upto (max_expression_depth (limits cfg) + 2) cfg compile"

section \<open>Functions\<close>

text \<open>The body of the closure in \<open>compile_function\<close>, with the scope of the parameters.\<close>

definition parameter_scope :: "analysis_config \<Rightarrow> function_parameter list \<Rightarrow> diagnostic + scope" where
  "parameter_scope cfg ps =
     try_fold (\<lambda>sc p.
       if bindings sc (fp_name p) \<noteq> None then Inl (diag DuplicateName (fp_span p))
       else Inr (bind_name (fp_name p) (fp_ty p) sc)) (scope_new cfg) ps"

definition compile_body :: "analysis_config \<Rightarrow> rec_analysis \<Rightarrow> function_declaration \<Rightarrow> compiled_function sema" where
  "compile_body cfg analyze decl =
     sbind (slift (parameter_scope cfg (fn_parameters decl))) (\<lambda>sc.
       sbind (in_scope (\<lambda>_. sc) (analyze (fn_body decl) 0)) (\<lambda>b.
         sbind (slift (require_assignable (hir_ty b) (fn_returns decl) (hir_span b))) (\<lambda>_.
           sbind (sguard (case fn_declared_effects decl of
               Some declared \<Rightarrow> effect_is_subset (hir_effects b) declared | None \<Rightarrow> True)
               (diag EffectEscape (hir_span b))) (\<lambda>_.
             sret \<lparr>cf_declaration = decl, cf_body = b\<rparr>))))"

definition in_function :: "ustring \<Rightarrow> 'a sema \<Rightarrow> 'a sema" where
  "in_function name m = (\<lambda>st.
     map_err (\<lambda>d. if diag_function d = None then d\<lparr>diag_function := Some name\<rparr> else d) (m st))"

definition compile_step ::
  "analysis_config \<Rightarrow> (ustring \<Rightarrow> compiled_function sema) \<Rightarrow> ustring \<Rightarrow> compiled_function sema" where
  "compile_step cfg compile name =
     sbind get_an (\<lambda>an.
       case bt_get (compiled_functions an) name of
         Some f \<Rightarrow> sret f
       | None \<Rightarrow>
           (let decl_span = (case bt_get (function_declarations an) name of Some d \<Rightarrow> fn_span d | None \<Rightarrow> empty_span) in
            if name \<in> set (function_stack an) then slift (Inl (diag RecursiveFunction decl_span))
            else if max_function_call_depth (limits cfg) \<le> length (function_stack an)
            then slift (Inl (diag ResourceLimit decl_span))
            else sbind (slift (ok_or (bt_get (function_declarations an) name) (diag UnknownName empty_span))) (\<lambda>decl.
              sbind (smodify (\<lambda>(sc, an). (sc, an\<lparr>function_stack := function_stack an @ [name]\<rparr>))) (\<lambda>_.
                sbind (in_function name (compile_body cfg (analyze_expr cfg compile) decl)) (\<lambda>f.
                  sbind (smodify (\<lambda>(sc, an). (sc, an\<lparr>function_stack := butlast (function_stack an),
                      compiled_functions := bt_insert name f (compiled_functions an)\<rparr>))) (\<lambda>_.
                    sret f))))))"

primrec compile_function :: "nat \<Rightarrow> analysis_config \<Rightarrow> ustring \<Rightarrow> compiled_function sema" where
  "compile_function 0 cfg = (\<lambda>name. slift (Inl (diag ResourceLimit empty_span)))"
| "compile_function (Suc n) cfg = compile_step cfg (compile_function n cfg)"

definition compile :: "analysis_config \<Rightarrow> ustring \<Rightarrow> compiled_function sema" where
  "compile cfg = compile_function (max_function_call_depth (limits cfg) + 1) cfg"

end
