(* ===== verification/Yao_Identity.thy ===== *)
theory Yao_Identity
  imports Yao_Value "HOL-Library.Option_ord"
begin

text \<open>
  The identity of an admitted program (\<open>yao/src/canonical.rs\<close>, \<open>canonical_program\<close> and
  \<open>program_hash\<close>): the JSON value the derived serializers produce for the data of \<open>sema.rs\<close>,
  \<open>types.rs\<close> and \<open>diagnostic.rs\<close>, and \<open>normalize_typed_identity\<close>, which drops provenance and sorts
  dictionaries. The text of a JSON value and SHA-256 are parameters.
\<close>

section \<open>Serialized form\<close>

definition jnat :: "nat \<Rightarrow> json" where
  "jnat n = JNumber (PosInt (int n))"

definition location_value :: "source_location \<Rightarrow> json" where
  "location_value l = jobj [(''byte'', jnat (loc_byte l)), (''line'', jnat (loc_line l)), (''column'', jnat (loc_column l))]"

definition span_value :: "source_span \<Rightarrow> json" where
  "span_value sp = jobj [(''start'', location_value (span_start sp)), (''end'', location_value (span_end sp))]"

fun effect_value :: "effect \<Rightarrow> json" where
  "effect_value Infer = jobj [(''kind'', jstr ''infer'')]"
| "effect_value (Tool name) = jobj [(''kind'', jstr ''tool''), (''name'', JString name)]"
| "effect_value (Host name) = jobj [(''kind'', jstr ''host''), (''name'', JString name)]"
| "effect_value (ProgramEffect es) = jobj [(''kind'', jstr ''program''), (''name'', JArray (map effect_value es))]"

definition effects_value :: "effect_set \<Rightarrow> json" where
  "effects_value es = JArray (map effect_value es)"

definition kind_value :: "string \<Rightarrow> json" where
  "kind_value k = jobj [(''kind'', jstr k)]"

definition kind_content :: "string \<Rightarrow> json \<Rightarrow> json" where
  "kind_content k v = jobj [(''kind'', jstr k), (''value'', v)]"

fun ty_value :: "ty \<Rightarrow> json" where
  "ty_value TNil = kind_value ''nil''"
| "ty_value TBool = kind_value ''bool''"
| "ty_value TInt = kind_value ''int''"
| "ty_value TFloat = kind_value ''float''"
| "ty_value TString = kind_value ''string''"
| "ty_value TBytes = kind_value ''bytes''"
| "ty_value TJson = kind_value ''json''"
| "ty_value (TList t) = kind_content ''list'' (ty_value t)"
| "ty_value (TMap t) = kind_content ''map'' (ty_value t)"
| "ty_value (TStructuralRecord fs) =
     kind_content ''structural_record'' (JObject (map (\<lambda>(n, t). (n, ty_value t)) fs))"
| "ty_value (TOption t) = kind_content ''option'' (ty_value t)"
| "ty_value (TResult a b) = kind_content ''result'' (jobj [(''ok'', ty_value a), (''error'', ty_value b)])"
| "ty_value TEvidenceCandidate = kind_value ''evidence_candidate''"
| "ty_value TOutcomeCandidate = kind_value ''outcome_candidate''"
| "ty_value TContextTransaction = kind_value ''context_transaction''"
| "ty_value (TRef k) = kind_content ''ref'' (JString k)"
| "ty_value (TProgram t es) = kind_content ''program'' (jobj [(''output'', ty_value t), (''effects'', effects_value es)])"
| "ty_value (TNamed n) = kind_content ''named'' (JString n)"

fun literal_json :: "literal \<Rightarrow> json" where
  "literal_json LNil = kind_value ''nil''"
| "literal_json (LBool b) = kind_content ''bool'' (JBool b)"
| "literal_json (LInt i) = kind_content ''int'' (JNumber (number_of_i64 i))"
| "literal_json (LFloat s) = kind_content ''float'' (JString s)"
| "literal_json (LString s) = kind_content ''string'' (JString s)"

fun operator_name :: "pure_operator \<Rightarrow> string" where
  "operator_name OpEqual = ''equal''"
| "operator_name OpNotEqual = ''not_equal''"
| "operator_name OpLess = ''less''"
| "operator_name OpLessEqual = ''less_equal''"
| "operator_name OpGreater = ''greater''"
| "operator_name OpGreaterEqual = ''greater_equal''"
| "operator_name OpAnd = ''and''"
| "operator_name OpOr = ''or''"
| "operator_name OpNot = ''not''"
| "operator_name OpAdd = ''add''"
| "operator_name OpSubtract = ''subtract''"
| "operator_name OpMultiply = ''multiply''"
| "operator_name OpDivide = ''divide''"

definition argument_value :: "json named_argument \<Rightarrow> json" where
  "argument_value a =
     jobj [(''name'', JString (arg_name a)), (''values'', JArray (arg_values a)), (''span'', span_value (arg_span a))]"

definition binding_value :: "match_binding \<Rightarrow> json" where
  "binding_value b = jobj [(''field'', JString (mb_field b)), (''binding'', JString (mb_binding b))]"

definition case_value :: "json match_case \<Rightarrow> json" where
  "case_value c =
     jobj [(''variant'', JString (case_variant c)), (''bindings'', JArray (map binding_value (case_bindings c))),
       (''body'', case_body c), (''span'', span_value (case_span c))]"

definition branch_value :: "json par_branch \<Rightarrow> json" where
  "branch_value b =
     jobj [(''name'', JString (branch_name b)), (''body'', branch_body b), (''span'', span_value (branch_span b))]"

definition pair_values :: "(ustring \<times> json) list \<Rightarrow> json" where
  "pair_values kvs = JArray (map (\<lambda>(k, v). JArray [JString k, v]) kvs)"

definition strings_value :: "ustring list \<Rightarrow> json" where
  "strings_value ss = JArray (map JString ss)"

text \<open>A node kind whose children are already serialized.\<close>

definition op_value :: "string \<Rightarrow> (string \<times> json) list \<Rightarrow> json" where
  "op_value name entries = jobj ((''op'', jstr name) # entries)"

fun hir_kind_value :: "json hir_kind \<Rightarrow> json" where
  "hir_kind_value (HLiteral l) = op_value ''literal'' [(''value'', literal_json l)]"
| "hir_kind_value (HReference root path) =
     op_value ''reference'' ((''root'', JString root) #
       (case path of None \<Rightarrow> [] | Some p \<Rightarrow> [(''path'', strings_value p)]))"
| "hir_kind_value (HList es) = op_value ''list'' [(''elements'', JArray es)]"
| "hir_kind_value (HDict kvs) = op_value ''dict'' [(''entries'', pair_values kvs)]"
| "hir_kind_value (HFromJson t e) = op_value ''from_json'' [(''target'', ty_value t), (''value'', e)]"
| "hir_kind_value (HToJson e) = op_value ''to_json'' [(''value'', e)]"
| "hir_kind_value (HRecord n kvs) = op_value ''record'' [(''type_name'', JString n), (''fields'', pair_values kvs)]"
| "hir_kind_value (HVariant n v kvs) =
     op_value ''variant'' [(''type_name'', JString n), (''variant'', JString v), (''fields'', pair_values kvs)]"
| "hir_kind_value (HOptionSome e) = op_value ''option_some'' [(''value'', e)]"
| "hir_kind_value (HOptionNone t) = op_value ''option_none'' [(''inner'', ty_value t)]"
| "hir_kind_value (HResultOk e t) = op_value ''result_ok'' [(''value'', e), (''error'', ty_value t)]"
| "hir_kind_value (HResultErr e t) = op_value ''result_err'' [(''value'', e), (''ok'', ty_value t)]"
| "hir_kind_value (HEvidenceCandidate k e rs) =
     op_value ''evidence_candidate'' [(''kind'', k), (''value'', e), (''refs'', JArray rs)]"
| "hir_kind_value (HOutcomeCandidate s e rs) =
     op_value ''outcome_candidate'' [(''status'', JString s), (''value'', e), (''evidence'', JArray rs)]"
| "hir_kind_value (HContextTransaction c s) =
     op_value ''context_transaction'' [(''context'', c), (''canonical_source'', JString s)]"
| "hir_kind_value (HGet e f) = op_value ''get'' [(''value'', e), (''field'', JString f)]"
| "hir_kind_value (HDecode t e) = op_value ''decode'' [(''target'', ty_value t), (''value'', e)]"
| "hir_kind_value (HIs t e) = op_value ''is'' [(''target'', ty_value t), (''value'', e)]"
| "hir_kind_value (HPure p es) = op_value ''pure'' [(''operator'', jstr (operator_name p)), (''operands'', JArray es)]"
| "hir_kind_value (HSeq es) = op_value ''seq'' [(''steps'', JArray es)]"
| "hir_kind_value (HBind n e) = op_value ''bind'' [(''name'', JString n), (''value'', e)]"
| "hir_kind_value (HIf c t f) = op_value ''if'' [(''condition'', c), (''when_true'', t), (''when_false'', f)]"
| "hir_kind_value (HMatch e cs) = op_value ''match'' [(''value'', e), (''cases'', JArray (map case_value cs))]"
| "hir_kind_value (HFallback p b) = op_value ''fallback'' [(''primary'', p), (''backup'', b)]"
| "hir_kind_value (HMap c x b) = op_value ''map'' [(''collection'', c), (''element'', JString x), (''body'', b)]"
| "hir_kind_value (HCall t as) = op_value ''call'' [(''tool'', JString t), (''arguments'', JArray (map argument_value as))]"
| "hir_kind_value (HFunctionApplication f as ps b) =
     op_value ''function_application'' [(''function'', JString f), (''arguments'', JArray (map argument_value as)),
       (''parameters'', strings_value ps), (''body'', b)]"
| "hir_kind_value (HInferBody b cs t s) =
     op_value ''infer_body'' [(''body'', b), (''captures'', strings_value cs), (''result'', ty_value t),
       (''source'', JString s)]"
| "hir_kind_value (HPar bs) = op_value ''par'' [(''branches'', JArray (map branch_value bs))]"
| "hir_kind_value (HRun p) = op_value ''run'' [(''program'', p)]"
| "hir_kind_value (HHost o1 as) =
     op_value ''host'' [(''operation'', JString o1), (''arguments'', JArray (map argument_value as))]"

primrec hir_value :: "hir_expr \<Rightarrow> json" where
  "hir_value (HirExpr kind t es sp) =
     jobj [(''kind'', hir_kind_value (map_hir_kind hir_value kind)), (''ty'', ty_value t),
       (''effects'', effects_value es), (''span'', span_value sp)]"

definition field_value :: "field_definition \<Rightarrow> json" where
  "field_value f = jobj [(''name'', JString (fd_name f)), (''ty'', ty_value (fd_ty f)), (''span'', span_value (fd_span f))]"

definition variant_value :: "variant_definition \<Rightarrow> json" where
  "variant_value v =
     jobj [(''name'', JString (vd_name v)), (''fields'', JArray (map field_value (vd_fields v))),
       (''span'', span_value (vd_span v))]"

fun definition_value :: "type_definition \<Rightarrow> json" where
  "definition_value (Record n fs sp) =
     jobj [(''kind'', jstr ''record''), (''name'', JString n), (''fields'', JArray (map field_value fs)),
       (''span'', span_value sp)]"
| "definition_value (Union n vs sp) =
     jobj [(''kind'', jstr ''union''), (''name'', JString n), (''variants'', JArray (map variant_value vs)),
       (''span'', span_value sp)]"

definition optional_value :: "('a \<Rightarrow> json) \<Rightarrow> 'a option \<Rightarrow> json" where
  "optional_value f x = (case x of None \<Rightarrow> JNull | Some v \<Rightarrow> f v)"

definition requirements_value :: "requirements \<Rightarrow> json" where
  "requirements_value r =
     jobj [(''tools'', optional_value strings_value (req_tools r)),
       (''effects'', optional_value effects_value (req_effects r)),
       (''objects'', optional_value strings_value (req_objects r))]"

definition program_value :: "yao_program \<Rightarrow> json" where
  "program_value p =
     jobj [(''language_version'', JString (language_version p)),
       (''owner'', jstr (case owner p of Runtime \<Rightarrow> ''runtime'' | Model \<Rightarrow> ''model'')),
       (''requirements'', requirements_value (requirements p)),
       (''types'', JObject (map (\<lambda>(n, d). (n, definition_value d)) (program_types p))),
       (''body'', hir_value (body p)),
       (''output'', ty_value (program_output p)),
       (''effects'', effects_value (program_effects p)),
       (''canonical_source'', JString (program_canonical_source p)),
       (''source_hash'', JString (source_hash p))]"

section \<open>Normalization\<close>

definition entry_key :: "json \<Rightarrow> ustring option" where
  "entry_key v = (case v of JArray (w # _) \<Rightarrow> as_str w | _ \<Rightarrow> None)"

definition sort_entries :: "json_map \<Rightarrow> json_map" where
  "sort_entries m =
     (if Option.bind (bt_get m (lit ''op'')) as_str = Some (lit ''dict'') then
        map (\<lambda>(k, v). (k, case v of JArray es \<Rightarrow> if k = lit ''entries'' then JArray (sort_key entry_key es) else v
           | _ \<Rightarrow> v)) m
      else m)"

definition drop_provenance :: "json_map \<Rightarrow> json_map" where
  "drop_provenance m = bt_remove (lit ''source_hash'') (bt_remove (lit ''canonical_source'') (bt_remove (lit ''span'') m))"

lemma set_drop_provenance: "set (drop_provenance m) \<subseteq> set m"
  by (auto simp: drop_provenance_def bt_remove_def)

function normalize_typed_identity :: "json \<Rightarrow> json" where
  "normalize_typed_identity (JArray vs) = JArray (map normalize_typed_identity vs)"
| "normalize_typed_identity (JObject m) =
     JObject (sort_entries (map (\<lambda>(k, v). (k, normalize_typed_identity v)) (drop_provenance m)))"
| "normalize_typed_identity JNull = JNull"
| "normalize_typed_identity (JBool b) = JBool b"
| "normalize_typed_identity (JNumber n) = JNumber n"
| "normalize_typed_identity (JString s) = JString s"
  by pat_completeness auto
termination
proof (relation "measure size")
  fix m kv k v
  assume "kv \<in> set (drop_provenance m)" and "(k, v) = kv"
  then have "(k, v) \<in> set m" using set_drop_provenance by auto
  then show "(v, JObject m) \<in> measure size" by (auto dest: size_json_map)
qed (auto dest: size_json_list)

definition canonical_program :: "(json \<Rightarrow> ustring) \<Rightarrow> yao_program \<Rightarrow> ustring" where
  "canonical_program to_string p = to_string (normalize_typed_identity (program_value p))"

definition program_hash :: "(ustring \<Rightarrow> ustring) \<Rightarrow> (json \<Rightarrow> ustring) \<Rightarrow> yao_program \<Rightarrow> ustring" where
  "program_hash sha256_hex to_string p = lit ''sha256:'' @ sha256_hex (canonical_program to_string p)"

end
