(* ===== verification/Yao_Eval.thy ===== *)
theory Yao_Eval
  imports Yao_Json
begin

text \<open>
  The pure evaluator (\<open>yao/src/eval.rs\<close>). The mutable environment is threaded: every step returns
  its result and the environment it leaves, also when it fails. A \<open>HashMap\<close> of bindings is a
  partial function. Indexing past the end of the operands, a panic in the code, is the message
  \<open>OperandPanic\<close>.
\<close>

section \<open>Environment passing\<close>

type_synonym environment = "ustring \<Rightarrow> json option"
type_synonym 'a evaluation = "(eval_failure + 'a) \<times> environment"

fun ev_bind :: "'a evaluation \<Rightarrow> ('a \<Rightarrow> environment \<Rightarrow> 'b evaluation) \<Rightarrow> 'b evaluation" where
  "ev_bind (Inl e, env) f = (Inl e, env)"
| "ev_bind (Inr x, env) f = f x env"

definition ev_lift :: "eval_failure + 'a \<Rightarrow> environment \<Rightarrow> 'a evaluation" where
  "ev_lift r env = (r, env)"

lemma ev_bind_cong [fundef_cong]:
  assumes "r = r'" and "\<And>x env. r' = (Inr x, env) \<Longrightarrow> f x env = g x env"
  shows "ev_bind r f = ev_bind r' g"
  using assms by (cases r'; cases "fst r'") auto

lemma ev_bind_Inr_iff:
  "ev_bind r f = (Inr y, env') \<longleftrightarrow> (\<exists>x env. r = (Inr x, env) \<and> f x env = (Inr y, env'))"
  by (cases r; cases "fst r") auto

lemma ev_lift_iff [simp]: "ev_lift r env = (r', env') \<longleftrightarrow> r' = r \<and> env' = env"
  by (auto simp: ev_lift_def)

text \<open>\<open>iter().map(evaluate).collect::<Result<Vec<_>, _>>()\<close>; the loop of \<open>seq\<close>; the two
  short-circuiting loops.\<close>

fun ev_list :: "('a \<Rightarrow> environment \<Rightarrow> 'b evaluation) \<Rightarrow> 'a list \<Rightarrow> environment \<Rightarrow> 'b list evaluation" where
  "ev_list f [] env = (Inr [], env)"
| "ev_list f (x # xs) env =
     ev_bind (f x env) (\<lambda>y env. ev_bind (ev_list f xs env) (\<lambda>ys env. (Inr (y # ys), env)))"

fun ev_seq :: "('a \<Rightarrow> environment \<Rightarrow> 'b evaluation) \<Rightarrow> 'b \<Rightarrow> 'a list \<Rightarrow> environment \<Rightarrow> 'b evaluation" where
  "ev_seq f r [] env = (Inr r, env)"
| "ev_seq f r (x # xs) env = ev_bind (f x env) (\<lambda>y env. ev_seq f y xs env)"

lemma ev_list_cong [fundef_cong]:
  assumes "xs = ys" and "env = env'" and "\<And>x env. x \<in> set ys \<Longrightarrow> f x env = g x env"
  shows "ev_list f xs env = ev_list g ys env'"
  unfolding assms(1,2) using assms(3)
  by (induction ys arbitrary: env') (auto intro!: ev_bind_cong)

lemma ev_seq_cong [fundef_cong]:
  assumes "r = r'" and "xs = ys" and "env = env'" and "\<And>x env. x \<in> set ys \<Longrightarrow> f x env = g x env"
  shows "ev_seq f r xs env = ev_seq g r' ys env'"
  unfolding assms(1-3) using assms(4)
  by (induction ys arbitrary: env' r') (auto intro!: ev_bind_cong)

section \<open>Literals, comparison, arithmetic\<close>

definition literal_value :: "literal \<Rightarrow> source_span \<Rightarrow> eval_failure + json" where
  "literal_value l sp =
     (case l of
        LNil \<Rightarrow> Inr JNull
      | LBool b \<Rightarrow> Inr (JBool b)
      | LInt i \<Rightarrow> Inr (JNumber (number_of_i64 i))
      | LFloat source \<Rightarrow>
          and_then (ok_or (parse_f64 source) (failure (InvalidFloatLiteral source) sp)) (\<lambda>x.
            if \<not> f64_is_finite x then Inl (failure NonFiniteLiteral sp)
            else map_ok JNumber (ok_or (number_of_f64 x) (failure NonFiniteLiteral sp)))
      | LString s \<Rightarrow> Inr (JString s))"

definition bool_operand :: "json \<Rightarrow> source_span \<Rightarrow> eval_failure + bool" where
  "bool_operand value sp = ok_or (as_bool value) (failure NonBoolOperand sp)"

definition cmp_string :: "ustring \<Rightarrow> ustring \<Rightarrow> ordering" where
  "cmp_string a b = (if a < b then Less else if a = b then Equal else Greater)"

definition value_ordering :: "json \<Rightarrow> json \<Rightarrow> ordering option" where
  "value_ordering a b =
     (case (as_f64 a, as_f64 b) of
        (Some x, Some y) \<Rightarrow> f64_partial_cmp x y
      | _ \<Rightarrow> (case (as_str a, as_str b) of
                (Some x, Some y) \<Rightarrow> Some (cmp_string x y)
              | _ \<Rightarrow> None))"

fun ordering_satisfies :: "pure_operator \<Rightarrow> ordering \<Rightarrow> bool" where
  "ordering_satisfies OpLess o1 \<longleftrightarrow> o1 = Less"
| "ordering_satisfies OpLessEqual o1 \<longleftrightarrow> o1 \<noteq> Greater"
| "ordering_satisfies OpGreater o1 \<longleftrightarrow> o1 = Greater"
| "ordering_satisfies OpGreaterEqual o1 \<longleftrightarrow> o1 \<noteq> Less"
| "ordering_satisfies _ o1 \<longleftrightarrow> False"

definition compare_values :: "pure_operator \<Rightarrow> json list \<Rightarrow> source_span \<Rightarrow> eval_failure + json" where
  "compare_values operator values sp =
     (case values of
        a # b # _ \<Rightarrow>
          map_ok (\<lambda>o1. JBool (ordering_satisfies operator o1))
            (ok_or (value_ordering a b) (failure Incomparable sp))
      | _ \<Rightarrow> Inl (failure OperandPanic sp))"

definition integer_arithmetic :: "pure_operator \<Rightarrow> int list \<Rightarrow> source_span \<Rightarrow> eval_failure + int option" where
  "integer_arithmetic operator xs sp =
     (case operator of
        OpAdd \<Rightarrow> Inr (option_fold i64_checked_add 0 xs)
      | OpSubtract \<Rightarrow>
          (case xs of a # b # _ \<Rightarrow> Inr (i64_checked_sub a b) | _ \<Rightarrow> Inl (failure OperandPanic sp))
      | OpMultiply \<Rightarrow> Inr (option_fold i64_checked_mul 1 xs)
      | _ \<Rightarrow> Inl (failure OperandPanic sp))"

definition float_arithmetic :: "pure_operator \<Rightarrow> f64 list \<Rightarrow> source_span \<Rightarrow> eval_failure + f64" where
  "float_arithmetic operator xs sp =
     (case operator of
        OpAdd \<Rightarrow> Inr (f64_sum xs)
      | OpSubtract \<Rightarrow>
          (case xs of a # b # _ \<Rightarrow> Inr (f64_sub a b) | _ \<Rightarrow> Inl (failure OperandPanic sp))
      | OpMultiply \<Rightarrow> Inr (f64_product xs)
      | OpDivide \<Rightarrow>
          (case xs of
             a # b # _ \<Rightarrow> if f64_is_zero b then Inl (failure DivisionByZero sp) else Inr (f64_div a b)
           | _ \<Rightarrow> Inl (failure OperandPanic sp))
      | _ \<Rightarrow> Inl (failure OperandPanic sp))"

definition numeric :: "pure_operator \<Rightarrow> json list \<Rightarrow> source_span \<Rightarrow> eval_failure + json" where
  "numeric operator values sp =
     (if list_all (\<lambda>v. as_i64 v \<noteq> None) values \<and> operator \<noteq> OpDivide then
        and_then (integer_arithmetic operator (map (\<lambda>v. the (as_i64 v)) values) sp) (\<lambda>r.
          map_ok (\<lambda>i. JNumber (number_of_i64 i)) (ok_or r (failure IntegerOverflow sp)))
      else
        and_then (try_map (\<lambda>v. ok_or (as_f64 v) (failure NonNumber sp)) values) (\<lambda>numbers.
          and_then (float_arithmetic operator numbers sp) (\<lambda>r.
            if \<not> f64_is_finite r then Inl (failure NonFiniteResult sp)
            else map_ok JNumber (ok_or (number_of_f64 r) (failure NonFiniteResult sp)))))"

definition strict_operator :: "pure_operator \<Rightarrow> json list \<Rightarrow> source_span \<Rightarrow> eval_failure + json" where
  "strict_operator operator values sp =
     (case operator of
        OpEqual \<Rightarrow>
          (case values of a # b # _ \<Rightarrow> Inr (JBool (json_eq a b)) | _ \<Rightarrow> Inl (failure OperandPanic sp))
      | OpNotEqual \<Rightarrow>
          (case values of a # b # _ \<Rightarrow> Inr (JBool (\<not> json_eq a b)) | _ \<Rightarrow> Inl (failure OperandPanic sp))
      | OpLess \<Rightarrow> compare_values operator values sp
      | OpLessEqual \<Rightarrow> compare_values operator values sp
      | OpGreater \<Rightarrow> compare_values operator values sp
      | OpGreaterEqual \<Rightarrow> compare_values operator values sp
      | OpAdd \<Rightarrow> numeric operator values sp
      | OpSubtract \<Rightarrow> numeric operator values sp
      | OpMultiply \<Rightarrow> numeric operator values sp
      | OpDivide \<Rightarrow> numeric operator values sp
      | _ \<Rightarrow> Inl (failure OperandPanic sp))"

text \<open>The loops of \<open>and\<close> and \<open>or\<close>: stop at the first operand equal to the given value.\<close>

fun ev_until ::
  "('a \<Rightarrow> environment \<Rightarrow> json evaluation) \<Rightarrow> bool \<Rightarrow> source_span \<Rightarrow> 'a list \<Rightarrow> environment \<Rightarrow> json evaluation" where
  "ev_until f stop sp [] env = (Inr (JBool (\<not> stop)), env)"
| "ev_until f stop sp (x # xs) env =
     ev_bind (f x env) (\<lambda>v env.
       ev_bind (ev_lift (bool_operand v sp) env) (\<lambda>b env.
         if b = stop then (Inr (JBool stop), env) else ev_until f stop sp xs env))"

lemma ev_until_cong [fundef_cong]:
  assumes "stop = stop'" and "sp = sp'" and "xs = ys" and "env = env'"
    and "\<And>x env. x \<in> set ys \<Longrightarrow> f x env = g x env"
  shows "ev_until f stop sp xs env = ev_until g stop' sp' ys env'"
  unfolding assms(1-4) using assms(5)
  by (induction ys arbitrary: env') (auto intro!: ev_bind_cong)

definition evaluate_operator ::
  "('a \<Rightarrow> environment \<Rightarrow> json evaluation) \<Rightarrow> pure_operator \<Rightarrow> 'a list \<Rightarrow> source_span \<Rightarrow> environment
    \<Rightarrow> json evaluation" where
  "evaluate_operator rec operator operands sp env =
     (case operator of
        OpAnd \<Rightarrow> ev_until rec False sp operands env
      | OpOr \<Rightarrow> ev_until rec True sp operands env
      | OpNot \<Rightarrow>
          (case operands of
             x # _ \<Rightarrow> ev_bind (rec x env) (\<lambda>v env.
               ev_lift (map_ok (\<lambda>b. JBool (\<not> b)) (bool_operand v sp)) env)
           | [] \<Rightarrow> (Inl (failure OperandPanic sp), env))
      | _ \<Rightarrow> ev_bind (ev_list rec operands env) (\<lambda>values env. ev_lift (strict_operator operator values sp) env))"

lemma evaluate_operator_cong [fundef_cong]:
  assumes "operator = operator'" and "operands = operands'" and "sp = sp'" and "env = env'"
    and "\<And>x env. x \<in> set operands' \<Longrightarrow> rec x env = rec' x env"
  shows "evaluate_operator rec operator operands sp env = evaluate_operator rec' operator' operands' sp' env'"
proof -
  have "ev_list rec operands' env' = ev_list rec' operands' env'"
    "ev_until rec b sp' operands' env' = ev_until rec' b sp' operands' env'" for b
    by (intro ev_list_cong ev_until_cong refl assms(5); simp)+
  then show ?thesis
    unfolding assms(1-4) evaluate_operator_def
    by (auto simp: assms(5) split: pure_operator.splits list.splits)
qed

section \<open>Constructors\<close>

text \<open>\<open>evaluate_branch\<close>: on a copy of the environment, which is dropped.\<close>

definition evaluate_branch :: "(environment \<Rightarrow> json evaluation) \<Rightarrow> environment \<Rightarrow> json evaluation" where
  "evaluate_branch f env = (fst (f env), env)"

text \<open>The evaluation of named fields, in order.\<close>

definition ev_fields ::
  "('a \<Rightarrow> environment \<Rightarrow> json evaluation) \<Rightarrow> (ustring \<times> 'a) list \<Rightarrow> environment \<Rightarrow> json_map evaluation" where
  "ev_fields rec fs env =
     ev_bind (ev_list (\<lambda>(name, x) env. ev_bind (rec x env) (\<lambda>v env. (Inr (name, v), env))) fs env)
       (\<lambda>kvs env. (Inr (bt_from kvs), env))"

lemma ev_fields_cong [fundef_cong]:
  assumes "fs = fs'" and "env = env'" and "\<And>name x env. (name, x) \<in> set fs' \<Longrightarrow> rec x env = rec' x env"
  shows "ev_fields rec fs env = ev_fields rec' fs' env'"
  unfolding assms(1,2) ev_fields_def
  by (intro ev_bind_cong ev_list_cong refl) (auto simp: assms(3))

definition tagged_fields :: "string \<Rightarrow> ustring \<Rightarrow> ustring option \<Rightarrow> json_map \<Rightarrow> json" where
  "tagged_fields kind type_name variant encoded =
     tagged ([(''kind'', jstr kind), (''type'', JString type_name), (''fields'', JObject encoded)] @
       (case variant of None \<Rightarrow> [] | Some v \<Rightarrow> [(''variant'', JString v)]))"

definition result_value :: "string \<Rightarrow> json \<Rightarrow> json" where
  "result_value variant v = tagged [(''kind'', jstr ''result''), (''variant'', jstr variant), (''value'', v)]"

definition evidence_candidate_value :: "json \<Rightarrow> json \<Rightarrow> json list \<Rightarrow> json" where
  "evidence_candidate_value kind v refs =
     tagged [(''kind'', jstr ''evidence_candidate''), (''evidence_kind'', kind), (''value'', v),
       (''refs'', JArray refs)]"

definition outcome_candidate_value :: "ustring \<Rightarrow> json \<Rightarrow> json list \<Rightarrow> json" where
  "outcome_candidate_value status v evidence =
     tagged [(''kind'', jstr ''outcome_candidate''), (''status'', JString status), (''value'', v),
       (''evidence'', JArray evidence)]"

definition context_transaction_value :: "json \<Rightarrow> ustring \<Rightarrow> json" where
  "context_transaction_value context source =
     tagged [(''kind'', jstr ''context_transaction''), (''context'', context),
       (''canonical_source'', JString source)]"

section \<open>Field access\<close>

definition persisted_record_field ::
  "json \<Rightarrow> ustring \<Rightarrow> type_definitions \<Rightarrow> source_span \<Rightarrow> eval_failure + json" where
  "persisted_record_field value field definitions sp =
     and_then
       (case yao_object value of
          None \<Rightarrow> Inr None
        | Some tag \<Rightarrow>
            if tag_str tag ''kind'' = Some (lit ''record'') then
              (case tag_str tag ''type'' of
                 None \<Rightarrow> Inr None
               | Some name \<Rightarrow>
                   (case bt_get definitions name of
                      Some (Record _ _ _) \<Rightarrow>
                        map_ok (\<lambda>_. Option.bind (bt_get tag (lit ''fields'')) (\<lambda>fs. jget fs field))
                          (decode_value (TNamed name) value definitions sp)
                    | _ \<Rightarrow> Inr None))
            else if tag_str tag ''kind'' = Some (lit ''structural_record'') then
              Inr (structural_record_field value field)
            else Inr None)
       (\<lambda>selected. ok_or selected (failure (NoTypedField field) sp))"

definition get_field ::
  "ty \<Rightarrow> json \<Rightarrow> ustring \<Rightarrow> type_definitions \<Rightarrow> source_span \<Rightarrow> json option" where
  "get_field t receiver field definitions sp =
     (case t of
        TMap _ \<Rightarrow> jget receiver field
      | TStructuralRecord _ \<Rightarrow> structural_record_field receiver field
      | TNamed _ \<Rightarrow>
          (case decode_value t receiver definitions sp of
             Inl _ \<Rightarrow> None
           | Inr _ \<Rightarrow>
               Option.bind (jget receiver yao_tag) (\<lambda>tag.
                 Option.bind (jget tag (lit ''fields'')) (\<lambda>fs. jget fs field)))
      | _ \<Rightarrow> None)"

section \<open>Functions and matches\<close>

text \<open>The arguments of a function application, and the local environment of its body.\<close>

fun ev_arguments ::
  "('a \<Rightarrow> environment \<Rightarrow> json evaluation) \<Rightarrow> ustring \<Rightarrow> source_span \<Rightarrow> 'a named_argument list \<Rightarrow> json_map
    \<Rightarrow> environment \<Rightarrow> json_map evaluation" where
  "ev_arguments rec fname sp [] values env = (Inr values, env)"
| "ev_arguments rec fname sp (argument # arguments) values env =
     (case arg_values argument of
        [x] \<Rightarrow> ev_bind (rec x env) (\<lambda>v env.
          ev_arguments rec fname sp arguments (bt_insert (arg_name argument) v values) env)
      | _ \<Rightarrow> (Inl (failure (ArgumentArity fname (arg_name argument)) sp), env))"

lemma ev_arguments_cong [fundef_cong]:
  assumes "fname = fname'" and "sp = sp'" and "arguments = arguments'" and "values = values'" and "env = env'"
    and "\<And>argument x env. argument \<in> set arguments' \<Longrightarrow> x \<in> set (arg_values argument) \<Longrightarrow> rec x env = rec' x env"
  shows "ev_arguments rec fname sp arguments values env = ev_arguments rec' fname' sp' arguments' values' env'"
  unfolding assms(1-5) using assms(6)
proof (induction arguments' arbitrary: values' env')
  case Nil
  then show ?case by simp
next
  case (Cons argument arguments)
  have "rec x env = rec' x env" if "arg_values argument = [x]" for x env
    using that by (intro Cons.prems [of argument]) simp_all
  moreover have "ev_arguments rec fname' sp' arguments vs env = ev_arguments rec' fname' sp' arguments vs env" for vs env
    by (rule Cons.IH) (auto intro: Cons.prems)
  ultimately show ?case by (auto split: list.splits intro!: ev_bind_cong)
qed

definition link_parameters ::
  "ustring \<Rightarrow> source_span \<Rightarrow> json_map \<Rightarrow> environment \<Rightarrow> ustring list \<Rightarrow> eval_failure + environment" where
  "link_parameters fname sp values env parameters =
     (let runtime = lit ''runtime'';
          local = (case env runtime of Some v \<Rightarrow> Map.empty(runtime \<mapsto> v) | None \<Rightarrow> Map.empty) in
      and_then
        (try_fold (\<lambda>(values, local) parameter.
            map_ok (\<lambda>v. (bt_remove parameter values, local(parameter \<mapsto> v)))
              (ok_or (bt_get values parameter) (failure (MissingLinkedArgument fname parameter) sp)))
          (values, local) parameters)
        (\<lambda>(values, local).
           if values \<noteq> [] then Inl (failure (UnexpectedLinkedArgument fname (map fst values)) sp)
           else Inr local))"

definition bind_variant_fields ::
  "'a match_case \<Rightarrow> json_map \<Rightarrow> environment \<Rightarrow> eval_failure + environment" where
  "bind_variant_fields c fs env =
     try_fold (\<lambda>env b.
         map_ok (\<lambda>v. env(mb_binding b \<mapsto> v))
           (ok_or (bt_get fs (mb_field b)) (failure (VariantMissingField (case_variant c) (mb_field b)) (case_span c))))
       env (case_bindings c)"

definition select_case ::
  "json \<Rightarrow> 'a match_case list \<Rightarrow> source_span \<Rightarrow> eval_failure + ('a match_case \<times> json_map)" where
  "select_case value cases sp =
     and_then (ok_or (variant_parts value) (failure NotAVariant sp)) (\<lambda>(variant, fs).
       map_ok (\<lambda>c. (c, fs))
         (ok_or (find (\<lambda>c. case_variant c = variant) cases) (failure (NoMatchCase variant) sp)))"

text \<open>The body of \<open>map\<close>, once per item, each on its own copy of the environment.\<close>

definition ev_items ::
  "(environment \<Rightarrow> json evaluation) \<Rightarrow> ustring \<Rightarrow> json list \<Rightarrow> environment \<Rightarrow> eval_failure + json list" where
  "ev_items rec element items env = try_map (\<lambda>item. fst (rec (env(element \<mapsto> item)))) items"

lemma select_case_in: "select_case v cases sp = Inr (c, fs) \<Longrightarrow> c \<in> set cases"
  by (auto simp: select_case_def and_then_Inr_iff map_ok_Inr_iff find_Some_iff)

section \<open>Evaluation\<close>

lemma size_case_body: "c \<in> set cs \<Longrightarrow> size (case_body c) < Suc (size_list (size_match_case size) cs)"
  by (induction cs) (auto, cases c, auto)

lemma size_branch_body: "b \<in> set bs \<Longrightarrow> size (branch_body b) < Suc (size_list (size_par_branch size) bs)"
  by (induction bs) (auto, cases b, auto)

lemma size_argument:
  "a \<in> set as \<Longrightarrow> x \<in> set (arg_values a) \<Longrightarrow> size x < Suc (size_list (size_named_argument size) as)"
proof (induction as)
  case (Cons b as)
  have "size x \<le> size_list size (arg_values b)" if "x \<in> set (arg_values b)"
    using that by (induction "arg_values b" arbitrary: b) (auto simp: size_list_estimation')
  with Cons show ?case by (cases b) force
qed simp

function evaluate_pure :: "hir_expr \<Rightarrow> environment \<Rightarrow> type_definitions \<Rightarrow> json evaluation" where
  "evaluate_pure (HirExpr kind t effects sp) env defs =
     (if effects \<noteq> [] then (Inl (failure (EffectfulExpression effects) sp), env)
      else case kind of
        HLiteral l \<Rightarrow> (literal_value l sp, env)
      | HReference root path \<Rightarrow>
          (and_then (ok_or (env root) (failure (UnavailableBinding root) sp)) (\<lambda>v.
             try_fold (\<lambda>v field. persisted_record_field v field defs sp) v
               (case path of None \<Rightarrow> [] | Some fs \<Rightarrow> fs)), env)
      | HList elements \<Rightarrow>
          ev_bind (ev_list (\<lambda>e env. evaluate_pure e env defs) elements env) (\<lambda>vs env. (Inr (JArray vs), env))
      | HDict entries \<Rightarrow>
          ev_bind (ev_fields (\<lambda>e env. evaluate_pure e env defs) entries env) (\<lambda>m env. (Inr (JObject m), env))
      | HRecord type_name fs \<Rightarrow>
          ev_bind (ev_fields (\<lambda>e env. evaluate_pure e env defs) fs env) (\<lambda>m env.
            (Inr (tagged_fields ''record'' type_name None m), env))
      | HFromJson target e \<Rightarrow>
          ev_bind (evaluate_pure e env defs) (\<lambda>v env. (from_json target v defs sp, env))
      | HToJson e \<Rightarrow>
          ev_bind (evaluate_pure e env defs) (\<lambda>v env. (to_json (hir_ty e) v defs sp, env))
      | HVariant type_name variant fs \<Rightarrow>
          ev_bind (ev_fields (\<lambda>e env. evaluate_pure e env defs) fs env) (\<lambda>m env.
            (Inr (tagged_fields ''variant'' type_name (Some variant) m), env))
      | HOptionSome e \<Rightarrow>
          ev_bind (evaluate_pure e env defs) (\<lambda>v env. (Inr (option_some_value v), env))
      | HOptionNone inner \<Rightarrow> (Inr option_none_value, env)
      | HResultOk e err \<Rightarrow>
          ev_bind (evaluate_pure e env defs) (\<lambda>v env. (Inr (result_value ''ok'' v), env))
      | HResultErr e ok \<Rightarrow>
          ev_bind (evaluate_pure e env defs) (\<lambda>v env. (Inr (result_value ''err'' v), env))
      | HEvidenceCandidate k e refs \<Rightarrow>
          ev_bind (evaluate_pure k env defs) (\<lambda>kv env.
            ev_bind (evaluate_pure e env defs) (\<lambda>v env.
              ev_bind (ev_list (\<lambda>e env. evaluate_pure e env defs) refs env) (\<lambda>rs env.
                (Inr (evidence_candidate_value kv v rs), env))))
      | HOutcomeCandidate status e evidence \<Rightarrow>
          ev_bind (evaluate_pure e env defs) (\<lambda>v env.
            ev_bind (ev_list (\<lambda>e env. evaluate_pure e env defs) evidence env) (\<lambda>rs env.
              (Inr (outcome_candidate_value status v rs), env)))
      | HContextTransaction context source \<Rightarrow>
          ev_bind (evaluate_pure context env defs) (\<lambda>v env. (Inr (context_transaction_value v source), env))
      | HGet e field \<Rightarrow>
          ev_bind (evaluate_pure e env defs) (\<lambda>receiver env.
            (ok_or (get_field (hir_ty e) receiver field defs (hir_span e)) (failure (NoField field) sp), env))
      | HDecode target e \<Rightarrow>
          ev_bind (evaluate_pure e env defs) (\<lambda>v env. (decode_value target v defs sp, env))
      | HIs target e \<Rightarrow>
          ev_bind (evaluate_pure e env defs) (\<lambda>v env. (Inr (JBool (is_ok (decode_value target v defs sp))), env))
      | HPure operator operands \<Rightarrow>
          evaluate_operator (\<lambda>e env. evaluate_pure e env defs) operator operands sp env
      | HSeq steps \<Rightarrow> ev_seq (\<lambda>e env. evaluate_pure e env defs) JNull steps env
      | HBind name e \<Rightarrow>
          ev_bind (evaluate_pure e env defs) (\<lambda>v env.
            (if env name \<noteq> None then Inl (failure (OverwrittenBinding name) sp) else Inr JNull,
             env(name \<mapsto> v)))
      | HIf condition when_true when_false \<Rightarrow>
          ev_bind (evaluate_pure condition env defs) (\<lambda>c env.
            case c of
              JBool True \<Rightarrow> evaluate_branch (\<lambda>env. evaluate_pure when_true env defs) env
            | JBool False \<Rightarrow> evaluate_branch (\<lambda>env. evaluate_pure when_false env defs) env
            | _ \<Rightarrow> (Inl (failure ConditionNotBool sp), env))
      | HMatch e cases \<Rightarrow>
          ev_bind (evaluate_pure e env defs) (\<lambda>v env.
            (and_then (select_case v cases sp) (\<lambda>(c, fs).
               and_then (bind_variant_fields c fs env) (\<lambda>branch_env.
                 fst (evaluate_pure (case_body c) branch_env defs))), env))
      | HFallback primary backup \<Rightarrow>
          (case fst (evaluate_pure primary env defs) of
             Inr v \<Rightarrow> (Inr v, env)
           | Inl _ \<Rightarrow> evaluate_branch (\<lambda>env. evaluate_pure backup env defs) env)
      | HMap collection element e \<Rightarrow>
          ev_bind (evaluate_pure collection env defs) (\<lambda>v env.
            (case v of
               JArray items \<Rightarrow> map_ok JArray (ev_items (\<lambda>env. evaluate_pure e env defs) element items env)
             | _ \<Rightarrow> Inl (failure MapNotList sp), env))
      | HFunctionApplication fname arguments parameters e \<Rightarrow>
          ev_bind (ev_arguments (\<lambda>e env. evaluate_pure e env defs) fname sp arguments [] env) (\<lambda>values env.
            (and_then (link_parameters fname sp values env parameters) (\<lambda>local.
               fst (evaluate_pure e local defs)), env))
      | HPar branches \<Rightarrow>
          (map_ok structural_record_value
             (try_map (\<lambda>b. map_ok (\<lambda>v. (branch_name b, v)) (fst (evaluate_pure (branch_body b) env defs)))
               branches), env)
      | HCall _ _ \<Rightarrow> (Inl (failure EffectfulNode sp), env)
      | HInferBody _ _ _ _ \<Rightarrow> (Inl (failure EffectfulNode sp), env)
      | HRun _ \<Rightarrow> (Inl (failure EffectfulNode sp), env)
      | HHost _ _ \<Rightarrow> (Inl (failure EffectfulNode sp), env))"
  by pat_completeness auto
termination
  by (relation "measure (\<lambda>(e, env, defs). size e)")
    (auto dest!: select_case_in size_case_body size_branch_body size_argument simp: termination_simp)

declare evaluate_pure.simps [simp del]

end
