(* ===== verification/Yao_Program.thy ===== *)
theory Yao_Program
  imports Yao_Sema Yao_Identity Yao_Eval
begin

text \<open>
  Whole programs (\<open>yao/src/sema.rs\<close>): the traversal of HIR, and the analysis of a module from its
  root form, its type forms and its function forms to the admitted program, up to the public entry
  points. The hash of a program is the parameter \<open>hash\<close> (\<open>program_hash\<close> of \<open>Yao_Identity\<close> once the
  digest is fixed).
\<close>

section \<open>Traversal\<close>

text \<open>The children of a node in the order \<open>HirExpr::visit\<close> visits them.\<close>

fun kind_children :: "'e hir_kind \<Rightarrow> 'e list" where
  "kind_children (HLiteral l) = []"
| "kind_children (HReference r p) = []"
| "kind_children (HOptionNone t) = []"
| "kind_children (HList es) = es"
| "kind_children (HDict kvs) = map snd kvs"
| "kind_children (HRecord n kvs) = map snd kvs"
| "kind_children (HVariant n v kvs) = map snd kvs"
| "kind_children (HOptionSome e) = [e]"
| "kind_children (HResultOk e t) = [e]"
| "kind_children (HResultErr e t) = [e]"
| "kind_children (HContextTransaction e s) = [e]"
| "kind_children (HGet e f) = [e]"
| "kind_children (HDecode t e) = [e]"
| "kind_children (HFromJson t e) = [e]"
| "kind_children (HToJson e) = [e]"
| "kind_children (HIs t e) = [e]"
| "kind_children (HBind n e) = [e]"
| "kind_children (HInferBody e cs t s) = [e]"
| "kind_children (HRun e) = [e]"
| "kind_children (HEvidenceCandidate k e rs) = k # e # rs"
| "kind_children (HOutcomeCandidate s e rs) = e # rs"
| "kind_children (HPure p es) = es"
| "kind_children (HSeq es) = es"
| "kind_children (HIf c t f) = [c, t, f]"
| "kind_children (HMatch e cs) = e # map case_body cs"
| "kind_children (HFallback p b) = [p, b]"
| "kind_children (HMap c x b) = [c, b]"
| "kind_children (HCall t as) = argument_values as"
| "kind_children (HHost t as) = argument_values as"
| "kind_children (HFunctionApplication f as ps b) = argument_values as @ [b]"
| "kind_children (HPar bs) = map branch_body bs"

definition children :: "hir_expr \<Rightarrow> hir_expr list" where
  "children e = kind_children (hir_kind e)"

lemma size_pair_list: "(k, c) \<in> set kvs \<Longrightarrow> size c < Suc (size_list (size_prod (\<lambda>_. 0) size) kvs)"
  by (induction kvs) auto

lemma size_member: "(c :: hir_expr) \<in> set es \<Longrightarrow> size c < Suc (size_list size es)"
  by (induction es) auto

lemma size_argument_values:
  "(c :: hir_expr) \<in> set (argument_values as) \<Longrightarrow> size c < Suc (size_list (size_named_argument size) as)"
  using size_argument by (fastforce simp: argument_values_def)

lemma size_kind_children: "(c :: hir_expr) \<in> set (kind_children k) \<Longrightarrow> size c < Suc (size_hir_kind size k)"
  by (cases k) (auto dest!: size_pair_list size_member size_case_body size_branch_body
      size_argument_values)

lemma size_children: "c \<in> set (children e) \<Longrightarrow> size c < size e"
  by (cases e) (auto simp: children_def dest: size_kind_children)

text \<open>\<open>HirExpr::visit\<close> with the captured state of its closure.\<close>

function hir_visit :: "(hir_expr \<Rightarrow> 's \<Rightarrow> bool \<times> 's) \<Rightarrow> hir_expr \<Rightarrow> 's \<Rightarrow> 's" where
  "hir_visit visitor e s =
     (case visitor e s of (descend, s') \<Rightarrow>
        if descend then fold (\<lambda>c s. hir_visit visitor c s) (children e) s' else s')"
  by pat_completeness auto
termination
  by (relation "measure (\<lambda>(visitor, e, s). size e)") (auto dest: size_children)

declare hir_visit.simps [simp del]

definition usize_max :: nat where
  "usize_max = 2 ^ 64 - 1"

definition hir_node_count :: "hir_expr \<Rightarrow> nat" where
  "hir_node_count e = hir_visit (\<lambda>_ count. (True, min (count + 1) usize_max)) e 0"

section \<open>Modules\<close>

definition insert_definitions ::
  "type_definitions \<Rightarrow> source_span \<Rightarrow> analyzer \<Rightarrow> diagnostic + analyzer" where
  "insert_definitions defs sp an =
     try_fold (\<lambda>an (name, d).
       if bt_contains (definitions an) name then Inl (diag DuplicateName sp)
       else Inr (an\<lparr>definitions := bt_insert name d (definitions an)\<rparr>)) an defs"

definition prepare_external_type_definitions :: "analysis_config \<Rightarrow> analyzer \<Rightarrow> diagnostic + analyzer" where
  "prepare_external_type_definitions cfg an =
     try_fold (\<lambda>an form.
       if \<not> is_form (Some form) ''types'' then Inl (diag InvalidType (expr_span form))
       else and_then (parse_type_definitions cfg form) (\<lambda>defs. insert_definitions defs (expr_span form) an))
       (an\<lparr>type_forms := []\<rparr>) (type_forms an)"

definition prepare_function_declarations :: "analysis_config \<Rightarrow> analyzer \<Rightarrow> diagnostic + analyzer" where
  "prepare_function_declarations cfg an =
     try_fold (\<lambda>an form.
       and_then (parse_function_declaration cfg (definitions an) form) (\<lambda>decl.
         if bt_contains (function_declarations an) (fn_name decl) then Inl (diag DuplicateName (fn_span decl))
         else Inr (an\<lparr>function_declarations := bt_insert (fn_name decl) decl (function_declarations an)\<rparr>)))
       (an\<lparr>function_forms := []\<rparr>) (function_forms an)"

definition validate_bound_function_tool_upper_bound :: "analyzer \<Rightarrow> diagnostic + unit" where
  "validate_bound_function_tool_upper_bound an =
     map_ok (\<lambda>_. ()) (try_map (\<lambda>(name, f).
       require (tools_within (req_tools (an_requirements an)) (hir_effects (cf_body f)))
         (diag EffectEscape (fn_span (cf_declaration f)))) (compiled_functions an))"

definition typed_ir_schema_version :: ustring where
  "typed_ir_schema_version = lit ''0.1''"

definition finish_program ::
  "analysis_config \<Rightarrow> (yao_program \<Rightarrow> ustring) \<Rightarrow> analyzer \<Rightarrow> expr \<Rightarrow> evaluation_owner \<Rightarrow> hir_expr
    \<Rightarrow> diagnostic + yao_program" where
  "finish_program cfg hash an root own b =
     (if \<not> (case req_effects (an_requirements an) of
         Some declared \<Rightarrow> effect_is_subset (hir_effects b) declared | None \<Rightarrow> True)
      then Inl (diag EffectEscape (hir_span b))
      else if max_hir_nodes (limits cfg) < hir_node_count b then Inl (diag ResourceLimit (hir_span b))
      else
        let p = \<lparr>language_version = typed_ir_schema_version, owner = own, requirements = an_requirements an,
                 program_types = definitions an, body = b, program_output = hir_ty b,
                 program_effects = hir_effects b, program_canonical_source = canonical_source root,
                 source_hash = []\<rparr> in
        Inr (p\<lparr>source_hash := hash p\<rparr>))"

fun model_source :: "ustring \<Rightarrow> hir_expr \<Rightarrow> hir_expr" where
  "model_source src (HirExpr (HInferBody b cs t s) u es sp) = HirExpr (HInferBody b cs t src) u es sp"
| "model_source src e = e"

record module_analysis =
  ma_program :: yao_program
  ma_functions :: "(ustring \<times> hir_expr) list"

definition program_owner :: "ustring \<Rightarrow> evaluation_owner option" where
  "program_owner name =
     (if name = lit ''eval'' then Some Runtime else if name = lit ''infer'' then Some Model else None)"

text \<open>The declarations after the owner: \<open>requires\<close>, the bound types, \<open>types\<close>, then the functions.\<close>

definition prepare_module :: "analysis_config \<Rightarrow> expr list \<Rightarrow> analyzer \<Rightarrow> diagnostic + (expr list \<times> analyzer)" where
  "prepare_module cfg forms an =
     and_then (if is_form (first forms) ''version'' then Inl (diag InvalidType (expr_span (hd forms))) else Inr ()) (\<lambda>_.
       and_then (if is_form (first forms) ''requires''
           then map_ok (\<lambda>r. (tl forms, an\<lparr>an_requirements := r\<rparr>)) (parse_requirements (hd forms))
           else Inr (forms, an)) (\<lambda>(forms, an).
         and_then (prepare_external_type_definitions cfg an) (\<lambda>an.
           and_then (if is_form (first forms) ''types''
               then and_then (parse_type_definitions cfg (hd forms)) (\<lambda>local.
                 map_ok (\<lambda>an. (tl forms, an)) (insert_definitions local (expr_span (hd forms)) an))
               else Inr (forms, an)) (\<lambda>(forms, an).
             and_then (validate_type_definitions (definitions an)) (\<lambda>_.
               map_ok (\<lambda>an. (forms, an)) (prepare_function_declarations cfg an))))))"

definition compile_all :: "analysis_config \<Rightarrow> unit sema" where
  "compile_all cfg =
     sbind get_an (\<lambda>an.
       sbind (smap (compile cfg) (map fst (function_declarations an))) (\<lambda>_.
         sbind get_an (\<lambda>an.
           slift (if allow_internal_functions an then validate_bound_function_tool_upper_bound an else Inr ()))))"

definition analyze_root :: "analysis_config \<Rightarrow> evaluation_owner \<Rightarrow> expr \<Rightarrow> expr list \<Rightarrow> hir_expr sema" where
  "analyze_root cfg own root forms =
     (case own of
        Runtime \<Rightarrow>
          sbind (slift (one forms (diag InvalidType (expr_span root)))) (\<lambda>e.
            analyze_expr cfg (compile cfg) e 0)
      | Model \<Rightarrow>
          sbind (sguard (forms \<noteq> []) (diag InvalidType (expr_span root))) (\<lambda>_.
            sbind (analyze_infer cfg (analyze_expr cfg (compile cfg)) forms (expr_span root) True 0) (\<lambda>b.
              sret (model_source (canonical_source root) b))))"

definition analyze_module ::
  "analysis_config \<Rightarrow> (yao_program \<Rightarrow> ustring) \<Rightarrow> analyzer \<Rightarrow> expr \<Rightarrow> diagnostic + module_analysis" where
  "analyze_module cfg hash an root =
     and_then (expect_list root) (\<lambda>items.
       and_then (ok_or (head_symbol items) (diag UnknownOperator (expr_span root))) (\<lambda>owner_name.
         and_then (ok_or (program_owner owner_name) (diag UnknownOperator (expr_span (hd items)))) (\<lambda>own.
           and_then (prepare_module cfg (tl items) an) (\<lambda>(forms, an).
             and_then (compile_all cfg (scope_new cfg, an)) (\<lambda>(_, _, an).
               and_then (analyze_root cfg own root forms (scope_new cfg, an)) (\<lambda>(b, _, an).
                 map_ok (\<lambda>p. \<lparr>ma_program = p,
                     ma_functions = map (\<lambda>(n, f). (n, cf_body f)) (compiled_functions an)\<rparr>)
                   (finish_program cfg hash an root own b)))))))"

definition analyze_program ::
  "analysis_config \<Rightarrow> (yao_program \<Rightarrow> ustring) \<Rightarrow> analyzer \<Rightarrow> expr \<Rightarrow> diagnostic + yao_program" where
  "analyze_program cfg hash an root = map_ok ma_program (analyze_module cfg hash an root)"

definition analyze :: "analysis_config \<Rightarrow> (yao_program \<Rightarrow> ustring) \<Rightarrow> ustring \<Rightarrow> diagnostic + yao_program" where
  "analyze cfg hash source =
     and_then (parse_one source (al_parse (limits cfg))) (\<lambda>root. analyze_program cfg hash new_analyzer root)"

definition checked_total :: "ustring list \<Rightarrow> nat option" where
  "checked_total sources =
     option_fold (\<lambda>total s. if total + utf8_len s \<le> usize_max then Some (total + utf8_len s) else None) 0 sources"

definition analyze_with_module ::
  "analysis_config \<Rightarrow> (yao_program \<Rightarrow> ustring) \<Rightarrow> ustring \<Rightarrow> ustring list \<Rightarrow> ustring list \<Rightarrow> bool
    \<Rightarrow> diagnostic + yao_program" where
  "analyze_with_module cfg hash source type_sources function_sources allow_internal =
     (let limit = diag ResourceLimit (empty_at start_location); pl = al_parse (limits cfg) in
      and_then (ok_or (checked_total (source # type_sources @ function_sources)) limit) (\<lambda>total.
        if max_source_bytes pl < total then Inl limit
        else if max_functions (limits cfg) < length function_sources then Inl limit
        else and_then (parse_one source pl) (\<lambda>root.
          and_then (try_map (\<lambda>s. parse_one s pl) type_sources) (\<lambda>tforms.
            and_then (try_map (\<lambda>s. parse_one s pl) function_sources) (\<lambda>fforms.
              analyze_program cfg hash (with_functions fforms allow_internal (with_types tforms new_analyzer)) root)))))"

definition analyze_with_functions ::
  "analysis_config \<Rightarrow> (yao_program \<Rightarrow> ustring) \<Rightarrow> ustring \<Rightarrow> ustring list \<Rightarrow> bool \<Rightarrow> diagnostic + yao_program" where
  "analyze_with_functions cfg hash source function_sources allow_internal =
     analyze_with_module cfg hash source [] function_sources allow_internal"

definition analyze_module_forms ::
  "analysis_config \<Rightarrow> (yao_program \<Rightarrow> ustring) \<Rightarrow> expr \<Rightarrow> expr list \<Rightarrow> diagnostic + module_analysis" where
  "analyze_module_forms cfg hash root fns =
     (if max_functions (limits cfg) < length fns then Inl (diag ResourceLimit (expr_span root))
      else
        let source_bytes = foldl (\<lambda>size f. min (size + utf8_len (canonical_source f)) usize_max)
              (utf8_len (canonical_source root)) fns in
        if max_source_bytes (al_parse (limits cfg)) < source_bytes then Inl (diag ResourceLimit (expr_span root))
        else analyze_module cfg hash (with_functions fns True new_analyzer) root)"

end
