(* ===== verification/Sema_Logic.thy ===== *)
theory Sema_Logic
  imports Yao_Program
begin

text \<open>
  A weakest-precondition calculus for the analyzer: \<open>wp m Q st\<close> says that whenever \<open>m\<close> succeeds
  from \<open>st\<close>, its result and final state satisfy \<open>Q\<close>. The equations \<open>wp_simps\<close> take a handler apart;
  loops need an invariant (\<open>wp_smap\<close>, \<open>wp_sfold\<close>).
\<close>

named_theorems wp_simps \<open>weakest preconditions of the combinators\<close>

definition wp :: "'a sema \<Rightarrow> ('a \<Rightarrow> sema_state \<Rightarrow> bool) \<Rightarrow> sema_state \<Rightarrow> bool" where
  "wp m Q st \<longleftrightarrow> (\<forall>x st'. m st = Inr (x, st') \<longrightarrow> Q x st')"

lemma wpI: "(\<And>x st'. m st = Inr (x, st') \<Longrightarrow> Q x st') \<Longrightarrow> wp m Q st"
  by (simp add: wp_def)

lemma wpD: "wp m Q st \<Longrightarrow> m st = Inr (x, st') \<Longrightarrow> Q x st'"
  unfolding wp_def by blast

lemma wp_mono: "wp m Q st \<Longrightarrow> (\<And>x st'. Q x st' \<Longrightarrow> R x st') \<Longrightarrow> wp m R st"
  unfolding wp_def by blast

lemma wp_sret [wp_simps]: "wp (sret x) Q st \<longleftrightarrow> Q x st"
  by (cases st) (simp add: wp_def sret_def)

lemma wp_sbind [wp_simps]: "wp (sbind m f) Q st \<longleftrightarrow> wp m (\<lambda>x st'. wp (f x) Q st') st"
  by (auto simp: wp_def sbind_def and_then_Inr_iff)

lemma wp_slift [wp_simps]: "wp (slift r) Q st \<longleftrightarrow> (\<forall>x. r = Inr x \<longrightarrow> Q x st)"
  by (auto simp: wp_def slift_def map_ok_Inr_iff)

lemma wp_sget [wp_simps]: "wp (sget f) Q st \<longleftrightarrow> Q (f st) st"
  by (cases st) (simp add: wp_def sget_def)

lemma wp_smodify [wp_simps]: "wp (smodify f) Q st \<longleftrightarrow> Q () (f st)"
  by (simp add: wp_def smodify_def)

lemma wp_in_scope [wp_simps]:
  "wp (in_scope f m) Q st \<longleftrightarrow> wp m (\<lambda>x st'. Q x (fst st, snd st')) (f (fst st), snd st)"
  by (auto simp: wp_def in_scope_def and_then_Inr_iff split: prod.splits)

lemma wp_in_function [wp_simps]: "wp (in_function name m) Q st \<longleftrightarrow> wp m Q st"
  by (auto simp: wp_def in_function_def)

lemma wp_sfold:
  assumes "I s st"
    and "\<And>s x st. x \<in> set xs \<Longrightarrow> I s st \<Longrightarrow> wp (f s x) I st"
  shows "wp (sfold f s xs) I st"
  using assms
proof (induction xs arbitrary: s st)
  case Nil
  then show ?case by (simp add: wp_sret)
next
  case (Cons x xs)
  show ?case
    by (simp add: wp_sbind)
      (rule wp_mono [OF Cons.prems(2)], simp_all add: Cons.prems(1), rule Cons.IH, auto intro: Cons.prems(2))
qed

lemma wp_smap:
  assumes "I [] st"
    and "\<And>ys x st. x \<in> set xs \<Longrightarrow> I ys st \<Longrightarrow> wp (f x) (\<lambda>y st'. I (ys @ [y]) st') st"
  shows "wp (smap f xs) I st"
proof -
  have "wp (smap f xs') (\<lambda>zs st'. I (ys @ zs) st') st" if "set xs' \<subseteq> set xs" "I ys st" for xs' ys st
    using that
  proof (induction xs' arbitrary: ys st)
    case Nil
    then show ?case by (simp add: wp_sret)
  next
    case (Cons x xs')
    have "wp (smap f xs') (\<lambda>zs. wp (sret (y # zs)) (\<lambda>zs. I (ys @ zs))) st'" if "I (ys @ [y]) st'" for y st'
      using Cons.IH [of "ys @ [y]" st'] Cons.prems(1) that by (auto simp: wp_sret elim: wp_mono)
    then show ?case
      using Cons.prems by (simp add: wp_sbind) (rule wp_mono [OF assms(2)], auto)
  qed
  from this [of xs "[]" st] assms(1) show ?thesis by simp
qed

lemma wp_sfold_length:
  assumes "\<And>s x st. wp (f s x) (\<lambda>s' _. length s' = Suc (length s)) st"
  shows "wp (sfold f s xs) (\<lambda>s' _. length s' = length s + length xs) st"
proof (induction xs arbitrary: s st)
  case (Cons y ys)
  have "wp (sfold f s' ys) (\<lambda>r _. length r = length s + length (y # ys)) st'"
    if "length s' = Suc (length s)" for s' and st' :: sema_state
    using Cons [of s' st'] that by simp
  then show ?case by (simp only: sfold.simps wp_sbind) (rule wp_mono [OF assms])
qed (simp add: wp_sret)

lemma wp_conj: "wp m Q st \<Longrightarrow> wp m R st \<Longrightarrow> wp m (\<lambda>x st'. Q x st' \<and> R x st') st"
  unfolding wp_def by blast

lemma wp_case_prod [wp_simps]: "wp (case p of (a, b) \<Rightarrow> f a b) Q st \<longleftrightarrow> (\<forall>a b. p = (a, b) \<longrightarrow> wp (f a b) Q st)"
  by (cases p) simp

lemma wp_if: "wp (if b then m else n) Q st \<longleftrightarrow> (b \<longrightarrow> wp m Q st) \<and> (\<not> b \<longrightarrow> wp n Q st)"
  by simp

end
