(* ===== verification/Yao_Wellformed.thy ===== *)
theory Yao_Wellformed
  imports Sema_Logic
begin

text \<open>
  What the analyzer promises about the HIR it produces, as a condition on every node: how the
  effects of a node relate to those of its children (\<open>effects_ok\<close>) and how its type relates to
  theirs (\<open>types_ok\<close>). Then the invariant of the analyzer's state and the contract of an analysis,
  the locale \<open>sub_analysis\<close>.
\<close>

section \<open>Well-formed HIR\<close>

function hir_all :: "(hir_expr \<Rightarrow> bool) \<Rightarrow> hir_expr \<Rightarrow> bool" where
  "hir_all P e \<longleftrightarrow> P e \<and> list_all (\<lambda>c. hir_all P c) (children e)"
  by pat_completeness auto
termination
  by (relation "measure (\<lambda>(P, e). size e)") (auto dest: size_children)

declare hir_all.simps [simp del]

abbreviation pure_expr :: "hir_expr \<Rightarrow> bool" where
  "pure_expr e \<equiv> hir_effects e = []"

definition child_effects :: "hir_expr list \<Rightarrow> effect set" where
  "child_effects es = (\<Union>e \<in> set es. set (hir_effects e))"

definition effects_ok :: "hir_expr \<Rightarrow> bool" where
  "effects_ok e \<longleftrightarrow>
     (let es = hir_effects e; cs = children e in
      case hir_kind e of
        HCall t as \<Rightarrow> list_all pure_expr cs \<and> es = [Tool t]
      | HHost op as \<Rightarrow> list_all pure_expr cs \<and> (\<exists>h. es = [Host h])
      | HRun p \<Rightarrow> list_all pure_expr cs \<and> (\<exists>fx. es = [ProgramEffect fx])
      | HInferBody b captures t s \<Rightarrow> set es = insert Infer (child_effects cs)
      | HSeq steps \<Rightarrow> set es = child_effects cs
      | HBind x v \<Rightarrow> set es = child_effects cs
      | HIf c a b \<Rightarrow> pure_expr c \<and> set es = child_effects cs
      | HMatch v alts \<Rightarrow> pure_expr v \<and> set es = child_effects cs
      | HFallback p b \<Rightarrow> set es = child_effects cs
      | HMap c x b \<Rightarrow> pure_expr c \<and> set es = child_effects cs
      | HFunctionApplication f as ps b \<Rightarrow>
          list_all pure_expr (argument_values as) \<and> set es = set (hir_effects b)
      | HPar bs \<Rightarrow> set es = child_effects cs
      | _ \<Rightarrow> list_all pure_expr cs \<and> es = [])"

fun literal_type :: "literal \<Rightarrow> ty" where
  "literal_type LNil = TNil"
| "literal_type (LBool b) = TBool"
| "literal_type (LInt i) = TInt"
| "literal_type (LFloat s) = TFloat"
| "literal_type (LString s) = TString"

text \<open>The values of a constructor's fields against the definitions of the fields.\<close>

definition fields_ok :: "(ustring \<times> hir_expr) list \<Rightarrow> field_definition list \<Rightarrow> bool" where
  "fields_ok kvs fds \<longleftrightarrow>
     length kvs = length fds \<and> distinct (map fst kvs) \<and>
     (\<forall>d \<in> set fds. fd_name d \<in> fst ` set kvs) \<and>
     (\<forall>(n, v) \<in> set kvs. \<exists>d. find (\<lambda>d. fd_name d = n) fds = Some d \<and> is_assignable_to (hir_ty v) (fd_ty d))"

text \<open>The bindings of a case against the fields of its variant.\<close>

definition bindings_ok :: "match_binding list \<Rightarrow> field_definition list \<Rightarrow> bool" where
  "bindings_ok bs fds \<longleftrightarrow>
     length bs = length fds \<and> distinct (map mb_field bs) \<and> distinct (map mb_binding bs) \<and>
     (\<forall>b \<in> set bs. mb_field b \<in> fd_name ` set fds)"

definition types_ok :: "type_definitions \<Rightarrow> hir_expr \<Rightarrow> bool" where
  "types_ok defs e \<longleftrightarrow>
     (let t = hir_ty e in
      case hir_kind e of
        HLiteral l \<Rightarrow> t = literal_type l
      | HReference r p \<Rightarrow> p = None
      | HList xs \<Rightarrow> (\<exists>u. t = TList u \<and> (\<forall>x \<in> set xs. is_assignable_to (hir_ty x) u))
      | HDict kvs \<Rightarrow> distinct (map fst kvs) \<and>
          (\<exists>u. t = TMap u \<and> (\<forall>(k, v) \<in> set kvs. is_assignable_to (hir_ty v) u))
      | HFromJson target x \<Rightarrow> t = target \<and> validate_json_type target defs = Inr ()
      | HToJson x \<Rightarrow> t = TJson \<and> validate_json_type (hir_ty x) defs = Inr ()
      | HRecord n kvs \<Rightarrow> t = TNamed n \<and> (\<exists>fds. record_fields defs n = Some fds \<and> fields_ok kvs fds)
      | HVariant n v kvs \<Rightarrow> t = TNamed n \<and>
          (\<exists>vs d. union_variants defs n = Some vs \<and> find (\<lambda>d. vd_name d = v) vs = Some d \<and> fields_ok kvs (vd_fields d))
      | HOptionSome x \<Rightarrow> t = TOption (hir_ty x)
      | HOptionNone u \<Rightarrow> t = TOption u
      | HResultOk x u \<Rightarrow> t = TResult (hir_ty x) u
      | HResultErr x u \<Rightarrow> t = TResult u (hir_ty x)
      | HEvidenceCandidate k x rs \<Rightarrow> t = TEvidenceCandidate \<and> is_assignable_to (hir_ty k) TString \<and>
          (\<forall>r \<in> set rs. is_assignable_to (hir_ty r) (TRef (lit ''Evidence'')))
      | HOutcomeCandidate s x rs \<Rightarrow> t = TOutcomeCandidate \<and> s \<in> set outcome_statuses \<and>
          (\<forall>r \<in> set rs. is_assignable_to (hir_ty r) (TRef (lit ''Evidence'')))
      | HContextTransaction c s \<Rightarrow> t = TContextTransaction \<and> is_assignable_to (hir_ty c) (TRef (lit ''Context'')) \<and>
          (\<exists>items sp. s = canonical_source (EList items sp) \<and> head_symbol items = Some (lit ''context-tx''))
      | HGet x f \<Rightarrow> (\<exists>sp. field_type defs (hir_ty x) f sp = Inr t)
      | HDecode target x \<Rightarrow> t = target \<and> \<not> contains_nonforgeable_type defs target
      | HIs target x \<Rightarrow> t = TBool
      | HPure op xs \<Rightarrow> (\<exists>sp. operator_type op xs sp = Inr t)
      | HSeq xs \<Rightarrow> xs \<noteq> [] \<and> t = hir_ty (last xs)
      | HBind x v \<Rightarrow> t = TNil
      | HIf c a b \<Rightarrow> is_assignable_to (hir_ty c) TBool \<and> common_type (hir_ty a) (hir_ty b) = Some t
      | HMatch v cs \<Rightarrow>
          (\<exists>n vs. hir_ty v = TNamed n \<and> union_variants defs n = Some vs \<and> distinct (map case_variant cs) \<and>
             (\<forall>d \<in> set vs. vd_name d \<in> case_variant ` set cs) \<and>
             (\<forall>c \<in> set cs. \<exists>d. find (\<lambda>d. vd_name d = case_variant c) vs = Some d \<and>
                bindings_ok (case_bindings c) (vd_fields d) \<and> is_assignable_to (hir_ty (case_body c)) t))
      | HFallback p b \<Rightarrow> common_type (hir_ty p) (hir_ty b) = Some t
      | HMap c x b \<Rightarrow> (\<exists>u. hir_ty c = TList u) \<and> t = TList (hir_ty b)
      | HCall tool as \<Rightarrow> distinct (map arg_name as)
      | HFunctionApplication f as ps b \<Rightarrow> distinct ps \<and> distinct (map arg_name as) \<and> set (map arg_name as) = set ps \<and>
          (\<forall>a \<in> set as. \<exists>v. arg_values a = [v]) \<and> is_assignable_to (hir_ty b) t
      | HInferBody b captures u s \<Rightarrow> t = u \<and> distinct captures
      | HPar bs \<Rightarrow> distinct (map branch_name bs) \<and>
          t = TStructuralRecord (bt_from (map (\<lambda>b. (branch_name b, hir_ty (branch_body b))) bs))
      | HRun p \<Rightarrow> (\<exists>fx. hir_ty p = TProgram t fx)
      | HHost op as \<Rightarrow> distinct (map arg_name as))"

definition node_ok :: "type_definitions \<Rightarrow> hir_expr \<Rightarrow> bool" where
  "node_ok defs e \<longleftrightarrow> effects_ok e \<and> types_ok defs e"

definition hir_ok :: "type_definitions \<Rightarrow> hir_expr \<Rightarrow> bool" where
  "hir_ok defs e \<longleftrightarrow> hir_all (node_ok defs) e"

lemma hir_ok_iff: "hir_ok defs e \<longleftrightarrow> effects_ok e \<and> types_ok defs e \<and> (\<forall>c \<in> set (children e). hir_ok defs c)"
  unfolding hir_ok_def by (subst hir_all.simps) (auto simp: node_ok_def list_all_iff)

lemma hir_ok_hir:
  "hir_ok defs (hir k t es sp) \<longleftrightarrow>
     effects_ok (hir k t es sp) \<and> types_ok defs (hir k t es sp) \<and> (\<forall>c \<in> set (kind_children k). hir_ok defs c)"
  by (subst hir_ok_iff) (simp add: children_def)

lemma children_hir [simp]: "children (hir k t es sp) = kind_children k"
  by (simp add: children_def)

section \<open>State and contract\<close>

definition function_ok :: "type_definitions \<Rightarrow> compiled_function \<Rightarrow> bool" where
  "function_ok defs f \<longleftrightarrow>
     hir_ok defs (cf_body f) \<and> is_assignable_to (hir_ty (cf_body f)) (fn_returns (cf_declaration f)) \<and>
     distinct (map fp_name (fn_parameters (cf_declaration f)))"

definition analyzer_ok :: "analyzer \<Rightarrow> bool" where
  "analyzer_ok an \<longleftrightarrow> (\<forall>(n, f) \<in> set (compiled_functions an). function_ok (definitions an) f)"

text \<open>What no analysis changes, and how it may extend the scope and the counters.\<close>

definition extends :: "sema_state \<Rightarrow> sema_state \<Rightarrow> bool" where
  "extends st st' \<longleftrightarrow>
     an_requirements (snd st') = an_requirements (snd st) \<and> definitions (snd st') = definitions (snd st) \<and>
     function_declarations (snd st') = function_declarations (snd st) \<and>
     function_stack (snd st') = function_stack (snd st) \<and>
     allow_internal_functions (snd st') = allow_internal_functions (snd st) \<and>
     node_count (snd st) \<le> node_count (snd st') \<and>
     bindings (fst st) \<subseteq>\<^sub>m bindings (fst st') \<and>
     allow_implicit_bindings (fst st') = allow_implicit_bindings (fst st)"

definition tools_ok :: "sema_state \<Rightarrow> effect_set \<Rightarrow> bool" where
  "tools_ok st es \<longleftrightarrow>
     (function_stack (snd st) = [] \<longrightarrow> tools_within (req_tools (an_requirements (snd st))) es)"

definition analyzed :: "sema_state \<Rightarrow> hir_expr \<Rightarrow> sema_state \<Rightarrow> bool" where
  "analyzed st h st' \<longleftrightarrow>
     analyzer_ok (snd st') \<and> extends st st' \<and> hir_ok (definitions (snd st)) h \<and> tools_ok st (hir_effects h)"

lemma extends_refl [simp]: "extends st st"
  by (simp add: extends_def)

lemma extends_trans: "extends a b \<Longrightarrow> extends b c \<Longrightarrow> extends a c"
  by (auto simp: extends_def intro: map_le_trans)

lemma tools_within_set: "set es \<subseteq> set fs \<Longrightarrow> tools_within ts fs \<Longrightarrow> tools_within ts es"
  by (auto simp: tools_within_def list_all_iff split: option.splits)

lemma tools_within_simps [simp]:
  "tools_within ts []"
  "tools_within ts (effect_union a b) \<longleftrightarrow> tools_within ts a \<and> tools_within ts b"
  by (auto simp: tools_within_def list_all_iff split: option.splits)

lemma tools_ok_simps [simp]:
  "tools_ok st []"
  "tools_ok st (effect_union a b) \<longleftrightarrow> tools_ok st a \<and> tools_ok st b"
  by (auto simp: tools_ok_def)

lemma tools_ok_extends: "extends st st' \<Longrightarrow> tools_ok st' es = tools_ok st es"
  by (auto simp: tools_ok_def extends_def)

lemma set_union_effects [simp]: "set (union_effects es) = child_effects es"
proof -
  have "set (foldl (\<lambda>effects e. effect_union effects (hir_effects e)) acc es) = set acc \<union> child_effects es" for acc
    by (induction es arbitrary: acc) (auto simp: child_effects_def)
  then show ?thesis by (simp add: union_effects_def)
qed

lemma tools_ok_union_effects: "tools_ok st (union_effects es) \<longleftrightarrow> (\<forall>e \<in> set es. tools_ok st (hir_effects e))"
  by (auto simp: tools_ok_def tools_within_def list_all_iff child_effects_def split: option.splits effect.splits)

lemma require_pure_Inr [simp]: "require_pure e = Inr u \<longleftrightarrow> pure_expr e"
  by (simp add: require_pure_def effect_is_empty_def)

lemma require_pure_all_Inr [simp]: "require_pure_all es = Inr u \<longleftrightarrow> list_all pure_expr es"
  by (induction es) (auto simp: require_pure_all_def map_ok_Inr_iff try_map_Inr_iff and_then_Inr_iff
      list_all2_Cons1)

lemma require_assignable_Inr [simp]: "require_assignable a b sp = Inr u \<longleftrightarrow> is_assignable_to a b"
  by (simp add: require_assignable_def)

lemma child_effects_pure: "list_all pure_expr es \<Longrightarrow> child_effects es = {}"
  by (auto simp: child_effects_def list_all_iff)

lemma union_effects_pure [simp]: "list_all pure_expr es \<Longrightarrow> union_effects es = []"
  using child_effects_pure by (metis set_empty set_union_effects)

end
