(* ===== verification/Yao_Analysis.thy ===== *)
theory Yao_Analysis
  imports Yao_Wellformed
begin

text \<open>
  The analyzer keeps its contract: every handler, given a subanalysis that keeps it, keeps it; hence
  the analysis of expressions and the compilation of functions do, at every depth.
\<close>

lemma common_type_Some:
  "common_type a b = Some t \<Longrightarrow> is_assignable_to a t \<and> is_assignable_to b t"
  by (auto simp: common_type_def split: if_splits)

lemma common_types_Inr:
  assumes "common_types ts sp = Inr (Some u)" and "t \<in> set ts"
  shows "is_assignable_to t u"
proof -
  have fold: "is_assignable_to c r \<and> (\<forall>t \<in> set us. is_assignable_to t r)"
    if "try_fold (\<lambda>current u. ok_or (common_type current u) (diag TypeMismatch sp)) c us = Inr r" for c us r
    using that
  proof (induction us arbitrary: c)
    case (Cons x us)
    then obtain c' where c': "common_type c x = Some c'"
      "is_assignable_to c' r \<and> (\<forall>t \<in> set us. is_assignable_to t r)"
      by (auto simp: and_then_Inr_iff)
    with common_type_Some [OF c'(1)] show ?case by (auto intro: assignable_trans)
  qed simp
  from assms show ?thesis
    by (cases ts) (auto simp: common_types_def map_ok_Inr_iff dest: fold)
qed

lemma common_types_map:
  "common_types (map f xs) sp = Inr (Some u) \<Longrightarrow> x \<in> set xs \<Longrightarrow> is_assignable_to (f x) u"
  by (rule common_types_Inr) auto

lemma common_types_None: "common_types ts sp = Inr None \<Longrightarrow> ts = []"
  by (cases ts) (auto simp: common_types_def map_ok_Inr_iff)

lemma infer_dict_Inr:
  assumes "infer_dict_value_type entries = Inr (Some u)" and "(k, v) \<in> set entries"
  shows "is_assignable_to (hir_ty v) u"
proof -
  have fold: "is_assignable_to c r \<and> (\<forall>(k, v) \<in> set es. is_assignable_to (hir_ty v) r)"
    if "try_fold (\<lambda>(current, representative) (key, v).
               map_ok (\<lambda>common. if common \<noteq> current then (common, hir_span v) else (current, representative))
                 (ok_or (common_type current (hir_ty v))
                   (with_related (diag TypeMismatch (hir_span v)) representative))) (c, rp) es = Inr (r, rp')" for c rp es r rp'
    using that
  proof (induction es arbitrary: c rp)
    case (Cons x es)
    obtain key v where x: "x = (key, v)" by fastforce
    from Cons.prems obtain c' rp2 where c': "common_type c (hir_ty v) = Some c'"
      "try_fold (\<lambda>(current, representative) (key, v).
               map_ok (\<lambda>common. if common \<noteq> current then (common, hir_span v) else (current, representative))
                 (ok_or (common_type current (hir_ty v))
                   (with_related (diag TypeMismatch (hir_span v)) representative))) (c', rp2) es = Inr (r, rp')"
      by (auto simp: x and_then_Inr_iff map_ok_Inr_iff split: if_splits)
    with common_type_Some [OF c'(1)] Cons.IH [OF c'(2)] show ?case by (auto simp: x intro: assignable_trans)
  qed simp
  from assms show ?thesis
    by (cases entries) (auto simp: infer_dict_value_type_def map_ok_Inr_iff dest!: fold)
qed

lemma infer_dict_None: "infer_dict_value_type entries = Inr None \<Longrightarrow> entries = []"
  by (cases entries) (auto simp: infer_dict_value_type_def map_ok_Inr_iff)

section \<open>The contract of a subanalysis\<close>

text \<open>A list of analyses in sequence.\<close>

definition all_analyzed :: "sema_state \<Rightarrow> hir_expr list \<Rightarrow> sema_state \<Rightarrow> bool" where
  "all_analyzed st hs st' \<longleftrightarrow>
     analyzer_ok (snd st') \<and> extends st st' \<and> (\<forall>h \<in> set hs. hir_ok (definitions (snd st)) h \<and> tools_ok st (hir_effects h))"

lemma all_analyzed_Nil: "analyzer_ok (snd st) \<Longrightarrow> all_analyzed st [] st"
  by (simp add: all_analyzed_def)

lemma all_analyzed_ok: "all_analyzed st hs st' \<Longrightarrow> analyzer_ok (snd st')"
  by (simp add: all_analyzed_def)

lemma all_analyzed_snoc: "all_analyzed st hs st1 \<Longrightarrow> analyzed st1 h st2 \<Longrightarrow> all_analyzed st (hs @ [h]) st2"
  by (auto simp: all_analyzed_def analyzed_def tools_ok_extends extends_def intro: map_le_trans)

lemma all_analyzed_append: "all_analyzed st hs st1 \<Longrightarrow> all_analyzed st1 gs st2 \<Longrightarrow> all_analyzed st (hs @ gs) st2"
  by (auto simp: all_analyzed_def tools_ok_extends extends_def intro: map_le_trans)

lemma analyzed_defs: "analyzed st h st' \<Longrightarrow> definitions (snd st') = definitions (snd st)"
  by (simp add: analyzed_def extends_def)

lemma analyzed_ok: "analyzed st h st' \<Longrightarrow> analyzer_ok (snd st')"
  by (simp add: analyzed_def)

lemma analyzed_all: "analyzed st h st' \<Longrightarrow> all_analyzed st [h] st'"
  by (simp add: all_analyzed_def analyzed_def)

text \<open>The conclusion of every handler: the node it builds over analyzed children.\<close>

lemma analyzed_node:
  assumes "all_analyzed st (kind_children k) st'" and "effects_ok (hir k t es sp)"
    and "types_ok (definitions (snd st)) (hir k t es sp)" and "tools_ok st es"
  shows "analyzed st (hir k t es sp) st'"
  using assms by (auto simp: analyzed_def all_analyzed_def hir_ok_hir)

lemmas node_simps = effects_ok_def types_ok_def Let_def

definition opt_list :: "'a option \<Rightarrow> 'a list" where
  "opt_list x = (case x of None \<Rightarrow> [] | Some v \<Rightarrow> [v])"

lemma set_opt_list: "set (opt_list x) = set_option x"
  by (auto simp: opt_list_def split: option.splits)

lemma all_analyzed_set:
  "all_analyzed st hs st' \<Longrightarrow> set gs \<subseteq> set hs \<Longrightarrow> all_analyzed st gs st'"
  by (auto simp: all_analyzed_def)

locale sub_analysis =
  fixes rec :: rec_analysis
  assumes contract: "analyzer_ok (snd st) \<Longrightarrow> wp (rec e depth) (analyzed st) st"
begin

lemma wp_rec:
  assumes "analyzer_ok (snd st)" and "\<And>h st'. analyzed st h st' \<Longrightarrow> Q h st'"
  shows "wp (rec e depth) Q st"
  using contract [OF assms(1)] assms(2) by (rule wp_mono)

lemma wp_many:
  assumes "analyzer_ok (snd st)"
  shows "wp (analyze_many rec es depth) (\<lambda>hs st'. all_analyzed st hs st' \<and> length hs = length es) st"
proof -
  have "wp (smap (\<lambda>e. rec e depth) es) (\<lambda>hs st'. all_analyzed st hs st') st"
  proof (rule wp_smap)
    show "all_analyzed st [] st" using assms by (rule all_analyzed_Nil)
    fix hs e st1
    assume "all_analyzed st hs st1"
    then show "wp (rec e depth) (\<lambda>h st2. all_analyzed st (hs @ [h]) st2) st1"
      by (intro wp_rec) (auto intro: all_analyzed_ok all_analyzed_snoc)
  qed
  moreover have "wp (smap f es) (\<lambda>hs st'. length hs = length es) st" for f :: "expr \<Rightarrow> hir_expr sema" and st
    by (induction es arbitrary: st) (auto simp: wp_simps elim!: wp_mono intro!: wpI)
  ultimately show ?thesis
    unfolding analyze_many_def wp_def by blast
qed

lemma wp_manyI:
  assumes "analyzer_ok (snd st)" and "\<And>hs st'. all_analyzed st hs st' \<Longrightarrow> length hs = length es \<Longrightarrow> Q hs st'"
  shows "wp (analyze_many rec es depth) Q st"
  by (rule wp_mono [OF wp_many [OF assms(1)]]) (use assms(2) in blast)

section \<open>Data\<close>

lemma wp_list:
  assumes "analyzer_ok (snd st)"
  shows "wp (analyze_list rec arguments sp depth) (analyzed st) st"
  unfolding analyze_list_def
  by (auto simp: wp_simps node_simps list_all_iff intro!: wp_manyI assms analyzed_node
      dest: common_types_None intro: common_types_map split: option.splits)

lemma wp_some:
  assumes "analyzer_ok (snd st)"
  shows "wp (analyze_some rec arguments sp depth) (analyzed st) st"
  unfolding analyze_some_def
  by (auto simp: wp_simps node_simps intro!: wp_rec assms analyzed_node analyzed_all)

lemma wp_none:
  assumes "analyzer_ok (snd st)"
  shows "wp (analyze_none cfg arguments sp) (analyzed st) st"
  unfolding analyze_none_def
  by (auto simp: wp_simps node_simps intro!: assms analyzed_node all_analyzed_Nil)

lemma wp_ok:
  assumes "analyzer_ok (snd st)"
  shows "wp (analyze_ok cfg rec arguments sp depth) (analyzed st) st"
  unfolding analyze_ok_def
  by (auto simp: wp_simps node_simps intro!: wp_rec assms analyzed_node analyzed_all)

lemma wp_err:
  assumes "analyzer_ok (snd st)"
  shows "wp (analyze_err cfg rec arguments sp depth) (analyzed st) st"
  unfolding analyze_err_def
  by (auto simp: wp_simps node_simps intro!: wp_rec assms analyzed_node analyzed_all)

lemma wp_get:
  assumes "analyzer_ok (snd st)"
  shows "wp (analyze_get rec arguments sp depth) (analyzed st) st"
  unfolding analyze_get_def
  by (auto simp: wp_simps node_simps intro!: wp_rec assms analyzed_node analyzed_all)
    (metis analyzed_defs snd_conv)

lemma wp_decode:
  assumes "analyzer_ok (snd st)"
  shows "wp (analyze_decode cfg rec arguments sp depth) (analyzed st) st"
  unfolding analyze_decode_def
  by (auto simp: wp_simps node_simps intro!: wp_rec assms analyzed_node analyzed_all)

lemma wp_is:
  assumes "analyzer_ok (snd st)"
  shows "wp (analyze_is cfg rec arguments sp depth) (analyzed st) st"
  unfolding analyze_is_def
  by (auto simp: wp_simps node_simps intro!: wp_rec assms analyzed_node analyzed_all)

lemma wp_pure:
  assumes "analyzer_ok (snd st)"
  shows "wp (analyze_pure rec op arguments sp depth) (analyzed st) st"
  unfolding analyze_pure_def
  by (auto simp: wp_simps node_simps intro!: wp_manyI assms analyzed_node)

lemma wp_json_conversion:
  assumes "analyzer_ok (snd st)"
  shows "wp (analyze_json_conversion cfg rec op arguments sp depth) (analyzed st) st"
  unfolding analyze_json_conversion_def
  by (auto simp: wp_simps node_simps require_json_type_def and_then_Inr_iff dest: analyzed_defs intro!: wp_rec assms analyzed_node analyzed_all)

lemma wp_run:
  assumes "analyzer_ok (snd st)"
  shows "wp (analyze_run rec arguments sp depth) (analyzed st) st"
  unfolding analyze_run_def
  by (auto simp: wp_simps node_simps program_type_def tools_ok_def tools_within_def effect_insert_def
      intro!: wp_rec assms analyzed_node analyzed_all split: ty.splits option.splits)

text \<open>The three loops over entries: \<open>dict\<close> and \<open>json-object\<close>, constructor fields, named arguments.\<close>

lemma dict_entry_Inr: "dict_entry out e = Inr (k, v) \<Longrightarrow> k \<notin> fst ` set out"
  by (auto simp: dict_entry_def and_then_Inr_iff split: if_splits)

lemma wp_dict:
  assumes "analyzer_ok (snd st)"
  shows "wp (analyze_dict cfg rec arguments sp depth) (analyzed st) st"
proof -
  let ?I = "\<lambda>out st'. all_analyzed st (map snd out) st' \<and> distinct (map fst out)"
  have "wp (sfold (analyze_dict_entry rec depth) [] arguments) ?I st"
    by (rule wp_sfold) (auto simp: analyze_dict_entry_def wp_simps assms all_analyzed_Nil intro!: wp_rec
        intro: all_analyzed_ok all_analyzed_snoc dest!: dict_entry_Inr)
  then show ?thesis
    unfolding analyze_dict_def
    by (auto simp: wp_simps elim!: wp_mono intro!: analyzed_node)
      (auto simp: node_simps dest: infer_dict_None infer_dict_Inr split: option.splits)
qed

lemma wp_json_object:
  assumes "analyzer_ok (snd st)"
  shows "wp (analyze_json_object cfg rec arguments sp depth) (analyzed st) st"
proof -
  let ?I = "\<lambda>out st'. all_analyzed st (map snd out) st' \<and> distinct (map fst out) \<and>
      (\<forall>(k, v) \<in> set out. pure_expr v \<and> hir_ty v = TJson)"
  have "wp (sfold (analyze_json_entry rec depth) [] arguments) ?I st"
  proof (rule wp_sfold)
    show "?I [] st" using assms by (simp add: all_analyzed_Nil)
    fix out :: "(ustring \<times> hir_expr) list" and argument st1
    assume I: "?I out st1"
    have node: "all_analyzed st (map snd out @ [hir (HToJson v) TJson [] (hir_span v)]) st2"
      if "analyzed st1 v st2" "pure_expr v" "validate_json_type (hir_ty v) (definitions (snd st2)) = Inr ()" for v st2
      using I that by (intro all_analyzed_snoc analyzed_node) (auto simp: node_simps analyzed_defs intro: analyzed_all)
    show "wp (analyze_json_entry rec depth out argument) ?I st1"
      using I by (auto simp: analyze_json_entry_def wp_simps require_json_type_def and_then_Inr_iff
          intro!: wp_rec intro: all_analyzed_ok node dest!: dict_entry_Inr)
  qed
  then show ?thesis
    unfolding analyze_json_object_def
    by (auto simp: wp_simps elim!: wp_mono intro!: analyzed_node)
      (auto simp: node_simps list_all_iff)
qed

lemma wp_named_fields:
  assumes "analyzer_ok (snd st)"
    and "\<And>vs st'. all_analyzed st (map snd vs) st' \<Longrightarrow> fields_ok vs fds \<Longrightarrow> Q vs st'"
  shows "wp (analyze_named_fields rec arguments fds depth) Q st"
proof -
  let ?I = "\<lambda>out st'. all_analyzed st (map snd out) st' \<and> distinct (map fst out) \<and>
      (\<forall>(n, v) \<in> set out. \<exists>d. find (\<lambda>d. fd_name d = n) fds = Some d \<and> is_assignable_to (hir_ty v) (fd_ty d))"
  have "wp (sfold (analyze_field rec fds depth) [] arguments) ?I st"
    by (rule wp_sfold) (auto simp: analyze_field_def wp_simps assms(1) all_analyzed_Nil intro!: wp_rec
        intro: all_analyzed_ok all_analyzed_snoc)
  moreover have "wp (sfold (analyze_field rec fds depth) [] arguments)
      (\<lambda>vs _. length vs = length ([] :: (ustring \<times> hir_expr) list) + length arguments) st"
    by (rule wp_sfold_length) (auto simp: analyze_field_def wp_simps intro!: wpI)
  ultimately have "wp (sfold (analyze_field rec fds depth) [] arguments)
      (\<lambda>vs st'. ?I vs st' \<and> length vs = length arguments) st"
    by (auto dest: wp_conj)
  then show ?thesis
    unfolding analyze_named_fields_def
    by (auto simp: wp_simps elim!: wp_mono intro!: assms(2))
      (auto simp: fields_ok_def try_map_Inr_iff list_all2_conv_all_nth in_set_conv_nth)
qed

lemma wp_record:
  assumes "analyzer_ok (snd st)"
  shows "wp (analyze_record rec arguments sp depth) (analyzed st) st"
  unfolding analyze_record_def
  by (auto simp: wp_simps node_simps intro!: wp_named_fields assms analyzed_node)

lemma wp_variant:
  assumes "analyzer_ok (snd st)"
  shows "wp (analyze_variant rec arguments sp depth) (analyzed st) st"
  unfolding analyze_variant_def
  by (auto simp: wp_simps node_simps intro!: wp_named_fields assms analyzed_node)

lemma wp_named_arguments:
  assumes "analyzer_ok (snd st)"
    and "\<And>named st'. all_analyzed st (argument_values named) st' \<Longrightarrow> distinct (map arg_name named) \<Longrightarrow> Q named st'"
  shows "wp (analyze_named_arguments rec arguments depth) Q st"
proof -
  let ?I = "\<lambda>out st'. all_analyzed st (argument_values out) st' \<and> distinct (map arg_name out)"
  have "wp (sfold (analyze_argument rec depth) [] arguments) ?I st"
    by (rule wp_sfold) (auto simp: analyze_argument_def wp_simps assms(1) argument_values_def all_analyzed_Nil
        intro!: wp_manyI intro: all_analyzed_ok all_analyzed_append)
  then show ?thesis
    unfolding analyze_named_arguments_def by (rule wp_mono) (auto intro: assms(2))
qed

lemma wp_references:
  assumes "analyzer_ok (snd st)"
    and "\<And>rs st'. all_analyzed st rs st' \<Longrightarrow> list_all pure_expr rs \<Longrightarrow>
      \<forall>r \<in> set rs. is_assignable_to (hir_ty r) (TRef (lit ''Evidence'')) \<Longrightarrow> Q rs st'"
  shows "wp (analyze_references rec es depth) Q st"
  unfolding analyze_references_def
  by (auto simp: wp_simps intro!: wp_manyI assms)
    (auto simp: try_map_Inr_iff list_all2_conv_all_nth in_set_conv_nth)

text \<open>The clauses of \<open>evidence\<close>, \<open>outcome\<close> and \<open>context-transaction\<close>: what the loop has collected.\<close>

lemma add_one:
  assumes "all_analyzed st old st1" and "analyzed st1 v st2" and "set gs \<subseteq> insert v (set old)"
  shows "all_analyzed st gs st2"
  using all_analyzed_set [OF all_analyzed_snoc [OF assms(1,2)]] assms(3) by auto

lemma add_many:
  assumes "all_analyzed st old st1" and "all_analyzed st1 vs st2" and "set gs \<subseteq> set vs \<union> set old"
  shows "all_analyzed st gs st2"
  using all_analyzed_set [OF all_analyzed_append [OF assms(1,2)]] assms(3) by auto

lemma wp_evidence:
  assumes "analyzer_ok (snd st)"
  shows "wp (analyze_evidence rec arguments sp depth) (analyzed st) st"
proof -
  let ?I = "\<lambda>(seen :: ustring list, kind, val, refs) st'.
      all_analyzed st (opt_list kind @ opt_list val @ refs) st' \<and>
      list_all pure_expr (opt_list kind @ opt_list val @ refs) \<and>
      (\<forall>k \<in> set_option kind. is_assignable_to (hir_ty k) TString) \<and>
      (\<forall>r \<in> set refs. is_assignable_to (hir_ty r) (TRef (lit ''Evidence'')))"
  have "wp (sfold (analyze_evidence_clause rec depth) ([], None, None, []) arguments) ?I st"
  proof (rule wp_sfold)
    show "?I ([], None, None, []) st" using assms by (simp add: opt_list_def all_analyzed_Nil)
    fix acc clause st1
    assume I: "?I acc st1"
    obtain seen kind val refs where acc: "acc = (seen, kind, val, refs)" by (cases acc)
    have old: "all_analyzed st (opt_list kind @ opt_list val @ refs) st1" using I by (simp add: acc)
    show "wp (analyze_evidence_clause rec depth acc clause) ?I st1"
      using I unfolding acc analyze_evidence_clause_def
      by (auto simp: wp_simps list_all_iff set_opt_list
          intro!: wp_rec wp_references all_analyzed_ok [OF old])
        (auto simp: set_opt_list intro: add_one [OF old] add_many [OF old])
  qed
  then show ?thesis
    unfolding analyze_evidence_def
    by (auto simp: wp_simps opt_list_def elim!: wp_mono intro!: analyzed_node) (auto simp: node_simps)
qed

lemma wp_outcome:
  assumes "analyzer_ok (snd st)"
  shows "wp (analyze_outcome rec arguments sp depth) (analyzed st) st"
proof -
  let ?I = "\<lambda>(seen :: ustring list, status, val, evidence) st'.
      all_analyzed st (opt_list val @ evidence) st' \<and> list_all pure_expr (opt_list val @ evidence) \<and>
      set_option status \<subseteq> set outcome_statuses \<and>
      (\<forall>r \<in> set evidence. is_assignable_to (hir_ty r) (TRef (lit ''Evidence'')))"
  have "wp (sfold (analyze_outcome_clause rec depth) ([], None, None, []) arguments) ?I st"
  proof (rule wp_sfold)
    show "?I ([], None, None, []) st" using assms by (simp add: opt_list_def all_analyzed_Nil)
    fix acc clause st1
    assume I: "?I acc st1"
    obtain seen status val evidence where acc: "acc = (seen, status, val, evidence)" by (cases acc)
    have old: "all_analyzed st (opt_list val @ evidence) st1" using I by (simp add: acc)
    show "wp (analyze_outcome_clause rec depth acc clause) ?I st1"
      using I unfolding acc analyze_outcome_clause_def
      by (auto simp: wp_simps list_all_iff set_opt_list
          intro!: wp_rec wp_references all_analyzed_ok [OF old])
        (auto simp: set_opt_list intro: add_one [OF old] add_many [OF old])
  qed
  moreover have nil: "all_analyzed st (hir (HLiteral LNil) TNil [] sp # gs) st'" if "all_analyzed st gs st'" for gs st'
    using that by (auto simp: all_analyzed_def hir_ok_hir node_simps)
  ultimately show ?thesis
    unfolding analyze_outcome_def
    by (auto simp: wp_simps opt_list_def Let_def elim!: wp_mono intro!: analyzed_node nil split: option.splits)
      (auto simp: node_simps)
qed

lemma wp_context_transaction:
  assumes "analyzer_ok (snd st)"
  shows "wp (analyze_context_transaction rec arguments sp depth) (analyzed st) st"
proof -
  let ?I = "\<lambda>(seen :: ustring list, context, transaction) st'.
      all_analyzed st (opt_list context) st' \<and> list_all pure_expr (opt_list context) \<and>
      (\<forall>c \<in> set_option context. is_assignable_to (hir_ty c) (TRef (lit ''Context''))) \<and>
      (\<forall>s \<in> set_option transaction. \<exists>items sp. s = canonical_source (EList items sp) \<and>
        head_symbol items = Some (lit ''context-tx''))"
  have "wp (sfold (analyze_context_clause rec depth) ([], None, None) arguments) ?I st"
  proof (rule wp_sfold)
    show "?I ([], None, None) st" using assms by (simp add: opt_list_def all_analyzed_Nil)
    fix acc clause st1
    assume I: "?I acc st1"
    obtain seen ctx transaction where acc: "acc = (seen, ctx, transaction)" by (cases acc)
    have old: "all_analyzed st (opt_list ctx) st1" using I by (simp add: acc)
    show "wp (analyze_context_clause rec depth acc clause) ?I st1"
      using I unfolding acc analyze_context_clause_def
      by (auto simp: wp_simps list_all_iff set_opt_list expect_list_Inr
          intro!: wp_rec all_analyzed_ok [OF old] add_one [OF old])
  qed
  then show ?thesis
    unfolding analyze_context_transaction_def
    by (auto simp: wp_simps opt_list_def elim!: wp_mono intro!: analyzed_node) (auto simp: node_simps)
qed

end

end
