(* ===== verification/Yao_Control.thy ===== *)
theory Yao_Control
  imports Yao_Analysis
begin

text \<open>
  The contract of the analysis for the handlers of control, tools, functions, inference, parallel
  branches and matches; then for the dispatch, for expressions at every depth and for the
  compilation of functions (\<open>expression_analysis\<close>, \<open>function_compilation\<close>).
\<close>

lemma analyzed_in_scope: "analyzed (sc', an) h st' \<Longrightarrow> analyzed (sc, an) h (sc, snd st')"
  by (simp add: analyzed_def extends_def tools_ok_def)

lemma effect_insert_Nil [simp]: "effect_insert e [] = [e]"
  by (simp add: effect_insert_def)

lemma child_effects_simps [simp]:
  "child_effects [] = {}"
  "child_effects (h # hs) = set (hir_effects h) \<union> child_effects hs"
  "child_effects (hs @ gs) = child_effects hs \<union> child_effects gs"
  by (auto simp: child_effects_def)

lemma all_analyzed_tools: "all_analyzed st hs st' \<Longrightarrow> h \<in> set hs \<Longrightarrow> tools_ok st (hir_effects h)"
  by (simp add: all_analyzed_def)

lemma all_analyzed_tools_union: "all_analyzed st hs st' \<Longrightarrow> tools_ok st (union_effects hs)"
  by (simp add: all_analyzed_def tools_ok_union_effects)

lemma analyzed_tools: "analyzed st h st' \<Longrightarrow> tools_ok st (hir_effects h)"
  by (simp add: analyzed_def)

lemma tools_ok_insert: "(\<And>t. e \<noteq> Tool t) \<Longrightarrow> tools_ok st (effect_insert e es) \<longleftrightarrow> tools_ok st es"
  by (auto simp: tools_ok_def tools_within_def list_all_iff split: option.splits effect.splits)

lemma parse_captures_distinct: "parse_captures sc items = Inr cs \<Longrightarrow> distinct cs"
proof -
  have "distinct cs" if "try_fold (\<lambda>out capture.
       and_then (expect_symbol capture) (\<lambda>name.
         if name \<in> set out then Inl (diag DuplicateName (expr_span capture))
         else if bindings sc name = None then Inl (diag UnknownName (expr_span capture))
         else Inr (out @ [name]))) out items = Inr cs" "distinct out" for out
    using that by (induction items arbitrary: out) (auto simp: and_then_Inr_iff split: if_splits)
  then show "parse_captures sc items = Inr cs \<Longrightarrow> distinct cs" by (simp add: parse_captures_def)
qed

text \<open>The cases collected so far: distinct variants of the union, each with its fields bound.\<close>

definition bindings_ok_cases :: "variant_definition list \<Rightarrow> hir_expr match_case list \<Rightarrow> bool" where
  "bindings_ok_cases vs cs \<longleftrightarrow> distinct (map case_variant cs) \<and>
     (\<forall>c \<in> set cs. \<exists>d. find (\<lambda>d. vd_name d = case_variant c) vs = Some d \<and> bindings_ok (case_bindings c) (vd_fields d))"

lemma bindings_ok_cases_Nil: "bindings_ok_cases vs []"
  by (simp add: bindings_ok_cases_def)

lemma parse_match_pattern_Inr:
  "parse_match_pattern n vs seen clause = Inr (d, bs, b) \<Longrightarrow>
     vd_name d \<notin> set seen \<and> find (\<lambda>item. vd_name item = vd_name d) vs = Some d"
  by (auto simp: parse_match_pattern_def and_then_Inr_iff map_ok_Inr_iff Let_def find_Some_iff split: if_splits)

lemma parse_match_bindings_Inr:
  assumes "parse_match_bindings cfg es fds sc = Inr (bs, sc')"
  shows "bindings_ok bs fds"
proof -
  have fold: "length bs = length out + length es \<and> distinct (map mb_field bs) \<and> distinct (map mb_binding bs) \<and>
      mb_field ` set bs \<subseteq> fd_name ` set fds"
    if "try_fold (parse_match_binding cfg fds) (out, sc) es = Inr (bs, sc')" "distinct (map mb_field out)"
      "distinct (map mb_binding out)" "mb_field ` set out \<subseteq> fd_name ` set fds"
      "mb_binding ` set out \<subseteq> dom (bindings sc)" for out sc
    using that
  proof (induction es arbitrary: out sc)
    case (Cons e es)
    from Cons.prems(1) obtain out' sc2 where step: "parse_match_binding cfg fds (out, sc) e = Inr (out', sc2)"
      and rest: "try_fold (parse_match_binding cfg fds) (out', sc2) es = Inr (bs, sc')"
      by (auto simp: and_then_Inr_iff)
    from step obtain b d where new: "out' = out @ [b]" "sc2 = bind_name (mb_binding b) (fd_ty d) sc"
      "find (\<lambda>d. fd_name d = mb_field b) fds = Some d" "mb_field b \<notin> mb_field ` set out"
      "bindings sc (mb_binding b) = None"
      by (auto simp: parse_match_binding_def and_then_Inr_iff split: if_splits)
    have "mb_field b \<in> fd_name ` set fds"
      using find_SomeD [OF new(3)] by (metis imageI)
    with new Cons.prems(2-) have "distinct (map mb_field out')" "distinct (map mb_binding out')"
      "mb_field ` set out' \<subseteq> fd_name ` set fds" "mb_binding ` set out' \<subseteq> dom (bindings sc2)"
      by (auto simp: bind_name_def)
    from Cons.IH [OF rest this] new(1) show ?case by simp
  qed simp
  from assms show ?thesis
    by (auto simp: parse_match_bindings_def bindings_ok_def split: if_splits dest!: fold)
qed

text \<open>Rules for the dispatch, which does not need the conditions.\<close>

lemma wp_both: "wp m Q st \<Longrightarrow> wp n Q st \<Longrightarrow> wp (if b then m else n) Q st"
  by simp

lemma wp_cases: "wp m Q st \<Longrightarrow> (\<And>y. wp (f y) Q st) \<Longrightarrow> wp (case x of None \<Rightarrow> m | Some y \<Rightarrow> f y) Q st"
  by (cases x) auto

lemma wp_get_then: "wp (f (g st)) Q st \<Longrightarrow> wp (sbind (sget g) f) Q st"
  by (simp add: wp_simps)

lemma wp_Inl: "wp (slift (Inl d)) Q st"
  by (simp add: wp_simps)

context sub_analysis
begin

lemma wp_rec_in_scope:
  assumes "analyzer_ok (snd st)" and "\<And>h st'. analyzed st h st' \<Longrightarrow> fst st' = fst st \<Longrightarrow> Q h st'"
  shows "wp (in_scope f (rec e depth)) Q st"
  unfolding wp_in_scope
  by (rule wp_rec) (auto simp: assms(1) intro!: assms(2) analyzed_in_scope [where an = "snd st" and sc = "fst st", simplified])

lemma wp_seq:
  assumes "analyzer_ok (snd st)"
  shows "wp (analyze_seq rec arguments sp depth) (analyzed st) st"
  unfolding analyze_seq_def
  by (auto simp: wp_simps node_simps intro!: wp_manyI assms analyzed_node intro: all_analyzed_tools_union)

lemma wp_bind:
  assumes "analyzer_ok (snd st)"
  shows "wp (analyze_bind cfg rec arguments sp depth) (analyzed st) st"
proof -
  have bound: "analyzed st (hir (HBind x v) TNil (hir_effects v) sp) (bind_name x t (fst st'), snd st')"
    if "analyzed st v st'" "bindings (fst st) x = None" for v st' x t
  proof -
    from that have "all_analyzed st [v] (bind_name x t (fst st'), snd st')"
      by (auto simp: analyzed_def all_analyzed_def extends_def bind_name_def map_le_def dom_def)
    then show ?thesis using that by (intro analyzed_node) (auto simp: node_simps intro: analyzed_tools)
  qed
  show ?thesis
    unfolding analyze_bind_def
    by (auto simp: wp_simps split_beta intro!: wp_rec assms bound)
qed

lemma wp_next:
  assumes "all_analyzed st hs st1" and "\<And>h st2. all_analyzed st (hs @ [h]) st2 \<Longrightarrow> Q h st2"
  shows "wp (rec e depth) Q st1"
  by (rule wp_rec) (auto intro: all_analyzed_ok assms all_analyzed_snoc)

lemma wp_next_in_scope:
  assumes "all_analyzed st hs st1" and "\<And>h st2. all_analyzed st (hs @ [h]) st2 \<Longrightarrow> Q h st2"
  shows "wp (in_scope f (rec e depth)) Q st1"
  by (rule wp_rec_in_scope) (auto intro: all_analyzed_ok assms all_analyzed_snoc)

lemma wp_if_form:
  assumes "analyzer_ok (snd st)"
  shows "wp (analyze_if rec arguments sp depth) (analyzed st) st"
  unfolding analyze_if_def
  by (auto simp: wp_simps node_simps simp del: wp_in_scope intro!: wp_rec assms analyzed_node dest!: analyzed_all
      elim!: wp_next_in_scope simp: all_analyzed_tools)

lemma wp_fallback:
  assumes "analyzer_ok (snd st)"
  shows "wp (analyze_fallback rec arguments sp depth) (analyzed st) st"
  unfolding analyze_fallback_def
  by (auto simp: wp_simps node_simps simp del: wp_in_scope intro!: wp_rec_in_scope assms analyzed_node dest!: analyzed_all
      elim!: wp_next_in_scope simp: all_analyzed_tools)

lemma wp_map:
  assumes "analyzer_ok (snd st)"
  shows "wp (analyze_map cfg rec arguments sp depth) (analyzed st) st"
  unfolding analyze_map_def
  by (auto simp: wp_simps node_simps list_element_def simp del: wp_in_scope intro!: wp_rec assms analyzed_node dest!: analyzed_all
      elim!: wp_next_in_scope simp: all_analyzed_tools split: ty.splits)

section \<open>Tools and hosts\<close>

lemma tools_ok_other: "(\<And>t. e \<noteq> Tool t) \<Longrightarrow> tools_ok st [e]"
  by (auto simp: tools_ok_def tools_within_def split: option.splits effect.splits)

lemma wp_call:
  assumes "analyzer_ok (snd st)"
  shows "wp (analyze_call cfg rec arguments sp depth) (analyzed st) st"
  unfolding analyze_call_def
  by (auto simp: wp_simps node_simps intro!: wp_named_arguments assms analyzed_node)
    (auto simp: tools_ok_def tools_within_def split: option.splits)

lemma wp_host:
  assumes "analyzer_ok (snd st)"
  shows "wp (analyze_host cfg rec operation arguments sp depth) (analyzed st) st"
  unfolding analyze_host_def
  by (auto simp: wp_simps node_simps intro!: wp_named_arguments assms analyzed_node tools_ok_other)

lemma wp_host_unary:
  assumes "analyzer_ok (snd st)"
  shows "wp (analyze_host_unary cfg rec operation name arguments sp depth) (analyzed st) st"
  unfolding analyze_host_unary_def
  by (auto simp: wp_simps node_simps argument_values_def effect_set_new_def
      intro!: wp_rec assms analyzed_node analyzed_all tools_ok_other)

lemma wp_host_view:
  assumes "analyzer_ok (snd st)"
  shows "wp (analyze_host_view cfg rec arguments sp depth) (analyzed st) st"
  unfolding analyze_host_view_def
  by (auto simp: wp_simps node_simps argument_values_def effect_set_new_def
      intro!: wp_rec assms analyzed_node analyzed_all tools_ok_other)

section \<open>Inference and parallel branches\<close>

lemma wp_infer:
  assumes "analyzer_ok (snd st)"
  shows "wp (analyze_infer cfg rec arguments sp False depth) (analyzed st) st"
  unfolding analyze_infer_def analyze_infer_body_def
  by (auto simp: wp_simps simp del: wp_in_scope intro!: wp_rec_in_scope assms)
    (auto simp: wp_sret node_simps map_ok_Inr_iff and_then_Inr_iff tools_ok_insert analyzed_tools dest!: parse_captures_distinct
      intro!: analyzed_node analyzed_all split: if_splits)

lemma wp_par:
  assumes "analyzer_ok (snd st)"
  shows "wp (analyze_par cfg rec arguments sp depth) (analyzed st) st"
proof -
  let ?I = "\<lambda>out st'. all_analyzed st (map branch_body out) st' \<and> distinct (map branch_name out)"
  have "wp (sfold (analyze_branch cfg rec depth) [] arguments) ?I st"
    by (rule wp_sfold) (auto simp: analyze_branch_def wp_simps assms all_analyzed_Nil simp del: wp_in_scope
        elim!: wp_next_in_scope)
  then show ?thesis
    unfolding analyze_par_def
    by (auto simp: wp_simps elim!: wp_mono intro!: analyzed_node) (auto simp: node_simps all_analyzed_tools_union)
qed

section \<open>Matches\<close>

lemma wp_case:
  assumes "all_analyzed st (v # map case_body out) st1" and "bindings_ok_cases vs out"
  shows "wp (analyze_case cfg rec n vs depth out clause)
     (\<lambda>out' st2. all_analyzed st (v # map case_body out') st2 \<and> bindings_ok_cases vs out') st1"
  using assms unfolding analyze_case_def
  by (auto simp: wp_simps simp del: wp_in_scope elim!: wp_next_in_scope)
    (auto simp: bindings_ok_cases_def dest!: parse_match_pattern_Inr parse_match_bindings_Inr)

lemma wp_match:
  assumes "analyzer_ok (snd st)"
  shows "wp (analyze_match cfg rec arguments sp depth) (analyzed st) st"
proof -
  have cases: "wp (sfold (analyze_case cfg rec n vs depth) [] cs)
     (\<lambda>out st2. all_analyzed st (v # map case_body out) st2 \<and> bindings_ok_cases vs out) st1"
    if "analyzed st v st1" for v n vs cs st1
    by (rule wp_sfold) (use that in \<open>auto intro!: wp_case analyzed_all bindings_ok_cases_Nil\<close>)
  show ?thesis
    unfolding analyze_match_def
    by (auto simp: wp_simps simp del: wp_in_scope intro!: wp_rec assms wp_mono [OF cases] analyzed_node)
      (auto simp: node_simps bindings_ok_cases_def named_type_def list_all_iff tools_ok_union_effects
        all_analyzed_tools split: ty.splits, drule analyzed_defs, auto dest!: common_types_map)
qed

end

section \<open>Atoms\<close>

lemma field_chain_ok:
  assumes "field_chain defs sp v segments = Inr h" and "hir_ok defs v" and "pure_expr v"
  shows "hir_ok defs h \<and> pure_expr h"
  using assms
proof (induction defs sp v segments rule: field_chain.induct)
  case (2 defs sp v field rest)
  then obtain t where t: "field_type defs (hir_ty v) field sp = Inr t"
    "field_chain defs sp (hir (HGet v field) t [] sp) rest = Inr h" by (auto simp: and_then_Inr_iff)
  with 2 show ?case by (auto simp: hir_ok_hir node_simps)
qed simp

lemma analyzed_pure:
  "analyzer_ok (snd st) \<Longrightarrow> hir_ok (definitions (snd st)) h \<Longrightarrow> pure_expr h \<Longrightarrow> analyzed st h st"
  by (simp add: analyzed_def)

lemma hir_ok_leaf:
  "hir_ok defs (hir (HLiteral l) (literal_type l) [] sp)"
  "hir_ok defs (hir (HReference r None) t [] sp)"
  by (simp_all add: hir_ok_hir node_simps)

lemma wp_atom:
  assumes "analyzer_ok (snd st)"
  shows "wp (analyze_atom cfg a) (analyzed st) st"
proof -
  have literal: "hir_ok defs (hir (HLiteral l) t [] sp)" if "t = literal_type l" for defs l t sp
    using that hir_ok_leaf(1) by simp
  have reference: "wp (analyze_reference cfg r sp) (analyzed st) st" for r sp
    unfolding analyze_reference_def
    by (auto simp: wp_simps assms split: list.split dest!: field_chain_ok intro!: analyzed_pure hir_ok_leaf)
  show ?thesis
    unfolding analyze_atom_def
    by (auto simp: wp_simps Let_def assms split: option.split intro!: analyzed_pure literal reference)
qed

section \<open>Functions\<close>

definition compiled :: "sema_state \<Rightarrow> compiled_function \<Rightarrow> sema_state \<Rightarrow> bool" where
  "compiled st f st' \<longleftrightarrow> analyzer_ok (snd st') \<and> extends st st' \<and> function_ok (definitions (snd st)) f"

lemma check_function_argument_name:
  "check_function_argument decl a = Inr u \<Longrightarrow> arg_name a \<in> fp_name ` set (fn_parameters decl)"
  by (auto simp: check_function_argument_def and_then_Inr_iff image_iff dest!: find_SomeD) metis

locale function_compilation =
  fixes compile :: "ustring \<Rightarrow> compiled_function sema"
  assumes compile_contract: "analyzer_ok (snd st) \<Longrightarrow> wp (compile name) (compiled st) st"
begin

lemma wp_compile:
  assumes "analyzer_ok (snd st)" and "\<And>f st'. compiled st f st' \<Longrightarrow> Q f st'"
  shows "wp (compile name) Q st"
  using compile_contract [OF assms(1)] assms(2) by (rule wp_mono)

end

locale function_analysis = sub_analysis rec + function_compilation compile
  for rec :: rec_analysis and compile :: "ustring \<Rightarrow> compiled_function sema"
begin

lemma wp_function_application:
  assumes "analyzer_ok (snd st)"
  shows "wp (analyze_function_application rec compile name arguments sp depth) (analyzed st) st"
proof -
  have node: "analyzed st (hir (HFunctionApplication name named (map fp_name (fn_parameters (cf_declaration f))) (cf_body f))
      (fn_returns (cf_declaration f)) (effect_union [] (hir_effects (cf_body f))) sp) st2"
    if f: "compiled st f st1" and named: "all_analyzed st1 (argument_values named) st2" "distinct (map arg_name named)"
      "list_all pure_expr (argument_values named)"
      and parameters: "\<forall>p \<in> set (fn_parameters (cf_declaration f)). fp_name p \<in> set (map arg_name named)"
      "\<forall>a \<in> set named. check_function_argument (cf_declaration f) a = Inr ()"
      and tools: "function_stack (snd st2) = [] \<longrightarrow> tools_within (req_tools (an_requirements (snd st2))) (hir_effects (cf_body f))"
    for f st1 named st2
  proof -
    have ext: "extends st st1" "extends st1 st2" "analyzer_ok (snd st2)"
      and body: "hir_ok (definitions (snd st)) (cf_body f)" "is_assignable_to (hir_ty (cf_body f)) (fn_returns (cf_declaration f))"
        "distinct (map fp_name (fn_parameters (cf_declaration f)))"
      using f named(1) by (auto simp: compiled_def function_ok_def all_analyzed_def)
    have tools': "tools_ok st (hir_effects (cf_body f))"
      using tools ext(1,2) by (auto simp: tools_ok_def extends_def)
    have "all_analyzed st (argument_values named @ [cf_body f]) st2"
      using named(1) ext body tools' by (auto simp: all_analyzed_def tools_ok_extends extends_def intro: map_le_trans)
    moreover have "set (map arg_name named) = fp_name ` set (fn_parameters (cf_declaration f))"
      using parameters check_function_argument_name by fastforce
    moreover have "\<forall>a \<in> set named. \<exists>v. arg_values a = [v]"
      using parameters(2) by (auto simp: check_function_argument_def and_then_Inr_iff)
    ultimately show ?thesis
      using named body tools' by (intro analyzed_node) (auto simp: node_simps)
  qed
  show ?thesis
    unfolding analyze_function_application_def
    by (auto simp: wp_simps intro!: wp_compile wp_named_arguments assms)
      (auto simp: compiled_def dest: try_map_Inr_ball intro!: node [unfolded compiled_def])
qed

section \<open>Dispatch\<close>

lemmas wp_handlers = wp_list wp_dict wp_json_object wp_json_conversion wp_record wp_variant wp_some wp_none
  wp_ok wp_err wp_evidence wp_outcome wp_context_transaction wp_get wp_decode wp_is wp_pure wp_seq wp_bind
  wp_if_form wp_match wp_fallback wp_map wp_call wp_infer wp_par wp_run wp_host_view wp_host_unary wp_host
  wp_function_application

lemma wp_form:
  assumes "analyzer_ok (snd st)"
  shows "wp (analyze_form cfg compile rec operator osp arguments sp depth) (analyzed st) st"
  unfolding analyze_form_def
  by (intro wp_both wp_cases wp_get_then wp_handlers wp_Inl assms)

lemma wp_step:
  assumes "analyzer_ok (snd st)"
  shows "wp (analyze_step cfg compile rec e depth) (analyzed st) st"
proof -
  let ?st = "(fst st, (snd st)\<lparr>node_count := node_count (snd st) + 1\<rparr>)"
  have ok: "analyzer_ok (snd ?st)" using assms by (simp add: analyzer_ok_def)
  have counted: "analyzed st h st'" if "analyzed ?st h st'" for h st'
    using that by (auto simp: analyzed_def extends_def tools_ok_def)
  have "wp (analyze_atom cfg a) (analyzed st) ?st"
    and "wp (analyze_form cfg compile rec operator osp arguments sp depth) (analyzed st) ?st" for a operator osp arguments sp
    by (rule wp_mono [OF wp_atom [OF ok] counted] wp_mono [OF wp_form [OF ok] counted], assumption)+
  then show ?thesis
    unfolding analyze_step_def by (auto simp: wp_simps split_beta split: expr.split option.split)
qed

end

section \<open>All depths\<close>

lemma parameter_scope_distinct:
  assumes "parameter_scope cfg ps = Inr sc"
  shows "distinct (map fp_name ps)"
proof -
  have "distinct (map fp_name ps) \<and> fp_name ` set ps \<inter> dom (bindings sc0) = {}"
    if "try_fold (\<lambda>sc p. if bindings sc (fp_name p) \<noteq> None then Inl (diag DuplicateName (fp_span p))
       else Inr (bind_name (fp_name p) (fp_ty p) sc)) sc0 ps = Inr sc" for sc0
    using that
  proof (induction ps arbitrary: sc0)
    case (Cons p ps)
    from Cons.prems Cons.IH [of "bind_name (fp_name p) (fp_ty p) sc0"] show ?case
      by (auto simp: and_then_Inr_iff bind_name_def split: if_splits)
  qed simp
  with assms show ?thesis by (simp add: parameter_scope_def)
qed

context function_compilation
begin

lemma upto_contract: "function_analysis (analyze_upto n cfg compile) compile"
proof (induction n)
  case 0
  show ?case by unfold_locales (simp add: wp_slift)
next
  case (Suc n)
  show ?case
    by unfold_locales (simp add: function_analysis.wp_step [OF Suc])
qed

lemma expression_contract: "function_analysis (analyze_expr cfg compile) compile"
  unfolding analyze_expr_def by (rule upto_contract)

lemma wp_body:
  assumes "analyzer_ok (snd st)"
  shows "wp (compile_body cfg (analyze_expr cfg compile) decl) (compiled st) st"
  unfolding compile_body_def
  by (auto simp: wp_simps compiled_def function_ok_def simp del: wp_in_scope
      intro!: assms sub_analysis.wp_rec_in_scope [OF function_analysis.axioms(1) [OF expression_contract]])
    (auto simp: analyzed_def parameter_scope_distinct)

end

lemma push_ok: "analyzer_ok (an\<lparr>function_stack := s\<rparr>) \<longleftrightarrow> analyzer_ok an"
  by (simp add: analyzer_ok_def)

lemma compile_contract_upto: "function_compilation (compile_function n cfg)"
proof (induction n)
  case 0
  show ?case by unfold_locales (simp add: wp_slift)
next
  case (Suc n)
  have body: "analyzer_ok (snd st) \<Longrightarrow> wp (compile_body cfg (analyze_expr cfg (compile_function n cfg)) decl) (compiled st) st" for st decl
    by (rule function_compilation.wp_body [OF Suc])
  show ?case
  proof unfold_locales
    fix st :: sema_state and name
    assume ok: "analyzer_ok (snd st)"
    let ?push = "(fst st, (snd st)\<lparr>function_stack := function_stack (snd st) @ [name]\<rparr>)"
    have known: "compiled st f st" if "bt_get (compiled_functions (snd st)) name = Some f" for f
      using that ok bt_get_in_set by (fastforce simp: compiled_def analyzer_ok_def)
    have pop: "compiled st f (fst st', (snd st')\<lparr>function_stack := butlast (function_stack (snd st')),
        compiled_functions := bt_insert name f (compiled_functions (snd st'))\<rparr>)"
      if "compiled ?push f st'" for f st'
      using that by (auto simp: compiled_def extends_def analyzer_ok_def dest!: subsetD [OF set_bt_insert])
    show "wp (compile_function (Suc n) cfg name) (compiled st) st"
      using ok by (auto simp: compile_step_def wp_simps split_beta push_ok known Let_def
          intro!: wp_mono [OF body] pop split: option.split)
  qed
qed

interpretation compiling: function_compilation "compile cfg" for cfg
  unfolding compile_def by (rule compile_contract_upto)

interpretation analyzing: function_analysis "analyze_expr cfg (compile cfg)" "compile cfg" for cfg
  by (rule compiling.expression_contract)

end
