(* ===== verification/Yao_Admission.thy ===== *)
theory Yao_Admission
  imports Yao_Control
begin

text \<open>
  What an admitted module satisfies: the body of its program is well formed, its effects lie within
  the declared effects and tools, its size within the limit, and every function body is well formed.
\<close>

section \<open>The root\<close>

text \<open>
  A \<open>Model\<close> program is the body of the root \<open>infer\<close>, which the model owns: unlike an inner \<open>infer\<close>
  it adds no \<open>Infer\<close> effect of its own.
\<close>

definition root_ok :: "type_definitions \<Rightarrow> evaluation_owner \<Rightarrow> hir_expr \<Rightarrow> bool" where
  "root_ok defs own e \<longleftrightarrow>
     (case own of
        Runtime \<Rightarrow> hir_ok defs e
      | Model \<Rightarrow> (case hir_kind e of
          HInferBody b captures t s \<Rightarrow>
            hir_ok defs b \<and> hir_ty e = t \<and> hir_effects e = hir_effects b \<and> distinct captures
        | _ \<Rightarrow> False))"

definition rooted :: "evaluation_owner \<Rightarrow> sema_state \<Rightarrow> hir_expr \<Rightarrow> sema_state \<Rightarrow> bool" where
  "rooted own st e st' \<longleftrightarrow>
     analyzer_ok (snd st') \<and> extends st st' \<and> root_ok (definitions (snd st)) own e \<and> tools_ok st (hir_effects e)"

lemma model_source_hir: "model_source src (hir (HInferBody b cs t s) u es sp) = hir (HInferBody b cs t src) u es sp"
  by (simp add: hir_def)

lemma wp_root:
  assumes "analyzer_ok (snd st)"
  shows "wp (analyze_root cfg own root forms) (rooted own st) st"
proof (cases own)
  case Runtime
  then show ?thesis
    by (auto simp: analyze_root_def wp_simps rooted_def root_ok_def intro!: analyzing.wp_rec assms)
      (auto simp: analyzed_def)
next
  case Model
  then show ?thesis
    unfolding analyze_root_def analyze_infer_def analyze_infer_body_def
    by (auto simp: wp_simps simp del: wp_in_scope intro!: analyzing.wp_rec_in_scope assms)
      (auto simp: wp_sret Let_def model_source_hir rooted_def root_ok_def map_ok_Inr_iff and_then_Inr_iff analyzed_def
        dest!: parse_captures_distinct split: if_splits)
qed

lemma wp_compile_all:
  assumes "analyzer_ok (snd st)"
  shows "wp (compile_all cfg) (\<lambda>_ st'. analyzer_ok (snd st') \<and> extends st st' \<and>
     (allow_internal_functions (snd st') \<longrightarrow> (\<forall>(n, f) \<in> set (compiled_functions (snd st')).
        tools_within (req_tools (an_requirements (snd st'))) (hir_effects (cf_body f))))) st"
proof -
  have all: "wp (smap (compile cfg) names) (\<lambda>_ st'. analyzer_ok (snd st') \<and> extends st st') st" for names
    by (rule wp_smap) (auto simp: assms compiled_def intro!: compiling.wp_compile elim: extends_trans)
  have bound: "tools_within (req_tools (an_requirements an)) (hir_effects (cf_body f))"
    if "validate_bound_function_tool_upper_bound an = Inr ()" "(n, f) \<in> set (compiled_functions an)" for an n f
    using that by (auto simp: validate_bound_function_tool_upper_bound_def map_ok_Inr_iff dest!: try_map_Inr_ball)
  show ?thesis
    unfolding compile_all_def
    by (auto simp: wp_simps intro!: wp_mono [OF all] dest: bound)
qed

section \<open>The module\<close>

text \<open>Preparing a module touches neither the compiled functions nor the call stack.\<close>

definition same_functions :: "analyzer \<Rightarrow> analyzer \<Rightarrow> bool" where
  "same_functions an an' \<longleftrightarrow> compiled_functions an' = compiled_functions an \<and> function_stack an' = function_stack an"

lemma same_functions_fold:
  assumes "try_fold f (g an) xs = Inr an'" and "same_functions an (g an)"
    and "\<And>a x b. f a x = Inr b \<Longrightarrow> same_functions a b"
  shows "same_functions an an'"
  by (rule try_fold_invariant [OF assms(1), where I = "same_functions an"])
    (use assms(2) in \<open>auto dest!: assms(3) simp: same_functions_def\<close>)

lemma insert_definitions_functions: "insert_definitions defs sp an = Inr an' \<Longrightarrow> same_functions an an'"
  unfolding insert_definitions_def
  by (rule same_functions_fold [where g = "\<lambda>an. an"]) (auto simp: same_functions_def split: if_splits)

lemma prepare_external_functions: "prepare_external_type_definitions cfg an = Inr an' \<Longrightarrow> same_functions an an'"
  unfolding prepare_external_type_definitions_def
  by (erule same_functions_fold [where g = "\<lambda>an. an\<lparr>type_forms := []\<rparr>"])
    (auto simp: and_then_Inr_iff split: if_splits dest!: insert_definitions_functions, simp add: same_functions_def)

lemma prepare_function_declarations_functions: "prepare_function_declarations cfg an = Inr an' \<Longrightarrow> same_functions an an'"
  unfolding prepare_function_declarations_def
  by (erule same_functions_fold [where g = "\<lambda>an. an\<lparr>function_forms := []\<rparr>"])
    (auto simp: same_functions_def and_then_Inr_iff split: if_splits)

lemma prepare_module_functions:
  assumes "prepare_module cfg forms an = Inr (forms', an')"
  shows "same_functions an an'"
  using assms unfolding prepare_module_def
  by (auto simp: and_then_Inr_iff map_ok_Inr_iff split: if_splits dest!: prepare_external_functions
      prepare_function_declarations_functions insert_definitions_functions simp: same_functions_def)

definition program_ok :: "analysis_config \<Rightarrow> yao_program \<Rightarrow> bool" where
  "program_ok cfg p \<longleftrightarrow>
     root_ok (program_types p) (owner p) (body p) \<and>
     program_output p = hir_ty (body p) \<and> program_effects p = hir_effects (body p) \<and>
     tools_within (req_tools (requirements p)) (program_effects p) \<and>
     (\<forall>declared. req_effects (requirements p) = Some declared \<longrightarrow> set (program_effects p) \<subseteq> set declared) \<and>
     hir_node_count (body p) \<le> max_hir_nodes (limits cfg)"

lemma finish_program_ok:
  assumes "finish_program cfg hash an root own b = Inr p"
    and "root_ok (definitions an) own b" and "tools_within (req_tools (an_requirements an)) (hir_effects b)"
  shows "program_ok cfg p \<and> program_types p = definitions an"
  using assms by (auto simp: finish_program_def Let_def program_ok_def effect_is_subset_def list_all_iff split: if_splits option.splits)

lemma analyze_module_ok:
  assumes "analyze_module cfg hash an root = Inr m" and "compiled_functions an = []" and "function_stack an = []"
  shows "program_ok cfg (ma_program m) \<and> (\<forall>(n, b) \<in> set (ma_functions m). hir_ok (program_types (ma_program m)) b)"
proof -
  from assms(1) obtain items own forms an1 sc2 an2 sc3 an3 b p where
    prep: "prepare_module cfg (tl items) an = Inr (forms, an1)" and
    comp: "compile_all cfg (scope_new cfg, an1) = Inr ((), sc2, an2)" and
    root: "analyze_root cfg own root forms (scope_new cfg, an2) = Inr (b, sc3, an3)" and
    fin: "finish_program cfg hash an3 root own b = Inr p" and
    m: "m = \<lparr>ma_program = p, ma_functions = map (\<lambda>(n, f). (n, cf_body f)) (compiled_functions an3)\<rparr>"
    by (auto simp: analyze_module_def and_then_Inr_iff map_ok_Inr_iff)
  from prepare_module_functions [OF prep] assms(2,3)
  have "analyzer_ok an1" "function_stack an1 = []" by (auto simp: analyzer_ok_def same_functions_def)
  with wpD [OF wp_compile_all comp] have an2: "analyzer_ok an2" "function_stack an2 = []"
    by (auto simp: extends_def)
  with wpD [OF wp_root root] have "rooted own (scope_new cfg, an2) b (sc3, an3)" by simp
  with an2 have an3: "analyzer_ok an3" "root_ok (definitions an3) own b"
    "tools_within (req_tools (an_requirements an3)) (hir_effects b)"
    by (auto simp: rooted_def extends_def tools_ok_def)
  with finish_program_ok [OF fin] show ?thesis
    by (fastforce simp: m analyzer_ok_def function_ok_def)
qed

end
