(* ===== verification/Yao_Safety.thy ===== *)
theory Yao_Safety
  imports Yao_Admission
begin

text \<open>
  Consequences of the analyzer's contract. The effects of a well-formed expression are exactly the
  effects of its nodes, so the tools an admitted program can call are those it declares; and the pure
  evaluator never panics and never meets an effectful node on an expression without effects.
\<close>

section \<open>Effects of the nodes\<close>

inductive sub_expr :: "hir_expr \<Rightarrow> hir_expr \<Rightarrow> bool" where
  sub_refl: "sub_expr e e"
| sub_child: "c \<in> set (children e) \<Longrightarrow> sub_expr c s \<Longrightarrow> sub_expr e s"

text \<open>The effect a node has by itself: the call of a tool or of a host, a program, an inference.\<close>

definition own_effects :: "hir_expr \<Rightarrow> effect set" where
  "own_effects e =
     (case hir_kind e of
        HCall t as \<Rightarrow> {Tool t}
      | HHost op as \<Rightarrow> set (hir_effects e)
      | HRun p \<Rightarrow> set (hir_effects e)
      | HInferBody b captures t s \<Rightarrow> {Infer}
      | _ \<Rightarrow> {})"

lemma hir_okD: "hir_ok defs e \<Longrightarrow> effects_ok e" "hir_ok defs e \<Longrightarrow> types_ok defs e"
  "hir_ok defs e \<Longrightarrow> c \<in> set (children e) \<Longrightarrow> hir_ok defs c"
  using hir_ok_iff by blast+

lemma hir_ok_sub: "sub_expr e s \<Longrightarrow> hir_ok defs e \<Longrightarrow> hir_ok defs s"
  by (induction rule: sub_expr.induct) (auto dest: hir_okD)

lemma effects_ok_own: "effects_ok e \<Longrightarrow> set (hir_effects e) = own_effects e \<union> child_effects (children e)"
  by (cases "hir_kind e") (auto simp: effects_ok_def own_effects_def children_def Let_def child_effects_pure)

lemma effects_ok_pure: "effects_ok e \<Longrightarrow> pure_expr e \<Longrightarrow> c \<in> set (children e) \<Longrightarrow> pure_expr c"
  using effects_ok_own by (fastforce simp: child_effects_def)

lemma footprint_sub: "sub_expr e s \<Longrightarrow> hir_ok defs e \<Longrightarrow> own_effects s \<subseteq> set (hir_effects e)"
proof (induction rule: sub_expr.induct)
  case (sub_refl e)
  then show ?case by (simp add: effects_ok_own hir_okD(1))
next
  case (sub_child c e s)
  then have "set (hir_effects c) \<subseteq> set (hir_effects e)"
    using effects_ok_own [OF hir_okD(1), of defs e] by (auto simp: child_effects_def)
  moreover have "own_effects s \<subseteq> set (hir_effects c)"
    using sub_child by (auto dest: hir_okD(3))
  ultimately show ?case by simp
qed

lemma footprint_origin: "hir_ok defs e \<Longrightarrow> x \<in> set (hir_effects e) \<Longrightarrow> \<exists>s. sub_expr e s \<and> x \<in> own_effects s"
proof (induction e rule: measure_induct_rule [where f = size])
  case (less e)
  then consider "x \<in> own_effects e" | c where "c \<in> set (children e)" "x \<in> set (hir_effects c)"
    using effects_ok_own [OF hir_okD(1), of defs e] by (auto simp: child_effects_def)
  then show ?case
  proof cases
    case 2
    with less show ?thesis by (meson size_children hir_okD(3) sub_child)
  qed (auto intro: sub_refl)
qed

lemma effect_footprint: "hir_ok defs e \<Longrightarrow> set (hir_effects e) = (\<Union>s \<in> {s. sub_expr e s}. own_effects s)"
  using footprint_sub footprint_origin by fast

text \<open>The body of an admitted program, also when the model owns its root.\<close>

lemma root_calls:
  assumes "root_ok defs own e" and "sub_expr e s" and "hir_kind s = HCall t as"
  shows "Tool t \<in> set (hir_effects e)"
proof (cases own)
  case Runtime
  with assms footprint_sub [OF assms(2)] show ?thesis by (auto simp: root_ok_def own_effects_def)
next
  case Model
  then obtain b captures u src where b: "hir_kind e = HInferBody b captures u src" "hir_ok defs b"
    "hir_effects e = hir_effects b" using assms(1) by (auto simp: root_ok_def split: hir_kind.splits)
  from assms(2) b(1) assms(3) have "sub_expr b s" by cases (auto simp: children_def)
  from footprint_sub [OF this b(2)] assms(3) b(3) show ?thesis by (auto simp: own_effects_def)
qed

section \<open>Failures of the evaluator\<close>

text \<open>The failures that would be a fault of the analyzer: a panic, an effect, a bad linkage.\<close>

fun internal_fault :: "eval_message \<Rightarrow> bool" where
  "internal_fault (EffectfulExpression es) = True"
| "internal_fault EffectfulNode = True"
| "internal_fault OperandPanic = True"
| "internal_fault (ArgumentArity f a) = True"
| "internal_fault (MissingLinkedArgument f a) = True"
| "internal_fault (UnexpectedLinkedArgument f as) = True"
| "internal_fault _ = False"

definition benign :: "eval_failure + 'a \<Rightarrow> bool" where
  "benign r \<longleftrightarrow> (\<forall>f. r = Inl f \<longrightarrow> \<not> internal_fault (failure_message f))"

named_theorems benign_simps \<open>benign failures of the combinators\<close>

lemma benign_basic [benign_simps]:
  "benign (Inr x)"
  "benign (Inl f) \<longleftrightarrow> \<not> internal_fault (failure_message f)"
  "benign (ok_or y f) \<longleftrightarrow> y \<noteq> None \<or> \<not> internal_fault (failure_message f)"
  "benign (map_ok g r) \<longleftrightarrow> benign r"
  "benign (and_then r h) \<longleftrightarrow> benign r \<and> (\<forall>x. r = Inr x \<longrightarrow> benign (h x))"
  "benign (map_err k q) \<longleftrightarrow> (\<forall>f. q = Inl f \<longrightarrow> \<not> internal_fault (failure_message (k f)))"
  by (cases y; cases r; cases q; auto simp: benign_def)+

lemma failure_message_failure [simp, benign_simps]: "failure_message (failure m sp) = m"
  by (simp add: failure_def)

lemma benign_type_failure [benign_simps]: "benign (type_failure t v sp)"
  by (simp add: type_failure_def benign_simps)

lemma benign_try_map: "(\<And>x. x \<in> set xs \<Longrightarrow> benign (f x)) \<Longrightarrow> benign (try_map f xs)"
  by (induction xs) (auto simp: benign_simps)

lemma benign_try_fold: "(\<And>s x. x \<in> set xs \<Longrightarrow> benign (f s x)) \<Longrightarrow> benign (try_fold f s xs)"
  by (induction xs arbitrary: s) (auto simp: benign_simps)

lemma benign_take_fields:
  assumes "\<And>name t v. bt_get object name = Some v \<Longrightarrow> benign (rec name t v)"
    and "\<And>name. \<not> internal_fault (failure_message (miss name))"
  shows "benign (take_fields rec miss object fs)"
  using assms(1)
proof (induction fs arbitrary: object)
  case (Cons f fs)
  obtain name t where f: "f = (name, t)" by fastforce
  have "benign (take_fields rec miss (bt_remove name object) fs)"
    by (rule Cons.IH) (auto split: if_splits intro: Cons.prems)
  then show ?case by (auto simp: f benign_simps assms(2) intro: Cons.prems)
qed (simp add: benign_simps)

lemma benign_decode: "benign (decode_value t v ds sp)"
proof (induction v arbitrary: t rule: measure_induct_rule [where f = size])
  case (less v)
  have fields: "benign (validate_named_fields (\<lambda>t v. decode_value t v ds sp) fds tag sp)"
    if "yao_object v = Some tag" for fds tag
    using yao_object_size [OF that] unfolding validate_named_fields_def
    by (auto simp: benign_simps bind_eq_Some_conv intro!: benign_try_map less dest!: size_bt_get)
  show ?case
  proof (cases t)
    case (TList u)
    then show ?thesis
      by (subst decode_value.simps) (auto simp: benign_simps split: json.split intro!: benign_try_map less size_json_list)
  next
    case (TMap u)
    then show ?thesis
      by (subst decode_value.simps)
        (auto simp: benign_simps split: json.split intro!: benign_try_map less dest: size_json_map)
  next
    case (TStructuralRecord fs)
    then show ?thesis
      by (subst decode_value.simps)
        (auto simp: benign_simps split: json.split option.split intro!: benign_try_map benign_take_fields less
          dest: structural_fields_size size_bt_get)
  next
    case (TNamed n)
    then show ?thesis
      by (auto simp: decode_simps decode_named_def benign_simps fields split: option.split type_definition.split)
  qed (simp_all add: decode_simps decode_tagged_unary_def decode_result_def benign_simps less tag_payload_size
      decode_value.simps [of "TRef k" for k] decode_value.simps [of "TProgram a b" for a b] split: option.split)
qed

lemma benign_json: "benign (from_json t v ds sp)" "benign (to_json t v ds sp)"
  by (simp_all add: from_json_def to_json_def convert_def benign_simps)

section \<open>The evaluator\<close>

abbreviation quiet :: "'a evaluation \<Rightarrow> bool" where
  "quiet r \<equiv> benign (fst r)"

lemma quiet_bind: "quiet m \<Longrightarrow> (\<And>x env. m = (Inr x, env) \<Longrightarrow> quiet (f x env)) \<Longrightarrow> quiet (ev_bind m f)"
  by (cases m; cases "fst m") (auto simp: benign_simps)

lemma quiet_lift [simp]: "quiet (ev_lift r env) \<longleftrightarrow> benign r"
  by (simp add: ev_lift_def)

lemma quiet_list: "(\<And>x env. x \<in> set xs \<Longrightarrow> quiet (f x env)) \<Longrightarrow> quiet (ev_list f xs env)"
  by (induction xs arbitrary: env) (auto simp: benign_simps intro!: quiet_bind)

lemma quiet_seq: "(\<And>x env. x \<in> set xs \<Longrightarrow> quiet (f x env)) \<Longrightarrow> quiet (ev_seq f r xs env)"
  by (induction xs arbitrary: env r) (auto simp: benign_simps intro!: quiet_bind)

lemma quiet_until: "(\<And>x env. x \<in> set xs \<Longrightarrow> quiet (f x env)) \<Longrightarrow> quiet (ev_until f stop sp xs env)"
  by (induction xs arbitrary: env) (auto simp: benign_simps bool_operand_def intro!: quiet_bind)

lemma quiet_fields: "(\<And>x env. x \<in> snd ` set fs \<Longrightarrow> quiet (f x env)) \<Longrightarrow> quiet (ev_fields f fs env)"
  unfolding ev_fields_def by (force simp: benign_simps intro!: quiet_bind quiet_list)

lemma ev_list_length: "ev_list f xs env = (Inr ys, env') \<Longrightarrow> length ys = length xs"
  by (induction xs arbitrary: env ys) (auto simp: ev_bind_Inr_iff)

text \<open>The typing rules of the operators give every operator as many operands as it indexes.\<close>

lemma operator_arity:
  assumes "operator_type op xs sp = Inr t"
  shows "op \<noteq> OpNot \<Longrightarrow> 2 \<le> length xs" and "op = OpNot \<Longrightarrow> length xs = 1"
  using assms by (cases op; auto simp: operator_type_def Let_def and_then_Inr_iff require_arity_def)+

lemma benign_numeric:
  assumes "2 \<le> length vs" and "op \<in> {OpAdd, OpSubtract, OpMultiply, OpDivide}"
  shows "benign (numeric op vs sp)"
proof -
  have two: "\<exists>a b r. xs = a # b # r" if "length xs = length vs" for xs :: "'x list"
    using that assms(1) by (cases xs; cases "tl xs") auto
  have "benign (integer_arithmetic op xs sp)" if "length xs = length vs" "op \<noteq> OpDivide" for xs
    using two [OF that(1)] that(2) assms(2) by (auto simp: integer_arithmetic_def benign_simps)
  moreover have "benign (float_arithmetic op xs sp)" if "length xs = length vs" for xs
    using two [OF that] assms(2) by (auto simp: float_arithmetic_def benign_simps)
  ultimately show ?thesis
    by (auto simp: numeric_def benign_simps try_map_Inr_iff list_all2_lengthD intro!: benign_try_map
        dest: list_all2_lengthD)
qed

lemma benign_strict:
  assumes "2 \<le> length vs" and "op \<notin> {OpAnd, OpOr, OpNot}"
  shows "benign (strict_operator op vs sp)"
proof -
  obtain a b r where vs: "vs = a # b # r" using assms(1) by (cases vs; cases "tl vs") auto
  then have "benign (compare_values op vs sp)" by (auto simp: compare_values_def benign_simps)
  with assms show ?thesis
    by (cases op) (auto simp: strict_operator_def vs benign_simps intro!: benign_numeric)
qed

lemma quiet_operator:
  assumes "operator_type op xs tsp = Inr t" and "\<And>x env. x \<in> set xs \<Longrightarrow> quiet (f x env)"
  shows "quiet (evaluate_operator f op xs sp env)"
proof (cases "op \<in> {OpAnd, OpOr, OpNot}")
  case True
  with operator_arity(2) [OF assms(1)] show ?thesis
    by (auto simp: evaluate_operator_def benign_simps bool_operand_def assms(2) length_Suc_conv intro!: quiet_until quiet_bind)
next
  case False
  have len: "2 \<le> length xs" using operator_arity(1) [OF assms(1)] False by auto
  have "evaluate_operator f op xs sp env = ev_bind (ev_list f xs env) (\<lambda>vs env. ev_lift (strict_operator op vs sp) env)"
    using False by (cases op) (auto simp: evaluate_operator_def)
  then show ?thesis
    by (auto intro!: quiet_bind quiet_list assms(2) benign_strict len False simp: ev_list_length)
qed

text \<open>Linking: the analyzer checked that arguments and parameters correspond.\<close>

lemma quiet_arguments:
  assumes "\<And>a x env. a \<in> set as \<Longrightarrow> x \<in> set (arg_values a) \<Longrightarrow> quiet (f x env)"
    and "\<forall>a \<in> set as. \<exists>v. arg_values a = [v]"
  shows "quiet (ev_arguments f fname sp as vs env)"
  using assms
proof (induction as arbitrary: vs env)
  case (Cons a as)
  then obtain v where v: "arg_values a = [v]" by auto
  have "quiet (ev_arguments f fname sp as vs env)" for vs env
    by (rule Cons.IH) (use Cons.prems in auto)
  then show ?case using v Cons.prems(1) [of a v] by (auto intro!: quiet_bind)
qed (simp add: benign_simps)

lemma ev_arguments_keys:
  "ev_arguments f fname sp as vs env = (Inr ws, env') \<Longrightarrow> bt_wf vs \<Longrightarrow>
     bt_wf ws \<and> fst ` set ws = arg_name ` set as \<union> fst ` set vs"
proof (induction as arbitrary: vs env)
  case (Cons a as)
  from Cons.prems(1) obtain x v env1 where "f x env = (Inr v, env1)"
    and rest: "ev_arguments f fname sp as (bt_insert (arg_name a) v vs) env1 = (Inr ws, env')"
    by (auto simp: ev_bind_Inr_iff split: list.splits)
  from Cons.IH [OF rest] Cons.prems(2) show ?case by simp
qed simp

lemma bt_remove_keys: "fst ` set (bt_remove k m) = fst ` set m - {k}"
  by (force simp: bt_remove_def)

lemma link_fold:
  assumes "distinct ps" and "bt_wf vs" and "fst ` set vs = set ps"
  shows "\<exists>local'. try_fold (\<lambda>(values, local) p.
            map_ok (\<lambda>v. (bt_remove p values, local(p \<mapsto> v)))
              (ok_or (bt_get values p) (failure (MissingLinkedArgument fname p) sp))) (vs, local) ps = Inr ([], local')"
  using assms
proof (induction ps arbitrary: vs local)
  case (Cons p ps)
  from Cons.prems obtain v where v: "bt_get vs p = Some v" using bt_get_None_iff [of vs p] by fastforce
  have "fst ` set (bt_remove p vs) = set ps"
    using Cons.prems(1,3) by (auto simp: bt_remove_keys)
  with Cons.IH [of "bt_remove p vs" "local(p \<mapsto> v)"] Cons.prems v show ?case by simp
qed simp

lemma link_parameters_ok:
  assumes "distinct ps" and "bt_wf vs" and "fst ` set vs = set ps"
  shows "\<exists>local. link_parameters fname sp vs env ps = Inr local"
proof -
  let ?l = "case env (lit ''runtime'') of Some v \<Rightarrow> Map.empty(lit ''runtime'' \<mapsto> v) | None \<Rightarrow> Map.empty"
  from link_fold [OF assms, of fname sp ?l] show ?thesis
    by (auto simp only: link_parameters_def Let_def and_then_simps prod.case if_False simp_thms)
qed

lemma quiet_function:
  assumes "\<And>a x env. a \<in> set as \<Longrightarrow> x \<in> set (arg_values a) \<Longrightarrow> quiet (f x env)"
    and "\<forall>a \<in> set as. \<exists>v. arg_values a = [v]" and "distinct ps" and "set (map arg_name as) = set ps"
    and "\<And>env. quiet (g env)"
  shows "quiet (ev_bind (ev_arguments f fname sp as [] env) (\<lambda>values env.
            (and_then (link_parameters fname sp values env ps) (\<lambda>local. fst (g local)), env)))"
proof (rule quiet_bind)
  fix vs env'
  assume "ev_arguments f fname sp as [] env = (Inr vs, env')"
  from ev_arguments_keys [OF this] link_parameters_ok [of ps vs fname sp env'] assms(3,4)
  have "\<exists>local. link_parameters fname sp vs env' ps = Inr local" by simp
  with assms(5) show "quiet (and_then (link_parameters fname sp vs env' ps) (\<lambda>local. fst (g local)), env')"
    by (auto simp: benign_simps)
qed (rule quiet_arguments [OF assms(1,2)])

lemma benign_literal: "benign (literal_value l sp)"
  by (auto simp: literal_value_def benign_simps split: literal.split)

lemma benign_persisted: "benign (persisted_record_field v field ds sp)"
  by (auto simp: persisted_record_field_def benign_simps benign_decode split: option.split type_definition.split)

lemma benign_select: "benign (select_case v cs sp)" "benign (bind_variant_fields c fs env)"
  by (auto simp: select_case_def bind_variant_fields_def benign_simps intro!: benign_try_fold)

lemma quiet_branch: "quiet (evaluate_branch f env) \<longleftrightarrow> quiet (f env)"
  by (simp add: evaluate_branch_def)

lemma quiet_node:
  assumes "effects_ok e" and "types_ok defs e" and "pure_expr e"
    and sub: "\<And>c env. c \<in> set (children e) \<Longrightarrow> quiet (evaluate_pure c env defs)"
  shows "quiet (evaluate_pure e env defs)"
proof -
  obtain k t sp where e: "e = HirExpr k t [] sp" using assms(3) by (cases e) auto
  show ?thesis
  proof (cases k)
    case (HFunctionApplication f as ps b)
    with assms(2) show ?thesis
      by (auto simp: e evaluate_pure.simps types_ok_def intro!: quiet_function sub)
        (auto simp: children_def argument_values_def)
  next
    case (HPure op xs)
    with assms(2) show ?thesis
      by (auto simp: e evaluate_pure.simps types_ok_def children_def intro!: quiet_operator sub)
  qed (use assms in \<open>auto simp: e evaluate_pure.simps types_ok_def effects_ok_def children_def benign_simps benign_literal
        benign_persisted benign_decode benign_json benign_select quiet_branch ev_items_def
        intro!: quiet_bind quiet_list quiet_seq quiet_fields benign_try_fold benign_try_map
        split: json.split option.split sum.split bool.split dest!: select_case_in\<close>)
qed

lemma evaluate_quiet: "hir_ok defs e \<Longrightarrow> pure_expr e \<Longrightarrow> quiet (evaluate_pure e env defs)"
proof (induction e arbitrary: env rule: measure_induct_rule [where f = size])
  case (less e)
  have "quiet (evaluate_pure c env defs)" if c: "c \<in> set (children e)" for c env
    using less.IH [OF size_children [OF c] hir_okD(3) [OF less.prems(1) c]]
      effects_ok_pure [OF hir_okD(1) [OF less.prems(1)] less.prems(2) c] by blast
  then show ?case by (rule quiet_node [OF hir_okD(1,2) [OF less.prems(1)] less.prems(2)])
qed

section \<open>The environment only grows\<close>

definition grows :: "environment \<Rightarrow> 'a evaluation \<Rightarrow> bool" where
  "grows env r \<longleftrightarrow> (\<forall>v. fst r = Inr v \<longrightarrow> env \<subseteq>\<^sub>m snd r)"

lemma grows_same [simp]: "grows env (r, env)"
  by (simp add: grows_def)

lemma grows_bind: "grows env m \<Longrightarrow> (\<And>x env'. m = (Inr x, env') \<Longrightarrow> grows env' (f x env')) \<Longrightarrow> grows env (ev_bind m f)"
  by (cases m; cases "fst m") (auto simp: grows_def intro: map_le_trans)

lemma grows_list: "(\<And>x env. x \<in> set xs \<Longrightarrow> grows env (f x env)) \<Longrightarrow> grows env (ev_list f xs env)"
  by (induction xs arbitrary: env) (auto intro!: grows_bind)

lemma grows_seq: "(\<And>x env. x \<in> set xs \<Longrightarrow> grows env (f x env)) \<Longrightarrow> grows env (ev_seq f r xs env)"
  by (induction xs arbitrary: env r) (auto intro!: grows_bind)

lemma grows_until: "(\<And>x env. x \<in> set xs \<Longrightarrow> grows env (f x env)) \<Longrightarrow> grows env (ev_until f stop sp xs env)"
  by (induction xs arbitrary: env) (auto simp: ev_lift_def intro!: grows_bind)

lemma grows_fields: "(\<And>x env. x \<in> snd ` set fs \<Longrightarrow> grows env (f x env)) \<Longrightarrow> grows env (ev_fields f fs env)"
  unfolding ev_fields_def by (force intro!: grows_bind grows_list)

lemma grows_arguments:
  "(\<And>a x env. a \<in> set as \<Longrightarrow> x \<in> set (arg_values a) \<Longrightarrow> grows env (f x env)) \<Longrightarrow> grows env (ev_arguments f fname sp as vs env)"
proof (induction as arbitrary: vs env)
  case (Cons a as)
  have "grows env (ev_arguments f fname sp as vs env)" for vs env
    by (rule Cons.IH) (use Cons.prems in auto)
  then show ?case using Cons.prems [of a] by (auto split: list.split intro!: grows_bind)
qed simp

lemma grows_operator:
  "(\<And>x env. x \<in> set xs \<Longrightarrow> grows env (f x env)) \<Longrightarrow> grows env (evaluate_operator f op xs sp env)"
  unfolding evaluate_operator_def
  by (auto simp: ev_lift_def split: pure_operator.split list.split intro!: grows_bind grows_list grows_until)

lemma grows_node:
  assumes sub: "\<And>c env. c \<in> set (children e) \<Longrightarrow> grows env (evaluate_pure c env defs)"
  shows "grows env (evaluate_pure e env defs)"
proof -
  obtain k t es sp where e: "e = HirExpr k t es sp" by (cases e)
  show ?thesis
  proof (cases k)
    case (HBind x b)
    have "grows env' (if env' x \<noteq> None then Inl f else Inr JNull, env'(x \<mapsto> v))" for env' f v
      by (auto simp: grows_def map_le_def dom_def)
    with HBind show ?thesis by (auto simp: e evaluate_pure.simps children_def intro!: grows_bind sub)
  next
    case (HFunctionApplication f as ps b)
    then show ?thesis
      by (auto simp: e evaluate_pure.simps intro!: grows_bind grows_arguments sub) (auto simp: children_def argument_values_def)
  qed (use sub in \<open>auto simp: e evaluate_pure.simps children_def evaluate_branch_def
      intro!: grows_bind grows_list grows_seq grows_fields grows_operator split: json.split sum.split bool.split\<close>)
qed

lemma evaluate_grows: "grows env (evaluate_pure e env defs)"
  by (induction e arbitrary: env rule: measure_induct_rule [where f = size]) (blast intro: grows_node size_children)

end
