(* ===== verification/Yao_Fuel.thy ===== *)
theory Yao_Fuel
  imports Yao_Control
begin

text \<open>
  The bounds of the recursion are never what ends it: two numbers of nested expressions that both
  exceed what the depth limit leaves give the same analysis, and so do two numbers of nested calls.
  \<open>agree l m n\<close> says that \<open>m\<close> and \<open>n\<close> do the same from every state with \<open>l\<close> functions being
  compiled and leave that many.
\<close>

definition depth_of :: "sema_state \<Rightarrow> nat" where
  "depth_of st = length (function_stack (snd st))"

definition agree :: "nat \<Rightarrow> 'a sema \<Rightarrow> 'a sema \<Rightarrow> bool" where
  "agree l m n \<longleftrightarrow>
     (\<forall>st. depth_of st = l \<longrightarrow> m st = n st \<and> (\<forall>x st'. m st = Inr (x, st') \<longrightarrow> depth_of st' = l))"

lemma agreeD:
  "agree l m n \<Longrightarrow> depth_of st = l \<Longrightarrow> m st = n st"
  "agree l m n \<Longrightarrow> depth_of st = l \<Longrightarrow> n st = Inr (x, st') \<Longrightarrow> depth_of st' = l"
  unfolding agree_def by metis+

lemma agreeI:
  assumes "\<And>st. depth_of st = l \<Longrightarrow> m st = n st"
    and "\<And>st x st'. depth_of st = l \<Longrightarrow> n st = Inr (x, st') \<Longrightarrow> depth_of st' = l"
  shows "agree l m n"
  unfolding agree_def using assms by metis

named_theorems agree_rules \<open>agreement of the combinators\<close>

lemma agree_bind [agree_rules]:
  assumes "agree l m n" and "\<And>x. agree l (f x) (g x)"
  shows "agree l (sbind m f) (sbind n g)"
proof (rule agreeI)
  fix st :: sema_state
  assume st: "depth_of st = l"
  show eq: "sbind m f st = sbind n g st"
    using agreeD [OF assms(1) st] agreeD(1) [OF assms(2)]
    by (cases "n st") (auto simp: sbind_def split: prod.split)
  fix y st'
  assume "sbind n g st = Inr (y, st')"
  then obtain x st1 where "n st = Inr (x, st1)" "g x st1 = Inr (y, st')"
    by (auto simp: sbind_def and_then_Inr_iff)
  then show "depth_of st' = l"
    using agreeD(2) [OF assms(1) st] agreeD(2) [OF assms(2)] by blast
qed

lemma agree_pure [agree_rules]:
  "agree l (sret x) (sret x)" "agree l (slift r) (slift r)" "agree l (sget f) (sget f)"
  by (auto simp: agree_def sret_def slift_def sget_def map_ok_Inr_iff)

lemma agree_modify:
  "(\<And>st. depth_of (f st) = depth_of st) \<Longrightarrow> agree l (smodify f) (smodify f)"
  by (simp add: agree_def smodify_def)

lemma agree_in_scope [agree_rules]: "agree l m n \<Longrightarrow> agree l (in_scope f m) (in_scope f n)"
proof (rule agreeI)
  assume mn: "agree l m n"
  fix st :: sema_state
  assume "depth_of st = l"
  then have st: "depth_of (f (fst st), snd st) = l" by (simp add: depth_of_def)
  show "in_scope f m st = in_scope f n st"
    using agreeD(1) [OF mn st] by (simp add: in_scope_def split_beta)
  fix y st'
  assume "in_scope f n st = Inr (y, st')"
  then show "depth_of st' = l"
    by (auto simp: in_scope_def split_beta and_then_Inr_iff depth_of_def dest!: agreeD(2) [OF mn st])
qed

lemma agree_case [agree_rules]:
  "(\<And>a b. agree l (f a b) (g a b)) \<Longrightarrow> agree l (case p of (a, b) \<Rightarrow> f a b) (case p of (a, b) \<Rightarrow> g a b)"
  "agree l m n \<Longrightarrow> (\<And>y. agree l (h y) (k y)) \<Longrightarrow>
     agree l (case x of None \<Rightarrow> m | Some y \<Rightarrow> h y) (case x of None \<Rightarrow> n | Some y \<Rightarrow> k y)"
  "agree l m n \<Longrightarrow> agree l m' n' \<Longrightarrow> agree l (if b then m else m') (if b then n else n')"
  "(\<And>z. agree l (h' z) (k' z)) \<Longrightarrow> agree l (let y = w in h' y) (let y = w in k' y)"
  by (auto split: prod.split option.split)

lemma agree_map [agree_rules]:
  "(\<And>x. agree l (f x) (g x)) \<Longrightarrow> agree l (smap f xs) (smap g xs)"
  by (induction xs) (auto intro!: agree_rules)

lemma agree_fold [agree_rules]:
  "(\<And>s x. agree l (f s x) (g s x)) \<Longrightarrow> agree l (sfold f s xs) (sfold g s xs)"
  by (induction xs arbitrary: s) (auto intro!: agree_rules)

text \<open>Two subanalyses and two compilations that agree.\<close>

locale agreement =
  fixes l :: nat and depth :: nat and rec rec' :: rec_analysis
    and compile compile' :: "ustring \<Rightarrow> compiled_function sema"
  assumes sub: "agree l (rec e (depth + 1)) (rec' e (depth + 1))"
    and compile_sub: "agree l (compile name) (compile' name)"
begin

lemmas rules = agree_rules sub [simplified] sub compile_sub

lemma many: "agree l (analyze_many rec es (Suc depth)) (analyze_many rec' es (Suc depth))"
  unfolding analyze_many_def by (intro rules)

lemma arguments: "agree l (analyze_named_arguments rec es (Suc depth)) (analyze_named_arguments rec' es (Suc depth))"
  unfolding analyze_named_arguments_def analyze_argument_def by (intro rules many)

lemma fields_agree: "agree l (analyze_named_fields rec es fds (Suc depth)) (analyze_named_fields rec' es fds (Suc depth))"
  unfolding analyze_named_fields_def analyze_field_def by (intro rules)

lemma references: "agree l (analyze_references rec es (Suc depth)) (analyze_references rec' es (Suc depth))"
  unfolding analyze_references_def by (intro rules many)

lemmas all_rules = rules many arguments fields_agree references

lemmas handler_defs = analyze_list_def analyze_dict_def analyze_dict_entry_def analyze_json_object_def analyze_json_entry_def
  analyze_json_conversion_def analyze_record_def analyze_variant_def analyze_some_def analyze_none_def analyze_ok_def
  analyze_err_def analyze_evidence_def analyze_evidence_clause_def analyze_outcome_def analyze_outcome_clause_def
  analyze_context_transaction_def analyze_context_clause_def analyze_get_def analyze_decode_def analyze_is_def
  analyze_pure_def analyze_seq_def analyze_if_def analyze_fallback_def analyze_map_def analyze_call_def
  analyze_function_application_def analyze_infer_def analyze_infer_body_def analyze_par_def analyze_branch_def
  analyze_run_def analyze_host_def analyze_host_unary_def analyze_host_view_def analyze_match_def analyze_case_def

lemma bind_agree: "agree l (analyze_bind cfg rec es sp depth) (analyze_bind cfg rec' es sp depth)"
  unfolding analyze_bind_def by (simp, intro all_rules agree_modify) (auto simp: depth_of_def)

lemma atom: "agree l (analyze_atom cfg a) (analyze_atom cfg a)"
  unfolding analyze_atom_def analyze_reference_def
  by (auto simp: Let_def split: option.split list.split intro!: agree_rules)

lemma form: "agree l (analyze_form cfg compile rec op osp es sp depth) (analyze_form cfg compile' rec' op osp es sp depth)"
  unfolding analyze_form_def handler_defs
  by (simp only: add_Suc_right add_0_right One_nat_def) (intro all_rules bind_agree)

lemma step: "agree l (analyze_step cfg compile rec e depth) (analyze_step cfg compile' rec' e depth)"
  unfolding analyze_step_def
  by (intro all_rules agree_modify) (auto simp: depth_of_def split: expr.split option.split intro: agree_rules form atom)

end

section \<open>Expressions\<close>

lemma upto_beyond:
  "max_expression_depth (limits cfg) < depth \<Longrightarrow>
     analyze_upto n cfg c e depth = slift (Inl (diag ResourceLimit (expr_span e)))"
  by (cases n) (auto simp: analyze_step_def sbind_def slift_def)

lemma upto_agree:
  assumes "max_expression_depth (limits cfg) < n + depth" and "max_expression_depth (limits cfg) < n' + depth"
    and "\<And>name. agree l (c name) (c' name)"
  shows "agree l (analyze_upto n cfg c e depth) (analyze_upto n' cfg c' e depth)"
  using assms(1,2)
proof (induction n arbitrary: n' depth e)
  case 0
  then show ?case by (simp only: upto_beyond) (intro agree_rules)
next
  case (Suc n)
  show ?case
  proof (cases n')
    case 0
    with Suc.prems show ?thesis by (simp only: upto_beyond) (intro agree_rules)
  next
    case (Suc n2)
    then have "agreement l depth (analyze_upto n cfg c) (analyze_upto n2 cfg c') c c'"
      using Suc.prems by unfold_locales (auto intro!: Suc.IH assms(3))
    then show ?thesis using \<open>n' = Suc n2\<close> by (simp add: agreement.step)
  qed
qed

section \<open>Functions\<close>

lemma agree_in_function: "agree l m n \<Longrightarrow> agree l (in_function name m) (in_function name n)"
  by (rule agreeI) (auto simp: in_function_def dest: agreeD)

lemma agree_nested:
  assumes "agree (Suc l) m n" and "\<And>st. depth_of (push st) = Suc (depth_of st)"
    and "\<And>x st. depth_of st = Suc l \<Longrightarrow> depth_of (pop x st) = l"
  shows "agree l (sbind (smodify push) (\<lambda>_. sbind m (\<lambda>x. sbind (smodify (pop x)) (\<lambda>_. sret x))))
    (sbind (smodify push) (\<lambda>_. sbind n (\<lambda>x. sbind (smodify (pop x)) (\<lambda>_. sret x))))"
proof (rule agreeI)
  fix st :: sema_state
  assume "depth_of st = l"
  then have st: "depth_of (push st) = Suc l" by (simp add: assms(2))
  show "sbind (smodify push) (\<lambda>_. sbind m (\<lambda>x. sbind (smodify (pop x)) (\<lambda>_. sret x))) st =
    sbind (smodify push) (\<lambda>_. sbind n (\<lambda>x. sbind (smodify (pop x)) (\<lambda>_. sret x))) st"
    using agreeD(1) [OF assms(1) st] by (simp add: sbind_def smodify_def)
  fix y st'
  assume "sbind (smodify push) (\<lambda>_. sbind n (\<lambda>x. sbind (smodify (pop x)) (\<lambda>_. sret x))) st = Inr (y, st')"
  then obtain x st1 where "n (push st) = Inr (x, st1)" "st' = pop x st1"
    by (auto simp: sbind_def smodify_def sret_def and_then_Inr_iff)
  with agreeD(2) [OF assms(1) st] assms(3) show "depth_of st' = l" by blast
qed

lemma run_simps:
  "sbind (sget g) f st = f (g st) st"
  "sbind (slift (Inr x)) f st = f x st"
  "sbind (slift (Inl d)) f st = Inl d"
  "slift (Inl d) st = Inl d"
  "sret x st = Inr (x, st)"
  by (simp_all add: sbind_def sget_def slift_def sret_def)

lemma compile_agree:
  assumes "0 < n" "0 < n'" and "max_function_call_depth (limits cfg) < n + l" "max_function_call_depth (limits cfg) < n' + l"
  shows "agree l (compile_function n cfg name) (compile_function n' cfg name)"
  using assms
proof (induction n arbitrary: n' l name)
  case (Suc n)
  then obtain n2 where n': "n' = Suc n2" by (cases n') auto
  let ?body = "\<lambda>n decl. in_function name (compile_body cfg (analyze_expr cfg (compile_function n cfg)) decl)"
  have body: "agree (Suc l) (?body n decl) (?body n2 decl)" if "\<not> max_function_call_depth (limits cfg) \<le> l" for decl
  proof -
    have "agree (Suc l) (compile_function n cfg name) (compile_function n2 cfg name)" for name
      using Suc.prems n' that by (intro Suc.IH) auto
    then show ?thesis
      unfolding compile_body_def analyze_expr_def by (intro agree_in_function agree_rules upto_agree) auto
  qed
  show ?case
  proof (rule agreeI)
    fix st :: sema_state
    assume st: "depth_of st = l"
    let ?scoped = "\<lambda>n decl. sbind (smodify (\<lambda>(sc, an). (sc, an\<lparr>function_stack := function_stack an @ [name]\<rparr>))) (\<lambda>_.
      sbind (?body n decl) (\<lambda>f.
        sbind (smodify (\<lambda>(sc, an). (sc, an\<lparr>function_stack := butlast (function_stack an),
                      compiled_functions := bt_insert name f (compiled_functions an)\<rparr>))) (\<lambda>_. sret f)))"
    have scoped: "agree l (?scoped n decl) (?scoped n2 decl)" if "\<not> max_function_call_depth (limits cfg) \<le> l" for decl
      using body [OF that] by (rule agree_nested) (auto simp: depth_of_def)
    show "compile_function (Suc n) cfg name st = compile_function n' cfg name st"
      using agreeD(1) [OF scoped st] st
      by (cases "bt_get (function_declarations (snd st)) name")
        (simp_all add: n' compile_step_def run_simps Let_def depth_of_def split: option.split)
    fix x st'
    assume "compile_function n' cfg name st = Inr (x, st')"
    then show "depth_of st' = l"
      using agreeD(2) [OF scoped st] st
      by (cases "bt_get (function_declarations (snd st)) name")
        (auto simp: n' compile_step_def run_simps Let_def depth_of_def split: option.splits if_splits)
  qed
qed simp

lemma analysis_agree:
  assumes "max_expression_depth (limits cfg) < n + depth" and "max_function_call_depth (limits cfg) < m + l" and "0 < m"
  shows "agree l (analyze_upto n cfg (compile_function m cfg) e depth) (analyze_expr cfg (compile cfg) e depth)"
  unfolding analyze_expr_def compile_def
  using assms by (intro upto_agree compile_agree) auto

section \<open>The recursion of the code\<close>

interpretation one_less: agreement l depth
  "analyze_upto (max_expression_depth (limits cfg) + 1) cfg (compile cfg)" "analyze_expr cfg (compile cfg)"
  "compile cfg" "compile cfg" for l depth cfg
  unfolding compile_def analyze_expr_def
  by unfold_locales ((rule upto_agree compile_agree | simp only: zero_less_Suc One_nat_def add_Suc_right | arith)+)

lemma agree_eq: "(\<And>l. agree l m n) \<Longrightarrow> m = n"
  using agreeD(1) by blast

lemma analyze_expr_unfold:
  "analyze_expr cfg (compile cfg) e depth = analyze_step cfg (compile cfg) (analyze_expr cfg (compile cfg)) e depth"
  using agree_eq [OF one_less.step] by (simp add: analyze_expr_def)

lemma compile_unfold: "compile cfg name = compile_step cfg (compile cfg) name"
proof -
  have "compile cfg name = compile_function (max_function_call_depth (limits cfg) + 2) cfg name"
    unfolding compile_def by (rule agree_eq, rule compile_agree) auto
  then show ?thesis by (simp add: compile_def)
qed

end
