(* ===== verification/Json_Boundary.thy ===== *)
theory Json_Boundary
  imports Yao_Json
begin

text \<open>
  The JSON boundary: a value that \<open>from_json\<close> accepts decodes at its type and \<open>to_json\<close> gives the
  JSON back. Which types may cross the boundary is the subject of \<open>Json_Types\<close>.
\<close>

section \<open>Equations by type\<close>

lemma transform_simps:
  "transform (TList u) v ds sp outward p =
     (case v of JArray vs \<Rightarrow>
        map_ok JArray (try_map (\<lambda>(i, x). transform u x ds sp outward (p @ [PathIndex i])) (enumerate 0 vs))
      | _ \<Rightarrow> Inl (ExpectedArray p v))"
  "transform (TMap u) v ds sp outward p =
     and_then (json_object v p) (\<lambda>m. map_ok (\<lambda>kvs. JObject (bt_from kvs)) (try_map (\<lambda>(k, x).
        map_ok (\<lambda>y. (k, y)) (transform u x ds sp outward (field_path p k))) m))"
  "transform (TNamed n) v ds sp outward p =
     and_then (ok_or (bt_get ds n) (MissingDefinition n)) (\<lambda>d.
       and_then (named_envelope n d v ds sp outward p) (\<lambda>(variant, fields_value).
         and_then (named_fields n d variant p) (\<lambda>fds.
           map_ok (\<lambda>fs. named_result n variant fs outward)
             (transform_fields (\<lambda>u v p. transform u v ds sp outward p) (map (\<lambda>f. (fd_name f, fd_ty f)) fds) fields_value
               (if variant \<noteq> None then field_path p (lit ''fields'') else p)))))"
  "transform (TStructuralRecord fs) v ds sp outward p =
     and_then (structural_input fs v ds sp outward p) (\<lambda>w.
       map_ok (\<lambda>fields_value. structural_result fields_value outward)
         (transform_fields (\<lambda>u v p. transform u v ds sp outward p) fs w p))"
  "transform (TOption u) v ds sp outward p =
     transform_tagged (\<lambda>u v p. transform u v ds sp outward p) ''option'' (TOption u) v ds sp outward p"
  "transform (TResult a b) v ds sp outward p =
     transform_tagged (\<lambda>u v p. transform u v ds sp outward p) ''result'' (TResult a b) v ds sp outward p"
  by (subst transform.simps, simp add: Let_def)+

lemma decode_compound:
  "decode_value (TList u) (JArray vs) ds sp = map_ok JArray (try_map (\<lambda>v. decode_value u v ds sp) vs)"
  "decode_value (TMap u) (JObject m) ds sp = map_ok (\<lambda>kvs. JObject (bt_from kvs))
     (try_map (\<lambda>(k, v). map_ok (\<lambda>w. (k, w)) (decode_value u v ds sp)) m)"
  "structural_fields v = Some encoded \<Longrightarrow> decode_value (TStructuralRecord fs) v ds sp = map_ok structural_record_value
     (try_map (\<lambda>(k, t). and_then (ok_or (bt_get encoded k) (failure (RecordMissingField k) sp))
        (\<lambda>x. map_ok (\<lambda>w. (k, w)) (decode_value t x ds sp))) fs)"
  by (subst decode_value.simps, simp)+

section \<open>Objects\<close>

text \<open>Every object inside the value is an ordered map, which \<open>serde_json::Map\<close> guarantees.\<close>

function wf_json :: "json \<Rightarrow> bool" where
  "wf_json (JArray vs) \<longleftrightarrow> (\<forall>v \<in> set vs. wf_json v)"
| "wf_json (JObject m) \<longleftrightarrow> bt_wf m \<and> (\<forall>kv \<in> set m. wf_json (snd kv))"
| "wf_json JNull \<longleftrightarrow> True"
| "wf_json (JBool b) \<longleftrightarrow> True"
| "wf_json (JNumber n) \<longleftrightarrow> True"
| "wf_json (JString s) \<longleftrightarrow> True"
  by pat_completeness auto
termination
  by (relation "measure size") (auto dest: size_json_list size_json_map)

lemma wf_json_get: "wf_json (JObject m) \<Longrightarrow> bt_get m k = Some v \<Longrightarrow> wf_json v"
  by (fastforce dest: bt_get_in_set)

lemma take_fields_Inr:
  assumes "take_fields rec miss m fs = Inr (rest, out)"
  shows "distinct (map fst fs) \<and> rest = filter (\<lambda>kv. fst kv \<notin> fst ` set fs) m \<and> map fst out = map fst fs \<and>
    (\<forall>(n, t) \<in> set fs. \<exists>v w. bt_get m n = Some v \<and> rec n t v = Inr w \<and> map_of out n = Some w)"
  using assms
proof (induction fs arbitrary: m rest out)
  case (Cons f fs)
  obtain n t where f: "f = (n, t)" by fastforce
  from Cons.prems obtain v w out' where v: "bt_get m n = Some v" "rec n t v = Inr w" "out = (n, w) # out'"
    and rest: "take_fields rec miss (bt_remove n m) fs = Inr (rest, out')"
    by (auto simp: f and_then_Inr_iff map_ok_Inr_iff)
  from Cons.IH [OF rest] have IH: "distinct (map fst fs)" "rest = filter (\<lambda>kv. fst kv \<notin> fst ` set fs) (bt_remove n m)"
    "map fst out' = map fst fs"
    "\<forall>(n', t) \<in> set fs. \<exists>v w. bt_get (bt_remove n m) n' = Some v \<and> rec n' t v = Inr w \<and> map_of out' n' = Some w"
    by auto
  have new: "n' \<noteq> n" if "(n', t') \<in> set fs" for n' t' using IH(4) that by fastforce
  have "rest = filter (\<lambda>kv. fst kv \<notin> fst ` set (f # fs)) m"
    by (auto simp: IH(2) bt_remove_def f intro!: filter_cong)
  with IH new v show ?case by (fastforce simp: f)
qed simp

lemma take_fields_run:
  assumes "distinct (map fst fs)"
    and "\<And>n t. (n, t) \<in> set fs \<Longrightarrow> \<exists>v. bt_get m n = Some v \<and> rec n t v = Inr (g n)"
  shows "take_fields rec miss m fs = Inr (filter (\<lambda>kv. fst kv \<notin> fst ` set fs) m, map (\<lambda>(n, t). (n, g n)) fs)"
  using assms
proof (induction fs arbitrary: m)
  case (Cons f fs)
  obtain n t where f: "f = (n, t)" by fastforce
  from Cons.prems(2) [of n t] obtain v where v: "bt_get m n = Some v" "rec n t v = Inr (g n)" by (auto simp: f)
  have "\<exists>v. bt_get (bt_remove n m) n' = Some v \<and> rec n' t' v = Inr (g n')" if "(n', t') \<in> set fs" for n' t'
    using Cons.prems(2) [of n' t'] Cons.prems(1) that by (force simp: f)
  from Cons.IH [OF _ this] Cons.prems(1)
  have "take_fields rec miss (bt_remove n m) fs =
    Inr (filter (\<lambda>kv. fst kv \<notin> fst ` set fs) (bt_remove n m), map (\<lambda>(n, t). (n, g n)) fs)" by simp
  moreover have "filter (\<lambda>kv. fst kv \<notin> fst ` set fs) (bt_remove n m) = filter (\<lambda>kv. fst kv \<notin> fst ` set (f # fs)) m"
    by (auto simp: bt_remove_def f intro!: filter_cong)
  ultimately show ?case by (simp add: f v)
qed (simp add: filter_True)

text \<open>Converting the fields back gives the object they came from.\<close>

lemma take_fields_back:
  assumes out: "take_fields rec miss m fs = Inr ([], out)" and "bt_wf m"
    and inverse: "\<And>n t v w. (n, t) \<in> set fs \<Longrightarrow> bt_get m n = Some v \<Longrightarrow> rec n t v = Inr w \<Longrightarrow> rec' n t w = Inr v"
  shows "\<exists>out'. take_fields rec' miss' (bt_from out) fs = Inr ([], out') \<and> bt_from out' = m"
proof -
  note facts = take_fields_Inr [OF out]
  have keys: "fst ` set m = fst ` set fs"
  proof
    have "\<forall>x \<in> set m. fst x \<in> fst ` set fs" using facts by (metis (no_types, lifting) filter_empty_conv)
    then show "fst ` set m \<subseteq> fst ` set fs" by blast
    show "fst ` set fs \<subseteq> fst ` set m" using facts by (force dest: bt_get_in_set)
  qed
  let ?g = "\<lambda>n. the (bt_get m n)"
  have names: "map fst out = map fst fs" "distinct (map fst out)" using facts by auto
  have "\<exists>w. bt_get (bt_from out) n = Some w \<and> rec' n t w = Inr (?g n)" if "(n, t) \<in> set fs" for n t
  proof -
    from facts that obtain v w where "bt_get m n = Some v" "rec n t v = Inr w" "map_of out n = Some w" by blast
    with inverse [OF that] names(2) show ?thesis by (auto simp: bt_get_from map_of_rev_distinct)
  qed
  from take_fields_run [OF _ this, of fs] facts
  have "take_fields rec' miss' (bt_from out) fs =
    Inr (filter (\<lambda>kv. fst kv \<notin> fst ` set fs) (bt_from out), map (\<lambda>(n, t). (n, ?g n)) fs)" by simp
  moreover have "filter (\<lambda>kv. fst kv \<notin> fst ` set fs) (bt_from out) = []"
    using bt_from_keys [of out] names(1) by (auto simp: filter_empty_conv) (metis image_set fst_conv imageI)
  moreover have "bt_from (map (\<lambda>(n, t). (n, ?g n)) fs) = m"
  proof (rule bt_wf_ext, simp, rule assms(2), rule ext)
    fix k
    have "map_of (map (\<lambda>(n, t). (n, ?g n)) fs) k = (if k \<in> fst ` set fs then Some (?g k) else None)"
      by (induction fs) auto
    moreover have "distinct (map fst (map (\<lambda>(n, t). (n, ?g n)) fs))"
      using facts by (simp add: comp_def split_beta)
    ultimately show "bt_get (bt_from (map (\<lambda>(n, t). (n, ?g n)) fs)) k = bt_get m k"
      using bt_get_None_iff [of m k] keys by (auto simp: bt_get_from map_of_rev_distinct)
  qed
  ultimately show ?thesis by auto
qed

section \<open>The result of \<open>from_json\<close> decodes\<close>

lemma empty_fields_Inr: "empty_fields m p = Inr u \<longleftrightarrow> m = []"
  by (auto simp: empty_fields_def split: list.splits)

lemma transform_fields_Inr:
  "transform_fields rec fs value path = Inr w \<longleftrightarrow>
     (\<exists>m out. value = JObject m \<and> w = JObject (bt_from out) \<and>
        take_fields (\<lambda>name t v. rec t v (field_path path name)) (\<lambda>name. MissingField (field_path path name)) m fs = Inr ([], out))"
  by (auto simp: transform_fields_def and_then_Inr_iff empty_fields_Inr)

fun scalar_type :: "ty \<Rightarrow> bool" where
  "scalar_type (TList t) = False"
| "scalar_type (TMap t) = False"
| "scalar_type (TStructuralRecord fs) = False"
| "scalar_type (TNamed n) = False"
| "scalar_type (TOption t) = False"
| "scalar_type (TResult t u) = False"
| "scalar_type t = True"

lemma decode_scalar:
  assumes "decode_value t v ds sp = Inr w" and "scalar_type t"
  shows "w = v \<and> decode_value t v ds sp' = Inr v"
  using assms
  by (cases t) (auto simp: decode_simps decode_value.simps [of "TRef k" for k] decode_value.simps [of "TProgram a b" for a b]
      split: option.splits if_splits)

lemma transform_scalar: "scalar_type t \<Longrightarrow> transform t v ds sp outward p = Inr w \<longleftrightarrow> decode_value t v ds sp = Inr w"
  by (subst transform.simps) (cases t; auto simp: decode_simps)

text \<open>The four shapes \<open>from_json\<close> builds.\<close>

lemma decode_built_named:
  assumes "bt_get ds n = Some d"
    and "case d of Record _ fds' _ \<Rightarrow> fds = fds' \<and> variant = None
      | Union _ vs _ \<Rightarrow> (\<exists>x i. find (\<lambda>i. vd_name i = x) vs = Some i \<and> variant = Some x \<and> fds = vd_fields i)"
    and "distinct (map fd_name fds)" and "fst ` set m = fd_name ` set fds" and "bt_wf m"
    and "\<And>d v. d \<in> set fds \<Longrightarrow> bt_get m (fd_name d) = Some v \<Longrightarrow> is_ok (decode_value (fd_ty d) v ds sp)"
  shows "decode_value (TNamed n) (named_result n variant (JObject m) False) ds sp = Inr (named_result n variant (JObject m) False)"
proof -
  have len: "length m = length fds"
    using assms(3,4) bt_length [OF assms(5)] by (metis distinct_card length_map list.set_map)
  have "is_ok (and_then (ok_or (bt_get m (fd_name d)) (failure (NamedMissingField (fd_name d)) sp))
           (\<lambda>v. decode_value (fd_ty d) v ds sp))" if d: "d \<in> set fds" for d
  proof -
    obtain v where "bt_get m (fd_name d) = Some v"
      using assms(4) d bt_get_None_iff [of m "fd_name d"] by fastforce
    with assms(6) [OF d this] show ?thesis by simp
  qed
  then have "is_ok (try_map (\<lambda>d. and_then (ok_or (bt_get m (fd_name d)) (failure (NamedMissingField (fd_name d)) sp))
           (\<lambda>v. decode_value (fd_ty d) v ds sp)) fds)"
    unfolding try_map_ok by blast
  then have "validate_named_fields (\<lambda>t v. decode_value t v ds sp) fds tag sp = Inr ()"
    if "bt_get tag (lit ''fields'') = Some (JObject m)" for tag
    using that len by (auto simp: validate_named_fields_def is_ok_iff)
  with assms(1,2) show ?thesis
    by (auto simp: decode_simps decode_named_def named_result_def split: type_definition.splits)
qed

lemma bt_from_in: "(k, v) \<in> set (bt_from kvs) \<Longrightarrow> (k, v) \<in> set kvs"
  using bt_from_subset by blast

lemma named_fields_shape:
  assumes "named_envelope n d value ds sp False p = Inr (variant, fv)" and "named_fields n d variant p = Inr fds"
  shows "case d of Record _ fds' _ \<Rightarrow> fds = fds' \<and> variant = None
      | Union _ vs _ \<Rightarrow> (\<exists>x i. find (\<lambda>i. vd_name i = x) vs = Some i \<and> variant = Some x \<and> fds = vd_fields i)"
  using assms by (auto simp: named_envelope_def named_fields_def and_then_Inr_iff map_ok_Inr_iff split: type_definition.splits)

lemma from_decodes_named:
  assumes "bt_get ds n = Some d" "named_envelope n d value ds sp False p = Inr (variant, JObject m)"
    "named_fields n d variant p = Inr fds"
    "take_fields rec miss m (map (\<lambda>f. (fd_name f, fd_ty f)) fds) = Inr ([], out)"
    and "\<And>name t v w. bt_get m name = Some v \<Longrightarrow> rec name t v = Inr w \<Longrightarrow> is_ok (decode_value t w ds sp')"
  shows "decode_value (TNamed n) (named_result n variant (JObject (bt_from out)) False) ds sp'
    = Inr (named_result n variant (JObject (bt_from out)) False)"
proof (rule decode_built_named [OF assms(1) named_fields_shape [OF assms(2,3)]])
  note facts = take_fields_Inr [OF assms(4)]
  have names: "map fst out = map fd_name fds" "distinct (map fst out)" using facts by (auto simp: comp_def)
  show "distinct (map fd_name fds)" using names by simp
  show "fst ` set (bt_from out) = fd_name ` set fds" using names(1) by (metis bt_from_keys list.set_map)
  fix f v
  assume f: "f \<in> set fds" "bt_get (bt_from out) (fd_name f) = Some v"
  from facts f(1) obtain u w where "bt_get m (fd_name f) = Some u" "rec (fd_name f) (fd_ty f) u = Inr w"
    "map_of out (fd_name f) = Some w" by force
  with f(2) names(2) assms(5) show "is_ok (decode_value (fd_ty f) v ds sp')"
    by (auto simp: bt_get_from map_of_rev_distinct)
qed simp

lemma case_option_Inr:
  "(case x of None \<Rightarrow> a | Some u \<Rightarrow> f u) = Inr w \<longleftrightarrow> x = None \<and> a = Inr w \<or> (\<exists>u. x = Some u \<and> f u = Inr w)"
  by (cases x) auto

lemma transform_tagged_Inr:
  "transform_tagged rec kind t v ds sp outward p = Inr w \<longleftrightarrow>
     (\<exists>c envelope. tagged_envelope t v ds sp outward p = Inr (c, envelope) \<and>
        (payload_type t c p = Inr None \<and> envelope = [] \<and> w = tagged_result kind c None outward \<or>
         (\<exists>u x y. payload_type t c p = Inr (Some u) \<and> bt_get envelope (lit ''value'') = Some x \<and>
            rec u x (field_path p (lit ''value'')) = Inr y \<and> bt_remove (lit ''value'') envelope = [] \<and>
            w = tagged_result kind c (Some y) outward)))"
  unfolding transform_tagged_def
  by (auto simp: and_then_Inr_iff case_option_Inr take_field_Inr empty_fields_Inr)

lemma from_decodes_tagged:
  assumes "transform_tagged rec kind t v ds sp False p = Inr w"
    and "\<And>u x q y. size x < size v \<Longrightarrow> rec u x q = Inr y \<Longrightarrow> is_ok (decode_value u y ds sp')"
    and "(\<exists>i. t = TOption i \<and> kind = ''option'') \<or> (\<exists>a b. t = TResult a b \<and> kind = ''result'')"
  shows "is_ok (decode_value t w ds sp')"
proof -
  from assms(1) obtain c envelope where env: "tagged_envelope t v ds sp False p = Inr (c, envelope)"
    and rest: "payload_type t c p = Inr None \<and> w = tagged_result kind c None False \<or>
      (\<exists>u x y. payload_type t c p = Inr (Some u) \<and> bt_get envelope (lit ''value'') = Some x \<and>
        rec u x (field_path p (lit ''value'')) = Inr y \<and> w = tagged_result kind c (Some y) False)"
    unfolding transform_tagged_Inr by blast
  have "is_ok (decode_value u y ds sp')" if "bt_get envelope k = Some x" "rec u x q = Inr y" for k u x q y
    using tagged_envelope_size [OF env that(1)] that(2) by (rule assms(2))
  with assms(3) rest show ?thesis
    by (auto simp: payload_type_def tagged_result_def decode_simps decode_tagged_unary_def decode_result_def Let_def
        split: if_splits option.splits)
qed

lemma from_decodes:
  "transform t v ds sp False p = Inr w \<Longrightarrow> is_ok (decode_value t w ds sp')"
proof (induction v arbitrary: t p w rule: measure_induct_rule [where f = size])
  case (less v)
  show ?case
  proof (cases t)
    case (TList u)
    with less.prems obtain vs ws where v: "v = JArray vs" "w = JArray ws"
      and ws: "list_all2 (\<lambda>ix y. transform u (snd ix) ds sp False (p @ [PathIndex (fst ix)]) = Inr y) (enumerate 0 vs) ws"
      by (auto simp: transform_simps map_ok_Inr_iff try_map_Inr_iff split_beta split: json.splits)
    have "is_ok (decode_value u y ds sp')" if "y \<in> set ws" for y
    proof -
      from ws that obtain i where "i < length vs" "transform u (vs ! i) ds sp False (p @ [PathIndex i]) = Inr y"
        by (auto simp: list_all2_conv_all_nth in_set_conv_nth nth_enumerate_eq)
      then show ?thesis using less.IH v(1) size_json_list nth_mem by blast
    qed
    then show ?thesis by (simp add: TList v decode_compound try_map_ok)
  next
    case (TMap u)
    with less.prems obtain m kvs where v: "v = JObject m" "w = JObject (bt_from kvs)"
      and kvs: "list_all2 (\<lambda>x y. \<exists>z. transform u (snd x) ds sp False (field_path p (fst x)) = Inr z \<and> y = (fst x, z)) m kvs"
      by (auto simp: transform_simps map_ok_Inr_iff and_then_Inr_iff try_map_Inr_iff split_beta)
    have "is_ok (decode_value u y ds sp')" if "(k, y) \<in> set kvs" for k y
    proof -
      from kvs that obtain x where "(k, x) \<in> set m" "transform u x ds sp False (field_path p k) = Inr y"
        by (force simp: list_all2_conv_all_nth in_set_conv_nth)
      then show ?thesis using less.IH v(1) size_json_map by blast
    qed
    then show ?thesis by (auto simp: TMap v decode_compound try_map_ok dest!: bt_from_in)
  next
    case (TStructuralRecord fs)
    with less.prems obtain m out where v: "v = JObject m" "w = structural_record_value (bt_from out)"
      and out: "take_fields (\<lambda>name t v. transform t v ds sp False (field_path p name))
        (\<lambda>name. MissingField (field_path p name)) m fs = Inr ([], out)"
      by (auto simp: transform_simps map_ok_Inr_iff and_then_Inr_iff transform_fields_Inr structural_input_def structural_result_def)
    note facts = take_fields_Inr [OF out]
    have "\<exists>y. bt_get (bt_from out) n = Some y \<and> is_ok (decode_value u y ds sp')" if "(n, u) \<in> set fs" for n u
    proof -
      from facts that obtain x y where x: "bt_get m n = Some x" "transform u x ds sp False (field_path p n) = Inr y"
        "map_of out n = Some y" by blast
      moreover have "distinct (map fst out)" using facts by auto
      ultimately show ?thesis using less.IH [OF size_bt_get [OF x(1), folded v(1)] x(2)]
        by (auto simp: bt_get_from map_of_rev_distinct)
    qed
    then show ?thesis
      by (force simp: TStructuralRecord v decode_compound(3) [OF structural_fields_value] bt_from_id try_map_ok)
  next
    case (TNamed n)
    with less.prems obtain d variant m fds out q where nm: "bt_get ds n = Some d"
      "named_envelope n d v ds sp False p = Inr (variant, JObject m)" "named_fields n d variant p = Inr fds"
      "w = named_result n variant (JObject (bt_from out)) False"
      "take_fields (\<lambda>name t v. transform t v ds sp False (field_path q name)) (\<lambda>name. MissingField (field_path q name)) m
        (map (\<lambda>f. (fd_name f, fd_ty f)) fds) = Inr ([], out)"
      by (auto simp: transform_simps map_ok_Inr_iff and_then_Inr_iff transform_fields_Inr Let_def)
    have "is_ok (decode_value u y ds sp')" if "bt_get m name = Some x" "transform u x ds sp False (field_path q name) = Inr y" for name u x y
      using less.IH [OF named_envelope_size [OF nm(2) bt_get_in_set [OF that(1)]] that(2)] .
    from from_decodes_named [OF nm(1-3,5) this] show ?thesis by (simp add: TNamed nm(4))
  next
    case (TOption u)
    with less show ?thesis
      by (auto simp: transform_simps elim!: from_decodes_tagged)
  next
    case (TResult a b)
    with less show ?thesis
      by (auto simp: transform_simps elim!: from_decodes_tagged)
  qed (use less.prems in \<open>auto simp: transform_scalar is_ok_iff dest: decode_scalar\<close>)
qed

section \<open>Out and in again\<close>

lemma bt_remove_empty: "bt_remove k m = [] \<longleftrightarrow> (\<forall>k' v. bt_get m k' = Some v \<longrightarrow> k' = k)"
proof -
  have "bt_remove k m = [] \<longleftrightarrow> (\<forall>k' \<in> fst ` set m. k' = k)" by (auto simp: bt_remove_def filter_empty_conv)
  also have "\<dots> \<longleftrightarrow> (\<forall>k'. bt_get m k' \<noteq> None \<longrightarrow> k' = k)" by (simp add: bt_get_None_iff) blast
  finally show ?thesis by auto
qed

lemma jindex_tagged [simp]: "jindex (tagged es) yao_tag = JObject (tag_map es)"
  by (simp add: jindex_def tagged_def bt_get_Cons jobj_tag_map)

lemma tag_map_wf [simp]: "bt_wf (tag_map es)"
  by (simp add: tag_map_def)

text \<open>The envelope \<open>to_json\<close> reads from a value \<open>from_json\<close> built.\<close>

lemma tagged_envelope_built:
  assumes "is_ok (decode_value t (tagged_result kind c payload False) ds sp)"
  shows "tagged_envelope t (tagged_result kind c payload False) ds sp True p =
    Inr (c, case payload of None \<Rightarrow> [] | Some y \<Rightarrow> [(lit ''value'', y)])"
proof -
  let ?es = "(''variant'', JString c) # (case payload of Some v \<Rightarrow> [(''value'', v)] | None \<Rightarrow> []) @ [(''kind'', jstr kind)]"
  let ?out = "case payload of None \<Rightarrow> [] | Some y \<Rightarrow> [(lit ''value'', y)]"
  have "bt_remove (lit ''case'') (bt_insert (lit ''case'') (JString c)
      (bt_remove (lit ''variant'') (bt_remove (lit ''kind'') (tag_map ?es)))) = ?out"
  proof (rule bt_wf_ext, simp)
    show "bt_wf ?out" by (auto simp: bt_wf_Cons split: option.split)
    show "bt_get (bt_remove (lit ''case'') (bt_insert (lit ''case'') (JString c)
      (bt_remove (lit ''variant'') (bt_remove (lit ''kind'') (tag_map ?es))))) = bt_get ?out"
      by (rule ext) (auto simp: tag_map_def bt_get_from bt_get_Cons split: option.split)
  qed
  moreover obtain x where "decode_value t (tagged ?es) ds sp = Inr x"
    using assms by (auto simp: is_ok_iff tagged_result_def Let_def)
  moreover have "map_of (rev ?es) ''variant'' = Some (JString c)" by (auto split: option.split)
  ultimately show ?thesis
    by (simp add: tagged_envelope_def tagged_result_def Let_def take_field_def json_object_def del: rev.simps)
qed

lemma jobj_eq: "bt_wf m \<Longrightarrow> (\<And>k. bt_get m k = map_of (rev (map (\<lambda>(k, v). (lit k, v)) es)) k) \<Longrightarrow> jobj es = JObject m"
  unfolding jobj_def by (auto intro!: bt_wf_ext simp: bt_get_from)

lemma named_envelope_back:
  assumes "named_envelope n d v ds sp False p = Inr (variant, JObject m)" and "wf_json v"
    and "is_ok (decode_value (TNamed n) (named_result n variant fv False) ds sp')"
  shows "named_envelope n d (named_result n variant fv False) ds sp' True p' = Inr (variant, fv)"
    and "named_result n variant (JObject m) True = v"
proof -
  show "named_envelope n d (named_result n variant fv False) ds sp' True p' = Inr (variant, fv)"
    using assms(3) by (auto simp: named_envelope_def is_ok_iff named_result_def jindex_def [of "JObject (tag_map es)" for es]
        split: option.splits)
  show "named_result n variant (JObject m) True = v"
  proof (cases d)
    case (Union a b c)
    with assms(1) obtain mv x where mv: "v = JObject mv" "variant = Some x" "bt_get mv (lit ''case'') = Some (JString x)"
      "bt_get mv (lit ''fields'') = Some (JObject m)" "bt_remove (lit ''fields'') (bt_remove (lit ''case'') mv) = []"
      by (auto simp: named_envelope_def and_then_Inr_iff take_field_Inr empty_fields_Inr)
    have "jobj [(''case'', JString x), (''fields'', JObject m)] = JObject mv"
    proof (rule jobj_eq)
      fix k
      show "bt_get mv k = map_of (rev (map (\<lambda>(k, v). (lit k, v)) [(''case'', JString x), (''fields'', JObject m)])) k"
        using mv(3-5) by (cases "bt_get mv k") (auto simp: bt_remove_empty split: if_splits)
    qed (use mv assms(2) in auto)
    with mv show ?thesis by (simp add: named_result_def)
  qed (use assms(1) in \<open>auto simp: named_envelope_def named_result_def\<close>)
qed

lemma tagged_back:
  assumes "transform_tagged rec kind t v ds sp False p = Inr w" and "wf_json v"
    and "is_ok (decode_value t w ds sp')"
    and "\<And>u x q y q'. size x < size v \<Longrightarrow> wf_json x \<Longrightarrow> rec u x q = Inr y \<Longrightarrow> rec' u y q' = Inr x"
    and "\<And>c q i. payload_type t c p = Inr i \<Longrightarrow> payload_type t c q = Inr i"
  shows "transform_tagged rec' kind t w ds sp' True p' = Inr v"
proof -
  from assms(1) obtain c envelope where env: "tagged_envelope t v ds sp False p = Inr (c, envelope)"
    and rest: "payload_type t c p = Inr None \<and> envelope = [] \<and> w = tagged_result kind c None False \<or>
      (\<exists>u x y. payload_type t c p = Inr (Some u) \<and> bt_get envelope (lit ''value'') = Some x \<and>
        rec u x (field_path p (lit ''value'')) = Inr y \<and> bt_remove (lit ''value'') envelope = [] \<and>
        w = tagged_result kind c (Some y) False)"
    unfolding transform_tagged_Inr by blast
  from env obtain mv where mv: "v = JObject mv" "bt_get mv (lit ''case'') = Some (JString c)" "envelope = bt_remove (lit ''case'') mv"
    by (auto simp: tagged_envelope_def and_then_Inr_iff map_ok_Inr_iff take_field_Inr)
  have wf: "bt_wf mv" using assms(2) mv(1) by simp
  from rest show ?thesis
  proof (elim disjE exE conjE)
    assume none: "payload_type t c p = Inr None" "envelope = []" "w = tagged_result kind c None False"
    have "jobj [(''case'', JString c)] = JObject mv"
    proof (rule jobj_eq [OF wf])
      fix k show "bt_get mv k = map_of (rev (map (\<lambda>(k, v). (lit k, v)) [(''case'', JString c)])) k"
        using none(2) mv(2,3) by (cases "bt_get mv k") (auto simp: bt_remove_empty split: if_splits)
    qed
    then show ?thesis
      using none(1) assms(5) [OF none(1), of p'] mv(1) tagged_envelope_built [OF assms(3) [unfolded none(3)], of p']
      by (simp add: transform_tagged_def none(3) empty_fields_def tagged_result_def)
  next
    fix u x y
    assume some: "payload_type t c p = Inr (Some u)" "bt_get envelope (lit ''value'') = Some x"
      "rec u x (field_path p (lit ''value'')) = Inr y" "bt_remove (lit ''value'') envelope = []"
      "w = tagged_result kind c (Some y) False"
    have x: "bt_get mv (lit ''value'') = Some x" using some(2) mv(3) by simp
    have "jobj [(''case'', JString c), (''value'', x)] = JObject mv"
    proof (rule jobj_eq [OF wf])
      fix k show "bt_get mv k = map_of (rev (map (\<lambda>(k, v). (lit k, v)) [(''case'', JString c), (''value'', x)])) k"
        using some(4) x mv(2,3) by (cases "bt_get mv k") (auto simp: bt_remove_empty split: if_splits)
    qed
    moreover have "rec' u y q' = Inr x" for q'
      using x wf_json_get assms(2) mv(1) size_bt_get [OF x] by (intro assms(4) [OF _ _ some(3)]) auto
    ultimately show ?thesis
      using some(1) assms(5) [OF some(1), of p'] mv(1) tagged_envelope_built [OF assms(3) [unfolded some(5)], of p']
      by (simp add: transform_tagged_def some(5) empty_fields_def take_field_def tagged_result_def bt_get_Cons bt_remove_def)
  qed
qed

lemma transform_fields_back:
  assumes "transform_fields rec fs (JObject m) p = Inr (JObject m')" and "bt_wf m"
    and "\<And>t v q w q'. (\<exists>k. bt_get m k = Some v) \<Longrightarrow> rec t v q = Inr w \<Longrightarrow> rec' t w q' = Inr v"
  shows "transform_fields rec' fs (JObject m') p' = Inr (JObject m)"
proof -
  from assms(1) obtain out where out: "take_fields (\<lambda>name t v. rec t v (field_path p name))
      (\<lambda>name. MissingField (field_path p name)) m fs = Inr ([], out)" "m' = bt_from out"
    by (auto simp: transform_fields_Inr)
  from take_fields_back [OF out(1) assms(2), of "\<lambda>name t v. rec' t v (field_path p' name)"] assms(3) show ?thesis
    by (fastforce simp: transform_fields_Inr out(2))
qed

lemma map_of_names: "map_of (map (\<lambda>(n, _). (n, g n)) fs) k = (if k \<in> fst ` set fs then Some (g k) else None)"
  by (induction fs) auto

lemma structural_input_built:
  assumes "is_ok (decode_value (TStructuralRecord fs) (structural_record_value m) ds sp)" and "bt_wf m" and "fst ` set m = fst ` set fs"
  shows "structural_input fs (structural_record_value m) ds sp True p = Inr (JObject m)"
proof -
  let ?g = "\<lambda>n. case structural_record_field (structural_record_value m) n of Some w \<Rightarrow> w | None \<Rightarrow> JNull"
  have "bt_from (map (\<lambda>(n, _). (n, ?g n)) fs) = m"
  proof (rule bt_wf_ext [OF _ assms(2)], simp, rule ext)
    fix k
    have "map_of (rev (map (\<lambda>(n, _). (n, ?g n)) fs)) k = (if k \<in> fst ` set fs then Some (?g k) else None)"
      using map_of_names [of ?g "rev fs" k] by (simp add: rev_map)
    moreover have "structural_record_field (structural_record_value m) k = bt_get m k"
      by (simp add: structural_record_field_value bt_get_def)
    ultimately show "bt_get (bt_from (map (\<lambda>(n, _). (n, ?g n)) fs)) k = bt_get m k"
      unfolding bt_get_from using bt_get_None_iff [of m k] assms(3)
      by (cases "k \<in> fst ` set fs"; cases "bt_get m k") simp_all
  qed
  then show ?thesis using assms(1) by (auto simp: structural_input_def is_ok_iff)
qed

lemma from_back:
  "transform t v ds sp False p = Inr w \<Longrightarrow> wf_json v \<Longrightarrow> transform t w ds sp' True p' = Inr v"
proof (induction v arbitrary: t p w p' rule: measure_induct_rule [where f = size])
  case (less v)
  have ok: "is_ok (decode_value t w ds sp')" by (rule from_decodes [OF less.prems(1)])
  show ?case
  proof (cases t)
    case (TList u)
    with less.prems obtain vs ws where v: "v = JArray vs" "w = JArray ws"
      and ws: "list_all2 (\<lambda>ix y. transform u (snd ix) ds sp False (p @ [PathIndex (fst ix)]) = Inr y) (enumerate 0 vs) ws"
      by (auto simp: transform_simps map_ok_Inr_iff try_map_Inr_iff split_beta split: json.splits)
    have "transform u (ws ! i) ds sp' True q = Inr (vs ! i)" if "i < length vs" for i q
      using ws that less.prems(2) v(1)
      by (intro less.IH [of "vs ! i" u "p @ [PathIndex i]"])
        (auto simp: list_all2_conv_all_nth nth_enumerate_eq size_json_list [of "vs ! i" vs, simplified])
    then show ?thesis using ws
      by (auto simp: TList v transform_simps map_ok_Inr_iff try_map_Inr_iff list_all2_conv_all_nth nth_enumerate_eq)
  next
    case (TMap u)
    with less.prems obtain m kvs where v: "v = JObject m" "w = JObject (bt_from kvs)"
      and kvs: "list_all2 (\<lambda>x y. \<exists>z. transform u (snd x) ds sp False (field_path p (fst x)) = Inr z \<and> y = (fst x, z)) m kvs"
      by (auto simp: transform_simps map_ok_Inr_iff and_then_Inr_iff try_map_Inr_iff split_beta)
    have "map fst kvs = map fst m" using kvs by (auto simp: list_all2_conv_all_nth intro!: nth_equalityI)
    then have id: "bt_from kvs = kvs" "bt_from m = m" using less.prems(2) v(1) by (auto simp: bt_wf_def intro!: bt_from_id)
    have "list_all2 (\<lambda>y x. \<exists>z. transform u (snd y) ds sp' True (field_path p' (fst y)) = Inr z \<and> x = (fst y, z)) kvs m"
      unfolding list_all2_conv_all_nth
    proof (intro conjI allI impI)
      fix i assume i: "i < length kvs"
      with kvs obtain z where z: "transform u (snd (m ! i)) ds sp False (field_path p (fst (m ! i))) = Inr z"
        "kvs ! i = (fst (m ! i), z)" by (auto simp: list_all2_conv_all_nth)
      have mem: "m ! i \<in> set m" using i kvs by (auto dest: list_all2_lengthD)
      with less.prems(2) v(1) z have "transform u z ds sp' True (field_path p' (fst (m ! i))) = Inr (snd (m ! i))"
        by (intro less.IH [OF _ z(1)]) (auto dest: size_json_map [of "fst (m ! i)" "snd (m ! i)" m, simplified])
      with z(2) show "\<exists>z. transform u (snd (kvs ! i)) ds sp' True (field_path p' (fst (kvs ! i))) = Inr z \<and> m ! i = (fst (kvs ! i), z)"
        by simp
    qed (use kvs in \<open>auto dest: list_all2_lengthD\<close>)
    then show ?thesis
      by (auto simp: TMap v id transform_simps map_ok_Inr_iff and_then_Inr_iff try_map_Inr_iff split_beta)
  next
    case (TStructuralRecord fs)
    with less.prems obtain m out where v: "v = JObject m" "w = structural_record_value (bt_from out)"
      and out: "transform_fields (\<lambda>u v p. transform u v ds sp False p) fs (JObject m) p = Inr (JObject (bt_from out))"
      by (auto simp: transform_simps map_ok_Inr_iff and_then_Inr_iff transform_fields_Inr structural_input_def structural_result_def)
    from out obtain out' where out': "bt_from out = bt_from out'" "map fst out' = map fst fs"
      by (auto simp: transform_fields_Inr dest!: take_fields_Inr)
    have keys: "fst ` set (bt_from out) = fst ` set fs" by (metis bt_from_keys out' list.set_map)
    have input: "structural_input fs w ds sp' True p' = Inr (JObject (bt_from out))"
      using ok keys by (simp add: v TStructuralRecord structural_input_built)
    have "transform_fields (\<lambda>u v p. transform u v ds sp' True p) fs (JObject (bt_from out)) p' = Inr (JObject m)"
    proof (rule transform_fields_back [OF out])
      show "bt_wf m" using less.prems(2) v(1) by simp
      fix t x q y q'
      assume "\<exists>k. bt_get m k = Some x" and y: "transform t x ds sp False q = Inr y"
      then obtain k where k: "bt_get m k = Some x" by blast
      show "transform t y ds sp' True q' = Inr x"
        by (rule less.IH [OF size_bt_get [OF k, folded v(1)] y wf_json_get [OF less.prems(2) [unfolded v(1)] k]])
    qed
    with input show ?thesis by (simp add: TStructuralRecord transform_simps structural_result_def v(1))
  next
    case (TNamed n)
    with less.prems obtain d variant m fds out q where nm: "bt_get ds n = Some d"
      "named_envelope n d v ds sp False p = Inr (variant, JObject m)" "named_fields n d variant p = Inr fds"
      "w = named_result n variant (JObject (bt_from out)) False"
      "take_fields (\<lambda>name t v. transform t v ds sp False (field_path q name)) (\<lambda>name. MissingField (field_path q name)) m
        (map (\<lambda>f. (fd_name f, fd_ty f)) fds) = Inr ([], out)"
      by (auto simp: transform_simps map_ok_Inr_iff and_then_Inr_iff transform_fields_Inr)
    then have fields: "transform_fields (\<lambda>u v p. transform u v ds sp False p) (map (\<lambda>f. (fd_name f, fd_ty f)) fds) (JObject m) q
        = Inr (JObject (bt_from out))" by (auto simp: transform_fields_Inr)
    note envelope = named_envelope_back [OF nm(2) less.prems(2) ok [unfolded TNamed nm(4)]]
    have m: "wf_json (JObject m)" using nm(2) less.prems(2)
      by (auto simp: named_envelope_def and_then_Inr_iff take_field_Inr split: type_definition.splits
          simp del: wf_json.simps dest: wf_json_get)
    have "transform_fields (\<lambda>u v p. transform u v ds sp' True p) (map (\<lambda>f. (fd_name f, fd_ty f)) fds) (JObject (bt_from out)) q'
        = Inr (JObject m)" for q'
    proof (rule transform_fields_back [OF fields])
      show "bt_wf m" using m by simp
      fix t x q y q'
      assume "\<exists>k. bt_get m k = Some x" and y: "transform t x ds sp False q = Inr y"
      then obtain k where k: "bt_get m k = Some x" by blast
      show "transform t y ds sp' True q' = Inr x"
        by (rule less.IH [OF named_envelope_size [OF nm(2) bt_get_in_set [OF k]] y wf_json_get [OF m k]])
    qed
    moreover have "named_fields n d variant p' = Inr fds"
      using nm(3) by (auto simp: named_fields_def map_ok_Inr_iff split: type_definition.splits)
    ultimately show ?thesis using envelope by (simp add: TNamed transform_simps nm(1,4))
  next
    case (TOption u)
    with less ok show ?thesis
      by (auto simp: transform_simps payload_type_def elim!: tagged_back split: if_splits)
  next
    case (TResult a b)
    with less ok show ?thesis
      by (auto simp: transform_simps payload_type_def elim!: tagged_back split: if_splits)
  qed (use less.prems in \<open>auto simp: transform_scalar is_ok_iff dest: decode_scalar\<close>)
qed

end
