(* ===== verification/Json_Types.thy ===== *)
theory Json_Types
  imports Json_Boundary
begin

text \<open>
  The types that may cross the JSON boundary, as an inductive predicate, and the proof that the
  depth-first search \<open>validate_json_type\<close> accepts exactly them: its bound on nested names is never
  exhausted, and the cycles it reports are cycles.
\<close>

inductive json_type :: "type_definitions \<Rightarrow> ty \<Rightarrow> bool" for defs where
  json_base: "t \<in> {TNil, TBool, TInt, TFloat, TString, TBytes, TJson} \<Longrightarrow> json_type defs t"
| json_list: "json_type defs t \<Longrightarrow> json_type defs (TList t)"
| json_map: "json_type defs t \<Longrightarrow> json_type defs (TMap t)"
| json_option: "json_type defs t \<Longrightarrow> json_type defs (TOption t)"
| json_result: "json_type defs t \<Longrightarrow> json_type defs u \<Longrightarrow> json_type defs (TResult t u)"
| json_record: "(\<And>n t. (n, t) \<in> set fs \<Longrightarrow> json_type defs t) \<Longrightarrow> json_type defs (TStructuralRecord fs)"
| json_named: "bt_get defs n = Some d \<Longrightarrow> (\<And>f. f \<in> set (definition_fields d) \<Longrightarrow> json_type defs (fd_ty f))
    \<Longrightarrow> json_type defs (TNamed n)"

inductive_cases json_type_elims:
  "json_type defs (TList t)" "json_type defs (TMap t)" "json_type defs (TOption t)" "json_type defs (TResult t u)"
  "json_type defs (TStructuralRecord fs)" "json_type defs (TNamed n)"

text \<open>The immediate parts of a type, through the definitions of its names.\<close>

inductive part :: "type_definitions \<Rightarrow> ty \<Rightarrow> ty \<Rightarrow> bool" for defs where
  "part defs t (TList t)"
| "part defs t (TMap t)"
| "part defs t (TOption t)"
| "part defs t (TResult t u)"
| "part defs u (TResult t u)"
| "(n, t) \<in> set fs \<Longrightarrow> part defs t (TStructuralRecord fs)"
| "bt_get defs n = Some d \<Longrightarrow> f \<in> set (definition_fields d) \<Longrightarrow> part defs (fd_ty f) (TNamed n)"

inductive_cases part_elims: "part defs u t"

lemma json_type_accp: "json_type defs t \<Longrightarrow> Wellfounded.accp (part defs) t"
  by (induction rule: json_type.induct) (rule accpI, auto elim!: part_elims)+

lemma accp_irrefl: "Wellfounded.accp r x \<Longrightarrow> \<not> r\<^sup>+\<^sup>+ x x"
proof (induction rule: accp.induct)
  case (accI x)
  show ?case
  proof
    assume "r\<^sup>+\<^sup>+ x x"
    then obtain y where "r y x" "r\<^sup>+\<^sup>+ y y"
      by (cases rule: tranclp.cases) (auto intro: tranclp_into_tranclp2)
    with accI.IH show False by blast
  qed
qed

section \<open>Soundness\<close>

lemma visit_simps:
  "visit fuel (TList t) defs st = visit fuel t defs st"
  "visit fuel (TMap t) defs st = visit fuel t defs st"
  "visit fuel (TOption t) defs st = visit fuel t defs st"
  "visit fuel (TResult t u) defs st = and_then (visit fuel t defs st) (\<lambda>st. visit fuel u defs st)"
  "visit fuel (TStructuralRecord fs) defs st = try_fold (\<lambda>st (n, u). visit fuel u defs st) st fs"
  "visit fuel (TNamed n) defs (stack, finished) =
     (if n \<in> set finished then Inr (stack, finished)
      else if n \<in> set stack then Inl (RecursiveJsonType n)
      else and_then (ok_or (bt_get defs n) (UnknownJsonType n)) (\<lambda>d.
        case fuel of
          0 \<Rightarrow> Inl VisitFuel
        | Suc fuel' \<Rightarrow>
            and_then (try_fold (\<lambda>st f. visit fuel' (fd_ty f) defs st) (bs_insert n stack, finished) (definition_fields d))
              (\<lambda>(stack', finished'). Inr (bs_remove n stack', bs_insert n finished'))))"
proof -
  obtain stack finished where st: "st = (stack, finished)" by fastforce
  show "visit fuel (TList t) defs st = visit fuel t defs st" "visit fuel (TMap t) defs st = visit fuel t defs st"
    "visit fuel (TOption t) defs st = visit fuel t defs st"
    "visit fuel (TResult t u) defs st = and_then (visit fuel t defs st) (\<lambda>st. visit fuel u defs st)"
    "visit fuel (TStructuralRecord fs) defs st = try_fold (\<lambda>st (n, u). visit fuel u defs st) st fs"
    by (simp_all add: st visit.simps [of fuel "TList t"] visit.simps [of fuel "TMap t"] visit.simps [of fuel "TOption t"]
        visit.simps [of fuel "TResult t u"] visit.simps [of fuel "TStructuralRecord fs"])
qed (subst visit.simps, simp)

lemma visit_base: "t \<in> {TNil, TBool, TInt, TFloat, TString, TBytes, TJson} \<Longrightarrow> visit fuel t defs st = Inr st"
  by (cases st) (auto simp: visit.simps)

lemma visit_reject:
  "visit fuel (TRef k) defs st = Inl (NotJsonType (TRef k))"
  "visit fuel (TProgram a b) defs st = Inl (NotJsonType (TProgram a b))"
  "visit fuel TEvidenceCandidate defs st = Inl (NotJsonType TEvidenceCandidate)"
  "visit fuel TOutcomeCandidate defs st = Inl (NotJsonType TOutcomeCandidate)"
  "visit fuel TContextTransaction defs st = Inl (NotJsonType TContextTransaction)"
  by (cases st, simp add: visit.simps)+

abbreviation json_names :: "type_definitions \<Rightarrow> ustring list \<times> ustring list \<Rightarrow> bool" where
  "json_names defs st \<equiv> \<forall>n \<in> set (snd st). json_type defs (TNamed n)"

lemma visit_fold_sound:
  assumes "try_fold (\<lambda>st x. visit fuel (g x) defs st) st xs = Inr st'" and "json_names defs st"
    and "\<And>x st st'. x \<in> set xs \<Longrightarrow> visit fuel (g x) defs st = Inr st' \<Longrightarrow> json_names defs st \<Longrightarrow>
      json_type defs (g x) \<and> json_names defs st'"
  shows "(\<forall>x \<in> set xs. json_type defs (g x)) \<and> json_names defs st'"
  using assms
proof (induction xs arbitrary: st)
  case (Cons x xs)
  from Cons.prems(1) obtain st1 where st1: "visit fuel (g x) defs st = Inr st1"
    "try_fold (\<lambda>st x. visit fuel (g x) defs st) st1 xs = Inr st'" by (auto simp: and_then_Inr_iff)
  with Cons.prems(2) Cons.prems(3) [of x st st1] have "json_type defs (g x)" "json_names defs st1" by auto
  moreover have "(\<forall>x \<in> set xs. json_type defs (g x)) \<and> json_names defs st'"
    by (rule Cons.IH [OF st1(2) \<open>json_names defs st1\<close>]) (rule Cons.prems(3), auto)
  ultimately show ?case by simp
qed simp

lemma visit_sound:
  "visit fuel t defs st = Inr st' \<Longrightarrow> json_names defs st \<Longrightarrow> json_type defs t \<and> json_names defs st'"
proof (induction fuel arbitrary: t st st' rule: less_induct)
  case outer: (less fuel)
  from outer.prems show ?case
  proof (induction t arbitrary: st st')
    case (TStructuralRecord fs)
    have "(\<forall>x \<in> set fs. json_type defs (snd x)) \<and> json_names defs st'"
      by (rule visit_fold_sound [of fuel snd])
        (use TStructuralRecord in \<open>auto simp: visit_simps split_def\<close>)
    then show ?case by (auto intro!: json_record)
  next
    case (TNamed n)
    show ?case
    proof (cases "n \<in> set (snd st)")
      case True
      with TNamed show ?thesis by (cases st) (auto simp: visit_simps)
    next
      case False
      with TNamed obtain d fuel' st1 where d: "bt_get defs n = Some d" "fuel = Suc fuel'"
        and fold: "try_fold (\<lambda>st f. visit fuel' (fd_ty f) defs st) (bs_insert n (fst st), snd st) (definition_fields d) = Inr st1"
        and st': "st' = (bs_remove n (fst st1), bs_insert n (snd st1))"
        by (cases st; cases fuel) (auto simp: visit_simps and_then_Inr_iff split: if_splits)
      have "(\<forall>f \<in> set (definition_fields d). json_type defs (fd_ty f)) \<and> json_names defs st1"
      proof (rule visit_fold_sound [OF fold])
        show "json_names defs (bs_insert n (fst st), snd st)" using TNamed.prems(2) by simp
        fix f st st'
        assume "visit fuel' (fd_ty f) defs st = Inr st'" "json_names defs st"
        then show "json_type defs (fd_ty f) \<and> json_names defs st'" by (rule outer.IH [rotated]) (simp add: d(2))
      qed
      with d(1) st' show ?thesis by (auto intro: json_named)
    qed
  next
    case (TResult t u)
    from TResult.prems(1) obtain st1 where st1: "visit fuel t defs st = Inr st1" "visit fuel u defs st1 = Inr st'"
      by (auto simp: visit_simps and_then_Inr_iff)
    with TResult.IH(1) [OF st1(1) TResult.prems(2)] TResult.IH(2) [OF st1(2)] show ?case by (blast intro: json_result)
  next
    case (TList t)
    with TList.IH [OF TList.prems [unfolded visit_simps]] show ?case by (simp add: json_list)
  next
    case (TMap t)
    with TMap.IH [OF TMap.prems [unfolded visit_simps]] show ?case by (simp add: json_map)
  next
    case (TOption t)
    with TOption.IH [OF TOption.prems [unfolded visit_simps]] show ?case by (simp add: json_option)
  qed (simp_all add: visit_base visit_reject json_base)
qed

section \<open>Completeness\<close>

lemma visit_fold_complete:
  assumes "\<And>x fin. x \<in> set xs \<Longrightarrow> \<exists>fin'. visit fuel (g x) defs (stack, fin) = Inr (stack, fin')"
  shows "\<exists>fin'. try_fold (\<lambda>st x. visit fuel (g x) defs st) (stack, fin) xs = Inr (stack, fin')"
  using assms
proof (induction xs arbitrary: fin)
  case (Cons x xs)
  obtain fin1 where "visit fuel (g x) defs (stack, fin) = Inr (stack, fin1)" using Cons.prems [of x fin] by auto
  with Cons.IH [of fin1] Cons.prems show ?case by auto
qed simp

lemma not_below: "\<not> (part defs)\<^sup>*\<^sup>* n t \<Longrightarrow> part defs u t \<Longrightarrow> \<not> (part defs)\<^sup>*\<^sup>* n u"
  by (meson rtranclp.rtrancl_into_rtrancl)

text \<open>The names on the stack are not reachable from the type, and the bound covers the names left.\<close>

lemma visit_complete:
  assumes "json_type defs t" and "bs_wf stack" and "\<And>n. n \<in> set stack \<Longrightarrow> \<not> (part defs)\<^sup>*\<^sup>* (TNamed n) t"
    and "card (fst ` set defs - set stack) \<le> fuel"
  shows "\<exists>fin'. visit fuel t defs (stack, fin) = Inr (stack, fin')"
  using assms
proof (induction t arbitrary: fuel stack fin rule: json_type.induct)
  case (json_base t)
  then show ?case by (simp add: visit_base)
next
  case (json_result t u)
  obtain fin1 where fin1: "visit fuel t defs (stack, fin) = Inr (stack, fin1)"
    using json_result.IH(1) [OF json_result.prems(1) not_below [OF json_result.prems(2)] json_result.prems(3)]
    by (blast intro: part.intros)
  obtain fin2 where "visit fuel u defs (stack, fin1) = Inr (stack, fin2)"
    using json_result.IH(2) [OF json_result.prems(1) not_below [OF json_result.prems(2)] json_result.prems(3)]
    by (blast intro: part.intros)
  with fin1 show ?case by (simp add: visit_simps)
next
  case (json_record fs)
  have "\<exists>fin'. visit fuel (snd x) defs (stack, fin) = Inr (stack, fin')" if "x \<in> set fs" for x fin
  proof -
    obtain n t where x: "x = (n, t)" by fastforce
    from that x have "part defs t (TStructuralRecord fs)" by (auto intro: part.intros)
    with that show ?thesis
      using json_record.IH [of n t, OF _ json_record.prems(1) not_below [OF json_record.prems(2)] json_record.prems(3)]
      by (simp add: x)
  qed
  from visit_fold_complete [of fs fuel snd, OF this] show ?case by (simp add: visit_simps split_def)
next
  case (json_named n d)
  have named: "json_type defs (TNamed n)" using json_named.hyps by (auto intro: json_type.json_named)
  have fresh: "n \<notin> set stack" using json_named.prems(2) by blast
  have key: "n \<in> fst ` set defs" using bt_get_None_iff [of defs n] json_named.hyps(1) by fastforce
  show ?case
  proof (cases "n \<in> set fin")
    case False
    have "0 < card (fst ` set defs - set stack)" using key fresh by (auto simp: card_gt_0_iff)
    then obtain fuel' where fuel: "fuel = Suc fuel'" using json_named.prems(3) by (cases fuel) auto
    have "fst ` set defs - set (bs_insert n stack) = (fst ` set defs - set stack) - {n}" by auto
    with key fresh fuel json_named.prems(3) have bound: "card (fst ` set defs - set (bs_insert n stack)) \<le> fuel'" by simp
    have "\<exists>fin'. visit fuel' (fd_ty f) defs (bs_insert n stack, fin) = Inr (bs_insert n stack, fin')"
      if f: "f \<in> set (definition_fields d)" for f fin
    proof (rule json_named.IH [OF f _ _ bound])
      show "bs_wf (bs_insert n stack)" using json_named.prems(1) by simp
      fix n'
      assume n': "n' \<in> set (bs_insert n stack)"
      have part: "part defs (fd_ty f) (TNamed n)" using json_named.hyps(1) f by (rule part.intros)
      show "\<not> (part defs)\<^sup>*\<^sup>* (TNamed n') (fd_ty f)"
      proof (cases "n' = n")
        case True
        then show ?thesis using accp_irrefl [OF json_type_accp [OF named]] part by (meson rtranclp_into_tranclp1)
      next
        case False
        with n' json_named.prems(2) part show ?thesis by (auto dest: rtranclp.rtrancl_into_rtrancl)
      qed
    qed
    from visit_fold_complete [of "definition_fields d" fuel' fd_ty defs "bs_insert n stack" fin, OF this]
    obtain fin' where "try_fold (\<lambda>st f. visit fuel' (fd_ty f) defs st) (bs_insert n stack, fin) (definition_fields d)
      = Inr (bs_insert n stack, fin')" by blast
    moreover have "bs_remove n (bs_insert n stack) = stack"
      using fresh json_named.prems(1) by (intro bs_wf_ext) auto
    ultimately show ?thesis using json_named.hyps(1) False fresh fuel by (simp add: visit_simps)
  qed (simp add: visit_simps)
next
  case (json_list t)
  from json_list.IH [OF json_list.prems(1) not_below [OF json_list.prems(2)] json_list.prems(3)] show ?case
    by (simp add: visit_simps part.intros)
next
  case (json_map t)
  from json_map.IH [OF json_map.prems(1) not_below [OF json_map.prems(2)] json_map.prems(3)] show ?case
    by (simp add: visit_simps part.intros)
next
  case (json_option t)
  from json_option.IH [OF json_option.prems(1) not_below [OF json_option.prems(2)] json_option.prems(3)] show ?case
    by (simp add: visit_simps part.intros)
qed

theorem validate_json_type_iff: "validate_json_type t defs = Inr () \<longleftrightarrow> json_type defs t"
proof
  assume "validate_json_type t defs = Inr ()"
  then show "json_type defs t"
    by (auto simp: validate_json_type_def map_ok_Inr_iff dest!: visit_sound)
next
  assume "json_type defs t"
  moreover have "card (fst ` set defs) \<le> Suc (length defs)"
    by (metis card_length le_SucI length_map list.set_map)
  ultimately show "validate_json_type t defs = Inr ()"
    using visit_complete [of defs t "[]" "Suc (length defs)" "[]"] by (auto simp: validate_json_type_def)
qed

end
