(* ===== verification/Type_Graph.thy ===== *)
theory Type_Graph
  imports Yao_Forms
begin

text \<open>
  The check on type definitions (\<open>validate_type_definitions\<close>): it accepts exactly the definitions in
  which every name is defined and no type reaches itself. The search \<open>type_reaches\<close> keeps two sets;
  its bound on nested names is never used up.
\<close>

section \<open>The dependency graph\<close>

definition dependencies :: "type_definition \<Rightarrow> ustring list" where
  "dependencies d = concat (map named_dependencies (definition_types d))"

definition dep :: "type_definitions \<Rightarrow> ustring \<Rightarrow> ustring \<Rightarrow> bool" where
  "dep defs a b \<longleftrightarrow> (\<exists>d. bt_get defs a = Some d \<and> b \<in> set (dependencies d))"

definition closed_definitions :: "type_definitions \<Rightarrow> bool" where
  "closed_definitions defs \<longleftrightarrow> (\<forall>(n, d) \<in> set defs. \<forall>b \<in> set (dependencies d). bt_contains defs b)"

lemma validate_type_names_iff:
  "validate_type_names defs t sp = Inr () \<longleftrightarrow> (\<forall>n \<in> set (named_dependencies t). bt_contains defs n)"
proof (induction t)
  case (TStructuralRecord fs)
  then have "is_ok (validate_type_names defs (snd x) sp) \<longleftrightarrow> (\<forall>n \<in> set (named_dependencies (snd x)). bt_contains defs n)"
    if "x \<in> set fs" for x
    using that by (cases x) (auto simp: unit_is_ok)
  then show ?case by (auto simp: try_map_unit split_beta)
qed (auto simp: and_then_Inr_iff)

section \<open>The search\<close>

text \<open>What the search has added to the visited names: their dependencies are not the start, and are
  visited or being visited.\<close>

definition explored ::
  "type_definitions \<Rightarrow> ustring \<Rightarrow> ustring list \<Rightarrow> ustring list \<Rightarrow> ustring list \<Rightarrow> bool" where
  "explored defs start visiting visited visited' \<longleftrightarrow>
     set visited \<subseteq> set visited' \<and>
     (\<forall>x \<in> set visited' - set visited. \<forall>y. dep defs x y \<longrightarrow> y \<noteq> start \<and> (y \<in> set visited' \<or> y \<in> set visiting))"

definition finds ::
  "(ustring \<Rightarrow> ustring \<Rightarrow> bool) \<Rightarrow> type_definitions \<Rightarrow> ustring \<Rightarrow> ustring list \<Rightarrow> ustring list \<Rightarrow> ustring list
    \<Rightarrow> (bool \<times> ustring list \<times> ustring list) option \<Rightarrow> bool" where
  "finds R defs start visiting visited names r \<longleftrightarrow>
     (\<exists>st. r = Some (True, st) \<and> (\<exists>y \<in> set names. R y start)) \<or>
     (\<exists>visited'. r = Some (False, visiting, visited') \<and> explored defs start visiting visited visited' \<and>
        (\<forall>y \<in> set names. y \<in> set visited' \<or> y \<in> set visiting))"

lemma explored_trans:
  "explored defs s v a b \<Longrightarrow> explored defs s v b c \<Longrightarrow> explored defs s v a c"
  unfolding explored_def by blast

definition follow ::
  "nat \<Rightarrow> type_definitions \<Rightarrow> ustring \<Rightarrow> ustring \<Rightarrow> ustring list \<times> ustring list \<Rightarrow> (bool \<times> ustring list \<times> ustring list) option" where
  "follow fuel defs start dependency st =
     (if dependency = start then Some (True, st)
      else if dependency \<in> set (snd st) then Some (False, st)
      else type_reaches fuel defs start dependency st)"

lemma type_reaches_follow:
  "type_reaches fuel defs start current (visiting, visited) =
     (if current \<in> set visiting then Some (False, visiting, visited)
      else (case bt_get defs current of
         None \<Rightarrow> Some (False, bs_insert current visiting, visited)
       | Some d \<Rightarrow>
           (case fuel of
              0 \<Rightarrow> None
            | Suc fuel' \<Rightarrow>
                (case any_with (follow fuel' defs start) (dependencies d) (bs_insert current visiting, visited) of
                   None \<Rightarrow> None
                 | Some (True, st) \<Rightarrow> Some (True, st)
                 | Some (False, visiting', visited') \<Rightarrow>
                     Some (False, bs_remove current visiting', bs_insert current visited')))))"
  by (subst type_reaches.simps) (simp add: follow_def [abs_def] dependencies_def split: option.split nat.split)

lemma follow_all:
  assumes "\<And>y visited. y \<in> set names \<Longrightarrow> finds (dep defs)\<^sup>+\<^sup>+ defs start visiting visited [y] (type_reaches fuel defs start y (visiting, visited))"
  shows "finds (dep defs)\<^sup>*\<^sup>* defs start visiting visited names (any_with (follow fuel defs start) names (visiting, visited)) \<and>
    (\<forall>v'. any_with (follow fuel defs start) names (visiting, visited) = Some (False, visiting, v') \<longrightarrow> start \<notin> set names)"
  using assms
proof (induction names arbitrary: visited)
  case Nil
  then show ?case by (simp add: finds_def explored_def)
next
  case (Cons y names)
  have step: "finds (dep defs)\<^sup>*\<^sup>* defs start visiting visited [y] (follow fuel defs start y (visiting, visited))"
    using Cons.prems [of y visited] by (auto simp: follow_def finds_def explored_def)
  show ?case
  proof (cases "follow fuel defs start y (visiting, visited)")
    case None
    with step show ?thesis by (simp add: finds_def)
  next
    case (Some r)
    obtain b st where r: "r = (b, st)" by (cases r)
    show ?thesis
    proof (cases b)
      case True
      with step Some r show ?thesis by (auto simp: finds_def)
    next
      case False
      with step Some r obtain v1 where v1: "st = (visiting, v1)" "explored defs start visiting visited v1"
        "y \<in> set v1 \<or> y \<in> set visiting" by (auto simp: finds_def)
      have new: "y \<noteq> start" using Some r False by (auto simp: follow_def)
      have IH: "finds (dep defs)\<^sup>*\<^sup>* defs start visiting v1 names (any_with (follow fuel defs start) names (visiting, v1)) \<and>
        (\<forall>v'. any_with (follow fuel defs start) names (visiting, v1) = Some (False, visiting, v') \<longrightarrow> start \<notin> set names)"
        by (rule Cons.IH) (use Cons.prems in auto)
      have eq: "any_with (follow fuel defs start) (y # names) (visiting, visited) = any_with (follow fuel defs start) names (visiting, v1)"
        using Some r False v1(1) by simp
      from IH [unfolded finds_def] have "finds (dep defs)\<^sup>*\<^sup>* defs start visiting visited (y # names) (any_with (follow fuel defs start) names (visiting, v1))"
      proof (elim conjE disjE exE)
        fix v2
        assume "any_with (follow fuel defs start) names (visiting, v1) = Some (False, visiting, v2)" "explored defs start visiting v1 v2"
          "\<forall>y \<in> set names. y \<in> set v2 \<or> y \<in> set visiting"
        with explored_trans [OF v1(2), of v2] v1(3) show ?thesis by (auto simp: finds_def explored_def)
      qed (auto simp: finds_def)
      with IH new show ?thesis unfolding eq by auto
    qed
  qed
qed

lemma type_reaches_finds:
  assumes "closed_definitions defs" and "bs_wf visiting" and "current \<in> fst ` set defs"
    and "card (fst ` set defs - set visiting) \<le> fuel"
  shows "finds (dep defs)\<^sup>+\<^sup>+ defs start visiting visited [current] (type_reaches fuel defs start current (visiting, visited))"
  using assms
proof (induction fuel arbitrary: current visiting visited)
  case 0
  then have "current \<in> set visiting" by auto
  then show ?case by (simp add: type_reaches_follow finds_def explored_def)
next
  case (Suc fuel)
  show ?case
  proof (cases "current \<in> set visiting")
    case True
    then show ?thesis by (simp add: type_reaches_follow finds_def explored_def)
  next
    case False
    obtain d where d: "bt_get defs current = Some d" using Suc.prems(3) bt_get_None_iff [of defs current] by fastforce
    let ?v = "bs_insert current visiting"
    have "fst ` set defs - set ?v = (fst ` set defs - set visiting) - {current}" by auto
    then have bound: "card (fst ` set defs - set ?v) \<le> fuel" using Suc.prems(3,4) False by simp
    have keys: "y \<in> fst ` set defs" if "y \<in> set (dependencies d)" for y
      using Suc.prems(1) that bt_get_in_set [OF d] bt_get_None_iff [of defs y]
      by (fastforce simp: closed_definitions_def bt_contains_def)
    have "finds (dep defs)\<^sup>+\<^sup>+ defs start ?v v [y] (type_reaches fuel defs start y (?v, v))" if "y \<in> set (dependencies d)" for y v
      using Suc.prems(1,2) keys [OF that] bound by (intro Suc.IH) auto
    from follow_all [OF this, of "dependencies d" visited]
    have loop: "finds (dep defs)\<^sup>*\<^sup>* defs start ?v visited (dependencies d) (any_with (follow fuel defs start) (dependencies d) (?v, visited))"
      and start: "any_with (follow fuel defs start) (dependencies d) (?v, visited) = Some (False, ?v, v') \<Longrightarrow> start \<notin> set (dependencies d)" for v'
      by blast+
    have deps: "dep defs current y \<longleftrightarrow> y \<in> set (dependencies d)" for y by (simp add: dep_def d)
    have rm: "bs_remove current ?v = visiting" using False Suc.prems(2) by (intro bs_wf_ext) auto
    from loop [unfolded finds_def] show ?thesis
    proof (elim disjE exE conjE bexE)
      fix st y
      assume "any_with (follow fuel defs start) (dependencies d) (?v, visited) = Some (True, st)"
        "y \<in> set (dependencies d)" "(dep defs)\<^sup>*\<^sup>* y start"
      then show ?thesis using False d deps
        by (auto simp: type_reaches_follow finds_def intro: rtranclp_into_tranclp2)
    next
      fix v'
      assume r: "any_with (follow fuel defs start) (dependencies d) (?v, visited) = Some (False, ?v, v')"
        and v': "explored defs start ?v visited v'" "\<forall>y \<in> set (dependencies d). y \<in> set v' \<or> y \<in> set ?v"
      have "explored defs start visiting visited (bs_insert current v')"
        using v' start [OF r] deps unfolding explored_def by auto
      then show ?thesis using False d r rm by (simp add: type_reaches_follow finds_def)
    qed
  qed
qed

section \<open>The check\<close>

lemma type_recursive_iff:
  assumes "closed_definitions defs" and "name \<in> fst ` set defs"
  shows "type_recursive defs name \<longleftrightarrow> (dep defs)\<^sup>+\<^sup>+ name name"
proof -
  have "card (fst ` set defs - set []) \<le> Suc (length defs)"
    by (simp, metis card_length le_SucI length_map list.set_map)
  from type_reaches_finds [OF assms(1) _ assms(2) this, of name "[]"]
  have found: "finds (dep defs)\<^sup>+\<^sup>+ defs name [] [] [name] (type_reaches (Suc (length defs)) defs name name ([], []))" by simp
  have fresh: "y \<noteq> name" if "explored defs name [] [] visited" "name \<in> set visited" "(dep defs)\<^sup>+\<^sup>+ name y" for visited y
  proof -
    from that(3) have "y \<in> set visited \<and> y \<noteq> name"
      by (induction rule: tranclp_induct) (use that(1,2) in \<open>auto simp: explored_def\<close>)
    then show ?thesis ..
  qed
  from found show ?thesis
    unfolding finds_def type_recursive_def by (auto dest: fresh)
qed

theorem validate_type_definitions_iff:
  "validate_type_definitions defs = Inr () \<longleftrightarrow> closed_definitions defs \<and> (\<forall>n. \<not> (dep defs)\<^sup>+\<^sup>+ n n)"
proof -
  have names: "is_ok (try_map (\<lambda>(name, d). try_map (\<lambda>t. validate_type_names defs t (td_span d)) (definition_types d)) defs)
      \<longleftrightarrow> closed_definitions defs"
    by (force simp: try_map_ok closed_definitions_def dependencies_def validate_type_names_iff unit_is_ok [symmetric])
  have source: "n \<in> fst ` set defs" if "(dep defs)\<^sup>+\<^sup>+ n m" for n m
  proof -
    from tranclpD [OF that] obtain y where "dep defs n y" by blast
    then show ?thesis by (auto simp: dep_def dest!: bt_get_in_set intro: rev_image_eqI)
  qed
  have "validate_type_definitions defs = Inr () \<longleftrightarrow>
      closed_definitions defs \<and> (\<forall>(n, d) \<in> set defs. \<not> type_recursive defs n)"
  proof -
    have "validate_type_definitions defs = Inr () \<longleftrightarrow> closed_definitions defs \<and>
        (\<forall>x \<in> set defs. is_ok (case x of (n, d) \<Rightarrow> if type_recursive defs n then Inl (diag RecursiveType (td_span d)) else Inr ()))"
      unfolding names [symmetric] validate_type_definitions_def and_then_Inr_iff try_map_unit
      by (simp only: is_ok_iff [of "try_map g xs" for g xs] ex_simps)
    then show ?thesis by (simp add: split_beta)
  qed
  also have "\<dots> \<longleftrightarrow> closed_definitions defs \<and> (\<forall>n \<in> fst ` set defs. \<not> (dep defs)\<^sup>+\<^sup>+ n n)"
  proof (intro conj_cong refl)
    assume "closed_definitions defs"
    then show "(\<forall>(n, d) \<in> set defs. \<not> type_recursive defs n) \<longleftrightarrow> (\<forall>n \<in> fst ` set defs. \<not> (dep defs)\<^sup>+\<^sup>+ n n)"
      by (simp add: type_recursive_iff split_beta)
  qed
  finally show ?thesis using source by blast
qed

section \<open>Sealed types\<close>

text \<open>The search for sealed types also never runs out, and leaves the visited names as they were.\<close>

definition settled :: "ustring list \<Rightarrow> (bool \<times> ustring list) option \<Rightarrow> bool" where
  "settled visiting r \<longleftrightarrow> (\<exists>b v. r = Some (b, v) \<and> (b \<or> v = visiting))"

lemma any_with_settled:
  assumes "\<And>x. x \<in> set xs \<Longrightarrow> settled visiting (f x visiting)"
  shows "settled visiting (any_with f xs visiting)"
  using assms
proof (induction xs)
  case (Cons x xs)
  from Cons.prems [of x] Cons.IH [OF Cons.prems] show ?case by (auto simp: settled_def)
qed (auto simp: settled_def)

lemma nonforgeable_settled:
  assumes "bs_wf visiting" and "card (fst ` set defs - set visiting) \<le> fuel"
  shows "settled visiting (contains_nonforgeable fuel defs t visiting)"
  using assms
proof (induction fuel defs t visiting rule: contains_nonforgeable.induct)
  case (1 fuel defs t visiting)
  show ?case
  proof (cases t)
    case (TStructuralRecord fs)
    have "settled visiting (any_with (\<lambda>(n, u) st. contains_nonforgeable fuel defs u st) fs visiting)"
      by (rule any_with_settled) (use 1 TStructuralRecord in \<open>auto split: prod.split\<close>)
    with TStructuralRecord show ?thesis by (subst contains_nonforgeable.simps) simp
  next
    case (TResult a b)
    then have "settled visiting (contains_nonforgeable fuel defs a visiting)" using 1 by blast
    then show ?thesis using 1 TResult
      by (subst contains_nonforgeable.simps) (auto simp: settled_def)
  next
    case (TNamed name)
    show ?thesis
    proof (cases "name \<in> set visiting \<or> bt_get defs name = None")
      case False
      then obtain d where d: "bt_get defs name = Some d" by auto
      have key: "name \<in> fst ` set defs - set visiting" using False d bt_get_None_iff [of defs name] by auto
      then have "0 < card (fst ` set defs - set visiting)" by (subst card_gt_0_iff) auto
      with "1.prems"(2) have "0 < fuel" by linarith
      then obtain fuel' where fuel: "fuel = Suc fuel'" using gr0_implies_Suc by blast
      let ?v = "bs_insert name visiting"
      have "fst ` set defs - set ?v = (fst ` set defs - set visiting) - {name}" by auto
      then have bound: "card (fst ` set defs - set ?v) \<le> fuel'" using key "1.prems" fuel by simp
      have "settled ?v (any_with (\<lambda>u st. contains_nonforgeable fuel' defs u st) (definition_types d) ?v)"
        by (rule any_with_settled) (use 1 TNamed False d fuel bound in auto)
      moreover have "bs_remove name ?v = visiting" using False "1.prems" by (intro bs_wf_ext) auto
      ultimately show ?thesis using False d fuel TNamed by (subst contains_nonforgeable.simps) (auto simp: settled_def)
    qed (auto simp: TNamed contains_nonforgeable.simps settled_def)
  qed (use 1 in \<open>auto simp: contains_nonforgeable.simps settled_def\<close>)
qed

lemma nonforgeable_decided: "\<exists>b v. contains_nonforgeable (Suc (length defs)) defs t [] = Some (b, v)"
proof -
  have "card (fst ` set defs - set []) \<le> Suc (length defs)"
    by (simp, metis card_length le_SucI length_map list.set_map)
  from nonforgeable_settled [OF _ this, of t] show ?thesis by (auto simp: settled_def)
qed

end
