(* ===== verification/Yao_Operators.thy ===== *)
theory Yao_Operators
  imports Yao_Eval
begin

text \<open>
  The arithmetic of the evaluator on 64-bit integers: a sum, a difference and a product are exact
  or fail with an overflow, and the left-to-right folds fail as soon as a partial result leaves
  the range.
\<close>

definition int_json :: "int \<Rightarrow> json" where
  "int_json i = JNumber (number_of_i64 i)"

lemma as_i64_int_json [simp]: "in_i64 i \<Longrightarrow> as_i64 (int_json i) = Some i"
  by (simp add: int_json_def number_of_i64_def in_i64_def)

lemma as_f64_int_json [simp]: "as_f64 (int_json i) = Some (f64_of_int i)"
  by (simp add: int_json_def number_of_i64_def)

lemma ints_are_i64:
  assumes "\<forall>x \<in> set xs. in_i64 x"
  shows "list_all (\<lambda>v. as_i64 v \<noteq> None) (map int_json xs)"
    and "map (\<lambda>v. the (as_i64 v)) (map int_json xs) = xs"
  using assms by (auto simp: list_all_iff intro!: map_idI)

text \<open>Every partial result of a fold is in range.\<close>

definition prefixes_in_range :: "(int list \<Rightarrow> int) \<Rightarrow> int list \<Rightarrow> bool" where
  "prefixes_in_range f xs \<longleftrightarrow> (\<forall>k \<in> {1..length xs}. in_i64 (f (take k xs)))"

lemma prefixes_Cons:
  "prefixes_in_range f (x # xs) \<longleftrightarrow> in_i64 (f [x]) \<and> prefixes_in_range (\<lambda>ys. f (x # ys)) xs"
proof
  assume all: "prefixes_in_range f (x # xs)"
  have "in_i64 (f (x # take k xs))" if "k \<in> {1..length xs}" for k
    using all that unfolding prefixes_in_range_def by (auto dest: bspec [of _ _ "Suc k"])
  moreover have "in_i64 (f [x])" using all unfolding prefixes_in_range_def by (auto dest: bspec [of _ _ 1])
  ultimately show "in_i64 (f [x]) \<and> prefixes_in_range (\<lambda>ys. f (x # ys)) xs"
    by (simp add: prefixes_in_range_def)
next
  assume "in_i64 (f [x]) \<and> prefixes_in_range (\<lambda>ys. f (x # ys)) xs"
  then have "in_i64 (f (take k (x # xs)))" if "k \<in> {1..length (x # xs)}" for k
    using that by (cases k; cases "k = 1") (auto simp: prefixes_in_range_def)
  then show "prefixes_in_range f (x # xs)" by (simp add: prefixes_in_range_def)
qed

lemma prefixes_Nil [simp]: "prefixes_in_range f []"
  by (simp add: prefixes_in_range_def)

lemma fold_add_exact:
  "option_fold i64_checked_add s xs =
     (if prefixes_in_range (\<lambda>ys. s + sum_list ys) xs then Some (s + sum_list xs) else None)"
  by (induction xs arbitrary: s) (simp_all add: prefixes_Cons i64_checked_add_def checked_i64_def add.assoc)

lemma fold_mul_exact:
  "option_fold i64_checked_mul s xs =
     (if prefixes_in_range (\<lambda>ys. s * prod_list ys) xs then Some (s * prod_list xs) else None)"
  by (induction xs arbitrary: s) (simp_all add: prefixes_Cons i64_checked_mul_def checked_i64_def mult.assoc)

definition exact_or_overflow :: "bool \<Rightarrow> int \<Rightarrow> source_span \<Rightarrow> eval_failure + json" where
  "exact_or_overflow b r sp = (if b then Inr (int_json r) else Inl (failure IntegerOverflow sp))"

lemma numeric_integers:
  assumes "\<forall>x \<in> set xs. in_i64 x" and "op \<noteq> OpDivide"
  shows "numeric op (map int_json xs) sp =
    and_then (integer_arithmetic op xs sp) (\<lambda>r. map_ok int_json (ok_or r (failure IntegerOverflow sp)))"
  using ints_are_i64 [OF assms(1)] assms(2) by (simp add: numeric_def int_json_def [abs_def] map_ok_def)

lemma numeric_add:
  assumes "\<forall>x \<in> set xs. in_i64 x"
  shows "numeric OpAdd (map int_json xs) sp = exact_or_overflow (prefixes_in_range sum_list xs) (sum_list xs) sp"
  by (simp add: numeric_integers [OF assms] integer_arithmetic_def fold_add_exact exact_or_overflow_def)

lemma numeric_multiply:
  assumes "\<forall>x \<in> set xs. in_i64 x"
  shows "numeric OpMultiply (map int_json xs) sp = exact_or_overflow (prefixes_in_range prod_list xs) (prod_list xs) sp"
  by (simp add: numeric_integers [OF assms] integer_arithmetic_def fold_mul_exact exact_or_overflow_def)

lemma numeric_subtract:
  assumes "in_i64 a" and "in_i64 b"
  shows "numeric OpSubtract [int_json a, int_json b] sp = exact_or_overflow (in_i64 (a - b)) (a - b) sp"
  using numeric_integers [of "[a, b]" OpSubtract sp] assms
  by (simp add: integer_arithmetic_def i64_checked_sub_def checked_i64_def exact_or_overflow_def)

end
