(* ===== verification/Yao_Provenance.thy ===== *)
theory Yao_Provenance
  imports Yao_Identity Yao_Forms
begin

text \<open>
  What the typed identity of a program ignores. \<open>strip\<close> resets every position inside an expression;
  the identity of a program is that of the program with its positions, its source text and its
  recorded hash removed.
\<close>

section \<open>Normalizing an object\<close>

definition provenance_key :: "string \<Rightarrow> bool" where
  "provenance_key k \<longleftrightarrow> k \<in> {''span'', ''canonical_source'', ''source_hash''}"

definition map_values :: "('v \<Rightarrow> 'w) \<Rightarrow> ('k \<times> 'v) list \<Rightarrow> ('k \<times> 'w) list" where
  "map_values f m = map (\<lambda>(k, v). (k, f v)) m"

lemma map_fst_values [simp]: "map fst (map_values f m) = map fst m"
  by (simp add: map_values_def comp_def split_beta)

lemma map_of_values: "map_of (map_values f m) k = map_option f (map_of m k)"
  by (induction m) (auto simp: map_values_def)

lemma bt_get_values: "bt_get (map_values f m) k = map_option f (bt_get m k)"
  by (induction m) (auto simp: map_values_def bt_get_Cons)

lemma bt_wf_values [simp]: "bt_wf (map_values f m) \<longleftrightarrow> bt_wf m"
  by (simp add: bt_wf_def)

lemma map_values_from: "map_values f (bt_from kvs) = bt_from (map_values f kvs)"
proof (rule bt_wf_ext [OF _ _ ext])
  fix k
  have "rev (map_values f kvs) = map_values f (rev kvs)" by (simp add: map_values_def rev_map)
  then show "bt_get (map_values f (bt_from kvs)) k = bt_get (bt_from (map_values f kvs)) k"
    by (simp add: bt_get_values bt_simps map_of_values)
qed simp_all

lemma map_of_filter_other: "map_of (filter (\<lambda>kv. fst kv \<noteq> k) m) k' = (if k' = k then None else map_of m k')"
  by (induction m) auto

lemma bt_remove_from: "bt_remove k (bt_from kvs) = bt_from (filter (\<lambda>kv. fst kv \<noteq> k) kvs)"
  by (rule bt_wf_ext [OF _ _ ext]) (simp_all add: bt_simps map_of_filter_other rev_filter)

definition entries :: "(string \<times> json) list \<Rightarrow> json_map" where
  "entries es = bt_from (map (\<lambda>(k, v). (lit k, v)) es)"

lemma normalize_jobj:
  "normalize_typed_identity (jobj es) =
     JObject (sort_entries (entries (map_values normalize_typed_identity (filter (\<lambda>(k, v). \<not> provenance_key k) es))))"
proof -
  have "map_values normalize_typed_identity (filter (\<lambda>kv. fst kv \<noteq> lit ''span'' \<and> fst kv \<noteq> lit ''canonical_source'' \<and>
      fst kv \<noteq> lit ''source_hash'') (map (\<lambda>(k, y). (lit k, y)) es)) =
    map (\<lambda>(k, y). (lit k, y)) (map_values normalize_typed_identity (filter (\<lambda>(k, v). \<not> provenance_key k) es))"
    by (induction es) (auto simp: map_values_def provenance_key_def)
  then show ?thesis
    by (simp add: jobj_def entries_def drop_provenance_def bt_remove_from map_values_from flip: map_values_def)
qed

lemmas normalize_object = normalize_jobj map_values_def provenance_key_def

section \<open>Positions\<close>

definition strip_argument :: "'e named_argument \<Rightarrow> 'e named_argument" where
  "strip_argument a = NamedArgument (arg_name a) (arg_values a) empty_span"

definition strip_case :: "'e match_case \<Rightarrow> 'e match_case" where
  "strip_case c = MatchCase (case_variant c) (case_bindings c) (case_body c) empty_span"

definition strip_branch :: "'e par_branch \<Rightarrow> 'e par_branch" where
  "strip_branch b = ParBranch (branch_name b) (branch_body b) empty_span"

fun strip_kind :: "'e hir_kind \<Rightarrow> 'e hir_kind" where
  "strip_kind (HMatch v cs) = HMatch v (map strip_case cs)"
| "strip_kind (HCall t as) = HCall t (map strip_argument as)"
| "strip_kind (HFunctionApplication f as ps b) = HFunctionApplication f (map strip_argument as) ps b"
| "strip_kind (HPar bs) = HPar (map strip_branch bs)"
| "strip_kind (HHost o1 as) = HHost o1 (map strip_argument as)"
| "strip_kind k = k"

primrec strip :: "hir_expr \<Rightarrow> hir_expr" where
  "strip (HirExpr k t es sp) = HirExpr (strip_kind (map_hir_kind strip k)) t es empty_span"

definition strip_field :: "field_definition \<Rightarrow> field_definition" where
  "strip_field f = f\<lparr>fd_span := empty_span\<rparr>"

definition strip_variant :: "variant_definition \<Rightarrow> variant_definition" where
  "strip_variant v = v\<lparr>vd_fields := map strip_field (vd_fields v), vd_span := empty_span\<rparr>"

fun strip_definition :: "type_definition \<Rightarrow> type_definition" where
  "strip_definition (Record n fs sp) = Record n (map strip_field fs) empty_span"
| "strip_definition (Union n vs sp) = Union n (map strip_variant vs) empty_span"

definition strip_program :: "yao_program \<Rightarrow> yao_program" where
  "strip_program p = p\<lparr>program_types := map_values strip_definition (program_types p), body := strip (body p),
     program_canonical_source := [], source_hash := []\<rparr>"

abbreviation same :: "json \<Rightarrow> json \<Rightarrow> bool" where
  "same v w \<equiv> normalize_typed_identity v = normalize_typed_identity w"

lemma same_argument:
  "(\<And>x. x \<in> set (arg_values a) \<Longrightarrow> same (f x) (g x)) \<Longrightarrow>
     same (argument_value (map_named_argument f a)) (argument_value (strip_argument (map_named_argument g a)))"
  by (cases a) (simp add: argument_value_def strip_argument_def normalize_object cong: map_cong)

lemma same_case:
  "same (f (case_body c)) (g (case_body c)) \<Longrightarrow>
     same (case_value (map_match_case f c)) (case_value (strip_case (map_match_case g c)))"
  by (cases c) (simp add: case_value_def strip_case_def normalize_object)

lemma same_branch:
  "same (f (branch_body b)) (g (branch_body b)) \<Longrightarrow>
     same (branch_value (map_par_branch f b)) (branch_value (strip_branch (map_par_branch g b)))"
  by (cases b) (simp add: branch_value_def strip_branch_def normalize_object)

lemma set_parts:
  "set_named_argument a = set (arg_values a)" "set_match_case c = {case_body c}" "set_par_branch b = {branch_body b}"
  by (cases a; cases c; cases b; simp)+

text \<open>Two ways to serialize the children of a node that agree up to provenance.\<close>

lemma same_op:
  assumes "list_all2 (\<lambda>e e'. fst e = fst e' \<and> same (snd e) (snd e')) es es'"
  shows "same (op_value name es) (op_value name es')"
proof -
  have "map_values normalize_typed_identity (filter (\<lambda>(k, v). \<not> provenance_key k) es) =
      map_values normalize_typed_identity (filter (\<lambda>(k, v). \<not> provenance_key k) es')"
    using assms by (induction rule: list_all2_induct) (auto simp: map_values_def)
  then show ?thesis by (simp add: op_value_def normalize_jobj map_values_def)
qed

lemma same_map: "(\<And>x. x \<in> set xs \<Longrightarrow> same (f x) (g x)) \<Longrightarrow> same (JArray (map f xs)) (JArray (map g xs))"
  by simp

lemma same_pair: "same v w \<Longrightarrow> same (JArray [JString k, v]) (JArray [JString k, w])"
  by simp

lemma same_kind:
  assumes "\<And>x. x \<in> set_hir_kind k \<Longrightarrow> same (f x) (g x)"
  shows "same (hir_kind_value (map_hir_kind f k)) (hir_kind_value (strip_kind (map_hir_kind g k)))"
  by (cases k) (auto simp: pair_values_def set_parts comp_def split_beta snds.simps simp del: normalize_typed_identity.simps
      intro!: same_op same_map same_pair same_argument same_case same_branch assms, force+)

lemma same_hir: "same (hir_value e) (hir_value (strip e))"
proof (induction e)
  case (HirExpr k t es sp)
  have "same (hir_kind_value (map_hir_kind hir_value k)) (hir_kind_value (strip_kind (map_hir_kind (\<lambda>e. hir_value (strip e)) k)))"
    by (rule same_kind) (use HirExpr in auto)
  moreover have "map_hir_kind hir_value (strip_kind (map_hir_kind strip k)) =
      strip_kind (map_hir_kind (\<lambda>e. hir_value (strip e)) k)"
    by (cases k) (auto simp: strip_argument_def strip_case_def strip_branch_def comp_def
        named_argument.map_sel match_case.map_sel par_branch.map_sel)
  ultimately show ?case by (simp add: normalize_object)
qed

lemma same_field: "same (field_value f) (field_value (strip_field f))"
  by (simp add: field_value_def strip_field_def normalize_object)

lemma same_definition: "same (definition_value d) (definition_value (strip_definition d))"
proof -
  have "same (variant_value v) (variant_value (strip_variant v))" for v
    by (simp add: variant_value_def strip_variant_def normalize_object same_field [symmetric] cong: map_cong)
  then show ?thesis
    by (cases d) (simp_all add: normalize_object same_field [symmetric] cong: map_cong)
qed

lemma map_values_comp: "map_values f (map_values g m) = map_values (\<lambda>v. f (g v)) m"
  by (simp add: map_values_def split_beta)

lemma drop_values:
  "drop_provenance (map_values f m) =
     map_values f (filter (\<lambda>kv. fst kv \<notin> {lit ''span'', lit ''canonical_source'', lit ''source_hash''}) m)"
  by (simp add: drop_provenance_def bt_remove_def map_values_def filter_map comp_def split_beta)

lemma normalize_values:
  "normalize_typed_identity (JObject (map_values f m)) = JObject (sort_entries (map_values (\<lambda>v. normalize_typed_identity (f v))
     (filter (\<lambda>kv. fst kv \<notin> {lit ''span'', lit ''canonical_source'', lit ''source_hash''}) m)))"
  by (simp add: drop_values map_values_comp flip: map_values_def)

lemma same_types:
  "same (JObject (map_values definition_value (map_values strip_definition ds))) (JObject (map_values definition_value ds))"
  by (simp only: map_values_comp normalize_values same_definition [symmetric])

lemma same_program: "same (program_value p) (program_value (strip_program p))"
  by (simp add: program_value_def strip_program_def normalize_jobj map_values_def [of normalize_typed_identity] provenance_key_def
      same_hir [symmetric] same_types [unfolded map_values_def [of definition_value]] del: normalize_typed_identity.simps)

end
