(* ===== verification/Yao_Examples.thy ===== *)
theory Yao_Examples
  imports Yao_Safety Yao_Fuel
begin

text \<open>
  Concrete modules for the witnesses: rules that run the analyzer on a concrete form by rewriting,
  a small host profile, and two admitted modules, one that calls a tool and one that is pure.
\<close>

section \<open>Running the analyzer by rewriting\<close>

lemma sema_run:
  "sbind (sget g) f1 st = f1 (g st) st"
  "sbind (slift (Inr x2)) f2 st = f2 x2 st"
  "sbind (slift (Inl d)) f3 st = Inl d"
  "sbind (sret x4) f4 st = f4 x4 st"
  "sbind (smodify h) f5 st = f5 () (h st)"
  "sbind (sbind m6 k) f6 st = sbind m6 (\<lambda>x. sbind (k x) f6) st"
  "sbind (in_scope e m7) f7 st = and_then (m7 (e (fst st), snd st)) (\<lambda>(x, st'). f7 x (fst st, snd st'))"
  "slift r8 st = map_ok (\<lambda>x. (x, st)) r8"
  "sret x9 st = Inr (x9, st)"
  "sget g10 st = Inr (g10 st, st)"
  by (auto simp: sbind_def sget_def slift_def sret_def smodify_def in_scope_def and_then_def split_beta split: sum.split)

lemma require_run:
  "pure_expr e \<Longrightarrow> require_pure e = Inr ()"
  "list_all pure_expr es \<Longrightarrow> require_pure_all es = Inr ()"
  "is_assignable_to t u \<Longrightarrow> require_assignable t u sp = Inr ()"
  by simp_all

lemmas expr_run = require_run analyze_expr_unfold [of cfg "Atom a" for cfg a] analyze_expr_unfold [of cfg "EList items sp" for cfg items sp]

lemma first_run: "first [] = None" "first (x # xs) = Some x" "first (lit (c # s)) = Some (chr c)"
  by (simp_all add: first_def lit_simps)

lemmas form_eval = expect_list_def head_symbol_def first_run is_form_def one_def two_def three_def expect_symbol_def Let_def

lemmas module_eval = program_owner_def prepare_module_def parse_requirements_def prepare_external_type_definitions_def
  prepare_function_declarations_def compile_all_def analyze_root_def default_requirements_def new_analyzer_def
  parse_symbol_set_def finish_program_def scope_new_def with_functions_def with_types_def insert_definitions_def

lemmas call_eval = analyze_call_def analyze_named_arguments_def analyze_argument_def analyze_many_def argument_values_def
  check_signature_def dynamic_json_def profile_of_static_def bt_get_Cons

definition example_config :: analysis_config where
  "example_config =
     \<lparr>profile = profile_of_static
        \<lparr>sp_tools = [(lit ''search'', dynamic_json)], sp_host_operations = [], sp_bindings = []\<rparr>,
      limits = default_analysis_limits, unicode_alphabetic = (\<lambda>_. False), unicode_alphanumeric = (\<lambda>_. False)\<rparr>"

lemma example_config_sel:
  "limits example_config = default_analysis_limits"
  "profile example_config = profile_of_static
     \<lparr>sp_tools = [(lit ''search'', dynamic_json)], sp_host_operations = [], sp_bindings = []\<rparr>"
  "unicode_alphabetic example_config c = False" "unicode_alphanumeric example_config c = False"
  by (simp_all add: example_config_def)

text \<open>Source forms without positions.\<close>

definition sym :: "string \<Rightarrow> expr" where
  "sym s = Atom \<lparr>atom_kind = Symbol, atom_value = lit s, atom_span = empty_span\<rparr>"

definition form :: "expr list \<Rightarrow> expr" where
  "form es = EList es empty_span"

section \<open>A module that calls a tool\<close>

definition search_root :: expr where
  "search_root = form [sym ''eval'', form [sym ''requires'', form [sym ''tools'', sym ''search'']],
     form [sym ''call'', sym ''search'', form [sym ''q'', sym ''true'']]]"

definition search_body :: hir_expr where
  "search_body = hir (HCall (lit ''search'')
     [NamedArgument (lit ''q'') [hir (HLiteral (LBool True)) TBool [] empty_span] empty_span])
     TJson [Tool (lit ''search'')] empty_span"

lemma search_prepared:
  "prepare_module example_config (tl [sym ''eval'', form [sym ''requires'', form [sym ''tools'', sym ''search'']],
     form [sym ''call'', sym ''search'', form [sym ''q'', sym ''true'']]]) new_analyzer =
   Inr ([form [sym ''call'', sym ''search'', form [sym ''q'', sym ''true'']]],
     new_analyzer\<lparr>an_requirements := default_requirements\<lparr>req_tools := Some [lit ''search'']\<rparr>\<rparr>)"
  by (simp add: form_eval module_eval sym_def form_def validate_type_definitions_def)

lemma search_analyzed:
  "\<exists>an. analyze_root example_config Runtime root [form [sym ''call'', sym ''search'', form [sym ''q'', sym ''true'']]]
     (scope_new example_config, new_analyzer\<lparr>an_requirements := default_requirements\<lparr>req_tools := Some [lit ''search'']\<rparr>\<rparr>) =
   Inr (search_body, scope_new example_config, an) \<and>
     an_requirements an = default_requirements\<lparr>req_tools := Some [lit ''search'']\<rparr> \<and> definitions an = [] \<and> compiled_functions an = []"
  by (simp add: sema_run expr_run form_eval module_eval call_eval sym_def form_def analyze_step_def example_config_sel
      default_analysis_limits_def analyze_form_def pure_operator_of_def analyze_atom_def search_body_def chr_def)

lemma hir_visit_run:
  "hir_visit visitor (HirExpr k t es sp) s =
     (case visitor (HirExpr k t es sp) s of (descend, s') \<Rightarrow>
        if descend then fold (\<lambda>c s. hir_visit visitor c s) (kind_children k) s' else s')"
  by (subst hir_visit.simps) (simp add: children_def split: prod.split)

lemma search_admitted:
  "\<exists>m. analyze_module example_config (\<lambda>_. []) new_analyzer search_root = Inr m \<and> body (ma_program m) = search_body \<and>
     requirements (ma_program m) = default_requirements\<lparr>req_tools := Some [lit ''search'']\<rparr>"
proof -
  have "compile_all example_config (scope_new example_config, an) = Inr ((), scope_new example_config, an)"
    if "function_declarations an = []" "\<not> allow_internal_functions an" for an
    using that by (simp add: compile_all_def sema_run)
  with search_prepared search_analyzed [of search_root] show ?thesis
    by (auto simp: analyze_module_def search_root_def form_def sym_def form_eval program_owner_def new_analyzer_def
        finish_program_def default_requirements_def hir_node_count_def search_body_def hir_def hir_visit_run argument_values_def
        usize_max_def example_config_sel default_analysis_limits_def)
qed

section \<open>A pure module\<close>

definition double_form :: expr where
  "double_form = form [sym ''seq'', form [sym ''bind'', sym ''x'', sym ''3''], form [sym ''add'', sym ''x'', sym ''x'']]"

definition double_body :: hir_expr where
  "double_body = hir (HSeq [hir (HBind (lit ''x'') (hir (HLiteral (LInt 3)) TInt [] empty_span)) TNil [] empty_span,
     hir (HPure OpAdd [hir (HReference (lit ''x'') None) TInt [] empty_span, hir (HReference (lit ''x'') None) TInt [] empty_span])
       TInt [] empty_span]) TInt [] empty_span"

lemma text_run:
  "parse_i64 (lit ''3'') = Some 3" "parse_i64 (lit ''x'') = None" "looks_like_float_literal (lit ''x'') = False"
  "is_identifier example_config (lit ''x'')" "split_at 46 (lit ''x'') = [lit ''x'']" "lit ''x'' \<noteq> []"
  by (simp_all add: parse_i64_def split_sign_def is_ascii_digit_def digits_value_def checked_i64_def in_i64_def i64_min_def
      i64_max_def signed_def looks_like_float_literal_def is_identifier_def is_alphabetic_def lit_simps chr_def)

lemma example_scope: "scope_new example_config = \<lparr>bindings = Map.empty, allow_implicit_bindings = True\<rparr>"
  by (simp add: scope_new_def example_config_sel profile_of_static_def)

lemma double_analyzed:
  "\<exists>sc an. analyze_root example_config Runtime root [double_form] (scope_new example_config, new_analyzer) =
   Inr (double_body, sc, an) \<and> an_requirements an = default_requirements \<and> definitions an = [] \<and> compiled_functions an = []"
  by (simp add: sema_run expr_run form_eval sym_def form_def double_form_def analyze_step_def example_config_sel
      default_analysis_limits_def analyze_form_def pure_operator_of_def analyze_atom_def chr_def analyze_seq_def analyze_many_def
      analyze_bind_def expect_binding_name_def double_body_def analyze_root_def new_analyzer_def example_scope text_run
      analyze_pure_def operator_type_def analyze_reference_def lookup_binding_def bind_name_def numeric_result_def)

lemma double_admitted:
  "\<exists>m. analyze_module example_config (\<lambda>_. []) new_analyzer (form [sym ''eval'', double_form]) = Inr m \<and>
     body (ma_program m) = double_body \<and> owner (ma_program m) = Runtime"
proof -
  have "compile_all example_config (scope_new example_config, an) = Inr ((), scope_new example_config, an)"
    if "function_declarations an = []" "\<not> allow_internal_functions an" for an
    using that by (simp add: compile_all_def sema_run)
  moreover have "prepare_module example_config [double_form] new_analyzer = Inr ([double_form], new_analyzer)"
    by (simp add: form_eval module_eval double_form_def sym_def form_def validate_type_definitions_def)
  moreover note double_analyzed [of "form [sym ''eval'', double_form]"]
  ultimately show ?thesis
    by (auto simp: analyze_module_def form_def sym_def form_eval program_owner_def new_analyzer_def
        finish_program_def default_requirements_def hir_node_count_def double_body_def hir_def hir_visit_run argument_values_def
        usize_max_def example_config_sel default_analysis_limits_def)
qed

end
