(* ===== verification/Admission_Queue.thy ===== *)
theory Admission_Queue
  imports Rust_Number "HOL-Library.Product_Lexorder" "HOL-Library.Multiset"
begin

text \<open>
  The admission policy of the single-node scheduler (\<open>morphz/src/admission.rs\<close>): priority classes
  with aging, the hierarchical round-robin queue and the capacity decision of the reserved lane.
  Times are signed 64-bit integers, written as \<open>int\<close> with the saturation spelled out; maps are
  ordered maps, the set of queued identities a set.
\<close>

section \<open>Classes and keys\<close>

datatype admission_class = InteractiveControl | Delivery | Objective | ScheduledBackground | Maintenance

definition all_classes :: "admission_class list" where
  "all_classes = [InteractiveControl, Delivery, Objective, ScheduledBackground, Maintenance]"

fun rank :: "admission_class \<Rightarrow> nat" where
  "rank InteractiveControl = 0"
| "rank Delivery = 1"
| "rank Objective = 2"
| "rank ScheduledBackground = 3"
| "rank Maintenance = 4"

definition from_rank :: "nat \<Rightarrow> admission_class" where
  "from_rank r =
     (if r = 0 then InteractiveControl else if r = 1 then Delivery else if r = 2 then Objective
      else if r = 3 then ScheduledBackground else Maintenance)"

fun class_as_str :: "admission_class \<Rightarrow> ustring" where
  "class_as_str InteractiveControl = lit ''interactive_control''"
| "class_as_str Delivery = lit ''delivery''"
| "class_as_str Objective = lit ''objective''"
| "class_as_str ScheduledBackground = lit ''scheduled_background''"
| "class_as_str Maintenance = lit ''maintenance''"

definition uses_reserved_lane :: "admission_class \<Rightarrow> bool" where
  "uses_reserved_lane c \<longleftrightarrow> c = InteractiveControl \<or> c = Delivery"

lemma rank_from_rank: "rank (from_rank r) = min r 4"
  by (auto simp: from_rank_def)

lemma from_rank_rank [simp]: "from_rank (rank c) = c"
  by (cases c) (auto simp: from_rank_def)

lemma rank_inject [simp]: "rank a = rank b \<longleftrightarrow> a = b"
  by (metis from_rank_rank)

text \<open>The derived order: by rank.\<close>

instantiation admission_class :: linorder
begin

definition less_eq_admission_class :: "admission_class \<Rightarrow> admission_class \<Rightarrow> bool" where
  "less_eq_admission_class a b \<longleftrightarrow> rank a \<le> rank b"

definition less_admission_class :: "admission_class \<Rightarrow> admission_class \<Rightarrow> bool" where
  "less_admission_class a b \<longleftrightarrow> rank a < rank b"

instance
  by standard (auto simp: less_eq_admission_class_def less_admission_class_def)

end

record admission_key =
  ak_id :: ustring
  ak_agent :: ustring
  ak_context :: ustring
  ak_session :: ustring
  ak_class :: admission_class
  ak_created :: int

record 'p admission_entry =
  ae_key :: admission_key
  ae_payload :: 'p

section \<open>Aging\<close>

record aging_policy =
  promotion_interval :: "nat option"

definition aging_disabled :: aging_policy where
  "aging_disabled = \<lparr>promotion_interval = None\<rparr>"

definition aging_every :: "nat \<Rightarrow> aging_policy" where
  "aging_every ms = \<lparr>promotion_interval = Some ms\<rparr>"

definition default_aging :: aging_policy where
  "default_aging = aging_every 30000"

text \<open>\<open>i64::saturating_sub\<close>\<close>

definition i64_saturating_sub :: "int \<Rightarrow> int \<Rightarrow> int" where
  "i64_saturating_sub a b = max i64_min (min i64_max (a - b))"

definition effective_class :: "aging_policy \<Rightarrow> admission_class \<Rightarrow> int \<Rightarrow> int \<Rightarrow> admission_class" where
  "effective_class aging declared created now =
     (case promotion_interval aging of
        None \<Rightarrow> declared
      | Some interval \<Rightarrow>
          let waited = nat (max (i64_saturating_sub now created) 0);
              promotions = min (waited div max interval 1) (rank declared) in
          from_rank (rank declared - promotions))"

section \<open>The queue\<close>

datatype queue_error = EmptyField ustring string | DuplicateId ustring

record fairness_checkpoint =
  last_agent_by_class :: "(admission_class \<times> ustring) list"
  last_context_by_agent :: "(admission_class \<times> ustring \<times> ustring) list"
  last_session_by_context :: "(admission_class \<times> ustring \<times> ustring \<times> ustring) list"

definition no_checkpoint :: fairness_checkpoint where
  "no_checkpoint = \<lparr>last_agent_by_class = [], last_context_by_agent = [], last_session_by_context = []\<rparr>"

record fairness_cursor =
  cur_agents :: "(admission_class \<times> ustring) list"
  cur_contexts :: "((admission_class \<times> ustring) \<times> ustring) list"
  cur_sessions :: "((admission_class \<times> ustring \<times> ustring) \<times> ustring) list"

definition no_cursor :: fairness_cursor where
  "no_cursor = \<lparr>cur_agents = [], cur_contexts = [], cur_sessions = []\<rparr>"

definition from_checkpoint :: "fairness_checkpoint \<Rightarrow> fairness_cursor" where
  "from_checkpoint cp =
     \<lparr>cur_agents = bt_from (last_agent_by_class cp),
      cur_contexts = bt_from (map (\<lambda>(class, agent, ctxt). ((class, agent), ctxt)) (last_context_by_agent cp)),
      cur_sessions = bt_from (map (\<lambda>(class, agent, ctxt, session). ((class, agent, ctxt), session)) (last_session_by_context cp))\<rparr>"

definition cursor_checkpoint :: "fairness_cursor \<Rightarrow> fairness_checkpoint" where
  "cursor_checkpoint cur =
     \<lparr>last_agent_by_class = cur_agents cur,
      last_context_by_agent = map (\<lambda>((class, agent), ctxt). (class, agent, ctxt)) (cur_contexts cur),
      last_session_by_context = map (\<lambda>((class, agent, ctxt), session). (class, agent, ctxt, session)) (cur_sessions cur)\<rparr>"

record 'p fair_queue =
  fq_entries :: "'p admission_entry list"
  fq_ids :: "ustring set"
  fq_cursor :: fairness_cursor
  fq_aging :: aging_policy

definition queue_new :: "aging_policy \<Rightarrow> 'p fair_queue" where
  "queue_new aging = \<lparr>fq_entries = [], fq_ids = {}, fq_cursor = no_cursor, fq_aging = aging\<rparr>"

definition validate_key :: "admission_key \<Rightarrow> queue_error + unit" where
  "validate_key k =
     (case find (\<lambda>(field, v). v = [])
        [(''id'', ak_id k), (''agent_id'', ak_agent k), (''context_id'', ak_context k), (''session_id'', ak_session k)] of
        Some (field, _) \<Rightarrow> Inl (EmptyField (ak_id k) field)
      | None \<Rightarrow> Inr ())"

definition queue_push :: "'p admission_entry \<Rightarrow> 'p fair_queue \<Rightarrow> queue_error + 'p fair_queue" where
  "queue_push e q =
     and_then (validate_key (ae_key e)) (\<lambda>_.
       if ak_id (ae_key e) \<in> fq_ids q then Inl (DuplicateId (ak_id (ae_key e)))
       else Inr (q\<lparr>fq_ids := insert (ak_id (ae_key e)) (fq_ids q), fq_entries := fq_entries q @ [e]\<rparr>))"

text \<open>\<open>Ordering::then_with\<close>; the order of rows.\<close>

fun then_with :: "ordering \<Rightarrow> ordering \<Rightarrow> ordering" where
  "then_with Equal o2 = o2"
| "then_with o1 o2 = o1"

definition cmp_of :: "'a::linorder \<Rightarrow> 'a \<Rightarrow> ordering" where
  "cmp_of a b = (if a < b then Less else if a = b then Equal else Greater)"

definition fifo_cmp :: "admission_key \<Rightarrow> admission_key \<Rightarrow> ordering" where
  "fifo_cmp l r =
     then_with (cmp_of (ak_created l) (ak_created r))
       (then_with (cmp_of (ak_id l) (ak_id r))
         (then_with (cmp_of (ak_agent l) (ak_agent r))
           (then_with (cmp_of (ak_context l) (ak_context r))
             (cmp_of (ak_session l) (ak_session r)))))"

text \<open>\<open>slice::sort_by\<close>, a stable sort; \<open>Iterator::min_by\<close>, which keeps the first of equal elements.\<close>

fun insert_by :: "('a \<Rightarrow> 'a \<Rightarrow> ordering) \<Rightarrow> 'a \<Rightarrow> 'a list \<Rightarrow> 'a list" where
  "insert_by c x [] = [x]"
| "insert_by c x (y # ys) = (if c x y = Greater then y # insert_by c x ys else x # y # ys)"

definition sort_by :: "('a \<Rightarrow> 'a \<Rightarrow> ordering) \<Rightarrow> 'a list \<Rightarrow> 'a list" where
  "sort_by c xs = foldr (insert_by c) xs []"

fun min_by :: "('a \<Rightarrow> 'a \<Rightarrow> ordering) \<Rightarrow> 'a list \<Rightarrow> 'a option" where
  "min_by c [] = None"
| "min_by c (x # xs) = Some (fold (\<lambda>y best. if c best y = Greater then y else best) xs x)"

definition rebuild_with_checkpoint ::
  "'p admission_entry list \<Rightarrow> aging_policy \<Rightarrow> fairness_checkpoint \<Rightarrow> queue_error + 'p fair_queue" where
  "rebuild_with_checkpoint es aging cp =
     map_ok (\<lambda>q. q\<lparr>fq_entries := sort_by (\<lambda>l r. fifo_cmp (ae_key l) (ae_key r)) (fq_entries q)\<rparr>)
       (try_fold (\<lambda>q e. queue_push e q)
         \<lparr>fq_entries = [], fq_ids = {}, fq_cursor = from_checkpoint cp, fq_aging = aging\<rparr> es)"

definition rebuild :: "'p admission_entry list \<Rightarrow> aging_policy \<Rightarrow> queue_error + 'p fair_queue" where
  "rebuild es aging = rebuild_with_checkpoint es aging no_checkpoint"

definition queue_len :: "'p fair_queue \<Rightarrow> nat" where
  "queue_len q = length (fq_entries q)"

definition queue_is_empty :: "'p fair_queue \<Rightarrow> bool" where
  "queue_is_empty q \<longleftrightarrow> fq_entries q = []"

definition queue_checkpoint :: "'p fair_queue \<Rightarrow> fairness_checkpoint" where
  "queue_checkpoint q = cursor_checkpoint (fq_cursor q)"

text \<open>\<open>Iterator::position\<close> and \<open>Vec::swap_remove\<close>.\<close>

fun position_of :: "('a \<Rightarrow> bool) \<Rightarrow> 'a list \<Rightarrow> nat option" where
  "position_of P [] = None"
| "position_of P (x # xs) = (if P x then Some 0 else map_option Suc (position_of P xs))"

definition swap_remove :: "nat \<Rightarrow> 'a list \<Rightarrow> 'a list" where
  "swap_remove i xs = butlast (xs[i := last xs])"

definition queue_remove :: "ustring \<Rightarrow> 'p fair_queue \<Rightarrow> 'p admission_entry option \<times> 'p fair_queue" where
  "queue_remove name q =
     (case position_of (\<lambda>e. ak_id (ae_key e) = name) (fq_entries q) of
        None \<Rightarrow> (None, q)
      | Some i \<Rightarrow> (Some (fq_entries q ! i),
          q\<lparr>fq_ids := fq_ids q - {name}, fq_entries := swap_remove i (fq_entries q)\<rparr>))"

section \<open>Selection\<close>

record group_head =
  gh_id :: ustring
  gh_created :: int
  gh_oldest :: ustring

definition update_if_older :: "admission_key \<Rightarrow> group_head \<Rightarrow> group_head" where
  "update_if_older k h =
     (if (ak_created k, ak_id k) < (gh_created h, gh_oldest h)
      then h\<lparr>gh_created := ak_created k, gh_oldest := ak_id k\<rparr> else h)"

definition ordered_group_ids :: "(ustring \<times> group_head) list \<Rightarrow> ustring list" where
  "ordered_group_ids groups =
     map gh_id (sort_by (\<lambda>l r. then_with (cmp_of (gh_created l) (gh_created r))
         (then_with (cmp_of (gh_oldest l) (gh_oldest r)) (cmp_of (gh_id l) (gh_id r)))) (map snd groups))"

definition next_group :: "ustring list \<Rightarrow> ustring option \<Rightarrow> ustring option" where
  "next_group groups previous =
     (if groups = [] then None
      else
        let index = (case Option.bind previous (\<lambda>l. position_of (\<lambda>g. g = l) groups) of
            Some i \<Rightarrow> (i + 1) mod length groups | None \<Rightarrow> 0) in
        Some (groups ! index))"

definition group_step :: "(admission_key \<Rightarrow> ustring) \<Rightarrow> admission_key \<Rightarrow> (ustring \<times> group_head) list \<Rightarrow> (ustring \<times> group_head) list" where
  "group_step f k groups =
     (case bt_get groups (f k) of
        Some h \<Rightarrow> bt_insert (f k) (update_if_older k h) groups
      | None \<Rightarrow> bt_insert (f k) \<lparr>gh_id = f k, gh_created = ak_created k, gh_oldest = ak_id k\<rparr> groups)"

definition group_heads ::
  "'p admission_entry list \<Rightarrow> nat list \<Rightarrow> (admission_key \<Rightarrow> ustring) \<Rightarrow> (ustring \<times> group_head) list" where
  "group_heads es indices f = fold (\<lambda>i groups. group_step f (ae_key (es ! i)) groups) indices []"

definition eligible_rows ::
  "'p admission_entry list \<Rightarrow> aging_policy \<Rightarrow> int \<Rightarrow> (admission_key \<Rightarrow> 'p \<Rightarrow> bool) \<Rightarrow> (nat \<times> admission_class) list" where
  "eligible_rows es aging now admissible =
     map (\<lambda>(i, e). (i, effective_class aging (ak_class (ae_key e)) (ak_created (ae_key e)) now))
       (filter (\<lambda>(i, e). admissible (ae_key e) (ae_payload e)) (enumerate 0 es))"

definition select_index ::
  "'p admission_entry list \<Rightarrow> fairness_cursor \<Rightarrow> aging_policy \<Rightarrow> int \<Rightarrow> (admission_key \<Rightarrow> 'p \<Rightarrow> bool) \<Rightarrow> nat option" where
  "select_index es cur aging now admissible =
     (let eligible = eligible_rows es aging now admissible in
      Option.bind (min_by cmp_of (map snd eligible)) (\<lambda>class.
        let class_indices = map fst (filter (\<lambda>(i, effective). effective = class) eligible);
            agents = ordered_group_ids (group_heads es class_indices ak_agent) in
        Option.bind (next_group agents (bt_get (cur_agents cur) class)) (\<lambda>agent.
          let agent_indices = filter (\<lambda>i. ak_agent (ae_key (es ! i)) = agent) class_indices;
              ctxts = ordered_group_ids (group_heads es agent_indices ak_context) in
          Option.bind (next_group ctxts (bt_get (cur_contexts cur) (class, agent))) (\<lambda>ctxt.
            let context_indices = filter (\<lambda>i. ak_context (ae_key (es ! i)) = ctxt) agent_indices;
                sessions = ordered_group_ids (group_heads es context_indices ak_session) in
            Option.bind (next_group sessions (bt_get (cur_sessions cur) (class, agent, ctxt))) (\<lambda>session.
              min_by (\<lambda>l r. fifo_cmp (ae_key (es ! l)) (ae_key (es ! r)))
                (filter (\<lambda>i. ak_session (ae_key (es ! i)) = session) context_indices))))))"

definition peek_next_where :: "int \<Rightarrow> (admission_key \<Rightarrow> 'p \<Rightarrow> bool) \<Rightarrow> 'p fair_queue \<Rightarrow> 'p admission_entry option" where
  "peek_next_where now admissible q =
     map_option (\<lambda>i. fq_entries q ! i) (select_index (fq_entries q) (fq_cursor q) (fq_aging q) now admissible)"

definition advance_cursor :: "admission_class \<Rightarrow> admission_key \<Rightarrow> fairness_cursor \<Rightarrow> fairness_cursor" where
  "advance_cursor class k cur =
     \<lparr>cur_agents = bt_insert class (ak_agent k) (cur_agents cur),
      cur_contexts = bt_insert (class, ak_agent k) (ak_context k) (cur_contexts cur),
      cur_sessions = bt_insert (class, ak_agent k, ak_context k) (ak_session k) (cur_sessions cur)\<rparr>"

definition pop_next_where ::
  "int \<Rightarrow> (admission_key \<Rightarrow> 'p \<Rightarrow> bool) \<Rightarrow> 'p fair_queue \<Rightarrow> ('p admission_entry \<times> 'p fair_queue) option" where
  "pop_next_where now admissible q =
     map_option (\<lambda>i.
       let selected = ae_key (fq_entries q ! i);
           class = effective_class (fq_aging q) (ak_class selected) (ak_created selected) now in
       (fq_entries q ! i,
        q\<lparr>fq_cursor := advance_cursor class selected (fq_cursor q),
          fq_ids := fq_ids q - {ak_id selected},
          fq_entries := swap_remove i (fq_entries q)\<rparr>))
       (select_index (fq_entries q) (fq_cursor q) (fq_aging q) now admissible)"

definition peek_next :: "int \<Rightarrow> 'p fair_queue \<Rightarrow> 'p admission_entry option" where
  "peek_next now q = peek_next_where now (\<lambda>_ _. True) q"

definition pop_next :: "int \<Rightarrow> 'p fair_queue \<Rightarrow> ('p admission_entry \<times> 'p fair_queue) option" where
  "pop_next now q = pop_next_where now (\<lambda>_ _. True) q"

section \<open>Capacity\<close>

record reserved_lane_capacity =
  total_slots :: nat
  dialogue_delivery_slots :: nat

record in_flight_usage =
  usage_total :: nat
  usage_dialogue_delivery :: nat

datatype capacity_decision = Admit | AtCapacity | ReservedForDialogueDelivery

definition reserved_lane_decision ::
  "admission_class \<Rightarrow> reserved_lane_capacity \<Rightarrow> in_flight_usage \<Rightarrow> capacity_decision" where
  "reserved_lane_decision class capacity u =
     (if total_slots capacity = 0 \<or> total_slots capacity \<le> usage_total u then AtCapacity
      else if uses_reserved_lane class then Admit
      else
        let reserved = (if total_slots capacity < dialogue_delivery_slots capacity
              then total_slots capacity else dialogue_delivery_slots capacity);
            unused_reservation = reserved - usage_dialogue_delivery u;
            free_slots = total_slots capacity - usage_total u in
        if unused_reservation < free_slots then Admit else ReservedForDialogueDelivery)"

end
