(* ===== verification/Admission_Selection.thy ===== *)
theory Admission_Selection
  imports Admission_Queue
begin

text \<open>
  The selection of \<open>admission.rs\<close> against a reference definition on keys. The code selects by
  indices into the storage order; \<open>select_key\<close> computes the selected key from the keys alone, and
  depends only on the set of eligible keys.
\<close>

section \<open>Comparators\<close>

lemma cmp_of_pair: "then_with (cmp_of a b) (cmp_of c d) = cmp_of (a, c) (b, d)"
  by (auto simp: cmp_of_def less_prod_def)

definition fifo_key :: "admission_key \<Rightarrow> int \<times> ustring \<times> ustring \<times> ustring \<times> ustring" where
  "fifo_key k = (ak_created k, ak_id k, ak_agent k, ak_context k, ak_session k)"

lemma fifo_cmp_key: "fifo_cmp l r = cmp_of (fifo_key l) (fifo_key r)"
  by (simp add: fifo_cmp_def fifo_key_def cmp_of_pair)

lemma cmp_of_Greater [simp]: "cmp_of a b = Greater \<longleftrightarrow> b < a"
  by (auto simp: cmp_of_def)

lemma sort_by_key: "sort_by (\<lambda>l r. cmp_of (f l) (f r)) xs = sort_key f xs"
proof -
  have "insert_by (\<lambda>l r. cmp_of (f l) (f r)) x ys = insort_key f x ys" for x ys
    by (induction ys) (auto simp: not_less)
  then have "insert_by (\<lambda>l r. cmp_of (f l) (f r)) = insort_key f" by (simp add: fun_eq_iff)
  then show ?thesis by (simp add: sort_by_def sort_key_def)
qed

lemma min_by_map: "map_option h (min_by (\<lambda>l r. c (h l) (h r)) xs) = min_by c (map h xs)"
proof (cases xs)
  case (Cons x ys)
  have "h (fold (\<lambda>y best. if c (h best) (h y) = Greater then y else best) ys x) =
      fold (\<lambda>y best. if c best y = Greater then y else best) (map h ys) (h x)"
    by (induction ys arbitrary: x) auto
  with Cons show ?thesis by simp
qed simp

lemma min_by_None [simp]: "min_by c xs = None \<longleftrightarrow> xs = []"
  by (cases xs) auto

lemma min_by_Some:
  assumes "min_by (\<lambda>l r. cmp_of (f l) (f r)) xs = Some m"
  shows "m \<in> set xs \<and> (\<forall>x \<in> set xs. f m \<le> f x)"
proof (cases xs)
  case (Cons x ys)
  have "let b = fold (\<lambda>y best. if cmp_of (f best) (f y) = Greater then y else best) ys x
      in b \<in> set (x # ys) \<and> (\<forall>y \<in> set (x # ys). f b \<le> f y)"
  proof (induction ys arbitrary: x)
    case (Cons y ys)
    show ?case
    proof (cases "f y < f x")
      case True
      with Cons [of y] show ?thesis by (auto simp: Let_def)
    next
      case False
      with Cons [of x] show ?thesis by (auto simp: Let_def not_less intro: order_trans)
    qed
  qed simp
  with assms Cons show ?thesis by (simp add: Let_def)
qed (use assms in simp)

lemma min_by_fifo: "min_by fifo_cmp xs = Some m \<Longrightarrow> m \<in> set xs \<and> (\<forall>x \<in> set xs. fifo_key m \<le> fifo_key x)"
  using min_by_Some [of fifo_key xs m] unfolding fifo_cmp_key [symmetric] .

lemma min_by_Min: "min_by cmp_of xs = (if xs = [] then None else Some (Min (set xs)))"
proof (cases "min_by cmp_of xs")
  case (Some m)
  from min_by_Some [of "\<lambda>x. x" xs m] Some have "m \<in> set xs" "\<forall>x \<in> set xs. m \<le> x" by auto
  then have "Min (set xs) = m" by (intro Min_eqI) auto
  with Some \<open>m \<in> set xs\<close> show ?thesis by auto
qed simp

section \<open>Groups\<close>

definition group_map :: "(admission_key \<Rightarrow> ustring) \<Rightarrow> admission_key list \<Rightarrow> (ustring \<times> group_head) list" where
  "group_map f ks = fold (group_step f) ks []"

lemma group_heads_map: "group_heads es is f = group_map f (map (\<lambda>i. ae_key (es ! i)) is)"
  by (simp add: group_heads_def group_map_def fold_map comp_def)

definition age :: "admission_key \<Rightarrow> int \<times> ustring" where
  "age k = (ak_created k, ak_id k)"

definition head_of :: "ustring \<Rightarrow> int \<times> ustring \<Rightarrow> group_head" where
  "head_of g a = \<lparr>gh_id = g, gh_created = fst a, gh_oldest = snd a\<rparr>"

definition oldest :: "(admission_key \<Rightarrow> ustring) \<Rightarrow> admission_key list \<Rightarrow> ustring \<Rightarrow> int \<times> ustring" where
  "oldest f ks g = Min (age ` {k \<in> set ks. f k = g})"

lemma update_head: "update_if_older k (head_of g a) = head_of g (min (age k) a)"
  by (auto simp: update_if_older_def head_of_def age_def min_def not_less)

lemma oldest_snoc:
  "oldest f (ks @ [k]) g =
     (if f k = g then (if g \<in> f ` set ks then min (age k) (oldest f ks g) else age k) else oldest f ks g)"
proof (cases "f k = g")
  case True
  then have "{x \<in> set (ks @ [k]). f x = g} = insert k {x \<in> set ks. f x = g}" by auto
  moreover have "{x \<in> set ks. f x = g} = {} \<longleftrightarrow> g \<notin> f ` set ks" by auto
  ultimately show ?thesis using True by (cases "{x \<in> set ks. f x = g} = {}") (simp_all add: oldest_def Min_insert)
next
  case False
  then have "{x \<in> set (ks @ [k]). f x = g} = {x \<in> set ks. f x = g}" by auto
  with False show ?thesis by (simp add: oldest_def)
qed

lemma group_map_get:
  "bt_wf (group_map f ks) \<and>
   (\<forall>g. bt_get (group_map f ks) g = (if g \<in> f ` set ks then Some (head_of g (oldest f ks g)) else None))"
proof (induction ks rule: rev_induct)
  case Nil
  then show ?case by (simp add: group_map_def)
next
  case (snoc k ks)
  have step: "group_map f (ks @ [k]) = group_step f k (group_map f ks)" by (simp add: group_map_def)
  show ?case
  proof (cases "f k \<in> f ` set ks")
    case True
    with snoc have "bt_get (group_map f ks) (f k) = Some (head_of (f k) (oldest f ks (f k)))" by simp
    with snoc True show ?thesis by (simp add: step group_step_def update_head oldest_snoc)
  next
    case False
    with snoc have "bt_get (group_map f ks) (f k) = None" by simp
    moreover have "\<lparr>gh_id = f k, gh_created = ak_created k, gh_oldest = ak_id k\<rparr> = head_of (f k) (age k)"
      by (simp add: head_of_def age_def)
    ultimately show ?thesis using snoc False by (simp add: step group_step_def oldest_snoc)
  qed
qed

lemma group_map_set:
  assumes "set ks = set ks'"
  shows "group_map f ks = group_map f ks'"
proof -
  have "oldest f ks = oldest f ks'" by (simp add: oldest_def assms fun_eq_iff)
  with assms group_map_get [of f ks] group_map_get [of f ks'] show ?thesis
    by (intro bt_wf_ext ext) auto
qed

definition group_order :: "(admission_key \<Rightarrow> ustring) \<Rightarrow> admission_key list \<Rightarrow> ustring list" where
  "group_order f ks = ordered_group_ids (group_map f ks)"

lemma group_map_ids: "map gh_id (map snd (group_map f ks)) = map fst (group_map f ks)"
proof -
  have "gh_id (snd gh) = fst gh" if "gh \<in> set (group_map f ks)" for gh
  proof -
    from that group_map_get [of f ks] have "bt_get (group_map f ks) (fst gh) = Some (snd gh)"
      by (intro bt_get_wf) auto
    moreover from this group_map_get [of f ks] have "bt_get (group_map f ks) (fst gh) = Some (head_of (fst gh) (oldest f ks (fst gh)))"
      by (metis option.distinct(1))
    ultimately have "snd gh = head_of (fst gh) (oldest f ks (fst gh))" by simp
    then show ?thesis by (simp add: head_of_def)
  qed
  then show ?thesis by simp
qed

lemma group_order_eq:
  "group_order f ks = map gh_id (sort_key (\<lambda>h. (gh_created h, gh_oldest h, gh_id h)) (map snd (group_map f ks)))"
  by (simp add: group_order_def ordered_group_ids_def cmp_of_pair sort_by_key)

lemma mset_group_order: "mset (group_order f ks) = mset (map fst (group_map f ks))"
  unfolding group_order_eq group_map_ids [symmetric] mset_map mset_sort ..

lemma set_group_order [simp]: "set (group_order f ks) = f ` set ks"
proof -
  have "set (group_order f ks) = fst ` set (group_map f ks)"
    using mset_eq_setD [OF mset_group_order] by simp
  also have "\<dots> = f ` set ks"
  proof (rule set_eqI)
    fix g
    have "g \<in> fst ` set (group_map f ks) \<longleftrightarrow> bt_get (group_map f ks) g \<noteq> None" by (simp add: bt_get_None_iff)
    also have "\<dots> \<longleftrightarrow> g \<in> f ` set ks" using group_map_get [of f ks] by simp
    finally show "g \<in> fst ` set (group_map f ks) \<longleftrightarrow> g \<in> f ` set ks" .
  qed
  finally show ?thesis .
qed

lemma distinct_group_order: "distinct (group_order f ks)"
  using mset_eq_imp_distinct_iff [OF mset_group_order] group_map_get [of f ks] by (simp add: bt_wf_distinct)

lemma group_order_set: "set ks = set ks' \<Longrightarrow> group_order f ks = group_order f ks'"
  unfolding group_order_def by (rule arg_cong [OF group_map_set])

section \<open>Rotation\<close>

lemma position_of_Some: "position_of P xs = Some i \<Longrightarrow> i < length xs \<and> P (xs ! i) \<and> (\<forall>j < i. \<not> P (xs ! j))"
proof (induction xs arbitrary: i)
  case (Cons x xs)
  then show ?case by (auto simp: nth_Cons' less_Suc_eq_0_disj split: if_splits)
qed simp

lemma position_of_None: "position_of P xs = None \<longleftrightarrow> (\<forall>x \<in> set xs. \<not> P x)"
  by (induction xs) auto

lemma next_group_None [simp]: "next_group gs prev = None \<longleftrightarrow> gs = []"
  by (simp add: next_group_def Let_def)

lemma next_group_in: "next_group gs prev = Some g \<Longrightarrow> g \<in> set gs"
  by (auto simp: next_group_def Let_def split: if_splits option.splits dest!: position_of_Some intro!: nth_mem)

lemma next_group_rotates:
  assumes "next_group gs (Some p) = Some p" and "distinct gs"
  shows "gs = [p]"
proof -
  from next_group_in [OF assms(1)] obtain i where i: "position_of (\<lambda>g. g = p) gs = Some i"
    using position_of_None [of "\<lambda>g. g = p" gs] by fastforce
  then have "gs ! i = p" "i < length gs" using position_of_Some by fastforce+
  moreover from assms(1) i have "gs ! ((i + 1) mod length gs) = p" by (auto simp: next_group_def split: if_splits)
  moreover have "(i + 1) mod length gs < length gs" using \<open>i < length gs\<close> by (intro mod_less_divisor) auto
  ultimately have "(i + 1) mod length gs = i" using assms(2) by (metis nth_eq_iff_index_eq)
  with \<open>i < length gs\<close> have "length gs = 1" by (cases "i + 1 = length gs") auto
  with \<open>gs ! i = p\<close> \<open>i < length gs\<close> show ?thesis by (cases gs) auto
qed

section \<open>The reference selection\<close>

definition choose_group :: "(admission_key \<Rightarrow> ustring) \<Rightarrow> ustring option \<Rightarrow> admission_key list \<Rightarrow> ustring option" where
  "choose_group f prev ks = next_group (group_order f ks) prev"

definition class_at :: "aging_policy \<Rightarrow> int \<Rightarrow> admission_key \<Rightarrow> admission_class" where
  "class_at aging now k = effective_class aging (ak_class k) (ak_created k) now"

definition select_key :: "fairness_cursor \<Rightarrow> aging_policy \<Rightarrow> int \<Rightarrow> admission_key list \<Rightarrow> admission_key option" where
  "select_key cur aging now ks =
     Option.bind (min_by cmp_of (map (class_at aging now) ks)) (\<lambda>class.
       let k1 = filter (\<lambda>k. class_at aging now k = class) ks in
       Option.bind (choose_group ak_agent (bt_get (cur_agents cur) class) k1) (\<lambda>agent.
         let k2 = filter (\<lambda>k. ak_agent k = agent) k1 in
         Option.bind (choose_group ak_context (bt_get (cur_contexts cur) (class, agent)) k2) (\<lambda>ctxt.
           let k3 = filter (\<lambda>k. ak_context k = ctxt) k2 in
           Option.bind (choose_group ak_session (bt_get (cur_sessions cur) (class, agent, ctxt)) k3) (\<lambda>session.
             min_by fifo_cmp (filter (\<lambda>k. ak_session k = session) k3)))))"

definition eligible_keys :: "'p admission_entry list \<Rightarrow> (admission_key \<Rightarrow> 'p \<Rightarrow> bool) \<Rightarrow> admission_key list" where
  "eligible_keys es admissible = map ae_key (filter (\<lambda>e. admissible (ae_key e) (ae_payload e)) es)"

lemma map_option_bind: "map_option h (Option.bind x f) = Option.bind x (\<lambda>y. map_option h (f y))"
  by (cases x) auto

definition rows :: "'p admission_entry list \<Rightarrow> (admission_key \<Rightarrow> 'p \<Rightarrow> bool) \<Rightarrow> nat list" where
  "rows es admissible = map fst (filter (\<lambda>(i, e). admissible (ae_key e) (ae_payload e)) (enumerate 0 es))"

lemma enumerate_filter: "map snd (filter (\<lambda>ie. P (snd ie)) (enumerate n es)) = filter P es"
  by (induction es arbitrary: n) auto

lemma rows_keys: "map (\<lambda>i. ae_key (es ! i)) (rows es admissible) = eligible_keys es admissible"
proof -
  have "map (\<lambda>i. ae_key (es ! i)) (rows es admissible) =
      map ae_key (map snd (filter (\<lambda>(i, e). admissible (ae_key e) (ae_payload e)) (enumerate 0 es)))"
    by (auto simp: rows_def in_set_enumerate_eq)
  also have "\<dots> = map ae_key (filter (\<lambda>e. admissible (ae_key e) (ae_payload e)) es)"
    using enumerate_filter [of "\<lambda>e. admissible (ae_key e) (ae_payload e)" 0 es] by (simp only: case_prod_unfold)
  finally show ?thesis by (simp add: eligible_keys_def)
qed

lemma eligible_rows_eq:
  "eligible_rows es aging now admissible = map (\<lambda>i. (i, class_at aging now (ae_key (es ! i)))) (rows es admissible)"
  by (auto simp: eligible_rows_def rows_def class_at_def in_set_enumerate_eq)

lemma select_index_key:
  "map_option (\<lambda>i. ae_key (es ! i)) (select_index es cur aging now admissible) =
     select_key cur aging now (eligible_keys es admissible)"
proof -
  have classes: "map snd (eligible_rows es aging now admissible) = map (class_at aging now) (eligible_keys es admissible)"
    by (simp add: eligible_rows_eq rows_keys [symmetric])
  show ?thesis
    unfolding select_index_def select_key_def Let_def map_option_bind classes unfolding eligible_rows_eq
      group_heads_map choose_group_def group_order_def rows_keys [symmetric] filter_map comp_def min_by_map [where h = "\<lambda>i. ae_key (es ! i)" and c = fifo_cmp]
    by (intro arg_cong2 [where f = Option.bind] ext refl) (simp_all add: comp_def)
qed

end
