(* ===== verification/Admission_Fairness.thy ===== *)
theory Admission_Fairness
  imports Admission_Selection
begin

text \<open>
  Correctness of the admission queue: its invariant, what each operation does to its rows, the
  contract its clients rely on (locale \<open>admission_rows\<close>), and the policy: which row is selected,
  that the choice does not depend on the storage order, that service rotates, and that age
  promotes.
\<close>

section \<open>Which row is selected\<close>

definition same_class :: "aging_policy \<Rightarrow> int \<Rightarrow> admission_class \<Rightarrow> admission_key list \<Rightarrow> admission_key list" where
  "same_class aging now cls ks = filter (\<lambda>k. class_at aging now k = cls) ks"

lemma choose_group_None [simp]: "choose_group f prev ks = None \<longleftrightarrow> ks = []"
  by (metis choose_group_def image_is_empty next_group_None set_empty set_group_order)

lemma choose_group_in: "choose_group f prev ks = Some g \<Longrightarrow> \<exists>k \<in> set ks. f k = g"
  by (fastforce simp: choose_group_def dest: next_group_in)

lemma choose_group_filter: "choose_group f prev ks = Some g \<Longrightarrow> filter (\<lambda>k. f k = g) ks \<noteq> []"
  by (auto simp: filter_empty_conv dest: choose_group_in)

lemma choose_group_rotates:
  assumes "choose_group f (Some g) ks = Some g" and "k \<in> set ks"
  shows "f k = g"
proof -
  have "group_order f ks = [g]"
    using assms(1) next_group_rotates distinct_group_order by (simp add: choose_group_def)
  then have "f ` set ks = {g}" by (metis empty_set list.simps(15) set_group_order)
  with assms(2) show ?thesis by auto
qed

lemma choose_group_set: "set ks = set ks' \<Longrightarrow> choose_group f prev ks = choose_group f prev ks'"
  unfolding choose_group_def by (rule arg_cong2 [where f = next_group, OF group_order_set refl])

definition of_agent :: "ustring \<Rightarrow> admission_key list \<Rightarrow> admission_key list" where
  "of_agent agent ks = filter (\<lambda>k. ak_agent k = agent) ks"

definition of_context :: "ustring \<Rightarrow> admission_key list \<Rightarrow> admission_key list" where
  "of_context ctxt ks = filter (\<lambda>k. ak_context k = ctxt) ks"

definition of_session :: "ustring \<Rightarrow> admission_key list \<Rightarrow> admission_key list" where
  "of_session session ks = filter (\<lambda>k. ak_session k = session) ks"

lemmas group_filters = same_class_def of_agent_def of_context_def of_session_def

lemma select_key_Some:
  "select_key cur aging now ks = Some k \<longleftrightarrow>
     (\<exists>cls agent ctxt session. ks \<noteq> [] \<and> cls = Min (class_at aging now ` set ks) \<and>
        choose_group ak_agent (bt_get (cur_agents cur) cls) (same_class aging now cls ks) = Some agent \<and>
        choose_group ak_context (bt_get (cur_contexts cur) (cls, agent)) (of_agent agent (same_class aging now cls ks)) = Some ctxt \<and>
        choose_group ak_session (bt_get (cur_sessions cur) (cls, agent, ctxt))
          (of_context ctxt (of_agent agent (same_class aging now cls ks))) = Some session \<and>
        min_by fifo_cmp (of_session session (of_context ctxt (of_agent agent (same_class aging now cls ks)))) = Some k)"
  unfolding select_key_def min_by_Min Let_def group_filters bind_eq_Some_conv
  by (auto split: if_splits)

lemma select_key_spec:
  assumes "select_key cur aging now ks = Some k"
  shows "k \<in> set ks \<and> (\<forall>k' \<in> set ks. class_at aging now k \<le> class_at aging now k') \<and>
    (\<forall>k' \<in> set ks. class_at aging now k' = class_at aging now k \<and> ak_agent k' = ak_agent k \<and>
       ak_context k' = ak_context k \<and> ak_session k' = ak_session k \<longrightarrow> fifo_key k \<le> fifo_key k') \<and>
    choose_group ak_agent (bt_get (cur_agents cur) (class_at aging now k)) (same_class aging now (class_at aging now k) ks) = Some (ak_agent k) \<and>
    choose_group ak_context (bt_get (cur_contexts cur) (class_at aging now k, ak_agent k))
      (of_agent (ak_agent k) (same_class aging now (class_at aging now k) ks)) = Some (ak_context k) \<and>
    choose_group ak_session (bt_get (cur_sessions cur) (class_at aging now k, ak_agent k, ak_context k))
      (of_context (ak_context k) (of_agent (ak_agent k) (same_class aging now (class_at aging now k) ks))) = Some (ak_session k)"
proof -
  from assms obtain cls agent ctxt session where
    sel: "cls = Min (class_at aging now ` set ks)"
      "choose_group ak_agent (bt_get (cur_agents cur) cls) (same_class aging now cls ks) = Some agent"
      "choose_group ak_context (bt_get (cur_contexts cur) (cls, agent)) (of_agent agent (same_class aging now cls ks)) = Some ctxt"
      "choose_group ak_session (bt_get (cur_sessions cur) (cls, agent, ctxt))
          (of_context ctxt (of_agent agent (same_class aging now cls ks))) = Some session"
    and min: "min_by fifo_cmp (of_session session (of_context ctxt (of_agent agent (same_class aging now cls ks)))) = Some k"
    unfolding select_key_Some by blast
  from min_by_fifo [OF min] have k: "k \<in> set ks" "class_at aging now k = cls" "ak_agent k = agent" "ak_context k = ctxt"
    "ak_session k = session" "\<forall>k' \<in> set ks. class_at aging now k' = cls \<and> ak_agent k' = agent \<and> ak_context k' = ctxt \<and>
       ak_session k' = session \<longrightarrow> fifo_key k \<le> fifo_key k'"
    by (auto simp: group_filters)
  have "\<forall>k' \<in> set ks. cls \<le> class_at aging now k'" by (simp add: sel(1))
  with sel k show ?thesis by simp
qed

lemma select_key_None: "select_key cur aging now ks = None \<longleftrightarrow> ks = []"
proof
  assume none: "select_key cur aging now ks = None"
  show "ks = []"
  proof (rule ccontr)
    assume ne: "ks \<noteq> []"
    define cls where "cls = Min (class_at aging now ` set ks)"
    define k1 where "k1 = same_class aging now cls ks"
    have "cls \<in> class_at aging now ` set ks" unfolding cls_def using ne by (intro Min_in) auto
    then have "k1 \<noteq> []" by (auto simp: k1_def same_class_def filter_empty_conv)
    then obtain agent where a: "choose_group ak_agent (bt_get (cur_agents cur) cls) k1 = Some agent" by fastforce
    then have "of_agent agent k1 \<noteq> []" unfolding of_agent_def by (rule choose_group_filter)
    then obtain ctxt where c: "choose_group ak_context (bt_get (cur_contexts cur) (cls, agent)) (of_agent agent k1) = Some ctxt"
      by fastforce
    then have "of_context ctxt (of_agent agent k1) \<noteq> []" unfolding of_context_def by (rule choose_group_filter)
    then obtain session where s: "choose_group ak_session (bt_get (cur_sessions cur) (cls, agent, ctxt))
        (of_context ctxt (of_agent agent k1)) = Some session" by fastforce
    then have "of_session session (of_context ctxt (of_agent agent k1)) \<noteq> []" unfolding of_session_def by (rule choose_group_filter)
    then obtain k where "min_by fifo_cmp (of_session session (of_context ctxt (of_agent agent k1))) = Some k" by fastforce
    with ne a c s have "select_key cur aging now ks = Some k"
      unfolding select_key_Some k1_def cls_def by blast
    with none show False by simp
  qed
qed (simp add: select_key_def)

section \<open>Independence of the storage order\<close>

lemma fifo_key_inj: "inj_on ak_id K \<Longrightarrow> inj_on fifo_key K"
  by (auto simp: inj_on_def fifo_key_def)

lemma min_by_set:
  assumes "set ks = set ks'" and "inj_on ak_id (set ks)"
  shows "min_by fifo_cmp ks = min_by fifo_cmp ks'"
proof (cases "min_by fifo_cmp ks")
  case None
  with assms(1) show ?thesis by auto
next
  case (Some k)
  with assms(1) obtain k' where k': "min_by fifo_cmp ks' = Some k'" by (cases ks'; cases ks) auto
  have "k \<in> set ks" "k' \<in> set ks" "fifo_key k \<le> fifo_key k'" "fifo_key k' \<le> fifo_key k"
    using min_by_fifo [OF Some] min_by_fifo [OF k'] assms(1) by auto
  then have "k = k'" using fifo_key_inj [OF assms(2)] by (simp add: inj_on_eq_iff)
  with Some k' show ?thesis by simp
qed

lemma select_key_set:
  assumes "set ks = set ks'" and "inj_on ak_id (set ks)"
  shows "select_key cur aging now ks = select_key cur aging now ks'"
proof -
  have "select_key cur aging now ks = Some k \<longleftrightarrow> select_key cur aging now ks' = Some k" for k
  proof -
    have f: "set (same_class aging now cls ks) = set (same_class aging now cls ks')"
      "set (of_agent agent (same_class aging now cls ks)) = set (of_agent agent (same_class aging now cls ks'))"
      "set (of_context ctxt (of_agent agent (same_class aging now cls ks))) =
        set (of_context ctxt (of_agent agent (same_class aging now cls ks')))"
      "set (of_session session (of_context ctxt (of_agent agent (same_class aging now cls ks)))) =
        set (of_session session (of_context ctxt (of_agent agent (same_class aging now cls ks'))))"
      for cls agent ctxt session
      by (simp_all add: group_filters assms(1))
    have inj: "inj_on ak_id (set (of_session session (of_context ctxt (of_agent agent (same_class aging now cls ks)))))"
      for cls agent ctxt session
      by (rule inj_on_subset [OF assms(2)]) (auto simp: group_filters)
    have "ks = [] \<longleftrightarrow> ks' = []" using assms(1) by auto
    then show ?thesis
      unfolding select_key_Some assms(1)
      by (simp add: choose_group_set [OF f(1)] choose_group_set [OF f(2)] choose_group_set [OF f(3)] min_by_set [OF f(4) inj])
  qed
  then show ?thesis by (metis not_None_eq)
qed

section \<open>Rows of the queue\<close>

abbreviation row_id :: "'p admission_entry \<Rightarrow> ustring" where
  "row_id e \<equiv> ak_id (ae_key e)"

definition queue_rows :: "'p fair_queue \<Rightarrow> 'p admission_entry set" where
  "queue_rows q = set (fq_entries q)"

definition queue_ok :: "'p fair_queue \<Rightarrow> bool" where
  "queue_ok q \<longleftrightarrow>
     fq_ids q = row_id ` set (fq_entries q) \<and> distinct (map row_id (fq_entries q)) \<and>
     (\<forall>e \<in> set (fq_entries q). validate_key (ae_key e) = Inr ())"

lemma mset_swap_remove:
  assumes "i < length xs"
  shows "mset xs = add_mset (xs ! i) (mset (swap_remove i xs))"
proof -
  let ?ys = "xs[i := last xs]"
  have ne: "?ys \<noteq> []" using assms by auto
  have "last ?ys = last xs"
    using ne last_list_update [of xs i "last xs"] by auto
  then have "mset ?ys = add_mset (last xs) (mset (swap_remove i xs))"
    using append_butlast_last_id [OF ne] by (metis add_mset_add_single mset.simps(1) mset.simps(2) mset_append swap_remove_def)
  moreover have "mset ?ys = add_mset (last xs) (mset xs - {#xs ! i#})"
    using assms by (simp add: mset_update)
  ultimately have "mset xs - {#xs ! i#} = mset (swap_remove i xs)" by simp
  moreover have "xs ! i \<in># mset xs" using assms by simp
  ultimately show ?thesis by (metis insert_DiffM)
qed

lemma swap_remove_rows:
  assumes "i < length xs" and "distinct (map f xs)"
  shows "set (swap_remove i xs) = set xs - {xs ! i}" and "distinct (map f (swap_remove i xs))"
    and "f ` set (swap_remove i xs) = f ` set xs - {f (xs ! i)}"
proof -
  note ms = mset_swap_remove [OF assms(1)]
  have "mset (map f xs) = mset (f (xs ! i) # map f (swap_remove i xs))" by (simp add: ms)
  then have d: "distinct (f (xs ! i) # map f (swap_remove i xs))"
    using assms(2) mset_eq_imp_distinct_iff by blast
  have s: "set xs = insert (xs ! i) (set (swap_remove i xs))"
    using arg_cong [OF ms, of set_mset] by simp
  from d show "distinct (map f (swap_remove i xs))" by simp
  from d have "xs ! i \<notin> set (swap_remove i xs)" by auto
  with s show "set (swap_remove i xs) = set xs - {xs ! i}" by auto
  from d s show "f ` set (swap_remove i xs) = f ` set xs - {f (xs ! i)}" by auto
qed

lemma select_index_None: "select_index es cur aging now P = None \<longleftrightarrow> eligible_keys es P = []"
  using select_key_None [of cur aging now "eligible_keys es P"] unfolding select_index_key [symmetric] by simp

lemma select_index_in:
  assumes "select_index es cur aging now P = Some i"
  shows "i \<in> set (rows es P)"
proof -
  from assms obtain y ya yb yc where "min_by (\<lambda>l r. cmp_of (fifo_key (ae_key (es ! l))) (fifo_key (ae_key (es ! r))))
      (filter (\<lambda>i. ak_session (ae_key (es ! i)) = yc) (filter (\<lambda>i. ak_context (ae_key (es ! i)) = yb)
        (filter (\<lambda>i. ak_agent (ae_key (es ! i)) = ya) (map fst (filter (\<lambda>(i, effective). effective = y)
          (map (\<lambda>i. (i, class_at aging now (ae_key (es ! i)))) (rows es P))))))) = Some i"
    unfolding select_index_def Let_def eligible_rows_eq bind_eq_Some_conv fifo_cmp_key by blast
  from min_by_Some [OF this] show ?thesis by auto
qed

lemma rows_bound: "i \<in> set (rows es P) \<Longrightarrow> i < length es \<and> P (ae_key (es ! i)) (ae_payload (es ! i))"
  by (auto simp: rows_def in_set_enumerate_eq)

text \<open>What a client of the queue relies on.\<close>

locale admission_rows =
  fixes rows :: "'q \<Rightarrow> 'p admission_entry set"
    and ok :: "'q \<Rightarrow> bool"
    and push :: "'p admission_entry \<Rightarrow> 'q \<Rightarrow> queue_error + 'q"
    and remove :: "ustring \<Rightarrow> 'q \<Rightarrow> 'p admission_entry option \<times> 'q"
    and peek :: "int \<Rightarrow> (admission_key \<Rightarrow> 'p \<Rightarrow> bool) \<Rightarrow> 'q \<Rightarrow> 'p admission_entry option"
    and pop :: "int \<Rightarrow> (admission_key \<Rightarrow> 'p \<Rightarrow> bool) \<Rightarrow> 'q \<Rightarrow> ('p admission_entry \<times> 'q) option"
  assumes finite_rows: "finite (rows q)"
    and unique: "ok q \<Longrightarrow> inj_on row_id (rows q)"
    and push_rows: "ok q \<Longrightarrow> push e q = Inr q' \<Longrightarrow> ok q' \<and> row_id e \<notin> row_id ` rows q \<and> rows q' = insert e (rows q)"
    and push_accepts: "ok q \<Longrightarrow> validate_key (ae_key e) = Inr () \<Longrightarrow> row_id e \<notin> row_id ` rows q \<Longrightarrow> \<exists>q'. push e q = Inr q'"
    and remove_rows: "ok q \<Longrightarrow> ok (snd (remove n q)) \<and> rows (snd (remove n q)) = {e \<in> rows q. row_id e \<noteq> n}"
    and remove_found: "ok q \<Longrightarrow> fst (remove n q) \<noteq> None \<longleftrightarrow> n \<in> row_id ` rows q"
    and pop_rows: "ok q \<Longrightarrow> pop now P q = Some (e, q') \<Longrightarrow>
      ok q' \<and> e \<in> rows q \<and> P (ae_key e) (ae_payload e) \<and> rows q' = rows q - {e}"
    and pop_None: "pop now P q = None \<longleftrightarrow> (\<forall>e \<in> rows q. \<not> P (ae_key e) (ae_payload e))"
    and peek_pop: "peek now P q = map_option fst (pop now P q)"
begin

lemma pop_ids: "ok q \<Longrightarrow> pop now P q = Some (e, q') \<Longrightarrow> row_id ` rows q' = row_id ` rows q - {row_id e}"
  using pop_rows unique by (fastforce simp: inj_on_def)

lemma push_ids: "ok q \<Longrightarrow> push e q = Inr q' \<Longrightarrow> row_id ` rows q' = insert (row_id e) (row_id ` rows q)"
  using push_rows by auto

lemma remove_ids: "ok q \<Longrightarrow> row_id ` rows (snd (remove n q)) = row_id ` rows q - {n}"
  using remove_rows by auto

lemma peek_then_pop:
  assumes "peek now P q = Some e"
  obtains q' where "pop now P q = Some (e, q')"
  using assms unfolding peek_pop by (cases "pop now P q") auto

end

interpretation fq: admission_rows queue_rows queue_ok queue_push queue_remove peek_next_where pop_next_where
proof unfold_locales
  fix q q' :: "'p fair_queue" and e n now P
  show "finite (queue_rows q)" by (simp add: queue_rows_def)
  show "queue_ok q \<Longrightarrow> inj_on row_id (queue_rows q)"
    by (auto simp: queue_ok_def queue_rows_def distinct_map)
  show "queue_ok q \<Longrightarrow> queue_push e q = Inr q' \<Longrightarrow>
      queue_ok q' \<and> row_id e \<notin> row_id ` queue_rows q \<and> queue_rows q' = insert e (queue_rows q)"
    by (auto simp: queue_push_def queue_ok_def queue_rows_def and_then_Inr_iff split: if_splits)
  show "queue_ok q \<Longrightarrow> validate_key (ae_key e) = Inr () \<Longrightarrow> row_id e \<notin> row_id ` queue_rows q \<Longrightarrow> \<exists>q'. queue_push e q = Inr q'"
    by (auto simp: queue_push_def queue_ok_def queue_rows_def)
  show "queue_ok q \<Longrightarrow> queue_ok (snd (queue_remove n q)) \<and> queue_rows (snd (queue_remove n q)) = {e \<in> queue_rows q. row_id e \<noteq> n}"
  proof (cases "position_of (\<lambda>e. row_id e = n) (fq_entries q)")
    case None
    assume "queue_ok q"
    with None have "\<forall>x \<in> set (fq_entries q). row_id x \<noteq> n" by (simp add: position_of_None)
    moreover have "queue_remove n q = (None, q)" using None by (simp add: queue_remove_def)
    ultimately show ?thesis using \<open>queue_ok q\<close> by (auto simp: queue_rows_def)
  next
    case (Some i)
    assume ok: "queue_ok q"
    then have d: "distinct (map row_id (fq_entries q))" by (simp add: queue_ok_def)
    from position_of_Some [OF Some] have i: "i < length (fq_entries q)" "row_id (fq_entries q ! i) = n" by auto
    note sr = swap_remove_rows [OF i(1) d]
    have "{e \<in> set (fq_entries q). row_id e \<noteq> n} = set (fq_entries q) - {fq_entries q ! i}"
      using d i by (auto simp: distinct_map inj_on_def)
    with ok Some sr i show ?thesis by (auto simp: queue_remove_def queue_ok_def queue_rows_def)
  qed
  show "queue_ok q \<Longrightarrow> fst (queue_remove n q) \<noteq> None \<longleftrightarrow> n \<in> row_id ` queue_rows q"
    by (auto simp: queue_remove_def queue_rows_def position_of_None split: option.split dest!: position_of_Some)
  show "queue_ok q \<Longrightarrow> pop_next_where now P q = Some (e, q') \<Longrightarrow>
      queue_ok q' \<and> e \<in> queue_rows q \<and> P (ae_key e) (ae_payload e) \<and> queue_rows q' = queue_rows q - {e}"
  proof -
    assume ok: "queue_ok q" and pop: "pop_next_where now P q = Some (e, q')"
    then obtain i where sel: "select_index (fq_entries q) (fq_cursor q) (fq_aging q) now P = Some i"
      and e: "e = fq_entries q ! i" and q': "fq_ids q' = fq_ids q - {row_id e}" "fq_entries q' = swap_remove i (fq_entries q)"
      by (auto simp: pop_next_where_def Let_def)
    from rows_bound [OF select_index_in [OF sel]] e have i: "i < length (fq_entries q)" "P (ae_key e) (ae_payload e)" by auto
    have d: "distinct (map row_id (fq_entries q))" using ok by (simp add: queue_ok_def)
    note sr = swap_remove_rows [OF i(1) d]
    from ok sr e q' i show ?thesis by (auto simp: queue_ok_def queue_rows_def)
  qed
  show "pop_next_where now P q = None \<longleftrightarrow> (\<forall>e \<in> queue_rows q. \<not> P (ae_key e) (ae_payload e))"
    by (auto simp: pop_next_where_def select_index_None eligible_keys_def filter_empty_conv queue_rows_def)
  show "peek_next_where now P q = map_option fst (pop_next_where now P q)"
    by (simp add: peek_next_where_def pop_next_where_def option.map_comp comp_def Let_def)
qed

section \<open>Policy of the queue\<close>

abbreviation row_class :: "'p fair_queue \<Rightarrow> int \<Rightarrow> 'p admission_entry \<Rightarrow> admission_class" where
  "row_class q now e \<equiv> class_at (fq_aging q) now (ae_key e)"

definition admissible_rows :: "'p fair_queue \<Rightarrow> (admission_key \<Rightarrow> 'p \<Rightarrow> bool) \<Rightarrow> 'p admission_entry set" where
  "admissible_rows q P = {e \<in> queue_rows q. P (ae_key e) (ae_payload e)}"

lemma set_eligible_keys: "set (eligible_keys (fq_entries q) P) = ae_key ` admissible_rows q P"
  by (auto simp: eligible_keys_def admissible_rows_def queue_rows_def)

lemma pop_selects:
  assumes "pop_next_where now P q = Some (e, q')"
  shows "select_key (fq_cursor q) (fq_aging q) now (eligible_keys (fq_entries q) P) = Some (ae_key e)"
    and "fq_cursor q' = advance_cursor (row_class q now e) (ae_key e) (fq_cursor q)" and "fq_aging q' = fq_aging q"
  using assms by (auto simp: pop_next_where_def Let_def class_at_def select_index_key [symmetric])

lemma pop_policy:
  assumes "pop_next_where now P q = Some (e, q')" and "e' \<in> admissible_rows q P"
  shows "row_class q now e \<le> row_class q now e'"
    and "row_class q now e' = row_class q now e \<Longrightarrow> ak_agent (ae_key e') = ak_agent (ae_key e) \<Longrightarrow>
      ak_context (ae_key e') = ak_context (ae_key e) \<Longrightarrow> ak_session (ae_key e') = ak_session (ae_key e) \<Longrightarrow>
      fifo_key (ae_key e) \<le> fifo_key (ae_key e')"
  using select_key_spec [OF pop_selects(1) [OF assms(1)]] assms(2) by (auto simp: set_eligible_keys)

text \<open>Service rotates: the group the cursor names is served again only when no other group has a row.\<close>

lemma pop_rotates:
  assumes "pop_next_where now P q = Some (e, q')" and "e' \<in> admissible_rows q P"
    and "row_class q now e' = row_class q now e"
  shows "bt_get (cur_agents (fq_cursor q)) (row_class q now e) = Some (ak_agent (ae_key e)) \<Longrightarrow>
      ak_agent (ae_key e') = ak_agent (ae_key e)"
    and "ak_agent (ae_key e') = ak_agent (ae_key e) \<Longrightarrow>
      bt_get (cur_contexts (fq_cursor q)) (row_class q now e, ak_agent (ae_key e)) = Some (ak_context (ae_key e)) \<Longrightarrow>
      ak_context (ae_key e') = ak_context (ae_key e)"
    and "ak_agent (ae_key e') = ak_agent (ae_key e) \<Longrightarrow> ak_context (ae_key e') = ak_context (ae_key e) \<Longrightarrow>
      bt_get (cur_sessions (fq_cursor q)) (row_class q now e, ak_agent (ae_key e), ak_context (ae_key e)) = Some (ak_session (ae_key e)) \<Longrightarrow>
      ak_session (ae_key e') = ak_session (ae_key e)"
proof -
  let ?ks = "eligible_keys (fq_entries q) P" and ?c = "row_class q now e"
  note sel = select_key_spec [OF pop_selects(1) [OF assms(1)]]
  have in1: "ae_key e' \<in> set (same_class (fq_aging q) now ?c ?ks)"
    using assms(2,3) by (simp add: same_class_def set_eligible_keys)
  then have in2: "ae_key e' \<in> set (of_agent (ak_agent (ae_key e)) (same_class (fq_aging q) now ?c ?ks))"
    if "ak_agent (ae_key e') = ak_agent (ae_key e)" using that by (simp add: of_agent_def)
  have in3: "ae_key e' \<in> set (of_context (ak_context (ae_key e)) (of_agent (ak_agent (ae_key e)) (same_class (fq_aging q) now ?c ?ks)))"
    if "ak_agent (ae_key e') = ak_agent (ae_key e)" "ak_context (ae_key e') = ak_context (ae_key e)"
    using in2 [OF that(1)] that(2) by (simp add: of_context_def)
  show "bt_get (cur_agents (fq_cursor q)) ?c = Some (ak_agent (ae_key e)) \<Longrightarrow> ak_agent (ae_key e') = ak_agent (ae_key e)"
    using sel choose_group_rotates [OF _ in1] by metis
  show "ak_agent (ae_key e') = ak_agent (ae_key e) \<Longrightarrow>
      bt_get (cur_contexts (fq_cursor q)) (?c, ak_agent (ae_key e)) = Some (ak_context (ae_key e)) \<Longrightarrow>
      ak_context (ae_key e') = ak_context (ae_key e)"
    using sel choose_group_rotates [OF _ in2] by metis
  show "ak_agent (ae_key e') = ak_agent (ae_key e) \<Longrightarrow> ak_context (ae_key e') = ak_context (ae_key e) \<Longrightarrow>
      bt_get (cur_sessions (fq_cursor q)) (?c, ak_agent (ae_key e), ak_context (ae_key e)) = Some (ak_session (ae_key e)) \<Longrightarrow>
      ak_session (ae_key e') = ak_session (ae_key e)"
    using sel choose_group_rotates [OF _ in3] by metis
qed

lemma pop_order_independent:
  assumes "queue_ok q" and "queue_ok p" and "queue_rows p = queue_rows q" and "fq_cursor p = fq_cursor q"
    and "fq_aging p = fq_aging q" and "pop_next_where now P q = Some (e, q')"
  shows "\<exists>p'. pop_next_where now P p = Some (e, p') \<and> queue_rows p' = queue_rows q' \<and> fq_cursor p' = fq_cursor q'"
proof -
  have rows: "admissible_rows p P = admissible_rows q P" by (simp add: admissible_rows_def assms(3))
  have inj: "inj_on row_id (queue_rows q)" using fq.unique [OF assms(1)] .
  then have "inj_on ak_id (ae_key ` admissible_rows q P)" by (fastforce simp: inj_on_def admissible_rows_def)
  then have "select_key (fq_cursor p) (fq_aging p) now (eligible_keys (fq_entries p) P) = Some (ae_key e)"
    using pop_selects(1) [OF assms(6)] select_key_set [of "eligible_keys (fq_entries p) P" "eligible_keys (fq_entries q) P"]
    by (simp add: set_eligible_keys rows assms(4,5))
  then obtain i where i: "select_index (fq_entries p) (fq_cursor p) (fq_aging p) now P = Some i" "ae_key (fq_entries p ! i) = ae_key e"
    by (auto simp flip: select_index_key)
  then obtain p' where p': "pop_next_where now P p = Some (fq_entries p ! i, p')"
    by (simp add: pop_next_where_def Let_def)
  have "fq_entries p ! i = e"
    using fq.pop_rows [OF assms(2) p'] fq.pop_rows [OF assms(1,6)] i(2) assms(3)
    by (intro inj_onD [OF inj]) auto
  with p' fq.pop_rows [OF assms(2) p'] fq.pop_rows [OF assms(1,6)] pop_selects(2,3) [OF p'] pop_selects(2,3) [OF assms(6)] assms
  show ?thesis by simp
qed

section \<open>Recovery\<close>

lemma push_all:
  "try_fold (\<lambda>q e. queue_push e q) q es = Inr r \<longleftrightarrow>
     (\<forall>e \<in> set es. validate_key (ae_key e) = Inr ()) \<and> distinct (map row_id es) \<and> row_id ` set es \<inter> fq_ids q = {} \<and>
     r = q\<lparr>fq_ids := fq_ids q \<union> row_id ` set es, fq_entries := fq_entries q @ es\<rparr>"
proof (induction es arbitrary: q)
  case (Cons e es)
  have "queue_push e q = Inr p \<longleftrightarrow> validate_key (ae_key e) = Inr () \<and> row_id e \<notin> fq_ids q \<and>
      p = q\<lparr>fq_ids := insert (row_id e) (fq_ids q), fq_entries := fq_entries q @ [e]\<rparr>" for p
    by (auto simp: queue_push_def and_then_Inr_iff)
  then show ?case by (auto simp: and_then_Inr_iff Cons)
qed auto

lemma sort_key_permuted:
  assumes "mset xs = mset ys" and "inj_on f (set xs)"
  shows "sort_key f xs = sort_key f ys"
proof -
  have "sort (map f xs) = map f (sort_key f zs)" if "mset zs = mset xs" for zs
    by (rule properties_for_sort) (simp_all add: that)
  from this [of xs] this [of ys] assms(1) have "map f (sort_key f xs) = map f (sort_key f ys)" by simp
  moreover have "set xs = set ys" using assms(1) by (rule mset_eq_setD)
  ultimately show ?thesis using assms(2) by (simp add: inj_on_map_eq_map)
qed

lemma rebuild_permuted:
  assumes "rebuild_with_checkpoint es aging cp = Inr q" and "mset es = mset es'"
  shows "rebuild_with_checkpoint es' aging cp = Inr q"
proof -
  have same: "set es = set es'" using assms(2) by (rule mset_eq_setD)
  from assms(1) have all: "\<forall>e \<in> set es. validate_key (ae_key e) = Inr ()" "distinct (map row_id es)"
    and q: "q = \<lparr>fq_entries = sort_key (\<lambda>e. fifo_key (ae_key e)) es, fq_ids = row_id ` set es, fq_cursor = from_checkpoint cp, fq_aging = aging\<rparr>"
    by (auto simp: rebuild_with_checkpoint_def map_ok_Inr_iff push_all fifo_cmp_key sort_by_key)
  have "distinct (map row_id es')" using all(2) assms(2) by (metis mset_eq_imp_distinct_iff mset_map)
  moreover have "inj_on (\<lambda>e. fifo_key (ae_key e)) (set es)"
    using all(2) by (auto simp: inj_on_def distinct_map fifo_key_def)
  ultimately show ?thesis
    using all(1) sort_key_permuted [OF assms(2)]
    by (auto simp: rebuild_with_checkpoint_def map_ok_Inr_iff push_all fifo_cmp_key sort_by_key q same)
qed

lemma rebuild_ok: "rebuild_with_checkpoint es aging cp = Inr q \<Longrightarrow> queue_ok q \<and> queue_rows q = set es"
  by (auto simp: rebuild_with_checkpoint_def map_ok_Inr_iff push_all fifo_cmp_key sort_by_key queue_ok_def queue_rows_def
      mset_eq_imp_distinct_iff [of "map row_id (sort_key f es)" "map row_id es" for f])

lemma checkpoint_roundtrip:
  assumes "bt_wf (cur_agents cur)" and "bt_wf (cur_contexts cur)" and "bt_wf (cur_sessions cur)"
  shows "from_checkpoint (cursor_checkpoint cur) = cur"
  using assms by (simp add: from_checkpoint_def cursor_checkpoint_def comp_def split_beta bt_from_id)

definition cursor_ok :: "'p fair_queue \<Rightarrow> bool" where
  "cursor_ok q \<longleftrightarrow> bt_wf (cur_agents (fq_cursor q)) \<and> bt_wf (cur_contexts (fq_cursor q)) \<and> bt_wf (cur_sessions (fq_cursor q))"

lemma cursor_ok_pop: "cursor_ok q \<Longrightarrow> pop_next_where now P q = Some (e, q') \<Longrightarrow> cursor_ok q'"
  using pop_selects(2) [of now P q e q'] by (simp add: cursor_ok_def advance_cursor_def)

lemma pop_twice_rotates:
  assumes "pop_next_where t1 P1 q = Some (e1, q1)" and "pop_next_where t2 P2 q1 = Some (e2, q2)"
    and "row_class q1 t2 e2 = row_class q t1 e1" and "e \<in> admissible_rows q1 P2" and "row_class q1 t2 e = row_class q1 t2 e2"
  shows "ak_agent (ae_key e2) = ak_agent (ae_key e1) \<Longrightarrow> ak_agent (ae_key e) = ak_agent (ae_key e1)"
    and "ak_agent (ae_key e2) = ak_agent (ae_key e1) \<Longrightarrow> ak_context (ae_key e2) = ak_context (ae_key e1) \<Longrightarrow>
      ak_context (ae_key e) = ak_context (ae_key e1)"
    and "ak_agent (ae_key e2) = ak_agent (ae_key e1) \<Longrightarrow> ak_context (ae_key e2) = ak_context (ae_key e1) \<Longrightarrow>
      ak_session (ae_key e2) = ak_session (ae_key e1) \<Longrightarrow> ak_session (ae_key e) = ak_session (ae_key e1)"
proof -
  note rot = pop_rotates [OF assms(2,4,5)]
  show agent: "ak_agent (ae_key e) = ak_agent (ae_key e1)" if "ak_agent (ae_key e2) = ak_agent (ae_key e1)"
    using that rot(1) pop_selects(2) [OF assms(1)] assms(3) by (simp add: advance_cursor_def)
  show ctxt: "ak_context (ae_key e) = ak_context (ae_key e1)"
    if "ak_agent (ae_key e2) = ak_agent (ae_key e1)" "ak_context (ae_key e2) = ak_context (ae_key e1)"
    using that rot(2) agent pop_selects(2) [OF assms(1)] assms(3) by (simp add: advance_cursor_def)
  show "ak_session (ae_key e) = ak_session (ae_key e1)"
    if "ak_agent (ae_key e2) = ak_agent (ae_key e1)" "ak_context (ae_key e2) = ak_context (ae_key e1)"
      "ak_session (ae_key e2) = ak_session (ae_key e1)"
    using that rot(3) agent ctxt pop_selects(2) [OF assms(1)] assms(3) by (simp add: advance_cursor_def)
qed

text \<open>A queue rebuilt from its rows, in any order, and its checkpoint.\<close>

lemma rebuild_recovers:
  assumes "queue_ok q" and "cursor_ok q" and "mset es = mset (fq_entries q)"
  shows "\<exists>p. rebuild_with_checkpoint es (fq_aging q) (queue_checkpoint q) = Inr p \<and> queue_ok p \<and>
    queue_rows p = queue_rows q \<and> fq_cursor p = fq_cursor q \<and> fq_aging p = fq_aging q"
proof -
  have set: "set es = set (fq_entries q)" using assms(3) by (rule mset_eq_setD)
  have "distinct (map row_id es)"
    using assms(1,3) by (metis mset_eq_imp_distinct_iff mset_map queue_ok_def)
  then obtain p where p: "rebuild_with_checkpoint es (fq_aging q) (queue_checkpoint q) = Inr p"
    and same: "fq_cursor p = from_checkpoint (queue_checkpoint q)" "fq_aging p = fq_aging q"
    using assms(1) by (auto simp: rebuild_with_checkpoint_def map_ok_Inr_iff push_all queue_ok_def set)
  have "fq_cursor p = fq_cursor q" using assms(2) by (simp add: same queue_checkpoint_def cursor_ok_def checkpoint_roundtrip)
  with p same rebuild_ok [OF p] show ?thesis by (auto simp: queue_rows_def set)
qed

section \<open>Aging\<close>

lemma effective_rank:
  "rank (effective_class (aging_every ms) c created now) =
     rank c - nat (max (i64_saturating_sub now created) 0) div max ms 1"
  by (cases c) (auto simp: effective_class_def aging_every_def Let_def rank_from_rank min_def)

lemma aging_monotone:
  assumes "now \<le> now'"
  shows "effective_class aging c created now' \<le> effective_class aging c created now"
proof (cases "promotion_interval aging")
  case (Some ms)
  have "nat (max (i64_saturating_sub now created) 0) div max ms 1 \<le> nat (max (i64_saturating_sub now' created) 0) div max ms 1"
    using assms by (intro div_le_mono nat_mono) (auto simp: i64_saturating_sub_def)
  moreover have "aging = aging_every ms" using Some by (simp add: aging_every_def)
  ultimately show ?thesis by (simp add: less_eq_admission_class_def effective_rank diff_le_mono2)
qed (simp add: effective_class_def)

lemma aging_promotes:
  assumes "in_i64 created" and "in_i64 now" and "int (rank c * max ms 1) \<le> now - created" and "now - created \<le> i64_max"
  shows "effective_class (aging_every ms) c created now = InteractiveControl"
proof -
  have "0 \<le> now - created" using assms(3) by (rule order_trans [OF of_nat_0_le_iff])
  with assms(4) have "i64_saturating_sub now created = now - created"
    by (simp add: i64_saturating_sub_def i64_min_def max_def)
  then have "rank c * max ms 1 \<le> nat (max (i64_saturating_sub now created) 0)" using assms(3) by linarith
  then have "rank c \<le> nat (max (i64_saturating_sub now created) 0) div max ms 1"
    by (simp add: less_eq_div_iff_mult_less_eq)
  then have "rank (effective_class (aging_every ms) c created now) = rank InteractiveControl" by (simp add: effective_rank)
  then show ?thesis unfolding rank_inject .
qed

end
