(* ===== verification/Admission_Controller.thy ===== *)
theory Admission_Controller
  imports Admission_Fairness
begin

text \<open>
  The process-local admission controller (\<open>morphz/src/activation_admission.rs\<close>). Every operation
  here is one critical section of the code, the state under its mutex before and after. The
  asynchronous methods are the sections they run: \<open>acquire\<close> registers a waiter and then attempts
  admission each time it is woken; \<open>resume\<close> does the same for a suspended activation; dropping a
  permit, a suspended handle or a waiting future runs the section of its destructor. The
  notifications only cause attempts, which the model allows at any time.
\<close>

section \<open>State\<close>

record admission_limits =
  al_total_slots :: nat
  al_dialogue_delivery_slots :: nat
  al_max_queued :: nat
  al_dialogue_delivery_queue_slots :: nat
  al_aging_promotion_interval :: nat

definition normalized :: "admission_limits \<Rightarrow> admission_limits" where
  "normalized l =
     (let total = max (al_total_slots l) 1; queued = max (al_max_queued l) 1 in
      \<lparr>al_total_slots = total,
       al_dialogue_delivery_slots = min (al_dialogue_delivery_slots l) (total - 1),
       al_max_queued = queued,
       al_dialogue_delivery_queue_slots = min (al_dialogue_delivery_queue_slots l) (queued - 1),
       al_aging_promotion_interval = max (al_aging_promotion_interval l) 1\<rparr>)"

definition general_queue_limit :: "admission_limits \<Rightarrow> nat" where
  "general_queue_limit l = al_max_queued l - al_dialogue_delivery_queue_slots l"

datatype admission_error =
    QueueError queue_error
  | AlreadyLocal ustring
  | WindowFull ustring admission_class nat nat nat

record controller_state =
  cs_queue :: "unit fair_queue"
  cs_waiters :: "ustring set"
  cs_in_flight :: "(ustring \<times> admission_key) list"
  cs_suspended :: "(ustring \<times> admission_key) list"

definition controller_new :: "admission_limits \<Rightarrow> admission_limits \<times> controller_state" where
  "controller_new l =
     (let l' = normalized l in
      (l', \<lparr>cs_queue = queue_new (aging_every (al_aging_promotion_interval l')), cs_waiters = {}, cs_in_flight = [],
            cs_suspended = []\<rparr>))"

abbreviation queued :: "ustring \<Rightarrow> controller_state \<Rightarrow> bool" where
  "queued name st \<equiv> list_ex (\<lambda>e. ak_id (ae_key e) = name) (fq_entries (cs_queue st))"

definition entry_of :: "admission_key \<Rightarrow> unit admission_entry" where
  "entry_of k = \<lparr>ae_key = k, ae_payload = ()\<rparr>"

section \<open>The bounded window\<close>

definition check_queue_capacity :: "admission_limits \<Rightarrow> controller_state \<Rightarrow> admission_key \<Rightarrow> admission_error + unit" where
  "check_queue_capacity l st k =
     (let total = queue_len (cs_queue st);
          (queued, limit) =
            (if uses_reserved_lane (ak_class k) then (total, al_max_queued l)
             else
               let general = length (filter (\<lambda>e. \<not> uses_reserved_lane (ak_class (ae_key e))) (fq_entries (cs_queue st))) in
               if al_max_queued l \<le> total then (total, al_max_queued l) else (general, general_queue_limit l)) in
      if limit \<le> queued
      then Inl (WindowFull (ak_id k) (ak_class k) queued limit (al_dialogue_delivery_queue_slots l))
      else Inr ())"

definition push_row :: "admission_key \<Rightarrow> controller_state \<Rightarrow> admission_error + controller_state" where
  "push_row k st =
     map_ok (\<lambda>q. st\<lparr>cs_queue := q\<rparr>) (map_err QueueError (queue_push (entry_of k) (cs_queue st)))"

datatype restore_outcome = Restored | AlreadyTracked | DeferredWindowFull

definition restore_queued ::
  "admission_limits \<Rightarrow> admission_key \<Rightarrow> controller_state \<Rightarrow> admission_error + (restore_outcome \<times> controller_state)" where
  "restore_queued l k st =
     (if bt_contains (cs_in_flight st) (ak_id k) \<or> bt_contains (cs_suspended st) (ak_id k) \<or> queued (ak_id k) st
      then Inr (AlreadyTracked, st)
      else if \<not> is_ok (check_queue_capacity l st k) then Inr (DeferredWindowFull, st)
      else map_ok (\<lambda>st'. (Restored, st')) (push_row k st))"

text \<open>The two removals are the operands of a short-circuiting disjunction.\<close>

definition forget :: "ustring \<Rightarrow> controller_state \<Rightarrow> bool \<times> controller_state" where
  "forget name st =
     (let st1 = st\<lparr>cs_waiters := cs_waiters st - {name}\<rparr>;
          (removed, q) = queue_remove name (cs_queue st1);
          st2 = st1\<lparr>cs_queue := q\<rparr> in
      if removed \<noteq> None then (True, st2)
      else (bt_contains (cs_suspended st2) name, st2\<lparr>cs_suspended := bt_remove name (cs_suspended st2)\<rparr>))"

definition is_in_flight :: "ustring \<Rightarrow> controller_state \<Rightarrow> bool" where
  "is_in_flight name st \<longleftrightarrow> bt_contains (cs_in_flight st) name \<or> bt_contains (cs_suspended st) name"

definition controller_contains :: "ustring \<Rightarrow> controller_state \<Rightarrow> bool" where
  "controller_contains name st \<longleftrightarrow>
     bt_contains (cs_in_flight st) name \<or> bt_contains (cs_suspended st) name \<or> queued name st"

section \<open>Admission\<close>

definition in_flight_usage :: "(ustring \<times> admission_key) list \<Rightarrow> in_flight_usage" where
  "in_flight_usage m =
     \<lparr>usage_total = length m,
      usage_dialogue_delivery = length (filter (\<lambda>(_, k). uses_reserved_lane (ak_class k)) m)\<rparr>"

definition lane_capacity :: "admission_limits \<Rightarrow> reserved_lane_capacity" where
  "lane_capacity l =
     \<lparr>total_slots = al_total_slots l, dialogue_delivery_slots = al_dialogue_delivery_slots l\<rparr>"

definition acquire_register :: "admission_limits \<Rightarrow> admission_key \<Rightarrow> controller_state \<Rightarrow> admission_error + controller_state" where
  "acquire_register l k st =
     (if bt_contains (cs_in_flight st) (ak_id k) \<or> bt_contains (cs_suspended st) (ak_id k) \<or> ak_id k \<in> cs_waiters st
      then Inl (AlreadyLocal (ak_id k))
      else
        map_ok (\<lambda>st. st\<lparr>cs_waiters := insert (ak_id k) (cs_waiters st)\<rparr>)
          (if queued (ak_id k) st then Inr st
           else and_then (check_queue_capacity l st k) (\<lambda>_. push_row k st)))"

definition candidate :: "admission_limits \<Rightarrow> controller_state \<Rightarrow> admission_key \<Rightarrow> unit \<Rightarrow> bool" where
  "candidate l st k u \<longleftrightarrow>
     ak_id k \<in> cs_waiters st \<and> reserved_lane_decision (ak_class k) (lane_capacity l) (in_flight_usage (cs_in_flight st)) = Admit"

text \<open>
  One attempt of the waiting loop, with the two readings of the clock: the row is looked up at the
  first and taken at the second. \<open>None\<close> is the panic of the \<open>expect\<close>.
\<close>

definition acquire_attempt ::
  "admission_limits \<Rightarrow> int \<Rightarrow> int \<Rightarrow> ustring \<Rightarrow> controller_state \<Rightarrow> (bool \<times> controller_state) option" where
  "acquire_attempt l t1 t2 name st =
     (if map_option (\<lambda>e. ak_id (ae_key e)) (peek_next_where t1 (candidate l st) (cs_queue st)) = Some name then
        map_option (\<lambda>(e, q). (True, st\<lparr>cs_queue := q, cs_waiters := cs_waiters st - {name},
            cs_in_flight := bt_insert name (ae_key e) (cs_in_flight st)\<rparr>))
          (pop_next_where t2 (candidate l st) (cs_queue st))
      else Some (False, st))"

definition resume_attempt ::
  "admission_limits \<Rightarrow> int \<Rightarrow> int \<Rightarrow> ustring \<Rightarrow> controller_state \<Rightarrow> (bool \<times> controller_state) option" where
  "resume_attempt l t1 t2 name st =
     (if map_option (\<lambda>e. ak_id (ae_key e)) (peek_next_where t1 (candidate l st) (cs_queue st)) = Some name then
        map_option (\<lambda>(e, q). (True, st\<lparr>cs_queue := q, cs_waiters := cs_waiters st - {name},
            cs_suspended := bt_remove name (cs_suspended st),
            cs_in_flight := bt_insert name (ae_key e) (cs_in_flight st)\<rparr>))
          (pop_next_where t2 (candidate l st) (cs_queue st))
      else Some (False, st))"

section \<open>Permits and handles\<close>

definition permit_suspend :: "admission_key \<Rightarrow> controller_state \<Rightarrow> controller_state" where
  "permit_suspend k st =
     st\<lparr>cs_in_flight := bt_remove (ak_id k) (cs_in_flight st), cs_suspended := bt_insert (ak_id k) k (cs_suspended st)\<rparr>"

definition permit_release :: "admission_key \<Rightarrow> controller_state \<Rightarrow> controller_state" where
  "permit_release k st = st\<lparr>cs_in_flight := bt_remove (ak_id k) (cs_in_flight st)\<rparr>"

definition resume_register :: "admission_key \<Rightarrow> controller_state \<Rightarrow> admission_error + controller_state" where
  "resume_register k st =
     (if \<not> bt_contains (cs_suspended st) (ak_id k) then Inl (AlreadyLocal (ak_id k))
      else
        map_ok (\<lambda>st. st\<lparr>cs_waiters := insert (ak_id k) (cs_waiters st)\<rparr>)
          (if queued (ak_id k) st then Inr st else push_row k st))"

definition suspended_drop :: "admission_key \<Rightarrow> controller_state \<Rightarrow> controller_state" where
  "suspended_drop k st =
     st\<lparr>cs_waiters := cs_waiters st - {ak_id k}, cs_queue := snd (queue_remove (ak_id k) (cs_queue st)),
        cs_suspended := bt_remove (ak_id k) (cs_suspended st)\<rparr>"

definition waiting_drop :: "ustring \<Rightarrow> controller_state \<Rightarrow> controller_state" where
  "waiting_drop name st = st\<lparr>cs_waiters := cs_waiters st - {name}\<rparr>"

record admission_snapshot =
  sn_total_slots :: nat
  sn_dialogue_delivery_slots :: nat
  sn_max_queued :: nat
  sn_dialogue_delivery_queue_slots :: nat
  sn_aging_promotion_interval :: nat
  sn_queued_ids :: "ustring list"
  sn_in_flight_ids :: "ustring list"
  sn_suspended_ids :: "ustring list"
  sn_waiter_count :: nat
  sn_queued_by_class :: "(ustring \<times> nat) list"
  sn_in_flight_by_class :: "(ustring \<times> nat) list"

definition count_by_class :: "admission_class list \<Rightarrow> (ustring \<times> nat) list" where
  "count_by_class cs =
     fold (\<lambda>c m. bt_insert (class_as_str c) ((case bt_get m (class_as_str c) of Some n \<Rightarrow> n | None \<Rightarrow> 0) + 1) m) cs []"

definition snapshot :: "admission_limits \<Rightarrow> controller_state \<Rightarrow> admission_snapshot" where
  "snapshot l st =
     \<lparr>sn_total_slots = al_total_slots l, sn_dialogue_delivery_slots = al_dialogue_delivery_slots l,
      sn_max_queued = al_max_queued l, sn_dialogue_delivery_queue_slots = al_dialogue_delivery_queue_slots l,
      sn_aging_promotion_interval = al_aging_promotion_interval l,
      sn_queued_ids = sort (map (\<lambda>e. ak_id (ae_key e)) (fq_entries (cs_queue st))),
      sn_in_flight_ids = sort (map fst (cs_in_flight st)), sn_suspended_ids = sort (map fst (cs_suspended st)),
      sn_waiter_count = card (cs_waiters st),
      sn_queued_by_class = count_by_class (map (\<lambda>e. ak_class (ae_key e)) (fq_entries (cs_queue st))),
      sn_in_flight_by_class = count_by_class (map (\<lambda>(_, k). ak_class k) (cs_in_flight st))\<rparr>"

section \<open>The running system\<close>

text \<open>
  The controller together with the values of the program that refer to it: the futures waiting in
  \<open>acquire\<close> and in \<open>resume\<close>, the live permits and the suspended handles.
\<close>

record system =
  sys_ctl :: controller_state
  sys_acquiring :: "admission_key multiset"
  sys_resuming :: "admission_key multiset"
  sys_permits :: "admission_key multiset"
  sys_parked :: "admission_key multiset"

datatype admission_event =
    EvRestore admission_key
  | EvForget ustring
  | EvAcquire admission_key
  | EvGrant int int admission_key
  | EvCancelAcquire admission_key
  | EvSuspend admission_key
  | EvRelease admission_key
  | EvResume admission_key
  | EvResumed int int admission_key
  | EvCancelResume admission_key
  | EvDropParked admission_key

inductive admission_step :: "admission_limits \<Rightarrow> admission_event \<Rightarrow> system \<Rightarrow> system \<Rightarrow> bool" for l where
  restore: "restore_queued l k (sys_ctl s) = Inr (r, c) \<Longrightarrow> admission_step l (EvRestore k) s (s\<lparr>sys_ctl := c\<rparr>)"
| forget: "admission_step l (EvForget name) s (s\<lparr>sys_ctl := snd (forget name (sys_ctl s))\<rparr>)"
| acquire: "acquire_register l k (sys_ctl s) = Inr c \<Longrightarrow>
    admission_step l (EvAcquire k) s (s\<lparr>sys_ctl := c, sys_acquiring := add_mset k (sys_acquiring s)\<rparr>)"
| grant: "sys_acquiring s = add_mset k rest \<Longrightarrow> acquire_attempt l t1 t2 (ak_id k) (sys_ctl s) = Some (True, c) \<Longrightarrow>
    admission_step l (EvGrant t1 t2 k) s (s\<lparr>sys_ctl := c, sys_acquiring := rest, sys_permits := add_mset k (sys_permits s)\<rparr>)"
| cancel_acquire: "sys_acquiring s = add_mset k rest \<Longrightarrow>
    admission_step l (EvCancelAcquire k) s (s\<lparr>sys_ctl := waiting_drop (ak_id k) (sys_ctl s), sys_acquiring := rest\<rparr>)"
| suspend: "sys_permits s = add_mset k rest \<Longrightarrow>
    admission_step l (EvSuspend k) s (s\<lparr>sys_ctl := permit_suspend k (sys_ctl s), sys_permits := rest,
      sys_parked := add_mset k (sys_parked s)\<rparr>)"
| release: "sys_permits s = add_mset k rest \<Longrightarrow>
    admission_step l (EvRelease k) s (s\<lparr>sys_ctl := permit_release k (sys_ctl s), sys_permits := rest\<rparr>)"
| resume: "sys_parked s = add_mset k rest \<Longrightarrow> resume_register k (sys_ctl s) = Inr c \<Longrightarrow>
    admission_step l (EvResume k) s (s\<lparr>sys_ctl := c, sys_parked := rest, sys_resuming := add_mset k (sys_resuming s)\<rparr>)"
| resume_failed: "sys_parked s = add_mset k rest \<Longrightarrow> resume_register k (sys_ctl s) = Inl err \<Longrightarrow>
    admission_step l (EvResume k) s (s\<lparr>sys_ctl := suspended_drop k (sys_ctl s), sys_parked := rest\<rparr>)"
| resumed: "sys_resuming s = add_mset k rest \<Longrightarrow> resume_attempt l t1 t2 (ak_id k) (sys_ctl s) = Some (True, c) \<Longrightarrow>
    admission_step l (EvResumed t1 t2 k) s (s\<lparr>sys_ctl := c, sys_resuming := rest, sys_permits := add_mset k (sys_permits s)\<rparr>)"
| cancel_resume: "sys_resuming s = add_mset k rest \<Longrightarrow>
    admission_step l (EvCancelResume k) s
      (s\<lparr>sys_ctl := suspended_drop k (waiting_drop (ak_id k) (sys_ctl s)), sys_resuming := rest\<rparr>)"
| drop_parked: "sys_parked s = add_mset k rest \<Longrightarrow>
    admission_step l (EvDropParked k) s (s\<lparr>sys_ctl := suspended_drop k (sys_ctl s), sys_parked := rest\<rparr>)"

definition system_new :: "controller_state \<Rightarrow> system" where
  "system_new c = \<lparr>sys_ctl = c, sys_acquiring = {#}, sys_resuming = {#}, sys_permits = {#}, sys_parked = {#}\<rparr>"

inductive admission_run :: "admission_limits \<Rightarrow> admission_event list \<Rightarrow> system \<Rightarrow> bool" for limits0 where
  start: "controller_new limits0 = (l, c) \<Longrightarrow> admission_run limits0 [] (system_new c)"
| continue: "admission_run limits0 evs s \<Longrightarrow> admission_step (normalized limits0) ev s s' \<Longrightarrow>
    admission_run limits0 (evs @ [ev]) s'"

end
