(* ===== verification/Admission_Safety.thy ===== *)
theory Admission_Safety
  imports Admission_Controller
begin

text \<open>
  Invariants of the running admission controller. The capacity of the lanes is respected in every
  run. Exclusive ownership holds in the runs in which each attempt reads the same time twice and
  rows are forgotten only while no future and no handle refers to them; \<open>disciplined\<close> says so.
\<close>

section \<open>Counting in the maps\<close>

definition count_in :: "('v \<Rightarrow> bool) \<Rightarrow> ('k \<times> 'v) list \<Rightarrow> nat" where
  "count_in Q m = length (filter (\<lambda>(_, v). Q v) m)"

lemma count_in_Cons: "count_in Q ((k, v) # m) = of_bool (Q v) + count_in Q m"
  by (simp add: count_in_def)

lemma bt_get_above: "(\<forall>k' \<in> fst ` set m. (k :: 'k::linorder) < k') \<Longrightarrow> bt_get m k = None"
  using bt_get_None_iff [of m k] less_irrefl [of k] by blast

lemma count_insert:
  "bt_wf m \<Longrightarrow> count_in Q (bt_insert k v m) + (case bt_get m k of Some w \<Rightarrow> of_bool (Q w) | None \<Rightarrow> 0) = count_in Q m + of_bool (Q v)"
proof (induction m)
  case Nil
  then show ?case by (simp add: count_in_def)
next
  case (Cons kw m)
  obtain k' w where kw: "kw = (k', w)" by fastforce
  from Cons.prems have wf: "bt_wf m" "\<forall>k'' \<in> fst ` set m. k' < k''" by (auto simp: bt_wf_Cons kw)
  consider "k < k'" | "k = k'" | "k' < k" by fastforce
  then show ?case
  proof cases
    case 1
    with wf have "bt_get ((k', w) # m) k = None" by (intro bt_get_above) auto
    with 1 show ?thesis by (simp add: kw count_in_Cons)
  next
    case 2
    then show ?thesis by (simp add: kw count_in_Cons bt_get_Cons)
  next
    case 3
    with Cons.IH [OF wf(1)] show ?thesis by (auto simp: kw count_in_Cons bt_get_Cons)
  qed
qed

lemma count_remove:
  "bt_wf m \<Longrightarrow> count_in Q (bt_remove k m) + (case bt_get m k of Some w \<Rightarrow> of_bool (Q w) | None \<Rightarrow> 0) = count_in Q m"
proof (induction m)
  case Nil
  then show ?case by (simp add: count_in_def bt_remove_def)
next
  case (Cons kw m)
  obtain k' w where kw: "kw = (k', w)" by fastforce
  from Cons.prems have wf: "bt_wf m" "\<forall>k'' \<in> fst ` set m. k' < k''" by (auto simp: bt_wf_Cons kw)
  have "bt_get m k' = None" by (rule bt_get_above) (use wf(2) in auto)
  with Cons.IH [OF wf(1)] show ?case
    by (cases "k = k'") (auto simp: kw count_in_Cons bt_get_Cons bt_remove_def)
qed

lemma count_all: "count_in (\<lambda>_. True) m = length m"
  by (simp add: count_in_def)

lemma usage_count:
  "usage_total (in_flight_usage m) = count_in (\<lambda>_. True) m"
  "usage_dialogue_delivery (in_flight_usage m) = count_in (\<lambda>k. uses_reserved_lane (ak_class k)) m"
  by (simp_all add: in_flight_usage_def count_in_def)

section \<open>Lane capacity\<close>

text \<open>
  The work in flight together with the part of the reservation that is still unused fits into the
  slots: whatever runs, dialogue and delivery can still fill their reservation.
\<close>

definition lanes_ok :: "admission_limits \<Rightarrow> (ustring \<times> admission_key) list \<Rightarrow> bool" where
  "lanes_ok l m \<longleftrightarrow>
     usage_total (in_flight_usage m) + (al_dialogue_delivery_slots l - usage_dialogue_delivery (in_flight_usage m)) \<le> al_total_slots l"

lemma lanes_insert:
  assumes "lanes_ok l m" and "bt_wf m" and "al_dialogue_delivery_slots l \<le> al_total_slots l"
    and "reserved_lane_decision (ak_class k) (lane_capacity l) (in_flight_usage m) = Admit"
  shows "lanes_ok l (bt_insert name k m)"
proof -
  let ?Q = "\<lambda>k. uses_reserved_lane (ak_class k)"
  note all = count_insert [OF assms(2), of "\<lambda>_. True" name k] and dd = count_insert [OF assms(2), of ?Q name k]
  have "count_in (\<lambda>_. True) m < al_total_slots l"
    "\<not> uses_reserved_lane (ak_class k) \<Longrightarrow>
       al_dialogue_delivery_slots l - count_in ?Q m < al_total_slots l - count_in (\<lambda>_. True) m"
    using assms(3,4) by (auto simp: reserved_lane_decision_def lane_capacity_def usage_count Let_def split: if_splits)
  with assms(1) all dd show ?thesis
    by (auto simp: lanes_ok_def usage_count of_bool_def split: option.splits if_splits)
qed

lemma lanes_remove:
  assumes "lanes_ok l m" and "bt_wf m"
  shows "lanes_ok l (bt_remove name m)"
  using assms(1) count_remove [OF assms(2), of "\<lambda>_. True" name]
    count_remove [OF assms(2), of "\<lambda>k. uses_reserved_lane (ak_class k)" name]
  by (auto simp: lanes_ok_def usage_count of_bool_def split: option.splits if_splits)

definition controller_ok :: "admission_limits \<Rightarrow> controller_state \<Rightarrow> bool" where
  "controller_ok l st \<longleftrightarrow>
     queue_ok (cs_queue st) \<and> bt_wf (cs_in_flight st) \<and> bt_wf (cs_suspended st) \<and> lanes_ok l (cs_in_flight st)"

lemma normalized_reservation: "al_dialogue_delivery_slots (normalized l) < al_total_slots (normalized l)"
  "al_dialogue_delivery_queue_slots (normalized l) < al_max_queued (normalized l)"
  by (auto simp: normalized_def Let_def)

lemma push_row_ok: "push_row k st = Inr st' \<Longrightarrow> controller_ok l st \<Longrightarrow> controller_ok l st'"
  using fq.push_rows by (fastforce simp: push_row_def map_ok_Inr_iff map_err_Inr_iff controller_ok_def)

lemma remove_ok: "queue_ok q \<Longrightarrow> queue_ok (snd (queue_remove name q))"
  using fq.remove_rows by blast

lemma attempt_pop:
  assumes "controller_ok l st" and "pop_next_where t (candidate l st) (cs_queue st) = Some (e, q)"
    and "al_dialogue_delivery_slots l \<le> al_total_slots l"
  shows "queue_ok q \<and> lanes_ok l (bt_insert name (ae_key e) (cs_in_flight st)) \<and> bt_wf (bt_insert name (ae_key e) (cs_in_flight st))"
proof -
  from fq.pop_rows [OF _ assms(2)] assms(1) have "queue_ok q" "candidate l st (ae_key e) (ae_payload e)"
    by (auto simp: controller_ok_def)
  with assms lanes_insert [of l "cs_in_flight st" "ae_key e" name] show ?thesis
    by (simp add: controller_ok_def candidate_def)
qed

lemma step_ok:
  assumes "admission_step l ev s s'" and "controller_ok l (sys_ctl s)" and "al_dialogue_delivery_slots l \<le> al_total_slots l"
  shows "controller_ok l (sys_ctl s')"
  using assms(1)
proof cases
  case (restore k r c)
  then show ?thesis using assms(2) push_row_ok by (auto simp: restore_queued_def map_ok_Inr_iff split: if_splits)
next
  case (forget name)
  then show ?thesis using assms(2) remove_ok [of "cs_queue (sys_ctl s)" name]
    by (auto simp: forget_def Let_def controller_ok_def split: prod.splits)
next
  case (acquire k c)
  then show ?thesis using assms(2) push_row_ok [of k "sys_ctl s"]
    by (auto simp: acquire_register_def map_ok_Inr_iff and_then_Inr_iff controller_ok_def split: if_splits)
next
  case (grant k rest t1 t2 c)
  then show ?thesis using assms(2) attempt_pop [OF assms(2) _ assms(3)]
    by (auto simp: acquire_attempt_def controller_ok_def split: if_splits)
next
  case (resume k rest c)
  then show ?thesis using assms(2) push_row_ok [of k "sys_ctl s"]
    by (auto simp: resume_register_def map_ok_Inr_iff controller_ok_def split: if_splits)
next
  case (resumed k rest t1 t2 c)
  then show ?thesis using assms(2) attempt_pop [OF assms(2) _ assms(3)]
    by (auto simp: resume_attempt_def controller_ok_def split: if_splits)
qed (use assms(2) in \<open>auto simp: controller_ok_def waiting_drop_def permit_suspend_def permit_release_def suspended_drop_def
    lanes_remove remove_ok\<close>)

lemma run_ok: "admission_run l0 evs s \<Longrightarrow> controller_ok (normalized l0) (sys_ctl s)"
proof (induction rule: admission_run.induct)
  case (start l c)
  then show ?case
    by (auto simp: controller_new_def Let_def system_new_def controller_ok_def queue_ok_def queue_new_def lanes_ok_def
        in_flight_usage_def normalized_def)
next
  case (continue evs s ev s')
  then show ?case using step_ok normalized_reservation(1) [of l0] by (meson less_imp_le_nat)
qed

section \<open>Exclusive ownership\<close>

definition ids :: "admission_key multiset \<Rightarrow> ustring multiset" where
  "ids K = image_mset ak_id K"

lemma ids_simps [simp]: "ids {#} = {#}" "ids (add_mset k K) = add_mset (ak_id k) (ids K)"
  by (simp_all add: ids_def)

definition unique_ids :: "ustring multiset \<Rightarrow> bool" where
  "unique_ids M \<longleftrightarrow> (\<forall>n. count M n \<le> 1)"

lemma unique_ids_empty [simp]: "unique_ids {#}"
  by (simp add: unique_ids_def)

lemma unique_ids_add [simp]: "unique_ids (add_mset n M) \<longleftrightarrow> n \<notin># M \<and> unique_ids M"
proof
  assume all: "unique_ids (add_mset n M)"
  then have "count (add_mset n M) n \<le> 1" unfolding unique_ids_def by blast
  then have "n \<notin># M" by (simp add: not_in_iff)
  moreover have "count M x \<le> 1" for x
    using all [unfolded unique_ids_def, rule_format, of x] by (simp split: if_splits)
  ultimately show "n \<notin># M \<and> unique_ids M" by (simp add: unique_ids_def)
qed (auto simp: unique_ids_def not_in_iff)

text \<open>The identities the controller tracks: in flight, suspended, waiting, queued.\<close>

record tracked =
  tr_in_flight :: "ustring set"
  tr_suspended :: "ustring set"
  tr_waiting :: "ustring set"
  tr_queued :: "ustring set"

definition track :: "controller_state \<Rightarrow> tracked" where
  "track c = \<lparr>tr_in_flight = fst ` set (cs_in_flight c), tr_suspended = fst ` set (cs_suspended c), tr_waiting = cs_waiters c,
     tr_queued = row_id ` queue_rows (cs_queue c)\<rparr>"

lemma queued_track: "queued name c \<longleftrightarrow> name \<in> tr_queued (track c)"
  by (auto simp: track_def list_ex_iff queue_rows_def)

lemma contains_track:
  "bt_contains (cs_in_flight c) name \<longleftrightarrow> name \<in> tr_in_flight (track c)"
  "bt_contains (cs_suspended c) name \<longleftrightarrow> name \<in> tr_suspended (track c)"
  by (simp_all add: track_def bt_contains_def bt_get_None_iff)

lemma tracked_keys_remove: "fst ` set (bt_remove k m) = fst ` set m - {k}"
  by (auto simp: bt_remove_def)

lemma track_push:
  assumes "push_row k c = Inr c'" and "queue_ok (cs_queue c)"
  shows "track c' = (track c)\<lparr>tr_queued := insert (ak_id k) (tr_queued (track c))\<rparr>"
proof -
  from assms(1) obtain q where q: "queue_push (entry_of k) (cs_queue c) = Inr q" "c' = c\<lparr>cs_queue := q\<rparr>"
    by (auto simp: push_row_def map_ok_Inr_iff)
  from fq.push_ids [OF assms(2) q(1)] show ?thesis by (simp add: q(2) track_def entry_of_def)
qed

lemma track_restore:
  assumes "restore_queued l k c = Inr (r, c')" and "queue_ok (cs_queue c)"
  shows "track c' = track c \<or>
    ak_id k \<notin> tr_in_flight (track c) \<and> ak_id k \<notin> tr_suspended (track c) \<and>
    track c' = (track c)\<lparr>tr_queued := insert (ak_id k) (tr_queued (track c))\<rparr>"
  using assms track_push by (auto simp: restore_queued_def map_ok_Inr_iff contains_track split: if_splits)

lemma track_forget:
  assumes "queue_ok (cs_queue c)"
  shows "track (snd (forget name c)) =
    (if name \<in> tr_queued (track c)
     then (track c)\<lparr>tr_waiting := tr_waiting (track c) - {name}, tr_queued := tr_queued (track c) - {name}\<rparr>
     else (track c)\<lparr>tr_waiting := tr_waiting (track c) - {name}, tr_suspended := tr_suspended (track c) - {name}\<rparr>)"
proof -
  obtain r q where rq: "queue_remove name (cs_queue c) = (r, q)" by fastforce
  with fq.remove_found [OF assms, of name] fq.remove_ids [OF assms, of name]
  have "r \<noteq> None \<longleftrightarrow> name \<in> tr_queued (track c)" "row_id ` queue_rows q = tr_queued (track c) - {name}"
    by (simp_all add: track_def)
  with rq show ?thesis by (auto simp: forget_def Let_def track_def tracked_keys_remove)
qed

lemma track_acquire:
  assumes "acquire_register l k c = Inr c'" and "queue_ok (cs_queue c)"
  shows "ak_id k \<notin> tr_in_flight (track c) \<and> ak_id k \<notin> tr_suspended (track c) \<and> ak_id k \<notin> tr_waiting (track c) \<and>
    track c' = (track c)\<lparr>tr_waiting := insert (ak_id k) (tr_waiting (track c)), tr_queued := insert (ak_id k) (tr_queued (track c))\<rparr>"
proof -
  from assms(1) obtain c1 where c1: "c1 = c \<and> queued (ak_id k) c \<or> push_row k c = Inr c1"
    and c': "c' = c1\<lparr>cs_waiters := insert (ak_id k) (cs_waiters c1)\<rparr>"
    by (auto simp: acquire_register_def map_ok_Inr_iff and_then_Inr_iff split: if_splits)
  from c1 have "track c1 = (track c)\<lparr>tr_queued := insert (ak_id k) (tr_queued (track c))\<rparr>"
    using track_push [OF _ assms(2)] by (auto simp: queued_track insert_absorb)
  with c' assms(1) show ?thesis
    by (auto simp: acquire_register_def contains_track track_def split: if_splits)
qed

text \<open>At one reading of the clock an attempt takes its own row.\<close>

lemma own_row:
  assumes "queue_ok (cs_queue c)" and "map_option row_id (peek_next_where t (candidate l c) (cs_queue c)) = Some name"
    and "pop_next_where t (candidate l c) (cs_queue c) = Some (e, q)"
  shows "row_id e = name \<and> name \<in> tr_waiting (track c) \<and> name \<in> tr_queued (track c) \<and>
    row_id ` queue_rows q = tr_queued (track c) - {name}"
  using assms(2,3) fq.pop_ids [OF assms(1,3)] fq.pop_rows [OF assms(1,3)] by (auto simp: fq.peek_pop track_def candidate_def)

lemma track_grant:
  assumes "acquire_attempt l t t name c = Some (True, c')" and "queue_ok (cs_queue c)"
  shows "name \<in> tr_waiting (track c) \<and> name \<in> tr_queued (track c) \<and>
    track c' = (track c)\<lparr>tr_in_flight := insert name (tr_in_flight (track c)), tr_waiting := tr_waiting (track c) - {name},
      tr_queued := tr_queued (track c) - {name}\<rparr>"
proof -
  from assms(1) obtain e q where
    peek: "map_option row_id (peek_next_where t (candidate l c) (cs_queue c)) = Some name" and
    pop: "pop_next_where t (candidate l c) (cs_queue c) = Some (e, q)" and
    c': "c' = c\<lparr>cs_queue := q, cs_waiters := cs_waiters c - {name}, cs_in_flight := bt_insert name (ae_key e) (cs_in_flight c)\<rparr>"
    by (auto simp: acquire_attempt_def split: if_splits)
  from own_row [OF assms(2) peek pop] show ?thesis by (simp add: c' track_def)
qed

lemma track_resumed:
  assumes "resume_attempt l t t name c = Some (True, c')" and "queue_ok (cs_queue c)"
  shows "name \<in> tr_waiting (track c) \<and> name \<in> tr_queued (track c) \<and>
    track c' = (track c)\<lparr>tr_in_flight := insert name (tr_in_flight (track c)), tr_suspended := tr_suspended (track c) - {name},
      tr_waiting := tr_waiting (track c) - {name}, tr_queued := tr_queued (track c) - {name}\<rparr>"
proof -
  from assms(1) obtain e q where
    peek: "map_option row_id (peek_next_where t (candidate l c) (cs_queue c)) = Some name" and
    pop: "pop_next_where t (candidate l c) (cs_queue c) = Some (e, q)" and
    c': "c' = c\<lparr>cs_queue := q, cs_waiters := cs_waiters c - {name}, cs_suspended := bt_remove name (cs_suspended c),
      cs_in_flight := bt_insert name (ae_key e) (cs_in_flight c)\<rparr>"
    by (auto simp: resume_attempt_def split: if_splits)
  from own_row [OF assms(2) peek pop] show ?thesis by (simp add: c' track_def tracked_keys_remove)
qed

lemma track_resume:
  assumes "resume_register k c = Inr c'" and "queue_ok (cs_queue c)"
  shows "track c' = (track c)\<lparr>tr_waiting := insert (ak_id k) (tr_waiting (track c)), tr_queued := insert (ak_id k) (tr_queued (track c))\<rparr>"
proof -
  from assms(1) obtain c1 where c1: "c1 = c \<and> queued (ak_id k) c \<or> push_row k c = Inr c1"
    and c': "c' = c1\<lparr>cs_waiters := insert (ak_id k) (cs_waiters c1)\<rparr>"
    by (auto simp: resume_register_def map_ok_Inr_iff split: if_splits)
  from c1 have "track c1 = (track c)\<lparr>tr_queued := insert (ak_id k) (tr_queued (track c))\<rparr>"
    using track_push [OF _ assms(2)] by (auto simp: queued_track insert_absorb)
  with c' show ?thesis by (simp add: track_def)
qed

lemma track_permits:
  "track (permit_suspend k c) = (track c)\<lparr>tr_in_flight := tr_in_flight (track c) - {ak_id k},
     tr_suspended := insert (ak_id k) (tr_suspended (track c))\<rparr>"
  "track (permit_release k c) = (track c)\<lparr>tr_in_flight := tr_in_flight (track c) - {ak_id k}\<rparr>"
  "track (waiting_drop name c) = (track c)\<lparr>tr_waiting := tr_waiting (track c) - {name}\<rparr>"
  by (simp_all add: track_def permit_suspend_def permit_release_def waiting_drop_def tracked_keys_remove)

lemma track_suspended_drop:
  "queue_ok (cs_queue c) \<Longrightarrow> track (suspended_drop k c) = (track c)\<lparr>tr_suspended := tr_suspended (track c) - {ak_id k},
     tr_waiting := tr_waiting (track c) - {ak_id k}, tr_queued := tr_queued (track c) - {ak_id k}\<rparr>"
  using fq.remove_ids by (simp add: track_def suspended_drop_def tracked_keys_remove)

end
