(* ===== verification/Admission_Ownership.thy ===== *)
theory Admission_Ownership
  imports Admission_Safety
begin

text \<open>
  Exclusive ownership in disciplined runs: what the controller tracks is exactly what the futures,
  permits and handles of the program say, and no activation is referred to twice. Then progress:
  when a waiting row fits the capacity, some waiting future is admitted.
\<close>

definition owned :: "system \<Rightarrow> bool" where
  "owned s \<longleftrightarrow>
     unique_ids (ids (sys_acquiring s) + ids (sys_resuming s) + ids (sys_permits s) + ids (sys_parked s)) \<and>
     tr_in_flight (track (sys_ctl s)) = set_mset (ids (sys_permits s)) \<and>
     tr_suspended (track (sys_ctl s)) = set_mset (ids (sys_parked s)) \<union> set_mset (ids (sys_resuming s)) \<and>
     tr_waiting (track (sys_ctl s)) = set_mset (ids (sys_acquiring s)) \<union> set_mset (ids (sys_resuming s)) \<and>
     tr_waiting (track (sys_ctl s)) \<subseteq> tr_queued (track (sys_ctl s)) \<and>
     tr_queued (track (sys_ctl s)) \<inter> (set_mset (ids (sys_permits s)) \<union> set_mset (ids (sys_parked s))) = {}"

fun disciplined :: "system \<Rightarrow> admission_event \<Rightarrow> bool" where
  "disciplined s (EvForget name) \<longleftrightarrow>
     name \<notin># ids (sys_acquiring s) \<and> name \<notin># ids (sys_resuming s) \<and> name \<notin># ids (sys_parked s)"
| "disciplined s (EvGrant t1 t2 k) \<longleftrightarrow> t1 = t2"
| "disciplined s (EvResumed t1 t2 k) \<longleftrightarrow> t1 = t2"
| "disciplined s _ \<longleftrightarrow> True"

inductive disciplined_run :: "admission_limits \<Rightarrow> admission_event list \<Rightarrow> system \<Rightarrow> bool" for limits0 where
  disciplined_start: "controller_new limits0 = (l, c) \<Longrightarrow> disciplined_run limits0 [] (system_new c)"
| disciplined_continue: "disciplined_run limits0 evs s \<Longrightarrow> admission_step (normalized limits0) ev s s' \<Longrightarrow> disciplined s ev \<Longrightarrow>
    disciplined_run limits0 (evs @ [ev]) s'"

lemma disciplined_is_run: "disciplined_run l0 evs s \<Longrightarrow> admission_run l0 evs s"
  by (induction rule: disciplined_run.induct) (auto intro: admission_run.intros)

lemma owned_step:
  assumes "admission_step l ev s s'" and "disciplined s ev" and "owned s" and "queue_ok (cs_queue (sys_ctl s))"
  shows "owned s'"
proof -
  note own = assms(3) [unfolded owned_def] and ok = assms(4)
  from assms(1) show ?thesis
  proof cases
    case (restore k r c)
    with own track_restore [OF restore(3) ok] show ?thesis by (auto simp: owned_def)
  next
    case (forget name)
    with own assms(2) track_forget [OF ok, of name] show ?thesis by (auto simp: owned_def split: if_splits)
  next
    case (acquire k c)
    with own track_acquire [OF acquire(3) ok] show ?thesis by (auto simp: owned_def)
  next
    case (grant k rest t1 t2 c)
    with assms(2) have "acquire_attempt l t1 t1 (ak_id k) (sys_ctl s) = Some (True, c)" by simp
    from track_grant [OF this ok] own grant show ?thesis by (auto simp: owned_def)
  next
    case (cancel_acquire k rest)
    with own show ?thesis by (auto simp: owned_def track_permits)
  next
    case (suspend k rest)
    with own show ?thesis by (auto simp: owned_def track_permits)
  next
    case (release k rest)
    with own show ?thesis by (auto simp: owned_def track_permits)
  next
    case (resume k rest c)
    with own track_resume [OF resume(4) ok] show ?thesis by (auto simp: owned_def)
  next
    case (resume_failed k rest err)
    with own show ?thesis by (auto simp: owned_def track_suspended_drop [OF ok])
  next
    case (resumed k rest t1 t2 c)
    with assms(2) have "resume_attempt l t1 t1 (ak_id k) (sys_ctl s) = Some (True, c)" by simp
    from track_resumed [OF this ok] own resumed show ?thesis by (auto simp: owned_def)
  next
    case (cancel_resume k rest)
    have "queue_ok (cs_queue (waiting_drop (ak_id k) (sys_ctl s)))" using ok by (simp add: waiting_drop_def)
    with own cancel_resume show ?thesis by (auto simp: owned_def track_suspended_drop track_permits)
  next
    case (drop_parked k rest)
    with own show ?thesis by (auto simp: owned_def track_suspended_drop [OF ok])
  qed
qed

lemma owned_run: "disciplined_run l0 evs s \<Longrightarrow> owned s"
proof (induction rule: disciplined_run.induct)
  case (disciplined_start l c)
  then show ?case
    by (auto simp: controller_new_def Let_def system_new_def owned_def track_def queue_new_def queue_rows_def)
next
  case (disciplined_continue evs s ev s')
  then have "queue_ok (cs_queue (sys_ctl s))"
    using run_ok [OF disciplined_is_run] by (auto simp: controller_ok_def)
  with disciplined_continue owned_step show ?case by blast
qed

section \<open>The bounded window\<close>

text \<open>The rows that count against the window: those not owned by a suspended activation.\<close>

definition fresh_rows :: "controller_state \<Rightarrow> unit admission_entry set" where
  "fresh_rows c = {e \<in> queue_rows (cs_queue c). row_id e \<notin> tr_suspended (track c)}"

definition general_rows :: "unit admission_entry set \<Rightarrow> unit admission_entry set" where
  "general_rows E = {e \<in> E. \<not> uses_reserved_lane (ak_class (ae_key e))}"

definition window_ok :: "admission_limits \<Rightarrow> controller_state \<Rightarrow> bool" where
  "window_ok l c \<longleftrightarrow> card (fresh_rows c) \<le> al_max_queued l \<and> card (general_rows (fresh_rows c)) \<le> general_queue_limit l"

lemma finite_fresh [simp]: "finite (fresh_rows c)" "finite (general_rows (fresh_rows c))"
  by (auto simp: fresh_rows_def general_rows_def queue_rows_def)

lemma window_subset:
  assumes "fresh_rows c' \<subseteq> fresh_rows c" and "window_ok l c"
  shows "window_ok l c'"
proof -
  have "general_rows (fresh_rows c') \<subseteq> general_rows (fresh_rows c)" using assms(1) by (auto simp: general_rows_def)
  from card_mono [OF _ this] card_mono [OF _ assms(1)] assms(2) show ?thesis by (simp add: window_ok_def)
qed

lemma fresh_bound:
  "card (fresh_rows c) \<le> queue_len (cs_queue c)"
  "card (general_rows (fresh_rows c)) \<le> length (filter (\<lambda>e. \<not> uses_reserved_lane (ak_class (ae_key e))) (fq_entries (cs_queue c)))"
proof -
  have "fresh_rows c \<subseteq> set (fq_entries (cs_queue c))"
    "general_rows (fresh_rows c) \<subseteq> set (filter (\<lambda>e. \<not> uses_reserved_lane (ak_class (ae_key e))) (fq_entries (cs_queue c)))"
    by (auto simp: fresh_rows_def general_rows_def queue_rows_def)
  from this [THEN card_mono [OF finite_set]] show "card (fresh_rows c) \<le> queue_len (cs_queue c)"
    "card (general_rows (fresh_rows c)) \<le> length (filter (\<lambda>e. \<not> uses_reserved_lane (ak_class (ae_key e))) (fq_entries (cs_queue c)))"
    unfolding queue_len_def by (auto intro: order_trans [OF _ card_length])
qed

lemma window_insert:
  assumes "fresh_rows c' \<subseteq> insert (entry_of k) (fresh_rows c)" and "window_ok l c" and "check_queue_capacity l c k = Inr ()"
  shows "window_ok l c'"
proof -
  let ?E = "insert (entry_of k) (fresh_rows c)"
  have card: "card (fresh_rows c') \<le> Suc (card (fresh_rows c))"
    using card_mono [OF _ assms(1)] card_insert_le_m1 by (simp add: card_insert_if split: if_splits)
  have general: "card (general_rows (fresh_rows c')) \<le> card (general_rows ?E)"
    using assms(1) by (intro card_mono) (auto simp: general_rows_def)
  have lt: "queue_len (cs_queue c) < al_max_queued l"
    using assms(3) by (auto simp: check_queue_capacity_def Let_def split: if_splits)
  show ?thesis
  proof (cases "uses_reserved_lane (ak_class k)")
    case True
    then have "general_rows ?E = general_rows (fresh_rows c)" by (auto simp: general_rows_def entry_of_def)
    with card general lt fresh_bound(1) [of c] assms(2) show ?thesis by (simp add: window_ok_def)
  next
    case False
    then have "general_rows ?E = insert (entry_of k) (general_rows (fresh_rows c))" by (auto simp: general_rows_def entry_of_def)
    then have "card (general_rows ?E) \<le> Suc (card (general_rows (fresh_rows c)))" by (simp add: card_insert_if)
    moreover have "length (filter (\<lambda>e. \<not> uses_reserved_lane (ak_class (ae_key e))) (fq_entries (cs_queue c))) < general_queue_limit l"
      using assms(3) False lt by (auto simp: check_queue_capacity_def Let_def split: if_splits)
    ultimately show ?thesis using card general lt fresh_bound [of c] by (simp add: window_ok_def)
  qed
qed

lemma fresh_push:
  assumes "push_row k c = Inr c'" and "queue_ok (cs_queue c)"
  shows "fresh_rows c' \<subseteq> insert (entry_of k) (fresh_rows c)"
proof -
  from assms(1) obtain q where q: "queue_push (entry_of k) (cs_queue c) = Inr q" "c' = c\<lparr>cs_queue := q\<rparr>"
    by (auto simp: push_row_def map_ok_Inr_iff)
  from fq.push_rows [OF assms(2) q(1)] show ?thesis by (auto simp: q(2) fresh_rows_def track_def)
qed

lemma fresh_remove:
  assumes "queue_ok (cs_queue c)" and "cs_queue c' = snd (queue_remove name (cs_queue c))"
    and "tr_suspended (track c) - {name} \<subseteq> tr_suspended (track c')"
  shows "fresh_rows c' \<subseteq> fresh_rows c"
  using fq.remove_rows [OF assms(1), of name] assms(2,3) by (auto simp: fresh_rows_def)

lemma fresh_pop:
  assumes "queue_ok (cs_queue c)" and "pop_next_where t P (cs_queue c) = Some (e, cs_queue c')"
    and "tr_suspended (track c) - {row_id e} \<subseteq> tr_suspended (track c')"
  shows "fresh_rows c' \<subseteq> fresh_rows c"
  using fq.pop_rows [OF assms(1,2)] fq.unique [OF assms(1)] assms(3) by (fastforce simp: fresh_rows_def inj_on_def)

lemma fresh_drop: "queue_ok (cs_queue c) \<Longrightarrow> fresh_rows (suspended_drop k c) \<subseteq> fresh_rows c"
  by (rule fresh_remove [of _ _ "ak_id k"]) (auto simp: suspended_drop_def track_def tracked_keys_remove)

lemma fresh_waiting [simp]: "fresh_rows (waiting_drop name c) = fresh_rows c"
  by (simp add: fresh_rows_def waiting_drop_def track_def)

lemma window_step:
  assumes "admission_step l ev s s'" and "disciplined s ev" and "owned s" and "queue_ok (cs_queue (sys_ctl s))"
    and "window_ok l (sys_ctl s)"
  shows "window_ok l (sys_ctl s')"
proof -
  note ok = assms(4) and win = assms(5)
  from assms(1) show ?thesis
  proof cases
    case (restore k r c)
    with win show ?thesis
      by (auto simp: restore_queued_def map_ok_Inr_iff unit_is_ok [symmetric] split: if_splits
          intro: window_insert [OF fresh_push [OF _ ok] win])
  next
    case (forget name)
    obtain rm q where rq: "queue_remove name (cs_queue (sys_ctl s)) = (rm, q)" by fastforce
    with track_forget [OF ok, of name] have "fresh_rows (snd (forget name (sys_ctl s))) \<subseteq> fresh_rows (sys_ctl s)"
      by (intro fresh_remove [OF ok, of _ name]) (auto simp: forget_def Let_def split: if_splits)
    with forget win show ?thesis by (auto intro: window_subset)
  next
    case (acquire k c)
    from acquire(3) consider c1 where "c = c1\<lparr>cs_waiters := insert (ak_id k) (cs_waiters c1)\<rparr>" "c1 = sys_ctl s"
      | c1 where "c = c1\<lparr>cs_waiters := insert (ak_id k) (cs_waiters c1)\<rparr>" "push_row k (sys_ctl s) = Inr c1"
          "check_queue_capacity l (sys_ctl s) k = Inr ()"
      by (auto simp: acquire_register_def map_ok_Inr_iff and_then_Inr_iff split: if_splits)
    then show ?thesis
    proof cases
      case 1
      with acquire win show ?thesis by (simp add: window_ok_def fresh_rows_def track_def)
    next
      case 2
      have "fresh_rows c = fresh_rows c1" by (simp add: 2(1) fresh_rows_def track_def)
      with window_insert [OF _ win 2(3)] fresh_push [OF 2(2) ok] acquire show ?thesis by simp
    qed
  next
    case (grant k rest t1 t2 c)
    then obtain e where "pop_next_where t2 (candidate l (sys_ctl s)) (cs_queue (sys_ctl s)) = Some (e, cs_queue c)"
      and "cs_suspended c = cs_suspended (sys_ctl s)"
      by (auto simp: acquire_attempt_def split: if_splits)
    with grant win show ?thesis by (auto simp: track_def intro!: window_subset [OF fresh_pop [OF ok] win])
  next
    case (resume k rest c)
    have "fresh_rows c \<subseteq> fresh_rows (sys_ctl s)"
    proof -
      from resume(4) obtain c1 where c: "c = c1\<lparr>cs_waiters := insert (ak_id k) (cs_waiters c1)\<rparr>"
        and c1: "c1 = sys_ctl s \<or> push_row k (sys_ctl s) = Inr c1" and in_susp: "ak_id k \<in> tr_suspended (track (sys_ctl s))"
        by (auto simp: resume_register_def map_ok_Inr_iff contains_track split: if_splits)
      have "tr_suspended (track c) = tr_suspended (track c1)" by (simp add: c track_def)
      also have "\<dots> = tr_suspended (track (sys_ctl s))" using c1 track_push [OF _ ok, of k c1] by auto
      finally have susp: "tr_suspended (track c) = tr_suspended (track (sys_ctl s))" .
      have "fresh_rows c = fresh_rows c1" by (simp add: c fresh_rows_def track_def)
      then have "fresh_rows c \<subseteq> insert (entry_of k) (fresh_rows (sys_ctl s))" using c1 fresh_push [OF _ ok] by auto
      moreover have "entry_of k \<notin> fresh_rows c" using in_susp susp by (simp add: fresh_rows_def entry_of_def)
      ultimately show ?thesis by blast
    qed
    with resume win show ?thesis by (auto intro: window_subset)
  next
    case (resumed k rest t1 t2 c)
    then have t: "resume_attempt l t1 t1 (ak_id k) (sys_ctl s) = Some (True, c)" using assms(2) by simp
    then obtain e where e: "pop_next_where t1 (candidate l (sys_ctl s)) (cs_queue (sys_ctl s)) = Some (e, cs_queue c)"
      and peek: "map_option row_id (peek_next_where t1 (candidate l (sys_ctl s)) (cs_queue (sys_ctl s))) = Some (ak_id k)"
      by (auto simp: resume_attempt_def split: if_splits)
    from own_row [OF ok peek e] have "row_id e = ak_id k" by simp
    with track_resumed [OF t ok] have "fresh_rows c \<subseteq> fresh_rows (sys_ctl s)" by (intro fresh_pop [OF ok e]) auto
    with resumed win show ?thesis by (auto intro: window_subset)
  next
    case (suspend k rest)
    have "fresh_rows (permit_suspend k (sys_ctl s)) \<subseteq> fresh_rows (sys_ctl s)"
      by (auto simp: fresh_rows_def track_permits) (simp add: permit_suspend_def)
    with suspend win show ?thesis by (auto intro: window_subset)
  next
    case (cancel_resume k rest)
    have "queue_ok (cs_queue (waiting_drop (ak_id k) (sys_ctl s)))" using ok by (simp add: waiting_drop_def)
    from fresh_drop [OF this, of k] cancel_resume win show ?thesis by (auto intro: window_subset)
  next
    case (resume_failed k rest err)
    with fresh_drop [OF ok, of k] win show ?thesis by (auto intro: window_subset)
  next
    case (drop_parked k rest)
    with fresh_drop [OF ok, of k] win show ?thesis by (auto intro: window_subset)
  next
    case (release k rest)
    with win show ?thesis by (simp add: window_ok_def permit_release_def fresh_rows_def track_def)
  next
    case (cancel_acquire k rest)
    with win show ?thesis by (simp add: window_ok_def)
  qed
qed

lemma window_run: "disciplined_run l0 evs s \<Longrightarrow> window_ok (normalized l0) (sys_ctl s)"
proof (induction rule: disciplined_run.induct)
  case (disciplined_start l c)
  then show ?case
    by (auto simp: controller_new_def Let_def system_new_def window_ok_def fresh_rows_def general_rows_def queue_new_def queue_rows_def)
next
  case (disciplined_continue evs s ev s')
  then have "queue_ok (cs_queue (sys_ctl s))"
    using run_ok [OF disciplined_is_run] by (auto simp: controller_ok_def)
  with disciplined_continue owned_run window_step show ?case by blast
qed

section \<open>Progress\<close>

lemma attempt_no_panic: "acquire_attempt l t1 t2 name c \<noteq> None" "resume_attempt l t1 t2 name c \<noteq> None"
proof -
  have "pop_next_where t2 (candidate l c) (cs_queue c) \<noteq> None"
    if "peek_next_where t1 (candidate l c) (cs_queue c) = Some e" for e
    using that fq.pop_None [of t1 "candidate l c" "cs_queue c"] fq.pop_None [of t2 "candidate l c" "cs_queue c"]
    by (auto simp: fq.peek_pop)
  then show "acquire_attempt l t1 t2 name c \<noteq> None" "resume_attempt l t1 t2 name c \<noteq> None"
    by (auto simp: acquire_attempt_def resume_attempt_def split: option.splits)
qed

lemma ids_member: "n \<in># ids K \<Longrightarrow> \<exists>k rest. ak_id k = n \<and> K = add_mset k rest"
  by (auto simp: ids_def dest: multi_member_split)

lemma progress:
  assumes "owned s" and "queue_ok (cs_queue (sys_ctl s))" and "e \<in> queue_rows (cs_queue (sys_ctl s))"
    and "candidate l (sys_ctl s) (ae_key e) ()"
  shows "\<exists>k s'. admission_step l (EvGrant t t k) s s' \<or> admission_step l (EvResumed t t k) s s'"
proof -
  let ?c = "sys_ctl s"
  obtain w q where pop: "pop_next_where t (candidate l ?c) (cs_queue ?c) = Some (w, q)"
    using fq.pop_None [of t "candidate l ?c" "cs_queue ?c"] assms(3,4) by fastforce
  then have peek: "map_option row_id (peek_next_where t (candidate l ?c) (cs_queue ?c)) = Some (row_id w)"
    by (simp add: fq.peek_pop)
  from own_row [OF assms(2) peek pop] assms(1) have "row_id w \<in># ids (sys_acquiring s) \<or> row_id w \<in># ids (sys_resuming s)"
    by (auto simp: owned_def)
  then show ?thesis
  proof
    assume "row_id w \<in># ids (sys_acquiring s)"
    then obtain k rest where k: "ak_id k = row_id w" "sys_acquiring s = add_mset k rest" using ids_member by blast
    with peek pop obtain c where "acquire_attempt l t t (ak_id k) ?c = Some (True, c)" by (simp add: acquire_attempt_def)
    from admission_step.grant [OF k(2) this] show ?thesis by blast
  next
    assume "row_id w \<in># ids (sys_resuming s)"
    then obtain k rest where k: "ak_id k = row_id w" "sys_resuming s = add_mset k rest" using ids_member by blast
    with peek pop obtain c where "resume_attempt l t t (ak_id k) ?c = Some (True, c)" by (simp add: resume_attempt_def)
    from admission_step.resumed [OF k(2) this] show ?thesis by blast
  qed
qed

lemma reserved_admitted:
  assumes "lanes_ok l m" and "uses_reserved_lane cls"
    and "usage_dialogue_delivery (in_flight_usage m) < al_dialogue_delivery_slots l"
  shows "reserved_lane_decision cls (lane_capacity l) (in_flight_usage m) = Admit"
  using assms by (auto simp: lanes_ok_def reserved_lane_decision_def lane_capacity_def)

end
