(* ===== verification/Admission_Examples.thy ===== *)
theory Admission_Examples
  imports Admission_Ownership
begin

text \<open>
  Concrete runs of the admission controller for the witnesses, and the run in which the clock
  advances between the two readings of one attempt.
\<close>

lemmas queue_eval = select_index_def eligible_rows_def min_by.simps cmp_of_def Let_def effective_class_def aging_every_def
  i64_saturating_sub_def i64_min_def i64_max_def from_rank_def less_eq_admission_class_def less_admission_class_def
  group_heads_def group_step_def update_if_older_def ordered_group_ids_def sort_by_def next_group_def fifo_cmp_def
  bt_get_Cons peek_next_where_def pop_next_where_def swap_remove_def advance_cursor_def no_cursor_def less_prod_def

lemmas controller_eval = controller_new_def normalized_def acquire_register_def push_row_def entry_of_def queue_new_def queue_push_def
  validate_key_def check_queue_capacity_def queue_len_def general_queue_limit_def bt_contains_def candidate_def
  reserved_lane_decision_def lane_capacity_def in_flight_usage_def uses_reserved_lane_def acquire_attempt_def system_new_def

definition example_limits :: admission_limits where
  "example_limits = \<lparr>al_total_slots = 2, al_dialogue_delivery_slots = 1, al_max_queued = 4,
     al_dialogue_delivery_queue_slots = 1, al_aging_promotion_interval = 10\<rparr>"

definition key_a :: admission_key where
  "key_a = \<lparr>ak_id = [97], ak_agent = [1], ak_context = [1], ak_session = [1], ak_class = Objective, ak_created = 0\<rparr>"

definition key_b :: admission_key where
  "key_b = \<lparr>ak_id = [98], ak_agent = [1], ak_context = [1], ak_session = [1], ak_class = Maintenance, ak_created = - 1\<rparr>"

definition waiting_pair :: controller_state where
  "waiting_pair =
     \<lparr>cs_queue = \<lparr>fq_entries = [entry_of key_a, entry_of key_b], fq_ids = {[97], [98]}, fq_cursor = no_cursor,
        fq_aging = aging_every 10\<rparr>,
      cs_waiters = {[97], [98]}, cs_in_flight = [], cs_suspended = []\<rparr>"

lemma waiting_pair_reached:
  "\<exists>c. controller_new example_limits = (normalized example_limits, c) \<and>
     (\<exists>c1. acquire_register (normalized example_limits) key_a c = Inr c1 \<and>
        acquire_register (normalized example_limits) key_b c1 = Inr waiting_pair)"
  by (simp add: controller_eval example_limits_def key_a_def key_b_def waiting_pair_def insert_commute)

lemma peeked_row: "map_option row_id (peek_next_where 38 (candidate (normalized example_limits) waiting_pair) (cs_queue waiting_pair)) = Some [97]"
  by (simp add: queue_eval controller_eval waiting_pair_def key_a_def key_b_def example_limits_def)

lemma popped_row: "\<exists>q. pop_next_where 39 (candidate (normalized example_limits) waiting_pair) (cs_queue waiting_pair) = Some (entry_of key_b, q) \<and>
    fq_entries q = [entry_of key_a]"
  by (simp add: queue_eval controller_eval waiting_pair_def key_a_def key_b_def example_limits_def)

definition pair_system :: system where
  "pair_system = (system_new waiting_pair)\<lparr>sys_acquiring := {#key_a, key_b#}\<rparr>"

lemma pair_run: "disciplined_run example_limits [EvAcquire key_a, EvAcquire key_b] pair_system"
proof -
  obtain c c1 where c: "controller_new example_limits = (normalized example_limits, c)"
    and a: "acquire_register (normalized example_limits) key_a c = Inr c1"
    and b: "acquire_register (normalized example_limits) key_b c1 = Inr waiting_pair"
    using waiting_pair_reached by blast
  let ?s = "system_new c" and ?s1 = "(system_new c)\<lparr>sys_ctl := c1, sys_acquiring := {#key_a#}\<rparr>"
  have "disciplined_run example_limits [] ?s" using c by (rule disciplined_start)
  moreover have "admission_step (normalized example_limits) (EvAcquire key_a) ?s ?s1"
    using admission_step.acquire [of "normalized example_limits" key_a ?s c1] a by (simp add: system_new_def)
  ultimately have "disciplined_run example_limits [EvAcquire key_a] ?s1"
    using disciplined_continue by fastforce
  moreover have "admission_step (normalized example_limits) (EvAcquire key_b) ?s1 pair_system"
    using admission_step.acquire [of "normalized example_limits" key_b ?s1 waiting_pair] b
    by (simp add: system_new_def pair_system_def add_mset_commute)
  ultimately show ?thesis using disciplined_continue by fastforce
qed

lemma pair_candidate:
  "entry_of key_a \<in> queue_rows (cs_queue (sys_ctl pair_system))"
  "usage_dialogue_delivery (in_flight_usage (cs_in_flight (sys_ctl pair_system))) = 0"
  "[97] \<in> cs_waiters (sys_ctl pair_system)"
  by (simp_all add: pair_system_def system_new_def waiting_pair_def queue_rows_def in_flight_usage_def)

text \<open>The clock advances by one millisecond between the two readings: the waiter of the first row takes the second.\<close>

definition crossed_state :: "unit fair_queue \<Rightarrow> system" where
  "crossed_state q = pair_system\<lparr>sys_ctl := waiting_pair\<lparr>cs_queue := q, cs_waiters := {[98]}, cs_in_flight := [([97], key_b)]\<rparr>,
     sys_acquiring := {#key_b#}, sys_permits := {#key_a#}\<rparr>"

lemma crossed_run:
  "\<exists>q. admission_run example_limits [EvAcquire key_a, EvAcquire key_b, EvGrant 38 39 key_a] (crossed_state q) \<and>
     fq_entries q = [entry_of key_a]"
proof -
  obtain q where q: "pop_next_where 39 (candidate (normalized example_limits) waiting_pair) (cs_queue waiting_pair) = Some (entry_of key_b, q)"
    "fq_entries q = [entry_of key_a]"
    using popped_row by blast
  have "acquire_attempt (normalized example_limits) 38 39 (ak_id key_a) (sys_ctl pair_system) =
      Some (True, sys_ctl (crossed_state q))"
    using peeked_row by (simp add: acquire_attempt_def pair_system_def system_new_def q crossed_state_def key_a_def)
      (simp add: waiting_pair_def entry_of_def)
  moreover have "sys_acquiring pair_system = add_mset key_a {#key_b#}" by (simp add: pair_system_def)
  ultimately have "admission_step (normalized example_limits) (EvGrant 38 39 key_a) pair_system (crossed_state q)"
    using admission_step.grant [of pair_system key_a "{#key_b#}"] by (simp add: crossed_state_def pair_system_def system_new_def)
  with pair_run q(2) show ?thesis
    using admission_run.continue [OF disciplined_is_run] by fastforce
qed

text \<open>A suspended activation that is waiting to resume.\<close>

definition resuming_state :: controller_state where
  "resuming_state =
     \<lparr>cs_queue = \<lparr>fq_entries = [entry_of key_a], fq_ids = {[97]}, fq_cursor = no_cursor, fq_aging = aging_every 10\<rparr>,
      cs_waiters = {[97]}, cs_in_flight = [], cs_suspended = [([97], key_a)]\<rparr>"

text \<open>A delivery waiting alone, for the reserved lane.\<close>

definition key_d :: admission_key where
  "key_d = \<lparr>ak_id = [100], ak_agent = [2], ak_context = [1], ak_session = [1], ak_class = Delivery, ak_created = 0\<rparr>"

definition delivery_system :: system where
  "delivery_system = (system_new
     \<lparr>cs_queue = \<lparr>fq_entries = [entry_of key_d], fq_ids = {[100]}, fq_cursor = no_cursor, fq_aging = aging_every 10\<rparr>,
      cs_waiters = {[100]}, cs_in_flight = [], cs_suspended = []\<rparr>)\<lparr>sys_acquiring := {#key_d#}\<rparr>"

lemma delivery_run: "disciplined_run example_limits [EvAcquire key_d] delivery_system"
proof -
  obtain l c where c: "controller_new example_limits = (l, c)" by fastforce
  have "acquire_register (normalized example_limits) key_d c = Inr (sys_ctl delivery_system)"
    using c by (auto simp: controller_eval example_limits_def key_d_def delivery_system_def)
  then have "admission_step (normalized example_limits) (EvAcquire key_d) (system_new c) delivery_system"
    using admission_step.acquire [of "normalized example_limits" key_d "system_new c" "sys_ctl delivery_system"]
    by (simp add: system_new_def delivery_system_def)
  with disciplined_start [OF c] show ?thesis using disciplined_continue by fastforce
qed

lemma delivery_waiting:
  "entry_of key_d \<in> queue_rows (cs_queue (sys_ctl delivery_system))" "[100] \<in> cs_waiters (sys_ctl delivery_system)"
  "usage_dialogue_delivery (in_flight_usage (cs_in_flight (sys_ctl delivery_system))) < al_dialogue_delivery_slots (normalized example_limits)"
  by (simp_all add: delivery_system_def system_new_def queue_rows_def in_flight_usage_def normalized_def example_limits_def)

text \<open>Two agents with a row each after the first one was served.\<close>

definition key_c :: admission_key where
  "key_c = \<lparr>ak_id = [99], ak_agent = [2], ak_context = [1], ak_session = [1], ak_class = Objective, ak_created = 5\<rparr>"

definition rotating_queue :: "unit fair_queue" where
  "rotating_queue = \<lparr>fq_entries = [entry_of key_a, entry_of key_c], fq_ids = {[97], [99]},
     fq_cursor = \<lparr>cur_agents = [(Objective, [1])], cur_contexts = [], cur_sessions = []\<rparr>, fq_aging = aging_every 10\<rparr>"

lemma rotating_pop: "\<exists>q. pop_next_where 5 (\<lambda>k u. True) rotating_queue = Some (entry_of key_c, q)"
  by (simp add: queue_eval rotating_queue_def key_a_def key_c_def entry_of_def)

lemma rotating_ok: "queue_ok rotating_queue" "cursor_ok rotating_queue"
  by (auto simp: rotating_queue_def queue_ok_def cursor_ok_def entry_of_def key_a_def key_c_def validate_key_def bt_wf_def)

text \<open>Two rows of one agent.\<close>

definition key_a2 :: admission_key where
  "key_a2 = key_a\<lparr>ak_id := [120], ak_created := 3\<rparr>"

definition twin_queue :: "unit fair_queue" where
  "twin_queue = \<lparr>fq_entries = [entry_of key_a, entry_of key_a2], fq_ids = {[97], [120]}, fq_cursor = no_cursor,
     fq_aging = aging_every 10\<rparr>"

lemma twin_pops:
  "\<exists>q1 q2. pop_next_where 0 (\<lambda>k u. True) twin_queue = Some (entry_of key_a, q1) \<and>
     pop_next_where 0 (\<lambda>k u. True) q1 = Some (entry_of key_a2, q2) \<and>
     fq_entries q1 = [entry_of key_a2] \<and> fq_aging q1 = aging_every 10"
  by (simp add: queue_eval twin_queue_def key_a_def key_a2_def entry_of_def)

end
