(* ===== verification/Scheduler_Records.thy ===== *)
theory Scheduler_Records
  imports Json_Value
begin

text \<open>
  The records of the scheduler (\<open>morphz/src/memory/mod.rs\<close>, \<open>morphz/src/scheduler/domain.rs\<close>,
  \<open>morphz/src/event.rs\<close>), field by field, and the small enumerations they are built from with
  their stored names. Revisions, generations and counters (\<open>u64\<close>) are naturals, times are integers.
\<close>

type_synonym utc = int

section \<open>Events\<close>

record event =
  ev_id :: ustring
  ev_sequence :: "nat option"
  ev_timestamp :: utc
  ev_actor :: ustring
  ev_event_type :: ustring
  ev_topic :: ustring
  ev_payload :: json_map

section \<open>Objectives\<close>

datatype objective_status = ObjActive | ObjPaused | ObjBlocked | ObjCompleted | ObjCancelled | ObjFailed

fun objective_status_str :: "objective_status \<Rightarrow> ustring" where
  "objective_status_str ObjActive = lit ''active''"
| "objective_status_str ObjPaused = lit ''paused''"
| "objective_status_str ObjBlocked = lit ''blocked''"
| "objective_status_str ObjCompleted = lit ''completed''"
| "objective_status_str ObjCancelled = lit ''cancelled''"
| "objective_status_str ObjFailed = lit ''failed''"

definition objective_status_is_terminal :: "objective_status \<Rightarrow> bool" where
  "objective_status_is_terminal s \<longleftrightarrow> s = ObjCompleted \<or> s = ObjCancelled \<or> s = ObjFailed"

datatype objective_wait_condition =
    WaitToolTask ustring
  | WaitDelegation ustring
  | WaitThreadGroup ustring
  | WaitTimer utc
  | WaitPermission ustring
  | WaitUserInput ustring "ustring option"
  | WaitExternalEvent ustring ustring
  | WaitResourceAvailable ustring

record objective_completion_intent =
  oci_evaluation_id :: ustring
  oci_activation_id :: ustring
  oci_reason :: ustring
  oci_evidence_refs :: "ustring list"
  oci_requested_at :: utc

record objective_record =
  obj_model_alias :: "ustring option"
  obj_reasoning_effort :: "ustring option"
  obj_id :: ustring
  obj_agent_id :: ustring
  obj_context_id :: ustring
  obj_coordinator_session_id :: ustring
  obj_delivery_session_id :: ustring
  obj_parent_objective_id :: "ustring option"
  obj_source_event_id :: ustring
  obj_initiating_principal_id :: "ustring option"
  obj_stated_objective :: ustring
  obj_revision :: nat
  obj_generation :: nat
  obj_status :: objective_status
  obj_status_reason :: "ustring option"
  obj_wait_condition :: "objective_wait_condition option"
  obj_completion_intent :: "objective_completion_intent option"
  obj_active_evaluation_id :: "ustring option"
  obj_evaluation_lease_expires_at :: "utc option"
  obj_continuation_sequence :: nat
  obj_token_budget :: "nat option"
  obj_tokens_used :: nat
  obj_time_used_seconds :: nat
  obj_created_at :: utc
  obj_updated_at :: utc

section \<open>Threads\<close>

datatype protocol = AnnotationsOff | AnnotationsOn

datatype thread_kind = KindDialogueTurn | KindExecution | KindDelivery

fun thread_kind_str :: "thread_kind \<Rightarrow> ustring" where
  "thread_kind_str KindDialogueTurn = lit ''dialogue_turn''"
| "thread_kind_str KindExecution = lit ''execution''"
| "thread_kind_str KindDelivery = lit ''delivery''"

datatype thread_lifetime = LifetimeAttached | LifetimeDurable | LifetimeDisposable

fun thread_lifetime_str :: "thread_lifetime \<Rightarrow> ustring" where
  "thread_lifetime_str LifetimeAttached = lit ''attached''"
| "thread_lifetime_str LifetimeDurable = lit ''durable''"
| "thread_lifetime_str LifetimeDisposable = lit ''disposable''"

datatype thread_supervisor_kind = SupThread | SupEvaluation | SupObjective | SupRuntime | SupNone | SupLegacy

fun thread_supervisor_kind_str :: "thread_supervisor_kind \<Rightarrow> ustring" where
  "thread_supervisor_kind_str SupThread = lit ''thread''"
| "thread_supervisor_kind_str SupEvaluation = lit ''evaluation''"
| "thread_supervisor_kind_str SupObjective = lit ''objective''"
| "thread_supervisor_kind_str SupRuntime = lit ''runtime''"
| "thread_supervisor_kind_str SupNone = lit ''none''"
| "thread_supervisor_kind_str SupLegacy = lit ''legacy''"

record thread_supervision =
  sup_lifetime :: thread_lifetime
  sup_supervisor_kind :: thread_supervisor_kind
  sup_supervisor_id :: "ustring option"
  sup_generation :: nat
  sup_origin_evaluation_id :: "ustring option"
  sup_parent_thread_id :: "ustring option"
  sup_thread_group_id :: "ustring option"
  sup_completion_contract :: json

datatype thread_lifecycle = ThreadOpen | ThreadCompleted | ThreadFailed | ThreadCancelled

fun thread_lifecycle_str :: "thread_lifecycle \<Rightarrow> ustring" where
  "thread_lifecycle_str ThreadOpen = lit ''open''"
| "thread_lifecycle_str ThreadCompleted = lit ''completed''"
| "thread_lifecycle_str ThreadFailed = lit ''failed''"
| "thread_lifecycle_str ThreadCancelled = lit ''cancelled''"

definition thread_lifecycle_is_terminal :: "thread_lifecycle \<Rightarrow> bool" where
  "thread_lifecycle_is_terminal s \<longleftrightarrow> s = ThreadCompleted \<or> s = ThreadFailed \<or> s = ThreadCancelled"

datatype thread_control_state = ControlActive | ControlPaused

fun thread_control_state_str :: "thread_control_state \<Rightarrow> ustring" where
  "thread_control_state_str ControlActive = lit ''active''"
| "thread_control_state_str ControlPaused = lit ''paused''"

datatype thread_phase = PhaseIdle | PhaseRunnable | PhaseRunning | PhaseWaiting

fun thread_phase_str :: "thread_phase \<Rightarrow> ustring" where
  "thread_phase_str PhaseIdle = lit ''idle''"
| "thread_phase_str PhaseRunnable = lit ''runnable''"
| "thread_phase_str PhaseRunning = lit ''running''"
| "thread_phase_str PhaseWaiting = lit ''waiting''"

datatype delivery_status = DeliveryNone | DeliveryPending | DeliveryDeferred | DeliveryDelivered

fun delivery_status_str :: "delivery_status \<Rightarrow> ustring" where
  "delivery_status_str DeliveryNone = lit ''none''"
| "delivery_status_str DeliveryPending = lit ''pending''"
| "delivery_status_str DeliveryDeferred = lit ''deferred''"
| "delivery_status_str DeliveryDelivered = lit ''delivered''"

record thread_record =
  thr_response_annotations :: protocol
  thr_model_alias :: "ustring option"
  thr_reasoning_effort :: "ustring option"
  thr_id :: ustring
  thr_revision :: nat
  thr_generation :: nat
  thr_agent_id :: ustring
  thr_context_id :: ustring
  thr_session_id :: ustring
  thr_initiating_principal_id :: "ustring option"
  thr_root_turn_id :: ustring
  thr_kind :: thread_kind
  thr_lifecycle :: thread_lifecycle
  thr_control_state :: thread_control_state
  thr_executor_kind :: ustring
  thr_executor_id :: "ustring option"
  thr_target_id :: "ustring option"
  thr_supervision :: thread_supervision
  thr_result_text :: "ustring option"
  thr_result_event_id :: "ustring option"
  thr_delivery_status :: delivery_status
  thr_delivery_event_id :: "ustring option"
  thr_created_at :: utc
  thr_updated_at :: utc

section \<open>Activations, signals and schedules\<close>

datatype activation_status = ActQueued | ActRunning | ActSucceeded | ActCancelled | ActFailed

fun activation_status_str :: "activation_status \<Rightarrow> ustring" where
  "activation_status_str ActQueued = lit ''queued''"
| "activation_status_str ActRunning = lit ''running''"
| "activation_status_str ActSucceeded = lit ''succeeded''"
| "activation_status_str ActCancelled = lit ''cancelled''"
| "activation_status_str ActFailed = lit ''failed''"

definition activation_status_is_terminal :: "activation_status \<Rightarrow> bool" where
  "activation_status_is_terminal s \<longleftrightarrow> s = ActSucceeded \<or> s = ActCancelled \<or> s = ActFailed"

record activation_record =
  act_id :: ustring
  act_revision :: nat
  act_generation :: nat
  act_agent_id :: ustring
  act_context_id :: ustring
  act_session_id :: ustring
  act_initiating_principal_id :: "ustring option"
  act_trigger_event_id :: ustring
  act_trigger_sequence :: nat
  act_trigger_kind :: ustring
  act_parent_activation_id :: "ustring option"
  act_root_turn_id :: ustring
  act_context_snapshot_version :: "nat option"
  act_model_alias :: "ustring option"
  act_reasoning_effort :: "ustring option"
  act_status :: activation_status
  act_claimed_by :: "ustring option"
  act_lease_expires_at :: "utc option"
  act_dialogue_lane_released_at :: "utc option"
  act_created_at :: utc
  act_updated_at :: utc

datatype signal_status = SignalPending | SignalClaimed | SignalAcknowledged

fun signal_status_str :: "signal_status \<Rightarrow> ustring" where
  "signal_status_str SignalPending = lit ''pending''"
| "signal_status_str SignalClaimed = lit ''claimed''"
| "signal_status_str SignalAcknowledged = lit ''acknowledged''"

record signal_record =
  sig_id :: ustring
  sig_thread_id :: ustring
  sig_thread_generation :: nat
  sig_event_id :: ustring
  sig_principal_id :: "ustring option"
  sig_sequence :: nat
  sig_kind :: ustring
  sig_parent_activation_id :: "ustring option"
  sig_status :: signal_status
  sig_created_at :: utc
  sig_claimed_at :: "utc option"
  sig_acknowledged_at :: "utc option"

datatype schedule_status = ScheduleQueued | SchedulePaused | ScheduleDispatched | ScheduleCompleted | ScheduleCancelled

fun schedule_status_str :: "schedule_status \<Rightarrow> ustring" where
  "schedule_status_str ScheduleQueued = lit ''queued''"
| "schedule_status_str SchedulePaused = lit ''paused''"
| "schedule_status_str ScheduleDispatched = lit ''dispatched''"
| "schedule_status_str ScheduleCompleted = lit ''completed''"
| "schedule_status_str ScheduleCancelled = lit ''cancelled''"

definition schedule_status_is_terminal :: "schedule_status \<Rightarrow> bool" where
  "schedule_status_is_terminal s \<longleftrightarrow> s = ScheduleCompleted \<or> s = ScheduleCancelled"

record schedule_record =
  sch_reasoning_effort :: "ustring option"
  sch_id :: ustring
  sch_revision :: nat
  sch_thread_id :: ustring
  sch_source_turn_id :: ustring
  sch_intent :: ustring
  sch_model_alias :: "ustring option"
  sch_status :: schedule_status
  sch_not_before :: "utc option"
  sch_interval_seconds :: "nat option"
  sch_dependency_thread_ids :: "ustring list"
  sch_created_at :: utc
  sch_updated_at :: utc

section \<open>Execution jobs\<close>

datatype job_status = JobQueued | JobWaitingApproval | JobRunning | JobSucceeded | JobFailed | JobCancelled | JobLost

fun job_status_str :: "job_status \<Rightarrow> ustring" where
  "job_status_str JobQueued = lit ''queued''"
| "job_status_str JobWaitingApproval = lit ''waiting_approval''"
| "job_status_str JobRunning = lit ''running''"
| "job_status_str JobSucceeded = lit ''succeeded''"
| "job_status_str JobFailed = lit ''failed''"
| "job_status_str JobCancelled = lit ''cancelled''"
| "job_status_str JobLost = lit ''lost''"

definition job_status_is_terminal :: "job_status \<Rightarrow> bool" where
  "job_status_is_terminal s \<longleftrightarrow> s = JobSucceeded \<or> s = JobFailed \<or> s = JobCancelled \<or> s = JobLost"

datatype retry_safety = RetryIdempotent | RetryReconcileRequired | RetryAtMostOnce

fun retry_safety_str :: "retry_safety \<Rightarrow> ustring" where
  "retry_safety_str RetryIdempotent = lit ''idempotent''"
| "retry_safety_str RetryReconcileRequired = lit ''reconcile_required''"
| "retry_safety_str RetryAtMostOnce = lit ''at_most_once''"

record job_record =
  job_id :: ustring
  job_revision :: nat
  job_activation_id :: ustring
  job_thread_id :: ustring
  job_agent_id :: ustring
  job_context_id :: ustring
  job_session_id :: ustring
  job_initiating_principal_id :: "ustring option"
  job_target_id :: ustring
  job_tool_call_id :: ustring
  job_tool_name :: ustring
  job_request :: json
  job_status :: job_status
  job_retry_safety :: retry_safety
  job_claimed_by :: "ustring option"
  job_claim_token :: "ustring option"
  job_lease_expires_at :: "utc option"
  job_heartbeat_at :: "utc option"
  job_approval_ref :: "ustring option"
  job_side_effect_started_at :: "utc option"
  job_cancel_requested_at :: "utc option"
  job_cancel_reason :: "ustring option"
  job_progress_ref :: "ustring option"
  job_checkpoint_generation :: "nat option"
  job_checkpoint_due_at :: "utc option"
  job_result_event_id :: "ustring option"
  job_result_refs :: "ustring list"
  job_error :: "ustring option"
  job_exit_code :: "int option"
  job_created_at :: utc
  job_started_at :: "utc option"
  job_updated_at :: utc
  job_finished_at :: "utc option"

datatype approval_status = ApprovalPendingAuto | ApprovalPendingHuman | ApprovalAllowed | ApprovalDenied | ApprovalCancelled

fun approval_status_str :: "approval_status \<Rightarrow> ustring" where
  "approval_status_str ApprovalPendingAuto = lit ''pending_auto''"
| "approval_status_str ApprovalPendingHuman = lit ''pending_human''"
| "approval_status_str ApprovalAllowed = lit ''allowed''"
| "approval_status_str ApprovalDenied = lit ''denied''"
| "approval_status_str ApprovalCancelled = lit ''cancelled''"

definition approval_status_is_terminal :: "approval_status \<Rightarrow> bool" where
  "approval_status_is_terminal s \<longleftrightarrow> s = ApprovalDenied \<or> s = ApprovalCancelled"

record approval_record =
  apr_id :: ustring
  apr_revision :: nat
  apr_job_id :: ustring
  apr_request_digest :: ustring
  apr_policy_digest :: ustring
  apr_action :: json
  apr_requested :: json
  apr_justification :: ustring
  apr_status :: approval_status
  apr_rationale :: "ustring option"
  apr_risk_tags :: "ustring list"
  apr_grant_id :: "ustring option"
  apr_grant_consumed_at :: "utc option"
  apr_consumed_by_claim_token :: "ustring option"
  apr_cancel_reason :: "ustring option"
  apr_last_error :: "ustring option"
  apr_created_at :: utc
  apr_updated_at :: utc
  apr_decided_at :: "utc option"
  apr_cancelled_at :: "utc option"

section \<open>Thread groups and outcomes\<close>

datatype group_policy = PolicyAll | PolicyAny

fun group_policy_str :: "group_policy \<Rightarrow> ustring" where
  "group_policy_str PolicyAll = lit ''all''"
| "group_policy_str PolicyAny = lit ''any''"

datatype group_status = GroupOpen | GroupSatisfied | GroupFailed | GroupCancelled

fun group_status_str :: "group_status \<Rightarrow> ustring" where
  "group_status_str GroupOpen = lit ''open''"
| "group_status_str GroupSatisfied = lit ''satisfied''"
| "group_status_str GroupFailed = lit ''failed''"
| "group_status_str GroupCancelled = lit ''cancelled''"

definition group_status_is_terminal :: "group_status \<Rightarrow> bool" where
  "group_status_is_terminal s \<longleftrightarrow> s \<noteq> GroupOpen"

record group_record =
  grp_id :: ustring
  grp_revision :: nat
  grp_context_id :: ustring
  grp_session_id :: ustring
  grp_supervisor_kind :: thread_supervisor_kind
  grp_supervisor_id :: ustring
  grp_generation :: nat
  grp_policy :: group_policy
  grp_required_count :: nat
  grp_terminal_count :: nat
  grp_successful_count :: nat
  grp_status :: group_status
  grp_completion_contract :: json
  grp_terminal_summary :: json
  grp_barrier_event_id :: "ustring option"
  grp_created_at :: utc
  grp_updated_at :: utc
  grp_satisfied_at :: "utc option"

datatype member_status = MemberPending | MemberCompleted | MemberFailed | MemberCancelled

fun member_status_str :: "member_status \<Rightarrow> ustring" where
  "member_status_str MemberPending = lit ''pending''"
| "member_status_str MemberCompleted = lit ''completed''"
| "member_status_str MemberFailed = lit ''failed''"
| "member_status_str MemberCancelled = lit ''cancelled''"

definition member_status_is_terminal :: "member_status \<Rightarrow> bool" where
  "member_status_is_terminal s \<longleftrightarrow> s \<noteq> MemberPending"

definition member_status_is_success :: "member_status \<Rightarrow> bool" where
  "member_status_is_success s \<longleftrightarrow> s = MemberCompleted"

record member_record =
  mem_group_id :: ustring
  mem_thread_id :: ustring
  mem_ordinal :: nat
  mem_required :: bool
  mem_status :: member_status
  mem_outcome_id :: "ustring option"
  mem_created_at :: utc
  mem_updated_at :: utc

record outcome_record =
  out_id :: ustring
  out_thread_id :: ustring
  out_thread_generation :: nat
  out_root_turn_id :: ustring
  out_activation_id :: ustring
  out_session_id :: ustring
  out_terminal_kind :: thread_lifecycle
  out_disposition :: ustring
  out_summary :: "ustring option"
  out_result_event_id :: ustring
  out_artifact_refs :: "ustring list"
  out_evidence_refs :: "ustring list"
  out_check_results :: json
  out_unresolved_failures :: "ustring list"
  out_terminal_event_sequence :: "nat option"
  out_created_at :: utc
  out_delivered_at :: "utc option"

section \<open>Scheduler dependencies\<close>

datatype dependency_owner_kind = OwnerObjective | OwnerThread | OwnerPlan | OwnerSchedule | OwnerDelivery

fun dependency_owner_kind_str :: "dependency_owner_kind \<Rightarrow> ustring" where
  "dependency_owner_kind_str OwnerObjective = lit ''objective''"
| "dependency_owner_kind_str OwnerThread = lit ''thread''"
| "dependency_owner_kind_str OwnerPlan = lit ''plan''"
| "dependency_owner_kind_str OwnerSchedule = lit ''schedule''"
| "dependency_owner_kind_str OwnerDelivery = lit ''delivery''"

definition parse_dependency_owner_kind :: "ustring \<Rightarrow> dependency_owner_kind option" where
  "parse_dependency_owner_kind s =
     (if s = lit ''objective'' then Some OwnerObjective
      else if s = lit ''thread'' then Some OwnerThread
      else if s = lit ''plan'' then Some OwnerPlan
      else if s = lit ''schedule'' then Some OwnerSchedule
      else if s = lit ''delivery'' then Some OwnerDelivery
      else None)"

datatype dependency_kind = DepThread | DepThreadGroup | DepToolTask | DepDelegation | DepTimer | DepPermission | DepUserInput | DepExternalEvent | DepResource

fun dependency_kind_str :: "dependency_kind \<Rightarrow> ustring" where
  "dependency_kind_str DepThread = lit ''thread''"
| "dependency_kind_str DepThreadGroup = lit ''thread_group''"
| "dependency_kind_str DepToolTask = lit ''tool_task''"
| "dependency_kind_str DepDelegation = lit ''delegation''"
| "dependency_kind_str DepTimer = lit ''timer''"
| "dependency_kind_str DepPermission = lit ''permission''"
| "dependency_kind_str DepUserInput = lit ''user_input''"
| "dependency_kind_str DepExternalEvent = lit ''external_event''"
| "dependency_kind_str DepResource = lit ''resource''"

definition parse_dependency_kind :: "ustring \<Rightarrow> dependency_kind option" where
  "parse_dependency_kind s =
     (if s = lit ''thread'' then Some DepThread
      else if s = lit ''thread_group'' then Some DepThreadGroup
      else if s = lit ''tool_task'' then Some DepToolTask
      else if s = lit ''delegation'' then Some DepDelegation
      else if s = lit ''timer'' then Some DepTimer
      else if s = lit ''permission'' then Some DepPermission
      else if s = lit ''user_input'' then Some DepUserInput
      else if s = lit ''external_event'' then Some DepExternalEvent
      else if s = lit ''resource'' then Some DepResource
      else None)"

datatype dependency_status = DependencyPending | DependencySatisfied | DependencyCancelled

fun dependency_status_str :: "dependency_status \<Rightarrow> ustring" where
  "dependency_status_str DependencyPending = lit ''pending''"
| "dependency_status_str DependencySatisfied = lit ''satisfied''"
| "dependency_status_str DependencyCancelled = lit ''cancelled''"

definition dependency_status_is_terminal :: "dependency_status \<Rightarrow> bool" where
  "dependency_status_is_terminal s \<longleftrightarrow> s \<noteq> DependencyPending"

definition parse_dependency_status :: "ustring \<Rightarrow> dependency_status option" where
  "parse_dependency_status s =
     (if s = lit ''pending'' then Some DependencyPending
      else if s = lit ''satisfied'' then Some DependencySatisfied
      else if s = lit ''cancelled'' then Some DependencyCancelled
      else None)"

record dependency_record =
  dep_id :: ustring
  dep_owner_kind :: dependency_owner_kind
  dep_owner_id :: ustring
  dep_owner_generation :: nat
  dep_dependency_kind :: dependency_kind
  dep_dependency_id :: ustring
  dep_dependency_generation :: nat
  dep_required :: bool
  dep_status :: dependency_status
  dep_metadata :: json
  dep_satisfied_by_event_id :: "ustring option"
  dep_created_at :: utc
  dep_updated_at :: utc
  dep_satisfied_at :: "utc option"

end
