(* ===== verification/Scheduler_Domain.thy ===== *)
theory Scheduler_Domain
  imports Scheduler_Records
begin

text \<open>
  The pure rules of the scheduler: identities and readiness of \<open>morphz/src/scheduler/domain.rs\<close>,
  the phase of a thread in \<open>morphz/src/scheduler/snapshot.rs\<close>, and from
  \<open>morphz/src/memory/mod.rs\<close> the lifecycle of objectives, the supervision of threads and the
  completion contracts of threads and groups. SHA-256 (as lower-case hexadecimal text), the text of
  a JSON value and of a time are arguments of the definitions that use them.
\<close>

section \<open>Text\<close>

text \<open>Decimal text of an unsigned number (\<open>Display for u64\<close>).\<close>

fun decimal :: "nat \<Rightarrow> ustring" where
  "decimal n = (if n < 10 then [48 + n] else decimal (n div 10) @ [48 + n mod 10])"

declare decimal.simps [simp del]

definition u64_json :: "nat \<Rightarrow> json" where
  "u64_json n = JNumber (PosInt (int n))"

definition text_json :: "string \<Rightarrow> json" where
  "text_json s = JString (lit s)"

definition opt_text_json :: "ustring option \<Rightarrow> json" where
  "opt_text_json t = (case t of Some s \<Rightarrow> JString s | None \<Rightarrow> JNull)"

fun as_u64 :: "json \<Rightarrow> nat option" where
  "as_u64 (JNumber (PosInt n)) = Some (nat n)"
| "as_u64 _ = None"

definition u64_limit :: nat where
  "u64_limit = 2 ^ 64 - 1"

definition u64_saturating_add :: "nat \<Rightarrow> nat \<Rightarrow> nat" where
  "u64_saturating_add a b = min (a + b) u64_limit"

definition nul_ch :: uchar where
  "nul_ch = 0"

section \<open>Identities\<close>

definition dependency_material ::
  "dependency_owner_kind \<Rightarrow> ustring \<Rightarrow> nat \<Rightarrow> dependency_kind \<Rightarrow> ustring \<Rightarrow> nat \<Rightarrow> ustring" where
  "dependency_material okind oid ogen dkind did dgen =
     lit ''morphz.scheduler-dependency.v1'' @ nul_ch # dependency_owner_kind_str okind @ nul_ch # oid @ nul_ch # decimal ogen @
     nul_ch # dependency_kind_str dkind @ nul_ch # did @ nul_ch # decimal dgen"

definition stable_scheduler_dependency_id ::
  "(ustring \<Rightarrow> ustring) \<Rightarrow> dependency_owner_kind \<Rightarrow> ustring \<Rightarrow> nat \<Rightarrow> dependency_kind \<Rightarrow> ustring \<Rightarrow> nat \<Rightarrow> ustring" where
  "stable_scheduler_dependency_id sha okind oid ogen dkind did dgen =
     lit ''scheduler_dependency_'' @ take 32 (sha (dependency_material okind oid ogen dkind did dgen))"

definition stable_thread_id :: "(ustring \<Rightarrow> ustring) \<Rightarrow> ustring \<Rightarrow> ustring" where
  "stable_thread_id sha root = take 31 (lit ''thread_'' @ sha root)"

definition objective_primary_execution_root_id :: "ustring \<Rightarrow> nat \<Rightarrow> ustring" where
  "objective_primary_execution_root_id oid generation =
     lit ''objective_thread_'' @ oid @ lit ''_g'' @ decimal (max generation 1)"

definition objective_wait_dependency_key ::
  "(utc \<Rightarrow> ustring) \<Rightarrow> (json \<Rightarrow> ustring) \<Rightarrow> objective_wait_condition \<Rightarrow> dependency_kind \<times> ustring" where
  "objective_wait_dependency_key time_text json_text wait =
     (case wait of
        WaitToolTask task \<Rightarrow> (DepToolTask, task)
      | WaitDelegation d \<Rightarrow> (DepDelegation, d)
      | WaitThreadGroup g \<Rightarrow> (DepThreadGroup, g)
      | WaitTimer deadline \<Rightarrow> (DepTimer, time_text deadline)
      | WaitPermission request \<Rightarrow> (DepPermission, request)
      | WaitUserInput session request \<Rightarrow> (DepUserInput, case request of Some r \<Rightarrow> r | None \<Rightarrow> session)
      | WaitExternalEvent topic correlation \<Rightarrow>
          (DepExternalEvent, json_text (jobj [(''topic'', JString topic), (''correlation_id'', JString correlation)]))
      | WaitResourceAvailable resource \<Rightarrow> (DepResource, resource))"

section \<open>Readiness\<close>

datatype objective_readiness =
    Runnable
  | Waiting "ustring list"
  | Leased ustring
  | Suspended ustring
  | ReadinessPaused
  | ReadinessBlocked
  | Terminal

definition objective_can_transition_to :: "objective_status \<Rightarrow> objective_status \<Rightarrow> bool" where
  "objective_can_transition_to s next \<longleftrightarrow>
     (case s of
        ObjActive \<Rightarrow> True
      | ObjPaused \<Rightarrow> next = ObjActive \<or> next = ObjCancelled \<or> next = ObjFailed
      | ObjBlocked \<Rightarrow> next = ObjActive \<or> next = ObjCancelled \<or> next = ObjFailed
      | _ \<Rightarrow> False)"

text \<open>\<open>sort\<close> then \<open>dedup\<close>, which drops equal neighbours.\<close>

definition sort_dedup :: "'a::linorder list \<Rightarrow> 'a list" where
  "sort_dedup xs = remdups_adj (sort xs)"

definition blocks_objective :: "objective_record \<Rightarrow> dependency_record \<Rightarrow> bool" where
  "blocks_objective ob d \<longleftrightarrow>
     dep_owner_kind d = OwnerObjective \<and> dep_owner_id d = obj_id ob \<and> dep_owner_generation d = obj_generation ob \<and>
     dep_required d \<and> dep_status d = DependencyPending"

definition derive_objective_readiness :: "objective_record \<Rightarrow> dependency_record list \<Rightarrow> utc \<Rightarrow> objective_readiness" where
  "derive_objective_readiness ob dependencies now =
     (if objective_status_is_terminal (obj_status ob) then Terminal
      else
        (let waiting =
           (let pending = sort_dedup (map dep_id (filter (blocks_objective ob) dependencies)) in
            if pending = [] then Runnable else Waiting pending) in
         case obj_status ob of
           ObjPaused \<Rightarrow> ReadinessPaused
         | ObjBlocked \<Rightarrow> ReadinessBlocked
         | ObjActive \<Rightarrow>
             (case obj_active_evaluation_id ob of
                Some evaluation \<Rightarrow>
                  (case obj_evaluation_lease_expires_at ob of
                     None \<Rightarrow> Suspended evaluation
                   | Some expires \<Rightarrow> if now < expires then Leased evaluation else waiting)
              | None \<Rightarrow> waiting)
         | _ \<Rightarrow> Terminal))"

section \<open>The phase of a thread\<close>

record result_snapshot =
  res_event_id :: "ustring option"
  res_status :: job_status
  res_refs :: "ustring list"
  res_error :: "ustring option"
  res_exit_code :: "int option"
  res_finished_at :: "utc option"

record job_snapshot =
  js_job :: job_record
  js_approval :: "approval_record option"
  js_result :: "result_snapshot option"

record activation_snapshot =
  as_activation :: activation_record
  as_signals :: "signal_record list"
  as_jobs :: "job_snapshot list"

definition take_job_snapshot ::
  "job_record \<Rightarrow> (ustring \<rightharpoonup> approval_record) \<Rightarrow> job_snapshot \<times> (ustring \<rightharpoonup> approval_record)" where
  "take_job_snapshot job approvals =
     (\<lparr>js_job = job, js_approval = approvals (job_id job),
       js_result =
         (if job_status_is_terminal (job_status job)
          then Some \<lparr>res_event_id = job_result_event_id job, res_status = job_status job, res_refs = job_result_refs job,
            res_error = job_error job, res_exit_code = job_exit_code job, res_finished_at = job_finished_at job\<rparr>
          else None)\<rparr>,
      approvals(job_id job := None))"

definition thread_phase_from_activity :: "thread_record \<Rightarrow> bool \<Rightarrow> bool \<Rightarrow> bool \<Rightarrow> thread_phase" where
  "thread_phase_from_activity t running runnable waiting =
     (if thread_lifecycle_is_terminal (thr_lifecycle t) then PhaseIdle
      else if running then PhaseRunning
      else if runnable then PhaseRunnable
      else if waiting then PhaseWaiting
      else PhaseIdle)"

definition blocks_thread :: "thread_record \<Rightarrow> dependency_record \<Rightarrow> bool" where
  "blocks_thread t d \<longleftrightarrow>
     dep_owner_kind d = OwnerThread \<and> dep_owner_id d = thr_id t \<and> dep_owner_generation d = thr_generation t \<and>
     dep_required d \<and> dep_status d = DependencyPending"

definition thread_phase_of ::
  "thread_record \<Rightarrow> signal_record list \<Rightarrow> activation_snapshot list \<Rightarrow> schedule_record list \<Rightarrow> dependency_record list \<Rightarrow> thread_phase" where
  "thread_phase_of t pending_signals activations schedules dependencies =
     (let has_job = (\<lambda>status a. list_ex (\<lambda>j. job_status (js_job j) = status) (as_jobs a));
          running = list_ex (\<lambda>a. act_status (as_activation a) = ActRunning \<or> has_job JobRunning a) activations;
          runnable = list_ex (\<lambda>a. act_status (as_activation a) = ActQueued \<or> has_job JobQueued a) activations \<or>
            list_ex (\<lambda>s. sig_status s = SignalPending) pending_signals;
          waiting = list_ex (blocks_thread t) dependencies \<or> list_ex (has_job JobWaitingApproval) activations \<or>
            list_ex (\<lambda>s. sch_status s = ScheduleQueued \<or> sch_status s = SchedulePaused) schedules in
      thread_phase_from_activity t running runnable waiting)"

definition current_thread_dependencies :: "thread_record \<Rightarrow> dependency_record list \<Rightarrow> dependency_record list" where
  "current_thread_dependencies t dependencies =
     filter (\<lambda>d. \<not> thread_lifecycle_is_terminal (thr_lifecycle t) \<and> blocks_thread t d) dependencies"

end
