(* ===== verification/Scheduler_Contracts.thy ===== *)
theory Scheduler_Contracts
  imports Scheduler_Domain
begin

text \<open>
  Supervision and contracts (\<open>morphz/src/memory/mod.rs\<close>): the supervision a thread may have, the
  completion contract of a thread, the contract of a thread group, and the events the runtime
  writes when threads and groups end or are superseded. Error texts are the constructors of
  \<open>scheduler_error\<close>.
\<close>

datatype scheduler_error =
    ZeroGeneration
  | InvalidSupervision thread_lifetime thread_supervisor_kind
  | DisposableInGroup
  | GroupNotTerminal ustring
  | MissingParent ustring
  | NoFinalizer ustring thread_supervisor_kind
  | MissingObjective ustring
  | MissingSupervisor ustring
  | MissingEventField string
  | InconsistentSupersede ustring ustring

section \<open>Supervision\<close>

definition sup_attached :: "ustring \<Rightarrow> nat \<Rightarrow> ustring \<Rightarrow> thread_supervision" where
  "sup_attached parent parent_generation origin =
     \<lparr>sup_lifetime = LifetimeAttached, sup_supervisor_kind = SupThread, sup_supervisor_id = Some parent,
      sup_generation = max parent_generation 1, sup_origin_evaluation_id = Some origin, sup_parent_thread_id = Some parent,
      sup_thread_group_id = None, sup_completion_contract = JObject []\<rparr>"

definition sup_objective :: "ustring \<Rightarrow> ustring \<Rightarrow> nat \<Rightarrow> ustring option \<Rightarrow> thread_supervision" where
  "sup_objective objective origin generation parent =
     \<lparr>sup_lifetime = LifetimeDurable, sup_supervisor_kind = SupObjective, sup_supervisor_id = Some objective,
      sup_generation = max generation 1, sup_origin_evaluation_id = Some origin, sup_parent_thread_id = parent,
      sup_thread_group_id = None, sup_completion_contract = JObject []\<rparr>"

definition sup_objective_primary_execution :: "ustring \<Rightarrow> nat \<Rightarrow> thread_supervision" where
  "sup_objective_primary_execution objective generation =
     \<lparr>sup_lifetime = LifetimeDurable, sup_supervisor_kind = SupObjective, sup_supervisor_id = Some objective,
      sup_generation = max generation 1, sup_origin_evaluation_id = None, sup_parent_thread_id = None,
      sup_thread_group_id = None, sup_completion_contract = JObject []\<rparr>"

definition sup_runtime :: "ustring \<Rightarrow> thread_supervision" where
  "sup_runtime supervisor =
     \<lparr>sup_lifetime = LifetimeDurable, sup_supervisor_kind = SupRuntime, sup_supervisor_id = Some supervisor,
      sup_generation = 1, sup_origin_evaluation_id = None, sup_parent_thread_id = None,
      sup_thread_group_id = None, sup_completion_contract = JObject []\<rparr>"

definition sup_disposable :: "ustring \<Rightarrow> thread_supervision" where
  "sup_disposable origin =
     \<lparr>sup_lifetime = LifetimeDisposable, sup_supervisor_kind = SupNone, sup_supervisor_id = None,
      sup_generation = 1, sup_origin_evaluation_id = Some origin, sup_parent_thread_id = None,
      sup_thread_group_id = None, sup_completion_contract = JObject []\<rparr>"

definition sup_legacy :: thread_supervision where
  "sup_legacy =
     \<lparr>sup_lifetime = LifetimeDurable, sup_supervisor_kind = SupLegacy, sup_supervisor_id = None,
      sup_generation = 1, sup_origin_evaluation_id = None, sup_parent_thread_id = None,
      sup_thread_group_id = None, sup_completion_contract = JObject []\<rparr>"

definition sup_validate :: "thread_supervision \<Rightarrow> thread_kind \<Rightarrow> scheduler_error + unit" where
  "sup_validate s kind =
     (if sup_generation s = 0 then Inl ZeroGeneration
      else if \<not> (sup_supervisor_kind s = SupLegacy \<or>
          sup_lifetime s = LifetimeAttached \<and> sup_supervisor_kind s = SupThread \<and> sup_supervisor_id s \<noteq> None \<and>
            sup_origin_evaluation_id s \<noteq> None \<and> sup_parent_thread_id s \<noteq> None \<and> sup_supervisor_id s = sup_parent_thread_id s \<or>
          sup_lifetime s = LifetimeDurable \<and> sup_supervisor_kind s = SupObjective \<and> kind = KindExecution \<and>
            sup_supervisor_id s \<noteq> None \<or>
          sup_lifetime s = LifetimeDurable \<and> sup_supervisor_kind s = SupRuntime \<and> sup_supervisor_id s \<noteq> None \<or>
          sup_lifetime s = LifetimeDisposable \<and> sup_supervisor_kind s = SupNone \<and> sup_supervisor_id s = None)
      then Inl (InvalidSupervision (sup_lifetime s) (sup_supervisor_kind s))
      else if sup_lifetime s = LifetimeDisposable \<and> sup_thread_group_id s \<noteq> None then Inl DisposableInGroup
      else Inr ())"

section \<open>Completion contract of a thread\<close>

record completion_evaluation =
  ce_passed :: bool
  ce_check_results :: json
  ce_unresolved_failures :: "ustring list"

definition completion_check_value_passed :: "json \<Rightarrow> bool" where
  "completion_check_value_passed v =
     (case as_bool v of
        Some b \<Rightarrow> b
      | None \<Rightarrow>
          (case Option.bind (jget v (lit ''passed'')) as_bool of
             Some b \<Rightarrow> b
           | None \<Rightarrow>
               (case Option.bind (jget v (lit ''status'')) as_str of
                  Some status \<Rightarrow> status = lit ''passed'' \<or> status = lit ''success'' \<or> status = lit ''satisfied''
                | None \<Rightarrow> False)))"

definition contract_bool :: "json \<Rightarrow> string \<Rightarrow> bool" where
  "contract_bool contract key =
     (case Option.bind (jget contract (lit key)) as_bool of Some b \<Rightarrow> b | None \<Rightarrow> False)"

definition contract_minimum :: "json \<Rightarrow> string \<Rightarrow> string \<Rightarrow> nat" where
  "contract_minimum contract key flag =
     (case Option.bind (jget contract (lit key)) as_u64 of Some n \<Rightarrow> n | None \<Rightarrow> of_bool (contract_bool contract flag))"

definition required_checks :: "json \<Rightarrow> json list" where
  "required_checks contract =
     (case Option.bind (jget contract (lit ''required_checks'')) as_array of Some vs \<Rightarrow> vs | None \<Rightarrow> [])"

definition failed_checks :: "json \<Rightarrow> json \<Rightarrow> ustring list" where
  "failed_checks contract reported =
     filter (\<lambda>name. \<not> (case jget reported name of Some v \<Rightarrow> completion_check_value_passed v | None \<Rightarrow> False))
       (List.map_filter as_str (required_checks contract))"

definition minimum_failure :: "string \<Rightarrow> nat \<Rightarrow> nat \<Rightarrow> ustring" where
  "minimum_failure kind actual minimum =
     lit ''completion_contract:'' @ lit kind @ lit ''='' @ decimal actual @ lit ''<'' @ decimal minimum"

definition minimum_result :: "nat \<Rightarrow> nat \<Rightarrow> bool \<Rightarrow> json" where
  "minimum_result actual minimum passed =
     jobj [(''actual'', u64_json actual), (''minimum'', u64_json minimum), (''passed'', JBool passed)]"

definition evaluate_thread_completion_contract ::
  "(json \<Rightarrow> ustring) \<Rightarrow> json \<Rightarrow> thread_lifecycle \<Rightarrow> ustring option \<Rightarrow> json list \<Rightarrow> json list \<Rightarrow> json \<Rightarrow> json list
    \<Rightarrow> completion_evaluation" where
  "evaluate_thread_completion_contract json_text contract kind summary artifacts evidence reported failures0 =
     (let allow_unresolved = contract_bool contract ''allow_unresolved_failures'';
          min_artifacts = contract_minimum contract ''min_artifacts'' ''require_artifacts'';
          min_evidence = contract_minimum contract ''min_evidence'' ''require_evidence'';
          terminal_passed = (kind = ThreadCompleted);
          summary_passed = (\<not> contract_bool contract ''require_summary'' \<or>
            (case summary of Some text \<Rightarrow> trim text \<noteq> [] | None \<Rightarrow> False));
          artifacts_passed = (min_artifacts \<le> length artifacts);
          evidence_passed = (min_evidence \<le> length evidence);
          missing_checks = failed_checks contract reported;
          failures = sort_dedup (
            map (\<lambda>v. case as_str v of Some s \<Rightarrow> s | None \<Rightarrow> json_text v) failures0 @
            (if terminal_passed then [] else [lit ''thread_terminal_kind='' @ thread_lifecycle_str kind]) @
            (if summary_passed then [] else [lit ''completion_contract:summary_required'']) @
            (if artifacts_passed then [] else [minimum_failure ''artifacts'' (length artifacts) min_artifacts]) @
            (if evidence_passed then [] else [minimum_failure ''evidence'' (length evidence) min_evidence]) @
            map (\<lambda>name. lit ''completion_contract:check_failed:'' @ name) missing_checks);
          unresolved_passed = (allow_unresolved \<or> failures = []);
          passed = (terminal_passed \<and> summary_passed \<and> artifacts_passed \<and> evidence_passed \<and> missing_checks = [] \<and>
            unresolved_passed) in
      \<lparr>ce_passed = passed,
       ce_check_results = jobj [(''reported'', reported), (''runtime'', jobj [
         (''passed'', JBool passed), (''terminal'', JBool terminal_passed), (''summary'', JBool summary_passed),
         (''artifacts'', minimum_result (length artifacts) min_artifacts artifacts_passed),
         (''evidence'', minimum_result (length evidence) min_evidence evidence_passed),
         (''required_checks'', JArray (required_checks contract)),
         (''missing_checks'', JArray (map JString missing_checks)),
         (''allow_unresolved_failures'', JBool allow_unresolved)])],
       ce_unresolved_failures = failures\<rparr>)"

section \<open>Contract of a thread group\<close>

record group_evaluation =
  ge_status :: group_status
  ge_contract_results :: json

definition minimum_successful :: "group_policy \<Rightarrow> nat \<Rightarrow> json \<Rightarrow> nat" where
  "minimum_successful policy required contract =
     (case Option.bind (jget contract (lit ''minimum_successful_members'')) as_u64 of
        Some n \<Rightarrow> n
      | None \<Rightarrow> (case policy of PolicyAll \<Rightarrow> required | PolicyAny \<Rightarrow> of_bool (0 < required)))"

definition maximum_failed :: "group_policy \<Rightarrow> nat \<Rightarrow> json \<Rightarrow> nat" where
  "maximum_failed policy required contract =
     (case Option.bind (jget contract (lit ''maximum_failed_members'')) as_u64 of
        Some n \<Rightarrow> n
      | None \<Rightarrow> required - minimum_successful policy required contract)"

definition evaluate_thread_group_contract :: "group_policy \<Rightarrow> nat \<Rightarrow> nat \<Rightarrow> nat \<Rightarrow> json \<Rightarrow> group_evaluation" where
  "evaluate_thread_group_contract policy required terminal successful contract =
     (let minimum = minimum_successful policy required contract;
          maximum = maximum_failed policy required contract;
          failed = terminal - successful;
          pending = required - terminal;
          success_reachable = (minimum \<le> u64_saturating_add successful pending);
          success_threshold_met = (minimum \<le> successful);
          failure_budget_met = (failed \<le> maximum);
          policy_ready = (case policy of PolicyAll \<Rightarrow> required \<le> terminal | PolicyAny \<Rightarrow> success_threshold_met);
          status =
            (if \<not> failure_budget_met \<or> \<not> success_reachable then GroupFailed
             else if policy_ready \<and> success_threshold_met then GroupSatisfied
             else if required \<le> terminal then GroupFailed
             else GroupOpen) in
      \<lparr>ge_status = status,
       ge_contract_results = jobj [(''passed'', JBool (status = GroupSatisfied)),
         (''minimum_successful_members'', u64_json minimum), (''maximum_failed_members'', u64_json maximum),
         (''successful_members'', u64_json successful), (''failed_members'', u64_json failed),
         (''pending_members'', u64_json pending), (''success_reachable'', JBool success_reachable),
         (''success_threshold_met'', JBool success_threshold_met), (''failure_budget_met'', JBool failure_budget_met)]\<rparr>)"

section \<open>Events of the runtime\<close>

definition event_new :: "utc \<Rightarrow> ustring \<Rightarrow> ustring \<Rightarrow> string \<Rightarrow> string \<Rightarrow> (string \<times> json) list \<Rightarrow> event" where
  "event_new now ident actor event_type topic payload =
     \<lparr>ev_id = ident, ev_sequence = None, ev_timestamp = now, ev_actor = actor, ev_event_type = lit event_type,
      ev_topic = lit topic, ev_payload = bt_from (map (\<lambda>(k, v). (lit k, v)) payload)\<rparr>"

text \<open>The entries are inserted in this order, so that a later entry replaces an earlier one.\<close>

definition thread_group_barrier_event :: "utc \<Rightarrow> group_record \<Rightarrow> thread_record option \<Rightarrow> scheduler_error + event" where
  "thread_group_barrier_event now g parent =
     (if \<not> group_status_is_terminal (grp_status g) then Inl (GroupNotTerminal (grp_id g))
      else
        let ident = lit ''thread_group_barrier_'' @ grp_id g @ lit ''_g'' @ decimal (grp_generation g);
            shared = [(''context_id'', JString (grp_context_id g)), (''thread_group_id'', JString (grp_id g)),
              (''thread_group_status'', JString (group_status_str (grp_status g))), (''wake_policy'', text_json ''direct_signal''),
              (''terminal_summary'', grp_terminal_summary g)];
            attached = and_then (ok_or parent (MissingParent (grp_id g))) (\<lambda>p.
              Inr (''tool_output'', ''chat/thread_group_terminal'',
                [(''session_id'', JString (thr_session_id p)), (''thread_id'', JString (thr_id p)),
                 (''root_turn_id'', JString (thr_root_turn_id p)), (''tool_name'', text_json ''thread_group''),
                 (''tool_status'', text_json (if grp_status g = GroupSatisfied then ''success'' else ''error'')),
                 (''text'', JString (lit ''Thread Group '' @ [39] @ grp_id g @ [39] @ lit '' is terminal: '' @
                    group_status_str (grp_status g) @ lit '' ('' @ decimal (grp_successful_count g) @ lit ''/'' @
                    decimal (grp_required_count g) @ lit '' succeeded)''))])) in
        map_ok (\<lambda>(event_type, topic, own).
            (event_new now ident (lit ''Runtime'') event_type topic (shared @ own))
              \<lparr>ev_timestamp := (case grp_satisfied_at g of Some t \<Rightarrow> t | None \<Rightarrow> grp_updated_at g)\<rparr>)
          (case grp_supervisor_kind g of
             SupThread \<Rightarrow> attached
           | SupEvaluation \<Rightarrow> attached
           | SupObjective \<Rightarrow>
               Inr (''runtime_control'', ''runtime/thread_group_terminal'',
                 [(''session_id'', JString (grp_session_id g)), (''objective_id'', JString (grp_supervisor_id g)),
                  (''correlation_id'', JString (grp_id g))])
           | SupRuntime \<Rightarrow>
               Inr (''runtime_control'', ''runtime/thread_group_terminal'',
                 [(''session_id'', JString (grp_session_id g)), (''runtime_supervisor_id'', JString (grp_supervisor_id g))])
           | k \<Rightarrow> Inl (NoFinalizer (grp_id g) k)))"

definition thread_cancellation_event :: "utc \<Rightarrow> thread_record \<Rightarrow> ustring \<Rightarrow> ustring \<Rightarrow> event" where
  "thread_cancellation_event now t reason actor =
     event_new now (lit ''thread_cancelled_'' @ thr_id t @ lit ''_g'' @ decimal (thr_generation t)) actor
       ''runtime_control'' ''runtime/thread_cancelled''
       [(''agent_id'', JString (thr_agent_id t)), (''context_id'', JString (thr_context_id t)),
        (''session_id'', JString (thr_session_id t)), (''thread_id'', JString (thr_id t)),
        (''root_turn_id'', JString (thr_root_turn_id t)), (''thread_generation'', u64_json (thr_generation t)),
        (''terminal_kind'', JString (thread_lifecycle_str ThreadCancelled)), (''disposition'', text_json ''no_reply''),
        (''runtime_failure_kind'', text_json ''thread_cancelled''), (''wake_policy'', text_json ''none''),
        (''text'', JString reason)]"

definition supersede_text :: "ustring \<Rightarrow> ustring \<Rightarrow> ustring" where
  "supersede_text intent reason =
     lit ''The operator superseded the previous generation of this Thread. Stop the old plan and continue under this corrected intent:'' @
     [10, 10] @ intent @ [10, 10] @ lit ''Reason: '' @ reason"

definition thread_supersede_event :: "utc \<Rightarrow> thread_record \<Rightarrow> ustring \<Rightarrow> ustring \<Rightarrow> ustring \<Rightarrow> event" where
  "thread_supersede_event now t intent reason actor =
     event_new now
       (lit ''thread_superseded_'' @ thr_id t @ lit ''_r'' @ decimal (thr_revision t) @ lit ''_g'' @ decimal (thr_generation t)) actor
       ''runtime_control'' ''runtime/thread_superseded''
       [(''agent_id'', JString (thr_agent_id t)), (''context_id'', JString (thr_context_id t)),
        (''session_id'', JString (thr_session_id t)), (''thread_id'', JString (thr_id t)),
        (''root_turn_id'', JString (thr_root_turn_id t)), (''previous_generation'', u64_json (thr_generation t)),
        (''thread_generation'', u64_json (u64_saturating_add (thr_generation t) 1)), (''intent'', JString intent),
        (''reason'', JString reason), (''disposition'', text_json ''continue''), (''wake_policy'', text_json ''direct_thread''),
        (''text'', JString (supersede_text intent reason))]"

definition required_text :: "event \<Rightarrow> string \<Rightarrow> scheduler_error + ustring" where
  "required_text e key = ok_or (Option.bind (bt_get (ev_payload e) (lit key)) as_str) (MissingEventField key)"

text \<open>The operands of the disjunction are evaluated from the left until one holds; a missing field leaves it.\<close>

fun first_mismatch :: "event \<Rightarrow> (string \<times> ustring) list \<Rightarrow> scheduler_error + bool" where
  "first_mismatch e [] = Inr False"
| "first_mismatch e ((key, expected) # rest) =
     and_then (required_text e key) (\<lambda>v. if v \<noteq> expected then Inr True else first_mismatch e rest)"

definition validate_thread_supersede_event :: "thread_record \<Rightarrow> event \<Rightarrow> scheduler_error + unit" where
  "validate_thread_supersede_event t e =
     (let inconsistent = Inl (InconsistentSupersede (ev_id e) (thr_id t)) in
      if ev_topic e \<noteq> lit ''runtime/thread_superseded'' \<or> ev_event_type e \<noteq> lit ''runtime_control'' then inconsistent
      else
        and_then (first_mismatch e [(''context_id'', thr_context_id t), (''session_id'', thr_session_id t),
            (''thread_id'', thr_id t), (''root_turn_id'', thr_root_turn_id t)]) (\<lambda>mismatch.
          if mismatch \<or>
             Option.bind (bt_get (ev_payload e) (lit ''previous_generation'')) as_u64 \<noteq> Some (thr_generation t) \<or>
             Option.bind (bt_get (ev_payload e) (lit ''thread_generation'')) as_u64 \<noteq> Some (u64_saturating_add (thr_generation t) 1) \<or>
             (case Option.bind (bt_get (ev_payload e) (lit ''intent'')) as_str of Some intent \<Rightarrow> trim intent = [] | None \<Rightarrow> True)
          then inconsistent
          else Inr ()))"

definition thread_terminal_barrier_event ::
  "utc \<Rightarrow> thread_record \<Rightarrow> outcome_record \<Rightarrow> thread_record option \<Rightarrow> scheduler_error + event option" where
  "thread_terminal_barrier_event now t oc parent =
     (let s = thr_supervision t;
          shared = [(''context_id'', JString (thr_context_id t)), (''thread_id'', JString (thr_id t)),
            (''thread_generation'', u64_json (out_thread_generation oc)), (''outcome_id'', JString (out_id oc)),
            (''terminal_kind'', JString (thread_lifecycle_str (out_terminal_kind oc))), (''wake_policy'', text_json ''direct_signal''),
            (''terminal_summary'', jobj [(''thread_id'', JString (thr_id t)), (''outcome_id'', JString (out_id oc)),
               (''terminal_kind'', JString (thread_lifecycle_str (out_terminal_kind oc))), (''summary'', opt_text_json (out_summary oc)),
               (''artifact_refs'', JArray (map JString (out_artifact_refs oc))),
               (''evidence_refs'', JArray (map JString (out_evidence_refs oc))), (''check_results'', out_check_results oc),
               (''unresolved_failures'', JArray (map JString (out_unresolved_failures oc)))])];
          attached = and_then (ok_or parent (MissingParent (thr_id t))) (\<lambda>p.
            Inr (Some (''tool_output'', ''chat/thread_terminal'',
              [(''session_id'', JString (thr_session_id p)), (''thread_id'', JString (thr_id p)),
               (''root_turn_id'', JString (thr_root_turn_id p)), (''tool_name'', text_json ''thread''),
               (''tool_status'', text_json ''error''),
               (''text'', JString (lit ''Thread '' @ [39] @ thr_id t @ [39] @ lit '' is terminal: '' @
                  thread_lifecycle_str (out_terminal_kind oc)))]))) in
      map_ok (map_option (\<lambda>(event_type, topic, own).
          event_new now (lit ''thread_terminal_'' @ thr_id t @ lit ''_g'' @ decimal (out_thread_generation oc)) (lit ''Runtime'')
            event_type topic (shared @ own)))
        (case sup_supervisor_kind s of
           SupThread \<Rightarrow> attached
         | SupEvaluation \<Rightarrow> attached
         | SupObjective \<Rightarrow> and_then (ok_or (sup_supervisor_id s) (MissingObjective (thr_id t))) (\<lambda>objective.
             Inr (Some (''runtime_control'', ''runtime/thread_terminal'',
               [(''session_id'', JString (thr_session_id t)), (''objective_id'', JString objective)])))
         | SupRuntime \<Rightarrow> and_then (ok_or (sup_supervisor_id s) (MissingSupervisor (thr_id t))) (\<lambda>supervisor.
             Inr (Some (''runtime_control'', ''runtime/thread_terminal'',
               [(''session_id'', JString (thr_session_id t)), (''runtime_supervisor_id'', JString supervisor)])))
         | _ \<Rightarrow> Inr None))"

end
