(* ===== verification/Scheduler_Laws.thy ===== *)
theory Scheduler_Laws
  imports Scheduler_Contracts
begin

text \<open>
  Laws of the pure scheduler rules: stored names read back, identities of dependencies are
  injective, readiness looks at the pending required dependencies of the current generation only,
  the contract of a thread group fails early exactly when success is out of reach, a rejected
  completion names a failure, and an event that supersedes a thread is valid for the generation it
  was made for only.
\<close>

section \<open>Stored names\<close>

lemma stored_owner_kind: "parse_dependency_owner_kind (dependency_owner_kind_str k) = Some k"
  by (cases k) (simp_all add: parse_dependency_owner_kind_def)

lemma stored_dependency_kind: "parse_dependency_kind (dependency_kind_str k) = Some k"
  by (cases k) (simp_all add: parse_dependency_kind_def)

lemma stored_dependency_status: "parse_dependency_status (dependency_status_str s) = Some s"
  by (cases s) (simp_all add: parse_dependency_status_def)

section \<open>Identity of a dependency\<close>

lemma decimal_digits: "\<forall>c \<in> set (decimal n). 48 \<le> c \<and> c < 58"
proof (induction n rule: decimal.induct)
  case (1 n)
  then show ?case by (subst decimal.simps) auto
qed

lemma decimal_nonempty [simp]: "decimal n \<noteq> []"
  by (subst decimal.simps) simp

fun undecimal :: "ustring \<Rightarrow> nat" where
  "undecimal s = foldl (\<lambda>a c. 10 * a + (c - 48)) 0 s"

lemma undecimal_decimal: "undecimal (decimal n) = n"
proof (induction n rule: decimal.induct)
  case (1 n)
  then show ?case by (subst decimal.simps) auto
qed

lemma decimal_inject [simp]: "decimal m = decimal n \<longleftrightarrow> m = n"
  by (metis undecimal_decimal)

lemma nul_not_decimal: "nul_ch \<notin> set (decimal n)"
  using decimal_digits [of n] by (force simp: nul_ch_def)

lemma nul_not_lit: "nul_ch \<notin> set (dependency_owner_kind_str k)" "nul_ch \<notin> set (dependency_kind_str d)"
  by (cases k; simp add: nul_ch_def lit_simps chr_def) (cases d; simp add: nul_ch_def lit_simps chr_def)

text \<open>A text without the separator is delimited by it.\<close>

lemma delimited:
  assumes "c \<notin> set a" and "c \<notin> set b"
  shows "a @ c # x = b @ c # y \<longleftrightarrow> a = b \<and> x = y"
  using assms by (auto simp: append_eq_append_conv2 append_eq_Cons_conv Cons_eq_append_conv)

lemma owner_kind_str_inject [simp]: "dependency_owner_kind_str k = dependency_owner_kind_str l \<longleftrightarrow> k = l"
  by (metis option.inject stored_owner_kind)

lemma dependency_kind_str_inject [simp]: "dependency_kind_str k = dependency_kind_str l \<longleftrightarrow> k = l"
  by (metis option.inject stored_dependency_kind)

lemma dependency_material_inject:
  assumes "nul_ch \<notin> set oid" and "nul_ch \<notin> set oid'" and "nul_ch \<notin> set did" and "nul_ch \<notin> set did'"
  shows "dependency_material k oid ogen d did dgen = dependency_material k' oid' ogen' d' did' dgen' \<longleftrightarrow>
    (k, oid, ogen, d, did, dgen) = (k', oid', ogen', d', did', dgen')"
  unfolding dependency_material_def same_append_eq list.inject
  using assms by (simp add: delimited nul_not_lit nul_not_decimal)

section \<open>Readiness\<close>

lemma set_sort_dedup [simp]: "set (sort_dedup xs) = set xs"
  by (simp add: sort_dedup_def)

lemma sort_dedup_empty [simp]: "sort_dedup xs = [] \<longleftrightarrow> xs = []"
  by (metis set_empty set_sort_dedup)

lemma sorted_sort_dedup: "sorted_wrt (<) (sort_dedup xs)"
proof -
  have "sorted ys \<Longrightarrow> sorted_wrt (<) (remdups_adj ys)" for ys :: "'a list"
    by (induction ys rule: remdups_adj.induct) (auto simp: order.strict_iff_order)
  then show ?thesis by (simp add: sort_dedup_def)
qed

lemma sort_dedup_set:
  assumes "set xs = set ys"
  shows "sort_dedup xs = sort_dedup ys"
  using assms sorted_sort_dedup [of xs] sorted_sort_dedup [of ys]
  by (intro strict_sorted_equal) auto

definition blocking_ids :: "objective_record \<Rightarrow> dependency_record list \<Rightarrow> ustring set" where
  "blocking_ids ob ds =
     dep_id ` {d \<in> set ds. dep_owner_kind d = OwnerObjective \<and> dep_owner_id d = obj_id ob \<and>
       dep_owner_generation d = obj_generation ob \<and> dep_required d \<and> dep_status d = DependencyPending}"

lemma blocking_ids_blocks: "blocking_ids ob ds = dep_id ` {d \<in> set ds. blocks_objective ob d}"
  by (simp add: blocking_ids_def blocks_objective_def)

definition evaluation_free :: "objective_record \<Rightarrow> utc \<Rightarrow> bool" where
  "evaluation_free ob now \<longleftrightarrow>
     obj_active_evaluation_id ob = None \<or> (\<exists>t. obj_evaluation_lease_expires_at ob = Some t \<and> t \<le> now)"

lemma readiness_runnable:
  "derive_objective_readiness ob ds now = Runnable \<longleftrightarrow>
     obj_status ob = ObjActive \<and> evaluation_free ob now \<and> blocking_ids ob ds = {}"
  by (auto simp: derive_objective_readiness_def objective_status_is_terminal_def evaluation_free_def blocking_ids_blocks Let_def
      filter_empty_conv split: objective_status.splits option.splits if_splits)

lemma readiness_waiting:
  "derive_objective_readiness ob ds now = Waiting names \<longleftrightarrow>
     obj_status ob = ObjActive \<and> evaluation_free ob now \<and> blocking_ids ob ds \<noteq> {} \<and>
     set names = blocking_ids ob ds \<and> sorted_wrt (<) names"
proof -
  have names: "names = sort_dedup (map dep_id (filter (blocks_objective ob) ds)) \<longleftrightarrow>
      set names = blocking_ids ob ds \<and> sorted_wrt (<) names"
    using sorted_sort_dedup [of "map dep_id (filter (blocks_objective ob) ds)"]
    by (auto simp: blocking_ids_blocks intro: strict_sorted_equal)
  have "derive_objective_readiness ob ds now = Waiting names \<longleftrightarrow>
      obj_status ob = ObjActive \<and> evaluation_free ob now \<and> filter (blocks_objective ob) ds \<noteq> [] \<and>
      names = sort_dedup (map dep_id (filter (blocks_objective ob) ds))"
    by (auto simp: derive_objective_readiness_def objective_status_is_terminal_def evaluation_free_def Let_def
        split: objective_status.splits option.splits if_splits)
  also have "filter (blocks_objective ob) ds \<noteq> [] \<longleftrightarrow> blocking_ids ob ds \<noteq> {}"
    by (auto simp: blocking_ids_blocks filter_empty_conv)
  finally show ?thesis unfolding names by blast
qed

lemma readiness_cong:
  assumes "blocking_ids ob ds = blocking_ids ob ds'"
  shows "derive_objective_readiness ob ds now = derive_objective_readiness ob ds' now"
proof -
  have "sort_dedup (map dep_id (filter (blocks_objective ob) ds)) = sort_dedup (map dep_id (filter (blocks_objective ob) ds'))"
    using assms by (intro sort_dedup_set) (simp add: blocking_ids_blocks)
  then show ?thesis by (simp add: derive_objective_readiness_def)
qed

lemma terminal_absorbing: "objective_status_is_terminal s \<Longrightarrow> \<not> objective_can_transition_to s next"
  by (auto simp: objective_status_is_terminal_def objective_can_transition_to_def)

section \<open>The phase of a thread\<close>

lemma current_dependencies_wait:
  "\<not> thread_lifecycle_is_terminal (thr_lifecycle t) \<Longrightarrow> current_thread_dependencies t ds \<noteq> [] \<longleftrightarrow> list_ex (blocks_thread t) ds"
  by (auto simp: current_thread_dependencies_def filter_empty_conv list_ex_iff)

section \<open>The contract of a group\<close>

text \<open>Counters of a group, and how they may evolve: members only ever become terminal.\<close>

definition counts_ok :: "nat \<Rightarrow> nat \<times> nat \<Rightarrow> bool" where
  "counts_ok required c \<longleftrightarrow> snd c \<le> fst c \<and> fst c \<le> required"

definition evolves :: "nat \<Rightarrow> nat \<times> nat \<Rightarrow> nat \<times> nat \<Rightarrow> bool" where
  "evolves required c c' \<longleftrightarrow>
     counts_ok required c' \<and> fst c \<le> fst c' \<and> snd c \<le> snd c' \<and> fst c - snd c \<le> fst c' - snd c'"

abbreviation group_verdict :: "group_policy \<Rightarrow> nat \<Rightarrow> json \<Rightarrow> nat \<times> nat \<Rightarrow> group_status" where
  "group_verdict policy required contract c \<equiv> ge_status (evaluate_thread_group_contract policy required (fst c) (snd c) contract)"

lemma verdict_cases:
  assumes "counts_ok required c" and "required \<le> u64_limit"
  shows "group_verdict policy required contract c =
    (if maximum_failed policy required contract < fst c - snd c \<or>
        snd c + (required - fst c) < minimum_successful policy required contract then GroupFailed
     else if minimum_successful policy required contract \<le> snd c \<and> (policy = PolicyAny \<or> fst c = required) then GroupSatisfied
     else if fst c = required then GroupFailed
     else GroupOpen)"
proof -
  have "u64_saturating_add (snd c) (required - fst c) = snd c + (required - fst c)"
    using assms unfolding counts_ok_def u64_saturating_add_def by linarith
  then show ?thesis
    using assms(1)
    by (cases policy) (auto simp: evaluate_thread_group_contract_def Let_def counts_ok_def not_le)
qed

lemma failed_stays:
  assumes "counts_ok required c" and "required \<le> u64_limit" and "evolves required c c'"
    and "group_verdict policy required contract c = GroupFailed"
  shows "group_verdict policy required contract c' = GroupFailed"
  using assms unfolding verdict_cases [OF assms(1,2)]
  by (subst verdict_cases) (auto simp: evolves_def counts_ok_def split: if_splits)

lemma open_can_succeed:
  assumes "counts_ok required c" and "required \<le> u64_limit" and "group_verdict policy required contract c = GroupOpen"
  shows "\<exists>c'. evolves required c c' \<and> group_verdict policy required contract c' = GroupSatisfied"
proof (intro exI conjI)
  let ?c = "(required, snd c + (required - fst c))"
  show ev: "evolves required c ?c" using assms(1) by (auto simp: evolves_def counts_ok_def)
  then have "counts_ok required ?c" unfolding evolves_def by (rule conjunct1)
  from verdict_cases [OF this assms(2)] show "group_verdict policy required contract ?c = GroupSatisfied"
    using assms(1,3) unfolding verdict_cases [OF assms(1,2)] by (auto simp: counts_ok_def split: if_splits)
qed

lemma failed_iff_hopeless:
  assumes "counts_ok required c" and "required \<le> u64_limit"
  shows "group_verdict policy required contract c = GroupFailed \<longleftrightarrow>
    (\<forall>c'. evolves required c c' \<longrightarrow> group_verdict policy required contract c' \<noteq> GroupSatisfied)"
proof
  assume "group_verdict policy required contract c = GroupFailed"
  with failed_stays [OF assms] show "\<forall>c'. evolves required c c' \<longrightarrow> group_verdict policy required contract c' \<noteq> GroupSatisfied"
    by fastforce
next
  assume hopeless: "\<forall>c'. evolves required c c' \<longrightarrow> group_verdict policy required contract c' \<noteq> GroupSatisfied"
  have "evolves required c c" using assms(1) by (simp add: evolves_def)
  with hopeless open_can_succeed [OF assms] have "group_verdict policy required contract c \<notin> {GroupSatisfied, GroupOpen}" by blast
  then show "group_verdict policy required contract c = GroupFailed"
    unfolding verdict_cases [OF assms] by (auto split: if_splits)
qed

lemma decided_at_end:
  assumes "counts_ok required (required, s)" and "required \<le> u64_limit"
  shows "group_verdict policy required contract (required, s) \<noteq> GroupOpen"
  unfolding verdict_cases [OF assms] by simp

section \<open>The completion contract\<close>

abbreviation completion ::
  "(json \<Rightarrow> ustring) \<Rightarrow> json \<Rightarrow> thread_lifecycle \<Rightarrow> ustring option \<Rightarrow> json list \<Rightarrow> json list \<Rightarrow> json \<Rightarrow> json list
    \<Rightarrow> completion_evaluation" where
  "completion \<equiv> evaluate_thread_completion_contract"

definition completion_met :: "json \<Rightarrow> thread_lifecycle \<Rightarrow> ustring option \<Rightarrow> json list \<Rightarrow> json list \<Rightarrow> json \<Rightarrow> bool" where
  "completion_met contract kind summary artifacts evidence reported \<longleftrightarrow>
     kind = ThreadCompleted \<and>
     (contract_bool contract ''require_summary'' \<longrightarrow> (\<exists>text. summary = Some text \<and> trim text \<noteq> [])) \<and>
     contract_minimum contract ''min_artifacts'' ''require_artifacts'' \<le> length artifacts \<and>
     contract_minimum contract ''min_evidence'' ''require_evidence'' \<le> length evidence \<and>
     (\<forall>name. JString name \<in> set (required_checks contract) \<longrightarrow>
        (\<exists>v. jget reported name = Some v \<and> completion_check_value_passed v))"

lemma failed_checks_empty:
  "failed_checks contract reported = [] \<longleftrightarrow>
     (\<forall>name. JString name \<in> set (required_checks contract) \<longrightarrow>
        (\<exists>v. jget reported name = Some v \<and> completion_check_value_passed v))"
proof -
  have "set (List.map_filter as_str vs) = {name. JString name \<in> set vs}" for vs
    by (force simp: map_filter_def)
  moreover have "(case r of Some v \<Rightarrow> completion_check_value_passed v | None \<Rightarrow> False) \<longleftrightarrow> (\<exists>v. r = Some v \<and> completion_check_value_passed v)"
    for r by (cases r) auto
  ultimately show ?thesis by (simp add: failed_checks_def filter_empty_conv)
qed

lemma completion_passed:
  "ce_passed (completion json_text contract kind summary artifacts evidence reported failures) \<longleftrightarrow>
     completion_met contract kind summary artifacts evidence reported \<and>
     (contract_bool contract ''allow_unresolved_failures'' \<or> failures = [])"
  by (auto simp: evaluate_thread_completion_contract_def Let_def completion_met_def failed_checks_empty [symmetric] split: option.splits)

lemma completion_failures:
  "ce_unresolved_failures (completion json_text contract kind summary artifacts evidence reported failures) = [] \<longleftrightarrow>
     completion_met contract kind summary artifacts evidence reported \<and> failures = []"
  by (auto simp: evaluate_thread_completion_contract_def Let_def completion_met_def failed_checks_empty [symmetric] split: option.splits)

section \<open>Superseding a thread\<close>

lemma event_new_sel [simp]:
  "ev_topic (event_new now i a ty tp es) = lit tp" "ev_event_type (event_new now i a ty tp es) = lit ty"
  "bt_get (ev_payload (event_new now i a ty tp es)) (lit k) = map_of (rev es) k"
  by (simp_all add: event_new_def bt_get_lits)

lemma as_u64_json [simp]: "as_u64 (u64_json n) = Some n"
  by (simp add: u64_json_def)

lemma supersede_valid_iff:
  "validate_thread_supersede_event u (thread_supersede_event now t intent reason actor) = Inr () \<longleftrightarrow>
     trim intent \<noteq> [] \<and> thr_id u = thr_id t \<and> thr_context_id u = thr_context_id t \<and> thr_session_id u = thr_session_id t \<and>
     thr_root_turn_id u = thr_root_turn_id t \<and> thr_generation u = thr_generation t"
  by (auto simp: validate_thread_supersede_event_def thread_supersede_event_def Let_def required_text_def and_then_Inr_iff
      split: if_splits)

section \<open>Supervision\<close>

lemma supervision_constructors:
  "sup_validate (sup_attached parent g origin) kind = Inr ()"
  "sup_validate (sup_objective ob origin g p) KindExecution = Inr ()"
  "sup_validate (sup_objective_primary_execution ob g) KindExecution = Inr ()"
  "sup_validate (sup_runtime supervisor) kind = Inr ()"
  "sup_validate (sup_disposable origin) kind = Inr ()"
  "sup_validate sup_legacy kind = Inr ()"
  by (simp_all add: sup_validate_def sup_attached_def sup_objective_def sup_objective_primary_execution_def sup_runtime_def
      sup_disposable_def sup_legacy_def)

end
