(* ===== verification/Scheduler_Audit.thy ===== *)
theory Scheduler_Audit
  imports Scheduler_Domain "HOL-Library.Product_Lexorder"
begin

text \<open>
  The invariant audit of the scheduler (\<open>audit_scheduler_invariants_counted\<close> in
  \<open>morphz/src/scheduler/domain.rs\<close>) over full rows or over the scalar projections of
  \<open>morphz/src/scheduler/authority.rs\<close>. Sets and maps of the code that are only looked up are sets
  and functions. The map of primary executions is iterated in the order of first occurrence, where
  the code leaves the order open.
\<close>

section \<open>Projections\<close>

record objective_authority =
  oa_id :: ustring
  oa_context_id :: ustring
  oa_coordinator_session_id :: ustring
  oa_generation :: nat
  oa_status :: objective_status
  oa_has_legacy_wait :: bool

definition objective_authority_of :: "objective_record \<Rightarrow> objective_authority" where
  "objective_authority_of v =
     \<lparr>oa_id = obj_id v, oa_context_id = obj_context_id v, oa_coordinator_session_id = obj_coordinator_session_id v,
      oa_generation = obj_generation v, oa_status = obj_status v, oa_has_legacy_wait = obj_wait_condition v \<noteq> None\<rparr>"

record supervision_authority =
  sa_supervisor_kind :: thread_supervisor_kind
  sa_supervisor_id :: "ustring option"
  sa_generation :: nat
  sa_origin_evaluation_id :: "ustring option"

record thread_authority =
  ta_id :: ustring
  ta_context_id :: ustring
  ta_session_id :: ustring
  ta_revision :: nat
  ta_control_state :: thread_control_state
  ta_kind :: thread_kind
  ta_lifecycle :: thread_lifecycle
  ta_generation :: nat
  ta_root_turn_id :: ustring
  ta_created_at :: utc
  ta_supervision :: supervision_authority

definition thread_authority_of :: "thread_record \<Rightarrow> thread_authority" where
  "thread_authority_of v =
     \<lparr>ta_id = thr_id v, ta_context_id = thr_context_id v, ta_session_id = thr_session_id v, ta_revision = thr_revision v,
      ta_control_state = thr_control_state v, ta_kind = thr_kind v, ta_lifecycle = thr_lifecycle v,
      ta_generation = thr_generation v, ta_root_turn_id = thr_root_turn_id v, ta_created_at = thr_created_at v,
      ta_supervision =
        \<lparr>sa_supervisor_kind = sup_supervisor_kind (thr_supervision v), sa_supervisor_id = sup_supervisor_id (thr_supervision v),
         sa_generation = sup_generation (thr_supervision v),
         sa_origin_evaluation_id = sup_origin_evaluation_id (thr_supervision v)\<rparr>\<rparr>"

record group_member_counts =
  gc_group_id :: ustring
  gc_total :: nat
  gc_required :: nat
  gc_terminal :: nat
  gc_successful :: nat

record group_authority =
  ga_id :: ustring
  ga_context_id :: ustring
  ga_session_id :: ustring
  ga_supervisor_kind :: thread_supervisor_kind
  ga_supervisor_id :: ustring
  ga_generation :: nat
  ga_status :: group_status
  ga_required_count :: nat
  ga_terminal_count :: nat
  ga_successful_count :: nat
  ga_barrier_event_id :: "ustring option"
  ga_member_counts :: "group_member_counts option"

definition group_authority_of :: "group_record \<Rightarrow> group_authority" where
  "group_authority_of v =
     \<lparr>ga_id = grp_id v, ga_context_id = grp_context_id v, ga_session_id = grp_session_id v,
      ga_supervisor_kind = grp_supervisor_kind v, ga_supervisor_id = grp_supervisor_id v, ga_generation = grp_generation v,
      ga_status = grp_status v, ga_required_count = grp_required_count v, ga_terminal_count = grp_terminal_count v,
      ga_successful_count = grp_successful_count v, ga_barrier_event_id = grp_barrier_event_id v, ga_member_counts = None\<rparr>"

record authority_facts =
  af_objectives :: "objective_authority list"
  af_threads :: "thread_authority list"
  af_groups :: "group_authority list"
  af_outcome_threads :: "ustring set"
  af_pending_objective_owners :: "(ustring \<times> nat) set"
  af_preserved_primary :: "ustring \<times> nat \<Rightarrow> ustring option"

section \<open>Violations\<close>

datatype invariant_severity = SevWarning | SevError | SevQuarantine

datatype invariant_code =
    TerminalThreadMissingOutcome
  | OpenThreadHasOutcome
  | TerminalThreadHasLiveActivation
  | ActivationGenerationAheadOfThread
  | GroupCountMismatch
  | TerminalGroupHasPendingMember
  | SatisfiedGroupMissingBarrier
  | TerminalGroupBarrierEventMissing
  | GroupSupervisorMissing
  | PendingDependencyTargetsTerminalGroup
  | ObjectiveWaitDisagreesWithDependencies
  | ObjectivePrimaryExecutionOwnerMismatch
  | ObjectiveChildExecutionOwnerMismatch
  | DuplicateObjectivePrimaryExecutionThread
  | OrphanActivation
  | OrphanSignal
  | OrphanExecutionJob
  | OrphanApproval

record invariant_violation =
  iv_severity :: invariant_severity
  iv_code :: invariant_code
  iv_entity_kind :: ustring
  iv_entity_id :: ustring
  iv_detail :: ustring

definition violation :: "invariant_severity \<Rightarrow> invariant_code \<Rightarrow> string \<Rightarrow> ustring \<Rightarrow> ustring \<Rightarrow> invariant_violation" where
  "violation severity code kind ident detail =
     \<lparr>iv_severity = severity, iv_code = code, iv_entity_kind = lit kind, iv_entity_id = ident, iv_detail = detail\<rparr>"

definition report :: "bool \<Rightarrow> invariant_violation \<Rightarrow> invariant_violation list" where
  "report b v = (if b then [v] else [])"

record invariant_input =
  in_objectives :: "objective_record list"
  in_threads :: "thread_record list"
  in_activations :: "activation_record list"
  in_outcomes :: "outcome_record list"
  in_groups :: "group_record list"
  in_group_members :: "member_record list"
  in_dependencies :: "dependency_record list"

text \<open>A map collected from pairs: the last pair of a key wins.\<close>

definition index_by :: "('a \<Rightarrow> 'k) \<Rightarrow> 'a list \<Rightarrow> 'k \<Rightarrow> 'a option" where
  "index_by key xs = map_of (rev (map (\<lambda>x. (key x, x)) xs))"

section \<open>Threads\<close>

definition supervisor_objective :: "(ustring \<Rightarrow> objective_authority option) \<Rightarrow> thread_authority \<Rightarrow> objective_authority option" where
  "supervisor_objective objectives_by_id t = Option.bind (sa_supervisor_id (ta_supervision t)) objectives_by_id"

definition primary_execution :: "thread_authority \<Rightarrow> bool" where
  "primary_execution t \<longleftrightarrow>
     ta_lifecycle t = ThreadOpen \<and> ta_kind t = KindExecution \<and> sa_supervisor_kind (ta_supervision t) = SupObjective \<and>
     sa_origin_evaluation_id (ta_supervision t) = None"

definition owner_matches :: "objective_authority option \<Rightarrow> thread_authority \<Rightarrow> bool" where
  "owner_matches objective t \<longleftrightarrow>
     (case objective of
        Some ob \<Rightarrow> oa_status ob = ObjActive \<and> sa_generation (ta_supervision t) = oa_generation ob
      | None \<Rightarrow> False)"

definition child_mismatch :: "(ustring \<Rightarrow> objective_authority option) \<Rightarrow> thread_authority \<Rightarrow> invariant_violation list" where
  "child_mismatch objectives_by_id t =
     (if ta_lifecycle t = ThreadOpen \<and> sa_supervisor_kind (ta_supervision t) = SupObjective \<and>
        sa_origin_evaluation_id (ta_supervision t) \<noteq> None
      then
        (case supervisor_objective objectives_by_id t of
           Some ob \<Rightarrow> report (sa_generation (ta_supervision t) \<noteq> oa_generation ob)
             (violation SevError ObjectiveChildExecutionOwnerMismatch ''thread'' (ta_id t)
               (lit ''child supervision generation '' @ decimal (sa_generation (ta_supervision t)) @
                lit '' differs from Objective generation '' @ decimal (oa_generation ob) @
                lit ''; queued schedules cannot pass the dispatch fence''))
         | None \<Rightarrow> [])
      else [])"

definition audit_thread ::
  "(ustring \<Rightarrow> objective_authority option) \<Rightarrow> ustring set \<Rightarrow> thread_authority \<Rightarrow> invariant_violation list" where
  "audit_thread objectives_by_id outcomes t =
     (let has_outcome = (ta_id t \<in> outcomes) in
      report (thread_lifecycle_is_terminal (ta_lifecycle t) \<and> \<not> has_outcome)
        (violation SevQuarantine TerminalThreadMissingOutcome ''thread'' (ta_id t)
          (lit ''terminal Thread does not have exactly one ThreadOutcome'')) @
      report (ta_lifecycle t = ThreadOpen \<and> has_outcome)
        (violation SevQuarantine OpenThreadHasOutcome ''thread'' (ta_id t)
          (lit ''open Thread already has a terminal ThreadOutcome'')) @
      child_mismatch objectives_by_id t @
      report (primary_execution t \<and> \<not> owner_matches (supervisor_objective objectives_by_id t) t)
        (violation SevQuarantine ObjectivePrimaryExecutionOwnerMismatch ''thread'' (ta_id t)
          (lit ''the open primary execution Thread does not belong to the active Objective generation'')))"

text \<open>The owner under which a primary execution is collected.\<close>

definition primary_owner :: "(ustring \<Rightarrow> objective_authority option) \<Rightarrow> thread_authority \<Rightarrow> (ustring \<times> nat) option" where
  "primary_owner objectives_by_id t =
     (if primary_execution t \<and> owner_matches (supervisor_objective objectives_by_id t) t
      then map_option (\<lambda>ob. (oa_id ob, oa_generation ob)) (supervisor_objective objectives_by_id t)
      else None)"

definition preserved_choice :: "(ustring \<Rightarrow> ustring) \<Rightarrow> ustring \<times> nat \<Rightarrow> thread_authority list \<Rightarrow> ustring" where
  "preserved_choice sha owner threads =
     (let expected = stable_thread_id sha (objective_primary_execution_root_id (fst owner) (snd owner)) in
      case List.find (\<lambda>t. ta_id t = expected) threads of
        Some t \<Rightarrow> ta_id t
      | None \<Rightarrow> ta_id (hd threads))"

definition audit_owner ::
  "(ustring \<Rightarrow> ustring) \<Rightarrow> ustring option \<Rightarrow> ustring \<times> nat \<Rightarrow> thread_authority list \<Rightarrow> invariant_violation list" where
  "audit_owner sha exact_preserved owner threads =
     (if length threads \<le> 1 \<and> exact_preserved = None then []
      else
        let sorted = sort_key (\<lambda>t. (ta_created_at t, ta_id t)) threads;
            preserved = (case exact_preserved of Some i \<Rightarrow> i | None \<Rightarrow> preserved_choice sha owner sorted) in
        concat (map (\<lambda>t. report (ta_id t \<noteq> preserved)
          (violation SevQuarantine DuplicateObjectivePrimaryExecutionThread ''thread'' (ta_id t)
            (lit ''an Objective generation has multiple open primary execution Threads''))) sorted))"

definition owned_by :: "(ustring \<Rightarrow> objective_authority option) \<Rightarrow> thread_authority list \<Rightarrow> ustring \<times> nat \<Rightarrow> thread_authority list" where
  "owned_by objectives_by_id threads owner = filter (\<lambda>t. primary_owner objectives_by_id t = Some owner) threads"

definition audit_owners ::
  "(ustring \<Rightarrow> ustring) \<Rightarrow> (ustring \<times> nat \<Rightarrow> ustring option) \<Rightarrow> (ustring \<Rightarrow> objective_authority option) \<Rightarrow> thread_authority list
    \<Rightarrow> invariant_violation list" where
  "audit_owners sha preserved objectives_by_id threads =
     concat (map (\<lambda>owner. audit_owner sha (preserved owner) owner (owned_by objectives_by_id threads owner))
       (remdups (List.map_filter (primary_owner objectives_by_id) threads)))"

section \<open>Activations, groups, dependencies and objectives\<close>

definition audit_activation :: "(ustring \<Rightarrow> thread_authority option) \<Rightarrow> activation_record \<Rightarrow> invariant_violation list" where
  "audit_activation threads_by_root a =
     (case threads_by_root (act_root_turn_id a) of
        None \<Rightarrow> []
      | Some t \<Rightarrow>
          report (ta_generation t < act_generation a)
            (violation SevQuarantine ActivationGenerationAheadOfThread ''activation'' (act_id a)
              (lit ''Activation generation exceeds its owning Thread generation'')) @
          report (thread_lifecycle_is_terminal (ta_lifecycle t) \<and> act_generation a = ta_generation t \<and>
              \<not> activation_status_is_terminal (act_status a))
            (violation SevQuarantine TerminalThreadHasLiveActivation ''activation'' (act_id a)
              (lit ''the current generation of a terminal Thread still has a non-terminal Activation'')))"

definition count_members :: "(member_record \<Rightarrow> bool) \<Rightarrow> member_record list \<Rightarrow> ustring \<Rightarrow> nat" where
  "count_members P members gid = length (filter (\<lambda>m. mem_group_id m = gid \<and> mem_required m \<and> P m) members)"

definition member_counts :: "member_record list \<Rightarrow> ustring \<Rightarrow> nat \<times> nat \<times> nat" where
  "member_counts members gid =
     (count_members (\<lambda>_. True) members gid, count_members (\<lambda>m. member_status_is_terminal (mem_status m)) members gid,
      count_members (\<lambda>m. member_status_is_success (mem_status m)) members gid)"

text \<open>\<open>None\<close> is the panic of the \<open>expect\<close> when exact counters were passed but not for this group.\<close>

definition group_counts ::
  "group_member_counts list option \<Rightarrow> member_record list \<Rightarrow> ustring \<Rightarrow> (nat \<times> nat \<times> nat) option" where
  "group_counts counts members gid =
     (case counts of
        Some rows \<Rightarrow> map_option (\<lambda>r. (gc_required r, gc_terminal r, gc_successful r)) (List.find (\<lambda>r. gc_group_id r = gid) rows)
      | None \<Rightarrow> Some (member_counts members gid))"

definition audit_group :: "nat \<times> nat \<times> nat \<Rightarrow> group_authority \<Rightarrow> invariant_violation list" where
  "audit_group counted g =
     (let (required, terminal, successful) = counted in
      report (counted \<noteq> (ga_required_count g, ga_terminal_count g, ga_successful_count g))
        (violation SevQuarantine GroupCountMismatch ''thread_group'' (ga_id g)
          (lit ''ThreadGroup counters are inconsistent with authoritative member rows'')) @
      report (group_status_is_terminal (ga_status g) \<and> terminal < required)
        (violation SevQuarantine TerminalGroupHasPendingMember ''thread_group'' (ga_id g)
          (lit ''terminal ThreadGroup still has a required pending member'')) @
      report (ga_status g = GroupSatisfied \<and> ga_barrier_event_id g = None)
        (violation SevError SatisfiedGroupMissingBarrier ''thread_group'' (ga_id g)
          (lit ''satisfied ThreadGroup is missing its atomically committed barrier Event'')))"

fun audit_groups ::
  "group_member_counts list option \<Rightarrow> member_record list \<Rightarrow> group_authority list \<Rightarrow> invariant_violation list option" where
  "audit_groups counts members [] = Some []"
| "audit_groups counts members (g # gs) =
     Option.bind (group_counts counts members (ga_id g)) (\<lambda>c.
       map_option (\<lambda>rest. audit_group c g @ rest) (audit_groups counts members gs))"

definition audit_dependency :: "(ustring \<Rightarrow> group_authority option) \<Rightarrow> dependency_record \<Rightarrow> invariant_violation list" where
  "audit_dependency groups_by_id d =
     report (dep_status d = DependencyPending \<and> dep_dependency_kind d = DepThreadGroup \<and>
         (case groups_by_id (dep_dependency_id d) of Some g \<Rightarrow> group_status_is_terminal (ga_status g) | None \<Rightarrow> False))
       (violation SevQuarantine PendingDependencyTargetsTerminalGroup ''scheduler_dependency'' (dep_id d)
         (lit ''pending dependency points to a terminal ThreadGroup''))"

definition pending_owners :: "dependency_record list \<Rightarrow> (ustring \<times> nat) set" where
  "pending_owners ds = (\<lambda>d. (dep_owner_id d, dep_owner_generation d)) `
     set (filter (\<lambda>d. dep_owner_kind d = OwnerObjective \<and> dep_required d \<and> dep_status d = DependencyPending) ds)"

definition audit_objective :: "(ustring \<times> nat) set \<Rightarrow> objective_authority \<Rightarrow> invariant_violation list" where
  "audit_objective pending ob =
     report (((oa_id ob, oa_generation ob) \<in> pending) \<noteq> oa_has_legacy_wait ob)
       (violation SevWarning ObjectiveWaitDisagreesWithDependencies ''objective'' (oa_id ob)
         (lit ''wait_condition is inconsistent with scheduler_dependencies during migration''))"

section \<open>The audit\<close>

definition audit_scheduler_invariants_counted ::
  "(ustring \<Rightarrow> ustring) \<Rightarrow> invariant_input \<Rightarrow> group_member_counts list option \<Rightarrow> authority_facts option
    \<Rightarrow> invariant_violation list option" where
  "audit_scheduler_invariants_counted sha inp counts facts =
     (let objectives = (case facts of Some f \<Rightarrow> af_objectives f | None \<Rightarrow> map objective_authority_of (in_objectives inp));
          threads = (case facts of Some f \<Rightarrow> af_threads f | None \<Rightarrow> map thread_authority_of (in_threads inp));
          groups = (case facts of Some f \<Rightarrow> af_groups f | None \<Rightarrow> map group_authority_of (in_groups inp));
          outcomes = (case facts of Some f \<Rightarrow> af_outcome_threads f | None \<Rightarrow> out_thread_id ` set (in_outcomes inp));
          pending = (case facts of Some f \<Rightarrow> af_pending_objective_owners f | None \<Rightarrow> pending_owners (in_dependencies inp));
          preserved = (case facts of Some f \<Rightarrow> af_preserved_primary f | None \<Rightarrow> (\<lambda>_. None));
          objectives_by_id = index_by oa_id objectives in
      map_option (\<lambda>group_violations.
          concat (map (audit_thread objectives_by_id outcomes) threads) @
          audit_owners sha preserved objectives_by_id threads @
          concat (map (audit_activation (index_by ta_root_turn_id threads)) (in_activations inp)) @
          group_violations @
          concat (map (audit_dependency (index_by ga_id groups)) (in_dependencies inp)) @
          concat (map (audit_objective pending) objectives))
        (audit_groups counts (in_group_members inp) groups))"

definition audit_scheduler_invariants :: "(ustring \<Rightarrow> ustring) \<Rightarrow> invariant_input \<Rightarrow> invariant_violation list option" where
  "audit_scheduler_invariants sha inp = audit_scheduler_invariants_counted sha inp None None"

definition audit_scheduler_invariants_with_group_counts ::
  "(ustring \<Rightarrow> ustring) \<Rightarrow> invariant_input \<Rightarrow> group_member_counts list \<Rightarrow> invariant_violation list option" where
  "audit_scheduler_invariants_with_group_counts sha inp counts = audit_scheduler_invariants_counted sha inp (Some counts) None"

definition audit_scheduler_authority ::
  "(ustring \<Rightarrow> ustring) \<Rightarrow> invariant_input \<Rightarrow> group_member_counts list \<Rightarrow> authority_facts \<Rightarrow> invariant_violation list option" where
  "audit_scheduler_authority sha inp counts facts = audit_scheduler_invariants_counted sha inp (Some counts) (Some facts)"

end
