(* ===== verification/Scheduler_Consistency.thy ===== *)
theory Scheduler_Consistency
  imports Scheduler_Audit
begin

text \<open>
  What the audit decides: it reports nothing exactly when the rows satisfy the invariants of the
  scheduler, stated here over the rows themselves, and the audit over scalar projections reports
  what the audit over full rows reports.
\<close>

section \<open>Invariants of the rows\<close>

definition primary_row :: "thread_record \<Rightarrow> bool" where
  "primary_row t \<longleftrightarrow>
     thr_lifecycle t = ThreadOpen \<and> thr_kind t = KindExecution \<and> sup_supervisor_kind (thr_supervision t) = SupObjective \<and>
     sup_origin_evaluation_id (thr_supervision t) = None"

definition supervised_by :: "thread_record \<Rightarrow> objective_record \<Rightarrow> bool" where
  "supervised_by t ob \<longleftrightarrow> sup_supervisor_id (thr_supervision t) = Some (obj_id ob)"

definition threads_settled :: "invariant_input \<Rightarrow> bool" where
  "threads_settled inp \<longleftrightarrow>
     (\<forall>t \<in> set (in_threads inp).
        thread_lifecycle_is_terminal (thr_lifecycle t) \<longleftrightarrow> (\<exists>oc \<in> set (in_outcomes inp). out_thread_id oc = thr_id t))"

definition children_current :: "invariant_input \<Rightarrow> bool" where
  "children_current inp \<longleftrightarrow>
     (\<forall>t \<in> set (in_threads inp). \<forall>ob \<in> set (in_objectives inp).
        thr_lifecycle t = ThreadOpen \<and> sup_supervisor_kind (thr_supervision t) = SupObjective \<and>
        sup_origin_evaluation_id (thr_supervision t) \<noteq> None \<and> supervised_by t ob \<longrightarrow>
        sup_generation (thr_supervision t) = obj_generation ob)"

definition primaries_owned :: "invariant_input \<Rightarrow> bool" where
  "primaries_owned inp \<longleftrightarrow>
     (\<forall>t \<in> set (in_threads inp). primary_row t \<longrightarrow>
        (\<exists>ob \<in> set (in_objectives inp). supervised_by t ob \<and> obj_status ob = ObjActive \<and>
           sup_generation (thr_supervision t) = obj_generation ob))"

definition primaries_unique :: "invariant_input \<Rightarrow> bool" where
  "primaries_unique inp \<longleftrightarrow>
     (\<forall>t \<in> set (in_threads inp). \<forall>u \<in> set (in_threads inp).
        primary_row t \<and> primary_row u \<and> sup_supervisor_id (thr_supervision t) = sup_supervisor_id (thr_supervision u) \<and>
        sup_generation (thr_supervision t) = sup_generation (thr_supervision u) \<longrightarrow> thr_id t = thr_id u)"

definition activations_current :: "invariant_input \<Rightarrow> bool" where
  "activations_current inp \<longleftrightarrow>
     (\<forall>a \<in> set (in_activations inp). \<forall>t \<in> set (in_threads inp). thr_root_turn_id t = act_root_turn_id a \<longrightarrow>
        act_generation a \<le> thr_generation t \<and>
        (thread_lifecycle_is_terminal (thr_lifecycle t) \<and> act_generation a = thr_generation t \<longrightarrow>
           activation_status_is_terminal (act_status a)))"

definition groups_settled :: "invariant_input \<Rightarrow> bool" where
  "groups_settled inp \<longleftrightarrow>
     (\<forall>g \<in> set (in_groups inp).
        member_counts (in_group_members inp) (grp_id g) = (grp_required_count g, grp_terminal_count g, grp_successful_count g) \<and>
        (group_status_is_terminal (grp_status g) \<longrightarrow>
           (\<forall>m \<in> set (in_group_members inp). mem_group_id m = grp_id g \<and> mem_required m \<longrightarrow> member_status_is_terminal (mem_status m))) \<and>
        (grp_status g = GroupSatisfied \<longrightarrow> grp_barrier_event_id g \<noteq> None))"

definition dependencies_live :: "invariant_input \<Rightarrow> bool" where
  "dependencies_live inp \<longleftrightarrow>
     (\<forall>d \<in> set (in_dependencies inp). \<forall>g \<in> set (in_groups inp).
        dep_status d = DependencyPending \<and> dep_dependency_kind d = DepThreadGroup \<and> grp_id g = dep_dependency_id d \<longrightarrow>
        \<not> group_status_is_terminal (grp_status g))"

definition waits_agree :: "invariant_input \<Rightarrow> bool" where
  "waits_agree inp \<longleftrightarrow>
     (\<forall>ob \<in> set (in_objectives inp). obj_wait_condition ob \<noteq> None \<longleftrightarrow> (\<exists>d \<in> set (in_dependencies inp). blocks_objective ob d))"

definition scheduler_consistent :: "invariant_input \<Rightarrow> bool" where
  "scheduler_consistent inp \<longleftrightarrow>
     threads_settled inp \<and> children_current inp \<and> primaries_owned inp \<and> primaries_unique inp \<and> activations_current inp \<and>
     groups_settled inp \<and> dependencies_live inp \<and> waits_agree inp"

text \<open>The rows have the keys of their tables.\<close>

definition unique_rows :: "invariant_input \<Rightarrow> bool" where
  "unique_rows inp \<longleftrightarrow>
     distinct (map obj_id (in_objectives inp)) \<and> distinct (map thr_root_turn_id (in_threads inp)) \<and>
     distinct (map grp_id (in_groups inp))"

section \<open>Lookups and reports\<close>

lemma index_by_Some:
  assumes "distinct (map key xs)"
  shows "index_by key xs k = Some x \<longleftrightarrow> x \<in> set xs \<and> key x = k"
proof -
  have "distinct (map fst (rev (map (\<lambda>x. (key x, x)) xs)))" using assms by (simp add: rev_map [symmetric] comp_def)
  then show ?thesis by (auto simp: index_by_def)
qed

text \<open>Looking up the projection of a row by its key.\<close>

lemma index_cases:
  assumes "distinct (map key' xs)" and "\<And>x. key (f x) = key' x"
  obtains "index_by key (map f xs) k = None" "\<And>x. x \<in> set xs \<Longrightarrow> key' x \<noteq> k"
    | x where "index_by key (map f xs) k = Some (f x)" "x \<in> set xs" "\<And>y. y \<in> set xs \<Longrightarrow> key' y = k \<longleftrightarrow> y = x"
proof (cases "index_by key (map f xs) k")
  case None
  have "distinct (map key (map f xs))" using assms by (simp add: comp_def)
  from index_by_Some [OF this, of k] None assms(2) have "key' x \<noteq> k" if "x \<in> set xs" for x using that by auto
  with None show ?thesis by (rule that(1))
next
  case (Some y)
  have "distinct (map key (map f xs))" using assms by (simp add: comp_def)
  from index_by_Some [OF this, of k y] Some assms(2) obtain x where x: "x \<in> set xs" "y = f x" "key' x = k" by auto
  have "key' z = k \<longleftrightarrow> z = x" if "z \<in> set xs" for z using assms(1) x that by (auto simp: distinct_map inj_on_def)
  with Some x show ?thesis by (intro that(2)) auto
qed

lemma filter_shorter: "length (filter P xs) < length xs \<longleftrightarrow> (\<exists>x \<in> set xs. \<not> P x)"
  by (induction xs) (auto simp: le_imp_less_Suc)

lemma report_empty [simp]: "report b v = [] \<longleftrightarrow> \<not> b"
  by (simp add: report_def)

lemma authority_sel [simp]:
  "oa_id (objective_authority_of ob) = obj_id ob" "oa_generation (objective_authority_of ob) = obj_generation ob"
  "oa_status (objective_authority_of ob) = obj_status ob"
  "oa_has_legacy_wait (objective_authority_of ob) \<longleftrightarrow> obj_wait_condition ob \<noteq> None"
  "ta_id (thread_authority_of t) = thr_id t" "ta_lifecycle (thread_authority_of t) = thr_lifecycle t"
  "ta_kind (thread_authority_of t) = thr_kind t" "ta_generation (thread_authority_of t) = thr_generation t"
  "ta_root_turn_id (thread_authority_of t) = thr_root_turn_id t"
  "sa_supervisor_kind (ta_supervision (thread_authority_of t)) = sup_supervisor_kind (thr_supervision t)"
  "sa_supervisor_id (ta_supervision (thread_authority_of t)) = sup_supervisor_id (thr_supervision t)"
  "sa_generation (ta_supervision (thread_authority_of t)) = sup_generation (thr_supervision t)"
  "sa_origin_evaluation_id (ta_supervision (thread_authority_of t)) = sup_origin_evaluation_id (thr_supervision t)"
  "ga_id (group_authority_of g) = grp_id g" "ga_status (group_authority_of g) = grp_status g"
  "ga_required_count (group_authority_of g) = grp_required_count g" "ga_terminal_count (group_authority_of g) = grp_terminal_count g"
  "ga_successful_count (group_authority_of g) = grp_successful_count g"
  "ga_barrier_event_id (group_authority_of g) = grp_barrier_event_id g"
  by (simp_all add: objective_authority_of_def thread_authority_of_def group_authority_of_def)

lemma primary_execution_of [simp]: "primary_execution (thread_authority_of t) \<longleftrightarrow> primary_row t"
  by (simp add: primary_execution_def primary_row_def)

abbreviation objectives_index :: "invariant_input \<Rightarrow> ustring \<Rightarrow> objective_authority option" where
  "objectives_index inp \<equiv> index_by oa_id (map objective_authority_of (in_objectives inp))"

text \<open>The supervising objective of a thread, if its row is there.\<close>

lemma supervisor_cases:
  assumes "unique_rows inp"
  obtains (none) "supervisor_objective (objectives_index inp) (thread_authority_of t) = None"
      "\<And>ob. ob \<in> set (in_objectives inp) \<Longrightarrow> \<not> supervised_by t ob"
    | (some) ob where "supervisor_objective (objectives_index inp) (thread_authority_of t) = Some (objective_authority_of ob)"
      "ob \<in> set (in_objectives inp)" "\<And>ob'. ob' \<in> set (in_objectives inp) \<Longrightarrow> supervised_by t ob' \<longleftrightarrow> ob' = ob"
proof (cases "sup_supervisor_id (thr_supervision t)")
  case None
  then show ?thesis by (intro none) (simp_all add: supervisor_objective_def supervised_by_def)
next
  case (Some i)
  have rows: "distinct (map obj_id (in_objectives inp))" using assms by (simp add: unique_rows_def)
  have key: "oa_id (objective_authority_of ob) = obj_id ob" for ob by simp
  show ?thesis
  proof (cases rule: index_cases [where key = oa_id and f = objective_authority_of and k = i, OF rows key])
    case 1
    with Some show ?thesis by (intro none) (auto simp: supervisor_objective_def supervised_by_def)
  next
    case (2 ob)
    with Some show ?thesis by (intro some [of ob]) (auto simp: supervisor_objective_def supervised_by_def)
  qed
qed

section \<open>Each part of the audit\<close>

lemma child_mismatch_empty:
  assumes "unique_rows inp"
  shows "child_mismatch (objectives_index inp) (thread_authority_of t) = [] \<longleftrightarrow>
    (\<forall>ob \<in> set (in_objectives inp). thr_lifecycle t = ThreadOpen \<and> sup_supervisor_kind (thr_supervision t) = SupObjective \<and>
        sup_origin_evaluation_id (thr_supervision t) \<noteq> None \<and> supervised_by t ob \<longrightarrow>
        sup_generation (thr_supervision t) = obj_generation ob)"
  by (rule supervisor_cases [OF assms, of t]) (auto simp: child_mismatch_def)

lemma owner_matches_of:
  assumes "unique_rows inp"
  shows "owner_matches (supervisor_objective (objectives_index inp) (thread_authority_of t)) (thread_authority_of t) \<longleftrightarrow>
    (\<exists>ob \<in> set (in_objectives inp). supervised_by t ob \<and> obj_status ob = ObjActive \<and>
           sup_generation (thr_supervision t) = obj_generation ob)"
  by (rule supervisor_cases [OF assms, of t]) (auto simp: owner_matches_def)

lemma audit_threads_empty:
  assumes "unique_rows inp"
  shows "(\<forall>t \<in> set (in_threads inp). audit_thread (objectives_index inp) (out_thread_id ` set (in_outcomes inp)) (thread_authority_of t) = []) \<longleftrightarrow>
    threads_settled inp \<and> children_current inp \<and> primaries_owned inp"
proof -
  have "audit_thread (objectives_index inp) (out_thread_id ` set (in_outcomes inp)) (thread_authority_of t) = [] \<longleftrightarrow>
    (thread_lifecycle_is_terminal (thr_lifecycle t) \<longleftrightarrow> (\<exists>oc \<in> set (in_outcomes inp). out_thread_id oc = thr_id t)) \<and>
    child_mismatch (objectives_index inp) (thread_authority_of t) = [] \<and>
    (primary_row t \<longrightarrow> owner_matches (supervisor_objective (objectives_index inp) (thread_authority_of t)) (thread_authority_of t))" for t
  proof -
    have "thr_id t \<in> out_thread_id ` set (in_outcomes inp) \<longleftrightarrow> (\<exists>oc \<in> set (in_outcomes inp). out_thread_id oc = thr_id t)" by (metis imageE imageI)
    then show ?thesis by (cases "thr_lifecycle t") (auto simp: audit_thread_def Let_def thread_lifecycle_is_terminal_def)
  qed
  then show ?thesis
    unfolding child_mismatch_empty [OF assms] owner_matches_of [OF assms]
    by (auto simp: threads_settled_def children_current_def primaries_owned_def)
qed

lemma preserved_choice_in: "ts \<noteq> [] \<Longrightarrow> preserved_choice sha owner ts \<in> ta_id ` set ts"
  by (auto simp: preserved_choice_def Let_def find_Some_iff split: option.split)

lemma audit_owner_empty: "audit_owner sha None owner ts = [] \<longleftrightarrow> (\<forall>t \<in> set ts. \<forall>u \<in> set ts. ta_id t = ta_id u)"
proof (cases "length ts \<le> 1")
  case True
  then show ?thesis by (cases ts) (auto simp: audit_owner_def)
next
  case False
  let ?s = "sort_key (\<lambda>t. (ta_created_at t, ta_id t)) ts"
  have "ts \<noteq> []" using False by auto
  then have "?s \<noteq> []" by (metis set_empty set_sort)
  from preserved_choice_in [OF this, of sha owner] obtain t where t: "t \<in> set ts" "ta_id t = preserved_choice sha owner ?s" by auto
  have "audit_owner sha None owner ts = [] \<longleftrightarrow> (\<forall>u \<in> set ts. ta_id u = preserved_choice sha owner ?s)"
    using False by (auto simp: audit_owner_def Let_def)
  with t show ?thesis by metis
qed

lemma audit_owners_empty:
  "audit_owners sha (\<lambda>_. None) ix ts = [] \<longleftrightarrow>
     (\<forall>t \<in> set ts. \<forall>u \<in> set ts. primary_owner ix t \<noteq> None \<and> primary_owner ix t = primary_owner ix u \<longrightarrow> ta_id t = ta_id u)"
proof -
  have member: "ow \<in> set (List.map_filter (primary_owner ix) ts) \<longleftrightarrow> (\<exists>t \<in> set ts. primary_owner ix t = Some ow)" for ow
    by (force simp: map_filter_def)
  have "audit_owners sha (\<lambda>_. None) ix ts = [] \<longleftrightarrow>
      (\<forall>ow \<in> set (List.map_filter (primary_owner ix) ts). \<forall>t \<in> set ts. \<forall>u \<in> set ts.
         primary_owner ix t = Some ow \<longrightarrow> primary_owner ix u = Some ow \<longrightarrow> ta_id t = ta_id u)"
    by (simp add: audit_owners_def owned_by_def audit_owner_empty) blast
  also have "\<dots> \<longleftrightarrow> (\<forall>ow. \<forall>t \<in> set ts. \<forall>u \<in> set ts.
         primary_owner ix t = Some ow \<longrightarrow> primary_owner ix u = Some ow \<longrightarrow> ta_id t = ta_id u)"
    using member by blast
  finally show ?thesis by (metis not_None_eq)
qed

lemma primary_owner_of:
  assumes "unique_rows inp"
  shows "primary_owner (objectives_index inp) (thread_authority_of t) = Some ow \<longleftrightarrow>
    primary_row t \<and> (\<exists>ob \<in> set (in_objectives inp). supervised_by t ob \<and> obj_status ob = ObjActive \<and>
           sup_generation (thr_supervision t) = obj_generation ob \<and> ow = (obj_id ob, obj_generation ob))"
  by (rule supervisor_cases [OF assms, of t]) (auto simp: primary_owner_def owner_matches_def)

lemma primaries_empty:
  assumes "unique_rows inp" and "primaries_owned inp"
  shows "audit_owners sha (\<lambda>_. None) (objectives_index inp) (map thread_authority_of (in_threads inp)) = [] \<longleftrightarrow> primaries_unique inp"
proof -
  have owner: "primary_owner (objectives_index inp) (thread_authority_of t) =
      (if primary_row t then Some (the (sup_supervisor_id (thr_supervision t)), sup_generation (thr_supervision t)) else None)"
    if t: "t \<in> set (in_threads inp)" for t
  proof (cases "primary_row t")
    case True
    with t assms(2) obtain ob where "ob \<in> set (in_objectives inp)" "supervised_by t ob" "obj_status ob = ObjActive"
      "sup_generation (thr_supervision t) = obj_generation ob"
      by (auto simp: primaries_owned_def)
    with True show ?thesis by (auto simp: primary_owner_of [OF assms(1)] supervised_by_def)
  next
    case False
    then show ?thesis by (simp add: primary_owner_def)
  qed
  have key: "primary_owner (objectives_index inp) (thread_authority_of t) \<noteq> None \<and>
      primary_owner (objectives_index inp) (thread_authority_of t) = primary_owner (objectives_index inp) (thread_authority_of u) \<longleftrightarrow>
      primary_row t \<and> primary_row u \<and> sup_supervisor_id (thr_supervision t) = sup_supervisor_id (thr_supervision u) \<and>
      sup_generation (thr_supervision t) = sup_generation (thr_supervision u)"
    if t: "t \<in> set (in_threads inp)" and u: "u \<in> set (in_threads inp)" for t u
  proof -
    have some: "\<exists>i. sup_supervisor_id (thr_supervision v) = Some i" if "v \<in> set (in_threads inp)" "primary_row v" for v
      using assms(2) that by (auto simp: primaries_owned_def supervised_by_def)
    show ?thesis
    proof (cases "primary_row t \<and> primary_row u")
      case True
      then obtain i j where "sup_supervisor_id (thr_supervision t) = Some i" "sup_supervisor_id (thr_supervision u) = Some j"
        using some [OF t] some [OF u] by blast
      with True show ?thesis by (simp add: owner [OF t] owner [OF u])
    next
      case False
      then show ?thesis by (simp add: owner [OF t] owner [OF u])
    qed
  qed
  show ?thesis
    unfolding audit_owners_empty primaries_unique_def set_map ball_simps(9) authority_sel
    by (intro ball_cong refl imp_cong key)
qed

lemma audit_activations_empty:
  assumes "unique_rows inp"
  shows "(\<forall>a \<in> set (in_activations inp). audit_activation (index_by ta_root_turn_id (map thread_authority_of (in_threads inp))) a = []) \<longleftrightarrow>
    activations_current inp"
proof -
  have rows: "distinct (map thr_root_turn_id (in_threads inp))" using assms by (simp add: unique_rows_def)
  have "audit_activation (index_by ta_root_turn_id (map thread_authority_of (in_threads inp))) a = [] \<longleftrightarrow>
    (\<forall>t \<in> set (in_threads inp). thr_root_turn_id t = act_root_turn_id a \<longrightarrow>
        act_generation a \<le> thr_generation t \<and>
        (thread_lifecycle_is_terminal (thr_lifecycle t) \<and> act_generation a = thr_generation t \<longrightarrow>
           activation_status_is_terminal (act_status a)))" for a
    by (rule index_cases [OF rows, of ta_root_turn_id thread_authority_of "act_root_turn_id a"])
      (auto simp: audit_activation_def not_less)
  then show ?thesis by (simp add: activations_current_def)
qed

lemma fewer_terminal:
  "count_members (\<lambda>m. member_status_is_terminal (mem_status m)) ms gid < count_members (\<lambda>_. True) ms gid \<longleftrightarrow>
     (\<exists>m \<in> set ms. mem_group_id m = gid \<and> mem_required m \<and> \<not> member_status_is_terminal (mem_status m))"
proof -
  let ?r = "filter (\<lambda>m. mem_group_id m = gid \<and> mem_required m) ms"
  have "count_members (\<lambda>m. member_status_is_terminal (mem_status m)) ms gid = length (filter (\<lambda>m. member_status_is_terminal (mem_status m)) ?r)"
    by (simp add: count_members_def)
  moreover have "count_members (\<lambda>_. True) ms gid = length ?r" by (simp add: count_members_def)
  ultimately have "count_members (\<lambda>m. member_status_is_terminal (mem_status m)) ms gid < count_members (\<lambda>_. True) ms gid \<longleftrightarrow>
      (\<exists>m \<in> set ?r. \<not> member_status_is_terminal (mem_status m))"
    by (simp only: filter_shorter)
  then show ?thesis by auto
qed

lemma audit_group_empty:
  "audit_group (member_counts ms (grp_id g)) (group_authority_of g) = [] \<longleftrightarrow>
     member_counts ms (grp_id g) = (grp_required_count g, grp_terminal_count g, grp_successful_count g) \<and>
     (group_status_is_terminal (grp_status g) \<longrightarrow>
        (\<forall>m \<in> set ms. mem_group_id m = grp_id g \<and> mem_required m \<longrightarrow> member_status_is_terminal (mem_status m))) \<and>
     (grp_status g = GroupSatisfied \<longrightarrow> grp_barrier_event_id g \<noteq> None)"
  using fewer_terminal [of ms "grp_id g"] by (auto simp: audit_group_def member_counts_def)

lemma audit_groups_None:
  "audit_groups None ms gs = Some (concat (map (\<lambda>g. audit_group (member_counts ms (ga_id g)) g) gs))"
  by (induction gs) (simp_all add: group_counts_def)

lemma audit_dependencies_empty:
  assumes "unique_rows inp"
  shows "(\<forall>d \<in> set (in_dependencies inp). audit_dependency (index_by ga_id (map group_authority_of (in_groups inp))) d = []) \<longleftrightarrow>
    dependencies_live inp"
proof -
  have rows: "distinct (map grp_id (in_groups inp))" using assms by (simp add: unique_rows_def)
  have "audit_dependency (index_by ga_id (map group_authority_of (in_groups inp))) d = [] \<longleftrightarrow>
    (\<forall>g \<in> set (in_groups inp). dep_status d = DependencyPending \<and> dep_dependency_kind d = DepThreadGroup \<and>
        grp_id g = dep_dependency_id d \<longrightarrow> \<not> group_status_is_terminal (grp_status g))" for d
    by (rule index_cases [OF rows, of ga_id group_authority_of "dep_dependency_id d"]) (auto simp: audit_dependency_def)
  then show ?thesis by (simp add: dependencies_live_def)
qed

lemma audit_objective_empty:
  "audit_objective (pending_owners ds) (objective_authority_of ob) = [] \<longleftrightarrow>
     (obj_wait_condition ob \<noteq> None \<longleftrightarrow> (\<exists>d \<in> set ds. blocks_objective ob d))"
proof -
  have "(obj_id ob, obj_generation ob) \<in> pending_owners ds \<longleftrightarrow> (\<exists>d \<in> set ds. blocks_objective ob d)"
    unfolding pending_owners_def blocks_objective_def image_iff by auto
  then show ?thesis by (auto simp: audit_objective_def)
qed

section \<open>The audit\<close>

lemma audit_total: "\<exists>vs. audit_scheduler_invariants sha inp = Some vs"
  by (simp add: audit_scheduler_invariants_def audit_scheduler_invariants_counted_def audit_groups_None Let_def)

lemma audit_empty_iff:
  assumes "unique_rows inp"
  shows "audit_scheduler_invariants sha inp = Some [] \<longleftrightarrow> scheduler_consistent inp"
proof -
  have "audit_scheduler_invariants sha inp = Some [] \<longleftrightarrow>
    (threads_settled inp \<and> children_current inp \<and> primaries_owned inp) \<and>
    audit_owners sha (\<lambda>_. None) (objectives_index inp) (map thread_authority_of (in_threads inp)) = [] \<and>
    activations_current inp \<and> groups_settled inp \<and> dependencies_live inp \<and> waits_agree inp"
    unfolding audit_threads_empty [OF assms, symmetric] audit_activations_empty [OF assms, symmetric]
      audit_dependencies_empty [OF assms, symmetric] groups_settled_def waits_agree_def
    by (simp add: audit_scheduler_invariants_def audit_scheduler_invariants_counted_def audit_groups_None Let_def audit_group_empty
        audit_objective_empty)
  then show ?thesis using primaries_empty [OF assms] by (auto simp: scheduler_consistent_def)
qed

section \<open>The audit of projections\<close>

definition facts_exact :: "(ustring \<Rightarrow> ustring) \<Rightarrow> invariant_input \<Rightarrow> group_member_counts list \<Rightarrow> authority_facts \<Rightarrow> bool" where
  "facts_exact sha inp counts f \<longleftrightarrow>
     af_objectives f = map objective_authority_of (in_objectives inp) \<and>
     af_threads f = map thread_authority_of (in_threads inp) \<and>
     af_groups f = map group_authority_of (in_groups inp) \<and>
     af_outcome_threads f = out_thread_id ` set (in_outcomes inp) \<and>
     af_pending_objective_owners f = pending_owners (in_dependencies inp) \<and>
     (\<forall>g \<in> set (in_groups inp). group_counts (Some counts) (in_group_members inp) (grp_id g) =
        Some (member_counts (in_group_members inp) (grp_id g))) \<and>
     (\<forall>ow i. af_preserved_primary f ow = Some i \<longrightarrow>
        i = preserved_choice sha ow (sort_key (\<lambda>t. (ta_created_at t, ta_id t))
          (owned_by (objectives_index inp) (map thread_authority_of (in_threads inp)) ow)))"

lemma audit_owner_exact:
  assumes "ts \<noteq> []" and "exact = None \<or> exact = Some (preserved_choice sha ow (sort_key (\<lambda>t. (ta_created_at t, ta_id t)) ts))"
  shows "audit_owner sha exact ow ts = audit_owner sha None ow ts"
proof (cases "length ts \<le> 1")
  case True
  with assms(1) obtain t where t: "ts = [t]" by (cases ts) auto
  have "preserved_choice sha ow [t] = ta_id t" using preserved_choice_in [of "[t]" sha ow] by simp
  with assms(2) show ?thesis by (auto simp: t audit_owner_def Let_def)
next
  case False
  with assms(2) show ?thesis by (auto simp: audit_owner_def Let_def)
qed

lemma audit_owners_exact:
  assumes "\<And>ow i. preserved ow = Some i \<Longrightarrow> i = preserved_choice sha ow (sort_key (\<lambda>t. (ta_created_at t, ta_id t)) (owned_by ix ts ow))"
  shows "audit_owners sha preserved ix ts = audit_owners sha (\<lambda>_. None) ix ts"
proof -
  have "audit_owner sha (preserved ow) ow (owned_by ix ts ow) = audit_owner sha None ow (owned_by ix ts ow)"
    if "ow \<in> set (List.map_filter (primary_owner ix) ts)" for ow
  proof (rule audit_owner_exact)
    show "owned_by ix ts ow \<noteq> []" using that by (auto simp: map_filter_def owned_by_def filter_empty_conv)
    show "preserved ow = None \<or> preserved ow = Some (preserved_choice sha ow (sort_key (\<lambda>t. (ta_created_at t, ta_id t)) (owned_by ix ts ow)))"
      using assms [of ow] by (cases "preserved ow") auto
  qed
  then show ?thesis by (auto simp: audit_owners_def intro!: arg_cong [of _ _ concat] map_cong)
qed

lemma audit_groups_counts:
  assumes "\<forall>g \<in> set gs. group_counts counts ms (ga_id g) = Some (member_counts ms (ga_id g))"
  shows "audit_groups counts ms gs = audit_groups None ms gs"
  using assms by (induction gs) (auto simp: audit_groups_None group_counts_def [of None])

lemma audit_authority_eq:
  assumes "facts_exact sha inp counts f"
  shows "audit_scheduler_authority sha inp counts f = audit_scheduler_invariants sha inp"
proof -
  have f: "af_objectives f = map objective_authority_of (in_objectives inp)" "af_threads f = map thread_authority_of (in_threads inp)"
    "af_groups f = map group_authority_of (in_groups inp)" "af_outcome_threads f = out_thread_id ` set (in_outcomes inp)"
    "af_pending_objective_owners f = pending_owners (in_dependencies inp)"
    using assms by (simp_all add: facts_exact_def)
  have g: "audit_groups (Some counts) (in_group_members inp) (map group_authority_of (in_groups inp)) =
      audit_groups None (in_group_members inp) (map group_authority_of (in_groups inp))"
    using assms by (intro audit_groups_counts) (simp add: facts_exact_def)
  have o: "audit_owners sha (af_preserved_primary f) (objectives_index inp) (map thread_authority_of (in_threads inp)) =
      audit_owners sha (\<lambda>_. None) (objectives_index inp) (map thread_authority_of (in_threads inp))"
    using assms unfolding facts_exact_def by (intro audit_owners_exact) blast
  show ?thesis
    unfolding audit_scheduler_authority_def audit_scheduler_invariants_def audit_scheduler_invariants_counted_def
    by (simp add: Let_def f g o)
qed

end
