(* ===== verification/Recovery_Reconciler.thy ===== *)
theory Recovery_Reconciler
  imports Scheduler_Consistency
begin

text \<open>
  The recovery reconciler (\<open>morphz/src/recovery/reconciler.rs\<close>): the audit of group ownership and
  barriers, and the plan that turns violations into threads to quarantine. Lookup tables are
  functions, sets are sets; the routes from an entity to its threads are an argument, as in the
  code.
\<close>

section \<open>Names\<close>

text \<open>The text of derived \<open>Debug\<close>: the name of the variant.\<close>

fun invariant_code_debug :: "invariant_code \<Rightarrow> ustring" where
  "invariant_code_debug TerminalThreadMissingOutcome = lit ''TerminalThreadMissingOutcome''"
| "invariant_code_debug OpenThreadHasOutcome = lit ''OpenThreadHasOutcome''"
| "invariant_code_debug TerminalThreadHasLiveActivation = lit ''TerminalThreadHasLiveActivation''"
| "invariant_code_debug ActivationGenerationAheadOfThread = lit ''ActivationGenerationAheadOfThread''"
| "invariant_code_debug GroupCountMismatch = lit ''GroupCountMismatch''"
| "invariant_code_debug TerminalGroupHasPendingMember = lit ''TerminalGroupHasPendingMember''"
| "invariant_code_debug SatisfiedGroupMissingBarrier = lit ''SatisfiedGroupMissingBarrier''"
| "invariant_code_debug TerminalGroupBarrierEventMissing = lit ''TerminalGroupBarrierEventMissing''"
| "invariant_code_debug GroupSupervisorMissing = lit ''GroupSupervisorMissing''"
| "invariant_code_debug PendingDependencyTargetsTerminalGroup = lit ''PendingDependencyTargetsTerminalGroup''"
| "invariant_code_debug ObjectiveWaitDisagreesWithDependencies = lit ''ObjectiveWaitDisagreesWithDependencies''"
| "invariant_code_debug ObjectivePrimaryExecutionOwnerMismatch = lit ''ObjectivePrimaryExecutionOwnerMismatch''"
| "invariant_code_debug ObjectiveChildExecutionOwnerMismatch = lit ''ObjectiveChildExecutionOwnerMismatch''"
| "invariant_code_debug DuplicateObjectivePrimaryExecutionThread = lit ''DuplicateObjectivePrimaryExecutionThread''"
| "invariant_code_debug OrphanActivation = lit ''OrphanActivation''"
| "invariant_code_debug OrphanSignal = lit ''OrphanSignal''"
| "invariant_code_debug OrphanExecutionJob = lit ''OrphanExecutionJob''"
| "invariant_code_debug OrphanApproval = lit ''OrphanApproval''"

fun supervisor_kind_debug :: "thread_supervisor_kind \<Rightarrow> ustring" where
  "supervisor_kind_debug SupThread = lit ''Thread''"
| "supervisor_kind_debug SupEvaluation = lit ''Evaluation''"
| "supervisor_kind_debug SupObjective = lit ''Objective''"
| "supervisor_kind_debug SupRuntime = lit ''Runtime''"
| "supervisor_kind_debug SupNone = lit ''None''"
| "supervisor_kind_debug SupLegacy = lit ''Legacy''"

section \<open>The audit of supervision\<close>

definition barrier_missing :: "ustring \<Rightarrow> ustring \<Rightarrow> invariant_violation" where
  "barrier_missing ident detail = violation SevError TerminalGroupBarrierEventMissing ''thread_group'' ident detail"

definition group_owner_exists ::
  "objective_authority list \<Rightarrow> thread_authority list \<Rightarrow> activation_record list \<Rightarrow> group_authority \<Rightarrow> bool" where
  "group_owner_exists objectives threads activations g \<longleftrightarrow>
     (case ga_supervisor_kind g of
        SupThread \<Rightarrow> list_ex (\<lambda>t. ta_lifecycle t = ThreadOpen \<and> ta_id t = ga_supervisor_id g \<and> ta_generation t = ga_generation g) threads
      | SupEvaluation \<Rightarrow> list_ex (\<lambda>a. \<not> activation_status_is_terminal (act_status a) \<and> act_id a = ga_supervisor_id g) activations
      | SupObjective \<Rightarrow> list_ex (\<lambda>ob. \<not> objective_status_is_terminal (oa_status ob) \<and> oa_id ob = ga_supervisor_id g) objectives
      | SupRuntime \<Rightarrow> True
      | _ \<Rightarrow> False)"

definition audit_group_supervision ::
  "objective_authority list \<Rightarrow> thread_authority list \<Rightarrow> activation_record list \<Rightarrow> ustring set \<Rightarrow> group_authority
    \<Rightarrow> invariant_violation list" where
  "audit_group_supervision objectives threads activations barriers g =
     (if group_status_is_terminal (ga_status g)
      then
        (case ga_barrier_event_id g of
           Some event \<Rightarrow>
             report (event \<notin> barriers)
               (barrier_missing (ga_id g) (lit ''terminal ThreadGroup references missing barrier Event '' @ [39] @ event @ [39]))
         | None \<Rightarrow> [barrier_missing (ga_id g) (lit ''terminal ThreadGroup is missing a barrier Event reference'')])
      else
        report (\<not> group_owner_exists objectives threads activations g)
          (violation SevQuarantine GroupSupervisorMissing ''thread_group'' (ga_id g)
            (lit ''the '' @ supervisor_kind_debug (ga_supervisor_kind g) @ lit '' supervisor '' @ [39] @ ga_supervisor_id g @ [39] @
             lit '' of an open ThreadGroup does not exist or is terminal'')))"

definition audit_supervision_authority ::
  "objective_authority list \<Rightarrow> thread_authority list \<Rightarrow> activation_record list \<Rightarrow> group_authority list \<Rightarrow> ustring set
    \<Rightarrow> invariant_violation list" where
  "audit_supervision_authority objectives threads activations groups barriers =
     concat (map (audit_group_supervision objectives threads activations barriers) groups)"

definition audit_supervision ::
  "objective_record list \<Rightarrow> thread_record list \<Rightarrow> activation_record list \<Rightarrow> group_record list \<Rightarrow> ustring set
    \<Rightarrow> invariant_violation list" where
  "audit_supervision objectives threads activations groups barriers =
     audit_supervision_authority (map objective_authority_of objectives) (map thread_authority_of threads) activations
       (map group_authority_of groups) barriers"

section \<open>The plan\<close>

datatype reconciler_action = QuarantineThread (action_thread: ustring) (action_reason: ustring)

type_synonym thread_routes = "ustring \<times> ustring \<Rightarrow> ustring list option"

definition violation_candidates :: "thread_routes \<Rightarrow> invariant_violation \<Rightarrow> ustring list" where
  "violation_candidates routes v =
     (if iv_entity_kind v = lit ''thread'' then [iv_entity_id v]
      else (case routes (iv_entity_kind v, iv_entity_id v) of Some names \<Rightarrow> names | None \<Rightarrow> []))"

definition quarantine_reason :: "invariant_violation \<Rightarrow> ustring" where
  "quarantine_reason v = lit ''Scheduler invariant '' @ invariant_code_debug (iv_code v) @ lit '': '' @ iv_detail v"

text \<open>One candidate: the threads quarantined so far and the actions planned so far.\<close>

definition plan_candidate ::
  "(ustring \<Rightarrow> thread_authority option) \<Rightarrow> invariant_violation \<Rightarrow> ustring set \<times> reconciler_action list \<Rightarrow> ustring
    \<Rightarrow> ustring set \<times> reconciler_action list" where
  "plan_candidate threads_by_id v st thread_id =
     (case threads_by_id thread_id of
        None \<Rightarrow> st
      | Some t \<Rightarrow>
          if ta_lifecycle t \<noteq> ThreadOpen \<or> ta_control_state t \<noteq> ControlActive \<or> thread_id \<in> fst st then st
          else (insert thread_id (fst st), snd st @ [QuarantineThread thread_id (quarantine_reason v)]))"

definition plan_violation ::
  "(ustring \<Rightarrow> thread_authority option) \<Rightarrow> thread_routes \<Rightarrow> ustring set \<times> reconciler_action list \<Rightarrow> invariant_violation
    \<Rightarrow> ustring set \<times> reconciler_action list" where
  "plan_violation threads_by_id routes st v =
     (if iv_severity v \<noteq> SevQuarantine then st
      else foldl (plan_candidate threads_by_id v) st (violation_candidates routes v))"

definition plan_authority ::
  "invariant_violation list \<Rightarrow> thread_authority list \<Rightarrow> thread_routes \<Rightarrow> reconciler_action list" where
  "plan_authority violations threads routes =
     snd (foldl (plan_violation (index_by ta_id threads) routes) ({}, []) violations)"

definition plan :: "invariant_violation list \<Rightarrow> thread_record list \<Rightarrow> thread_routes \<Rightarrow> reconciler_action list" where
  "plan violations threads routes = plan_authority violations (map thread_authority_of threads) routes"

section \<open>What the audit of supervision decides\<close>

text \<open>The owner of a group is alive, and the barrier of a closed group is on record.\<close>

definition group_owned :: "objective_record list \<Rightarrow> thread_record list \<Rightarrow> activation_record list \<Rightarrow> group_record \<Rightarrow> bool" where
  "group_owned objectives threads activations g \<longleftrightarrow>
     grp_supervisor_kind g = SupRuntime \<or>
     grp_supervisor_kind g = SupThread \<and>
       (\<exists>t \<in> set threads. thr_lifecycle t = ThreadOpen \<and> thr_id t = grp_supervisor_id g \<and> thr_generation t = grp_generation g) \<or>
     grp_supervisor_kind g = SupEvaluation \<and>
       (\<exists>a \<in> set activations. \<not> activation_status_is_terminal (act_status a) \<and> act_id a = grp_supervisor_id g) \<or>
     grp_supervisor_kind g = SupObjective \<and>
       (\<exists>ob \<in> set objectives. \<not> objective_status_is_terminal (obj_status ob) \<and> obj_id ob = grp_supervisor_id g)"

lemma group_owner_exists_of:
  "group_owner_exists (map objective_authority_of objectives) (map thread_authority_of threads) activations (group_authority_of g) \<longleftrightarrow>
     group_owned objectives threads activations g"
  by (auto simp: group_owner_exists_def group_owned_def group_authority_of_def list_ex_iff split: thread_supervisor_kind.splits)

lemma audit_supervision_empty:
  "audit_supervision objectives threads activations groups barriers = [] \<longleftrightarrow>
     (\<forall>g \<in> set groups.
        if group_status_is_terminal (grp_status g)
        then (\<exists>event. grp_barrier_event_id g = Some event \<and> event \<in> barriers)
        else group_owned objectives threads activations g)"
proof -
  have "audit_group_supervision (map objective_authority_of objectives) (map thread_authority_of threads) activations barriers
      (group_authority_of g) = [] \<longleftrightarrow>
    (if group_status_is_terminal (grp_status g) then (\<exists>event. grp_barrier_event_id g = Some event \<and> event \<in> barriers)
     else group_owned objectives threads activations g)" for g
    using group_owner_exists_of [of objectives threads activations g]
    by (auto simp: audit_group_supervision_def split: option.splits)
  then show ?thesis by (simp add: audit_supervision_def audit_supervision_authority_def)
qed

section \<open>What the plan does\<close>

definition quarantinable :: "(ustring \<Rightarrow> thread_authority option) \<Rightarrow> ustring \<Rightarrow> bool" where
  "quarantinable threads_by_id i \<longleftrightarrow>
     (\<exists>t. threads_by_id i = Some t \<and> ta_lifecycle t = ThreadOpen \<and> ta_control_state t = ControlActive)"

definition implicated :: "thread_routes \<Rightarrow> invariant_violation \<Rightarrow> ustring \<Rightarrow> bool" where
  "implicated routes v i \<longleftrightarrow>
     iv_severity v = SevQuarantine \<and>
     (if iv_entity_kind v = lit ''thread'' then i = iv_entity_id v
      else (\<exists>names. routes (iv_entity_kind v, iv_entity_id v) = Some names \<and> i \<in> set names))"

lemma implicated_candidates:
  "implicated routes v i \<longleftrightarrow> iv_severity v = SevQuarantine \<and> i \<in> set (violation_candidates routes v)"
  by (cases "routes (iv_entity_kind v, iv_entity_id v)") (auto simp: implicated_def violation_candidates_def)

text \<open>Every action of the plan so far is for an implicated thread, and no thread has two.\<close>

definition plan_state ::
  "thread_routes \<Rightarrow> invariant_violation list \<Rightarrow> ustring set \<times> reconciler_action list \<Rightarrow> bool" where
  "plan_state routes vs st \<longleftrightarrow>
     fst st = action_thread ` set (snd st) \<and> distinct (map action_thread (snd st)) \<and>
     (\<forall>a \<in> set (snd st). \<exists>v \<in> set vs. implicated routes v (action_thread a) \<and> action_reason a = quarantine_reason v)"

lemma plan_candidate_step:
  assumes "plan_state routes vs st" "v \<in> set vs" "implicated routes v i"
  shows "plan_state routes vs (plan_candidate ix v st i)"
    "fst (plan_candidate ix v st i) = fst st \<union> (if quarantinable ix i then {i} else {})"
  using assms by (auto simp: plan_candidate_def plan_state_def quarantinable_def split: option.splits)

lemma plan_candidates_fold:
  assumes "plan_state routes vs st" "v \<in> set vs" "\<And>i. i \<in> set names \<Longrightarrow> implicated routes v i"
  shows "plan_state routes vs (foldl (plan_candidate ix v) st names) \<and>
    fst (foldl (plan_candidate ix v) st names) = fst st \<union> {i \<in> set names. quarantinable ix i}"
  using assms
proof (induction names arbitrary: st)
  case (Cons i names)
  have imp: "implicated routes v i" using Cons.prems(3) by simp
  note step = plan_candidate_step [OF Cons.prems(1,2) imp, of ix]
  have "\<And>j. j \<in> set names \<Longrightarrow> implicated routes v j" using Cons.prems(3) by simp
  from Cons.IH [OF step(1) Cons.prems(2) this] show ?case by (auto simp: step(2))
qed simp

lemma plan_violations_fold:
  assumes "plan_state routes vs st" "set ws \<subseteq> set vs"
  shows "plan_state routes vs (foldl (plan_violation ix routes) st ws) \<and>
    fst (foldl (plan_violation ix routes) st ws) =
      fst st \<union> {i. quarantinable ix i \<and> (\<exists>v \<in> set ws. implicated routes v i)}"
  using assms
proof (induction ws arbitrary: st)
  case (Cons v ws)
  have "plan_state routes vs (plan_violation ix routes st v) \<and>
      fst (plan_violation ix routes st v) = fst st \<union> {i. quarantinable ix i \<and> implicated routes v i}"
  proof (cases "iv_severity v = SevQuarantine")
    case True
    have "implicated routes v i" if "i \<in> set (violation_candidates routes v)" for i
      using True that by (simp add: implicated_candidates)
    from plan_candidates_fold [OF Cons.prems(1) _ this] Cons.prems(2) show ?thesis
      using True by (auto simp: plan_violation_def implicated_candidates)
  qed (use Cons.prems(1) in \<open>simp add: plan_violation_def implicated_candidates\<close>)
  then have step: "plan_state routes vs (plan_violation ix routes st v)"
    "fst (plan_violation ix routes st v) = fst st \<union> {i. quarantinable ix i \<and> implicated routes v i}" by simp_all
  from Cons.IH [OF step(1)] Cons.prems(2) show ?case by (auto simp: step(2))
qed simp

lemma plan_authority_exact:
  "action_thread ` set (plan_authority vs threads routes) =
     {i. quarantinable (index_by ta_id threads) i \<and> (\<exists>v \<in> set vs. implicated routes v i)}"
  "distinct (map action_thread (plan_authority vs threads routes))"
  "a \<in> set (plan_authority vs threads routes) \<Longrightarrow>
     \<exists>v \<in> set vs. implicated routes v (action_thread a) \<and> action_reason a = quarantine_reason v"
proof -
  have "plan_state routes vs ({}, [])" by (simp add: plan_state_def)
  note fold = plan_violations_fold [OF this order.refl, of "index_by ta_id threads"]
  from fold show "action_thread ` set (plan_authority vs threads routes) =
     {i. quarantinable (index_by ta_id threads) i \<and> (\<exists>v \<in> set vs. implicated routes v i)}"
    unfolding plan_authority_def plan_state_def by (metis (no_types, lifting) Un_empty_left fst_conv)
  from fold show "distinct (map action_thread (plan_authority vs threads routes))"
    by (simp add: plan_authority_def plan_state_def)
  from fold show "a \<in> set (plan_authority vs threads routes) \<Longrightarrow>
     \<exists>v \<in> set vs. implicated routes v (action_thread a) \<and> action_reason a = quarantine_reason v"
    by (auto simp: plan_authority_def plan_state_def)
qed

lemma quarantinable_rows:
  assumes "distinct (map thr_id threads)"
  shows "quarantinable (index_by ta_id (map thread_authority_of threads)) i \<longleftrightarrow>
    (\<exists>t \<in> set threads. thr_id t = i \<and> thr_lifecycle t = ThreadOpen \<and> thr_control_state t = ControlActive)"
proof (rule index_cases [OF assms, of ta_id thread_authority_of i])
  show "ta_id (thread_authority_of t) = thr_id t" for t by simp
qed (auto simp: quarantinable_def thread_authority_of_def)

end
