(* ===== verification/Scheduler_Commands.thy ===== *)
theory Scheduler_Commands
  imports Scheduler_Records
begin

text \<open>
  The commands of the scheduler kernel (\<open>morphz/src/scheduler/command.rs\<close>), the requests they carry and
  the results the stores give (\<open>morphz/src/memory/mod.rs\<close>, \<open>morphz/src/scheduler/store.rs\<close>), field by field.
\<close>

section \<open>Requests\<close>

record new_objective =
  nob_model_alias :: "ustring option"
  nob_reasoning_effort :: "ustring option"
  nob_id :: ustring
  nob_agent_id :: ustring
  nob_context_id :: ustring
  nob_coordinator_session_id :: ustring
  nob_delivery_session_id :: ustring
  nob_parent_objective_id :: "ustring option"
  nob_source_event_id :: ustring
  nob_initiating_principal_id :: "ustring option"
  nob_stated_objective :: ustring
  nob_token_budget :: "nat option"

record new_scheduled_objective =
  nso_objective :: new_objective
  nso_initial_wait_condition :: objective_wait_condition
  nso_status_reason :: ustring
  nso_created_event :: event

record objective_wait_binding =
  owb_objective_id :: ustring
  owb_expected_revision :: nat
  owb_wait_condition :: objective_wait_condition
  owb_status_reason :: ustring
  owb_bound_event :: event

record new_thread =
  nth_response_annotations :: protocol
  nth_model_alias :: "ustring option"
  nth_reasoning_effort :: "ustring option"
  nth_id :: ustring
  nth_agent_id :: ustring
  nth_context_id :: ustring
  nth_session_id :: ustring
  nth_initiating_principal_id :: "ustring option"
  nth_root_turn_id :: ustring
  nth_kind :: thread_kind
  nth_executor_kind :: ustring
  nth_executor_id :: "ustring option"
  nth_target_id :: "ustring option"
  nth_supervision :: thread_supervision

record new_schedule =
  nsc_reasoning_effort :: "ustring option"
  nsc_id :: ustring
  nsc_thread_id :: ustring
  nsc_source_turn_id :: ustring
  nsc_intent :: ustring
  nsc_model_alias :: "ustring option"
  nsc_not_before :: "utc option"
  nsc_interval_seconds :: "nat option"
  nsc_dependency_thread_ids :: "ustring list"

record new_group =
  ngr_id :: ustring
  ngr_context_id :: ustring
  ngr_session_id :: ustring
  ngr_supervisor_kind :: thread_supervisor_kind
  ngr_supervisor_id :: ustring
  ngr_generation :: nat
  ngr_policy :: group_policy
  ngr_completion_contract :: json

record new_group_member =
  ngm_thread_id :: ustring
  ngm_ordinal :: nat
  ngm_required :: bool

record new_group_plan =
  ngp_group :: new_group
  ngp_members :: "new_group_member list"

record promotion_request =
  prq_thread_id :: ustring
  prq_expected_thread_revision :: nat
  prq_source_group_id :: ustring
  prq_objective_id :: ustring
  prq_expected_objective_revision :: "nat option"
  prq_new_objective :: "new_scheduled_objective option"
  prq_target_group :: new_group_plan
  prq_promoted_event :: event

record promotion_record =
  prr_thread :: thread_record
  prr_objective :: objective_record
  prr_source_group :: group_record
  prr_target_group :: group_record

datatype thread_control_action = ActionPause | ActionResume | ActionCancel

record retry_request =
  rrq_expected_thread_revision :: nat
  rrq_expected_result_event_id :: ustring
  rrq_recovery_target_id :: "ustring option"
  rrq_event :: event

record job_terminal =
  jte_status :: job_status
  jte_result_event_id :: "ustring option"
  jte_result_refs :: "ustring list"
  jte_error :: "ustring option"
  jte_exit_code :: "int option"

record new_dependency =
  ndp_id :: ustring
  ndp_owner_kind :: dependency_owner_kind
  ndp_owner_id :: ustring
  ndp_owner_generation :: nat
  ndp_dependency_kind :: dependency_kind
  ndp_dependency_id :: ustring
  ndp_dependency_generation :: nat
  ndp_required :: bool
  ndp_metadata :: json

section \<open>Results of the store\<close>

datatype promotion_mutation =
    PromotionUpdated promotion_record
  | PromotionConflict thread_record "objective_record option"
  | PromotionRejected thread_record ustring
  | PromotionNotFound

datatype thread_mutation =
    ThreadMutUpdated thread_record
  | ThreadMutConflict thread_record
  | ThreadMutNotFound

datatype objective_mutation =
    ObjectiveMutUpdated objective_record
  | ObjectiveMutConflict objective_record
  | ObjectiveMutNotFound

datatype activation_mutation =
    ActivationMutUpdated activation_record
  | ActivationMutConflict activation_record
  | ActivationMutNotFound

datatype retry_mutation =
    RetryMutAccepted ustring nat
  | RetryMutExisting ustring nat
  | RetryMutConflict thread_record
  | RetryMutRejected thread_record ustring
  | RetryMutNotFound

datatype job_mutation =
    JobMutUpdated job_record
  | JobMutExisting job_record
  | JobMutConflict job_record
  | JobMutRejected job_record ustring
  | JobMutNotFound

datatype delivery_commit =
    FlushCommitted
  | FlushExisting ustring
  | FlushStale
  | FlushEmpty

datatype outcome_commit =
    OutcomeDeferredByDirectedInput
  | OutcomeCommitted "ustring list" "ustring list"
  | OutcomeSuspended ustring
  | OutcomeExisting ustring
  | OutcomeDeferredByOpenThreadGroups "ustring list"
  | OutcomeStaleGeneration
  | OutcomeStaleActivation

datatype dependency_mutation =
    DependencyMutUpdated dependency_record
  | DependencyMutExisting dependency_record
  | DependencyMutConflict dependency_record ustring
  | DependencyMutNotFound

record resource_wake_commit =
  rwc_dependency :: dependency_record
  rwc_wake_event :: event
  rwc_existing :: bool

section \<open>Commands\<close>

record command_header =
  hd_command_id :: ustring
  hd_causation_id :: ustring
  hd_correlation_id :: ustring
  hd_actor :: ustring
  hd_expected_revision :: "nat option"
  hd_generation :: "nat option"
  hd_issued_at :: utc

record spawn_group_command =
  spw_objectives :: "new_scheduled_objective list"
  spw_objective_waits :: "objective_wait_binding list"
  spw_threads :: "new_thread list"
  spw_schedules :: "new_schedule list"
  spw_groups :: "new_group_plan list"

record promote_thread_command =
  prm_request :: promotion_request

record control_thread_command =
  ctc_thread_id :: ustring
  ctc_action :: thread_control_action
  ctc_reason :: "ustring option"

record supersede_thread_command =
  stc_thread_id :: ustring
  stc_event :: event

record control_objective_command =
  coc_objective_id :: ustring
  coc_status :: objective_status
  coc_wait_condition :: "objective_wait_condition option"
  coc_reason :: "ustring option"

record claim_evaluation_command =
  cec_objective_id :: ustring
  cec_evaluation_id :: ustring
  cec_lease_expires_at :: utc
  cec_pending_dependency_id :: "ustring option"
  cec_continuation :: "(event \<times> new_thread) option"

record renew_evaluation_command =
  rec_objective_id :: ustring
  rec_evaluation_id :: ustring
  rec_lease_expires_at :: utc
  rec_pending_dependency_id :: "ustring option"

record prepare_completion_command =
  pcc_objective_id :: ustring
  pcc_evaluation_id :: ustring
  pcc_activation_id :: ustring
  pcc_reason :: ustring
  pcc_evidence_refs :: "ustring list"

record finish_evaluation_command =
  fec_objective_id :: ustring
  fec_evaluation_id :: ustring
  fec_tokens_used :: nat
  fec_time_used_seconds :: nat

record commit_outcome_command =
  cto_activation_id :: ustring
  cto_event :: event

record commit_job_command =
  cjc_job_id :: ustring
  cjc_claim_token :: "ustring option"
  cjc_outcome :: job_terminal
  cjc_event :: "event option"
  cjc_wake_thread :: bool

record commit_delivery_command =
  cdc_timer_id :: ustring
  cdc_event :: event
  cdc_delivery_thread :: "new_thread option"

record transition_activation_command =
  tac_activation_id :: ustring
  tac_status :: activation_status
  tac_claimed_by :: "ustring option"
  tac_lease_expires_at :: "utc option"
  tac_context_snapshot_version :: "nat option"

record restart_turn_command =
  rtc_request :: retry_request

record register_dependency_command =
  rdc_dependency :: new_dependency

record satisfy_dependency_command =
  sdc_dependency_id :: ustring
  sdc_owner_generation :: nat
  sdc_dependency_generation :: nat
  sdc_satisfied_by_event_id :: ustring

record satisfy_resource_command =
  src_dependency_id :: ustring
  src_owner_generation :: nat
  src_dependency_generation :: nat
  src_satisfied_by_event_id :: ustring
  src_wake_event :: event

datatype command_payload =
    SpawnSupervisedGroup spawn_group_command
  | PromoteThread promote_thread_command
  | ControlThread control_thread_command
  | SupersedeThread supersede_thread_command
  | ControlObjective control_objective_command
  | ClaimObjectiveEvaluation claim_evaluation_command
  | RenewObjectiveEvaluation renew_evaluation_command
  | PrepareObjectiveCompletion prepare_completion_command
  | FinishObjectiveEvaluation finish_evaluation_command
  | TransitionActivation transition_activation_command
  | RestartDialogueTurn restart_turn_command
  | CommitExecutionJobOutcome commit_job_command
  | CommitDeliveryOutcome commit_delivery_command
  | CommitThreadOutcome commit_outcome_command
  | RegisterDependency register_dependency_command
  | SatisfyDependency satisfy_dependency_command
  | SatisfyThreadResourceDependency satisfy_resource_command
  | CancelDependencies dependency_owner_kind ustring nat

record kernel_command =
  kc_header :: command_header
  kc_payload :: command_payload

datatype kernel_result =
    SupervisedGroupSpawned "schedule_record list"
  | ThreadPromoted promotion_mutation
  | ThreadControlled thread_mutation
  | ObjectiveControlled objective_mutation
  | ObjectiveEvaluationMutated objective_mutation
  | ActivationTransitioned activation_mutation
  | DialogueTurnRestarted retry_mutation
  | ExecutionJobOutcomeCommitted job_mutation
  | DeliveryOutcomeCommitted delivery_commit
  | ThreadOutcomeCommitted outcome_commit
  | DependencyRegistered dependency_mutation
  | DependencySatisfied dependency_mutation
  | ThreadResourceDependencySatisfied resource_wake_commit
  | DependenciesCancelled nat

end
