(* ===== verification/Scheduler_Kernel.thy ===== *)
theory Scheduler_Kernel
  imports Scheduler_Commands Scheduler_Domain
begin

text \<open>
  The scheduler kernel (\<open>morphz/src/scheduler/kernel.rs\<close>): validation and fencing of commands and
  the retry loop around the store. The store is a parameter, the record \<open>runtime_store\<close> of the
  operations the kernel calls (the traits of \<open>morphz/src/memory/mod.rs\<close>, whose implementations are
  SQL): reads look at the state, the other operations return a result or an error text together with
  the state after them.
\<close>

section \<open>The store\<close>

record 's runtime_store =
  st_get_thread :: "ustring \<Rightarrow> 's \<Rightarrow> ustring + thread_record option"
  st_get_objective :: "ustring \<Rightarrow> 's \<Rightarrow> ustring + objective_record option"
  st_get_activation :: "ustring \<Rightarrow> 's \<Rightarrow> ustring + activation_record option"
  st_commit_schedule_transaction :: "new_scheduled_objective list \<Rightarrow> objective_wait_binding list \<Rightarrow> new_thread list \<Rightarrow>
    new_schedule list \<Rightarrow> new_group_plan list \<Rightarrow> 's \<Rightarrow> (ustring + schedule_record list) \<times> 's"
  st_promote_attached_thread :: "promotion_request \<Rightarrow> 's \<Rightarrow> (ustring + promotion_mutation) \<times> 's"
  st_control_thread :: "ustring \<Rightarrow> nat \<Rightarrow> thread_control_action \<Rightarrow> ustring option \<Rightarrow> ustring option \<Rightarrow> 's \<Rightarrow>
    (ustring + thread_mutation) \<times> 's"
  st_supersede_thread :: "ustring \<Rightarrow> nat \<Rightarrow> event \<Rightarrow> 's \<Rightarrow> (ustring + thread_mutation) \<times> 's"
  st_update_objective_state :: "ustring \<Rightarrow> nat \<Rightarrow> objective_status \<Rightarrow> objective_wait_condition option \<Rightarrow> ustring option \<Rightarrow>
    ustring option \<Rightarrow> 's \<Rightarrow> (ustring + objective_mutation) \<times> 's"
  st_claim_interrupt :: "ustring \<Rightarrow> nat \<Rightarrow> ustring \<Rightarrow> utc \<Rightarrow> ustring \<Rightarrow> 's \<Rightarrow> (ustring + objective_mutation) \<times> 's"
  st_claim_with_signal :: "ustring \<Rightarrow> nat \<Rightarrow> ustring \<Rightarrow> utc \<Rightarrow> event \<Rightarrow> new_thread \<Rightarrow> 's \<Rightarrow> (ustring + objective_mutation) \<times> 's"
  st_claim :: "ustring \<Rightarrow> nat \<Rightarrow> ustring \<Rightarrow> utc \<Rightarrow> 's \<Rightarrow> (ustring + objective_mutation) \<times> 's"
  st_renew_interrupt :: "ustring \<Rightarrow> ustring \<Rightarrow> utc \<Rightarrow> ustring \<Rightarrow> 's \<Rightarrow> (ustring + objective_mutation) \<times> 's"
  st_renew :: "ustring \<Rightarrow> ustring \<Rightarrow> utc \<Rightarrow> 's \<Rightarrow> (ustring + objective_mutation) \<times> 's"
  st_prepare_completion :: "ustring \<Rightarrow> nat \<Rightarrow> ustring \<Rightarrow> ustring \<Rightarrow> ustring \<Rightarrow> ustring list \<Rightarrow> 's \<Rightarrow>
    (ustring + objective_mutation) \<times> 's"
  st_finish_evaluation :: "ustring \<Rightarrow> ustring \<Rightarrow> nat \<Rightarrow> nat \<Rightarrow> 's \<Rightarrow> (ustring + objective_mutation) \<times> 's"
  st_update_activation :: "ustring \<Rightarrow> nat \<Rightarrow> activation_status \<Rightarrow> ustring option \<Rightarrow> utc option \<Rightarrow> nat option \<Rightarrow> 's \<Rightarrow>
    (ustring + activation_mutation) \<times> 's"
  st_restart_dialogue_turn :: "retry_request \<Rightarrow> 's \<Rightarrow> (ustring + retry_mutation) \<times> 's"
  st_finish_job_with_event :: "ustring \<Rightarrow> nat \<Rightarrow> ustring option \<Rightarrow> job_terminal \<Rightarrow> event \<Rightarrow> bool \<Rightarrow> 's \<Rightarrow>
    (ustring + job_mutation) \<times> 's"
  st_finish_job :: "ustring \<Rightarrow> nat \<Rightarrow> ustring option \<Rightarrow> job_terminal \<Rightarrow> 's \<Rightarrow> (ustring + job_mutation) \<times> 's"
  st_commit_delivery_flush :: "ustring \<Rightarrow> nat \<Rightarrow> event \<Rightarrow> new_thread \<Rightarrow> 's \<Rightarrow> (ustring + delivery_commit) \<times> 's"
  st_commit_delivery_flush_reply :: "ustring \<Rightarrow> nat \<Rightarrow> event \<Rightarrow> 's \<Rightarrow> (ustring + delivery_commit) \<times> 's"
  st_commit_activation_outcome :: "ustring \<Rightarrow> event \<Rightarrow> 's \<Rightarrow> (ustring + outcome_commit) \<times> 's"
  st_register_dependency :: "new_dependency \<Rightarrow> 's \<Rightarrow> (ustring + dependency_mutation) \<times> 's"
  st_satisfy_dependency :: "ustring \<Rightarrow> nat \<Rightarrow> nat \<Rightarrow> ustring \<Rightarrow> 's \<Rightarrow> (ustring + dependency_mutation) \<times> 's"
  st_satisfy_resource_dependency :: "ustring \<Rightarrow> nat \<Rightarrow> nat \<Rightarrow> ustring \<Rightarrow> event \<Rightarrow> 's \<Rightarrow> (ustring + resource_wake_commit) \<times> 's"
  st_cancel_dependencies :: "dependency_owner_kind \<Rightarrow> ustring \<Rightarrow> nat \<Rightarrow> 's \<Rightarrow> (ustring + nat) \<times> 's"

section \<open>Errors and validation\<close>

datatype kernel_error = InvalidCommand ustring | StaleFence ustring | StoreError ustring

fun contains_text :: "ustring \<Rightarrow> ustring \<Rightarrow> bool" where
  "contains_text [] p \<longleftrightarrow> p = []"
| "contains_text (c # s) p \<longleftrightarrow> starts_with (c # s) p \<or> contains_text s p"

definition contention_marks :: "ustring list" where
  "contention_marks = [lit ''database is locked'', lit ''database table is locked'', lit ''sqlite_busy'', lit ''sqlite_locked'',
     lit ''(code: 5)'', lit ''(code: 6)'', lit ''sqlstate 40001'', lit ''sqlstate 40p01'', lit ''could not serialize access'',
     lit ''serialization failure'', lit ''deadlock detected'']"

fun is_transient_storage_contention :: "kernel_error \<Rightarrow> bool" where
  "is_transient_storage_contention (StoreError message) \<longleftrightarrow>
     list_ex (contains_text (to_ascii_lowercase message)) contention_marks"
| "is_transient_storage_contention _ \<longleftrightarrow> False"

definition validate_header :: "command_header \<Rightarrow> kernel_error + unit" where
  "validate_header h =
     map_ok (\<lambda>_. ()) (try_map (\<lambda>(name, v). require (trim v \<noteq> []) (InvalidCommand (lit name @ lit '' must not be empty'')))
       [(''command_id'', hd_command_id h), (''causation_id'', hd_causation_id h), (''correlation_id'', hd_correlation_id h),
        (''actor'', hd_actor h)])"

definition required_revision :: "command_header \<Rightarrow> kernel_error + nat" where
  "required_revision h =
     ok_or (hd_expected_revision h) (InvalidCommand (lit ''expected_revision is required for control commands''))"

text \<open>The fence on the generation of the row a command addresses; a row that is missing is left to the store.\<close>

definition stale_text :: "string \<Rightarrow> ustring \<Rightarrow> nat \<Rightarrow> nat \<Rightarrow> ustring" where
  "stale_text kind ident current expected =
     lit kind @ lit '' '' @ [39] @ ident @ [39] @ lit '' generation '' @ decimal current @ lit '' != '' @ decimal expected"

definition check_generation ::
  "string \<Rightarrow> ('r \<Rightarrow> nat) \<Rightarrow> (ustring \<Rightarrow> 's \<Rightarrow> ustring + 'r option) \<Rightarrow> ustring \<Rightarrow> nat option \<Rightarrow> 's \<Rightarrow> kernel_error + unit" where
  "check_generation kind generation_of read ident expected s =
     (case expected of
        None \<Rightarrow> Inr ()
      | Some g \<Rightarrow>
          and_then (map_err StoreError (read ident s)) (\<lambda>row.
            case row of
              None \<Rightarrow> Inr ()
            | Some r \<Rightarrow> require (generation_of r = g) (StaleFence (stale_text kind ident (generation_of r) g))))"

definition validate_objective_generation :: "'s runtime_store \<Rightarrow> ustring \<Rightarrow> nat option \<Rightarrow> 's \<Rightarrow> kernel_error + unit" where
  "validate_objective_generation st = check_generation ''Objective'' obj_generation (st_get_objective st)"

definition validate_thread_generation :: "'s runtime_store \<Rightarrow> ustring \<Rightarrow> nat option \<Rightarrow> 's \<Rightarrow> kernel_error + unit" where
  "validate_thread_generation st = check_generation ''Thread'' thr_generation (st_get_thread st)"

definition validate_activation_generation :: "'s runtime_store \<Rightarrow> ustring \<Rightarrow> nat option \<Rightarrow> 's \<Rightarrow> kernel_error + unit" where
  "validate_activation_generation st = check_generation ''Activation'' act_generation (st_get_activation st)"

section \<open>One attempt\<close>

text \<open>A check that fails ends the attempt in the state it found; a store call that fails ends it in the state it left.\<close>

definition checked :: "kernel_error + 'a \<Rightarrow> ('a \<Rightarrow> 's \<Rightarrow> (kernel_error + 'b) \<times> 's) \<Rightarrow> 's \<Rightarrow> (kernel_error + 'b) \<times> 's" where
  "checked r k s = (case r of Inl e \<Rightarrow> (Inl e, s) | Inr x \<Rightarrow> k x s)"

definition stored :: "('a \<Rightarrow> kernel_result) \<Rightarrow> ('s \<Rightarrow> (ustring + 'a) \<times> 's) \<Rightarrow> 's \<Rightarrow> (kernel_error + kernel_result) \<times> 's" where
  "stored wrap f s = (case f s of (r, s') \<Rightarrow> (map_ok wrap (map_err StoreError r), s'))"

definition execute_claim ::
  "'s runtime_store \<Rightarrow> command_header \<Rightarrow> claim_evaluation_command \<Rightarrow> 's \<Rightarrow> (kernel_error + kernel_result) \<times> 's" where
  "execute_claim st h p s =
     checked (required_revision h) (\<lambda>revision s.
       checked (validate_objective_generation st (cec_objective_id p) (hd_generation h) s) (\<lambda>_ s.
         case cec_pending_dependency_id p of
           Some dependency \<Rightarrow>
             if cec_continuation p \<noteq> None
             then (Inl (InvalidCommand (lit ''Objective interrupt claim cannot create a Supervisor continuation at the same time'')), s)
             else stored ObjectiveEvaluationMutated
               (st_claim_interrupt st (cec_objective_id p) revision (cec_evaluation_id p) (cec_lease_expires_at p) dependency) s
         | None \<Rightarrow>
             (case cec_continuation p of
                Some (event, thread) \<Rightarrow> stored ObjectiveEvaluationMutated
                  (st_claim_with_signal st (cec_objective_id p) revision (cec_evaluation_id p) (cec_lease_expires_at p) event thread) s
              | None \<Rightarrow> stored ObjectiveEvaluationMutated
                  (st_claim st (cec_objective_id p) revision (cec_evaluation_id p) (cec_lease_expires_at p)) s)) s) s"

definition execute_spawn ::
  "'s runtime_store \<Rightarrow> spawn_group_command \<Rightarrow> 's \<Rightarrow> (kernel_error + kernel_result) \<times> 's" where
  "execute_spawn st p s =
     (if spw_threads p = [] \<and> spw_schedules p = []
     then (Inl (InvalidCommand (lit ''SpawnSupervisedGroup requires at least one Thread or Schedule'')), s)
     else stored SupervisedGroupSpawned
       (st_commit_schedule_transaction st (spw_objectives p) (spw_objective_waits p) (spw_threads p) (spw_schedules p) (spw_groups p)) s)"

definition execute_promote ::
  "'s runtime_store \<Rightarrow> promote_thread_command \<Rightarrow> 's \<Rightarrow> (kernel_error + kernel_result) \<times> 's" where
  "execute_promote st p s =
     stored ThreadPromoted (st_promote_attached_thread st (prm_request p)) s"

definition execute_control_thread ::
  "'s runtime_store \<Rightarrow> command_header \<Rightarrow> control_thread_command \<Rightarrow> 's \<Rightarrow> (kernel_error + kernel_result) \<times> 's" where
  "execute_control_thread st h p s =
     checked (required_revision h) (\<lambda>revision s.
       checked (validate_thread_generation st (ctc_thread_id p) (hd_generation h) s) (\<lambda>_ s.
         stored ThreadControlled
           (st_control_thread st (ctc_thread_id p) revision (ctc_action p) (ctc_reason p) (Some (hd_actor h))) s) s) s"

definition execute_supersede ::
  "'s runtime_store \<Rightarrow> command_header \<Rightarrow> supersede_thread_command \<Rightarrow> 's \<Rightarrow> (kernel_error + kernel_result) \<times> 's" where
  "execute_supersede st h p s =
     checked (required_revision h) (\<lambda>revision s.
       checked (validate_thread_generation st (stc_thread_id p) (hd_generation h) s) (\<lambda>_ s.
         stored ThreadControlled (st_supersede_thread st (stc_thread_id p) revision (stc_event p)) s) s) s"

definition execute_control_objective ::
  "'s runtime_store \<Rightarrow> command_header \<Rightarrow> control_objective_command \<Rightarrow> 's \<Rightarrow> (kernel_error + kernel_result) \<times> 's" where
  "execute_control_objective st h p s =
     checked (required_revision h) (\<lambda>revision s.
       checked (validate_objective_generation st (coc_objective_id p) (hd_generation h) s) (\<lambda>_ s.
         stored ObjectiveControlled
           (st_update_objective_state st (coc_objective_id p) revision (coc_status p) (coc_wait_condition p) (coc_reason p)
             (Some (hd_causation_id h))) s) s) s"

definition execute_renew ::
  "'s runtime_store \<Rightarrow> command_header \<Rightarrow> renew_evaluation_command \<Rightarrow> 's \<Rightarrow> (kernel_error + kernel_result) \<times> 's" where
  "execute_renew st h p s =
     checked (validate_objective_generation st (rec_objective_id p) (hd_generation h) s) (\<lambda>_ s.
       case rec_pending_dependency_id p of
         Some dependency \<Rightarrow> stored ObjectiveEvaluationMutated
           (st_renew_interrupt st (rec_objective_id p) (rec_evaluation_id p) (rec_lease_expires_at p) dependency) s
       | None \<Rightarrow> stored ObjectiveEvaluationMutated
           (st_renew st (rec_objective_id p) (rec_evaluation_id p) (rec_lease_expires_at p)) s) s"

definition execute_prepare_completion ::
  "'s runtime_store \<Rightarrow> command_header \<Rightarrow> prepare_completion_command \<Rightarrow> 's \<Rightarrow> (kernel_error + kernel_result) \<times> 's" where
  "execute_prepare_completion st h p s =
     checked (required_revision h) (\<lambda>revision s.
       checked (validate_objective_generation st (pcc_objective_id p) (hd_generation h) s) (\<lambda>_ s.
         stored ObjectiveEvaluationMutated
           (st_prepare_completion st (pcc_objective_id p) revision (pcc_evaluation_id p) (pcc_activation_id p) (pcc_reason p)
             (pcc_evidence_refs p)) s) s) s"

definition execute_finish_evaluation ::
  "'s runtime_store \<Rightarrow> command_header \<Rightarrow> finish_evaluation_command \<Rightarrow> 's \<Rightarrow> (kernel_error + kernel_result) \<times> 's" where
  "execute_finish_evaluation st h p s =
     checked (validate_objective_generation st (fec_objective_id p) (hd_generation h) s) (\<lambda>_ s.
       stored ObjectiveEvaluationMutated
         (st_finish_evaluation st (fec_objective_id p) (fec_evaluation_id p) (fec_tokens_used p) (fec_time_used_seconds p)) s) s"

definition execute_transition ::
  "'s runtime_store \<Rightarrow> command_header \<Rightarrow> transition_activation_command \<Rightarrow> 's \<Rightarrow> (kernel_error + kernel_result) \<times> 's" where
  "execute_transition st h p s =
     checked (required_revision h) (\<lambda>revision s.
       checked (validate_activation_generation st (tac_activation_id p) (hd_generation h) s) (\<lambda>_ s.
         stored ActivationTransitioned
           (st_update_activation st (tac_activation_id p) revision (tac_status p) (tac_claimed_by p) (tac_lease_expires_at p)
             (tac_context_snapshot_version p)) s) s) s"

definition execute_restart ::
  "'s runtime_store \<Rightarrow> command_header \<Rightarrow> restart_turn_command \<Rightarrow> 's \<Rightarrow> (kernel_error + kernel_result) \<times> 's" where
  "execute_restart st h p s =
     checked (required_revision h) (\<lambda>revision s.
       if rrq_expected_thread_revision (rtc_request p) \<noteq> revision
       then (Inl (InvalidCommand (lit ''DialogueTurn retry revision disagrees with command fence'')), s)
       else stored DialogueTurnRestarted (st_restart_dialogue_turn st (rtc_request p)) s) s"

definition execute_job_outcome ::
  "'s runtime_store \<Rightarrow> command_header \<Rightarrow> commit_job_command \<Rightarrow> 's \<Rightarrow> (kernel_error + kernel_result) \<times> 's" where
  "execute_job_outcome st h p s =
     checked (required_revision h) (\<lambda>revision s.
       case cjc_event p of
         Some event \<Rightarrow> stored ExecutionJobOutcomeCommitted
           (st_finish_job_with_event st (cjc_job_id p) revision (cjc_claim_token p) (cjc_outcome p) event (cjc_wake_thread p)) s
       | None \<Rightarrow> stored ExecutionJobOutcomeCommitted
           (st_finish_job st (cjc_job_id p) revision (cjc_claim_token p) (cjc_outcome p)) s) s"

definition execute_delivery_outcome ::
  "'s runtime_store \<Rightarrow> command_header \<Rightarrow> commit_delivery_command \<Rightarrow> 's \<Rightarrow> (kernel_error + kernel_result) \<times> 's" where
  "execute_delivery_outcome st h p s =
     checked (ok_or (hd_generation h) (InvalidCommand (lit ''generation is required for Delivery outcome commands''))) (\<lambda>g s.
       case cdc_delivery_thread p of
         Some thread \<Rightarrow> stored DeliveryOutcomeCommitted (st_commit_delivery_flush st (cdc_timer_id p) g (cdc_event p) thread) s
       | None \<Rightarrow> stored DeliveryOutcomeCommitted (st_commit_delivery_flush_reply st (cdc_timer_id p) g (cdc_event p)) s) s"

definition execute_thread_outcome ::
  "'s runtime_store \<Rightarrow> commit_outcome_command \<Rightarrow> 's \<Rightarrow> (kernel_error + kernel_result) \<times> 's" where
  "execute_thread_outcome st p s =
     stored ThreadOutcomeCommitted (st_commit_activation_outcome st (cto_activation_id p) (cto_event p)) s"

definition execute_register ::
  "'s runtime_store \<Rightarrow> register_dependency_command \<Rightarrow> 's \<Rightarrow> (kernel_error + kernel_result) \<times> 's" where
  "execute_register st p s =
     stored DependencyRegistered (st_register_dependency st (rdc_dependency p)) s"

definition execute_satisfy ::
  "'s runtime_store \<Rightarrow> satisfy_dependency_command \<Rightarrow> 's \<Rightarrow> (kernel_error + kernel_result) \<times> 's" where
  "execute_satisfy st p s =
     stored DependencySatisfied
       (st_satisfy_dependency st (sdc_dependency_id p) (sdc_owner_generation p) (sdc_dependency_generation p)
         (sdc_satisfied_by_event_id p)) s"

definition execute_satisfy_resource ::
  "'s runtime_store \<Rightarrow> command_header \<Rightarrow> satisfy_resource_command \<Rightarrow> 's \<Rightarrow> (kernel_error + kernel_result) \<times> 's" where
  "execute_satisfy_resource st h p s =
     (if hd_generation h \<noteq> Some (src_owner_generation p)
     then (Inl (InvalidCommand (lit ''Thread Resource dependency generation disagrees with command fence'')), s)
     else stored ThreadResourceDependencySatisfied
       (st_satisfy_resource_dependency st (src_dependency_id p) (src_owner_generation p) (src_dependency_generation p)
         (src_satisfied_by_event_id p) (src_wake_event p)) s)"

definition execute_payload ::
  "'s runtime_store \<Rightarrow> command_header \<Rightarrow> command_payload \<Rightarrow> 's \<Rightarrow> (kernel_error + kernel_result) \<times> 's" where
  "execute_payload st h payload s =
     (case payload of
        SpawnSupervisedGroup p \<Rightarrow> execute_spawn st p s
      | PromoteThread p \<Rightarrow> execute_promote st p s
      | ControlThread p \<Rightarrow> execute_control_thread st h p s
      | SupersedeThread p \<Rightarrow> execute_supersede st h p s
      | ControlObjective p \<Rightarrow> execute_control_objective st h p s
      | ClaimObjectiveEvaluation p \<Rightarrow> execute_claim st h p s
      | RenewObjectiveEvaluation p \<Rightarrow> execute_renew st h p s
      | PrepareObjectiveCompletion p \<Rightarrow> execute_prepare_completion st h p s
      | FinishObjectiveEvaluation p \<Rightarrow> execute_finish_evaluation st h p s
      | TransitionActivation p \<Rightarrow> execute_transition st h p s
      | RestartDialogueTurn p \<Rightarrow> execute_restart st h p s
      | CommitExecutionJobOutcome p \<Rightarrow> execute_job_outcome st h p s
      | CommitDeliveryOutcome p \<Rightarrow> execute_delivery_outcome st h p s
      | CommitThreadOutcome p \<Rightarrow> execute_thread_outcome st p s
      | RegisterDependency p \<Rightarrow> execute_register st p s
      | SatisfyDependency p \<Rightarrow> execute_satisfy st p s
      | SatisfyThreadResourceDependency p \<Rightarrow> execute_satisfy_resource st h p s
      | CancelDependencies kind ident generation \<Rightarrow> stored DependenciesCancelled (st_cancel_dependencies st kind ident generation) s)"

lemmas execute_arms = execute_claim_def execute_spawn_def execute_promote_def execute_control_thread_def
  execute_supersede_def execute_control_objective_def execute_renew_def execute_prepare_completion_def
  execute_finish_evaluation_def execute_transition_def execute_restart_def execute_job_outcome_def
  execute_delivery_outcome_def execute_thread_outcome_def execute_register_def execute_satisfy_def
  execute_satisfy_resource_def

definition execute_once ::
  "'s runtime_store \<Rightarrow> kernel_command \<Rightarrow> 's \<Rightarrow> (kernel_error + kernel_result) \<times> 's" where
  "execute_once st cmd s =
     checked (validate_header (kc_header cmd)) (\<lambda>_ s. execute_payload st (kc_header cmd) (kc_payload cmd) s) s"

section \<open>The retry loop\<close>

definition max_contention_retries :: nat where
  "max_contention_retries = 4"

fun result_committed :: "kernel_error + kernel_result \<Rightarrow> bool" where
  "result_committed (Inr (ThreadControlled (ThreadMutUpdated _))) \<longleftrightarrow> True"
| "result_committed (Inr (ThreadPromoted (PromotionUpdated _))) \<longleftrightarrow> True"
| "result_committed (Inr (ObjectiveControlled (ObjectiveMutUpdated _))) \<longleftrightarrow> True"
| "result_committed (Inr (ObjectiveEvaluationMutated (ObjectiveMutUpdated _))) \<longleftrightarrow> True"
| "result_committed (Inr (ActivationTransitioned (ActivationMutUpdated _))) \<longleftrightarrow> True"
| "result_committed (Inr (ExecutionJobOutcomeCommitted (JobMutUpdated _))) \<longleftrightarrow> True"
| "result_committed (Inr (DialogueTurnRestarted (RetryMutAccepted _ _))) \<longleftrightarrow> True"
| "result_committed (Inr (DeliveryOutcomeCommitted FlushCommitted)) \<longleftrightarrow> True"
| "result_committed (Inr (ThreadOutcomeCommitted (OutcomeCommitted _ _))) \<longleftrightarrow> True"
| "result_committed _ \<longleftrightarrow> False"

definition is_lease_renewal :: "command_payload \<Rightarrow> bool" where
  "is_lease_renewal p \<longleftrightarrow> (case p of RenewObjectiveEvaluation _ \<Rightarrow> True | _ \<Rightarrow> False)"

text \<open>
  Other writers use the store while the kernel sleeps: \<open>during n\<close> is what they make of the state
  during the sleep after the \<open>n\<close>-th retry is granted. The result lists the delays slept, in
  milliseconds, and says whether the hint of a committed event is given.
\<close>

record execution =
  ex_result :: "kernel_error + kernel_result"
  ex_delays :: "nat list"
  ex_hint :: bool

function execute_loop ::
  "'s runtime_store \<Rightarrow> (nat \<Rightarrow> 's \<Rightarrow> 's) \<Rightarrow> kernel_command \<Rightarrow> nat \<Rightarrow> nat \<Rightarrow> 's \<Rightarrow> execution \<times> 's" where
  "execute_loop st during cmd retries delay s =
     (case execute_once st cmd s of
        (r, s') \<Rightarrow>
          if (case r of Inl e \<Rightarrow> is_transient_storage_contention e | Inr _ \<Rightarrow> False) \<and> retries < max_contention_retries
          then (case execute_loop st during cmd (retries + 1) (min (delay * 2) 400) (during retries s') of
                  (x, s'') \<Rightarrow> (x\<lparr>ex_delays := delay # ex_delays x\<rparr>, s''))
          else (\<lparr>ex_result = r, ex_delays = [], ex_hint = result_committed r \<and> \<not> is_lease_renewal (kc_payload cmd)\<rparr>, s'))"
  by pat_completeness auto
termination by (relation "measure (\<lambda>(_, _, _, retries, _, _). max_contention_retries - retries)") auto

declare execute_loop.simps [simp del]

definition execute :: "'s runtime_store \<Rightarrow> (nat \<Rightarrow> 's \<Rightarrow> 's) \<Rightarrow> kernel_command \<Rightarrow> 's \<Rightarrow> execution \<times> 's" where
  "execute st during cmd s =
     (case validate_header (kc_header cmd) of
        Inl e \<Rightarrow> (\<lparr>ex_result = Inl e, ex_delays = [], ex_hint = False\<rparr>, s)
      | Inr _ \<Rightarrow> execute_loop st during cmd 0 25 s)"

end
