(* ===== verification/Scheduler_Kernel_Safety.thy ===== *)
theory Scheduler_Kernel_Safety
  imports Scheduler_Kernel
begin

text \<open>
  Safety of the scheduler kernel: a command the kernel itself refuses leaves the store alone, a
  command fenced on a generation that has moved on is refused before the store is written, and, over
  a store whose failed calls change nothing, the retry loop amounts to one attempt made after some
  sleeps.
\<close>

section \<open>The atomicity the store promises\<close>

text \<open>A call is atomic when a call that fails leaves the state it found.\<close>

definition atomic_call :: "('s \<Rightarrow> (ustring + 'a) \<times> 's) \<Rightarrow> bool" where
  "atomic_call f \<longleftrightarrow> (\<forall>s e. fst (f s) = Inl e \<longrightarrow> snd (f s) = s)"

definition atomic_objective_calls :: "'s runtime_store \<Rightarrow> bool" where
  "atomic_objective_calls st \<longleftrightarrow>
     (\<forall>a b c d e f. atomic_call (st_update_objective_state st a b c d e f)) \<and>
     (\<forall>a b c d e. atomic_call (st_claim_interrupt st a b c d e)) \<and>
     (\<forall>a b c d e f. atomic_call (st_claim_with_signal st a b c d e f)) \<and>
     (\<forall>a b c d. atomic_call (st_claim st a b c d)) \<and>
     (\<forall>a b c d. atomic_call (st_renew_interrupt st a b c d)) \<and>
     (\<forall>a b c. atomic_call (st_renew st a b c)) \<and>
     (\<forall>a b c d e f. atomic_call (st_prepare_completion st a b c d e f)) \<and>
     (\<forall>a b c d. atomic_call (st_finish_evaluation st a b c d))"

definition atomic_thread_calls :: "'s runtime_store \<Rightarrow> bool" where
  "atomic_thread_calls st \<longleftrightarrow>
     (\<forall>a b c d e. atomic_call (st_commit_schedule_transaction st a b c d e)) \<and>
     (\<forall>a. atomic_call (st_promote_attached_thread st a)) \<and>
     (\<forall>a b c d e. atomic_call (st_control_thread st a b c d e)) \<and>
     (\<forall>a b c. atomic_call (st_supersede_thread st a b c)) \<and>
     (\<forall>a b c d e f. atomic_call (st_update_activation st a b c d e f)) \<and>
     (\<forall>a. atomic_call (st_restart_dialogue_turn st a)) \<and>
     (\<forall>a b c d e f. atomic_call (st_finish_job_with_event st a b c d e f)) \<and>
     (\<forall>a b c d. atomic_call (st_finish_job st a b c d))"

definition atomic_outcome_calls :: "'s runtime_store \<Rightarrow> bool" where
  "atomic_outcome_calls st \<longleftrightarrow>
     (\<forall>a b c d. atomic_call (st_commit_delivery_flush st a b c d)) \<and>
     (\<forall>a b c. atomic_call (st_commit_delivery_flush_reply st a b c)) \<and>
     (\<forall>a b. atomic_call (st_commit_activation_outcome st a b)) \<and>
     (\<forall>a. atomic_call (st_register_dependency st a)) \<and>
     (\<forall>a b c d. atomic_call (st_satisfy_dependency st a b c d)) \<and>
     (\<forall>a b c d e. atomic_call (st_satisfy_resource_dependency st a b c d e)) \<and>
     (\<forall>a b c. atomic_call (st_cancel_dependencies st a b c))"

definition atomic_store :: "'s runtime_store \<Rightarrow> bool" where
  "atomic_store st \<longleftrightarrow> atomic_objective_calls st \<and> atomic_thread_calls st \<and> atomic_outcome_calls st"

section \<open>How an attempt can end\<close>

text \<open>The three ways of an attempt: refused by the kernel, failed in the store, or answered.\<close>

fun kernel_refusal :: "kernel_error \<Rightarrow> bool" where
  "kernel_refusal (StoreError _) \<longleftrightarrow> False"
| "kernel_refusal _ \<longleftrightarrow> True"

text \<open>The attempts of a program whose errors in a class leave the state they found.\<close>

definition kept :: "(kernel_error \<Rightarrow> bool) \<Rightarrow> ('s \<Rightarrow> (kernel_error + 'a) \<times> 's) \<Rightarrow> bool" where
  "kept P f \<longleftrightarrow> (\<forall>s e. fst (f s) = Inl e \<longrightarrow> P e \<longrightarrow> snd (f s) = s)"

named_theorems kept_intros "the classes of errors kept by the kernel's combinators"

lemma kept_stored [kept_intros]: "(\<And>m. P (StoreError m) \<Longrightarrow> atomic_call f) \<Longrightarrow> kept P (\<lambda>s. stored w f s)"
  unfolding kept_def stored_def atomic_call_def
  by (auto split: prod.splits sum.splits simp: map_ok_def map_err_def) (metis fst_conv snd_conv)

lemma kept_error [kept_intros]: "kept P (\<lambda>s. (Inl e, s))"
  by (simp add: kept_def)

lemma kept_checked [kept_intros]: "(\<And>x. kept P (k x)) \<Longrightarrow> kept P (\<lambda>s. checked (r s) k s)"
  unfolding kept_def checked_def by (auto split: sum.splits)

lemma kept_if [kept_intros]: "kept P f \<Longrightarrow> kept P g \<Longrightarrow> kept P (\<lambda>s. if c then f s else g s)"
  by (cases c) simp_all

lemma kept_option [kept_intros]:
  "kept P f \<Longrightarrow> (\<And>x. kept P (g x)) \<Longrightarrow> kept P (\<lambda>s. case v of None \<Rightarrow> f s | Some x \<Rightarrow> g x s)"
  by (cases v) simp_all

lemma kept_pair [kept_intros]: "(\<And>x y. kept P (g x y)) \<Longrightarrow> kept P (\<lambda>s. case v of (x, y) \<Rightarrow> g x y s)"
  by (cases v) simp

lemmas atomic_calls = atomic_store_def atomic_objective_calls_def atomic_thread_calls_def atomic_outcome_calls_def

lemma kept_payload:
  assumes "\<And>m. P (StoreError m) \<Longrightarrow> atomic_store st"
  shows "kept P (execute_payload st h payload)"
  unfolding execute_payload_def execute_arms using assms
  by (cases payload) (auto simp: atomic_calls intro!: kept_intros)

lemma kept_once:
  assumes "\<And>m. P (StoreError m) \<Longrightarrow> atomic_store st"
  shows "kept P (execute_once st cmd)"
  unfolding execute_once_def using kept_payload [OF assms] by (auto intro: kept_checked)

section \<open>The generation fence\<close>

text \<open>The generation of the row a command addresses, where the command fences on it and the row is there.\<close>

definition row_generation :: "('r \<Rightarrow> nat) \<Rightarrow> ustring + 'r option \<Rightarrow> nat option" where
  "row_generation generation_of r = (case r of Inr (Some x) \<Rightarrow> Some (generation_of x) | _ \<Rightarrow> None)"

definition addressed_generation :: "'s runtime_store \<Rightarrow> command_payload \<Rightarrow> 's \<Rightarrow> nat option" where
  "addressed_generation st payload s =
     (case payload of
        ControlThread p \<Rightarrow> row_generation thr_generation (st_get_thread st (ctc_thread_id p) s)
      | SupersedeThread p \<Rightarrow> row_generation thr_generation (st_get_thread st (stc_thread_id p) s)
      | ControlObjective p \<Rightarrow> row_generation obj_generation (st_get_objective st (coc_objective_id p) s)
      | ClaimObjectiveEvaluation p \<Rightarrow> row_generation obj_generation (st_get_objective st (cec_objective_id p) s)
      | RenewObjectiveEvaluation p \<Rightarrow> row_generation obj_generation (st_get_objective st (rec_objective_id p) s)
      | PrepareObjectiveCompletion p \<Rightarrow> row_generation obj_generation (st_get_objective st (pcc_objective_id p) s)
      | FinishObjectiveEvaluation p \<Rightarrow> row_generation obj_generation (st_get_objective st (fec_objective_id p) s)
      | TransitionActivation p \<Rightarrow> row_generation act_generation (st_get_activation st (tac_activation_id p) s)
      | _ \<Rightarrow> None)"

lemma check_generation_stale:
  assumes "row_generation gen (read ident s) = Some current" "current \<noteq> g"
  shows "check_generation kind gen read ident (Some g) s = Inl (StaleFence (stale_text kind ident current g))"
  using assms
  by (auto simp: check_generation_def row_generation_def and_then_def map_err_def require_def split: sum.splits option.splits)

lemma checked_refused:
  assumes "\<And>x. r = Inr x \<Longrightarrow> \<exists>e. k x s = (Inl e, s) \<and> kernel_refusal e" "\<And>e. r = Inl e \<Longrightarrow> kernel_refusal e"
  shows "\<exists>e. checked r k s = (Inl e, s) \<and> kernel_refusal e"
  using assms by (cases r) (auto simp: checked_def)

lemma required_revision_refusal: "required_revision h = Inl e \<Longrightarrow> kernel_refusal e"
  by (auto simp: required_revision_def ok_or_def split: option.splits)

lemma validate_header_refusal: "validate_header h = Inl e \<Longrightarrow> kernel_refusal e"
  by (auto simp: validate_header_def require_def and_then_def map_ok_def split: if_splits)

lemmas generation_checks = validate_objective_generation_def validate_thread_generation_def validate_activation_generation_def

lemma payload_stale:
  assumes "addressed_generation st payload s = Some current" "hd_generation h = Some g" "current \<noteq> g"
  shows "\<exists>e. execute_payload st h payload s = (Inl e, s) \<and> kernel_refusal e"
  using assms unfolding addressed_generation_def
  by (cases payload)
     (auto simp: execute_payload_def execute_arms generation_checks check_generation_stale
       intro!: checked_refused dest: required_revision_refusal)

lemma once_stale:
  assumes "hd_generation (kc_header cmd) = Some g" "addressed_generation st (kc_payload cmd) s = Some current" "current \<noteq> g"
  shows "\<exists>e. execute_once st cmd s = (Inl e, s) \<and> kernel_refusal e"
  unfolding execute_once_def
  by (intro checked_refused payload_stale [OF assms(2,1,3)] validate_header_refusal)

lemma refusal_not_transient: "kernel_refusal e \<Longrightarrow> \<not> is_transient_storage_contention e"
  by (cases e) simp_all

lemma execute_stale:
  assumes "hd_generation (kc_header cmd) = Some g" "addressed_generation st (kc_payload cmd) s = Some current" "current \<noteq> g"
  shows "\<exists>e. execute st during cmd s = (\<lparr>ex_result = Inl e, ex_delays = [], ex_hint = False\<rparr>, s) \<and> kernel_refusal e"
proof (cases "validate_header (kc_header cmd)")
  case (Inl e)
  then show ?thesis using validate_header_refusal by (simp add: execute_def)
next
  case (Inr u)
  from once_stale [OF assms] obtain e where "execute_once st cmd s = (Inl e, s)" "kernel_refusal e" by blast
  then show ?thesis
    using Inr refusal_not_transient by (auto simp: execute_def execute_loop.simps [of st during cmd 0])
qed

section \<open>The retry loop is one attempt\<close>

text \<open>The state the \<open>n\<close>-th attempt meets when no attempt before it leaves a trace, and the delay before it.\<close>

primrec waited :: "(nat \<Rightarrow> 's \<Rightarrow> 's) \<Rightarrow> nat \<Rightarrow> nat \<Rightarrow> 's \<Rightarrow> 's" where
  "waited during from 0 s = s"
| "waited during from (Suc n) s = waited during (Suc from) n (during from s)"

primrec backoff :: "nat \<Rightarrow> nat \<Rightarrow> nat list" where
  "backoff delay 0 = []"
| "backoff delay (Suc n) = delay # backoff (min (delay * 2) 400) n"

lemma backoff_take: "n \<le> 4 \<Longrightarrow> backoff 25 n = take n [25, 50, 100, 200]"
  by (auto simp: le_Suc_eq numeral_eq_Suc)

definition contended :: "'s runtime_store \<Rightarrow> kernel_command \<Rightarrow> 's \<Rightarrow> bool" where
  "contended st cmd s \<longleftrightarrow> (case fst (execute_once st cmd s) of Inl e \<Rightarrow> is_transient_storage_contention e | Inr _ \<Rightarrow> False)"

lemma once_failed_keeps:
  assumes "atomic_store st" "fst (execute_once st cmd s) = Inl e"
  shows "snd (execute_once st cmd s) = s"
  using kept_once [of "\<lambda>_. True", OF assms(1)] assms(2) by (simp add: kept_def)

lemma contended_keeps: "atomic_store st \<Longrightarrow> contended st cmd s \<Longrightarrow> snd (execute_once st cmd s) = s"
  unfolding contended_def by (auto split: sum.splits intro: once_failed_keeps)

lemma execute_loop_stop:
  assumes "\<not> (contended st cmd s \<and> r < max_contention_retries)"
  shows "execute_loop st during cmd r delay s =
           (\<lparr>ex_result = fst (execute_once st cmd s), ex_delays = [],
             ex_hint = result_committed (fst (execute_once st cmd s)) \<and> \<not> is_lease_renewal (kc_payload cmd)\<rparr>,
            snd (execute_once st cmd s))"
  using assms by (subst execute_loop.simps) (auto simp: contended_def split: prod.splits)

lemma execute_loop_retry:
  assumes "atomic_store st" "contended st cmd s" "r < max_contention_retries"
  shows "execute_loop st during cmd r delay s =
           (case execute_loop st during cmd (Suc r) (min (delay * 2) 400) (during r s) of
              (x, s') \<Rightarrow> (x\<lparr>ex_delays := delay # ex_delays x\<rparr>, s'))"
  using assms contended_keeps [OF assms(1,2)]
  by (subst execute_loop.simps) (auto simp: contended_def split: prod.splits)

text \<open>What the loop returns when its attempts meet the states of \<open>waited\<close>: the attempt after \<open>n\<close> sleeps.\<close>

definition attempt_after ::
  "'s runtime_store \<Rightarrow> (nat \<Rightarrow> 's \<Rightarrow> 's) \<Rightarrow> kernel_command \<Rightarrow> nat \<Rightarrow> nat \<Rightarrow> nat \<Rightarrow> 's \<Rightarrow> execution \<times> 's" where
  "attempt_after st during cmd r delay n s =
     (case execute_once st cmd (waited during r n s) of
        (result, s') \<Rightarrow>
          (\<lparr>ex_result = result, ex_delays = backoff delay n,
            ex_hint = result_committed result \<and> \<not> is_lease_renewal (kc_payload cmd)\<rparr>, s'))"

lemma execute_loop_one_attempt:
  assumes "atomic_store st" "r \<le> max_contention_retries"
  shows "\<exists>n. r + n \<le> max_contention_retries \<and>
           (\<forall>m < n. contended st cmd (waited during r m s)) \<and>
           (contended st cmd (waited during r n s) \<longrightarrow> r + n = max_contention_retries) \<and>
           execute_loop st during cmd r delay s = attempt_after st during cmd r delay n s"
  using assms(2)
proof (induction "max_contention_retries - r" arbitrary: r delay s)
  case 0
  then have "\<not> r < max_contention_retries" by simp
  then show ?case
    using 0 by (intro exI [of _ 0]) (simp add: execute_loop_stop attempt_after_def split: prod.splits)
next
  case (Suc k)
  show ?case
  proof (cases "contended st cmd s")
    case True
    have "k = max_contention_retries - Suc r" "Suc r \<le> max_contention_retries" using Suc.hyps(2) by simp_all
    from Suc.hyps(1) [OF this] obtain n where n: "Suc r + n \<le> max_contention_retries"
      "\<forall>m < n. contended st cmd (waited during (Suc r) m (during r s))"
      "contended st cmd (waited during (Suc r) n (during r s)) \<longrightarrow> Suc r + n = max_contention_retries"
      "execute_loop st during cmd (Suc r) (min (delay * 2) 400) (during r s) =
         attempt_after st during cmd (Suc r) (min (delay * 2) 400) n (during r s)"
      by blast
    show ?thesis
      using n True Suc.hyps(2)
      by (intro exI [of _ "Suc n"])
        (auto simp: execute_loop_retry [OF assms(1)] attempt_after_def less_Suc_eq_0_disj split: prod.splits)
  next
    case False
    then show ?thesis
      using Suc.prems by (intro exI [of _ 0]) (simp add: execute_loop_stop attempt_after_def split: prod.splits)
  qed
qed

end
