(* ===== verification/Scheduler_Controllers.thy ===== *)
theory Scheduler_Controllers
  imports Scheduler_Kernel_Safety Scheduler_Contracts
begin

text \<open>
  The controllers (\<open>morphz/src/controllers\<close>) that lower a policy decision to one command of the
  scheduler kernel, and the header and command identity they use (\<open>morphz/src/scheduler/command.rs\<close>).
  Every one fences its command on the row it was decided on. SHA-256 and the texts of times and of
  quoted strings are the fields of \<open>rust_texts\<close>.
\<close>

section \<open>Headers and identities\<close>

record rust_texts =
  tx_sha :: "ustring \<Rightarrow> ustring"
  tx_debug_str :: "ustring \<Rightarrow> ustring"
  tx_debug_time :: "utc \<Rightarrow> ustring"
  tx_time :: "utc \<Rightarrow> ustring"

fun nul_joined :: "ustring list \<Rightarrow> ustring" where
  "nul_joined [] = []"
| "nul_joined [x] = x"
| "nul_joined (x # y # ys) = x @ nul_ch # nul_joined (y # ys)"

fun comma_joined :: "ustring list \<Rightarrow> ustring" where
  "comma_joined [] = []"
| "comma_joined [x] = x"
| "comma_joined (x # y # ys) = x @ lit '','' @ comma_joined (y # ys)"

definition debug_option :: "('a \<Rightarrow> ustring) \<Rightarrow> 'a option \<Rightarrow> ustring" where
  "debug_option f v = (case v of None \<Rightarrow> lit ''None'' | Some x \<Rightarrow> lit ''Some('' @ f x @ lit '')'')"

definition debug_int :: "int \<Rightarrow> ustring" where
  "debug_int i = (if i < 0 then lit ''-'' @ decimal (nat (- i)) else decimal (nat i))"

definition stable_command_id :: "rust_texts \<Rightarrow> string \<Rightarrow> ustring list \<Rightarrow> ustring" where
  "stable_command_id tx namespace material = lit ''kernel_'' @ lit namespace @ lit ''_'' @ take 32 (tx_sha tx (nul_joined material))"

definition header_new :: "utc \<Rightarrow> ustring \<Rightarrow> ustring \<Rightarrow> ustring \<Rightarrow> ustring \<Rightarrow> command_header" where
  "header_new now command causation correlation actor =
     \<lparr>hd_command_id = command, hd_causation_id = causation, hd_correlation_id = correlation, hd_actor = actor,
      hd_expected_revision = None, hd_generation = None, hd_issued_at = now\<rparr>"

definition with_fence :: "command_header \<Rightarrow> nat \<Rightarrow> nat option \<Rightarrow> command_header" where
  "with_fence h revision generation = h\<lparr>hd_expected_revision := Some revision, hd_generation := generation\<rparr>"

definition with_generation :: "command_header \<Rightarrow> nat \<Rightarrow> command_header" where
  "with_generation h generation = h\<lparr>hd_generation := Some generation\<rparr>"

section \<open>Objectives\<close>

definition objective_header :: "rust_texts \<Rightarrow> utc \<Rightarrow> objective_record \<Rightarrow> string \<Rightarrow> ustring list \<Rightarrow> ustring \<Rightarrow> ustring \<Rightarrow> command_header" where
  "objective_header tx now ob namespace material causation actor =
     with_fence (header_new now (stable_command_id tx namespace material) causation (obj_context_id ob) actor)
       (obj_revision ob) (Some (obj_generation ob))"

definition claim_evaluation ::
  "rust_texts \<Rightarrow> utc \<Rightarrow> objective_record \<Rightarrow> ustring \<Rightarrow> utc \<Rightarrow> (event \<times> new_thread) option \<Rightarrow> ustring \<Rightarrow> ustring \<Rightarrow> kernel_command" where
  "claim_evaluation tx now ob evaluation lease continuation causation actor =
     \<lparr>kc_header = objective_header tx now ob ''objective-claim''
        [lit ''objective-claim'', obj_id ob, decimal (obj_revision ob), decimal (obj_generation ob), evaluation] causation actor,
      kc_payload = ClaimObjectiveEvaluation
        \<lparr>cec_objective_id = obj_id ob, cec_evaluation_id = evaluation, cec_lease_expires_at = lease,
         cec_pending_dependency_id = None, cec_continuation = continuation\<rparr>\<rparr>"

definition claim_interrupt_evaluation ::
  "rust_texts \<Rightarrow> utc \<Rightarrow> objective_record \<Rightarrow> ustring \<Rightarrow> utc \<Rightarrow> ustring \<Rightarrow> ustring \<Rightarrow> ustring \<Rightarrow> kernel_command" where
  "claim_interrupt_evaluation tx now ob evaluation lease dependency causation actor =
     \<lparr>kc_header = objective_header tx now ob ''objective-interrupt-claim''
        [lit ''objective-interrupt-claim'', obj_id ob, decimal (obj_revision ob), decimal (obj_generation ob), evaluation, dependency]
        causation actor,
      kc_payload = ClaimObjectiveEvaluation
        \<lparr>cec_objective_id = obj_id ob, cec_evaluation_id = evaluation, cec_lease_expires_at = lease,
         cec_pending_dependency_id = Some dependency, cec_continuation = None\<rparr>\<rparr>"

definition renew_evaluation ::
  "rust_texts \<Rightarrow> utc \<Rightarrow> objective_record \<Rightarrow> ustring \<Rightarrow> utc \<Rightarrow> ustring option \<Rightarrow> ustring \<Rightarrow> ustring \<Rightarrow> kernel_command" where
  "renew_evaluation tx now ob evaluation lease dependency causation actor =
     \<lparr>kc_header = objective_header tx now ob ''objective-renew''
        [lit ''objective-renew'', obj_id ob, decimal (obj_generation ob), evaluation, tx_time tx lease] causation actor,
      kc_payload = RenewObjectiveEvaluation
        \<lparr>rec_objective_id = obj_id ob, rec_evaluation_id = evaluation, rec_lease_expires_at = lease,
         rec_pending_dependency_id = dependency\<rparr>\<rparr>"

definition finish_evaluation ::
  "rust_texts \<Rightarrow> utc \<Rightarrow> objective_record \<Rightarrow> ustring \<Rightarrow> nat \<Rightarrow> nat \<Rightarrow> ustring \<Rightarrow> ustring \<Rightarrow> kernel_command" where
  "finish_evaluation tx now ob evaluation tokens seconds causation actor =
     \<lparr>kc_header = objective_header tx now ob ''objective-finish''
        [lit ''objective-finish'', obj_id ob, decimal (obj_generation ob), evaluation, decimal tokens, decimal seconds] causation actor,
      kc_payload = FinishObjectiveEvaluation
        \<lparr>fec_objective_id = obj_id ob, fec_evaluation_id = evaluation, fec_tokens_used = tokens, fec_time_used_seconds = seconds\<rparr>\<rparr>"

definition prepare_completion ::
  "rust_texts \<Rightarrow> utc \<Rightarrow> objective_record \<Rightarrow> ustring \<Rightarrow> ustring \<Rightarrow> ustring \<Rightarrow> ustring list \<Rightarrow> ustring \<Rightarrow> ustring \<Rightarrow> kernel_command" where
  "prepare_completion tx now ob evaluation activation reason evidence causation actor =
     \<lparr>kc_header = objective_header tx now ob ''objective-prepare-completion''
        [lit ''objective-prepare-completion'', obj_id ob, decimal (obj_revision ob), decimal (obj_generation ob), evaluation, activation]
        causation actor,
      kc_payload = PrepareObjectiveCompletion
        \<lparr>pcc_objective_id = obj_id ob, pcc_evaluation_id = evaluation, pcc_activation_id = activation, pcc_reason = reason,
         pcc_evidence_refs = evidence\<rparr>\<rparr>"

definition readiness :: "objective_record \<Rightarrow> dependency_record list \<Rightarrow> utc \<Rightarrow> objective_readiness" where
  "readiness ob dependencies now = derive_objective_readiness ob dependencies now"

text \<open>Derived \<open>Debug\<close> of a status and of a wait condition.\<close>

fun objective_status_debug :: "objective_status \<Rightarrow> ustring" where
  "objective_status_debug ObjActive = lit ''Active''"
| "objective_status_debug ObjPaused = lit ''Paused''"
| "objective_status_debug ObjBlocked = lit ''Blocked''"
| "objective_status_debug ObjCompleted = lit ''Completed''"
| "objective_status_debug ObjCancelled = lit ''Cancelled''"
| "objective_status_debug ObjFailed = lit ''Failed''"

definition debug_struct :: "string \<Rightarrow> (string \<times> ustring) list \<Rightarrow> ustring" where
  "debug_struct name fs =
     lit name @ lit '' { '' @ concat (map (\<lambda>(i, k, v). (if i = 0 then [] else lit '', '') @ lit k @ lit '': '' @ v)
       (zip [0 ..< length fs] fs)) @ lit '' }''"

fun wait_condition_debug :: "rust_texts \<Rightarrow> objective_wait_condition \<Rightarrow> ustring" where
  "wait_condition_debug tx (WaitToolTask i) = debug_struct ''ToolTask'' [(''task_id'', tx_debug_str tx i)]"
| "wait_condition_debug tx (WaitDelegation i) = debug_struct ''Delegation'' [(''delegation_id'', tx_debug_str tx i)]"
| "wait_condition_debug tx (WaitThreadGroup i) = debug_struct ''ThreadGroup'' [(''group_id'', tx_debug_str tx i)]"
| "wait_condition_debug tx (WaitTimer t) = debug_struct ''Timer'' [(''deadline'', tx_debug_time tx t)]"
| "wait_condition_debug tx (WaitPermission i) = debug_struct ''Permission'' [(''request_id'', tx_debug_str tx i)]"
| "wait_condition_debug tx (WaitUserInput s r) =
     debug_struct ''UserInput'' [(''session_id'', tx_debug_str tx s), (''request_id'', debug_option (tx_debug_str tx) r)]"
| "wait_condition_debug tx (WaitExternalEvent t c) =
     debug_struct ''ExternalEvent'' [(''topic'', tx_debug_str tx t), (''correlation_id'', tx_debug_str tx c)]"
| "wait_condition_debug tx (WaitResourceAvailable r) = debug_struct ''ResourceAvailable'' [(''resource'', tx_debug_str tx r)]"

definition control_objective ::
  "rust_texts \<Rightarrow> utc \<Rightarrow> objective_record \<Rightarrow> objective_status \<Rightarrow> objective_wait_condition option \<Rightarrow> ustring option \<Rightarrow> ustring \<Rightarrow> ustring
    \<Rightarrow> kernel_command" where
  "control_objective tx now ob status wait reason causation actor =
     \<lparr>kc_header = objective_header tx now ob ''objective-control''
        [lit ''control-objective'', obj_id ob, decimal (obj_revision ob), decimal (obj_generation ob), objective_status_debug status,
         debug_option (wait_condition_debug tx) wait, debug_option (tx_debug_str tx) reason] causation actor,
      kc_payload = ControlObjective
        \<lparr>coc_objective_id = obj_id ob, coc_status = status, coc_wait_condition = wait, coc_reason = reason\<rparr>\<rparr>"

definition objective_satisfy_dependency ::
  "rust_texts \<Rightarrow> utc \<Rightarrow> objective_record \<Rightarrow> ustring \<Rightarrow> nat \<Rightarrow> ustring \<Rightarrow> ustring \<Rightarrow> kernel_command" where
  "objective_satisfy_dependency tx now ob dependency generation event actor =
     \<lparr>kc_header = objective_header tx now ob ''objective-satisfy''
        [lit ''objective-dependency'', obj_id ob, decimal (obj_generation ob), decimal generation, event] event actor,
      kc_payload = SatisfyDependency
        \<lparr>sdc_dependency_id = dependency, sdc_owner_generation = obj_generation ob, sdc_dependency_generation = generation,
         sdc_satisfied_by_event_id = event\<rparr>\<rparr>"

section \<open>Threads and activations\<close>

fun control_action_debug :: "thread_control_action \<Rightarrow> ustring" where
  "control_action_debug ActionPause = lit ''Pause''"
| "control_action_debug ActionResume = lit ''Resume''"
| "control_action_debug ActionCancel = lit ''Cancel''"

definition restart_turn :: "rust_texts \<Rightarrow> utc \<Rightarrow> thread_record \<Rightarrow> retry_request \<Rightarrow> ustring \<Rightarrow> kernel_command" where
  "restart_turn tx now t request actor =
     \<lparr>kc_header = with_fence (header_new now
          (stable_command_id tx ''dialogue-restart''
            [lit ''dialogue-restart'', thr_id t, decimal (thr_revision t), decimal (thr_generation t), ev_id (rrq_event request)])
          (ev_id (rrq_event request)) (thr_context_id t) actor) (thr_revision t) (Some (thr_generation t)),
      kc_payload = RestartDialogueTurn \<lparr>rtc_request = request\<rparr>\<rparr>"

definition transition_activation ::
  "rust_texts \<Rightarrow> utc \<Rightarrow> activation_record \<Rightarrow> activation_status \<Rightarrow> ustring option \<Rightarrow> utc option \<Rightarrow> nat option \<Rightarrow> ustring \<Rightarrow> ustring
    \<Rightarrow> kernel_command" where
  "transition_activation tx now a status claimed_by lease version causation actor =
     \<lparr>kc_header = with_fence (header_new now
          (stable_command_id tx ''activation-transition''
            [lit ''activation-transition'', act_id a, decimal (act_revision a), decimal (act_generation a), activation_status_str status,
             debug_option (tx_debug_str tx) claimed_by, debug_option (tx_debug_time tx) lease, debug_option decimal version])
          causation (act_context_id a) actor) (act_revision a) (Some (act_generation a)),
      kc_payload = TransitionActivation
        \<lparr>tac_activation_id = act_id a, tac_status = status, tac_claimed_by = claimed_by, tac_lease_expires_at = lease,
         tac_context_snapshot_version = version\<rparr>\<rparr>"

definition control_thread_fence ::
  "rust_texts \<Rightarrow> utc \<Rightarrow> ustring \<Rightarrow> nat \<Rightarrow> nat \<Rightarrow> ustring \<Rightarrow> thread_control_action \<Rightarrow> ustring \<Rightarrow> ustring \<Rightarrow> kernel_command" where
  "control_thread_fence tx now ident revision generation context_id action reason actor =
     \<lparr>kc_header = with_fence (header_new now
          (stable_command_id tx ''thread-control''
            [lit ''control-thread'', ident, decimal revision, decimal generation, control_action_debug action, reason])
          ident context_id actor) revision (Some generation),
      kc_payload = ControlThread \<lparr>ctc_thread_id = ident, ctc_action = action, ctc_reason = Some reason\<rparr>\<rparr>"

definition control_thread ::
  "rust_texts \<Rightarrow> utc \<Rightarrow> thread_record \<Rightarrow> ustring \<Rightarrow> thread_control_action \<Rightarrow> ustring \<Rightarrow> ustring \<Rightarrow> kernel_command" where
  "control_thread tx now t context_id action reason actor =
     control_thread_fence tx now (thr_id t) (thr_revision t) (thr_generation t) context_id action reason actor"

definition supersede_thread ::
  "rust_texts \<Rightarrow> utc \<Rightarrow> thread_record \<Rightarrow> ustring \<Rightarrow> ustring \<Rightarrow> ustring \<Rightarrow> ustring \<Rightarrow> kernel_command" where
  "supersede_thread tx now t context_id intent reason actor =
     (let event = thread_supersede_event now t intent reason actor in
      \<lparr>kc_header = with_fence (header_new now
           (stable_command_id tx ''thread-supersede''
             [lit ''supersede-thread'', thr_id t, decimal (thr_revision t), decimal (thr_generation t), ev_id event])
           (ev_id event) context_id actor) (thr_revision t) (Some (thr_generation t)),
       kc_payload = SupersedeThread \<lparr>stc_thread_id = thr_id t, stc_event = event\<rparr>\<rparr>)"

section \<open>Outcomes, groups and timers\<close>

definition commit_delivery_outcome ::
  "rust_texts \<Rightarrow> utc \<Rightarrow> ustring \<Rightarrow> nat \<Rightarrow> event \<Rightarrow> new_thread option \<Rightarrow> ustring \<Rightarrow> ustring \<Rightarrow> kernel_command" where
  "commit_delivery_outcome tx now timer generation event thread session actor =
     \<lparr>kc_header = with_generation (header_new now
          (stable_command_id tx ''delivery-outcome'' [timer, decimal generation, ev_id event]) timer session actor) generation,
      kc_payload = CommitDeliveryOutcome \<lparr>cdc_timer_id = timer, cdc_event = event, cdc_delivery_thread = thread\<rparr>\<rparr>"

definition commit_thread_outcome :: "rust_texts \<Rightarrow> utc \<Rightarrow> ustring \<Rightarrow> event \<Rightarrow> ustring \<Rightarrow> ustring \<Rightarrow> kernel_command" where
  "commit_thread_outcome tx now activation event context_id actor =
     \<lparr>kc_header = header_new now (stable_command_id tx ''thread-outcome'' [lit ''commit-outcome'', activation, ev_id event])
        (ev_id event) context_id actor,
      kc_payload = CommitThreadOutcome \<lparr>cto_activation_id = activation, cto_event = event\<rparr>\<rparr>"

definition satisfy_thread_resource_dependency ::
  "rust_texts \<Rightarrow> utc \<Rightarrow> ustring \<Rightarrow> nat \<Rightarrow> nat \<Rightarrow> ustring \<Rightarrow> event \<Rightarrow> ustring \<Rightarrow> ustring \<Rightarrow> kernel_command" where
  "satisfy_thread_resource_dependency tx now dependency owner_generation generation satisfied_by wake context_id actor =
     \<lparr>kc_header = with_generation (header_new now
          (stable_command_id tx ''thread-resource-wake''
            [lit ''thread-resource-wake'', dependency, decimal owner_generation, decimal generation, satisfied_by, ev_id wake])
          satisfied_by context_id actor) owner_generation,
      kc_payload = SatisfyThreadResourceDependency
        \<lparr>src_dependency_id = dependency, src_owner_generation = owner_generation, src_dependency_generation = generation,
         src_satisfied_by_event_id = satisfied_by, src_wake_event = wake\<rparr>\<rparr>"

definition commit_job_outcome ::
  "rust_texts \<Rightarrow> utc \<Rightarrow> ustring \<Rightarrow> nat \<Rightarrow> ustring option \<Rightarrow> job_terminal \<Rightarrow> event option \<Rightarrow> bool \<Rightarrow> ustring \<Rightarrow> kernel_command" where
  "commit_job_outcome tx now job revision token outcome event wake actor =
     (let event_id = (case event of Some e \<Rightarrow> ev_id e | None \<Rightarrow> lit ''no-event'') in
      \<lparr>kc_header = with_fence (header_new now
           (stable_command_id tx ''execution-job-outcome''
             [lit ''execution-job-outcome'', job, decimal revision, event_id, job_status_str (jte_status outcome),
              debug_option (tx_debug_str tx) (jte_result_event_id outcome), nul_joined (jte_result_refs outcome),
              debug_option (tx_debug_str tx) (jte_error outcome), debug_option debug_int (jte_exit_code outcome),
              lit (if wake then ''true'' else ''false'')])
           event_id job actor) revision None,
       kc_payload = CommitExecutionJobOutcome
         \<lparr>cjc_job_id = job, cjc_claim_token = token, cjc_outcome = outcome, cjc_event = event, cjc_wake_thread = wake\<rparr>\<rparr>)"

definition spawn_supervised_group :: "rust_texts \<Rightarrow> utc \<Rightarrow> spawn_group_command \<Rightarrow> ustring \<Rightarrow> ustring \<Rightarrow> ustring \<Rightarrow> kernel_command" where
  "spawn_supervised_group tx now payload causation correlation actor =
     \<lparr>kc_header = header_new now
        (stable_command_id tx ''group-spawn''
          [lit ''spawn-supervised-group'', causation, correlation,
           comma_joined (map (nob_id \<circ> nso_objective) (spw_objectives payload)),
           comma_joined (map (\<lambda>w. owb_objective_id w @ lit ''@'' @ decimal (owb_expected_revision w)) (spw_objective_waits payload)),
           comma_joined (map nth_id (spw_threads payload)), comma_joined (map nsc_id (spw_schedules payload)),
           comma_joined (map (ngr_id \<circ> ngp_group) (spw_groups payload))])
        causation correlation actor,
      kc_payload = SpawnSupervisedGroup payload\<rparr>"

definition timer_satisfy_dependency ::
  "rust_texts \<Rightarrow> utc \<Rightarrow> ustring \<Rightarrow> nat \<Rightarrow> nat \<Rightarrow> ustring \<Rightarrow> ustring \<Rightarrow> ustring \<Rightarrow> kernel_command" where
  "timer_satisfy_dependency tx now dependency owner_generation generation event context_id actor =
     \<lparr>kc_header = header_new now
        (stable_command_id tx ''timer-satisfy''
          [lit ''timer-dependency'', dependency, decimal owner_generation, decimal generation, event])
        event context_id actor,
      kc_payload = SatisfyDependency
        \<lparr>sdc_dependency_id = dependency, sdc_owner_generation = owner_generation, sdc_dependency_generation = generation,
         sdc_satisfied_by_event_id = event\<rparr>\<rparr>"

section \<open>Fences\<close>

lemmas headers = header_new_def with_fence_def with_generation_def objective_header_def

lemmas objective_commands = claim_evaluation_def claim_interrupt_evaluation_def renew_evaluation_def finish_evaluation_def
  prepare_completion_def control_objective_def

text \<open>The commands decided on an objective row, and what a command decided on a row is fenced on.\<close>

definition decided_on_objective :: "rust_texts \<Rightarrow> objective_record \<Rightarrow> kernel_command set" where
  "decided_on_objective tx ob =
     {cmd. \<exists>now causation actor evaluation lease.
        (\<exists>continuation. cmd = claim_evaluation tx now ob evaluation lease continuation causation actor) \<or>
        (\<exists>dependency. cmd = claim_interrupt_evaluation tx now ob evaluation lease dependency causation actor) \<or>
        (\<exists>dependency. cmd = renew_evaluation tx now ob evaluation lease dependency causation actor) \<or>
        (\<exists>tokens seconds. cmd = finish_evaluation tx now ob evaluation tokens seconds causation actor) \<or>
        (\<exists>activation reason evidence. cmd = prepare_completion tx now ob evaluation activation reason evidence causation actor) \<or>
        (\<exists>status wait reason. cmd = control_objective tx now ob status wait reason causation actor)}"

definition decided_on_thread :: "rust_texts \<Rightarrow> thread_record \<Rightarrow> kernel_command set" where
  "decided_on_thread tx t =
     {cmd. \<exists>now context_id reason actor.
        (\<exists>action. cmd = control_thread tx now t context_id action reason actor) \<or>
        (\<exists>intent. cmd = supersede_thread tx now t context_id intent reason actor)}"

lemma objective_fence:
  assumes "cmd \<in> decided_on_objective tx ob"
  shows "hd_generation (kc_header cmd) = Some (obj_generation ob)"
    "addressed_generation st (kc_payload cmd) s = row_generation obj_generation (st_get_objective st (obj_id ob) s)"
  using assms unfolding decided_on_objective_def addressed_generation_def
  by (auto simp: objective_commands headers)

lemma thread_fence:
  assumes "cmd \<in> decided_on_thread tx t"
  shows "hd_generation (kc_header cmd) = Some (thr_generation t)"
    "addressed_generation st (kc_payload cmd) s = row_generation thr_generation (st_get_thread st (thr_id t) s)"
  using assms unfolding decided_on_thread_def addressed_generation_def
  by (auto simp: control_thread_def control_thread_fence_def supersede_thread_def headers Let_def)

lemma activation_fence:
  "hd_generation (kc_header (transition_activation tx now a status claimed lease version causation actor)) = Some (act_generation a)"
  "addressed_generation st (kc_payload (transition_activation tx now a status claimed lease version causation actor)) s =
     row_generation act_generation (st_get_activation st (act_id a) s)"
  by (simp_all add: transition_activation_def headers addressed_generation_def)

text \<open>A command decided on a row whose generation in the store has moved on since.\<close>

definition decided_on_stale_row :: "rust_texts \<Rightarrow> 's runtime_store \<Rightarrow> 's \<Rightarrow> kernel_command \<Rightarrow> bool" where
  "decided_on_stale_row tx st s cmd \<longleftrightarrow>
     (\<exists>ob ob'. cmd \<in> decided_on_objective tx ob \<and> st_get_objective st (obj_id ob) s = Inr (Some ob') \<and>
        obj_generation ob' \<noteq> obj_generation ob) \<or>
     (\<exists>t t'. cmd \<in> decided_on_thread tx t \<and> st_get_thread st (thr_id t) s = Inr (Some t') \<and>
        thr_generation t' \<noteq> thr_generation t) \<or>
     (\<exists>a a' now status claimed lease version causation actor.
        cmd = transition_activation tx now a status claimed lease version causation actor \<and>
        st_get_activation st (act_id a) s = Inr (Some a') \<and> act_generation a' \<noteq> act_generation a)"

lemma stale_row_generation:
  assumes "decided_on_stale_row tx st s cmd"
  shows "\<exists>g current. hd_generation (kc_header cmd) = Some g \<and> addressed_generation st (kc_payload cmd) s = Some current \<and> current \<noteq> g"
  using assms unfolding decided_on_stale_row_def
  by (auto simp: objective_fence thread_fence activation_fence row_generation_def)

text \<open>A command that controls a thread is answered by a thread mutation, so that its callers need no other case.\<close>

lemma control_thread_result:
  assumes "fst (execute_once st (control_thread_fence tx now i r g c action reason actor) s) = Inr result"
  shows "\<exists>m. result = ThreadControlled m"
  using assms
  by (auto simp: execute_once_def control_thread_fence_def execute_payload_def execute_control_thread_def checked_def stored_def
      map_ok_def map_err_def split: sum.splits prod.splits)

end
