(* ===== verification/Supervision_Recovery.thy ===== *)
theory Supervision_Recovery
  imports Recovery_Reconciler Scheduler_Controllers
begin

text \<open>
  Carrying out a recovery plan (\<open>morphz/src/orchestrator/supervision_audit.rs\<close>): the routes from
  activations to threads, and the loop that pauses every quarantined thread through the scheduler
  kernel, with the composition of audit, plan and kernel.
\<close>

section \<open>Routes and application\<close>

text \<open>The later activation wins a key, the first thread wins a turn.\<close>

definition activation_routes :: "thread_authority list \<Rightarrow> activation_record list \<Rightarrow> thread_routes" where
  "activation_routes threads activations =
     foldl (\<lambda>routes a.
         case find (\<lambda>t. ta_root_turn_id t = act_root_turn_id a) threads of
           Some t \<Rightarrow> routes((lit ''activation'', act_id a) \<mapsto> [ta_id t])
         | None \<Rightarrow> routes)
       Map.empty activations"

datatype recovery_failure = KernelUnavailable | KernelFailed kernel_error | UnreachableResult

definition pause_command :: "rust_texts \<Rightarrow> utc \<Rightarrow> ustring \<Rightarrow> thread_authority \<Rightarrow> ustring \<Rightarrow> kernel_command" where
  "pause_command tx now context_id t reason =
     control_thread_fence tx now (ta_id t) (ta_revision t) (ta_generation t) context_id ActionPause reason (lit ''Runtime-Reconciler'')"

text \<open>The counter numbers the actions: \<open>during k\<close> is what other writers do while the kernel works on the \<open>k\<close>-th.\<close>

fun apply_actions ::
  "'s runtime_store \<Rightarrow> (nat \<Rightarrow> nat \<Rightarrow> 's \<Rightarrow> 's) \<Rightarrow> rust_texts \<Rightarrow> utc \<Rightarrow> ustring \<Rightarrow> thread_authority list \<Rightarrow> nat \<Rightarrow>
    reconciler_action list \<Rightarrow> 's \<Rightarrow> (recovery_failure + unit) \<times> 's" where
  "apply_actions st during tx now context_id threads k [] s = (Inr (), s)"
| "apply_actions st during tx now context_id threads k (QuarantineThread i reason # rest) s =
     (case find (\<lambda>t. ta_id t = i) threads of
        None \<Rightarrow> apply_actions st during tx now context_id threads (k + 1) rest s
      | Some t \<Rightarrow>
          (case execute st (during k) (pause_command tx now context_id t reason) s of
             (x, s') \<Rightarrow>
               (case ex_result x of
                  Inl e \<Rightarrow> (Inl (KernelFailed e), s')
                | Inr (ThreadControlled (ThreadMutUpdated _)) \<Rightarrow> apply_actions st during tx now context_id threads (k + 1) rest s'
                | Inr (ThreadControlled (ThreadMutConflict _)) \<Rightarrow> apply_actions st during tx now context_id threads (k + 1) rest s'
                | Inr (ThreadControlled ThreadMutNotFound) \<Rightarrow> apply_actions st during tx now context_id threads (k + 1) rest s'
                | Inr _ \<Rightarrow> (Inl UnreachableResult, s'))))"

definition apply_authority_plan ::
  "'s runtime_store option \<Rightarrow> (nat \<Rightarrow> nat \<Rightarrow> 's \<Rightarrow> 's) \<Rightarrow> rust_texts \<Rightarrow> utc \<Rightarrow> ustring \<Rightarrow> thread_authority list \<Rightarrow>
    reconciler_action list \<Rightarrow> 's \<Rightarrow> (recovery_failure + unit) \<times> 's" where
  "apply_authority_plan scheduler_kernel during tx now context_id threads actions s =
     (case scheduler_kernel of
        None \<Rightarrow> (Inl KernelUnavailable, s)
      | Some st \<Rightarrow> apply_actions st during tx now context_id threads 0 actions s)"

section \<open>The kernel answers with a thread mutation\<close>

lemma execute_loop_result:
  assumes "\<forall>s result. fst (execute_once st cmd s) = Inr result \<longrightarrow> P result"
    and "ex_result (fst (execute_loop st during cmd r delay s)) = Inr result"
  shows "P result"
  using assms
proof (induction st during cmd r delay s rule: execute_loop.induct)
  case (1 st during cmd r delay s)
  obtain a s' where once: "execute_once st cmd s = (a, s')" by fastforce
  show ?case
  proof (cases "contended st cmd s \<and> r < max_contention_retries")
    case True
    then have "ex_result (fst (execute_loop st during cmd (r + 1) (min (delay * 2) 400) (during r s'))) = Inr result"
      using 1(3) once by (subst (asm) execute_loop.simps) (auto simp: contended_def split: prod.splits)
    then show ?thesis using 1(1) [OF once [symmetric]] 1(2) True once by (auto simp: contended_def)
  next
    case False
    then have "fst (execute_once st cmd s) = Inr result" using 1(3) by (simp add: execute_loop_stop)
    then show ?thesis using 1(2) by blast
  qed
qed

lemma pause_result:
  assumes "ex_result (fst (execute st during (pause_command tx now c t reason) s)) = Inr result"
  shows "\<exists>m. result = ThreadControlled m"
proof -
  have "\<forall>s result. fst (execute_once st (pause_command tx now c t reason) s) = Inr result \<longrightarrow> (\<exists>m. result = ThreadControlled m)"
    unfolding pause_command_def by (intro allI impI) (rule control_thread_result)
  from execute_loop_result [of st "pause_command tx now c t reason" "\<lambda>result. \<exists>m. result = ThreadControlled m", OF this] assms
  show ?thesis by (auto simp: execute_def split: sum.splits)
qed

lemma apply_actions_reachable: "fst (apply_actions st during tx now c threads k actions s) \<noteq> Inl UnreachableResult"
proof (induction actions arbitrary: k s)
  case (Cons a actions)
  obtain i reason where a: "a = QuarantineThread i reason" by (cases a)
  show ?case
  proof (cases "find (\<lambda>t. ta_id t = i) threads")
    case (Some t)
    obtain x s' where run: "execute st (during k) (pause_command tx now c t reason) s = (x, s')" by fastforce
    show ?thesis
    proof (cases "ex_result x")
      case (Inr result)
      with pause_result [of st "during k" tx now c t reason s] run obtain m where "result = ThreadControlled m" by auto
      then show ?thesis using Cons.IH by (cases m) (simp_all add: a Some run Inr)
    qed (simp add: a Some run)
  qed (simp add: a Cons.IH)
qed simp

lemma apply_reachable: "fst (apply_authority_plan scheduler_kernel during tx now c threads actions s) \<noteq> Inl UnreachableResult"
  by (simp add: apply_authority_plan_def apply_actions_reachable split: option.splits)

section \<open>From a violation of a group to the threads of its members\<close>

lemma group_violation_planned:
  assumes "v \<in> set vs" "iv_severity v = SevQuarantine" "iv_entity_kind v = lit ''thread_group''"
    and "routes (lit ''thread_group'', iv_entity_id v) = Some names"
    and "distinct (map thr_id threads)" "t \<in> set threads" "thr_id t \<in> set names"
    and "thr_lifecycle t = ThreadOpen" "thr_control_state t = ControlActive"
  shows "thr_id t \<in> action_thread ` set (plan vs threads routes)"
proof -
  have "implicated routes v (thr_id t)"
    using assms(2-4,7) by (simp add: implicated_def lit_simps)
  then show ?thesis
    unfolding plan_def plan_authority_exact(1) using assms by (auto simp: quarantinable_rows)
qed

end
