(* ===== verification/Scheduler_Examples.thy ===== *)
theory Scheduler_Examples
  imports Scheduler_Laws Supervision_Recovery
begin

text \<open>
  What the audit makes of a group that its contract decides early, and the concrete rows, commands
  and store of the witnesses about the scheduler.
\<close>

section \<open>A group decided early\<close>

lemma group_reported:
  assumes "g \<in> set (in_groups inp)" "v \<in> set (audit_group (member_counts (in_group_members inp) (grp_id g)) (group_authority_of g))"
  shows "\<exists>vs. audit_scheduler_invariants sha inp = Some vs \<and> v \<in> set vs"
  using assms
  by (force simp: audit_scheduler_invariants_def audit_scheduler_invariants_counted_def audit_groups_None Let_def)

definition pending_member_violation :: "group_record \<Rightarrow> invariant_violation" where
  "pending_member_violation g =
     violation SevQuarantine TerminalGroupHasPendingMember ''thread_group'' (grp_id g)
       (lit ''terminal ThreadGroup still has a required pending member'')"

lemma pending_member_reported:
  assumes "g \<in> set (in_groups inp)" "group_status_is_terminal (grp_status g)"
    "member_counts (in_group_members inp) (grp_id g) = (required, terminal, successful)" "terminal < required"
  shows "\<exists>vs. audit_scheduler_invariants sha inp = Some vs \<and> pending_member_violation g \<in> set vs"
  using assms by (intro group_reported) (auto simp: audit_group_def report_def pending_member_violation_def Let_def)

section \<open>Rows\<close>

definition waiting_objective :: objective_record where
  "waiting_objective =
     \<lparr>obj_model_alias = None, obj_reasoning_effort = None, obj_id = lit ''o'', obj_agent_id = lit ''agent'', obj_context_id = lit ''ctx'',
      obj_coordinator_session_id = lit ''s'', obj_delivery_session_id = lit ''s'', obj_parent_objective_id = None,
      obj_source_event_id = lit ''e'', obj_initiating_principal_id = None, obj_stated_objective = lit ''ship'', obj_revision = 4,
      obj_generation = 2, obj_status = ObjActive, obj_status_reason = None, obj_wait_condition = Some (WaitThreadGroup (lit ''g'')),
      obj_completion_intent = None, obj_active_evaluation_id = None, obj_evaluation_lease_expires_at = None,
      obj_continuation_sequence = 0, obj_token_budget = None, obj_tokens_used = 0, obj_time_used_seconds = 0,
      obj_created_at = 0, obj_updated_at = 0\<rparr>"

definition primary_thread :: thread_record where
  "primary_thread =
     \<lparr>thr_response_annotations = AnnotationsOff, thr_model_alias = None, thr_reasoning_effort = None, thr_id = lit ''t'', thr_revision = 1,
      thr_generation = 1, thr_agent_id = lit ''agent'', thr_context_id = lit ''ctx'', thr_session_id = lit ''s'',
      thr_initiating_principal_id = None, thr_root_turn_id = lit ''r'', thr_kind = KindExecution, thr_lifecycle = ThreadOpen,
      thr_control_state = ControlActive, thr_executor_kind = lit ''agent'', thr_executor_id = None, thr_target_id = None,
      thr_supervision = sup_objective_primary_execution (lit ''o'') 2, thr_result_text = None, thr_result_event_id = None,
      thr_delivery_status = DeliveryNone, thr_delivery_event_id = None, thr_created_at = 0, thr_updated_at = 0\<rparr>"

definition group_row :: "group_policy \<Rightarrow> group_status \<Rightarrow> nat \<Rightarrow> nat \<Rightarrow> nat \<Rightarrow> group_record" where
  "group_row policy status required terminal successful =
     \<lparr>grp_id = lit ''g'', grp_revision = 1, grp_context_id = lit ''ctx'', grp_session_id = lit ''s'', grp_supervisor_kind = SupObjective,
      grp_supervisor_id = lit ''o'', grp_generation = 2, grp_policy = policy, grp_required_count = required, grp_terminal_count = terminal,
      grp_successful_count = successful, grp_status = status, grp_completion_contract = JObject [], grp_terminal_summary = JNull,
      grp_barrier_event_id = (if status = GroupOpen then None else Some (lit ''b'')), grp_created_at = 0, grp_updated_at = 0,
      grp_satisfied_at = None\<rparr>"

definition member_row :: "nat \<Rightarrow> member_status \<Rightarrow> member_record" where
  "member_row n status =
     \<lparr>mem_group_id = lit ''g'', mem_thread_id = decimal n, mem_ordinal = n, mem_required = True, mem_status = status,
      mem_outcome_id = None, mem_created_at = 0, mem_updated_at = 0\<rparr>"

definition group_dependency :: "nat \<Rightarrow> dependency_status \<Rightarrow> dependency_record" where
  "group_dependency generation status =
     \<lparr>dep_id = lit ''d'', dep_owner_kind = OwnerObjective, dep_owner_id = lit ''o'', dep_owner_generation = generation,
      dep_dependency_kind = DepThreadGroup, dep_dependency_id = lit ''g'', dep_dependency_generation = 2, dep_required = True,
      dep_status = status, dep_metadata = JNull, dep_satisfied_by_event_id = None, dep_created_at = 0, dep_updated_at = 0,
      dep_satisfied_at = None\<rparr>"

lemmas example_rows = waiting_objective_def primary_thread_def group_row_def member_row_def group_dependency_def
  sup_objective_primary_execution_def

text \<open>An objective that waits for a group of two, one of which has succeeded.\<close>

definition waiting_input :: invariant_input where
  "waiting_input =
     \<lparr>in_objectives = [waiting_objective], in_threads = [primary_thread], in_activations = [], in_outcomes = [],
      in_groups = [group_row PolicyAll GroupOpen 2 1 1],
      in_group_members = [member_row 0 MemberCompleted, member_row 1 MemberPending],
      in_dependencies = [group_dependency 2 DependencyPending]\<rparr>"

lemma waiting_unique: "unique_rows waiting_input"
  by (simp add: unique_rows_def waiting_input_def)

lemma waiting_consistent: "scheduler_consistent waiting_input"
  unfolding scheduler_consistent_def
  by (auto simp: threads_settled_def children_current_def primaries_owned_def primaries_unique_def activations_current_def
      groups_settled_def dependencies_live_def waits_agree_def waiting_input_def example_rows thread_lifecycle_is_terminal_def
      supervised_by_def member_counts_def count_members_def member_status_is_terminal_def member_status_is_success_def
      group_status_is_terminal_def blocks_objective_def)

definition waiting_counts :: "group_member_counts list" where
  "waiting_counts = [\<lparr>gc_group_id = lit ''g'', gc_total = 2, gc_required = 2, gc_terminal = 1, gc_successful = 1\<rparr>]"

definition waiting_facts :: authority_facts where
  "waiting_facts =
     \<lparr>af_objectives = [objective_authority_of waiting_objective], af_threads = [thread_authority_of primary_thread],
      af_groups = [group_authority_of (group_row PolicyAll GroupOpen 2 1 1)], af_outcome_threads = {},
      af_pending_objective_owners = {(lit ''o'', 2)}, af_preserved_primary = (\<lambda>_. None)\<rparr>"

lemma waiting_facts_exact: "facts_exact sha waiting_input waiting_counts waiting_facts"
  by (auto simp: facts_exact_def waiting_input_def waiting_counts_def waiting_facts_def group_counts_def pending_owners_def
      member_counts_def count_members_def example_rows member_status_is_terminal_def member_status_is_success_def)

text \<open>A group of three that needs one success and has it, with the two others still at work.\<close>

definition early_input :: invariant_input where
  "early_input =
     \<lparr>in_objectives = [], in_threads = [], in_activations = [], in_outcomes = [],
      in_groups = [group_row PolicyAny GroupSatisfied 3 1 1],
      in_group_members = [member_row 0 MemberCompleted, member_row 1 MemberPending, member_row 2 MemberPending],
      in_dependencies = []\<rparr>"

definition member_thread :: thread_record where
  "member_thread = primary_thread\<lparr>thr_id := lit ''1'', thr_supervision := sup_objective (lit ''o'') (lit ''v'') 2 None\<rparr>"

definition member_routes :: thread_routes where
  "member_routes = [(lit ''thread_group'', lit ''g'') \<mapsto> [lit ''0'', lit ''1'', lit ''2'']]"

lemma early_counts: "member_counts (in_group_members early_input) (lit ''g'') = (3, 1, 1)"
  by (simp add: early_input_def member_counts_def count_members_def member_row_def member_status_is_terminal_def
      member_status_is_success_def)

section \<open>A store and commands\<close>

text \<open>
  A store that holds one objective and counts the dependencies it cancelled; while fewer than two
  writers have left, a write finds it locked. It supports no other command.
\<close>

record example_state =
  writers_left :: nat
  cancelled_count :: nat

definition unsupported :: "example_state \<Rightarrow> (ustring + 'a) \<times> example_state" where
  "unsupported s = (Inl (lit ''unsupported''), s)"

definition cancel_one :: "example_state \<Rightarrow> (ustring + nat) \<times> example_state" where
  "cancel_one s =
     (if writers_left s < 2 then (Inl (lit ''database is locked''), s)
      else (Inr 1, s\<lparr>cancelled_count := cancelled_count s + 1\<rparr>))"

definition example_store :: "example_state runtime_store" where
  "example_store =
     \<lparr>st_get_thread = (\<lambda>_ _. Inr None), st_get_objective = (\<lambda>_ _. Inr (Some waiting_objective)), st_get_activation = (\<lambda>_ _. Inr None),
      st_commit_schedule_transaction = (\<lambda>_ _ _ _ _. unsupported), st_promote_attached_thread = (\<lambda>_. unsupported),
      st_control_thread = (\<lambda>_ _ _ _ _. unsupported), st_supersede_thread = (\<lambda>_ _ _. unsupported),
      st_update_objective_state = (\<lambda>_ _ _ _ _ _. unsupported), st_claim_interrupt = (\<lambda>_ _ _ _ _. unsupported),
      st_claim_with_signal = (\<lambda>_ _ _ _ _ _. unsupported), st_claim = (\<lambda>_ _ _ _. unsupported),
      st_renew_interrupt = (\<lambda>_ _ _ _. unsupported), st_renew = (\<lambda>_ _ _. unsupported),
      st_prepare_completion = (\<lambda>_ _ _ _ _ _. unsupported), st_finish_evaluation = (\<lambda>_ _ _ _. unsupported),
      st_update_activation = (\<lambda>_ _ _ _ _ _. unsupported), st_restart_dialogue_turn = (\<lambda>_. unsupported),
      st_finish_job_with_event = (\<lambda>_ _ _ _ _ _. unsupported), st_finish_job = (\<lambda>_ _ _ _. unsupported),
      st_commit_delivery_flush = (\<lambda>_ _ _ _. unsupported), st_commit_delivery_flush_reply = (\<lambda>_ _ _. unsupported),
      st_commit_activation_outcome = (\<lambda>_ _. unsupported), st_register_dependency = (\<lambda>_. unsupported),
      st_satisfy_dependency = (\<lambda>_ _ _ _. unsupported), st_satisfy_resource_dependency = (\<lambda>_ _ _ _ _. unsupported),
      st_cancel_dependencies = (\<lambda>_ _ _. cancel_one)\<rparr>"

lemma example_store_atomic: "atomic_store example_store"
  unfolding atomic_calls example_store_def by (simp add: atomic_call_def unsupported_def cancel_one_def)

definition example_header :: "nat option \<Rightarrow> command_header" where
  "example_header generation =
     \<lparr>hd_command_id = lit ''c'', hd_causation_id = lit ''e'', hd_correlation_id = lit ''r'', hd_actor = lit ''a'',
      hd_expected_revision = Some 4, hd_generation = generation, hd_issued_at = 0\<rparr>"

definition cancel_command :: kernel_command where
  "cancel_command = \<lparr>kc_header = example_header None, kc_payload = CancelDependencies OwnerObjective (lit ''o'') 2\<rparr>"

definition example_texts :: rust_texts where
  "example_texts = \<lparr>tx_sha = (\<lambda>x. x), tx_debug_str = (\<lambda>x. x), tx_debug_time = (\<lambda>_. []), tx_time = (\<lambda>_. [])\<rparr>"

text \<open>The renewal of a lease, decided when the objective was of an earlier generation.\<close>

definition renew_command :: kernel_command where
  "renew_command =
     renew_evaluation example_texts 0 (waiting_objective\<lparr>obj_generation := 1\<rparr>) (lit ''v'') 9 None (lit ''e'') (lit ''a'')"

lemma example_header_valid: "validate_header (example_header g) = Inr ()"
  by (simp add: validate_header_def example_header_def require_def and_then_def map_ok_def trim_def trim_start_def is_whitespace_def lit_simps chr_def)

lemma locked_transient: "is_transient_storage_contention (StoreError (lit ''database is locked''))"
  by (simp add: contention_marks_def to_ascii_lowercase_def lit_simps chr_def)

lemma cancel_once:
  "execute_once example_store cancel_command s =
     (if writers_left s < 2 then (Inl (StoreError (lit ''database is locked'')), s)
      else (Inr (DependenciesCancelled 1), s\<lparr>cancelled_count := cancelled_count s + 1\<rparr>))"
  by (simp add: execute_once_def cancel_command_def example_header_valid checked_def execute_payload_def stored_def
      example_store_def cancel_one_def map_ok_def map_err_def)

end
