(* ===== verification/Rust_Path.thy ===== *)
theory Rust_Path
  imports Json_Value "HOL-Library.Sublist"
begin

text \<open>
  Paths of the standard library on Unix (\<open>std::path\<close>) and the calls on the file system the
  permission policy makes. A path is its text; comparisons, prefixes and parents go through its
  components. The file system is a parameter, the record of the calls.
\<close>

section \<open>Components\<close>

type_synonym path = ustring

datatype component = RootDir | CurDir | ParentDir | Normal ustring

definition slash :: uchar where
  "slash = 47"

definition part_component :: "ustring \<Rightarrow> component list" where
  "part_component s =
     (if s = [] \<or> s = lit ''.'' then [] else if s = lit ''..'' then [ParentDir] else [Normal s])"

definition has_root :: "path \<Rightarrow> bool" where
  "has_root p \<longleftrightarrow> (case p of [] \<Rightarrow> False | c # _ \<Rightarrow> c = slash)"

text \<open>Repeated separators and inner dots vanish; a leading dot of a relative path stays.\<close>

definition components :: "path \<Rightarrow> component list" where
  "components p =
     (if has_root p then [RootDir] else if hd (split_at slash p) = lit ''.'' then [CurDir] else []) @
     concat (map part_component (split_at slash p))"

definition is_absolute :: "path \<Rightarrow> bool" where
  "is_absolute p \<longleftrightarrow> has_root p"

fun component_text :: "component \<Rightarrow> ustring" where
  "component_text RootDir = []"
| "component_text CurDir = lit ''.''"
| "component_text ParentDir = lit ''..''"
| "component_text (Normal s) = s"

fun joined :: "ustring list \<Rightarrow> ustring" where
  "joined [] = []"
| "joined [s] = s"
| "joined (s # t # ts) = s @ slash # joined (t # ts)"

definition render :: "component list \<Rightarrow> path" where
  "render cs =
     (case cs of
        RootDir # rest \<Rightarrow> slash # joined (map component_text rest)
      | _ \<Rightarrow> joined (map component_text cs))"

definition path_join :: "path \<Rightarrow> path \<Rightarrow> path" where
  "path_join p q =
     (if is_absolute q then q
      else if p = [] \<or> last p = slash then p @ q
      else p @ slash # q)"

definition path_eq :: "path \<Rightarrow> path \<Rightarrow> bool" where
  "path_eq p q \<longleftrightarrow> components p = components q"

definition path_starts_with :: "path \<Rightarrow> path \<Rightarrow> bool" where
  "path_starts_with p q \<longleftrightarrow> prefix (components q) (components p)"

definition parent_components :: "component list \<Rightarrow> component list option" where
  "parent_components cs = (case rev cs of [] \<Rightarrow> None | RootDir # _ \<Rightarrow> None | _ # rest \<Rightarrow> Some (rev rest))"

lemma parent_components_shorter [termination_simp]: "parent_components cs = Some ps \<Longrightarrow> length ps < length cs"
  by (cases cs rule: rev_cases) (auto simp: parent_components_def split: component.splits)

function ancestors :: "component list \<Rightarrow> component list list" where
  "ancestors cs = cs # (case parent_components cs of None \<Rightarrow> [] | Some ps \<Rightarrow> ancestors ps)"
  by pat_completeness auto
termination by (relation "measure length") (auto simp: parent_components_shorter)

declare ancestors.simps [simp del]

definition file_name :: "path \<Rightarrow> ustring option" where
  "file_name p = (case rev (components p) of Normal s # _ \<Rightarrow> Some s | _ \<Rightarrow> None)"

text \<open>The text of an absolute path after its root, as \<open>strip_prefix\<close> of the root gives it: without the
  separators and dots at both ends.\<close>

definition unrooted_text :: "path \<Rightarrow> ustring" where
  "unrooted_text p =
     (let idle = (\<lambda>s. s = [] \<or> s = lit ''.'') in
      joined (rev (dropWhile idle (rev (dropWhile idle (split_at slash p))))))"

section \<open>The file system\<close>

datatype io_error = IoNotFound | IoOther ustring

record file_system =
  fs_exists :: "path \<Rightarrow> bool"
  fs_canonicalize :: "path \<Rightarrow> io_error + path"
  fs_is_symlink :: "path \<Rightarrow> io_error + bool"
  fs_is_dir :: "path \<Rightarrow> bool"
  fs_current_dir :: "ustring + path"

section \<open>Laws\<close>

lemma path_starts_with_refl [simp]: "path_starts_with p p"
  by (simp add: path_starts_with_def)

lemma path_starts_with_trans: "path_starts_with p q \<Longrightarrow> path_starts_with q r \<Longrightarrow> path_starts_with p r"
  unfolding path_starts_with_def by (rule prefix_order.trans)

lemma parent_components_Some: "parent_components cs = Some ps \<Longrightarrow> \<exists>c. cs = ps @ [c]"
  by (cases cs rule: rev_cases) (auto simp: parent_components_def split: component.splits)

lemma ancestors_prefix: "as \<in> set (ancestors cs) \<Longrightarrow> prefix as cs"
proof (induction cs rule: ancestors.induct)
  case (1 cs)
  show ?case
  proof (cases "parent_components cs")
    case None
    with "1.prems" show ?thesis by (simp add: ancestors.simps [of cs])
  next
    case (Some ps)
    with parent_components_Some obtain c where cs: "cs = ps @ [c]" by blast
    have "as = cs \<or> as \<in> set (ancestors ps)" using "1.prems" Some by (simp add: ancestors.simps [of cs])
    then show ?thesis using "1.IH" [OF Some] cs by (auto intro: prefix_order.trans)
  qed
qed

section \<open>Names\<close>

definition plain_name :: "ustring \<Rightarrow> bool" where
  "plain_name s \<longleftrightarrow> s \<noteq> [] \<and> s \<noteq> lit ''.'' \<and> s \<noteq> lit ''..'' \<and> slash \<notin> set s"

lemma split_at_plain: "d \<notin> set s \<Longrightarrow> split_at d s = [s]"
  by (induction s) auto

lemma split_at_append: "d \<notin> set s \<Longrightarrow> split_at d (s @ d # rest) = s # split_at d rest"
  by (induction s) auto

lemma split_at_joined: "ns \<noteq> [] \<Longrightarrow> \<forall>s \<in> set ns. slash \<notin> set s \<Longrightarrow> split_at slash (joined ns) = ns"
  by (induction ns rule: joined.induct) (simp_all add: split_at_plain split_at_append)

lemma split_at_parts: "s \<in> set (split_at d p) \<Longrightarrow> d \<notin> set s"
  by (induction p arbitrary: s) (auto split: if_splits list.splits)

lemma part_component_plain: "plain_name s \<Longrightarrow> part_component s = [Normal s]"
  by (simp add: part_component_def plain_name_def)

lemma components_plain: "Normal s \<in> set (components p) \<Longrightarrow> plain_name s"
  by (auto simp: components_def part_component_def plain_name_def dest: split_at_parts split: if_splits)

lemma components_render_names:
  assumes "\<forall>s \<in> set ns. plain_name s"
  shows "components (render (RootDir # map Normal ns)) = RootDir # map Normal ns"
proof -
  have texts: "map (component_text \<circ> Normal) ns = ns" by (simp add: comp_def)
  have "concat (map part_component (split_at slash (joined ns))) = map Normal ns"
  proof (cases "ns = []")
    case False
    then have "split_at slash (joined ns) = ns" using assms by (simp add: split_at_joined plain_name_def)
    moreover have "concat (map part_component ns) = map Normal ns"
      using assms by (induction ns) (simp_all add: part_component_plain)
    ultimately show ?thesis by simp
  qed (simp add: part_component_def)
  then show ?thesis by (simp add: components_def render_def has_root_def texts part_component_def)
qed

text \<open>An absolute path without parent components is a list of names.\<close>

lemma absolute_components:
  assumes "is_absolute p" "ParentDir \<notin> set (components p)"
  obtains ns where "components p = RootDir # map Normal ns" "\<forall>s \<in> set ns. plain_name s"
proof -
  let ?cs = "concat (map part_component (split_at slash p))"
  have cs: "components p = RootDir # ?cs" using assms(1) by (simp add: components_def is_absolute_def)
  have "\<forall>c \<in> set ?cs. \<exists>s. c = Normal s" using assms(2) cs by (fastforce simp: part_component_def split: if_splits)
  then obtain ns where ns: "?cs = map Normal ns" using ex_map_conv [of ?cs Normal] by blast
  then have "\<forall>s \<in> set ns. plain_name s" using components_plain [of _ p] cs by auto
  then show thesis using that cs ns by simp
qed

end
