(* ===== verification/Capability_Lease.thy ===== *)
theory Capability_Lease
  imports Rust_Path Scheduler_Laws
begin

text \<open>
  The authority a reviewer can give (\<open>morphz/src/approval.rs\<close>): requested capabilities and their
  containment, the scopes and risk tags that carry a lease through the durable record, and the
  decisions of reviewers.
\<close>

section \<open>Scopes, actions and decisions\<close>

datatype lease_scope = LeaseThread | LeaseObjective | LeaseSession

datatype approval_scope = ScopeOnce | ScopeThread | ScopeObjective | ScopeSession

fun approval_scope_str :: "approval_scope \<Rightarrow> ustring" where
  "approval_scope_str ScopeOnce = lit ''once''"
| "approval_scope_str ScopeThread = lit ''thread''"
| "approval_scope_str ScopeObjective = lit ''objective''"
| "approval_scope_str ScopeSession = lit ''session''"

fun lease_scope_of :: "approval_scope \<Rightarrow> lease_scope option" where
  "lease_scope_of ScopeOnce = None"
| "lease_scope_of ScopeThread = Some LeaseThread"
| "lease_scope_of ScopeObjective = Some LeaseObjective"
| "lease_scope_of ScopeSession = Some LeaseSession"

datatype approval_action = ShellAction ustring path | ToolOperation ustring ustring "path option"

fun lease_capability :: "approval_action \<Rightarrow> ustring" where
  "lease_capability (ShellAction _ _) = lit ''exec''"
| "lease_capability (ToolOperation tool operation _) = tool @ lit '':'' @ operation"

datatype approval_decision =
    AllowOnce (decision_rationale: ustring) (decision_risk_tags: "ustring list")
  | AllowLease (decision_rationale: ustring) (decision_risk_tags: "ustring list")
  | Deny (decision_rationale: ustring) (decision_risk_tags: "ustring list")
  | AskHuman (decision_rationale: ustring) (decision_risk_tags: "ustring list")

fun decision_name :: "approval_decision \<Rightarrow> ustring" where
  "decision_name (AllowOnce _ _) = lit ''allow_once''"
| "decision_name (AllowLease _ _) = lit ''allow_lease''"
| "decision_name (Deny _ _) = lit ''deny''"
| "decision_name (AskHuman _ _) = lit ''ask_human''"

section \<open>Capabilities\<close>

record capability_delta =
  cd_network :: bool
  cd_read_roots :: "path list"
  cd_write_roots :: "path list"
  cd_secret_env :: "ustring list"

definition no_delta :: capability_delta where
  "no_delta = \<lparr>cd_network = False, cd_read_roots = [], cd_write_roots = [], cd_secret_env = []\<rparr>"

definition delta_is_empty :: "capability_delta \<Rightarrow> bool" where
  "delta_is_empty d \<longleftrightarrow> \<not> cd_network d \<and> cd_read_roots d = [] \<and> cd_write_roots d = [] \<and> cd_secret_env d = []"

definition is_subset_with :: "(path \<Rightarrow> path \<Rightarrow> bool) \<Rightarrow> capability_delta \<Rightarrow> capability_delta \<Rightarrow> bool" where
  "is_subset_with contains d granted \<longleftrightarrow>
     (cd_network d \<longrightarrow> cd_network granted) \<and>
     list_all (\<lambda>p. list_ex (contains p) (cd_read_roots granted) \<or> list_ex (contains p) (cd_write_roots granted)) (cd_read_roots d) \<and>
     list_all (\<lambda>p. list_ex (contains p) (cd_write_roots granted)) (cd_write_roots d) \<and>
     list_all (\<lambda>name. name \<in> set (cd_secret_env granted)) (cd_secret_env d)"

definition lexically_within :: "path \<Rightarrow> path \<Rightarrow> bool" where
  "lexically_within p root \<longleftrightarrow>
     ParentDir \<notin> set (components p) \<and> ParentDir \<notin> set (components root) \<and> path_starts_with p root"

definition is_subset_of :: "capability_delta \<Rightarrow> capability_delta \<Rightarrow> bool" where
  "is_subset_of d granted = is_subset_with lexically_within d granted"

definition reusable_capabilities :: "approval_action \<Rightarrow> capability_delta \<Rightarrow> ustring list" where
  "reusable_capabilities action d =
     (let found =
        (if cd_network d then [lit ''network''] else []) @
        (if cd_read_roots d \<noteq> [] \<or> cd_write_roots d \<noteq> [] then [lit ''filesystem.read''] else []) @
        (if cd_write_roots d \<noteq> [] then [lit ''filesystem.write''] else []) @
        (if cd_secret_env d \<noteq> [] then [lit ''secret_env''] else []) in
      if found = [] then [lease_capability action] else found)"

definition reusable_capabilities_cover :: "ustring list \<Rightarrow> ustring list \<Rightarrow> bool" where
  "reusable_capabilities_cover granted required \<longleftrightarrow> list_all (\<lambda>c. c \<in> set granted) required"

section \<open>Risk tags\<close>

definition approved_tag :: ustring where
  "approved_tag = lit ''capability-lease-approved''"

definition scope_prefix :: ustring where
  "scope_prefix = lit ''capability-lease-scope:''"

definition duration_prefix :: ustring where
  "duration_prefix = lit ''capability-lease-duration-secs:''"

fun capability_lease_scope_risk_tag :: "lease_scope \<Rightarrow> ustring" where
  "capability_lease_scope_risk_tag LeaseThread = lit ''capability-lease-scope:thread''"
| "capability_lease_scope_risk_tag LeaseObjective = lit ''capability-lease-scope:objective''"
| "capability_lease_scope_risk_tag LeaseSession = lit ''capability-lease-scope:session''"

definition without_capability_lease_authority :: "ustring list \<Rightarrow> ustring list" where
  "without_capability_lease_authority tags =
     filter (\<lambda>t. t \<noteq> approved_tag \<and> \<not> starts_with t scope_prefix \<and> \<not> starts_with t duration_prefix) tags"

definition bind_capability_lease_duration :: "ustring list \<Rightarrow> nat \<Rightarrow> ustring list" where
  "bind_capability_lease_duration tags duration =
     filter (\<lambda>t. \<not> starts_with t duration_prefix) tags @ [duration_prefix @ decimal duration]"

text \<open>\<open>str::parse::<u64>\<close>: an optional plus sign and digits, in range.\<close>

definition parse_u64 :: "ustring \<Rightarrow> nat option" where
  "parse_u64 s =
     (let ds = (case s of c # rest \<Rightarrow> if c = 43 then rest else s | [] \<Rightarrow> []) in
      if ds \<noteq> [] \<and> list_all is_ascii_digit ds \<and> digits_value ds \<le> u64_limit then Some (digits_value ds) else None)"

definition duration_texts :: "ustring list \<Rightarrow> ustring list" where
  "duration_texts tags = map (drop (length duration_prefix)) (filter (\<lambda>t. starts_with t duration_prefix) tags)"

datatype lease_error = InvalidDuration | ConflictingDurations | MissingDecisionTime | DurationOutOfRange | ExpiryOutOfRange

definition approved_capability_lease_duration :: "ustring list \<Rightarrow> lease_error + nat option" where
  "approved_capability_lease_duration tags =
     (case duration_texts tags of
        [] \<Rightarrow> Inr None
      | text # others \<Rightarrow>
          and_then (ok_or (Option.bind (parse_u64 text) (\<lambda>d. if 0 < d then Some d else None)) InvalidDuration) (\<lambda>d.
            if others \<noteq> [] then Inl ConflictingDurations else Inr (Some d)))"

text \<open>Times are nanoseconds; \<open>chrono\<close> limits durations to \<open>i64::MAX\<close> milliseconds and dates to a range.\<close>

definition capability_lease_expires_at :: "(utc \<Rightarrow> bool) \<Rightarrow> approval_record \<Rightarrow> lease_error + utc option" where
  "capability_lease_expires_at in_date_range approval =
     and_then (approved_capability_lease_duration (apr_risk_tags approval)) (\<lambda>duration.
       case duration of
         None \<Rightarrow> Inr None
       | Some d \<Rightarrow>
           and_then (ok_or (apr_decided_at approval) MissingDecisionTime) (\<lambda>start.
             if i64_max div 1000 < int d then Inl DurationOutOfRange
             else if in_date_range (start + int d * 1000000000) then Inr (Some (start + int d * 1000000000))
             else Inl ExpiryOutOfRange))"

definition mark_capability_lease_approved :: "ustring list \<Rightarrow> ustring list" where
  "mark_capability_lease_approved tags = (if approved_tag \<in> set tags then tags else tags @ [approved_tag])"

definition capability_lease_was_approved :: "ustring list \<Rightarrow> bool" where
  "capability_lease_was_approved tags \<longleftrightarrow> approved_tag \<in> set tags"

definition capability_lease_is_session_scoped :: "ustring list \<Rightarrow> bool" where
  "capability_lease_is_session_scoped tags \<longleftrightarrow> capability_lease_scope_risk_tag LeaseSession \<in> set tags"

definition capability_lease_scope :: "ustring list \<Rightarrow> lease_scope \<Rightarrow> lease_scope" where
  "capability_lease_scope tags offered =
     (if capability_lease_scope_risk_tag LeaseSession \<in> set tags then LeaseSession
      else if capability_lease_scope_risk_tag LeaseObjective \<in> set tags then LeaseObjective
      else if capability_lease_scope_risk_tag LeaseThread \<in> set tags then LeaseThread
      else offered)"

definition bind_capability_lease_scope_risk_tags :: "ustring list \<Rightarrow> lease_scope \<Rightarrow> ustring list" where
  "bind_capability_lease_scope_risk_tags tags scope =
     filter (\<lambda>t. t \<noteq> capability_lease_scope_risk_tag LeaseThread \<and> t \<noteq> capability_lease_scope_risk_tag LeaseObjective \<and>
         t \<noteq> capability_lease_scope_risk_tag LeaseSession) tags @ [capability_lease_scope_risk_tag scope]"

section \<open>Laws of capabilities\<close>

lemma lexically_within_refl: "ParentDir \<notin> set (components p) \<Longrightarrow> lexically_within p p"
  by (simp add: lexically_within_def)

lemma lexically_within_trans: "lexically_within p q \<Longrightarrow> lexically_within q r \<Longrightarrow> lexically_within p r"
  unfolding lexically_within_def by (blast intro: path_starts_with_trans)

lemma list_ex_within: "lexically_within p q \<Longrightarrow> list_ex (lexically_within q) rs \<Longrightarrow> list_ex (lexically_within p) rs"
  unfolding list_ex_iff by (blast intro: lexically_within_trans)

lemma is_subset_of_trans:
  assumes "is_subset_of a b" "is_subset_of b c"
  shows "is_subset_of a c"
proof -
  have w: "list_ex (lexically_within p) (cd_write_roots c)" if "list_ex (lexically_within p) (cd_write_roots b)" for p
    using that assms(2) unfolding is_subset_of_def is_subset_with_def list_all_iff
    by (metis list_ex_iff list_ex_within)
  have r: "list_ex (lexically_within p) (cd_read_roots c) \<or> list_ex (lexically_within p) (cd_write_roots c)"
    if "list_ex (lexically_within p) (cd_read_roots b)" for p
    using that assms(2) unfolding is_subset_of_def is_subset_with_def list_all_iff
    by (metis list_ex_iff list_ex_within)
  show ?thesis
    using assms w r unfolding is_subset_of_def is_subset_with_def list_all_iff by fast
qed

lemma is_subset_of_empty: "delta_is_empty d \<Longrightarrow> is_subset_of d granted"
  by (simp add: delta_is_empty_def is_subset_of_def is_subset_with_def)

lemma subset_capabilities_covered:
  assumes "is_subset_of d granted" "\<not> delta_is_empty d"
  shows "reusable_capabilities_cover (reusable_capabilities b granted) (reusable_capabilities a d)"
proof -
  have "cd_network d \<Longrightarrow> cd_network granted" "cd_write_roots d \<noteq> [] \<Longrightarrow> cd_write_roots granted \<noteq> []"
    "cd_read_roots d \<noteq> [] \<Longrightarrow> cd_read_roots granted \<noteq> [] \<or> cd_write_roots granted \<noteq> []"
    "cd_secret_env d \<noteq> [] \<Longrightarrow> cd_secret_env granted \<noteq> []"
    using assms(1) by (fastforce simp: is_subset_of_def is_subset_with_def list_all_iff list_ex_iff neq_Nil_conv [of "cd_read_roots d"]
        neq_Nil_conv [of "cd_write_roots d"] neq_Nil_conv [of "cd_secret_env d"])+
  then show ?thesis
    using assms(2) by (auto simp: reusable_capabilities_def reusable_capabilities_cover_def delta_is_empty_def Let_def)
qed

section \<open>Laws of risk tags\<close>

lemma starts_with_append [simp]: "starts_with (p @ s) p"
  by (induction p) simp_all

lemma scope_tags [simp]:
  "starts_with (capability_lease_scope_risk_tag s) scope_prefix" "\<not> starts_with (capability_lease_scope_risk_tag s) duration_prefix"
  "capability_lease_scope_risk_tag s = capability_lease_scope_risk_tag s' \<longleftrightarrow> s = s'"
  subgoal by (cases s) (simp_all add: scope_prefix_def lit_simps)
  subgoal by (cases s) (simp_all add: duration_prefix_def lit_simps)
  subgoal by (cases s; cases s'; simp)
  done

lemma approved_tag_free [simp]: "\<not> starts_with approved_tag scope_prefix" "\<not> starts_with approved_tag duration_prefix"
  by (simp_all add: approved_tag_def scope_prefix_def duration_prefix_def lit_simps)

lemma bound_scope: "capability_lease_scope (bind_capability_lease_scope_risk_tags tags scope) offered = scope"
  by (cases scope) (auto simp: capability_lease_scope_def bind_capability_lease_scope_risk_tags_def simp del: capability_lease_scope_risk_tag.simps)

lemma no_authority:
  "\<not> capability_lease_was_approved (without_capability_lease_authority tags)"
  "capability_lease_scope (without_capability_lease_authority tags) offered = offered"
  "approved_capability_lease_duration (without_capability_lease_authority tags) = Inr None"
proof -
  have "capability_lease_scope_risk_tag s \<notin> set (without_capability_lease_authority tags)" for s
    by (simp add: without_capability_lease_authority_def del: capability_lease_scope_risk_tag.simps)
  then show "capability_lease_scope (without_capability_lease_authority tags) offered = offered"
    by (simp add: capability_lease_scope_def del: capability_lease_scope_risk_tag.simps)
qed (simp_all add: capability_lease_was_approved_def without_capability_lease_authority_def
    approved_capability_lease_duration_def duration_texts_def)

text \<open>A duration bound to a decision is read back.\<close>

lemma digits_value_decimal: "digits_value (decimal n) = n"
  using undecimal_decimal [of n] by (simp add: digits_value_def)

lemma parse_u64_decimal:
  assumes "n \<le> u64_limit"
  shows "parse_u64 (decimal n) = Some n"
proof -
  have digits: "list_all is_ascii_digit (decimal n)" using decimal_digits [of n] by (auto simp: list_all_iff is_ascii_digit_def)
  obtain c ds where c: "decimal n = c # ds" using decimal_nonempty [of n] by (cases "decimal n") auto
  with digits have "c \<noteq> 43" by (auto simp: is_ascii_digit_def)
  with c have "(case decimal n of c # rest \<Rightarrow> if c = 43 then rest else decimal n | [] \<Rightarrow> []) = decimal n" by simp
  then show ?thesis
    unfolding parse_u64_def Let_def using digits assms by (simp add: digits_value_decimal)
qed

lemma bound_duration:
  assumes "0 < d" "d \<le> u64_limit"
  shows "approved_capability_lease_duration (bind_capability_lease_duration tags d) = Inr (Some d)"
proof -
  have "duration_texts (bind_capability_lease_duration tags d) = [decimal d]"
    by (simp add: duration_texts_def bind_capability_lease_duration_def)
  then show ?thesis
    using assms by (simp add: approved_capability_lease_duration_def parse_u64_decimal ok_or_def and_then_def)
qed

end
