(* ===== verification/Permission_Policy.thy ===== *)
theory Permission_Policy
  imports Capability_Lease
begin

text \<open>
  The permission policy of the runtime (\<open>morphz/src/permission.rs\<close> with the path resolution of
  \<open>morphz/src/sandbox.rs\<close>): modes and profiles, the decision on a path, grants, session overrides,
  and the broker that asks reviewers. The file system and the \<open>glob\<close> crate are parameters; a
  reviewer is a function from requests to answers, and the broker's operations also say whom they
  asked.
\<close>

section \<open>Modes and profiles\<close>

datatype permission_mode = RequestApproval | AutoReview | FullAccess | CustomMode

datatype sandbox_mode = WorkspaceWrite | DangerFullAccess

datatype approval_policy = OnRequest | Never

datatype reviewer_kind = ReviewUser | ReviewAuto | ReviewDeny

datatype shell_environment_policy = RemoveSensitive | InheritAll

definition permission_mode_parse :: "ustring \<Rightarrow> permission_mode option" where
  "permission_mode_parse v =
     (let t = to_ascii_lowercase (trim v) in
      if t \<in> {lit ''request_approval'', lit ''request-approval'', lit ''human''} then Some RequestApproval
      else if t \<in> {lit ''auto_review'', lit ''auto-review'', lit ''auto_approval'', lit ''auto-approval''} then Some AutoReview
      else if t \<in> {lit ''full_access'', lit ''full-access'', lit ''full''} then Some FullAccess
      else if t = lit ''custom'' then Some CustomMode
      else None)"

fun permission_mode_str :: "permission_mode \<Rightarrow> ustring" where
  "permission_mode_str RequestApproval = lit ''request_approval''"
| "permission_mode_str AutoReview = lit ''auto_review''"
| "permission_mode_str FullAccess = lit ''full_access''"
| "permission_mode_str CustomMode = lit ''custom''"

fun mode_preset :: "permission_mode \<Rightarrow> (sandbox_mode \<times> approval_policy \<times> reviewer_kind) option" where
  "mode_preset RequestApproval = Some (WorkspaceWrite, OnRequest, ReviewUser)"
| "mode_preset AutoReview = Some (WorkspaceWrite, OnRequest, ReviewAuto)"
| "mode_preset FullAccess = Some (DangerFullAccess, Never, ReviewDeny)"
| "mode_preset CustomMode = None"

definition from_effective_controls :: "sandbox_mode \<Rightarrow> approval_policy \<Rightarrow> reviewer_kind \<Rightarrow> permission_mode" where
  "from_effective_controls sandbox policy reviewer =
     (if sandbox = DangerFullAccess then FullAccess
      else if policy = OnRequest \<and> reviewer = ReviewAuto then AutoReview
      else if policy = OnRequest \<and> reviewer = ReviewUser then RequestApproval
      else CustomMode)"

definition sandbox_mode_parse :: "ustring \<Rightarrow> sandbox_mode option" where
  "sandbox_mode_parse v =
     (let t = to_ascii_lowercase (trim v) in
      if t \<in> {lit ''workspace-write'', lit ''workspace_write'', lit ''workspace''} then Some WorkspaceWrite
      else if t \<in> {lit ''danger-full-access'', lit ''danger_full_access'', lit ''full-access'', lit ''full_access'', lit ''full''}
        then Some DangerFullAccess
      else None)"

fun sandbox_mode_str :: "sandbox_mode \<Rightarrow> ustring" where
  "sandbox_mode_str WorkspaceWrite = lit ''workspace-write''"
| "sandbox_mode_str DangerFullAccess = lit ''danger-full-access''"

record permission_config =
  pc_mode :: permission_mode
  pc_workspace_root :: path
  pc_read_only_outside_workspace :: bool
  pc_read_roots :: "path list"
  pc_write_roots :: "path list"
  pc_protected_paths :: "ustring list"
  pc_network :: bool
  pc_sandbox_mode :: sandbox_mode
  pc_approval_policy :: approval_policy
  pc_reviewer :: reviewer_kind
  pc_auto_review_model :: "ustring option"
  pc_shell_environment_policy :: shell_environment_policy

definition default_permission_config :: permission_config where
  "default_permission_config =
     \<lparr>pc_mode = AutoReview, pc_workspace_root = lit ''.'', pc_read_only_outside_workspace = True, pc_read_roots = [], pc_write_roots = [],
      pc_protected_paths = map lit [''.env'', ''.env.local'', ''.env.development'', ''.env.development.local'', ''.env.test'',
        ''.env.test.local'', ''.env.production'', ''.env.production.local'', ''.git'', ''.ssh'', ''.morphz/config.toml'',
        ''.morphz/morphz.toml''],
      pc_network = True, pc_sandbox_mode = WorkspaceWrite, pc_approval_policy = OnRequest, pc_reviewer = ReviewAuto,
      pc_auto_review_model = None, pc_shell_environment_policy = RemoveSensitive\<rparr>"

definition config_preset :: "permission_config \<Rightarrow> sandbox_mode \<times> approval_policy \<times> reviewer_kind" where
  "config_preset c =
     (case mode_preset (pc_mode c) of Some p \<Rightarrow> p | None \<Rightarrow> (pc_sandbox_mode c, pc_approval_policy c, pc_reviewer c))"

definition config_effective_mode :: "permission_config \<Rightarrow> permission_mode" where
  "config_effective_mode c =
     (case config_preset c of (sandbox, policy, reviewer) \<Rightarrow> from_effective_controls sandbox policy reviewer)"

record permission_profile =
  pp_mode :: permission_mode
  pp_sandbox_mode :: sandbox_mode
  pp_approval_policy :: approval_policy
  pp_reviewer :: reviewer_kind
  pp_auto_review_model :: "ustring option"
  pp_workspace_root :: path
  pp_read_roots :: "path list"
  pp_write_roots :: "path list"
  pp_protected_paths :: "ustring list"
  pp_workspace_boundary :: bool
  pp_configured_network :: bool
  pp_network :: bool
  pp_shell_environment_policy :: shell_environment_policy

datatype permission_error =
    EmptyReviewModel
  | UnresolvableRoot string path io_error
  | WorkspaceNotDirectory path
  | InvalidGlob ustring
  | EmptyPath
  | UnresolvablePath path io_error
  | NoResolvableAncestor path
  | OutsideBoundary
  | ProtectedOverride path
  | UnresolvablePermissionRoot path io_error
  | PathDenied path
  | CapabilitiesForbidden
  | ReviewFailed ustring
  | LeaseNotOffered
  | ReviewDenied ustring
  | HumanUnavailable ustring

record policy_host =
  ph_fs :: file_system
  ph_glob_valid :: "ustring \<Rightarrow> bool"
  ph_glob_matches :: "ustring \<Rightarrow> ustring \<Rightarrow> bool"

definition push_unique :: "path list \<Rightarrow> path \<Rightarrow> path list" where
  "push_unique ps p = (if list_ex (path_eq p) ps then ps else ps @ [p])"

definition filesystem_root :: "path \<Rightarrow> path" where
  "filesystem_root p = render (last (ancestors (components p)))"

definition canonicalize_existing :: "policy_host \<Rightarrow> path \<Rightarrow> string \<Rightarrow> permission_error + path" where
  "canonicalize_existing host p kind = map_err (UnresolvableRoot kind p) (fs_canonicalize (ph_fs host) p)"

definition from_config :: "policy_host \<Rightarrow> permission_config \<Rightarrow> permission_error + permission_profile" where
  "from_config host c =
     (let model = Option.bind (map_option trim (pc_auto_review_model c)) (\<lambda>m. if m = [] then None else Some m) in
      if pc_auto_review_model c \<noteq> None \<and> model = None then Inl EmptyReviewModel
      else
        and_then (canonicalize_existing host (pc_workspace_root c) ''workspace'') (\<lambda>workspace.
          if \<not> fs_is_dir (ph_fs host) workspace then Inl (WorkspaceNotDirectory workspace)
          else
            (case config_preset c of (sandbox, policy, reviewer) \<Rightarrow>
               let reads = (if pc_read_only_outside_workspace c then push_unique [workspace] (filesystem_root workspace) else [workspace]) in
               and_then (try_fold (\<lambda>rs root. map_ok (push_unique rs) (canonicalize_existing host root ''read root'')) reads (pc_read_roots c))
                 (\<lambda>reads.
                    and_then (try_fold (\<lambda>(rs, ws) root.
                        map_ok (\<lambda>r. (push_unique rs r, push_unique ws r)) (canonicalize_existing host root ''write root''))
                        (reads, [workspace]) (pc_write_roots c))
                      (\<lambda>(reads, writes).
                         case find (\<lambda>p. \<not> ph_glob_valid host p) (pc_protected_paths c) of
                           Some p \<Rightarrow> Inl (InvalidGlob p)
                         | None \<Rightarrow>
                             Inr \<lparr>pp_mode = pc_mode c, pp_sandbox_mode = sandbox, pp_approval_policy = policy, pp_reviewer = reviewer,
                               pp_auto_review_model = model, pp_workspace_root = workspace, pp_read_roots = reads, pp_write_roots = writes,
                               pp_protected_paths = pc_protected_paths c, pp_workspace_boundary = False,
                               pp_configured_network = pc_network c, pp_network = (sandbox = DangerFullAccess \<or> pc_network c),
                               pp_shell_environment_policy = pc_shell_environment_policy c\<rparr>)))))"

definition full_access :: "permission_profile \<Rightarrow> bool" where
  "full_access p \<longleftrightarrow> pp_sandbox_mode p = DangerFullAccess"

definition confine_to_workspace :: "permission_profile \<Rightarrow> permission_profile" where
  "confine_to_workspace p = p\<lparr>pp_workspace_boundary := True\<rparr>"

definition profile_effective_mode :: "permission_profile \<Rightarrow> permission_mode" where
  "profile_effective_mode p = from_effective_controls (pp_sandbox_mode p) (pp_approval_policy p) (pp_reviewer p)"

definition permission_request_available :: "permission_profile \<Rightarrow> bool" where
  "permission_request_available p \<longleftrightarrow> pp_sandbox_mode p = WorkspaceWrite \<and> pp_approval_policy p = OnRequest"

section \<open>Resolving paths\<close>

text \<open>A path that does not exist is anchored at its nearest ancestor that does.\<close>

fun resolve_first :: "file_system \<Rightarrow> path \<Rightarrow> component list list \<Rightarrow> permission_error + path" where
  "resolve_first fs p [] = Inl (NoResolvableAncestor p)"
| "resolve_first fs p (cs # rest) =
     (if fs_exists fs (render cs) then map_err (UnresolvablePath (render cs)) (fs_canonicalize fs (render cs))
      else resolve_first fs p rest)"

definition resolve_existing_or_parent :: "file_system \<Rightarrow> path \<Rightarrow> permission_error + path" where
  "resolve_existing_or_parent fs p =
     (if fs_exists fs p then map_err (UnresolvablePath p) (fs_canonicalize fs p)
      else resolve_first fs p (ancestors (case parent_components (components p) of Some cs \<Rightarrow> cs | None \<Rightarrow> [CurDir])))"

datatype sandbox_error = NoCurrentDir ustring | DanglingLink path | ResolveFailed path io_error | NoAncestor path | NotNormalizable path

fun lexical_step :: "component list option \<Rightarrow> component \<Rightarrow> component list option" where
  "lexical_step None c = None"
| "lexical_step (Some cs) RootDir = Some [RootDir]"
| "lexical_step (Some cs) CurDir = Some cs"
| "lexical_step (Some cs) ParentDir = parent_components cs"
| "lexical_step (Some cs) (Normal s) = Some (cs @ [Normal s])"

definition make_absolute :: "file_system \<Rightarrow> path \<Rightarrow> sandbox_error + path" where
  "make_absolute fs p =
     (if is_absolute p then Inr p else map_ok (\<lambda>d. path_join d p) (map_err NoCurrentDir (fs_current_dir fs)))"

definition absolute_lexical_path :: "file_system \<Rightarrow> path \<Rightarrow> sandbox_error + path" where
  "absolute_lexical_path fs p =
     and_then (make_absolute fs p) (\<lambda>a.
       map_ok render (ok_or (foldl lexical_step (Some []) (components a)) (NotNormalizable p)))"

fun resolve_denied_from :: "file_system \<Rightarrow> path \<Rightarrow> component list \<Rightarrow> component list list \<Rightarrow> sandbox_error + path" where
  "resolve_denied_from fs p whole [] = Inl (NoAncestor p)"
| "resolve_denied_from fs p whole (cs # rest) =
     (case fs_canonicalize fs (render cs) of
        Inr canonical \<Rightarrow> absolute_lexical_path fs (path_join canonical (render (drop (length cs) whole)))
      | Inl IoNotFound \<Rightarrow>
          (case fs_is_symlink fs (render cs) of
             Inr True \<Rightarrow> Inl (DanglingLink p)
           | Inr False \<Rightarrow> resolve_denied_from fs p whole rest
           | Inl IoNotFound \<Rightarrow> resolve_denied_from fs p whole rest
           | Inl e \<Rightarrow> Inl (ResolveFailed p e))
      | Inl e \<Rightarrow> Inl (ResolveFailed p e))"

definition resolve_denied_path :: "file_system \<Rightarrow> path \<Rightarrow> sandbox_error + path" where
  "resolve_denied_path fs p =
     and_then (make_absolute fs p) (\<lambda>a. resolve_denied_from fs p (components a) (ancestors (components a)))"

section \<open>Protected paths\<close>

definition has_glob_metacharacters :: "ustring \<Rightarrow> bool" where
  "has_glob_metacharacters v \<longleftrightarrow> list_ex (\<lambda>c. c \<in> {42, 63, 91, 93}) v"

definition literal_match :: "path \<Rightarrow> path \<Rightarrow> bool" where
  "literal_match p protected \<longleftrightarrow>
     list_ex (\<lambda>a. if is_absolute protected then a = components protected else suffix (components protected) a)
       (ancestors (components p))"

definition slash_path :: "path \<Rightarrow> ustring" where
  "slash_path p = map (\<lambda>c. if c = 92 then slash else c) p"

definition glob_match :: "policy_host \<Rightarrow> ustring \<Rightarrow> path \<Rightarrow> bool" where
  "glob_match host pattern p \<longleftrightarrow>
     ph_glob_matches host pattern (slash_path p) \<or>
     ph_glob_matches host pattern (dropWhile (\<lambda>c. c = slash) (slash_path p)) \<or>
     (case file_name p of Some name \<Rightarrow> ph_glob_matches host pattern name | None \<Rightarrow> False)"

definition path_matches_pattern :: "policy_host \<Rightarrow> path \<Rightarrow> path \<Rightarrow> ustring \<Rightarrow> bool" where
  "path_matches_pattern host candidate resolved pattern \<longleftrightarrow>
     (if \<not> has_glob_metacharacters pattern
      then
        (if literal_match candidate pattern \<or> literal_match resolved pattern \<or> \<not> is_absolute pattern
         then literal_match candidate pattern \<or> literal_match resolved pattern
         else
           (case (resolve_denied_path (ph_fs host) pattern, resolve_denied_path (ph_fs host) candidate) of
              (Inr protected, Inr place) \<Rightarrow> path_starts_with place protected
            | _ \<Rightarrow> True))
      else if \<not> ph_glob_valid host pattern then True
      else glob_match host pattern candidate \<or> glob_match host pattern resolved)"

section \<open>The decision on a path\<close>

record resolved_path =
  rp_candidate :: path
  rp_anchor :: path
  rp_protected :: bool

datatype filesystem_access = ReadAccess | WriteAccess

fun access_str :: "filesystem_access \<Rightarrow> ustring" where
  "access_str ReadAccess = lit ''read''"
| "access_str WriteAccess = lit ''write''"

datatype path_decision = PathAllowed path | PathNeedsApproval path path | PathRefused path

definition candidate_path :: "permission_profile \<Rightarrow> ustring \<Rightarrow> path" where
  "candidate_path profile input =
     (if is_absolute (trim input) then trim input else path_join (pp_workspace_root profile) (trim input))"

definition resolve_candidate :: "policy_host \<Rightarrow> permission_profile \<Rightarrow> ustring \<Rightarrow> permission_error + resolved_path" where
  "resolve_candidate host profile input =
     (if trim input = [] then Inl EmptyPath
      else
        let candidate = candidate_path profile input in
        and_then (resolve_existing_or_parent (ph_fs host) candidate) (\<lambda>anchor.
          if pp_workspace_boundary profile \<and> \<not> path_starts_with anchor (pp_workspace_root profile) then Inl OutsideBoundary
          else
            Inr \<lparr>rp_candidate = candidate, rp_anchor = anchor,
              rp_protected = ((\<not> full_access profile \<or> pp_workspace_boundary profile) \<and>
                list_ex (path_matches_pattern host candidate anchor) (pp_protected_paths profile))\<rparr>))"

definition access_roots :: "permission_profile \<Rightarrow> filesystem_access \<Rightarrow> path list" where
  "access_roots profile access = (case access of ReadAccess \<Rightarrow> pp_read_roots profile | WriteAccess \<Rightarrow> pp_write_roots profile)"

definition inspect_path ::
  "policy_host \<Rightarrow> permission_profile \<Rightarrow> ustring \<Rightarrow> filesystem_access \<Rightarrow> permission_error + path_decision" where
  "inspect_path host profile input access =
     map_ok (\<lambda>r.
         if full_access profile \<and> \<not> pp_workspace_boundary profile then PathAllowed (rp_candidate r)
         else if rp_protected r then PathRefused (rp_candidate r)
         else if list_ex (path_starts_with (rp_anchor r)) (access_roots profile access) then PathAllowed (rp_candidate r)
         else PathNeedsApproval (rp_candidate r) (rp_anchor r))
       (resolve_candidate host profile input)"

definition canonical_permission_root :: "policy_host \<Rightarrow> permission_profile \<Rightarrow> ustring \<Rightarrow> permission_error + path" where
  "canonical_permission_root host profile input =
     and_then (resolve_candidate host profile input) (\<lambda>r.
       if rp_protected r then Inl (ProtectedOverride (rp_candidate r))
       else map_err (UnresolvablePermissionRoot (rp_candidate r)) (fs_canonicalize (ph_fs host) (rp_candidate r)))"

definition path_allowed :: "policy_host \<Rightarrow> permission_profile \<Rightarrow> path \<Rightarrow> filesystem_access \<Rightarrow> bool" where
  "path_allowed host profile p access \<longleftrightarrow> (case inspect_path host profile p access of Inr (PathAllowed _) \<Rightarrow> True | _ \<Rightarrow> False)"

section \<open>What the native sandbox is told\<close>

definition is_filesystem_root :: "path \<Rightarrow> bool" where
  "is_filesystem_root p \<longleftrightarrow> path_eq (filesystem_root p) p"

definition sandbox_protected_paths :: "permission_profile \<Rightarrow> path list \<Rightarrow> path list" where
  "sandbox_protected_paths profile roots =
     foldl (\<lambda>paths protected.
         if has_glob_metacharacters protected then paths
         else if is_absolute protected then push_unique paths protected
         else foldl (\<lambda>paths root. if is_filesystem_root root then paths else push_unique paths (path_join root protected)) paths roots)
       [] (pp_protected_paths profile)"

record sandbox_path_pattern =
  sp_root :: path
  sp_glob :: ustring

definition push_unique_sandbox_pattern :: "sandbox_path_pattern list \<Rightarrow> sandbox_path_pattern \<Rightarrow> sandbox_path_pattern list" where
  "push_unique_sandbox_pattern rs r =
     (if list_ex (\<lambda>x. path_eq (sp_root x) (sp_root r) \<and> sp_glob x = sp_glob r) rs then rs else rs @ [r])"

definition sandbox_protected_patterns :: "permission_profile \<Rightarrow> path list \<Rightarrow> sandbox_path_pattern list" where
  "sandbox_protected_patterns profile roots =
     foldl (\<lambda>rules pattern.
         if \<not> has_glob_metacharacters pattern then rules
         else if is_absolute pattern
         then push_unique_sandbox_pattern rules
           \<lparr>sp_root = filesystem_root pattern, sp_glob = slash_path (unrooted_text pattern)\<rparr>
         else foldl (\<lambda>rules root. push_unique_sandbox_pattern rules \<lparr>sp_root = root, sp_glob = slash_path pattern\<rparr>) rules roots)
       [] (pp_protected_paths profile)"

end
