(* ===== verification/Permission_Broker.thy ===== *)
theory Permission_Broker
  imports Permission_Policy
begin

text \<open>
  The permission broker (\<open>PermissionBroker\<close> of \<open>morphz/src/permission.rs\<close>): overrides per session, the
  digest of the effective policy, requirements, and authorization by a durable grant or a reviewer.
  The session of the current task and the grant it runs under, task-local variables of the code,
  are arguments.
\<close>

section \<open>Grants and requests\<close>

record durable_grant =
  dg_approval_id :: ustring
  dg_grant_id :: ustring
  dg_policy_digest :: ustring
  dg_action :: approval_action
  dg_requested :: capability_delta

definition contains_path :: "path list \<Rightarrow> path \<Rightarrow> bool" where
  "contains_path ps p \<longleftrightarrow> list_ex (path_eq p) ps"

fun action_matches :: "approval_action \<Rightarrow> approval_action \<Rightarrow> bool" where
  "action_matches (ShellAction granted_command granted_cwd) (ShellAction command cwd) \<longleftrightarrow>
     granted_command = command \<and> path_eq granted_cwd cwd"
| "action_matches (ToolOperation granted_tool granted_operation granted_target) (ToolOperation tool operation target) \<longleftrightarrow>
     granted_tool = tool \<and> granted_operation = operation \<and>
     (case granted_target of None \<Rightarrow> True | Some g \<Rightarrow> (case target of Some t \<Rightarrow> path_eq g t | None \<Rightarrow> False))"
| "action_matches _ _ \<longleftrightarrow> False"

definition covers :: "durable_grant \<Rightarrow> approval_action \<Rightarrow> capability_delta \<Rightarrow> ustring \<Rightarrow> bool" where
  "covers g action requested digest \<longleftrightarrow>
     dg_policy_digest g = digest \<and> action_matches (dg_action g) action \<and>
     (cd_network requested \<longrightarrow> cd_network (dg_requested g)) \<and>
     list_all (contains_path (cd_read_roots (dg_requested g))) (cd_read_roots requested) \<and>
     list_all (contains_path (cd_write_roots (dg_requested g))) (cd_write_roots requested) \<and>
     list_all (\<lambda>n. n \<in> set (cd_secret_env (dg_requested g))) (cd_secret_env requested)"

record lease_offer =
  lo_principal_id :: ustring
  lo_agent_id :: ustring
  lo_session_id :: ustring
  lo_thread_id :: ustring
  lo_scope :: lease_scope
  lo_scope_id :: ustring
  lo_objective_id :: "ustring option"
  lo_target_id :: ustring
  lo_capability :: ustring
  lo_capabilities :: "ustring list"
  lo_requested :: capability_delta
  lo_policy_digest :: ustring
  lo_duration_secs :: nat

definition effective_capabilities :: "lease_offer \<Rightarrow> ustring list" where
  "effective_capabilities offer = (if lo_capabilities offer = [] then [lo_capability offer] else lo_capabilities offer)"

record approval_request =
  aq_approval_id :: ustring
  aq_context_id :: ustring
  aq_session_id :: ustring
  aq_attempt_id :: ustring
  aq_thread_id :: ustring
  aq_root_turn_id :: ustring
  aq_trigger_event_id :: ustring
  aq_trigger_sequence :: nat
  aq_model_alias :: "ustring option"
  aq_action :: approval_action
  aq_requested :: capability_delta
  aq_justification :: ustring
  aq_lease_offer :: "lease_offer option"

record approval_requirement =
  ar_action :: approval_action
  ar_requested :: capability_delta
  ar_justification :: ustring
  ar_requested_scope :: approval_scope

record approval_context =
  ac_context_id :: ustring
  ac_session_id :: ustring
  ac_attempt_id :: ustring
  ac_thread_id :: ustring
  ac_root_turn_id :: ustring
  ac_trigger_event_id :: ustring
  ac_trigger_sequence :: nat

section \<open>Sessions\<close>

type_synonym reviewer = "approval_request \<Rightarrow> ustring + approval_decision"

record permission_broker =
  pb_profile :: permission_profile
  pb_auto_review_model :: "ustring option"
  pb_sandbox_modes :: "ustring \<rightharpoonup> sandbox_mode"
  pb_permission_modes :: "ustring \<rightharpoonup> permission_mode"

definition broker_new :: "permission_profile \<Rightarrow> permission_broker" where
  "broker_new profile =
     \<lparr>pb_profile = profile, pb_auto_review_model = pp_auto_review_model profile, pb_sandbox_modes = Map.empty,
      pb_permission_modes = Map.empty\<rparr>"

definition set_session_permission_mode :: "ustring \<Rightarrow> permission_mode option \<Rightarrow> permission_broker \<Rightarrow> permission_broker" where
  "set_session_permission_mode session mode b = b\<lparr>pb_permission_modes := (pb_permission_modes b)(session := mode)\<rparr>"

definition set_session_sandbox_mode :: "ustring \<Rightarrow> sandbox_mode option \<Rightarrow> permission_broker \<Rightarrow> permission_broker" where
  "set_session_sandbox_mode session mode b = b\<lparr>pb_sandbox_modes := (pb_sandbox_modes b)(session := mode)\<rparr>"

definition set_auto_review_model :: "ustring option \<Rightarrow> permission_broker \<Rightarrow> permission_broker" where
  "set_auto_review_model model b = b\<lparr>pb_auto_review_model := model\<rparr>"

definition effective_network :: "permission_profile \<Rightarrow> sandbox_mode \<Rightarrow> bool" where
  "effective_network profile mode = (case mode of DangerFullAccess \<Rightarrow> True | WorkspaceWrite \<Rightarrow> pp_configured_network profile)"

definition profile_with_overrides :: "permission_broker \<Rightarrow> permission_mode option \<Rightarrow> sandbox_mode option \<Rightarrow> permission_profile" where
  "profile_with_overrides b permission sandbox =
     (let profile = pb_profile b in
      case permission of
        Some mode \<Rightarrow>
          (case mode_preset mode of
             None \<Rightarrow> profile
           | Some (box, policy, reviewer) \<Rightarrow>
               if mode = pp_mode profile \<and> box = pp_sandbox_mode profile then profile
               else profile\<lparr>pp_mode := mode, pp_sandbox_mode := box, pp_approval_policy := policy, pp_reviewer := reviewer,
                 pp_network := effective_network profile box\<rparr>)
      | None \<Rightarrow>
          (case sandbox of
             None \<Rightarrow> profile
           | Some box \<Rightarrow>
               if box = pp_sandbox_mode profile then profile
               else profile\<lparr>pp_mode := CustomMode, pp_sandbox_mode := box, pp_network := effective_network profile box\<rparr>))"

definition profile_for_session :: "permission_broker \<Rightarrow> ustring \<Rightarrow> permission_profile" where
  "profile_for_session b session = profile_with_overrides b (pb_permission_modes b session) (pb_sandbox_modes b session)"

definition current_profile :: "permission_broker \<Rightarrow> ustring option \<Rightarrow> permission_profile" where
  "current_profile b session =
     (case session of Some s \<Rightarrow> profile_for_session b s | None \<Rightarrow> profile_with_overrides b None None)"

fun approval_policy_str :: "approval_policy \<Rightarrow> string" where
  "approval_policy_str OnRequest = ''on_request''"
| "approval_policy_str Never = ''never''"

fun reviewer_kind_str :: "reviewer_kind \<Rightarrow> string" where
  "reviewer_kind_str ReviewUser = ''user''"
| "reviewer_kind_str ReviewAuto = ''auto_review''"
| "reviewer_kind_str ReviewDeny = ''deny''"

fun shell_policy_str :: "shell_environment_policy \<Rightarrow> string" where
  "shell_policy_str RemoveSensitive = ''remove_sensitive''"
| "shell_policy_str InheritAll = ''inherit_all''"

definition policy_material :: "permission_profile \<Rightarrow> ustring option \<Rightarrow> json" where
  "policy_material profile model =
     jobj ([(''mode'', JString (permission_mode_str (pp_mode profile))),
        (''sandbox_mode'', JString (sandbox_mode_str (pp_sandbox_mode profile))),
        (''approval_policy'', text_json (approval_policy_str (pp_approval_policy profile))),
        (''reviewer'', text_json (reviewer_kind_str (pp_reviewer profile))),
        (''auto_review_model'', opt_text_json model), (''workspace_root'', JString (pp_workspace_root profile)),
        (''read_roots'', JArray (map JString (pp_read_roots profile))), (''write_roots'', JArray (map JString (pp_write_roots profile))),
        (''protected_paths'', JArray (map JString (pp_protected_paths profile))), (''network'', JBool (pp_network profile)),
        (''shell_environment_policy'', text_json (shell_policy_str (pp_shell_environment_policy profile)))] @
       (if pp_workspace_boundary profile then [(''workspace_boundary'', JBool True)] else []))"

definition policy_digest :: "(json \<Rightarrow> ustring) \<Rightarrow> permission_broker \<Rightarrow> ustring option \<Rightarrow> ustring" where
  "policy_digest json_sha b session =
     lit ''policy_'' @ json_sha (policy_material (current_profile b session) (pb_auto_review_model b))"

definition pending_approval_status :: "permission_broker \<Rightarrow> ustring option \<Rightarrow> approval_status" where
  "pending_approval_status b session =
     (case pp_reviewer (current_profile b session) of ReviewUser \<Rightarrow> ApprovalPendingHuman | _ \<Rightarrow> ApprovalPendingAuto)"

section \<open>Review\<close>

datatype consulted = Automatic | Human

definition review_automatic :: "reviewer \<Rightarrow> approval_request \<Rightarrow> ustring + approval_decision" where
  "review_automatic automatic request =
     map_ok (\<lambda>d.
         case (d, aq_lease_offer request) of
           (AllowLease rationale tags, Some offer) \<Rightarrow> AllowLease rationale (bind_capability_lease_scope_risk_tags tags (lo_scope offer))
         | _ \<Rightarrow> d)
       (automatic request)"

definition review ::
  "reviewer \<Rightarrow> reviewer \<Rightarrow> permission_profile \<Rightarrow> approval_request \<Rightarrow> (ustring + approval_decision) \<times> consulted list" where
  "review automatic human profile request =
     (case pp_reviewer profile of
        ReviewUser \<Rightarrow> (human request, [Human])
      | ReviewAuto \<Rightarrow>
          (case review_automatic automatic request of
             Inr (AskHuman _ _) \<Rightarrow> (human request, [Automatic, Human])
           | Inr d \<Rightarrow> (Inr d, [Automatic])
           | Inl _ \<Rightarrow> (human request, [Automatic, Human]))
      | ReviewDeny \<Rightarrow>
          (Inr (Deny (lit ''the current permission Profile forbids capability expansion'') [lit ''permission_profile_deny'']), []))"

definition path_delta :: "filesystem_access \<Rightarrow> path \<Rightarrow> capability_delta" where
  "path_delta access anchor =
     (case access of ReadAccess \<Rightarrow> no_delta\<lparr>cd_read_roots := [anchor]\<rparr> | WriteAccess \<Rightarrow> no_delta\<lparr>cd_write_roots := [anchor]\<rparr>)"

definition approval_requirement_for_path ::
  "policy_host \<Rightarrow> permission_profile \<Rightarrow> ustring \<Rightarrow> filesystem_access \<Rightarrow> ustring \<Rightarrow> ustring \<Rightarrow>
    permission_error + path \<times> approval_requirement option" where
  "approval_requirement_for_path host profile input access tool operation =
     and_then (inspect_path host profile input access) (\<lambda>decision.
       case decision of
         PathAllowed p \<Rightarrow> Inr (p, None)
       | PathRefused p \<Rightarrow> Inl (PathDenied p)
       | PathNeedsApproval candidate anchor \<Rightarrow>
           if pp_approval_policy profile = Never then Inl CapabilitiesForbidden
           else Inr (candidate, Some
             \<lparr>ar_action = ToolOperation tool operation (Some candidate), ar_requested = path_delta access anchor,
              ar_justification = lit ''tool '' @ tool @ lit '' requires '' @ access_str access @ lit '' access to '' @ [39] @ candidate @ [39],
              ar_requested_scope = ScopeThread\<rparr>))"

definition approval_requirement_for_delta ::
  "permission_profile \<Rightarrow> approval_action \<Rightarrow> capability_delta \<Rightarrow> ustring \<Rightarrow> permission_error + approval_requirement option" where
  "approval_requirement_for_delta profile action requested justification =
     (if delta_is_empty requested \<or> full_access profile then Inr None
      else if pp_approval_policy profile = Never then Inl CapabilitiesForbidden
      else Inr (Some \<lparr>ar_action = action, ar_requested = requested, ar_justification = justification, ar_requested_scope = ScopeThread\<rparr>))"

definition nonempty :: "ustring \<Rightarrow> string \<Rightarrow> ustring" where
  "nonempty v fallback = (if trim v = [] then lit fallback else v)"

definition direct_request :: "ustring \<Rightarrow> approval_context \<Rightarrow> approval_action \<Rightarrow> capability_delta \<Rightarrow> ustring \<Rightarrow> approval_request" where
  "direct_request ident c action requested justification =
     \<lparr>aq_approval_id = ident, aq_context_id = nonempty (ac_context_id c) ''default-context'',
      aq_session_id = nonempty (ac_session_id c) ''default-session'', aq_attempt_id = nonempty (ac_attempt_id c) ''unknown-attempt'',
      aq_thread_id = nonempty (ac_thread_id c) ''unknown-thread'', aq_root_turn_id = nonempty (ac_root_turn_id c) ''unknown-root-turn'',
      aq_trigger_event_id = nonempty (ac_trigger_event_id c) ''unknown-trigger'', aq_trigger_sequence = ac_trigger_sequence c,
      aq_model_alias = None, aq_action = action, aq_requested = requested, aq_justification = justification, aq_lease_offer = None\<rparr>"

text \<open>What an authorization depends on: the broker, the task's session and grant, the reviewers and a fresh identity.\<close>

record authority =
  au_broker :: permission_broker
  au_session :: "ustring option"
  au_grant :: "durable_grant option"
  au_automatic :: reviewer
  au_human :: reviewer
  au_json_sha :: "json \<Rightarrow> ustring"
  au_fresh_id :: ustring

definition authorize_delta ::
  "authority \<Rightarrow> approval_action \<Rightarrow> capability_delta \<Rightarrow> ustring \<Rightarrow> approval_context \<Rightarrow> (permission_error + unit) \<times> consulted list" where
  "authorize_delta au action requested justification c =
     (let profile = current_profile (au_broker au) (au_session au) in
      if delta_is_empty requested \<or> full_access profile then (Inr (), [])
      else if pp_approval_policy profile = Never then (Inl CapabilitiesForbidden, [])
      else if (case au_grant au of
                 Some g \<Rightarrow> covers g action requested (policy_digest (au_json_sha au) (au_broker au) (au_session au))
               | None \<Rightarrow> False)
        then (Inr (), [])
      else
        (case review (au_automatic au) (au_human au) profile (direct_request (au_fresh_id au) c action requested justification) of
           (Inl e, asked) \<Rightarrow> (Inl (ReviewFailed e), asked)
         | (Inr (AllowOnce _ _), asked) \<Rightarrow> (Inr (), asked)
         | (Inr (AllowLease _ _), asked) \<Rightarrow> (Inl LeaseNotOffered, asked)
         | (Inr (Deny rationale _), asked) \<Rightarrow> (Inl (ReviewDenied rationale), asked)
         | (Inr (AskHuman rationale _), asked) \<Rightarrow> (Inl (HumanUnavailable rationale), asked)))"

definition authorize_path ::
  "policy_host \<Rightarrow> authority \<Rightarrow> ustring \<Rightarrow> filesystem_access \<Rightarrow> ustring \<Rightarrow> ustring \<Rightarrow> approval_context \<Rightarrow>
    (permission_error + path) \<times> consulted list" where
  "authorize_path host au input access tool operation c =
     (case approval_requirement_for_path host (current_profile (au_broker au) (au_session au)) input access tool operation of
        Inl e \<Rightarrow> (Inl e, [])
      | Inr (candidate, None) \<Rightarrow> (Inr candidate, [])
      | Inr (candidate, Some r) \<Rightarrow>
          (case authorize_delta au (ar_action r) (ar_requested r) (ar_justification r) c of
             (result, asked) \<Rightarrow> (map_ok (\<lambda>_. candidate) result, asked)))"

end
