(* ===== verification/Permission_Safety.thy ===== *)
theory Permission_Safety
  imports Permission_Broker
begin

text \<open>
  What the permission policy promises: the exact condition under which a path is allowed, that a
  protected path is refused to every reviewer, what an authorization rests on, and that overrides
  of a session stay in it.
\<close>

section \<open>Round trips of the modes\<close>

lemmas parse_simps = trim_def trim_start_def Let_def chr_def to_ascii_lowercase_def lit_simps is_whitespace_def

lemma permission_mode_roundtrip: "permission_mode_parse (permission_mode_str m) = Some m"
  by (cases m) (simp_all add: permission_mode_parse_def parse_simps)

lemma sandbox_mode_roundtrip: "sandbox_mode_parse (sandbox_mode_str m) = Some m"
  by (cases m) (simp_all add: sandbox_mode_parse_def parse_simps)

lemma preset_effective_mode: "mode_preset m = Some (box, policy, reviewer) \<Longrightarrow> from_effective_controls box policy reviewer = m"
  by (cases m) (auto simp: from_effective_controls_def)

lemma configured_mode: "pc_mode c \<noteq> CustomMode \<Longrightarrow> config_effective_mode c = pc_mode c"
  by (cases "pc_mode c") (simp_all add: config_effective_mode_def config_preset_def from_effective_controls_def)

section \<open>Protected trees\<close>

lemma in_tl: "x \<in> set (tl xs) \<Longrightarrow> x \<in> set xs"
  by (cases xs) simp_all

lemma components_root_first: "RootDir \<notin> set (tl (components p))"
proof -
  have "RootDir \<notin> set (concat (map part_component (split_at slash p)))" by (auto simp: part_component_def)
  then show ?thesis by (auto simp: components_def simp del: set_concat dest: in_tl)
qed

lemma ancestors_append: "as \<in> set (ancestors cs) \<Longrightarrow> RootDir \<notin> set ds \<Longrightarrow> as \<in> set (ancestors (cs @ ds))"
proof (induction ds rule: rev_induct)
  case (snoc d ds)
  have "parent_components (cs @ ds @ [d]) = Some (cs @ ds)"
    using snoc.prems by (auto simp: parent_components_def split: component.splits)
  then show ?case using snoc by (simp add: ancestors.simps [of "cs @ ds @ [d]"])
qed simp

text \<open>A literal rule that matches a path matches everything below it.\<close>

lemma literal_match_below:
  assumes "path_starts_with q p" "components p \<noteq> []" "literal_match p rule"
  shows "literal_match q rule"
proof -
  obtain ds where ds: "components q = components p @ ds" using assms(1) by (auto simp: path_starts_with_def prefix_def)
  have "RootDir \<notin> set ds" using components_root_first [of q] assms(2) ds by (cases "components p") auto
  then show ?thesis using assms(3) ds by (auto simp: literal_match_def list_ex_iff intro: ancestors_append)
qed

section \<open>The decision\<close>

definition unconfined :: "permission_profile \<Rightarrow> bool" where
  "unconfined profile \<longleftrightarrow> full_access profile \<and> \<not> pp_workspace_boundary profile"

definition protected_by :: "policy_host \<Rightarrow> permission_profile \<Rightarrow> path \<Rightarrow> path \<Rightarrow> bool" where
  "protected_by host profile candidate anchor \<longleftrightarrow> list_ex (path_matches_pattern host candidate anchor) (pp_protected_paths profile)"

lemma resolve_candidate_iff:
  "resolve_candidate host profile input = Inr r \<longleftrightarrow>
     trim input \<noteq> [] \<and> rp_candidate r = candidate_path profile input \<and>
     resolve_existing_or_parent (ph_fs host) (candidate_path profile input) = Inr (rp_anchor r) \<and>
     (pp_workspace_boundary profile \<longrightarrow> path_starts_with (rp_anchor r) (pp_workspace_root profile)) \<and>
     (rp_protected r \<longleftrightarrow> \<not> unconfined profile \<and> protected_by host profile (candidate_path profile input) (rp_anchor r))"
  by (cases r)
    (auto simp: resolve_candidate_def and_then_Inr_iff Let_def unconfined_def protected_by_def split: if_splits)

lemma inspect_allowed_iff:
  "inspect_path host profile input access = Inr (PathAllowed p) \<longleftrightarrow>
     trim input \<noteq> [] \<and> p = candidate_path profile input \<and>
     (\<exists>anchor. resolve_existing_or_parent (ph_fs host) p = Inr anchor \<and>
        (pp_workspace_boundary profile \<longrightarrow> path_starts_with anchor (pp_workspace_root profile)) \<and>
        (unconfined profile \<or>
         \<not> protected_by host profile p anchor \<and> (\<exists>root \<in> set (access_roots profile access). path_starts_with anchor root)))"
proof -
  have "inspect_path host profile input access = Inr (PathAllowed p) \<longleftrightarrow>
      (\<exists>r. resolve_candidate host profile input = Inr r \<and> p = rp_candidate r \<and>
         (unconfined profile \<or> \<not> rp_protected r \<and> (\<exists>root \<in> set (access_roots profile access). path_starts_with (rp_anchor r) root)))"
    by (auto simp: inspect_path_def map_ok_Inr_iff unconfined_def list_ex_iff split: if_splits)
  also have "\<dots> \<longleftrightarrow> trim input \<noteq> [] \<and> p = candidate_path profile input \<and>
     (\<exists>anchor. resolve_existing_or_parent (ph_fs host) p = Inr anchor \<and>
        (pp_workspace_boundary profile \<longrightarrow> path_starts_with anchor (pp_workspace_root profile)) \<and>
        (unconfined profile \<or>
         \<not> protected_by host profile p anchor \<and> (\<exists>root \<in> set (access_roots profile access). path_starts_with anchor root)))"
    (is "?l \<longleftrightarrow> ?r")
  proof
    show "?l \<Longrightarrow> ?r" by (auto simp: resolve_candidate_iff)
  next
    assume ?r
    then obtain anchor where
      "resolve_candidate host profile input = Inr \<lparr>rp_candidate = p, rp_anchor = anchor,
         rp_protected = (\<not> unconfined profile \<and> protected_by host profile p anchor)\<rparr>"
      "unconfined profile \<or> \<not> protected_by host profile p anchor \<and> (\<exists>root \<in> set (access_roots profile access). path_starts_with anchor root)"
      by (auto simp: resolve_candidate_iff)
    then show ?l by fastforce
  qed
  finally show ?thesis .
qed

lemma path_allowed_iff: "path_allowed host profile input access \<longleftrightarrow> (\<exists>p. inspect_path host profile input access = Inr (PathAllowed p))"
  by (auto simp: path_allowed_def split: sum.splits path_decision.splits)

lemma inspect_protected:
  assumes "\<not> unconfined profile" "resolve_existing_or_parent (ph_fs host) (candidate_path profile input) = Inr anchor"
    "protected_by host profile (candidate_path profile input) anchor"
  shows "inspect_path host profile input access \<in> {Inl EmptyPath, Inl OutsideBoundary, Inr (PathRefused (candidate_path profile input))}"
  using assms by (auto simp: inspect_path_def resolve_candidate_def Let_def unconfined_def protected_by_def list_ex_iff)

lemma inspect_needs_approval:
  assumes "inspect_path host profile input access = Inr (PathNeedsApproval p anchor)"
  shows "p = candidate_path profile input" "\<not> unconfined profile" "resolve_existing_or_parent (ph_fs host) p = Inr anchor"
    "\<not> protected_by host profile p anchor"
proof -
  obtain r where "resolve_candidate host profile input = Inr r" "rp_candidate r = p" "rp_anchor r = anchor" "\<not> unconfined profile"
      "\<not> rp_protected r"
    using assms by (auto simp: inspect_path_def map_ok_Inr_iff unconfined_def split: if_splits)
  then show "p = candidate_path profile input" "\<not> unconfined profile" "resolve_existing_or_parent (ph_fs host) p = Inr anchor"
    "\<not> protected_by host profile p anchor" by (auto simp: resolve_candidate_iff)
qed

section \<open>Authorization\<close>

text \<open>Whoever reviews, a protected path is refused before a reviewer is asked.\<close>

lemma protected_refused:
  assumes "current_profile (au_broker au) (au_session au) = profile" "\<not> unconfined profile"
    "resolve_existing_or_parent (ph_fs host) (candidate_path profile input) = Inr anchor"
    "protected_by host profile (candidate_path profile input) anchor"
  shows "\<exists>e. authorize_path host au input access tool operation c = (Inl e, [])"
  using inspect_protected [OF assms(2-4), of access] assms(1)
  by (auto simp: authorize_path_def approval_requirement_for_path_def)

text \<open>The answers that count as a permission: the reviewer the profile names, or the human after it.\<close>

fun reviewed_by :: "authority \<Rightarrow> permission_profile \<Rightarrow> approval_request \<Rightarrow> consulted list \<Rightarrow> bool" where
  "reviewed_by au profile request [Human] \<longleftrightarrow>
     pp_reviewer profile = ReviewUser \<and> (\<exists>why tags. au_human au request = Inr (AllowOnce why tags))"
| "reviewed_by au profile request [Automatic] \<longleftrightarrow>
     pp_reviewer profile = ReviewAuto \<and> (\<exists>why tags. au_automatic au request = Inr (AllowOnce why tags))"
| "reviewed_by au profile request [Automatic, Human] \<longleftrightarrow>
     pp_reviewer profile = ReviewAuto \<and> (\<exists>why tags. au_human au request = Inr (AllowOnce why tags)) \<and>
     (\<forall>d. au_automatic au request = Inr d \<longrightarrow> (\<exists>why tags. d = AskHuman why tags))"
| "reviewed_by au profile request _ \<longleftrightarrow> False"

lemma automatic_keeps_allow_once: "review_automatic automatic request = Inr (AllowOnce why tags) \<longleftrightarrow> automatic request = Inr (AllowOnce why tags)"
  by (cases "automatic request"; cases "projr (automatic request)"; cases "aq_lease_offer request") (auto simp: review_automatic_def)

lemma automatic_keeps_ask_human: "review_automatic automatic request = Inr (AskHuman why tags) \<longleftrightarrow> automatic request = Inr (AskHuman why tags)"
  by (cases "automatic request"; cases "projr (automatic request)"; cases "aq_lease_offer request") (auto simp: review_automatic_def)

lemma automatic_fails: "review_automatic automatic request = Inl e \<longleftrightarrow> automatic request = Inl e"
  by (cases "automatic request") (simp_all add: review_automatic_def)

lemma review_allows_once:
  assumes "review (au_automatic au) (au_human au) profile request = (Inr (AllowOnce why tags), asked)"
  shows "reviewed_by au profile request asked"
proof (cases "pp_reviewer profile")
  case ReviewAuto
  show ?thesis
  proof (cases "review_automatic (au_automatic au) request")
    case (Inl e)
    with assms ReviewAuto have "asked = [Automatic, Human]" "au_human au request = Inr (AllowOnce why tags)" by (simp_all add: review_def)
    with Inl ReviewAuto show ?thesis by (simp add: automatic_fails)
  next
    case (Inr d)
    with assms ReviewAuto show ?thesis
      by (cases d) (auto simp: review_def automatic_keeps_allow_once automatic_keeps_ask_human)
  qed
qed (use assms in \<open>auto simp: review_def\<close>)

definition grant_in_force :: "authority \<Rightarrow> approval_action \<Rightarrow> capability_delta \<Rightarrow> bool" where
  "grant_in_force au action requested \<longleftrightarrow>
     (\<exists>g. au_grant au = Some g \<and> covers g action requested (policy_digest (au_json_sha au) (au_broker au) (au_session au)))"

lemma authorize_delta_rests_on:
  assumes "authorize_delta au action requested justification c = (Inr (), asked)"
    and "profile = current_profile (au_broker au) (au_session au)"
  shows "asked = [] \<and> (delta_is_empty requested \<or> full_access profile \<or> grant_in_force au action requested) \<or>
    reviewed_by au profile (direct_request (au_fresh_id au) c action requested justification) asked"
  using assms
  by (auto simp: authorize_delta_def Let_def grant_in_force_def split: if_splits option.splits prod.splits sum.splits approval_decision.splits
      dest: review_allows_once)

lemma path_delta_nonempty: "\<not> delta_is_empty (path_delta access anchor)"
  by (cases access) (simp_all add: path_delta_def delta_is_empty_def no_delta_def)

definition path_action :: "ustring \<Rightarrow> ustring \<Rightarrow> path \<Rightarrow> approval_action" where
  "path_action tool operation p = ToolOperation tool operation (Some p)"

lemma authorized_path_rests_on:
  assumes "authorize_path host au input access tool operation c = (Inr p, asked)"
    and "profile = current_profile (au_broker au) (au_session au)"
  shows "p = candidate_path profile input \<and>
    (path_allowed host profile input access \<and> asked = [] \<or>
     (\<exists>anchor justification. resolve_existing_or_parent (ph_fs host) p = Inr anchor \<and> \<not> protected_by host profile p anchor \<and>
        (asked = [] \<and> (full_access profile \<or> grant_in_force au (path_action tool operation p) (path_delta access anchor)) \<or>
         reviewed_by au profile (direct_request (au_fresh_id au) c (path_action tool operation p) (path_delta access anchor) justification) asked)))"
proof -
  obtain decision where decision: "inspect_path host profile input access = Inr decision"
    using assms by (cases "inspect_path host profile input access") (auto simp: authorize_path_def approval_requirement_for_path_def)
  show ?thesis
  proof (cases decision)
    case (PathAllowed q)
    with decision have inspected: "inspect_path host profile input access = Inr (PathAllowed q)" by simp
    with assms have "p = q" "asked = []" by (auto simp: authorize_path_def approval_requirement_for_path_def)
    moreover have "q = candidate_path profile input" using inspected inspect_allowed_iff by blast
    ultimately show ?thesis using inspected path_allowed_iff by auto
  next
    case (PathNeedsApproval q anchor)
    note facts = inspect_needs_approval [OF decision [unfolded PathNeedsApproval]]
    obtain justification where "authorize_delta au (path_action tool operation q) (path_delta access anchor) justification c = (Inr (), asked)"
        and "p = q"
      using assms decision PathNeedsApproval
      by (auto simp: authorize_path_def approval_requirement_for_path_def path_action_def map_ok_Inr_iff
          split: if_splits prod.splits)
    then show ?thesis using authorize_delta_rests_on [OF _ assms(2)] facts path_delta_nonempty by blast
  qed (use assms decision in \<open>auto simp: authorize_path_def approval_requirement_for_path_def\<close>)
qed

section \<open>Overrides\<close>

definition same_boundary :: "permission_profile \<Rightarrow> permission_profile \<Rightarrow> bool" where
  "same_boundary p q \<longleftrightarrow>
     pp_workspace_root p = pp_workspace_root q \<and> pp_read_roots p = pp_read_roots q \<and> pp_write_roots p = pp_write_roots q \<and>
     pp_protected_paths p = pp_protected_paths q \<and> pp_workspace_boundary p = pp_workspace_boundary q \<and>
     pp_configured_network p = pp_configured_network q \<and> pp_shell_environment_policy p = pp_shell_environment_policy q"

lemma overrides_keep_boundary: "same_boundary (profile_with_overrides b m s) (pb_profile b)"
  by (auto simp: same_boundary_def profile_with_overrides_def Let_def split: option.splits)

lemma override_stays_in_session:
  "s' \<noteq> s \<Longrightarrow> profile_for_session (set_session_permission_mode s mode b) s' = profile_for_session b s'"
  "s' \<noteq> s \<Longrightarrow> profile_for_session (set_session_sandbox_mode s box b) s' = profile_for_session b s'"
  by (simp_all add: profile_for_session_def set_session_permission_mode_def set_session_sandbox_mode_def profile_with_overrides_def)

lemma override_takes_effect:
  assumes "mode_preset mode = Some (box, policy, reviewer)" "mode \<noteq> pp_mode (pb_profile b) \<or> box \<noteq> pp_sandbox_mode (pb_profile b)"
  shows "profile_effective_mode (profile_for_session (set_session_permission_mode s (Some mode) b) s) = mode"
  using assms preset_effective_mode [OF assms(1)]
  by (auto simp: profile_for_session_def set_session_permission_mode_def profile_with_overrides_def profile_effective_mode_def Let_def)

end
