(* ===== verification/File_Tree.thy ===== *)
theory File_Tree
  imports Permission_Safety
begin

text \<open>
  A file system as the file tools see it: a tree of directories and regular files without links,
  the resolution of a path in it, and the calls of \<open>std::fs\<close> the tools make. Permissions of files
  and failures of the device are left out; paths do not end in a separator.
\<close>

section \<open>Trees\<close>

type_synonym location = "ustring list"

text \<open>The bytes of a file are a text in UTF-8, or they are not one.\<close>

datatype file_content = Utf8 ustring | NotUtf8 "nat list"

datatype node = Directory | File file_content

type_synonym tree = "location \<Rightarrow> node option"

definition node_at :: "tree \<Rightarrow> location \<Rightarrow> node option" where
  "node_at t at = (if at = [] then Some Directory else t at)"

definition not_a_directory :: io_error where
  "not_a_directory = IoOther (lit ''not a directory'')"

definition already_exists :: io_error where
  "already_exists = IoOther (lit ''file exists'')"

definition is_a_directory :: io_error where
  "is_a_directory = IoOther (lit ''is a directory'')"

fun step_from :: "tree \<Rightarrow> location \<Rightarrow> component \<Rightarrow> io_error + location" where
  "step_from t at RootDir = Inr []"
| "step_from t at CurDir = Inr at"
| "step_from t at ParentDir = Inr (butlast at)"
| "step_from t at (Normal s) = (if node_at t (at @ [s]) = None then Inl IoNotFound else Inr (at @ [s]))"

fun walk :: "tree \<Rightarrow> location \<Rightarrow> component list \<Rightarrow> io_error + location" where
  "walk t at [] = Inr at"
| "walk t at (c # cs) =
     (if c \<noteq> RootDir \<and> node_at t at \<noteq> Some Directory then Inl not_a_directory
      else and_then (step_from t at c) (\<lambda>next. walk t next cs))"

definition locate :: "location \<Rightarrow> tree \<Rightarrow> component list \<Rightarrow> io_error + location" where
  "locate cwd t cs = (if cs = [] then Inl IoNotFound else walk t cwd cs)"

definition location_path :: "location \<Rightarrow> path" where
  "location_path at = render (RootDir # map Normal at)"

definition located_dir :: "location \<Rightarrow> tree \<Rightarrow> component list \<Rightarrow> bool" where
  "located_dir cwd t cs \<longleftrightarrow> (case locate cwd t cs of Inr at \<Rightarrow> node_at t at = Some Directory | Inl _ \<Rightarrow> False)"

definition tree_fs :: "location \<Rightarrow> tree \<Rightarrow> file_system" where
  "tree_fs cwd t =
     \<lparr>fs_exists = (\<lambda>p. is_ok (locate cwd t (components p))),
      fs_canonicalize = (\<lambda>p. map_ok location_path (locate cwd t (components p))),
      fs_is_symlink = (\<lambda>p. map_ok (\<lambda>_. False) (locate cwd t (components p))),
      fs_is_dir = (\<lambda>p. located_dir cwd t (components p)),
      fs_current_dir = Inr (location_path cwd)\<rparr>"

section \<open>Calls\<close>

text \<open>The directory and the name a new entry gets; none when the path ends in a dot or is a root.\<close>

definition entry_place :: "location \<Rightarrow> tree \<Rightarrow> component list \<Rightarrow> io_error + location" where
  "entry_place cwd t cs =
     (case rev cs of
        Normal s # up \<Rightarrow>
          and_then (walk t cwd (rev up)) (\<lambda>dir.
            if node_at t dir = Some Directory then Inr (dir @ [s]) else Inl not_a_directory)
      | _ \<Rightarrow> and_then (locate cwd t cs) (\<lambda>_. Inl already_exists))"

definition mkdir :: "location \<Rightarrow> tree \<Rightarrow> component list \<Rightarrow> io_error + tree" where
  "mkdir cwd t cs =
     and_then (entry_place cwd t cs) (\<lambda>at.
       if node_at t at = None then Inr (t(at \<mapsto> Directory)) else Inl already_exists)"

text \<open>\<open>create_dir_all\<close>: directories it made before it failed stay.\<close>

function create_dir_all :: "location \<Rightarrow> tree \<Rightarrow> component list \<Rightarrow> (io_error + unit) \<times> tree" where
  "create_dir_all cwd t cs =
     (if cs = [] then (Inr (), t)
      else
        case mkdir cwd t cs of
          Inr t' \<Rightarrow> (Inr (), t')
        | Inl e \<Rightarrow>
            if e = IoNotFound
            then
              (case parent_components cs of
                 None \<Rightarrow> (Inl (IoOther (lit ''failed to create whole tree'')), t)
               | Some up \<Rightarrow>
                   (case create_dir_all cwd t up of
                      (Inl e', t') \<Rightarrow> (Inl e', t')
                    | (Inr _, t') \<Rightarrow>
                        (case mkdir cwd t' cs of
                           Inr t'' \<Rightarrow> (Inr (), t'')
                         | Inl e' \<Rightarrow> if located_dir cwd t' cs then (Inr (), t') else (Inl e', t'))))
            else if located_dir cwd t cs then (Inr (), t) else (Inl e, t))"
  by pat_completeness auto
termination by (relation "measure (\<lambda>(_, _, cs). length cs)") (auto simp: parent_components_shorter)

declare create_dir_all.simps [simp del]

definition create_new :: "location \<Rightarrow> tree \<Rightarrow> component list \<Rightarrow> file_content \<Rightarrow> io_error + tree" where
  "create_new cwd t cs content =
     and_then (entry_place cwd t cs) (\<lambda>at.
       if node_at t at = None then Inr (t(at \<mapsto> File content)) else Inl already_exists)"

text \<open>Renaming a regular file; an existing file at the target is replaced.\<close>

definition rename_file :: "location \<Rightarrow> tree \<Rightarrow> component list \<Rightarrow> component list \<Rightarrow> io_error + tree" where
  "rename_file cwd t from to =
     and_then (entry_place cwd t from) (\<lambda>source.
       and_then (entry_place cwd t to) (\<lambda>target.
         case t source of
           Some (File content) \<Rightarrow>
             if node_at t target = Some Directory then Inl is_a_directory
             else Inr ((t(source := None))(target \<mapsto> File content))
         | Some Directory \<Rightarrow> Inl is_a_directory
         | None \<Rightarrow> Inl IoNotFound))"

definition remove_file :: "location \<Rightarrow> tree \<Rightarrow> component list \<Rightarrow> tree" where
  "remove_file cwd t cs =
     (case entry_place cwd t cs of
        Inr at \<Rightarrow> (case t at of Some (File _) \<Rightarrow> t(at := None) | _ \<Rightarrow> t)
      | Inl _ \<Rightarrow> t)"

section \<open>Resolution without parent components\<close>

lemma node_at_root [simp]: "node_at t [] = Some Directory"
  by (simp add: node_at_def)

lemma walk_append: "walk t at (cs @ ds) = and_then (walk t at cs) (\<lambda>mid. walk t mid ds)"
proof (induction cs arbitrary: at)
  case (Cons c cs)
  show ?case by (cases "step_from t at c") (auto simp: Cons.IH)
qed simp

lemma walk_normals: "walk t at (map Normal ns) = Inr to \<Longrightarrow> to = at @ ns"
  by (induction ns arbitrary: at) (fastforce simp: and_then_Inr_iff split: if_splits)+

lemma walk_normals_prefix:
  assumes "walk t at (map Normal ns) = Inr to" "prefix ms ns" "ms \<noteq> []"
  shows "node_at t (at @ ms) \<noteq> None"
  using assms
proof (induction ns arbitrary: at ms)
  case (Cons n ns)
  have step: "node_at t (at @ [n]) \<noteq> None" "walk t (at @ [n]) (map Normal ns) = Inr to"
    using Cons.prems(1) by (auto simp: and_then_Inr_iff split: if_splits)
  obtain ms' where ms: "ms = n # ms'" "prefix ms' ns" using Cons.prems(2,3) by (cases ms) auto
  show ?case using step Cons.IH [OF step(2) ms(2)] ms(1) by (cases "ms' = []") auto
qed simp

lemma walk_absolute: "walk t cwd (RootDir # cs) = walk t [] cs"
  by simp

lemma located_names: "locate cwd t (RootDir # map Normal ns) = Inr at \<Longrightarrow> at = ns \<and> walk t [] (map Normal ns) = Inr ns"
  by (auto simp: locate_def dest: walk_normals)

lemma entry_place_names:
  assumes "ns \<noteq> []"
  shows "entry_place cwd t (RootDir # map Normal ns) =
    and_then (walk t [] (map Normal (butlast ns))) (\<lambda>dir.
      if node_at t dir = Some Directory then Inr (dir @ [last ns]) else Inl not_a_directory)"
  using assms by (cases ns rule: rev_cases) (simp_all add: entry_place_def cong: if_cong)

lemma entry_place_is: "ns \<noteq> [] \<Longrightarrow> entry_place cwd t (RootDir # map Normal ns) = Inr at \<Longrightarrow> at = ns"
  by (auto simp: entry_place_names and_then_Inr_iff split: if_splits dest!: walk_normals)

section \<open>What creating directories changes\<close>

definition only_new_directories :: "tree \<Rightarrow> tree \<Rightarrow> location \<Rightarrow> bool" where
  "only_new_directories t t' to \<longleftrightarrow>
     (\<forall>loc. t' loc \<noteq> t loc \<longrightarrow> loc \<noteq> [] \<and> prefix loc to \<and> t loc = None \<and> t' loc = Some Directory)"

lemma only_new_directories_refl [simp]: "only_new_directories t t to"
  by (simp add: only_new_directories_def)

lemma only_new_directories_trans:
  "only_new_directories t t' to \<Longrightarrow> only_new_directories t' t'' to \<Longrightarrow> only_new_directories t t'' to"
  unfolding only_new_directories_def by metis

lemma only_new_directories_mono: "only_new_directories t t' to \<Longrightarrow> prefix to to' \<Longrightarrow> only_new_directories t t' to'"
  unfolding only_new_directories_def by (blast intro: prefix_order.trans)

lemma mkdir_new:
  assumes "mkdir cwd t (RootDir # map Normal ns) = Inr t'"
  shows "only_new_directories t t' ns"
proof (cases "ns = []")
  case True
  with assms show ?thesis by (simp add: mkdir_def entry_place_def locate_def)
next
  case False
  with assms show ?thesis
    by (auto simp: mkdir_def and_then_Inr_iff only_new_directories_def node_at_def split: if_splits dest!: entry_place_is [OF False])
qed

lemma parent_of_names: "parent_components (RootDir # map Normal ns) = (if ns = [] then None else Some (RootDir # map Normal (butlast ns)))"
  by (cases ns rule: rev_cases) (simp_all add: parent_components_def)

lemma create_dir_all_new: "create_dir_all cwd t (RootDir # map Normal ns) = (r, t') \<Longrightarrow> only_new_directories t t' ns"
proof (induction ns arbitrary: r t' rule: rev_induct)
  case Nil
  then show ?case
    by (auto simp: create_dir_all.simps [of cwd t "[RootDir]"] parent_components_def mkdir_new [of cwd t "[]", simplified]
        split: sum.splits if_splits)
next
  case (snoc n ns)
  let ?cs = "RootDir # map Normal (ns @ [n])"
  have parent: "parent_components ?cs = Some (RootDir # map Normal ns)" by (simp only: parent_of_names) simp
  show ?case
  proof (cases "mkdir cwd t ?cs = Inl IoNotFound")
    case False
    with snoc.prems show ?thesis
      by (auto simp: create_dir_all.simps [of cwd t ?cs] simp del: map_append split: sum.splits if_splits dest: mkdir_new)
  next
    case True
    obtain r1 t1 where up: "create_dir_all cwd t (RootDir # map Normal ns) = (r1, t1)" by (cases "create_dir_all cwd t (RootDir # map Normal ns)")
    have first: "only_new_directories t t1 (ns @ [n])" using only_new_directories_mono [OF snoc.IH [OF up]] by simp
    have "t' = t1 \<or> mkdir cwd t1 ?cs = Inr t'"
      using snoc.prems True parent up
      by (auto simp: create_dir_all.simps [of cwd t ?cs] simp del: map_append split: sum.splits if_splits unit.splits)
    then show ?thesis using first only_new_directories_trans mkdir_new by blast
  qed
qed

end
