(* ===== verification/File_Edit.thy ===== *)
theory File_Edit
  imports Scheduler_Domain "HOL-Library.Sublist" "HOL-Library.Multiset"
begin

text \<open>
  The text part of the edit tool (\<open>EditFileTool\<close> of \<open>morphz/src/tool.rs\<close>): exact replacements are
  looked up in the original text, checked for overlaps, applied in one pass and reported as a diff.
  Positions count characters, where the code counts bytes of the UTF-8 text: an occurrence in the
  bytes is one of the characters.
\<close>

section \<open>Planning replacements\<close>

record exact_edit =
  ee_old_text :: ustring
  ee_new_text :: ustring
  ee_replace_all :: bool

record planned_replacement =
  pr_start :: nat
  pr_end :: nat
  pr_old_text :: ustring
  pr_new_text :: ustring

datatype edit_error = EmptyOldText nat | NoExactMatch nat | SeveralMatches nat nat | OverlappingReplacements | NoContentChange

text \<open>\<open>match_indices\<close> of a nonempty pattern: occurrences from the left, without overlaps.\<close>

function match_indices :: "ustring \<Rightarrow> nat \<Rightarrow> ustring \<Rightarrow> nat list" where
  "match_indices old i s =
     (if s = [] \<or> old = [] then []
      else if prefix old s then i # match_indices old (i + length old) (drop (length old) s)
      else match_indices old (Suc i) (tl s))"
  by pat_completeness auto
termination by (relation "measure (\<lambda>(_, _, s). length s)") auto

declare match_indices.simps [simp del]

definition plan_edit :: "ustring \<Rightarrow> nat \<Rightarrow> exact_edit \<Rightarrow> edit_error + planned_replacement list" where
  "plan_edit content index e =
     (if ee_old_text e = [] then Inl (EmptyOldText index)
      else
        let found = match_indices (ee_old_text e) 0 content in
        if found = [] then Inl (NoExactMatch index)
        else if \<not> ee_replace_all e \<and> length found \<noteq> 1 then Inl (SeveralMatches index (length found))
        else Inr (map (\<lambda>start. \<lparr>pr_start = start, pr_end = start + length (ee_old_text e), pr_old_text = ee_old_text e,
          pr_new_text = ee_new_text e\<rparr>) (if ee_replace_all e then found else take 1 found)))"

fun plan_edits :: "ustring \<Rightarrow> nat \<Rightarrow> exact_edit list \<Rightarrow> edit_error + planned_replacement list" where
  "plan_edits content index [] = Inr []"
| "plan_edits content index (e # es) =
     and_then (plan_edit content index e) (\<lambda>rs. map_ok (\<lambda>more. rs @ more) (plan_edits content (Suc index) es))"

fun separate :: "planned_replacement list \<Rightarrow> bool" where
  "separate (r # s # rs) \<longleftrightarrow> pr_end r \<le> pr_start s \<and> separate (s # rs)"
| "separate _ \<longleftrightarrow> True"

definition planned :: "ustring \<Rightarrow> exact_edit list \<Rightarrow> edit_error + planned_replacement list" where
  "planned content edits =
     and_then (plan_edits content 0 edits) (\<lambda>rs.
       let sorted_rs = sort_key pr_start rs in
       if separate sorted_rs then Inr sorted_rs else Inl OverlappingReplacements)"

section \<open>Applying them\<close>

fun splice_text :: "ustring \<Rightarrow> nat \<Rightarrow> planned_replacement list \<Rightarrow> ustring" where
  "splice_text content cursor [] = drop cursor content"
| "splice_text content cursor (r # rs) =
     take (pr_start r - cursor) (drop cursor content) @ pr_new_text r @ splice_text content (pr_end r) rs"

definition newline :: uchar where
  "newline = 10"

definition diff_line_count :: "ustring \<Rightarrow> nat" where
  "diff_line_count s = (if s = [] then 0 else count_list s newline + (if last s = newline then 0 else 1))"

record hunk =
  hk_old_start :: nat
  hk_old_count :: nat
  hk_new_start :: nat
  hk_old_text :: ustring
  hk_new_text :: ustring

fun edit_hunks :: "ustring \<Rightarrow> int \<Rightarrow> planned_replacement list \<Rightarrow> hunk list" where
  "edit_hunks content delta [] = []"
| "edit_hunks content delta (r # rs) =
     (let old_start = count_list (take (pr_start r) content) newline + 1 in
      \<lparr>hk_old_start = old_start, hk_old_count = diff_line_count (pr_old_text r),
       hk_new_start = nat (int old_start + delta), hk_old_text = pr_old_text r, hk_new_text = pr_new_text r\<rparr> #
      edit_hunks content (delta + int (diff_line_count (pr_new_text r)) - int (diff_line_count (pr_old_text r))) rs)"

definition edit_text :: "ustring \<Rightarrow> exact_edit list \<Rightarrow> edit_error + ustring \<times> planned_replacement list" where
  "edit_text content edits =
     and_then (planned content edits) (\<lambda>rs.
       let updated = splice_text content 0 rs in
       if updated = content then Inl NoContentChange else Inr (updated, rs))"

section \<open>The diff\<close>

text \<open>\<open>split_inclusive\<close>: the lines with their line feeds; nothing follows a final line feed.\<close>

fun split_inclusive :: "ustring \<Rightarrow> ustring list" where
  "split_inclusive [] = []"
| "split_inclusive (c # s) =
     (if c = newline then [c] # split_inclusive s
      else (case split_inclusive s of [] \<Rightarrow> [[c]] | w # ws \<Rightarrow> (c # w) # ws))"

definition prefix_lines :: "ustring \<Rightarrow> uchar \<Rightarrow> ustring" where
  "prefix_lines s p =
     (if s = [] then []
      else concat (map (\<lambda>line. p # line) (split_inclusive s)) @ (if last s = newline then [] else [newline]))"

definition hunk_text :: "hunk \<Rightarrow> ustring" where
  "hunk_text h =
     lit ''@@ -'' @ decimal (hk_old_start h) @ lit '','' @ decimal (hk_old_count h) @ lit '' +'' @ decimal (hk_new_start h) @
     lit '','' @ decimal (diff_line_count (hk_new_text h)) @ lit '' @@'' @ [newline] @
     prefix_lines (hk_old_text h) 45 @ prefix_lines (hk_new_text h) 43"

definition replacement_diff :: "ustring \<Rightarrow> hunk list \<Rightarrow> ustring" where
  "replacement_diff path hunks =
     lit ''--- a/'' @ path @ [newline] @ lit ''+++ b/'' @ path @ [newline] @ concat (map hunk_text hunks)"

definition bounded_text :: "ustring \<Rightarrow> nat \<Rightarrow> ustring" where
  "bounded_text s max_chars =
     (if length s \<le> max_chars then s
      else take max_chars s @ newline # lit ''...[diff truncated; original length '' @ decimal (length s) @ lit '' characters]'')"

section \<open>Occurrences\<close>

lemma match_indices_sound:
  "j \<in> set (match_indices old i s) \<Longrightarrow> i \<le> j \<and> old \<noteq> [] \<and> prefix old (drop (j - i) s)"
proof (induction old i s rule: match_indices.induct)
  case (1 old i s)
  show ?case
  proof (cases "s = [] \<or> old = []")
    case True
    with "1.prems" show ?thesis by (simp add: match_indices.simps [of old i s])
  next
    case nonempty: False
    show ?thesis
    proof (cases "prefix old s")
      case True
      with "1.prems" nonempty consider "j = i" | "j \<in> set (match_indices old (i + length old) (drop (length old) s))"
        by (auto simp: match_indices.simps [of old i s])
      then show ?thesis
        using "1.IH"(1) [OF nonempty True] True nonempty by cases (auto simp: add.commute [of "length old"])
    next
      case False
      with "1.prems" nonempty have "j \<in> set (match_indices old (Suc i) (tl s))" by (simp add: match_indices.simps [of old i s])
      then have "Suc i \<le> j" "prefix old (drop (j - Suc i) (tl s))" using "1.IH"(2) [OF nonempty False] by auto
      then show ?thesis using nonempty by (cases s) (auto simp: drop_Cons' Suc_diff_le)
    qed
  qed
qed

lemma plan_edit_sound:
  assumes "plan_edit content index e = Inr rs" "r \<in> set rs"
  shows "pr_old_text r = ee_old_text e" "pr_new_text r = ee_new_text e" "pr_old_text r \<noteq> []"
    "pr_end r = pr_start r + length (pr_old_text r)" "prefix (pr_old_text r) (drop (pr_start r) content)"
proof -
  have "pr_start r \<in> set (match_indices (ee_old_text e) 0 content)" and old: "ee_old_text e \<noteq> []"
    and r: "pr_old_text r = ee_old_text e" "pr_new_text r = ee_new_text e" "pr_end r = pr_start r + length (ee_old_text e)"
    using assms by (auto simp: plan_edit_def Let_def split: if_splits dest: in_set_takeD)
  then show "prefix (pr_old_text r) (drop (pr_start r) content)" by (auto dest: match_indices_sound)
  show "pr_old_text r = ee_old_text e" "pr_new_text r = ee_new_text e" "pr_old_text r \<noteq> []"
    "pr_end r = pr_start r + length (pr_old_text r)" using r old by simp_all
qed

definition fits :: "ustring \<Rightarrow> planned_replacement \<Rightarrow> bool" where
  "fits content r \<longleftrightarrow> pr_old_text r \<noteq> [] \<and> pr_end r = pr_start r + length (pr_old_text r) \<and>
     prefix (pr_old_text r) (drop (pr_start r) content)"

lemma plan_edits_fit: "plan_edits content index es = Inr rs \<Longrightarrow> r \<in> set rs \<Longrightarrow> fits content r"
proof (induction es arbitrary: index rs)
  case (Cons e es)
  then obtain here more where "plan_edit content index e = Inr here" "plan_edits content (Suc index) es = Inr more" "rs = here @ more"
    by (auto simp: and_then_Inr_iff map_ok_Inr_iff)
  then show ?case using Cons.IH Cons.prems(2) plan_edit_sound unfolding fits_def by (metis Un_iff set_append)
qed simp

lemma planned_fits: "planned content es = Inr rs \<Longrightarrow> \<forall>r \<in> set rs. fits content r"
  by (auto simp: planned_def and_then_Inr_iff Let_def split: if_splits dest: plan_edits_fit)

lemma planned_separate: "planned content es = Inr rs \<Longrightarrow> separate rs"
  by (auto simp: planned_def and_then_Inr_iff Let_def split: if_splits)

section \<open>An edit replaces occurrences and keeps the rest\<close>

text \<open>A text as the stretches between some parts, and the parts.\<close>

fun weave :: "ustring list \<Rightarrow> ustring list \<Rightarrow> ustring" where
  "weave (g # gs) (p # ps) = g @ p @ weave gs ps"
| "weave gs [] = concat gs"
| "weave [] ps = concat ps"

fun kept_parts :: "ustring \<Rightarrow> nat \<Rightarrow> planned_replacement list \<Rightarrow> ustring list" where
  "kept_parts content cursor [] = [drop cursor content]"
| "kept_parts content cursor (r # rs) = take (pr_start r - cursor) (drop cursor content) # kept_parts content (pr_end r) rs"

lemma length_kept_parts [simp]: "length (kept_parts content cursor rs) = Suc (length rs)"
  by (induction rs arbitrary: cursor) simp_all

lemma splice_weave: "splice_text content cursor rs = weave (kept_parts content cursor rs) (map pr_new_text rs)"
  by (induction rs arbitrary: cursor) simp_all

definition ahead :: "nat \<Rightarrow> planned_replacement list \<Rightarrow> bool" where
  "ahead cursor rs \<longleftrightarrow> (case rs of [] \<Rightarrow> True | r # _ \<Rightarrow> cursor \<le> pr_start r)"

lemma separate_ahead: "separate (r # rs) \<longleftrightarrow> ahead (pr_end r) rs \<and> separate rs"
  by (cases rs) (simp_all add: ahead_def)

lemma ahead_zero [simp]: "ahead 0 rs"
  by (cases rs) (simp_all add: ahead_def)

lemma drop_at_replacement:
  assumes "fits content r" "cursor \<le> pr_start r"
  shows "drop cursor content = take (pr_start r - cursor) (drop cursor content) @ pr_old_text r @ drop (pr_end r) content"
proof -
  have "drop (pr_start r) content = pr_old_text r @ drop (pr_end r) content"
  proof -
    have "drop (pr_end r) content = drop (length (pr_old_text r)) (drop (pr_start r) content)"
      using assms(1) by (simp add: fits_def add.commute)
    moreover obtain rest where "drop (pr_start r) content = pr_old_text r @ rest"
      using assms(1) by (auto simp: fits_def prefix_def)
    ultimately show ?thesis by (simp del: drop_drop)
  qed
  moreover have "drop (pr_start r - cursor) (drop cursor content) = drop (pr_start r) content" using assms(2) by simp
  ultimately show ?thesis by (metis append_take_drop_id)
qed

lemma weave_original:
  "\<forall>r \<in> set rs. fits content r \<Longrightarrow> separate rs \<Longrightarrow> ahead cursor rs \<Longrightarrow>
     weave (kept_parts content cursor rs) (map pr_old_text rs) = drop cursor content"
proof (induction rs arbitrary: cursor)
  case (Cons r rs)
  then have "weave (kept_parts content (pr_end r) rs) (map pr_old_text rs) = drop (pr_end r) content"
    by (simp add: separate_ahead)
  moreover have "cursor \<le> pr_start r" using Cons.prems(3) by (simp add: ahead_def)
  ultimately show ?case using drop_at_replacement [of content r cursor] Cons.prems(1) by simp
qed simp

section \<open>The order of the edits does not matter\<close>

definition edit_plan :: "ustring \<Rightarrow> exact_edit \<Rightarrow> planned_replacement list" where
  "edit_plan content e = (case plan_edit content 0 e of Inr rs \<Rightarrow> rs | Inl _ \<Rightarrow> [])"

lemma plan_edit_index: "plan_edit content index e = Inr rs \<longleftrightarrow> plan_edit content 0 e = Inr rs"
  by (simp add: plan_edit_def Let_def)

lemma plan_edits_concat:
  "plan_edits content index es = Inr rs \<longleftrightarrow> (\<forall>e \<in> set es. is_ok (plan_edit content 0 e)) \<and> rs = concat (map (edit_plan content) es)"
proof (induction es arbitrary: index rs)
  case (Cons e es)
  show ?case
    by (cases "plan_edit content 0 e")
      (auto simp: and_then_Inr_iff map_ok_Inr_iff Cons.IH edit_plan_def plan_edit_index [of content index])
qed auto

lemma separate_starts:
  assumes "\<forall>r \<in> set rs. fits content r" "separate rs"
  shows "sorted_wrt (\<lambda>r s. pr_start r < pr_start s) rs"
proof -
  have "successively (\<lambda>r s. pr_start r < pr_start s) rs"
    using assms by (induction rs rule: separate.induct) (auto simp: fits_def neq_Nil_conv)
  then show ?thesis by (subst (asm) successively_conv_sorted_wrt) (auto intro: transpI)
qed

lemma separate_injective:
  assumes "\<forall>r \<in> set rs. fits content r" "separate rs"
  shows "inj_on pr_start (set rs)"
proof -
  have "distinct (map pr_start rs)"
    using separate_starts [OF assms] by (induction rs) auto
  then show ?thesis by (simp add: distinct_map)
qed

lemma planned_reorder:
  assumes "planned content es = Inr rs" "mset es' = mset es"
  shows "planned content es' = Inr rs"
proof -
  let ?plan = "\<lambda>es. concat (map (edit_plan content) es)"
  have ok: "\<forall>e \<in> set es. is_ok (plan_edit content 0 e)" and rs: "rs = sort_key pr_start (?plan es)" and sep: "separate rs"
    using assms(1) by (auto simp: planned_def and_then_Inr_iff plan_edits_concat Let_def split: if_splits)
  have "set es' = set es" using assms(2) by (rule mset_eq_setD)
  with ok have found: "plan_edits content 0 es' = Inr (?plan es')" by (simp add: plan_edits_concat)
  have same: "mset (?plan es') = mset rs" using assms(2) rs by (simp add: mset_concat flip: sum_mset_sum_list)
  have "inj_on pr_start (set rs)" using separate_injective [OF planned_fits [OF assms(1)] sep] .
  then have "inj_on pr_start (set (?plan es'))" using mset_eq_setD [OF same] by simp
  moreover have "sorted (map pr_start rs)" using rs by simp
  ultimately have "sort_key pr_start (?plan es') = rs" using sort_key_inj_key_eq [OF same] by blast
  with found sep show ?thesis by (simp add: planned_def Let_def)
qed

section \<open>Replacing everything\<close>

function str_replace :: "ustring \<Rightarrow> ustring \<Rightarrow> ustring \<Rightarrow> ustring" where
  "str_replace old new s =
     (if s = [] \<or> old = [] then s
      else if prefix old s then new @ str_replace old new (drop (length old) s)
      else hd s # str_replace old new (tl s))"
  by pat_completeness auto
termination by (relation "measure (\<lambda>(_, _, s). length s)") auto

declare str_replace.simps [simp del]

definition replacements_at :: "ustring \<Rightarrow> ustring \<Rightarrow> nat list \<Rightarrow> planned_replacement list" where
  "replacements_at old new starts =
     map (\<lambda>start. \<lparr>pr_start = start, pr_end = start + length old, pr_old_text = old, pr_new_text = new\<rparr>) starts"

lemma replacements_at_simps [simp]:
  "replacements_at old new [] = []"
  "replacements_at old new (i # is) =
     \<lparr>pr_start = i, pr_end = i + length old, pr_old_text = old, pr_new_text = new\<rparr> # replacements_at old new is"
  by (simp_all add: replacements_at_def)

lemma splice_str_replace:
  assumes "cursor \<le> i" "s = drop i content" "old \<noteq> []"
  shows "splice_text content cursor (replacements_at old new (match_indices old i s)) =
    take (i - cursor) (drop cursor content) @ str_replace old new s"
  using assms
proof (induction old i s arbitrary: cursor rule: match_indices.induct)
  case (1 old i s)
  have split: "drop cursor content = take (i - cursor) (drop cursor content) @ s"
    using "1.prems" by (metis append_take_drop_id drop_drop le_add_diff_inverse2)
  show ?case
  proof (cases "s = []")
    case True
    with split show ?thesis by (simp add: match_indices.simps [of old i "[]"] str_replace.simps [of old new "[]"])
  next
    case s: False
    show ?thesis
    proof (cases "prefix old s")
      case True
      have "splice_text content (i + length old) (replacements_at old new (match_indices old (i + length old) (drop (length old) s))) =
          str_replace old new (drop (length old) s)"
        using "1.IH"(1) [of "i + length old"] "1.prems" s True by (simp add: add.commute)
      then show ?thesis
        using s True "1.prems"
        by (simp add: match_indices.simps [of old i "drop i content"] str_replace.simps [of old new "drop i content"])
    next
      case False
      have "i < length content" using s "1.prems" by auto
      then have "take (Suc i - cursor) (drop cursor content) = take (i - cursor) (drop cursor content) @ [hd s]"
        using "1.prems" by (simp add: Suc_diff_le take_Suc_conv_app_nth hd_drop_conv_nth)
      then show ?thesis
        using "1.IH"(2) [of cursor] "1.prems" s False
        by (simp add: match_indices.simps [of old i "drop i content"] str_replace.simps [of old new "drop i content"] tl_drop drop_Suc)
    qed
  qed
qed

lemma sorted_match_indices: "sorted (match_indices old i s)"
proof (induction old i s rule: match_indices.induct)
  case (1 old i s)
  then show ?case
    by (auto simp: match_indices.simps [of old i s] dest: match_indices_sound)
qed

lemma edit_all_replaces:
  assumes "edit_text content [\<lparr>ee_old_text = old, ee_new_text = new, ee_replace_all = True\<rparr>] = Inr (updated, rs)"
  shows "updated = str_replace old new content"
proof -
  let ?found = "match_indices old 0 content"
  have "old \<noteq> []" and plan: "planned content [\<lparr>ee_old_text = old, ee_new_text = new, ee_replace_all = True\<rparr>] =
      Inr (sort_key pr_start (replacements_at old new ?found))"
    and updated: "updated = splice_text content 0 (sort_key pr_start (replacements_at old new ?found))"
    using assms
    by (auto simp: edit_text_def planned_def plan_edit_def replacements_at_def and_then_Inr_iff map_ok_Inr_iff Let_def split: if_splits)
  moreover have "sort_key pr_start (replacements_at old new ?found) = replacements_at old new ?found"
    by (rule sort_key_id_if_sorted) (simp add: replacements_at_def comp_def sorted_match_indices)
  ultimately show ?thesis using splice_str_replace [of 0 0 content content old new] by simp
qed

lemma edit_plan_texts: "is_ok (plan_edit content 0 e) \<Longrightarrow> set (map (\<lambda>r. (pr_old_text r, pr_new_text r)) (edit_plan content e)) = {(ee_old_text e, ee_new_text e)}"
  by (cases "match_indices (ee_old_text e) 0 content") (auto simp: edit_plan_def plan_edit_def Let_def split: if_splits)

lemma planned_texts:
  assumes "planned content es = Inr rs"
  shows "(\<lambda>r. (pr_old_text r, pr_new_text r)) ` set rs = (\<lambda>e. (ee_old_text e, ee_new_text e)) ` set es"
proof -
  have "\<forall>e \<in> set es. is_ok (plan_edit content 0 e)" "set rs = (\<Union>e \<in> set es. set (edit_plan content e))"
    using assms by (auto simp: planned_def and_then_Inr_iff plan_edits_concat Let_def split: if_splits)
  then show ?thesis using edit_plan_texts [of content] by (force simp: image_UN image_iff)
qed

section \<open>Line numbers of the diff\<close>

text \<open>The updated text before each replacement.\<close>

fun updated_before :: "ustring \<Rightarrow> nat \<Rightarrow> ustring \<Rightarrow> planned_replacement list \<Rightarrow> ustring list" where
  "updated_before content cursor done [] = []"
| "updated_before content cursor done (r # rs) =
     (let here = done @ take (pr_start r - cursor) (drop cursor content) in
      here # updated_before content (pr_end r) (here @ pr_new_text r) rs)"

definition open_line :: "ustring \<Rightarrow> bool" where
  "open_line s \<longleftrightarrow> s \<noteq> [] \<and> last s \<noteq> newline"

lemma diff_line_count_open: "diff_line_count s = count_list s newline + (if open_line s then 1 else 0)"
  by (simp add: diff_line_count_def open_line_def)

lemma take_before:
  assumes "fits content r" "cursor \<le> pr_start r"
  shows "take (pr_start r) content = take cursor content @ take (pr_start r - cursor) (drop cursor content)"
    "take (pr_end r) content = take (pr_start r) content @ pr_old_text r"
proof -
  show "take (pr_start r) content = take cursor content @ take (pr_start r - cursor) (drop cursor content)"
    using assms(2) by (metis le_add_diff_inverse take_add)
  have "take (length (pr_old_text r)) (drop (pr_start r) content) = pr_old_text r"
    using assms(1) by (auto simp: fits_def prefix_def)
  then show "take (pr_end r) content = take (pr_start r) content @ pr_old_text r"
    using assms(1) by (simp add: fits_def take_add)
qed

lemma hunk_starts:
  assumes "\<forall>r \<in> set rs. fits content r" "separate rs" "ahead cursor rs"
    "\<forall>r \<in> set rs. open_line (pr_old_text r) \<longleftrightarrow> open_line (pr_new_text r)"
    "delta = int (count_list before newline) - int (count_list (take cursor content) newline)"
  shows "map hk_new_start (edit_hunks content delta rs) =
    map (\<lambda>p. count_list p newline + 1) (updated_before content cursor before rs)"
  using assms
proof (induction rs arbitrary: cursor before delta)
  case (Cons r rs)
  define kept where "kept = take (pr_start r - cursor) (drop cursor content)"
  have "cursor \<le> pr_start r" using Cons.prems(3) by (simp add: ahead_def)
  with take_before [of content r cursor] Cons.prems(1) have
    start: "count_list (take (pr_start r) content) newline = count_list (take cursor content) newline + count_list kept newline" and
    stop: "count_list (take (pr_end r) content) newline = count_list (take (pr_start r) content) newline + count_list (pr_old_text r) newline"
    by (simp_all add: kept_def)
  have delta: "delta + int (diff_line_count (pr_new_text r)) - int (diff_line_count (pr_old_text r)) =
      int (count_list (before @ kept @ pr_new_text r) newline) - int (count_list (take (pr_end r) content) newline)"
    using Cons.prems(4,5) start stop by (simp add: diff_line_count_open)
  have "map hk_new_start (edit_hunks content (delta + int (diff_line_count (pr_new_text r)) - int (diff_line_count (pr_old_text r))) rs) =
      map (\<lambda>p. count_list p newline + 1) (updated_before content (pr_end r) (before @ kept @ pr_new_text r) rs)"
    by (rule Cons.IH [OF _ _ _ _ delta]) (use Cons.prems(1,2,4) in \<open>simp_all add: separate_ahead\<close>)
  moreover have "nat (int (count_list (take (pr_start r) content) newline + 1) + delta) = count_list (before @ kept) newline + 1"
    using Cons.prems(5) start by simp
  ultimately show ?case by (simp add: Let_def flip: kept_def)
qed simp

end
