(* ===== verification/File_Read.thy ===== *)
theory File_Read
  imports File_Edit
begin

text \<open>
  The text part of the read tool (\<open>ReadFileTool\<close> of \<open>morphz/src/tool.rs\<close>): bounded pages, line ranges,
  queries with context and excerpts of long lines. Case mapping and the debug form of a string are
  parameters.
\<close>

section \<open>Arguments\<close>

record read_file_args =
  ra_path :: ustring
  ra_offset :: "nat option"
  ra_limit :: "nat option"
  ra_expected_sha256 :: "ustring option"
  ra_start_line :: "nat option"
  ra_end_line :: "nat option"
  ra_query :: "ustring option"
  ra_context_lines :: "nat option"
  ra_max_matches :: "nat option"

definition read_text_default_chars :: nat where
  "read_text_default_chars = 8000"

definition read_text_max_chars :: nat where
  "read_text_max_chars = 12000"

record text_case =
  tc_lowercase :: "ustring \<Rightarrow> ustring"
  tc_char_lowercase :: "uchar \<Rightarrow> ustring"
  tc_debug :: "ustring \<Rightarrow> ustring"

datatype read_error = LimitOutOfRange | OffsetBeyondText nat nat | InvalidLineRange nat nat nat | EmptyQuery

section \<open>Pages\<close>

record text_page =
  pg_offset :: nat
  pg_shown :: nat
  pg_total :: nat
  pg_next :: "nat option"
  pg_text :: ustring

definition page_at :: "ustring \<Rightarrow> nat option \<Rightarrow> nat option \<Rightarrow> read_error + text_page" where
  "page_at content offset_arg limit_arg =
     (let offset = (case offset_arg of Some n \<Rightarrow> n | None \<Rightarrow> 0);
          limit = (case limit_arg of Some n \<Rightarrow> n | None \<Rightarrow> read_text_default_chars) in
      if limit = 0 \<or> limit > read_text_max_chars then Inl LimitOutOfRange
      else if offset > length content then Inl (OffsetBeyondText offset (length content))
      else
        let page = take limit (drop offset content); stop = offset + length page in
        Inr \<lparr>pg_offset = offset, pg_shown = length page, pg_total = length content,
          pg_next = (if stop < length content then Some stop else None), pg_text = page\<rparr>)"

definition page_string :: "text_page \<Rightarrow> ustring" where
  "page_string pg =
     lit ''[offset='' @ decimal (pg_offset pg) @ lit '', shown_chars='' @ decimal (pg_shown pg) @ lit '', total_chars='' @ decimal (pg_total pg) @
     lit '', next_offset='' @ (case pg_next pg of Some n \<Rightarrow> decimal n | None \<Rightarrow> lit ''null'') @
     lit '', complete='' @ (if pg_offset pg + pg_shown pg = pg_total pg then lit ''true'' else lit ''false'') @ lit '']'' @
     newline # pg_text pg"

definition read_text_page :: "ustring \<Rightarrow> read_file_args \<Rightarrow> read_error + ustring" where
  "read_text_page content args = map_ok page_string (page_at content (ra_offset args) (ra_limit args))"

section \<open>Lines\<close>

text \<open>\<open>str::lines\<close>: without the line feed and a carriage return before it.\<close>

definition line_body :: "ustring \<Rightarrow> ustring" where
  "line_body line =
     (if line \<noteq> [] \<and> last line = newline
      then (let body = butlast line in if body \<noteq> [] \<and> last body = 13 then butlast body else body)
      else line)"

definition str_lines :: "ustring \<Rightarrow> ustring list" where
  "str_lines s = map line_body (split_inclusive s)"

fun find_chars :: "ustring \<Rightarrow> ustring \<Rightarrow> nat option" where
  "find_chars needle [] = (if needle = [] then Some 0 else None)"
| "find_chars needle (c # s) = (if prefix needle (c # s) then Some 0 else map_option Suc (find_chars needle s))"

text \<open>The character of the line whose lower case covers a byte of the folded line.\<close>

fun char_at_byte :: "text_case \<Rightarrow> nat \<Rightarrow> nat \<Rightarrow> ustring \<Rightarrow> nat" where
  "char_at_byte tc byte folded [] = 0"
| "char_at_byte tc byte folded (c # s) =
     (if byte < folded + utf8_len (tc_char_lowercase tc c) then 0
      else Suc (char_at_byte tc byte (folded + utf8_len (tc_char_lowercase tc c)) s))"

definition excerpt_chars :: nat where
  "excerpt_chars = read_text_default_chars div 2"

definition match_character :: "text_case \<Rightarrow> ustring \<Rightarrow> ustring \<Rightarrow> nat" where
  "match_character tc line query =
     (let folded = tc_lowercase tc line in
      case find_chars (tc_lowercase tc (trim query)) folded of
        Some i \<Rightarrow> char_at_byte tc (utf8_len (take i folded)) 0 line
      | None \<Rightarrow> 0)"

definition query_line_excerpt :: "text_case \<Rightarrow> ustring \<Rightarrow> ustring \<Rightarrow> ustring" where
  "query_line_excerpt tc line query =
     (if length line \<le> excerpt_chars then line
      else
        let start = match_character tc line query - excerpt_chars div 4;
            excerpt = take excerpt_chars (drop start line) in
        lit ''[columns='' @ decimal (start + 1) @ lit ''..'' @ decimal (start + length excerpt) @ lit '', total_chars='' @
        decimal (length line) @ lit '', excerpt=true] '' @ excerpt)"

record line_search =
  ls_matches :: nat
  ls_shown :: nat
  ls_selected :: "nat list"

fun search_lines :: "(ustring \<Rightarrow> bool) \<Rightarrow> ustring list \<Rightarrow> nat \<Rightarrow> nat \<Rightarrow> nat \<Rightarrow> nat \<Rightarrow> nat list \<Rightarrow> line_search \<Rightarrow> line_search" where
  "search_lines hit lines ctxt limit start stop [] ls = ls"
| "search_lines hit lines ctxt limit start stop (n # ns) ls =
     search_lines hit lines ctxt limit start stop ns
       (if hit (lines ! (n - 1))
        then
          (if ls_shown ls < limit
           then \<lparr>ls_matches = Suc (ls_matches ls), ls_shown = Suc (ls_shown ls),
             ls_selected = ls_selected ls @ [max (n - ctxt) start..<Suc (min (n + ctxt) stop)]\<rparr>
           else ls\<lparr>ls_matches := Suc (ls_matches ls)\<rparr>)
        else ls)"

definition no_search :: line_search where
  "no_search = \<lparr>ls_matches = 0, ls_shown = 0, ls_selected = []\<rparr>"

definition pad6 :: "ustring \<Rightarrow> ustring" where
  "pad6 s = replicate (6 - length s) 32 @ s"

definition line_row :: "nat \<Rightarrow> ustring \<Rightarrow> ustring" where
  "line_row n line = pad6 (decimal n) @ lit '' | '' @ line @ [newline]"

definition line_span_text :: "nat \<Rightarrow> nat \<Rightarrow> nat \<Rightarrow> ustring" where
  "line_span_text start stop all_lines =
     lit ''lines='' @ decimal start @ lit ''..'' @ decimal stop @ lit '', total-lines='' @ decimal all_lines @ lit '']'' @ [newline]"

definition select_file_lines :: "text_case \<Rightarrow> ustring \<Rightarrow> read_file_args \<Rightarrow> read_error + ustring" where
  "select_file_lines tc content args =
     (let lines = str_lines content; all_lines = length lines;
          start = (case ra_start_line args of Some n \<Rightarrow> n | None \<Rightarrow> 1);
          stop = min (case ra_end_line args of Some n \<Rightarrow> n | None \<Rightarrow> all_lines) all_lines in
      if start = 0 \<or> (0 < all_lines \<and> all_lines < start) \<or> stop < start then Inl (InvalidLineRange start stop all_lines)
      else
        case ra_query args of
          None \<Rightarrow>
            Inr (lit ''['' @ line_span_text start stop all_lines @
              concat (map (\<lambda>n. line_row n (lines ! (n - 1))) (if 0 < all_lines then [start..<Suc stop] else [])))
        | Some query \<Rightarrow>
            if trim query = [] then Inl EmptyQuery
            else
              let needle = tc_lowercase tc (trim query);
                  ctxt = min (case ra_context_lines args of Some n \<Rightarrow> n | None \<Rightarrow> 3) 20;
                  limit = max 1 (min (case ra_max_matches args of Some n \<Rightarrow> n | None \<Rightarrow> 20) 100);
                  found = search_lines (\<lambda>line. sublist needle (tc_lowercase tc line)) lines ctxt limit start stop
                    [start..<Suc stop] no_search in
              Inr (lit ''[query='' @ tc_debug tc query @ lit '', matches='' @ decimal (ls_matches found) @ lit '', shown='' @
                decimal (ls_shown found) @ lit '', '' @ line_span_text start stop all_lines @
                concat (map (\<lambda>n. line_row n (query_line_excerpt tc (lines ! (n - 1)) query)) (sort (remdups (ls_selected found))))))"

section \<open>Media types\<close>

definition supported_image_media_type :: "nat list \<Rightarrow> ustring option" where
  "supported_image_media_type bytes =
     (if prefix [137, 80, 78, 71, 13, 10, 26, 10] bytes then Some (lit ''image/png'')
      else if prefix [255, 216, 255] bytes then Some (lit ''image/jpeg'')
      else if prefix (lit ''GIF87a'') bytes \<or> prefix (lit ''GIF89a'') bytes then Some (lit ''image/gif'')
      else if 12 \<le> length bytes \<and> take 4 bytes = lit ''RIFF'' \<and> take 4 (drop 8 bytes) = lit ''WEBP'' then Some (lit ''image/webp'')
      else None)"

section \<open>Pages put together again\<close>

text \<open>The pages a reader gets who follows \<open>next_offset\<close> with one limit.\<close>

function pages_from :: "ustring \<Rightarrow> nat \<Rightarrow> nat \<Rightarrow> ustring list" where
  "pages_from content limit offset =
     (case page_at content (Some offset) (Some limit) of
        Inl _ \<Rightarrow> []
      | Inr pg \<Rightarrow> pg_text pg # (case pg_next pg of None \<Rightarrow> [] | Some n \<Rightarrow> pages_from content limit n))"
  by pat_completeness auto
termination
  by (relation "measure (\<lambda>(content, _, offset). length content - offset)")
    (auto simp: page_at_def Let_def split: if_splits)

declare pages_from.simps [simp del]

lemma pages_complete:
  assumes "0 < limit" "limit \<le> read_text_max_chars" "offset \<le> length content"
  shows "concat (pages_from content limit offset) = drop offset content"
  using assms
proof (induction content limit offset rule: pages_from.induct)
  case (1 content limit offset)
  let ?page = "take limit (drop offset content)"
  have pg: "page_at content (Some offset) (Some limit) = Inr \<lparr>pg_offset = offset, pg_shown = length ?page, pg_total = length content,
      pg_next = (if offset + length ?page < length content then Some (offset + length ?page) else None), pg_text = ?page\<rparr>"
    using "1.prems" by (simp add: page_at_def Let_def)
  show ?case
  proof (cases "offset + length ?page < length content")
    case True
    then have "length ?page = limit" by auto
    with True pg "1.IH" [OF pg, of "offset + limit"] "1.prems"
    have "concat (pages_from content limit (offset + limit)) = drop (offset + limit) content" by simp
    with True \<open>length ?page = limit\<close> pg show ?thesis
      by (simp add: pages_from.simps [of content limit offset] add.commute [of offset] flip: drop_drop)
  next
    case False
    then have "?page = drop offset content" by simp
    with False pg show ?thesis by (simp add: pages_from.simps [of content limit offset])
  qed
qed

lemma pages_bounded: "page \<in> set (pages_from content limit offset) \<Longrightarrow> length page \<le> limit \<and> length page \<le> read_text_max_chars"
proof (induction content limit offset rule: pages_from.induct)
  case (1 content limit offset)
  show ?case
  proof (cases "page_at content (Some offset) (Some limit)")
    case (Inr pg)
    then have "length (pg_text pg) \<le> limit \<and> length (pg_text pg) \<le> read_text_max_chars"
      by (auto simp: page_at_def Let_def split: if_splits)
    with Inr "1.IH" [OF Inr] "1.prems" show ?thesis
      by (cases "pg_next pg") (auto simp: pages_from.simps [of content limit offset])
  qed (use "1.prems" in \<open>simp add: pages_from.simps [of content limit offset]\<close>)
qed

section \<open>What a query shows\<close>

lemma search_counts:
  fixes lines :: "ustring list"
  assumes "found = search_lines hit lines ctxt limit start stop ns ls" "ls_shown ls = min (ls_matches ls) limit"
  shows "ls_matches found = ls_matches ls + length (filter (\<lambda>n. hit (lines ! (n - 1))) ns)"
    "ls_shown found = min (ls_matches found) limit"
proof -
  have "ls_matches (search_lines hit lines ctxt limit start stop ns ls) = ls_matches ls + length (filter (\<lambda>n. hit (lines ! (n - 1))) ns) \<and>
      ls_shown (search_lines hit lines ctxt limit start stop ns ls) = min (ls_matches (search_lines hit lines ctxt limit start stop ns ls)) limit"
    using assms(2) by (induction ns arbitrary: ls) auto
  then show "ls_matches found = ls_matches ls + length (filter (\<lambda>n. hit (lines ! (n - 1))) ns)"
    "ls_shown found = min (ls_matches found) limit" using assms(1) by simp_all
qed

lemma search_keeps: "set (ls_selected ls) \<subseteq> set (ls_selected (search_lines hit lines ctxt limit start stop ns ls))"
proof (induction ns arbitrary: ls)
  case (Cons n ns)
  show ?case
    using Cons.IH [of "\<lparr>ls_matches = Suc (ls_matches ls), ls_shown = Suc (ls_shown ls),
        ls_selected = ls_selected ls @ [max (n - ctxt) start..<Suc (min (n + ctxt) stop)]\<rparr>"]
      Cons.IH [of "ls\<lparr>ls_matches := Suc (ls_matches ls)\<rparr>"] Cons.IH [of ls] by auto
qed simp

lemma search_selects:
  assumes "n \<in> set ns" "hit (lines ! (n - 1))" "start \<le> n" "n \<le> stop"
    "ls_shown ls + length (filter (\<lambda>n. hit (lines ! (n - 1))) ns) \<le> limit"
  shows "n \<in> set (ls_selected (search_lines hit lines ctxt limit start stop ns ls))"
  using assms
proof (induction ns arbitrary: ls)
  case (Cons m ns)
  show ?case
  proof (cases "n = m")
    case True
    with Cons.prems have "ls_shown ls < limit" by simp
    with True Cons.prems show ?thesis
      by (auto intro!: subsetD [OF search_keeps])
  next
    case False
    with Cons.prems have n: "n \<in> set ns" by simp
    show ?thesis
      using Cons.IH [OF n Cons.prems(2-4)] Cons.prems(5) by (auto split: if_splits)
  qed
qed simp

lemma char_at_byte_within:
  assumes "folded \<le> byte" "byte < folded + sum_list (map (\<lambda>c. utf8_len (tc_char_lowercase tc c)) line)"
  shows "char_at_byte tc byte folded line < length line"
  using assms by (induction line arbitrary: folded) (auto simp: add.assoc)

lemma find_chars_within: "find_chars needle s = Some i \<Longrightarrow> prefix needle (drop i s) \<and> i \<le> length s"
  by (induction s arbitrary: i) (auto split: if_splits)

lemma match_character_within:
  assumes "utf8_len (tc_lowercase tc line) = sum_list (map (\<lambda>c. utf8_len (tc_char_lowercase tc c)) line)"
    "find_chars (tc_lowercase tc (trim query)) (tc_lowercase tc line) = Some i" "tc_lowercase tc (trim query) \<noteq> []"
  shows "match_character tc line query < length line"
proof -
  let ?folded = "tc_lowercase tc line"
  have "drop i ?folded \<noteq> []" using find_chars_within [OF assms(2)] assms(3) by auto
  then have "utf8_len (take i ?folded) < utf8_len ?folded"
    using utf8_len_append [of "take i ?folded" "drop i ?folded"] utf8_len_pos by auto
  then show ?thesis using assms char_at_byte_within [of 0 "utf8_len (take i ?folded)" tc line] by (simp add: match_character_def)
qed

text \<open>The excerpt of a long line shows the character at which the query matches.\<close>

lemma excerpt_shows_match:
  assumes "match_character tc line query < length line" "excerpt_chars < length line"
  obtains start where "query_line_excerpt tc line query = lit ''[columns='' @ decimal (start + 1) @ lit ''..'' @
      decimal (start + length (take excerpt_chars (drop start line))) @ lit '', total_chars='' @ decimal (length line) @
      lit '', excerpt=true] '' @ take excerpt_chars (drop start line)"
    "start \<le> match_character tc line query" "match_character tc line query < start + length (take excerpt_chars (drop start line))"
proof
  let ?start = "match_character tc line query - excerpt_chars div 4"
  show "query_line_excerpt tc line query = lit ''[columns='' @ decimal (?start + 1) @ lit ''..'' @
      decimal (?start + length (take excerpt_chars (drop ?start line))) @ lit '', total_chars='' @ decimal (length line) @
      lit '', excerpt=true] '' @ take excerpt_chars (drop ?start line)"
    using assms(2) by (simp add: query_line_excerpt_def Let_def)
  show "match_character tc line query < ?start + length (take excerpt_chars (drop ?start line))"
    using assms by (auto simp: min_def excerpt_chars_def read_text_default_chars_def)
qed simp

end
