(* ===== verification/Rust_Bytes.thy ===== *)
theory Rust_Bytes
  imports Yao_Prelude
begin

text \<open>
  The bytes that are hashed: UTF-8 (\<open>str::as_bytes\<close>) and big-endian numbers (\<open>to_be_bytes\<close>), with
  the laws that make a concatenation readable: UTF-8 is a prefix code and has a zero byte only for
  the character zero.
\<close>

definition utf8_char :: "uchar \<Rightarrow> nat list" where
  "utf8_char c =
     (if c < 0x80 then [c]
      else if c < 0x800 then [0xC0 + c div 64, 0x80 + c mod 64]
      else if c < 0x10000 then [0xE0 + c div 4096, 0x80 + c div 64 mod 64, 0x80 + c mod 64]
      else [0xF0 + c div 262144, 0x80 + c div 4096 mod 64, 0x80 + c div 64 mod 64, 0x80 + c mod 64])"

definition utf8_bytes :: "ustring \<Rightarrow> nat list" where
  "utf8_bytes s = concat (map utf8_char s)"

text \<open>\<open>u64::to_be_bytes\<close>, and \<open>i64::to_be_bytes\<close> by two's complement.\<close>

definition be_bytes :: "nat \<Rightarrow> nat list" where
  "be_bytes n = map (\<lambda>i. n div 256 ^ i mod 256) (rev [0..<8])"

definition i64_bytes :: "int \<Rightarrow> nat list" where
  "i64_bytes x = be_bytes (nat (x mod 2 ^ 64))"

lemma utf8_bytes_simps [simp]: "utf8_bytes [] = []" "utf8_bytes (c # s) = utf8_char c @ utf8_bytes s" "utf8_bytes (s @ t) = utf8_bytes s @ utf8_bytes t"
  by (simp_all add: utf8_bytes_def)

lemma utf8_char_nonempty [simp]: "utf8_char c \<noteq> []"
  by (simp add: utf8_char_def)

lemma byte_split:
  "c = 64 * (c div 64) + c mod 64" "c div 64 = 64 * (c div 4096) + c div 64 mod 64" "c div 4096 = 64 * (c div 262144) + c div 4096 mod 64"
  for c :: nat
  using div_mult2_eq [of c 64 64] div_mult2_eq [of c 4096 64] by simp_all

lemma lead_bytes: "c < 0x800 \<Longrightarrow> c div 64 < 32" "c < 0x10000 \<Longrightarrow> c div 4096 < 16" for c :: nat
  by auto

lemma utf8_char_cases [case_names one two three four]:
  obtains "c < 0x80" "utf8_char c = [c]"
  | "c < 0x800" "utf8_char c = [0xC0 + c div 64, 0x80 + c mod 64]"
  | "c < 0x10000" "utf8_char c = [0xE0 + c div 4096, 0x80 + c div 64 mod 64, 0x80 + c mod 64]"
  | "utf8_char c = [0xF0 + c div 262144, 0x80 + c div 4096 mod 64, 0x80 + c div 64 mod 64, 0x80 + c mod 64]"
  by (cases "c < 0x80"; cases "c < 0x800"; cases "c < 0x10000") (simp_all add: utf8_char_def)

lemma utf8_prefix_code:
  assumes "utf8_char c @ x = utf8_char d @ y"
  shows "c = d \<and> x = y"
proof (cases c rule: utf8_char_cases)
  case one
  then show ?thesis using assms by (cases d rule: utf8_char_cases) simp_all
next
  case two
  note c = lead_bytes(1) [OF two(1)]
  show ?thesis
  proof (cases d rule: utf8_char_cases)
    case (two)
    then show ?thesis using assms \<open>utf8_char c = _\<close> byte_split(1) [of c] byte_split(1) [of d] by simp
  qed (use assms \<open>utf8_char c = _\<close> c in simp_all)
next
  case three
  note c = lead_bytes(2) [OF three(1)]
  show ?thesis
  proof (cases d rule: utf8_char_cases)
    case (three)
    then show ?thesis using assms \<open>utf8_char c = _\<close> byte_split(1,2) [of c] byte_split(1,2) [of d] by simp
  next
    case two
    then show ?thesis using assms \<open>utf8_char c = _\<close> lead_bytes(1) [of d] by simp
  qed (use assms \<open>utf8_char c = _\<close> c in simp_all)
next
  case four
  show ?thesis
  proof (cases d rule: utf8_char_cases)
    case four
    then show ?thesis using assms \<open>utf8_char c = _\<close> byte_split [of c] byte_split [of d] by simp
  next
    case two
    then show ?thesis using assms \<open>utf8_char c = _\<close> lead_bytes(1) [of d] by simp
  next
    case three
    then show ?thesis using assms \<open>utf8_char c = _\<close> lead_bytes(2) [of d] by simp
  qed (use assms \<open>utf8_char c = _\<close> in simp_all)
qed

lemma utf8_append_prefix:
  assumes "utf8_bytes a @ x = utf8_bytes b @ y"
  shows "(\<exists>t. a = b @ t \<and> y = utf8_bytes t @ x) \<or> (\<exists>t. b = a @ t \<and> x = utf8_bytes t @ y)"
  using assms
proof (induction a arbitrary: b)
  case (Cons c a)
  show ?case
  proof (cases b)
    case (Cons d b')
    with Cons.prems have "c = d" "utf8_bytes a @ x = utf8_bytes b' @ y" using utf8_prefix_code [of c _ d] by auto
    with Cons.IH [of b'] Cons show ?thesis by auto
  qed (use Cons.prems in auto)
qed auto

lemma utf8_inject [simp]: "utf8_bytes a = utf8_bytes b \<longleftrightarrow> a = b"
proof
  assume "utf8_bytes a = utf8_bytes b"
  moreover have "utf8_bytes t = [] \<Longrightarrow> t = []" for t by (cases t) simp_all
  ultimately show "a = b" using utf8_append_prefix [of a "[]" b "[]"] by auto
qed simp

lemma utf8_zero: "0 \<in> set (utf8_bytes s) \<longleftrightarrow> 0 \<in> set s"
  by (induction s) (auto simp: utf8_char_def)

lemma length_be_bytes [simp]: "length (be_bytes n) = 8" "length (i64_bytes x) = 8"
  by (simp_all add: be_bytes_def i64_bytes_def)

lemma be_bytes_value: "fold (\<lambda>b acc. acc * 256 + b) (map (\<lambda>i. n div 256 ^ i mod 256) (rev [0..<w])) (n div 256 ^ w) = (n :: nat)"
proof (induction w)
  case (Suc w)
  have "n div 256 ^ Suc w * 256 + n div 256 ^ w mod 256 = n div 256 ^ w"
    by (metis div_mult_mod_eq div_mult2_eq mult.commute power_Suc)
  with Suc show ?case by simp
qed simp

lemma be_bytes_inject:
  assumes "be_bytes m = be_bytes n" "m < 2 ^ 64" "n < 2 ^ 64"
  shows "m = n"
proof -
  have "fold (\<lambda>b acc. acc * 256 + b) (be_bytes k) 0 = k" if "k < 2 ^ 64" for k
    using be_bytes_value [of k 8] that by (simp add: be_bytes_def)
  with assms show ?thesis by metis
qed

lemma i64_bytes_inject:
  assumes "i64_bytes x = i64_bytes y" "- (2 ^ 63) \<le> x" "x < 2 ^ 63" "- (2 ^ 63) \<le> y" "y < 2 ^ 63"
  shows "x = y"
proof -
  have "nat (x mod 2 ^ 64) = nat (y mod 2 ^ 64)"
    using assms(1) unfolding i64_bytes_def by (rule be_bytes_inject) (simp_all add: nat_less_iff)
  then have "x mod 2 ^ 64 = y mod 2 ^ 64" by simp
  then have "(2 :: int) ^ 64 dvd x - y" by (simp add: mod_eq_dvd_iff)
  then have "x - y = 0 \<or> 2 ^ 64 \<le> \<bar>x - y\<bar>" using dvd_imp_le_int [of "x - y" "2 ^ 64"] by auto
  with assms(2-5) show ?thesis by (simp add: abs_if split: if_splits)
qed

end
