(* ===== verification/File_Tools.thy ===== *)
theory File_Tools
  imports File_Tree File_Read Rust_Bytes
begin

text \<open>
  The file tools (\<open>WriteFileTool\<close>, \<open>EditFileTool\<close> and \<open>ReadFileTool\<close> of \<open>morphz/src/tool.rs\<close>): a call asks the
  permission broker for the path, checks its preconditions and reads or atomically replaces the
  file. A call returns its result, the reviewers it asked and the file system it leaves. Hashing,
  the suffix of temporary names and the approval context are parameters; the event a change is
  published with is the change record.
\<close>

section \<open>The host of a tool\<close>

record tool_host =
  th_cwd :: location
  th_glob_valid :: "ustring \<Rightarrow> bool"
  th_glob_matches :: "ustring \<Rightarrow> ustring \<Rightarrow> bool"
  th_authority :: authority
  th_context :: approval_context
  th_sha256 :: "nat list \<Rightarrow> ustring"
  th_temp_suffix :: ustring
  th_case :: text_case
  th_max_attachment_bytes :: nat

definition tree_host :: "tool_host \<Rightarrow> tree \<Rightarrow> policy_host" where
  "tree_host h t = \<lparr>ph_fs = tree_fs (th_cwd h) t, ph_glob_valid = th_glob_valid h, ph_glob_matches = th_glob_matches h\<rparr>"

definition host_profile :: "tool_host \<Rightarrow> permission_profile" where
  "host_profile h = current_profile (au_broker (th_authority h)) (au_session (th_authority h))"

fun content_bytes :: "file_content \<Rightarrow> nat list" where
  "content_bytes (Utf8 s) = utf8_bytes s"
| "content_bytes (NotUtf8 bs) = bs"

section \<open>Snapshots and atomic replacement\<close>

datatype snapshot_error = MetadataUnreadable io_error | NotRegularFile | NotUtf8Text

record file_snapshot =
  sn_content :: ustring
  sn_sha256 :: ustring
  sn_bytes :: nat

definition read_text_snapshot :: "tool_host \<Rightarrow> tree \<Rightarrow> path \<Rightarrow> snapshot_error + file_snapshot" where
  "read_text_snapshot h t p =
     and_then (map_err MetadataUnreadable (locate (th_cwd h) t (components p))) (\<lambda>at.
       case node_at t at of
         Some (File (Utf8 s)) \<Rightarrow> Inr \<lparr>sn_content = s, sn_sha256 = th_sha256 h (utf8_bytes s), sn_bytes = utf8_len s\<rparr>
       | Some (File (NotUtf8 _)) \<Rightarrow> Inl NotUtf8Text
       | _ \<Rightarrow> Inl NotRegularFile)"

datatype write_error = NoParentDirectory | CreateDirFailed io_error | TempFailed io_error | RenameFailed io_error

definition temp_name :: "tool_host \<Rightarrow> path \<Rightarrow> ustring" where
  "temp_name h p =
     lit ''.'' @ (case file_name p of Some name \<Rightarrow> name | None \<Rightarrow> lit ''file'') @ lit ''.morphz-tmp-'' @ th_temp_suffix h"

definition atomic_write_text :: "tool_host \<Rightarrow> tree \<Rightarrow> path \<Rightarrow> ustring \<Rightarrow> (write_error + unit) \<times> tree" where
  "atomic_write_text h t p content =
     (case parent_components (components p) of
        None \<Rightarrow> (Inl NoParentDirectory, t)
      | Some up \<Rightarrow>
          (case create_dir_all (th_cwd h) t up of
             (Inl e, t1) \<Rightarrow> (Inl (CreateDirFailed e), t1)
           | (Inr _, t1) \<Rightarrow>
               (let temp = up @ [Normal (temp_name h p)] in
                case create_new (th_cwd h) t1 temp (Utf8 content) of
                  Inl e \<Rightarrow> (Inl (TempFailed e), remove_file (th_cwd h) t1 temp)
                | Inr t2 \<Rightarrow>
                    (case rename_file (th_cwd h) t2 temp (components p) of
                       Inl e \<Rightarrow> (Inl (RenameFailed e), remove_file (th_cwd h) t2 temp)
                     | Inr t3 \<Rightarrow> (Inr (), t3)))))"

section \<open>Writing\<close>

record write_file_args =
  wa_path :: ustring
  wa_content :: ustring
  wa_mode :: ustring
  wa_expected_sha256 :: "ustring option"

record file_change =
  fc_path :: ustring
  fc_operation :: ustring
  fc_before_sha256 :: "ustring option"
  fc_after_sha256 :: ustring
  fc_bytes_before :: nat
  fc_bytes_after :: nat
  fc_diff :: ustring

datatype tool_error =
    CreateRefusesExisting
  | OverwriteTargetMissing
  | SnapshotFailed snapshot_error
  | ExpectedHashMissing
  | VersionConflict ustring
  | UnsupportedMode ustring
  | WriteFailed write_error
  | NoEdits
  | EditRejected permission_error
  | EditFailed edit_error
  | ImageTooLarge nat
  | ImageSelectors
  | NeitherTextNorImage
  | ReadFailed read_error

datatype change_outcome = PathRejected permission_error | FileChanged file_change

definition before_write :: "tool_host \<Rightarrow> tree \<Rightarrow> write_file_args \<Rightarrow> path \<Rightarrow> tool_error + ustring \<times> ustring option \<times> nat" where
  "before_write h t args p =
     (let present = is_ok (locate (th_cwd h) t (components p)) in
      if wa_mode args = lit ''create'' then (if present then Inl CreateRefusesExisting else Inr ([], None, 0))
      else if wa_mode args = lit ''overwrite'' then
        (if \<not> present then Inl OverwriteTargetMissing
         else
           and_then (map_err SnapshotFailed (read_text_snapshot h t p)) (\<lambda>sn.
             case wa_expected_sha256 args of
               None \<Rightarrow> Inl ExpectedHashMissing
             | Some expected \<Rightarrow>
                 if expected \<noteq> sn_sha256 sn then Inl (VersionConflict (sn_sha256 sn))
                 else Inr (sn_content sn, Some (sn_sha256 sn), sn_bytes sn)))
      else Inl (UnsupportedMode (wa_mode args)))"

definition whole_file_hunk :: "ustring \<Rightarrow> ustring \<Rightarrow> hunk" where
  "whole_file_hunk before after =
     \<lparr>hk_old_start = 1, hk_old_count = diff_line_count before, hk_new_start = 1, hk_old_text = before, hk_new_text = after\<rparr>"

definition execute_write :: "tool_host \<Rightarrow> tree \<Rightarrow> write_file_args \<Rightarrow> (tool_error + change_outcome) \<times> consulted list \<times> tree" where
  "execute_write h t args =
     (case authorize_path (tree_host h t) (th_authority h) (wa_path args) WriteAccess (lit ''write'') (wa_mode args) (th_context h) of
        (Inl e, asked) \<Rightarrow> (Inr (PathRejected e), asked, t)
      | (Inr p, asked) \<Rightarrow>
          (case before_write h t args p of
             Inl e \<Rightarrow> (Inl e, asked, t)
           | Inr (before, sha, before_bytes) \<Rightarrow>
               (case atomic_write_text h t p (wa_content args) of
                  (Inl e, t') \<Rightarrow> (Inl (WriteFailed e), asked, t')
                | (Inr _, t') \<Rightarrow>
                    (Inr (FileChanged \<lparr>fc_path = wa_path args, fc_operation = wa_mode args, fc_before_sha256 = sha,
                       fc_after_sha256 = th_sha256 h (utf8_bytes (wa_content args)), fc_bytes_before = before_bytes,
                       fc_bytes_after = utf8_len (wa_content args),
                       fc_diff = replacement_diff (wa_path args) [whole_file_hunk before (wa_content args)]\<rparr>), asked, t'))))"

section \<open>Editing\<close>

record edit_file_args =
  ea_path :: ustring
  ea_expected_sha256 :: ustring
  ea_edits :: "exact_edit list"

definition execute_edit :: "tool_host \<Rightarrow> tree \<Rightarrow> edit_file_args \<Rightarrow> (tool_error + file_change) \<times> consulted list \<times> tree" where
  "execute_edit h t args =
     (if ea_edits args = [] then (Inl NoEdits, [], t)
      else
        case authorize_path (tree_host h t) (th_authority h) (ea_path args) WriteAccess (lit ''edit'') (lit ''edit'') (th_context h) of
          (Inl e, asked) \<Rightarrow> (Inl (EditRejected e), asked, t)
        | (Inr p, asked) \<Rightarrow>
            (case read_text_snapshot h t p of
               Inl e \<Rightarrow> (Inl (SnapshotFailed e), asked, t)
             | Inr sn \<Rightarrow>
                 if sn_sha256 sn \<noteq> ea_expected_sha256 args then (Inl (VersionConflict (sn_sha256 sn)), asked, t)
                 else
                   (case edit_text (sn_content sn) (ea_edits args) of
                      Inl e \<Rightarrow> (Inl (EditFailed e), asked, t)
                    | Inr (updated, rs) \<Rightarrow>
                        (case atomic_write_text h t p updated of
                           (Inl e, t') \<Rightarrow> (Inl (WriteFailed e), asked, t')
                         | (Inr _, t') \<Rightarrow>
                             (Inr \<lparr>fc_path = ea_path args, fc_operation = lit ''edit'', fc_before_sha256 = Some (sn_sha256 sn),
                                fc_after_sha256 = th_sha256 h (utf8_bytes updated), fc_bytes_before = sn_bytes sn,
                                fc_bytes_after = utf8_len updated,
                                fc_diff = replacement_diff (ea_path args) (edit_hunks (sn_content sn) 0 rs)\<rparr>, asked, t')))))"

section \<open>Reading\<close>

record image_attachment =
  im_name :: ustring
  im_media_type :: ustring
  im_bytes :: "nat list"

datatype read_outcome = ReadText ustring | ReadImage image_attachment | ReadRejected permission_error | ReadMissing | ReadUnreadable io_error

definition text_selectors :: "read_file_args \<Rightarrow> bool" where
  "text_selectors args \<longleftrightarrow>
     ra_offset args \<noteq> None \<or> ra_limit args \<noteq> None \<or> ra_start_line args \<noteq> None \<or> ra_end_line args \<noteq> None \<or> ra_query args \<noteq> None \<or>
     ra_context_lines args \<noteq> None \<or> ra_max_matches args \<noteq> None"

definition read_image :: "tool_host \<Rightarrow> read_file_args \<Rightarrow> path \<Rightarrow> nat list \<Rightarrow> ustring \<Rightarrow> tool_error + read_outcome" where
  "read_image h args p bytes media_type =
     (if text_selectors args then Inl ImageSelectors
      else if th_max_attachment_bytes h < length bytes then Inl (ImageTooLarge (length bytes))
      else Inr (ReadImage \<lparr>im_name = (case file_name p of Some name \<Rightarrow> name | None \<Rightarrow> lit ''image''), im_media_type = media_type,
        im_bytes = bytes\<rparr>))"

definition read_header :: "tool_host \<Rightarrow> read_file_args \<Rightarrow> ustring \<Rightarrow> ustring" where
  "read_header h args content =
     lit ''[path='' @ ra_path args @ lit '', bytes='' @ decimal (utf8_len content) @ lit '', sha256='' @
     th_sha256 h (utf8_bytes content) @ lit '']'' @ [newline]"

definition read_text :: "tool_host \<Rightarrow> read_file_args \<Rightarrow> ustring \<Rightarrow> tool_error + read_outcome" where
  "read_text h args content =
     map_err ReadFailed
       (and_then
          (if ra_query args = None \<and> ra_start_line args = None \<and> ra_end_line args = None then Inr content
           else select_file_lines (th_case h) content args)
          (\<lambda>selected. map_ok (\<lambda>page. ReadText (read_header h args content @ page)) (read_text_page selected args)))"

definition read_content :: "tool_host \<Rightarrow> read_file_args \<Rightarrow> path \<Rightarrow> file_content \<Rightarrow> tool_error + read_outcome" where
  "read_content h args p content =
     (let bytes = content_bytes content; sha = th_sha256 h bytes in
      if th_max_attachment_bytes h < length bytes \<and> supported_image_media_type (take 12 bytes) \<noteq> None
      then Inl (ImageTooLarge (length bytes))
      else if (case ra_expected_sha256 args of Some expected \<Rightarrow> expected \<noteq> sha | None \<Rightarrow> False) then Inl (VersionConflict sha)
      else
        case supported_image_media_type bytes of
          Some media_type \<Rightarrow> read_image h args p bytes media_type
        | None \<Rightarrow> (case content of Utf8 s \<Rightarrow> read_text h args s | NotUtf8 _ \<Rightarrow> Inl NeitherTextNorImage))"

definition execute_read :: "tool_host \<Rightarrow> tree \<Rightarrow> read_file_args \<Rightarrow> (tool_error + read_outcome) \<times> consulted list" where
  "execute_read h t args =
     (case authorize_path (tree_host h t) (th_authority h) (ra_path args) ReadAccess (lit ''read'') (lit ''read'') (th_context h) of
        (Inl e, asked) \<Rightarrow> (Inr (ReadRejected e), asked)
      | (Inr p, asked) \<Rightarrow>
          (case locate (th_cwd h) t (components p) of
             Inl _ \<Rightarrow> (Inr ReadMissing, asked)
           | Inr at \<Rightarrow>
               (case node_at t at of
                  Some (File content) \<Rightarrow> (read_content h args p content, asked)
                | _ \<Rightarrow> (Inr (ReadUnreadable is_a_directory), asked))))"

end
