(* ===== verification/File_Safety.thy ===== *)
theory File_Safety
  imports File_Tools
begin

text \<open>
  What the file tools promise: an atomic replacement leaves the old text or the new one and no
  temporary file; a write or an edit whose path has no parent components changes only places under
  the place the permission policy looked at; with parent components after a missing directory a
  write escapes it.
\<close>

section \<open>Atomic replacement\<close>

lemma temp_name_differs: "plain_name s \<Longrightarrow> file_name p = Some s \<Longrightarrow> temp_name h p \<noteq> s"
  by (auto simp: temp_name_def dest: arg_cong [where f = length])

lemma file_name_names: "components p = RootDir # map Normal ns \<Longrightarrow> ns \<noteq> [] \<Longrightarrow> file_name p = Some (last ns)"
  by (cases ns rule: rev_cases) (simp_all add: file_name_def)

lemma create_new_names:
  assumes "ns \<noteq> []" "create_new cwd t (RootDir # map Normal ns) content = Inr t'"
  shows "t ns = None" "t' = t(ns \<mapsto> File content)" "entry_place cwd t (RootDir # map Normal ns) = Inr ns"
  using assms entry_place_is [OF assms(1)]
  by (auto simp: create_new_def and_then_Inr_iff node_at_def split: if_splits)

lemma remove_names: "ns \<noteq> [] \<Longrightarrow> remove_file cwd t (RootDir # map Normal ns) \<in> {t, t(ns := None)}"
  by (auto simp: remove_file_def split: sum.splits option.splits node.splits dest!: entry_place_is)

lemma walk_unaffected:
  assumes "\<And>ms. prefix ms ns \<Longrightarrow> node_at t' (at @ ms) = node_at t (at @ ms)"
  shows "walk t' at (map Normal ns) = walk t at (map Normal ns)"
  using assms
proof (induction ns arbitrary: at)
  case (Cons n ns)
  have "node_at t' at = node_at t at" using Cons.prems [of "[]"] by simp
  moreover have "node_at t' (at @ [n]) = node_at t (at @ [n])" using Cons.prems [of "[n]"] by simp
  moreover have "walk t' (at @ [n]) (map Normal ns) = walk t (at @ [n]) (map Normal ns)"
    using Cons.IH [of "at @ [n]"] Cons.prems [of "n # _"] by simp
  ultimately show ?case by simp
qed simp

lemma entry_place_unaffected:
  assumes "length loc = length ns" "ns \<noteq> []"
  shows "entry_place cwd (t(loc := v)) (RootDir # map Normal ns) = entry_place cwd t (RootDir # map Normal ns)"
proof -
  have "node_at (t(loc := v)) ms = node_at t ms" if "prefix ms (butlast ns)" for ms
  proof -
    have "length ms < length ns" using prefix_length_le [OF that] assms(2) by (cases ns rule: rev_cases) auto
    then have "ms \<noteq> loc" using assms(1) by auto
    then show ?thesis by (simp add: node_at_def)
  qed
  then show ?thesis
    using walk_unaffected [of "butlast ns" "t(loc := v)" "[]" t] assms(2)
    by (auto simp: entry_place_names and_then_def split: sum.splits dest!: walk_normals)
qed

lemma remove_created:
  assumes "entry_place cwd t (RootDir # map Normal ns) = Inr ns" "ns \<noteq> []" "t ns = None"
  shows "remove_file cwd (t(ns \<mapsto> File content)) (RootDir # map Normal ns) = t"
  using assms by (auto simp: remove_file_def entry_place_unaffected)

lemma remove_absent: "ns \<noteq> [] \<Longrightarrow> t ns = None \<Longrightarrow> remove_file cwd t (RootDir # map Normal ns) = t"
  by (auto simp: remove_file_def split: sum.splits option.splits node.splits dest!: entry_place_is)

definition temp_location :: "tool_host \<Rightarrow> path \<Rightarrow> location \<Rightarrow> location" where
  "temp_location h p ns = butlast ns @ [temp_name h p]"

lemma replace_effect:
  assumes temp_def: "temp = RootDir # map Normal (temp_location h p ns)" and ns: "components p = RootDir # map Normal ns" "ns \<noteq> []" and fresh: "t1 (temp_location h p ns) = None"
    and created: "create_new cwd t1 temp (Utf8 content) = Inr t2"
  shows "rename_file cwd t2 temp (components p) = Inr t3 \<Longrightarrow> t3 = t1(ns \<mapsto> File (Utf8 content))"
    "rename_file cwd t2 temp (components p) = Inl e \<Longrightarrow> remove_file cwd t2 temp = t1"
proof -
  let ?at = "temp_location h p ns"
  have at: "?at \<noteq> []" "length ?at = length ns" using ns(2) by (simp_all add: temp_location_def)
  note new = create_new_names [OF at(1) created [unfolded temp_def]]
  have source: "entry_place cwd t2 temp = Inr ?at"
    using new(2,3) entry_place_unaffected [OF refl at(1)] by (simp add: temp_def)
  show "t3 = t1(ns \<mapsto> File (Utf8 content))" if renamed: "rename_file cwd t2 temp (components p) = Inr t3"
  proof -
    obtain target where target: "entry_place cwd t2 (components p) = Inr target"
      and t3: "t3 = (t2(?at := None))(target \<mapsto> File (Utf8 content))"
      using renamed source new(2) by (auto simp: rename_file_def and_then_Inr_iff split: if_splits)
    have "target = ns" using entry_place_is [OF ns(2)] target ns(1) by simp
    with t3 new(2) fresh show ?thesis by (auto simp: fun_eq_iff)
  qed
  show "remove_file cwd t2 temp = t1" if "rename_file cwd t2 temp (components p) = Inl e"
    using remove_created [OF new(3) at(1) fresh] new(2) by (simp add: temp_def)
qed

lemma atomic_write_effect:
  assumes ns: "components p = RootDir # map Normal ns" "ns \<noteq> []" and fresh: "t (temp_location h p ns) = None"
    and run: "atomic_write_text h t p content = (r, t')"
  obtains t1 where "only_new_directories t t1 (butlast ns)"
    "t' = (case r of Inr _ \<Rightarrow> t1(ns \<mapsto> File (Utf8 content)) | Inl _ \<Rightarrow> t1)"
proof -
  let ?up = "RootDir # map Normal (butlast ns)"
  let ?temp = "RootDir # map Normal (temp_location h p ns)"
  have up: "parent_components (components p) = Some ?up" using ns by (simp add: parent_of_names)
  have temp: "?up @ [Normal (temp_name h p)] = ?temp" by (simp add: temp_location_def)
  obtain r1 t1 where dirs: "create_dir_all (th_cwd h) t ?up = (r1, t1)" by (cases "create_dir_all (th_cwd h) t ?up")
  have new: "only_new_directories t t1 (butlast ns)" using create_dir_all_new [OF dirs] .
  moreover have "\<not> prefix (temp_location h p ns) (butlast ns)" by (auto simp: temp_location_def dest: prefix_length_le)
  ultimately have fresh1: "t1 (temp_location h p ns) = None" using fresh unfolding only_new_directories_def by metis
  have at: "temp_location h p ns \<noteq> []" by (simp add: temp_location_def)
  show thesis
  proof (cases r1)
    case (Inl e)
    with run up dirs have "t' = t1" "r = Inl (CreateDirFailed e)" by (simp_all add: atomic_write_text_def)
    with that new show thesis by simp
  next
    case (Inr u)
    have rest: "(case create_new (th_cwd h) t1 ?temp (Utf8 content) of
          Inl e \<Rightarrow> (Inl (TempFailed e), remove_file (th_cwd h) t1 ?temp)
        | Inr t2 \<Rightarrow>
            (case rename_file (th_cwd h) t2 ?temp (components p) of
               Inl e \<Rightarrow> (Inl (RenameFailed e), remove_file (th_cwd h) t2 ?temp)
             | Inr t3 \<Rightarrow> (Inr (), t3))) = (r, t')"
      using run unfolding atomic_write_text_def up dirs Inr option.case prod.case sum.case Let_def temp .
    show thesis
    proof (cases "create_new (th_cwd h) t1 ?temp (Utf8 content)")
      case (Inl e)
      with rest remove_absent [where t = t1, OF at fresh1] have "t' = t1" "r = Inl (TempFailed e)" by auto
      with that new show thesis by auto
    next
      case (Inr t2)
      note effect = replace_effect [OF refl ns fresh1 Inr]
      show thesis
      proof (cases "rename_file (th_cwd h) t2 ?temp (components p)")
        case (Inl e)
        with rest \<open>create_new _ _ _ _ = _\<close> effect(2) have "t' = t1" "r = Inl (RenameFailed e)" by auto
        with that new show thesis by auto
      next
        case (Inr t3)
        with rest \<open>create_new _ _ _ _ = _\<close> effect(1) have "t' = t1(ns \<mapsto> File (Utf8 content))" "r = Inr ()" by auto
        with that new show thesis by auto
      qed
    qed
  qed
qed

section \<open>Confinement\<close>

lemma ancestors_names: "cs \<in> set (ancestors (RootDir # map Normal ns)) \<Longrightarrow> \<exists>ms. prefix ms ns \<and> cs = RootDir # map Normal ms"
proof (induction ns rule: rev_induct)
  case Nil
  then show ?case by (simp add: ancestors.simps [of "[RootDir]"] parent_components_def)
next
  case (snoc n ns)
  have "ancestors (RootDir # map Normal (ns @ [n])) = (RootDir # map Normal (ns @ [n])) # ancestors (RootDir # map Normal ns)"
    using parent_of_names [of "ns @ [n]"] by (subst ancestors.simps) simp
  then show ?case using snoc by (auto simp: prefix_append)
qed

lemma locate_rendered: "\<forall>s \<in> set ms. plain_name s \<Longrightarrow> locate cwd t (components (render (RootDir # map Normal ms))) = locate cwd t (RootDir # map Normal ms)"
  by (simp add: components_render_names)

lemma resolve_first_names:
  assumes "resolve_first (tree_fs cwd t) p css = Inr anchor" "\<forall>s \<in> set ns. plain_name s"
    "\<forall>cs \<in> set css. \<exists>ms. prefix ms ns \<and> cs = RootDir # map Normal ms"
  shows "\<exists>ms. prefix ms ns \<and> anchor = location_path ms \<and> walk t [] (map Normal ms) = Inr ms"
  using assms
proof (induction css)
  case (Cons cs css)
  then obtain ms where ms: "prefix ms ns" "cs = RootDir # map Normal ms" by auto
  then have plain: "\<forall>s \<in> set ms. plain_name s" using Cons.prems(2) set_mono_prefix by blast
  show ?case
  proof (cases "locate cwd t (RootDir # map Normal ms)")
    case (Inr at)
    with located_names have "at = ms" "walk t [] (map Normal ms) = Inr ms" by blast+
    with Cons.prems(1) ms Inr show ?thesis by (auto simp: tree_fs_def locate_rendered [OF plain])
  next
    case (Inl e)
    with Cons ms show ?thesis by (simp add: tree_fs_def locate_rendered [OF plain])
  qed
qed simp

lemma resolve_names:
  assumes "components p = RootDir # map Normal ns" "ns \<noteq> []" "\<forall>s \<in> set ns. plain_name s"
    "resolve_existing_or_parent (tree_fs cwd t) p = Inr anchor"
  obtains ms where "ms = ns \<or> prefix ms (butlast ns)" "anchor = location_path ms" "walk t [] (map Normal ms) = Inr ms"
proof (cases "locate cwd t (components p)")
  case (Inr at)
  with assms located_names have "at = ns" "walk t [] (map Normal ns) = Inr ns" by (metis, metis)
  with that [of ns] assms(4) Inr show thesis by (simp add: resolve_existing_or_parent_def tree_fs_def)
next
  case (Inl e)
  have "resolve_first (tree_fs cwd t) p (ancestors (RootDir # map Normal (butlast ns))) = Inr anchor"
    using assms(1,2,4) Inl by (simp add: resolve_existing_or_parent_def tree_fs_def parent_of_names)
  from resolve_first_names [OF this, of "butlast ns"] assms(3) ancestors_names that show thesis
    by (meson in_set_butlastD)
qed

text \<open>Every place a replacement changes lies under the place that was resolved.\<close>

definition lies_under :: "path \<Rightarrow> location \<Rightarrow> bool" where
  "lies_under root loc \<longleftrightarrow> prefix (components root) (RootDir # map Normal loc)"

lemma changes_under_anchor:
  assumes p: "is_absolute p" "ParentDir \<notin> set (components p)"
    and anchor: "resolve_existing_or_parent (tree_fs cwd t) p = Inr anchor"
    and fresh: "\<And>ns. components p = RootDir # map Normal ns \<Longrightarrow> t (temp_location h p ns) = None"
    and run: "atomic_write_text h t p content = (r, t')" and changed: "t' loc \<noteq> t loc"
  shows "lies_under anchor loc"
proof -
  obtain ns where ns: "components p = RootDir # map Normal ns" "\<forall>s \<in> set ns. plain_name s" using absolute_components [OF p] .
  have nonempty: "ns \<noteq> []"
    using run changed ns(1) by (cases "ns = []") (auto simp: atomic_write_text_def parent_components_def)
  obtain ms where ms: "ms = ns \<or> prefix ms (butlast ns)" "anchor = location_path ms" "walk t [] (map Normal ms) = Inr ms"
    using resolve_names [OF ns(1) nonempty ns(2) anchor] .
  then have below: "prefix ms ns" using prefix_order.trans [OF _ prefixeq_butlast] by blast
  then have plain: "components anchor = RootDir # map Normal ms"
    using ms(2) ns(2) set_mono_prefix by (fastforce simp: location_path_def intro!: components_render_names)
  obtain t1 where t1: "only_new_directories t t1 (butlast ns)" "t' = (case r of Inr _ \<Rightarrow> t1(ns \<mapsto> File (Utf8 content)) | Inl _ \<Rightarrow> t1)"
    using atomic_write_effect [OF ns(1) nonempty fresh [OF ns(1)] run] .
  consider "loc = ns" | "loc \<noteq> []" "prefix loc (butlast ns)" "t loc = None"
    using changed t1 unfolding only_new_directories_def by (auto split: sum.splits if_splits)
  then have "prefix ms loc"
  proof cases
    case 2
    have "\<not> prefix loc ms"
      using walk_normals_prefix [OF ms(3) _ 2(1)] 2 by (auto simp: node_at_def)
    moreover have "prefix loc ns" using 2(2) prefix_order.trans [OF _ prefixeq_butlast] by blast
    ultimately show ?thesis using below prefix_same_cases by blast
  qed (use below in simp)
  then show ?thesis unfolding lies_under_def plain by (simp add: map_mono_prefix)
qed

section \<open>Writes and edits\<close>

lemma write_changes:
  assumes "execute_write h t args = (r, asked, t')" "t' loc \<noteq> t loc"
  obtains p r' where
    "authorize_path (tree_host h t) (th_authority h) (wa_path args) WriteAccess (lit ''write'') (wa_mode args) (th_context h) = (Inr p, asked)"
    "is_ok (before_write h t args p)" "atomic_write_text h t p (wa_content args) = (r', t')"
proof -
  obtain answer asked' where authorized:
    "authorize_path (tree_host h t) (th_authority h) (wa_path args) WriteAccess (lit ''write'') (wa_mode args) (th_context h) = (answer, asked')"
    by fastforce
  show thesis
  proof (cases answer)
    case (Inr p)
    obtain r' t1 where wrote: "atomic_write_text h t p (wa_content args) = (r', t1)" by fastforce
    show thesis
    proof (cases "before_write h t args p")
      case before: (Inr before)
      obtain b sha n where "before = (b, sha, n)" by (cases before)
      then have "asked' = asked \<and> t1 = t'"
        using assms(1) unfolding execute_write_def authorized Inr prod.case sum.case before wrote by (cases r') simp_all
      then show thesis using that [of p r'] authorized wrote before Inr by simp
    qed (use assms authorized Inr in \<open>simp add: execute_write_def\<close>)
  qed (use assms authorized in \<open>simp add: execute_write_def\<close>)
qed

lemma edit_changes:
  assumes "execute_edit h t args = (r, asked, t')" "t' loc \<noteq> t loc"
  obtains p sn updated rs r' where
    "authorize_path (tree_host h t) (th_authority h) (ea_path args) WriteAccess (lit ''edit'') (lit ''edit'') (th_context h) = (Inr p, asked)"
    "read_text_snapshot h t p = Inr sn" "sn_sha256 sn = ea_expected_sha256 args"
    "edit_text (sn_content sn) (ea_edits args) = Inr (updated, rs)" "atomic_write_text h t p updated = (r', t')"
proof -
  obtain answer asked' where authorized:
    "authorize_path (tree_host h t) (th_authority h) (ea_path args) WriteAccess (lit ''edit'') (lit ''edit'') (th_context h) = (answer, asked')"
    by fastforce
  have some: "ea_edits args \<noteq> []" using assms by (auto simp: execute_edit_def)
  note unfolded = assms(1) [unfolded execute_edit_def authorized, simplified some if_False prod.case]
  show thesis
  proof (cases answer)
    case (Inr p)
    show thesis
    proof (cases "read_text_snapshot h t p")
      case sn: (Inr sn)
      have same: "sn_sha256 sn = ea_expected_sha256 args" using unfolded assms(2) Inr sn by (auto split: if_splits)
      show thesis
      proof (cases "edit_text (sn_content sn) (ea_edits args)")
        case edited: (Inr result)
        obtain r' t1 where wrote: "atomic_write_text h t p (fst result) = (r', t1)" by fastforce
        obtain u rs where "result = (u, rs)" by (cases result)
        then have "asked' = asked \<and> t1 = t'"
          using unfolded wrote unfolding edited Inr sn prod.case sum.case by (cases r') (simp_all add: same)
        then show thesis using that [of p sn "fst result" "snd result" r'] authorized wrote edited Inr sn same by simp
      qed (use unfolded assms(2) Inr sn same in simp)
    qed (use unfolded assms(2) Inr in simp)
  qed (use unfolded assms(2) in simp)
qed

definition temp_unused :: "tool_host \<Rightarrow> tree \<Rightarrow> path \<Rightarrow> bool" where
  "temp_unused h t p \<longleftrightarrow> (\<forall>ns. components p = RootDir # map Normal ns \<longrightarrow> t (temp_location h p ns) = None)"

lemma allowed_changes_under_root:
  assumes allowed: "path_allowed (tree_host h t) profile input WriteAccess" "\<not> unconfined profile"
    and p: "p = candidate_path profile input" "is_absolute p" "ParentDir \<notin> set (components p)" "temp_unused h t p"
    and run: "atomic_write_text h t p content = (r, t')" "t' loc \<noteq> t loc"
  shows "\<exists>root \<in> set (pp_write_roots profile). lies_under root loc"
proof -
  obtain anchor root where anchor: "resolve_existing_or_parent (tree_fs (th_cwd h) t) p = Inr anchor"
      and root: "root \<in> set (pp_write_roots profile)" "path_starts_with anchor root"
    using allowed p(1) by (auto simp: path_allowed_iff inspect_allowed_iff tree_host_def access_roots_def)
  have "lies_under anchor loc"
    using changes_under_anchor [OF p(2,3) anchor _ run] p(4) by (auto simp: temp_unused_def)
  with root show ?thesis unfolding lies_under_def path_starts_with_def by (meson prefix_order.trans)
qed

text \<open>An authorization of an allowed path returns the path itself.\<close>

lemma allowed_authorized:
  assumes "path_allowed host profile input access" "profile = current_profile (au_broker au) (au_session au)"
  shows "authorize_path host au input access tool operation c = (Inr (candidate_path profile input), [])"
proof -
  obtain p where p: "inspect_path host profile input access = Inr (PathAllowed p)" using assms(1) by (auto simp: path_allowed_iff)
  moreover have "p = candidate_path profile input" using p inspect_allowed_iff by blast
  ultimately show ?thesis using assms(2) by (simp add: authorize_path_def approval_requirement_for_path_def)
qed

lemma write_confined_lemma:
  assumes "path_allowed (tree_host h t) (host_profile h) (wa_path args) WriteAccess" "\<not> unconfined (host_profile h)"
    and p: "p = candidate_path (host_profile h) (wa_path args)" "is_absolute p" "ParentDir \<notin> set (components p)" "temp_unused h t p"
    and run: "execute_write h t args = (r, asked, t')" "t' loc \<noteq> t loc"
  shows "\<exists>root \<in> set (pp_write_roots (host_profile h)). lies_under root loc"
proof -
  obtain q r' where q: "authorize_path (tree_host h t) (th_authority h) (wa_path args) WriteAccess (lit ''write'') (wa_mode args) (th_context h) =
      (Inr q, asked)" "atomic_write_text h t q (wa_content args) = (r', t')"
    using write_changes [OF run] .
  have "q = p" using q(1) allowed_authorized [OF assms(1)] p(1) by (simp add: host_profile_def)
  with q(2) show ?thesis using allowed_changes_under_root [OF assms(1,2) p] run(2) by blast
qed

lemma edit_confined_lemma:
  assumes "path_allowed (tree_host h t) (host_profile h) (ea_path args) WriteAccess" "\<not> unconfined (host_profile h)"
    and p: "p = candidate_path (host_profile h) (ea_path args)" "is_absolute p" "ParentDir \<notin> set (components p)" "temp_unused h t p"
    and run: "execute_edit h t args = (r, asked, t')" "t' loc \<noteq> t loc"
  shows "\<exists>root \<in> set (pp_write_roots (host_profile h)). lies_under root loc"
proof -
  obtain q sn updated rs r' where q: "authorize_path (tree_host h t) (th_authority h) (ea_path args) WriteAccess (lit ''edit'') (lit ''edit'') (th_context h) =
      (Inr q, asked)" "atomic_write_text h t q updated = (r', t')"
    using edit_changes [OF run] .
  have "q = p" using q(1) allowed_authorized [OF assms(1)] p(1) by (simp add: host_profile_def)
  with q(2) show ?thesis using allowed_changes_under_root [OF assms(1,2) p] run(2) by blast
qed

text \<open>A replacement is all or nothing, and no temporary file stays.\<close>

lemma atomic_write_all_or_nothing:
  assumes p: "is_absolute p" "ParentDir \<notin> set (components p)" "components p = RootDir # map Normal ns" "temp_unused h t p"
    and run: "atomic_write_text h t p content = (r, t')"
  shows "t' ns = (case r of Inr _ \<Rightarrow> Some (File (Utf8 content)) | Inl _ \<Rightarrow> t ns)"
    and "t' (temp_location h p ns) = None \<or> ns = []"
    and "loc \<noteq> ns \<Longrightarrow> t' loc \<noteq> t loc \<Longrightarrow> t loc = None \<and> t' loc = Some Directory"
proof -
  have fresh: "t (temp_location h p ns) = None" using p(3,4) by (simp add: temp_unused_def)
  show "t' ns = (case r of Inr _ \<Rightarrow> Some (File (Utf8 content)) | Inl _ \<Rightarrow> t ns)" "t' (temp_location h p ns) = None \<or> ns = []"
    "loc \<noteq> ns \<Longrightarrow> t' loc \<noteq> t loc \<Longrightarrow> t loc = None \<and> t' loc = Some Directory"
  proof (atomize (full), cases "ns = []")
    case True
    then have "t' = t \<and> (\<exists>e. r = Inl e)" using run p(3) by (auto simp: atomic_write_text_def parent_components_def)
    with True show "t' ns = (case r of Inr _ \<Rightarrow> Some (File (Utf8 content)) | Inl _ \<Rightarrow> t ns) \<and>
        (t' (temp_location h p ns) = None \<or> ns = []) \<and>
        (loc \<noteq> ns \<longrightarrow> t' loc \<noteq> t loc \<longrightarrow> t loc = None \<and> t' loc = Some Directory)" by auto
  next
    case False
    obtain t1 where t1: "only_new_directories t t1 (butlast ns)" "t' = (case r of Inr _ \<Rightarrow> t1(ns \<mapsto> File (Utf8 content)) | Inl _ \<Rightarrow> t1)"
      using atomic_write_effect [OF p(3) False fresh run] .
    have "\<not> prefix ns (butlast ns)" using False by (cases ns rule: rev_cases) (auto dest: prefix_length_le)
    then have "t1 ns = t ns" using t1(1) unfolding only_new_directories_def by blast
    moreover have "\<not> prefix (temp_location h p ns) (butlast ns)" by (auto simp: temp_location_def dest: prefix_length_le)
    then have "t1 (temp_location h p ns) = None" using t1(1) fresh unfolding only_new_directories_def by metis
    moreover have "temp_location h p ns \<noteq> ns"
      using temp_name_differs [OF _ file_name_names [OF p(3) False]] components_plain [of "last ns" p] p(3) False
      by (cases ns rule: rev_cases) (auto simp: temp_location_def)
    ultimately show "t' ns = (case r of Inr _ \<Rightarrow> Some (File (Utf8 content)) | Inl _ \<Rightarrow> t ns) \<and>
        (t' (temp_location h p ns) = None \<or> ns = []) \<and>
        (loc \<noteq> ns \<longrightarrow> t' loc \<noteq> t loc \<longrightarrow> t loc = None \<and> t' loc = Some Directory)"
      using t1 unfolding only_new_directories_def by (auto split: sum.splits)
  qed
qed

end
