(* ===== verification/File_Examples.thy ===== *)
theory File_Examples
  imports File_Safety
begin

text \<open>
  A workspace on a small file system: the instances at which the properties of the permission
  policy and the file tools are evaluated.
\<close>

definition workspace_tree :: tree where
  "workspace_tree = [[lit ''ws''] \<mapsto> Directory, [lit ''ws'', lit ''a''] \<mapsto> File (Utf8 (lit ''old'')),
     [lit ''o''] \<mapsto> Directory, [lit ''o'', lit ''f''] \<mapsto> File (Utf8 (lit ''old''))]"

definition workspace_profile :: permission_profile where
  "workspace_profile =
     \<lparr>pp_mode = RequestApproval, pp_sandbox_mode = WorkspaceWrite, pp_approval_policy = OnRequest, pp_reviewer = ReviewUser,
      pp_auto_review_model = None, pp_workspace_root = lit ''/ws'', pp_read_roots = [lit ''/ws''], pp_write_roots = [lit ''/ws''],
      pp_protected_paths = [lit ''.git''], pp_workspace_boundary = False, pp_configured_network = True, pp_network = True,
      pp_shell_environment_policy = RemoveSensitive\<rparr>"

definition denying_human :: reviewer where
  "denying_human request = Inr (Deny [] [])"

definition workspace_authority :: authority where
  "workspace_authority =
     \<lparr>au_broker = broker_new workspace_profile, au_session = None, au_grant = None, au_automatic = denying_human, au_human = denying_human,
      au_json_sha = (\<lambda>_. []), au_fresh_id = lit ''id''\<rparr>"

definition no_context :: approval_context where
  "no_context = \<lparr>ac_context_id = [], ac_session_id = [], ac_attempt_id = [], ac_thread_id = [], ac_root_turn_id = [], ac_trigger_event_id = [],
     ac_trigger_sequence = 0\<rparr>"

definition workspace_host :: tool_host where
  "workspace_host =
     \<lparr>th_cwd = [], th_glob_valid = (\<lambda>_. True), th_glob_matches = (=), th_authority = workspace_authority, th_context = no_context,
      th_sha256 = (\<lambda>bytes. bytes), th_temp_suffix = lit ''1-1'',
      th_case = \<lparr>tc_lowercase = (\<lambda>s. s), tc_char_lowercase = (\<lambda>c. [c]), tc_debug = (\<lambda>s. s)\<rparr>, th_max_attachment_bytes = 1000\<rparr>"

definition create_args :: "ustring \<Rightarrow> ustring \<Rightarrow> write_file_args" where
  "create_args p content = \<lparr>wa_path = p, wa_content = content, wa_mode = lit ''create'', wa_expected_sha256 = None\<rparr>"

lemma workspace_profile_now [simp]: "host_profile workspace_host = workspace_profile" "current_profile (broker_new workspace_profile) None = workspace_profile"
  by (simp_all add: host_profile_def workspace_host_def workspace_authority_def current_profile_def profile_with_overrides_def broker_new_def Let_def)

lemma workspace_confined [simp]: "\<not> unconfined workspace_profile"
  by (simp add: unconfined_def full_access_def workspace_profile_def)

lemmas path_simps = components_def part_component_def has_root_def slash_def lit_simps chr_def

definition escaping_input :: ustring where
  "escaping_input = lit ''n/../../o/f''"

lemma candidate_escaping: "candidate_path workspace_profile escaping_input = lit ''/ws/n/../../o/f''"
  by (simp add: candidate_path_def escaping_input_def workspace_profile_def is_absolute_def has_root_def slash_def path_join_def
      trim_def trim_start_def is_whitespace_def lit_simps chr_def)

lemma components_escaping: "components (lit ''/ws/n/../../o/f'') =
   [RootDir, Normal (lit ''ws''), Normal (lit ''n''), ParentDir, ParentDir, Normal (lit ''o''), Normal (lit ''f'')]"
  by (simp add: path_simps)

lemma components_ws: "components (lit ''/ws'') = [RootDir, Normal (lit ''ws'')]"
  by (simp add: path_simps)

lemmas tree_simps = locate_def node_at_def not_a_directory_def workspace_tree_def and_then_def lit_simps chr_def

lemma escaping_ancestors:
  "ancestors [RootDir, Normal a, Normal b, ParentDir, ParentDir, Normal c] =
     [[RootDir, Normal a, Normal b, ParentDir, ParentDir, Normal c], [RootDir, Normal a, Normal b, ParentDir, ParentDir],
      [RootDir, Normal a, Normal b, ParentDir], [RootDir, Normal a, Normal b], [RootDir, Normal a], [RootDir]]"
  by (simp add: ancestors.simps parent_components_def)

lemma escaping_anchor: "resolve_existing_or_parent (tree_fs [] workspace_tree) (lit ''/ws/n/../../o/f'') = Inr (lit ''/ws'')"
  unfolding resolve_existing_or_parent_def components_escaping
  by (simp add: components_escaping tree_fs_def parent_components_def escaping_ancestors render_def tree_simps slash_def
      location_path_def components_def part_component_def has_root_def)

lemma escaping_ancestors_file:
  "ancestors [RootDir, Normal a, Normal b, ParentDir, ParentDir, Normal c, Normal d] =
     [RootDir, Normal a, Normal b, ParentDir, ParentDir, Normal c, Normal d] # ancestors [RootDir, Normal a, Normal b, ParentDir, ParentDir, Normal c]"
  by (subst ancestors.simps) (simp add: parent_components_def)

lemma ancestors_ws: "ancestors [RootDir, Normal a] = [[RootDir, Normal a], [RootDir]]"
  by (simp add: ancestors.simps parent_components_def)

lemma escaping_unprotected: "\<not> protected_by (tree_host workspace_host t) workspace_profile (lit ''/ws/n/../../o/f'') (lit ''/ws'')"
proof -
  have git: "components (lit ''.git'') = [Normal (lit ''.git'')]" "\<not> is_absolute (lit ''.git'')" "\<not> has_glob_metacharacters (lit ''.git'')"
    by (simp_all add: path_simps is_absolute_def has_glob_metacharacters_def)
  have "\<not> literal_match (lit ''/ws/n/../../o/f'') (lit ''.git'')" "\<not> literal_match (lit ''/ws'') (lit ''.git'')"
    unfolding literal_match_def git components_escaping components_ws escaping_ancestors_file escaping_ancestors ancestors_ws
    by (simp_all add: git(2) suffix_def Cons_eq_append_conv lit_simps chr_def)
  then show ?thesis by (simp add: protected_by_def workspace_profile_def path_matches_pattern_def git)
qed

lemma workspace_allows:
  assumes "trim input \<noteq> []" "resolve_existing_or_parent (tree_fs [] workspace_tree) (candidate_path workspace_profile input) = Inr (lit ''/ws'')"
    "\<not> protected_by (tree_host workspace_host workspace_tree) workspace_profile (candidate_path workspace_profile input) (lit ''/ws'')"
  shows "path_allowed (tree_host workspace_host workspace_tree) workspace_profile input WriteAccess"
proof -
  have "ph_fs (tree_host workspace_host workspace_tree) = tree_fs [] workspace_tree" by (simp add: tree_host_def workspace_host_def)
  moreover have "set (access_roots workspace_profile WriteAccess) = {lit ''/ws''}" "\<not> pp_workspace_boundary workspace_profile"
    by (simp_all add: access_roots_def workspace_profile_def)
  ultimately show ?thesis unfolding path_allowed_iff inspect_allowed_iff using assms by simp
qed

lemma escaping_allowed: "path_allowed (tree_host workspace_host workspace_tree) workspace_profile escaping_input WriteAccess"
  using workspace_allows [of escaping_input] unfolding candidate_escaping
  by (simp add: escaping_anchor escaping_unprotected)
    (simp add: escaping_input_def trim_def trim_start_def is_whitespace_def lit_simps chr_def)

lemma escaping_before: "before_write workspace_host workspace_tree (create_args escaping_input content) (lit ''/ws/n/../../o/f'') = Inr ([], None, 0)"
  unfolding before_write_def create_args_def components_escaping by (simp add: workspace_host_def tree_simps Let_def)

definition made_dir_tree :: tree where
  "made_dir_tree = workspace_tree([lit ''ws'', lit ''n''] \<mapsto> Directory)"

lemma create_dir_all_through:
  assumes "mkdir cwd t (up @ [c]) = Inl IoNotFound" "c \<noteq> RootDir" "create_dir_all cwd t up = (Inr (), t')"
    "mkdir cwd t' (up @ [c]) = Inl e" "located_dir cwd t' (up @ [c])"
  shows "create_dir_all cwd t (up @ [c]) = (Inr (), t')"
proof -
  have "parent_components (up @ [c]) = Some up" using assms(2) by (cases c) (simp_all add: parent_components_def)
  with assms show ?thesis by (subst create_dir_all.simps) simp
qed

lemma escaping_directories:
  "create_dir_all [] workspace_tree [RootDir, Normal (lit ''ws''), Normal (lit ''n''), ParentDir, ParentDir, Normal (lit ''o'')] =
     (Inr (), made_dir_tree)"
proof -
  have 1: "create_dir_all [] workspace_tree [RootDir, Normal (lit ''ws''), Normal (lit ''n'')] = (Inr (), made_dir_tree)"
    by (subst create_dir_all.simps) (simp add: mkdir_def entry_place_def made_dir_tree_def tree_simps)
  have 2: "create_dir_all [] workspace_tree ([RootDir, Normal (lit ''ws''), Normal (lit ''n'')] @ [ParentDir]) = (Inr (), made_dir_tree)"
    by (rule create_dir_all_through [OF _ _ 1, where e = already_exists])
      (simp_all add: mkdir_def entry_place_def located_dir_def made_dir_tree_def tree_simps)
  have 3: "create_dir_all [] workspace_tree ([RootDir, Normal (lit ''ws''), Normal (lit ''n''), ParentDir] @ [ParentDir]) = (Inr (), made_dir_tree)"
    by (rule create_dir_all_through [OF _ _ 2 [simplified append_Cons append_Nil], where e = already_exists])
      (simp_all add: mkdir_def entry_place_def located_dir_def made_dir_tree_def tree_simps)
  have 4: "create_dir_all [] workspace_tree ([RootDir, Normal (lit ''ws''), Normal (lit ''n''), ParentDir, ParentDir] @ [Normal (lit ''o'')]) =
      (Inr (), made_dir_tree)"
    by (rule create_dir_all_through [OF _ _ 3 [simplified append_Cons append_Nil], where e = already_exists])
      (simp_all add: mkdir_def entry_place_def located_dir_def made_dir_tree_def tree_simps)
  then show ?thesis by simp
qed

lemma escaping_write: "atomic_write_text workspace_host workspace_tree (lit ''/ws/n/../../o/f'') content =
   (Inr (), made_dir_tree([lit ''o'', lit ''f''] \<mapsto> File (Utf8 content)))"
proof -
  let ?up = "[RootDir, Normal (lit ''ws''), Normal (lit ''n''), ParentDir, ParentDir, Normal (lit ''o'')]"
  define temp where "temp = temp_name workspace_host (lit ''/ws/n/../../o/f'')"
  have temp: "length temp > 1" by (simp add: temp_def temp_name_def lit_simps)
  have up: "parent_components (components (lit ''/ws/n/../../o/f'')) = Some ?up" by (simp add: components_escaping parent_components_def)
  have created: "create_new [] made_dir_tree (?up @ [Normal temp]) (Utf8 content) = Inr (made_dir_tree([lit ''o'', temp] \<mapsto> File (Utf8 content)))"
    using temp by (auto simp: create_new_def entry_place_def made_dir_tree_def tree_simps)
  have renamed: "rename_file [] (made_dir_tree([lit ''o'', temp] \<mapsto> File (Utf8 content))) (?up @ [Normal temp]) (?up @ [Normal (lit ''f'')]) =
      Inr (made_dir_tree([lit ''o'', lit ''f''] \<mapsto> File (Utf8 content)))"
    using temp by (auto simp: rename_file_def entry_place_def made_dir_tree_def tree_simps fun_eq_iff)
  have cwd: "th_cwd workspace_host = []" by (simp add: workspace_host_def)
  have whole: "components (lit ''/ws/n/../../o/f'') = ?up @ [Normal (lit ''f'')]" by (simp add: components_escaping)
  show ?thesis
    unfolding atomic_write_text_def up option.case cwd escaping_directories prod.case sum.case Let_def
    by (simp only: temp_def [symmetric] created renamed whole sum.case)
qed

lemma escaping_run:
  "\<exists>change. execute_write workspace_host workspace_tree (create_args escaping_input content) =
     (Inr (FileChanged change), [], made_dir_tree([lit ''o'', lit ''f''] \<mapsto> File (Utf8 content)))"
proof -
  have "authorize_path (tree_host workspace_host workspace_tree) (th_authority workspace_host) (wa_path (create_args escaping_input content)) WriteAccess
      (lit ''write'') (wa_mode (create_args escaping_input content)) (th_context workspace_host) = (Inr (lit ''/ws/n/../../o/f''), [])"
    using allowed_authorized [OF escaping_allowed, of "th_authority workspace_host"]
    by (simp add: candidate_escaping create_args_def) (simp add: workspace_host_def workspace_authority_def)
  then show ?thesis
    unfolding execute_write_def
    by (simp add: escaping_before escaping_write create_args_def [of escaping_input content, THEN arg_cong [where f = wa_content], simplified])
qed

lemma escaped_place: "\<not> lies_under (lit ''/ws'') [lit ''o'', lit ''f'']"
  unfolding lies_under_def components_ws by (simp add: lit_simps chr_def)

section \<open>An ordinary write\<close>

lemma candidate_ordinary: "candidate_path workspace_profile (lit ''b'') = lit ''/ws/b''"
  by (simp add: candidate_path_def workspace_profile_def is_absolute_def has_root_def slash_def path_join_def
      trim_def trim_start_def is_whitespace_def lit_simps chr_def)

lemma components_ordinary: "components (lit ''/ws/b'') = [RootDir, Normal (lit ''ws''), Normal (lit ''b'')]"
  by (simp add: path_simps)

lemma ordinary_absolute: "is_absolute (lit ''/ws/b'')" "ParentDir \<notin> set (components (lit ''/ws/b''))"
  subgoal by (simp add: is_absolute_def has_root_def slash_def lit_simps chr_def)
  subgoal unfolding components_ordinary by simp
  done

lemma ordinary_anchor: "resolve_existing_or_parent (tree_fs [] workspace_tree) (lit ''/ws/b'') = Inr (lit ''/ws'')"
  unfolding resolve_existing_or_parent_def components_ordinary
  by (simp add: components_ordinary tree_fs_def parent_components_def ancestors_ws render_def tree_simps slash_def
      location_path_def components_def part_component_def has_root_def)

lemma ancestors_ordinary: "ancestors [RootDir, Normal a, Normal b] = [[RootDir, Normal a, Normal b], [RootDir, Normal a], [RootDir]]"
  by (simp add: ancestors.simps parent_components_def)

lemma ordinary_unprotected: "\<not> protected_by (tree_host workspace_host t) workspace_profile (lit ''/ws/b'') (lit ''/ws'')"
proof -
  have git: "components (lit ''.git'') = [Normal (lit ''.git'')]" "\<not> is_absolute (lit ''.git'')" "\<not> has_glob_metacharacters (lit ''.git'')"
    by (simp_all add: path_simps is_absolute_def has_glob_metacharacters_def)
  have "\<not> literal_match (lit ''/ws/b'') (lit ''.git'')" "\<not> literal_match (lit ''/ws'') (lit ''.git'')"
    unfolding literal_match_def git components_ordinary components_ws ancestors_ordinary ancestors_ws
    by (simp_all add: git(2) suffix_def Cons_eq_append_conv lit_simps chr_def)
  then show ?thesis by (simp add: protected_by_def workspace_profile_def path_matches_pattern_def git)
qed

lemma ordinary_allowed: "path_allowed (tree_host workspace_host workspace_tree) workspace_profile (lit ''b'') WriteAccess"
  using workspace_allows [of "lit ''b''"]
  by (simp add: candidate_ordinary ordinary_anchor ordinary_unprotected)
    (simp add: trim_def trim_start_def is_whitespace_def lit_simps chr_def)

lemma ordinary_temp: "temp_unused workspace_host workspace_tree (lit ''/ws/b'')"
proof -
  have "length (temp_name workspace_host (lit ''/ws/b'')) > 1" by (simp add: temp_name_def lit_simps)
  then show ?thesis
    unfolding temp_unused_def components_ordinary by (auto simp: temp_location_def workspace_tree_def lit_simps map_eq_Cons_conv)
qed

lemma ordinary_write: "atomic_write_text workspace_host workspace_tree (lit ''/ws/b'') content =
   (Inr (), workspace_tree([lit ''ws'', lit ''b''] \<mapsto> File (Utf8 content)))"
proof -
  let ?up = "[RootDir, Normal (lit ''ws'')]"
  define temp where "temp = temp_name workspace_host (lit ''/ws/b'')"
  have temp: "length temp > 1" by (simp add: temp_def temp_name_def lit_simps)
  have up: "parent_components (components (lit ''/ws/b'')) = Some ?up" by (simp add: components_ordinary parent_components_def)
  have dirs: "create_dir_all [] workspace_tree ?up = (Inr (), workspace_tree)"
    by (subst create_dir_all.simps) (simp add: mkdir_def entry_place_def located_dir_def tree_simps already_exists_def)
  have created: "create_new [] workspace_tree (?up @ [Normal temp]) (Utf8 content) = Inr (workspace_tree([lit ''ws'', temp] \<mapsto> File (Utf8 content)))"
    using temp by (auto simp: create_new_def entry_place_def tree_simps)
  have renamed: "rename_file [] (workspace_tree([lit ''ws'', temp] \<mapsto> File (Utf8 content))) (?up @ [Normal temp]) (?up @ [Normal (lit ''b'')]) =
      Inr (workspace_tree([lit ''ws'', lit ''b''] \<mapsto> File (Utf8 content)))"
    using temp by (auto simp: rename_file_def entry_place_def tree_simps fun_eq_iff)
  have cwd: "th_cwd workspace_host = []" by (simp add: workspace_host_def)
  have whole: "components (lit ''/ws/b'') = ?up @ [Normal (lit ''b'')]" by (simp add: components_ordinary)
  show ?thesis
    unfolding atomic_write_text_def up option.case cwd dirs prod.case sum.case Let_def
    by (simp only: temp_def [symmetric] created renamed whole sum.case)
qed

lemma ordinary_before: "before_write workspace_host workspace_tree (create_args (lit ''b'') content) (lit ''/ws/b'') = Inr ([], None, 0)"
  unfolding before_write_def create_args_def components_ordinary by (simp add: workspace_host_def tree_simps Let_def)

lemma ordinary_run:
  "\<exists>change. execute_write workspace_host workspace_tree (create_args (lit ''b'') content) =
     (Inr (FileChanged change), [], workspace_tree([lit ''ws'', lit ''b''] \<mapsto> File (Utf8 content)))"
proof -
  have "authorize_path (tree_host workspace_host workspace_tree) (th_authority workspace_host) (wa_path (create_args (lit ''b'') content)) WriteAccess
      (lit ''write'') (wa_mode (create_args (lit ''b'') content)) (th_context workspace_host) = (Inr (lit ''/ws/b''), [])"
    using allowed_authorized [OF ordinary_allowed, of "th_authority workspace_host"]
    by (simp add: candidate_ordinary create_args_def) (simp add: workspace_host_def workspace_authority_def)
  moreover have "wa_content (create_args (lit ''b'') content) = content" by (simp add: create_args_def)
  ultimately show ?thesis unfolding execute_write_def by (simp add: ordinary_before ordinary_write)
qed

lemma workspace_lacks: "workspace_tree [lit ''ws'', lit ''b''] = None"
  by (simp add: workspace_tree_def lit_simps chr_def)

section \<open>A protected path\<close>

lemma candidate_git: "candidate_path workspace_profile (lit ''.git'') = lit ''/ws/.git''"
  by (simp add: candidate_path_def workspace_profile_def is_absolute_def has_root_def slash_def path_join_def
      trim_def trim_start_def is_whitespace_def lit_simps chr_def)

lemma components_git: "components (lit ''/ws/.git'') = [RootDir, Normal (lit ''ws''), Normal (lit ''.git'')]" "components (lit ''.git'') = [Normal (lit ''.git'')]"
  by (simp_all add: path_simps)

lemma git_anchor: "resolve_existing_or_parent (tree_fs [] workspace_tree) (lit ''/ws/.git'') = Inr (lit ''/ws'')"
  unfolding resolve_existing_or_parent_def components_git
  by (simp add: components_git tree_fs_def parent_components_def ancestors_ws render_def tree_simps slash_def
      location_path_def components_def part_component_def has_root_def)

lemma git_matches: "path_matches_pattern host (lit ''/ws/.git'') (lit ''/ws'') (lit ''.git'')"
proof -
  have "literal_match (lit ''/ws/.git'') (lit ''.git'')"
    unfolding literal_match_def components_git ancestors_ordinary
    by (simp add: is_absolute_def has_root_def slash_def suffix_def lit_simps chr_def)
  moreover have "\<not> has_glob_metacharacters (lit ''.git'')" by (simp add: has_glob_metacharacters_def lit_simps chr_def)
  ultimately show ?thesis by (simp add: path_matches_pattern_def)
qed

section \<open>A path outside, allowed by a person\<close>

definition approving_authority :: authority where
  "approving_authority = workspace_authority\<lparr>au_human := (\<lambda>_. Inr (AllowOnce [] []))\<rparr>"

lemma approving_profile [simp]: "current_profile (au_broker approving_authority) (au_session approving_authority) = workspace_profile"
  by (simp add: approving_authority_def workspace_authority_def)

lemma components_outside: "components (lit ''/o/f'') = [RootDir, Normal (lit ''o''), Normal (lit ''f'')]"
  by (simp add: path_simps)

lemma candidate_outside: "candidate_path workspace_profile (lit ''/o/f'') = lit ''/o/f''" "trim (lit ''/o/f'') \<noteq> []"
  by (simp_all add: candidate_path_def is_absolute_def has_root_def slash_def trim_def trim_start_def is_whitespace_def lit_simps chr_def)

lemma outside_anchor: "resolve_existing_or_parent (tree_fs [] workspace_tree) (lit ''/o/f'') = Inr (lit ''/o/f'')"
  unfolding resolve_existing_or_parent_def
  by (simp add: tree_fs_def components_outside) (simp add: render_def tree_simps slash_def location_path_def)

lemma outside_unprotected: "\<not> list_ex (path_matches_pattern host (lit ''/o/f'') (lit ''/o/f'')) (pp_protected_paths workspace_profile)"
proof -
  have git: "\<not> is_absolute (lit ''.git'')" "\<not> has_glob_metacharacters (lit ''.git'')"
    by (simp_all add: path_simps is_absolute_def has_glob_metacharacters_def)
  have "\<not> literal_match (lit ''/o/f'') (lit ''.git'')"
    unfolding literal_match_def components_git components_outside ancestors_ordinary
    by (simp_all add: git(1) suffix_def Cons_eq_append_conv lit_simps chr_def)
  then show ?thesis by (simp add: workspace_profile_def path_matches_pattern_def git)
qed

lemma outside_inspected:
  "inspect_path (tree_host workspace_host workspace_tree) workspace_profile (lit ''/o/f'') WriteAccess =
     Inr (PathNeedsApproval (lit ''/o/f'') (lit ''/o/f''))"
proof -
  have "ph_fs (tree_host workspace_host workspace_tree) = tree_fs [] workspace_tree" by (simp add: tree_host_def workspace_host_def)
  moreover have "\<not> path_starts_with (lit ''/o/f'') (lit ''/ws'')"
    unfolding path_starts_with_def components_outside components_ws by (simp add: lit_simps chr_def)
  moreover have "access_roots workspace_profile WriteAccess = [lit ''/ws'']" "\<not> pp_workspace_boundary workspace_profile" "\<not> full_access workspace_profile"
    by (simp_all add: access_roots_def workspace_profile_def full_access_def)
  ultimately show ?thesis
    by (simp add: inspect_path_def resolve_candidate_def candidate_outside outside_anchor outside_unprotected Let_def)
qed

lemma outside_authorized:
  "authorize_path (tree_host workspace_host workspace_tree) approving_authority (lit ''/o/f'') WriteAccess tool operation c = (Inr (lit ''/o/f''), [Human])"
proof -
  have "pp_approval_policy workspace_profile = OnRequest" "pp_reviewer workspace_profile = ReviewUser" "\<not> full_access workspace_profile"
    by (simp_all add: workspace_profile_def full_access_def)
  then show ?thesis
    by (simp add: authorize_path_def approval_requirement_for_path_def outside_inspected authorize_delta_def path_delta_nonempty review_def Let_def)
      (simp add: approving_authority_def workspace_authority_def)
qed

section \<open>Edits\<close>

definition edit_once :: "ustring \<Rightarrow> ustring \<Rightarrow> exact_edit" where
  "edit_once old new = \<lparr>ee_old_text = old, ee_new_text = new, ee_replace_all = False\<rparr>"

definition replaced :: "nat \<Rightarrow> ustring \<Rightarrow> ustring \<Rightarrow> planned_replacement" where
  "replaced start old new = \<lparr>pr_start = start, pr_end = start + length old, pr_old_text = old, pr_new_text = new\<rparr>"

text \<open>The default mode asks for a unique match, but overlapping occurrences count once.\<close>

lemma overlapping_occurrence_accepted:
  "edit_text [97, 97, 97] [edit_once [97, 97] [98]] = Inr ([98, 97], [replaced 0 [97, 97] [98]]) \<and> prefix [97, 97] (drop 1 [97, 97, 97 :: uchar])"
  by code_simp

text \<open>A replacement that drops a line feed leaves the later hunks of the diff on wrong lines.\<close>

lemma hunk_lines_drift:
  "edit_text [97, 10, 120, 10, 121] [edit_once [97, 10] [98], edit_once [121] [122]] =
     Inr ([98, 120, 10, 122], [replaced 0 [97, 10] [98], replaced 4 [121] [122]]) \<and>
   map hk_new_start (edit_hunks [97, 10, 120, 10, 121] 0 [replaced 0 [97, 10] [98], replaced 4 [121] [122]]) = [1, 3] \<and>
   map (\<lambda>p. count_list p newline + 1)
     (updated_before [97, 10, 120, 10, 121] 0 [] [replaced 0 [97, 10] [98], replaced 4 [121] [122]]) = [1, 2]"
  by code_simp

lemma example_edit:
  "edit_text [97, 98, 99, 98] [edit_once [99] [121, 121], edit_once [97] [120]] =
     Inr ([120, 98, 121, 121, 98], [replaced 0 [97] [120], replaced 2 [99] [121, 121]])"
  by code_simp

end
