(* ===== verification/Context_Syntax.thy ===== *)
theory Context_Syntax
  imports Yao_Prelude "HOL-Library.Sublist"
begin

text \<open>
  The S-expressions of the persistent context (\<open>morphz/src/sexpr.rs\<close>): the printer with its task
  stack, the tolerant parser with its positions, and paths. The parser recurses on the nesting that
  is left and loops on the input that is left.
\<close>

section \<open>Expressions and their text\<close>

datatype sx = SxAtom ustring | SxList "sx list"

definition max_sexpr_nesting_depth :: nat where
  "max_sexpr_nesting_depth = 128"

definition needs_quotes :: "ustring \<Rightarrow> bool" where
  "needs_quotes s \<longleftrightarrow> list_ex (\<lambda>c. is_whitespace c \<or> c \<in> {40, 41, 39, 10, 13, 9, 34}) s \<or> s = []"

definition escape_atom :: "ustring \<Rightarrow> ustring" where
  "escape_atom s = concat (map (\<lambda>c. if c = 92 then [92, 92] else if c = 34 then [92, 34] else [c]) s)"

definition sx_atom_text :: "ustring \<Rightarrow> ustring" where
  "sx_atom_text s = (if needs_quotes s then 34 # escape_atom s @ [34] else s)"

datatype print_task = PrintValue sx | PrintSpace | PrintClose

definition list_tasks :: "sx list \<Rightarrow> print_task list" where
  "list_tasks items = concat (map (\<lambda>(i, item). if 0 < i then [PrintSpace, PrintValue item] else [PrintValue item]) (enumerate 0 items))"

fun print_weight :: "print_task \<Rightarrow> nat" where
  "print_weight (PrintValue e) = 3 * size e + 2"
| "print_weight PrintSpace = 1"
| "print_weight PrintClose = 1"

lemma list_tasks_weight: "sum_list (map print_weight (list_tasks items)) \<le> sum_list (map (\<lambda>e. 3 * size e + 3) items)"
proof -
  have "sum_list (map print_weight (concat (map (\<lambda>(i, item). if 0 < i then [PrintSpace, PrintValue item] else [PrintValue item]) (enumerate n items))))
      \<le> sum_list (map (\<lambda>e. 3 * size e + 3) items)" for n
    by (induction items arbitrary: n) (auto simp: add_le_mono)
  then show ?thesis by (simp add: list_tasks_def)
qed

lemma size_items: "sum_list (map (\<lambda>e. 3 * size e + 3) items) = 3 * size_list size (items :: sx list)"
  by (induction items) simp_all

lemma list_tasks_bound: "sum_list (map print_weight (list_tasks items)) < 4 + 3 * size_list size items"
  using list_tasks_weight [of items] by (simp add: size_items)

function print_loop :: "print_task list \<Rightarrow> ustring \<Rightarrow> ustring" where
  "print_loop [] out = out"
| "print_loop (PrintValue (SxAtom s) # tasks) out = print_loop tasks (out @ sx_atom_text s)"
| "print_loop (PrintValue (SxList items) # tasks) out = print_loop (list_tasks items @ PrintClose # tasks) (out @ [40])"
| "print_loop (PrintSpace # tasks) out = print_loop tasks (out @ [32])"
| "print_loop (PrintClose # tasks) out = print_loop tasks (out @ [41])"
  by pat_completeness auto
termination
  by (relation "measure (\<lambda>(tasks, out). sum_list (map print_weight tasks))")
    (auto simp: list_tasks_bound)

definition sexpr_to_string :: "sx \<Rightarrow> ustring" where
  "sexpr_to_string e = print_loop [PrintValue e] []"

section \<open>Paths\<close>

definition keyed_by :: "ustring \<Rightarrow> sx \<Rightarrow> bool" where
  "keyed_by key item \<longleftrightarrow> (case item of SxList (SxAtom k # _) \<Rightarrow> k = key | _ \<Rightarrow> False)"

definition find_sub_idx_in_list :: "sx list \<Rightarrow> ustring \<Rightarrow> nat option" where
  "find_sub_idx_in_list items key = find (\<lambda>i. keyed_by key (items ! i)) [1..<length items]"

fun get_path :: "sx \<Rightarrow> ustring list \<Rightarrow> sx option" where
  "get_path e [] = Some e"
| "get_path (SxList items) (key # path) =
     (case find_sub_idx_in_list items key of
        None \<Rightarrow> None
      | Some i \<Rightarrow>
          if path = [] then (case items ! i of SxList [_, v] \<Rightarrow> Some v | sub \<Rightarrow> Some sub)
          else get_path (items ! i) path)"
| "get_path (SxAtom s) (key # path) = None"

fun get_path_mut :: "sx \<Rightarrow> ustring list \<Rightarrow> sx option" where
  "get_path_mut e [] = Some e"
| "get_path_mut (SxList items) (key # path) =
     (case find_sub_idx_in_list items key of
        None \<Rightarrow> None
      | Some i \<Rightarrow> if path = [] then Some (items ! i) else get_path_mut (items ! i) path)"
| "get_path_mut (SxAtom s) (key # path) = None"

datatype path_error = EmptyPathGiven | EmptyListNode | NotAListNode

fun set_path :: "sx \<Rightarrow> ustring list \<Rightarrow> sx \<Rightarrow> path_error + sx" where
  "set_path e [] v = Inl EmptyPathGiven"
| "set_path (SxList items) (key # path) v =
     (if items = [] then Inl EmptyListNode
      else
        case find_sub_idx_in_list items key of
          Some i \<Rightarrow>
            if path = [] then Inr (SxList (items[i := SxList [SxAtom key, v]]))
            else map_ok (\<lambda>sub. SxList (items[i := sub])) (set_path (items ! i) path v)
        | None \<Rightarrow>
            if path = [] then Inr (SxList (items @ [SxList [SxAtom key, v]]))
            else map_ok (\<lambda>sub. SxList (items @ [sub])) (set_path (SxList [SxAtom key]) path v))"
| "set_path (SxAtom s) (key # path) v = Inl NotAListNode"

section \<open>The parser\<close>

text \<open>The state: what was read, last character first, what is left, and the position.\<close>

record sx_parser =
  px_read :: ustring
  px_rest :: ustring
  px_line :: nat
  px_column :: nat

datatype parse_message = UnexpectedEof | EofAfterQuote | NestingLimit | EmptyAtom | EmptyInput

record parser_error =
  pe_line :: nat
  pe_column :: nat
  pe_message :: parse_message
  pe_context :: ustring

definition parser_new :: "ustring \<Rightarrow> sx_parser" where
  "parser_new input = \<lparr>px_read = [], px_rest = input, px_line = 1, px_column = 1\<rparr>"

definition px_advance :: "sx_parser \<Rightarrow> sx_parser" where
  "px_advance st =
     (case px_rest st of
        [] \<Rightarrow> st
      | c # rest \<Rightarrow>
          if c = 10 then \<lparr>px_read = c # px_read st, px_rest = rest, px_line = Suc (px_line st), px_column = 1\<rparr>
          else \<lparr>px_read = c # px_read st, px_rest = rest, px_line = px_line st, px_column = Suc (px_column st)\<rparr>)"

definition get_context :: "sx_parser \<Rightarrow> ustring" where
  "get_context st =
     (if 15 < length (px_read st) then lit ''...'' else []) @ rev (take 15 (px_read st)) @ take 15 (px_rest st) @
     (if 15 < length (px_rest st) then lit ''...'' else [])"

definition make_error :: "parse_message \<Rightarrow> sx_parser \<Rightarrow> parser_error" where
  "make_error message st = \<lparr>pe_line = px_line st, pe_column = px_column st, pe_message = message, pe_context = get_context st\<rparr>"

definition px_skip :: "(uchar \<Rightarrow> bool) \<Rightarrow> sx_parser \<Rightarrow> sx_parser" where
  "px_skip p st = (px_advance ^^ length (takeWhile p (px_rest st))) st"

definition skip_whitespace :: "sx_parser \<Rightarrow> sx_parser" where
  "skip_whitespace st = px_skip is_whitespace st"

lemma px_rest_advance [simp]: "px_rest (px_advance st) = tl (px_rest st)"
  by (simp add: px_advance_def split: list.splits)

lemma px_rest_advances: "px_rest ((px_advance ^^ n) st) = drop n (px_rest st)"
  by (induction n) (simp_all add: drop_Suc tl_drop)

lemma px_rest_skip [simp]: "px_rest (px_skip p st) = dropWhile p (px_rest st)"
  by (simp add: px_skip_def px_rest_advances dropWhile_eq_drop)

lemma px_rest_skip_whitespace [simp]: "px_rest (skip_whitespace st) = dropWhile is_whitespace (px_rest st)"
  by (simp add: skip_whitespace_def)

text \<open>Quotes before a value are dropped.\<close>

function strip_quotes :: "sx_parser \<Rightarrow> parser_error + sx_parser" where
  "strip_quotes st =
     (case px_rest st of
        c # _ \<Rightarrow>
          if c = 39
          then
            (let st' = skip_whitespace (px_advance st) in
             if px_rest st' = [] then Inl (make_error EofAfterQuote st') else strip_quotes st')
          else Inr st
      | [] \<Rightarrow> Inr st)"
  by pat_completeness auto
termination
  by (relation "measure (\<lambda>st. length (px_rest st))") (auto intro: le_less_trans [OF length_dropWhile_le])

declare strip_quotes.simps [simp del]

fun unescape_atom :: "uchar \<Rightarrow> ustring" where
  "unescape_atom c =
     (if c = 110 then [10] else if c = 116 then [9] else if c = 114 then [13] else if c = 92 then [92] else if c = 34 then [34]
      else [92, c])"

function parse_string :: "ustring \<Rightarrow> sx_parser \<Rightarrow> ustring \<times> sx_parser" where
  "parse_string acc st =
     (case px_rest st of
        [] \<Rightarrow> (acc, st)
      | c # rest \<Rightarrow>
          if c = 34 then (acc, px_advance st)
          else if c = 92 then
            (case rest of
               [] \<Rightarrow> (acc @ [92], px_advance st)
             | d # _ \<Rightarrow> parse_string (acc @ unescape_atom d) (px_advance (px_advance st)))
          else parse_string (acc @ [c]) (px_advance st))"
  by pat_completeness auto
termination by (relation "measure (\<lambda>(_, st). length (px_rest st))") auto

declare parse_string.simps [simp del]

definition atom_char :: "uchar \<Rightarrow> bool" where
  "atom_char c \<longleftrightarrow> \<not> (is_whitespace c \<or> c \<in> {40, 41, 34, 39})"

text \<open>A value that is no list.\<close>

definition parse_flat :: "sx_parser \<Rightarrow> parser_error + sx \<times> sx_parser" where
  "parse_flat st =
     (if hd (px_rest st) = 34 then Inr (case parse_string [] (px_advance st) of (s, st') \<Rightarrow> (SxAtom s, st'))
      else
        let s = takeWhile atom_char (px_rest st); st' = px_skip atom_char st in
        if s = [] then Inl (make_error EmptyAtom st') else Inr (SxAtom s, st'))"

definition at_value :: "sx_parser \<Rightarrow> parser_error + sx_parser" where
  "at_value st =
     (let st = skip_whitespace st in
      if px_rest st = [] then Inl (make_error UnexpectedEof st) else strip_quotes st)"

text \<open>The elements of a list; a missing parenthesis at the end of the input is supplied.\<close>

fun parse_items :: "(sx_parser \<Rightarrow> parser_error + sx \<times> sx_parser) \<Rightarrow> nat \<Rightarrow> sx_parser \<Rightarrow> sx list \<Rightarrow> parser_error + sx list \<times> sx_parser" where
  "parse_items child 0 st items = Inr (items, st)"
| "parse_items child (Suc fuel) st items =
     (let st = skip_whitespace st in
      case px_rest st of
        [] \<Rightarrow> Inr (items, st)
      | c # _ \<Rightarrow>
          if c = 41 then Inr (items, px_advance st)
          else and_then (child st) (\<lambda>(e, st'). parse_items child fuel st' (items @ [e])))"

text \<open>\<open>parse_value\<close> with the nesting that is left, \<open>MAX_SEXPR_NESTING_DEPTH - parent_depth\<close>.\<close>

primrec parse_value :: "nat \<Rightarrow> sx_parser \<Rightarrow> parser_error + sx \<times> sx_parser" where
  "parse_value 0 =
     (\<lambda>st. and_then (at_value st) (\<lambda>st.
        if hd (px_rest st) = 40 then Inl (make_error NestingLimit st) else parse_flat st))"
| "parse_value (Suc n) =
     (\<lambda>st. and_then (at_value st) (\<lambda>st.
        if hd (px_rest st) = 40
        then map_ok (\<lambda>(items, st'). (SxList items, st')) (parse_items (parse_value n) (Suc (length (px_rest st))) (px_advance st) [])
        else parse_flat st))"

fun parse_forms :: "nat \<Rightarrow> sx_parser \<Rightarrow> sx list \<Rightarrow> parser_error + sx list \<times> sx_parser" where
  "parse_forms 0 st forms = Inr (forms, st)"
| "parse_forms (Suc fuel) st forms =
     (let st = skip_whitespace st in
      if px_rest st = [] then Inr (forms, st)
      else and_then (parse_value max_sexpr_nesting_depth st) (\<lambda>(e, st'). parse_forms fuel st' (forms @ [e])))"

definition sx_parse_all :: "ustring \<Rightarrow> parser_error + sx list" where
  "sx_parse_all input =
     and_then (parse_forms (Suc (length input)) (parser_new input) []) (\<lambda>(forms, st).
       if forms = [] then Inl (make_error EmptyInput st) else Inr forms)"

definition sx_parse :: "ustring \<Rightarrow> parser_error + sx" where
  "sx_parse input =
     (let st = skip_whitespace (parser_new input) in
      if px_rest st = [] then Inl (make_error EmptyInput st) else map_ok fst (parse_value max_sexpr_nesting_depth st))"

section \<open>The text by recursion\<close>

fun spaced_texts :: "ustring list \<Rightarrow> ustring" where
  "spaced_texts [] = []"
| "spaced_texts [t] = t"
| "spaced_texts (t # u # ts) = t @ 32 # spaced_texts (u # ts)"

fun sx_text :: "sx \<Rightarrow> ustring" where
  "sx_text (SxAtom s) = sx_atom_text s"
| "sx_text (SxList items) = 40 # spaced_texts (map sx_text items) @ [41]"

fun print_task_text :: "print_task \<Rightarrow> ustring" where
  "print_task_text (PrintValue e) = sx_text e"
| "print_task_text PrintSpace = [32]"
| "print_task_text PrintClose = [41]"

lemma list_tasks_later:
  "0 < n \<Longrightarrow> concat (map print_task_text (concat (map (\<lambda>(i, item). if 0 < i then [PrintSpace, PrintValue item] else [PrintValue item])
      (enumerate n items)))) = concat (map (\<lambda>e. 32 # sx_text e) items)"
  by (induction items arbitrary: n) simp_all

lemma spaced_texts_Cons: "spaced_texts (t # ts) = t @ concat (map (\<lambda>u. 32 # u) ts)"
  by (induction ts arbitrary: t) simp_all

lemma list_tasks_text: "concat (map print_task_text (list_tasks items)) = spaced_texts (map sx_text items)"
  by (cases items) (simp_all add: list_tasks_def spaced_texts_Cons list_tasks_later comp_def)

lemma print_loop_text: "print_loop tasks out = out @ concat (map print_task_text tasks)"
  by (induction tasks out rule: print_loop.induct) (simp_all add: list_tasks_text)

lemma sexpr_to_string_text [simp]: "sexpr_to_string e = sx_text e"
  by (simp add: sexpr_to_string_def print_loop_text)

section \<open>Reading what was printed\<close>

fun sx_depth :: "sx \<Rightarrow> nat" where
  "sx_depth (SxAtom s) = 0"
| "sx_depth (SxList items) = Suc (foldr (\<lambda>e d. max (sx_depth e) d) items 0)"

lemma depth_bound: "foldr (\<lambda>e d. max (f e) d) xs 0 \<le> (n::nat) \<longleftrightarrow> (\<forall>x \<in> set xs. f x \<le> n)"
  by (induction xs) auto

definition closes_atom :: "ustring \<Rightarrow> bool" where
  "closes_atom s \<longleftrightarrow> (case s of [] \<Rightarrow> True | c # _ \<Rightarrow> \<not> atom_char c)"

lemma closes_atom_simps [simp]: "closes_atom []" "closes_atom (32 # s)" "closes_atom (41 # s)"
  by (simp_all add: closes_atom_def atom_char_def is_whitespace_def)

lemma at_value_plain:
  assumes "px_rest st = c # s" "\<not> is_whitespace c" "c \<noteq> 39"
  shows "at_value st = Inr st"
proof -
  have "skip_whitespace st = st" using assms by (simp add: skip_whitespace_def px_skip_def)
  then show ?thesis using assms by (simp add: at_value_def strip_quotes.simps [of st])
qed

lemma at_value_spaces: "at_value (skip_whitespace st) = at_value st"
proof -
  have "takeWhile p (dropWhile p xs) = []" for p and xs :: ustring
    by (induction xs) auto
  then have "skip_whitespace (skip_whitespace st) = skip_whitespace st"
    by (simp add: skip_whitespace_def px_skip_def px_rest_advances dropWhile_eq_drop [symmetric])
  then show ?thesis by (simp add: at_value_def)
qed

lemma parse_string_printed:
  assumes "px_rest st = escape_atom v @ 34 # s"
  shows "\<exists>st'. parse_string acc st = (acc @ v, st') \<and> px_rest st' = s"
  using assms
proof (induction v arbitrary: acc st)
  case Nil
  then show ?case by (simp add: escape_atom_def parse_string.simps [of acc st])
next
  case (Cons c v)
  show ?case
  proof (cases "c = 92 \<or> c = 34")
    case True
    then have rest: "px_rest st = 92 # c # escape_atom v @ 34 # s" using Cons.prems by (auto simp: escape_atom_def)
    then have "parse_string acc st = parse_string (acc @ [c]) (px_advance (px_advance st))"
      using True by (auto simp: parse_string.simps [of acc st])
    with Cons.IH [of "px_advance (px_advance st)" "acc @ [c]"] rest show ?thesis by simp
  next
    case False
    then have rest: "px_rest st = c # escape_atom v @ 34 # s" using Cons.prems by (auto simp: escape_atom_def)
    then have "parse_string acc st = parse_string (acc @ [c]) (px_advance st)"
      using False by (simp add: parse_string.simps [of acc st])
    with Cons.IH [of "px_advance st" "acc @ [c]"] rest show ?thesis by simp
  qed
qed

lemma plain_atom: "\<not> needs_quotes s \<Longrightarrow> s \<noteq> [] \<and> list_all atom_char s"
  by (auto simp: needs_quotes_def list_ex_iff list_all_iff atom_char_def)

lemma parse_flat_atom:
  assumes "px_rest st = sx_atom_text v @ s" "needs_quotes v \<or> closes_atom s"
  shows "\<exists>st'. parse_flat st = Inr (SxAtom v, st') \<and> px_rest st' = s"
proof (cases "needs_quotes v")
  case True
  with assms have rest: "px_rest st = 34 # escape_atom v @ 34 # s" by (simp add: sx_atom_text_def)
  obtain st' where "parse_string [] (px_advance st) = (v, st')" "px_rest st' = s"
    using parse_string_printed [of "px_advance st" v s "[]"] rest by auto
  with rest show ?thesis by (simp add: parse_flat_def)
next
  case False
  then have v: "v \<noteq> []" "list_all atom_char v" using plain_atom by auto
  have rest: "px_rest st = v @ s" using assms False by (simp add: sx_atom_text_def)
  have stop: "takeWhile atom_char s = []" "dropWhile atom_char s = s"
    using assms(2) False by (cases s; simp add: closes_atom_def)+
  have whole: "takeWhile atom_char (v @ s) = v" "dropWhile atom_char (v @ s) = s"
    using v(2) stop by (simp_all add: list_all_iff takeWhile_append2 dropWhile_append2)
  have "hd (v @ s) \<noteq> 34" using v by (cases v) (auto simp: atom_char_def)
  with v(1) rest whole show ?thesis by (simp add: parse_flat_def Let_def)
qed

lemma sx_atom_text_start: "\<exists>c r. sx_atom_text v = c # r \<and> \<not> is_whitespace c \<and> c \<noteq> 39 \<and> c \<noteq> 40 \<and> c \<noteq> 41"
proof (cases "needs_quotes v")
  case False
  then obtain c r where "v = c # r" "atom_char c" using plain_atom [of v] by (cases v) auto
  with False show ?thesis by (auto simp: sx_atom_text_def atom_char_def)
qed (simp add: sx_atom_text_def is_whitespace_def)

lemma sx_text_start: "\<exists>c r. sx_text e = c # r \<and> \<not> is_whitespace c \<and> c \<noteq> 39 \<and> c \<noteq> 41"
  by (cases e) (use sx_atom_text_start in \<open>auto simp: is_whitespace_def\<close>, metis)

fun self_delimiting :: "sx \<Rightarrow> bool" where
  "self_delimiting (SxList items) \<longleftrightarrow> True"
| "self_delimiting (SxAtom s) \<longleftrightarrow> needs_quotes s"

definition reads_back :: "nat \<Rightarrow> sx \<Rightarrow> bool" where
  "reads_back n e \<longleftrightarrow>
     (\<forall>(st :: sx_parser) s. px_rest st = sx_text e @ s \<and> (self_delimiting e \<or> closes_atom s) \<longrightarrow>
        (\<exists>st'. parse_value n st = Inr (e, st') \<and> px_rest st' = s))"

definition tail_text :: "sx list \<Rightarrow> ustring \<Rightarrow> ustring" where
  "tail_text es s = concat (map (\<lambda>e. 32 # sx_text e) es) @ 41 # s"

lemma tail_text_simps [simp]: "tail_text [] s = 41 # s" "tail_text (e # es) s = 32 # sx_text e @ tail_text es s"
  by (simp_all add: tail_text_def)

lemma closes_tail [simp]: "closes_atom (tail_text es s)"
  by (cases es) simp_all

lemma drop_spaces_text: "dropWhile is_whitespace (sx_text e @ s) = sx_text e @ s"
  using sx_text_start [of e] by auto

lemma space_is_whitespace [simp]: "is_whitespace 32" "\<not> is_whitespace 41" "\<not> is_whitespace 40"
  by (simp_all add: is_whitespace_def)

lemma parse_items_step:
  assumes "reads_back n e" "dropWhile is_whitespace (px_rest st) = sx_text e @ tail_text es s"
  shows "\<exists>st'. px_rest st' = tail_text es s \<and>
    parse_items (parse_value n) (Suc fuel) st items = parse_items (parse_value n) fuel st' (items @ [e])"
proof -
  have "px_rest (skip_whitespace st) = sx_text e @ tail_text es s" using assms(2) by simp
  then obtain st' where "parse_value n (skip_whitespace st) = Inr (e, st')" "px_rest st' = tail_text es s"
    using assms(1) closes_tail unfolding reads_back_def by blast
  moreover obtain c r where "sx_text e @ tail_text es s = c # r" "c \<noteq> 41" using sx_text_start [of e] by auto
  ultimately show ?thesis using assms(2) by (auto simp: Let_def)
qed

lemma parse_items_tail:
  assumes "\<forall>e \<in> set es. reads_back n e" "px_rest st = tail_text es s" "length es < fuel"
  shows "\<exists>st'. parse_items (parse_value n) fuel st items = Inr (items @ es, st') \<and> px_rest st' = s"
  using assms
proof (induction es arbitrary: st fuel items)
  case Nil
  then obtain k where "fuel = Suc k" by (cases fuel) auto
  with Nil show ?case by (simp add: Let_def)
next
  case (Cons e es)
  then obtain k where k: "fuel = Suc k" by (cases fuel) auto
  obtain st' where "px_rest st' = tail_text es s"
      "parse_items (parse_value n) (Suc k) st items = parse_items (parse_value n) k st' (items @ [e])"
    using parse_items_step [of n e st es s k items] Cons.prems by (auto simp: drop_spaces_text)
  with Cons.IH [of st' k "items @ [e]"] Cons.prems k show ?case by auto
qed

lemma parse_items_printed:
  assumes "\<forall>e \<in> set es. reads_back n e" "px_rest st = spaced_texts (map sx_text es) @ 41 # s" "length es < fuel"
  shows "\<exists>st'. parse_items (parse_value n) fuel st [] = Inr (es, st') \<and> px_rest st' = s"
proof (cases es)
  case Nil
  with parse_items_tail [of "[]" n st s fuel "[]"] assms show ?thesis by simp
next
  case (Cons e es')
  then obtain k where k: "fuel = Suc k" using assms(3) by (cases fuel) auto
  have "px_rest st = sx_text e @ tail_text es' s" using assms(2) Cons by (simp add: spaced_texts_Cons tail_text_def comp_def)
  then obtain st' where "px_rest st' = tail_text es' s"
      "parse_items (parse_value n) (Suc k) st [] = parse_items (parse_value n) k st' [e]"
    using parse_items_step [of n e st es' s k "[]"] assms(1) Cons by (auto simp: drop_spaces_text)
  with parse_items_tail [of es' n st' s k "[e]"] assms Cons k show ?thesis by auto
qed

lemma spaced_length: "length es \<le> length (spaced_texts (map sx_text es))"
proof (cases es)
  case (Cons e es')
  have "length es' \<le> length (concat (map (\<lambda>u. 32 # u) (map sx_text es')))" by (induction es') auto
  moreover have "0 < length (sx_text e)" using sx_text_start [of e] by auto
  ultimately have "Suc (length es') \<le> length (sx_text e) + length (concat (map (\<lambda>u. 32 # u) (map sx_text es')))" by linarith
  then show ?thesis using Cons by (simp add: spaced_texts_Cons)
qed simp

lemma printed_reads_back: "sx_depth e \<le> n \<Longrightarrow> reads_back n e"
proof (induction e arbitrary: n)
  case (SxAtom v)
  show ?case
    unfolding reads_back_def
  proof (intro allI impI)
    fix st :: sx_parser and s
    assume st: "px_rest st = sx_text (SxAtom v) @ s \<and> (self_delimiting (SxAtom v) \<or> closes_atom s)"
    obtain c r where c: "sx_atom_text v = c # r" "\<not> is_whitespace c" "c \<noteq> 39" "c \<noteq> 40" using sx_atom_text_start by blast
    then have "at_value st = Inr st" "hd (px_rest st) \<noteq> 40" using at_value_plain [of st c "r @ s"] st by auto
    then have "parse_value n st = parse_flat st" by (cases n) simp_all
    then show "\<exists>st'. parse_value n st = Inr (SxAtom v, st') \<and> px_rest st' = s"
      using parse_flat_atom [of st v s] st by auto
  qed
next
  case (SxList items)
  then obtain m where m: "n = Suc m" "\<forall>e \<in> set items. sx_depth e \<le> m" by (cases n) (auto simp: depth_bound)
  show ?case
    unfolding reads_back_def
  proof (intro allI impI)
    fix st :: sx_parser and s
    assume "px_rest st = sx_text (SxList items) @ s \<and> (self_delimiting (SxList items) \<or> closes_atom s)"
    then have rest: "px_rest st = 40 # spaced_texts (map sx_text items) @ 41 # s" by simp
    then have "at_value st = Inr st" by (rule at_value_plain) simp_all
    moreover obtain st' where "parse_items (parse_value m) (Suc (length (px_rest st))) (px_advance st) [] = Inr (items, st')" "px_rest st' = s"
      using parse_items_printed [of items m "px_advance st" s "Suc (length (px_rest st))"] SxList.IH m(2) rest spaced_length [of items]
      by auto
    ultimately show "\<exists>st'. parse_value n st = Inr (SxList items, st') \<and> px_rest st' = s"
      using m(1) rest by simp
  qed
qed

text \<open>What the parser accepts is within the nesting it was given.\<close>

lemma parse_flat_depth: "parse_flat st = Inr (e, st') \<Longrightarrow> sx_depth e = 0"
  by (auto simp: parse_flat_def Let_def split: if_splits prod.splits)

lemma parse_items_depth:
  assumes "\<And>st e st'. child st = Inr (e, st') \<Longrightarrow> sx_depth e \<le> n" "parse_items child fuel st items = Inr (es, st')"
    "\<forall>e \<in> set items. sx_depth e \<le> n"
  shows "\<forall>e \<in> set es. sx_depth e \<le> n"
  using assms(2,3)
proof (induction fuel arbitrary: st items)
  case (Suc fuel)
  show ?case
  proof (cases "\<exists>c r. dropWhile is_whitespace (px_rest st) = c # r \<and> c \<noteq> 41")
    case True
    with Suc.prems(1) obtain e st1 where step: "child (skip_whitespace st) = Inr (e, st1)" "parse_items child fuel st1 (items @ [e]) = Inr (es, st')"
      by (auto simp: Let_def and_then_Inr_iff)
    with Suc.IH [OF step(2)] Suc.prems(2) assms(1) [OF step(1)] show ?thesis by auto
  next
    case False
    with Suc.prems show ?thesis by (auto simp: Let_def split: list.splits)
  qed
qed simp

lemma parse_value_depth: "parse_value n st = Inr (e, st') \<Longrightarrow> sx_depth e \<le> n"
proof (induction n arbitrary: st e st')
  case 0
  then show ?case by (auto simp: and_then_Inr_iff split: if_splits dest: parse_flat_depth)
next
  case (Suc n)
  then obtain st1 where "at_value st = Inr st1" and cases: "(if hd (px_rest st1) = 40
        then map_ok (\<lambda>(items, st'). (SxList items, st')) (parse_items (parse_value n) (Suc (length (px_rest st1))) (px_advance st1) [])
        else parse_flat st1) = Inr (e, st')"
    by (auto simp: and_then_Inr_iff)
  show ?case
  proof (cases "hd (px_rest st1) = 40")
    case True
    with cases obtain items st2 where e: "e = SxList items"
        and items: "parse_items (parse_value n) (Suc (length (px_rest st1))) (px_advance st1) [] = Inr (items, st2)"
      by (auto simp: map_ok_Inr_iff)
    have "\<forall>e \<in> set items. sx_depth e \<le> n" using parse_items_depth [OF Suc.IH items] by simp
    then show ?thesis by (simp add: e depth_bound)
  qed (use cases parse_flat_depth in \<open>auto\<close>)
qed

section \<open>The round trip\<close>

lemma parse_forms_printed:
  assumes "reads_back max_sexpr_nesting_depth e"
  shows "\<exists>st. parse_forms (Suc (length (sx_text e))) (parser_new (sx_text e)) [] = Inr ([e], st)"
proof -
  let ?st = "skip_whitespace (parser_new (sx_text e))"
  have rest: "px_rest ?st = sx_text e" using drop_spaces_text [of e "[]"] by (simp add: parser_new_def)
  then obtain st' where st': "parse_value max_sexpr_nesting_depth ?st = Inr (e, st')" "px_rest st' = []"
    using assms [unfolded reads_back_def, rule_format, of ?st "[]"] by auto
  obtain k where k: "length (sx_text e) = Suc k" using sx_text_start [of e] by (auto simp: length_Suc_conv)
  have "sx_text e \<noteq> []" using k by auto
  then have "parse_forms (Suc (length (sx_text e))) (parser_new (sx_text e)) [] = parse_forms (length (sx_text e)) st' [e]"
    using rest st' by (simp add: Let_def)
  also have "\<dots> = Inr ([e], skip_whitespace st')" using k st'(2) by (simp add: Let_def)
  finally show ?thesis by blast
qed

lemma sx_parse_all_printed: "sx_depth e \<le> max_sexpr_nesting_depth \<Longrightarrow> sx_parse_all (sx_text e) = Inr [e]"
  using parse_forms_printed [OF printed_reads_back, of e] unfolding sx_parse_all_def by force

lemma sx_parse_printed: "sx_depth e \<le> max_sexpr_nesting_depth \<Longrightarrow> sx_parse (sx_text e) = Inr e"
proof -
  assume "sx_depth e \<le> max_sexpr_nesting_depth"
  then have "reads_back max_sexpr_nesting_depth e" by (rule printed_reads_back)
  moreover have rest: "px_rest (skip_whitespace (parser_new (sx_text e))) = sx_text e" using drop_spaces_text [of e "[]"] by (simp add: parser_new_def)
  ultimately obtain st' where "parse_value max_sexpr_nesting_depth (skip_whitespace (parser_new (sx_text e))) = Inr (e, st')"
    unfolding reads_back_def by (metis append_Nil2 closes_atom_simps(1))
  moreover have "sx_text e \<noteq> []" using sx_text_start [of e] by auto
  ultimately show ?thesis using rest by (simp add: sx_parse_def Let_def)
qed

lemma sx_parse_all_depth:
  assumes "sx_parse_all s = Inr forms" "e \<in> set forms"
  shows "sx_depth e \<le> max_sexpr_nesting_depth"
proof -
  have "\<forall>e \<in> set es. sx_depth e \<le> max_sexpr_nesting_depth"
    if "parse_forms fuel st items = Inr (es, st')" "\<forall>e \<in> set items. sx_depth e \<le> max_sexpr_nesting_depth" for fuel st items es st'
    using that
  proof (induction fuel arbitrary: st items)
    case (Suc fuel)
    then show ?case
      by (auto simp: Let_def and_then_Inr_iff split: if_splits dest!: parse_value_depth Suc.IH)
  qed auto
  moreover obtain st' where "parse_forms (Suc (length s)) (parser_new s) [] = Inr (forms, st')"
    using assms(1) unfolding sx_parse_all_def and_then_Inr_iff by (auto simp del: parse_forms.simps split: if_splits)
  ultimately show ?thesis using assms(2) by (metis empty_iff empty_set)
qed

text \<open>The texts of lists are free of prefixes: one is not the beginning of another.\<close>

lemma list_texts_prefix_free:
  assumes "sx_text (SxList xs) @ r = sx_text (SxList ys) @ s"
  shows "xs = ys \<and> r = s"
proof -
  let ?n = "max (sx_depth (SxList xs)) (sx_depth (SxList ys))"
  let ?st = "parser_new (sx_text (SxList xs) @ r)"
  have "px_rest ?st = sx_text (SxList xs) @ r" "px_rest ?st = sx_text (SxList ys) @ s" using assms by (simp_all add: parser_new_def)
  moreover have "reads_back ?n (SxList xs)" "reads_back ?n (SxList ys)" by (rule printed_reads_back; simp)+
  ultimately show ?thesis unfolding reads_back_def by (metis Inr_inject prod.inject self_delimiting.simps(1) sx.inject(2))
qed

section \<open>The loops have enough fuel\<close>

abbreviation left :: "sx_parser \<Rightarrow> nat" where
  "left st \<equiv> length (px_rest st)"

lemma left_skip: "left (skip_whitespace st) \<le> left st"
  by (simp add: length_dropWhile_le)

lemma strip_quotes_left: "strip_quotes st = Inr st' \<Longrightarrow> left st' \<le> left st"
proof (induction st rule: strip_quotes.induct)
  case (1 st)
  show ?case
  proof (cases "px_rest st")
    case (Cons c r)
    show ?thesis
    proof (cases "c = 39")
      case True
      let ?next = "skip_whitespace (px_advance st)"
      have "px_rest ?next \<noteq> []" "strip_quotes ?next = Inr st'"
        using "1.prems" Cons True by (auto simp: strip_quotes.simps [of st] Let_def split: if_splits)
      then have "left st' \<le> left ?next" using "1.IH" [OF Cons True refl] by blast
      also have "\<dots> \<le> left st" using left_skip [of "px_advance st"] Cons by simp
      finally show ?thesis .
    qed (use "1.prems" Cons in \<open>simp add: strip_quotes.simps [of st]\<close>)
  qed (use "1.prems" in \<open>simp add: strip_quotes.simps [of st]\<close>)
qed

lemma strip_quotes_nonempty: "strip_quotes st = Inr st' \<Longrightarrow> px_rest st \<noteq> [] \<Longrightarrow> px_rest st' \<noteq> []"
proof (induction st rule: strip_quotes.induct)
  case (1 st)
  then obtain c r where Cons: "px_rest st = c # r" by (cases "px_rest st") auto
  show ?case
  proof (cases "c = 39")
    case True
    then show ?thesis
      using "1.IH" [OF Cons True refl] "1.prems" Cons by (auto simp: strip_quotes.simps [of st] Let_def split: if_splits)
  qed (use "1.prems" Cons in \<open>auto simp: strip_quotes.simps [of st]\<close>)
qed

lemma at_value_left: "at_value st = Inr st' \<Longrightarrow> left st' \<le> left st \<and> px_rest st' \<noteq> []"
  using strip_quotes_left [of "skip_whitespace st" st'] strip_quotes_nonempty [of "skip_whitespace st" st'] left_skip [of st]
  by (auto simp: at_value_def Let_def split: if_splits)

lemma parse_string_left: "parse_string acc st = (s, st') \<Longrightarrow> left st' \<le> left st"
proof (induction acc st rule: parse_string.induct)
  case (1 acc st)
  show ?case
  proof (cases "px_rest st")
    case (Cons c r)
    note step = "1.prems" [unfolded parse_string.simps [of acc st] Cons list.case]
    show ?thesis
    proof (cases "c = 34")
      case quote: False
      show ?thesis
      proof (cases "c = 92")
        case True
        show ?thesis
        proof (cases r)
          case (Cons d r')
          then show ?thesis using step quote True "1.IH"(1) [OF \<open>px_rest st = c # r\<close> quote True Cons] \<open>px_rest st = c # r\<close> by auto
        qed (use step quote True Cons in auto)
      next
        case False
        then show ?thesis using step quote "1.IH"(2) [OF Cons quote False] Cons by auto
      qed
    qed (use step Cons in auto)
  qed (use "1.prems" in \<open>simp add: parse_string.simps [of acc st]\<close>)
qed

lemma parse_flat_left:
  assumes "parse_flat st = Inr (e, st')" "px_rest st \<noteq> []"
  shows "left st' < left st"
proof (cases "hd (px_rest st) = 34")
  case True
  with assms(1) obtain s where "parse_string [] (px_advance st) = (s, st')" by (auto simp: parse_flat_def split: prod.splits)
  then have "left st' \<le> left (px_advance st)" by (rule parse_string_left)
  then show ?thesis using assms(2) by (cases "px_rest st") auto
next
  case False
  with assms(1) have st': "st' = px_skip atom_char st" and "takeWhile atom_char (px_rest st) \<noteq> []"
    by (auto simp: parse_flat_def Let_def split: if_splits)
  then have "0 < length (takeWhile atom_char (px_rest st))" by blast
  then show ?thesis using length_append [of "takeWhile atom_char (px_rest st)" "dropWhile atom_char (px_rest st)"] st' by simp
qed

definition consuming :: "(sx_parser \<Rightarrow> parser_error + sx \<times> sx_parser) \<Rightarrow> bool" where
  "consuming child \<longleftrightarrow> (\<forall>st e st'. child st = Inr (e, st') \<longrightarrow> left st' < left st)"

lemma parse_items_left:
  assumes "consuming child" "parse_items child fuel st items = Inr (es, st')"
  shows "left st' \<le> left st"
  using assms(2)
proof (induction fuel arbitrary: st items)
  case (Suc fuel)
  show ?case
  proof (cases "\<exists>c r. dropWhile is_whitespace (px_rest st) = c # r \<and> c \<noteq> 41")
    case True
    with Suc.prems obtain e st1 where step: "child (skip_whitespace st) = Inr (e, st1)" "parse_items child fuel st1 (items @ [e]) = Inr (es, st')"
      by (auto simp: Let_def and_then_Inr_iff)
    have "left st1 < left (skip_whitespace st)" using assms(1) step(1) unfolding consuming_def by blast
    with Suc.IH [OF step(2)] left_skip [of st] show ?thesis by linarith
  next
    case False
    then have "left st' \<le> left (skip_whitespace st)" using Suc.prems by (auto simp: Let_def split: list.splits)
    with left_skip [of st] show ?thesis by linarith
  qed
qed simp

lemma parse_value_consumes: "consuming (parse_value n)"
proof (induction n)
  case 0
  show ?case unfolding consuming_def
  proof (intro allI impI)
    fix st e st'
    assume "parse_value 0 st = Inr (e, st')"
    then obtain st1 where "at_value st = Inr st1" "parse_flat st1 = Inr (e, st')" by (auto simp: and_then_Inr_iff split: if_splits)
    then show "left st' < left st" using at_value_left parse_flat_left by fastforce
  qed
next
  case (Suc n)
  show ?case unfolding consuming_def
  proof (intro allI impI)
    fix st e st'
    assume "parse_value (Suc n) st = Inr (e, st')"
    then obtain st1 where st1: "at_value st = Inr st1" and got: "(if hd (px_rest st1) = 40
        then map_ok (\<lambda>(items, st'). (SxList items, st')) (parse_items (parse_value n) (Suc (length (px_rest st1))) (px_advance st1) [])
        else parse_flat st1) = Inr (e, st')"
      by (auto simp: and_then_Inr_iff)
    have "left st' < left st1"
    proof (cases "hd (px_rest st1) = 40")
      case True
      with got obtain items where "parse_items (parse_value n) (Suc (length (px_rest st1))) (px_advance st1) [] = Inr (items, st')"
        by (auto simp: map_ok_Inr_iff)
      then have "left st' \<le> left (px_advance st1)" using parse_items_left [OF Suc.IH] by blast
      then show ?thesis using at_value_left [OF st1] by (cases "px_rest st1") auto
    qed (use got parse_flat_left at_value_left [OF st1] in auto)
    then show "left st' < left st" using at_value_left [OF st1] by linarith
  qed
qed

text \<open>More fuel changes nothing: with one unit per remaining character the loop runs to its end.\<close>

lemma parse_items_fuel:
  assumes "consuming child" "left st < fuel" "left st < fuel'"
  shows "parse_items child fuel st items = parse_items child fuel' st items"
  using assms(2,3)
proof (induction fuel arbitrary: fuel' st items)
  case (Suc fuel)
  then obtain k where k: "fuel' = Suc k" by (cases fuel') auto
  have "parse_items child fuel st1 (items @ [e]) = parse_items child k st1 (items @ [e])"
    if "child (skip_whitespace st) = Inr (e, st1)" for e st1
  proof -
    have "left st1 < left (skip_whitespace st)" using assms(1) that unfolding consuming_def by blast
    then have "left st1 < left st" using left_skip [of st] by linarith
    then have "left st1 < fuel" "left st1 < k" using Suc.prems k by linarith+
    then show ?thesis by (rule Suc.IH)
  qed
  then show ?case
    by (cases "dropWhile is_whitespace (px_rest st)"; cases "child (skip_whitespace st)") (auto simp: k Let_def simp del: dropWhile_eq_Nil_conv)
qed simp

section \<open>Paths\<close>

lemma find_sub_Some:
  assumes "find_sub_idx_in_list items key = Some i"
  shows "1 \<le> i" "i < length items" "keyed_by key (items ! i)" "\<And>j. 1 \<le> j \<Longrightarrow> j < i \<Longrightarrow> \<not> keyed_by key (items ! j)"
proof -
  obtain k where k: "k < length [1..<length items]" "keyed_by key (items ! ([1..<length items] ! k))" "i = [1..<length items] ! k"
      "\<forall>j < k. \<not> keyed_by key (items ! ([1..<length items] ! j))"
    using assms by (auto simp: find_sub_idx_in_list_def find_Some_iff)
  then have i: "i = Suc k" by simp
  show "1 \<le> i" "i < length items" "keyed_by key (items ! i)" using k by auto
  show "\<not> keyed_by key (items ! j)" if j: "1 \<le> j" "j < i" for j
  proof -
    obtain m where m: "j = Suc m" using j(1) by (cases j) auto
    then have "m < k" using i j(2) by simp
    then show ?thesis using k(1,4) m by auto
  qed
qed

lemma find_sub_exact:
  assumes "1 \<le> i" "i < length items" "keyed_by key (items ! i)" "\<And>j. 1 \<le> j \<Longrightarrow> j < i \<Longrightarrow> \<not> keyed_by key (items ! j)"
  shows "find_sub_idx_in_list items key = Some i"
  unfolding find_sub_idx_in_list_def find_Some_iff
  using assms by (intro exI [of _ "i - 1"]) auto

lemma find_sub_None: "find_sub_idx_in_list items key = None \<longleftrightarrow> (\<forall>j. 1 \<le> j \<and> j < length items \<longrightarrow> \<not> keyed_by key (items ! j))"
  by (auto simp: find_sub_idx_in_list_def find_None_iff)

lemma keyed_pair [simp]: "keyed_by k (SxList (SxAtom key # es)) \<longleftrightarrow> k = key"
  by (auto simp: keyed_by_def)

lemma keyed_update: "1 \<le> i \<Longrightarrow> keyed_by k (SxList (items[i := x])) = keyed_by k (SxList items)"
  by (cases items; cases i) (simp_all add: keyed_by_def split: sx.splits)

lemma keyed_append: "items \<noteq> [] \<Longrightarrow> keyed_by k (SxList (items @ [x])) = keyed_by k (SxList items)"
  by (cases items) (simp_all add: keyed_by_def split: sx.splits)

lemma set_path_keyed:
  assumes "set_path e path v = Inr e'"
  shows "keyed_by k e' \<longleftrightarrow> keyed_by k e"
proof (cases "(e, path, v)" rule: set_path.cases)
  case (2 items key rest w)
  show ?thesis
  proof (cases "find_sub_idx_in_list items key")
    case None
    with assms 2 obtain x where "items \<noteq> []" "e' = SxList (items @ [x])" by (auto simp: map_ok_Inr_iff split: if_splits)
    then show ?thesis using 2 by (simp add: keyed_append)
  next
    case (Some i)
    with assms 2 obtain x where "e' = SxList (items[i := x])" by (auto simp: map_ok_Inr_iff split: if_splits)
    then show ?thesis using 2 find_sub_Some(1) [OF Some] by (simp add: keyed_update)
  qed
qed (use assms in auto)

lemma find_sub_updated:
  assumes "find_sub_idx_in_list items key = Some i" "keyed_by key x"
  shows "find_sub_idx_in_list (items[i := x]) key = Some i"
  using find_sub_Some [OF assms(1)] assms(2) by (intro find_sub_exact) auto

lemma find_sub_appended:
  assumes "find_sub_idx_in_list items key = None" "items \<noteq> []" "keyed_by key x"
  shows "find_sub_idx_in_list (items @ [x]) key = Some (length items)"
  using assms by (intro find_sub_exact) (auto simp: find_sub_None nth_append Suc_leI)

text \<open>A value that was set is found, and values under other keys stay.\<close>

lemma get_set_path:
  assumes "set_path e path v = Inr e'"
  shows "get_path e' path = Some v"
  using assms
proof (induction e path v arbitrary: e' rule: set_path.induct)
  case (2 items key path v)
  show ?case
  proof (cases "find_sub_idx_in_list items key")
    case None
    then have items: "items \<noteq> []" using "2.prems" by auto
    show ?thesis
    proof (cases "path = []")
      case True
      with "2.prems" None items show ?thesis by (auto simp: find_sub_appended nth_append)
    next
      case False
      with "2.prems" None items obtain sub where sub: "set_path (SxList [SxAtom key]) path v = Inr sub" "e' = SxList (items @ [sub])"
        by (auto simp: map_ok_Inr_iff)
      then have "keyed_by key sub" using set_path_keyed [OF sub(1), of key] by simp
      then show ?thesis using False None items sub "2.IH"(1) [OF items None False sub(1)] by (simp add: find_sub_appended nth_append)
    qed
  next
    case (Some i)
    then have items: "items \<noteq> []" "i < length items" using find_sub_Some(2) [OF Some] by auto
    show ?thesis
    proof (cases "path = []")
      case True
      with "2.prems" Some items show ?thesis by (auto simp: find_sub_updated)
    next
      case False
      with "2.prems" Some items obtain sub where sub: "set_path (items ! i) path v = Inr sub" "e' = SxList (items[i := sub])"
        by (auto simp: map_ok_Inr_iff)
      then have "keyed_by key sub" using set_path_keyed [OF sub(1), of key] find_sub_Some(3) [OF Some] by simp
      then show ?thesis using False Some items sub "2.IH"(2) [OF items(1) Some False sub(1)] by (simp add: find_sub_updated)
    qed
  qed
qed simp_all

lemma find_sub_other:
  assumes "\<And>j. 1 \<le> j \<Longrightarrow> j < length items \<Longrightarrow> keyed_by k (items' ! j) = keyed_by k (items ! j)" "length items \<le> length items'"
    "\<And>j. length items \<le> j \<Longrightarrow> j < length items' \<Longrightarrow> \<not> keyed_by k (items' ! j)" "items \<noteq> []"
  shows "find_sub_idx_in_list items' k = find_sub_idx_in_list items k"
proof (cases "find_sub_idx_in_list items k")
  case None
  then have "\<not> keyed_by k (items' ! j)" if "1 \<le> j" "j < length items'" for j
    using that assms(1,3) by (cases "j < length items") (auto simp: find_sub_None)
  then have "find_sub_idx_in_list items' k = None" unfolding find_sub_None by blast
  then show ?thesis using None by simp
next
  case (Some i)
  note i = find_sub_Some [OF Some]
  have "find_sub_idx_in_list items' k = Some i"
    using i assms(1,2) by (intro find_sub_exact) auto
  then show ?thesis using Some by simp
qed

lemma get_set_other:
  assumes "set_path e (key # path) v = Inr e'" "k \<noteq> key"
  shows "get_path e' (k # rest) = get_path e (k # rest)"
proof (cases e)
  case (SxList items)
  have nonempty: "items \<noteq> []" using assms(1) SxList by auto
  show ?thesis
  proof (cases "find_sub_idx_in_list items key")
    case None
    then obtain x where x: "e' = SxList (items @ [x])" "keyed_by key x"
      using assms(1) SxList nonempty set_path_keyed [of "SxList [SxAtom key]" path v _ key] by (auto simp: map_ok_Inr_iff split: if_splits)
    have "\<not> keyed_by k x" using x(2) assms(2) by (auto simp: keyed_by_def split: sx.splits list.splits)
    then have "find_sub_idx_in_list (items @ [x]) k = find_sub_idx_in_list items k"
      using nonempty by (intro find_sub_other) (auto simp: nth_append)
    then show ?thesis using SxList x(1) by (auto simp: nth_append split: option.splits dest: find_sub_Some(2))
  next
    case (Some i)
    note i = find_sub_Some [OF Some]
    obtain x where x: "e' = SxList (items[i := x])" "keyed_by key x"
      using assms(1) SxList nonempty Some i(3) set_path_keyed [of "items ! i" path v _ key] by (auto simp: map_ok_Inr_iff split: if_splits)
    have other: "\<not> keyed_by k x" "\<not> keyed_by k (items ! i)"
      using x(2) i(3) assms(2) by (auto simp: keyed_by_def split: sx.splits list.splits)
    have "find_sub_idx_in_list (items[i := x]) k = find_sub_idx_in_list items k"
      using nonempty other by (intro find_sub_other) (metis nth_list_update_eq nth_list_update_neq, auto)
    moreover have "j \<noteq> i" if "find_sub_idx_in_list items k = Some j" for j using find_sub_Some(3) [OF that] other by auto
    ultimately show ?thesis using SxList x(1) by (auto split: option.splits)
  qed
qed (use assms in simp)

end
