(* ===== verification/Context_State.thy ===== *)
theory Context_State
  imports Context_Syntax Capability_Lease
begin

text \<open>
  The persistent state of a context (\<open>morphz/src/context_state.rs\<close>) and the protocol in which it
  changes (\<open>morphz/src/context_store.rs\<close>): frames, relations, retirements, checkpoints and clocks,
  the nodes of the state with their identities, the mutations of a plan and the check of its shape.
  Ordered sets and maps are sorted lists; a \<open>u64\<close> is a number at most \<open>u64_limit\<close>.
\<close>

section \<open>The state\<close>

datatype frame_provenance_state = ProvenanceUnknown | Unattributed | Attributed

record frame_identity_provenance =
  fp_formed_principal_id :: "ustring option"
  fp_formed_session_id :: "ustring option"
  fp_source_principal_ids :: "ustring list"
  fp_source_session_ids :: "ustring list"
  fp_state :: frame_provenance_state

record context_frame =
  cf_id :: ustring
  cf_body :: ustring
  cf_sources :: "ustring list"
  cf_provenance :: frame_identity_provenance
  cf_revision :: nat
  cf_created_version :: nat
  cf_updated_version :: nat

record context_relation =
  cr_subject :: ustring
  cr_relation :: ustring
  cr_object :: ustring
  cr_created_version :: nat

record frame_retirement =
  rt_frame_id :: ustring
  rt_requested_frame_revision :: nat
  rt_requested_mind_version :: nat
  rt_requested_at_tick :: nat
  rt_eligible_at_tick :: nat
  rt_generation :: nat
  rt_reason :: ustring

record mind_checkpoint =
  ck_id :: ustring
  ck_frames :: "context_frame list"
  ck_relations :: "context_relation list"
  ck_retired :: "ustring list"
  ck_retiring :: "(ustring \<times> frame_retirement) list"
  ck_protected :: "ustring list"
  ck_created_version :: nat

record mutation_clocks =
  mc_tracking_started_version :: "nat option"
  mc_lifecycle_versions :: "(ustring \<times> nat) list"
  mc_relation_versions :: "(ustring \<times> nat) list"
  mc_frame_order_version :: nat
  mc_checkpoint_versions :: "(ustring \<times> nat) list"
  mc_global_barrier_version :: nat

record mind_state =
  ms_version :: nat
  ms_frames :: "context_frame list"
  ms_relations :: "context_relation list"
  ms_retired :: "ustring list"
  ms_retiring :: "(ustring \<times> frame_retirement) list"
  ms_protected :: "ustring list"
  ms_checkpoints :: "mind_checkpoint list"
  ms_clocks :: mutation_clocks

section \<open>Nodes\<close>

datatype context_collection =
  FrameNodes | RelationNodes | RetiredNodes | RetiringNodes | ProtectedNodes | CheckpointNodes | ClockNodes

datatype context_node_value =
  FrameNode context_frame
| RelationNode context_relation
| RetiredNode ustring
| RetiringNode frame_retirement
| ProtectedNode ustring
| CheckpointNode mind_checkpoint
| ClocksNode mutation_clocks

fun node_collection :: "context_node_value \<Rightarrow> context_collection" where
  "node_collection (FrameNode _) = FrameNodes"
| "node_collection (RelationNode _) = RelationNodes"
| "node_collection (RetiredNode _) = RetiredNodes"
| "node_collection (RetiringNode _) = RetiringNodes"
| "node_collection (ProtectedNode _) = ProtectedNodes"
| "node_collection (CheckpointNode _) = CheckpointNodes"
| "node_collection (ClocksNode _) = ClockNodes"

definition unit_separator :: uchar where
  "unit_separator = 31"

definition relation_logical_id :: "ustring \<Rightarrow> ustring \<Rightarrow> ustring \<Rightarrow> ustring" where
  "relation_logical_id subject relation target = subject @ unit_separator # relation @ unit_separator # target"

fun logical_id :: "context_node_value \<Rightarrow> ustring" where
  "logical_id (FrameNode frame) = cf_id frame"
| "logical_id (RelationNode r) = relation_logical_id (cr_subject r) (cr_relation r) (cr_object r)"
| "logical_id (RetiredNode i) = i"
| "logical_id (RetiringNode retirement) = rt_frame_id retirement"
| "logical_id (ProtectedNode i) = i"
| "logical_id (CheckpointNode checkpoint) = ck_id checkpoint"
| "logical_id (ClocksNode _) = lit ''mutation-clocks''"

fun collection_str :: "context_collection \<Rightarrow> ustring" where
  "collection_str FrameNodes = lit ''frame''"
| "collection_str RelationNodes = lit ''relation''"
| "collection_str RetiredNodes = lit ''retired''"
| "collection_str RetiringNodes = lit ''retiring''"
| "collection_str ProtectedNodes = lit ''protected''"
| "collection_str CheckpointNodes = lit ''checkpoint''"
| "collection_str ClockNodes = lit ''mutation_clocks''"

section \<open>Mutation plans\<close>

datatype state_mutation =
  Upsert context_node_value "nat option"
| Remove context_collection ustring
| SetOrder context_collection "ustring list"
| ReplaceMind mind_state

fun mutation_collection :: "state_mutation \<Rightarrow> context_collection option" where
  "mutation_collection (Upsert v _) = Some (node_collection v)"
| "mutation_collection (Remove c _) = Some c"
| "mutation_collection (SetOrder c _) = Some c"
| "mutation_collection (ReplaceMind _) = None"

record mutation_plan =
  mp_context_id :: ustring
  mp_expected_revision :: nat
  mp_next_revision :: nat
  mp_expected_state_hash :: ustring
  mp_next_state_hash :: ustring
  mp_mutations :: "state_mutation list"

datatype plan_error =
  EmptyContextId
| RevisionOverflow
| RevisionJump nat nat
| MissingFence
| MixedBarrier
| EmptyIdentity
| WrittenTwice context_collection ustring
| OrderShape context_collection ustring
| ClocksIdentity
| ClocksRemoved
| NoVectorOrder context_collection
| DuplicateOrder context_collection
| OrderedTwice context_collection

definition vector_like :: "context_collection \<Rightarrow> bool" where
  "vector_like c \<longleftrightarrow> c \<in> {FrameNodes, RelationNodes, CheckpointNodes}"

definition is_broad :: "state_mutation \<Rightarrow> bool" where
  "is_broad m \<longleftrightarrow> (case m of ReplaceMind _ \<Rightarrow> True | _ \<Rightarrow> False)"

text \<open>The body of the loop, with the pairs written and the collections ordered so far.\<close>

type_synonym shape_state = "(context_collection \<times> ustring) list \<times> context_collection list"

fun shape_step :: "shape_state \<Rightarrow> state_mutation \<Rightarrow> plan_error + shape_state" where
  "shape_step (written, ordered) (Upsert v order) =
     (let c = node_collection v; i = logical_id v in
      if trim i = [] then Inl EmptyIdentity
      else if (c, i) \<in> set written then Inl (WrittenTwice c i)
      else if vector_like c \<noteq> (order \<noteq> None) then Inl (OrderShape c i)
      else if c = ClockNodes \<and> i \<noteq> lit ''mutation-clocks'' then Inl ClocksIdentity
      else Inr ((c, i) # written, ordered))"
| "shape_step (written, ordered) (Remove c i) =
     (if trim i = [] then Inl EmptyIdentity
      else if c = ClockNodes then Inl ClocksRemoved
      else if (c, i) \<in> set written then Inl (WrittenTwice c i)
      else Inr ((c, i) # written, ordered))"
| "shape_step (written, ordered) (SetOrder c is) =
     (if \<not> vector_like c then Inl (NoVectorOrder c)
      else if length (remdups is) \<noteq> length is then Inl (DuplicateOrder c)
      else if c \<in> set ordered then Inl (OrderedTwice c)
      else Inr (written, c # ordered))"
| "shape_step (written, ordered) (ReplaceMind _) = Inr (written, ordered)"

definition validate_shape :: "mutation_plan \<Rightarrow> plan_error + unit" where
  "validate_shape p =
     (if trim (mp_context_id p) = [] then Inl EmptyContextId
      else if u64_limit \<le> mp_expected_revision p then Inl RevisionOverflow
      else if mp_next_revision p \<noteq> mp_expected_revision p + 1 then Inl (RevisionJump (mp_expected_revision p) (mp_next_revision p))
      else if mp_expected_state_hash p = [] \<or> mp_next_state_hash p = [] then Inl MissingFence
      else
        let broad = length (filter is_broad (mp_mutations p)) in
        if 1 < broad \<or> (broad = 1 \<and> length (mp_mutations p) \<noteq> 1) then Inl MixedBarrier
        else map_ok (\<lambda>_. ()) (try_fold shape_step ([], []) (mp_mutations p)))"

text \<open>What a plan of valid shape is.\<close>

fun written_by :: "state_mutation \<Rightarrow> (context_collection \<times> ustring) option" where
  "written_by (Upsert v _) = Some (node_collection v, logical_id v)"
| "written_by (Remove c i) = Some (c, i)"
| "written_by _ = None"

fun ordered_by :: "state_mutation \<Rightarrow> context_collection option" where
  "ordered_by (SetOrder c _) = Some c"
| "ordered_by _ = None"

fun mutation_ok :: "state_mutation \<Rightarrow> bool" where
  "mutation_ok (Upsert v order) \<longleftrightarrow> trim (logical_id v) \<noteq> [] \<and> (vector_like (node_collection v) \<longleftrightarrow> order \<noteq> None)"
| "mutation_ok (Remove c i) \<longleftrightarrow> trim i \<noteq> [] \<and> c \<noteq> ClockNodes"
| "mutation_ok (SetOrder c is) \<longleftrightarrow> vector_like c \<and> distinct is"
| "mutation_ok (ReplaceMind _) \<longleftrightarrow> True"

lemma clocks_identity: "node_collection v = ClockNodes \<Longrightarrow> logical_id v = lit ''mutation-clocks''"
  by (cases v) simp_all

lemma length_remdups_distinct: "length (remdups xs) = length xs \<longleftrightarrow> distinct xs"
  by (metis card_distinct distinct_card distinct_remdups set_remdups)

lemma shape_step_ok:
  "shape_step (written, ordered) m = Inr (written', ordered') \<longleftrightarrow>
     mutation_ok m \<and>
     (case written_by m of None \<Rightarrow> written' = written | Some w \<Rightarrow> w \<notin> set written \<and> written' = w # written) \<and>
     (case ordered_by m of None \<Rightarrow> ordered' = ordered | Some c \<Rightarrow> c \<notin> set ordered \<and> ordered' = c # ordered)"
  by (cases m) (auto simp: Let_def length_remdups_distinct clocks_identity)

lemma shape_loop:
  "is_ok (try_fold shape_step (written, ordered) ms) \<longleftrightarrow>
     list_all mutation_ok ms \<and>
     distinct (List.map_filter written_by ms) \<and> set (List.map_filter written_by ms) \<inter> set written = {} \<and>
     distinct (List.map_filter ordered_by ms) \<and> set (List.map_filter ordered_by ms) \<inter> set ordered = {}"
proof (induction ms arbitrary: written ordered)
  case (Cons m ms)
  show ?case
  proof (cases "shape_step (written, ordered) m")
    case (Inl e)
    then have "\<nexists>w' o'. shape_step (written, ordered) m = Inr (w', o')" by simp
    then show ?thesis
      using Inl unfolding shape_step_ok by (auto simp: List.map_filter_simps split: option.splits)
  next
    case (Inr s)
    obtain w' o' where s: "s = (w', o')" by fastforce
    show ?thesis
      using Inr [unfolded s shape_step_ok] Inr s Cons.IH [of w' o']
      by (auto simp: List.map_filter_simps split: option.splits)
  qed
qed (simp add: List.map_filter_simps)

lemma validate_shape_ok:
  "validate_shape p = Inr () \<longleftrightarrow>
     trim (mp_context_id p) \<noteq> [] \<and> mp_expected_revision p < u64_limit \<and> mp_next_revision p = mp_expected_revision p + 1 \<and>
     mp_expected_state_hash p \<noteq> [] \<and> mp_next_state_hash p \<noteq> [] \<and>
     (list_ex is_broad (mp_mutations p) \<longrightarrow> length (mp_mutations p) = 1) \<and>
     list_all mutation_ok (mp_mutations p) \<and>
     distinct (List.map_filter written_by (mp_mutations p)) \<and> distinct (List.map_filter ordered_by (mp_mutations p))"
proof -
  let ?ms = "mp_mutations p"
  have broad: "\<not> (1 < length (filter is_broad ?ms) \<or> length (filter is_broad ?ms) = 1 \<and> length ?ms \<noteq> 1) \<longleftrightarrow>
      (list_ex is_broad ?ms \<longrightarrow> length ?ms = 1)"
  proof (cases "list_ex is_broad ?ms")
    case True
    then have "filter is_broad ?ms \<noteq> []" by (auto simp: filter_empty_conv list_ex_iff)
    then have "0 < length (filter is_broad ?ms)" by blast
    moreover have "length (filter is_broad ?ms) \<le> length ?ms" by simp
    ultimately show ?thesis using True by linarith
  next
    case False
    then have "filter is_broad ?ms = []" by (auto simp: filter_empty_conv list_ex_iff)
    with False show ?thesis by simp
  qed
  show ?thesis
    unfolding validate_shape_def Let_def using broad shape_loop [of "[]" "[]" ?ms]
    by (auto simp: unit_is_ok is_ok_map_ok split: if_splits)
qed

text \<open>
  The identity of a relation joins its parts with a separator the parts may contain. Where they do
  not, it identifies the relation.
\<close>

lemma relation_identity_exact:
  assumes "unit_separator \<notin> set s \<union> set r \<union> set s' \<union> set r'" "relation_logical_id s r t = relation_logical_id s' r' t'"
  shows "s = s' \<and> r = r' \<and> t = t'"
  using assms by (simp add: relation_logical_id_def delimited)

end
