(* ===== verification/Context_Codec.thy ===== *)
theory Context_Codec
  imports Context_State
begin

text \<open>
  The codec of the persistent context (\<open>morphz/src/context_ast.rs\<close>): every node value and the head
  as canonical S-expression text, and the decoder that accepts nothing else. Field names and heads
  are literals, errors carry what the messages name. The text of a time stamp and its parser are
  parameters.
\<close>

datatype codec_error =
  ParserRejected parser_error
| FormCount nat
| NotCanonicalText
| InMemoryRoundTrip
| SchemaMismatch
| InvalidFrameBody ustring codec_error
| MustBeList string
| WrongRecord string nat
| MissingField string
| WrongField string nat
| MissingList string
| WrongList string nat
| MustBeAtom string
| NotU64 string
| NotCanonicalU64 string
| BadOption string
| DuplicateValue string
| UnsortedValues string
| BadEntry string
| UnsortedKeys string
| DuplicateKey ustring
| BadProvenanceState ustring
| BadTime ustring

section \<open>Building\<close>

definition sx_atom :: "string \<Rightarrow> sx" where
  "sx_atom s = SxAtom (lit s)"

definition sx_record :: "string \<Rightarrow> sx list \<Rightarrow> sx" where
  "sx_record head fs = SxList (sx_atom head # fs)"

definition sx_field :: "string \<Rightarrow> sx \<Rightarrow> sx" where
  "sx_field name v = SxList [sx_atom name, v]"

definition sx_sequence :: "string \<Rightarrow> sx list \<Rightarrow> sx" where
  "sx_sequence name vs = SxList (sx_atom name # vs)"

definition atom_sequence :: "string \<Rightarrow> ustring list \<Rightarrow> sx" where
  "atom_sequence name vs = sx_sequence name (map SxAtom vs)"

definition atom_set :: "string \<Rightarrow> ustring list \<Rightarrow> sx" where
  "atom_set name vs = sx_sequence name (map SxAtom vs)"

definition sx_number :: "nat \<Rightarrow> sx" where
  "sx_number n = SxAtom (decimal n)"

definition u64_map :: "string \<Rightarrow> (ustring \<times> nat) list \<Rightarrow> sx" where
  "u64_map name m = sx_sequence name (map (\<lambda>(k, n). SxList [sx_atom ''entry'', SxAtom k, sx_number n]) m)"

definition optional_atom :: "ustring option \<Rightarrow> sx" where
  "optional_atom v = (case v of Some s \<Rightarrow> SxList [sx_atom ''some'', SxAtom s] | None \<Rightarrow> SxList [sx_atom ''none''])"

definition optional_number :: "nat option \<Rightarrow> sx" where
  "optional_number v = (case v of Some n \<Rightarrow> SxList [sx_atom ''some'', sx_number n] | None \<Rightarrow> SxList [sx_atom ''none''])"

definition parse_canonical :: "ustring \<Rightarrow> codec_error + sx" where
  "parse_canonical body =
     and_then (map_err ParserRejected (sx_parse_all body)) (\<lambda>forms.
       if length forms \<noteq> 1 then Inl (FormCount (length forms))
       else if sexpr_to_string (hd forms) \<noteq> body then Inl NotCanonicalText
       else Inr (hd forms))"

definition canonical_string :: "sx \<Rightarrow> codec_error + ustring" where
  "canonical_string e =
     (let encoded = sexpr_to_string e in
      and_then (parse_canonical encoded) (\<lambda>parsed. if parsed \<noteq> e then Inl InMemoryRoundTrip else Inr encoded))"

definition ensure_round_trip :: "ustring \<Rightarrow> ustring \<Rightarrow> codec_error + unit" where
  "ensure_round_trip input encoded = (if input = encoded then Inr () else Inl SchemaMismatch)"

section \<open>Taking apart\<close>

definition list_items :: "sx \<Rightarrow> string \<Rightarrow> codec_error + sx list" where
  "list_items e label = (case e of SxList items \<Rightarrow> Inr items | SxAtom _ \<Rightarrow> Inl (MustBeList label))"

definition atom_ref :: "sx \<Rightarrow> ustring option" where
  "atom_ref e = (case e of SxAtom s \<Rightarrow> Some s | SxList _ \<Rightarrow> None)"

definition exact_record :: "sx \<Rightarrow> string \<Rightarrow> nat \<Rightarrow> codec_error + sx list" where
  "exact_record e head n =
     and_then (list_items e head) (\<lambda>items.
       if length items \<noteq> n + 1 \<or> atom_ref (hd items) \<noteq> Some (lit head) then Inl (WrongRecord head n)
       else Inr (tl items))"

definition nth_opt :: "'a list \<Rightarrow> nat \<Rightarrow> 'a option" where
  "nth_opt xs i = (if i < length xs then Some (xs ! i) else None)"

definition exact_field :: "sx list \<Rightarrow> nat \<Rightarrow> string \<Rightarrow> codec_error + sx" where
  "exact_field fs i name =
     and_then (ok_or (nth_opt fs i) (MissingField name)) (\<lambda>pair.
       and_then (list_items pair name) (\<lambda>items.
         if length items \<noteq> 2 \<or> atom_ref (hd items) \<noteq> Some (lit name) then Inl (WrongField name i)
         else Inr (items ! 1)))"

definition exact_named_list :: "sx list \<Rightarrow> nat \<Rightarrow> string \<Rightarrow> codec_error + sx list" where
  "exact_named_list fs i name =
     and_then (ok_or (nth_opt fs i) (MissingList name)) (\<lambda>e.
       and_then (list_items e name) (\<lambda>items.
         if Option.bind (nth_opt items 0) atom_ref \<noteq> Some (lit name) then Inl (WrongList name i)
         else Inr (tl items)))"

definition decode_atom :: "sx \<Rightarrow> string \<Rightarrow> codec_error + ustring" where
  "decode_atom e label = ok_or (atom_ref e) (MustBeAtom label)"

definition decode_number :: "sx \<Rightarrow> string \<Rightarrow> codec_error + nat" where
  "decode_number e label =
     and_then (decode_atom e label) (\<lambda>encoded.
       and_then (ok_or (parse_u64 encoded) (NotU64 label)) (\<lambda>n.
         if encoded \<noteq> decimal n then Inl (NotCanonicalU64 label) else Inr n))"

definition decode_optional_atom :: "sx \<Rightarrow> string \<Rightarrow> codec_error + ustring option" where
  "decode_optional_atom e label =
     and_then (list_items e label) (\<lambda>items.
       case items of
         [SxAtom h] \<Rightarrow> if h = lit ''none'' then Inr None else Inl (BadOption label)
       | [SxAtom h, SxAtom v] \<Rightarrow> if h = lit ''some'' then Inr (Some v) else Inl (BadOption label)
       | _ \<Rightarrow> Inl (BadOption label))"

definition decode_optional_number :: "sx \<Rightarrow> string \<Rightarrow> codec_error + nat option" where
  "decode_optional_number e label =
     and_then (list_items e label) (\<lambda>items.
       case items of
         [SxAtom h] \<Rightarrow> if h = lit ''none'' then Inr None else Inl (BadOption label)
       | [SxAtom h, v] \<Rightarrow> if h = lit ''some'' then map_ok Some (decode_number v label) else Inl (BadOption label)
       | _ \<Rightarrow> Inl (BadOption label))"

definition decode_atom_sequence :: "sx list \<Rightarrow> string \<Rightarrow> codec_error + ustring list" where
  "decode_atom_sequence items label = try_map (\<lambda>item. decode_atom item label) items"

definition decode_atom_set :: "sx list \<Rightarrow> string \<Rightarrow> codec_error + ustring list" where
  "decode_atom_set items label =
     and_then (decode_atom_sequence items label) (\<lambda>vs.
       let s = bs_union [] vs in
       if length s \<noteq> length vs then Inl (DuplicateValue label)
       else if s \<noteq> vs then Inl (UnsortedValues label)
       else Inr s)"

definition u64_entry :: "string \<Rightarrow> (ustring \<times> nat) list \<times> ustring option \<Rightarrow> sx \<Rightarrow> codec_error + (ustring \<times> nat) list \<times> ustring option" where
  "u64_entry label st e =
     (case st of (m, previous) \<Rightarrow>
        and_then (list_items e label) (\<lambda>entry.
          if length entry \<noteq> 3 \<or> atom_ref (hd entry) \<noteq> Some (lit ''entry'') then Inl (BadEntry label)
          else
            and_then (decode_atom (entry ! 1) label) (\<lambda>key.
              if (case previous of Some prior \<Rightarrow> key \<le> prior | None \<Rightarrow> False) then Inl (UnsortedKeys label)
              else and_then (decode_number (entry ! 2) label) (\<lambda>n. Inr (bt_insert key n m, Some key)))))"

definition decode_u64_map :: "sx list \<Rightarrow> string \<Rightarrow> codec_error + (ustring \<times> nat) list" where
  "decode_u64_map items label = map_ok fst (try_fold (u64_entry label) ([], None) items)"

section \<open>Values\<close>

fun provenance_state_str :: "frame_provenance_state \<Rightarrow> string" where
  "provenance_state_str ProvenanceUnknown = ''unknown''"
| "provenance_state_str Unattributed = ''unattributed''"
| "provenance_state_str Attributed = ''attributed''"

definition decode_provenance_state :: "ustring \<Rightarrow> codec_error + frame_provenance_state" where
  "decode_provenance_state s =
     (if s = lit ''unknown'' then Inr ProvenanceUnknown
      else if s = lit ''unattributed'' then Inr Unattributed
      else if s = lit ''attributed'' then Inr Attributed
      else Inl (BadProvenanceState s))"

definition encode_provenance :: "frame_identity_provenance \<Rightarrow> sx" where
  "encode_provenance p =
     sx_record ''frame-provenance''
       [sx_field ''formed-principal-id'' (optional_atom (fp_formed_principal_id p)),
        sx_field ''formed-session-id'' (optional_atom (fp_formed_session_id p)),
        atom_sequence ''source-principal-ids'' (fp_source_principal_ids p),
        atom_sequence ''source-session-ids'' (fp_source_session_ids p),
        sx_field ''state'' (sx_atom (provenance_state_str (fp_state p)))]"

definition decode_provenance :: "sx \<Rightarrow> codec_error + frame_identity_provenance" where
  "decode_provenance e =
     and_then (exact_record e ''frame-provenance'' 5) (\<lambda>fs.
     and_then (exact_field fs 4 ''state'') (\<lambda>st.
     and_then (decode_atom st ''provenance.state'') (\<lambda>text.
     and_then (decode_provenance_state text) (\<lambda>state.
     and_then (exact_field fs 0 ''formed-principal-id'') (\<lambda>e0.
     and_then (decode_optional_atom e0 ''formed-principal-id'') (\<lambda>principal.
     and_then (exact_field fs 1 ''formed-session-id'') (\<lambda>e1.
     and_then (decode_optional_atom e1 ''formed-session-id'') (\<lambda>session.
     and_then (exact_named_list fs 2 ''source-principal-ids'') (\<lambda>l2.
     and_then (decode_atom_sequence l2 ''source-principal-ids'') (\<lambda>principals.
     and_then (exact_named_list fs 3 ''source-session-ids'') (\<lambda>l3.
     and_then (decode_atom_sequence l3 ''source-session-ids'') (\<lambda>sessions.
       Inr \<lparr>fp_formed_principal_id = principal, fp_formed_session_id = session, fp_source_principal_ids = principals,
            fp_source_session_ids = sessions, fp_state = state\<rparr>))))))))))))"

definition encode_frame :: "context_frame \<Rightarrow> codec_error + sx" where
  "encode_frame f =
     and_then (map_err (InvalidFrameBody (cf_id f)) (parse_canonical (cf_body f))) (\<lambda>body.
       Inr (sx_record ''frame''
         [sx_field ''id'' (SxAtom (cf_id f)),
          sx_field ''body'' body,
          atom_sequence ''sources'' (cf_sources f),
          sx_field ''provenance'' (encode_provenance (cf_provenance f)),
          sx_field ''revision'' (sx_number (cf_revision f)),
          sx_field ''created-version'' (sx_number (cf_created_version f)),
          sx_field ''updated-version'' (sx_number (cf_updated_version f))]))"

definition decode_frame :: "sx \<Rightarrow> codec_error + context_frame" where
  "decode_frame e =
     and_then (exact_record e ''frame'' 7) (\<lambda>fs.
     and_then (exact_field fs 0 ''id'') (\<lambda>e0.
     and_then (decode_atom e0 ''frame.id'') (\<lambda>i.
     and_then (exact_field fs 1 ''body'') (\<lambda>body.
     and_then (exact_named_list fs 2 ''sources'') (\<lambda>l2.
     and_then (decode_atom_sequence l2 ''sources'') (\<lambda>sources.
     and_then (exact_field fs 3 ''provenance'') (\<lambda>e3.
     and_then (decode_provenance e3) (\<lambda>provenance.
     and_then (exact_field fs 4 ''revision'') (\<lambda>e4.
     and_then (decode_number e4 ''frame.revision'') (\<lambda>revision.
     and_then (exact_field fs 5 ''created-version'') (\<lambda>e5.
     and_then (decode_number e5 ''frame.created-version'') (\<lambda>created.
     and_then (exact_field fs 6 ''updated-version'') (\<lambda>e6.
     and_then (decode_number e6 ''frame.updated-version'') (\<lambda>updated.
       Inr \<lparr>cf_id = i, cf_body = sexpr_to_string body, cf_sources = sources, cf_provenance = provenance,
            cf_revision = revision, cf_created_version = created, cf_updated_version = updated\<rparr>))))))))))))))"

definition encode_relation :: "context_relation \<Rightarrow> sx" where
  "encode_relation r =
     sx_record ''relation''
       [sx_field ''subject'' (SxAtom (cr_subject r)),
        sx_field ''relation'' (SxAtom (cr_relation r)),
        sx_field ''object'' (SxAtom (cr_object r)),
        sx_field ''created-version'' (sx_number (cr_created_version r))]"

definition decode_relation :: "sx \<Rightarrow> codec_error + context_relation" where
  "decode_relation e =
     and_then (exact_record e ''relation'' 4) (\<lambda>fs.
     and_then (exact_field fs 0 ''subject'') (\<lambda>e0.
     and_then (decode_atom e0 ''relation.subject'') (\<lambda>subject.
     and_then (exact_field fs 1 ''relation'') (\<lambda>e1.
     and_then (decode_atom e1 ''relation.relation'') (\<lambda>relation.
     and_then (exact_field fs 2 ''object'') (\<lambda>e2.
     and_then (decode_atom e2 ''relation.object'') (\<lambda>target.
     and_then (exact_field fs 3 ''created-version'') (\<lambda>e3.
     and_then (decode_number e3 ''relation.created-version'') (\<lambda>created.
       Inr \<lparr>cr_subject = subject, cr_relation = relation, cr_object = target, cr_created_version = created\<rparr>)))))))))"

definition identity_entry :: "string \<Rightarrow> ustring \<Rightarrow> sx" where
  "identity_entry kind i = sx_record kind [sx_field ''id'' (SxAtom i)]"

definition decode_identity_entry :: "sx \<Rightarrow> string \<Rightarrow> codec_error + ustring" where
  "decode_identity_entry e kind =
     and_then (exact_record e kind 1) (\<lambda>fs.
     and_then (exact_field fs 0 ''id'') (\<lambda>e0. decode_atom e0 (kind @ ''.id'')))"

definition encode_retirement :: "frame_retirement \<Rightarrow> sx" where
  "encode_retirement r =
     sx_record ''retiring-entry''
       [sx_field ''frame-id'' (SxAtom (rt_frame_id r)),
        sx_field ''requested-frame-revision'' (sx_number (rt_requested_frame_revision r)),
        sx_field ''requested-mind-version'' (sx_number (rt_requested_mind_version r)),
        sx_field ''requested-at-tick'' (sx_number (rt_requested_at_tick r)),
        sx_field ''eligible-at-tick'' (sx_number (rt_eligible_at_tick r)),
        sx_field ''generation'' (sx_number (rt_generation r)),
        sx_field ''reason'' (SxAtom (rt_reason r))]"

definition decode_retirement :: "sx \<Rightarrow> codec_error + frame_retirement" where
  "decode_retirement e =
     and_then (exact_record e ''retiring-entry'' 7) (\<lambda>fs.
     and_then (exact_field fs 0 ''frame-id'') (\<lambda>e0.
     and_then (decode_atom e0 ''retirement.frame-id'') (\<lambda>i.
     and_then (exact_field fs 1 ''requested-frame-revision'') (\<lambda>e1.
     and_then (decode_number e1 ''retirement.requested-frame-revision'') (\<lambda>revision.
     and_then (exact_field fs 2 ''requested-mind-version'') (\<lambda>e2.
     and_then (decode_number e2 ''retirement.requested-mind-version'') (\<lambda>version.
     and_then (exact_field fs 3 ''requested-at-tick'') (\<lambda>e3.
     and_then (decode_number e3 ''retirement.requested-at-tick'') (\<lambda>requested.
     and_then (exact_field fs 4 ''eligible-at-tick'') (\<lambda>e4.
     and_then (decode_number e4 ''retirement.eligible-at-tick'') (\<lambda>eligible.
     and_then (exact_field fs 5 ''generation'') (\<lambda>e5.
     and_then (decode_number e5 ''retirement.generation'') (\<lambda>generation.
     and_then (exact_field fs 6 ''reason'') (\<lambda>e6.
     and_then (decode_atom e6 ''retirement.reason'') (\<lambda>reason.
       Inr \<lparr>rt_frame_id = i, rt_requested_frame_revision = revision, rt_requested_mind_version = version,
            rt_requested_at_tick = requested, rt_eligible_at_tick = eligible, rt_generation = generation,
            rt_reason = reason\<rparr>)))))))))))))))"

definition retiring_sx :: "ustring \<times> frame_retirement \<Rightarrow> sx" where
  "retiring_sx kr = (case kr of (k, r) \<Rightarrow> SxList [sx_atom ''entry'', SxAtom k, encode_retirement r])"

definition encode_checkpoint :: "mind_checkpoint \<Rightarrow> codec_error + sx" where
  "encode_checkpoint c =
     and_then (try_map encode_frame (ck_frames c)) (\<lambda>frames.
       Inr (sx_record ''checkpoint''
         [sx_field ''id'' (SxAtom (ck_id c)),
          sx_sequence ''frames'' frames,
          sx_sequence ''relations'' (map encode_relation (ck_relations c)),
          atom_set ''retired'' (ck_retired c),
          sx_sequence ''retiring'' (map retiring_sx (ck_retiring c)),
          atom_set ''protected'' (ck_protected c),
          sx_field ''created-version'' (sx_number (ck_created_version c))]))"

definition retiring_entry :: "(ustring \<times> frame_retirement) list \<Rightarrow> sx \<Rightarrow> codec_error + (ustring \<times> frame_retirement) list" where
  "retiring_entry m e =
     and_then (list_items e ''checkpoint.retiring entry'') (\<lambda>parts.
       if length parts \<noteq> 3 \<or> atom_ref (hd parts) \<noteq> Some (lit ''entry'') then Inl (BadEntry ''checkpoint.retiring'')
       else
         and_then (decode_atom (parts ! 1) ''checkpoint.retiring key'') (\<lambda>k.
         and_then (decode_retirement (parts ! 2)) (\<lambda>r.
           if bt_contains m k then Inl (DuplicateKey k) else Inr (bt_insert k r m))))"

definition decode_checkpoint :: "sx \<Rightarrow> codec_error + mind_checkpoint" where
  "decode_checkpoint e =
     and_then (exact_record e ''checkpoint'' 7) (\<lambda>fs.
     and_then (exact_named_list fs 1 ''frames'') (\<lambda>l1.
     and_then (try_map decode_frame l1) (\<lambda>frames.
     and_then (exact_named_list fs 2 ''relations'') (\<lambda>l2.
     and_then (try_map decode_relation l2) (\<lambda>relations.
     and_then (exact_named_list fs 3 ''retired'') (\<lambda>l3.
     and_then (decode_atom_set l3 ''retired'') (\<lambda>retired.
     and_then (exact_named_list fs 4 ''retiring'') (\<lambda>l4.
     and_then (try_fold retiring_entry [] l4) (\<lambda>retiring.
     and_then (exact_named_list fs 5 ''protected'') (\<lambda>l5.
     and_then (decode_atom_set l5 ''protected'') (\<lambda>protected.
     and_then (exact_field fs 0 ''id'') (\<lambda>e0.
     and_then (decode_atom e0 ''checkpoint.id'') (\<lambda>i.
     and_then (exact_field fs 6 ''created-version'') (\<lambda>e6.
     and_then (decode_number e6 ''checkpoint.created-version'') (\<lambda>created.
       Inr \<lparr>ck_id = i, ck_frames = frames, ck_relations = relations, ck_retired = retired, ck_retiring = retiring,
            ck_protected = protected, ck_created_version = created\<rparr>)))))))))))))))"

definition encode_mutation_clocks :: "mutation_clocks \<Rightarrow> sx" where
  "encode_mutation_clocks c =
     sx_record ''mutation-clocks''
       [sx_field ''tracking-started-version'' (optional_number (mc_tracking_started_version c)),
        u64_map ''lifecycle-versions'' (mc_lifecycle_versions c),
        u64_map ''relation-versions'' (mc_relation_versions c),
        sx_field ''frame-order-version'' (sx_number (mc_frame_order_version c)),
        u64_map ''checkpoint-versions'' (mc_checkpoint_versions c),
        sx_field ''global-barrier-version'' (sx_number (mc_global_barrier_version c))]"

definition decode_mutation_clocks :: "sx \<Rightarrow> codec_error + mutation_clocks" where
  "decode_mutation_clocks e =
     and_then (exact_record e ''mutation-clocks'' 6) (\<lambda>fs.
     and_then (exact_field fs 0 ''tracking-started-version'') (\<lambda>e0.
     and_then (decode_optional_number e0 ''tracking-started-version'') (\<lambda>started.
     and_then (exact_named_list fs 1 ''lifecycle-versions'') (\<lambda>l1.
     and_then (decode_u64_map l1 ''lifecycle-versions'') (\<lambda>lifecycle.
     and_then (exact_named_list fs 2 ''relation-versions'') (\<lambda>l2.
     and_then (decode_u64_map l2 ''relation-versions'') (\<lambda>relation.
     and_then (exact_field fs 3 ''frame-order-version'') (\<lambda>e3.
     and_then (decode_number e3 ''frame-order-version'') (\<lambda>order.
     and_then (exact_named_list fs 4 ''checkpoint-versions'') (\<lambda>l4.
     and_then (decode_u64_map l4 ''checkpoint-versions'') (\<lambda>checkpoint.
     and_then (exact_field fs 5 ''global-barrier-version'') (\<lambda>e5.
     and_then (decode_number e5 ''global-barrier-version'') (\<lambda>barrier.
       Inr \<lparr>mc_tracking_started_version = started, mc_lifecycle_versions = lifecycle, mc_relation_versions = relation,
            mc_frame_order_version = order, mc_checkpoint_versions = checkpoint, mc_global_barrier_version = barrier\<rparr>)))))))))))))"

fun encode_value :: "context_node_value \<Rightarrow> codec_error + sx" where
  "encode_value (FrameNode f) = encode_frame f"
| "encode_value (RelationNode r) = Inr (encode_relation r)"
| "encode_value (RetiredNode i) = Inr (identity_entry ''retired-entry'' i)"
| "encode_value (RetiringNode r) = Inr (encode_retirement r)"
| "encode_value (ProtectedNode i) = Inr (identity_entry ''protected-entry'' i)"
| "encode_value (CheckpointNode c) = encode_checkpoint c"
| "encode_value (ClocksNode c) = Inr (encode_mutation_clocks c)"

fun decode_node_value :: "context_collection \<Rightarrow> sx \<Rightarrow> codec_error + context_node_value" where
  "decode_node_value FrameNodes e = map_ok FrameNode (decode_frame e)"
| "decode_node_value RelationNodes e = map_ok RelationNode (decode_relation e)"
| "decode_node_value RetiredNodes e = map_ok RetiredNode (decode_identity_entry e ''retired-entry'')"
| "decode_node_value RetiringNodes e = map_ok RetiringNode (decode_retirement e)"
| "decode_node_value ProtectedNodes e = map_ok ProtectedNode (decode_identity_entry e ''protected-entry'')"
| "decode_node_value CheckpointNodes e = map_ok CheckpointNode (decode_checkpoint e)"
| "decode_node_value ClockNodes e = map_ok ClocksNode (decode_mutation_clocks e)"

definition encode_context_value :: "context_node_value \<Rightarrow> codec_error + ustring" where
  "encode_context_value v = and_then (encode_value v) canonical_string"

definition decode_context_value :: "ustring \<Rightarrow> context_collection \<Rightarrow> codec_error + context_node_value" where
  "decode_context_value body expected =
     and_then (parse_canonical body) (\<lambda>e.
     and_then (decode_node_value expected e) (\<lambda>v.
     and_then (encode_context_value v) (\<lambda>encoded.
     and_then (ensure_round_trip body encoded) (\<lambda>_. Inr v))))"

section \<open>The head\<close>

record 'time context_ast_head =
  ch_revision :: nat
  ch_state_hash :: ustring
  ch_head_event_id :: "ustring option"
  ch_updated_at :: 'time

definition encode_context_head :: "('time \<Rightarrow> ustring) \<Rightarrow> 'time context_ast_head \<Rightarrow> codec_error + ustring" where
  "encode_context_head rfc3339 h =
     canonical_string (sx_record ''projection-meta''
       [sx_field ''revision'' (sx_number (ch_revision h)),
        sx_field ''state-hash'' (SxAtom (ch_state_hash h)),
        sx_field ''head-event-id'' (optional_atom (ch_head_event_id h)),
        sx_field ''updated-at'' (SxAtom (rfc3339 (ch_updated_at h)))])"

definition decode_context_head :: "('time \<Rightarrow> ustring) \<Rightarrow> (ustring \<Rightarrow> 'time option) \<Rightarrow> ustring \<Rightarrow> codec_error + 'time context_ast_head" where
  "decode_context_head rfc3339 parse_time body =
     and_then (parse_canonical body) (\<lambda>e.
     and_then (exact_record e ''projection-meta'' 4) (\<lambda>fs.
     and_then (exact_field fs 0 ''revision'') (\<lambda>e0.
     and_then (decode_number e0 ''revision'') (\<lambda>revision.
     and_then (exact_field fs 1 ''state-hash'') (\<lambda>e1.
     and_then (decode_atom e1 ''state-hash'') (\<lambda>hash.
     and_then (exact_field fs 2 ''head-event-id'') (\<lambda>e2.
     and_then (decode_optional_atom e2 ''head-event-id'') (\<lambda>event.
     and_then (exact_field fs 3 ''updated-at'') (\<lambda>e3.
     and_then (decode_atom e3 ''updated-at'') (\<lambda>text.
     and_then (ok_or (parse_time text) (BadTime text)) (\<lambda>time.
       let decoded = \<lparr>ch_revision = revision, ch_state_hash = hash, ch_head_event_id = event, ch_updated_at = time\<rparr> in
       and_then (encode_context_head rfc3339 decoded) (\<lambda>encoded.
       and_then (ensure_round_trip body encoded) (\<lambda>_. Inr decoded)))))))))))))"

end
