(* ===== verification/Context_Codec_Laws.thy ===== *)
theory Context_Codec_Laws
  imports Context_Codec
begin

text \<open>
  What the codec promises: the canonical texts are the printed expressions within the nesting
  limit, the decoder accepts exactly the texts the encoder produces for well-formed values and
  gives these values back, and a value has a text exactly when its frame bodies are canonical and
  not too deep.
\<close>

section \<open>Canonical texts\<close>

lemma sx_text_inject [simp]: "sx_text a = sx_text b \<longleftrightarrow> a = b"
proof
  assume eq: "sx_text a = sx_text b"
  let ?n = "max (sx_depth a) (sx_depth b)" and ?st = "parser_new (sx_text a)"
  have "reads_back ?n a" "reads_back ?n b" by (simp_all add: printed_reads_back)
  moreover have "px_rest ?st = sx_text a @ []" "px_rest ?st = sx_text b @ []" using eq by (simp_all add: parser_new_def)
  ultimately have "\<exists>st'. parse_value ?n ?st = Inr (a, st')" "\<exists>st'. parse_value ?n ?st = Inr (b, st')"
    unfolding reads_back_def using closes_atom_simps(1) by blast+
  then show "a = b" by auto
qed simp

lemma parse_canonical_ok: "parse_canonical body = Inr e \<longleftrightarrow> body = sx_text e \<and> sx_depth e \<le> max_sexpr_nesting_depth"
proof
  assume "parse_canonical body = Inr e"
  then obtain forms where forms: "sx_parse_all body = Inr forms" "length forms = 1" "sx_text (hd forms) = body" "hd forms = e"
    by (auto simp: parse_canonical_def and_then_Inr_iff split: if_splits)
  then have "e \<in> set forms" by (cases forms) auto
  with forms sx_parse_all_depth show "body = sx_text e \<and> sx_depth e \<le> max_sexpr_nesting_depth" by blast
next
  assume "body = sx_text e \<and> sx_depth e \<le> max_sexpr_nesting_depth"
  with sx_parse_all_printed [of e] show "parse_canonical body = Inr e" by (simp add: parse_canonical_def)
qed

lemma canonical_string_ok: "canonical_string e = Inr s \<longleftrightarrow> s = sx_text e \<and> sx_depth e \<le> max_sexpr_nesting_depth"
proof -
  have "canonical_string e = Inr s \<longleftrightarrow> parse_canonical (sx_text e) = Inr e \<and> s = sx_text e"
    by (auto simp: canonical_string_def Let_def and_then_Inr_iff)
  then show ?thesis by (auto simp: parse_canonical_ok)
qed

lemma canonical_string_round_trip_unreachable: "canonical_string e \<noteq> Inl InMemoryRoundTrip"
proof (cases "parse_canonical (sx_text e)")
  case (Inl err)
  then have "err \<noteq> InMemoryRoundTrip"
    by (cases "sx_parse_all (sx_text e)") (auto simp: parse_canonical_def split: if_splits)
  with Inl show ?thesis by (simp add: canonical_string_def)
next
  case (Inr p)
  then have "p = e" by (auto simp: parse_canonical_ok)
  with Inr show ?thesis by (simp add: canonical_string_def)
qed

section \<open>Taking apart what was built\<close>

named_theorems decode_iff \<open>what a decoder accepts\<close>

lemma guard_ok [decode_iff]: "(if b then Inl err else r) = Inr x \<longleftrightarrow> \<not> b \<and> r = Inr x"
  by simp

lemma length_eq_iffs [decode_iff]:
  "length xs = Suc n \<longleftrightarrow> (\<exists>y ys. xs = y # ys \<and> length ys = n)" "length xs = 2 \<longleftrightarrow> (\<exists>a b. xs = [a, b])"
  "length xs = 3 \<longleftrightarrow> (\<exists>a b c. xs = [a, b, c])" "length xs = 4 \<longleftrightarrow> (\<exists>a b c d. xs = [a, b, c, d])"
  "length xs = 5 \<longleftrightarrow> (\<exists>a b c d e. xs = [a, b, c, d, e])" "length xs = 6 \<longleftrightarrow> (\<exists>a b c d e f. xs = [a, b, c, d, e, f])"
  "length xs = 7 \<longleftrightarrow> (\<exists>a b c d e f g. xs = [a, b, c, d, e, f, g])"
  by (auto simp: length_Suc_conv eval_nat_numeral)

lemma list_items_ok [decode_iff]: "list_items e l = Inr items \<longleftrightarrow> e = SxList items"
  by (cases e) (auto simp: list_items_def)

lemma atom_ref_Some [decode_iff]: "atom_ref e = Some s \<longleftrightarrow> e = SxAtom s"
  by (cases e) (auto simp: atom_ref_def)

lemma decode_atom_ok [decode_iff]: "decode_atom e l = Inr s \<longleftrightarrow> e = SxAtom s"
  by (simp add: decode_atom_def decode_iff)

lemma exact_record_ok [decode_iff]: "exact_record e head n = Inr fs \<longleftrightarrow> e = sx_record head fs \<and> length fs = n"
  by (cases e) (auto simp: exact_record_def list_items_def decode_iff sx_record_def sx_atom_def)

lemma exact_field_ok [decode_iff]: "exact_field fs i name = Inr v \<longleftrightarrow> i < length fs \<and> fs ! i = sx_field name v"
  by (cases "fs ! i") (auto simp: exact_field_def list_items_def decode_iff sx_field_def sx_atom_def nth_opt_def)

lemma exact_named_list_ok [decode_iff]: "exact_named_list fs i name = Inr vs \<longleftrightarrow> i < length fs \<and> fs ! i = sx_sequence name vs"
proof (cases "fs ! i")
  case (SxList items)
  then show ?thesis
    by (cases items) (auto simp: exact_named_list_def list_items_def decode_iff sx_sequence_def sx_atom_def nth_opt_def)
qed (auto simp: exact_named_list_def list_items_def sx_sequence_def nth_opt_def)

lemma decode_number_ok [decode_iff]: "decode_number e l = Inr n \<longleftrightarrow> e = sx_number n \<and> n \<le> u64_limit"
proof -
  have "parse_u64 (decimal n) = Some n \<longleftrightarrow> n \<le> u64_limit"
    using parse_u64_decimal [of n] by (auto simp: parse_u64_def Let_def split: if_splits)
  then show ?thesis by (auto simp: decode_number_def and_then_Inr_iff decode_iff sx_number_def)
qed

fun option_shape :: "sx list \<Rightarrow> nat" where
  "option_shape [] = 0"
| "option_shape [SxAtom h] = 1"
| "option_shape [SxList l] = 2"
| "option_shape [SxAtom h, SxAtom v] = 3"
| "option_shape [SxAtom h, SxList v] = 4"
| "option_shape (SxList l # e # es) = 5"
| "option_shape (SxAtom h # e # f # es) = 6"

lemma decode_optional_atom_ok [decode_iff]: "decode_optional_atom e l = Inr v \<longleftrightarrow> e = optional_atom v"
proof (cases e)
  case (SxList items)
  then show ?thesis
    by (cases items rule: option_shape.cases) (auto simp: decode_optional_atom_def list_items_def optional_atom_def sx_atom_def split: option.splits sx.splits)
qed (auto simp: decode_optional_atom_def list_items_def optional_atom_def split: option.splits)

lemma decode_optional_number_ok [decode_iff]:
  "decode_optional_number e l = Inr v \<longleftrightarrow> e = optional_number v \<and> (\<forall>n. v = Some n \<longrightarrow> n \<le> u64_limit)"
proof (cases e)
  case (SxList items)
  then show ?thesis
    by (cases items rule: option_shape.cases)
      (auto simp: decode_optional_number_def list_items_def optional_number_def sx_atom_def map_ok_Inr_iff decode_number_ok sx_number_def
        split: option.splits sx.splits)
qed (auto simp: decode_optional_number_def list_items_def optional_number_def split: option.splits)

lemma map_SxAtom_inject [simp]: "map SxAtom vs = map SxAtom ws \<longleftrightarrow> vs = ws"
  by (simp add: inj_map_eq_map inj_def)

lemma decode_atom_sequence_ok [decode_iff]: "decode_atom_sequence items l = Inr vs \<longleftrightarrow> items = map SxAtom vs"
proof -
  have "list_all2 (\<lambda>x y. x = SxAtom y) items vs \<longleftrightarrow> items = map SxAtom vs"
    by (auto simp: list_all2_conv_all_nth list_eq_iff_nth_eq)
  then show ?thesis by (simp add: decode_atom_sequence_def try_map_Inr_iff decode_iff)
qed

lemma bs_union_sorted: "bs_union [] vs = vs \<longleftrightarrow> bs_wf vs"
proof
  assume "bs_union [] vs = vs"
  then show "bs_wf vs" by (metis bs_wf_Nil bs_wf_union)
next
  assume "bs_wf vs"
  then show "bs_union [] vs = vs" by (intro bs_wf_ext) simp_all
qed

lemma decode_atom_set_ok [decode_iff]: "decode_atom_set items l = Inr vs \<longleftrightarrow> items = map SxAtom vs \<and> bs_wf vs"
proof -
  have "decode_atom_set items l = Inr vs \<longleftrightarrow> (\<exists>us. items = map SxAtom us \<and> length (bs_union [] us) = length us \<and> bs_union [] us = us \<and> bs_union [] us = vs)"
    by (auto simp: decode_atom_set_def and_then_Inr_iff decode_atom_sequence_ok Let_def split: if_splits)
  then show ?thesis by (metis bs_union_sorted)
qed

lemma u64_entry_ok:
  "u64_entry l (m, previous) e = Inr (m', previous') \<longleftrightarrow>
     (\<exists>k n. e = SxList [sx_atom ''entry'', SxAtom k, sx_number n] \<and> n \<le> u64_limit \<and> m' = bt_insert k n m \<and> previous' = Some k \<and>
        (\<forall>prior. previous = Some prior \<longrightarrow> prior < k))"
proof (cases e)
  case (SxList items)
  show ?thesis
  proof (cases "\<exists>k n. items = [sx_atom ''entry'', SxAtom k, sx_number n] \<and> n \<le> u64_limit")
    case True
    then obtain k n where kn: "items = [sx_atom ''entry'', SxAtom k, sx_number n]" "n \<le> u64_limit" by blast
    then have "decode_number (sx_number n) l = Inr n" by (simp add: decode_iff)
    with kn SxList show ?thesis
      by (auto simp: u64_entry_def list_items_def sx_atom_def atom_ref_def decode_atom_def sx_number_def not_le split: option.splits)
  next
    case False
    then show ?thesis
      using SxList by (auto simp: u64_entry_def list_items_def and_then_Inr_iff decode_iff sx_atom_def)
  qed
qed (auto simp: u64_entry_def list_items_def)

definition u64_sx :: "ustring \<times> nat \<Rightarrow> sx" where
  "u64_sx kn = (case kn of (k, n) \<Rightarrow> SxList [sx_atom ''entry'', SxAtom k, sx_number n])"

definition last_key :: "('k \<times> 'v) list \<Rightarrow> 'k option" where
  "last_key m = (if m = [] then None else Some (fst (last m)))"

lemma bt_wf_snoc:
  assumes "bt_wf m"
  shows "bt_wf (m @ [(k, v)]) \<longleftrightarrow> (\<forall>prior. last_key m = Some prior \<longrightarrow> prior < k)"
proof (cases m rule: rev_cases)
  case (snoc m' kv)
  then have "\<forall>k' \<in> fst ` set m'. k' < fst kv" using assms by (auto simp: bt_wf_def sorted_wrt_append)
  then show ?thesis using assms snoc by (auto simp: bt_wf_def sorted_wrt_append last_key_def)
qed (simp add: last_key_def bt_wf_def)

lemma bt_insert_snoc: "bt_wf (m @ [(k, v)]) \<Longrightarrow> bt_insert k v m = m @ [(k, v)]"
  by (rule bt_insert_last) (auto simp: bt_wf_def sorted_wrt_append)

lemma optional_atom_inject [simp]: "optional_atom a = optional_atom b \<longleftrightarrow> a = b"
  by (auto simp: optional_atom_def split: option.splits)

lemma sx_number_inject [simp]: "sx_number m = sx_number n \<longleftrightarrow> m = n"
  by (simp add: sx_number_def)

lemma u64_entry_next:
  assumes "bt_wf m"
  shows "u64_entry l (m, last_key m) e = Inr st \<longleftrightarrow>
     (\<exists>kn. e = u64_sx kn \<and> snd kn \<le> u64_limit \<and> bt_wf (m @ [kn]) \<and> st = (m @ [kn], last_key (m @ [kn])))"
proof (cases st)
  case (Pair m' p')
  show ?thesis
    unfolding Pair u64_entry_ok
    by (auto simp: u64_sx_def bt_insert_snoc bt_wf_snoc [OF assms] last_key_def [of "m @ [_]"])
qed

lemma bt_wf_append: "bt_wf (m @ n) \<Longrightarrow> bt_wf m"
  by (simp add: bt_wf_def sorted_wrt_append)

lemma u64_loop:
  assumes "bt_wf m"
  shows "try_fold (u64_entry l) (m, last_key m) items = Inr st \<longleftrightarrow>
     (\<exists>tail. items = map u64_sx tail \<and> list_all (\<lambda>kn. snd kn \<le> u64_limit) tail \<and> bt_wf (m @ tail) \<and> st = (m @ tail, last_key (m @ tail)))"
  using assms
proof (induction items arbitrary: m)
  case Nil
  then show ?case by auto
next
  case (Cons e items)
  have rest: "bt_wf (m @ [kn]) \<and> try_fold (u64_entry l) (m @ [kn], last_key (m @ [kn])) items = Inr st \<longleftrightarrow>
      (\<exists>tail. items = map u64_sx tail \<and> list_all (\<lambda>kn. snd kn \<le> u64_limit) tail \<and> bt_wf (m @ kn # tail) \<and>
        st = (m @ kn # tail, last_key (m @ kn # tail)))" for kn
    using Cons.IH [of "m @ [kn]"] bt_wf_append [of "m @ [kn]"] by (cases "bt_wf (m @ [kn])") auto
  have "try_fold (u64_entry l) (m, last_key m) (e # items) = Inr st \<longleftrightarrow>
      (\<exists>kn. e = u64_sx kn \<and> snd kn \<le> u64_limit \<and> bt_wf (m @ [kn]) \<and> try_fold (u64_entry l) (m @ [kn], last_key (m @ [kn])) items = Inr st)"
    by (auto simp: and_then_Inr_iff u64_entry_next [OF Cons.prems])
  also have "\<dots> \<longleftrightarrow> (\<exists>kn tail. e = u64_sx kn \<and> snd kn \<le> u64_limit \<and> items = map u64_sx tail \<and> list_all (\<lambda>kn. snd kn \<le> u64_limit) tail \<and>
      bt_wf (m @ kn # tail) \<and> st = (m @ kn # tail, last_key (m @ kn # tail)))"
    unfolding rest by blast
  also have "\<dots> \<longleftrightarrow> (\<exists>tail. e # items = map u64_sx tail \<and> list_all (\<lambda>kn. snd kn \<le> u64_limit) tail \<and> bt_wf (m @ tail) \<and>
      st = (m @ tail, last_key (m @ tail)))" (is "?split \<longleftrightarrow> ?whole")
  proof
    assume ?split
    then obtain kn tail where "e = u64_sx kn" "snd kn \<le> u64_limit" "items = map u64_sx tail" "list_all (\<lambda>kn. snd kn \<le> u64_limit) tail"
        "bt_wf (m @ kn # tail)" "st = (m @ kn # tail, last_key (m @ kn # tail))" by blast
    then show ?whole by (intro exI [of _ "kn # tail"]) simp
  next
    assume ?whole
    then obtain tail where "e # items = map u64_sx tail" "list_all (\<lambda>kn. snd kn \<le> u64_limit) tail" "bt_wf (m @ tail)"
        "st = (m @ tail, last_key (m @ tail))" by (elim exE conjE)
    then show ?split by (cases tail) auto
  qed
  finally show ?case .
qed

lemma decode_u64_map_ok [decode_iff]:
  "decode_u64_map items l = Inr m \<longleftrightarrow> items = map u64_sx m \<and> bt_wf m \<and> list_all (\<lambda>kn. snd kn \<le> u64_limit) m"
  using u64_loop [of "[]" l items] by (auto simp: decode_u64_map_def map_ok_Inr_iff last_key_def)

lemma u64_map_sx [decode_iff]: "u64_map name m = sx_sequence name (map u64_sx m)"
  by (simp add: u64_map_def u64_sx_def [abs_def])

section \<open>Well-formed values\<close>

text \<open>What the Rust types guarantee: numbers in range, sets and maps in order.\<close>

definition frame_wf :: "context_frame \<Rightarrow> bool" where
  "frame_wf f \<longleftrightarrow> cf_revision f \<le> u64_limit \<and> cf_created_version f \<le> u64_limit \<and> cf_updated_version f \<le> u64_limit"

definition relation_wf :: "context_relation \<Rightarrow> bool" where
  "relation_wf r \<longleftrightarrow> cr_created_version r \<le> u64_limit"

definition retirement_wf :: "frame_retirement \<Rightarrow> bool" where
  "retirement_wf r \<longleftrightarrow> rt_requested_frame_revision r \<le> u64_limit \<and> rt_requested_mind_version r \<le> u64_limit \<and>
     rt_requested_at_tick r \<le> u64_limit \<and> rt_eligible_at_tick r \<le> u64_limit \<and> rt_generation r \<le> u64_limit"

definition retiring_wf :: "(ustring \<times> frame_retirement) list \<Rightarrow> bool" where
  "retiring_wf m \<longleftrightarrow> bt_wf m \<and> list_all (\<lambda>kr. retirement_wf (snd kr)) m"

definition checkpoint_wf :: "mind_checkpoint \<Rightarrow> bool" where
  "checkpoint_wf c \<longleftrightarrow> list_all frame_wf (ck_frames c) \<and> list_all relation_wf (ck_relations c) \<and> bs_wf (ck_retired c) \<and>
     retiring_wf (ck_retiring c) \<and> bs_wf (ck_protected c) \<and> ck_created_version c \<le> u64_limit"

definition versions_wf :: "(ustring \<times> nat) list \<Rightarrow> bool" where
  "versions_wf m \<longleftrightarrow> bt_wf m \<and> list_all (\<lambda>kn. snd kn \<le> u64_limit) m"

definition clocks_wf :: "mutation_clocks \<Rightarrow> bool" where
  "clocks_wf c \<longleftrightarrow> (case mc_tracking_started_version c of None \<Rightarrow> True | Some n \<Rightarrow> n \<le> u64_limit) \<and>
     versions_wf (mc_lifecycle_versions c) \<and> versions_wf (mc_relation_versions c) \<and> mc_frame_order_version c \<le> u64_limit \<and>
     versions_wf (mc_checkpoint_versions c) \<and> mc_global_barrier_version c \<le> u64_limit"

fun node_wf :: "context_node_value \<Rightarrow> bool" where
  "node_wf (FrameNode f) \<longleftrightarrow> frame_wf f"
| "node_wf (RelationNode r) \<longleftrightarrow> relation_wf r"
| "node_wf (RetiringNode r) \<longleftrightarrow> retirement_wf r"
| "node_wf (CheckpointNode c) \<longleftrightarrow> checkpoint_wf c"
| "node_wf (ClocksNode c) \<longleftrightarrow> clocks_wf c"
| "node_wf _ \<longleftrightarrow> True"

section \<open>Decoders accept exactly the encodings\<close>

lemma sx_inject [simp]:
  "sx_record h fs = sx_record h' fs' \<longleftrightarrow> h = h' \<and> fs = fs'" "sx_field n v = sx_field n' v' \<longleftrightarrow> n = n' \<and> v = v'"
  "sx_sequence n vs = sx_sequence n' vs' \<longleftrightarrow> n = n' \<and> vs = vs'" "sx_atom a = SxAtom b \<longleftrightarrow> lit a = b"
  by (auto simp: sx_record_def sx_field_def sx_sequence_def sx_atom_def)

lemma provenance_state_ok [decode_iff]: "decode_provenance_state s = Inr st \<longleftrightarrow> s = lit (provenance_state_str st)"
  by (cases st) (auto simp: decode_provenance_state_def)

lemma decode_provenance_ok [decode_iff]: "decode_provenance e = Inr p \<longleftrightarrow> e = encode_provenance p"
  by (cases p) (auto simp: decode_provenance_def and_then_Inr_iff decode_iff encode_provenance_def atom_sequence_def sx_atom_def)

lemma decode_relation_ok [decode_iff]: "decode_relation e = Inr r \<longleftrightarrow> e = encode_relation r \<and> relation_wf r"
  by (cases r) (auto simp: decode_relation_def and_then_Inr_iff decode_iff encode_relation_def relation_wf_def)

lemma decode_identity_entry_ok [decode_iff]: "decode_identity_entry e kind = Inr i \<longleftrightarrow> e = identity_entry kind i"
  by (auto simp: decode_identity_entry_def and_then_Inr_iff decode_iff identity_entry_def)

lemma decode_retirement_ok [decode_iff]: "decode_retirement e = Inr r \<longleftrightarrow> e = encode_retirement r \<and> retirement_wf r"
  by (cases r) (auto simp: decode_retirement_def and_then_Inr_iff decode_iff encode_retirement_def retirement_wf_def)

lemma decode_mutation_clocks_ok [decode_iff]: "decode_mutation_clocks e = Inr c \<longleftrightarrow> e = encode_mutation_clocks c \<and> clocks_wf c"
  by (cases c) (auto simp: decode_mutation_clocks_def and_then_Inr_iff decode_iff encode_mutation_clocks_def clocks_wf_def versions_wf_def
    split: option.splits)

definition frame_sx :: "context_frame \<Rightarrow> sx \<Rightarrow> sx" where
  "frame_sx f body =
     sx_record ''frame''
       [sx_field ''id'' (SxAtom (cf_id f)), sx_field ''body'' body, atom_sequence ''sources'' (cf_sources f),
        sx_field ''provenance'' (encode_provenance (cf_provenance f)), sx_field ''revision'' (sx_number (cf_revision f)),
        sx_field ''created-version'' (sx_number (cf_created_version f)), sx_field ''updated-version'' (sx_number (cf_updated_version f))]"

lemma encode_frame_ok:
  "encode_frame f = Inr e \<longleftrightarrow> (\<exists>body. cf_body f = sx_text body \<and> sx_depth body \<le> max_sexpr_nesting_depth \<and> e = frame_sx f body)"
  by (auto simp: encode_frame_def and_then_Inr_iff parse_canonical_ok frame_sx_def)

lemma decode_frame_ok [decode_iff]: "decode_frame e = Inr f \<longleftrightarrow> frame_wf f \<and> (\<exists>body. cf_body f = sx_text body \<and> e = frame_sx f body)"
  by (cases f) (auto simp: decode_frame_def and_then_Inr_iff decode_iff frame_sx_def frame_wf_def atom_sequence_def)

lemma decode_frames: "try_map encode_frame fs = Inr es \<Longrightarrow> list_all frame_wf fs \<Longrightarrow> try_map decode_frame es = Inr fs"
  unfolding try_map_Inr_iff by (induction rule: list_all2_induct) (auto simp: encode_frame_ok decode_frame_ok)

lemma decode_relations: "list_all relation_wf rs \<Longrightarrow> try_map decode_relation (map encode_relation rs) = Inr rs"
  by (induction rs) (simp_all add: and_then_Inr_iff decode_iff)

lemma retiring_entry_ok:
  "retiring_entry m e = Inr m' \<longleftrightarrow>
     (\<exists>k r. e = retiring_sx (k, r) \<and> retirement_wf r \<and> \<not> bt_contains m k \<and> m' = bt_insert k r m)"
proof (cases e)
  case (SxList parts)
  then show ?thesis
    by (auto simp: retiring_entry_def and_then_Inr_iff decode_iff retiring_sx_def sx_atom_def)
qed (auto simp: retiring_entry_def list_items_def retiring_sx_def)

lemma decode_retiring_loop:
  assumes "bt_wf (m @ tail)" "list_all (\<lambda>kr. retirement_wf (snd kr)) tail"
  shows "try_fold retiring_entry m (map retiring_sx tail) = Inr (m @ tail)"
  using assms
proof (induction tail arbitrary: m)
  case (Cons kr tail)
  obtain k r where kr: "kr = (k, r)" by fastforce
  have below: "\<forall>k' \<in> fst ` set m. k' < k" using Cons.prems by (auto simp: kr bt_wf_def sorted_wrt_append)
  then have "\<not> bt_contains m k" by (auto simp: bt_contains_def bt_get_None_iff)
  then have "retiring_entry m (retiring_sx kr) = Inr (m @ [kr])"
    unfolding retiring_entry_ok kr using Cons.prems below by (auto simp: kr bt_insert_last intro!: exI [of _ k] exI [of _ r])
  with Cons.IH [of "m @ [kr]"] Cons.prems show ?case by simp
qed simp

lemma decode_retiring_wf: "try_fold retiring_entry [] es = Inr m \<Longrightarrow> retiring_wf m"
proof (rule try_fold_invariant [where I = retiring_wf])
  fix m e m' assume "retiring_wf m" "retiring_entry m e = Inr m'"
  then show "retiring_wf m'"
    using set_bt_insert by (fastforce simp: retiring_wf_def retiring_entry_ok list_all_iff)
qed (auto simp: retiring_wf_def)

lemma decode_encode_checkpoint:
  assumes "encode_checkpoint c = Inr e" "checkpoint_wf c"
  shows "decode_checkpoint e = Inr c"
proof -
  obtain frames where frames: "try_map encode_frame (ck_frames c) = Inr frames"
    and e: "e = sx_record ''checkpoint'' [sx_field ''id'' (SxAtom (ck_id c)), sx_sequence ''frames'' frames,
      sx_sequence ''relations'' (map encode_relation (ck_relations c)), atom_set ''retired'' (ck_retired c),
      sx_sequence ''retiring'' (map retiring_sx (ck_retiring c)), atom_set ''protected'' (ck_protected c),
      sx_field ''created-version'' (sx_number (ck_created_version c))]"
    using assms(1) by (auto simp: encode_checkpoint_def and_then_Inr_iff)
  have "try_map decode_frame frames = Inr (ck_frames c)" using frames assms(2) by (simp add: decode_frames checkpoint_wf_def)
  moreover have "try_map decode_relation (map encode_relation (ck_relations c)) = Inr (ck_relations c)"
    using assms(2) by (simp add: decode_relations checkpoint_wf_def)
  moreover have "try_fold retiring_entry [] (map retiring_sx (ck_retiring c)) = Inr (ck_retiring c)"
    using decode_retiring_loop [of "[]" "ck_retiring c"] assms(2) by (simp add: checkpoint_wf_def retiring_wf_def)
  ultimately show ?thesis
    unfolding decode_checkpoint_def e using assms(2)
    by (simp add: and_then_Inr_iff decode_iff atom_set_def checkpoint_wf_def)
qed

lemma decode_checkpoint_wf:
  assumes "decode_checkpoint e = Inr c"
  shows "checkpoint_wf c"
proof -
  have frames: "list_all frame_wf fs" if "try_map decode_frame es = Inr fs" for es fs
    using that unfolding try_map_Inr_iff by (induction rule: list_all2_induct) (auto simp: decode_frame_ok)
  have relations: "list_all relation_wf rs" if "try_map decode_relation es = Inr rs" for es rs
    using that unfolding try_map_Inr_iff by (induction rule: list_all2_induct) (auto simp: decode_relation_ok)
  show ?thesis
    using assms frames relations decode_retiring_wf
    by (auto simp: decode_checkpoint_def and_then_Inr_iff decode_atom_set_ok decode_number_ok checkpoint_wf_def)
qed

lemma decode_value_wf:
  assumes "decode_node_value c e = Inr v"
  shows "node_collection v = c \<and> node_wf v"
  using assms by (cases c) (auto simp: map_ok_Inr_iff decode_iff decode_checkpoint_wf)

lemma decode_encode_value:
  assumes "encode_value v = Inr e" "node_wf v"
  shows "decode_node_value (node_collection v) e = Inr v"
  using assms by (cases v) (auto simp: map_ok_Inr_iff decode_iff encode_frame_ok decode_encode_checkpoint)

lemma encode_context_value_ok:
  "encode_context_value v = Inr s \<longleftrightarrow> (\<exists>e. encode_value v = Inr e \<and> s = sx_text e \<and> sx_depth e \<le> max_sexpr_nesting_depth)"
  by (simp add: encode_context_value_def and_then_Inr_iff canonical_string_ok)

lemma decode_context_value_ok:
  "decode_context_value body c = Inr v \<longleftrightarrow> node_collection v = c \<and> node_wf v \<and> encode_context_value v = Inr body"
proof
  assume "decode_context_value body c = Inr v"
  then obtain e where "decode_node_value c e = Inr v" "encode_context_value v = Inr body"
    by (auto simp: decode_context_value_def and_then_Inr_iff ensure_round_trip_def split: if_splits)
  with decode_value_wf show "node_collection v = c \<and> node_wf v \<and> encode_context_value v = Inr body" by blast
next
  assume v: "node_collection v = c \<and> node_wf v \<and> encode_context_value v = Inr body"
  then obtain e where e: "encode_value v = Inr e" "body = sx_text e" "sx_depth e \<le> max_sexpr_nesting_depth"
    by (auto simp: encode_context_value_ok)
  then have "parse_canonical body = Inr e" "decode_node_value c e = Inr v"
    using v decode_encode_value [of v e] by (auto simp: parse_canonical_ok)
  with v show "decode_context_value body c = Inr v" by (simp add: decode_context_value_def ensure_round_trip_def)
qed

lemma encode_context_value_inject:
  assumes "encode_context_value v = Inr s" "encode_context_value w = Inr s" "node_wf v" "node_wf w" "node_collection v = node_collection w"
  shows "v = w"
  using assms decode_context_value_ok [of s "node_collection v"] by (metis sum.inject(2))

section \<open>Which values have a text\<close>

named_theorems depth_simps \<open>nesting of the parts of a record\<close>

lemma depth_list [depth_simps]: "sx_depth (SxList items) \<le> Suc n \<longleftrightarrow> (\<forall>e \<in> set items. sx_depth e \<le> n)"
  by (simp add: depth_bound)

lemma depth_flat [depth_simps]: "sx_depth (SxAtom s) \<le> n" "sx_depth (sx_atom l) \<le> n" "sx_depth (sx_number m) \<le> n"
  by (simp_all add: sx_atom_def sx_number_def)

lemma depth_parts [depth_simps]:
  "sx_depth (sx_record h fs) \<le> Suc n \<longleftrightarrow> (\<forall>e \<in> set fs. sx_depth e \<le> n)"
  "sx_depth (sx_sequence h fs) \<le> Suc n \<longleftrightarrow> (\<forall>e \<in> set fs. sx_depth e \<le> n)"
  "sx_depth (sx_field h v) \<le> Suc n \<longleftrightarrow> sx_depth v \<le> n"
  "sx_depth (atom_sequence h vs) \<le> Suc n" "sx_depth (atom_set h vs) \<le> Suc n"
  "sx_depth (optional_atom a) \<le> Suc n" "sx_depth (optional_number m) \<le> Suc n" "sx_depth (u64_sx kn) \<le> Suc n"
  by (auto simp: sx_record_def sx_sequence_def sx_field_def atom_sequence_def atom_set_def optional_atom_def optional_number_def u64_sx_def
      depth_list depth_flat simp del: sx_depth.simps split: option.splits prod.splits)

lemma depth_values [depth_simps]:
  "sx_depth (encode_provenance p) \<le> Suc (Suc (Suc n))" "sx_depth (encode_relation r) \<le> Suc (Suc n)"
  "sx_depth (identity_entry kind i) \<le> Suc (Suc n)" "sx_depth (encode_retirement t) \<le> Suc (Suc n)"
  "sx_depth (encode_mutation_clocks c) \<le> Suc (Suc (Suc n))" "sx_depth (retiring_sx kt) \<le> Suc (Suc (Suc n))"
  by (auto simp: encode_provenance_def encode_relation_def identity_entry_def encode_retirement_def encode_mutation_clocks_def u64_map_sx
      retiring_sx_def depth_simps simp del: sx_depth.simps split: prod.splits)

lemma depth_frame: "sx_depth (frame_sx f body) \<le> Suc (Suc (Suc (Suc (Suc n)))) \<longleftrightarrow> sx_depth body \<le> Suc (Suc (Suc n))"
  by (simp add: frame_sx_def depth_simps del: sx_depth.simps)

definition body_within :: "nat \<Rightarrow> context_frame \<Rightarrow> bool" where
  "body_within n f \<longleftrightarrow> (\<exists>body. cf_body f = sx_text body \<and> sx_depth body \<le> n)"

lemma body_within_unique: "cf_body f = sx_text body \<Longrightarrow> body_within n f \<longleftrightarrow> sx_depth body \<le> n"
  by (auto simp: body_within_def)

lemma encode_frame_exists: "is_ok (encode_frame f) \<longleftrightarrow> body_within max_sexpr_nesting_depth f"
  by (auto simp: is_ok_iff encode_frame_ok body_within_def)

lemma frame_has_text: "is_ok (encode_context_value (FrameNode f)) \<longleftrightarrow> body_within 126 f"
proof -
  have "sx_depth (frame_sx f body) \<le> 128 \<longleftrightarrow> sx_depth body \<le> 126" for body
    using depth_frame [of f body 123] by (simp add: eval_nat_numeral)
  then show ?thesis
    by (auto simp: is_ok_iff encode_context_value_ok encode_frame_ok body_within_def max_sexpr_nesting_depth_def)
qed

lemma frames_within:
  assumes "try_map encode_frame fs = Inr es"
  shows "(\<forall>e \<in> set es. sx_depth e \<le> 126) \<longleftrightarrow> (\<forall>f \<in> set fs. body_within 124 f)"
  using assms unfolding try_map_Inr_iff
proof (induction rule: list_all2_induct)
  case (Cons f fs e es)
  then obtain body where body: "cf_body f = sx_text body" "e = frame_sx f body" by (auto simp: encode_frame_ok)
  then have "sx_depth e \<le> 126 \<longleftrightarrow> body_within 124 f"
    using depth_frame [of f body 121] by (simp add: eval_nat_numeral body_within_unique)
  with Cons.IH show ?case by simp
qed simp

lemma checkpoint_depth:
  assumes "encode_checkpoint c = Inr e"
  shows "sx_depth e \<le> 128 \<longleftrightarrow> (\<forall>f \<in> set (ck_frames c). body_within 124 f)"
proof -
  obtain es where es: "try_map encode_frame (ck_frames c) = Inr es"
    and e: "e = sx_record ''checkpoint'' [sx_field ''id'' (SxAtom (ck_id c)), sx_sequence ''frames'' es,
      sx_sequence ''relations'' (map encode_relation (ck_relations c)), atom_set ''retired'' (ck_retired c),
      sx_sequence ''retiring'' (map retiring_sx (ck_retiring c)), atom_set ''protected'' (ck_protected c),
      sx_field ''created-version'' (sx_number (ck_created_version c))]"
    using assms by (auto simp: encode_checkpoint_def and_then_Inr_iff)
  have "sx_depth e \<le> Suc (Suc (Suc (Suc (Suc n)))) \<longleftrightarrow> (\<forall>e \<in> set es. sx_depth e \<le> Suc (Suc (Suc n)))" for n
    by (simp add: e depth_simps del: sx_depth.simps)
  from this [of 123] show ?thesis using frames_within [OF es] by simp
qed

lemma checkpoint_has_text: "is_ok (encode_context_value (CheckpointNode c)) \<longleftrightarrow> (\<forall>f \<in> set (ck_frames c). body_within 124 f)"
proof
  assume "is_ok (encode_context_value (CheckpointNode c))"
  then show "\<forall>f \<in> set (ck_frames c). body_within 124 f"
    using checkpoint_depth by (auto simp: is_ok_iff encode_context_value_ok max_sexpr_nesting_depth_def)
next
  assume within: "\<forall>f \<in> set (ck_frames c). body_within 124 f"
  then have "\<forall>f \<in> set (ck_frames c). is_ok (encode_frame f)"
    by (force simp: encode_frame_exists body_within_def max_sexpr_nesting_depth_def)
  then have "is_ok (try_map encode_frame (ck_frames c))" by (simp add: try_map_ok)
  then obtain e where "encode_checkpoint c = Inr e" by (auto simp: is_ok_iff encode_checkpoint_def)
  with checkpoint_depth within show "is_ok (encode_context_value (CheckpointNode c))"
    by (auto simp: is_ok_iff encode_context_value_ok max_sexpr_nesting_depth_def)
qed

lemma flat_nodes_have_text:
  "is_ok (encode_context_value (RelationNode r))" "is_ok (encode_context_value (RetiredNode i))"
  "is_ok (encode_context_value (RetiringNode t))" "is_ok (encode_context_value (ProtectedNode i))"
  "is_ok (encode_context_value (ClocksNode c))"
  using depth_values(2) [of r 126] depth_values(3) [of _ i 126] depth_values(4) [of t 126] depth_values(5) [of c 125]
  by (auto simp: is_ok_iff encode_context_value_ok max_sexpr_nesting_depth_def)

section \<open>The head\<close>

lemma head_has_text: "\<exists>body. encode_context_head rfc3339 h = Inr body"
proof -
  have "sx_depth (sx_record ''projection-meta'' [sx_field ''revision'' (sx_number (ch_revision h)),
      sx_field ''state-hash'' (SxAtom (ch_state_hash h)), sx_field ''head-event-id'' (optional_atom (ch_head_event_id h)),
      sx_field ''updated-at'' (SxAtom (rfc3339 (ch_updated_at h)))]) \<le> Suc (Suc (Suc n))" for n
    by (simp add: depth_simps del: sx_depth.simps)
  from this [of 125] show ?thesis by (simp add: encode_context_head_def canonical_string_ok max_sexpr_nesting_depth_def)
qed

lemma decode_encode_head:
  assumes "encode_context_head rfc3339 h = Inr body" "ch_revision h \<le> u64_limit" "parse_time (rfc3339 (ch_updated_at h)) = Some (ch_updated_at h)"
  shows "decode_context_head rfc3339 parse_time body = Inr h"
proof -
  let ?e = "sx_record ''projection-meta'' [sx_field ''revision'' (sx_number (ch_revision h)),
      sx_field ''state-hash'' (SxAtom (ch_state_hash h)), sx_field ''head-event-id'' (optional_atom (ch_head_event_id h)),
      sx_field ''updated-at'' (SxAtom (rfc3339 (ch_updated_at h)))]"
  have "parse_canonical body = Inr ?e"
    using assms(1) by (auto simp: encode_context_head_def canonical_string_ok parse_canonical_ok)
  then show ?thesis
    unfolding decode_context_head_def using assms
    by (cases h) (auto simp: and_then_Inr_iff decode_iff Let_def ensure_round_trip_def)
qed

lemma encode_decode_head:
  assumes "decode_context_head rfc3339 parse_time body = Inr h"
  shows "encode_context_head rfc3339 h = Inr body"
  using assms by (auto simp: decode_context_head_def and_then_Inr_iff Let_def ensure_round_trip_def split: if_splits)

end
