(* ===== verification/Context_Commitment.thy ===== *)
theory Context_Commitment
  imports Context_Codec_Laws Rust_Bytes "HOL-Library.Product_Lexorder"
begin

text \<open>
  The commitment of a context state (\<open>morphz/src/context_ast.rs\<close>, \<open>context_store.rs\<close>): the hash of
  every node, of every collection over its ordered children, and of the state over the collections.
  SHA-256 as hexadecimal text is the parameter \<open>sha\<close> on bytes. The commitment binds the state: two
  states with one hash are equal or show two different byte strings that were hashed to one digest.
\<close>

datatype commitment_error =
  ValueEncoding codec_error
| OrderExceedsI64
| NotACollection
| ClocksLogicalId
| RootsMismatch

type_synonym commitment = "int \<times> ustring \<times> ustring"

definition i64_limit :: nat where
  "i64_limit = 2 ^ 63 - 1"

definition frames_node_id :: ustring where
  "frames_node_id = lit ''morphz/frames''"

definition relations_node_id :: ustring where
  "relations_node_id = lit ''morphz/relations''"

definition retired_node_id :: ustring where
  "retired_node_id = lit ''morphz/retired''"

definition retiring_node_id :: ustring where
  "retiring_node_id = lit ''morphz/retiring''"

definition protected_node_id :: ustring where
  "protected_node_id = lit ''morphz/protected''"

definition checkpoints_node_id :: ustring where
  "checkpoints_node_id = lit ''morphz/checkpoints''"

definition clocks_node_id :: ustring where
  "clocks_node_id = lit ''morphz/clocks''"

definition agent_mind_domain :: ustring where
  "agent_mind_domain = lit ''agent_mind''"

definition state_roots :: "(int \<times> ustring) list" where
  "state_roots =
     [(10, frames_node_id), (20, relations_node_id), (30, retired_node_id), (40, retiring_node_id), (50, protected_node_id),
      (60, checkpoints_node_id), (70, clocks_node_id)]"

section \<open>Hashes\<close>

definition child_bytes :: "commitment \<Rightarrow> nat list" where
  "child_bytes child =
     (case child of (order, i, h) \<Rightarrow> 0 # utf8_bytes (lit ''child'') @ 0 # i64_bytes order @ utf8_bytes i @ 0 # utf8_bytes h)"

definition node_message :: "ustring \<Rightarrow> ustring \<Rightarrow> ustring \<Rightarrow> commitment list \<Rightarrow> nat list" where
  "node_message node_id owner_domain body children =
     utf8_bytes (lit ''morphz-contextdb-node-v1'') @ 0 # utf8_bytes node_id @ 0 # utf8_bytes owner_domain @ 0 # utf8_bytes body @
     concat (map child_bytes children)"

definition hash_context_node :: "(nat list \<Rightarrow> ustring) \<Rightarrow> ustring \<Rightarrow> ustring \<Rightarrow> ustring \<Rightarrow> commitment list \<Rightarrow> ustring" where
  "hash_context_node sha node_id owner_domain body children = sha (node_message node_id owner_domain body children)"

definition hash_len_prefixed :: "nat list \<Rightarrow> nat list" where
  "hash_len_prefixed bs = be_bytes (min (length bs) u64_limit) @ bs"

fun node_kind :: "context_collection \<Rightarrow> ustring" where
  "node_kind FrameNodes = lit ''frame''"
| "node_kind RelationNodes = lit ''relation''"
| "node_kind RetiredNodes = lit ''retired''"
| "node_kind RetiringNodes = lit ''retiring''"
| "node_kind ProtectedNodes = lit ''protected''"
| "node_kind CheckpointNodes = lit ''checkpoint''"
| "node_kind ClockNodes = []"

definition native_node_id :: "(nat list \<Rightarrow> ustring) \<Rightarrow> context_collection \<Rightarrow> ustring \<Rightarrow> commitment_error + ustring" where
  "native_node_id sha c i =
     (if c = ClockNodes then (if i = lit ''mutation-clocks'' then Inr clocks_node_id else Inl ClocksLogicalId)
      else Inr (lit ''morphz/'' @ node_kind c @ lit ''/'' @ sha (utf8_bytes i)))"

definition value_descriptor :: "(nat list \<Rightarrow> ustring) \<Rightarrow> int \<Rightarrow> context_node_value \<Rightarrow> commitment_error + commitment" where
  "value_descriptor sha order v =
     and_then (native_node_id sha (node_collection v) (logical_id v)) (\<lambda>node_id.
     and_then (map_err ValueEncoding (encode_context_value v)) (\<lambda>body.
       Inr (order, node_id, hash_context_node sha node_id agent_mind_domain body [])))"

definition ordered_value_descriptor :: "(nat list \<Rightarrow> ustring) \<Rightarrow> nat \<times> context_node_value \<Rightarrow> commitment_error + commitment" where
  "ordered_value_descriptor sha iv =
     (case iv of (i, v) \<Rightarrow> if i64_limit < i then Inl OrderExceedsI64 else value_descriptor sha (int i) v)"

definition unordered_value_descriptor :: "(nat list \<Rightarrow> ustring) \<Rightarrow> context_node_value \<Rightarrow> commitment_error + commitment" where
  "unordered_value_descriptor sha v = value_descriptor sha 0 v"

definition sort_commitments :: "commitment list \<Rightarrow> commitment list" where
  "sort_commitments cs = sort_key (\<lambda>(order, i, _). (order, i)) cs"

fun collection_order :: "context_collection \<Rightarrow> commitment_error + int" where
  "collection_order FrameNodes = Inr 10"
| "collection_order RelationNodes = Inr 20"
| "collection_order RetiredNodes = Inr 30"
| "collection_order RetiringNodes = Inr 40"
| "collection_order ProtectedNodes = Inr 50"
| "collection_order CheckpointNodes = Inr 60"
| "collection_order ClockNodes = Inl NotACollection"

definition collection_subtree_hash ::
  "(nat list \<Rightarrow> ustring) \<Rightarrow> context_collection \<Rightarrow> ustring \<Rightarrow> string \<Rightarrow> commitment list \<Rightarrow> commitment_error + commitment" where
  "collection_subtree_hash sha c node_id kind children =
     (let children = sort_commitments children in
      and_then (collection_order c) (\<lambda>order.
        Inr (order, node_id, hash_context_node sha node_id agent_mind_domain (lit ''('' @ lit kind @ lit '')'') children)))"

definition root_bytes :: "commitment \<Rightarrow> nat list" where
  "root_bytes root =
     (case root of (order, i, h) \<Rightarrow>
        0 # utf8_bytes (lit ''root'') @ 0 # i64_bytes order @ hash_len_prefixed (utf8_bytes i) @ hash_len_prefixed (utf8_bytes h))"

definition state_message :: "nat \<Rightarrow> commitment list \<Rightarrow> nat list" where
  "state_message revision roots =
     utf8_bytes (lit ''morphz-context-state-v1'') @ 0 # be_bytes revision @ concat (map root_bytes roots)"

definition native_mind_state_hash_from_roots :: "(nat list \<Rightarrow> ustring) \<Rightarrow> nat \<Rightarrow> commitment list \<Rightarrow> commitment_error + ustring" where
  "native_mind_state_hash_from_roots sha revision roots =
     (let canonical = sort_commitments roots in
      if map (\<lambda>(order, i, _). (order, i)) canonical \<noteq> state_roots then Inl RootsMismatch
      else Inr (sha (state_message revision canonical)))"

section \<open>The commitment of a state\<close>

definition native_mind_state_commitment_parts ::
  "(nat list \<Rightarrow> ustring) \<Rightarrow> mind_state \<Rightarrow> commitment_error + ustring \<times> commitment list" where
  "native_mind_state_commitment_parts sha s =
     and_then (try_map (ordered_value_descriptor sha) (enumerate 0 (map FrameNode (ms_frames s)))) (\<lambda>frames.
     and_then (collection_subtree_hash sha FrameNodes frames_node_id ''frames'' frames) (\<lambda>r1.
     and_then (try_map (ordered_value_descriptor sha) (enumerate 0 (map RelationNode (ms_relations s)))) (\<lambda>relations.
     and_then (collection_subtree_hash sha RelationNodes relations_node_id ''relations'' relations) (\<lambda>r2.
     and_then (try_map (unordered_value_descriptor sha) (map RetiredNode (ms_retired s))) (\<lambda>retired.
     and_then (collection_subtree_hash sha RetiredNodes retired_node_id ''retired'' retired) (\<lambda>r3.
     and_then (try_map (unordered_value_descriptor sha) (map (\<lambda>kr. RetiringNode (snd kr)) (ms_retiring s))) (\<lambda>retiring.
     and_then (collection_subtree_hash sha RetiringNodes retiring_node_id ''retiring'' retiring) (\<lambda>r4.
     and_then (try_map (unordered_value_descriptor sha) (map ProtectedNode (ms_protected s))) (\<lambda>protected.
     and_then (collection_subtree_hash sha ProtectedNodes protected_node_id ''protected'' protected) (\<lambda>r5.
     and_then (try_map (ordered_value_descriptor sha) (enumerate 0 (map CheckpointNode (ms_checkpoints s)))) (\<lambda>checkpoints.
     and_then (collection_subtree_hash sha CheckpointNodes checkpoints_node_id ''checkpoints'' checkpoints) (\<lambda>r6.
     and_then (map_err ValueEncoding (encode_context_value (ClocksNode (ms_clocks s)))) (\<lambda>clocks.
       let roots = [r1, r2, r3, r4, r5, r6, (70, clocks_node_id, hash_context_node sha clocks_node_id agent_mind_domain clocks [])] in
       map_ok (\<lambda>state_hash. (state_hash, roots)) (native_mind_state_hash_from_roots sha (ms_version s) roots))))))))))))))"

record state_commitment =
  sc_revision :: nat
  sc_state_hash :: ustring
  sc_roots :: "commitment list"

definition context_state_commitment :: "(nat list \<Rightarrow> ustring) \<Rightarrow> mind_state \<Rightarrow> commitment_error + state_commitment" where
  "context_state_commitment sha s =
     map_ok (\<lambda>(state_hash, roots). \<lparr>sc_revision = ms_version s, sc_state_hash = state_hash, sc_roots = roots\<rparr>)
       (native_mind_state_commitment_parts sha s)"

definition context_state_hash :: "(nat list \<Rightarrow> ustring) \<Rightarrow> mind_state \<Rightarrow> commitment_error + ustring" where
  "context_state_hash sha s = map_ok sc_state_hash (context_state_commitment sha s)"

end
