(* ===== verification/Context_Binding.thy ===== *)
theory Context_Binding
  imports Context_Commitment "HOL-Library.Multiset"
begin

text \<open>
  The commitment binds the state. The byte strings hashed for a state are listed by \<open>hashed\<close>; from
  equal digests without a collision among them follow, level by level, equal roots, equal children
  and equal node texts, and the codec gives equal values.
\<close>

definition hex_digests :: "(nat list \<Rightarrow> ustring) \<Rightarrow> bool" where
  "hex_digests sha \<longleftrightarrow> (\<forall>m. \<forall>c \<in> set (sha m). 48 \<le> c \<and> c \<le> 57 \<or> 97 \<le> c \<and> c \<le> 102)"

definition state_values :: "mind_state \<Rightarrow> context_node_value list" where
  "state_values s =
     map FrameNode (ms_frames s) @ map RelationNode (ms_relations s) @ map RetiredNode (ms_retired s) @
     map (\<lambda>kr. RetiringNode (snd kr)) (ms_retiring s) @ map ProtectedNode (ms_protected s) @
     map CheckpointNode (ms_checkpoints s) @ [ClocksNode (ms_clocks s)]"

fun collection_children :: "(nat list \<Rightarrow> ustring) \<Rightarrow> mind_state \<Rightarrow> context_collection \<Rightarrow> commitment_error + commitment list" where
  "collection_children sha s FrameNodes = try_map (ordered_value_descriptor sha) (enumerate 0 (map FrameNode (ms_frames s)))"
| "collection_children sha s RelationNodes = try_map (ordered_value_descriptor sha) (enumerate 0 (map RelationNode (ms_relations s)))"
| "collection_children sha s RetiredNodes = try_map (unordered_value_descriptor sha) (map RetiredNode (ms_retired s))"
| "collection_children sha s RetiringNodes = try_map (unordered_value_descriptor sha) (map (\<lambda>kr. RetiringNode (snd kr)) (ms_retiring s))"
| "collection_children sha s ProtectedNodes = try_map (unordered_value_descriptor sha) (map ProtectedNode (ms_protected s))"
| "collection_children sha s CheckpointNodes = try_map (ordered_value_descriptor sha) (enumerate 0 (map CheckpointNode (ms_checkpoints s)))"
| "collection_children sha s ClockNodes = Inl NotACollection"

fun root_id :: "context_collection \<Rightarrow> ustring" where
  "root_id FrameNodes = frames_node_id"
| "root_id RelationNodes = relations_node_id"
| "root_id RetiredNodes = retired_node_id"
| "root_id RetiringNodes = retiring_node_id"
| "root_id ProtectedNodes = protected_node_id"
| "root_id CheckpointNodes = checkpoints_node_id"
| "root_id ClockNodes = clocks_node_id"

fun root_text :: "context_collection \<Rightarrow> ustring" where
  "root_text FrameNodes = lit ''('' @ lit ''frames'' @ lit '')''"
| "root_text RelationNodes = lit ''('' @ lit ''relations'' @ lit '')''"
| "root_text RetiredNodes = lit ''('' @ lit ''retired'' @ lit '')''"
| "root_text RetiringNodes = lit ''('' @ lit ''retiring'' @ lit '')''"
| "root_text ProtectedNodes = lit ''('' @ lit ''protected'' @ lit '')''"
| "root_text CheckpointNodes = lit ''('' @ lit ''checkpoints'' @ lit '')''"
| "root_text ClockNodes = []"

definition node_texts :: "(nat list \<Rightarrow> ustring) \<Rightarrow> mind_state \<Rightarrow> nat list set" where
  "node_texts sha s = {node_message i agent_mind_domain body [] | v i body.
     v \<in> set (state_values s) \<and> native_node_id sha (node_collection v) (logical_id v) = Inr i \<and> encode_context_value v = Inr body}"

definition collection_texts :: "(nat list \<Rightarrow> ustring) \<Rightarrow> mind_state \<Rightarrow> nat list set" where
  "collection_texts sha s = {node_message (root_id c) agent_mind_domain (root_text c) (sort_commitments children) | c children.
     collection_children sha s c = Inr children}"

definition hashed :: "(nat list \<Rightarrow> ustring) \<Rightarrow> mind_state \<Rightarrow> nat list set" where
  "hashed sha s = node_texts sha s \<union> collection_texts sha s \<union>
     {state_message (ms_version s) roots | h roots. native_mind_state_commitment_parts sha s = Inr (h, roots)}"

definition collision_free :: "(nat list \<Rightarrow> ustring) \<Rightarrow> mind_state \<Rightarrow> mind_state \<Rightarrow> bool" where
  "collision_free sha s t \<longleftrightarrow> (\<forall>x \<in> hashed sha s. \<forall>y \<in> hashed sha t. sha x = sha y \<longrightarrow> x = y)"

text \<open>What the types of a state guarantee, with retirements stored under their frame.\<close>

definition state_wf :: "mind_state \<Rightarrow> bool" where
  "state_wf s \<longleftrightarrow> list_all node_wf (state_values s) \<and> ms_version s \<le> u64_limit \<and> bs_wf (ms_retired s) \<and> bs_wf (ms_protected s) \<and>
     bt_wf (ms_retiring s) \<and> list_all (\<lambda>(k, r). k = rt_frame_id r) (ms_retiring s)"

section \<open>Reading the hashed bytes\<close>

definition stops :: "nat list \<Rightarrow> bool" where
  "stops r \<longleftrightarrow> r = [] \<or> hd r = 0"

lemma zero_stops:
  assumes "a @ r = b @ s" "0 \<notin> set a" "0 \<notin> set b" "stops r" "stops s"
  shows "a = b \<and> r = s"
proof -
  have "takeWhile (\<lambda>x. x \<noteq> 0) (c @ q) = c" if "0 \<notin> set c" "stops q" for c q
    using that by (induction c; cases q) (auto simp: stops_def)
  with assms have "a = b" by metis
  with assms(1) show ?thesis by simp
qed

lemma stops_simps [simp]: "stops []" "stops (0 # r)"
  by (simp_all add: stops_def)

lemma block_bytes:
  "child_bytes (order, i, h) = 0 # utf8_bytes (lit ''child'') @ 0 # i64_bytes order @ utf8_bytes i @ 0 # utf8_bytes h"
  "root_bytes (order, i, h) = 0 # utf8_bytes (lit ''root'') @ 0 # i64_bytes order @ hash_len_prefixed (utf8_bytes i) @ hash_len_prefixed (utf8_bytes h)"
  by (simp_all add: child_bytes_def root_bytes_def)

lemma child_nonempty [simp]: "child_bytes c \<noteq> []" "[] \<noteq> child_bytes c"
  by (cases c; simp add: block_bytes)+

lemma child_stops [simp]: "stops (concat (map child_bytes cs))" "stops (concat (map root_bytes rs))"
  by (cases cs; cases rs; simp add: stops_def child_bytes_def root_bytes_def split: prod.splits)+

definition plain_child :: "commitment \<Rightarrow> bool" where
  "plain_child d \<longleftrightarrow> (case d of (order, i, h) \<Rightarrow> 0 \<notin> set i \<and> 0 \<notin> set h \<and> - (2 ^ 63) \<le> order \<and> order < 2 ^ 63)"

lemma children_readable:
  assumes "concat (map child_bytes cs) = concat (map child_bytes ds)" "list_all plain_child cs" "list_all plain_child ds"
  shows "cs = ds"
  using assms
proof (induction cs arbitrary: ds)
  case Nil
  then show ?case by (cases ds) (auto simp: block_bytes)
next
  case (Cons c cs)
  then obtain d ds' where ds: "ds = d # ds'" by (cases ds) (auto simp: block_bytes)
  obtain o1 i1 h1 where c: "c = (o1, i1, h1)" by (cases c)
  obtain o2 i2 h2 where d: "d = (o2, i2, h2)" by (cases d)
  from Cons.prems(1) have "i64_bytes o1 @ utf8_bytes i1 @ 0 # utf8_bytes h1 @ concat (map child_bytes cs) =
      i64_bytes o2 @ utf8_bytes i2 @ 0 # utf8_bytes h2 @ concat (map child_bytes ds')"
    by (simp add: ds c d block_bytes)
  then have orders: "i64_bytes o1 = i64_bytes o2" and rest: "utf8_bytes i1 @ 0 # utf8_bytes h1 @ concat (map child_bytes cs) =
      utf8_bytes i2 @ 0 # utf8_bytes h2 @ concat (map child_bytes ds')"
    by (simp_all add: append_eq_append_conv)
  have plain: "plain_child c" "plain_child d" using Cons.prems by (simp_all add: ds)
  from rest have "i1 = i2" and rest: "utf8_bytes h1 @ concat (map child_bytes cs) = utf8_bytes h2 @ concat (map child_bytes ds')"
    using delimited [of 0 "utf8_bytes i1" "utf8_bytes i2"] plain by (auto simp: plain_child_def c d utf8_zero)
  moreover from rest have "h1 = h2" "concat (map child_bytes cs) = concat (map child_bytes ds')"
    using zero_stops [OF rest] plain by (auto simp: plain_child_def c d utf8_zero)
  moreover have "o1 = o2" using i64_bytes_inject [OF orders] plain by (simp add: plain_child_def c d)
  ultimately show ?case using Cons by (simp add: ds c d)
qed

lemma roots_readable:
  assumes "concat (map root_bytes cs) = concat (map root_bytes ds)" "map (\<lambda>(order, i, _). (order, i)) cs = map (\<lambda>(order, i, _). (order, i)) ds"
    "list_all (\<lambda>(_, _, h). 0 \<notin> set h) cs" "list_all (\<lambda>(_, _, h). 0 \<notin> set h) ds"
  shows "cs = ds"
  using assms
proof (induction cs arbitrary: ds)
  case (Cons c cs)
  then obtain d ds' where ds: "ds = d # ds'" by (cases ds) simp_all
  obtain ord i h1 where c: "c = (ord, i, h1)" by (cases c)
  obtain h2 where d: "d = (ord, i, h2)" using Cons.prems(2) by (cases d) (simp add: ds c)
  from Cons.prems(1) have "be_bytes (min (length (utf8_bytes h1)) u64_limit) @ utf8_bytes h1 @ concat (map root_bytes cs) =
      be_bytes (min (length (utf8_bytes h2)) u64_limit) @ utf8_bytes h2 @ concat (map root_bytes ds')"
    by (simp add: ds c d block_bytes hash_len_prefixed_def)
  then have rest: "utf8_bytes h1 @ concat (map root_bytes cs) = utf8_bytes h2 @ concat (map root_bytes ds')"
    by (simp add: append_eq_append_conv)
  have "h1 = h2" "concat (map root_bytes cs) = concat (map root_bytes ds')"
    using zero_stops [OF rest] Cons.prems(3,4) by (auto simp: ds c d utf8_zero)
  with Cons show ?case by (simp add: ds c d)
qed simp

lemma node_message_readable:
  assumes "node_message i owner body cs = node_message i owner body ds" "list_all plain_child cs" "list_all plain_child ds"
  shows "cs = ds"
  using assms children_readable by (simp add: node_message_def)

lemma leaf_message_readable: "node_message i owner body [] = node_message i owner body' [] \<Longrightarrow> body = body'"
  by (simp add: node_message_def)

lemma state_message_readable:
  assumes "state_message v cs = state_message w ds" "v \<le> u64_limit" "w \<le> u64_limit"
    "map (\<lambda>(order, i, _). (order, i)) cs = map (\<lambda>(order, i, _). (order, i)) ds"
    "list_all (\<lambda>(_, _, h). 0 \<notin> set h) cs" "list_all (\<lambda>(_, _, h). 0 \<notin> set h) ds"
  shows "v = w \<and> cs = ds"
proof -
  have "be_bytes v = be_bytes w" "concat (map root_bytes cs) = concat (map root_bytes ds)"
    using assms(1) by (simp_all add: state_message_def append_eq_append_conv)
  with assms show ?thesis using be_bytes_inject [of v w] roots_readable [of cs ds] by (simp add: u64_limit_def)
qed

section \<open>Descriptors\<close>

lemma value_descriptor_ok:
  "value_descriptor sha order v = Inr d \<longleftrightarrow>
     (\<exists>i body. native_node_id sha (node_collection v) (logical_id v) = Inr i \<and> encode_context_value v = Inr body \<and>
        d = (order, i, sha (node_message i agent_mind_domain body [])))"
  by (auto simp: value_descriptor_def and_then_Inr_iff hash_context_node_def)

lemma digest_plain: "hex_digests sha \<Longrightarrow> 0 \<notin> set (sha m)"
  by (force simp: hex_digests_def)

lemma node_id_plain:
  assumes "hex_digests sha" "native_node_id sha c i = Inr nid"
  shows "0 \<notin> set nid"
proof (cases "c = ClockNodes")
  case True
  with assms(2) show ?thesis by (auto simp: native_node_id_def clocks_node_id_def lit_simps chr_def split: if_splits)
next
  case False
  have "0 \<notin> set (node_kind c)" by (cases c) (simp_all add: lit_simps chr_def)
  moreover have "0 \<notin> set (lit ''morphz/'')" "0 \<notin> set (lit ''/'')" by (simp_all add: lit_simps chr_def)
  ultimately show ?thesis using assms(2) False digest_plain [OF assms(1)] by (auto simp: native_node_id_def)
qed

lemma descriptor_plain:
  assumes "hex_digests sha" "value_descriptor sha order v = Inr d" "- (2 ^ 63) \<le> order" "order < 2 ^ 63"
  shows "plain_child d"
  using assms node_id_plain [OF assms(1)] digest_plain [OF assms(1)] by (auto simp: value_descriptor_ok plain_child_def)

lemma descriptor_binds:
  assumes "value_descriptor sha o1 v = Inr d" "value_descriptor sha o2 w = Inr d" "collision_free sha s t"
    "v \<in> set (state_values s)" "w \<in> set (state_values t)" "node_wf v" "node_wf w" "node_collection v = node_collection w"
  shows "v = w \<and> o1 = o2"
proof -
  obtain i b1 b2 where i: "native_node_id sha (node_collection v) (logical_id v) = Inr i" "native_node_id sha (node_collection w) (logical_id w) = Inr i"
    and b: "encode_context_value v = Inr b1" "encode_context_value w = Inr b2" "o1 = o2"
    and same: "sha (node_message i agent_mind_domain b1 []) = sha (node_message i agent_mind_domain b2 [])"
    using assms(1,2) by (auto simp: value_descriptor_ok)
  have "node_message i agent_mind_domain b1 [] \<in> hashed sha s" "node_message i agent_mind_domain b2 [] \<in> hashed sha t"
    using i b assms(4,5) unfolding hashed_def node_texts_def by blast+
  with same assms(3) have "node_message i agent_mind_domain b1 [] = node_message i agent_mind_domain b2 []"
    unfolding collision_free_def by blast
  then have "b1 = b2" by (rule leaf_message_readable)
  with b assms(6-8) encode_context_value_inject show ?thesis by blast
qed

text \<open>The nodes of one collection in a state.\<close>

definition nodes_of :: "mind_state \<Rightarrow> context_collection \<Rightarrow> context_node_value list \<Rightarrow> bool" where
  "nodes_of s c vs \<longleftrightarrow> (\<forall>v \<in> set vs. v \<in> set (state_values s) \<and> node_wf v \<and> node_collection v = c)"

lemma ordered_children:
  assumes "try_map (ordered_value_descriptor sha) (enumerate 0 vs) = Inr cs"
  shows "length cs = length vs \<and> (\<forall>i < length vs. value_descriptor sha (int i) (vs ! i) = Inr (cs ! i) \<and> i \<le> i64_limit)"
  using assms by (auto simp: try_map_Inr_iff list_all2_conv_all_nth nth_enumerate_eq ordered_value_descriptor_def split: if_splits)

lemma ordered_binds:
  assumes "try_map (ordered_value_descriptor sha) (enumerate 0 vs) = Inr cs" "try_map (ordered_value_descriptor sha) (enumerate 0 ws) = Inr ds"
    "set cs = set ds" "nodes_of s c vs" "nodes_of t c ws" "collision_free sha s t"
  shows "vs = ws"
proof -
  note cs = ordered_children [OF assms(1)] and ds = ordered_children [OF assms(2)]
  have same: "vs ! i = ws ! j \<and> i = j" if "i < length vs" "j < length ws" "cs ! i = ds ! j" for i j
    using descriptor_binds [of sha "int i" "vs ! i" "cs ! i" "int j" "ws ! j" s t] cs ds that assms(4-6) by (force simp: nodes_of_def)
  have "\<exists>j < length ws. cs ! i = ds ! j" if "i < length vs" for i
    using assms(3) cs ds that by (metis in_set_conv_nth)
  moreover have "\<exists>i < length vs. cs ! i = ds ! j" if "j < length ws" for j
    using assms(3) cs ds that by (metis in_set_conv_nth)
  ultimately have "i < length vs \<longleftrightarrow> i < length ws" "i < length vs \<Longrightarrow> vs ! i = ws ! i" for i
    using same by metis+
  then show ?thesis by (metis linorder_neqE_nat nat_less_le nth_equalityI order_less_irrefl)
qed

lemma try_map_pairs:
  assumes "try_map f xs = Inr ys"
  shows "\<forall>x \<in> set xs. \<exists>y \<in> set ys. f x = Inr y" "\<forall>y \<in> set ys. \<exists>x \<in> set xs. f x = Inr y"
  using assms unfolding try_map_Inr_iff by (induction rule: list_all2_induct) auto

lemma unordered_binds:
  assumes "try_map (unordered_value_descriptor sha) vs = Inr cs" "try_map (unordered_value_descriptor sha) ws = Inr ds"
    "set cs = set ds" "nodes_of s c vs" "nodes_of t c ws" "collision_free sha s t"
  shows "set vs = set ws"
proof -
  note cs = try_map_pairs [OF assms(1), unfolded unordered_value_descriptor_def]
    and ds = try_map_pairs [OF assms(2), unfolded unordered_value_descriptor_def]
  have same: "v = w" if "v \<in> set vs" "w \<in> set ws" "value_descriptor sha 0 v = Inr d" "value_descriptor sha 0 w = Inr d" for v w d
    using descriptor_binds [OF that(3,4) assms(6)] that(1,2) assms(4,5) by (simp add: nodes_of_def)
  show ?thesis
  proof (intro set_eqI iffI)
    fix v assume "v \<in> set vs"
    then show "v \<in> set ws" using cs(1) ds(2) same assms(3) by metis
  next
    fix w assume "w \<in> set ws"
    then show "w \<in> set vs" using ds(1) cs(2) same assms(3) by metis
  qed
qed

section \<open>The state\<close>

definition subtree_digest :: "(nat list \<Rightarrow> ustring) \<Rightarrow> context_collection \<Rightarrow> commitment list \<Rightarrow> ustring" where
  "subtree_digest sha c children = sha (node_message (root_id c) agent_mind_domain (root_text c) (sort_commitments children))"

definition all_roots :: "(nat list \<Rightarrow> ustring) \<Rightarrow> (context_collection \<Rightarrow> commitment list) \<Rightarrow> ustring \<Rightarrow> commitment list" where
  "all_roots sha children clocks =
     [(10, frames_node_id, subtree_digest sha FrameNodes (children FrameNodes)),
      (20, relations_node_id, subtree_digest sha RelationNodes (children RelationNodes)),
      (30, retired_node_id, subtree_digest sha RetiredNodes (children RetiredNodes)),
      (40, retiring_node_id, subtree_digest sha RetiringNodes (children RetiringNodes)),
      (50, protected_node_id, subtree_digest sha ProtectedNodes (children ProtectedNodes)),
      (60, checkpoints_node_id, subtree_digest sha CheckpointNodes (children CheckpointNodes)),
      (70, clocks_node_id, sha (node_message clocks_node_id agent_mind_domain clocks []))]"

lemma sort_all_roots: "sort_commitments (all_roots sha children clocks) = all_roots sha children clocks"
  unfolding sort_commitments_def by (rule sort_key_id_if_sorted) (simp add: all_roots_def)

lemma all_roots_hash: "native_mind_state_hash_from_roots sha n (all_roots sha children clocks) = Inr (sha (state_message n (all_roots sha children clocks)))"
  by (simp add: native_mind_state_hash_from_roots_def sort_all_roots) (simp add: all_roots_def state_roots_def)

lemma subtree_hash_ok:
  "collection_subtree_hash sha FrameNodes frames_node_id ''frames'' cs = Inr (10, frames_node_id, subtree_digest sha FrameNodes cs)"
  "collection_subtree_hash sha RelationNodes relations_node_id ''relations'' cs = Inr (20, relations_node_id, subtree_digest sha RelationNodes cs)"
  "collection_subtree_hash sha RetiredNodes retired_node_id ''retired'' cs = Inr (30, retired_node_id, subtree_digest sha RetiredNodes cs)"
  "collection_subtree_hash sha RetiringNodes retiring_node_id ''retiring'' cs = Inr (40, retiring_node_id, subtree_digest sha RetiringNodes cs)"
  "collection_subtree_hash sha ProtectedNodes protected_node_id ''protected'' cs = Inr (50, protected_node_id, subtree_digest sha ProtectedNodes cs)"
  "collection_subtree_hash sha CheckpointNodes checkpoints_node_id ''checkpoints'' cs = Inr (60, checkpoints_node_id, subtree_digest sha CheckpointNodes cs)"
  by (simp_all add: collection_subtree_hash_def subtree_digest_def hash_context_node_def)

lemma parts_ok:
  "native_mind_state_commitment_parts sha s = Inr (h, roots) \<longleftrightarrow>
     (\<exists>children clocks. (\<forall>c. c \<noteq> ClockNodes \<longrightarrow> collection_children sha s c = Inr (children c)) \<and>
        encode_context_value (ClocksNode (ms_clocks s)) = Inr clocks \<and> roots = all_roots sha children clocks \<and>
        h = sha (state_message (ms_version s) roots))" (is "?parts \<longleftrightarrow> ?shape")
proof
  assume ?parts
  then obtain c1 c2 c3 c4 c5 c6 clocks where
    cs: "try_map (ordered_value_descriptor sha) (enumerate 0 (map FrameNode (ms_frames s))) = Inr c1"
      "try_map (ordered_value_descriptor sha) (enumerate 0 (map RelationNode (ms_relations s))) = Inr c2"
      "try_map (unordered_value_descriptor sha) (map RetiredNode (ms_retired s)) = Inr c3"
      "try_map (unordered_value_descriptor sha) (map (\<lambda>kr. RetiringNode (snd kr)) (ms_retiring s)) = Inr c4"
      "try_map (unordered_value_descriptor sha) (map ProtectedNode (ms_protected s)) = Inr c5"
      "try_map (ordered_value_descriptor sha) (enumerate 0 (map CheckpointNode (ms_checkpoints s))) = Inr c6"
    and clocks: "encode_context_value (ClocksNode (ms_clocks s)) = Inr clocks"
    and rest: "map_ok (\<lambda>state_hash. (state_hash, [(10, frames_node_id, subtree_digest sha FrameNodes c1),
      (20, relations_node_id, subtree_digest sha RelationNodes c2), (30, retired_node_id, subtree_digest sha RetiredNodes c3),
      (40, retiring_node_id, subtree_digest sha RetiringNodes c4), (50, protected_node_id, subtree_digest sha ProtectedNodes c5),
      (60, checkpoints_node_id, subtree_digest sha CheckpointNodes c6),
      (70, clocks_node_id, sha (node_message clocks_node_id agent_mind_domain clocks []))]))
      (native_mind_state_hash_from_roots sha (ms_version s) [(10, frames_node_id, subtree_digest sha FrameNodes c1),
      (20, relations_node_id, subtree_digest sha RelationNodes c2), (30, retired_node_id, subtree_digest sha RetiredNodes c3),
      (40, retiring_node_id, subtree_digest sha RetiringNodes c4), (50, protected_node_id, subtree_digest sha ProtectedNodes c5),
      (60, checkpoints_node_id, subtree_digest sha CheckpointNodes c6),
      (70, clocks_node_id, sha (node_message clocks_node_id agent_mind_domain clocks []))]) = Inr (h, roots)"
    unfolding native_mind_state_commitment_parts_def
    by (auto simp: and_then_Inr_iff subtree_hash_ok Let_def hash_context_node_def)
  define children where "children c = (case c of FrameNodes \<Rightarrow> c1 | RelationNodes \<Rightarrow> c2 | RetiredNodes \<Rightarrow> c3 | RetiringNodes \<Rightarrow> c4
      | ProtectedNodes \<Rightarrow> c5 | CheckpointNodes \<Rightarrow> c6 | ClockNodes \<Rightarrow> [])" for c
  have "\<forall>c. c \<noteq> ClockNodes \<longrightarrow> collection_children sha s c = Inr (children c)"
  proof (intro allI impI)
    fix c assume "c \<noteq> ClockNodes"
    then show "collection_children sha s c = Inr (children c)" using cs by (cases c) (simp_all add: children_def)
  qed
  moreover have "map_ok (\<lambda>state_hash. (state_hash, all_roots sha children clocks))
      (native_mind_state_hash_from_roots sha (ms_version s) (all_roots sha children clocks)) = Inr (h, roots)"
    using rest by (simp add: all_roots_def children_def)
  ultimately show ?shape using clocks by (auto simp: all_roots_hash)
next
  assume ?shape
  then obtain children clocks where cs: "\<And>c. c \<noteq> ClockNodes \<Longrightarrow> collection_children sha s c = Inr (children c)"
    and clocks: "encode_context_value (ClocksNode (ms_clocks s)) = Inr clocks" "roots = all_roots sha children clocks"
      "h = sha (state_message (ms_version s) roots)" by blast
  have "native_mind_state_hash_from_roots sha (ms_version s) (all_roots sha children clocks) = Inr h"
    using clocks by (simp add: all_roots_hash)
  then show ?parts
    using cs [of FrameNodes] cs [of RelationNodes] cs [of RetiredNodes] cs [of RetiringNodes] cs [of ProtectedNodes] cs [of CheckpointNodes] clocks
    by (simp add: native_mind_state_commitment_parts_def subtree_hash_ok hash_context_node_def Let_def all_roots_def)
qed

lemma children_plain:
  assumes "hex_digests sha" "collection_children sha s c = Inr cs"
  shows "list_all plain_child cs"
proof -
  have ordered: "list_all plain_child cs" if "try_map (ordered_value_descriptor sha) (enumerate 0 vs) = Inr cs" for vs
  proof -
    have "plain_child (cs ! i)" if "i < length cs" for i
      using ordered_children [OF \<open>try_map _ (enumerate 0 vs) = _\<close>] that
      by (intro descriptor_plain [OF assms(1), of "int i" "vs ! i"]) (auto simp: i64_limit_def)
    then show ?thesis by (simp add: list_all_length)
  qed
  have unordered: "list_all plain_child cs" if "try_map (unordered_value_descriptor sha) vs = Inr cs" for vs
    using try_map_pairs(2) [OF that] descriptor_plain [OF assms(1)] by (force simp: list_all_iff unordered_value_descriptor_def)
  from assms(2) ordered unordered show ?thesis by (cases c) simp_all
qed

lemma set_sort_commitments [simp]: "set (sort_commitments cs) = set cs"
  by (simp add: sort_commitments_def)

lemma subtree_binds:
  assumes "subtree_digest sha c cs = subtree_digest sha c ds" "collection_children sha s c = Inr cs" "collection_children sha t c = Inr ds"
    "hex_digests sha" "collision_free sha s t"
  shows "set cs = set ds"
proof -
  have "node_message (root_id c) agent_mind_domain (root_text c) (sort_commitments cs) \<in> hashed sha s"
    "node_message (root_id c) agent_mind_domain (root_text c) (sort_commitments ds) \<in> hashed sha t"
    using assms(2,3) unfolding hashed_def collection_texts_def by blast+
  then have "node_message (root_id c) agent_mind_domain (root_text c) (sort_commitments cs) =
      node_message (root_id c) agent_mind_domain (root_text c) (sort_commitments ds)"
    using assms(1,5) unfolding collision_free_def subtree_digest_def by blast
  moreover have "list_all plain_child (sort_commitments cs)" "list_all plain_child (sort_commitments ds)"
    using children_plain [OF assms(4)] assms(2,3) by (auto simp: list_all_iff)
  ultimately have "sort_commitments cs = sort_commitments ds" by (rule node_message_readable)
  then show ?thesis by (metis set_sort_commitments)
qed

lemma state_nodes_of:
  assumes "state_wf s"
  shows "nodes_of s FrameNodes (map FrameNode (ms_frames s))" "nodes_of s RelationNodes (map RelationNode (ms_relations s))"
    "nodes_of s RetiredNodes (map RetiredNode (ms_retired s))" "nodes_of s RetiringNodes (map (\<lambda>kr. RetiringNode (snd kr)) (ms_retiring s))"
    "nodes_of s ProtectedNodes (map ProtectedNode (ms_protected s))" "nodes_of s CheckpointNodes (map CheckpointNode (ms_checkpoints s))"
    "nodes_of s ClockNodes [ClocksNode (ms_clocks s)]"
  using assms by (auto simp: state_wf_def nodes_of_def state_values_def list_all_iff)

lemma retiring_by_values:
  fixes m n :: "(ustring \<times> frame_retirement) list"
  assumes "bt_wf m" "bt_wf n" "list_all (\<lambda>(k, r). k = rt_frame_id r) m" "list_all (\<lambda>(k, r). k = rt_frame_id r) n" "snd ` set m = snd ` set n"
  shows "m = n"
proof -
  have pairs: "set l = (\<lambda>r. (rt_frame_id r, r)) ` snd ` set l" if "list_all (\<lambda>(k, r). k = rt_frame_id r) l" for l :: "(ustring \<times> frame_retirement) list"
    using that by (force simp: list_all_iff image_iff)
  have "set m = set n" using pairs [OF assms(3)] pairs [OF assms(4)] assms(5) by simp
  moreover have "bt_get l k = Some v \<longleftrightarrow> (k, v) \<in> set l" if "bt_wf l" for l :: "(ustring \<times> frame_retirement) list" and k v
    by (rule iffI) (erule bt_get_in_set, erule bt_get_wf [OF that])
  ultimately have "bt_get m k = Some v \<longleftrightarrow> bt_get n k = Some v" for k v using assms(1,2) by simp
  then have "bt_get m k = bt_get n k" for k by (metis option.exhaust)
  then have "bt_get m = bt_get n" by (rule ext)
  with assms(1,2) bt_wf_ext show ?thesis by blast
qed

lemma commitment_binds:
  assumes "native_mind_state_commitment_parts sha s = Inr (h, roots_s)" "native_mind_state_commitment_parts sha t = Inr (h, roots_t)"
    "state_wf s" "state_wf t" "hex_digests sha" "collision_free sha s t"
  shows "s = t"
proof -
  obtain cs kc where cs: "\<And>c. c \<noteq> ClockNodes \<Longrightarrow> collection_children sha s c = Inr (cs c)"
    and kc: "encode_context_value (ClocksNode (ms_clocks s)) = Inr kc" "roots_s = all_roots sha cs kc" "h = sha (state_message (ms_version s) roots_s)"
    using assms(1) unfolding parts_ok by blast
  obtain ds kd where ds: "\<And>c. c \<noteq> ClockNodes \<Longrightarrow> collection_children sha t c = Inr (ds c)"
    and kd: "encode_context_value (ClocksNode (ms_clocks t)) = Inr kd" "roots_t = all_roots sha ds kd" "h = sha (state_message (ms_version t) roots_t)"
    using assms(2) unfolding parts_ok by blast
  have "state_message (ms_version s) roots_s \<in> hashed sha s" "state_message (ms_version t) roots_t \<in> hashed sha t"
    using assms(1,2) unfolding hashed_def by blast+
  then have "state_message (ms_version s) roots_s = state_message (ms_version t) roots_t"
    using assms(6) kc(3) kd(3) unfolding collision_free_def by metis
  then have "ms_version s = ms_version t \<and> roots_s = roots_t"
    by (rule state_message_readable)
      (use assms(3,4) digest_plain [OF assms(5)] in \<open>simp_all add: state_wf_def kc(2) kd(2) all_roots_def subtree_digest_def\<close>)
  then have version: "ms_version s = ms_version t"
    and digests: "c \<noteq> ClockNodes \<Longrightarrow> subtree_digest sha c (cs c) = subtree_digest sha c (ds c)"
    and clocks: "sha (node_message clocks_node_id agent_mind_domain kc []) = sha (node_message clocks_node_id agent_mind_domain kd [])" for c
    by (cases c; simp add: kc(2) kd(2) all_roots_def)+
  have sets: "set (cs c) = set (ds c)" if "c \<noteq> ClockNodes" for c
    using subtree_binds [OF digests [OF that] cs [OF that] ds [OF that] assms(5,6)] .
  note ns = state_nodes_of [OF assms(3)] and nt = state_nodes_of [OF assms(4)]
  have "map FrameNode (ms_frames s) = map FrameNode (ms_frames t)"
    using ordered_binds [OF _ _ sets [of FrameNodes] ns(1) nt(1) assms(6)] cs [of FrameNodes] ds [of FrameNodes] by simp
  moreover have "map RelationNode (ms_relations s) = map RelationNode (ms_relations t)"
    using ordered_binds [OF _ _ sets [of RelationNodes] ns(2) nt(2) assms(6)] cs [of RelationNodes] ds [of RelationNodes] by simp
  moreover have "map CheckpointNode (ms_checkpoints s) = map CheckpointNode (ms_checkpoints t)"
    using ordered_binds [OF _ _ sets [of CheckpointNodes] ns(6) nt(6) assms(6)] cs [of CheckpointNodes] ds [of CheckpointNodes] by simp
  moreover have "RetiredNode ` set (ms_retired s) = RetiredNode ` set (ms_retired t)"
    using unordered_binds [OF _ _ sets [of RetiredNodes] ns(3) nt(3) assms(6)] cs [of RetiredNodes] ds [of RetiredNodes] by simp
  moreover have "ProtectedNode ` set (ms_protected s) = ProtectedNode ` set (ms_protected t)"
    using unordered_binds [OF _ _ sets [of ProtectedNodes] ns(5) nt(5) assms(6)] cs [of ProtectedNodes] ds [of ProtectedNodes] by simp
  moreover have "RetiringNode ` snd ` set (ms_retiring s) = RetiringNode ` snd ` set (ms_retiring t)"
    using unordered_binds [OF _ _ sets [of RetiringNodes] ns(4) nt(4) assms(6)] cs [of RetiringNodes] ds [of RetiringNodes] by (simp add: image_image)
  moreover have "ClocksNode (ms_clocks s) = ClocksNode (ms_clocks t)"
    using descriptor_binds [of sha 0 "ClocksNode (ms_clocks s)" _ 0 "ClocksNode (ms_clocks t)" s t] ns(7) nt(7) kc(1) kd(1) clocks assms(6)
    by (simp add: value_descriptor_ok native_node_id_def nodes_of_def)
  ultimately show ?thesis
    using version assms(3,4) retiring_by_values [of "ms_retiring s" "ms_retiring t"] bs_wf_ext [of "ms_retired s" "ms_retired t"]
      bs_wf_ext [of "ms_protected s" "ms_protected t"]
    by (intro mind_state.equality) (simp_all add: state_wf_def inj_map_eq_map inj_image_eq_iff inj_def)
qed

lemma state_hash_parts: "context_state_hash sha s = Inr h \<longleftrightarrow> (\<exists>roots. native_mind_state_commitment_parts sha s = Inr (h, roots))"
  by (auto simp: context_state_hash_def context_state_commitment_def map_ok_Inr_iff)

section \<open>Which states have a commitment\<close>

lemma node_id_exists: "\<exists>i. native_node_id sha (node_collection v) (logical_id v) = Inr i"
  using clocks_identity [of v] by (auto simp: native_node_id_def)

lemma descriptor_exists: "is_ok (value_descriptor sha order v) \<longleftrightarrow> is_ok (encode_context_value v)"
  using node_id_exists [of sha v] by (auto simp: is_ok_iff value_descriptor_ok)

lemma ordered_exists:
  "is_ok (try_map (ordered_value_descriptor sha) (enumerate 0 vs)) \<longleftrightarrow>
     length vs \<le> i64_limit + 1 \<and> (\<forall>v \<in> set vs. is_ok (encode_context_value v))"
proof -
  have "is_ok (ordered_value_descriptor sha (i, v)) \<longleftrightarrow> i \<le> i64_limit \<and> is_ok (encode_context_value v)" for i v
    by (simp add: ordered_value_descriptor_def descriptor_exists)
  then have "is_ok (try_map (ordered_value_descriptor sha) (enumerate 0 vs)) \<longleftrightarrow>
      (\<forall>i < length vs. i \<le> i64_limit \<and> is_ok (encode_context_value (vs ! i)))"
    by (simp add: try_map_ok in_set_enumerate_eq Ball_def)
  also have "\<dots> \<longleftrightarrow> length vs \<le> i64_limit + 1 \<and> (\<forall>v \<in> set vs. is_ok (encode_context_value v))"
    by (force simp: all_set_conv_all_nth less_Suc_eq_le dest: spec [of _ "length vs - 1"])
  finally show ?thesis .
qed

lemma unordered_exists: "is_ok (try_map (unordered_value_descriptor sha) vs) \<longleftrightarrow> (\<forall>v \<in> set vs. is_ok (encode_context_value v))"
  by (simp add: try_map_ok unordered_value_descriptor_def descriptor_exists)

lemma state_hash_children:
  "is_ok (context_state_hash sha s) \<longleftrightarrow>
     (\<forall>c. c \<noteq> ClockNodes \<longrightarrow> is_ok (collection_children sha s c)) \<and> is_ok (encode_context_value (ClocksNode (ms_clocks s)))"
  (is "?hash \<longleftrightarrow> ?children \<and> ?clocks")
proof
  assume ?hash
  then show "?children \<and> ?clocks" by (auto simp: is_ok_iff state_hash_parts parts_ok)
next
  assume *: "?children \<and> ?clocks"
  then obtain clocks where clocks: "encode_context_value (ClocksNode (ms_clocks s)) = Inr clocks" by (auto simp: is_ok_iff)
  from * have "\<forall>c. \<exists>cs. c \<noteq> ClockNodes \<longrightarrow> collection_children sha s c = Inr cs" by (auto simp: is_ok_iff)
  then obtain cs where "\<forall>c. c \<noteq> ClockNodes \<longrightarrow> collection_children sha s c = Inr (cs c)" by metis
  with clocks show ?hash unfolding is_ok_iff state_hash_parts parts_ok by blast
qed

lemma commitment_exists:
  "is_ok (context_state_hash sha s) \<longleftrightarrow>
     (\<forall>f \<in> set (ms_frames s). body_within 126 f) \<and> (\<forall>c \<in> set (ms_checkpoints s). \<forall>f \<in> set (ck_frames c). body_within 124 f) \<and>
     length (ms_frames s) \<le> i64_limit + 1 \<and> length (ms_relations s) \<le> i64_limit + 1 \<and> length (ms_checkpoints s) \<le> i64_limit + 1"
proof -
  have all: "(\<forall>c. c \<noteq> ClockNodes \<longrightarrow> P c) \<longleftrightarrow>
      P FrameNodes \<and> P RelationNodes \<and> P RetiredNodes \<and> P RetiringNodes \<and> P ProtectedNodes \<and> P CheckpointNodes" for P
    by (metis context_collection.exhaust context_collection.distinct)
  show ?thesis
    unfolding state_hash_children all collection_children.simps ordered_exists unordered_exists
    by (auto simp: flat_nodes_have_text frame_has_text checkpoint_has_text)
qed

section \<open>Roots in any order\<close>

lemma filter_own_key: "distinct (map f ys) \<Longrightarrow> k \<in> set ys \<Longrightarrow> filter (\<lambda>x. f k = f x) ys = [k]"
  by (induction ys) (auto simp: filter_empty_conv image_iff)

lemma sort_commitments_perm:
  assumes "mset xs = mset ys" "sorted_wrt (<) (map (\<lambda>(order, i, _). (order, i)) ys)"
  shows "sort_commitments xs = ys"
proof -
  let ?key = "\<lambda>(order :: int, i :: ustring, _ :: ustring). (order, i)"
  have keys: "distinct (map ?key ys)" "sorted (map ?key ys)" using assms(2) unfolding strict_sorted_iff by simp_all
  have "filter (\<lambda>x. ?key k = ?key x) ys = filter (\<lambda>x. ?key k = ?key x) xs" if "k \<in> set ys" for k
  proof -
    have "mset (filter (\<lambda>x. ?key k = ?key x) xs) = mset (filter (\<lambda>x. ?key k = ?key x) ys)" using assms(1) by simp
    then show ?thesis unfolding filter_own_key [OF keys(1) that] by (metis mset_single_iff mset.simps)
  qed
  then show ?thesis
    unfolding sort_commitments_def using assms(1) keys(2) by (intro properties_for_sort_key) simp_all
qed

lemma all_roots_sorted: "sorted_wrt (<) (map (\<lambda>(order, i, _). (order, i)) (all_roots sha children clocks))"
  by (simp add: all_roots_def)

lemma roots_in_any_order:
  assumes "native_mind_state_commitment_parts sha s = Inr (h, roots)" "mset roots' = mset roots"
  shows "native_mind_state_hash_from_roots sha (ms_version s) roots' = Inr h"
proof -
  obtain children clocks where roots: "roots = all_roots sha children clocks" "h = sha (state_message (ms_version s) roots)"
    using assms(1) unfolding parts_ok by blast
  then have "sort_commitments roots' = all_roots sha children clocks"
    using assms(2) all_roots_sorted by (intro sort_commitments_perm) simp_all
  then show ?thesis using all_roots_hash [of sha "ms_version s" children clocks] roots
    by (simp add: native_mind_state_hash_from_roots_def sort_all_roots)
qed

end
