(* ===== verification/Context_Examples.thy ===== *)
theory Context_Examples
  imports Context_Binding
begin

text \<open>
  Concrete states for the properties of the context: two frames in both orders, a frame whose body
  is too deep for a checkpoint, and a digest without collisions on byte strings.
\<close>

definition unary_digest :: "nat list \<Rightarrow> ustring" where
  "unary_digest bs = concat (map (\<lambda>b. replicate b 97 @ [98]) bs)"

lemma unary_block: "replicate m (97::nat) @ 98 # r = replicate n 97 @ 98 # s \<longleftrightarrow> m = n \<and> r = s"
  using delimited [of 98 "replicate m 97" "replicate n 97" r s] by (auto simp: replicate_eq_replicate)

lemma unary_digest_inject: "unary_digest a = unary_digest b \<longleftrightarrow> a = b"
proof (induction a arbitrary: b)
  case Nil
  show ?case by (cases b) (simp_all add: unary_digest_def)
next
  case (Cons x a)
  show ?case
  proof (cases b)
    case (Cons y b')
    then show ?thesis using Cons.IH [of b'] unary_block [of x "unary_digest a" y "unary_digest b'"] by (simp add: unary_digest_def)
  qed (simp add: unary_digest_def)
qed

lemma unary_digest_hex: "hex_digests unary_digest"
  by (auto simp: hex_digests_def unary_digest_def)

lemma unary_collision_free: "collision_free unary_digest s t"
  by (simp add: collision_free_def unary_digest_inject)

definition example_frame :: "ustring \<Rightarrow> sx \<Rightarrow> context_frame" where
  "example_frame i body =
     \<lparr>cf_id = i, cf_body = sexpr_to_string body, cf_sources = [lit ''obs 1''],
      cf_provenance = \<lparr>fp_formed_principal_id = Some (lit ''p''), fp_formed_session_id = None, fp_source_principal_ids = [],
        fp_source_session_ids = [], fp_state = Attributed\<rparr>,
      cf_revision = 1, cf_created_version = 1, cf_updated_version = 1\<rparr>"

definition example_body :: sx where
  "example_body = SxList [SxAtom (lit ''fact''), SxAtom (lit ''a b'')]"

definition empty_clocks :: mutation_clocks where
  "empty_clocks = \<lparr>mc_tracking_started_version = None, mc_lifecycle_versions = [], mc_relation_versions = [],
     mc_frame_order_version = 0, mc_checkpoint_versions = [], mc_global_barrier_version = 0\<rparr>"

definition example_checkpoint :: "context_frame list \<Rightarrow> mind_checkpoint" where
  "example_checkpoint fs = \<lparr>ck_id = lit ''c'', ck_frames = fs, ck_relations = [], ck_retired = [], ck_retiring = [], ck_protected = [],
     ck_created_version = 1\<rparr>"

definition example_mind :: "context_frame list \<Rightarrow> mind_checkpoint list \<Rightarrow> mind_state" where
  "example_mind fs cs = \<lparr>ms_version = 1, ms_frames = fs, ms_relations = [], ms_retired = [lit ''old''], ms_retiring = [],
     ms_protected = [], ms_checkpoints = cs, ms_clocks = empty_clocks\<rparr>"

definition first_frame :: context_frame where
  "first_frame = example_frame (lit ''f1'') example_body"

definition second_frame :: context_frame where
  "second_frame = example_frame (lit ''f2'') example_body"

fun nest :: "nat \<Rightarrow> sx" where
  "nest 0 = SxAtom (lit ''x'')"
| "nest (Suc n) = SxList [nest n]"

lemma depth_nest [simp]: "sx_depth (nest n) = n"
  by (induction n) simp_all

definition deep_frame :: context_frame where
  "deep_frame = example_frame (lit ''deep'') (nest 125)"

lemma example_frame_within: "body_within n (example_frame i body) \<longleftrightarrow> sx_depth body \<le> n"
  by (simp add: example_frame_def body_within_unique)

lemma example_mind_wf: "state_wf (example_mind [example_frame i b, example_frame j c] [])"
  by (simp add: state_wf_def example_mind_def state_values_def example_frame_def frame_wf_def empty_clocks_def clocks_wf_def versions_wf_def
      u64_limit_def bs_wf_def)

lemma example_mind_hash: "\<exists>h. context_state_hash sha (example_mind [first_frame, second_frame] []) = Inr h"
  using commitment_exists [of sha "example_mind [first_frame, second_frame] []"]
  by (simp add: is_ok_iff example_mind_def first_frame_def second_frame_def example_frame_within example_body_def i64_limit_def)

lemma frames_differ: "example_mind [first_frame, second_frame] [] \<noteq> example_mind [second_frame, first_frame] []"
  by (simp add: example_mind_def first_frame_def second_frame_def example_frame_def)

lemma first_frame_text: "\<exists>body. encode_context_value (FrameNode first_frame) = Inr body \<and> node_wf (FrameNode first_frame)"
  using frame_has_text [of first_frame]
  by (simp add: is_ok_iff first_frame_def example_frame_within example_body_def) (simp add: example_frame_def frame_wf_def u64_limit_def)

end
