(* ===== verification/Context_Transaction.thy ===== *)
theory Context_Transaction
  imports Context_State
begin

text \<open>
  Context transactions as text (\<open>morphz/src/orchestrator/context.rs\<close>): reading and normalising them,
  the identifiers they may name, resolving short references, and their canonical text.
\<close>

text \<open>
  Errors by kind: the text is no expression, a form is malformed (what is wrong, and the label of the
  message), an identifier is refused (why, and which), a relation is, or a version is stale.
\<close>

datatype tx_error =
  TxUnreadable parser_error
| BodyUnstable parser_error
| Malformed string string
| Refused string ustring
| RelationRefused string ustring ustring ustring
| Stale string nat nat
| OrderTooLarge context_collection

section \<open>Accessors\<close>

definition tx_as_list :: "sx \<Rightarrow> string \<Rightarrow> tx_error + sx list" where
  "tx_as_list e label = (case e of SxList items \<Rightarrow> Inr items | SxAtom _ \<Rightarrow> Inl (Malformed ''list expected'' label))"

definition as_atom :: "sx \<Rightarrow> string \<Rightarrow> tx_error + ustring" where
  "as_atom e label = (case e of SxAtom s \<Rightarrow> Inr s | SxList _ \<Rightarrow> Inl (Malformed ''atom expected'' label))"

definition atom_at :: "sx list \<Rightarrow> nat \<Rightarrow> string \<Rightarrow> tx_error + ustring" where
  "atom_at items i label = (if i < length items then as_atom (items ! i) label else Inl (Malformed ''missing'' label))"

definition expect_head :: "sx list \<Rightarrow> string \<Rightarrow> tx_error + unit" where
  "expect_head items expected =
     and_then (atom_at items 0 ''list head'') (\<lambda>actual.
       if actual = lit expected then Inr () else Inl (Refused (''expected '' @ expected) actual))"

definition require_len :: "sx list \<Rightarrow> nat \<Rightarrow> string \<Rightarrow> tx_error + unit" where
  "require_len items n usage = require (length items = n) (Malformed ''form'' usage)"

definition require_min_len :: "sx list \<Rightarrow> nat \<Rightarrow> string \<Rightarrow> tx_error + unit" where
  "require_min_len items n usage = require (n \<le> length items) (Malformed ''form'' usage)"

definition tx_list :: "string \<Rightarrow> sx list \<Rightarrow> sx" where
  "tx_list key vs = SxList (SxAtom (lit key) # vs)"

definition id_char :: "uchar \<Rightarrow> bool" where
  "id_char c \<longleftrightarrow> 48 \<le> c \<and> c \<le> 57 \<or> 65 \<le> c \<and> c \<le> 90 \<or> 97 \<le> c \<and> c \<le> 122 \<or> c = 45 \<or> c = 95 \<or> c = 58 \<or> c = 46"

definition validated_id :: "ustring \<Rightarrow> tx_error + ustring" where
  "validated_id i =
     (if i = [] \<or> 512 < utf8_len i then Inl (Refused ''id length'' i)
      else if \<not> list_all id_char i then Inl (Refused ''id characters'' i)
      else Inr i)"

definition parse_sources :: "sx \<Rightarrow> tx_error + ustring list" where
  "parse_sources e =
     and_then (tx_as_list e ''from'') (\<lambda>items.
     and_then (expect_head items ''from'') (\<lambda>_.
       if length items < 2 then Inl (Malformed ''missing'' ''source'')
       else try_map (\<lambda>item. and_then (as_atom item ''source id'') validated_id) (tl items)))"

section \<open>Reading\<close>

record parsed_transaction =
  pt_base_version :: nat
  pt_reason :: "ustring option"
  pt_operations :: "sx list"

definition context_operations :: "ustring list" where
  "context_operations = map lit
     [''create'', ''derive'', ''revise'', ''retire'', ''restore'', ''retire-session'', ''restore-session'', ''protect'', ''unprotect'',
      ''place'', ''relate'', ''unrelate'', ''checkpoint'', ''rollback'', ''drop-checkpoint'']"

text \<open>\<open>nested_operation\<close>: the head of the first operation form inside an expression.\<close>

fun nested_operation :: "sx \<Rightarrow> ustring option" where
  "nested_operation (SxAtom s) = None"
| "nested_operation (SxList items) =
     (let inner = foldr (\<lambda>e found. case nested_operation e of Some h \<Rightarrow> Some h | None \<Rightarrow> found) items None in
      case items of
        SxAtom h # _ \<Rightarrow> if h \<in> set context_operations \<or> h = lit ''finalize-retirement'' then Some h else inner
      | _ \<Rightarrow> inner)"

definition reject_nested_context_operations :: "sx list \<Rightarrow> tx_error + unit" where
  "reject_nested_context_operations bodies =
     (case foldr (\<lambda>e found. case nested_operation e of Some h \<Rightarrow> Some h | None \<Rightarrow> found) bodies None of
        Some h \<Rightarrow> Inl (Refused ''nested operation'' h) | None \<Rightarrow> Inr ())"

definition normalize_body_tail :: "sx list \<Rightarrow> nat \<Rightarrow> sx list" where
  "normalize_body_tail items start =
     (if length items - start \<le> 1 then items else take start items @ [tx_list ''context-body'' (drop start items)])"

definition is_from_expression :: "sx \<Rightarrow> bool" where
  "is_from_expression e \<longleftrightarrow> (case e of SxList (SxAtom h # _) \<Rightarrow> h = lit ''from'' | _ \<Rightarrow> False)"

definition from_at :: "sx list \<Rightarrow> nat \<Rightarrow> bool" where
  "from_at items i \<longleftrightarrow> i < length items \<and> is_from_expression (items ! i)"

definition normalize_operation :: "sx \<Rightarrow> tx_error + sx" where
  "normalize_operation operation =
     and_then (tx_as_list operation ''context operation'') (\<lambda>items.
     and_then (atom_at items 0 ''operation name'') (\<lambda>name.
       if name = lit ''create'' then
         (if length items < 3 then Inl (Malformed ''missing body'' ''create'')
          else if list_ex is_from_expression (drop 2 items) then Inl (Malformed ''form'' ''create with from'')
          else and_then (reject_nested_context_operations (drop 2 items)) (\<lambda>_. Inr (SxList (normalize_body_tail items 2))))
       else if name = lit ''derive'' then
         (if length items < 4 \<or> \<not> from_at items 2 then Inl (Malformed ''form'' ''derive'')
          else and_then (reject_nested_context_operations (drop 3 items)) (\<lambda>_. Inr (SxList (normalize_body_tail items 3))))
       else if name = lit ''revise'' then
         (if length items < 3 then Inl (Malformed ''missing body'' ''revise'')
          else if from_at items 2 then
            (if length items < 4 then Inl (Malformed ''missing body'' ''revise'')
             else and_then (reject_nested_context_operations (drop 3 items)) (\<lambda>_. Inr (SxList (normalize_body_tail items 3))))
          else and_then (reject_nested_context_operations (drop 2 items)) (\<lambda>_. Inr (SxList (normalize_body_tail items 2))))
       else Inr operation))"

definition normalize_transaction_bodies :: "parsed_transaction \<Rightarrow> tx_error + parsed_transaction" where
  "normalize_transaction_bodies tx =
     map_ok (\<lambda>operations. tx\<lparr>pt_operations := operations\<rparr>) (try_map normalize_operation (pt_operations tx))"

definition transaction_child ::
  "nat option \<times> ustring option \<times> sx list \<Rightarrow> sx \<Rightarrow> tx_error + nat option \<times> ustring option \<times> sx list" where
  "transaction_child st item =
     (case st of (base, reason, operations) \<Rightarrow>
        and_then (tx_as_list item ''context-tx child'') (\<lambda>child.
        and_then (atom_at child 0 ''operation'') (\<lambda>head.
          if head = lit ''base-version'' then
            (if length child \<noteq> 2 \<or> base \<noteq> None then Inl (Malformed ''form'' ''base-version'')
             else and_then (atom_at child 1 ''base-version'') (\<lambda>s.
               and_then (ok_or (parse_u64 s) (Malformed ''number'' ''base-version'')) (\<lambda>n. Inr (Some n, reason, operations))))
          else if head = lit ''reason'' then
            (if length child \<noteq> 2 \<or> reason \<noteq> None then Inl (Malformed ''form'' ''reason'')
             else and_then (atom_at child 1 ''reason'') (\<lambda>s. Inr (base, Some s, operations)))
          else Inr (base, reason, operations @ [item]))))"

definition transaction_of :: "sx \<Rightarrow> tx_error + parsed_transaction" where
  "transaction_of e =
     and_then (tx_as_list e ''context transaction'') (\<lambda>items.
     and_then (expect_head items ''context-tx'') (\<lambda>_.
     and_then (try_fold transaction_child (None, None, []) (tl items)) (\<lambda>(base, reason, operations).
       if operations = [] then Inl (Malformed ''missing'' ''operation'')
       else and_then (ok_or base (Malformed ''missing'' ''base-version'')) (\<lambda>n.
         normalize_transaction_bodies \<lparr>pt_base_version = n, pt_reason = reason, pt_operations = operations\<rparr>))))"

definition parse_transaction :: "ustring \<Rightarrow> tx_error + parsed_transaction" where
  "parse_transaction input = and_then (map_err TxUnreadable (sx_parse input)) transaction_of"

definition rendered_transaction :: "parsed_transaction \<Rightarrow> sx" where
  "rendered_transaction tx =
     SxList ([SxAtom (lit ''context-tx''), tx_list ''base-version'' [SxAtom (decimal (pt_base_version tx))]] @
       (case pt_reason tx of Some r \<Rightarrow> [tx_list ''reason'' [SxAtom r]] | None \<Rightarrow> []) @ pt_operations tx)"

definition render_parsed_transaction :: "parsed_transaction \<Rightarrow> ustring" where
  "render_parsed_transaction tx = sexpr_to_string (rendered_transaction tx)"

section \<open>References\<close>

definition event_reference_prefix :: ustring where
  "event_reference_prefix = lit ''@e''"

text \<open>The part of \<open>ContextReferences\<close> that resolves: the identifiers by alias.\<close>

type_synonym context_references = "ustring \<Rightarrow> ustring option"

definition resolve_reference :: "context_references \<Rightarrow> ustring \<Rightarrow> tx_error + ustring" where
  "resolve_reference refs r =
     (if \<not> starts_with r event_reference_prefix then Inr r else ok_or (refs r) (Refused ''short reference'' r))"

definition resolve_reference_atom :: "context_references \<Rightarrow> sx \<Rightarrow> tx_error + sx" where
  "resolve_reference_atom refs e =
     (case e of SxAtom r \<Rightarrow> map_ok SxAtom (resolve_reference refs r) | SxList _ \<Rightarrow> Inl (Malformed ''atom expected'' ''Context reference''))"

definition resolve_tail :: "context_references \<Rightarrow> sx list \<Rightarrow> tx_error + sx list" where
  "resolve_tail refs items = map_ok ((@) (take 1 items)) (try_map (resolve_reference_atom refs) (drop 1 items))"

definition resolve_from_references :: "context_references \<Rightarrow> sx \<Rightarrow> tx_error + sx" where
  "resolve_from_references refs e =
     (case e of
        SxList items \<Rightarrow> and_then (expect_head items ''from'') (\<lambda>_. map_ok SxList (resolve_tail refs items))
      | SxAtom _ \<Rightarrow> Inl (Malformed ''list expected'' ''from''))"

definition resolve_index :: "context_references \<Rightarrow> sx list \<Rightarrow> nat \<Rightarrow> tx_error + sx list" where
  "resolve_index refs items i =
     (if i < length items then map_ok (\<lambda>e. items[i := e]) (resolve_reference_atom refs (items ! i))
      else Inl (Malformed ''missing'' ''reference arguments''))"

definition resolve_operation :: "context_references \<Rightarrow> sx \<Rightarrow> tx_error + sx" where
  "resolve_operation refs operation =
     and_then (tx_as_list operation ''context operation'') (\<lambda>items.
     and_then (atom_at items 0 ''operation name'') (\<lambda>name.
       if name = lit ''derive'' then
         (if 2 < length items then map_ok (\<lambda>e. SxList (items[2 := e])) (resolve_from_references refs (items ! 2))
          else Inl (Malformed ''missing'' ''from''))
       else if name = lit ''revise'' \<and> length items = 4 then
         map_ok (\<lambda>e. SxList (items[2 := e])) (resolve_from_references refs (items ! 2))
       else if name \<in> set (map lit [''retire'', ''restore'', ''protect'', ''unprotect'']) then
         map_ok SxList (resolve_tail refs items)
       else if name = lit ''relate'' \<or> name = lit ''unrelate'' then
         map_ok SxList (and_then (resolve_index refs items 1) (\<lambda>items. resolve_index refs items 3))
       else Inr operation))"

definition resolve_transaction_references :: "context_references \<Rightarrow> parsed_transaction \<Rightarrow> tx_error + parsed_transaction" where
  "resolve_transaction_references refs tx =
     map_ok (\<lambda>operations. tx\<lparr>pt_operations := operations\<rparr>) (try_map (resolve_operation refs) (pt_operations tx))"

definition source_candidates :: "sx list \<Rightarrow> tx_error + ustring list" where
  "source_candidates items =
     (if 2 < length items then
        and_then (tx_as_list (items ! 2) ''from'') (\<lambda>sources.
        and_then (expect_head sources ''from'') (\<lambda>_. try_map (\<lambda>e. as_atom e ''source'') (tl sources)))
      else Inl (Malformed ''missing'' ''from''))"

definition operation_candidates :: "sx \<Rightarrow> tx_error + ustring list" where
  "operation_candidates operation =
     and_then (tx_as_list operation ''context operation'') (\<lambda>items.
     and_then (atom_at items 0 ''operation name'') (\<lambda>name.
       if name \<in> set (map lit [''create'', ''checkpoint'', ''rollback'']) then map_ok (\<lambda>i. [i]) (atom_at items 1 ''Context ID'')
       else if name = lit ''derive'' then
         and_then (atom_at items 1 ''frame ID'') (\<lambda>i. map_ok ((#) i) (source_candidates items))
       else if name = lit ''revise'' then
         and_then (atom_at items 1 ''frame ID'') (\<lambda>i.
           if length items = 4 then map_ok ((#) i) (source_candidates items) else Inr [i])
       else if name \<in> set (map lit [''retire'', ''restore'', ''protect'', ''unprotect'', ''drop-checkpoint'']) then
         try_map (\<lambda>e. as_atom e ''Context ID'') (drop 1 items)
       else if name = lit ''finalize-retirement'' then map_ok (\<lambda>i. [i]) (atom_at items 1 ''frame ID'')
       else if name = lit ''relate'' \<or> name = lit ''unrelate'' then
         and_then (atom_at items 1 ''relation subject'') (\<lambda>s. map_ok (\<lambda>t. [s, t]) (atom_at items 3 ''relation object''))
       else if name = lit ''place'' then map_ok (\<lambda>i. [i]) (atom_at items 1 ''frame ID'')
       else Inr []))"

definition transaction_reference_candidates :: "parsed_transaction \<Rightarrow> tx_error + ustring list" where
  "transaction_reference_candidates tx =
     map_ok (\<lambda>cs. bs_union [] (concat cs)) (try_map operation_candidates (pt_operations tx))"

definition retire_targets_allowed :: "ustring list \<Rightarrow> sx \<Rightarrow> tx_error + unit" where
  "retire_targets_allowed guarded operation =
     and_then (tx_as_list operation ''context operation'') (\<lambda>items.
     and_then (atom_at items 0 ''operation name'') (\<lambda>name.
       if name \<noteq> lit ''retire'' then Inr ()
       else map_ok (\<lambda>_. ()) (try_map (\<lambda>item. and_then (as_atom item ''retire target'') (\<lambda>i.
         require (i \<notin> set guarded) (Refused ''causally protected'' i))) (drop 1 items))))"

definition reject_causally_protected_retirements :: "ustring list \<Rightarrow> parsed_transaction \<Rightarrow> tx_error + unit" where
  "reject_causally_protected_retirements guarded tx =
     (if guarded = [] then Inr () else map_ok (\<lambda>_. ()) (try_map (retire_targets_allowed guarded) (pt_operations tx)))"

end
