(* ===== verification/Context_Apply.thy ===== *)
theory Context_Apply
  imports Context_Transaction "HOL-Library.Product_Lexorder"
begin

text \<open>
  Applying a transaction to a state (\<open>morphz/src/orchestrator/context.rs\<close>): one definition per
  operation, which changes the next state, the accumulated mutations and the list of changes, then
  the closing sweep over retirements with a successor. Versions are \<open>u64\<close> and wrap as in a release
  build.
\<close>

section \<open>Collections are ordered\<close>

fun collection_rank :: "context_collection \<Rightarrow> nat" where
  "collection_rank FrameNodes = 0"
| "collection_rank RelationNodes = 1"
| "collection_rank RetiredNodes = 2"
| "collection_rank RetiringNodes = 3"
| "collection_rank ProtectedNodes = 4"
| "collection_rank CheckpointNodes = 5"
| "collection_rank ClockNodes = 6"

lemma collection_rank_inject: "collection_rank c = collection_rank d \<longleftrightarrow> c = d"
  by (cases c; cases d) simp_all

instantiation context_collection :: linorder
begin

definition less_eq_context_collection :: "context_collection \<Rightarrow> context_collection \<Rightarrow> bool" where
  "less_eq_context_collection c d \<longleftrightarrow> collection_rank c \<le> collection_rank d"

definition less_context_collection :: "context_collection \<Rightarrow> context_collection \<Rightarrow> bool" where
  "less_context_collection c d \<longleftrightarrow> collection_rank c < collection_rank d"

instance
  by intro_classes (auto simp: less_eq_context_collection_def less_context_collection_def collection_rank_inject)

end

section \<open>Formation and retirement policy\<close>

definition u64_inc :: "nat \<Rightarrow> nat" where
  "u64_inc n = (n + 1) mod 2 ^ 64"

record frame_retirement_policy =
  rp_staged :: bool
  rp_cognitive_tick :: nat
  rp_cooling_ticks :: nat

definition legacy_immediate :: frame_retirement_policy where
  "legacy_immediate = \<lparr>rp_staged = False, rp_cognitive_tick = 0, rp_cooling_ticks = 0\<rparr>"

definition cognitive_policy :: "nat \<Rightarrow> nat \<Rightarrow> frame_retirement_policy" where
  "cognitive_policy tick cooling = \<lparr>rp_staged = True, rp_cognitive_tick = tick, rp_cooling_ticks = cooling\<rparr>"

record source_origin =
  so_principal_id :: "ustring option"
  so_session_id :: "ustring option"

record frame_formation =
  ff_enabled :: bool
  ff_principal_id :: "ustring option"
  ff_session_id :: "ustring option"
  ff_origins :: "(ustring \<Rightarrow> source_origin option) option"

definition default_provenance :: frame_identity_provenance where
  "default_provenance = \<lparr>fp_formed_principal_id = None, fp_formed_session_id = None, fp_source_principal_ids = [],
     fp_source_session_ids = [], fp_state = ProvenanceUnknown\<rparr>"

definition direct_frame_provenance :: "frame_formation \<Rightarrow> frame_identity_provenance" where
  "direct_frame_provenance fm =
     (if \<not> ff_enabled fm then default_provenance
      else default_provenance\<lparr>fp_formed_principal_id := ff_principal_id fm, fp_formed_session_id := ff_session_id fm, fp_state := Unattributed\<rparr>)"

definition insert_option :: "ustring option \<Rightarrow> ustring list \<Rightarrow> ustring list" where
  "insert_option v ids = (case v of Some i \<Rightarrow> bs_insert i ids | None \<Rightarrow> ids)"

definition find_frame :: "mind_state \<Rightarrow> ustring \<Rightarrow> context_frame option" where
  "find_frame s i = find (\<lambda>f. cf_id f = i) (ms_frames s)"

definition add_source :: "mind_state \<Rightarrow> frame_formation \<Rightarrow> ustring \<Rightarrow> ustring list \<times> ustring list \<Rightarrow> ustring list \<times> ustring list" where
  "add_source s fm source ids =
     (case ids of (principals, sessions) \<Rightarrow>
        case Option.bind (ff_origins fm) (\<lambda>origins. origins source) of
          Some origin \<Rightarrow> (insert_option (so_principal_id origin) principals, insert_option (so_session_id origin) sessions)
        | None \<Rightarrow>
            (case find_frame s source of
               None \<Rightarrow> (principals, sessions)
             | Some f \<Rightarrow>
                 let p = cf_provenance f;
                     principals = bs_union principals (fp_source_principal_ids p);
                     sessions = bs_union sessions (fp_source_session_ids p) in
                 (if fp_source_principal_ids p = [] then insert_option (fp_formed_principal_id p) principals else principals,
                  if fp_source_session_ids p = [] then insert_option (fp_formed_session_id p) sessions else sessions)))"

definition derived_frame_provenance :: "mind_state \<Rightarrow> ustring list \<Rightarrow> frame_formation \<Rightarrow> frame_identity_provenance" where
  "derived_frame_provenance s sources fm =
     (if \<not> ff_enabled fm then default_provenance
      else case fold (add_source s fm) sources ([], []) of (principals, sessions) \<Rightarrow>
        \<lparr>fp_formed_principal_id = ff_principal_id fm, fp_formed_session_id = ff_session_id fm, fp_source_principal_ids = principals,
         fp_source_session_ids = sessions, fp_state = (if principals \<noteq> [] \<or> sessions \<noteq> [] then Attributed else ProvenanceUnknown)\<rparr>)"

section \<open>The mutations of a transaction\<close>

definition frame_index :: "mind_state \<Rightarrow> ustring \<Rightarrow> nat option" where
  "frame_index s i = find (\<lambda>n. cf_id (ms_frames s ! n) = i) [0..<length (ms_frames s)]"

definition context_relation_identity :: "context_relation \<Rightarrow> ustring" where
  "context_relation_identity r = relation_logical_id (cr_subject r) (cr_relation r) (cr_object r)"

fun baseline_contains_context_record :: "mind_state \<Rightarrow> context_collection \<Rightarrow> ustring \<Rightarrow> bool" where
  "baseline_contains_context_record s FrameNodes i \<longleftrightarrow> list_ex (\<lambda>f. cf_id f = i) (ms_frames s)"
| "baseline_contains_context_record s RelationNodes i \<longleftrightarrow> list_ex (\<lambda>r. context_relation_identity r = i) (ms_relations s)"
| "baseline_contains_context_record s RetiredNodes i \<longleftrightarrow> i \<in> set (ms_retired s)"
| "baseline_contains_context_record s RetiringNodes i \<longleftrightarrow> bt_contains (ms_retiring s) i"
| "baseline_contains_context_record s ProtectedNodes i \<longleftrightarrow> i \<in> set (ms_protected s)"
| "baseline_contains_context_record s CheckpointNodes i \<longleftrightarrow> list_ex (\<lambda>c. ck_id c = i) (ms_checkpoints s)"
| "baseline_contains_context_record s ClockNodes i \<longleftrightarrow> i = lit ''mutation-clocks''"

fun baseline_context_order :: "mind_state \<Rightarrow> context_collection \<Rightarrow> ustring list option" where
  "baseline_context_order s FrameNodes = Some (map cf_id (ms_frames s))"
| "baseline_context_order s RelationNodes = Some (map context_relation_identity (ms_relations s))"
| "baseline_context_order s CheckpointNodes = Some (map ck_id (ms_checkpoints s))"
| "baseline_context_order s _ = None"

record mutation_accumulator =
  ma_writes :: "((context_collection \<times> ustring) \<times> state_mutation) list"
  ma_orders :: "(context_collection \<times> ustring list) list"
  ma_broad_replace :: bool

definition accumulator_new :: mutation_accumulator where
  "accumulator_new = \<lparr>ma_writes = [], ma_orders = [], ma_broad_replace = False\<rparr>"

definition acc_upsert :: "context_node_value \<Rightarrow> nat option \<Rightarrow> mutation_accumulator \<Rightarrow> mutation_accumulator" where
  "acc_upsert v order m = m\<lparr>ma_writes := bt_insert (node_collection v, logical_id v) (Upsert v order) (ma_writes m)\<rparr>"

definition acc_upsert_ordered :: "context_node_value \<Rightarrow> nat \<Rightarrow> mutation_accumulator \<Rightarrow> tx_error + mutation_accumulator" where
  "acc_upsert_ordered v order m =
     (if u64_limit < order then Inl (OrderTooLarge (node_collection v)) else Inr (acc_upsert v (Some order) m))"

definition acc_remove :: "mind_state \<Rightarrow> context_collection \<Rightarrow> ustring \<Rightarrow> mutation_accumulator \<Rightarrow> mutation_accumulator" where
  "acc_remove baseline c i m =
     (if baseline_contains_context_record baseline c i
      then m\<lparr>ma_writes := bt_insert (c, i) (Remove c i) (ma_writes m)\<rparr>
      else m\<lparr>ma_writes := bt_remove (c, i) (ma_writes m)\<rparr>)"

definition acc_set_order :: "mind_state \<Rightarrow> context_collection \<Rightarrow> ustring list \<Rightarrow> mutation_accumulator \<Rightarrow> mutation_accumulator" where
  "acc_set_order baseline c ids m =
     (if baseline_context_order baseline c = Some ids then m\<lparr>ma_orders := bt_remove c (ma_orders m)\<rparr>
      else m\<lparr>ma_orders := bt_insert c ids (ma_orders m)\<rparr>)"

definition acc_finish :: "mind_state \<Rightarrow> mutation_accumulator \<Rightarrow> state_mutation list" where
  "acc_finish next m =
     (if ma_broad_replace m then [ReplaceMind next]
      else map snd (ma_writes m) @ map (\<lambda>(c, ids). SetOrder c ids) (ma_orders m))"

section \<open>The transaction in progress\<close>

record context_change =
  cc_operation :: ustring
  cc_target :: ustring
  cc_detail :: "ustring option"

text \<open>What stays fixed while the operations are applied.\<close>

record tx_env =
  te_current :: mind_state
  te_reason :: "ustring option"
  te_observations :: "ustring list"
  te_policy :: frame_retirement_policy
  te_formation :: frame_formation
  te_track :: bool

record tx_state =
  ts_next :: mind_state
  ts_mutations :: mutation_accumulator
  ts_changes :: "context_change list"

definition te_version :: "tx_env \<Rightarrow> nat" where
  "te_version env = u64_inc (ms_version (te_current env))"

definition ts_upsert :: "context_node_value \<Rightarrow> tx_state \<Rightarrow> tx_state" where
  "ts_upsert v st = st\<lparr>ts_mutations := acc_upsert v None (ts_mutations st)\<rparr>"

definition ts_upsert_ordered :: "context_node_value \<Rightarrow> nat \<Rightarrow> tx_state \<Rightarrow> tx_error + tx_state" where
  "ts_upsert_ordered v order st = map_ok (\<lambda>m. st\<lparr>ts_mutations := m\<rparr>) (acc_upsert_ordered v order (ts_mutations st))"

definition ts_remove :: "tx_env \<Rightarrow> context_collection \<Rightarrow> ustring \<Rightarrow> tx_state \<Rightarrow> tx_state" where
  "ts_remove env c i st = st\<lparr>ts_mutations := acc_remove (te_current env) c i (ts_mutations st)\<rparr>"

definition ts_set_order :: "tx_env \<Rightarrow> context_collection \<Rightarrow> ustring list \<Rightarrow> tx_state \<Rightarrow> tx_state" where
  "ts_set_order env c ids st = st\<lparr>ts_mutations := acc_set_order (te_current env) c ids (ts_mutations st)\<rparr>"

definition ts_change :: "string \<Rightarrow> ustring \<Rightarrow> ustring option \<Rightarrow> tx_state \<Rightarrow> tx_state" where
  "ts_change operation target detail st =
     st\<lparr>ts_changes := ts_changes st @ [\<lparr>cc_operation = lit operation, cc_target = target, cc_detail = detail\<rparr>]\<rparr>"

definition on_next :: "(mind_state \<Rightarrow> mind_state) \<Rightarrow> tx_state \<Rightarrow> tx_state" where
  "on_next f st = st\<lparr>ts_next := f (ts_next st)\<rparr>"

definition on_clocks :: "tx_env \<Rightarrow> (mutation_clocks \<Rightarrow> mutation_clocks) \<Rightarrow> tx_state \<Rightarrow> tx_state" where
  "on_clocks env f st = (if te_track env then on_next (\<lambda>s. s\<lparr>ms_clocks := f (ms_clocks s)\<rparr>) st else st)"

definition record_lifecycle_mutation :: "tx_env \<Rightarrow> ustring \<Rightarrow> tx_state \<Rightarrow> tx_state" where
  "record_lifecycle_mutation env i st =
     on_clocks env (\<lambda>c. c\<lparr>mc_lifecycle_versions := bt_insert i (te_version env) (mc_lifecycle_versions c)\<rparr>) st"

definition record_relation_mutation :: "tx_env \<Rightarrow> ustring \<Rightarrow> ustring \<Rightarrow> ustring \<Rightarrow> tx_state \<Rightarrow> tx_state" where
  "record_relation_mutation env subject relation target st =
     on_clocks env (\<lambda>c. c\<lparr>mc_relation_versions :=
       bt_insert (relation_logical_id subject relation target) (te_version env) (mc_relation_versions c)\<rparr>) st"

definition record_checkpoint_mutation :: "tx_env \<Rightarrow> ustring \<Rightarrow> tx_state \<Rightarrow> tx_state" where
  "record_checkpoint_mutation env i st =
     on_clocks env (\<lambda>c. c\<lparr>mc_checkpoint_versions := bt_insert i (te_version env) (mc_checkpoint_versions c)\<rparr>) st"

definition record_frame_order :: "tx_env \<Rightarrow> tx_state \<Rightarrow> tx_state" where
  "record_frame_order env st = on_clocks env (\<lambda>c. c\<lparr>mc_frame_order_version := te_version env\<rparr>) st"

definition has_frame :: "mind_state \<Rightarrow> ustring \<Rightarrow> bool" where
  "has_frame s i \<longleftrightarrow> list_ex (\<lambda>f. cf_id f = i) (ms_frames s)"

definition has_checkpoint :: "mind_state \<Rightarrow> ustring \<Rightarrow> bool" where
  "has_checkpoint s i \<longleftrightarrow> list_ex (\<lambda>c. ck_id c = i) (ms_checkpoints s)"

definition ensure_known :: "tx_env \<Rightarrow> mind_state \<Rightarrow> ustring \<Rightarrow> tx_error + unit" where
  "ensure_known env s i = require (has_frame s i \<or> i \<in> set (te_observations env)) (Refused ''unknown reference'' i)"

definition ensure_unknown :: "tx_env \<Rightarrow> mind_state \<Rightarrow> ustring \<Rightarrow> tx_error + unit" where
  "ensure_unknown env s i =
     require (\<not> (has_frame s i \<or> has_checkpoint s i \<or> i \<in> set (te_observations env))) (Refused ''id exists'' i)"

definition ensure_sources_exist :: "tx_env \<Rightarrow> mind_state \<Rightarrow> ustring list \<Rightarrow> tx_error + unit" where
  "ensure_sources_exist env s sources = map_ok (\<lambda>_. ()) (try_map (ensure_known env s) sources)"

definition canonical_body :: "sx \<Rightarrow> tx_error + ustring" where
  "canonical_body e = (let body = sexpr_to_string e in map_ok (\<lambda>_. body) (map_err BodyUnstable (sx_parse body)))"

definition id_at :: "sx list \<Rightarrow> nat \<Rightarrow> string \<Rightarrow> tx_error + ustring" where
  "id_at op i label = and_then (atom_at op i label) validated_id"

section \<open>Frames\<close>

definition push_frame :: "tx_env \<Rightarrow> context_frame \<Rightarrow> tx_state \<Rightarrow> tx_error + tx_state" where
  "push_frame env f st =
     (let st = on_next (\<lambda>s. s\<lparr>ms_frames := ms_frames s @ [f]\<rparr>) st in
      map_ok (record_frame_order env) (ts_upsert_ordered (FrameNode f) (length (ms_frames (ts_next st)) - 1) st))"

definition new_frame :: "tx_env \<Rightarrow> ustring \<Rightarrow> ustring \<Rightarrow> ustring list \<Rightarrow> frame_identity_provenance \<Rightarrow> context_frame" where
  "new_frame env i body sources provenance =
     \<lparr>cf_id = i, cf_body = body, cf_sources = sources, cf_provenance = provenance, cf_revision = 1,
      cf_created_version = te_version env, cf_updated_version = te_version env\<rparr>"

definition op_create :: "tx_env \<Rightarrow> sx list \<Rightarrow> tx_state \<Rightarrow> tx_error + tx_state" where
  "op_create env op st =
     (if length op \<noteq> 3 then Inl (Malformed ''not normalized'' ''create'')
      else
        and_then (id_at op 1 ''frame id'') (\<lambda>i.
        and_then (ensure_unknown env (ts_next st) i) (\<lambda>_.
        and_then (canonical_body (op ! 2)) (\<lambda>body.
        map_ok (ts_change ''create'' i None)
          (push_frame env (new_frame env i body [] (direct_frame_provenance (te_formation env))) st)))))"

fun joined_by :: "ustring \<Rightarrow> ustring list \<Rightarrow> ustring" where
  "joined_by sep [] = []"
| "joined_by sep [x] = x"
| "joined_by sep (x # y # xs) = x @ sep @ joined_by sep (y # xs)"

definition op_derive :: "tx_env \<Rightarrow> sx list \<Rightarrow> tx_state \<Rightarrow> tx_error + tx_state" where
  "op_derive env op st =
     (if length op \<noteq> 4 then Inl (Malformed ''not normalized'' ''derive'')
      else
        and_then (id_at op 1 ''frame id'') (\<lambda>i.
        and_then (ensure_unknown env (ts_next st) i) (\<lambda>_.
        and_then (parse_sources (op ! 2)) (\<lambda>sources.
        and_then (ensure_sources_exist env (ts_next st) sources) (\<lambda>_.
        and_then (canonical_body (op ! 3)) (\<lambda>body.
        map_ok (ts_change ''derive'' i (Some (joined_by (lit '','') sources)))
          (push_frame env (new_frame env i body sources (derived_frame_provenance (ts_next st) sources (te_formation env))) st)))))))"

definition revise_frame :: "tx_env \<Rightarrow> ustring \<Rightarrow> ustring list option \<Rightarrow> frame_identity_provenance option \<Rightarrow> context_frame \<Rightarrow> context_frame" where
  "revise_frame env body sources provenance f =
     f\<lparr>cf_body := body,
       cf_sources := (case sources of Some ss \<Rightarrow> ss | None \<Rightarrow> cf_sources f),
       cf_provenance :=
         (case provenance of
            Some p \<Rightarrow> p\<lparr>fp_formed_principal_id := fp_formed_principal_id (cf_provenance f),
                        fp_formed_session_id := fp_formed_session_id (cf_provenance f)\<rparr>
          | None \<Rightarrow> cf_provenance f),
       cf_revision := u64_inc (cf_revision f),
       cf_updated_version := te_version env\<rparr>"

definition revise_sources :: "tx_env \<Rightarrow> sx list \<Rightarrow> mind_state \<Rightarrow> tx_error + ustring list option" where
  "revise_sources env op s =
     (if length op = 4
      then and_then (parse_sources (op ! 2)) (\<lambda>sources. map_ok (\<lambda>_. Some sources) (ensure_sources_exist env s sources))
      else Inr None)"

definition op_revise :: "tx_env \<Rightarrow> sx list \<Rightarrow> tx_state \<Rightarrow> tx_error + tx_state" where
  "op_revise env op st =
     (if length op \<noteq> 3 \<and> length op \<noteq> 4 then Inl (Malformed ''not normalized'' ''revise'')
      else
        and_then (id_at op 1 ''frame id'') (\<lambda>i.
          if i \<in> set (ms_retired (ts_next st)) then Inl (Refused ''frame retired'' i)
          else
            let cancelled = bt_contains (ms_retiring (ts_next st)) i;
                st = on_next (\<lambda>s. s\<lparr>ms_retiring := bt_remove i (ms_retiring s)\<rparr>) st in
            and_then (revise_sources env op (ts_next st)) (\<lambda>sources.
            and_then (canonical_body (op ! (length op - 1))) (\<lambda>body.
              let provenance = map_option (\<lambda>ss. derived_frame_provenance (ts_next st) ss (te_formation env)) sources in
              and_then (ok_or (frame_index (ts_next st) i) (Refused ''revise target'' i)) (\<lambda>n.
                let f = revise_frame env body sources provenance (ms_frames (ts_next st) ! n);
                    st = on_next (\<lambda>s. s\<lparr>ms_frames := (ms_frames s)[n := f]\<rparr>) st in
                and_then (ts_upsert_ordered (FrameNode f) n st) (\<lambda>st.
                  let st = (if cancelled then record_lifecycle_mutation env i (ts_remove env RetiringNodes i st) else st) in
                  Inr (ts_change ''revise'' i
                    (Some (lit ''r'' @ decimal (cf_revision f) @ (if cancelled then lit ''; retirement-cancelled'' else []))) st)))))))"

section \<open>Lifecycle\<close>

definition find_retiring :: "tx_state \<Rightarrow> ustring \<Rightarrow> frame_retirement option" where
  "find_retiring st i = bt_get (ms_retiring (ts_next st)) i"

definition add_retired :: "ustring \<Rightarrow> mind_state \<Rightarrow> mind_state" where
  "add_retired i s = s\<lparr>ms_retired := bs_insert i (ms_retired s)\<rparr>"

definition drop_retiring :: "ustring \<Rightarrow> mind_state \<Rightarrow> mind_state" where
  "drop_retiring i s = s\<lparr>ms_retiring := bt_remove i (ms_retiring s)\<rparr>"

text \<open>A frame under the cognitive policy enters its organizing window.\<close>

definition retire_frame :: "tx_env \<Rightarrow> ustring \<Rightarrow> ustring \<Rightarrow> tx_state \<Rightarrow> tx_error + tx_state" where
  "retire_frame env reason i st =
     (if i \<in> set (ms_retired (ts_next st)) then Inl (Refused ''already retired'' i)
      else case find_retiring st i of
        Some existing \<Rightarrow>
          Inr (ts_change ''retire-frame-existing'' i
            (Some (lit ''eligible-at-tick='' @ decimal (rt_eligible_at_tick existing) @ lit ''; reason='' @ rt_reason existing)) st)
      | None \<Rightarrow>
          and_then (ok_or (find_frame (ts_next st) i) (Refused ''frame does not exist'' i)) (\<lambda>f.
            let eligible = u64_saturating_add (rp_cognitive_tick (te_policy env)) (rp_cooling_ticks (te_policy env));
                r = \<lparr>rt_frame_id = i, rt_requested_frame_revision = cf_revision f,
                     rt_requested_mind_version = ms_version (te_current env),
                     rt_requested_at_tick = rp_cognitive_tick (te_policy env), rt_eligible_at_tick = eligible,
                     rt_generation = te_version env, rt_reason = reason\<rparr>;
                st = on_next (\<lambda>s. s\<lparr>ms_retiring := bt_insert i r (ms_retiring s)\<rparr>) st;
                st = record_lifecycle_mutation env i (ts_upsert (RetiringNode r) st) in
            Inr (ts_change ''retire-frame-requested'' i
              (Some (lit ''state=retiring; eligible-at-tick='' @ decimal eligible @ lit ''; immediate-token-relief=0'')) st)))"

definition retire_now :: "tx_env \<Rightarrow> ustring \<Rightarrow> ustring \<Rightarrow> tx_state \<Rightarrow> tx_state" where
  "retire_now env reason i st =
     ts_change ''retire'' i (Some reason)
       (if i \<in> set (ms_retired (ts_next st)) then st
        else record_lifecycle_mutation env i (ts_upsert (RetiredNode i) (on_next (add_retired i) st)))"

definition retire_item :: "tx_env \<Rightarrow> ustring \<Rightarrow> tx_state \<Rightarrow> sx \<Rightarrow> tx_error + tx_state" where
  "retire_item env reason st item =
     and_then (as_atom item ''retire target'') (\<lambda>raw.
     and_then (validated_id raw) (\<lambda>i.
     and_then (ensure_known env (ts_next st) i) (\<lambda>_.
       if i \<in> set (ms_protected (ts_next st)) then Inl (Refused ''protected'' i)
       else if rp_staged (te_policy env) \<and> has_frame (ts_next st) i then retire_frame env reason i st
       else Inr (retire_now env reason i st))))"

definition reason_of :: "tx_env \<Rightarrow> string \<Rightarrow> tx_error + ustring" where
  "reason_of env name = ok_or (te_reason env) (Malformed ''reason required'' name)"

definition op_retire :: "tx_env \<Rightarrow> sx list \<Rightarrow> tx_state \<Rightarrow> tx_error + tx_state" where
  "op_retire env op st =
     and_then (reason_of env ''retire'') (\<lambda>reason.
     and_then (require_min_len op 2 ''retire'') (\<lambda>_. try_fold (retire_item env reason) st (tl op)))"

definition restore_item :: "tx_env \<Rightarrow> tx_state \<Rightarrow> sx \<Rightarrow> tx_error + tx_state" where
  "restore_item env st item =
     and_then (as_atom item ''restore target'') (\<lambda>raw.
     and_then (validated_id raw) (\<lambda>i.
     and_then (ensure_known env (ts_next st) i) (\<lambda>_.
       if bt_contains (ms_retiring (ts_next st)) i
       then Inr (ts_change ''restore'' i (Some (lit ''retirement-cancelled''))
              (record_lifecycle_mutation env i (ts_remove env RetiringNodes i (on_next (drop_retiring i) st))))
       else if i \<notin> set (ms_retired (ts_next st)) then Inl (Refused ''not retired'' i)
       else Inr (ts_change ''restore'' i None
              (record_lifecycle_mutation env i (ts_remove env RetiredNodes i
                (on_next (\<lambda>s. s\<lparr>ms_retired := bs_remove i (ms_retired s)\<rparr>) st)))))))"

definition op_restore :: "tx_env \<Rightarrow> sx list \<Rightarrow> tx_state \<Rightarrow> tx_error + tx_state" where
  "op_restore env op st = and_then (require_min_len op 2 ''restore'') (\<lambda>_. try_fold (restore_item env) st (tl op))"

definition number_at :: "sx list \<Rightarrow> nat \<Rightarrow> string \<Rightarrow> tx_error + nat" where
  "number_at op i label = and_then (atom_at op i label) (\<lambda>s. ok_or (parse_u64 s) (Malformed ''number'' label))"

definition finalize_frame :: "tx_env \<Rightarrow> ustring \<Rightarrow> ustring \<Rightarrow> tx_state \<Rightarrow> tx_state" where
  "finalize_frame env i detail st =
     ts_change ''retire-frame-finalized'' i (Some detail)
       (record_lifecycle_mutation env i
         (ts_upsert (RetiredNode i) (ts_remove env RetiringNodes i (on_next (\<lambda>s. add_retired i (drop_retiring i s)) st))))"

definition op_finalize_retirement :: "tx_env \<Rightarrow> sx list \<Rightarrow> tx_state \<Rightarrow> tx_error + tx_state" where
  "op_finalize_retirement env op st =
     and_then (require_len op 5 ''finalize-retirement'') (\<lambda>_.
       if \<not> rp_staged (te_policy env) then Inl (Malformed ''policy'' ''finalize-retirement'')
       else
         and_then (id_at op 1 ''frame id'') (\<lambda>i.
         and_then (number_at op 2 ''retirement generation'') (\<lambda>generation.
         and_then (number_at op 3 ''frame revision'') (\<lambda>revision.
         and_then (number_at op 4 ''eligible tick'') (\<lambda>eligible.
           case find_retiring st i of
             None \<Rightarrow> Inr (ts_change ''finalize-retirement-stale'' i (Some (lit ''intent-missing'')) st)
           | Some r \<Rightarrow>
               if rt_generation r \<noteq> generation \<or> rt_requested_frame_revision r \<noteq> revision \<or> rt_eligible_at_tick r \<noteq> eligible \<or>
                  rp_cognitive_tick (te_policy env) < eligible \<or> i \<in> set (ms_protected (ts_next st)) \<or>
                  \<not> list_ex (\<lambda>f. cf_id f = i \<and> cf_revision f = revision) (ms_frames (ts_next st))
               then Inr (ts_change ''finalize-retirement-stale'' i (Some (lit ''fencing-mismatch'')) st)
               else Inr (finalize_frame env i (lit ''eligible-at-tick='' @ decimal eligible @ lit ''; state=retired'') st))))))"

definition op_session :: "tx_env \<Rightarrow> string \<Rightarrow> sx list \<Rightarrow> tx_state \<Rightarrow> tx_error + tx_state" where
  "op_session env name op st =
     (if name = ''retire-session'' \<and> te_reason env = None then Inl (Malformed ''reason required'' ''retire-session'')
      else
        and_then (require_min_len op 2 ''retire-session / restore-session'') (\<lambda>_.
          try_fold (\<lambda>st item. and_then (as_atom item ''session id'') (\<lambda>raw.
            and_then (validated_id raw) (\<lambda>i. Inr (ts_change name i (te_reason env) st)))) st (tl op)))"

definition protect_item :: "tx_env \<Rightarrow> tx_state \<Rightarrow> sx \<Rightarrow> tx_error + tx_state" where
  "protect_item env st item =
     and_then (as_atom item ''protection target'') (\<lambda>raw.
     and_then (validated_id raw) (\<lambda>i.
     and_then (ensure_known env (ts_next st) i) (\<lambda>_.
       let cancelled = bt_contains (ms_retiring (ts_next st)) i;
           added = (i \<notin> set (ms_protected (ts_next st)));
           st = on_next (\<lambda>s. (drop_retiring i s)\<lparr>ms_protected := bs_insert i (ms_protected s)\<rparr>) st;
           st = (if cancelled then ts_remove env RetiringNodes i st else st);
           st = (if added then ts_upsert (ProtectedNode i) st else st);
           st = (if cancelled \<or> added then record_lifecycle_mutation env i st else st) in
       Inr (ts_change ''protect'' i (te_reason env) st))))"

definition unprotect_item :: "tx_env \<Rightarrow> tx_state \<Rightarrow> sx \<Rightarrow> tx_error + tx_state" where
  "unprotect_item env st item =
     and_then (as_atom item ''protection target'') (\<lambda>raw.
     and_then (validated_id raw) (\<lambda>i.
     and_then (ensure_known env (ts_next st) i) (\<lambda>_.
       if i \<notin> set (ms_protected (ts_next st)) then Inl (Refused ''not protected'' i)
       else Inr (ts_change ''unprotect'' i (te_reason env)
              (record_lifecycle_mutation env i (ts_remove env ProtectedNodes i
                (on_next (\<lambda>s. s\<lparr>ms_protected := bs_remove i (ms_protected s)\<rparr>) st)))))))"

definition op_protect :: "tx_env \<Rightarrow> sx list \<Rightarrow> tx_state \<Rightarrow> tx_error + tx_state" where
  "op_protect env op st = and_then (require_min_len op 2 ''protect'') (\<lambda>_. try_fold (protect_item env) st (tl op))"

definition op_unprotect :: "tx_env \<Rightarrow> sx list \<Rightarrow> tx_state \<Rightarrow> tx_error + tx_state" where
  "op_unprotect env op st =
     and_then (reason_of env ''unprotect'') (\<lambda>_.
     and_then (require_min_len op 2 ''unprotect'') (\<lambda>_. try_fold (unprotect_item env) st (tl op)))"

section \<open>Order and relations\<close>

definition insert_at :: "nat \<Rightarrow> 'a \<Rightarrow> 'a list \<Rightarrow> 'a list" where
  "insert_at n x xs = take n xs @ x # drop n xs"

definition remove_at :: "nat \<Rightarrow> 'a list \<Rightarrow> 'a list" where
  "remove_at n xs = take n xs @ drop (Suc n) xs"

definition place_frame :: "ustring \<Rightarrow> sx \<Rightarrow> mind_state \<Rightarrow> tx_error + mind_state" where
  "place_frame i position s =
     and_then (ok_or (frame_index s i) (Refused ''place target'' i)) (\<lambda>n.
       let f = ms_frames s ! n; rest = remove_at n (ms_frames s); s' = s\<lparr>ms_frames := rest\<rparr> in
       case position of
         SxAtom v \<Rightarrow>
           if v = lit ''first'' then Inr (s\<lparr>ms_frames := f # rest\<rparr>)
           else if v = lit ''last'' then Inr (s\<lparr>ms_frames := rest @ [f]\<rparr>)
           else Inl (Malformed ''form'' ''place position'')
       | SxList items \<Rightarrow>
           if length items \<noteq> 2 then Inl (Malformed ''form'' ''place position'')
           else
             and_then (atom_at items 0 ''place relation'') (\<lambda>relation.
             and_then (atom_at items 1 ''place anchor'') (\<lambda>anchor.
             and_then (ok_or (frame_index s' anchor) (Refused ''place anchor'' anchor)) (\<lambda>a.
               if relation = lit ''before'' then Inr (s\<lparr>ms_frames := insert_at a f rest\<rparr>)
               else if relation = lit ''after'' then Inr (s\<lparr>ms_frames := insert_at (a + 1) f rest\<rparr>)
               else Inl (Malformed ''form'' ''place relation'')))))"

definition op_place :: "tx_env \<Rightarrow> sx list \<Rightarrow> tx_state \<Rightarrow> tx_error + tx_state" where
  "op_place env op st =
     and_then (require_len op 3 ''place'') (\<lambda>_.
     and_then (id_at op 1 ''frame id'') (\<lambda>i.
     and_then (place_frame i (op ! 2) (ts_next st)) (\<lambda>s.
       Inr (ts_change ''place'' i (Some (sexpr_to_string (op ! 2)))
         (record_frame_order env (ts_set_order env FrameNodes (map cf_id (ms_frames s)) (st\<lparr>ts_next := s\<rparr>)))))))"

definition relation_index :: "mind_state \<Rightarrow> ustring \<Rightarrow> ustring \<Rightarrow> ustring \<Rightarrow> nat option" where
  "relation_index s subject relation target =
     find (\<lambda>n. cr_subject (ms_relations s ! n) = subject \<and> cr_relation (ms_relations s ! n) = relation \<and> cr_object (ms_relations s ! n) = target)
       [0..<length (ms_relations s)]"

definition relation_arguments :: "tx_env \<Rightarrow> sx list \<Rightarrow> tx_state \<Rightarrow> tx_error + ustring \<times> ustring \<times> ustring" where
  "relation_arguments env op st =
     and_then (id_at op 1 ''relation subject'') (\<lambda>subject.
     and_then (id_at op 2 ''relation name'') (\<lambda>relation.
     and_then (id_at op 3 ''relation object'') (\<lambda>target.
     and_then (ensure_known env (ts_next st) subject) (\<lambda>_.
     and_then (ensure_known env (ts_next st) target) (\<lambda>_. Inr (subject, relation, target))))))"

text \<open>What \<open>relate\<close> and \<open>unrelate\<close> share after the change of the relations.\<close>

definition relations_changed :: "tx_env \<Rightarrow> string \<Rightarrow> ustring \<times> ustring \<times> ustring \<Rightarrow> tx_state \<Rightarrow> tx_state" where
  "relations_changed env name edge st =
     (case edge of (subject, relation, target) \<Rightarrow>
        ts_change name subject (Some (relation @ lit '' '' @ target))
          (record_relation_mutation env subject relation target
            (ts_set_order env RelationNodes (map context_relation_identity (ms_relations (ts_next st))) st)))"

definition op_relate :: "tx_env \<Rightarrow> sx list \<Rightarrow> tx_state \<Rightarrow> tx_error + tx_state" where
  "op_relate env op st =
     and_then (require_len op 4 ''relate / unrelate'') (\<lambda>_.
     and_then (relation_arguments env op st) (\<lambda>(subject, relation, target).
       case relation_index (ts_next st) subject relation target of
         Some _ \<Rightarrow> Inl (RelationRefused ''exists'' subject relation target)
       | None \<Rightarrow>
           let r = \<lparr>cr_subject = subject, cr_relation = relation, cr_object = target, cr_created_version = te_version env\<rparr>;
               st = on_next (\<lambda>s. s\<lparr>ms_relations := ms_relations s @ [r]\<rparr>) st in
           map_ok (relations_changed env ''relate'' (subject, relation, target))
             (ts_upsert_ordered (RelationNode r) (length (ms_relations (ts_next st)) - 1) st)))"

definition op_unrelate :: "tx_env \<Rightarrow> sx list \<Rightarrow> tx_state \<Rightarrow> tx_error + tx_state" where
  "op_unrelate env op st =
     and_then (require_len op 4 ''relate / unrelate'') (\<lambda>_.
     and_then (reason_of env ''unrelate'') (\<lambda>_.
     and_then (relation_arguments env op st) (\<lambda>(subject, relation, target).
       case relation_index (ts_next st) subject relation target of
         None \<Rightarrow> Inl (RelationRefused ''missing'' subject relation target)
       | Some n \<Rightarrow>
           Inr (relations_changed env ''unrelate'' (subject, relation, target)
             (ts_remove env RelationNodes (relation_logical_id subject relation target)
               (on_next (\<lambda>s. s\<lparr>ms_relations := remove_at n (ms_relations s)\<rparr>) st))))))"

section \<open>Checkpoints\<close>

definition checkpoint_of :: "ustring \<Rightarrow> nat \<Rightarrow> mind_state \<Rightarrow> mind_checkpoint" where
  "checkpoint_of i version s =
     \<lparr>ck_id = i, ck_frames = ms_frames s, ck_relations = ms_relations s, ck_retired = ms_retired s, ck_retiring = ms_retiring s,
      ck_protected = ms_protected s, ck_created_version = version\<rparr>"

definition op_checkpoint :: "tx_env \<Rightarrow> sx list \<Rightarrow> tx_state \<Rightarrow> tx_error + tx_state" where
  "op_checkpoint env op st =
     and_then (require_len op 2 ''checkpoint'') (\<lambda>_.
     and_then (id_at op 1 ''checkpoint id'') (\<lambda>i.
       if has_checkpoint (ts_next st) i \<or> has_frame (ts_next st) i \<or> i \<in> set (te_observations env) then Inl (Refused ''checkpoint exists'' i)
       else
         let c = checkpoint_of i (te_version env) (ts_next st);
             st = on_next (\<lambda>s. s\<lparr>ms_checkpoints := ms_checkpoints s @ [c]\<rparr>) st in
         map_ok (\<lambda>st. ts_change ''checkpoint'' i (Some (lit ''frames='' @ decimal (length (ms_frames (ts_next st)))))
             (record_checkpoint_mutation env i st))
           (ts_upsert_ordered (CheckpointNode c) (length (ms_checkpoints (ts_next st)) - 1) st)))"

definition restore_checkpoint :: "mind_checkpoint \<Rightarrow> mind_state \<Rightarrow> mind_state" where
  "restore_checkpoint c s =
     s\<lparr>ms_frames := ck_frames c, ms_relations := ck_relations c, ms_retired := ck_retired c, ms_retiring := ck_retiring c,
       ms_protected := ck_protected c\<rparr>"

definition op_rollback :: "tx_env \<Rightarrow> sx list \<Rightarrow> tx_state \<Rightarrow> tx_error + tx_state" where
  "op_rollback env op st =
     and_then (require_len op 2 ''rollback'') (\<lambda>_.
     and_then (reason_of env ''rollback'') (\<lambda>reason.
     and_then (id_at op 1 ''checkpoint id'') (\<lambda>i.
     and_then (ok_or (find (\<lambda>c. ck_id c = i) (ms_checkpoints (ts_next st))) (Refused ''checkpoint missing'' i)) (\<lambda>c.
       let st = on_clocks env (\<lambda>k. k\<lparr>mc_global_barrier_version := te_version env\<rparr>) (on_next (restore_checkpoint c) st) in
       Inr (ts_change ''rollback'' i (Some reason) (st\<lparr>ts_mutations := (ts_mutations st)\<lparr>ma_broad_replace := True\<rparr>\<rparr>))))))"

definition checkpoint_index :: "mind_state \<Rightarrow> ustring \<Rightarrow> nat option" where
  "checkpoint_index s i = find (\<lambda>n. ck_id (ms_checkpoints s ! n) = i) [0..<length (ms_checkpoints s)]"

definition drop_checkpoint_item :: "tx_env \<Rightarrow> ustring \<Rightarrow> tx_state \<Rightarrow> sx \<Rightarrow> tx_error + tx_state" where
  "drop_checkpoint_item env reason st item =
     and_then (as_atom item ''checkpoint id'') (\<lambda>raw.
     and_then (validated_id raw) (\<lambda>i.
     and_then (ok_or (checkpoint_index (ts_next st) i) (Refused ''checkpoint missing'' i)) (\<lambda>n.
       Inr (ts_change ''drop-checkpoint'' i (Some reason)
         (record_checkpoint_mutation env i (ts_remove env CheckpointNodes i
           (on_next (\<lambda>s. s\<lparr>ms_checkpoints := remove_at n (ms_checkpoints s)\<rparr>) st)))))))"

definition op_drop_checkpoint :: "tx_env \<Rightarrow> sx list \<Rightarrow> tx_state \<Rightarrow> tx_error + tx_state" where
  "op_drop_checkpoint env op st =
     and_then (require_min_len op 2 ''drop-checkpoint'') (\<lambda>_.
     and_then (reason_of env ''drop-checkpoint'') (\<lambda>reason.
     and_then (try_fold (drop_checkpoint_item env reason) st (tl op)) (\<lambda>st.
       Inr (ts_set_order env CheckpointNodes (map ck_id (ms_checkpoints (ts_next st))) st))))"

section \<open>The whole transaction\<close>

definition operation_table :: "(string \<times> (tx_env \<Rightarrow> sx list \<Rightarrow> tx_state \<Rightarrow> tx_error + tx_state)) list" where
  "operation_table =
     [(''create'', op_create), (''derive'', op_derive), (''revise'', op_revise), (''retire'', op_retire), (''restore'', op_restore),
      (''finalize-retirement'', op_finalize_retirement),
      (''retire-session'', \<lambda>env. op_session env ''retire-session''), (''restore-session'', \<lambda>env. op_session env ''restore-session''),
      (''protect'', op_protect), (''unprotect'', op_unprotect), (''place'', op_place), (''relate'', op_relate), (''unrelate'', op_unrelate),
      (''checkpoint'', op_checkpoint), (''rollback'', op_rollback), (''drop-checkpoint'', op_drop_checkpoint)]"

definition apply_operation :: "tx_env \<Rightarrow> tx_state \<Rightarrow> sx \<Rightarrow> tx_error + tx_state" where
  "apply_operation env st operation =
     and_then (tx_as_list operation ''context operation'') (\<lambda>op.
     and_then (atom_at op 0 ''operation name'') (\<lambda>name.
       case find (\<lambda>(n, _). lit n = name) operation_table of
         Some (_, run) \<Rightarrow> run env op st
       | None \<Rightarrow> Inl (Refused ''unknown primitive'' name)))"

definition successor_of :: "mind_state \<Rightarrow> ustring \<Rightarrow> context_relation \<Rightarrow> context_frame option" where
  "successor_of s target r =
     (if cr_relation r = lit ''supersedes'' \<and> cr_object r = target
      then find (\<lambda>f. cf_id f = cr_subject r \<and> target \<in> set (cf_sources f) \<and> cf_id f \<notin> set (ms_retired s)) (ms_frames s)
      else None)"

fun find_map :: "('a \<Rightarrow> 'b option) \<Rightarrow> 'a list \<Rightarrow> 'b option" where
  "find_map f [] = None"
| "find_map f (x # xs) = (case f x of Some y \<Rightarrow> Some y | None \<Rightarrow> find_map f xs)"

definition close_superseded :: "tx_env \<Rightarrow> ustring \<Rightarrow> tx_state \<Rightarrow> tx_state" where
  "close_superseded env target st =
     (case find_map (successor_of (ts_next st) target) (ms_relations (ts_next st)) of
        None \<Rightarrow> st
      | Some f \<Rightarrow> finalize_frame env target (lit ''successor='' @ cf_id f @ lit ''; state=retired'') st)"

definition close_retirements :: "tx_env \<Rightarrow> tx_state \<Rightarrow> tx_state" where
  "close_retirements env st =
     (if rp_staged (te_policy env) then fold (close_superseded env) (map fst (ms_retiring (ts_next st))) st else st)"

record applied_transition =
  at_next :: mind_state
  at_changes :: "context_change list"
  at_mutations :: "state_mutation list"

definition start_tracking :: "tx_env \<Rightarrow> mind_state" where
  "start_tracking env =
     (let s = te_current env in
      if te_track env \<and> mc_tracking_started_version (ms_clocks s) = None
      then s\<lparr>ms_clocks := (ms_clocks s)\<lparr>mc_tracking_started_version := Some (ms_version s)\<rparr>\<rparr> else s)"

definition tx_start :: "tx_env \<Rightarrow> tx_state" where
  "tx_start env = \<lparr>ts_next = start_tracking env, ts_mutations = accumulator_new, ts_changes = []\<rparr>"

definition tx_finish :: "tx_env \<Rightarrow> tx_state \<Rightarrow> applied_transition" where
  "tx_finish env st =
     (let st = (if ms_clocks (te_current env) \<noteq> ms_clocks (ts_next st) then ts_upsert (ClocksNode (ms_clocks (ts_next st))) st else st);
          next = (ts_next st)\<lparr>ms_version := te_version env\<rparr> in
      \<lparr>at_next = next, at_changes = ts_changes st, at_mutations = acc_finish next (ts_mutations st)\<rparr>)"

definition apply_transaction :: "tx_env \<Rightarrow> nat \<Rightarrow> sx list \<Rightarrow> tx_error + applied_transition" where
  "apply_transaction env base operations =
     (if ms_version (te_current env) \<noteq> base then Inl (Stale ''version conflict'' base (ms_version (te_current env)))
      else map_ok (\<lambda>st. tx_finish env (close_retirements env st)) (try_fold (apply_operation env) (tx_start env) operations))"

end
