(* ===== verification/Context_Rebase.thy ===== *)
theory Context_Rebase
  imports Context_Apply
begin

text \<open>
  Rebasing a transaction that was written against an older version (\<open>rebase_stale_context_transaction\<close>
  in \<open>morphz/src/orchestrator/context.rs\<close>): every operation checks the clocks of what it reads and
  writes, and only when all pass the transaction is moved to the current version. Then the whole
  path from the text of a transaction to its plan.
\<close>

section \<open>Checks against the clocks\<close>

definition ensure_tracking_covers :: "mind_state \<Rightarrow> nat \<Rightarrow> string \<Rightarrow> tx_error + unit" where
  "ensure_tracking_covers s base boundary =
     and_then (ok_or (mc_tracking_started_version (ms_clocks s)) (Malformed ''history unavailable'' boundary)) (\<lambda>started.
       if base < started then Inl (Stale (''history of '' @ boundary) started base)
       else if base < mc_global_barrier_version (ms_clocks s) then Inl (Stale ''global barrier'' (mc_global_barrier_version (ms_clocks s)) base)
       else Inr ())"

definition newer_than :: "(ustring \<times> nat) list \<Rightarrow> ustring \<Rightarrow> nat \<Rightarrow> bool" where
  "newer_than clocks i base \<longleftrightarrow> (case bt_get clocks i of Some v \<Rightarrow> base < v | None \<Rightarrow> False)"

definition ensure_lifecycle_write_is_current :: "mind_state \<Rightarrow> nat \<Rightarrow> ustring list \<Rightarrow> ustring \<Rightarrow> tx_error + unit" where
  "ensure_lifecycle_write_is_current s base created i =
     (if i \<in> set created then Inr ()
      else and_then (ensure_tracking_covers s base ''Context lifecycle'') (\<lambda>_.
        if newer_than (mc_lifecycle_versions (ms_clocks s)) i base then Inl (Refused ''lifecycle conflict'' i) else Inr ()))"

definition ensure_frame_read_is_current :: "mind_state \<Rightarrow> nat \<Rightarrow> ustring list \<Rightarrow> ustring \<Rightarrow> tx_error + unit" where
  "ensure_frame_read_is_current s base created i =
     (if i \<in> set created then Inr ()
      else case find_frame s i of
        None \<Rightarrow> Inr ()
      | Some f \<Rightarrow> if base < cf_created_version f \<or> base < cf_updated_version f then Inl (Refused ''frame conflict'' i) else Inr ())"

definition ensure_frame_write_is_current :: "mind_state \<Rightarrow> nat \<Rightarrow> ustring list \<Rightarrow> ustring \<Rightarrow> tx_error + unit" where
  "ensure_frame_write_is_current s base created i =
     (if i \<in> set created then Inr ()
      else and_then (ok_or (find_frame s i) (Refused ''frame conflict'' i)) (\<lambda>f.
        if base < cf_created_version f \<or> base < cf_updated_version f then Inl (Refused ''frame conflict'' i)
        else if (case bt_get (ms_retiring s) i of Some r \<Rightarrow> base < rt_generation r | None \<Rightarrow> False) then Inl (Refused ''retiring conflict'' i)
        else Inr ()))"

definition item_at :: "sx list \<Rightarrow> nat \<Rightarrow> string \<Rightarrow> tx_error + sx" where
  "item_at op i label = (if i < length op then Inr (op ! i) else Inl (Malformed ''missing'' label))"

section \<open>Operations\<close>

text \<open>The frames and the checkpoints the transaction has created so far.\<close>

type_synonym created_ids = "ustring list \<times> ustring list"

definition absent_frame :: "mind_state \<Rightarrow> sx list \<Rightarrow> tx_error + ustring" where
  "absent_frame s op =
     and_then (atom_at op 1 ''frame id'') (\<lambda>i. if has_frame s i then Inl (Refused ''frame conflict'' i) else Inr i)"

definition read_sources :: "mind_state \<Rightarrow> nat \<Rightarrow> ustring list \<Rightarrow> sx list \<Rightarrow> tx_error + unit" where
  "read_sources s base frames op =
     and_then (item_at op 2 ''from'') (\<lambda>e.
     and_then (parse_sources e) (\<lambda>sources. map_ok (\<lambda>_. ()) (try_map (ensure_frame_read_is_current s base frames) sources)))"

definition each_target :: "(ustring \<Rightarrow> tx_error + unit) \<Rightarrow> string \<Rightarrow> sx list \<Rightarrow> tx_error + unit" where
  "each_target check label op =
     map_ok (\<lambda>_. ()) (try_map (\<lambda>item. and_then (as_atom item label) (\<lambda>raw. and_then (validated_id raw) check)) (tl op))"

definition rebase_create :: "mind_state \<Rightarrow> nat \<Rightarrow> created_ids \<Rightarrow> sx list \<Rightarrow> tx_error + created_ids" where
  "rebase_create s base cr op = map_ok (\<lambda>i. (i # fst cr, snd cr)) (absent_frame s op)"

definition rebase_derive :: "mind_state \<Rightarrow> nat \<Rightarrow> created_ids \<Rightarrow> sx list \<Rightarrow> tx_error + created_ids" where
  "rebase_derive s base cr op =
     and_then (absent_frame s op) (\<lambda>i. map_ok (\<lambda>_. (i # fst cr, snd cr)) (read_sources s base (fst cr) op))"

definition rebase_revise :: "mind_state \<Rightarrow> nat \<Rightarrow> created_ids \<Rightarrow> sx list \<Rightarrow> tx_error + created_ids" where
  "rebase_revise s base cr op =
     and_then (atom_at op 1 ''frame id'') (\<lambda>i.
     and_then (ensure_frame_write_is_current s base (fst cr) i) (\<lambda>_.
       if length op = 4 then map_ok (\<lambda>_. cr) (read_sources s base (fst cr) op) else Inr cr))"

definition rebase_retire :: "mind_state \<Rightarrow> nat \<Rightarrow> created_ids \<Rightarrow> sx list \<Rightarrow> tx_error + created_ids" where
  "rebase_retire s base cr op =
     and_then (require_min_len op 2 ''retire'') (\<lambda>_.
     map_ok (\<lambda>_. cr) (each_target (\<lambda>i. and_then (ensure_lifecycle_write_is_current s base (fst cr) i) (\<lambda>_.
       ensure_frame_read_is_current s base (fst cr) i)) ''retire target'' op))"

definition rebase_lifecycle :: "mind_state \<Rightarrow> nat \<Rightarrow> created_ids \<Rightarrow> sx list \<Rightarrow> tx_error + created_ids" where
  "rebase_lifecycle s base cr op =
     and_then (require_min_len op 2 ''lifecycle operation'') (\<lambda>_.
     map_ok (\<lambda>_. cr) (each_target (ensure_lifecycle_write_is_current s base (fst cr)) ''lifecycle target'' op))"

definition read_anchor :: "mind_state \<Rightarrow> nat \<Rightarrow> ustring list \<Rightarrow> sx \<Rightarrow> tx_error + unit" where
  "read_anchor s base frames position =
     (case position of
        SxList items \<Rightarrow>
          if length items = 2 then and_then (id_at items 1 ''place anchor'') (ensure_frame_read_is_current s base frames) else Inr ()
      | SxAtom _ \<Rightarrow> Inr ())"

definition rebase_place :: "mind_state \<Rightarrow> nat \<Rightarrow> created_ids \<Rightarrow> sx list \<Rightarrow> tx_error + created_ids" where
  "rebase_place s base cr op =
     and_then (require_len op 3 ''place'') (\<lambda>_.
     and_then (ensure_tracking_covers s base ''Frame order'') (\<lambda>_.
       if base < mc_frame_order_version (ms_clocks s) then Inl (Stale ''frame order'' (mc_frame_order_version (ms_clocks s)) base)
       else
         and_then (id_at op 1 ''frame id'') (\<lambda>i.
         and_then (ensure_frame_read_is_current s base (fst cr) i) (\<lambda>_.
         map_ok (\<lambda>_. cr) (read_anchor s base (fst cr) (op ! 2))))))"

definition rebase_relation :: "mind_state \<Rightarrow> nat \<Rightarrow> created_ids \<Rightarrow> sx list \<Rightarrow> tx_error + created_ids" where
  "rebase_relation s base cr op =
     and_then (require_len op 4 ''relate / unrelate'') (\<lambda>_.
     and_then (id_at op 1 ''relation subject'') (\<lambda>subject.
     and_then (id_at op 2 ''relation name'') (\<lambda>relation.
     and_then (id_at op 3 ''relation object'') (\<lambda>target.
     and_then (ensure_frame_read_is_current s base (fst cr) subject) (\<lambda>_.
     and_then (ensure_frame_read_is_current s base (fst cr) target) (\<lambda>_.
     and_then (ensure_tracking_covers s base ''Relation'') (\<lambda>_.
       if newer_than (mc_relation_versions (ms_clocks s)) (relation_logical_id subject relation target) base
       then Inl (RelationRefused ''conflict'' subject relation target) else Inr cr)))))))"

definition rebase_checkpoint :: "mind_state \<Rightarrow> nat \<Rightarrow> created_ids \<Rightarrow> sx list \<Rightarrow> tx_error + created_ids" where
  "rebase_checkpoint s base cr op =
     and_then (require_len op 2 ''checkpoint'') (\<lambda>_.
     and_then (id_at op 1 ''checkpoint id'') (\<lambda>i.
     and_then (ensure_tracking_covers s base ''Checkpoint'') (\<lambda>_.
       if newer_than (mc_checkpoint_versions (ms_clocks s)) i base then Inl (Refused ''checkpoint conflict'' i)
       else if has_checkpoint s i then Inl (Refused ''checkpoint conflict'' i)
       else Inr (fst cr, i # snd cr))))"

definition rebase_drop_checkpoint :: "mind_state \<Rightarrow> nat \<Rightarrow> created_ids \<Rightarrow> sx list \<Rightarrow> tx_error + created_ids" where
  "rebase_drop_checkpoint s base cr op =
     and_then (require_min_len op 2 ''drop-checkpoint'') (\<lambda>_.
     and_then (ensure_tracking_covers s base ''Checkpoint'') (\<lambda>_.
     map_ok (\<lambda>_. cr) (each_target (\<lambda>i.
       if i \<in> set (snd cr) then Inr ()
       else if newer_than (mc_checkpoint_versions (ms_clocks s)) i base then Inl (Refused ''checkpoint conflict'' i)
       else Inr ()) ''checkpoint id'' op)))"

definition rebase_table :: "(string \<times> (mind_state \<Rightarrow> nat \<Rightarrow> created_ids \<Rightarrow> sx list \<Rightarrow> tx_error + created_ids)) list" where
  "rebase_table =
     [(''create'', rebase_create), (''derive'', rebase_derive), (''revise'', rebase_revise), (''retire'', rebase_retire),
      (''restore'', rebase_lifecycle), (''protect'', rebase_lifecycle), (''unprotect'', rebase_lifecycle),
      (''finalize-retirement'', \<lambda>s base cr op. Inr cr), (''place'', rebase_place), (''relate'', rebase_relation),
      (''unrelate'', rebase_relation), (''checkpoint'', rebase_checkpoint), (''drop-checkpoint'', rebase_drop_checkpoint),
      (''rollback'', \<lambda>s base cr op. Inl (Stale ''rollback not rebased'' base (ms_version s))),
      (''retire-session'', \<lambda>s base cr op. Inl (Stale ''session attention not rebased'' base (ms_version s))),
      (''restore-session'', \<lambda>s base cr op. Inl (Stale ''session attention not rebased'' base (ms_version s)))]"

definition rebase_operation :: "mind_state \<Rightarrow> nat \<Rightarrow> created_ids \<Rightarrow> sx \<Rightarrow> tx_error + created_ids" where
  "rebase_operation s base cr operation =
     and_then (tx_as_list operation ''context operation'') (\<lambda>op.
     and_then (atom_at op 0 ''operation name'') (\<lambda>name.
       case find (\<lambda>(n, _). lit n = name) rebase_table of
         Some (_, check) \<Rightarrow> check s base cr op
       | None \<Rightarrow> Inl (Refused ''unknown primitive'' name)))"

definition rebase_stale_context_transaction :: "mind_state \<Rightarrow> parsed_transaction \<Rightarrow> tx_error + parsed_transaction" where
  "rebase_stale_context_transaction s tx =
     (let base = pt_base_version tx in
      if ms_version s < base then Inl (Stale ''future version'' base (ms_version s))
      else if base = ms_version s then Inr tx
      else if base < mc_global_barrier_version (ms_clocks s) then Inl (Stale ''global barrier'' (mc_global_barrier_version (ms_clocks s)) base)
      else map_ok (\<lambda>_. tx\<lparr>pt_base_version := ms_version s\<rparr>) (try_fold (rebase_operation s base) ([], []) (pt_operations tx)))"

section \<open>From the text to the plan\<close>

record tx_authority =
  ta_exact_version :: bool
  ta_runtime_operations :: bool
  ta_guarded :: "ustring list"

definition first_atom :: "sx \<Rightarrow> ustring option" where
  "first_atom operation = (case operation of SxList (SxAtom name # _) \<Rightarrow> Some name | _ \<Rightarrow> None)"

definition read_transaction :: "tx_authority \<Rightarrow> context_references \<Rightarrow> ustring \<Rightarrow> tx_error + parsed_transaction" where
  "read_transaction auth refs input =
     and_then (parse_transaction input) (\<lambda>tx.
       if \<not> ta_runtime_operations auth \<and> list_ex (\<lambda>e. first_atom e = Some (lit ''finalize-retirement'')) (pt_operations tx)
       then Inl (Malformed ''runtime private'' ''finalize-retirement'')
       else
         and_then (resolve_transaction_references refs tx) (\<lambda>tx.
         and_then (transaction_reference_candidates tx) (\<lambda>candidates.
           case find (\<lambda>r. starts_with r event_reference_prefix) candidates of
             Some r \<Rightarrow> Inl (Refused ''unresolved reference'' r)
           | None \<Rightarrow> map_ok (\<lambda>_. tx) (reject_causally_protected_retirements (ta_guarded auth) tx))))"

definition at_current_version :: "tx_authority \<Rightarrow> mind_state \<Rightarrow> parsed_transaction \<Rightarrow> tx_error + parsed_transaction" where
  "at_current_version auth s tx =
     (if ta_exact_version auth \<and> ms_version s \<noteq> pt_base_version tx
      then Inl (Stale ''exact version'' (pt_base_version tx) (ms_version s))
      else if ms_version s \<noteq> pt_base_version tx then rebase_stale_context_transaction s tx
      else Inr tx)"

definition transition_of :: "tx_env \<Rightarrow> tx_authority \<Rightarrow> parsed_transaction \<Rightarrow> tx_error + applied_transition" where
  "transition_of env auth tx =
     and_then (at_current_version auth (te_current env) tx) (\<lambda>tx.
       apply_transaction (env\<lparr>te_reason := pt_reason tx\<rparr>) (pt_base_version tx) (pt_operations tx))"

definition plan_of :: "ustring \<Rightarrow> mind_state \<Rightarrow> ustring \<Rightarrow> applied_transition \<Rightarrow> ustring \<Rightarrow> mutation_plan" where
  "plan_of context_id current before applied after =
     \<lparr>mp_context_id = context_id, mp_expected_revision = ms_version current, mp_next_revision = ms_version (at_next applied),
      mp_expected_state_hash = before, mp_next_state_hash = after, mp_mutations = at_mutations applied\<rparr>"

end
