(* ===== verification/Context_Steps.thy ===== *)
theory Context_Steps
  imports Context_Rebase "HOL-Library.Multiset"
begin

text \<open>
  What the operations of a transaction do, as a step relation on the next state and the accumulated
  mutations. Every operation and the closing sweep are sequences of these steps, so that the
  invariants of transactions are proved by induction over steps. The set in the relation holds the
  names of the operations: only an operation of that name takes the steps that ask for it.
\<close>

definition tick :: "tx_env \<Rightarrow> (mutation_clocks \<Rightarrow> mutation_clocks) \<Rightarrow> mind_state \<Rightarrow> mind_state" where
  "tick env f s = (if te_track env then s\<lparr>ms_clocks := f (ms_clocks s)\<rparr> else s)"

definition lifecycle_tick :: "tx_env \<Rightarrow> ustring \<Rightarrow> mind_state \<Rightarrow> mind_state" where
  "lifecycle_tick env i = tick env (\<lambda>c. c\<lparr>mc_lifecycle_versions := bt_insert i (te_version env) (mc_lifecycle_versions c)\<rparr>)"

definition relation_tick :: "tx_env \<Rightarrow> ustring \<Rightarrow> mind_state \<Rightarrow> mind_state" where
  "relation_tick env i = tick env (\<lambda>c. c\<lparr>mc_relation_versions := bt_insert i (te_version env) (mc_relation_versions c)\<rparr>)"

definition checkpoint_tick :: "tx_env \<Rightarrow> ustring \<Rightarrow> mind_state \<Rightarrow> mind_state" where
  "checkpoint_tick env i = tick env (\<lambda>c. c\<lparr>mc_checkpoint_versions := bt_insert i (te_version env) (mc_checkpoint_versions c)\<rparr>)"

definition order_tick :: "tx_env \<Rightarrow> mind_state \<Rightarrow> mind_state" where
  "order_tick env = tick env (\<lambda>c. c\<lparr>mc_frame_order_version := te_version env\<rparr>)"

definition barrier_tick :: "tx_env \<Rightarrow> mind_state \<Rightarrow> mind_state" where
  "barrier_tick env = tick env (\<lambda>c. c\<lparr>mc_global_barrier_version := te_version env\<rparr>)"

lemma tick_fields [simp]:
  "ms_version (tick env f s) = ms_version s" "ms_frames (tick env f s) = ms_frames s" "ms_relations (tick env f s) = ms_relations s"
  "ms_retired (tick env f s) = ms_retired s" "ms_retiring (tick env f s) = ms_retiring s" "ms_protected (tick env f s) = ms_protected s"
  "ms_checkpoints (tick env f s) = ms_checkpoints s"
  by (simp_all add: tick_def)

lemmas ticks = lifecycle_tick_def relation_tick_def checkpoint_tick_def order_tick_def barrier_tick_def

definition core :: "tx_state \<Rightarrow> mind_state \<times> mutation_accumulator" where
  "core st = (ts_next st, ts_mutations st)"

lemma core_simps [simp]:
  "core (ts_change nm target detail st) = core st"
  "core (on_next f st) = (f (fst (core st)), snd (core st))"
  "core (ts_upsert v st) = (fst (core st), acc_upsert v None (snd (core st)))"
  "core (ts_remove env c i st) = (fst (core st), acc_remove (te_current env) c i (snd (core st)))"
  "core (ts_set_order env c ids st) = (fst (core st), acc_set_order (te_current env) c ids (snd (core st)))"
  "core (record_lifecycle_mutation env i st) = (lifecycle_tick env i (fst (core st)), snd (core st))"
  "core (record_relation_mutation env x y z st) = (relation_tick env (relation_logical_id x y z) (fst (core st)), snd (core st))"
  "core (record_checkpoint_mutation env i st) = (checkpoint_tick env i (fst (core st)), snd (core st))"
  "core (record_frame_order env st) = (order_tick env (fst (core st)), snd (core st))"
  by (simp_all add: core_def ts_change_def on_next_def ts_upsert_def ts_remove_def ts_set_order_def record_lifecycle_mutation_def
      record_relation_mutation_def record_checkpoint_mutation_def record_frame_order_def on_clocks_def ticks tick_def)

lemma core_updates [simp]:
  "core (st\<lparr>ts_next := x, ts_mutations := y\<rparr>) = (x, y)" "core (st\<lparr>ts_next := x\<rparr>) = (x, ts_mutations st)"
  "core (st\<lparr>ts_mutations := y\<rparr>) = (ts_next st, y)"
  by (simp_all add: core_def)

lemma ts_next_core: "ts_next st = fst (core st)"
  by (simp add: core_def)

section \<open>Steps\<close>

definition valid_id :: "ustring \<Rightarrow> bool" where
  "valid_id i \<longleftrightarrow> i \<noteq> [] \<and> utf8_len i \<le> 512 \<and> list_all id_char i"

lemma validated_id_ok: "validated_id i = Inr j \<longleftrightarrow> i = j \<and> valid_id i"
  by (auto simp: validated_id_def valid_id_def)

inductive micro :: "tx_env \<Rightarrow> ustring set \<Rightarrow> mind_state \<times> mutation_accumulator \<Rightarrow> mind_state \<times> mutation_accumulator \<Rightarrow> bool" for env A where
  new_frame_step: "micro env A (s, m)
     (order_tick env (s\<lparr>ms_frames := ms_frames s @ [f]\<rparr>), acc_upsert (FrameNode f) (Some (length (ms_frames s))) m)"
  if "lit ''create'' \<in> A \<or> lit ''derive'' \<in> A" "valid_id (cf_id f)" "\<not> has_frame s (cf_id f)" "\<not> has_checkpoint s (cf_id f)" "cf_id f \<notin> set (te_observations env)"
    "f = new_frame env (cf_id f) (sx_text body) sources provenance" "\<forall>k \<in> set sources. has_frame s k \<or> k \<in> set (te_observations env)"
    "length (ms_frames s) \<le> u64_limit"
| revise_step: "micro env A (s, m)
     (s\<lparr>ms_frames := (ms_frames s)[n := revise_frame env (sx_text body) sources provenance (ms_frames s ! n)]\<rparr>,
      acc_upsert (FrameNode (revise_frame env (sx_text body) sources provenance (ms_frames s ! n))) (Some n) m)"
  if "frame_index s i = Some n" "i \<notin> set (ms_retired s)" "bt_get (ms_retiring s) i = None"
| revise_cancel_step: "micro env A (s, m)
     (lifecycle_tick env i ((drop_retiring i s)\<lparr>ms_frames := (ms_frames s)[n := revise_frame env (sx_text body) sources provenance (ms_frames s ! n)]\<rparr>),
      acc_remove (te_current env) RetiringNodes i
        (acc_upsert (FrameNode (revise_frame env (sx_text body) sources provenance (ms_frames s ! n))) (Some n) m))"
  if "frame_index s i = Some n" "i \<notin> set (ms_retired s)" "bt_contains (ms_retiring s) i"
| request_step: "micro env A (s, m) (lifecycle_tick env i (s\<lparr>ms_retiring := bt_insert i r (ms_retiring s)\<rparr>), acc_upsert (RetiringNode r) None m)"
  if "valid_id i" "has_frame s i" "i \<notin> set (ms_protected s)" "i \<notin> set (ms_retired s)" "bt_get (ms_retiring s) i = None"
    "rt_frame_id r = i" "rt_generation r = te_version env" "rt_requested_mind_version r = ms_version (te_current env)"
    "rp_staged (te_policy env)" "find_frame s i = Some f" "rt_requested_frame_revision r = cf_revision f"
    "rt_requested_at_tick r = rp_cognitive_tick (te_policy env)"
    "rt_eligible_at_tick r = u64_saturating_add (rp_cognitive_tick (te_policy env)) (rp_cooling_ticks (te_policy env))"
| retire_step: "micro env A (s, m) (lifecycle_tick env i (add_retired i s), acc_upsert (RetiredNode i) None m)"
  if "valid_id i" "i \<notin> set (ms_protected s)" "i \<notin> set (ms_retired s)" "\<not> (rp_staged (te_policy env) \<and> has_frame s i)"
| cancel_step: "micro env A (s, m) (lifecycle_tick env i (drop_retiring i s), acc_remove (te_current env) RetiringNodes i m)"
  if "bt_contains (ms_retiring s) i"
| restore_step: "micro env A (s, m)
     (lifecycle_tick env i (s\<lparr>ms_retired := bs_remove i (ms_retired s)\<rparr>), acc_remove (te_current env) RetiredNodes i m)"
  if "lit ''restore'' \<in> A" "i \<in> set (ms_retired s)"
| finalize_step: "micro env A (s, m)
     (lifecycle_tick env i (add_retired i (drop_retiring i s)), acc_upsert (RetiredNode i) None (acc_remove (te_current env) RetiringNodes i m))"
  if "bt_contains (ms_retiring s) i" "rp_staged (te_policy env)"
| protect_step: "micro env A (s, m)
     (lifecycle_tick env i (s\<lparr>ms_protected := bs_insert i (ms_protected s)\<rparr>), acc_upsert (ProtectedNode i) None m)"
  if "valid_id i" "i \<notin> set (ms_protected s)" "\<not> bt_contains (ms_retiring s) i"
| protect_again_step: "micro env A (s, m) (s\<lparr>ms_protected := bs_insert i (ms_protected s)\<rparr>, m)"
  if "i \<in> set (ms_protected s)"
| unprotect_step: "micro env A (s, m)
     (lifecycle_tick env i (s\<lparr>ms_protected := bs_remove i (ms_protected s)\<rparr>), acc_remove (te_current env) ProtectedNodes i m)"
  if "lit ''unprotect'' \<in> A" "i \<in> set (ms_protected s)"
| place_step: "micro env A (s, m)
     (order_tick env (s\<lparr>ms_frames := fs\<rparr>), acc_set_order (te_current env) FrameNodes (map cf_id fs) m)"
  if "lit ''place'' \<in> A" "mset fs = mset (ms_frames s)"
| relate_step: "micro env A (s, m)
     (relation_tick env (context_relation_identity r) (s\<lparr>ms_relations := ms_relations s @ [r]\<rparr>),
      acc_set_order (te_current env) RelationNodes (map context_relation_identity (ms_relations s) @ [context_relation_identity r])
        (acc_upsert (RelationNode r) (Some (length (ms_relations s))) m))"
  if "valid_id (cr_subject r)" "valid_id (cr_relation r)" "valid_id (cr_object r)" "cr_created_version r = te_version env"
    "relation_index s (cr_subject r) (cr_relation r) (cr_object r) = None" "length (ms_relations s) \<le> u64_limit"
| unrelate_step: "micro env A (s, m)
     (relation_tick env (relation_logical_id a b c) (s\<lparr>ms_relations := remove_at n (ms_relations s)\<rparr>),
      acc_set_order (te_current env) RelationNodes (map context_relation_identity (remove_at n (ms_relations s)))
        (acc_remove (te_current env) RelationNodes (relation_logical_id a b c) m))"
  if "lit ''unrelate'' \<in> A" "relation_index s a b c = Some n"
| checkpoint_step: "micro env A (s, m)
     (checkpoint_tick env i (s\<lparr>ms_checkpoints := ms_checkpoints s @ [checkpoint_of i (te_version env) s]\<rparr>),
      acc_upsert (CheckpointNode (checkpoint_of i (te_version env) s)) (Some (length (ms_checkpoints s))) m)"
  if "valid_id i" "\<not> has_checkpoint s i" "\<not> has_frame s i" "length (ms_checkpoints s) \<le> u64_limit"
| rollback_step: "micro env A (s, m) (barrier_tick env (restore_checkpoint c s), m\<lparr>ma_broad_replace := True\<rparr>)"
  if "lit ''rollback'' \<in> A" "c \<in> set (ms_checkpoints s)"
| drop_step: "micro env A (s, m)
     (checkpoint_tick env i (s\<lparr>ms_checkpoints := remove_at n (ms_checkpoints s)\<rparr>), acc_remove (te_current env) CheckpointNodes i m)"
  if "lit ''drop-checkpoint'' \<in> A" "checkpoint_index s i = Some n"
| checkpoint_order_step: "micro env A (s, m) (s, acc_set_order (te_current env) CheckpointNodes (map ck_id (ms_checkpoints s)) m)"

abbreviation steps :: "tx_env \<Rightarrow> ustring set \<Rightarrow> mind_state \<times> mutation_accumulator \<Rightarrow> mind_state \<times> mutation_accumulator \<Rightarrow> bool" where
  "steps env A \<equiv> (micro env A)\<^sup>*\<^sup>*"

section \<open>Operations are steps\<close>

lemma as_atom_ok: "as_atom e l = Inr s \<longleftrightarrow> e = SxAtom s"
  by (cases e) (auto simp: as_atom_def)

lemma atom_at_ok: "atom_at op i l = Inr s \<longleftrightarrow> i < length op \<and> op ! i = SxAtom s"
  by (auto simp: atom_at_def as_atom_ok)

lemma id_at_ok: "id_at op i l = Inr s \<longleftrightarrow> i < length op \<and> op ! i = SxAtom s \<and> valid_id s"
  by (auto simp: id_at_def and_then_Inr_iff atom_at_ok validated_id_ok)

lemma canonical_body_ok: "canonical_body e = Inr b \<Longrightarrow> b = sx_text e"
  by (auto simp: canonical_body_def map_ok_Inr_iff Let_def)

lemma ensure_known_ok: "ensure_known env s i = Inr u \<longleftrightarrow> has_frame s i \<or> i \<in> set (te_observations env)"
  by (simp add: ensure_known_def)

lemma ensure_sources_ok: "ensure_sources_exist env s ids = Inr u \<Longrightarrow> \<forall>i \<in> set ids. has_frame s i \<or> i \<in> set (te_observations env)"
  by (auto simp: ensure_sources_exist_def map_ok_Inr_iff ensure_known_ok dest!: try_map_Inr_ball)

lemma upsert_ordered_ok:
  "ts_upsert_ordered v n st = Inr st' \<longleftrightarrow> n \<le> u64_limit \<and> st' = st\<lparr>ts_mutations := acc_upsert v (Some n) (ts_mutations st)\<rparr>"
  by (auto simp: ts_upsert_ordered_def acc_upsert_ordered_def)

lemma core_upsert_ordered: "core (st\<lparr>ts_mutations := acc_upsert v (Some n) (ts_mutations st)\<rparr>) = (fst (core st), acc_upsert v (Some n) (snd (core st)))"
  by (simp add: core_def)

lemma push_frame_core:
  assumes "push_frame env f st = Inr st'"
  shows "length (ms_frames (ts_next st)) \<le> u64_limit \<and>
    core st' = (order_tick env ((ts_next st)\<lparr>ms_frames := ms_frames (ts_next st) @ [f]\<rparr>),
      acc_upsert (FrameNode f) (Some (length (ms_frames (ts_next st)))) (ts_mutations st))"
  using assms by (auto simp: push_frame_def map_ok_Inr_iff upsert_ordered_ok core_upsert_ordered on_next_def core_def [of st] Let_def)


lemma steps_one: "micro env A x y \<Longrightarrow> steps env A x y"
  by blast

lemma steps_mono: "A \<subseteq> B \<Longrightarrow> steps env A x y \<Longrightarrow> steps env B x y"
proof (rule rtranclp_mono [THEN predicate2D, rotated])
  assume "A \<subseteq> B"
  then show "micro env A \<le> micro env B"
    by (auto elim!: micro.cases intro!: predicate2I) (auto intro: micro.intros)
qed

lemma steps_fold:
  assumes "\<And>st x st'. x \<in> set xs \<Longrightarrow> f st x = Inr st' \<Longrightarrow> steps env A (core st) (core st')"
  shows "try_fold f st xs = Inr st' \<Longrightarrow> steps env A (core st) (core st')"
  using assms
proof (induction xs arbitrary: st)
  case (Cons x xs)
  from Cons.prems(1) obtain st1 where 1: "f st x = Inr st1" and 2: "try_fold f st1 xs = Inr st'"
    by (auto simp: and_then_Inr_iff)
  from Cons.prems(2) [OF _ 1] Cons.IH [OF 2] Cons.prems(2) show ?case
    by (meson list.set_intros rtranclp_trans)
qed simp

lemma bt_insert_twice [simp]: "bt_insert k v (bt_insert k v m) = bt_insert k v (m :: ('k::linorder \<times> 'v) list)"
  by (induction m) auto

lemma bt_remove_absent: "\<not> bt_contains m k \<Longrightarrow> bt_remove k m = m"
  by (force simp: bt_contains_def bt_get_None_iff bt_remove_def intro!: filter_True)

lemma bs_insert_member: "bs_wf xs \<Longrightarrow> x \<in> set xs \<Longrightarrow> bs_insert x xs = xs"
  by (induction xs) (auto simp: bs_wf_def)

lemmas result_iffs = and_then_Inr_iff map_ok_Inr_iff id_at_ok as_atom_ok atom_at_ok validated_id_ok ensure_known_ok

lemma create_steps: "op_create env op st = Inr st' \<Longrightarrow> steps env {lit ''create''} (core st) (core st')"
  by (auto simp: op_create_def result_iffs ensure_unknown_def dest!: push_frame_core canonical_body_ok split: if_splits)
    (auto simp: core_def new_frame_def intro!: steps_one new_frame_step)

lemma derive_steps: "op_derive env op st = Inr st' \<Longrightarrow> steps env {lit ''derive''} (core st) (core st')"
  by (auto simp: op_derive_def result_iffs ensure_unknown_def dest!: push_frame_core canonical_body_ok ensure_sources_ok split: if_splits)
    (auto simp: core_def new_frame_def intro!: steps_one new_frame_step)

lemma revise_core:
  assumes "op_revise env op st = Inr st'"
  obtains i n body sources provenance where "frame_index (ts_next st) i = Some n" "i \<notin> set (ms_retired (ts_next st))"
    "bt_contains (ms_retiring (ts_next st)) i"
    "core st' = (lifecycle_tick env i ((drop_retiring i (ts_next st))\<lparr>ms_frames :=
        (ms_frames (ts_next st))[n := revise_frame env (sx_text body) sources provenance (ms_frames (ts_next st) ! n)]\<rparr>),
      acc_remove (te_current env) RetiringNodes i
        (acc_upsert (FrameNode (revise_frame env (sx_text body) sources provenance (ms_frames (ts_next st) ! n))) (Some n) (ts_mutations st)))"
  | i n body sources provenance where "frame_index (ts_next st) i = Some n" "i \<notin> set (ms_retired (ts_next st))"
    "bt_get (ms_retiring (ts_next st)) i = None"
    "core st' = ((ts_next st)\<lparr>ms_frames :=
        (ms_frames (ts_next st))[n := revise_frame env (sx_text body) sources provenance (ms_frames (ts_next st) ! n)]\<rparr>,
      acc_upsert (FrameNode (revise_frame env (sx_text body) sources provenance (ms_frames (ts_next st) ! n))) (Some n) (ts_mutations st))"
proof -
  obtain i n body sources provenance where i: "frame_index (ts_next st) i = Some n" "i \<notin> set (ms_retired (ts_next st))"
    and c: "core st' = core (if bt_contains (ms_retiring (ts_next st)) i
        then record_lifecycle_mutation env i (ts_remove env RetiringNodes i
          (st\<lparr>ts_next := (drop_retiring i (ts_next st))\<lparr>ms_frames :=
             (ms_frames (ts_next st))[n := revise_frame env (sx_text body) sources provenance (ms_frames (ts_next st) ! n)]\<rparr>,
             ts_mutations := acc_upsert (FrameNode (revise_frame env (sx_text body) sources provenance (ms_frames (ts_next st) ! n)))
               (Some n) (ts_mutations st)\<rparr>))
        else st\<lparr>ts_next := (drop_retiring i (ts_next st))\<lparr>ms_frames :=
             (ms_frames (ts_next st))[n := revise_frame env (sx_text body) sources provenance (ms_frames (ts_next st) ! n)]\<rparr>,
             ts_mutations := acc_upsert (FrameNode (revise_frame env (sx_text body) sources provenance (ms_frames (ts_next st) ! n)))
               (Some n) (ts_mutations st)\<rparr>)"
    using assms
    by (auto simp: op_revise_def result_iffs Let_def upsert_ordered_ok on_next_def drop_retiring_def frame_index_def
        dest!: canonical_body_ok split: if_splits)
  show thesis
    using that i c by (cases "bt_contains (ms_retiring (ts_next st)) i")
      (auto simp: core_def [of st'] core_def [of "st\<lparr>ts_next := a, ts_mutations := b\<rparr>" for a b] bt_contains_def drop_retiring_def bt_remove_absent)
qed

lemma revise_steps: "op_revise env op st = Inr st' \<Longrightarrow> steps env A (core st) (core st')"
  by (erule revise_core) (auto simp: core_def [of st] intro!: steps_one revise_cancel_step revise_step)

lemma finalize_steps:
  assumes "bt_contains (ms_retiring (ts_next st)) i" "rp_staged (te_policy env)"
  shows "steps env A (core st) (core (finalize_frame env i detail st))"
  using assms by (auto simp: finalize_frame_def core_def [of st] intro!: steps_one finalize_step)

lemma finalize_retirement_steps: "op_finalize_retirement env op st = Inr st' \<Longrightarrow> steps env A (core st) (core st')"
  by (auto simp: op_finalize_retirement_def result_iffs find_retiring_def bt_contains_def intro!: finalize_steps
      split: if_splits option.splits)

lemma retire_frame_steps:
  assumes "retire_frame env reason i st = Inr st'" "valid_id i" "has_frame (ts_next st) i" "i \<notin> set (ms_protected (ts_next st))"
    "rp_staged (te_policy env)"
  shows "steps env A (core st) (core st')"
proof (cases "find_retiring st i")
  case None
  with assms show ?thesis
    by (auto simp: retire_frame_def and_then_Inr_iff Let_def find_retiring_def core_def [of st] intro!: request_step [THEN steps_one] split: if_splits)
qed (use assms in \<open>auto simp: retire_frame_def split: if_splits\<close>)

lemma retire_now_steps:
  assumes "valid_id i" "i \<notin> set (ms_protected (ts_next st))" "\<not> (rp_staged (te_policy env) \<and> has_frame (ts_next st) i)"
  shows "steps env A (core st) (core (retire_now env reason i st))"
  using assms by (cases "i \<in> set (ms_retired (ts_next st))") (auto simp: retire_now_def core_def [of st] intro!: retire_step [THEN steps_one])

lemma retire_item_steps: "retire_item env reason st item = Inr st' \<Longrightarrow> steps env A (core st) (core st')"
  by (auto simp: retire_item_def result_iffs retire_now_steps elim!: retire_frame_steps split: if_splits)

lemma restore_item_steps: "restore_item env st item = Inr st' \<Longrightarrow> steps env {lit ''restore''} (core st) (core st')"
  by (auto simp: restore_item_def result_iffs core_def [of st] intro!: steps_one cancel_step restore_step split: if_splits)

lemma unprotect_item_steps: "unprotect_item env st item = Inr st' \<Longrightarrow> steps env {lit ''unprotect''} (core st) (core st')"
  by (auto simp: unprotect_item_def result_iffs core_def [of st] intro!: steps_one unprotect_step split: if_splits)

lemma protected_before_clocks: "s\<lparr>ms_clocks := c, ms_protected := p\<rparr> = s\<lparr>ms_protected := p, ms_clocks := c\<rparr>" for s :: mind_state
  by simp

lemma protect_item_steps: "protect_item env st item = Inr st' \<Longrightarrow> steps env A (core st) (core st')"
proof -
  assume "protect_item env st item = Inr st'"
  then obtain i where i: "valid_id i"
    and c: "core st' = core (let cancelled = bt_contains (ms_retiring (ts_next st)) i;
           added = (i \<notin> set (ms_protected (ts_next st)));
           st = on_next (\<lambda>s. (drop_retiring i s)\<lparr>ms_protected := bs_insert i (ms_protected s)\<rparr>) st;
           st = (if cancelled then ts_remove env RetiringNodes i st else st);
           st = (if added then ts_upsert (ProtectedNode i) st else st) in
         if cancelled \<or> added then record_lifecycle_mutation env i st else st)"
    by (auto simp: protect_item_def result_iffs Let_def)
  let ?s = "ts_next st" and ?m = "ts_mutations st"
  have inner: "steps env A (lifecycle_tick env i (drop_retiring i ?s), m)
      (lifecycle_tick env i ((drop_retiring i ?s)\<lparr>ms_protected := bs_insert i (ms_protected ?s)\<rparr>),
       if i \<in> set (ms_protected ?s) then m else acc_upsert (ProtectedNode i) None m)" for m
    using protect_step [of i "lifecycle_tick env i (drop_retiring i ?s)" env A m]
      protect_again_step [of i "lifecycle_tick env i (drop_retiring i ?s)" env A m] i
    by (auto simp: lifecycle_tick_def tick_def drop_retiring_def bt_contains_def protected_before_clocks split: if_splits)
  show ?thesis
  proof (cases "bt_contains (ms_retiring ?s) i")
    case True
    have "steps env A (core st) (lifecycle_tick env i (drop_retiring i ?s), acc_remove (te_current env) RetiringNodes i ?m)"
      using cancel_step [OF True, of env A ?m] by (auto simp: core_def)
    with inner [of "acc_remove (te_current env) RetiringNodes i ?m"] True c show ?thesis
      by (auto simp: core_def [of st] Let_def split: if_splits)
  next
    case False
    then have "drop_retiring i ?s = ?s" by (simp add: drop_retiring_def bt_remove_absent)
    with c False i show ?thesis
      by (auto simp: core_def [of st] Let_def split: if_splits intro!: steps_one protect_step protect_again_step)
  qed
qed

lemma mset_remove_at: "n < length xs \<Longrightarrow> add_mset (xs ! n) (mset (remove_at n xs)) = mset xs"
  by (metis Cons_nth_drop_Suc append_take_drop_id mset.simps(2) mset_append remove_at_def union_mset_add_mset_right)

lemma mset_insert_at [simp]: "mset (insert_at n x xs) = add_mset x (mset xs)"
  by (metis append_take_drop_id insert_at_def mset.simps(2) mset_append union_mset_add_mset_right)

lemma find_index_Some:
  "find P [0..<n] = Some k \<longleftrightarrow> k < n \<and> P k \<and> (\<forall>j < k. \<not> P j)"
  by (auto simp: find_Some_iff)

lemma frame_index_Some:
  "frame_index s i = Some n \<longleftrightarrow> n < length (ms_frames s) \<and> cf_id (ms_frames s ! n) = i \<and> (\<forall>j < n. cf_id (ms_frames s ! j) \<noteq> i)"
  by (simp add: frame_index_def find_index_Some)

lemma place_frame_mset:
  assumes "place_frame i e s = Inr s'"
  obtains fs where "mset fs = mset (ms_frames s)" "s' = s\<lparr>ms_frames := fs\<rparr>"
proof -
  from assms obtain n where n: "n < length (ms_frames s)"
    and s': "\<exists>k. s' = s\<lparr>ms_frames := (ms_frames s ! n) # remove_at n (ms_frames s)\<rparr> \<or>
      s' = s\<lparr>ms_frames := remove_at n (ms_frames s) @ [ms_frames s ! n]\<rparr> \<or>
      s' = s\<lparr>ms_frames := insert_at k (ms_frames s ! n) (remove_at n (ms_frames s))\<rparr>"
    by (cases e) (auto simp: place_frame_def result_iffs Let_def frame_index_Some [of s] split: if_splits)
  show thesis
    using s' mset_remove_at [OF n] by (elim exE disjE) (rule that; simp)+
qed

lemma place_steps: "op_place env op st = Inr st' \<Longrightarrow> steps env {lit ''place''} (core st) (core st')"
  by (auto simp: op_place_def result_iffs core_def [of st] elim!: place_frame_mset intro!: steps_one place_step)

lemma session_steps: "op_session env name op st = Inr st' \<Longrightarrow> steps env A (core st) (core st')"
  by (auto simp: op_session_def result_iffs elim!: steps_fold [rotated] split: if_splits)

lemma relation_identity_of:
  "context_relation_identity \<lparr>cr_subject = x, cr_relation = y, cr_object = z, cr_created_version = v\<rparr> = relation_logical_id x y z"
  by (simp add: context_relation_identity_def)

lemmas relate_step_parts = relate_step [where r = "\<lparr>cr_subject = x, cr_relation = y, cr_object = z, cr_created_version = v\<rparr>" for x y z v,
  unfolded relation_identity_of, simplified]

lemma relate_steps: "op_relate env op st = Inr st' \<Longrightarrow> steps env A (core st) (core st')"
  by (auto simp: op_relate_def relation_arguments_def result_iffs relations_changed_def Let_def upsert_ordered_ok core_def [of st]
      relation_identity_of on_next_def intro!: steps_one relate_step_parts split: option.splits)

lemma unrelate_steps: "op_unrelate env op st = Inr st' \<Longrightarrow> steps env {lit ''unrelate''} (core st) (core st')"
  by (auto simp: op_unrelate_def relation_arguments_def result_iffs relations_changed_def core_def [of st] ts_remove_def on_next_def
      intro!: unrelate_step [THEN steps_one] split: option.splits)

lemma checkpoint_steps: "op_checkpoint env op st = Inr st' \<Longrightarrow> steps env A (core st) (core st')"
  by (auto simp: op_checkpoint_def result_iffs Let_def upsert_ordered_ok on_next_def core_def [of st] intro!: steps_one checkpoint_step split: if_splits)

lemma rollback_steps: "op_rollback env op st = Inr st' \<Longrightarrow> steps env {lit ''rollback''} (core st) (core st')"
proof (clarsimp simp: op_rollback_def result_iffs Let_def on_next_def)
  fix reason i c
  assume "find (\<lambda>c. ck_id c = i) (ms_checkpoints (ts_next st)) = Some c"
  then have "micro env {lit ''rollback''} (core st) (barrier_tick env (restore_checkpoint c (ts_next st)), (ts_mutations st)\<lparr>ma_broad_replace := True\<rparr>)"
    unfolding core_def by (intro rollback_step) (auto dest: find_SomeD)
  then show "steps env {lit ''rollback''} (core st)
      (ts_next (on_clocks env (mc_global_barrier_version_update (\<lambda>_. te_version env)) (st\<lparr>ts_next := restore_checkpoint c (ts_next st)\<rparr>)),
       ts_mutations (on_clocks env (mc_global_barrier_version_update (\<lambda>_. te_version env)) (st\<lparr>ts_next := restore_checkpoint c (ts_next st)\<rparr>))
         \<lparr>ma_broad_replace := True\<rparr>)"
    by (auto simp: on_clocks_def on_next_def barrier_tick_def tick_def split: if_splits)
qed

lemma drop_item_steps: "drop_checkpoint_item env reason st item = Inr st' \<Longrightarrow> steps env {lit ''drop-checkpoint''} (core st) (core st')"
  by (auto simp: drop_checkpoint_item_def result_iffs core_def [of st] intro!: steps_one drop_step)

lemma drop_steps: "op_drop_checkpoint env op st = Inr st' \<Longrightarrow> steps env {lit ''drop-checkpoint''} (core st) (core st')"
proof (clarsimp simp: op_drop_checkpoint_def result_iffs)
  fix reason st1
  assume "try_fold (drop_checkpoint_item env reason) st (tl op) = Inr st1"
  then have "steps env {lit ''drop-checkpoint''} (core st) (core st1)"
    by (rule steps_fold [rotated]) (rule drop_item_steps)
  moreover have "micro env {lit ''drop-checkpoint''} (core st1)
      (fst (core st1), acc_set_order (te_current env) CheckpointNodes (map ck_id (ms_checkpoints (ts_next st1))) (snd (core st1)))"
    using checkpoint_order_step [of env "{lit ''drop-checkpoint''}" "ts_next st1" "ts_mutations st1"] by (simp add: core_def)
  ultimately show "steps env {lit ''drop-checkpoint''} (core st)
      (fst (core st1), acc_set_order (te_current env) CheckpointNodes (map ck_id (ms_checkpoints (ts_next st1))) (snd (core st1)))"
    by (rule rtranclp.rtrancl_into_rtrancl)
qed

text \<open>Every operation takes the steps of its name only.\<close>

definition operation_name :: "sx \<Rightarrow> ustring" where
  "operation_name e = (case e of SxList (SxAtom h # _) \<Rightarrow> h | _ \<Rightarrow> [])"

lemma item_fold_steps:
  "try_fold (retire_item env reason) st items = Inr st' \<Longrightarrow> steps env A (core st) (core st')"
  "try_fold (restore_item env) st items = Inr st' \<Longrightarrow> steps env {lit ''restore''} (core st) (core st')"
  "try_fold (protect_item env) st items = Inr st' \<Longrightarrow> steps env A (core st) (core st')"
  "try_fold (unprotect_item env) st items = Inr st' \<Longrightarrow> steps env {lit ''unprotect''} (core st) (core st')"
  by (erule steps_fold [rotated], erule retire_item_steps restore_item_steps protect_item_steps unprotect_item_steps)+

lemma operation_steps:
  assumes "(n, run) \<in> set operation_table" "run env op st = Inr st'"
  shows "steps env {lit n} (core st) (core st')"
  using assms
  by (auto simp: operation_table_def op_retire_def op_restore_def op_protect_def op_unprotect_def and_then_Inr_iff
      intro: create_steps derive_steps revise_steps finalize_retirement_steps session_steps place_steps relate_steps unrelate_steps
        checkpoint_steps rollback_steps drop_steps item_fold_steps)

lemma apply_operation_steps:
  assumes "apply_operation env st e = Inr st'"
  shows "steps env {operation_name e} (core st) (core st')"
proof -
  from assms obtain op name where e: "e = SxList op" "0 < length op" "op ! 0 = SxAtom name"
    and run: "(case find (\<lambda>(n, _). lit n = name) operation_table of
         Some (_, run) \<Rightarrow> run env op st | None \<Rightarrow> Inl (Refused ''unknown primitive'' name)) = Inr st'"
    by (auto simp: apply_operation_def result_iffs tx_as_list_def split: sx.splits)
  from run obtain n run where f: "find (\<lambda>(n, _). lit n = name) operation_table = Some (n, run)" "run env op st = Inr st'"
    by (auto split: option.splits)
  have "(n, run) \<in> set operation_table" "lit n = name" using find_SomeD [OF f(1)] by auto
  moreover have "operation_name e = name" using e by (cases op) (auto simp: operation_name_def)
  ultimately show ?thesis using operation_steps f(2) by metis
qed

lemma close_superseded_steps:
  assumes "bt_contains (ms_retiring (ts_next st)) i" "rp_staged (te_policy env)"
  shows "steps env A (core st) (core (close_superseded env i st))"
  using assms by (auto simp: close_superseded_def intro: finalize_steps split: option.splits)


lemma close_fold_steps:
  assumes "distinct ids" "\<And>i. i \<in> set ids \<Longrightarrow> bt_contains (ms_retiring (ts_next st)) i" "rp_staged (te_policy env)"
  shows "steps env A (core st) (core (fold (close_superseded env) ids st))"
  using assms
proof (induction ids arbitrary: st)
  case (Cons i ids)
  have "bt_contains (ms_retiring (ts_next (close_superseded env i st))) j" if "j \<in> set ids" for j
    using that Cons.prems(1) Cons.prems(2) [of j]
    by (auto simp: close_superseded_def finalize_frame_def ts_next_core lifecycle_tick_def add_retired_def drop_retiring_def bt_contains_def
        split: option.splits)
  with Cons.IH [of "close_superseded env i st"] Cons.prems close_superseded_steps [of st i env A] show ?case
    by (auto intro: rtranclp_trans)
qed simp

lemma close_retirements_steps:
  assumes "bt_wf (ms_retiring (ts_next st))"
  shows "steps env A (core st) (core (close_retirements env st))"
proof (cases "rp_staged (te_policy env)")
  case True
  have "steps env A (core st) (core (fold (close_superseded env) (map fst (ms_retiring (ts_next st))) st))"
    using assms True
    by (intro close_fold_steps) (auto simp: bt_wf_def strict_sorted_iff bt_contains_def bt_get_def)
  with True show ?thesis by (simp add: close_retirements_def)
qed (simp add: close_retirements_def)

text \<open>The whole transaction.\<close>

lemma apply_transaction_steps:
  assumes "apply_transaction env base ops = Inr t"
  obtains st where "steps env (operation_name ` set ops) (start_tracking env, accumulator_new) (core st)"
    "t = tx_finish env (close_retirements env st)" "base = ms_version (te_current env)"
proof -
  from assms obtain st where st: "try_fold (apply_operation env) (tx_start env) ops = Inr st"
      "t = tx_finish env (close_retirements env st)" "base = ms_version (te_current env)"
    by (auto simp: apply_transaction_def map_ok_Inr_iff split: if_splits)
  have "steps env (operation_name ` set ops) (core (tx_start env)) (core st)"
    by (rule steps_fold [OF _ st(1)]) (auto intro: steps_mono [OF _ apply_operation_steps])
  with that [of st] st show thesis by (simp add: core_def tx_start_def)
qed

end
