(* ===== verification/Context_Invariant.thy ===== *)
theory Context_Invariant
  imports Context_Steps
begin

text \<open>
  What every transaction keeps of a state, and what the mutations it plans have to do with the state
  it leads to: written into the records of the old state they give exactly the records of the new
  one.
\<close>

section \<open>Well-formed contents\<close>

text \<open>
  The part of a state a checkpoint holds too. Under the staged policy a frame is not both retiring
  and retired; a policy that retires at once does not look at pending requests.
\<close>

definition content_ok :: "bool \<Rightarrow> context_frame list \<Rightarrow> context_relation list \<Rightarrow> ustring list \<Rightarrow> (ustring \<times> frame_retirement) list \<Rightarrow>
    ustring list \<Rightarrow> bool" where
  "content_ok staged frames relations retired retiring guarded \<longleftrightarrow>
     distinct (map cf_id frames) \<and> list_all (\<lambda>f. valid_id (cf_id f)) frames \<and>
     distinct (map context_relation_identity relations) \<and>
     list_all (\<lambda>r. valid_id (cr_subject r) \<and> valid_id (cr_relation r) \<and> valid_id (cr_object r)) relations \<and>
     bs_wf retired \<and> list_all valid_id retired \<and> bs_wf guarded \<and> list_all valid_id guarded \<and>
     bt_wf retiring \<and> list_all (\<lambda>(i, r). rt_frame_id r = i \<and> i \<in> cf_id ` set frames \<and> i \<notin> set guarded) retiring \<and>
     (staged \<longrightarrow> list_all (\<lambda>(i, r). i \<notin> set retired) retiring)"

definition checkpoint_ok :: "bool \<Rightarrow> mind_checkpoint \<Rightarrow> bool" where
  "checkpoint_ok staged c \<longleftrightarrow>
     valid_id (ck_id c) \<and> content_ok staged (ck_frames c) (ck_relations c) (ck_retired c) (ck_retiring c) (ck_protected c)"

definition mind_ok :: "bool \<Rightarrow> mind_state \<Rightarrow> bool" where
  "mind_ok staged s \<longleftrightarrow>
     content_ok staged (ms_frames s) (ms_relations s) (ms_retired s) (ms_retiring s) (ms_protected s) \<and>
     distinct (map ck_id (ms_checkpoints s)) \<and> list_all (checkpoint_ok staged) (ms_checkpoints s)"

lemma mind_ok_ticks [simp]:
  "mind_ok b (tick env f s) = mind_ok b s" "mind_ok b (lifecycle_tick env i s) = mind_ok b s" "mind_ok b (relation_tick env i s) = mind_ok b s"
  "mind_ok b (checkpoint_tick env i s) = mind_ok b s" "mind_ok b (order_tick env s) = mind_ok b s" "mind_ok b (barrier_tick env s) = mind_ok b s"
  by (simp_all add: mind_ok_def ticks)

lemma valid_id_text: "valid_id i \<Longrightarrow> trim i \<noteq> []"
proof -
  assume v: "valid_id i"
  then have ws: "\<not> is_whitespace c" if "c \<in> set i" for c
    using that by (auto simp: valid_id_def list_all_iff id_char_def is_whitespace_def)
  have keep: "trim_start s = s" if "set s \<subseteq> set i" for s
    using that ws unfolding trim_start_def by (cases s) auto
  show ?thesis
    using v keep [of i] keep [of "rev i"] by (simp add: trim_def valid_id_def)
qed

lemma valid_id_separator: "valid_id i \<Longrightarrow> unit_separator \<notin> set i"
  by (auto simp: valid_id_def id_char_def unit_separator_def list_all_iff)

lemma relation_index_None:
  "relation_index s a b c = None \<longleftrightarrow> (\<forall>r \<in> set (ms_relations s). \<not> (cr_subject r = a \<and> cr_relation r = b \<and> cr_object r = c))"
  by (force simp: relation_index_def find_None_iff in_set_conv_nth)

lemma relation_index_Some:
  "relation_index s a b c = Some n \<longleftrightarrow> n < length (ms_relations s) \<and>
     (cr_subject (ms_relations s ! n) = a \<and> cr_relation (ms_relations s ! n) = b \<and> cr_object (ms_relations s ! n) = c) \<and>
     (\<forall>j < n. \<not> (cr_subject (ms_relations s ! j) = a \<and> cr_relation (ms_relations s ! j) = b \<and> cr_object (ms_relations s ! j) = c))"
  by (simp add: relation_index_def find_index_Some)

lemma checkpoint_index_Some:
  "checkpoint_index s i = Some n \<longleftrightarrow> n < length (ms_checkpoints s) \<and> ck_id (ms_checkpoints s ! n) = i \<and> (\<forall>j < n. ck_id (ms_checkpoints s ! j) \<noteq> i)"
  by (simp add: checkpoint_index_def find_index_Some)

lemma remove_at_Nil [simp]: "remove_at n [] = []"
  by (simp add: remove_at_def)

lemma remove_at_Cons [simp]: "remove_at n (x # xs) = (case n of 0 \<Rightarrow> xs | Suc m \<Rightarrow> x # remove_at m xs)"
  by (simp add: remove_at_def split: nat.splits)

lemma set_remove_at: "x \<in> set (remove_at n xs) \<Longrightarrow> x \<in> set xs"
  by (auto simp: remove_at_def dest: in_set_takeD in_set_dropD)

lemma distinct_remove_at: "distinct (map f xs) \<Longrightarrow> distinct (map f (remove_at n xs))"
  by (induction xs arbitrary: n) (auto split: nat.splits dest: set_remove_at)

lemma remove_at_distinct:
  "distinct (map f xs) \<Longrightarrow> n < length xs \<Longrightarrow> remove_at n xs = filter (\<lambda>x. f x \<noteq> f (xs ! n)) xs"
proof (induction xs arbitrary: n)
  case (Cons x xs)
  show ?case
  proof (cases n)
    case 0
    moreover have "\<forall>y \<in> set xs. f y \<noteq> f x" using Cons.prems(1) by (metis distinct.simps(2) image_eqI list.set_map list.simps(9))
    ultimately show ?thesis by (simp add: filter_id_conv)
  next
    case (Suc m)
    with Cons.prems Cons.IH [of m] show ?thesis by (auto simp: image_iff dest: nth_mem)
  qed
qed simp

lemma relation_unique:
  assumes "valid_id (cr_subject r)" "valid_id (cr_relation r)" "valid_id (cr_subject r')" "valid_id (cr_relation r')"
  shows "context_relation_identity r = context_relation_identity r' \<longleftrightarrow>
    cr_subject r = cr_subject r' \<and> cr_relation r = cr_relation r' \<and> cr_object r = cr_object r'"
  using relation_identity_exact [of "cr_subject r" "cr_relation r" "cr_subject r'" "cr_relation r'" "cr_object r" "cr_object r'"]
    assms valid_id_separator unfolding context_relation_identity_def by auto

lemma content_sets:
  "content_ok staged frames relations retired retiring guarded \<longleftrightarrow>
     distinct (map cf_id frames) \<and> (\<forall>f \<in> set frames. valid_id (cf_id f)) \<and>
     distinct (map context_relation_identity relations) \<and>
     (\<forall>r \<in> set relations. valid_id (cr_subject r) \<and> valid_id (cr_relation r) \<and> valid_id (cr_object r)) \<and>
     bs_wf retired \<and> (\<forall>i \<in> set retired. valid_id i) \<and> bs_wf guarded \<and> (\<forall>i \<in> set guarded. valid_id i) \<and>
     bt_wf retiring \<and>
     (\<forall>i r. bt_get retiring i = Some r \<longrightarrow>
        rt_frame_id r = i \<and> i \<in> cf_id ` set frames \<and> i \<notin> set guarded \<and> (staged \<longrightarrow> i \<notin> set retired))"
proof (cases "bt_wf retiring")
  case True
  have "list_all (\<lambda>(i, r). P i r) retiring \<longleftrightarrow> (\<forall>i r. bt_get retiring i = Some r \<longrightarrow> P i r)" for P
    using bt_get_wf [OF True] bt_get_in_set [of retiring] unfolding list_all_iff by blast
  then show ?thesis unfolding content_ok_def by (auto simp: list_all_iff [of _ frames] list_all_iff [of _ relations]
      list_all_iff [of _ retired] list_all_iff [of _ guarded])
qed (simp add: content_ok_def)

lemmas mind_sets = ticks mind_ok_def content_sets

lemma mset_map_distinct: "mset xs = mset ys \<Longrightarrow> distinct (map f xs) \<longleftrightarrow> distinct (map f ys)"
  by (metis mset_map mset_eq_imp_distinct_iff)

lemma frames_revised:
  assumes "frame_index s i = Some n" "cf_id f = i"
  shows "map cf_id ((ms_frames s)[n := f]) = map cf_id (ms_frames s)"
  using assms by (auto simp: frame_index_Some map_update intro: list_update_same_conv [THEN iffD2])

lemma content_ids:
  assumes "map cf_id fs = map cf_id gs"
  shows "content_ok b fs relations retired retiring guarded = content_ok b gs relations retired retiring guarded"
proof -
  have "list_all (\<lambda>f. valid_id (cf_id f)) fs = list_all (\<lambda>f. valid_id (cf_id f)) gs" "cf_id ` set fs = cf_id ` set gs"
    using arg_cong [OF assms, of "list_all valid_id"] arg_cong [OF assms, of set] by (simp_all add: list.pred_map comp_def)
  with assms show ?thesis by (simp add: content_ok_def)
qed

lemma revise_ok:
  assumes "frame_index s i = Some n" "cf_id f = i"
  shows "mind_ok b (s\<lparr>ms_frames := (ms_frames s)[n := f]\<rparr>) = mind_ok b s"
  by (simp add: mind_ok_def content_ids [OF frames_revised [OF assms]])

lemma drop_retiring_ok: "mind_ok b s \<Longrightarrow> mind_ok b (drop_retiring i s)"
  by (auto simp: mind_ok_def content_sets drop_retiring_def)

lemma cf_id_revise [simp]: "cf_id (revise_frame env b ss p f) = cf_id f"
  by (simp add: revise_frame_def)

lemma has_frame_ids: "has_frame s i \<longleftrightarrow> i \<in> cf_id ` set (ms_frames s)"
  by (auto simp: has_frame_def list_ex_iff)

lemma retiring_valid: "mind_ok b s \<Longrightarrow> bt_get (ms_retiring s) i = Some r \<Longrightarrow> valid_id i"
  unfolding mind_ok_def content_sets by (elim conjE) (metis (no_types, lifting) imageE)

lemma restore_ok: "mind_ok b s \<Longrightarrow> c \<in> set (ms_checkpoints s) \<Longrightarrow> mind_ok b (restore_checkpoint c s)"
  by (auto simp: mind_ok_def checkpoint_ok_def restore_checkpoint_def list_all_iff)

lemma micro_keeps_mind_ok:
  assumes "micro env A x y" "mind_ok (rp_staged (te_policy env)) (fst x)"
  shows "mind_ok (rp_staged (te_policy env)) (fst y)"
  using assms
proof (cases rule: micro.cases)
  case (new_frame_step f s) with assms(2) show ?thesis
    by (auto simp: mind_sets has_frame_ids)
next
  case (revise_step s i n) with assms(2) show ?thesis
    by (auto simp: revise_ok frame_index_Some)
next
  case (revise_cancel_step s i n)
  then have "frame_index (drop_retiring i s) i = Some n" by (simp add: frame_index_def drop_retiring_def)
  from revise_ok [OF this] revise_cancel_step assms(2) drop_retiring_ok show ?thesis
    by (auto simp: frame_index_Some drop_retiring_def)
next
  case (request_step i s) with assms(2) show ?thesis
    by (auto simp: mind_sets has_frame_ids)
next
  case (retire_step i s) with assms(2) show ?thesis
    by (auto simp: mind_sets has_frame_ids add_retired_def)
next
  case (cancel_step s i) with assms(2) show ?thesis
    by (auto simp: mind_sets drop_retiring_def)
next
  case (restore_step i s) with assms(2) show ?thesis
    by (auto simp: mind_sets)
next
  case (finalize_step s i)
  with assms(2) have "valid_id i" by (auto simp: bt_contains_def dest: retiring_valid)
  with finalize_step assms(2) show ?thesis
    by (auto simp: mind_sets add_retired_def drop_retiring_def bt_contains_def)
next
  case (protect_step i s) with assms(2) show ?thesis
    by (auto simp: mind_sets bt_contains_def)
next
  case (protect_again_step i s) with assms(2) show ?thesis
    by (auto simp: mind_sets)
next
  case (unprotect_step i s) with assms(2) show ?thesis
    by (auto simp: mind_sets)
next
  case (place_step fs s) with assms(2) mset_map_distinct [OF place_step(4), of cf_id] mset_eq_setD [OF place_step(4)] show ?thesis
    by (auto simp: mind_sets)
next
  case (relate_step r s) with assms(2) show ?thesis
    by (auto simp: mind_sets relation_index_None relation_unique)
next
  case (unrelate_step s a b c n) with assms(2) show ?thesis
    by (auto simp: mind_sets dest: set_remove_at intro: distinct_remove_at)
next
  case (checkpoint_step i s) with assms(2) show ?thesis
    by (auto simp: mind_ok_def checkpoint_ok_def ticks checkpoint_of_def has_checkpoint_def list_ex_iff list_all_iff)
next
  case (rollback_step c s) with assms(2) show ?thesis
    by (auto intro: restore_ok)
next
  case (drop_step s i n) with assms(2) show ?thesis
    by (auto simp: mind_ok_def ticks list_all_iff dest: set_remove_at intro: distinct_remove_at)
qed auto

lemma steps_keep_mind_ok:
  "steps env A x y \<Longrightarrow> mind_ok (rp_staged (te_policy env)) (fst x) \<Longrightarrow> mind_ok (rp_staged (te_policy env)) (fst y)"
  by (induction rule: rtranclp_induct) (auto dest: micro_keeps_mind_ok)

lemma close_keeps:
  assumes "steps env A (start_tracking env, accumulator_new) (core st)" "mind_ok (rp_staged (te_policy env)) (te_current env)"
  shows "steps env A (start_tracking env, accumulator_new) (core (close_retirements env st))"
    "mind_ok (rp_staged (te_policy env)) (ts_next (close_retirements env st))"
proof -
  have start: "mind_ok (rp_staged (te_policy env)) (start_tracking env)"
    using assms(2) by (auto simp: start_tracking_def mind_ok_def Let_def)
  have "mind_ok (rp_staged (te_policy env)) (ts_next st)"
    using steps_keep_mind_ok [OF assms(1)] start by (simp add: core_def)
  then have "bt_wf (ms_retiring (ts_next st))" by (simp add: mind_ok_def content_ok_def)
  from rtranclp_trans [OF assms(1) close_retirements_steps [OF this]]
  show "steps env A (start_tracking env, accumulator_new) (core (close_retirements env st))" .
  from steps_keep_mind_ok [OF this] start show "mind_ok (rp_staged (te_policy env)) (ts_next (close_retirements env st))"
    by (simp add: core_def)
qed

lemma transaction_steps:
  assumes "apply_transaction env base ops = Inr t" "mind_ok (rp_staged (te_policy env)) (te_current env)"
  obtains st where "steps env (operation_name ` set ops) (start_tracking env, accumulator_new) (core st)"
    "mind_ok (rp_staged (te_policy env)) (ts_next st)" "t = tx_finish env st" "base = ms_version (te_current env)"
  using assms(1) close_keeps [OF _ assms(2)] by (metis apply_transaction_steps)

lemma transaction_keeps_mind_ok:
  assumes "apply_transaction env base ops = Inr t" "mind_ok (rp_staged (te_policy env)) (te_current env)"
  shows "mind_ok (rp_staged (te_policy env)) (at_next t)"
  using assms by (rule transaction_steps) (auto simp: tx_finish_def Let_def ts_upsert_def mind_ok_def)

section \<open>Invariants of steps\<close>

text \<open>
  What the steps of a transaction keep, its operations do and so does the whole transaction. A
  client gives what it wants kept, and for which names of operations, and shows it for one step.
\<close>

locale step_invariant =
  fixes holds :: "tx_env \<Rightarrow> mind_state \<times> mutation_accumulator \<Rightarrow> bool"
    and allowed :: "ustring set \<Rightarrow> bool"
  assumes one_step: "\<lbrakk>allowed A; micro env A x y; mind_ok (rp_staged (te_policy env)) (fst x);
    mind_ok (rp_staged (te_policy env)) (te_current env); holds env x\<rbrakk> \<Longrightarrow> holds env y"
begin

lemma steps_hold:
  assumes "steps env A x y" "allowed A" "mind_ok (rp_staged (te_policy env)) (fst x)" "mind_ok (rp_staged (te_policy env)) (te_current env)"
    "holds env x"
  shows "holds env y"
  using assms(1)
proof (induction rule: rtranclp_induct)
  case (step y z)
  from steps_keep_mind_ok [OF step.hyps(1) assms(3)] show ?case by (rule one_step [OF assms(2) step.hyps(2) _ assms(4) step.IH])
qed (rule assms(5))

lemma transaction_holds:
  assumes "steps env (operation_name ` set ops) (start_tracking env, accumulator_new) (core st)" "allowed (operation_name ` set ops)"
    "mind_ok (rp_staged (te_policy env)) (te_current env)" "holds env (start_tracking env, accumulator_new)"
  shows "holds env (ts_next st, ts_mutations st)"
proof -
  have "mind_ok (rp_staged (te_policy env)) (start_tracking env)"
    using assms(3) by (auto simp: start_tracking_def mind_ok_def Let_def)
  with steps_hold [OF assms(1,2) _ assms(3,4)] show ?thesis by (simp add: core_def)
qed

end

section \<open>Planned mutations\<close>

text \<open>The record a collection of a state holds under an identifier.\<close>

fun record_of :: "mind_state \<Rightarrow> context_collection \<Rightarrow> ustring \<Rightarrow> context_node_value option" where
  "record_of s FrameNodes i = map_option FrameNode (find_frame s i)"
| "record_of s RelationNodes i = map_option RelationNode (find (\<lambda>r. context_relation_identity r = i) (ms_relations s))"
| "record_of s RetiredNodes i = (if i \<in> set (ms_retired s) then Some (RetiredNode i) else None)"
| "record_of s RetiringNodes i = map_option RetiringNode (bt_get (ms_retiring s) i)"
| "record_of s ProtectedNodes i = (if i \<in> set (ms_protected s) then Some (ProtectedNode i) else None)"
| "record_of s CheckpointNodes i = map_option CheckpointNode (find (\<lambda>c. ck_id c = i) (ms_checkpoints s))"
| "record_of s ClockNodes i = (if i = lit ''mutation-clocks'' then Some (ClocksNode (ms_clocks s)) else None)"

text \<open>What a mutation leaves of the record of a key.\<close>

fun written_value :: "state_mutation \<Rightarrow> context_node_value option" where
  "written_value (Upsert v order) = Some v"
| "written_value _ = None"

definition overlaid :: "mind_state \<Rightarrow> mutation_accumulator \<Rightarrow> context_collection \<Rightarrow> ustring \<Rightarrow> context_node_value option" where
  "overlaid s m c i = (case bt_get (ma_writes m) (c, i) of None \<Rightarrow> record_of s c i | Some w \<Rightarrow> written_value w)"

lemma find_None_ex: "find P xs = None \<longleftrightarrow> \<not> list_ex P xs"
  by (induction xs) auto

lemma baseline_record: "baseline_contains_context_record s c i \<longleftrightarrow> record_of s c i \<noteq> None"
  by (cases c) (auto simp: find_frame_def find_None_ex bt_contains_def)

lemma overlaid_upsert [simp]:
  "overlaid s (acc_upsert v order m) c i = (if (c, i) = (node_collection v, logical_id v) then Some v else overlaid s m c i)"
  by (auto simp: overlaid_def acc_upsert_def)

lemma overlaid_remove [simp]: "overlaid s (acc_remove s c' i' m) c i = (if (c, i) = (c', i') then None else overlaid s m c i)"
  by (auto simp: overlaid_def acc_remove_def baseline_record)

lemma overlaid_order [simp]: "overlaid s (acc_set_order s c' ids m) = overlaid s m"
  by (auto simp: overlaid_def acc_set_order_def intro!: ext)

lemma record_of_ticks [simp]:
  "c \<noteq> ClockNodes \<Longrightarrow> record_of (tick env f s) c i = record_of s c i"
  by (cases c) (simp_all add: find_frame_def)

definition exact :: "mind_state \<Rightarrow> mind_state \<times> mutation_accumulator \<Rightarrow> bool" where
  "exact base x \<longleftrightarrow> ma_broad_replace (snd x) \<or> (\<forall>c i. c \<noteq> ClockNodes \<longrightarrow> record_of (fst x) c i = overlaid base (snd x) c i)"


lemma find_snoc: "find P (xs @ [x]) = (case find P xs of None \<Rightarrow> if P x then Some x else None | Some y \<Rightarrow> Some y)"
  by (induction xs) auto

lemma find_update:
  "n < length xs \<Longrightarrow> f (xs ! n) = i \<Longrightarrow> \<forall>j < n. f (xs ! j) \<noteq> i \<Longrightarrow> f y = i \<Longrightarrow>
     find (\<lambda>x. f x = k) (xs[n := y]) = (if k = i then Some y else find (\<lambda>x. f x = k) xs)"
proof (induction xs arbitrary: n)
  case (Cons x xs)
  show ?case
  proof (cases n)
    case (Suc m)
    have "f x \<noteq> i" using Cons.prems(3) Suc by force
    moreover have "\<forall>j < m. f (xs ! j) \<noteq> i" using Cons.prems(3) Suc by force
    ultimately show ?thesis using Cons.prems Cons.IH [of m] Suc by auto
  qed (use Cons.prems in auto)
qed simp

lemma find_unique: "distinct (map f xs) \<Longrightarrow> find (\<lambda>x. f x = k) xs = Some y \<longleftrightarrow> y \<in> set xs \<and> f y = k"
  by (induction xs) (auto simp: image_iff)

lemma find_mset:
  assumes "mset xs = mset ys" "distinct (map f ys)"
  shows "find (\<lambda>x. f x = k) xs = find (\<lambda>x. f x = k) ys"
proof -
  have d: "distinct (map f xs)" using mset_map_distinct [OF assms(1), of f] assms(2) by simp
  have "find (\<lambda>x. f x = k) xs = Some y \<longleftrightarrow> find (\<lambda>x. f x = k) ys = Some y" for y
    using find_unique [OF d] find_unique [OF assms(2)] mset_eq_setD [OF assms(1)] by simp
  then show ?thesis by (metis not_Some_eq)
qed

lemma find_removed:
  assumes "distinct (map f xs)" "n < length xs"
  shows "find (\<lambda>x. f x = k) (remove_at n xs) = (if k = f (xs ! n) then None else find (\<lambda>x. f x = k) xs)"
proof -
  have "find (\<lambda>x. f x = k) (filter (\<lambda>x. f x \<noteq> j) xs) = (if k = j then None else find (\<lambda>x. f x = k) xs)" for j
    by (induction xs) auto
  then show ?thesis by (simp add: remove_at_distinct [OF assms])
qed

lemma exact_six:
  "exact base (s, m) \<longleftrightarrow> ma_broad_replace m \<or>
     (\<forall>i. overlaid base m FrameNodes i = record_of s FrameNodes i) \<and> (\<forall>i. overlaid base m RelationNodes i = record_of s RelationNodes i) \<and>
     (\<forall>i. overlaid base m RetiredNodes i = record_of s RetiredNodes i) \<and> (\<forall>i. overlaid base m RetiringNodes i = record_of s RetiringNodes i) \<and>
     (\<forall>i. overlaid base m ProtectedNodes i = record_of s ProtectedNodes i) \<and> (\<forall>i. overlaid base m CheckpointNodes i = record_of s CheckpointNodes i)"
  unfolding exact_def fst_conv snd_conv
  by (metis context_collection.distinct context_collection.exhaust)

lemma broad_kept [simp]:
  "ma_broad_replace (acc_upsert v order m) = ma_broad_replace m" "ma_broad_replace (acc_remove s c i m) = ma_broad_replace m"
  "ma_broad_replace (acc_set_order s c ids m) = ma_broad_replace m"
  by (simp_all add: acc_upsert_def acc_remove_def acc_set_order_def)

lemmas exact_simps = exact_six find_frame_def ticks bt_contains_def add_retired_def drop_retiring_def

lemma micro_exact:
  assumes "micro env A x y" "mind_ok (rp_staged (te_policy env)) (fst x)" "exact (te_current env) x"
  shows "exact (te_current env) y"
  using assms(1)
proof (cases rule: micro.cases)
  case (rollback_step c s) then show ?thesis by (simp add: exact_def)
next
  case (new_frame_step f s m) with assms(3) show ?thesis
    by (auto simp: exact_simps find_snoc find_frame_def has_frame_def find_None_ex [symmetric] split: option.splits)
next
  case (revise_step s i n) with assms(3) show ?thesis
    by (auto simp: exact_simps frame_index_Some find_frame_def find_update [of n "ms_frames s" cf_id i])
next
  case (revise_cancel_step s i n) with assms(3) show ?thesis
    by (auto simp: exact_simps frame_index_Some find_frame_def find_update [of n "ms_frames s" cf_id i])
next
  case (request_step i s) with assms(3) show ?thesis by (auto simp: exact_simps)
next
  case (retire_step i s) with assms(3) show ?thesis by (auto simp: exact_simps)
next
  case (cancel_step s i) with assms(3) show ?thesis by (auto simp: exact_simps)
next
  case (restore_step i s) with assms(3) show ?thesis by (auto simp: exact_simps)
next
  case (finalize_step s i) with assms(3) show ?thesis by (auto simp: exact_simps)
next
  case (protect_step i s) with assms(3) show ?thesis by (auto simp: exact_simps)
next
  case (protect_again_step i s) with assms(3) show ?thesis by (auto simp: exact_simps insert_absorb)
next
  case (unprotect_step i s) with assms(3) show ?thesis by (auto simp: exact_simps)
next
  case (place_step fs s)
  then have "find (\<lambda>f. cf_id f = k) fs = find (\<lambda>f. cf_id f = k) (ms_frames s)" for k
    using assms(2) by (intro find_mset) (simp_all add: mind_ok_def content_ok_def)
  with place_step assms(3) show ?thesis
    by (auto simp: exact_simps)
next
  case (relate_step r s)
  then have "\<forall>r' \<in> set (ms_relations s). context_relation_identity r' \<noteq> context_relation_identity r"
    using assms(2) by (auto simp: mind_ok_def content_sets relation_unique relation_index_None)
  then have "find (\<lambda>r'. context_relation_identity r' = context_relation_identity r) (ms_relations s) = None"
    by (simp add: find_None_iff)
  with relate_step assms(3) show ?thesis
    by (auto simp: exact_simps find_snoc context_relation_identity_def [symmetric] split: option.splits)
next
  case (unrelate_step s a b c n)
  then have "relation_logical_id a b c = context_relation_identity (ms_relations s ! n)" "n < length (ms_relations s)"
    by (auto simp: relation_index_Some context_relation_identity_def)
  with find_removed [of context_relation_identity "ms_relations s" n] unrelate_step assms(2,3) show ?thesis
    by (auto simp: exact_simps mind_ok_def content_ok_def)
next
  case (checkpoint_step i s) with assms(3) show ?thesis
    by (auto simp: exact_simps find_snoc has_checkpoint_def find_None_ex [symmetric] checkpoint_of_def split: option.splits)
next
  case (drop_step s i n) with assms show ?thesis
    by (auto simp: exact_simps mind_ok_def find_removed checkpoint_index_Some)
next
  case (checkpoint_order_step s) with assms(3) show ?thesis by (auto simp: exact_simps)
qed

interpretation exact_steps: step_invariant "\<lambda>env. exact (te_current env)" "\<lambda>_. True"
  by unfold_locales (rule micro_exact)

lemma start_exact: "exact (te_current env) (start_tracking env, accumulator_new)"
  by (auto simp: exact_six overlaid_def accumulator_new_def start_tracking_def Let_def find_frame_def)

text \<open>A key of the right shape, and an accumulator whose mutations all have it.\<close>

definition write_ok :: "(context_collection \<times> ustring) \<Rightarrow> state_mutation \<Rightarrow> bool" where
  "write_ok k w \<longleftrightarrow> written_by w = Some k \<and> mutation_ok w"

definition shaped :: "mutation_accumulator \<Rightarrow> bool" where
  "shaped m \<longleftrightarrow> bt_wf (ma_writes m) \<and> (\<forall>(k, w) \<in> set (ma_writes m). write_ok k w) \<and>
     bt_wf (ma_orders m) \<and> (\<forall>(c, ids) \<in> set (ma_orders m). vector_like c \<and> distinct ids)"

lemma set_bt_remove: "set (bt_remove k m) \<subseteq> set m"
  by (auto simp: bt_remove_def)

lemma trim_nonempty:
  assumes "c \<in> set s" "\<not> is_whitespace c"
  shows "trim s \<noteq> []"
proof -
  have keep: "c \<in> set (trim_start s)" if "c \<in> set s" for s
    using that assms(2) by (metis UnE set_append set_takeWhileD takeWhile_dropWhile_id trim_start_def)
  then have "c \<in> set (trim s)" using assms(1) by (simp add: trim_def)
  then show ?thesis by auto
qed

lemma shaped_upsert:
  assumes "shaped m" "trim (logical_id v) \<noteq> []" "vector_like (node_collection v) \<longleftrightarrow> order \<noteq> None"
  shows "shaped (acc_upsert v order m)"
  using assms set_bt_insert [of "(node_collection v, logical_id v)" "Upsert v order" "ma_writes m"]
  by (auto simp: shaped_def acc_upsert_def write_ok_def)

lemma relation_text: "valid_id a \<Longrightarrow> trim (relation_logical_id a b c) \<noteq> []"
proof -
  assume v: "valid_id a"
  then have "\<exists>c \<in> set a. \<not> is_whitespace c"
    by (cases a) (auto simp: valid_id_def id_char_def is_whitespace_def)
  then obtain k where "k \<in> set (relation_logical_id a b c)" "\<not> is_whitespace k" by (auto simp: relation_logical_id_def)
  then show ?thesis by (rule trim_nonempty)
qed

lemma record_key_ok:
  assumes "mind_ok b s" "record_of s c i \<noteq> None" "c \<noteq> ClockNodes"
  shows "trim i \<noteq> []"
proof (cases c)
  case FrameNodes with assms show ?thesis
    by (auto simp: mind_ok_def content_sets find_frame_def find_Some_iff intro!: valid_id_text)
next
  case RelationNodes
  then obtain r where "r \<in> set (ms_relations s)" "context_relation_identity r = i"
    using assms(2) by (auto dest: find_SomeD)
  moreover from this assms(1) have "valid_id (cr_subject r)" by (auto simp: mind_ok_def content_sets)
  ultimately show ?thesis using relation_text by (metis context_relation_identity_def)
next
  case CheckpointNodes with assms show ?thesis
    by (auto simp: mind_ok_def checkpoint_ok_def list_all_iff find_Some_iff intro!: valid_id_text)
next
  case RetiringNodes with assms show ?thesis by (auto intro!: valid_id_text dest: retiring_valid)
qed (use assms in \<open>auto simp: mind_ok_def content_sets intro!: valid_id_text split: if_splits\<close>)

lemma shaped_remove:
  assumes "shaped m" "mind_ok b s" "c \<noteq> ClockNodes"
  shows "shaped (acc_remove s c i m)"
  using assms set_bt_insert [of "(c, i)" "Remove c i" "ma_writes m"] set_bt_remove [of "(c, i)" "ma_writes m"] record_key_ok [OF assms(2), of c i]
  by (auto simp: shaped_def acc_remove_def write_ok_def baseline_record)

lemma shaped_order:
  assumes "shaped m" "vector_like c" "distinct ids"
  shows "shaped (acc_set_order s c ids m)"
  using assms set_bt_insert [of c ids "ma_orders m"] set_bt_remove [of c "ma_orders m"]
  by (auto simp: shaped_def acc_set_order_def)

lemma micro_shaped:
  assumes "micro env A x y" "mind_ok (rp_staged (te_policy env)) (fst x)" "mind_ok (rp_staged (te_policy env)) (te_current env)" "shaped (snd x)"
  shows "shaped (snd y)"
proof -
  have next_ok: "mind_ok (rp_staged (te_policy env)) (fst y)" by (rule micro_keeps_mind_ok [OF assms(1,2)])
  note rules = shaped_upsert shaped_remove [OF _ assms(3)] shaped_order valid_id_text
  show ?thesis
    using assms(1)
  proof (cases rule: micro.cases)
    case (revise_step s i n) with assms(2,4) show ?thesis
      by (auto simp: mind_ok_def content_sets frame_index_Some vector_like_def intro!: rules)
  next
    case (revise_cancel_step s i n) with assms(2,4) show ?thesis
      by (auto simp: mind_ok_def content_sets frame_index_Some vector_like_def intro!: rules)
  next
    case (finalize_step s i)
    with assms(2) have "valid_id i" by (auto simp: bt_contains_def dest: retiring_valid)
    with finalize_step assms(4) show ?thesis by (auto simp: vector_like_def intro!: rules)
  next
    case (place_step fs s) with next_ok assms(4) show ?thesis
      by (auto simp: mind_ok_def content_sets vector_like_def ticks intro!: rules)
  next
    case (relate_step r s) with next_ok assms(4) relation_text [of "cr_subject r"] show ?thesis
      by (auto simp: mind_ok_def content_ok_def vector_like_def ticks intro!: shaped_upsert shaped_order)
  next
    case (unrelate_step s a b c n) with next_ok assms(4) show ?thesis
      by (auto simp: mind_ok_def content_sets vector_like_def ticks intro!: rules)
  next
    case (checkpoint_order_step s) with next_ok assms(4) show ?thesis
      by (auto simp: mind_ok_def vector_like_def intro!: rules)
  next
    case (rollback_step c s) with assms(4) show ?thesis by (simp add: shaped_def)
  qed (use assms(4) in \<open>auto simp: vector_like_def checkpoint_of_def intro!: rules\<close>)
qed

interpretation shaped_steps: step_invariant "\<lambda>_ x. shaped (snd x)" "\<lambda>_. True"
  by unfold_locales (rule micro_shaped)

section \<open>The plan of a transaction\<close>

text \<open>The records a plan leaves: a broad replacement brings its own, other plans change the ones they write.\<close>

definition records_after :: "state_mutation list \<Rightarrow> mind_state \<Rightarrow> context_collection \<Rightarrow> ustring \<Rightarrow> context_node_value option" where
  "records_after ms s c i =
     (case ms of
        [ReplaceMind next] \<Rightarrow> record_of next c i
      | _ \<Rightarrow> (case find (\<lambda>w. written_by w = Some (c, i)) ms of Some w \<Rightarrow> written_value w | None \<Rightarrow> record_of s c i))"

definition clocked :: "tx_env \<Rightarrow> tx_state \<Rightarrow> mutation_accumulator" where
  "clocked env st =
     (if ms_clocks (te_current env) \<noteq> ms_clocks (ts_next st)
      then acc_upsert (ClocksNode (ms_clocks (ts_next st))) None (ts_mutations st) else ts_mutations st)"

lemma tx_finish_clocked:
  "tx_finish env st = \<lparr>at_next = (ts_next st)\<lparr>ms_version := te_version env\<rparr>, at_changes = ts_changes st,
     at_mutations = acc_finish ((ts_next st)\<lparr>ms_version := te_version env\<rparr>) (clocked env st)\<rparr>"
  by (simp add: tx_finish_def clocked_def Let_def ts_upsert_def)

lemma find_written:
  assumes "\<forall>(k, w) \<in> set m. write_ok k w"
  shows "find (\<lambda>w. written_by w = Some k) (map snd m @ map (\<lambda>(c, ids). SetOrder c ids) orders) = bt_get m k"
  using assms
proof (induction m)
  case Nil
  show ?case by (induction orders) auto
qed (auto simp: bt_get_Cons write_ok_def)

lemma records_after_finish:
  assumes "shaped m" "\<not> ma_broad_replace m"
  shows "records_after (acc_finish next m) s c i = overlaid s m c i"
proof -
  have "\<forall>(k, w) \<in> set (ma_writes m). write_ok k w" using assms(1) by (simp add: shaped_def)
  from find_written [OF this, of "(c, i)" "ma_orders m"] have found:
    "find (\<lambda>w. written_by w = Some (c, i)) (acc_finish next m) = bt_get (ma_writes m) (c, i)"
    using assms(2) by (simp add: acc_finish_def)
  have "w \<noteq> ReplaceMind n" if "w \<in> set (acc_finish next m)" for w n
    using that assms by (fastforce simp: acc_finish_def shaped_def write_ok_def)
  then have "acc_finish next m \<noteq> [ReplaceMind n]" for n by force
  then have "records_after (acc_finish next m) s c i =
      (case find (\<lambda>w. written_by w = Some (c, i)) (acc_finish next m) of Some w \<Rightarrow> written_value w | None \<Rightarrow> record_of s c i)"
    unfolding records_after_def by (auto split: list.splits state_mutation.splits)
  then show ?thesis by (simp add: found overlaid_def)
qed

interpretation clock_steps: step_invariant "\<lambda>_ x. \<forall>i. bt_get (ma_writes (snd x)) (ClockNodes, i) = None" "\<lambda>_. True"
proof unfold_locales
  fix env :: tx_env and A x y
  assume "micro env A x y" "\<forall>i. bt_get (ma_writes (snd x)) (ClockNodes, i) = None"
  then show "\<forall>i. bt_get (ma_writes (snd y)) (ClockNodes, i) = None"
    by (cases rule: micro.cases) (auto simp: acc_upsert_def acc_remove_def acc_set_order_def)
qed

lemma record_of_version [simp]: "record_of (s\<lparr>ms_version := v\<rparr>) c i = record_of s c i"
  by (cases c) (simp_all add: find_frame_def)

lemma clocked_exact:
  assumes "exact (te_current env) (ts_next st, ts_mutations st)" "\<And>i. bt_get (ma_writes (ts_mutations st)) (ClockNodes, i) = None"
    "\<not> ma_broad_replace (ts_mutations st)"
  shows "overlaid (te_current env) (clocked env st) c i = record_of (ts_next st) c i"
proof (cases "c = ClockNodes")
  case True
  with assms(2) show ?thesis by (auto simp: clocked_def overlaid_def acc_upsert_def)
next
  case False
  with assms(1,3) have "overlaid (te_current env) (ts_mutations st) c i = record_of (ts_next st) c i" by (simp add: exact_def)
  with False show ?thesis by (simp add: clocked_def)
qed

lemma clocks_text: "trim (lit ''mutation-clocks'') \<noteq> []"
  by (rule trim_nonempty [of 109]) (simp_all add: lit_def chr_def is_whitespace_def)

lemma transaction_accumulated:
  assumes "apply_transaction env base ops = Inr t" "mind_ok (rp_staged (te_policy env)) (te_current env)"
  obtains st where "t = tx_finish env st" "shaped (clocked env st)" "base = ms_version (te_current env)"
    "steps env (operation_name ` set ops) (start_tracking env, accumulator_new) (core st)"
    "\<not> ma_broad_replace (ts_mutations st) \<longrightarrow> (\<forall>c i. overlaid (te_current env) (clocked env st) c i = record_of (ts_next st) c i)"
proof -
  from assms obtain st where st: "steps env (operation_name ` set ops) (start_tracking env, accumulator_new) (core st)"
      "t = tx_finish env st" "base = ms_version (te_current env)"
    by (rule transaction_steps)
  have "shaped (ts_mutations st)"
    using shaped_steps.transaction_holds [OF st(1) _ assms(2)] by (simp add: shaped_def accumulator_new_def bt_wf_def)
  then have "shaped (clocked env st)"
    using clocks_text by (auto simp: clocked_def vector_like_def intro!: shaped_upsert)
  moreover have "exact (te_current env) (ts_next st, ts_mutations st)"
    using exact_steps.transaction_holds [OF st(1) _ assms(2) start_exact] by simp
  moreover have "bt_get (ma_writes (ts_mutations st)) (ClockNodes, i) = None" for i
    using clock_steps.transaction_holds [OF st(1) _ assms(2)] by (simp add: accumulator_new_def)
  ultimately show thesis using that st clocked_exact by blast
qed

lemma transaction_plan:
  assumes "apply_transaction env base ops = Inr t" "mind_ok (rp_staged (te_policy env)) (te_current env)"
  shows "records_after (at_mutations t) (te_current env) c i = record_of (at_next t) c i"
proof -
  from assms obtain st where st: "t = tx_finish env st" "shaped (clocked env st)"
      "\<not> ma_broad_replace (ts_mutations st) \<longrightarrow> (\<forall>c i. overlaid (te_current env) (clocked env st) c i = record_of (ts_next st) c i)"
    by (rule transaction_accumulated)
  have broad: "ma_broad_replace (clocked env st) = ma_broad_replace (ts_mutations st)" by (simp add: clocked_def)
  show ?thesis
  proof (cases "ma_broad_replace (ts_mutations st)")
    case True
    with broad show ?thesis by (simp add: st(1) tx_finish_clocked acc_finish_def records_after_def)
  next
    case False
    with st broad records_after_finish show ?thesis by (simp add: tx_finish_clocked)
  qed
qed

lemma map_filter_append: "List.map_filter f (xs @ ys) = List.map_filter f xs @ List.map_filter f ys"
  by (simp add: List.map_filter_def)

lemma written_not_ordered: "written_by w = Some k \<Longrightarrow> ordered_by w = None"
  by (cases w) simp_all

lemma finish_shape:
  assumes "shaped m"
  shows "list_all mutation_ok (acc_finish next m)" "distinct (List.map_filter written_by (acc_finish next m))"
    "distinct (List.map_filter ordered_by (acc_finish next m))" "list_ex is_broad (acc_finish next m) \<longrightarrow> length (acc_finish next m) = 1"
proof -
  have w: "\<forall>(k, w) \<in> set (ma_writes m). write_ok k w" "distinct (map fst (ma_writes m))"
    and o: "\<forall>(c, ids) \<in> set (ma_orders m). vector_like c \<and> distinct ids" "distinct (map fst (ma_orders m))"
    using assms by (auto simp: shaped_def bt_wf_def strict_sorted_iff)
  show "list_all mutation_ok (acc_finish next m)"
    using w o by (auto simp: acc_finish_def list_all_iff write_ok_def)
  show "list_ex is_broad (acc_finish next m) \<longrightarrow> length (acc_finish next m) = 1"
    using w by (auto simp: acc_finish_def list_ex_iff is_broad_def write_ok_def split: state_mutation.splits)
  have "List.map_filter written_by (map snd es) = map fst es" if "\<forall>(k, w) \<in> set es. write_ok k w" for es
    using that by (induction es) (auto simp: List.map_filter_simps write_ok_def)
  moreover have "List.map_filter written_by (map (\<lambda>(c, ids). SetOrder c ids) os) = []" for os
    by (induction os) (auto simp: List.map_filter_simps)
  ultimately show "distinct (List.map_filter written_by (acc_finish next m))"
    using w by (simp add: acc_finish_def map_filter_append List.map_filter_simps)
  have "List.map_filter ordered_by (map snd es) = []" if "\<forall>(k, w) \<in> set es. write_ok k w" for es
    using that by (induction es) (auto simp: List.map_filter_simps write_ok_def written_not_ordered)
  moreover have "List.map_filter ordered_by (map (\<lambda>(c, ids). SetOrder c ids) os) = map fst os" for os
    by (induction os) (auto simp: List.map_filter_simps)
  ultimately show "distinct (List.map_filter ordered_by (acc_finish next m))"
    using w o by (simp add: acc_finish_def map_filter_append List.map_filter_simps)
qed

lemma transaction_plan_valid:
  assumes "apply_transaction env base ops = Inr t" "mind_ok (rp_staged (te_policy env)) (te_current env)"
    "ms_version (te_current env) < u64_limit" "trim context_id \<noteq> []" "before \<noteq> []" "after \<noteq> []"
  shows "validate_shape (plan_of context_id (te_current env) before t after) = Inr ()"
proof -
  from assms(1,2) obtain st where "t = tx_finish env st" "shaped (clocked env st)"
    by (rule transaction_accumulated)
  with assms(3-6) finish_shape [of "clocked env st"] show ?thesis
    by (auto simp: validate_shape_ok plan_of_def tx_finish_clocked te_version_def u64_inc_def u64_limit_def)
qed

section \<open>What a transaction without rollback keeps\<close>

definition without :: "string list \<Rightarrow> ustring set \<Rightarrow> bool" where
  "without names A \<longleftrightarrow> list_all (\<lambda>n. lit n \<notin> A) names"

interpretation frames_steps: step_invariant
  "\<lambda>env x. cf_id ` set (ms_frames (te_current env)) \<subseteq> cf_id ` set (ms_frames (fst x))" "without [''rollback'']"
proof unfold_locales
  fix env :: tx_env and A x y
  assume allowed: "without [''rollback''] A" and step: "micro env A x y"
    and kept: "cf_id ` set (ms_frames (te_current env)) \<subseteq> cf_id ` set (ms_frames (fst x))"
  have "cf_id ` set (ms_frames (fst x)) \<subseteq> cf_id ` set (ms_frames (fst y))"
    using step
  proof (cases rule: micro.cases)
    case (revise_step s i n)
    then have "cf_id ` set ((ms_frames s)[n := revise_frame env b ss p (ms_frames s ! n)]) = cf_id ` set (ms_frames s)" for b ss p
      using frames_revised [of s i n] by (metis cf_id_revise frame_index_Some list.set_map)
    with revise_step show ?thesis by simp
  next
    case (revise_cancel_step s i n)
    then have "cf_id ` set ((ms_frames s)[n := revise_frame env b ss p (ms_frames s ! n)]) = cf_id ` set (ms_frames s)" for b ss p
      using frames_revised [of s i n] by (metis cf_id_revise frame_index_Some list.set_map)
    with revise_cancel_step show ?thesis by (simp add: ticks)
  next
    case (place_step fs s) then show ?thesis by (auto simp: ticks dest: mset_eq_setD)
  next
    case (rollback_step c s) with allowed show ?thesis by (simp add: without_def)
  qed (auto simp: ticks drop_retiring_def add_retired_def)
  with kept show "cf_id ` set (ms_frames (te_current env)) \<subseteq> cf_id ` set (ms_frames (fst y))" by blast
qed

interpretation guarded_steps: step_invariant
  "\<lambda>env x. set (ms_protected (te_current env)) \<subseteq> set (ms_protected (fst x)) \<and>
     set (ms_protected (te_current env)) \<inter> set (ms_retired (fst x)) \<subseteq> set (ms_retired (te_current env))"
  "without [''rollback'', ''unprotect'']"
proof unfold_locales
  fix env :: tx_env and A x y
  let ?p = "set (ms_protected (te_current env))"
  assume allowed: "without [''rollback'', ''unprotect''] A" and step: "micro env A x y"
    and ok: "mind_ok (rp_staged (te_policy env)) (fst x)"
    and kept: "?p \<subseteq> set (ms_protected (fst x)) \<and> ?p \<inter> set (ms_retired (fst x)) \<subseteq> set (ms_retired (te_current env))"
  from step show "?p \<subseteq> set (ms_protected (fst y)) \<and> ?p \<inter> set (ms_retired (fst y)) \<subseteq> set (ms_retired (te_current env))"
  proof (cases rule: micro.cases)
    case (finalize_step s i)
    with ok have "i \<notin> set (ms_protected s)" by (auto simp: bt_contains_def mind_ok_def content_sets)
    with finalize_step kept show ?thesis by (auto simp: ticks add_retired_def drop_retiring_def)
  next
    case (rollback_step c s) with allowed show ?thesis by (simp add: without_def)
  next
    case (unprotect_step i s) with allowed show ?thesis by (simp add: without_def)
  qed (use kept in \<open>auto simp: ticks add_retired_def drop_retiring_def\<close>)
qed

lemma guarded_kept:
  assumes "apply_transaction env base ops = Inr t" "mind_ok (rp_staged (te_policy env)) (te_current env)"
    "without [''rollback'', ''unprotect''] (operation_name ` set ops)" "i \<in> set (ms_protected (te_current env))"
  shows "i \<in> set (ms_protected (at_next t)) \<and> bt_get (ms_retiring (at_next t)) i = None \<and>
    (i \<in> set (ms_retired (at_next t)) \<longrightarrow> i \<in> set (ms_retired (te_current env)))"
proof -
  from assms(1,2) obtain st where st: "steps env (operation_name ` set ops) (start_tracking env, accumulator_new) (core st)" "t = tx_finish env st"
    by (rule transaction_steps)
  have "set (ms_protected (te_current env)) \<subseteq> set (ms_protected (ts_next st)) \<and>
      set (ms_protected (te_current env)) \<inter> set (ms_retired (ts_next st)) \<subseteq> set (ms_retired (te_current env))"
    using guarded_steps.transaction_holds [OF st(1) assms(3,2)] by (simp add: start_tracking_def Let_def)
  moreover have "mind_ok (rp_staged (te_policy env)) (at_next t)" by (rule transaction_keeps_mind_ok [OF assms(1,2)])
  ultimately show ?thesis
    using assms(4) st(2) by (cases "bt_get (ms_retiring (ts_next st)) i") (auto simp: tx_finish_clocked mind_ok_def content_sets)
qed

lemma frames_kept:
  assumes "apply_transaction env base ops = Inr t" "mind_ok (rp_staged (te_policy env)) (te_current env)"
    "without [''rollback''] (operation_name ` set ops)"
  shows "cf_id ` set (ms_frames (te_current env)) \<subseteq> cf_id ` set (ms_frames (at_next t))"
proof -
  from assms(1,2) obtain st where st: "steps env (operation_name ` set ops) (start_tracking env, accumulator_new) (core st)" "t = tx_finish env st"
    by (rule transaction_steps)
  with frames_steps.transaction_holds [OF st(1) assms(3,2)] show ?thesis
    by (simp add: start_tracking_def Let_def tx_finish_clocked)
qed

section \<open>Orders\<close>

text \<open>
  An order that the plan sets for the relations is the order of the next state, and so is one for the
  frames when the transaction creates none: only \<open>place\<close> refreshes the order of the frames.
\<close>

lemma orders_upsert [simp]: "ma_orders (acc_upsert v order m) = ma_orders m" "ma_orders (acc_remove s c i m) = ma_orders m"
  by (simp_all add: acc_upsert_def acc_remove_def)

lemma orders_set [simp]:
  "bt_get (ma_orders (acc_set_order s c ids m)) d =
     (if d = c then (if baseline_context_order s c = Some ids then None else Some ids) else bt_get (ma_orders m) d)"
  by (simp add: acc_set_order_def)

definition relation_orders_ok :: "mind_state \<times> mutation_accumulator \<Rightarrow> bool" where
  "relation_orders_ok x \<longleftrightarrow>
     (\<forall>ids. bt_get (ma_orders (snd x)) RelationNodes = Some ids \<longrightarrow> ids = map context_relation_identity (ms_relations (fst x)))"

definition frame_orders_ok :: "mind_state \<times> mutation_accumulator \<Rightarrow> bool" where
  "frame_orders_ok x \<longleftrightarrow> (\<forall>ids. bt_get (ma_orders (snd x)) FrameNodes = Some ids \<longrightarrow> ids = map cf_id (ms_frames (fst x)))"

interpretation relation_orders: step_invariant "\<lambda>_. relation_orders_ok" "without [''rollback'']"
proof unfold_locales
  fix env :: tx_env and A x y
  assume "without [''rollback''] A" "micro env A x y" "relation_orders_ok x"
  then show "relation_orders_ok y"
    by (elim micro.cases) (auto simp: relation_orders_ok_def without_def ticks drop_retiring_def add_retired_def split: if_splits)
qed

interpretation frame_orders: step_invariant "\<lambda>_. frame_orders_ok" "without [''rollback'', ''create'', ''derive'']"
proof unfold_locales
  fix env :: tx_env and A x y
  assume allowed: "without [''rollback'', ''create'', ''derive''] A" and step: "micro env A x y" and ok: "frame_orders_ok x"
  from step show "frame_orders_ok y"
  proof (cases rule: micro.cases)
    case (revise_step s i n)
    then have "map cf_id ((ms_frames s)[n := revise_frame env b ss p (ms_frames s ! n)]) = map cf_id (ms_frames s)" for b ss p
      by (intro frames_revised) (auto simp: frame_index_Some)
    with revise_step ok show ?thesis by (auto simp: frame_orders_ok_def)
  next
    case (revise_cancel_step s i n)
    then have "map cf_id ((ms_frames s)[n := revise_frame env b ss p (ms_frames s ! n)]) = map cf_id (ms_frames s)" for b ss p
      by (intro frames_revised) (auto simp: frame_index_Some)
    with revise_cancel_step ok show ?thesis by (auto simp: frame_orders_ok_def ticks)
  qed (use allowed ok in \<open>auto simp: frame_orders_ok_def without_def ticks drop_retiring_def add_retired_def split: if_splits\<close>)
qed

section \<open>From a read transaction\<close>

lemma transition_applies:
  assumes "transition_of env auth tx = Inr t"
  obtains base where "apply_transaction (env\<lparr>te_reason := pt_reason tx\<rparr>) base (pt_operations tx) = Inr t"
  using assms by (auto simp: transition_of_def at_current_version_def rebase_stale_context_transaction_def and_then_Inr_iff map_ok_Inr_iff Let_def
      split: if_splits)

lemma transition_version: "transition_of env auth tx = Inr t \<Longrightarrow> ms_version (at_next t) = te_version env"
  by (auto elim!: transition_applies apply_transaction_steps simp: tx_finish_clocked te_version_def)

end
