(* ===== verification/Context_History.thy ===== *)
theory Context_History
  imports Context_Invariant
begin

text \<open>
  Transactions one after the other: the clocks of a state tell what has changed since an earlier
  version, and a transaction that was written against that version is moved forward only when
  nothing it reads is among it.
\<close>

section \<open>Histories\<close>

inductive history :: "bool \<Rightarrow> mind_state \<Rightarrow> mind_state \<Rightarrow> bool" for staged where
  history_refl: "history staged s s"
| history_step: "history staged s (at_next t)"
  if "history staged s (te_current env)" "te_track env" "rp_staged (te_policy env) = staged" "ms_version (te_current env) < u64_limit"
    "apply_transaction env base ops = Inr t"

datatype tx_read =
  FrameRead ustring
| LifecycleRead ustring
| RelationRead ustring ustring ustring
| OrderRead
| CheckpointRead ustring

definition lifecycle_of :: "mind_state \<Rightarrow> ustring \<Rightarrow> bool \<times> frame_retirement option \<times> bool" where
  "lifecycle_of s i = (i \<in> set (ms_retired s), bt_get (ms_retiring s) i, i \<in> set (ms_protected s))"

fun unchanged :: "mind_state \<Rightarrow> mind_state \<Rightarrow> tx_read \<Rightarrow> bool" where
  "unchanged s t (FrameRead i) \<longleftrightarrow> find_frame t i = find_frame s i"
| "unchanged s t (LifecycleRead i) \<longleftrightarrow> lifecycle_of t i = lifecycle_of s i"
| "unchanged s t (RelationRead a b c) \<longleftrightarrow>
     record_of t RelationNodes (relation_logical_id a b c) = record_of s RelationNodes (relation_logical_id a b c)"
| "unchanged s t OrderRead \<longleftrightarrow> map cf_id (ms_frames t) = map cf_id (ms_frames s)"
| "unchanged s t (CheckpointRead i) \<longleftrightarrow> record_of t CheckpointNodes i = record_of s CheckpointNodes i"

text \<open>What the clocks say about a read since a version.\<close>

fun clean :: "mind_state \<Rightarrow> nat \<Rightarrow> tx_read \<Rightarrow> bool" where
  "clean s base (FrameRead i) \<longleftrightarrow> (case find_frame s i of None \<Rightarrow> True | Some f \<Rightarrow> cf_updated_version f \<le> base)"
| "clean s base (LifecycleRead i) \<longleftrightarrow> \<not> newer_than (mc_lifecycle_versions (ms_clocks s)) i base"
| "clean s base (RelationRead a b c) \<longleftrightarrow> \<not> newer_than (mc_relation_versions (ms_clocks s)) (relation_logical_id a b c) base"
| "clean s base OrderRead \<longleftrightarrow> mc_frame_order_version (ms_clocks s) \<le> base"
| "clean s base (CheckpointRead i) \<longleftrightarrow> \<not> newer_than (mc_checkpoint_versions (ms_clocks s)) i base"

definition clock_covers :: "mind_state \<Rightarrow> nat \<Rightarrow> mind_state \<Rightarrow> bool" where
  "clock_covers s base t \<longleftrightarrow> mc_global_barrier_version (ms_clocks t) \<le> base \<longrightarrow> (\<forall>r. clean t base r \<longrightarrow> unchanged s t r)"

lemma covers_five:
  "clock_covers s base t \<longleftrightarrow> mc_global_barrier_version (ms_clocks t) \<le> base \<longrightarrow>
     (\<forall>i. clean t base (FrameRead i) \<longrightarrow> unchanged s t (FrameRead i)) \<and>
     (\<forall>i. clean t base (LifecycleRead i) \<longrightarrow> unchanged s t (LifecycleRead i)) \<and>
     (\<forall>a b c. clean t base (RelationRead a b c) \<longrightarrow> unchanged s t (RelationRead a b c)) \<and>
     (clean t base OrderRead \<longrightarrow> unchanged s t OrderRead) \<and>
     (\<forall>i. clean t base (CheckpointRead i) \<longrightarrow> unchanged s t (CheckpointRead i))"
  unfolding clock_covers_def by (metis tx_read.exhaust)

lemma newer_insert [simp]: "newer_than (bt_insert k v m) i base \<longleftrightarrow> (if i = k then base < v else newer_than m i base)"
  by (simp add: newer_than_def)

lemma unchanged_refl [simp]: "unchanged s s r"
  by (cases r) simp_all

lemma revised_version [simp]: "cf_updated_version (revise_frame env b ss p f) = te_version env"
  by (simp add: revise_frame_def)

lemma find_snoc_other: "\<not> P x \<Longrightarrow> find P (xs @ [x]) = find P xs"
  by (simp add: find_snoc split: option.splits)

lemmas cover_simps = covers_five ticks tick_def lifecycle_of_def find_frame_def drop_retiring_def add_retired_def

lemma micro_covers:
  assumes "micro env A x y" "te_track env" "base < te_version env" "mind_ok (rp_staged (te_policy env)) (fst x)" "clock_covers s base (fst x)"
  shows "clock_covers s base (fst y)"
  using assms(1)
proof (cases rule: micro.cases)
  case (new_frame_step f t)
  then have "cf_updated_version f = te_version env" by (metis context_frame.select_convs(7) new_frame_def)
  with new_frame_step assms(2,3,5) show ?thesis
    by (auto simp: cover_simps find_snoc has_frame_def find_None_ex [symmetric] split: option.splits)
next
  case (revise_step t i n)
  then have "map cf_id ((ms_frames t)[n := revise_frame env b ss p (ms_frames t ! n)]) = map cf_id (ms_frames t)" for b ss p
    by (intro frames_revised) (auto simp: frame_index_Some)
  with revise_step assms(2,3,5) show ?thesis
    by (auto simp: cover_simps frame_index_Some find_update [of n "ms_frames t" cf_id i])
next
  case (request_step i t) with assms(2,3,5) show ?thesis by (auto simp: cover_simps)
next
  case (retire_step i t) with assms(2,3,5) show ?thesis by (auto simp: cover_simps)
next
  case (revise_cancel_step t i n)
  then have "map cf_id ((ms_frames t)[n := revise_frame env b ss p (ms_frames t ! n)]) = map cf_id (ms_frames t)" for b ss p
    by (intro frames_revised) (auto simp: frame_index_Some)
  with revise_cancel_step assms(2,3,5) show ?thesis
    by (auto simp: cover_simps frame_index_Some find_update [of n "ms_frames t" cf_id i])
next
  case (cancel_step t i) with assms(2,3,5) show ?thesis by (auto simp: cover_simps)
next
  case (restore_step i t) with assms(2,3,5) show ?thesis by (auto simp: cover_simps)
next
  case (finalize_step t i) with assms(2,3,5) show ?thesis by (auto simp: cover_simps)
next
  case (protect_step i t) with assms(2,3,5) show ?thesis by (auto simp: cover_simps)
next
  case (protect_again_step i t) with assms(2,3,5) show ?thesis by (auto simp: cover_simps insert_absorb)
next
  case (unprotect_step i t) with assms(2,3,5) show ?thesis by (auto simp: cover_simps)
next
  case (place_step fs t)
  then have "find (\<lambda>f. cf_id f = k) fs = find (\<lambda>f. cf_id f = k) (ms_frames t)" for k
    using assms(4) by (intro find_mset) (simp_all add: mind_ok_def content_ok_def)
  with place_step assms(2,3,5) show ?thesis by (auto simp: cover_simps)
next
  case (relate_step r t) with assms(2,3,5) show ?thesis
    by (auto simp: cover_simps find_snoc_other split: option.splits)
next
  case (unrelate_step t a b c n)
  then have "relation_logical_id a b c = context_relation_identity (ms_relations t ! n)" "n < length (ms_relations t)"
    by (auto simp: relation_index_Some context_relation_identity_def)
  with find_removed [of context_relation_identity "ms_relations t" n] unrelate_step assms(2-5) show ?thesis
    by (auto simp: cover_simps mind_ok_def content_ok_def)
next
  case (checkpoint_step i t) with assms(2,3,5) show ?thesis
    by (auto simp: cover_simps find_snoc_other checkpoint_of_def split: option.splits)
next
  case (rollback_step c t) with assms(2,3) show ?thesis by (simp add: cover_simps)
next
  case (drop_step t i n) with find_removed [of ck_id "ms_checkpoints t" n] assms(2-5) show ?thesis
    by (auto simp: cover_simps mind_ok_def checkpoint_index_Some)
next
  case (checkpoint_order_step t) with assms(5) show ?thesis by simp
qed

interpretation covering: step_invariant "\<lambda>env x. te_track env \<and> base < te_version env \<and> clock_covers s base (fst x)" "\<lambda>_. True" for s base
  by unfold_locales (use micro_covers in blast)

lemma transaction_covers:
  assumes "apply_transaction env b ops = Inr t" "mind_ok (rp_staged (te_policy env)) (te_current env)" "te_track env" "base < te_version env"
    "clock_covers s base (te_current env)"
  shows "clock_covers s base (at_next t)"
proof -
  from assms(1,2) obtain st where st: "steps env (operation_name ` set ops) (start_tracking env, accumulator_new) (core st)" "t = tx_finish env st"
    by (rule transaction_steps)
  have "clock_covers s base (start_tracking env)"
    using assms(5) by (auto simp: start_tracking_def Let_def cover_simps)
  with covering.transaction_holds [OF st(1) _ assms(2)] assms(3,4) have "clock_covers s base (ts_next st)" by simp
  with st(2) show ?thesis by (auto simp: tx_finish_clocked cover_simps)
qed

lemma history_facts:
  assumes "history staged s t" "mind_ok staged s"
  shows "mind_ok staged t \<and> ms_version s \<le> ms_version t \<and> (ms_version t = ms_version s \<longrightarrow> t = s) \<and> clock_covers s (ms_version s) t"
  using assms
proof (induction rule: history.induct)
  case (history_refl s)
  then show ?case by (simp add: clock_covers_def)
next
  case (history_step s env base ops t)
  note IH = history_step.IH [OF history_step.prems]
  have v: "te_version env = Suc (ms_version (te_current env))"
    using history_step.hyps(4) by (simp add: te_version_def u64_inc_def u64_limit_def)
  have "ms_version (at_next t) = te_version env"
    using history_step.hyps(5) by (auto elim!: apply_transaction_steps simp: tx_finish_clocked)
  moreover have "clock_covers s (ms_version s) (at_next t)"
    using transaction_covers [OF history_step.hyps(5)] IH history_step.hyps(2,3) v by simp
  moreover have "mind_ok staged (at_next t)"
    using transaction_keeps_mind_ok [OF history_step.hyps(5)] IH history_step.hyps(3) by simp
  ultimately show ?case using IH v by simp
qed

section \<open>What a transaction reads\<close>

definition atom_of :: "sx \<Rightarrow> ustring list" where
  "atom_of e = (case e of SxAtom s \<Rightarrow> [s] | SxList _ \<Rightarrow> [])"

definition atoms_of :: "sx list \<Rightarrow> ustring list" where
  "atoms_of es = concat (map atom_of es)"

definition listed_in :: "sx \<Rightarrow> ustring list" where
  "listed_in e = (case e of SxList items \<Rightarrow> atoms_of (tl items) | SxAtom _ \<Rightarrow> [])"

definition anchor_of :: "sx \<Rightarrow> ustring list" where
  "anchor_of e = (case e of SxList [_, SxAtom i] \<Rightarrow> [i] | _ \<Rightarrow> [])"

definition operation_reads :: "sx \<Rightarrow> tx_read list" where
  "operation_reads e =
     (case e of
        SxList (SxAtom name # args) \<Rightarrow>
          if name = lit ''create'' then map FrameRead (atoms_of (take 1 args))
          else if name = lit ''derive'' then map FrameRead (atoms_of (take 1 args) @ listed_in (args ! 1))
          else if name = lit ''revise'' then map FrameRead (atoms_of (take 1 args) @ (if length args = 3 then listed_in (args ! 1) else []))
          else if name = lit ''retire'' then map LifecycleRead (atoms_of args) @ map FrameRead (atoms_of args)
          else if name \<in> set (map lit [''restore'', ''protect'', ''unprotect'']) then map LifecycleRead (atoms_of args)
          else if name = lit ''place'' then OrderRead # map FrameRead (atoms_of (take 1 args) @ anchor_of (args ! 1))
          else if name = lit ''relate'' \<or> name = lit ''unrelate'' then
            (case atoms_of args of [a, b, c] \<Rightarrow> [FrameRead a, FrameRead c, RelationRead a b c] | _ \<Rightarrow> [])
          else if name = lit ''checkpoint'' \<or> name = lit ''drop-checkpoint'' then map CheckpointRead (atoms_of args)
          else []
      | _ \<Rightarrow> [])"

definition created_by :: "sx \<Rightarrow> ustring list" where
  "created_by e =
     (case e of
        SxList (SxAtom name # SxAtom i # _) \<Rightarrow> if name = lit ''create'' \<or> name = lit ''derive'' then [i] else []
      | _ \<Rightarrow> [])"

definition created_frames :: "parsed_transaction \<Rightarrow> ustring list" where
  "created_frames tx = concat (map created_by (pt_operations tx))"

definition fresh :: "mind_state \<Rightarrow> nat \<Rightarrow> created_ids \<Rightarrow> bool" where
  "fresh s base cr \<longleftrightarrow> (\<forall>i \<in> set (fst cr). \<not> has_frame s i) \<and> (\<forall>i \<in> set (snd cr). \<not> newer_than (mc_checkpoint_versions (ms_clocks s)) i base)"

lemma absent_clean: "\<not> has_frame s i \<Longrightarrow> clean s base (FrameRead i)"
  by (simp add: has_frame_def find_frame_def find_None_ex [symmetric])

lemma frame_read_clean: "ensure_frame_read_is_current s base (fst cr) i = Inr u \<Longrightarrow> fresh s base cr \<Longrightarrow> clean s base (FrameRead i)"
  using absent_clean [of s i base]
  by (auto simp: ensure_frame_read_is_current_def fresh_def split: if_splits option.splits)

lemma frame_write_clean: "ensure_frame_write_is_current s base (fst cr) i = Inr u \<Longrightarrow> fresh s base cr \<Longrightarrow> clean s base (FrameRead i)"
  using absent_clean [of s i base]
  by (auto simp: ensure_frame_write_is_current_def fresh_def and_then_Inr_iff split: if_splits)

lemma lifecycle_clean:
  "ensure_lifecycle_write_is_current s base created i = Inr u \<Longrightarrow> clean s base (LifecycleRead i) \<or> i \<in> set created"
  by (auto simp: ensure_lifecycle_write_is_current_def and_then_Inr_iff split: if_splits)

lemma atoms_of_Cons [simp]: "atoms_of (e # es) = atom_of e @ atoms_of es" "atoms_of [] = []"
  by (simp_all add: atoms_of_def)

lemma atom_of_simps [simp]: "atom_of (SxAtom s) = [s]" "atom_of (SxList es) = []"
  by (simp_all add: atom_of_def)

lemma each_target_ok:
  assumes "each_target check label op = Inr u" "i \<in> set (atoms_of (tl op))"
  shows "\<exists>u. check i = Inr u"
proof -
  from assms(2) have "SxAtom i \<in> set (tl op)" by (auto simp: atoms_of_def atom_of_def split: sx.splits)
  with assms(1) obtain y where "and_then (as_atom (SxAtom i) label) (\<lambda>raw. and_then (validated_id raw) check) = Inr y"
    by (auto simp: each_target_def map_ok_Inr_iff dest: try_map_Inr_ball)
  then show ?thesis by (auto simp: result_iffs)
qed

lemma try_map_atoms: "try_map (\<lambda>item. and_then (as_atom item l) validated_id) es = Inr ss \<Longrightarrow> atoms_of es = ss"
  by (induction es arbitrary: ss) (auto simp: result_iffs)

lemma parse_sources_listed: "parse_sources e = Inr ss \<Longrightarrow> listed_in e = ss"
  by (auto simp: parse_sources_def tx_as_list_def and_then_Inr_iff listed_in_def split: sx.splits if_splits dest: try_map_atoms)

declare clean.simps [simp del]

lemma read_sources_clean:
  assumes "read_sources s base (fst cr) op = Inr u" "fresh s base cr" "i \<in> set (listed_in (op ! 2))"
  shows "clean s base (FrameRead i)"
  using assms by (auto simp: read_sources_def item_at_def result_iffs split: if_splits
      dest!: parse_sources_listed try_map_Inr_ball intro: frame_read_clean)

lemma absent_frame_ok: "absent_frame s op = Inr i \<longleftrightarrow> 1 < length op \<and> op ! 1 = SxAtom i \<and> \<not> has_frame s i"
  by (auto simp: absent_frame_def result_iffs split: if_splits)

lemma take_first: "args \<noteq> [] \<Longrightarrow> take (Suc 0) args = [args ! 0]"
  by (cases args) simp_all

lemma reads_create: "rebase_create s base cr (h # args) = Inr cr' \<Longrightarrow> r \<in> set (map FrameRead (atoms_of (take 1 args))) \<Longrightarrow> clean s base r"
  by (auto simp: rebase_create_def map_ok_Inr_iff absent_frame_ok take_first intro: absent_clean)

lemma reads_derive:
  assumes "rebase_derive s base cr (h # args) = Inr cr'" "fresh s base cr"
    "r \<in> set (map FrameRead (atoms_of (take 1 args) @ listed_in (args ! 1)))"
  shows "clean s base r"
  using assms by (auto simp: rebase_derive_def result_iffs absent_frame_ok take_first numeral_2_eq_2 intro: absent_clean read_sources_clean)

lemma reads_revise:
  assumes "rebase_revise s base cr (h # args) = Inr cr'" "fresh s base cr"
    "r \<in> set (map FrameRead (atoms_of (take 1 args) @ (if length args = 3 then listed_in (args ! 1) else [])))"
  shows "clean s base r"
  using assms by (auto simp: rebase_revise_def result_iffs take_first numeral_2_eq_2 intro: frame_write_clean read_sources_clean split: if_splits)

lemma reads_retire:
  assumes "rebase_retire s base cr (h # args) = Inr cr'" "fresh s base cr"
    "r \<in> set (map LifecycleRead (atoms_of args) @ map FrameRead (atoms_of args))"
  shows "clean s base r \<or> (\<exists>i. r = LifecycleRead i \<and> i \<in> set (fst cr))"
proof -
  let ?check = "\<lambda>i. and_then (ensure_lifecycle_write_is_current s base (fst cr) i) (\<lambda>_. ensure_frame_read_is_current s base (fst cr) i)"
  from assms(1) obtain u where "each_target ?check ''retire target'' (h # args) = Inr u"
    by (auto simp: rebase_retire_def result_iffs)
  from each_target_ok [OF this] have "i \<in> set (atoms_of args) \<Longrightarrow> \<exists>u. ?check i = Inr u" for i by simp
  with assms(2,3) show ?thesis by (fastforce simp: and_then_Inr_iff dest: lifecycle_clean frame_read_clean)
qed

lemma reads_lifecycle:
  assumes "rebase_lifecycle s base cr (h # args) = Inr cr'" "r \<in> set (map LifecycleRead (atoms_of args))"
  shows "clean s base r \<or> (\<exists>i. r = LifecycleRead i \<and> i \<in> set (fst cr))"
  using assms by (auto simp: rebase_lifecycle_def result_iffs dest!: each_target_ok lifecycle_clean)

lemma reads_place:
  assumes "rebase_place s base cr (h # args) = Inr cr'" "fresh s base cr"
    "r \<in> set (OrderRead # map FrameRead (atoms_of (take 1 args) @ anchor_of (args ! 1)))"
  shows "clean s base r"
  using assms by (auto simp: rebase_place_def result_iffs take_first numeral_2_eq_2 read_anchor_def anchor_of_def clean.simps(4) intro: frame_read_clean
      split: if_splits sx.splits list.splits)

lemma reads_relation:
  assumes "rebase_relation s base cr (h # args) = Inr cr'" "fresh s base cr"
    "r \<in> set (case atoms_of args of [a, b, c] \<Rightarrow> [FrameRead a, FrameRead c, RelationRead a b c] | _ \<Rightarrow> [])"
  shows "clean s base r"
proof -
  from assms(1) obtain a b c where "args = [SxAtom a, SxAtom b, SxAtom c]" "ensure_frame_read_is_current s base (fst cr) a = Inr ()"
      "ensure_frame_read_is_current s base (fst cr) c = Inr ()" "\<not> newer_than (mc_relation_versions (ms_clocks s)) (relation_logical_id a b c) base"
    by (auto simp: rebase_relation_def result_iffs require_len_def numeral_3_eq_3 numeral_2_eq_2 numeral_eq_Suc length_Suc_conv split: if_splits)
  with assms(2,3) show ?thesis by (auto simp: clean.simps(3) intro: frame_read_clean)
qed

lemma reads_checkpoint:
  assumes "rebase_checkpoint s base cr (h # args) = Inr cr'" "r \<in> set (map CheckpointRead (atoms_of args))"
  shows "clean s base r"
  using assms by (auto simp: rebase_checkpoint_def result_iffs require_len_def length_Suc_conv clean.simps(5) split: if_splits)

lemma reads_drop:
  assumes "rebase_drop_checkpoint s base cr (h # args) = Inr cr'" "fresh s base cr" "r \<in> set (map CheckpointRead (atoms_of args))"
  shows "clean s base r"
  using assms by (auto simp: rebase_drop_checkpoint_def result_iffs clean.simps(5) fresh_def dest!: each_target_ok split: if_splits)

lemma rebase_table_clean:
  assumes "(n, check) \<in> set rebase_table" "check s base cr (SxAtom (lit n) # args) = Inr cr'" "fresh s base cr"
    "r \<in> set (operation_reads (SxList (SxAtom (lit n) # args)))"
  shows "clean s base r \<or> (\<exists>i. r = LifecycleRead i \<and> i \<in> set (fst cr))"
proof -
  have "n = ''create'' \<and> check = rebase_create \<or> n = ''derive'' \<and> check = rebase_derive \<or> n = ''revise'' \<and> check = rebase_revise \<or>
      n = ''retire'' \<and> check = rebase_retire \<or> n \<in> {''restore'', ''protect'', ''unprotect''} \<and> check = rebase_lifecycle \<or>
      n = ''place'' \<and> check = rebase_place \<or> n \<in> {''relate'', ''unrelate''} \<and> check = rebase_relation \<or>
      n = ''checkpoint'' \<and> check = rebase_checkpoint \<or> n = ''drop-checkpoint'' \<and> check = rebase_drop_checkpoint \<or>
      n \<in> {''finalize-retirement'', ''rollback'', ''retire-session'', ''restore-session''}"
    using assms(1) by (auto simp: rebase_table_def)
  then show ?thesis
  proof (elim disjE conjE, goal_cases)
    case 1 then show ?thesis using reads_create [of s base cr "SxAtom (lit n)" args cr' r] assms(2,4) by (simp add: operation_reads_def)
  next
    case 2 then show ?thesis using reads_derive [of s base cr "SxAtom (lit n)" args cr' r] assms(2-4) by (simp add: operation_reads_def)
  next
    case 3 then show ?thesis using reads_revise [of s base cr "SxAtom (lit n)" args cr' r] assms(2-4) by (simp add: operation_reads_def)
  next
    case 4 then show ?thesis using reads_retire [of s base cr "SxAtom (lit n)" args cr' r] assms(2-4) by (simp add: operation_reads_def)
  next
    case 5 then show ?thesis using reads_lifecycle [of s base cr "SxAtom (lit n)" args cr' r] assms(2,4) by (auto simp: operation_reads_def)
  next
    case 6 then show ?thesis using reads_place [of s base cr "SxAtom (lit n)" args cr' r] assms(2-4) by (simp add: operation_reads_def)
  next
    case 7 then show ?thesis using reads_relation [of s base cr "SxAtom (lit n)" args cr' r] assms(2-4) by (auto simp: operation_reads_def)
  next
    case 8 then show ?thesis using reads_checkpoint [of s base cr "SxAtom (lit n)" args cr' r] assms(2,4) by (simp add: operation_reads_def)
  next
    case 9 then show ?thesis using reads_drop [of s base cr "SxAtom (lit n)" args cr' r] assms(2-4) by (simp add: operation_reads_def)
  next
    case 10 then show ?thesis using assms(4) by (auto simp: operation_reads_def)
  qed
qed

lemma keeps_created:
  "rebase_revise s base cr op = Inr cr' \<Longrightarrow> cr' = cr" "rebase_retire s base cr op = Inr cr' \<Longrightarrow> cr' = cr"
  "rebase_lifecycle s base cr op = Inr cr' \<Longrightarrow> cr' = cr" "rebase_place s base cr op = Inr cr' \<Longrightarrow> cr' = cr"
  "rebase_relation s base cr op = Inr cr' \<Longrightarrow> cr' = cr" "rebase_drop_checkpoint s base cr op = Inr cr' \<Longrightarrow> cr' = cr"
  by (auto simp: rebase_revise_def rebase_retire_def rebase_lifecycle_def rebase_place_def rebase_relation_def rebase_drop_checkpoint_def
      and_then_Inr_iff map_ok_Inr_iff split: if_splits)

lemma adds_created:
  assumes "rebase_create s base cr op = Inr cr' \<or> rebase_derive s base cr op = Inr cr'"
  shows "\<exists>i. cr' = (i # fst cr, snd cr) \<and> \<not> has_frame s i \<and> 1 < length op \<and> op ! 1 = SxAtom i"
  using assms by (auto simp: rebase_create_def rebase_derive_def and_then_Inr_iff map_ok_Inr_iff absent_frame_ok)

lemma adds_checkpoint:
  assumes "rebase_checkpoint s base cr op = Inr cr'" "fresh s base cr"
  shows "fst cr' = fst cr \<and> fresh s base cr'"
  using assms by (auto simp: rebase_checkpoint_def and_then_Inr_iff fresh_def split: if_splits)

lemma created_step:
  assumes "(n, check) \<in> set rebase_table" "check s base cr (SxAtom (lit n) # args) = Inr cr'" "fresh s base cr"
  shows "fresh s base cr' \<and> set (fst cr') \<subseteq> set (fst cr) \<union> set (created_by (SxList (SxAtom (lit n) # args)))"
proof -
  have kinds: "n \<in> {''create'', ''derive''} \<and> check \<in> {rebase_create, rebase_derive} \<or> check = rebase_checkpoint \<or>
      check \<in> {rebase_revise, rebase_retire, rebase_lifecycle, rebase_place, rebase_relation, rebase_drop_checkpoint} \<or>
      n \<in> {''finalize-retirement'', ''rollback'', ''retire-session'', ''restore-session''}"
    using assms(1) by (auto simp: rebase_table_def)
  have quiet: "cr' = cr" if "check \<in> {rebase_revise, rebase_retire, rebase_lifecycle, rebase_place, rebase_relation, rebase_drop_checkpoint}"
    using that assms(2) keeps_created by (elim insertE emptyE; hypsubst) blast+
  have special: "cr' = cr" if "n \<in> {''finalize-retirement'', ''rollback'', ''retire-session'', ''restore-session''}"
    using that assms(1,2) by (elim insertE emptyE) (simp_all add: rebase_table_def)
  from kinds show ?thesis
  proof (elim disjE conjE, goal_cases)
    case create: 1
    with adds_created [of s base cr "SxAtom (lit n) # args" cr'] assms(2) obtain i where
      i: "cr' = (i # fst cr, snd cr)" "\<not> has_frame s i" "0 < length args" "args ! 0 = SxAtom i" by auto
    then obtain rest where "args = SxAtom i # rest" by (cases args) auto
    with i create assms(3) show ?thesis by (auto simp: fresh_def created_by_def)
  next
    case checkpoint: 2
    with adds_checkpoint [of s base cr "SxAtom (lit n) # args" cr'] assms(2,3) show ?thesis by simp
  next
    case 3
    from quiet [OF this] assms(3) show ?thesis by simp
  next
    case 4
    from special [OF this] assms(3) show ?thesis by simp
  qed
qed

lemma rebase_operation_table:
  assumes "rebase_operation s base cr e = Inr cr'"
  obtains n check args where "(n, check) \<in> set rebase_table" "e = SxList (SxAtom (lit n) # args)" "check s base cr (SxAtom (lit n) # args) = Inr cr'"
proof -
  from assms obtain op name where e: "e = SxList op" "0 < length op" "op ! 0 = SxAtom name"
    and run: "(case find (\<lambda>(n, _). lit n = name) rebase_table of
         Some (_, check) \<Rightarrow> check s base cr op | None \<Rightarrow> Inl (Refused ''unknown primitive'' name)) = Inr cr'"
    by (auto simp: rebase_operation_def result_iffs tx_as_list_def split: sx.splits)
  from run obtain n check where f: "find (\<lambda>(n, _). lit n = name) rebase_table = Some (n, check)" "check s base cr op = Inr cr'"
    by (auto split: option.splits)
  have "(n, check) \<in> set rebase_table" "lit n = name" using find_SomeD [OF f(1)] by auto
  with that e f(2) show thesis by (cases op) auto
qed

lemma rebase_loop:
  assumes "try_fold (rebase_operation s base) cr ops = Inr cr'" "fresh s base cr" "e \<in> set ops" "r \<in> set (operation_reads e)"
  shows "clean s base r \<or> (\<exists>i. r = LifecycleRead i \<and> i \<in> set (fst cr) \<union> set (concat (map created_by ops)))"
  using assms
proof (induction ops arbitrary: cr)
  case (Cons op ops)
  from Cons.prems(1) obtain cr1 where one: "rebase_operation s base cr op = Inr cr1" and rest: "try_fold (rebase_operation s base) cr1 ops = Inr cr'"
    by (auto simp: and_then_Inr_iff)
  from one obtain n check args where t: "(n, check) \<in> set rebase_table" "op = SxList (SxAtom (lit n) # args)"
      "check s base cr (SxAtom (lit n) # args) = Inr cr1"
    by (rule rebase_operation_table)
  note cs = created_step [OF t(1,3) Cons.prems(2)]
  show ?case
  proof (cases "e = op")
    case True
    with rebase_table_clean [OF t(1,3) Cons.prems(2), of r] Cons.prems(4) t(2) show ?thesis by auto
  next
    case False
    with Cons.IH [OF rest] cs Cons.prems(3,4) t(2) show ?thesis by auto
  qed
qed simp

lemma rebase_reads_current:
  assumes "history staged s t" "mind_ok staged s" "pt_base_version tx = ms_version s"
    "rebase_stale_context_transaction t tx = Inr tx'" "e \<in> set (pt_operations tx)" "r \<in> set (operation_reads e)"
  shows "unchanged s t r \<or> (\<exists>i \<in> set (created_frames tx). r = LifecycleRead i)"
proof (cases "ms_version t = ms_version s")
  case True
  with history_facts [OF assms(1,2)] show ?thesis by simp
next
  case False
  then obtain cr where "mc_global_barrier_version (ms_clocks t) \<le> ms_version s"
      "try_fold (rebase_operation t (ms_version s)) ([], []) (pt_operations tx) = Inr cr"
    using assms(3,4) by (auto simp: rebase_stale_context_transaction_def Let_def map_ok_Inr_iff split: if_splits)
  with rebase_loop [OF this(2) _ assms(5,6)] history_facts [OF assms(1,2)] show ?thesis
    by (auto simp: fresh_def clock_covers_def created_frames_def)
qed

end
