(* ===== verification/Context_Text.thy ===== *)
theory Context_Text
  imports Context_Rebase
begin

text \<open>
  The canonical text of a transaction reads back as the transaction: normalising is idempotent, and
  neither resolving references nor rebasing changes what normalising and reading look at.
\<close>

section \<open>Normalised operations\<close>

definition searched :: "sx list \<Rightarrow> ustring option" where
  "searched es = foldr (\<lambda>e found. case nested_operation e of Some h \<Rightarrow> Some h | None \<Rightarrow> found) es None"

lemma searched_simps [simp]:
  "searched [] = None" "searched (e # es) = (case nested_operation e of Some h \<Rightarrow> Some h | None \<Rightarrow> searched es)"
  by (auto simp: searched_def split: option.splits)

lemma reject_ok: "reject_nested_context_operations bodies = Inr u \<longleftrightarrow> searched bodies = None"
  by (auto simp: reject_nested_context_operations_def searched_def split: option.splits)

lemma body_not_operation: "nested_operation (tx_list ''context-body'' es) = searched es"
  by (simp add: tx_list_def searched_def [symmetric] context_operations_def)

lemma body_not_from: "\<not> is_from_expression (tx_list ''context-body'' es)"
  by (simp add: is_from_expression_def tx_list_def)

text \<open>An operation with its body in place.\<close>

lemma normalized_tail:
  assumes "n \<le> length items"
  obtains es where "normalize_body_tail items n = take n items @ es" "length es \<le> 1" "drop n items \<noteq> [] \<longrightarrow> es \<noteq> []"
    "searched es = searched (drop n items)" "es = drop n items \<or> \<not> list_ex is_from_expression es"
proof (cases "length items - n \<le> 1")
  case True
  then show thesis using that [of "drop n items"] by (auto simp: normalize_body_tail_def)
next
  case False
  then show thesis using that [of "[tx_list ''context-body'' (drop n items)]"]
    by (auto simp: normalize_body_tail_def body_not_operation body_not_from split: option.splits)
qed

lemma tail_stable: "length es \<le> 1 \<Longrightarrow> n = length h \<Longrightarrow> normalize_body_tail (h @ es) n = h @ es"
  by (simp add: normalize_body_tail_def)

definition head_name :: "sx \<Rightarrow> ustring option" where
  "head_name e = (case e of SxList (SxAtom h # _) \<Rightarrow> Some h | _ \<Rightarrow> None)"

text \<open>Where the body of an operation begins.\<close>

definition body_start :: "sx list \<Rightarrow> nat option" where
  "body_start items =
     (if items ! 0 = SxAtom (lit ''create'') then Some 2
      else if items ! 0 = SxAtom (lit ''derive'') then Some 3
      else if items ! 0 = SxAtom (lit ''revise'') then Some (if from_at items 2 then 3 else 2)
      else None)"

definition body_ok :: "sx list \<Rightarrow> bool" where
  "body_ok items \<longleftrightarrow>
     (case body_start items of
        None \<Rightarrow> True
      | Some n \<Rightarrow> n < length items \<and> searched (drop n items) = None \<and>
          (items ! 0 = SxAtom (lit ''create'') \<longrightarrow> \<not> list_ex is_from_expression (drop 2 items)) \<and>
          (items ! 0 = SxAtom (lit ''derive'') \<longrightarrow> from_at items 2))"

lemma normalize_ok:
  "normalize_operation e = Inr e' \<longleftrightarrow>
     (\<exists>items name. e = SxList items \<and> items \<noteq> [] \<and> items ! 0 = SxAtom name \<and> body_ok items \<and>
        e' = (case body_start items of None \<Rightarrow> e | Some n \<Rightarrow> SxList (normalize_body_tail items n)))"
proof (cases e)
  case (SxList items)
  show ?thesis
  proof (cases "\<exists>name. items \<noteq> [] \<and> items ! 0 = SxAtom name")
    case True
    then obtain name where "items \<noteq> []" "items ! 0 = SxAtom name" by blast
    with SxList show ?thesis
      by (auto simp: normalize_operation_def tx_as_list_def atom_at_def as_atom_def and_then_Inr_iff reject_ok body_start_def body_ok_def
          from_at_def split: if_splits)
  next
    case False
    with SxList show ?thesis
      by (auto simp: normalize_operation_def tx_as_list_def atom_at_def as_atom_def and_then_Inr_iff split: sx.splits if_splits)
  qed
qed (simp add: normalize_operation_def tx_as_list_def)

lemma normalize_idempotent:
  assumes "normalize_operation e = Inr e'"
  shows "normalize_operation e' = Inr e' \<and> head_name e' = head_name e \<and> head_name e \<noteq> None"
proof -
  from assms obtain items name where e: "e = SxList items" "items \<noteq> []" "items ! 0 = SxAtom name" "body_ok items"
      and e': "e' = (case body_start items of None \<Rightarrow> e | Some n \<Rightarrow> SxList (normalize_body_tail items n))"
    by (auto simp: normalize_ok)
  have head: "head_name (SxList (SxAtom h # xs)) = Some h" for h xs by (simp add: head_name_def)
  obtain rest where items: "items = SxAtom name # rest" using e(2,3) by (cases items) auto
  show ?thesis
  proof (cases "body_start items")
    case None
    with e e' assms show ?thesis by (simp add: items head)
  next
    case (Some n)
    then have n: "n \<in> {2, 3}" "n < length items" using e(4) by (auto simp: body_start_def body_ok_def split: if_splits)
    obtain es where es: "normalize_body_tail items n = take n items @ es" "length es \<le> 1" "drop n items \<noteq> [] \<longrightarrow> es \<noteq> []"
      "searched es = searched (drop n items)" "es = drop n items \<or> \<not> list_ex is_from_expression es"
      using normalized_tail [of n items] n by auto
    let ?new = "take n items @ es"
    have stable: "normalize_body_tail ?new n = ?new" using tail_stable [of es n "take n items"] es(2) n(2) by simp
    have new: "body_start ?new = Some n \<and> body_ok ?new"
    proof (cases "es = drop n items")
      case True
      with Some e(4) show ?thesis by simp
    next
      case False
      then have no_from: "\<not> list_ex is_from_expression es" using es(5) by simp
      moreover have "es \<noteq> []" using es(3) n(2) by simp
      ultimately have "\<not> is_from_expression (es ! 0)" by (cases es) auto
      with Some n e(3,4) es(3,4) no_from items \<open>es \<noteq> []\<close> show ?thesis
        by (auto simp: body_start_def body_ok_def from_at_def nth_append split: if_splits)
    qed
    have "?new \<noteq> []" "?new ! 0 = SxAtom name" "head_name (SxList ?new) = Some name"
      using items n by (auto simp: head_name_def)
    with new stable Some e' es(1) e(1) items show ?thesis by (auto simp: normalize_ok head)
  qed
qed

text \<open>A transaction that reading and resolving leave.\<close>

definition canonical_tx :: "parsed_transaction \<Rightarrow> bool" where
  "canonical_tx tx \<longleftrightarrow> pt_operations tx \<noteq> [] \<and> pt_base_version tx \<le> u64_limit \<and>
     list_all (\<lambda>e. normalize_operation e = Inr e \<and> head_name e \<notin> {None, Some (lit ''base-version''), Some (lit ''reason'')}) (pt_operations tx)"

lemma child_operation:
  assumes "head_name e \<notin> {None, Some (lit ''base-version''), Some (lit ''reason'')}"
  shows "transaction_child (base, reason, ops) e = Inr (base, reason, ops @ [e])"
  using assms by (auto simp: head_name_def transaction_child_def tx_as_list_def atom_at_def as_atom_def split: sx.splits list.splits)

lemma children_operations:
  assumes "list_all (\<lambda>e. head_name e \<notin> {None, Some (lit ''base-version''), Some (lit ''reason'')}) es"
  shows "try_fold transaction_child (base, reason, ops) es = Inr (base, reason, ops @ es)"
  using assms by (induction es arbitrary: ops) (auto simp: child_operation)

lemma normalized_all:
  assumes "list_all (\<lambda>e. normalize_operation e = Inr e) es"
  shows "try_map normalize_operation es = Inr es"
  using assms by (induction es) auto

lemma transaction_of_rendered:
  assumes "canonical_tx tx"
  shows "transaction_of (rendered_transaction tx) = Inr tx"
proof -
  let ?ops = "pt_operations tx"
  have ops: "list_all (\<lambda>e. head_name e \<notin> {None, Some (lit ''base-version''), Some (lit ''reason'')}) ?ops" "try_map normalize_operation ?ops = Inr ?ops"
    using assms by (auto simp: canonical_tx_def list_all_iff intro!: normalized_all)
  have base: "transaction_child (None, None, []) (tx_list ''base-version'' [SxAtom (decimal (pt_base_version tx))]) = Inr (Some (pt_base_version tx), None, [])"
    using assms by (simp add: transaction_child_def tx_list_def tx_as_list_def atom_at_def as_atom_def parse_u64_decimal canonical_tx_def)
  have reason: "transaction_child (b, None, []) (tx_list ''reason'' [SxAtom r]) = Inr (b, Some r, [])" for b r
    by (simp add: transaction_child_def tx_list_def tx_as_list_def atom_at_def as_atom_def)
  have "try_fold transaction_child (None, None, []) (tl (case rendered_transaction tx of SxList items \<Rightarrow> items)) =
      Inr (Some (pt_base_version tx), pt_reason tx, ?ops)"
    using children_operations [OF ops(1)] by (cases "pt_reason tx") (simp_all add: rendered_transaction_def base reason)
  with assms ops show ?thesis
    by (simp add: transaction_of_def rendered_transaction_def tx_as_list_def expect_head_def atom_at_def as_atom_def canonical_tx_def
        normalize_transaction_bodies_def map_ok_def)
qed

section \<open>Reading and resolving keep it\<close>

definition plain_head :: "sx \<Rightarrow> bool" where
  "plain_head e \<longleftrightarrow> head_name e \<notin> {None, Some (lit ''base-version''), Some (lit ''reason'')}"

lemma child_result:
  assumes "transaction_child (base, reason, ops) e = Inr (base', reason', ops')"
  shows "(\<forall>n. base' = Some n \<longrightarrow> base = Some n \<or> n \<le> u64_limit) \<and> (ops' = ops \<or> ops' = ops @ [e] \<and> plain_head e)"
  using assms
  by (auto simp: transaction_child_def and_then_Inr_iff tx_as_list_def atom_at_def as_atom_def plain_head_def head_name_def parse_u64_def Let_def
      split: sx.splits if_splits list.splits)

lemma children_result:
  assumes "try_fold transaction_child (base, reason, ops) es = Inr (base', reason', ops')" "\<forall>n. base = Some n \<longrightarrow> n \<le> u64_limit" "list_all plain_head ops"
  shows "(\<forall>n. base' = Some n \<longrightarrow> n \<le> u64_limit) \<and> list_all plain_head ops'"
  using assms
proof (induction es arbitrary: base reason ops)
  case (Cons e es)
  from Cons.prems(1) obtain b r o' where one: "transaction_child (base, reason, ops) e = Inr (b, r, o')"
    and rest: "try_fold transaction_child (b, r, o') es = Inr (base', reason', ops')"
    by (auto simp: and_then_Inr_iff)
  note child = child_result [OF one]
  have "\<forall>n. b = Some n \<longrightarrow> n \<le> u64_limit" using child Cons.prems(2) by blast
  moreover have "list_all plain_head o'" using child Cons.prems(3) by (elim conjE disjE) simp_all
  ultimately show ?case by (rule Cons.IH [OF rest])
qed simp

lemma parsed_canonical:
  assumes "parse_transaction input = Inr tx"
  shows "canonical_tx tx"
proof -
  from assms obtain items n ops ops' where fold: "try_fold transaction_child (None, None, []) (tl items) = Inr (Some n, pt_reason tx, ops)"
      and ops: "ops \<noteq> []" "try_map normalize_operation ops = Inr ops'" "pt_base_version tx = n" "pt_operations tx = ops'"
    by (auto simp: parse_transaction_def transaction_of_def and_then_Inr_iff normalize_transaction_bodies_def map_ok_Inr_iff split: if_splits)
  from children_result [OF fold] have ok: "n \<le> u64_limit" "list_all plain_head ops" by auto
  from ops(2) have each: "list_all2 (\<lambda>e e'. normalize_operation e = Inr e') ops ops'" by (simp add: try_map_Inr_iff)
  have "\<exists>e \<in> set ops. normalize_operation e = Inr e'" if "e' \<in> set ops'" for e'
    using that each unfolding list_all2_conv_all_nth by (metis in_set_conv_nth)
  with ok(2) have "list_all (\<lambda>e. normalize_operation e = Inr e \<and> plain_head e) ops'"
    using normalize_idempotent by (fastforce simp: list_all_iff plain_head_def)
  moreover have "ops' \<noteq> []" using each ops(1) by auto
  ultimately show ?thesis using ok(1) ops by (auto simp: canonical_tx_def plain_head_def list_all_iff)
qed

lemma resolve_tail_head: "resolve_tail refs items = Inr items' \<Longrightarrow> items \<noteq> [] \<Longrightarrow> items' \<noteq> [] \<and> items' ! 0 = items ! 0"
  by (cases items) (auto simp: resolve_tail_def map_ok_Inr_iff)

lemma resolve_from_is_from: "resolve_from_references refs e = Inr e' \<Longrightarrow> is_from_expression e'"
proof -
  assume "resolve_from_references refs e = Inr e'"
  then obtain items items' where "items \<noteq> []" "items ! 0 = SxAtom (lit ''from'')" "resolve_tail refs items = Inr items'" "e' = SxList items'"
    by (auto simp: resolve_from_references_def expect_head_def and_then_Inr_iff map_ok_Inr_iff atom_at_def as_atom_def split: sx.splits if_splits)
  with resolve_tail_head show ?thesis by (cases items') (fastforce simp: is_from_expression_def)+
qed

lemma normalized_short: "normalize_body_tail items n = items \<longleftrightarrow> length items - n \<le> 1"
proof -
  have "length (normalize_body_tail items n) = n + 1" if "1 < length items - n"
    using that by (simp add: normalize_body_tail_def)
  then have "normalize_body_tail items n \<noteq> items" if "1 < length items - n"
    using that by (metis add_diff_cancel_left' less_irrefl)
  then show ?thesis by (auto simp: normalize_body_tail_def)
qed

lemma normalized_form:
  "normalize_operation e = Inr e \<longleftrightarrow>
     (\<exists>items name. e = SxList items \<and> items \<noteq> [] \<and> items ! 0 = SxAtom name \<and> body_ok items \<and>
        (\<forall>n. body_start items = Some n \<longrightarrow> length items - n \<le> 1))"
proof -
  have "SxList items = (case body_start items of None \<Rightarrow> SxList items | Some n \<Rightarrow> SxList (normalize_body_tail items n)) \<longleftrightarrow>
      (\<forall>n. body_start items = Some n \<longrightarrow> length items - n \<le> 1)" for items
    using normalized_short [of items] by (cases "body_start items") (auto dest: sym)
  then show ?thesis unfolding normalize_ok by (intro iff_exI conj_cong [OF refl]) (hypsubst, simp only: simp_thms)
qed

definition bodied :: "ustring \<Rightarrow> bool" where
  "bodied name \<longleftrightarrow> name \<in> set (map lit [''create'', ''derive'', ''revise''])"

lemma plain_normalized:
  assumes "items \<noteq> []" "items ! 0 = SxAtom name" "\<not> bodied name"
  shows "normalize_operation (SxList items) = Inr (SxList items) \<and> head_name (SxList items) = Some name"
proof -
  have "body_start items = None" using assms by (auto simp: body_start_def bodied_def)
  then show ?thesis using assms by (cases items) (auto simp: normalized_form body_ok_def head_name_def)
qed

lemma from_updated:
  assumes "normalize_operation (SxList items) = Inr (SxList items)" "items ! 0 = SxAtom name" "name \<in> {lit ''derive'', lit ''revise''}"
    "length items = 4 \<or> name = lit ''derive''" "is_from_expression f"
  shows "normalize_operation (SxList (items[2 := f])) = Inr (SxList (items[2 := f])) \<and> head_name (SxList (items[2 := f])) = head_name (SxList items)"
proof -
  from assms(1) have ok: "items \<noteq> []" "body_ok items" "\<forall>n. body_start items = Some n \<longrightarrow> length items - n \<le> 1"
    by (auto simp: normalized_form)
  have start: "body_start items = Some 3" "length items = 4"
    using ok assms(2-4) by (auto simp: body_start_def body_ok_def split: if_splits)
  moreover have "items[2 := f] ! 0 = SxAtom name" "from_at (items[2 := f]) 2" "drop 3 (items[2 := f]) = drop 3 items"
    using assms(2,5) start by (simp_all add: from_at_def)
  ultimately have "body_start (items[2 := f]) = Some 3" "body_ok (items[2 := f])"
    using assms(2,3) ok(2) by (auto simp: body_start_def body_ok_def)
  with ok(1) assms(2) start show ?thesis
    by (cases items) (auto simp: normalized_form head_name_def)
qed

lemma resolve_index_head:
  "resolve_index refs items i = Inr items' \<Longrightarrow> 0 < i \<Longrightarrow> length items' = length items \<and> items' ! 0 = items ! 0"
  by (auto simp: resolve_index_def map_ok_Inr_iff split: if_splits)

lemma resolve_cases:
  assumes "resolve_operation refs (SxList items) = Inr e'" "items \<noteq> []" "items ! 0 = SxAtom name"
  shows "(\<exists>f. e' = SxList (items[2 := f]) \<and> is_from_expression f \<and> name \<in> {lit ''derive'', lit ''revise''} \<and> (length items = 4 \<or> name = lit ''derive'')) \<or>
    (\<exists>items'. e' = SxList items' \<and> items' \<noteq> [] \<and> items' ! 0 = SxAtom name \<and> \<not> bodied name) \<or> e' = SxList items"
proof -
  have relate: "items2 \<noteq> [] \<and> items2 ! 0 = SxAtom name"
    if "resolve_index refs items 1 = Inr items1" "resolve_index refs items1 3 = Inr items2" for items1 items2
    using resolve_index_head [OF that(1)] resolve_index_head [OF that(2)] assms(2,3) by auto
  have tail: "items' \<noteq> [] \<and> items' ! 0 = SxAtom name" if "resolve_tail refs items = Inr items'" for items'
    using resolve_tail_head [OF that assms(2)] assms(3) by simp
  have run: "resolve_operation refs (SxList items) =
      (if name = lit ''derive'' then
         (if 2 < length items then map_ok (\<lambda>e. SxList (items[2 := e])) (resolve_from_references refs (items ! 2))
          else Inl (Malformed ''missing'' ''from''))
       else if name = lit ''revise'' \<and> length items = 4 then map_ok (\<lambda>e. SxList (items[2 := e])) (resolve_from_references refs (items ! 2))
       else if name \<in> set (map lit [''retire'', ''restore'', ''protect'', ''unprotect'']) then map_ok SxList (resolve_tail refs items)
       else if name = lit ''relate'' \<or> name = lit ''unrelate'' then
         map_ok SxList (and_then (resolve_index refs items 1) (\<lambda>items. resolve_index refs items 3))
       else Inr (SxList items))"
    using assms(2,3) by (simp add: resolve_operation_def tx_as_list_def atom_at_def as_atom_def)
  consider "name = lit ''derive''" | "name = lit ''revise''" "length items = 4"
    | "\<not> bodied name" "name \<in> set (map lit [''retire'', ''restore'', ''protect'', ''unprotect''])"
    | "\<not> bodied name" "name = lit ''relate'' \<or> name = lit ''unrelate''" | "e' = SxList items"
    using assms(1) unfolding run by (auto simp: bodied_def split: if_splits)
  then show ?thesis
  proof cases
    case 1
    with assms(1) show ?thesis unfolding run by (auto simp: map_ok_Inr_iff split: if_splits dest: resolve_from_is_from)
  next
    case 2
    with assms(1) show ?thesis unfolding run by (auto simp: map_ok_Inr_iff dest: resolve_from_is_from)
  next
    case 3
    with assms(1) obtain items' where "resolve_tail refs items = Inr items'" "e' = SxList items'"
      unfolding run by (auto simp: map_ok_Inr_iff bodied_def split: if_splits)
    with tail 3(1) show ?thesis by blast
  next
    case 4
    with assms(1) obtain items1 items2 where "resolve_index refs items 1 = Inr items1" "resolve_index refs items1 3 = Inr items2" "e' = SxList items2"
      unfolding run by (auto simp: map_ok_Inr_iff and_then_Inr_iff bodied_def split: if_splits)
    with relate 4(1) show ?thesis by blast
  qed simp
qed

lemma resolve_normalized:
  assumes "resolve_operation refs e = Inr e'" "normalize_operation e = Inr e"
  shows "normalize_operation e' = Inr e' \<and> head_name e' = head_name e"
proof -
  from assms(2) obtain items name where e: "e = SxList items" "items \<noteq> []" "items ! 0 = SxAtom name"
    by (auto simp: normalized_form)
  have head: "head_name e = Some name" using e by (cases items) (auto simp: head_name_def)
  consider (sourced) f where "e' = SxList (items[2 := f])" "is_from_expression f" "name \<in> {lit ''derive'', lit ''revise''}"
      "length items = 4 \<or> name = lit ''derive''"
    | (plain) items' where "e' = SxList items'" "items' \<noteq> []" "items' ! 0 = SxAtom name" "\<not> bodied name"
    | (same) "e' = e"
    using assms(1) e resolve_cases by blast
  then show ?thesis
  proof cases
    case sourced
    with from_updated [of items name f] assms(2) e show ?thesis by simp
  next
    case plain
    with plain_normalized head show ?thesis by metis
  qed (use assms(2) in simp)
qed

lemma resolved_canonical:
  assumes "resolve_transaction_references refs tx = Inr tx'" "canonical_tx tx"
  shows "canonical_tx tx'"
proof -
  from assms(1) obtain ops where ops: "list_all2 (\<lambda>e e'. resolve_operation refs e = Inr e') (pt_operations tx) ops" "tx' = tx\<lparr>pt_operations := ops\<rparr>"
    by (auto simp: resolve_transaction_references_def map_ok_Inr_iff try_map_Inr_iff)
  have "\<exists>e \<in> set (pt_operations tx). resolve_operation refs e = Inr e'" if "e' \<in> set ops" for e'
    using that ops(1) unfolding list_all2_conv_all_nth by (metis in_set_conv_nth)
  with assms(2) have "list_all (\<lambda>e. normalize_operation e = Inr e \<and> plain_head e) ops"
    using resolve_normalized by (fastforce simp: canonical_tx_def list_all_iff plain_head_def)
  moreover have "ops \<noteq> []" using ops(1) assms(2) by (auto simp: canonical_tx_def)
  ultimately show ?thesis using assms(2) ops(2) by (simp add: canonical_tx_def plain_head_def list_all_iff)
qed

lemma read_canonical: "read_transaction auth refs input = Inr tx \<Longrightarrow> canonical_tx tx"
  by (auto simp: read_transaction_def and_then_Inr_iff map_ok_Inr_iff split: if_splits option.splits
      intro: resolved_canonical [OF _ parsed_canonical])

lemma current_canonical:
  assumes "at_current_version auth s tx = Inr tx'" "canonical_tx tx" "ms_version s \<le> u64_limit"
  shows "canonical_tx tx'"
  using assms by (auto simp: at_current_version_def rebase_stale_context_transaction_def Let_def map_ok_Inr_iff canonical_tx_def split: if_splits)

lemma canonical_text_reads:
  assumes "canonical_tx tx" "sx_depth (rendered_transaction tx) \<le> max_sexpr_nesting_depth"
  shows "parse_transaction (render_parsed_transaction tx) = Inr tx"
  using sx_parse_printed [OF assms(2)] transaction_of_rendered [OF assms(1)]
  by (simp add: parse_transaction_def render_parsed_transaction_def)

end
