(* ===== verification/Context_Orders.thy ===== *)
theory Context_Orders
  imports Context_Invariant
begin

text \<open>
  The orders of a plan against what the context database asks of them (\<open>compile_runtime_operations\<close>
  in \<open>morphz/src/context_db_runtime.rs\<close>): an order has to list exactly the records the collection
  holds in the end. The database names a record by a digest of its kind and identifier; here it is
  the identifier itself.
\<close>

fun collection_ids :: "mind_state \<Rightarrow> context_collection \<Rightarrow> ustring list" where
  "collection_ids s FrameNodes = map cf_id (ms_frames s)"
| "collection_ids s RelationNodes = map context_relation_identity (ms_relations s)"
| "collection_ids s RetiredNodes = ms_retired s"
| "collection_ids s RetiringNodes = map fst (ms_retiring s)"
| "collection_ids s ProtectedNodes = ms_protected s"
| "collection_ids s CheckpointNodes = map ck_id (ms_checkpoints s)"
| "collection_ids s ClockNodes = [lit ''mutation-clocks'']"

definition removed_ids :: "context_collection \<Rightarrow> state_mutation list \<Rightarrow> ustring list" where
  "removed_ids c ms = List.map_filter (\<lambda>m. case m of Remove d i \<Rightarrow> if d = c then Some i else None | _ \<Rightarrow> None) ms"

definition upserted_ids :: "context_collection \<Rightarrow> state_mutation list \<Rightarrow> ustring list" where
  "upserted_ids c ms = List.map_filter (\<lambda>m. case m of Upsert v _ \<Rightarrow> if node_collection v = c then Some (logical_id v) else None | _ \<Rightarrow> None) ms"

definition order_accepted :: "mind_state \<Rightarrow> state_mutation list \<Rightarrow> context_collection \<Rightarrow> ustring list \<Rightarrow> bool" where
  "order_accepted s ms c ids \<longleftrightarrow>
     vector_like c \<and> distinct ids \<and> set ids = (set (collection_ids s c) - set (removed_ids c ms)) \<union> set (upserted_ids c ms)"

lemma collection_record: "i \<in> set (collection_ids s c) \<longleftrightarrow> record_of s c i \<noteq> None"
  by (cases c) (auto simp: find_frame_def find_None_iff bt_get_None_iff split: if_splits)

lemma removed_iff: "i \<in> set (removed_ids c ms) \<longleftrightarrow> Remove c i \<in> set ms"
proof (induction ms)
  case (Cons m ms) then show ?case by (cases m) (auto simp: removed_ids_def List.map_filter_simps)
qed (simp add: removed_ids_def List.map_filter_simps)

lemma upserted_iff: "i \<in> set (upserted_ids c ms) \<longleftrightarrow> (\<exists>v order. Upsert v order \<in> set ms \<and> node_collection v = c \<and> logical_id v = i)"
proof (induction ms)
  case (Cons m ms) then show ?case by (cases m) (auto simp: upserted_ids_def List.map_filter_simps)
qed (simp add: upserted_ids_def List.map_filter_simps)

lemma finish_members:
  assumes "shaped m" "\<not> ma_broad_replace m"
  shows "i \<in> set (removed_ids c (acc_finish next m)) \<longleftrightarrow> bt_get (ma_writes m) (c, i) = Some (Remove c i)"
    "i \<in> set (upserted_ids c (acc_finish next m)) \<longleftrightarrow> (\<exists>v order. bt_get (ma_writes m) (c, i) = Some (Upsert v order))"
proof -
  have wf: "bt_wf (ma_writes m)" and ok: "\<forall>(k, w) \<in> set (ma_writes m). write_ok k w" using assms(1) by (simp_all add: shaped_def)
  have get: "bt_get (ma_writes m) k = Some w \<longleftrightarrow> (k, w) \<in> set (ma_writes m)" for k w
    using bt_get_wf [OF wf] bt_get_in_set by metis
  have key: "written_by w = Some k" if "(k, w) \<in> set (ma_writes m)" for k w using ok that by (auto simp: write_ok_def)
  have ms: "w \<in> set (acc_finish next m) \<longleftrightarrow> (\<exists>k. (k, w) \<in> set (ma_writes m))" if "ordered_by w = None" for w
    using that assms(2) by (force simp: acc_finish_def)
  have "Remove c i \<in> set (acc_finish next m) \<longleftrightarrow> (\<exists>k. (k, Remove c i) \<in> set (ma_writes m))" by (rule ms) simp
  also have "\<dots> \<longleftrightarrow> ((c, i), Remove c i) \<in> set (ma_writes m)" using key [of _ "Remove c i"] by auto
  finally show "i \<in> set (removed_ids c (acc_finish next m)) \<longleftrightarrow> bt_get (ma_writes m) (c, i) = Some (Remove c i)"
    by (simp add: removed_iff get)
  have "Upsert v order \<in> set (acc_finish next m) \<longleftrightarrow> (\<exists>k. (k, Upsert v order) \<in> set (ma_writes m))" for v order by (rule ms) simp
  moreover have "(k, Upsert v order) \<in> set (ma_writes m) \<Longrightarrow> k = (node_collection v, logical_id v)" for k v order
    using key [of k "Upsert v order"] by simp
  ultimately show "i \<in> set (upserted_ids c (acc_finish next m)) \<longleftrightarrow> (\<exists>v order. bt_get (ma_writes m) (c, i) = Some (Upsert v order))"
    unfolding upserted_iff get by (metis prod.inject)
qed

lemma finish_membership:
  assumes "shaped m" "\<not> ma_broad_replace m"
  shows "overlaid s m c i \<noteq> None \<longleftrightarrow>
    i \<in> (set (collection_ids s c) - set (removed_ids c (acc_finish next m))) \<union> set (upserted_ids c (acc_finish next m))"
proof (cases "bt_get (ma_writes m) (c, i)")
  case None
  with finish_members [OF assms, of i c] collection_record [of i s c] show ?thesis by (simp add: overlaid_def)
next
  case (Some w)
  then have "written_by w = Some (c, i)"
    using assms(1) bt_get_in_set [OF Some] by (auto simp: shaped_def write_ok_def)
  with Some finish_members [OF assms, of i c] show ?thesis by (cases w) (auto simp: overlaid_def)
qed

interpretation local_steps: step_invariant "\<lambda>_ x. \<not> ma_broad_replace (snd x)" "without [''rollback'']"
proof unfold_locales
  fix env :: tx_env and A x y
  assume "without [''rollback''] A" "micro env A x y" "\<not> ma_broad_replace (snd x)"
  then show "\<not> ma_broad_replace (snd y)" by (elim micro.cases) (auto simp: without_def)
qed

lemma start_orders: "relation_orders_ok (s, accumulator_new)" "frame_orders_ok (s, accumulator_new)"
  by (simp_all add: relation_orders_ok_def frame_orders_ok_def accumulator_new_def)

lemma transaction_orders:
  assumes "apply_transaction env base ops = Inr t" "mind_ok (rp_staged (te_policy env)) (te_current env)"
    "without [''rollback''] (operation_name ` set ops)" "SetOrder c ids \<in> set (at_mutations t)"
    "c = RelationNodes \<or> c = FrameNodes \<and> without [''create'', ''derive''] (operation_name ` set ops)"
  shows "ids = collection_ids (at_next t) c \<and> order_accepted (te_current env) (at_mutations t) c ids"
proof -
  from assms(1,2) obtain st where st: "t = tx_finish env st" "shaped (clocked env st)"
      "steps env (operation_name ` set ops) (start_tracking env, accumulator_new) (core st)"
      "\<not> ma_broad_replace (ts_mutations st) \<longrightarrow> (\<forall>c i. overlaid (te_current env) (clocked env st) c i = record_of (ts_next st) c i)"
    by (rule transaction_accumulated)
  have "\<not> ma_broad_replace (ts_mutations st)"
    using local_steps.transaction_holds [OF st(3) assms(3,2)] by (simp add: accumulator_new_def)
  then have broad: "\<not> ma_broad_replace (clocked env st)" and records: "overlaid (te_current env) (clocked env st) c i = record_of (ts_next st) c i" for i
    using st(4) by (simp_all add: clocked_def)
  have "(k, SetOrder c ids) \<notin> set (ma_writes (clocked env st))" for k
    using st(2) by (auto simp: shaped_def write_ok_def)
  with assms(4) broad have "(c, ids) \<in> set (ma_orders (clocked env st))"
    by (auto simp: st(1) tx_finish_clocked acc_finish_def)
  then have get: "bt_get (ma_orders (ts_mutations st)) c = Some ids" "distinct ids" "vector_like c"
    using st(2) bt_get_wf [of "ma_orders (clocked env st)" c ids] by (auto simp: shaped_def clocked_def split: if_splits)
  have "relation_orders_ok (ts_next st, ts_mutations st)"
    by (rule relation_orders.transaction_holds [OF st(3) assms(3,2) start_orders(1)])
  moreover have "frame_orders_ok (ts_next st, ts_mutations st)" if "without [''create'', ''derive''] (operation_name ` set ops)"
    using frame_orders.transaction_holds [OF st(3) _ assms(2) start_orders(2)] that assms(3) by (simp add: without_def)
  ultimately have ids: "ids = collection_ids (ts_next st) c"
    using get(1) assms(5) by (auto simp: relation_orders_ok_def frame_orders_ok_def)
  have "i \<in> set ids \<longleftrightarrow> i \<in> (set (collection_ids (te_current env) c) - set (removed_ids c (at_mutations t))) \<union> set (upserted_ids c (at_mutations t))" for i
    using finish_membership [OF st(2) broad, of "te_current env" c i] records [of i] collection_record [of i "ts_next st" c]
    by (simp add: ids st(1) tx_finish_clocked)
  moreover have "collection_ids (at_next t) c = collection_ids (ts_next st) c"
    by (cases c) (simp_all add: st(1) tx_finish_clocked)
  ultimately show ?thesis using ids get by (auto simp: order_accepted_def)
qed

end
