(* ===== verification/Context_Cases.thy ===== *)
theory Context_Cases
  imports Context_History Context_Text Context_Orders Context_Examples
begin

text \<open>
  Concrete transactions: one that moves a frame and retires it, one written against the version before
  it, and one that moves a frame and then creates another.
\<close>

definition guarded_mind :: mind_state where
  "guarded_mind = (example_mind [first_frame, second_frame] [])\<lparr>ms_protected := [lit ''f1'']\<rparr>"

definition env_at :: "mind_state \<Rightarrow> tx_env" where
  "env_at s = \<lparr>te_current = s, te_reason = Some (lit ''done''), te_observations = [], te_policy = cognitive_policy 7 3,
     te_formation = \<lparr>ff_enabled = False, ff_principal_id = None, ff_session_id = None, ff_origins = None\<rparr>, te_track = True\<rparr>"

definition op_of :: "string list \<Rightarrow> sx" where
  "op_of names = SxList (map (\<lambda>n. SxAtom (lit n)) names)"

definition move_and_retire :: "sx list" where
  "move_and_retire = [op_of [''place'', ''f2'', ''first''], op_of [''retire'', ''f2'']]"

text \<open>A revision of the frame that the transaction above did not change, written before it.\<close>

definition late_revision :: parsed_transaction where
  "late_revision = \<lparr>pt_base_version = 1, pt_reason = None, pt_operations = [SxList [SxAtom (lit ''revise''), SxAtom (lit ''f1''), nest 2]]\<rparr>"

definition place_then_create :: "sx list" where
  "place_then_create = [op_of [''place'', ''f2'', ''first''], op_of [''create'', ''f3'', ''x'']]"

lemma example_ids: "list_all (\<lambda>n. valid_id (lit n)) [''f1'', ''f2'', ''f3'', ''extends'', ''old'']"
  by (simp add: valid_id_def id_char_def lit_def chr_def utf8_len_def len_utf8_def)

lemma example_validated [simp]:
  "valid_id (lit ''f1'')" "valid_id (lit ''f2'')" "valid_id (lit ''f3'')" "valid_id (lit ''extends'')" "valid_id (lit ''old'')"
  using example_ids by simp_all

lemma validated_valid: "valid_id i \<Longrightarrow> validated_id i = Inr i"
  by (simp add: validated_id_ok)

lemma guarded_mind_ok: "mind_ok True guarded_mind"
  by (simp add: mind_ok_def content_ok_def guarded_mind_def example_mind_def first_frame_def second_frame_def example_frame_def bs_wf_def bt_wf_def)

text \<open>The environment, the state and the frames by their fields, so that evaluation leaves them folded.\<close>

lemma env_fields [simp]:
  "te_current (env_at s) = s" "te_reason (env_at s) = Some (lit ''done'')" "te_observations (env_at s) = []" "te_track (env_at s)"
  "rp_staged (te_policy (env_at s))" "rp_cognitive_tick (te_policy (env_at s)) = 7" "rp_cooling_ticks (te_policy (env_at s)) = 3"
  "ff_enabled (te_formation (env_at s)) = False"
  by (simp_all add: env_at_def cognitive_policy_def)

lemma mind_fields [simp]:
  "ms_version guarded_mind = 1" "ms_frames guarded_mind = [first_frame, second_frame]" "ms_relations guarded_mind = []"
  "ms_retired guarded_mind = [lit ''old'']" "ms_retiring guarded_mind = []" "ms_protected guarded_mind = [lit ''f1'']"
  "ms_checkpoints guarded_mind = []" "ms_clocks guarded_mind = empty_clocks"
  by (simp_all add: guarded_mind_def example_mind_def)

lemma frame_fields [simp]:
  "cf_id first_frame = lit ''f1''" "cf_id second_frame = lit ''f2''" "cf_revision first_frame = 1" "cf_revision second_frame = 1"
  "cf_created_version first_frame = 1" "cf_created_version second_frame = 1" "cf_updated_version first_frame = 1" "cf_updated_version second_frame = 1"
  by (simp_all add: first_frame_def second_frame_def example_frame_def)

lemma clock_fields [simp]:
  "mc_tracking_started_version empty_clocks = None" "mc_lifecycle_versions empty_clocks = []" "mc_relation_versions empty_clocks = []"
  "mc_frame_order_version empty_clocks = 0" "mc_checkpoint_versions empty_clocks = []" "mc_global_barrier_version empty_clocks = 0"
  by (simp_all add: empty_clocks_def)

lemma ticked [simp]: "empty_clocks \<noteq> c\<lparr>mc_frame_order_version := 2\<rparr>" "empty_clocks \<noteq> c\<lparr>mc_lifecycle_versions := ks, mc_frame_order_version := 2\<rparr>"
  by (auto dest: arg_cong [of _ _ mc_frame_order_version])

lemma example_version [simp]: "te_version (env_at guarded_mind) = 2"
  by (simp add: te_version_def u64_inc_def)

lemmas tx_eval = apply_operation_def operation_table_def tx_as_list_def atom_at_def as_atom_def op_of_def require_len_def require_min_len_def
  id_at_def validated_valid ts_change_def ts_set_order_def ts_upsert_def on_next_def on_clocks_def
  ts_upsert_ordered_def acc_upsert_ordered_def acc_upsert_def acc_set_order_def u64_limit_def u64_saturating_add_def
  has_frame_def ensure_known_def record_frame_order_def record_lifecycle_mutation_def remove_at_def Let_def

lemmas op_eval = op_place_def place_frame_def frame_index_def op_retire_def reason_of_def retire_item_def retire_frame_def find_retiring_def
  find_frame_def op_create_def push_frame_def ensure_unknown_def has_checkpoint_def new_frame_def direct_frame_provenance_def

definition retire_request :: frame_retirement where
  "retire_request = \<lparr>rt_frame_id = lit ''f2'', rt_requested_frame_revision = 1, rt_requested_mind_version = 1, rt_requested_at_tick = 7,
     rt_eligible_at_tick = 10, rt_generation = 2, rt_reason = lit ''done''\<rparr>"

definition moved_mind :: mind_state where
  "moved_mind = guarded_mind\<lparr>ms_version := 2, ms_frames := [second_frame, first_frame], ms_retiring := [(lit ''f2'', retire_request)],
     ms_clocks := empty_clocks\<lparr>mc_tracking_started_version := Some 1, mc_lifecycle_versions := [(lit ''f2'', 2)], mc_frame_order_version := 2\<rparr>\<rparr>"

definition moved :: applied_transition where
  "moved = \<lparr>at_next = moved_mind,
     at_changes =
       [\<lparr>cc_operation = lit ''place'', cc_target = lit ''f2'', cc_detail = Some (sx_atom_text (lit ''first''))\<rparr>,
        \<lparr>cc_operation = lit ''retire-frame-requested'', cc_target = lit ''f2'',
         cc_detail = Some (lit ''state=retiring; eligible-at-tick='' @ decimal 10 @ lit ''; immediate-token-relief=0'')\<rparr>],
     at_mutations = [Upsert (RetiringNode retire_request) None, Upsert (ClocksNode (ms_clocks moved_mind)) None,
       SetOrder FrameNodes [lit ''f2'', lit ''f1'']]\<rparr>"

definition placed_state :: tx_state where
  "placed_state = \<lparr>ts_next = guarded_mind\<lparr>ms_frames := [second_frame, first_frame],
       ms_clocks := empty_clocks\<lparr>mc_tracking_started_version := Some 1, mc_frame_order_version := 2\<rparr>\<rparr>,
     ts_mutations = \<lparr>ma_writes = [], ma_orders = [(FrameNodes, [lit ''f2'', lit ''f1''])], ma_broad_replace = False\<rparr>,
     ts_changes = [\<lparr>cc_operation = lit ''place'', cc_target = lit ''f2'', cc_detail = Some (sx_atom_text (lit ''first''))\<rparr>]\<rparr>"

lemma placed_applied: "apply_operation (env_at guarded_mind) (tx_start (env_at guarded_mind)) (op_of [''place'', ''f2'', ''first'']) = Inr placed_state"
  by (simp add: tx_eval op_eval tx_start_def start_tracking_def accumulator_new_def placed_state_def)

lemma moved_applied: "apply_transaction (env_at guarded_mind) 1 move_and_retire = Inr moved"
proof -
  have "apply_operation (env_at guarded_mind) placed_state (op_of [''retire'', ''f2'']) = Inr
      \<lparr>ts_next = moved_mind\<lparr>ms_version := 1\<rparr>, ts_mutations = \<lparr>ma_writes = [((RetiringNodes, lit ''f2''), Upsert (RetiringNode retire_request) None)],
         ma_orders = [(FrameNodes, [lit ''f2'', lit ''f1''])], ma_broad_replace = False\<rparr>, ts_changes = at_changes moved\<rparr>"
    by (simp add: tx_eval op_eval placed_state_def moved_mind_def retire_request_def moved_def)
  then show ?thesis
    by (simp add: apply_transaction_def move_and_retire_def placed_applied close_retirements_def close_superseded_def tx_finish_def Let_def
        ts_upsert_def acc_upsert_def acc_finish_def moved_def moved_mind_def less_prod_def less_eq_context_collection_def less_context_collection_def)
qed

lemma late_revision_rebased: "rebase_stale_context_transaction (at_next moved) late_revision = Inr (late_revision\<lparr>pt_base_version := 2\<rparr>)"
  by (simp add: rebase_stale_context_transaction_def late_revision_def moved_def moved_mind_def rebase_operation_def rebase_table_def rebase_revise_def
      tx_as_list_def atom_at_def as_atom_def ensure_frame_write_is_current_def find_frame_def Let_def bt_get_Cons)

lemma moved_history: "history True guarded_mind (at_next moved)"
  using history_step [of True guarded_mind "env_at guarded_mind" 1 move_and_retire moved] history_refl moved_applied by (simp add: u64_limit_def)

text \<open>Moving a frame and then creating one leaves an order without the new frame.\<close>

definition created_state :: tx_state where
  "created_state = (let f = new_frame (env_at guarded_mind) (lit ''f3'') (sx_atom_text (lit ''x'')) [] default_provenance in
     placed_state\<lparr>ts_next := (ts_next placed_state)\<lparr>ms_frames := [second_frame, first_frame, f]\<rparr>,
       ts_mutations := (ts_mutations placed_state)\<lparr>ma_writes := [((FrameNodes, lit ''f3''), Upsert (FrameNode f) (Some 2))]\<rparr>,
       ts_changes := ts_changes placed_state @ [\<lparr>cc_operation = lit ''create'', cc_target = lit ''f3'', cc_detail = None\<rparr>]\<rparr>)"

lemma created_applied: "apply_transaction (env_at guarded_mind) 1 place_then_create = Inr (tx_finish (env_at guarded_mind) created_state)"
proof -
  have body: "canonical_body (SxAtom (lit ''x'')) = Inr (sx_atom_text (lit ''x''))"
    using sx_parse_printed [of "SxAtom (lit ''x'')"] by (simp add: canonical_body_def Let_def)
  have "apply_operation (env_at guarded_mind) placed_state (op_of [''create'', ''f3'', ''x'']) = Inr created_state"
    by (simp add: tx_eval op_eval placed_state_def created_state_def body)
  then show ?thesis
    by (simp add: apply_transaction_def place_then_create_def placed_applied close_retirements_def) (simp add: created_state_def placed_state_def Let_def)
qed

lemma created_mutations:
  "SetOrder FrameNodes [lit ''f2'', lit ''f1''] \<in> set (at_mutations (tx_finish (env_at guarded_mind) created_state)) \<and>
   lit ''f3'' \<in> set (upserted_ids FrameNodes (at_mutations (tx_finish (env_at guarded_mind) created_state)))"
  by (simp add: tx_finish_def created_state_def placed_state_def Let_def ts_upsert_def acc_upsert_def acc_finish_def upserted_ids_def List.map_filter_simps new_frame_def less_prod_def
      less_eq_context_collection_def less_context_collection_def)

section \<open>The same transactions from their text\<close>

definition open_authority :: tx_authority where
  "open_authority = \<lparr>ta_exact_version = False, ta_runtime_operations = False, ta_guarded = []\<rparr>"

definition move_transaction :: parsed_transaction where
  "move_transaction = \<lparr>pt_base_version = 1, pt_reason = Some (lit ''done''), pt_operations = move_and_retire\<rparr>"

lemma moved_transition: "transition_of (env_at guarded_mind) open_authority move_transaction = Inr moved"
proof -
  have "(env_at guarded_mind)\<lparr>te_reason := Some (lit ''done'')\<rparr> = env_at guarded_mind" by (simp add: env_at_def)
  then have "apply_transaction ((env_at guarded_mind)\<lparr>te_reason := Some (lit ''done'')\<rparr>) 1 move_and_retire = Inr moved"
    by (simp only: moved_applied)
  then show ?thesis
    by (simp add: transition_of_def at_current_version_def open_authority_def move_transaction_def)
qed

lemma move_names: "operation_name ` set (pt_operations move_transaction) = {lit ''place'', lit ''retire''}"
  by (simp add: move_transaction_def move_and_retire_def operation_name_def op_of_def)

lemma nest_two: "nest 2 = SxList [SxList [SxAtom (lit ''x'')]]"
  by (simp add: numeral_2_eq_2)

lemma late_revision_canonical: "canonical_tx late_revision" "sx_depth (rendered_transaction (late_revision\<lparr>pt_base_version := n\<rparr>)) \<le> max_sexpr_nesting_depth"
  by (simp_all add: canonical_tx_def late_revision_def u64_limit_def normalized_form body_start_def body_ok_def from_at_def is_from_expression_def
      head_name_def rendered_transaction_def tx_list_def max_sexpr_nesting_depth_def nest_two context_operations_def)

lemma late_revision_read: "read_transaction open_authority (\<lambda>_. None) (render_parsed_transaction late_revision) = Inr late_revision"
proof -
  have "late_revision\<lparr>pt_base_version := 1\<rparr> = late_revision" by (simp add: late_revision_def)
  then have "parse_transaction (render_parsed_transaction late_revision) = Inr late_revision"
    using canonical_text_reads [OF late_revision_canonical(1)] late_revision_canonical(2) [of 1] by simp
  then show ?thesis
    by (simp add: read_transaction_def open_authority_def late_revision_def first_atom_def resolve_transaction_references_def resolve_operation_def
        tx_as_list_def atom_at_def as_atom_def transaction_reference_candidates_def operation_candidates_def bs_union_def event_reference_prefix_def
        reject_causally_protected_retirements_def lit_def chr_def)
qed

lemma late_revision_current: "at_current_version open_authority (at_next moved) late_revision = Inr (late_revision\<lparr>pt_base_version := 2\<rparr>)"
  using late_revision_rebased by (simp add: at_current_version_def open_authority_def late_revision_def moved_def moved_mind_def)

end
