(* ===== verification/Spec2Isabelle.thy ===== *)
theory Spec2Isabelle
  imports Yao_Reader Yao_Safety Yao_Fuel Json_Boundary Json_Types Type_Graph Yao_Operators Yao_Provenance
    Yao_Examples Admission_Examples Scheduler_Examples File_Examples Context_Examples Context_Cases
begin

text \<open>
  A verification of the core of Morphz: the Yao language (\<open>src/yao\<close>), in which agents write the
  programs the runtime executes, the admission of activations (\<open>src/morphz/src/admission.rs\<close>,
  \<open>src/morphz/src/activation_admission.rs\<close>), which decides what runs next, and the scheduler
  (\<open>src/morphz/src/scheduler\<close> with the rules of \<open>src/morphz/src/memory/mod.rs\<close> it rests on), which
  keeps the state of objectives, threads and groups, the permission policy with the file tools
  that work under it (\<open>src/morphz/src/permission.rs\<close>, parts of \<open>approval.rs\<close>, \<open>sandbox.rs\<close> and \<open>tool.rs\<close>),
  and the persistent context of an agent with the transactions that change it
  (\<open>src/morphz/src/sexpr.rs\<close>, \<open>context_ast.rs\<close>, \<open>context_state.rs\<close>, \<open>context_store.rs\<close>, parts of
  \<open>orchestrator/context.rs\<close> and \<open>context_db_runtime.rs\<close>).

  \<^bold>\<open>The program.\<close> A Yao artifact is text. The reader turns it into an S-expression with source
  positions; its canonical text is its identity. The analyzer checks the expression against the
  tools and bindings of the host and against its own declarations, and produces a typed tree with
  the effects of every node; its identity is the hash of its serialized form without positions.
  The evaluator runs a tree without effects on an environment of JSON values; a boundary converts
  between plain JSON and the tagged values of the evaluator. Work items that run such programs are
  admitted by a controller that keeps a bounded window of queued rows, chooses among them by
  class, age and fairness, and grants permits within a fixed number of slots. What they are part
  of, objectives with threads, groups of threads and dependencies between them, is stored in rows
  that only the scheduler kernel changes: it validates and fences typed commands, hands them to the
  store and retries on contention, while pure rules derive readiness, judge contracts and audit
  the rows. A program that touches files asks the permission broker for the path: the policy
  decides by roots and protected rules, a durable grant or a reviewer can widen it, and the tools
  then read pages of the file or replace it atomically. What an agent keeps in mind, frames with
  relations, retirement requests, protections and checkpoints, is a state with a version and a
  commitment: every node has a canonical text, and hashes over nodes and collections give the hash
  of the state. A transaction is a text of operations written against a version: it is read and its
  references are resolved, it is rebased when the state has moved on and nothing it reads has, it
  is applied operation by operation while an accumulator collects the mutations for the store, and
  its canonical text is kept to replay it.

  \<^bold>\<open>Theories and sources.\<close>
  \<^item> \<open>Yao_Prelude\<close>: results as sums, ordered maps and sets (\<open>BTreeMap\<close>, \<open>BTreeSet\<close>) as sorted
    lists with their locale, text as code points. \<open>Rust_Number\<close>: checked \<open>i64\<close> and IEEE doubles.
    \<open>Json_Value\<close>: \<open>serde_json\<close> values and accessors.
  \<^item> \<open>Yao_Syntax\<close> (\<open>syntax.rs\<close>, \<open>diagnostic.rs\<close>): lexer, parser and limits. \<open>Yao_Reader\<close>: spans
    and readability. \<open>Yao_Canonical\<close> (\<open>canonical.rs\<close>): the printer with its task stack, and the
    round trip.
  \<^item> \<open>Yao_Types\<close> (\<open>types.rs\<close>): types, effects, assignability. \<open>Yao_Hir\<close>, \<open>Yao_Forms\<close>, \<open>Yao_Sema\<close>,
    \<open>Yao_Program\<close> (\<open>sema.rs\<close>): the typed tree, form parsing, one definition per analysis handler,
    module admission. Proofs: \<open>Sema_Logic\<close> (weakest preconditions of the analyzer's state monad),
    \<open>Yao_Wellformed\<close> (what a well-formed tree is), \<open>Yao_Analysis\<close>, \<open>Yao_Control\<close>, \<open>Yao_Admission\<close>
    (every handler produces one), \<open>Yao_Fuel\<close> (the recursion is the code's), \<open>Type_Graph\<close> (the check
    on recursive types).
  \<^item> \<open>Yao_Identity\<close> (\<open>canonical.rs\<close> and the derived serializers): the hashed form. \<open>Yao_Provenance\<close>:
    what it ignores.
  \<^item> \<open>Yao_Value\<close>, \<open>Yao_Eval\<close> (\<open>eval.rs\<close>) and \<open>Yao_Json\<close> (\<open>json.rs\<close>): runtime values and views, the
    evaluator, the boundary. Proofs: \<open>Yao_Safety\<close>, \<open>Yao_Operators\<close>, \<open>Json_Boundary\<close>, \<open>Json_Types\<close>.
  \<^item> \<open>Admission_Queue\<close> (\<open>admission.rs\<close>): classes, aging, cursor and checkpoint, selection, reserved
    lane. \<open>Admission_Selection\<close>: selection by index equals selection on keys. \<open>Admission_Fairness\<close>:
    the contract of the queue as a locale, and its policy.
  \<^item> \<open>Admission_Controller\<close> (\<open>activation_admission.rs\<close>): one definition per critical section, and
    the step relation that interleaves the futures, permits and handles of the program.
    \<open>Admission_Safety\<close>, \<open>Admission_Ownership\<close>: its invariants and progress.
  \<^item> \<open>Scheduler_Records\<close> (\<open>memory/mod.rs\<close>, \<open>event.rs\<close>), \<open>Scheduler_Commands\<close> (\<open>scheduler/command.rs\<close>,
    \<open>scheduler/store.rs\<close>): rows, requests, commands and their results, field by field.
    \<open>Scheduler_Domain\<close> (\<open>scheduler/domain.rs\<close>, \<open>scheduler/snapshot.rs\<close>): identities, readiness,
    phases. \<open>Scheduler_Contracts\<close> (\<open>memory/mod.rs\<close>): supervision, the contracts of threads and
    groups, the events they cause. \<open>Scheduler_Laws\<close>: their laws. \<open>Scheduler_Audit\<close>
    (\<open>scheduler/domain.rs\<close>, \<open>scheduler/authority.rs\<close>): the audit of the rows.
    \<open>Scheduler_Consistency\<close>: what it decides. \<open>Scheduler_Kernel\<close> (\<open>scheduler/kernel.rs\<close>): one
    definition per command and the retry loop. \<open>Scheduler_Kernel_Safety\<close>: fences and retries.
    \<open>Scheduler_Controllers\<close> (\<open>controllers\<close>): the lowering of decisions to fenced commands.
  \<^item> \<open>Recovery_Reconciler\<close> (\<open>recovery/reconciler.rs\<close>): the audit of supervision and the plan of threads
    to quarantine. \<open>Supervision_Recovery\<close> (\<open>orchestrator/supervision_audit.rs\<close>): its application
    through the kernel, which never meets an unexpected answer.
  \<^item> \<open>Rust_Path\<close>: paths of the standard library. \<open>Capability_Lease\<close> (\<open>approval.rs\<close>): capabilities, leases
    and decisions. \<open>Permission_Policy\<close>, \<open>Permission_Broker\<close> (\<open>permission.rs\<close>, path resolution of
    \<open>sandbox.rs\<close>): modes, profiles, the decision on a path, sessions, grants and reviewers.
    \<open>Permission_Safety\<close>: what an authorization rests on.
  \<^item> \<open>File_Edit\<close>, \<open>File_Read\<close>, \<open>File_Tools\<close> (\<open>tool.rs\<close>): planning and applying exact edits with their diff,
    pages and queries, and the write, edit and read tools on a file system. \<open>File_Tree\<close>: that file
    system, a tree without links, and the calls of \<open>std::fs\<close>. \<open>File_Safety\<close>: atomicity and confinement.
  \<^item> \<open>Rust_Bytes\<close>: UTF-8 and integers as bytes. \<open>Context_Syntax\<close> (\<open>sexpr.rs\<close>): printer and parser of the
    context's expressions. \<open>Context_State\<close> (\<open>context_state.rs\<close>, \<open>context_store.rs\<close>): the state, node values, mutations and
    the check of a plan. \<open>Context_Codec\<close> (\<open>context_ast.rs\<close>): canonical text and decoders.
    \<open>Context_Codec_Laws\<close>: what they accept. \<open>Context_Commitment\<close> (\<open>context_ast.rs\<close>, \<open>context_store.rs\<close>): the hashes.
    \<open>Context_Binding\<close>: what a hash determines.
  \<^item> \<open>Context_Transaction\<close>, \<open>Context_Apply\<close>, \<open>Context_Rebase\<close> (\<open>orchestrator/context.rs\<close>): reading and resolving
    transactions, one definition per operation with the accumulator, the rebase and
    \<open>apply_context_transaction_authorized_once\<close> up to the plan. \<open>Context_Steps\<close>: every operation as a sequence of
    elementary steps, an inductive relation. \<open>Context_Invariant\<close>: the locale of its invariants with their
    instances, and the exactness of plans. \<open>Context_Orders\<close>: the orders of a plan and their check in
    \<open>context_db_runtime.rs\<close>. \<open>Context_History\<close>: what the clocks say of the states between two versions.
    \<open>Context_Text\<close>: normal forms and the text of transactions.
  \<^item> \<open>Yao_Examples\<close>, \<open>Admission_Examples\<close>, \<open>Scheduler_Examples\<close>, \<open>File_Examples\<close>, \<open>Context_Examples\<close>, \<open>Context_Cases\<close>:
    the concrete inputs of the witnesses.

  \<^bold>\<open>What is shown.\<close> An accepted module is well formed and calls only the tools it declares (C1, C2), the
  bounded recursion of the analyzer is that of the code (C15), and its effects are exactly those of
  its calls (\<open>admitted_effects_exact\<close>); evaluating it never meets an internal fault (C4) and computes
  exactly (\<open>integer_arithmetic_exact\<close>). Printing and reading are inverse and positions are exact
  (C5, C7), canonical text identifies the expression (\<open>canonical_identity\<close>). The two checks on types
  decide what they should (\<open>type_definitions_accepted_iff\<close>, \<open>json_types_accepted_iff\<close>), the JSON boundary is
  typed and inverse (C13, C14). Admission keeps its capacity and ownership, its reserved lane
  is live, its policy is by class, age and rotation and survives recovery (C25, C26, C28 to C31). The audit
  of the scheduler decides the consistency of its rows, over rows and over projections (C8, C36);
  readiness (\<open>readiness_exact\<close>), the contract of a group and the recovery plan are characterised (C38, C9); stale
  decisions are refused, a retried command takes effect in one attempt (C40, C17), and a supersede event
  is valid only for its generation (\<open>supersede_only_its_generation\<close>). A protected path is refused before
  anybody is asked and every authorization rests on the
  profile, a current grant or the reviewer it names (C10, C20); an allowed write without parent
  components stays under the write roots, edits replace exactly what they name in any order, and
  pages put together are the text (C32, C33, C24). The decoder of context nodes accepts exactly the
  encodings, its expressions read back, and a commitment determines the state unless the hash has a
  collision (C11, C12, C37); C27 says which states have one. A context transaction keeps the state well formed, and its
  plan passes the check and describes the new state exactly (C16, C18); the orders it sets are accepted (C3); protected frames
  survive it (C6); a rebased one reads what it was written against (C19); its stored text reads back
  (C35). Six theorems exhibit behaviour that contradicts
  the intent of the code (C21, C22, C23, C27, C34, C39), and so do five lemmas
  (\<open>large_integers_compare_equal\<close>, \<open>nested_rebinding_accepted\<close>, \<open>hunk_lines_drift\<close>, \<open>integer_division_leaves_its_type\<close>,
  \<open>forget_leaves_suspended\<close>).

  \<^bold>\<open>Bounds and fuel.\<close> Machine integers are integers with their range checked where the code checks
  it (\<open>checked_add\<close>, \<open>saturating_sub\<close>); \<open>usize\<close> counts that the code bounds by configuration are
  naturals. The analyzer recurses on expressions and, through function application, on function
  names: \<open>analyze_upto\<close> recurses on the nesting depth and the model of \<open>compile_function\<close> on the
  call depth, both limited by the configuration; \<open>Yao_Fuel\<close> proves that they satisfy the
  unbounded equations of the code. The searches over type definitions take one more than the
  number of definitions, and \<open>Type_Graph\<close> and \<open>Json_Types\<close> prove that this is enough. The version of a
  context wraps as \<open>u64\<close> does in a release build; its expressions nest at most 128 levels, as in the
  reader.

  \<^bold>\<open>Parameters.\<close> SHA-256 (on text and on bytes) and the text of serialized JSON are functions the definitions take;
  the host's tools and bindings are the record \<open>analysis_profile\<close>; the Unicode tables of the
  standard library beyond ASCII are fields of \<open>analysis_config\<close>; times are arguments. The store of
  the scheduler is the record \<open>runtime_store\<close> of the operations the kernel calls, and \<open>atomic_store\<close>
  is what its transactions promise: a call that fails changes nothing. The file system the policy
  looks at is the record \<open>file_system\<close> of its calls, with \<open>tree_fs\<close> its instance for the tools; globs
  and reviewers are functions. Every
  asynchronous method is the sequence of its critical sections, and a step may happen at any time,
  so that notifications, which only cause attempts, need no model.

  \<^bold>\<open>Not modelled.\<close> Diagnostic texts (only codes, spans and related spans), \<open>format.rs\<close> and
  \<open>language_card.rs\<close> (display), \<open>json_schema\<close> and \<open>parse_strict_json\<close>; the SQL of the stores behind
  the scheduler kernel, the queries that page through its rows and the snapshot structures that
  only display them; links in the file system of the tools, lease containment on other targets
  (\<open>is_subset_of_for_target\<close>), the prompts of the automatic reviewer and the queue in front of the human
  one; the node tables of the context database, the rendering of the context with its token accounting, the
  queries for observations and the attention of sessions; and the rest of \<open>src/morphz\<close>: plan execution, the orchestrator, the providers, the other tools and the
  user interfaces, which are largely input and output.
\<close>

section \<open>Admitted programs\<close>

lemma builder_fresh:
  "compiled_functions (with_functions fs internal (with_types ts new_analyzer)) = []"
  "function_stack (with_functions fs internal (with_types ts new_analyzer)) = []"
  by (simp_all add: with_functions_def with_types_def new_analyzer_def)

lemma builder_new: "with_functions [] False (with_types [] new_analyzer) = new_analyzer"
  by (simp add: with_functions_def with_types_def new_analyzer_def)

lemma declared_calls:
  assumes "program_ok cfg p" and "sub_expr (body p) s" and "hir_kind s = HCall t as"
    and "req_tools (requirements p) = Some tools"
  shows "t \<in> set tools"
proof -
  have "Tool t \<in> set (program_effects p)"
    using assms(1) root_calls [OF _ assms(2,3)] by (auto simp: program_ok_def)
  with assms(1,4) show ?thesis by (fastforce simp: program_ok_def tools_within_def list_all_iff)
qed

text \<open>C1: a module the analyzer accepts is well formed. Every node of the body of its program and of
  every function has the type and the effects its operands give it, the effects of the program lie
  within the effects and the tools its \<open>requires\<close> form declares, its output is the type of its
  body, and its size is within the limit.\<close>

theorem admitted_module_sound:
  assumes "analyze_module cfg hash (with_functions fs internal (with_types ts new_analyzer)) root = Inr m"
  shows "program_ok cfg (ma_program m) \<and>
    (\<forall>(n, b) \<in> set (ma_functions m). hir_ok (program_types (ma_program m)) b)"
  by (rule analyze_module_ok [OF assms builder_fresh])

theorem admitted_module_sound_witness:
  "\<exists>m. analyze_module example_config (\<lambda>_. []) new_analyzer search_root = Inr m \<and> program_ok example_config (ma_program m)"
proof -
  obtain m where m: "analyze_module example_config (\<lambda>_. []) new_analyzer search_root = Inr m"
    using search_admitted by blast
  with admitted_module_sound [of example_config "\<lambda>_. []" "[]" False "[]" search_root m] show ?thesis
    by (auto simp: builder_new)
qed

text \<open>C2: an accepted program calls only tools it declares: whenever its \<open>requires\<close> form lists its
  tools, every \<open>call\<close> node anywhere in its body, also inside the bodies of the functions it
  applies, names a listed tool.\<close>

theorem admitted_tools_declared:
  assumes "analyze_module cfg hash (with_functions fs internal (with_types ts new_analyzer)) root = Inr m"
    and "req_tools (requirements (ma_program m)) = Some tools"
    and "sub_expr (body (ma_program m)) s" and "hir_kind s = HCall t as"
  shows "t \<in> set tools"
  using declared_calls [OF _ assms(3,4,2)] analyze_module_ok [OF assms(1) builder_fresh] by blast

theorem admitted_tools_declared_witness:
  "\<exists>m s as. analyze_module example_config (\<lambda>_. []) new_analyzer search_root = Inr m \<and>
     sub_expr (body (ma_program m)) s \<and> hir_kind s = HCall (lit ''search'') as \<and> lit ''search'' \<in> set [lit ''search'']"
proof -
  obtain m where m: "analyze_module example_config (\<lambda>_. []) new_analyzer search_root = Inr m"
      "body (ma_program m) = search_body" "req_tools (requirements (ma_program m)) = Some [lit ''search'']"
    using search_admitted by (auto simp: default_requirements_def)
  then obtain as where s: "sub_expr (body (ma_program m)) search_body" "hir_kind search_body = HCall (lit ''search'') as"
    by (auto simp: search_body_def hir_def intro: sub_refl)
  have "analyze_module example_config (\<lambda>_. []) (with_functions [] False (with_types [] new_analyzer)) search_root = Inr m"
    by (simp add: builder_new m(1))
  from admitted_tools_declared [OF this m(3) s] m(1) s show ?thesis by blast
qed

text \<open>The effects an accepted program states are exact: they are the effects of the calls of
  tools, host operations, programs and inferences in its body, none missing and none invented.\<close>

theorem admitted_effects_exact:
  assumes "analyze_module cfg hash (with_functions fs internal (with_types ts new_analyzer)) root = Inr m"
    and "owner (ma_program m) = Runtime"
  shows "set (program_effects (ma_program m)) = (\<Union>s \<in> {s. sub_expr (body (ma_program m)) s}. own_effects s)"
  using analyze_module_ok [OF assms(1) builder_fresh] assms(2)
  by (auto simp: program_ok_def root_ok_def effect_footprint simp del: UN_iff)

theorem admitted_effects_exact_witness:
  "\<exists>m. analyze_module example_config (\<lambda>_. []) new_analyzer (form [sym ''eval'', double_form]) = Inr m \<and>
     (\<Union>s \<in> {s. sub_expr (body (ma_program m)) s}. own_effects s) = {}"
proof -
  obtain m where m: "analyze_module example_config (\<lambda>_. []) new_analyzer (form [sym ''eval'', double_form]) = Inr m"
      "body (ma_program m) = double_body" "owner (ma_program m) = Runtime"
    using double_admitted by blast
  have eq: "analyze_module example_config (\<lambda>_. []) (with_functions [] False (with_types [] new_analyzer))
      (form [sym ''eval'', double_form]) = Inr m"
    by (simp add: builder_new m(1))
  have "program_effects (ma_program m) = []"
    using analyze_module_ok [OF eq builder_fresh] m(2) by (simp add: program_ok_def double_body_def hir_def)
  with admitted_effects_exact [OF eq m(3)] m(1) show ?thesis by auto
qed

text \<open>C4: evaluating an accepted program without effects never fails by a fault of its own: no operand
  is missing where the evaluator indexes, no effectful node is met, and every function finds
  exactly its arguments. What can still fail is data: a missing binding, a value of the wrong
  shape, an overflow.\<close>

theorem pure_program_never_faults:
  assumes "analyze_module cfg hash (with_functions fs internal (with_types ts new_analyzer)) root = Inr m"
    and "owner (ma_program m) = Runtime" and "program_effects (ma_program m) = []"
    and "fst (evaluate_pure (body (ma_program m)) env (program_types (ma_program m))) = Inl f"
  shows "\<not> internal_fault (failure_message f)"
proof -
  have "hir_ok (program_types (ma_program m)) (body (ma_program m))" "pure_expr (body (ma_program m))"
    using analyze_module_ok [OF assms(1) builder_fresh] assms(2,3) by (auto simp: program_ok_def root_ok_def)
  from evaluate_quiet [OF this, of env] assms(4) show ?thesis by (auto simp: benign_def)
qed

theorem pure_program_never_faults_witness:
  "\<exists>m. analyze_module example_config (\<lambda>_. []) new_analyzer (form [sym ''eval'', double_form]) = Inr m \<and>
     (\<exists>f. fst (evaluate_pure (body (ma_program m)) [lit ''x'' \<mapsto> JNull] (program_types (ma_program m))) = Inl f \<and>
        \<not> internal_fault (failure_message f))"
proof -
  obtain m where m: "analyze_module example_config (\<lambda>_. []) new_analyzer (form [sym ''eval'', double_form]) = Inr m"
      "body (ma_program m) = double_body" "owner (ma_program m) = Runtime"
    using double_admitted by blast
  have eq: "analyze_module example_config (\<lambda>_. []) (with_functions [] False (with_types [] new_analyzer))
      (form [sym ''eval'', double_form]) = Inr m"
    by (simp add: builder_new m(1))
  have "program_effects (ma_program m) = []"
    using analyze_module_ok [OF eq builder_fresh] m(2) by (simp add: program_ok_def double_body_def hir_def)
  moreover obtain f where "fst (evaluate_pure (body (ma_program m)) [lit ''x'' \<mapsto> JNull] (program_types (ma_program m))) = Inl f"
    by (simp add: m(2) double_body_def hir_def evaluate_pure.simps literal_value_def)
  ultimately show ?thesis using pure_program_never_faults [OF eq m(3)] m(1) by blast
qed

section \<open>Reader and canonical text\<close>

lemmas reader_eval = parse_one_def parse_all_def parse_loop.simps next_token_def skip_trivia.simps
  Let_def string_token_def symbol_token_def block_string.simps triple_quote_def unescape_def
  symbol_char_def is_whitespace_def new_lexer_def start_location_def default_parse_limits_def chr_def
  advance_def len_utf8_def parse_token_def mk_token_def mk_span_def canonical_source_canon lit_simps

text \<open>C5: an artifact that parses has a canonical text, and when that text is within the byte limit
  it parses under the same limits to the same expression up to positions, whose canonical text is
  the same: the canonical form is a fixed point of reading and printing.\<close>

theorem canonical_roundtrip:
  assumes "parse_one source pl = Inr e"
    and "utf8_len (canonical_source e) \<le> max_source_bytes pl"
  shows "\<exists>e'. parse_one (canonical_source e) pl = Inr e' \<and> erase e' = erase e \<and>
    canonical_source e' = canonical_source e"
proof -
  have "readable e" "expr_depth e \<le> max_nesting pl"
    using parse_all_readable [OF parse_one_all [OF assms(1)]] by simp_all
  with assms(2) obtain e' where "parse_one (canonical_source e) pl = Inr e'" "erase e' = erase e"
    using parse_one_canonical by blast
  moreover from this(2) have "canonical_source e' = canonical_source e"
    unfolding canonical_source_canon by (rule canon_erase)
  ultimately show ?thesis by blast
qed

theorem canonical_roundtrip_witness:
  "\<exists>e e'. parse_one (lit ''(a \"b\" )'') default_parse_limits = Inr e \<and>
     parse_one (canonical_source e) default_parse_limits = Inr e' \<and> erase e' = erase e"
proof -
  obtain e where e: "parse_one (lit ''(a \"b\" )'') default_parse_limits = Inr e"
      "canonical_source e = lit ''(a \"b\")''"
    by (simp add: reader_eval push_string_def escape_char_def)
  have "utf8_len (canonical_source e) \<le> max_source_bytes default_parse_limits"
    by (simp add: e lit_simps len_utf8_def chr_def default_parse_limits_def)
  from canonical_roundtrip [OF e(1) this] e(1) show ?thesis by blast
qed


text \<open>The canonical text, and so the content hash computed from it, identifies a parsed artifact
  up to source positions: two artifacts read under the limits have the same canonical text exactly
  when they are the same expression.\<close>

theorem canonical_identity:
  assumes "parse_one source pl = Inr e" and "parse_one source' pl = Inr e'"
    and "utf8_len (canonical_source e) \<le> max_source_bytes pl"
  shows "canonical_source e = canonical_source e' \<longleftrightarrow> erase e = erase e'"
proof
  have readable: "readable e" "expr_depth e \<le> max_nesting pl" "readable e'" "expr_depth e' \<le> max_nesting pl"
    using parse_all_readable [OF parse_one_all [OF assms(1)]] parse_all_readable [OF parse_one_all [OF assms(2)]]
    by simp_all
  assume eq: "canonical_source e = canonical_source e'"
  from parse_one_canonical [OF readable(1,2) assms(3)] obtain x where
    "parse_one (canonical_source e) pl = Inr x" "erase x = erase e" by blast
  moreover from parse_one_canonical [OF readable(3,4)] assms(3) eq obtain y where
    "parse_one (canonical_source e') pl = Inr y" "erase y = erase e'" by auto
  ultimately show "erase e = erase e'" using eq by simp
next
  assume "erase e = erase e'"
  then show "canonical_source e = canonical_source e'"
    unfolding canonical_source_canon by (rule canon_erase)
qed

theorem canonical_identity_witness:
  "\<exists>e e'. parse_one (lit ''(a b)'') default_parse_limits = Inr e \<and>
     parse_one (lit ''( a  b )'') default_parse_limits = Inr e' \<and> e \<noteq> e' \<and>
     (canonical_source e = canonical_source e' \<longleftrightarrow> erase e = erase e')"
proof -
  obtain e e' where e: "parse_one (lit ''(a b)'') default_parse_limits = Inr e"
      "parse_one (lit ''( a  b )'') default_parse_limits = Inr e'" "canonical_source e = lit ''(a b)''" "e \<noteq> e'"
    by (simp add: reader_eval)
  have "utf8_len (canonical_source e) \<le> max_source_bytes default_parse_limits"
    by (simp add: e lit_simps len_utf8_def chr_def default_parse_limits_def)
  from canonical_identity [OF e(1,2) this] e show ?thesis by blast
qed

text \<open>C7: the positions of a parsed artifact are exact. Every span covers precisely the text of its
  expression (a symbol's characters, a string with its quotes, a list from its opening to its
  closing parenthesis), and the spans of the items of a list and of the forms of a file follow
  each other without overlap.\<close>

theorem parsed_spans_exact:
  assumes "parse_all source pl = Inr forms"
  shows "list_all (exact_spans source) forms \<and> (\<exists>b. in_order 0 (map expr_span forms) b)"
  using parse_all_spans [OF assms] .

theorem parsed_spans_exact_witness:
  "\<exists>e. parse_all (lit ''(a)'') default_parse_limits = Inr [e] \<and> exact_spans (lit ''(a)'') e"
proof -
  obtain e where e: "parse_all (lit ''(a)'') default_parse_limits = Inr [e]"
    by (simp add: reader_eval)
  from parsed_spans_exact [OF e] e show ?thesis by simp
qed

text \<open>What the parser returns is within the limits.\<close>

lemma parsed_within_limits:
  assumes "parse_all source pl = Inr forms"
  shows "utf8_len source \<le> max_source_bytes pl \<and> (\<forall>e \<in> set forms. readable e \<and> expr_depth e \<le> max_nesting pl)"
  using parse_all_readable [OF assms] parse_all_Inr [OF assms] by blast

text \<open>The iterative printer with its explicit task stack computes the recursive printer.\<close>

lemma printer_refines_recursion: "canonical_source e = canon e"
  by (rule canonical_source_canon)

section \<open>Types\<close>

text \<open>Assignability is a partial order on the types the code builds, with \<open>Json\<close> as its greatest
  element.\<close>

theorem assignability_partial_order:
  "is_assignable_to a a \<and> is_assignable_to a TJson \<and>
   (is_assignable_to a b \<longrightarrow> is_assignable_to b c \<longrightarrow> is_assignable_to a c) \<and>
   (wf_ty a \<longrightarrow> wf_ty b \<longrightarrow> is_assignable_to a b \<longrightarrow> is_assignable_to b a \<longrightarrow> a = b)"
  by (blast intro: assignable_refl assignable_Json assignable_trans assignable_antisym)

theorem assignability_partial_order_witness:
  "is_assignable_to (TStructuralRecord [(lit ''a'', TInt), (lit ''b'', TBool)]) (TStructuralRecord [(lit ''a'', TJson)]) \<and>
   is_assignable_to (TStructuralRecord [(lit ''a'', TJson)]) (TStructuralRecord []) \<and>
   is_assignable_to (TStructuralRecord [(lit ''a'', TInt), (lit ''b'', TBool)]) (TStructuralRecord [])"
proof -
  have "is_assignable_to (TStructuralRecord [(lit ''a'', TInt), (lit ''b'', TBool)]) (TStructuralRecord [(lit ''a'', TJson)])"
    "is_assignable_to (TStructuralRecord [(lit ''a'', TJson)]) (TStructuralRecord [])"
    by (simp_all add: is_assignable_to.simps bt_get_Cons)
  with assignability_partial_order [of "TStructuralRecord [(lit ''a'', TInt), (lit ''b'', TBool)]"
      "TStructuralRecord [(lit ''a'', TJson)]" "TStructuralRecord []"]
  show ?thesis by blast
qed

text \<open>The declared types of a module are accepted exactly when every name they mention is declared
  and no declared type depends on itself, directly or through others: the memoised depth-first
  search of the code decides reachability in the graph of dependencies.\<close>

theorem type_definitions_accepted_iff:
  "validate_type_definitions defs = Inr () \<longleftrightarrow>
     closed_definitions defs \<and> (\<forall>n. \<not> (dep defs)\<^sup>+\<^sup>+ n n)"
  by (rule validate_type_definitions_iff)

text \<open>A type is admitted at the JSON boundary exactly when it is built from data types only,
  through the definitions of its names, without recursion: the visit with its list of names being
  visited decides the inductive definition.\<close>

theorem json_types_accepted_iff: "validate_json_type t defs = Inr () \<longleftrightarrow> json_type defs t"
  by (rule validate_json_type_iff)

section \<open>The JSON boundary\<close>

definition some_seven :: json where
  "some_seven = JObject [(lit ''case'', JString (lit ''some'')), (lit ''value'', int_json 7)]"

lemma some_seven_read: "\<exists>w. from_json (TOption TInt) some_seven [] empty_span = Inr w \<and> w \<noteq> some_seven"
proof -
  have "json_type [] (TOption TInt)" by (simp add: json_type.intros)
  moreover have "transform TInt (int_json 7) [] sp False p = Inr (int_json 7)" for sp p
    by (subst transform.simps) (simp add: decode_simps in_i64_def i64_min_def i64_max_def)
  ultimately show ?thesis
    by (simp add: from_json_def convert_def validate_json_type_iff [symmetric] transform_simps transform_tagged_def
        tagged_envelope_def json_object_def take_field_def some_seven_def bt_get_Cons payload_type_def empty_fields_def
        tagged_result_def bt_remove_def tagged_def jobj_def yao_tag_def lit_simps chr_def)
qed

text \<open>C13: a document read with \<open>from-json\<close> is written back unchanged by \<open>to-json\<close> at the same type,
  whatever records, unions, options and results the type contains.\<close>

theorem json_roundtrip:
  assumes "from_json t v defs sp = Inr w" and "wf_json v"
  shows "to_json t w defs sp' = Inr v"
  using assms from_back by (fastforce simp: from_json_def to_json_def convert_def and_then_Inr_iff)

theorem json_roundtrip_witness:
  "\<exists>w. from_json (TOption TInt) some_seven [] empty_span = Inr w \<and> w \<noteq> some_seven \<and>
     to_json (TOption TInt) w [] empty_span = Inr some_seven"
proof -
  obtain w where w: "from_json (TOption TInt) some_seven [] empty_span = Inr w" "w \<noteq> some_seven"
    using some_seven_read by blast
  have "wf_json some_seven" by (simp add: some_seven_def int_json_def bt_wf_def lit_simps chr_def)
  with w json_roundtrip [OF w(1)] show ?thesis by blast
qed

text \<open>C14: what \<open>from-json\<close> returns is a value of the type it was given: the runtime decoder accepts
  it.\<close>

theorem from_json_typed:
  assumes "from_json t v defs sp = Inr w"
  shows "is_ok (decode_value t w defs sp')"
  using assms from_decodes by (fastforce simp: from_json_def convert_def and_then_Inr_iff)

theorem from_json_typed_witness:
  "\<exists>w. from_json (TOption TInt) some_seven [] empty_span = Inr w \<and> is_ok (decode_value (TOption TInt) w [] empty_span)"
proof -
  obtain w where w: "from_json (TOption TInt) some_seven [] empty_span = Inr w"
    using some_seven_read by blast
  with from_json_typed [OF w] show ?thesis by blast
qed

section \<open>Analysis and evaluation\<close>


text \<open>Analysing an expression keeps the invariant of the analyzer and its context: requirements,
  type definitions, declared functions and the stack of functions being compiled are those before,
  the scope only gains bindings, and the expression produced is well formed with its tools among
  those declared.\<close>

theorem analysis_contract:
  assumes "analyze_expr cfg (compile cfg) e depth (sc, an) = Inr (h, sc', an')" and "analyzer_ok an"
  shows "analyzer_ok an' \<and> extends (sc, an) (sc', an') \<and> hir_ok (definitions an) h \<and> tools_ok (sc, an) (hir_effects h)"
  using wpD [OF analyzing.contract assms(1)] assms(2) by (simp add: analyzed_def)

theorem analysis_contract_witness:
  "\<exists>sc' an'. analyze_expr example_config (compile example_config) (sym ''true'') 0 (scope_new example_config, new_analyzer) =
     Inr (hir (HLiteral (LBool True)) TBool [] empty_span, sc', an') \<and> analyzer_ok an'"
proof -
  obtain sc' an' where run: "analyze_expr example_config (compile example_config) (sym ''true'') 0 (scope_new example_config, new_analyzer) =
     Inr (hir (HLiteral (LBool True)) TBool [] empty_span, sc', an')"
    by (simp add: sym_def sema_run expr_run form_eval analyze_step_def analyze_atom_def example_config_sel default_analysis_limits_def
        new_analyzer_def chr_def)
  have "analyzer_ok new_analyzer" by (simp add: analyzer_ok_def new_analyzer_def)
  from analysis_contract [OF run this] run show ?thesis by blast
qed

text \<open>Evaluation never rebinds or drops a binding.\<close>

lemma evaluation_grows_environment:
  assumes "evaluate_pure e env defs = (Inr v, env')"
  shows "env \<subseteq>\<^sub>m env'"
  using evaluate_grows [of env e defs] assms by (simp add: grows_def)

text \<open>Integer arithmetic is exact or fails. A sum or a product of 64-bit integers, folded from the
  left, is the mathematical one when every partial result is in range, and an overflow failure
  otherwise; likewise a difference. It never wraps.\<close>

theorem integer_arithmetic_exact:
  assumes "\<forall>x \<in> set xs. in_i64 x" and "in_i64 a" and "in_i64 b"
  shows "numeric OpAdd (map int_json xs) sp = exact_or_overflow (prefixes_in_range sum_list xs) (sum_list xs) sp \<and>
    numeric OpMultiply (map int_json xs) sp = exact_or_overflow (prefixes_in_range prod_list xs) (prod_list xs) sp \<and>
    numeric OpSubtract [int_json a, int_json b] sp = exact_or_overflow (in_i64 (a - b)) (a - b) sp"
  using numeric_add [OF assms(1)] numeric_multiply [OF assms(1)] numeric_subtract [OF assms(2,3)] by blast

theorem integer_arithmetic_exact_witness:
  "numeric OpAdd (map int_json [9223372036854775807, 1]) empty_span = Inl (failure IntegerOverflow empty_span) \<and>
   numeric OpMultiply (map int_json [9223372036854775807, 1]) empty_span = Inr (int_json 9223372036854775807) \<and>
   numeric OpSubtract [int_json 5, int_json 7] empty_span = Inr (int_json (- 2))"
  using integer_arithmetic_exact [of "[9223372036854775807, 1]" 5 7 empty_span]
  by (simp add: in_i64_def i64_min_def i64_max_def prefixes_Cons exact_or_overflow_def)

text \<open>Values the evaluator builds are read back by the views of the host: a reference gives its kind
  and identity, a structural record its fields.\<close>

lemma runtime_views_inverse:
  "reference_view (reference_value kind identity) = Some (kind, identity) \<and>
   structural_fields (structural_record_value fs) = Some (bt_from fs)"
  by (simp add: reference_view_value structural_fields_value)

text \<open>The typed identity of a program does not depend on where or how it was written: moving every
  expression and definition, changing the source text and the recorded hash leaves its hash
  unchanged.\<close>

theorem identity_ignores_provenance:
  "program_hash sha256_hex to_string (strip_program p) = program_hash sha256_hex to_string p"
  by (simp add: program_hash_def canonical_program_def same_program [of p])

section \<open>Where the code departs from its intent\<close>

text \<open>Dividing two integers is typed \<open>Int\<close> by the analyzer, but the evaluator always computes it as
  a floating-point number, which is no value of type \<open>Int\<close>.\<close>

theorem integer_division_leaves_its_type:
  "operator_type OpDivide [hir (HLiteral (LInt 4)) TInt [] empty_span, hir (HLiteral (LInt 2)) TInt [] empty_span] empty_span = Inr TInt \<and>
   (\<exists>w. numeric OpDivide [int_json 4, int_json 2] empty_span = Inr w \<and> \<not> is_ok (decode_value TInt w defs sp))"
  by (simp add: operator_type_def hir_def numeric_result_def require_arity_def numeric_def float_arithmetic_def f64_of_int_def
      f64_round_def dyadic_def ge_pow2_def scale_down_def round_half_even_def f64_is_zero_def f64_eq_def Let_def align_def
      signed_def cmp_int_def number_of_f64_def decode_simps)

text \<open>Comparing two integers goes through floating point, so distinct integers above \<open>2 ^ 53\<close> can
  compare as equal.\<close>

theorem large_integers_compare_equal:
  "compare_values OpGreaterEqual [int_json 9007199254740992, int_json 9007199254740993] sp = Inr (JBool True)"
  by (simp add: compare_values_def value_ordering_def f64_of_int_def f64_round_def ge_pow2_def scale_down_def
      round_half_even_def Let_def align_def signed_def cmp_int_def)


text \<open>A binding whose value binds the same name is accepted, because the name is checked before the
  value is analysed, and then always fails when it is evaluated.\<close>

definition rebinding_form :: expr where
  "rebinding_form = form [sym ''bind'', sym ''x'', form [sym ''seq'', form [sym ''bind'', sym ''x'', sym ''3''], sym ''3'']]"

theorem nested_rebinding_accepted:
  "\<exists>h st. analyze_expr example_config (compile example_config) rebinding_form 0 (scope_new example_config, new_analyzer) = Inr (h, st) \<and>
     (\<forall>env. fst (evaluate_pure h env []) = Inl (failure (OverwrittenBinding (lit ''x'')) empty_span))"
  by (simp add: rebinding_form_def sema_run expr_run form_eval sym_def form_def analyze_step_def example_config_sel
      default_analysis_limits_def analyze_form_def pure_operator_of_def analyze_atom_def chr_def analyze_seq_def analyze_many_def
      analyze_bind_def expect_binding_name_def new_analyzer_def example_scope text_run bind_name_def hir_def evaluate_pure.simps
      literal_value_def)

section \<open>Admission control\<close>

text \<open>C25: in every run of the admission controller, whatever the interleaving and the clock, the work in
  flight never exceeds the slots, and neither does it together with the unused part of the
  reservation: general work never takes the slots reserved for dialogue and delivery.\<close>

theorem admission_capacity:
  assumes "admission_run l0 evs s"
  shows "length (cs_in_flight (sys_ctl s)) +
      (al_dialogue_delivery_slots (normalized l0) - usage_dialogue_delivery (in_flight_usage (cs_in_flight (sys_ctl s))))
    \<le> al_total_slots (normalized l0)"
  using run_ok [OF assms] by (simp add: controller_ok_def lanes_ok_def in_flight_usage_def)

theorem admission_capacity_witness:
  "\<exists>q. admission_run example_limits [EvAcquire key_a, EvAcquire key_b, EvGrant 38 39 key_a] (crossed_state q) \<and>
     length (cs_in_flight (sys_ctl (crossed_state q))) \<le> 2"
proof -
  obtain q where run: "admission_run example_limits [EvAcquire key_a, EvAcquire key_b, EvGrant 38 39 key_a] (crossed_state q)"
    using crossed_run by blast
  have "al_total_slots (normalized example_limits) = 2" by (simp add: example_limits_def normalized_def Let_def)
  with admission_capacity [OF run] run show ?thesis by auto
qed

text \<open>C26: exclusive ownership. In a run in which every attempt reads one time and rows are forgotten only
  while no future or handle refers to them, no activation is referred to twice, the activations in
  flight are exactly those with a live permit, the suspended ones exactly those with a handle, and
  a queued row belongs to no permit: an activation never executes twice at the same time.\<close>

theorem admission_ownership:
  assumes "disciplined_run l0 evs s"
  shows "owned s"
  using assms by (rule owned_run)

theorem admission_ownership_witness:
  "disciplined_run example_limits [EvAcquire key_a, EvAcquire key_b] pair_system \<and> owned pair_system"
  using admission_ownership [OF pair_run] pair_run by blast

text \<open>The scheduling window is bounded in such runs: the queued rows that do not belong to a suspended
  activation are at most the window, and those of the general classes at most the part of it that
  is not reserved.\<close>

theorem admission_window_bounded:
  assumes "disciplined_run l0 evs s"
  shows "card (fresh_rows (sys_ctl s)) \<le> al_max_queued (normalized l0) \<and>
    card (general_rows (fresh_rows (sys_ctl s))) \<le> general_queue_limit (normalized l0)"
  using window_run [OF assms] by (simp add: window_ok_def)

theorem admission_window_bounded_witness:
  "disciplined_run example_limits [EvAcquire key_a, EvAcquire key_b] pair_system \<and> card (fresh_rows (sys_ctl pair_system)) \<le> 4"
proof -
  have "al_max_queued (normalized example_limits) = 4" by (simp add: example_limits_def normalized_def Let_def)
  with admission_window_bounded [OF pair_run] pair_run show ?thesis by simp
qed

text \<open>C28: the reserved lane is live. In such a run, whenever a dialogue or delivery activation is waiting and
  fewer of them are in flight than the reservation, some waiting future is admitted at the next
  attempt, however much general work is running or queued.\<close>

theorem reserved_lane_progress:
  assumes "disciplined_run l0 evs s"
    and "e \<in> queue_rows (cs_queue (sys_ctl s))" and "ak_id (ae_key e) \<in> cs_waiters (sys_ctl s)"
    and "uses_reserved_lane (ak_class (ae_key e))"
    and "usage_dialogue_delivery (in_flight_usage (cs_in_flight (sys_ctl s))) < al_dialogue_delivery_slots (normalized l0)"
  shows "\<exists>k s'. admission_step (normalized l0) (EvGrant t t k) s s' \<or> admission_step (normalized l0) (EvResumed t t k) s s'"
proof -
  have ok: "controller_ok (normalized l0) (sys_ctl s)" using run_ok [OF disciplined_is_run [OF assms(1)]] .
  then have "candidate (normalized l0) (sys_ctl s) (ae_key e) ()"
    using reserved_admitted [of "normalized l0" "cs_in_flight (sys_ctl s)"] assms(3-5)
    by (simp add: candidate_def controller_ok_def)
  with progress [OF owned_run [OF assms(1)] _ assms(2)] ok show ?thesis by (simp add: controller_ok_def)
qed

theorem reserved_lane_progress_witness:
  "\<exists>k s'. admission_step (normalized example_limits) (EvGrant 7 7 k) delivery_system s' \<or>
     admission_step (normalized example_limits) (EvResumed 7 7 k) delivery_system s'"
  using reserved_lane_progress [OF delivery_run delivery_waiting(1) _ _ delivery_waiting(3), of 7] delivery_waiting(2)
  by (simp add: entry_of_def key_d_def uses_reserved_lane_def)

text \<open>C29: the policy of the queue. The row taken is admissible, no admissible row has a better class at
  that time, and within its agent, context and session it is the oldest by creation time and
  identity; nothing is taken exactly when no row is admissible, and the other rows stay.\<close>

theorem queue_policy:
  assumes "queue_ok q" and "pop_next_where now P q = Some (e, q')"
  shows "e \<in> admissible_rows q P \<and> queue_rows q' = queue_rows q - {e} \<and>
    (\<forall>e' \<in> admissible_rows q P. class_at (fq_aging q) now (ae_key e) \<le> class_at (fq_aging q) now (ae_key e')) \<and>
    (\<forall>e' \<in> admissible_rows q P.
       class_at (fq_aging q) now (ae_key e') = class_at (fq_aging q) now (ae_key e) \<and> ak_agent (ae_key e') = ak_agent (ae_key e) \<and>
       ak_context (ae_key e') = ak_context (ae_key e) \<and> ak_session (ae_key e') = ak_session (ae_key e) \<longrightarrow>
       fifo_key (ae_key e) \<le> fifo_key (ae_key e'))"
  using fq.pop_rows [OF assms] pop_policy [OF assms(2)] by (auto simp: admissible_rows_def)

lemma pair_queue_ok: "queue_ok (cs_queue waiting_pair)"
  by (auto simp: waiting_pair_def queue_ok_def entry_of_def key_a_def key_b_def validate_key_def)

theorem queue_policy_witness:
  "\<exists>q. pop_next_where 39 (candidate (normalized example_limits) waiting_pair) (cs_queue waiting_pair) = Some (entry_of key_b, q) \<and>
     class_at (aging_every 10) 39 key_b \<le> class_at (aging_every 10) 39 key_a"
proof -
  obtain q where pop: "pop_next_where 39 (candidate (normalized example_limits) waiting_pair) (cs_queue waiting_pair) = Some (entry_of key_b, q)"
    using popped_row by blast
  have "entry_of key_a \<in> admissible_rows (cs_queue waiting_pair) (candidate (normalized example_limits) waiting_pair)"
    by (simp add: admissible_rows_def queue_rows_def waiting_pair_def controller_eval Let_def example_limits_def key_a_def)
  moreover have "fq_aging (cs_queue waiting_pair) = aging_every 10" by (simp add: waiting_pair_def)
  ultimately show ?thesis using queue_policy [OF pair_queue_ok pop] pop by (auto simp: entry_of_def)
qed

text \<open>C30: service rotates. When two rows of one class are taken one after the other, whatever the
  admissibility tests and the clock, and both belong to one agent, then no other agent had an
  admissible row of that class; likewise for the contexts of one agent and the sessions of one
  context.\<close>

theorem service_rotates:
  assumes "pop_next_where t1 P1 q = Some (e1, q1)" and "pop_next_where t2 P2 q1 = Some (e2, q2)"
    and "class_at (fq_aging q1) t2 (ae_key e2) = class_at (fq_aging q) t1 (ae_key e1)"
    and "e \<in> admissible_rows q1 P2" and "class_at (fq_aging q1) t2 (ae_key e) = class_at (fq_aging q1) t2 (ae_key e2)"
    and "ak_agent (ae_key e2) = ak_agent (ae_key e1)"
  shows "ak_agent (ae_key e) = ak_agent (ae_key e1) \<and>
    (ak_context (ae_key e2) = ak_context (ae_key e1) \<longrightarrow>
       ak_context (ae_key e) = ak_context (ae_key e1) \<and>
       (ak_session (ae_key e2) = ak_session (ae_key e1) \<longrightarrow> ak_session (ae_key e) = ak_session (ae_key e1)))"
  using pop_twice_rotates [OF assms(1-5)] assms(6) by simp

theorem service_rotates_witness:
  "\<exists>q1 q2. pop_next_where 0 (\<lambda>k u. True) twin_queue = Some (entry_of key_a, q1) \<and>
     pop_next_where 0 (\<lambda>k u. True) q1 = Some (entry_of key_a2, q2) \<and>
     ak_agent key_a2 = ak_agent key_a"
proof -
  obtain q1 q2 where pops: "pop_next_where 0 (\<lambda>k u. True) twin_queue = Some (entry_of key_a, q1)"
      "pop_next_where 0 (\<lambda>k u. True) q1 = Some (entry_of key_a2, q2)"
    and q1: "fq_entries q1 = [entry_of key_a2]" "fq_aging q1 = aging_every 10"
    using twin_pops by blast
  have aging: "fq_aging twin_queue = aging_every 10" by (simp add: twin_queue_def)
  have cls: "class_at (aging_every 10) 0 key_a2 = class_at (aging_every 10) 0 key_a"
    by (simp add: class_at_def queue_eval key_a_def key_a2_def)
  have "ak_agent key_a2 = ak_agent key_a"
    using service_rotates [OF pops, of "entry_of key_a2"] cls
    by (simp add: q1 aging admissible_rows_def queue_rows_def) (simp add: entry_of_def key_a_def key_a2_def)
  with pops show ?thesis by blast
qed

text \<open>C31: recovery. A queue rebuilt from its rows, read back in any order, and its own checkpoint is
  accepted and takes the same rows in the same order as the queue that was lost would have: every
  pop of the one is the pop of the other and leaves the same rows and the same cursor.\<close>

theorem recovery_preserves_order:
  assumes "queue_ok q" and "cursor_ok q" and "mset es = mset (fq_entries q)"
  shows "\<exists>p. rebuild_with_checkpoint es (fq_aging q) (queue_checkpoint q) = Inr p \<and> queue_rows p = queue_rows q \<and>
    (\<forall>now P e q'. pop_next_where now P q = Some (e, q') \<longrightarrow>
       (\<exists>p'. pop_next_where now P p = Some (e, p') \<and> queue_rows p' = queue_rows q' \<and> fq_cursor p' = fq_cursor q'))"
  using rebuild_recovers [OF assms] pop_order_independent [OF assms(1)] by blast

theorem recovery_preserves_order_witness:
  "\<exists>p p'. rebuild_with_checkpoint [entry_of key_c, entry_of key_a] (aging_every 10) (queue_checkpoint rotating_queue) = Inr p \<and>
     pop_next_where 5 (\<lambda>k u. True) p = Some (entry_of key_c, p')"
proof -
  obtain q where q: "pop_next_where 5 (\<lambda>k u. True) rotating_queue = Some (entry_of key_c, q)" using rotating_pop by blast
  have "queue_ok rotating_queue" "cursor_ok rotating_queue"
    and "mset [entry_of key_c, entry_of key_a] = mset (fq_entries rotating_queue)" "fq_aging rotating_queue = aging_every 10"
    using rotating_ok by (simp_all add: rotating_queue_def add_mset_commute)
  with recovery_preserves_order [of rotating_queue "[entry_of key_c, entry_of key_a]"] q show ?thesis by (metis (full_types))
qed

text \<open>Age promotes and never demotes, so no class starves: as time passes the effective class of a
  row only improves, and after its rank in promotion intervals it is the first class.\<close>

theorem aging_prevents_starvation:
  assumes "in_i64 created" and "in_i64 now" and "int (rank cls * max ms 1) \<le> now - created" and "now - created \<le> i64_max"
    and "now \<le> later"
  shows "effective_class (aging_every ms) cls created now = InteractiveControl \<and>
    effective_class (aging_every ms) cls created later \<le> effective_class (aging_every ms) cls created now"
  using aging_promotes [OF assms(1-4)] aging_monotone [OF assms(5)] by blast

theorem aging_prevents_starvation_witness:
  "effective_class (aging_every 10) Objective 0 100 = InteractiveControl"
  using aging_prevents_starvation [of 0 100 Objective 10 100] by (simp add: in_i64_def i64_min_def i64_max_def)

text \<open>The \<open>expect\<close> of the two waiting loops never panics, in any state and whatever the two readings of
  the clock: a row was seen at the first reading, so one is taken at the second.\<close>

theorem attempts_never_panic:
  "\<exists>r1 r2. acquire_attempt l t1 t2 name st = Some r1 \<and> resume_attempt l t1 t2 name st = Some r2"
  using attempt_no_panic by (metis not_None_eq)

text \<open>C34: the clock is read twice in one attempt, and between the readings age may reorder the rows. There
  is a run in which the future of one activation is admitted by taking the row of another: the
  permit and the slot then carry different activations, the admitted one stays queued, and the
  other one is no longer tracked at all.\<close>

theorem attempt_takes_another_row:
  "\<exists>s. admission_run example_limits [EvAcquire key_a, EvAcquire key_b, EvGrant 38 39 key_a] s \<and>
     sys_permits s = {#key_a#} \<and> cs_in_flight (sys_ctl s) = [(ak_id key_a, key_b)] \<and>
     queued (ak_id key_a) (sys_ctl s) \<and> \<not> controller_contains (ak_id key_b) (sys_ctl s) \<and> key_b \<in># sys_acquiring s"
proof -
  obtain q where q: "admission_run example_limits [EvAcquire key_a, EvAcquire key_b, EvGrant 38 39 key_a] (crossed_state q)"
      "fq_entries q = [entry_of key_a]"
    using crossed_run by blast
  moreover have "\<not> controller_contains (ak_id key_b) (sys_ctl (crossed_state q))"
    by (simp add: controller_contains_def crossed_state_def bt_contains_def bt_get_Cons q(2) entry_of_def waiting_pair_def)
      (simp add: key_a_def key_b_def)
  ultimately show ?thesis
    by (intro exI [of _ "crossed_state q"]) (simp add: crossed_state_def entry_of_def, simp add: key_a_def)
qed

text \<open>Forgetting an activation that is suspended and waiting to resume removes its row and its waiter
  and reports success, but the suspended entry stays, because the disjunction that removes it is
  not evaluated once a row was found: the activation still counts as in flight.\<close>

theorem forget_leaves_suspended:
  "fst (forget (ak_id key_a) resuming_state) \<and> is_in_flight (ak_id key_a) (snd (forget (ak_id key_a) resuming_state)) \<and>
   ak_id key_a \<notin> cs_waiters (snd (forget (ak_id key_a) resuming_state))"
  by (simp add: forget_def resuming_state_def queue_remove_def swap_remove_def key_a_def is_in_flight_def bt_contains_def bt_get_Cons
      entry_of_def Let_def)

section \<open>Scheduler\<close>

text \<open>C8: the audit of the scheduler is exact. On rows with the keys of their tables it reports nothing exactly
  when the rows are consistent: terminal threads are the ones with an outcome, open children are of
  the current generation of their objective, every primary execution has a current active owner and
  every owner at most one, activations are not ahead of their thread nor alive after its end, the
  counters of a group match its members and a closed group has no pending required member, a
  satisfied one has its barrier, no dependency waits for a closed group, and objectives wait exactly
  when a required dependency of theirs is pending.\<close>

theorem audit_decides_consistency:
  assumes "unique_rows inp"
  shows "audit_scheduler_invariants sha inp = Some [] \<longleftrightarrow> scheduler_consistent inp"
  by (rule audit_empty_iff [OF assms])

theorem audit_decides_consistency_witness: "audit_scheduler_invariants (\<lambda>x. x) waiting_input = Some []"
  using audit_decides_consistency [OF waiting_unique] waiting_consistent by blast



text \<open>An objective is runnable exactly when it is active, no evaluation holds a live lease on it and no
  required dependency of its current generation is pending; it waits exactly when some are, and
  then it names precisely those, sorted and without repetition. Dependencies of other owners and of
  earlier generations never matter.\<close>

theorem readiness_exact:
  "(derive_objective_readiness ob ds now = Runnable \<longleftrightarrow>
      obj_status ob = ObjActive \<and> evaluation_free ob now \<and> blocking_ids ob ds = {}) \<and>
   (derive_objective_readiness ob ds now = Waiting names \<longleftrightarrow>
      obj_status ob = ObjActive \<and> evaluation_free ob now \<and> blocking_ids ob ds \<noteq> {} \<and>
      set names = blocking_ids ob ds \<and> sorted_wrt (<) names)"
  by (intro conjI readiness_runnable readiness_waiting)

text \<open>C38: the contract of a thread group fails a group exactly when success is out of reach: its verdict on
  the counters is a failure if and only if no way for the remaining members to end, with members
  only ever becoming terminal, leads to counters on which it is satisfied. Hence a failure is final
  and an open group can still succeed.\<close>

theorem group_fails_iff_hopeless:
  assumes "counts_ok required c" and "required \<le> u64_limit"
  shows "group_verdict policy required contract c = GroupFailed \<longleftrightarrow>
    (\<forall>c'. evolves required c c' \<longrightarrow> group_verdict policy required contract c' \<noteq> GroupSatisfied)"
  by (rule failed_iff_hopeless [OF assms])

theorem group_fails_iff_hopeless_witness:
  "group_verdict PolicyAll 3 (JObject []) (1, 0) = GroupFailed \<and> evolves 3 (1, 0) (3, 2) \<and>
   group_verdict PolicyAll 3 (JObject []) (3, 2) \<noteq> GroupSatisfied"
proof -
  have ok: "counts_ok 3 (1, 0)" "(3 :: nat) \<le> u64_limit" "evolves 3 (1, 0) (3, 2)"
    by (simp_all add: counts_ok_def u64_limit_def evolves_def)
  have "group_verdict PolicyAll 3 (JObject []) (1, 0) = GroupFailed"
    using verdict_cases [OF ok(1,2)] by (simp add: minimum_successful_def maximum_failed_def)
  with group_fails_iff_hopeless [OF ok(1,2), of PolicyAll "JObject []"] ok(3) show ?thesis by blast
qed

text \<open>C9: the recovery plan is exact. It pauses precisely the open, active threads that a violation of severity
  quarantine implicates, directly or through the routes of another entity, each once, and the
  reason it gives is that of such a violation. Warnings and errors pause nothing.\<close>

theorem quarantine_plan_exact:
  assumes "distinct (map thr_id threads)"
  shows "action_thread ` set (plan vs threads routes) =
      {thr_id t | t. t \<in> set threads \<and> thr_lifecycle t = ThreadOpen \<and> thr_control_state t = ControlActive \<and>
         (\<exists>v \<in> set vs. implicated routes v (thr_id t))} \<and>
    distinct (map action_thread (plan vs threads routes)) \<and>
    (\<forall>a \<in> set (plan vs threads routes). \<exists>v \<in> set vs. implicated routes v (action_thread a) \<and> action_reason a = quarantine_reason v)"
proof (intro conjI ballI)
  show "action_thread ` set (plan vs threads routes) =
      {thr_id t | t. t \<in> set threads \<and> thr_lifecycle t = ThreadOpen \<and> thr_control_state t = ControlActive \<and>
         (\<exists>v \<in> set vs. implicated routes v (thr_id t))}"
    unfolding plan_def plan_authority_exact(1) quarantinable_rows [OF assms] by blast
qed (auto simp: plan_def plan_authority_exact(2) dest: plan_authority_exact(3))

theorem quarantine_plan_exact_witness:
  "action_thread ` set (plan [pending_member_violation (group_row PolicyAny GroupSatisfied 3 1 1)] [member_thread] member_routes) = {lit ''1''}"
proof -
  have "implicated member_routes (pending_member_violation (group_row PolicyAny GroupSatisfied 3 1 1)) (lit ''1'')"
    by (simp add: implicated_def pending_member_violation_def violation_def group_row_def member_routes_def)
  then show ?thesis
    using quarantine_plan_exact [of "[member_thread]" "[pending_member_violation (group_row PolicyAny GroupSatisfied 3 1 1)]" member_routes]
    by (auto simp: member_thread_def primary_thread_def)
qed

text \<open>C39: the contract and the audit disagree on groups decided early. Whenever the contract closes a group,
  satisfied or failed, while required members are still pending, the audit reports the group for
  quarantine, although its counters and its status are exactly what the contract made them, and the
  recovery plan then pauses every member's thread that is still open and at work.\<close>

theorem early_decision_pauses_members:
  assumes "g \<in> set (in_groups inp)"
    and "member_counts (in_group_members inp) (grp_id g) = (required, terminal, successful)" and "terminal < required"
    and "grp_status g = group_verdict (grp_policy g) required (grp_completion_contract g) (terminal, successful)"
    and "grp_status g \<noteq> GroupOpen"
    and "routes (lit ''thread_group'', grp_id g) = Some names"
    and "distinct (map thr_id threads)" and "t \<in> set threads" and "thr_id t \<in> set names"
    and "thr_lifecycle t = ThreadOpen" and "thr_control_state t = ControlActive"
  shows "\<exists>vs. audit_scheduler_invariants sha inp = Some vs \<and> thr_id t \<in> action_thread ` set (plan vs threads routes)"
proof -
  obtain vs where vs: "audit_scheduler_invariants sha inp = Some vs" "pending_member_violation g \<in> set vs"
    using pending_member_reported [OF assms(1) _ assms(2,3)] assms(5) by (auto simp: group_status_is_terminal_def)
  from group_violation_planned [OF vs(2) _ _ _ assms(7-11)] assms(6)
  have "thr_id t \<in> action_thread ` set (plan vs threads routes)" by (simp add: pending_member_violation_def violation_def)
  with vs(1) show ?thesis by blast
qed

theorem early_decision_pauses_members_witness:
  "\<exists>vs. audit_scheduler_invariants (\<lambda>x. x) early_input = Some vs \<and>
     thr_id member_thread \<in> action_thread ` set (plan vs [member_thread] member_routes)"
proof (rule early_decision_pauses_members)
  let ?g = "group_row PolicyAny GroupSatisfied 3 1 1"
  show "?g \<in> set (in_groups early_input)" by (simp add: early_input_def)
  show "member_counts (in_group_members early_input) (grp_id ?g) = (3, 1, 1)" using early_counts by (simp add: group_row_def)
  show "grp_status ?g = group_verdict (grp_policy ?g) 3 (grp_completion_contract ?g) (1, 1)"
    by (simp add: group_row_def evaluate_thread_group_contract_def minimum_successful_def maximum_failed_def
        u64_saturating_add_def u64_limit_def)
  show "member_routes (lit ''thread_group'', grp_id ?g) = Some [lit ''0'', lit ''1'', lit ''2'']"
    by (simp add: member_routes_def group_row_def)
qed (simp_all add: group_row_def member_thread_def primary_thread_def)



text \<open>C17: over a store whose failed calls change nothing, executing a command with its retries is one attempt,
  made after at most four sleeps whose lengths double from 25 milliseconds: every attempt before it
  met contention, it is the last allowed attempt or did not meet contention itself, the result and
  the state are those of that attempt on the state the other writers left, and the hint is given
  exactly when it committed something that is not the renewal of a lease.\<close>

theorem execute_is_one_attempt:
  assumes "atomic_store st" and "validate_header (kc_header cmd) = Inr ()"
  shows "\<exists>n \<le> 4. (\<forall>m < n. contended st cmd (waited during 0 m s)) \<and>
    (contended st cmd (waited during 0 n s) \<longrightarrow> n = 4) \<and>
    execute st during cmd s =
      (\<lparr>ex_result = fst (execute_once st cmd (waited during 0 n s)), ex_delays = take n [25, 50, 100, 200],
        ex_hint = result_committed (fst (execute_once st cmd (waited during 0 n s))) \<and> \<not> is_lease_renewal (kc_payload cmd)\<rparr>,
       snd (execute_once st cmd (waited during 0 n s)))"
proof -
  obtain n where n: "n \<le> 4" "\<forall>m < n. contended st cmd (waited during 0 m s)"
    "contended st cmd (waited during 0 n s) \<longrightarrow> n = 4" "execute_loop st during cmd 0 25 s = attempt_after st during cmd 0 25 n s"
    using execute_loop_one_attempt [OF assms(1), of 0 cmd during s 25] by (auto simp: max_contention_retries_def)
  with assms(2) backoff_take [OF n(1)] show ?thesis
    by (intro exI [of _ n]) (simp add: execute_def attempt_after_def split: prod.splits)
qed

theorem execute_is_one_attempt_witness:
  "\<exists>n \<le> 4. execute example_store (\<lambda>_ s. s\<lparr>writers_left := Suc (writers_left s)\<rparr>) cancel_command \<lparr>writers_left = 0, cancelled_count = 0\<rparr> =
     (\<lparr>ex_result = Inr (DependenciesCancelled 1), ex_delays = take n [25, 50, 100, 200], ex_hint = False\<rparr>,
      \<lparr>writers_left = 2, cancelled_count = 1\<rparr>)"
proof -
  let ?s = "\<lparr>writers_left = 0, cancelled_count = 0\<rparr>" and ?d = "\<lambda>_ :: nat. \<lambda>s. s\<lparr>writers_left := Suc (writers_left s)\<rparr>"
  have w: "waited ?d r m \<lparr>writers_left = w, cancelled_count = 0\<rparr> = \<lparr>writers_left = w + m, cancelled_count = 0\<rparr>" for r m w
    by (induction m arbitrary: r w) simp_all
  have c: "contended example_store cancel_command (waited ?d 0 m ?s) \<longleftrightarrow> m < 2" for m
    using locked_transient by (simp add: w contended_def cancel_once)
  have "validate_header (kc_header cancel_command) = Inr ()" by (simp add: cancel_command_def example_header_valid)
  from execute_is_one_attempt [OF example_store_atomic this, of ?d ?s] obtain n where
    n: "n \<le> 4" "\<forall>m < n. m < 2" "n < 2 \<longrightarrow> n = 4"
    "execute example_store ?d cancel_command ?s =
      (\<lparr>ex_result = fst (execute_once example_store cancel_command (waited ?d 0 n ?s)), ex_delays = take n [25, 50, 100, 200],
        ex_hint = result_committed (fst (execute_once example_store cancel_command (waited ?d 0 n ?s))) \<and>
          \<not> is_lease_renewal (kc_payload cancel_command)\<rparr>,
       snd (execute_once example_store cancel_command (waited ?d 0 n ?s)))"
    unfolding c by blast
  from n(2) have "\<not> 2 < n" by blast
  with n(3) have "n = 2" by linarith
  with n(1,4) show ?thesis by (intro exI [of _ n]) (simp add: w cancel_once)
qed

text \<open>An event that supersedes a thread, made for one thread row, is valid for another exactly when the
  intent is not blank and both rows are of the same thread, context, session and turn and of the
  same generation: it never applies to a later incarnation of the thread.\<close>

theorem supersede_only_its_generation:
  "validate_thread_supersede_event u (thread_supersede_event now t intent reason actor) = Inr () \<longleftrightarrow>
     trim intent \<noteq> [] \<and> thr_id u = thr_id t \<and> thr_context_id u = thr_context_id t \<and> thr_session_id u = thr_session_id t \<and>
     thr_root_turn_id u = thr_root_turn_id t \<and> thr_generation u = thr_generation t"
  by (rule supersede_valid_iff)

section \<open>Permissions and file tools\<close>

text \<open>C10: a path that a protected rule matches is refused to every tool under every grant and reviewer,
  and no reviewer is asked, unless the profile is the unconfined full access.\<close>

theorem protected_path_refused:
  assumes "pol = current_profile (au_broker au) (au_session au)" "\<not> unconfined pol"
    and "resolve_existing_or_parent (ph_fs host) (candidate_path pol input) = Inr anchor"
    and "rule \<in> set (pp_protected_paths pol)" "path_matches_pattern host (candidate_path pol input) anchor rule"
  shows "\<exists>e. authorize_path host au input access tool operation c = (Inl e, [])"
proof -
  have "protected_by host pol (candidate_path pol input) anchor" using assms(4,5) by (auto simp: protected_by_def list_ex_iff)
  then show ?thesis using protected_refused [OF assms(1) [symmetric] assms(2,3)] by blast
qed

theorem protected_path_refused_witness:
  "\<exists>e. authorize_path (tree_host workspace_host workspace_tree) workspace_authority (lit ''.git'') WriteAccess (lit ''write'') (lit ''create'') no_context =
     (Inl e, [])"
proof (rule protected_path_refused)
  show "resolve_existing_or_parent (ph_fs (tree_host workspace_host workspace_tree)) (candidate_path workspace_profile (lit ''.git'')) = Inr (lit ''/ws'')"
    unfolding candidate_git using git_anchor by (simp add: tree_host_def workspace_host_def)
  show "path_matches_pattern (tree_host workspace_host workspace_tree) (candidate_path workspace_profile (lit ''.git'')) (lit ''/ws'') (lit ''.git'')"
    unfolding candidate_git by (rule git_matches)
  show "lit ''.git'' \<in> set (pp_protected_paths workspace_profile)" by (simp add: workspace_profile_def)
  show "workspace_profile = current_profile (au_broker workspace_authority) (au_session workspace_authority)"
    by (simp add: workspace_authority_def)
qed simp

text \<open>C20: an authorized path is the candidate itself, and the authorization rests on the profile's roots,
  on full access, on a grant of the current policy for this action and place, or on an \<open>AllowOnce\<close> of the
  reviewer the profile names, asked about this action and place; never on a protected place.\<close>

theorem authorization_rests_on:
  assumes "authorize_path host au input access tool operation c = (Inr p, asked)"
    and "pol = current_profile (au_broker au) (au_session au)"
  shows "p = candidate_path pol input \<and>
    (path_allowed host pol input access \<and> asked = [] \<or>
     (\<exists>anchor justification. resolve_existing_or_parent (ph_fs host) p = Inr anchor \<and> \<not> protected_by host pol p anchor \<and>
        (asked = [] \<and> (full_access pol \<or> grant_in_force au (path_action tool operation p) (path_delta access anchor)) \<or>
         reviewed_by au pol (direct_request (au_fresh_id au) c (path_action tool operation p) (path_delta access anchor) justification) asked)))"
  using assms by (rule authorized_path_rests_on)

theorem authorization_rests_on_witness:
  "\<exists>anchor justification. resolve_existing_or_parent (ph_fs (tree_host workspace_host workspace_tree)) (lit ''/o/f'') = Inr anchor \<and>
     reviewed_by approving_authority workspace_profile
       (direct_request (au_fresh_id approving_authority) no_context (path_action (lit ''write'') (lit ''create'') (lit ''/o/f''))
         (path_delta WriteAccess anchor) justification) [Human]"
  using authorization_rests_on [OF outside_authorized approving_profile [symmetric]] by blast

text \<open>C22: a path with parent components behind a missing directory is resolved at the last directory that
  exists, and the write then creates the missing one and leaves the workspace: a call in create mode
  replaces a file outside every write root, and nobody is asked.\<close>

theorem write_escapes_workspace:
  "\<exists>change t'. execute_write workspace_host workspace_tree (create_args escaping_input content) = (Inr (FileChanged change), [], t') \<and>
     workspace_tree [lit ''o'', lit ''f''] = Some (File (Utf8 (lit ''old''))) \<and> t' [lit ''o'', lit ''f''] = Some (File (Utf8 content)) \<and>
     pp_write_roots (host_profile workspace_host) = [lit ''/ws''] \<and> \<not> lies_under (lit ''/ws'') [lit ''o'', lit ''f'']"
proof -
  have "workspace_tree [lit ''o'', lit ''f''] = Some (File (Utf8 (lit ''old'')))" by (simp add: workspace_tree_def lit_simps chr_def)
  moreover have "pp_write_roots (host_profile workspace_host) = [lit ''/ws'']" unfolding workspace_profile_now by (simp add: workspace_profile_def)
  moreover obtain change where "execute_write workspace_host workspace_tree (create_args escaping_input content) =
      (Inr (FileChanged change), [], made_dir_tree([lit ''o'', lit ''f''] \<mapsto> File (Utf8 content)))"
    using escaping_run by blast
  ultimately show ?thesis using escaped_place by (intro exI conjI) (assumption | simp)+
qed

text \<open>C24: a reader who follows the offsets of the pages gets the whole text, in pages within the limit.\<close>

theorem pages_give_text:
  assumes "0 < limit" "limit \<le> read_text_max_chars"
  shows "concat (pages_from content limit 0) = content \<and> (\<forall>page \<in> set (pages_from content limit 0). length page \<le> limit)"
  using pages_complete [OF assms, of 0 content] pages_bounded [of _ content limit 0] by simp

theorem pages_give_text_witness: "concat (pages_from [97, 98, 99, 100, 101] 2 0) = [97, 98, 99, 100, 101]"
  using pages_give_text [of 2 "[97, 98, 99, 100, 101]"] by (simp add: read_text_max_chars_def)

text \<open>C32: a write to an allowed path without parent components changes only places under a write root,
  directories and temporary files included.\<close>

theorem write_confined:
  assumes "path_allowed (tree_host h t) (host_profile h) (wa_path args) WriteAccess" "\<not> unconfined (host_profile h)"
    and "p = candidate_path (host_profile h) (wa_path args)" "is_absolute p" "ParentDir \<notin> set (components p)" "temp_unused h t p"
    and "execute_write h t args = (r, asked, t')" "t' loc \<noteq> t loc"
  shows "\<exists>root \<in> set (pp_write_roots (host_profile h)). lies_under root loc"
  using assms by (rule write_confined_lemma)

theorem write_confined_witness: "\<exists>root \<in> set (pp_write_roots workspace_profile). lies_under root [lit ''ws'', lit ''b'']"
proof -
  obtain change where run: "execute_write workspace_host workspace_tree (create_args (lit ''b'') [120]) =
      (Inr (FileChanged change), [], workspace_tree([lit ''ws'', lit ''b''] \<mapsto> File (Utf8 [120])))"
    using ordinary_run by blast
  show ?thesis
    using write_confined [OF _ _ refl _ _ _ run, of "[lit ''ws'', lit ''b'']"] ordinary_allowed ordinary_absolute ordinary_temp workspace_lacks
    by (simp add: create_args_def candidate_ordinary)
qed

text \<open>C33: an accepted edit replaces its planned occurrences and keeps every other character; each edit is
  applied at least once, nothing else is, and the order of the edits does not matter.\<close>

theorem edit_replaces_exactly:
  assumes "edit_text content edits = Inr (updated, rs)"
  shows "(\<exists>kept. length kept = Suc (length rs) \<and> content = weave kept (map pr_old_text rs) \<and> updated = weave kept (map pr_new_text rs)) \<and>
    (\<lambda>r. (pr_old_text r, pr_new_text r)) ` set rs = (\<lambda>e. (ee_old_text e, ee_new_text e)) ` set edits \<and>
    (\<forall>edits'. mset edits' = mset edits \<longrightarrow> edit_text content edits' = Inr (updated, rs))"
proof -
  have plan: "planned content edits = Inr rs" and updated: "updated = splice_text content 0 rs" "updated \<noteq> content"
    using assms by (auto simp: edit_text_def and_then_Inr_iff Let_def split: if_splits)
  have "content = weave (kept_parts content 0 rs) (map pr_old_text rs)"
    using weave_original [OF planned_fits [OF plan] planned_separate [OF plan], of 0] by simp
  moreover have "updated = weave (kept_parts content 0 rs) (map pr_new_text rs)" by (simp add: updated(1) splice_weave)
  moreover have "edit_text content edits' = Inr (updated, rs)" if "mset edits' = mset edits" for edits'
    using planned_reorder [OF plan that] updated by (simp add: edit_text_def Let_def)
  ultimately show ?thesis using planned_texts [OF plan] length_kept_parts by blast
qed

theorem edit_replaces_exactly_witness:
  "edit_text [97, 98, 99, 98] [edit_once [97] [120], edit_once [99] [121, 121]] =
     Inr ([120, 98, 121, 121, 98], [replaced 0 [97] [120], replaced 2 [99] [121, 121]])"
  using edit_replaces_exactly [OF example_edit] by simp

section \<open>The persistent context\<close>

text \<open>C12: printing an expression and reading the text gives the expression back exactly when its nesting is
  within the limit of the reader: quoting and escaping never lose or merge atoms.\<close>

theorem sexpr_roundtrip: "sx_parse_all (sexpr_to_string e) = Inr [e] \<longleftrightarrow> sx_depth e \<le> max_sexpr_nesting_depth"
  using sx_parse_all_printed [of e] sx_parse_all_depth [of "sx_text e" "[e]" e] by auto

text \<open>C11: the decoder of a stored node accepts a text exactly when it is the text the encoder gives to a
  well-formed value of the expected collection, and then returns that value. So decoding inverts encoding, every
  stored text has one value and every value one text, and fields that are reordered, repeated, added or written
  in another way are refused.\<close>

theorem decoder_accepts_encodings:
  "decode_context_value text expected = Inr v \<longleftrightarrow>
     node_collection v = expected \<and> node_wf v \<and> encode_context_value v = Inr text"
  by (rule decode_context_value_ok)

text \<open>C27: a state has a commitment exactly when the body of every frame is canonical and nested at most 126 levels,
  the bodies of the frames its checkpoints keep at most 124 levels, and the positions in its vectors are in range.
  So a state with a body of 125 levels has a commitment, and the same state with a checkpoint of it has none.\<close>

theorem commitment_needs_depth:
  "is_ok (context_state_hash sha s) \<longleftrightarrow>
     (\<forall>f. f \<in> set (ms_frames s) \<longrightarrow> body_within 126 f) \<and>
     (\<forall>c f. c \<in> set (ms_checkpoints s) \<longrightarrow> f \<in> set (ck_frames c) \<longrightarrow> body_within 124 f) \<and>
     length (ms_frames s) \<le> i64_limit + 1 \<and> length (ms_relations s) \<le> i64_limit + 1 \<and> length (ms_checkpoints s) \<le> i64_limit + 1"
  unfolding commitment_exists by blast

theorem commitment_needs_depth_witness:
  "is_ok (context_state_hash unary_digest (example_mind [deep_frame] [])) \<and>
   \<not> is_ok (context_state_hash unary_digest (example_mind [deep_frame] [example_checkpoint [deep_frame]]))"
  using commitment_needs_depth [of unary_digest "example_mind [deep_frame] []"]
    commitment_needs_depth [of unary_digest "example_mind [deep_frame] [example_checkpoint [deep_frame]]"]
  by (simp add: example_mind_def example_checkpoint_def deep_frame_def example_frame_within i64_limit_def)

text \<open>C37: the commitment binds the state. Two well-formed states with the same hash are equal in every frame,
  relation, retirement, protection, checkpoint and clock, in the order of the vectors and in the version, unless
  two different byte strings among those hashed for them have one digest.\<close>

theorem state_hash_binds:
  assumes "state_wf s" "state_wf t" "hex_digests sha" "context_state_hash sha s = Inr h" "context_state_hash sha t = Inr h"
  shows "s = t \<or> (\<exists>x y. x \<in> hashed sha s \<and> y \<in> hashed sha t \<and> x \<noteq> y \<and> sha x = sha y)"
proof (cases "collision_free sha s t")
  case True
  obtain roots_s roots_t where "native_mind_state_commitment_parts sha s = Inr (h, roots_s)"
      "native_mind_state_commitment_parts sha t = Inr (h, roots_t)"
    using assms(4,5) by (auto simp: state_hash_parts)
  with commitment_binds assms(1-3) True show ?thesis by blast
next
  case False
  then show ?thesis by (auto simp: collision_free_def)
qed

theorem state_hash_binds_witness:
  "\<exists>h. context_state_hash unary_digest (example_mind [first_frame, second_frame] []) = Inr h \<and>
    context_state_hash unary_digest (example_mind [second_frame, first_frame] []) \<noteq> Inr h"
proof -
  obtain h where h: "context_state_hash unary_digest (example_mind [first_frame, second_frame] []) = Inr h"
    using example_mind_hash by blast
  have "context_state_hash unary_digest (example_mind [second_frame, first_frame] []) \<noteq> Inr h"
    using state_hash_binds [OF _ _ unary_digest_hex h, of "example_mind [second_frame, first_frame] []"] frames_differ
      example_mind_wf [of "lit ''f1''" example_body "lit ''f2''" example_body] example_mind_wf [of "lit ''f2''" example_body "lit ''f1''" example_body]
    by (auto simp: unary_digest_inject first_frame_def second_frame_def)
  with h show ?thesis by blast
qed

section \<open>Context transactions\<close>

text \<open>C16: a transaction keeps a state well formed. Frames and checkpoints keep distinct valid identifiers, relations are
  distinct, every retirement request belongs to a frame of the state and to none that is protected or retired, the sets
  stay sorted, and the same holds of every checkpoint; the version moves on by one.\<close>

theorem transaction_keeps_context:
  assumes "transition_of env auth tx = Inr t" "mind_ok (rp_staged (te_policy env)) (te_current env)"
  shows "mind_ok (rp_staged (te_policy env)) (at_next t) \<and> ms_version (at_next t) = u64_inc (ms_version (te_current env))"
proof -
  from assms(1) obtain base where "apply_transaction (env\<lparr>te_reason := pt_reason tx\<rparr>) base (pt_operations tx) = Inr t"
    by (rule transition_applies)
  from transaction_keeps_mind_ok [OF this] assms(2) transition_version [OF assms(1)] show ?thesis
    by (simp add: te_version_def)
qed

theorem transaction_keeps_context_witness: "mind_ok True moved_mind \<and> ms_version moved_mind = 2"
  using transaction_keeps_context [OF moved_transition] guarded_mind_ok by (simp add: moved_def u64_inc_def)

text \<open>C18: the plan of a transaction describes its outcome. The plan passes the check of its shape, and writing its mutations
  over the records of the old state gives exactly the records of the new state, in every collection and for every
  identifier; a record made and dropped again in the transaction leaves no trace.\<close>

theorem transaction_plan_exact:
  assumes "transition_of env auth tx = Inr t" "mind_ok (rp_staged (te_policy env)) (te_current env)"
    "ms_version (te_current env) < u64_limit" "trim context_id \<noteq> []" "before \<noteq> []" "after \<noteq> []"
  shows "validate_shape (plan_of context_id (te_current env) before t after) = Inr () \<and>
    (\<forall>c i. records_after (at_mutations t) (te_current env) c i = record_of (at_next t) c i)"
proof -
  from assms(1) obtain base where "apply_transaction (env\<lparr>te_reason := pt_reason tx\<rparr>) base (pt_operations tx) = Inr t"
    by (rule transition_applies)
  from transaction_plan [OF this] transaction_plan_valid [OF this] assms(2-) show ?thesis by simp
qed

theorem transaction_plan_exact_witness:
  "validate_shape (plan_of (lit ''c'') guarded_mind (lit ''h'') moved (lit ''k'')) = Inr () \<and>
   records_after (at_mutations moved) guarded_mind RetiringNodes (lit ''f2'') = Some (RetiringNode retire_request)"
proof -
  have "trim (lit ''c'') \<noteq> []" by (rule trim_nonempty [of 99]) (simp_all add: lit_def chr_def is_whitespace_def)
  with transaction_plan_exact [OF moved_transition, of "lit ''c''" "lit ''h''" "lit ''k''"] guarded_mind_ok show ?thesis
    by (simp add: u64_limit_def lit_def moved_def moved_mind_def bt_get_Cons)
qed



text \<open>C6: a transaction without \<open>rollback\<close> loses no frame, and when it has no \<open>unprotect\<close> either, what is protected stays
  protected, is not being retired and is retired afterwards only if it was before. This covers the retirement of
  superseded frames at the end of the transaction and the one the runtime requests.\<close>

theorem protected_frames_survive:
  assumes "transition_of env auth tx = Inr t" "mind_ok (rp_staged (te_policy env)) (te_current env)"
    "without [''rollback''] (operation_name ` set (pt_operations tx))"
  shows "cf_id ` set (ms_frames (te_current env)) \<subseteq> cf_id ` set (ms_frames (at_next t)) \<and>
    (lit ''unprotect'' \<notin> operation_name ` set (pt_operations tx) \<longrightarrow>
     (\<forall>i \<in> set (ms_protected (te_current env)). i \<in> set (ms_protected (at_next t)) \<and> bt_get (ms_retiring (at_next t)) i = None \<and>
        (i \<in> set (ms_retired (at_next t)) \<longrightarrow> i \<in> set (ms_retired (te_current env)))))"
proof -
  from assms(1) obtain base where "apply_transaction (env\<lparr>te_reason := pt_reason tx\<rparr>) base (pt_operations tx) = Inr t"
    by (rule transition_applies)
  from frames_kept [OF this] guarded_kept [OF this] assms(2,3) show ?thesis by (simp add: without_def)
qed

theorem protected_frames_survive_witness: "lit ''f1'' \<in> set (ms_protected moved_mind) \<and> bt_get (ms_retiring moved_mind) (lit ''f1'') = None"
  using protected_frames_survive [OF moved_transition] guarded_mind_ok by (simp add: move_names without_def moved_def)

text \<open>C35: the text a transaction is stored as reads back as that transaction. A transaction that was read, whose short
  references were resolved and that was moved to the current version, is printed, and parsing the text gives it back,
  with its bodies in place, as long as the text is within the nesting limit of the reader.\<close>

theorem transaction_text_roundtrip:
  assumes "read_transaction auth refs input = Inr tx" "at_current_version auth s tx = Inr tx'" "ms_version s \<le> u64_limit"
    "sx_depth (rendered_transaction tx') \<le> max_sexpr_nesting_depth"
  shows "parse_transaction (render_parsed_transaction tx') = Inr tx'"
  by (rule canonical_text_reads [OF current_canonical [OF assms(2) read_canonical [OF assms(1)] assms(3)] assms(4)])

theorem transaction_text_roundtrip_witness:
  "parse_transaction (render_parsed_transaction (late_revision\<lparr>pt_base_version := 2\<rparr>)) = Inr (late_revision\<lparr>pt_base_version := 2\<rparr>)"
  by (rule transaction_text_roundtrip [OF late_revision_read late_revision_current _ late_revision_canonical(2)])
    (simp add: moved_def moved_mind_def u64_limit_def)

text \<open>C3: an order that a plan sets for the relations, or for the frames in a transaction that creates none, is the order of
  the new state, and the context database accepts it: it lists exactly the records the collection holds in the end.\<close>

theorem planned_orders_accepted:
  assumes "transition_of env auth tx = Inr t" "mind_ok (rp_staged (te_policy env)) (te_current env)"
    "without [''rollback''] (operation_name ` set (pt_operations tx))" "SetOrder c order \<in> set (at_mutations t)"
    "c = RelationNodes \<or> c = FrameNodes \<and> without [''create'', ''derive''] (operation_name ` set (pt_operations tx))"
  shows "order = collection_ids (at_next t) c \<and> order_accepted (te_current env) (at_mutations t) c order"
proof -
  from assms(1) obtain base where "apply_transaction (env\<lparr>te_reason := pt_reason tx\<rparr>) base (pt_operations tx) = Inr t"
    by (rule transition_applies)
  from transaction_orders [OF this] assms(2-) show ?thesis by simp
qed

theorem planned_orders_accepted_witness: "order_accepted guarded_mind (at_mutations moved) FrameNodes [lit ''f2'', lit ''f1'']"
  using planned_orders_accepted [OF moved_transition, of FrameNodes "[lit ''f2'', lit ''f1'']"] guarded_mind_ok
  by (simp add: move_names without_def moved_def moved_mind_def)


end
